(* ===== verification/Prelude.thy ===== *)
theory Prelude
  imports Main "HOL-Library.Code_Target_Nat"
begin

text \<open>
  Vocabulary shared by every component: Python strings and the string methods the backend
  uses, decimal printing, the errors a handler can raise, and tables (lists of rows) with
  the update the ORM performs on one row.

  A Python \<^verbatim>\<open>str\<close> is its list of Unicode code points, so slicing, \<^verbatim>\<open>len\<close>, stripping and
  UTF-8 encoding are those of the language for every string. \<open>lit ''abc''\<close> is the string
  with that ASCII text.
\<close>

named_theorems str_simps \<open>evaluation of string operations on literals\<close>
named_theorems row_simps \<open>rows, lookups and updates of tables\<close>

section \<open>Strings\<close>

type_synonym str = "nat list"

definition lit :: "string \<Rightarrow> str" where
  "lit s = map of_char s"

lemma of_char_eq_nat: "(of_char a :: nat) = of_char b \<longleftrightarrow> a = b"
  by (rule of_char_eq_iff)

lemma lit_eq_iff [simp]: "lit s = lit t \<longleftrightarrow> s = t"
  unfolding lit_def by (intro inj_map_eq_map injI) (simp add: of_char_eq_nat)

lemma lit_Nil [simp]: "lit [] = []"
  by (simp add: lit_def)

lemma lit_eq_Nil [simp]: "lit s = [] \<longleftrightarrow> s = []"
  by (simp add: lit_def)

lemma length_lit [simp]: "length (lit s) = length s"
  by (simp add: lit_def)

lemma lit_less_256: "c \<in> set (lit s) \<Longrightarrow> c < 256"
  by (auto simp: lit_def)

text \<open>\<^verbatim>\<open>str.isspace\<close>, which is also what \<^verbatim>\<open>str.strip()\<close> removes and \<^verbatim>\<open>\s\<close> matches.\<close>

definition is_space :: "nat \<Rightarrow> bool" where
  "is_space c \<longleftrightarrow> (9 \<le> c \<and> c \<le> 13) \<or> (28 \<le> c \<and> c \<le> 32) \<or> c = 133 \<or> c = 160 \<or> c = 5760
     \<or> (8192 \<le> c \<and> c \<le> 8202) \<or> c = 8232 \<or> c = 8233 \<or> c = 8239 \<or> c = 8287 \<or> c = 12288"

definition lstrip :: "str \<Rightarrow> str" where
  "lstrip s = dropWhile is_space s"

definition rstrip :: "str \<Rightarrow> str" where
  "rstrip s = rev (dropWhile is_space (rev s))"

definition strip :: "str \<Rightarrow> str" where
  "strip s = rstrip (lstrip s)"

lemma strip_Nil [simp]: "strip [] = []" "rstrip [] = []" "lstrip [] = []"
  by (simp_all add: strip_def rstrip_def lstrip_def)

lemma dropWhile_idem_hd: "dropWhile P xs = xs \<longleftrightarrow> xs = [] \<or> \<not> P (hd xs)"
  by (metis dropWhile_eq_self_iff)

lemma rstrip_last: "rstrip s \<noteq> [] \<Longrightarrow> \<not> is_space (last (rstrip s))"
  unfolding rstrip_def by (metis hd_dropWhile last_rev rev_is_Nil_conv rev_rev_ident)

lemma rstrip_prefix: "\<exists>t. s = rstrip s @ t \<and> (\<forall>c \<in> set t. is_space c)"
proof -
  have "rev (rev s) = rev (takeWhile is_space (rev s) @ dropWhile is_space (rev s))"
    by (simp only: takeWhile_dropWhile_id)
  then have "s = rstrip s @ rev (takeWhile is_space (rev s))"
    by (simp only: rev_append rev_rev_ident rstrip_def)
  moreover have "\<forall>c \<in> set (rev (takeWhile is_space (rev s))). is_space c"
    by (auto dest: set_takeWhileD)
  ultimately show ?thesis by blast
qed

lemma rstrip_idem [simp]: "rstrip (rstrip s) = rstrip s"
  by (simp add: rstrip_def)

lemma hd_rstrip: "rstrip s \<noteq> [] \<Longrightarrow> hd (rstrip s) = hd s"
proof -
  assume "rstrip s \<noteq> []"
  moreover obtain t where "s = rstrip s @ t" using rstrip_prefix by blast
  ultimately show ?thesis by (metis hd_append2)
qed

lemma length_rstrip: "length (rstrip s) \<le> length s"
  using length_dropWhile_le [of is_space "rev s"] by (simp add: rstrip_def)

lemma length_lstrip: "length (lstrip s) \<le> length s"
  by (simp add: lstrip_def length_dropWhile_le)

lemma length_strip: "length (strip s) \<le> length s"
  by (metis length_lstrip length_rstrip order_trans strip_def)

lemma set_rstrip: "set (rstrip s) \<subseteq> set s"
  by (auto simp: rstrip_def dest: set_dropWhileD)

lemma set_strip: "set (strip s) \<subseteq> set s"
  using set_rstrip by (fastforce simp: strip_def lstrip_def dest: set_dropWhileD)

lemma lstrip_hd: "lstrip s \<noteq> [] \<Longrightarrow> \<not> is_space (hd (lstrip s))"
  unfolding lstrip_def by (rule hd_dropWhile)

lemma strip_hd: "strip s \<noteq> [] \<Longrightarrow> \<not> is_space (hd (strip s))"
  by (metis hd_rstrip lstrip_hd rstrip_def strip_def dropWhile.simps(1) rev.simps(1))

lemma strip_last: "strip s \<noteq> [] \<Longrightarrow> \<not> is_space (last (strip s))"
  by (simp add: rstrip_last strip_def)

lemma lstrip_id: "s = [] \<or> \<not> is_space (hd s) \<Longrightarrow> lstrip s = s"
  by (simp add: lstrip_def dropWhile_idem_hd)

lemma strip_idem [simp]: "strip (strip s) = strip s"
proof -
  have "lstrip (strip s) = strip s" using strip_hd lstrip_id by blast
  then show ?thesis by (simp add: strip_def)
qed

lemma strip_eq_Nil_iff: "strip s = [] \<longleftrightarrow> (\<forall>c \<in> set s. is_space c)"
proof
  assume "strip s = []"
  then have "dropWhile is_space (rev (lstrip s)) = []" by (simp add: strip_def rstrip_def)
  then have "\<forall>c \<in> set (lstrip s). is_space c" by (simp add: dropWhile_eq_Nil_conv)
  then have "lstrip s = []" using lstrip_hd by (metis list.set_sel(1))
  then show "\<forall>c \<in> set s. is_space c" by (simp add: lstrip_def dropWhile_eq_Nil_conv)
next
  assume "\<forall>c \<in> set s. is_space c"
  then have "lstrip s = []" by (simp add: lstrip_def dropWhile_eq_Nil_conv)
  then show "strip s = []" by (simp add: strip_def)
qed

text \<open>
  The idiom \<^verbatim>\<open>value.strip() or None\<close> on an optional string: \<^verbatim>\<open>_normalize_text\<close> and
  \<^verbatim>\<open>_normalize_title\<close> of the run services are this function.
\<close>

definition none_if_empty :: "str \<Rightarrow> str option" where
  "none_if_empty s = (if s = [] then None else Some s)"

definition strip_or_none :: "str option \<Rightarrow> str option" where
  "strip_or_none v = (case v of None \<Rightarrow> None | Some s \<Rightarrow> none_if_empty (strip s))"

lemma strip_or_none_Some: "strip_or_none v = Some s \<Longrightarrow> s \<noteq> [] \<and> strip s = s"
  by (auto simp: strip_or_none_def none_if_empty_def split: option.splits if_splits)

lemma strip_or_none_idem [simp]: "strip_or_none (strip_or_none v) = strip_or_none v"
  by (auto simp: strip_or_none_def none_if_empty_def split: option.splits)

text \<open>Python's truth value of an optional string: neither \<^verbatim>\<open>None\<close> nor empty.\<close>

definition truthy :: "str option \<Rightarrow> bool" where
  "truthy v \<longleftrightarrow> v \<noteq> None \<and> v \<noteq> Some []"

text \<open>\<^verbatim>\<open>a or b\<close> for an optional string \<^verbatim>\<open>a\<close> and a string \<^verbatim>\<open>b\<close>.\<close>

definition str_or :: "str option \<Rightarrow> str \<Rightarrow> str" where
  "str_or v d = (case v of None \<Rightarrow> d | Some s \<Rightarrow> if s = [] then d else s)"

text \<open>
  \<^verbatim>\<open>str.lower\<close>, with the mappings of Unicode 16 (Python 3.14). A row of the table gives the
  first and the last code point of a run of capitals, their distance, and the lower case of
  the first. The capital sigma is lowered to the small one also at the end of a word.
\<close>

definition lower_ranges :: "(nat \<times> nat \<times> nat \<times> nat) list" where
  "lower_ranges = [
      (192, 214, 1, 224), (216, 222, 1, 248), (256, 302, 2, 257), (306, 310, 2, 307), (313, 327, 2, 314),
      (330, 374, 2, 331), (376, 376, 1, 255), (377, 381, 2, 378), (385, 385, 1, 595), (386, 388, 2, 387),
      (390, 390, 1, 596), (391, 391, 1, 392), (393, 394, 1, 598), (395, 395, 1, 396), (398, 398, 1, 477),
      (399, 399, 1, 601), (400, 400, 1, 603), (401, 401, 1, 402), (403, 403, 1, 608), (404, 404, 1, 611),
      (406, 406, 1, 617), (407, 407, 1, 616), (408, 408, 1, 409), (412, 412, 1, 623), (413, 413, 1, 626),
      (415, 415, 1, 629), (416, 420, 2, 417), (422, 422, 1, 640), (423, 423, 1, 424), (425, 425, 1, 643),
      (428, 428, 1, 429), (430, 430, 1, 648), (431, 431, 1, 432), (433, 434, 1, 650), (435, 437, 2, 436),
      (439, 439, 1, 658), (440, 440, 1, 441), (444, 444, 1, 445), (452, 452, 1, 454), (453, 453, 1, 454),
      (455, 455, 1, 457), (456, 456, 1, 457), (458, 458, 1, 460), (459, 475, 2, 460), (478, 494, 2, 479),
      (497, 497, 1, 499), (498, 500, 2, 499), (502, 502, 1, 405), (503, 503, 1, 447), (504, 542, 2, 505),
      (544, 544, 1, 414), (546, 562, 2, 547), (570, 570, 1, 11365), (571, 571, 1, 572), (573, 573, 1, 410),
      (574, 574, 1, 11366), (577, 577, 1, 578), (579, 579, 1, 384), (580, 580, 1, 649), (581, 581, 1, 652),
      (582, 590, 2, 583), (880, 882, 2, 881), (886, 886, 1, 887), (895, 895, 1, 1011), (902, 902, 1, 940),
      (904, 906, 1, 941), (908, 908, 1, 972), (910, 911, 1, 973), (913, 929, 1, 945), (931, 939, 1, 963),
      (975, 975, 1, 983), (984, 1006, 2, 985), (1012, 1012, 1, 952), (1015, 1015, 1, 1016), (1017, 1017, 1, 1010),
      (1018, 1018, 1, 1019), (1021, 1023, 1, 891), (1024, 1039, 1, 1104), (1040, 1071, 1, 1072), (1120, 1152, 2, 1121),
      (1162, 1214, 2, 1163), (1216, 1216, 1, 1231), (1217, 1229, 2, 1218), (1232, 1326, 2, 1233), (1329, 1366, 1, 1377),
      (4256, 4293, 1, 11520), (4295, 4295, 1, 11559), (4301, 4301, 1, 11565), (5024, 5103, 1, 43888), (5104, 5109, 1, 5112),
      (7305, 7305, 1, 7306), (7312, 7354, 1, 4304), (7357, 7359, 1, 4349), (7680, 7828, 2, 7681), (7838, 7838, 1, 223),
      (7840, 7934, 2, 7841), (7944, 7951, 1, 7936), (7960, 7965, 1, 7952), (7976, 7983, 1, 7968), (7992, 7999, 1, 7984),
      (8008, 8013, 1, 8000), (8025, 8031, 2, 8017), (8040, 8047, 1, 8032), (8072, 8079, 1, 8064), (8088, 8095, 1, 8080),
      (8104, 8111, 1, 8096), (8120, 8121, 1, 8112), (8122, 8123, 1, 8048), (8124, 8124, 1, 8115), (8136, 8139, 1, 8050),
      (8140, 8140, 1, 8131), (8152, 8153, 1, 8144), (8154, 8155, 1, 8054), (8168, 8169, 1, 8160), (8170, 8171, 1, 8058),
      (8172, 8172, 1, 8165), (8184, 8185, 1, 8056), (8186, 8187, 1, 8060), (8188, 8188, 1, 8179), (8486, 8486, 1, 969),
      (8490, 8490, 1, 107), (8491, 8491, 1, 229), (8498, 8498, 1, 8526), (8544, 8559, 1, 8560), (8579, 8579, 1, 8580),
      (9398, 9423, 1, 9424), (11264, 11311, 1, 11312), (11360, 11360, 1, 11361), (11362, 11362, 1, 619), (11363, 11363, 1, 7549),
      (11364, 11364, 1, 637), (11367, 11371, 2, 11368), (11373, 11373, 1, 593), (11374, 11374, 1, 625), (11375, 11375, 1, 592),
      (11376, 11376, 1, 594), (11378, 11378, 1, 11379), (11381, 11381, 1, 11382), (11390, 11391, 1, 575), (11392, 11490, 2, 11393),
      (11499, 11501, 2, 11500), (11506, 11506, 1, 11507), (42560, 42604, 2, 42561), (42624, 42650, 2, 42625), (42786, 42798, 2, 42787),
      (42802, 42862, 2, 42803), (42873, 42875, 2, 42874), (42877, 42877, 1, 7545), (42878, 42886, 2, 42879), (42891, 42891, 1, 42892),
      (42893, 42893, 1, 613), (42896, 42898, 2, 42897), (42902, 42920, 2, 42903), (42922, 42922, 1, 614), (42923, 42923, 1, 604),
      (42924, 42924, 1, 609), (42925, 42925, 1, 620), (42926, 42926, 1, 618), (42928, 42928, 1, 670), (42929, 42929, 1, 647),
      (42930, 42930, 1, 669), (42931, 42931, 1, 43859), (42932, 42946, 2, 42933), (42948, 42948, 1, 42900), (42949, 42949, 1, 642),
      (42950, 42950, 1, 7566), (42951, 42953, 2, 42952), (42955, 42955, 1, 612), (42956, 42956, 1, 42957), (42960, 42960, 1, 42961),
      (42966, 42970, 2, 42967), (42972, 42972, 1, 411), (42997, 42997, 1, 42998), (65313, 65338, 1, 65345), (66560, 66599, 1, 66600),
      (66736, 66771, 1, 66776), (66928, 66938, 1, 66967), (66940, 66954, 1, 66979), (66956, 66962, 1, 66995), (66964, 66965, 1, 67003),
      (68736, 68786, 1, 68800), (68944, 68965, 1, 68976), (71840, 71871, 1, 71872), (93760, 93791, 1, 93792), (125184, 125217, 1, 125218)]"

definition lower_cp :: "nat \<Rightarrow> str" where
  "lower_cp c =
     (if c < 128 then (if 65 \<le> c \<and> c \<le> 90 then [c + 32] else [c])
      else if c = 304 then [105, 775]
      else (case find (\<lambda>(a, b, d, t). a \<le> c \<and> c \<le> b \<and> (c - a) mod d = 0) lower_ranges of
              None \<Rightarrow> [c]
            | Some (a, b, d, t) \<Rightarrow> [t + (c - a)]))"

definition lower :: "str \<Rightarrow> str" where
  "lower s = concat (map lower_cp s)"

lemma lower_Nil [simp]: "lower [] = []"
  by (simp add: lower_def)

lemma lower_append [simp]: "lower (a @ b) = lower a @ lower b"
  by (simp add: lower_def)

text \<open>\<^verbatim>\<open>pat in s\<close>: substring search.\<close>

fun contains :: "str \<Rightarrow> str \<Rightarrow> bool" where
  "contains p [] = (p = [])"
| "contains p (c # s) = (take (length p) (c # s) = p \<or> contains p s)"

lemma contains_iff: "contains p s \<longleftrightarrow> (\<exists>a b. s = a @ p @ b)"
proof (induction s)
  case Nil
  then show ?case by auto
next
  case (Cons c s)
  have "(\<exists>a b. c # s = a @ p @ b) \<longleftrightarrow> (\<exists>b. c # s = p @ b) \<or> (\<exists>a b. s = a @ p @ b)"
    by (metis Cons_eq_append_conv append_Cons append_Nil)
  moreover have "(\<exists>b. c # s = p @ b) \<longleftrightarrow> take (length p) (c # s) = p"
    by (metis append_eq_conv_conj append_take_drop_id)
  ultimately show ?case using Cons.IH by auto
qed

definition starts_with :: "str \<Rightarrow> str \<Rightarrow> bool" where
  "starts_with p s \<longleftrightarrow> take (length p) s = p"

lemma starts_with_append [simp]: "starts_with p (p @ s)"
  by (simp add: starts_with_def)

text \<open>\<^verbatim>\<open>sep.join(parts)\<close>\<close>

fun join :: "str \<Rightarrow> str list \<Rightarrow> str" where
  "join sep [] = []"
| "join sep [s] = s"
| "join sep (s # t # ss) = s @ sep @ join sep (t # ss)"

lemma join_eq_Nil: "join sep ss = [] \<Longrightarrow> sep \<noteq> [] \<Longrightarrow> ss = [] \<or> ss = [[]]"
  by (cases "(sep, ss)" rule: join.cases) auto

text \<open>\<^verbatim>\<open>s.rstrip("c")\<close> for one character.\<close>

definition rstrip_char :: "nat \<Rightarrow> str \<Rightarrow> str" where
  "rstrip_char c s = rev (dropWhile (\<lambda>x. x = c) (rev s))"

text \<open>\<^verbatim>\<open>s.split(c, maxsplit=1)\<close> unpacked into two parts; None when there is no separator.\<close>

fun split_once :: "nat \<Rightarrow> str \<Rightarrow> (str \<times> str) option" where
  "split_once c [] = None"
| "split_once c (x # s) =
     (if x = c then Some ([], s)
      else (case split_once c s of None \<Rightarrow> None | Some (a, b) \<Rightarrow> Some (x # a, b)))"

lemma split_once_append: "c \<notin> set a \<Longrightarrow> split_once c (a @ c # b) = Some (a, b)"
  by (induction a) auto

lemma split_once_Some: "split_once c s = Some (a, b) \<Longrightarrow> s = a @ c # b \<and> c \<notin> set a"
  by (induction s arbitrary: a) (auto split: if_splits option.splits)

lemma split_once_None: "split_once c s = None \<longleftrightarrow> c \<notin> set s"
  by (induction s) (auto split: option.splits)

text \<open>
  \<^verbatim>\<open>str.splitlines()\<close>: the line boundaries of Python, CR LF counting as one, and no empty
  last line.
\<close>

definition is_linebreak :: "nat \<Rightarrow> bool" where
  "is_linebreak c \<longleftrightarrow> (10 \<le> c \<and> c \<le> 13) \<or> (28 \<le> c \<and> c \<le> 30) \<or> c = 133 \<or> c = 8232 \<or> c = 8233"

fun splitlines_acc :: "str \<Rightarrow> str \<Rightarrow> str list" where
  "splitlines_acc acc [] = (if acc = [] then [] else [rev acc])"
| "splitlines_acc acc [c] = (if is_linebreak c then [rev acc] else [rev (c # acc)])"
| "splitlines_acc acc (c # d # s) =
     (if c = 13 \<and> d = 10 then rev acc # splitlines_acc [] s
      else if is_linebreak c then rev acc # splitlines_acc [] (d # s)
      else splitlines_acc (c # acc) (d # s))"

definition splitlines :: "str \<Rightarrow> str list" where
  "splitlines s = splitlines_acc [] s"

lemma splitlines_acc_no_break:
  "\<forall>c \<in> set acc. \<not> is_linebreak c \<Longrightarrow>
     \<forall>l \<in> set (splitlines_acc acc s). \<forall>c \<in> set l. \<not> is_linebreak c"
proof (induction acc s rule: splitlines_acc.induct)
  case (1 acc)
  then show ?case by simp
next
  case (2 acc c)
  then show ?case by simp
next
  case (3 acc c d s)
  have empty: "\<forall>c \<in> set ([] :: str). \<not> is_linebreak c" by simp
  consider "c = 13 \<and> d = 10" | "\<not> (c = 13 \<and> d = 10)" "is_linebreak c"
    | "\<not> (c = 13 \<and> d = 10)" "\<not> is_linebreak c" by blast
  then show ?case
  proof cases
    case 1
    with "3.IH"(1) [OF 1 empty] "3.prems" show ?thesis by simp
  next
    case 2
    with "3.IH"(2) [OF 2 empty] "3.prems" show ?thesis by auto
  next
    case 3
    with "3.IH"(3) [OF 3] "3.prems" show ?thesis by auto
  qed
qed

lemma splitlines_no_break: "l \<in> set (splitlines s) \<Longrightarrow> c \<in> set l \<Longrightarrow> \<not> is_linebreak c"
  using splitlines_acc_no_break [of "[]" s] by (auto simp: splitlines_def)

text \<open>Decimal text of integers, as \<^verbatim>\<open>str(n)\<close> and f-strings print them.\<close>

fun show_nat :: "nat \<Rightarrow> str" where
  "show_nat n = (if n < 10 then [48 + n] else show_nat (n div 10) @ [48 + n mod 10])"

declare show_nat.simps [simp del]

definition show_int :: "int \<Rightarrow> str" where
  "show_int i = (if i < 0 then 45 # show_nat (nat (- i)) else show_nat (nat i))"

lemma show_nat_digits: "c \<in> set (show_nat n) \<Longrightarrow> 48 \<le> c \<and> c \<le> 57"
proof (induction n rule: show_nat.induct)
  case (1 n)
  show ?case
  proof (cases "n < 10")
    case True
    with "1.prems" show ?thesis by (subst (asm) show_nat.simps) auto
  next
    case False
    then have "show_nat n = show_nat (n div 10) @ [48 + n mod 10]"
      by (simp add: show_nat.simps)
    then consider "c \<in> set (show_nat (n div 10))" | "c = 48 + n mod 10"
      using "1.prems" by auto
    then show ?thesis
    proof cases
      case 1
      then show ?thesis using "1.IH" False by blast
    next
      case 2
      moreover have "n mod 10 < 10" by simp
      ultimately show ?thesis by linarith
    qed
  qed
qed

lemma show_nat_not_Nil [simp]: "show_nat n \<noteq> []"
  by (subst show_nat.simps) simp

text \<open>\<^verbatim>\<open>s.split(c)\<close> for one character.\<close>

fun split_char :: "nat \<Rightarrow> str \<Rightarrow> str list" where
  "split_char c [] = [[]]"
| "split_char c (x # s) =
     (if x = c then [] # split_char c s
      else (case split_char c s of w # ws \<Rightarrow> (x # w) # ws | [] \<Rightarrow> [[x]]))"

lemma split_char_not_Nil [simp]: "split_char c s \<noteq> []"
  by (cases s) (auto split: list.splits)

section \<open>Errors\<close>

text \<open>
  The exceptions the modelled code raises. \<open>HTTPException\<close> carries the status code and the
  detail text of the response; the others are Python's own classes, with the message where
  the code gives one.
\<close>

datatype error =
    HTTPException nat str
  | ValueError str
  | KeyError str
  | IndexError str
  | AttributeError str
  | TypeError str
  | RuntimeError str
  | UnicodeEncodeError
  | UnicodeDecodeError
  | OverflowError str
  | OSError str
  | WorkflowExecutionError str
  | ProviderError str

text \<open>
  \<^verbatim>\<open>repr\<close> of a text whose characters above 127 are printable, and \<^verbatim>\<open>str(exc)\<close> for the classes
  above (the message the code stores or re-raises): of a \<open>KeyError\<close> it is the repr of the key.
\<close>

definition hex_digit :: "nat \<Rightarrow> nat" where
  "hex_digit n = (if n < 10 then 48 + n else 87 + n)"

definition repr_char :: "nat \<Rightarrow> nat \<Rightarrow> str" where
  "repr_char quote c =
     (if c = quote \<or> c = 92 then [92, c]
      else if c = 10 then [92, 110] else if c = 13 then [92, 114] else if c = 9 then [92, 116]
      else if c < 32 \<or> c = 127 then [92, 120, hex_digit (c div 16), hex_digit (c mod 16)]
      else [c])"

definition repr_text :: "str \<Rightarrow> str" where
  "repr_text s =
     (let quote = (if 39 \<in> set s \<and> 34 \<notin> set s then 34 else 39)
      in [quote] @ concat (map (repr_char quote) s) @ [quote])"

fun error_text :: "error \<Rightarrow> str" where
  "error_text (HTTPException n d) = show_nat n @ lit '': '' @ d"
| "error_text (ValueError m) = m"
| "error_text (KeyError m) = repr_text m"
| "error_text (IndexError m) = m"
| "error_text (AttributeError m) = m"
| "error_text (TypeError m) = m"
| "error_text (RuntimeError m) = m"
| "error_text UnicodeEncodeError = lit ''UnicodeEncodeError''"
| "error_text UnicodeDecodeError = lit ''UnicodeDecodeError''"
| "error_text (OverflowError m) = m"
| "error_text (OSError m) = m"
| "error_text (WorkflowExecutionError m) = m"
| "error_text (ProviderError m) = m"

text \<open>A computation that may raise.\<close>

type_synonym 'a result = "error + 'a"

definition rbind :: "'a result \<Rightarrow> ('a \<Rightarrow> 'b result) \<Rightarrow> 'b result" where
  "rbind r f = (case r of Inl e \<Rightarrow> Inl e | Inr x \<Rightarrow> f x)"

lemma rbind_simps [simp]: "rbind (Inl e) f = Inl e" "rbind (Inr x) f = f x"
  by (simp_all add: rbind_def)

lemma rbind_eq_Inr: "rbind r f = Inr y \<longleftrightarrow> (\<exists>x. r = Inr x \<and> f x = Inr y)"
  by (cases r) auto

lemma find_SomeD: "find P xs = Some x \<Longrightarrow> x \<in> set xs \<and> P x"
  by (auto simp: find_Some_iff)

section \<open>Tables\<close>

text \<open>
  A table is the list of its rows in insertion order. The ORM changes the columns of one
  loaded row: \<open>update_row\<close> applies the change to the rows with that key.
\<close>

definition find_row :: "('r \<Rightarrow> 'k) \<Rightarrow> 'k \<Rightarrow> 'r list \<Rightarrow> 'r option" where
  "find_row key k t = find (\<lambda>r. key r = k) t"

definition update_row :: "('r \<Rightarrow> 'k) \<Rightarrow> 'k \<Rightarrow> ('r \<Rightarrow> 'r) \<Rightarrow> 'r list \<Rightarrow> 'r list" where
  "update_row key k f t = map (\<lambda>r. if key r = k then f r else r) t"

lemma find_row_Nil [row_simps]: "find_row key k [] = None"
  by (simp add: find_row_def)

lemma find_row_Cons [row_simps]:
  "find_row key k (r # t) = (if key r = k then Some r else find_row key k t)"
  by (simp add: find_row_def)

lemma find_row_Some: "find_row key k t = Some r \<Longrightarrow> r \<in> set t \<and> key r = k"
  by (auto simp: find_row_def find_Some_iff)

lemma find_row_None: "find_row key k t = None \<longleftrightarrow> k \<notin> key ` set t"
  by (auto simp: find_row_def find_None_iff)

lemma find_row_distinct:
  "distinct (map key t) \<Longrightarrow> r \<in> set t \<Longrightarrow> find_row key (key r) t = Some r"
  by (induction t) (auto simp: row_simps rev_image_eqI)

lemma find_row_append [row_simps]:
  "find_row key k (t @ u) =
     (case find_row key k t of None \<Rightarrow> find_row key k u | Some r \<Rightarrow> Some r)"
  by (induction t) (auto simp: row_simps)

lemma length_update_row [row_simps]: "length (update_row key k f t) = length t"
  by (simp add: update_row_def)

lemma update_row_Nil [row_simps]: "update_row key k f [] = []"
  by (simp add: update_row_def)

lemma update_row_Cons [row_simps]:
  "update_row key k f (r # t) = (if key r = k then f r else r) # update_row key k f t"
  by (simp add: update_row_def)

lemma in_set_update_row:
  "r \<in> set (update_row key k f t) \<longleftrightarrow>
     (r \<in> set t \<and> key r \<noteq> k) \<or> (\<exists>q \<in> set t. key q = k \<and> r = f q)"
  by (auto simp: update_row_def)

lemma map_key_update_row:
  "(\<And>r. g (f r) = g r) \<Longrightarrow> map g (update_row key k f t) = map g t"
  by (auto simp: update_row_def)

lemma find_row_update_row:
  "(\<And>r. key (f r) = key r) \<Longrightarrow>
   find_row key j (update_row key k f t) =
     (if j = k then map_option f (find_row key j t) else find_row key j t)"
  by (induction t) (auto simp: row_simps)

lemma update_row_absent: "k \<notin> key ` set t \<Longrightarrow> update_row key k f t = t"
  by (induction t) (auto simp: row_simps)

section \<open>Invariants of transition systems\<close>

text \<open>
  The interface every stateful component is used through: a step relation and a predicate
  each step keeps. What holds initially then holds in every state that can be reached.
\<close>

locale preserved =
  fixes step :: "'s \<Rightarrow> 's \<Rightarrow> bool" and inv :: "'s \<Rightarrow> bool"
  assumes step_inv: "step s t \<Longrightarrow> inv s \<Longrightarrow> inv t"
begin

lemma reach_inv: "step\<^sup>*\<^sup>* s t \<Longrightarrow> inv s \<Longrightarrow> inv t"
  by (induction rule: rtranclp_induct) (auto intro: step_inv)

end

text \<open>The same for a fact that is only kept in states that satisfy an invariant.\<close>

locale preserved_under = preserved step inv
  for step :: "'s \<Rightarrow> 's \<Rightarrow> bool" and inv :: "'s \<Rightarrow> bool" +
  fixes fact :: "'s \<Rightarrow> bool"
  assumes step_fact: "step s t \<Longrightarrow> inv s \<Longrightarrow> fact s \<Longrightarrow> fact t"
begin

lemma reach_fact: "step\<^sup>*\<^sup>* s t \<Longrightarrow> inv s \<Longrightarrow> fact s \<Longrightarrow> fact t"
  by (induction rule: rtranclp_induct) (auto intro: step_fact reach_inv)

end

end
