(* ===== verification/Utf8.thy ===== *)
theory Utf8
  imports Prelude
begin

text \<open>
  The UTF-8 codec of the standard library: \<^verbatim>\<open>str.encode("utf-8")\<close>, \<^verbatim>\<open>bytes.decode("utf-8")\<close> and
  \<^verbatim>\<open>bytes.decode("utf-8", errors="ignore")\<close>, with the byte ranges of well-formed UTF-8 (no
  overlong forms, no surrogates, nothing above U+10FFFF) and CPython's rule that an error
  skips the longest well-formed beginning of a sequence. A byte is a \<^typ>\<open>nat\<close> below 256.

  Strings that reach the backend were decoded from UTF-8 request bodies, so they hold
  Unicode scalar values only (\<open>valid_str\<close>), and encoding is total on them.
\<close>

type_synonym bytes = "nat list"

definition valid_cp :: "nat \<Rightarrow> bool" where
  "valid_cp c \<longleftrightarrow> c < 1114112 \<and> \<not> (55296 \<le> c \<and> c \<le> 57343)"

definition valid_str :: "str \<Rightarrow> bool" where
  "valid_str s \<longleftrightarrow> list_all valid_cp s"

definition encode_cp :: "nat \<Rightarrow> bytes" where
  "encode_cp c =
     (if c < 128 then [c]
      else if c < 2048 then [192 + c div 64, 128 + c mod 64]
      else if c < 65536 then [224 + c div 4096, 128 + c div 64 mod 64, 128 + c mod 64]
      else [240 + c div 262144, 128 + c div 4096 mod 64, 128 + c div 64 mod 64, 128 + c mod 64])"

definition utf8_encode :: "str \<Rightarrow> bytes" where
  "utf8_encode s = concat (map encode_cp s)"

definition cont :: "nat \<Rightarrow> bool" where
  "cont b \<longleftrightarrow> 128 \<le> b \<and> b \<le> 191"

text \<open>Whether a second byte may follow a leading byte of a three or four byte sequence.\<close>

definition second3 :: "nat \<Rightarrow> nat \<Rightarrow> bool" where
  "second3 b c \<longleftrightarrow> cont c \<and> (b = 224 \<longrightarrow> 160 \<le> c) \<and> (b = 237 \<longrightarrow> c \<le> 159)"

definition second4 :: "nat \<Rightarrow> nat \<Rightarrow> bool" where
  "second4 b c \<longleftrightarrow> cont c \<and> (b = 240 \<longrightarrow> 144 \<le> c) \<and> (b = 244 \<longrightarrow> c \<le> 143)"

text \<open>One step of the decoder: a code point, or None for an error, and the bytes left.\<close>

definition step2 :: "nat \<Rightarrow> bytes \<Rightarrow> nat option \<times> bytes" where
  "step2 b bs = (case bs of
       c # r \<Rightarrow> if cont c then (Some ((b - 192) * 64 + (c - 128)), r) else (None, bs)
     | [] \<Rightarrow> (None, []))"

definition step3 :: "nat \<Rightarrow> bytes \<Rightarrow> nat option \<times> bytes" where
  "step3 b bs = (case bs of
       c # r \<Rightarrow> if second3 b c
                then (case r of
                        d # q \<Rightarrow> if cont d
                                 then (Some ((b - 224) * 4096 + (c - 128) * 64 + (d - 128)), q)
                                 else (None, r)
                      | [] \<Rightarrow> (None, []))
                else (None, bs)
     | [] \<Rightarrow> (None, []))"

definition step4 :: "nat \<Rightarrow> bytes \<Rightarrow> nat option \<times> bytes" where
  "step4 b bs = (case bs of
       c # r \<Rightarrow> if second4 b c
                then (case r of
                        d # q \<Rightarrow> if cont d
                                 then (case q of
                                         e # p \<Rightarrow> if cont e
                                           then (Some ((b - 240) * 262144 + (c - 128) * 4096
                                                       + (d - 128) * 64 + (e - 128)), p)
                                           else (None, q)
                                       | [] \<Rightarrow> (None, []))
                                 else (None, r)
                      | [] \<Rightarrow> (None, []))
                else (None, bs)
     | [] \<Rightarrow> (None, []))"

definition utf8_step :: "nat \<Rightarrow> bytes \<Rightarrow> nat option \<times> bytes" where
  "utf8_step b bs =
     (if b < 128 then (Some b, bs)
      else if b < 194 then (None, bs)
      else if b < 224 then step2 b bs
      else if b < 240 then step3 b bs
      else if b < 245 then step4 b bs
      else (None, bs))"

lemma utf8_step_shorter: "length (snd (utf8_step b bs)) \<le> length bs"
  by (auto simp: utf8_step_def step2_def step3_def step4_def split: list.splits)

text \<open>Strict decoding: None stands for UnicodeDecodeError.\<close>

function utf8_decode :: "bytes \<Rightarrow> str option" where
  "utf8_decode [] = Some []"
| "utf8_decode (b # bs) =
     (case fst (utf8_step b bs) of
        None \<Rightarrow> None
      | Some c \<Rightarrow> map_option (\<lambda>s. c # s) (utf8_decode (snd (utf8_step b bs))))"
  by pat_completeness auto
termination
  by (relation "measure length") (auto simp: le_imp_less_Suc utf8_step_shorter)

text \<open>Decoding with \<^verbatim>\<open>errors="ignore"\<close>.\<close>

function utf8_decode_ignore :: "bytes \<Rightarrow> str" where
  "utf8_decode_ignore [] = []"
| "utf8_decode_ignore (b # bs) =
     (case fst (utf8_step b bs) of
        None \<Rightarrow> utf8_decode_ignore (snd (utf8_step b bs))
      | Some c \<Rightarrow> c # utf8_decode_ignore (snd (utf8_step b bs)))"
  by pat_completeness auto
termination
  by (relation "measure length") (auto simp: le_imp_less_Suc utf8_step_shorter)

declare utf8_decode.simps(2) [simp del] utf8_decode_ignore.simps(2) [simp del]

definition utf8_len :: "str \<Rightarrow> nat" where
  "utf8_len s = length (utf8_encode s)"

section \<open>Encoding then decoding\<close>

lemma utf8_encode_simps [simp]:
  "utf8_encode [] = []" "utf8_encode (c # s) = encode_cp c @ utf8_encode s"
  "utf8_encode (s @ t) = utf8_encode s @ utf8_encode t"
  by (simp_all add: utf8_encode_def)

lemma utf8_len_simps [simp]:
  "utf8_len [] = 0" "utf8_len (c # s) = length (encode_cp c) + utf8_len s"
  "utf8_len (s @ t) = utf8_len s + utf8_len t"
  by (simp_all add: utf8_len_def)

lemma valid_str_simps [simp]:
  "valid_str []" "valid_str (c # s) \<longleftrightarrow> valid_cp c \<and> valid_str s"
  "valid_str (s @ t) \<longleftrightarrow> valid_str s \<and> valid_str t"
  by (simp_all add: valid_str_def)

lemma valid_str_subset: "set s \<subseteq> set t \<Longrightarrow> valid_str t \<Longrightarrow> valid_str s"
  by (auto simp: valid_str_def list_all_iff)

lemma valid_lit [simp]: "valid_str (lit s)"
  by (auto simp: valid_str_def list_all_iff valid_cp_def dest!: lit_less_256)

lemma encode_cp_not_Nil [simp]: "encode_cp c \<noteq> []"
  by (simp add: encode_cp_def)

lemma encode_cp_length: "1 \<le> length (encode_cp c) \<and> length (encode_cp c) \<le> 4"
  by (simp add: encode_cp_def)

lemma utf8_len_le: "length s \<le> utf8_len s"
proof (induction s)
  case (Cons c s)
  then show ?case using encode_cp_length [of c] by simp
qed simp

lemma utf8_len_eq_0 [simp]: "utf8_len s = 0 \<longleftrightarrow> s = []"
  using utf8_len_le [of s] by (cases s) auto

lemma utf8_step_ascii: "c < 128 \<Longrightarrow> utf8_step c bs = (Some c, bs)"
  by (simp add: utf8_step_def)

lemma cont_mod [simp]: "cont (128 + x mod 64)"
proof -
  have "x mod 64 < 64" by simp
  then show ?thesis unfolding cont_def by linarith
qed

lemma utf8_step_two:
  assumes "128 \<le> c" and "c < 2048"
  shows "utf8_step (192 + c div 64) ((128 + c mod 64) # bs) = (Some c, bs)"
proof -
  have "2 \<le> c div 64" "c div 64 < 32" using assms by auto
  then have "utf8_step (192 + c div 64) ((128 + c mod 64) # bs)
    = step2 (192 + c div 64) ((128 + c mod 64) # bs)"
    by (simp add: utf8_step_def)
  also have "\<dots> = (Some (c div 64 * 64 + c mod 64), bs)" by (simp add: step2_def)
  finally show ?thesis by simp
qed

text \<open>A code point in base 64: the digits its continuation bytes carry.\<close>

lemma base64_step: "(c::nat) div n = c div (n * 64) * 64 + c div n mod 64"
proof -
  have "c div (n * 64) = c div n div 64" by (simp add: div_mult2_eq)
  then show ?thesis by simp
qed

lemma base64_2: "(c::nat) = c div 4096 * 4096 + c div 64 mod 64 * 64 + c mod 64"
proof -
  have "c = c div 64 * 64 + c mod 64" by simp
  moreover have "c div 64 = c div 4096 * 64 + c div 64 mod 64"
    using base64_step [of c 64] by simp
  ultimately show ?thesis by linarith
qed

lemma base64_3:
  "(c::nat) = c div 262144 * 262144 + c div 4096 mod 64 * 4096 + c div 64 mod 64 * 64 + c mod 64"
proof -
  have "c div 4096 = c div 262144 * 64 + c div 4096 mod 64"
    using base64_step [of c 4096] by simp
  then show ?thesis using base64_2 [of c] by linarith
qed

lemma second3_valid:
  assumes "2048 \<le> c" and "valid_cp c"
  shows "second3 (224 + c div 4096) (128 + c div 64 mod 64)"
proof -
  have m: "c mod 64 < 64" "c div 64 mod 64 < 64" by simp_all
  have "c div 4096 = 0 \<Longrightarrow> 32 \<le> c div 64 mod 64"
    using base64_2 [of c] assms(1) m by linarith
  moreover have "c div 4096 = 13 \<Longrightarrow> c div 64 mod 64 \<le> 31"
    using base64_2 [of c] assms(2) m unfolding valid_cp_def by linarith
  ultimately show ?thesis by (auto simp: second3_def)
qed

lemma second4_valid:
  assumes "65536 \<le> c" and "valid_cp c"
  shows "second4 (240 + c div 262144) (128 + c div 4096 mod 64)"
proof -
  have m: "c mod 64 < 64" "c div 64 mod 64 < 64" "c div 4096 mod 64 < 64" by simp_all
  have "c div 262144 = 0 \<Longrightarrow> 16 \<le> c div 4096 mod 64"
    using base64_3 [of c] assms(1) m by linarith
  moreover have "c div 262144 = 4 \<Longrightarrow> c div 4096 mod 64 \<le> 15"
    using base64_3 [of c] assms(2) m unfolding valid_cp_def by linarith
  ultimately show ?thesis by (auto simp: second4_def)
qed

lemma utf8_step_three:
  assumes "2048 \<le> c" and "c < 65536" and "valid_cp c"
  shows "utf8_step (224 + c div 4096) ((128 + c div 64 mod 64) # (128 + c mod 64) # bs) = (Some c, bs)"
proof -
  have "c div 4096 < 16" using assms(2) by auto
  then show ?thesis
    using second3_valid [OF assms(1,3)] base64_2 [of c] by (simp add: utf8_step_def step3_def)
qed

lemma utf8_step_four:
  assumes "65536 \<le> c" and "valid_cp c"
  shows "utf8_step (240 + c div 262144)
      ((128 + c div 4096 mod 64) # (128 + c div 64 mod 64) # (128 + c mod 64) # bs) = (Some c, bs)"
proof -
  have "c div 262144 < 5" using assms(2) by (auto simp: valid_cp_def)
  then show ?thesis
    using second4_valid [OF assms] base64_3 [of c] by (simp add: utf8_step_def step4_def)
qed

text \<open>The decoder reads back one encoded code point and leaves what follows it.\<close>

lemma utf8_step_encode:
  assumes "valid_cp c"
  shows "utf8_step (hd (encode_cp c)) (tl (encode_cp c) @ bs) = (Some c, bs)"
  using assms utf8_step_ascii utf8_step_two utf8_step_three utf8_step_four
  by (simp add: encode_cp_def)

lemma utf8_decode_encode_cp:
  assumes "valid_cp c"
  shows "utf8_decode (encode_cp c @ bs) = map_option (\<lambda>s. c # s) (utf8_decode bs)"
proof -
  have split: "encode_cp c @ bs = hd (encode_cp c) # (tl (encode_cp c) @ bs)"
    by (metis append_Cons encode_cp_not_Nil list.collapse)
  show ?thesis
    unfolding split utf8_decode.simps(2) utf8_step_encode [OF assms] by simp
qed

lemma utf8_decode_ignore_encode_cp:
  assumes "valid_cp c"
  shows "utf8_decode_ignore (encode_cp c @ bs) = c # utf8_decode_ignore bs"
proof -
  have split: "encode_cp c @ bs = hd (encode_cp c) # (tl (encode_cp c) @ bs)"
    by (metis append_Cons encode_cp_not_Nil list.collapse)
  show ?thesis
    unfolding split utf8_decode_ignore.simps(2) utf8_step_encode [OF assms] by simp
qed

lemma utf8_decode_encode: "valid_str s \<Longrightarrow> utf8_decode (utf8_encode s) = Some s"
  by (induction s) (simp_all add: utf8_decode_encode_cp)

section \<open>Decoding a cut encoding\<close>

lemma take_encode_cp_ignored:
  assumes "valid_cp c" and "n < length (encode_cp c)"
  shows "utf8_decode_ignore (take n (encode_cp c)) = []"
proof -
  have "n = 0 \<or> n = 1 \<or> n = 2 \<or> n = 3" using assms(2) encode_cp_length [of c] by linarith
  moreover have "c div 4096 < 16" if "c < 65536" using that by auto
  moreover have "c div 262144 < 5" using assms(1) by (auto simp: valid_cp_def)
  moreover have "2 \<le> c div 64" "c div 64 < 32" if "128 \<le> c" "c < 2048" using that by auto
  ultimately show ?thesis
    using assms second3_valid [of c] second4_valid [of c]
    by (auto simp: encode_cp_def utf8_decode_ignore.simps(2) utf8_step_def step2_def step3_def
        step4_def split: if_splits)
qed

text \<open>
  Cutting an encoded string after \<open>n\<close> bytes and decoding with \<^verbatim>\<open>errors="ignore"\<close> gives the
  longest prefix of whole characters that fits in \<open>n\<close> bytes.
\<close>

fun fit_prefix :: "nat \<Rightarrow> str \<Rightarrow> str" where
  "fit_prefix n [] = []"
| "fit_prefix n (c # s) =
     (if length (encode_cp c) \<le> n then c # fit_prefix (n - length (encode_cp c)) s else [])"

lemma utf8_decode_ignore_take:
  "valid_str s \<Longrightarrow> utf8_decode_ignore (take n (utf8_encode s)) = fit_prefix n s"
proof (induction s arbitrary: n)
  case Nil
  then show ?case by simp
next
  case (Cons c s)
  then show ?case
    by (auto simp: utf8_decode_ignore_encode_cp take_encode_cp_ignored take_all)
qed

lemma fit_prefix_len: "utf8_len (fit_prefix n s) \<le> n"
  by (induction n s rule: fit_prefix.induct) auto

lemma fit_prefix_take: "\<exists>k \<le> length s. fit_prefix n s = take k s"
proof (induction n s rule: fit_prefix.induct)
  case (1 n)
  then show ?case by simp
next
  case (2 n c s)
  show ?case
  proof (cases "length (encode_cp c) \<le> n")
    case True
    with "2.IH" obtain k where "k \<le> length s" "fit_prefix (n - length (encode_cp c)) s = take k s"
      by blast
    with True have "Suc k \<le> length (c # s) \<and> fit_prefix n (c # s) = take (Suc k) (c # s)" by simp
    then show ?thesis by blast
  next
    case False
    then have "fit_prefix n (c # s) = take 0 (c # s)" by simp
    then show ?thesis by blast
  qed
qed

lemma fit_prefix_append: "\<exists>t. s = fit_prefix n s @ t"
  using fit_prefix_take [of s n] by (metis append_take_drop_id)

lemma fit_prefix_maximal:
  "utf8_len (take k s) \<le> n \<Longrightarrow> k \<le> length (fit_prefix n s) \<or> length s < k"
proof (induction n s arbitrary: k rule: fit_prefix.induct)
  case (1 n)
  then show ?case by auto
next
  case (2 n c s)
  show ?case
  proof (cases k)
    case 0
    then show ?thesis by simp
  next
    case (Suc j)
    with "2.prems" have fits: "length (encode_cp c) \<le> n"
      and "utf8_len (take j s) \<le> n - length (encode_cp c)" by auto
    with "2.IH" show ?thesis by (simp add: Suc)
  qed
qed

lemma utf8_len_rstrip: "utf8_len (rstrip s) \<le> utf8_len s"
proof -
  obtain t where "s = rstrip s @ t" using rstrip_prefix by blast
  then have "utf8_len s = utf8_len (rstrip s) + utf8_len t" by (metis utf8_len_simps(3))
  then show ?thesis by simp
qed

lemma valid_rstrip: "valid_str s \<Longrightarrow> valid_str (rstrip s)"
  by (rule valid_str_subset [OF set_rstrip])

lemma valid_strip: "valid_str s \<Longrightarrow> valid_str (strip s)"
  by (rule valid_str_subset [OF set_strip])

lemma valid_fit_prefix: "valid_str s \<Longrightarrow> valid_str (fit_prefix n s)"
  by (metis fit_prefix_append valid_str_simps(3))

section \<open>Decoding then encoding\<close>

text \<open>Every code point the decoder accepts is valid, and the bytes it read are its encoding.\<close>

lemma low_digit: "(z::nat) < 64 \<Longrightarrow> (m * 64 + z) div 64 = m \<and> (m * 64 + z) mod 64 = z"
  by simp

lemma step2_Some:
  assumes "step2 b bs = (Some c, r)" and "194 \<le> b" and "b < 224"
  shows "valid_cp c \<and> encode_cp c @ r = b # bs"
proof -
  obtain d where bs: "bs = d # r" and d: "cont d" and c: "c = (b - 192) * 64 + (d - 128)"
    using assms(1) by (auto simp: step2_def split: list.splits if_splits)
  have dm: "d - 128 < 64" "128 \<le> d" using d by (auto simp: cont_def)
  have "c div 64 = b - 192" "c mod 64 = d - 128"
    using low_digit [OF dm(1)] by (simp_all only: c)
  moreover have "128 \<le> c" "c < 2048" using c dm assms(2,3) by auto
  ultimately show ?thesis using bs dm assms(2,3) by (auto simp: encode_cp_def valid_cp_def)
qed

lemma step3_Some:
  assumes "step3 b bs = (Some c, r)" and "224 \<le> b" and "b < 240"
  shows "valid_cp c \<and> encode_cp c @ r = b # bs"
proof -
  obtain d e where bs: "bs = d # e # r" and d: "second3 b d" and e: "cont e"
    and c: "c = (b - 224) * 4096 + (d - 128) * 64 + (e - 128)"
    using assms(1) by (auto simp: step3_def split: list.splits if_splits)
  have dm: "d - 128 < 64" "128 \<le> d" "e - 128 < 64" "128 \<le> e"
    using d e by (auto simp: cont_def second3_def)
  define x where "x = b - 224"
  define y where "y = d - 128"
  define z where "z = e - 128"
  have xyz: "b = 224 + x" "d = 128 + y" "e = 128 + z" "y < 64" "z < 64" "x < 16"
    using dm assms(2,3) by (auto simp: x_def y_def z_def)
  have c': "c = (x * 64 + y) * 64 + z" using c by (simp add: x_def y_def z_def)
  have "c div 64 = x * 64 + y" "c mod 64 = z"
    using low_digit [OF xyz(5)] by (simp_all only: c')
  moreover from this have "c div 4096 = x" "c div 64 mod 64 = y"
    using low_digit [OF xyz(4), of x] div_mult2_eq [of c 64 64] by simp_all
  moreover have "2048 \<le> c" "c < 65536" using d xyz c' by (auto simp: second3_def cont_def)
  moreover have "c < 55296 \<or> 57343 < c"
  proof -
    have "x \<le> 12 \<or> x = 13 \<and> y \<le> 31 \<or> 14 \<le> x" using d xyz by (auto simp: second3_def)
    moreover have "c = x * 4096 + y * 64 + z" using c' by simp
    ultimately show ?thesis using xyz(4,5) by linarith
  qed
  ultimately show ?thesis using bs xyz by (auto simp: encode_cp_def valid_cp_def)
qed

lemma step4_Some:
  assumes "step4 b bs = (Some c, r)" and "240 \<le> b" and "b < 245"
  shows "valid_cp c \<and> encode_cp c @ r = b # bs"
proof -
  obtain d e f where bs: "bs = d # e # f # r" and d: "second4 b d" and e: "cont e" "cont f"
    and c: "c = (b - 240) * 262144 + (d - 128) * 4096 + (e - 128) * 64 + (f - 128)"
    using assms(1) by (auto simp: step4_def split: list.splits if_splits)
  define w where "w = b - 240"
  define x where "x = d - 128"
  define y where "y = e - 128"
  define z where "z = f - 128"
  have wxyz: "b = 240 + w" "d = 128 + x" "e = 128 + y" "f = 128 + z"
    "x < 64" "y < 64" "z < 64" "w < 5"
    using d e assms(2,3) by (auto simp: w_def x_def y_def z_def cont_def second4_def)
  have c': "c = ((w * 64 + x) * 64 + y) * 64 + z" using c by (simp add: w_def x_def y_def z_def)
  have "c div 64 = (w * 64 + x) * 64 + y" "c mod 64 = z"
    using low_digit [OF wxyz(7)] by (simp_all only: c')
  moreover from this have "c div 4096 = w * 64 + x" "c div 64 mod 64 = y"
    using low_digit [OF wxyz(6), of "w * 64 + x"] div_mult2_eq [of c 64 64] by simp_all
  moreover from this have "c div 262144 = w" "c div 4096 mod 64 = x"
    using low_digit [OF wxyz(5), of w] div_mult2_eq [of c 4096 64] by simp_all
  moreover have "65536 \<le> c" "c < 1114112"
    using d wxyz c' by (auto simp: second4_def cont_def)
  ultimately show ?thesis using bs wxyz by (auto simp: encode_cp_def valid_cp_def)
qed

lemma utf8_step_Some:
  assumes "utf8_step b bs = (Some c, r)"
  shows "valid_cp c \<and> encode_cp c @ r = b # bs"
proof -
  consider "b < 128" | "194 \<le> b" "b < 224" | "224 \<le> b" "b < 240" | "240 \<le> b" "b < 245"
    using assms by (force simp: utf8_step_def split: if_splits)
  then show ?thesis
  proof cases
    case 1
    then show ?thesis using assms by (auto simp: utf8_step_def encode_cp_def valid_cp_def)
  next
    case 2
    then show ?thesis using assms step2_Some by (auto simp: utf8_step_def)
  next
    case 3
    then show ?thesis using assms step3_Some by (auto simp: utf8_step_def)
  next
    case 4
    then show ?thesis using assms step4_Some by (auto simp: utf8_step_def)
  qed
qed

lemma utf8_decode_Some: "utf8_decode bs = Some s \<Longrightarrow> valid_str s \<and> utf8_encode s = bs"
proof (induction bs arbitrary: s rule: utf8_decode.induct)
  case 1
  then show ?case by simp
next
  case (2 b bs)
  obtain c r where step: "utf8_step b bs = (Some c, r)"
    using "2.prems" by (cases "utf8_step b bs") (auto simp: utf8_decode.simps(2) split: option.splits)
  with "2.prems" obtain q where q: "utf8_decode r = Some q" "s = c # q"
    by (auto simp: utf8_decode.simps(2))
  with "2.IH" step have "valid_str q \<and> utf8_encode q = r" by simp
  with q utf8_step_Some [OF step] show ?case by simp
qed

lemma utf8_decode_valid: "utf8_decode bs = Some s \<Longrightarrow> valid_str s"
  by (simp add: utf8_decode_Some)

end
