(* ===== verification/Run_Ingestion.thy ===== *)
theory Run_Ingestion
  imports Utf8 "HOL-Library.Multiset"
begin

text \<open>
  \<^verbatim>\<open>app/services/run_ingestion.py\<close>: pasted text and uploaded files become the bounded input
  of one run. The loop over the uploads is \<open>ingest_files\<close>, one upload is \<open>ingest_file\<close>,
  the whole handler is \<open>ingest_run_input\<close>. The PDF library and the Rust sidecar are
  parameters: \<open>pdf\<close> gives the text of every page, or None when the reader cannot open
  the bytes, and \<open>analyze\<close> is the sidecar's answer or the error the HTTP client raises.
\<close>

section \<open>Settings and records\<close>

record ingestion_settings =
  max_files_per_run :: int
  max_file_size_bytes :: int
  max_extracted_text_bytes :: int
  max_total_workflow_text_bytes :: int
  max_pasted_text_bytes :: int
  text_tools_enabled :: bool
  rag_chunk_size :: int
  rag_chunk_overlap :: int

record upload_file =
  up_filename :: "str option"
  up_content_type :: "str option"
  up_bytes :: bytes

record uploaded_run_file =
  file_name :: str
  content_type :: str
  file_size_bytes :: int
  extracted_text :: str
  extracted_text_bytes :: int
  trimmed :: bool

record rejected_run_file =
  rej_file_name :: str
  rej_content_type :: str
  reason :: str

record run_input_metadata =
  source_kind :: str
  accepted_file_count :: int
  rejected_file_count :: int
  warning_count :: int

record run_ingestion_counts =
  cnt_accepted_files :: int
  cnt_rejected_files :: int
  cnt_trimmed_files :: int
  cnt_accepted_pasted_text :: int
  cnt_trimmed_pasted_text :: int

record accepted_run_file_summary =
  sum_file_name :: str
  sum_content_type :: str
  sum_file_size_bytes :: int
  sum_extracted_text_bytes :: int
  sum_trimmed :: bool

record run_ingestion_limits =
  lim_max_files_per_run :: int
  lim_max_file_size_bytes :: int
  lim_max_extracted_text_bytes :: int
  lim_max_total_workflow_text_bytes :: int
  lim_max_pasted_text_bytes :: int
  lim_strategy :: str

record run_ingestion_summary =
  summary_warnings :: "str list"
  summary_counts :: run_ingestion_counts
  summary_accepted_files :: "accepted_run_file_summary list"
  summary_rejected_files :: "rejected_run_file list"
  summary_limits :: run_ingestion_limits
  workflow_text_bytes :: int

record ingestion_result =
  res_raw_pasted_text :: "str option"
  res_normalized_input_text :: "str option"
  res_input_metadata :: run_input_metadata
  res_uploaded_files :: "uploaded_run_file list"
  res_ingestion_summary :: run_ingestion_summary

record text_tools_analysis =
  an_normalized_text :: str
  an_trimmed :: bool

section \<open>Helpers\<close>

definition utf8_len_int :: "str \<Rightarrow> int" where
  "utf8_len_int s = int (utf8_len s)"

definition trim_text_to_bytes :: "str \<Rightarrow> int \<Rightarrow> str option \<times> bool" where
  "trim_text_to_bytes value max_bytes =
     (if max_bytes \<le> 0 then (None, value \<noteq> [])
      else let encoded = utf8_encode value in
        if int (length encoded) \<le> max_bytes then (Some value, False)
        else (none_if_empty (rstrip (utf8_decode_ignore (take (nat max_bytes) encoded))), True))"

definition unsupported_reason :: "str \<Rightarrow> str" where
  "unsupported_reason ct =
     (if starts_with (lit ''image/'') ct
      then lit ''Images are out for phase 1. No OCR cape, no secret vision model.''
      else if starts_with (lit ''audio/'') ct \<or> starts_with (lit ''video/'') ct
      then lit ''Audio and video are not supported here. This demo still prefers documents that sit still.''
      else lit ''That file type is outside the phase-1 demo menu. Plain text and text-based PDFs only.'')"

text \<open>\<^verbatim>\<open>Path(file_name).suffix\<close>: the extension of the last path component.\<close>

fun split_on_acc :: "nat \<Rightarrow> str \<Rightarrow> str \<Rightarrow> str list" where
  "split_on_acc sep acc [] = [rev acc]"
| "split_on_acc sep acc (c # s) =
     (if c = sep then rev acc # split_on_acc sep [] s else split_on_acc sep (c # acc) s)"

definition path_name :: "str \<Rightarrow> str" where
  "path_name p =
     (case rev (filter (\<lambda>q. q \<noteq> [] \<and> q \<noteq> [46]) (split_on_acc 47 [] p)) of
        [] \<Rightarrow> [] | q # _ \<Rightarrow> q)"

definition path_suffix :: "str \<Rightarrow> str" where
  "path_suffix p =
     (let name = path_name p;
          ext = rev (takeWhile (\<lambda>c. c \<noteq> 46) (rev name));
          base = take (length name - length ext - 1) name
      in if 46 \<in> set name \<and> list_ex (\<lambda>c. c \<noteq> 46) base then 46 # ext else [])"

text \<open>An extractor gives the text, or None with the reason the file is refused.\<close>

type_synonym extractor = "bytes \<Rightarrow> str option \<times> str option"

definition extract_text_file :: extractor where
  "extract_text_file bs =
     (case utf8_decode bs of
        Some s \<Rightarrow> (Some s, None)
      | None \<Rightarrow> (None, Some (lit ''That file is not plain UTF-8 text, and this milestone is staying boring on purpose.'')))"

text \<open>
  \<open>pdf\<close> gives the texts of the pages, or \<open>None\<close> when the file does not open. A reader that raises
  on a single page ends the request there, before anything is stored: such files are outside the model.
\<close>

definition extract_pdf_text :: "(bytes \<Rightarrow> str list option) \<Rightarrow> extractor" where
  "extract_pdf_text pdf bs =
     (case pdf bs of
        None \<Rightarrow> (None, Some (lit ''That PDF would not open cleanly, so I rejected it instead of making up OCR powers.''))
      | Some page_text \<Rightarrow>
          let combined = join ([10])
                (map strip (filter (\<lambda>t. strip t \<noteq> []) page_text))
          in if combined = []
             then (None, Some (lit ''That PDF looks image-only or otherwise non-extractable. This demo only reads selectable PDF text.''))
             else (Some combined, None))"

definition resolve_extractor ::
  "(bytes \<Rightarrow> str list option) \<Rightarrow> str \<Rightarrow> str \<Rightarrow> extractor option" where
  "resolve_extractor pdf fname ctype =
     (let suffix = lower (path_suffix fname) in
      if ctype = lit ''text/plain'' \<or> suffix = lit ''.txt'' then Some extract_text_file
      else if ctype = lit ''application/pdf'' \<or> suffix = lit ''.pdf'' then Some (extract_pdf_text pdf)
      else None)"

section \<open>One upload\<close>

record ingestion_loop =
  loop_warnings :: "str list"
  loop_accepted :: "uploaded_run_file list"
  loop_rejected :: "rejected_run_file list"
  loop_total :: int

definition reject :: "str \<Rightarrow> str \<Rightarrow> str \<Rightarrow> ingestion_loop \<Rightarrow> ingestion_loop" where
  "reject fname ctype why st =
     st\<lparr>loop_rejected := loop_rejected st @
          [\<lparr>rej_file_name = fname, rej_content_type = ctype, reason = why\<rparr>]\<rparr>"

text \<open>An extracted text goes against the remaining byte budget of all the files.\<close>

definition keep_extracted ::
  "ingestion_settings \<Rightarrow> str \<Rightarrow> str \<Rightarrow> int \<Rightarrow> str \<Rightarrow> ingestion_loop \<Rightarrow> ingestion_loop" where
  "keep_extracted S fname ctype n_bytes text st =
     (let budget = max (max_extracted_text_bytes S - loop_total st) 0 in
      if budget = 0 then
        reject fname ctype (lit ''The file-text budget was already full, so this one never made it onto the tiny demo desk.'') st
      else case trim_text_to_bytes text budget of
        (None, _) \<Rightarrow>
          reject fname ctype (lit ''There was no remaining text budget for that file after earlier uploads.'') st
      | (Some kept, tr) \<Rightarrow>
          st\<lparr>loop_total := loop_total st + utf8_len_int kept,
             loop_accepted := loop_accepted st @
               [\<lparr>file_name = fname, content_type = ctype, file_size_bytes = n_bytes,
                 extracted_text = kept, extracted_text_bytes = utf8_len_int kept, trimmed = tr\<rparr>],
             loop_warnings := loop_warnings st @
               (if tr then [fname @ lit '' was longer than the file-text budget, so I kept the first extractable slice.''] else [])\<rparr>)"

definition ingest_file ::
  "(bytes \<Rightarrow> str list option) \<Rightarrow> ingestion_settings \<Rightarrow> int \<Rightarrow> upload_file \<Rightarrow>
     ingestion_loop \<Rightarrow> ingestion_loop" where
  "ingest_file pdf S index upload st =
     (let fname = str_or (up_filename upload) (lit ''untitled'');
          ctype = str_or (up_content_type upload) (lit ''application/octet-stream'');
          n_bytes = int (length (up_bytes upload))
      in if index \<ge> max_files_per_run S then
           reject fname ctype (lit ''Too many files. I kept the first few and left the rest at the velvet rope.'') st
         else if n_bytes = 0 then
           reject fname ctype (lit ''That file arrived empty, which is very minimalist even for this demo.'') st
         else if n_bytes > max_file_size_bytes S then
           reject fname ctype (lit ''That file is over the size limit, so I rejected it before pretending to be heroic.'') st
         else case resolve_extractor pdf fname ctype of
           None \<Rightarrow> reject fname ctype (unsupported_reason ctype) st
         | Some extractor \<Rightarrow>
             let (text, warning) = extractor (up_bytes upload) in
             if truthy warning then reject fname ctype (str_or warning []) st
             else (case strip_or_none text of
                     None \<Rightarrow> reject fname ctype (lit ''I could open that file, but there was no extractable text to keep.'') st
                   | Some normalized \<Rightarrow> keep_extracted S fname ctype n_bytes normalized st))"

fun ingest_files ::
  "(bytes \<Rightarrow> str list option) \<Rightarrow> ingestion_settings \<Rightarrow> int \<Rightarrow> upload_file list \<Rightarrow>
     ingestion_loop \<Rightarrow> ingestion_loop" where
  "ingest_files pdf S i [] st = st"
| "ingest_files pdf S i (u # us) st = ingest_files pdf S (i + 1) us (ingest_file pdf S i u st)"

section \<open>The whole pass\<close>

definition workflow_sections :: "str option \<Rightarrow> uploaded_run_file list \<Rightarrow> str list" where
  "workflow_sections pasted files =
     (if truthy pasted then [lit ''Pasted notes:'' @ [10] @ str_or pasted []] else [])
     @ map (\<lambda>f. lit ''File: '' @ file_name f @ [10] @ extracted_text f) files"

definition build_workflow_input_text ::
  "(str \<Rightarrow> int \<Rightarrow> int \<Rightarrow> int \<Rightarrow> text_tools_analysis result) \<Rightarrow> ingestion_settings \<Rightarrow>
     str option \<Rightarrow> uploaded_run_file list \<Rightarrow> (str option \<times> bool) result" where
  "build_workflow_input_text analyze S pasted files =
     (let secs = workflow_sections pasted files in
      if secs = [] then Inr (None, False)
      else let combined = join [10, 10] secs in
        if text_tools_enabled S then
          rbind (analyze combined (max_total_workflow_text_bytes S) (rag_chunk_size S)
                   (rag_chunk_overlap S))
            (\<lambda>a. Inr (none_if_empty (an_normalized_text a), an_trimmed a))
        else Inr (trim_text_to_bytes combined (max_total_workflow_text_bytes S)))"

text \<open>The pasted text that is stored, and whether it was cut.\<close>

definition store_pasted :: "ingestion_settings \<Rightarrow> str option \<Rightarrow> str option \<times> str list" where
  "store_pasted S normalized =
     (if utf8_len_int (str_or normalized []) > max_pasted_text_bytes S \<and> truthy normalized
      then let (stored, pasted_trimmed) =
             trim_text_to_bytes (str_or normalized []) (max_pasted_text_bytes S)
           in (stored, if pasted_trimmed
                       then [lit ''The pasted notes were longer than this demo brain allows, so I kept the first slice.'']
                       else [])
      else (normalized, []))"

definition source_kind_of :: "str option \<Rightarrow> uploaded_run_file list \<Rightarrow> str" where
  "source_kind_of pasted accepted =
     (if truthy pasted \<and> accepted = [] then lit ''pasted_text''
      else if accepted \<noteq> [] \<and> \<not> truthy pasted then lit ''file_upload''
      else lit ''mixed_input'')"

definition accepted_summary :: "uploaded_run_file \<Rightarrow> accepted_run_file_summary" where
  "accepted_summary f =
     \<lparr>sum_file_name = file_name f, sum_content_type = content_type f,
      sum_file_size_bytes = file_size_bytes f,
      sum_extracted_text_bytes = extracted_text_bytes f, sum_trimmed = trimmed f\<rparr>"

definition ingestion_limits :: "ingestion_settings \<Rightarrow> run_ingestion_limits" where
  "ingestion_limits S =
     \<lparr>lim_max_files_per_run = max_files_per_run S,
      lim_max_file_size_bytes = max_file_size_bytes S,
      lim_max_extracted_text_bytes = max_extracted_text_bytes S,
      lim_max_total_workflow_text_bytes = max_total_workflow_text_bytes S,
      lim_max_pasted_text_bytes = max_pasted_text_bytes S,
      lim_strategy = lit ''Keep pasted text as entered, then accept files in upload order. Trim by taking the first bytes that fit each configured budget.''\<rparr>"

text \<open>The result object that is built once the loop and the assembly are done.\<close>

definition ingestion_payload ::
  "ingestion_settings \<Rightarrow> str option \<Rightarrow> str option \<Rightarrow> str option \<Rightarrow> str list \<Rightarrow>
     uploaded_run_file list \<Rightarrow> rejected_run_file list \<Rightarrow> ingestion_result" where
  "ingestion_payload S normalized_pasted stored normalized_input warns accepted rejected =
     \<lparr>res_raw_pasted_text = stored,
      res_normalized_input_text = normalized_input,
      res_input_metadata =
        \<lparr>source_kind = source_kind_of stored accepted,
         accepted_file_count = int (length accepted),
         rejected_file_count = int (length rejected),
         warning_count = int (length warns)\<rparr>,
      res_uploaded_files = accepted,
      res_ingestion_summary =
        \<lparr>summary_warnings = warns,
         summary_counts =
           \<lparr>cnt_accepted_files = int (length accepted),
            cnt_rejected_files = int (length rejected),
            cnt_trimmed_files = int (length (filter trimmed accepted)),
            cnt_accepted_pasted_text = (if truthy stored then 1 else 0),
            cnt_trimmed_pasted_text =
              (if truthy normalized_pasted \<and> stored \<noteq> normalized_pasted then 1 else 0)\<rparr>,
         summary_accepted_files = map accepted_summary accepted,
         summary_rejected_files = rejected,
         summary_limits = ingestion_limits S,
         workflow_text_bytes = utf8_len_int (str_or normalized_input [])\<rparr>\<rparr>"

definition ingest_run_input ::
  "(bytes \<Rightarrow> str list option) \<Rightarrow> (str \<Rightarrow> int \<Rightarrow> int \<Rightarrow> int \<Rightarrow> text_tools_analysis result) \<Rightarrow>
     ingestion_settings \<Rightarrow> str option \<Rightarrow> upload_file list \<Rightarrow> ingestion_result result" where
  "ingest_run_input pdf analyze S pasted files =
     (let normalized_pasted = strip_or_none pasted;
          (stored, pasted_warnings) = store_pasted S normalized_pasted;
          st = ingest_files pdf S 0 files
                 \<lparr>loop_warnings = pasted_warnings, loop_accepted = [], loop_rejected = [],
                  loop_total = 0\<rparr>
      in rbind (build_workflow_input_text analyze S stored (loop_accepted st))
           (\<lambda>(normalized_input, workflow_trimmed).
              let warns = loop_warnings st @
                    (if workflow_trimmed
                     then [lit ''This is a demo, not a memory palace. I kept a representative slice so I could stay coherent.'']
                     else [])
              in Inr (ingestion_payload S normalized_pasted stored normalized_input warns
                        (loop_accepted st) (loop_rejected st))))"

section \<open>Trimming\<close>

text \<open>A trimmed text is a prefix of the text, fits the budget, and is never empty.\<close>

lemma trim_text_Some:
  assumes "trim_text_to_bytes v n = (Some k, t)" and "valid_str v"
  shows "0 < n \<and> utf8_len_int k \<le> n \<and> (\<exists>rest. v = k @ rest \<and> (t \<or> rest = [])) \<and> valid_str k"
proof (cases "int (length (utf8_encode v)) \<le> n")
  case True
  with assms show ?thesis
    by (auto simp: trim_text_to_bytes_def utf8_len_int_def utf8_len_def split: if_splits)
next
  case False
  define p where "p = fit_prefix (nat n) v"
  from False assms have pos: "0 < n" and k: "k = rstrip p" and t: t
    by (auto simp: trim_text_to_bytes_def Let_def none_if_empty_def utf8_decode_ignore_take p_def
        split: if_splits)
  have "utf8_len k \<le> nat n"
    using utf8_len_rstrip [of p] fit_prefix_len [of "nat n" v] by (simp add: k p_def)
  moreover obtain a where "p = k @ a" using rstrip_prefix k by blast
  moreover obtain b where "v = p @ b" using fit_prefix_append p_def by blast
  ultimately show ?thesis using pos t assms(2) by (auto simp: utf8_len_int_def)
qed

lemma trim_text_nonempty: "trim_text_to_bytes v n = (Some k, t) \<Longrightarrow> v \<noteq> [] \<Longrightarrow> k \<noteq> []"
  by (auto simp: trim_text_to_bytes_def Let_def none_if_empty_def split: if_splits)

lemma trim_text_whole: "trim_text_to_bytes v n = (k, False) \<Longrightarrow> v \<noteq> [] \<Longrightarrow> k = Some v"
  by (auto simp: trim_text_to_bytes_def Let_def split: if_splits)

section \<open>The loop over the uploads\<close>

text \<open>The PDF library returns Python strings.\<close>

definition pdf_ok :: "(bytes \<Rightarrow> str list option) \<Rightarrow> bool" where
  "pdf_ok pdf \<longleftrightarrow> (\<forall>bs pages. pdf bs = Some pages \<longrightarrow> list_all valid_str pages)"

definition upload_name :: "upload_file \<Rightarrow> str" where
  "upload_name u = str_or (up_filename u) (lit ''untitled'')"

definition upload_type :: "upload_file \<Rightarrow> str" where
  "upload_type u = str_or (up_content_type u) (lit ''application/octet-stream'')"

lemma valid_join: "valid_str sep \<Longrightarrow> list_all valid_str ss \<Longrightarrow> valid_str (join sep ss)"
  by (induction sep ss rule: join.induct) auto

lemma extractor_valid:
  assumes "pdf_ok pdf" and "resolve_extractor pdf f c = Some ex" and "ex bs = (Some t, w)"
  shows "valid_str t"
proof -
  have "valid_str (join [10] (map strip (filter (\<lambda>t. strip t \<noteq> []) pages)))"
    if "list_all valid_str pages" for pages
    using that by (intro valid_join) (auto simp: list_all_iff valid_strip valid_cp_def)
  then show ?thesis
    using assms by (auto simp: pdf_ok_def resolve_extractor_def Let_def extract_text_file_def
        extract_pdf_text_def utf8_decode_valid split: if_splits option.splits)
qed

text \<open>What one iteration does to the loop state, on every branch.\<close>

lemma keep_extracted_cases:
  assumes "valid_str body" and "body \<noteq> []"
  obtains (rejected) "\<exists>why. keep_extracted S f c n body st = reject f c why st"
  | (kept) k t rest ws where "body = k @ rest" "t \<or> rest = []" "k \<noteq> []"
      "loop_total st + utf8_len_int k \<le> max_extracted_text_bytes S"
      "keep_extracted S f c n body st =
        st\<lparr>loop_total := loop_total st + utf8_len_int k,
           loop_accepted := loop_accepted st @
             [\<lparr>file_name = f, content_type = c, file_size_bytes = n, extracted_text = k,
               extracted_text_bytes = utf8_len_int k, trimmed = t\<rparr>],
           loop_warnings := loop_warnings st @ ws\<rparr>"
proof -
  define budget where "budget = max (max_extracted_text_bytes S - loop_total st) 0"
  note unfolded = keep_extracted_def [of S f c n body st, folded budget_def, unfolded Let_def]
  obtain o' t where trim: "trim_text_to_bytes body budget = (o', t)" by fastforce
  show thesis
  proof (cases "budget = 0 \<or> o' = None")
    case True
    then show thesis using trim by (intro rejected) (auto simp: unfolded)
  next
    case False
    then obtain k where "o' = Some k" by auto
    with trim have tr: "trim_text_to_bytes body budget = (Some k, t)" by simp
    note facts = trim_text_Some [OF tr assms(1)] trim_text_nonempty [OF tr assms(2)]
    then obtain rest where rest: "body = k @ rest" "t \<or> rest = []" by blast
    have "loop_total st + utf8_len_int k \<le> max_extracted_text_bytes S"
      using facts False by (auto simp: budget_def max_def split: if_splits)
    moreover have "keep_extracted S f c n body st =
        st\<lparr>loop_total := loop_total st + utf8_len_int k,
           loop_accepted := loop_accepted st @
             [\<lparr>file_name = f, content_type = c, file_size_bytes = n, extracted_text = k,
               extracted_text_bytes = utf8_len_int k, trimmed = t\<rparr>],
           loop_warnings := loop_warnings st @
             (if t then [f @ lit '' was longer than the file-text budget, so I kept the first extractable slice.''] else [])\<rparr>"
      using False by (simp add: unfolded tr)
    ultimately show thesis by (rule kept [OF rest facts(2)])
  qed
qed

definition rejected_step :: "upload_file \<Rightarrow> ingestion_loop \<Rightarrow> ingestion_loop \<Rightarrow> bool" where
  "rejected_step u st st' \<longleftrightarrow> (\<exists>why. st' = reject (upload_name u) (upload_type u) why st)"

lemma rejected_step_reject: "rejected_step u st (reject (upload_name u) (upload_type u) why st)"
  by (auto simp: rejected_step_def)

lemma ingest_file_step:
  obtains (rejected) "rejected_step u st (ingest_file pdf S i u st)"
  | (kept) ex raw where "i < max_files_per_run S" "int (length (up_bytes u)) \<le> max_file_size_bytes S"
      "resolve_extractor pdf (upload_name u) (upload_type u) = Some ex"
      "fst (ex (up_bytes u)) = Some raw" "strip raw \<noteq> []"
      "ingest_file pdf S i u st =
         keep_extracted S (upload_name u) (upload_type u) (int (length (up_bytes u))) (strip raw) st"
proof -
  note unfolded = ingest_file_def [of pdf S i u st, unfolded Let_def,
      folded upload_name_def upload_type_def]
  show thesis
  proof (cases "i \<ge> max_files_per_run S \<or> int (length (up_bytes u)) = 0
      \<or> int (length (up_bytes u)) > max_file_size_bytes S")
    case True
    then show thesis
      by (intro rejected) (auto simp: unfolded rejected_step_reject)
  next
    case small: False
    show thesis
    proof (cases "resolve_extractor pdf (upload_name u) (upload_type u)")
      case None
      with small show thesis by (intro rejected) (auto simp: unfolded rejected_step_reject)
    next
      case ex: (Some ex)
      obtain tx w where out: "ex (up_bytes u) = (tx, w)" by fastforce
      show thesis
      proof (cases "truthy w \<or> strip_or_none tx = None")
        case True
        with small ex out show thesis
          by (intro rejected) (auto simp: unfolded rejected_step_reject)
      next
        case False
        then obtain raw where "tx = Some raw" "strip raw \<noteq> []"
          by (auto simp: strip_or_none_def none_if_empty_def split: option.splits if_splits)
        with False small ex out show thesis
          by (intro kept [of ex raw]) (auto simp: unfolded strip_or_none_def none_if_empty_def)
      qed
    qed
  qed
qed

text \<open>A kept text is the beginning of what the extractor read, within every budget.\<close>

definition kept_step ::
  "(bytes \<Rightarrow> str list option) \<Rightarrow> ingestion_settings \<Rightarrow> upload_file \<Rightarrow> ingestion_loop \<Rightarrow>
     ingestion_loop \<Rightarrow> bool" where
  "kept_step pdf S u st st' \<longleftrightarrow> (\<exists>ex raw k t ws rest.
     resolve_extractor pdf (upload_name u) (upload_type u) = Some ex
     \<and> fst (ex (up_bytes u)) = Some raw \<and> strip raw = k @ rest \<and> (t \<or> rest = []) \<and> k \<noteq> []
     \<and> loop_total st + utf8_len_int k \<le> max_extracted_text_bytes S
     \<and> int (length (up_bytes u)) \<le> max_file_size_bytes S
     \<and> st' = st\<lparr>loop_total := loop_total st + utf8_len_int k,
            loop_accepted := loop_accepted st @
              [\<lparr>file_name = upload_name u, content_type = upload_type u,
                file_size_bytes = int (length (up_bytes u)), extracted_text = k,
                extracted_text_bytes = utf8_len_int k, trimmed = t\<rparr>],
            loop_warnings := loop_warnings st @ ws\<rparr>)"

lemma ingest_file_cases:
  assumes "pdf_ok pdf"
  shows "rejected_step u st (ingest_file pdf S i u st) \<or>
    (i < max_files_per_run S \<and> kept_step pdf S u st (ingest_file pdf S i u st))"
proof (rule ingest_file_step [of u st pdf S i])
  assume "rejected_step u st (ingest_file pdf S i u st)"
  then show ?thesis ..
next
  fix ex raw
  assume i: "i < max_files_per_run S" and n: "int (length (up_bytes u)) \<le> max_file_size_bytes S"
    and ex: "resolve_extractor pdf (upload_name u) (upload_type u) = Some ex"
    and raw: "fst (ex (up_bytes u)) = Some raw" and ne: "strip raw \<noteq> []"
    and step: "ingest_file pdf S i u st =
       keep_extracted S (upload_name u) (upload_type u) (int (length (up_bytes u))) (strip raw) st"
  have "valid_str (strip raw)"
    using extractor_valid [OF assms ex, of "up_bytes u" raw] raw by (metis prod.collapse valid_strip)
  then show ?thesis
  proof (rule keep_extracted_cases [OF _ ne])
    assume "\<exists>why. keep_extracted S (upload_name u) (upload_type u)
      (int (length (up_bytes u))) (strip raw) st = reject (upload_name u) (upload_type u) why st"
    then show ?thesis by (auto simp: step rejected_step_def)
  next
    fix k t rest ws
    assume "strip raw = k @ rest" "t \<or> rest = []" "k \<noteq> []"
      "loop_total st + utf8_len_int k \<le> max_extracted_text_bytes S"
      "keep_extracted S (upload_name u) (upload_type u) (int (length (up_bytes u))) (strip raw) st =
        st\<lparr>loop_total := loop_total st + utf8_len_int k,
           loop_accepted := loop_accepted st @
             [\<lparr>file_name = upload_name u, content_type = upload_type u,
               file_size_bytes = int (length (up_bytes u)), extracted_text = k,
               extracted_text_bytes = utf8_len_int k, trimmed = t\<rparr>],
           loop_warnings := loop_warnings st @ ws\<rparr>"
    then have "kept_step pdf S u st (ingest_file pdf S i u st)"
      unfolding kept_step_def step using ex raw n by blast
    with i show ?thesis by blast
  qed
qed

section \<open>Invariants of the loop\<close>

definition loop_ok :: "ingestion_settings \<Rightarrow> ingestion_loop \<Rightarrow> bool" where
  "loop_ok S st \<longleftrightarrow>
     loop_total st = sum_list (map extracted_text_bytes (loop_accepted st))
   \<and> loop_total st \<le> max 0 (max_extracted_text_bytes S)
   \<and> (\<forall>f \<in> set (loop_accepted st). extracted_text f \<noteq> []
        \<and> extracted_text_bytes f = utf8_len_int (extracted_text f)
        \<and> file_size_bytes f \<le> max_file_size_bytes S)"

lemma ingest_file_loop_ok:
  assumes "pdf_ok pdf" and "loop_ok S st"
  shows "loop_ok S (ingest_file pdf S i u st)"
  using ingest_file_cases [OF assms(1), of u st S i] assms(2)
  by (auto simp: loop_ok_def rejected_step_def reject_def kept_step_def)

lemma ingest_files_loop_ok:
  "pdf_ok pdf \<Longrightarrow> loop_ok S st \<Longrightarrow> loop_ok S (ingest_files pdf S i us st)"
  by (induction us arbitrary: i st) (simp_all add: ingest_file_loop_ok)

text \<open>Every upload lands in exactly one of the two lists, under its own name.\<close>

definition loop_names :: "ingestion_loop \<Rightarrow> str multiset" where
  "loop_names st = mset (map file_name (loop_accepted st)) + mset (map rej_file_name (loop_rejected st))"

lemma ingest_file_names:
  assumes "pdf_ok pdf"
  shows "loop_names (ingest_file pdf S i u st) = add_mset (upload_name u) (loop_names st)"
  using ingest_file_cases [OF assms, of u st S i]
  by (auto simp: loop_names_def rejected_step_def reject_def kept_step_def)

lemma ingest_files_names:
  "pdf_ok pdf \<Longrightarrow> loop_names (ingest_files pdf S i us st) = mset (map upload_name us) + loop_names st"
  by (induction us arbitrary: i st) (simp_all add: ingest_file_names)

text \<open>The file limit counts positions in the upload order.\<close>

lemma ingest_file_count:
  assumes "pdf_ok pdf"
  shows "int (length (loop_accepted (ingest_file pdf S i u st)))
    \<le> int (length (loop_accepted st)) + (if i < max_files_per_run S then 1 else 0)"
  using ingest_file_cases [OF assms, of u st S i]
  by (auto simp: rejected_step_def reject_def kept_step_def)

lemma ingest_files_count:
  assumes "pdf_ok pdf"
  shows "int (length (loop_accepted (ingest_files pdf S i us st)))
    \<le> int (length (loop_accepted st)) + max 0 (max_files_per_run S - i)"
proof (induction us arbitrary: i st)
  case Nil
  then show ?case by simp
next
  case (Cons u us)
  have "int (length (loop_accepted (ingest_files pdf S i (u # us) st)))
    \<le> int (length (loop_accepted (ingest_file pdf S i u st))) + max 0 (max_files_per_run S - (i + 1))"
    using Cons.IH [of "i + 1" "ingest_file pdf S i u st"] by simp
  then show ?case using ingest_file_count [OF assms, of S i u st] by (auto split: if_splits)
qed

text \<open>Where a kept text comes from.\<close>

definition from_upload ::
  "(bytes \<Rightarrow> str list option) \<Rightarrow> upload_file list \<Rightarrow> uploaded_run_file \<Rightarrow> bool" where
  "from_upload pdf us f \<longleftrightarrow> (\<exists>u \<in> set us. \<exists>ex raw rest.
     file_name f = upload_name u \<and> content_type f = upload_type u
     \<and> resolve_extractor pdf (upload_name u) (upload_type u) = Some ex
     \<and> fst (ex (up_bytes u)) = Some raw
     \<and> strip raw = extracted_text f @ rest \<and> (trimmed f \<or> rest = []))"

lemma ingest_file_from_upload:
  assumes "pdf_ok pdf" and "f \<in> set (loop_accepted (ingest_file pdf S i u st))"
  shows "f \<in> set (loop_accepted st) \<or> from_upload pdf [u] f"
  using ingest_file_cases [OF assms(1), of u st S i] assms(2)
  by (auto simp: rejected_step_def reject_def kept_step_def from_upload_def)

lemma from_upload_mono: "from_upload pdf us f \<Longrightarrow> set us \<subseteq> set vs \<Longrightarrow> from_upload pdf vs f"
  unfolding from_upload_def by blast

lemma ingest_files_from_upload:
  assumes "pdf_ok pdf"
  shows "f \<in> set (loop_accepted (ingest_files pdf S i us st)) \<Longrightarrow>
    f \<in> set (loop_accepted st) \<or> from_upload pdf us f"
proof (induction us arbitrary: i st)
  case Nil
  then show ?case by simp
next
  case (Cons u us)
  then have "f \<in> set (loop_accepted (ingest_file pdf S i u st)) \<or> from_upload pdf us f" by simp
  then show ?case
  proof
    assume "f \<in> set (loop_accepted (ingest_file pdf S i u st))"
    from ingest_file_from_upload [OF assms this] show ?thesis
      using from_upload_mono [of pdf "[u]" f "u # us"] by auto
  next
    assume "from_upload pdf us f"
    then have "from_upload pdf (u # us) f" by (rule from_upload_mono) auto
    then show ?thesis ..
  qed
qed

section \<open>Properties of the pass\<close>

definition valid_opt :: "str option \<Rightarrow> bool" where
  "valid_opt v = (case v of None \<Rightarrow> True | Some s \<Rightarrow> valid_str s)"

definition start_loop :: "str list \<Rightarrow> ingestion_loop" where
  "start_loop ws = \<lparr>loop_warnings = ws, loop_accepted = [], loop_rejected = [], loop_total = 0\<rparr>"

lemma ingest_run_input_Inr:
  assumes "ingest_run_input pdf analyze S pasted files = Inr r"
  obtains ws st t where
    "st = ingest_files pdf S 0 files (start_loop ws)"
    "res_uploaded_files r = loop_accepted st"
    "summary_rejected_files (res_ingestion_summary r) = loop_rejected st"
    "res_raw_pasted_text r = fst (store_pasted S (strip_or_none pasted))"
    "build_workflow_input_text analyze S (res_raw_pasted_text r) (loop_accepted st)
       = Inr (res_normalized_input_text r, t)"
    "workflow_text_bytes (res_ingestion_summary r)
       = utf8_len_int (str_or (res_normalized_input_text r) [])"
  using assms
  by (auto simp: ingest_run_input_def Let_def start_loop_def rbind_eq_Inr ingestion_payload_def
      split: prod.splits)

lemma start_loop_ok: "loop_ok S (start_loop ws)"
  by (simp add: loop_ok_def start_loop_def)

lemma valid_strip_or_none: "valid_opt v \<Longrightarrow> valid_opt (strip_or_none v)"
  by (auto simp: valid_opt_def strip_or_none_def none_if_empty_def valid_strip split: option.splits)

lemma store_pasted_bound:
  assumes "valid_opt v"
  shows "utf8_len_int (str_or (fst (store_pasted S v)) []) \<le> max 0 (max_pasted_text_bytes S)
    \<and> valid_opt (fst (store_pasted S v))"
proof (cases "utf8_len_int (str_or v []) > max_pasted_text_bytes S \<and> truthy v")
  case False
  then show ?thesis using assms
    by (auto simp: store_pasted_def str_or_def truthy_def utf8_len_int_def max_def
        split: option.splits if_splits)
next
  case True
  then obtain s where s: "v = Some s" "s \<noteq> []" by (auto simp: truthy_def)
  obtain k t where kt: "trim_text_to_bytes s (max_pasted_text_bytes S) = (k, t)" by fastforce
  with s True have "fst (store_pasted S v) = k" by (simp add: store_pasted_def str_or_def)
  moreover have "valid_str s" using assms s by (simp add: valid_opt_def)
  ultimately show ?thesis
    using trim_text_Some [of s "max_pasted_text_bytes S"] kt
    by (cases k) (force simp: str_or_def valid_opt_def utf8_len_int_def)+
qed

text \<open>
  C1: a finished ingestion stays inside every configured limit: at most the allowed number
  of files is accepted, each no larger than the size limit, with non-empty text whose byte
  count is recorded exactly, all accepted texts together within the extraction budget, and
  the stored pasted text within the pasted-text budget.
\<close>

theorem ingest_within_budgets:
  assumes "pdf_ok pdf" and "valid_opt pasted"
    and "ingest_run_input pdf analyze S pasted files = Inr r"
  shows "sum_list (map extracted_text_bytes (res_uploaded_files r)) \<le> max 0 (max_extracted_text_bytes S)
    \<and> int (length (res_uploaded_files r)) \<le> max 0 (max_files_per_run S)
    \<and> (\<forall>f \<in> set (res_uploaded_files r). extracted_text f \<noteq> []
         \<and> extracted_text_bytes f = utf8_len_int (extracted_text f)
         \<and> file_size_bytes f \<le> max_file_size_bytes S)
    \<and> utf8_len_int (str_or (res_raw_pasted_text r) []) \<le> max 0 (max_pasted_text_bytes S)"
proof -
  obtain ws st t where st: "st = ingest_files pdf S 0 files (start_loop ws)"
    and r: "res_uploaded_files r = loop_accepted st"
      "res_raw_pasted_text r = fst (store_pasted S (strip_or_none pasted))"
    by (rule ingest_run_input_Inr [OF assms(3)])
  have "loop_ok S st" using ingest_files_loop_ok [OF assms(1) start_loop_ok] by (simp add: st)
  moreover have "int (length (loop_accepted st)) \<le> max 0 (max_files_per_run S)"
    using ingest_files_count [OF assms(1), of S 0 files "start_loop ws"] by (simp add: st start_loop_def)
  moreover have "utf8_len_int (str_or (fst (store_pasted S (strip_or_none pasted))) [])
      \<le> max 0 (max_pasted_text_bytes S)"
    using store_pasted_bound [OF valid_strip_or_none [OF assms(2)]] by simp
  ultimately show ?thesis by (auto simp: loop_ok_def r)
qed

text \<open>Concrete inputs for the witnesses: two copies of a small UTF-8 file, tight limits.\<close>

definition demo_settings :: ingestion_settings where
  "demo_settings = \<lparr>max_files_per_run = 3, max_file_size_bytes = 100, max_extracted_text_bytes = 4,
     max_total_workflow_text_bytes = 20, max_pasted_text_bytes = 5, text_tools_enabled = False,
     rag_chunk_size = 600, rag_chunk_overlap = 60\<rparr>"

definition demo_upload :: upload_file where
  "demo_upload = \<lparr>up_filename = Some (lit ''n.txt''), up_content_type = None,
     up_bytes = [104, 195, 169, 226, 130, 172]\<rparr>"

definition no_pdf :: "bytes \<Rightarrow> str list option" where
  "no_pdf bs = None"

definition no_sidecar :: "str \<Rightarrow> int \<Rightarrow> int \<Rightarrow> int \<Rightarrow> text_tools_analysis result" where
  "no_sidecar t a b c = Inl (ProviderError (lit ''connection refused''))"

lemma no_pdf_ok: "pdf_ok no_pdf"
  by (simp add: pdf_ok_def no_pdf_def)

lemma demo_ingestion_runs:
  obtains r where "ingest_run_input no_pdf no_sidecar demo_settings (Some (lit '' ab cdefg''))
    [demo_upload, demo_upload] = Inr r"
    "map extracted_text (res_uploaded_files r) = [[104, 233], [104]]"
proof -
  let ?run = "ingest_run_input no_pdf no_sidecar demo_settings (Some (lit '' ab cdefg''))
    [demo_upload, demo_upload]"
  have "\<not> isl ?run" by code_simp
  moreover have "map extracted_text (res_uploaded_files (projr ?run)) = [[104, 233], [104]]"
    by code_simp
  ultimately show thesis using that by (metis sum.collapse(2))
qed

theorem ingest_within_budgets_witness:
  "\<exists>r. ingest_run_input no_pdf no_sidecar demo_settings (Some (lit '' ab cdefg''))
      [demo_upload, demo_upload] = Inr r
    \<and> sum_list (map extracted_text_bytes (res_uploaded_files r)) \<le> 4
    \<and> length (res_uploaded_files r) = 2
    \<and> utf8_len_int (str_or (res_raw_pasted_text r) []) \<le> 5"
proof (rule demo_ingestion_runs)
  fix r
  assume run: "ingest_run_input no_pdf no_sidecar demo_settings (Some (lit '' ab cdefg''))
      [demo_upload, demo_upload] = Inr r"
    and texts: "map extracted_text (res_uploaded_files r) = [[104, 233], [104]]"
  have "valid_opt (Some (lit '' ab cdefg''))" by (simp add: valid_opt_def)
  from ingest_within_budgets [OF no_pdf_ok this run] run texts show ?thesis
    by (auto simp: demo_settings_def)
qed

text \<open>
  no upload is lost or counted twice: the names of the accepted and of the rejected
  files together are exactly the names of the uploads (a missing name reads "untitled"),
  and the reported counts are the lengths of the two lists.
\<close>

theorem ingest_accounts_for_uploads:
  assumes "pdf_ok pdf" and "ingest_run_input pdf analyze S pasted files = Inr r"
  shows "mset (map file_name (res_uploaded_files r))
       + mset (map rej_file_name (summary_rejected_files (res_ingestion_summary r)))
       = mset (map upload_name files)
    \<and> accepted_file_count (res_input_metadata r) + rejected_file_count (res_input_metadata r)
       = int (length files)"
proof -
  obtain ws st t where st: "st = ingest_files pdf S 0 files (start_loop ws)"
    and r: "res_uploaded_files r = loop_accepted st"
      "summary_rejected_files (res_ingestion_summary r) = loop_rejected st"
    by (rule ingest_run_input_Inr [OF assms(2)])
  have names: "loop_names st = mset (map upload_name files)"
    using ingest_files_names [OF assms(1), of S 0 files "start_loop ws"]
    by (simp add: st loop_names_def start_loop_def)
  then have "size (loop_names st) = length files" by simp
  moreover have "accepted_file_count (res_input_metadata r) = int (length (res_uploaded_files r))
    \<and> rejected_file_count (res_input_metadata r)
        = int (length (summary_rejected_files (res_ingestion_summary r)))"
    using assms(2) by (auto simp: ingest_run_input_def Let_def rbind_eq_Inr ingestion_payload_def
        split: prod.splits)
  ultimately show ?thesis using names by (simp add: loop_names_def r)
qed

theorem ingest_accounts_for_uploads_witness:
  "\<exists>r. ingest_run_input no_pdf no_sidecar demo_settings (Some (lit '' ab cdefg''))
      [demo_upload, demo_upload] = Inr r
    \<and> mset (map file_name (res_uploaded_files r))
       + mset (map rej_file_name (summary_rejected_files (res_ingestion_summary r)))
       = {#lit ''n.txt'', lit ''n.txt''#}"
proof (rule demo_ingestion_runs)
  fix r
  assume run: "ingest_run_input no_pdf no_sidecar demo_settings (Some (lit '' ab cdefg''))
      [demo_upload, demo_upload] = Inr r"
  from ingest_accounts_for_uploads [OF no_pdf_ok run] run show ?thesis
    by (auto simp: upload_name_def demo_upload_def str_or_def)
qed

text \<open>
  nothing is invented: the text of an accepted file is a non-empty prefix of the
  stripped text its extractor read from an upload of that name, and it is the whole of it
  unless the file is marked as trimmed.
\<close>

theorem ingest_keeps_prefixes:
  assumes "pdf_ok pdf" and "ingest_run_input pdf analyze S pasted files = Inr r"
    and "f \<in> set (res_uploaded_files r)"
  shows "\<exists>u \<in> set files. \<exists>ex raw rest.
     file_name f = upload_name u
     \<and> resolve_extractor pdf (upload_name u) (upload_type u) = Some ex
     \<and> fst (ex (up_bytes u)) = Some raw
     \<and> strip raw = extracted_text f @ rest \<and> (trimmed f \<or> rest = [])"
proof -
  obtain ws st t where st: "st = ingest_files pdf S 0 files (start_loop ws)"
    and r: "res_uploaded_files r = loop_accepted st"
    by (rule ingest_run_input_Inr [OF assms(2)])
  then have "from_upload pdf files f"
    using ingest_files_from_upload [OF assms(1), of f S 0 files "start_loop ws"] assms(3)
    by (simp add: start_loop_def)
  then show ?thesis unfolding from_upload_def by blast
qed

theorem ingest_keeps_prefixes_witness:
  "\<exists>r f. ingest_run_input no_pdf no_sidecar demo_settings (Some (lit '' ab cdefg''))
      [demo_upload, demo_upload] = Inr r \<and> f \<in> set (res_uploaded_files r)
    \<and> extracted_text f = [104, 233] \<and> file_name f = lit ''n.txt''"
proof (rule demo_ingestion_runs)
  fix r
  assume run: "ingest_run_input no_pdf no_sidecar demo_settings (Some (lit '' ab cdefg''))
      [demo_upload, demo_upload] = Inr r"
    and texts: "map extracted_text (res_uploaded_files r) = [[104, 233], [104]]"
  then obtain f where f: "f \<in> set (res_uploaded_files r)" "extracted_text f = [104, 233]"
    by (fastforce simp: map_eq_Cons_conv)
  from ingest_keeps_prefixes [OF no_pdf_ok run f(1)] run f show ?thesis
    by (auto simp: upload_name_def demo_upload_def str_or_def)
qed

text \<open>
  without the sidecar, the text handed to the workflow never exceeds the configured
  total, whatever was pasted and uploaded.
\<close>

theorem workflow_text_within_budget:
  assumes "pdf_ok pdf" and "valid_opt pasted" and "list_all (\<lambda>u. valid_str (upload_name u)) files"
    and "\<not> text_tools_enabled S"
    and "ingest_run_input pdf analyze S pasted files = Inr r"
  shows "workflow_text_bytes (res_ingestion_summary r) \<le> max 0 (max_total_workflow_text_bytes S)"
proof -
  obtain ws st t where st: "st = ingest_files pdf S 0 files (start_loop ws)"
    and r: "res_uploaded_files r = loop_accepted st"
      "res_raw_pasted_text r = fst (store_pasted S (strip_or_none pasted))"
      "build_workflow_input_text analyze S (res_raw_pasted_text r) (loop_accepted st)
        = Inr (res_normalized_input_text r, t)"
      "workflow_text_bytes (res_ingestion_summary r)
        = utf8_len_int (str_or (res_normalized_input_text r) [])"
    by (rule ingest_run_input_Inr [OF assms(5)])
  let ?secs = "workflow_sections (res_raw_pasted_text r) (loop_accepted st)"
  have "valid_str (extracted_text f) \<and> valid_str (file_name f)" if "f \<in> set (loop_accepted st)" for f
  proof -
    have "from_upload pdf files f"
      using ingest_files_from_upload [OF assms(1), of f S 0 files "start_loop ws"] that
      by (simp add: start_loop_def st)
    then obtain u ex raw rest where u: "u \<in> set files" "file_name f = upload_name u"
      "resolve_extractor pdf (upload_name u) (upload_type u) = Some ex"
      "fst (ex (up_bytes u)) = Some raw" "strip raw = extracted_text f @ rest"
      unfolding from_upload_def by blast
    have "valid_str (strip raw)"
      using extractor_valid [OF assms(1) u(3), of "up_bytes u" raw "snd (ex (up_bytes u))"] u(4)
      by (metis prod.collapse valid_strip)
    then have "valid_str (extracted_text f)" by (simp only: u(5) valid_str_simps)
    then show ?thesis using u(1,2) assms(3) by (simp add: list_all_iff)
  qed
  moreover have "valid_opt (res_raw_pasted_text r)"
    using store_pasted_bound [OF valid_strip_or_none [OF assms(2)]] r(2) by simp
  ultimately have "list_all valid_str ?secs"
    by (auto simp: workflow_sections_def list_all_iff valid_opt_def str_or_def valid_cp_def
        split: option.splits)
  then have valid: "valid_str (join [10, 10] ?secs)" by (intro valid_join) (auto simp: valid_cp_def)
  show ?thesis
  proof (cases "res_normalized_input_text r")
    case None
    then show ?thesis by (simp add: r str_or_def utf8_len_int_def)
  next
    case (Some k)
    with r(3) assms(4)
    have "trim_text_to_bytes (join [10, 10] ?secs) (max_total_workflow_text_bytes S) = (Some k, t)"
      by (auto simp: build_workflow_input_text_def Let_def split: if_splits)
    from trim_text_Some [OF this valid] Some show ?thesis
      by (simp add: r str_or_def utf8_len_int_def)
  qed
qed

theorem workflow_text_within_budget_witness:
  "\<exists>r. ingest_run_input no_pdf no_sidecar demo_settings (Some (lit '' ab cdefg''))
      [demo_upload, demo_upload] = Inr r
    \<and> workflow_text_bytes (res_ingestion_summary r) \<le> 20"
proof (rule demo_ingestion_runs)
  fix r
  assume run: "ingest_run_input no_pdf no_sidecar demo_settings (Some (lit '' ab cdefg''))
      [demo_upload, demo_upload] = Inr r"
  have "valid_opt (Some (lit '' ab cdefg''))"
    "list_all (\<lambda>u. valid_str (upload_name u)) [demo_upload, demo_upload]"
    "\<not> text_tools_enabled demo_settings"
    by (simp_all add: valid_opt_def upload_name_def demo_upload_def str_or_def demo_settings_def)
  from workflow_text_within_budget [OF no_pdf_ok this run] run show ?thesis
    by (auto simp: demo_settings_def)
qed

end
