(* ===== verification/Json.thy ===== *)
theory Json
  imports Utf8 "HOL-Library.List_Lexorder"
begin

text \<open>
  The JSON codec of the standard library, as the backend uses it: \<^verbatim>\<open>json.dumps\<close> with the
  default or the compact separators, \<^verbatim>\<open>sort_keys\<close>, and \<^verbatim>\<open>json.loads\<close>, and the text
  pydantic's \<^verbatim>\<open>model_dump_json\<close> gives, which is compact and leaves everything from U+007F on
  as it is. Strings are otherwise escaped
  to ASCII with surrogate pairs above U+FFFF. A number with a fraction or an exponent is
  kept as its text (\<open>JFloat\<close>), because no modelled code computes with one.

  The parser takes fuel, one unit per call; \<open>loads\<close> gives twice the length of the text,
  which \<open>loads_dumps\<close> shows is enough for everything \<open>dumps\<close> prints.
\<close>

datatype json =
    JNull
  | JBool bool
  | JInt int
  | JFloat str
  | JStr str
  | JArr "json list"
  | JObj "(str \<times> json) list"

text \<open>A Python dict keeps the position of the first insertion of a key.\<close>

fun dict_set :: "('k \<times> 'v) list \<Rightarrow> 'k \<Rightarrow> 'v \<Rightarrow> ('k \<times> 'v) list" where
  "dict_set [] k v = [(k, v)]"
| "dict_set ((k', v') # d) k v = (if k' = k then (k, v) # d else (k', v') # dict_set d k v)"

lemma map_of_dict_set: "map_of (dict_set d k v) = (map_of d)(k \<mapsto> v)"
  by (induction d) auto

lemma dict_set_new: "k \<notin> fst ` set d \<Longrightarrow> dict_set d k v = d @ [(k, v)]"
  by (induction d) auto

lemma keys_dict_set: "fst ` set (dict_set d k v) = insert k (fst ` set d)"
  by (simp flip: dom_map_of_conv_image_fst add: map_of_dict_set)

lemma distinct_dict_set: "distinct (map fst d) \<Longrightarrow> distinct (map fst (dict_set d k v))"
proof (induction d)
  case (Cons kv d)
  obtain a b where kv: "kv = (a, b)" by fastforce
  have "a \<in> set (map fst (dict_set d k v)) \<longleftrightarrow> a = k \<or> a \<in> fst ` set d"
    using keys_dict_set [of d k v] by auto
  with Cons kv show ?case by auto
qed simp

section \<open>Printing\<close>

definition u_escape :: "nat \<Rightarrow> str" where
  "u_escape c = [92, 117, hex_digit (c div 4096 mod 16), hex_digit (c div 256 mod 16),
                 hex_digit (c div 16 mod 16), hex_digit (c mod 16)]"

definition escape_cp :: "nat \<Rightarrow> str" where
  "escape_cp c =
     (if c = 34 then [92, 34]
      else if c = 92 then [92, 92]
      else if c = 10 then [92, 110]
      else if c = 13 then [92, 114]
      else if c = 9 then [92, 116]
      else if c = 12 then [92, 102]
      else if c = 8 then [92, 98]
      else if 32 \<le> c \<and> c \<le> 126 then [c]
      else if c < 65536 then u_escape c
      else u_escape (55296 + (c - 65536) div 1024) @ u_escape (56320 + (c - 65536) mod 1024))"

datatype json_style = Spaced | Compact | Pydantic

definition escape_in :: "json_style \<Rightarrow> nat \<Rightarrow> str" where
  "escape_in cp c = (if cp = Pydantic \<and> 127 \<le> c then [c] else escape_cp c)"

definition dump_str :: "json_style \<Rightarrow> str \<Rightarrow> str" where
  "dump_str cp s = [34] @ concat (map (escape_in cp) s) @ [34]"

definition item_sep :: "json_style \<Rightarrow> str" where
  "item_sep cp = (if cp = Spaced then [44, 32] else [44])"

definition key_sep :: "json_style \<Rightarrow> str" where
  "key_sep cp = (if cp = Spaced then [58, 32] else [58])"

fun dumps :: "json_style \<Rightarrow> json \<Rightarrow> str" where
  "dumps cp JNull = lit ''null''"
| "dumps cp (JBool b) = (if b then lit ''true'' else lit ''false'')"
| "dumps cp (JInt i) = show_int i"
| "dumps cp (JFloat t) = t"
| "dumps cp (JStr s) = dump_str cp s"
| "dumps cp (JArr xs) = [91] @ join (item_sep cp) (map (dumps cp) xs) @ [93]"
| "dumps cp (JObj kvs) =
     [123] @ join (item_sep cp) (map (\<lambda>(k, v). dump_str cp k @ key_sep cp @ dumps cp v) kvs) @ [125]"

fun sort_keys :: "json \<Rightarrow> json" where
  "sort_keys (JArr xs) = JArr (map sort_keys xs)"
| "sort_keys (JObj kvs) = JObj (sort_key fst (map (\<lambda>(k, v). (k, sort_keys v)) kvs))"
| "sort_keys j = j"

section \<open>Parsing\<close>

definition is_ws :: "nat \<Rightarrow> bool" where
  "is_ws c \<longleftrightarrow> c = 32 \<or> c = 9 \<or> c = 10 \<or> c = 13"

definition skip_ws :: "str \<Rightarrow> str" where
  "skip_ws s = dropWhile is_ws s"

definition is_dec :: "nat \<Rightarrow> bool" where
  "is_dec c \<longleftrightarrow> 48 \<le> c \<and> c \<le> 57"

definition dec_value :: "str \<Rightarrow> nat" where
  "dec_value ds = foldl (\<lambda>a d. 10 * a + (d - 48)) 0 ds"

definition hex_value :: "nat \<Rightarrow> nat option" where
  "hex_value c =
     (if 48 \<le> c \<and> c \<le> 57 then Some (c - 48)
      else if 97 \<le> c \<and> c \<le> 102 then Some (c - 87)
      else if 65 \<le> c \<and> c \<le> 70 then Some (c - 55)
      else None)"

definition hex4 :: "str \<Rightarrow> (nat \<times> str) option" where
  "hex4 s = (case s of
       a # b # c # d # r \<Rightarrow>
         (case (hex_value a, hex_value b, hex_value c, hex_value d) of
            (Some w, Some x, Some y, Some z) \<Rightarrow> Some (((w * 16 + x) * 16 + y) * 16 + z, r)
          | _ \<Rightarrow> None)
     | _ \<Rightarrow> None)"

text \<open>What follows a backslash; a high surrogate escape takes the low one after it, if any.\<close>

definition parse_u :: "str \<Rightarrow> (nat \<times> str) option" where
  "parse_u s = (case hex4 s of
       None \<Rightarrow> None
     | Some (c, r) \<Rightarrow>
         if 55296 \<le> c \<and> c \<le> 56319 \<and> take 2 r = [92, 117]
         then (case hex4 (drop 2 r) of
                 None \<Rightarrow> None
               | Some (d, q) \<Rightarrow>
                   if 56320 \<le> d \<and> d \<le> 57343
                   then Some (65536 + (c - 55296) * 1024 + (d - 56320), q)
                   else Some (c, r))
         else Some (c, r))"

definition parse_escape :: "str \<Rightarrow> (nat \<times> str) option" where
  "parse_escape s = (case s of
       [] \<Rightarrow> None
     | c # r \<Rightarrow>
         if c = 34 \<or> c = 92 \<or> c = 47 then Some (c, r)
         else if c = 98 then Some (8, r)
         else if c = 102 then Some (12, r)
         else if c = 110 then Some (10, r)
         else if c = 114 then Some (13, r)
         else if c = 116 then Some (9, r)
         else if c = 117 then parse_u r
         else None)"

lemma hex4_shorter: "hex4 s = Some (c, r) \<Longrightarrow> length r < length s"
  by (auto simp: hex4_def split: list.splits option.splits)

lemma parse_u_shorter: "parse_u s = Some (c, r) \<Longrightarrow> length r < length s"
  by (fastforce simp: parse_u_def split: option.splits if_splits prod.splits dest!: hex4_shorter)

lemma parse_escape_shorter: "parse_escape s = Some (c, r) \<Longrightarrow> length r < length s"
  by (auto simp: parse_escape_def split: list.splits if_splits dest: parse_u_shorter)

function parse_str :: "str \<Rightarrow> (str \<times> str) option" where
  "parse_str [] = None"
| "parse_str (c # r) =
     (if c = 34 then Some ([], r)
      else if c = 92 then
        (case parse_escape r of
           None \<Rightarrow> None
         | Some (d, q) \<Rightarrow> map_option (\<lambda>(t, p). (d # t, p)) (parse_str q))
      else if c < 32 then None
      else map_option (\<lambda>(t, p). (c # t, p)) (parse_str r))"
  by pat_completeness auto
termination
  by (relation "measure length") (auto dest: parse_escape_shorter)

declare parse_str.simps(2) [simp del]

text \<open>A number: sign, integer part, and the text of a fraction or exponent if there is one.\<close>

definition parse_frac :: "str \<Rightarrow> str" where
  "parse_frac r = (case r of
       c # q \<Rightarrow>
         if c = 46 then (let ds = takeWhile is_dec q in if ds = [] then [] else 46 # ds) else []
     | [] \<Rightarrow> [])"

definition parse_exp :: "str \<Rightarrow> str" where
  "parse_exp r = (case r of
       e # q \<Rightarrow>
         if e = 101 \<or> e = 69 then
           (let sgn = (case q of x # _ \<Rightarrow> if x = 43 \<or> x = 45 then [x] else [] | [] \<Rightarrow> []);
                ds = takeWhile is_dec (drop (length sgn) q)
            in if ds = [] then [] else e # sgn @ ds)
         else []
     | [] \<Rightarrow> [])"

definition int_part :: "str \<Rightarrow> str" where
  "int_part ds = (if take 1 ds = [48] then [48] else ds)"

definition parse_number :: "str \<Rightarrow> (json \<times> str) option" where
  "parse_number s =
     (let neg = (take 1 s = [45]);
          s1 = (if neg then drop 1 s else s);
          ip = int_part (takeWhile is_dec s1);
          r = drop (length ip) s1;
          fr = parse_frac r;
          ex = parse_exp (drop (length fr) r);
          sgn = (if neg then - 1 else 1)
      in if ip = [] then None
         else if fr = [] \<and> ex = [] then Some (JInt (sgn * int (dec_value ip)), r)
         else Some (JFloat ((if neg then [45] else []) @ ip @ fr @ ex),
                    drop (length fr + length ex) r))"

definition parse_word :: "str \<Rightarrow> (json \<times> str) option" where
  "parse_word s =
     (if starts_with (lit ''null'') s then Some (JNull, drop 4 s)
      else if starts_with (lit ''true'') s then Some (JBool True, drop 4 s)
      else if starts_with (lit ''false'') s then Some (JBool False, drop 5 s)
      else if starts_with (lit ''NaN'') s then Some (JFloat (lit ''NaN''), drop 3 s)
      else if starts_with (lit ''Infinity'') s then Some (JFloat (lit ''Infinity''), drop 8 s)
      else if starts_with (lit ''-Infinity'') s then Some (JFloat (lit ''-Infinity''), drop 9 s)
      else parse_number s)"

fun parse_value :: "nat \<Rightarrow> str \<Rightarrow> (json \<times> str) option"
  and parse_elems :: "nat \<Rightarrow> json list \<Rightarrow> str \<Rightarrow> (json \<times> str) option"
  and parse_members :: "nat \<Rightarrow> (str \<times> json) list \<Rightarrow> str \<Rightarrow> (json \<times> str) option"
where
  "parse_value n s =
     (if n = 0 then None
      else case s of
        [] \<Rightarrow> None
      | c # r \<Rightarrow>
          if c = 34 then map_option (\<lambda>(t, q). (JStr t, q)) (parse_str r)
          else if c = 91 then
            (if take 1 (skip_ws r) = [93] then Some (JArr [], drop 1 (skip_ws r))
             else parse_elems (n - 1) [] (skip_ws r))
          else if c = 123 then
            (if take 1 (skip_ws r) = [125] then Some (JObj [], drop 1 (skip_ws r))
             else parse_members (n - 1) [] (skip_ws r))
          else parse_word (c # r))"
| "parse_elems n acc s =
     (if n = 0 then None
      else case parse_value (n - 1) s of
        None \<Rightarrow> None
      | Some (v, r) \<Rightarrow>
          (case skip_ws r of
             [] \<Rightarrow> None
           | c # q \<Rightarrow>
               if c = 44 then parse_elems (n - 1) (acc @ [v]) (skip_ws q)
               else if c = 93 then Some (JArr (acc @ [v]), q)
               else None))"
| "parse_members n acc s =
     (if n = 0 \<or> take 1 s \<noteq> [34] then None
      else case parse_str (drop 1 s) of
        None \<Rightarrow> None
      | Some (k, r) \<Rightarrow>
          (if take 1 (skip_ws r) \<noteq> [58] then None
           else case parse_value (n - 1) (skip_ws (drop 1 (skip_ws r))) of
             None \<Rightarrow> None
           | Some (v, p) \<Rightarrow>
               (case skip_ws p of
                  [] \<Rightarrow> None
                | c # q \<Rightarrow>
                    if c = 44 then parse_members (n - 1) (dict_set acc k v) (skip_ws q)
                    else if c = 125 then Some (JObj (dict_set acc k v), q)
                    else None)))"

declare parse_value.simps [simp del] parse_elems.simps [simp del] parse_members.simps [simp del]

definition loads :: "str \<Rightarrow> json option" where
  "loads s =
     (case parse_value (2 * length s + 2) (skip_ws s) of
        None \<Rightarrow> None
      | Some (v, r) \<Rightarrow> if skip_ws r = [] then Some v else None)"

section \<open>Reading back what was printed\<close>

lemma hex_value_digit: "d < 16 \<Longrightarrow> hex_value (hex_digit d) = Some d"
  by (auto simp: hex_value_def hex_digit_def)

lemma hex4_digits:
  assumes "a < 16" and "b < 16" and "c < 16" and "d < 16"
  shows "hex4 (hex_digit a # hex_digit b # hex_digit c # hex_digit d # r)
    = Some (((a * 16 + b) * 16 + c) * 16 + d, r)"
  using assms by (simp add: hex4_def hex_value_digit)

lemma base16_digits:
  "((c div 4096 * 16 + c div 256 mod 16) * 16 + c div 16 mod 16) * 16 + c mod 16 = (c::nat)"
proof -
  have "c div 4096 * 16 + c div 256 mod 16 = c div 256"
    using div_mult2_eq [of c 256 16] by simp
  moreover have "c div 256 * 16 + c div 16 mod 16 = c div 16"
    using div_mult2_eq [of c 16 16] by simp
  moreover have "c div 16 * 16 + c mod 16 = c" by simp
  ultimately show ?thesis by (simp only:)
qed

lemma hex4_u_escape:
  assumes "c < 65536"
  shows "hex4 (drop 2 (u_escape c) @ r) = Some (c, r)"
proof -
  have top: "c div 4096 mod 16 = c div 4096" using assms by auto
  have "drop 2 (u_escape c) @ r = hex_digit (c div 4096) # hex_digit (c div 256 mod 16)
      # hex_digit (c div 16 mod 16) # hex_digit (c mod 16) # r"
    by (simp add: u_escape_def top)
  moreover have "c div 4096 < 16" using assms by auto
  ultimately show ?thesis
    using hex4_digits [of "c div 4096" "c div 256 mod 16" "c div 16 mod 16" "c mod 16" r]
    by (simp only: base16_digits mod_less_divisor zero_less_numeral)
qed

lemma parse_u_plain:
  assumes "c < 65536" and "\<not> (55296 \<le> c \<and> c \<le> 57343)"
  shows "parse_u (drop 2 (u_escape c) @ r) = Some (c, r)"
  using assms by (auto simp: parse_u_def hex4_u_escape)

lemma parse_u_pair:
  assumes "65536 \<le> c" and "c < 1114112"
  shows "parse_u (drop 2 (u_escape (55296 + (c - 65536) div 1024))
           @ u_escape (56320 + (c - 65536) mod 1024) @ r) = Some (c, r)"
proof -
  let ?h = "55296 + (c - 65536) div 1024" and ?l = "56320 + (c - 65536) mod 1024"
  have h: "?h < 65536" "55296 \<le> ?h" "?h \<le> 56319" using assms by auto
  have "(c - 65536) mod 1024 < 1024" by simp
  then have l: "?l < 65536" "56320 \<le> ?l" "?l \<le> 57343" by linarith+
  have "65536 + (?h - 55296) * 1024 + (?l - 56320) = c" using assms by simp
  moreover have "take 2 (u_escape ?l @ r) = [92, 117]" by (simp add: u_escape_def)
  moreover have "drop 2 (u_escape ?l @ r) = drop 2 (u_escape ?l) @ r" by (simp add: u_escape_def)
  ultimately show ?thesis
    unfolding parse_u_def append_assoc hex4_u_escape [OF h(1)]
    using h l by (simp add: hex4_u_escape)
qed

lemma u_escape_Cons: "u_escape c = 92 # 117 # drop 2 (u_escape c)"
  by (simp add: u_escape_def)

lemma parse_str_u:
  assumes "parse_u (s @ r) = Some (c, r)"
  shows "parse_str ((92 # 117 # s) @ r) = map_option (\<lambda>(t, p). (c # t, p)) (parse_str r)"
  using assms by (simp add: parse_str.simps(2) parse_escape_def)

lemma parse_str_escape_cp:
  assumes "valid_cp c"
  shows "parse_str (escape_cp c @ r) = map_option (\<lambda>(t, p). (c # t, p)) (parse_str r)"
proof -
  consider "c < 65536" "escape_cp c = u_escape c"
    | "65536 \<le> c" "escape_cp c = u_escape (55296 + (c - 65536) div 1024) @ u_escape (56320 + (c - 65536) mod 1024)"
    | "escape_cp c = [c]" "c \<noteq> 34" "c \<noteq> 92" "32 \<le> c"
    | "c \<in> {34, 92, 10, 13, 9, 12, 8}"
    by (force simp: escape_cp_def split: if_splits)
  then show ?thesis
  proof cases
    case 1
    then show ?thesis
      using parse_str_u [OF parse_u_plain [of c r]] assms
      by (simp add: valid_cp_def flip: u_escape_Cons)
  next
    case 2
    have "c < 1114112" using assms by (simp add: valid_cp_def)
    from parse_u_pair [OF 2(1) this, of r] show ?thesis
      unfolding 2(2) using parse_str_u u_escape_Cons by (metis append.assoc append_Cons)
  next
    case 3
    then show ?thesis by (simp add: parse_str.simps(2))
  next
    case 4
    then show ?thesis by (auto simp: escape_cp_def parse_str.simps(2) parse_escape_def)
  qed
qed

lemma parse_str_escape_in:
  "valid_cp c \<Longrightarrow> parse_str (escape_in cp c @ r) = map_option (\<lambda>(t, p). (c # t, p)) (parse_str r)"
  by (simp add: escape_in_def parse_str_escape_cp parse_str.simps(2))

lemma parse_str_dump: "valid_str s \<Longrightarrow> parse_str (concat (map (escape_in cp) s) @ 34 # r) = Some (s, r)"
  by (induction s) (simp_all add: parse_str_escape_in parse_str.simps(2))

text \<open>Numbers.\<close>

lemma dec_value_append: "dec_value (ds @ [d]) = 10 * dec_value ds + (d - 48)"
  by (simp add: dec_value_def)

lemma dec_value_show_nat: "dec_value (show_nat n) = n"
proof (induction n rule: show_nat.induct)
  case (1 n)
  then show ?case
    by (cases "n < 10") (simp_all add: show_nat.simps [of n] dec_value_append, simp add: dec_value_def)
qed

lemma show_nat_all_dec: "list_all is_dec (show_nat n)"
  by (auto simp: list_all_iff is_dec_def dest: show_nat_digits)

lemma show_nat_hd_0: "hd (show_nat n) = 48 \<longleftrightarrow> n = 0"
proof (induction n rule: show_nat.induct)
  case (1 n)
  then show ?case
    by (cases "n < 10") (simp_all add: show_nat.simps [of n])
qed

definition num_end :: "str \<Rightarrow> bool" where
  "num_end r \<longleftrightarrow> (case r of [] \<Rightarrow> True | c # _ \<Rightarrow> \<not> is_dec c \<and> c \<noteq> 46 \<and> c \<noteq> 101 \<and> c \<noteq> 69)"

lemma parse_number_show_int:
  assumes "num_end r"
  shows "parse_number (show_int i @ r) = Some (JInt i, r)"
proof -
  have tw: "takeWhile is_dec (show_nat n @ r) = show_nat n" for n
    using assms show_nat_all_dec [of n]
    by (cases r) (auto simp: takeWhile_append list_all_iff num_end_def)
  have ends: "parse_frac r = []" "parse_exp r = []"
    using assms by (cases r; simp add: parse_frac_def parse_exp_def num_end_def)+
  have ip: "int_part (show_nat n) = show_nat n" for n
  proof (cases "n = 0")
    case True
    then show ?thesis by (simp add: show_nat.simps int_part_def)
  next
    case False
    then have "hd (show_nat n) \<noteq> 48" by (simp add: show_nat_hd_0)
    then have "take 1 (show_nat n) \<noteq> [48]" by (cases "show_nat n") auto
    then show ?thesis by (simp add: int_part_def)
  qed
  have no_minus: "take 1 (show_nat n @ r) \<noteq> [45]" for n
    using show_nat_digits [of "hd (show_nat n)" n] by (cases "show_nat n") auto
  show ?thesis
  proof (cases "i < 0")
    case True
    then show ?thesis
      by (simp add: parse_number_def show_int_def Let_def tw ip ends dec_value_show_nat)
  next
    case False
    then show ?thesis
      using no_minus [of "nat i"]
      by (simp add: parse_number_def show_int_def Let_def tw ip ends dec_value_show_nat)
  qed
qed

text \<open>
  The values \<open>dumps\<close> prints and \<open>loads\<close> reads back: strings of Unicode scalar values, no
  float text, and objects whose keys are distinct, as those of a Python dict are.
\<close>

fun json_ok :: "json \<Rightarrow> bool" where
  "json_ok (JFloat t) = False"
| "json_ok (JStr s) = valid_str s"
| "json_ok (JArr xs) = list_all json_ok xs"
| "json_ok (JObj kvs) =
     (list_all (\<lambda>(k, v). valid_str k \<and> json_ok v) kvs \<and> distinct (map fst kvs))"
| "json_ok j = True"

text \<open>The fuel a value needs, and the text it takes.\<close>

fun need :: "json \<Rightarrow> nat" where
  "need (JArr xs) = 1 + sum_list (map (\<lambda>x. Suc (need x)) xs)"
| "need (JObj kvs) = 1 + sum_list (map (\<lambda>(k, v). Suc (need v)) kvs)"
| "need j = 1"

lemma show_int_not_Nil [simp]: "show_int i \<noteq> []"
  by (simp add: show_int_def)

lemma length_pos_show_int: "1 \<le> length (show_int i)"
  by (metis One_nat_def Suc_leI length_greater_0_conv show_int_not_Nil)

lemma length_join: "sum_list (map length ss) \<le> length (join sep ss)"
  by (induction sep ss rule: join.induct) auto

lemma need_le: "json_ok j \<Longrightarrow> need j + 1 \<le> 2 * length (dumps cp j)"
proof (induction j)
  case (JInt i)
  then show ?case using length_pos_show_int [of i] by simp
next
  case (JArr xs)
  have "sum_list (map (\<lambda>x. Suc (need x)) xs) \<le> 2 * sum_list (map (\<lambda>x. length (dumps cp x)) xs)"
    using JArr by (induction xs) (auto simp: list_all_iff, fastforce)
  moreover have "sum_list (map (\<lambda>x. length (dumps cp x)) xs) \<le> length (join (item_sep cp) (map (dumps cp) xs))"
    using length_join [of "map (dumps cp) xs" "item_sep cp"] by (simp add: comp_def)
  ultimately show ?case by simp
next
  case (JObj kvs)
  let ?mem = "\<lambda>(k, v). dump_str cp k @ key_sep cp @ dumps cp v"
  have "Suc (need v) \<le> 2 * length (?mem (k, v))" if "(k, v) \<in> set kvs" for k v
    using JObj that by (fastforce simp: list_all_iff)
  then have "sum_list (map (\<lambda>(k, v). Suc (need v)) kvs) \<le> 2 * sum_list (map (\<lambda>kv. length (?mem kv)) kvs)"
    by (induction kvs) (auto, fastforce)
  moreover have "sum_list (map (\<lambda>kv. length (?mem kv)) kvs) \<le> length (join (item_sep cp) (map ?mem kvs))"
    using length_join [of "map ?mem kvs" "item_sep cp"] by (simp add: comp_def)
  ultimately show ?case by simp
qed (simp_all add: dump_str_def)

lemma show_int_hd: "hd (show_int i) = 45 \<or> is_dec (hd (show_int i))"
  using show_nat_all_dec [of "nat i"] by (cases "show_nat (nat i)") (auto simp: show_int_def)

text \<open>The first character of a printed value decides the branch of the parser.\<close>

lemma dumps_hd:
  assumes "json_ok j"
  shows "dumps cp j \<noteq> [] \<and> \<not> is_ws (hd (dumps cp j)) \<and> hd (dumps cp j) \<noteq> 93 \<and> hd (dumps cp j) \<noteq> 125"
proof (cases j)
  case (JInt i)
  then show ?thesis using show_int_hd [of i] by (auto simp: is_ws_def is_dec_def)
qed (use assms in \<open>auto simp: dump_str_def is_ws_def lit_def\<close>)

lemma skip_ws_dumps: "json_ok j \<Longrightarrow> skip_ws (dumps cp j @ r) = dumps cp j @ r"
  using dumps_hd [of j cp] by (cases "dumps cp j") (auto simp: skip_ws_def)

lemma parse_value_int:
  assumes "num_end r"
  shows "parse_value (Suc n) (show_int i @ r) = Some (JInt i, r)"
proof -
  obtain c q where cq: "show_int i = c # q" by (meson neq_Nil_conv show_int_not_Nil)
  then have c: "c = 45 \<or> is_dec c" using show_int_hd [of i] by simp
  have minus: "\<exists>d p. q = d # p \<and> is_dec d" if "c = 45"
  proof -
    have "i < 0"
    proof (rule ccontr)
      assume "\<not> i < 0"
      then have "c \<in> set (show_nat (nat i))" using cq by (simp add: show_int_def)
      then show False using show_nat_digits that by fastforce
    qed
    then have "q = show_nat (nat (- i))" using cq that by (simp add: show_int_def)
    then show ?thesis
      using show_nat_all_dec [of "nat (- i)"] by (cases "show_nat (nat (- i))") auto
  qed
  have "parse_word (c # q @ r) = parse_number (c # q @ r)"
    using c minus by (auto simp: parse_word_def starts_with_def lit_def is_dec_def)
  then show ?thesis
    using c parse_number_show_int [OF assms, of i]
    by (auto simp: cq is_dec_def parse_value.simps [of "Suc n"])
qed

lemma num_end_Cons: "c \<in> {44, 93, 125} \<Longrightarrow> num_end (c # r)"
  by (auto simp: num_end_def is_dec_def)

lemma skip_ws_Cons: "\<not> is_ws c \<Longrightarrow> skip_ws (c # r) = c # r"
  by (simp add: skip_ws_def)

lemma skip_ws_item_sep: "skip_ws (drop 1 (item_sep cp) @ s) = skip_ws s"
  by (simp add: item_sep_def skip_ws_def is_ws_def)

lemma skip_ws_key_sep: "skip_ws (drop 1 (key_sep cp) @ s) = skip_ws s"
  by (simp add: key_sep_def skip_ws_def is_ws_def)

lemma item_sep_Cons: "item_sep cp = 44 # drop 1 (item_sep cp)"
  by (simp add: item_sep_def)

lemma key_sep_Cons: "key_sep cp = 58 # drop 1 (key_sep cp)"
  by (simp add: key_sep_def)

text \<open>The induction statement: enough fuel reads one value and leaves what follows it.\<close>

definition reads :: "json_style \<Rightarrow> json \<Rightarrow> bool" where
  "reads cp j \<longleftrightarrow> (\<forall>n r. need j \<le> n \<longrightarrow> num_end r \<longrightarrow> parse_value n (dumps cp j @ r) = Some (j, r))"

lemma readsD: "reads cp j \<Longrightarrow> need j \<le> n \<Longrightarrow> num_end r \<Longrightarrow> parse_value n (dumps cp j @ r) = Some (j, r)"
  by (simp add: reads_def)

lemma readsI_Suc:
  assumes "need j = Suc k"
    and "\<And>m r. k \<le> m \<Longrightarrow> parse_value (Suc m) (dumps cp j @ r) = Some (j, r)"
  shows "reads cp j"
  unfolding reads_def
proof (intro allI impI)
  fix n r
  assume "need j \<le> n"
  then obtain m where "n = Suc m" "k \<le> m" using assms(1) by (cases n) auto
  then show "parse_value n (dumps cp j @ r) = Some (j, r)" using assms(2) by simp
qed

lemma take_1_Cons: "take 1 (x # xs) = [x]"
  by simp

lemma drop_1_Cons: "drop 1 (x # xs) = xs"
  by simp

lemma parse_elems_dumps:
  assumes "xs \<noteq> []" and "\<forall>x \<in> set xs. reads cp x \<and> json_ok x"
    and "sum_list (map (\<lambda>x. Suc (need x)) xs) \<le> n"
  shows "parse_elems n acc (join (item_sep cp) (map (dumps cp) xs) @ 93 # r) = Some (JArr (acc @ xs), r)"
  using assms
proof (induction xs arbitrary: n acc)
  case Nil
  then show ?case by simp
next
  case (Cons x xs)
  then obtain m where n: "n = Suc m" and m: "need x \<le> m" "sum_list (map (\<lambda>x. Suc (need x)) xs) \<le> m"
    by (cases n) auto
  show ?case
  proof (cases xs)
    case Nil
    have "parse_value m (dumps cp x @ 93 # r) = Some (x, 93 # r)"
      using Cons.prems(2) m by (intro readsD) (auto simp: num_end_Cons)
    then show ?thesis
      by (simp add: n Nil parse_elems.simps [of "Suc m"] skip_ws_def is_ws_def)
  next
    case tl: (Cons y ys)
    let ?rest = "join (item_sep cp) (map (dumps cp) xs) @ 93 # r"
    have "parse_value m (dumps cp x @ 44 # drop 1 (item_sep cp) @ ?rest)
        = Some (x, 44 # drop 1 (item_sep cp) @ ?rest)"
      using Cons.prems(2) m by (intro readsD) (auto simp: num_end_Cons)
    moreover have "skip_ws ?rest = ?rest"
      using Cons.prems(2) dumps_hd [of y cp] by (cases "dumps cp y"; cases ys) (auto simp: tl skip_ws_Cons)
    moreover have "parse_elems m (acc @ [x]) ?rest = Some (JArr ((acc @ [x]) @ xs), r)"
      using Cons.prems(2) m(2) by (intro Cons.IH) (auto simp: tl)
    moreover have "join (item_sep cp) (map (dumps cp) (x # xs)) @ 93 # r
        = dumps cp x @ 44 # drop 1 (item_sep cp) @ ?rest"
      using item_sep_Cons [of cp] by (simp add: tl)
    ultimately show ?thesis
      by (simp add: n parse_elems.simps [of "Suc m"] skip_ws_Cons is_ws_def skip_ws_item_sep
          del: One_nat_def)
  qed
qed

lemma parse_str_dump_str:
  assumes "valid_str k"
  shows "take 1 (dump_str cp k @ r) = [34] \<and> parse_str (drop 1 (dump_str cp k @ r)) = Some (k, r)"
  using parse_str_dump [OF assms, of cp r] by (simp add: dump_str_def)

lemma parse_members_dumps:
  fixes cp :: json_style
  defines "mem \<equiv> \<lambda>(k, v). dump_str cp k @ key_sep cp @ dumps cp v"
  assumes "kvs \<noteq> []" and "\<forall>(k, v) \<in> set kvs. reads cp v \<and> json_ok v \<and> valid_str k"
    and "distinct (map fst (acc @ kvs))"
    and "sum_list (map (\<lambda>(k, v). Suc (need v)) kvs) \<le> n"
  shows "parse_members n acc (join (item_sep cp) (map mem kvs) @ 125 # r) = Some (JObj (acc @ kvs), r)"
  using assms(2-)
proof (induction kvs arbitrary: n acc)
  case Nil
  then show ?case by simp
next
  case (Cons kv kvs)
  obtain k v where kv: "kv = (k, v)" by fastforce
  obtain m where n: "n = Suc m" and m: "need v \<le> m" "sum_list (map (\<lambda>(k, v). Suc (need v)) kvs) \<le> m"
    using Cons.prems(4) by (cases n) (auto simp: kv)
  have ok: "reads cp v" "json_ok v" "valid_str k" using Cons.prems(2) kv by auto
  have new: "dict_set acc k v = acc @ [(k, v)]"
    using Cons.prems(3) by (intro dict_set_new) (auto simp: kv)
  let ?after = "\<lambda>t. dump_str cp k @ 58 # drop 1 (key_sep cp) @ dumps cp v @ t"
  have read: "parse_members n acc (?after t) =
      (case skip_ws t of [] \<Rightarrow> None
       | c # q \<Rightarrow> if c = 44 then parse_members m (acc @ [(k, v)]) (skip_ws q)
                 else if c = 125 then Some (JObj (acc @ [(k, v)]), q) else None)"
    if "num_end t" for t
  proof -
    have "parse_value m (dumps cp v @ t) = Some (v, t)"
      using ok(1) m(1) that by (rule readsD)
    then show ?thesis
      using parse_str_dump_str [OF ok(3), of cp "58 # drop 1 (key_sep cp) @ dumps cp v @ t"]
      by (simp add: n parse_members.simps [of "Suc m"] skip_ws_Cons is_ws_def skip_ws_key_sep new
          skip_ws_dumps [OF ok(2)] take_1_Cons drop_1_Cons diff_Suc_1
          split: list.split del: One_nat_def)
  qed
  have mem: "mem (k, v) @ t = ?after t" for t
    by (subst key_sep_Cons) (simp add: mem_def key_sep_def)
  show ?case
  proof (cases kvs)
    case Nil
    then have "join (item_sep cp) (map mem (kv # kvs)) @ 125 # r = ?after (125 # r)"
      using mem [of "125 # r"] by (simp add: kv)
    then show ?thesis
      using read [of "125 # r"] by (simp add: num_end_Cons skip_ws_Cons is_ws_def Nil kv)
  next
    case tl: (Cons kv' ys)
    let ?rest = "join (item_sep cp) (map mem kvs) @ 125 # r"
    have "join (item_sep cp) (map mem (kv # kvs)) @ 125 # r
        = mem (k, v) @ 44 # drop 1 (item_sep cp) @ ?rest"
      by (simp add: tl kv item_sep_def)
    moreover have "skip_ws ?rest = ?rest"
      by (cases kv'; cases ys) (simp_all add: tl mem_def dump_str_def skip_ws_Cons is_ws_def)
    moreover have "parse_members m (acc @ [(k, v)]) ?rest = Some (JObj ((acc @ [(k, v)]) @ kvs), r)"
      using Cons.prems(2,3) m(2) by (intro Cons.IH) (auto simp: tl kv)
    moreover have "skip_ws (44 # t) = 44 # t" for t by (simp add: skip_ws_Cons is_ws_def)
    moreover have "num_end (44 # drop 1 (item_sep cp) @ ?rest)" by (simp add: num_end_Cons)
    ultimately show ?thesis
      using read [of "44 # drop 1 (item_sep cp) @ ?rest"] skip_ws_item_sep [of cp ?rest]
      by (simp add: mem kv del: One_nat_def)
  qed
qed

lemma reads_all: "json_ok j \<Longrightarrow> reads cp j"
proof (induction j)
  case (JStr s)
  then show ?case
    by (auto simp: reads_def dump_str_def parse_value.simps parse_str_dump)
next
  case (JInt i)
  then show ?case using parse_value_int by (auto simp: reads_def Suc_le_eq gr0_conv_Suc)
next
  case (JArr xs)
  then have xs: "\<forall>x \<in> set xs. reads cp x \<and> json_ok x" by (auto simp: list_all_iff)
  show ?case
  proof (cases xs)
    case Nil
    then show ?thesis
      by (auto simp: reads_def parse_value.simps skip_ws_Cons is_ws_def)
  next
    case (Cons y ys)
    have "dumps cp y \<noteq> [] \<and> \<not> is_ws (hd (dumps cp y)) \<and> hd (dumps cp y) \<noteq> 93"
      using xs dumps_hd [of y cp] by (simp add: Cons)
    then obtain c t where "dumps cp y = c # t" "\<not> is_ws c" "c \<noteq> 93" by (cases "dumps cp y") auto
    then have hd: "skip_ws (join (item_sep cp) (map (dumps cp) xs) @ s)
          = join (item_sep cp) (map (dumps cp) xs) @ s
        \<and> take 1 (join (item_sep cp) (map (dumps cp) xs) @ s) \<noteq> [93]" for s
      by (cases ys) (auto simp: Cons skip_ws_Cons)
    have "parse_value (Suc m) (dumps cp (JArr xs) @ r) = Some (JArr xs, r)"
      if "sum_list (map (\<lambda>x. Suc (need x)) xs) \<le> m" for m r
      using hd [of "93 # r"] parse_elems_dumps [of xs cp m "[]" r] that xs Cons
      by (simp add: parse_value.simps [of "Suc m"] del: One_nat_def)
    then show ?thesis by (intro readsI_Suc) simp_all
  qed
next
  case (JObj kvs)
  then have kvs: "\<forall>(k, v) \<in> set kvs. reads cp v \<and> json_ok v \<and> valid_str k" "distinct (map fst kvs)"
    by (auto simp: list_all_iff)
  show ?case
  proof (cases kvs)
    case Nil
    then show ?thesis
      by (auto simp: reads_def parse_value.simps skip_ws_Cons is_ws_def)
  next
    case (Cons kv ys)
    let ?mem = "\<lambda>(k, v). dump_str cp k @ key_sep cp @ dumps cp v"
    have hd: "skip_ws (join (item_sep cp) (map ?mem kvs) @ s) = join (item_sep cp) (map ?mem kvs) @ s
        \<and> take 1 (join (item_sep cp) (map ?mem kvs) @ s) \<noteq> [125]" for s
      by (cases kv; cases ys) (simp_all add: Cons dump_str_def skip_ws_Cons is_ws_def)
    have "parse_value (Suc m) (dumps cp (JObj kvs) @ r) = Some (JObj kvs, r)"
      if "sum_list (map (\<lambda>(k, v). Suc (need v)) kvs) \<le> m" for m r
      using hd [of "125 # r"] parse_members_dumps [of kvs cp "[]" m r] that kvs Cons
      by (simp add: parse_value.simps [of "Suc m"] del: One_nat_def)
    then show ?thesis by (intro readsI_Suc) simp_all
  qed
qed (auto simp: reads_def parse_value.simps parse_word_def starts_with_def lit_def)

lemma loads_dumps:
  assumes "json_ok j"
  shows "loads (dumps cp j) = Some j"
proof -
  have "need j \<le> 2 * length (dumps cp j) + 2" using need_le [OF assms, of cp] by simp
  then have "parse_value (2 * length (dumps cp j) + 2) (dumps cp j @ []) = Some (j, [])"
    using reads_all [OF assms, of cp] by (intro readsD) (simp_all add: num_end_def)
  then show ?thesis using skip_ws_dumps [OF assms, of cp "[]"] by (simp add: loads_def skip_ws_def)
qed

end
