(* ===== verification/Base64.thy ===== *)
theory Base64
  imports Json
begin

text \<open>
  URL-safe base64 of the standard library (\<^verbatim>\<open>base64.urlsafe_b64encode\<close> and
  \<^verbatim>\<open>base64.urlsafe_b64decode\<close>, the latter with its non-strict scanner that skips foreign
  characters), the unpadded variants of \<^verbatim>\<open>app/core/security.py\<close>, and the interface of a
  codec with its composition law, which the token payload uses.
\<close>

section \<open>Codecs\<close>

text \<open>A codec reads back what it wrote, on the values it is meant for.\<close>

locale codec =
  fixes enc :: "'a \<Rightarrow> 'b" and dec :: "'b \<Rightarrow> 'a option" and ok :: "'a \<Rightarrow> bool"
  assumes dec_enc: "ok x \<Longrightarrow> dec (enc x) = Some x"
begin

lemma enc_inj: "ok x \<Longrightarrow> ok y \<Longrightarrow> enc x = enc y \<Longrightarrow> x = y"
  by (metis dec_enc option.inject)

end

text \<open>Two codecs in a row: the second encodes what the first wrote.\<close>

locale codec_chain =
  first: codec enc1 dec1 ok1 + second: codec enc2 dec2 ok2
  for enc1 :: "'a \<Rightarrow> 'b" and dec1 :: "'b \<Rightarrow> 'a option" and ok1 :: "'a \<Rightarrow> bool"
    and enc2 :: "'b \<Rightarrow> 'c" and dec2 :: "'c \<Rightarrow> 'b option" and ok2 :: "'b \<Rightarrow> bool" +
  assumes ok_enc: "ok1 x \<Longrightarrow> ok2 (enc1 x)"
begin

lemma chain_dec_enc: "ok1 x \<Longrightarrow> Option.bind (dec2 (enc2 (enc1 x))) dec1 = Some x"
  by (simp add: first.dec_enc second.dec_enc ok_enc)

lemma chain_inj: "ok1 x \<Longrightarrow> ok1 y \<Longrightarrow> enc2 (enc1 x) = enc2 (enc1 y) \<Longrightarrow> x = y"
  by (meson first.enc_inj ok_enc second.enc_inj)

end

interpretation utf8: codec utf8_encode utf8_decode valid_str
  by unfold_locales (rule utf8_decode_encode)

interpretation json_compact: codec "dumps Compact" loads json_ok
  by unfold_locales (rule loads_dumps)

section \<open>The alphabet and the encoder\<close>

definition b64_char :: "nat \<Rightarrow> nat" where
  "b64_char v =
     (if v < 26 then 65 + v else if v < 52 then 71 + v else if v < 62 then v - 4
      else if v = 62 then 45 else 95)"

text \<open>The decoder first maps \<^verbatim>\<open>-\<close> and \<^verbatim>\<open>_\<close> to \<^verbatim>\<open>+\<close> and \<^verbatim>\<open>/\<close>, so it accepts both spellings.\<close>

definition b64_value :: "nat \<Rightarrow> nat option" where
  "b64_value c =
     (if 65 \<le> c \<and> c \<le> 90 then Some (c - 65)
      else if 97 \<le> c \<and> c \<le> 122 then Some (c - 71)
      else if 48 \<le> c \<and> c \<le> 57 then Some (c + 4)
      else if c = 45 \<or> c = 43 then Some 62
      else if c = 95 \<or> c = 47 then Some 63
      else None)"

fun urlsafe_b64encode :: "bytes \<Rightarrow> str" where
  "urlsafe_b64encode [] = []"
| "urlsafe_b64encode [a] = [b64_char (a div 4), b64_char (a mod 4 * 16), 61, 61]"
| "urlsafe_b64encode [a, b] =
     [b64_char (a div 4), b64_char (a mod 4 * 16 + b div 16), b64_char (b mod 16 * 4), 61]"
| "urlsafe_b64encode (a # b # c # bs) =
     b64_char (a div 4) # b64_char (a mod 4 * 16 + b div 16)
     # b64_char (b mod 16 * 4 + c div 64) # b64_char (c mod 64) # urlsafe_b64encode bs"

text \<open>
  The scanner of the decoder: position in the group of four, the bits left over, the
  padding characters seen. None is \<^verbatim>\<open>binascii.Error\<close>.
\<close>

fun a2b :: "nat \<Rightarrow> nat \<Rightarrow> nat \<Rightarrow> str \<Rightarrow> bytes option" where
  "a2b q l p [] = (if q = 0 then Some [] else None)"
| "a2b q l p (c # s) =
     (if c = 61 then
        (if 2 \<le> q \<and> 4 \<le> q + (p + 1) then Some []
         else a2b q l (if 2 \<le> q then p + 1 else p) s)
      else case b64_value c of
        None \<Rightarrow> a2b q l p s
      | Some v \<Rightarrow>
          (if q = 0 then a2b 1 v 0 s
           else if q = 1 then map_option ((#) (l * 4 + v div 16)) (a2b 2 (v mod 16) 0 s)
           else if q = 2 then map_option ((#) (l * 16 + v div 4)) (a2b 3 (v mod 4) 0 s)
           else map_option ((#) (l * 64 + v)) (a2b 0 0 0 s)))"

definition urlsafe_b64decode :: "str \<Rightarrow> bytes option" where
  "urlsafe_b64decode s = (if list_all (\<lambda>c. c < 128) s then a2b 0 0 0 s else None)"

text \<open>\<^verbatim>\<open>_b64url_encode\<close> and \<^verbatim>\<open>_b64url_decode\<close>: the same without padding.\<close>

definition b64url_encode :: "bytes \<Rightarrow> str" where
  "b64url_encode raw = rstrip_char 61 (urlsafe_b64encode raw)"

definition b64url_decode :: "str \<Rightarrow> bytes option" where
  "b64url_decode encoded = urlsafe_b64decode (encoded @ replicate ((4 - length encoded mod 4) mod 4) 61)"

section \<open>Reading back\<close>

lemma b64_char_props:
  assumes "v < 64"
  shows "b64_value (b64_char v) = Some v" and "b64_char v \<noteq> 61" and "b64_char v \<noteq> 46"
    and "b64_char v < 128"
  using assms by (auto simp: b64_char_def b64_value_def)

definition byte_list :: "bytes \<Rightarrow> bool" where
  "byte_list bs \<longleftrightarrow> list_all (\<lambda>b. b < 256) bs"

lemma digits_bound [simp]:
  "(a::nat) < 256 \<Longrightarrow> a div 4 < 64" "a mod 4 * 16 < 64" "(b::nat) < 256 \<Longrightarrow> a mod 4 * 16 + b div 16 < 64"
  "(b::nat) mod 16 * 4 < 64" "(c::nat) < 256 \<Longrightarrow> b mod 16 * 4 + c div 64 < 64"
proof -
  have "a mod 4 < 4" "b mod 16 < 16" by simp_all
  then show "a mod 4 * 16 < 64" "b mod 16 * 4 < 64" by linarith+
  show "a < 256 \<Longrightarrow> a div 4 < 64" by auto
  show "b < 256 \<Longrightarrow> a mod 4 * 16 + b div 16 < 64"
  proof -
    assume "b < 256" then have "b div 16 < 16" by auto
    then show ?thesis using \<open>a mod 4 < 4\<close> by linarith
  qed
  show "c < 256 \<Longrightarrow> b mod 16 * 4 + c div 64 < 64"
  proof -
    assume "c < 256" then have "c div 64 < 4" by auto
    then show ?thesis using \<open>b mod 16 < 16\<close> by linarith
  qed
qed

lemma join_bits:
  "(b::nat) < 256 \<Longrightarrow> (a mod 4 * 16 + b div 16) div 16 = a mod 4"
  "(b::nat) < 256 \<Longrightarrow> (a mod 4 * 16 + b div 16) mod 16 = b div 16"
  "(c::nat) < 256 \<Longrightarrow> (b mod 16 * 4 + c div 64) div 4 = b mod 16"
  "(c::nat) < 256 \<Longrightarrow> (b mod 16 * 4 + c div 64) mod 4 = c div 64"
proof -
  have "b < 256 \<Longrightarrow> b div 16 < 16" "c < 256 \<Longrightarrow> c div 64 < 4" by auto
  then show "b < 256 \<Longrightarrow> (a mod 4 * 16 + b div 16) div 16 = a mod 4"
    "b < 256 \<Longrightarrow> (a mod 4 * 16 + b div 16) mod 16 = b div 16"
    "c < 256 \<Longrightarrow> (b mod 16 * 4 + c div 64) div 4 = b mod 16"
    "c < 256 \<Longrightarrow> (b mod 16 * 4 + c div 64) mod 4 = c div 64" by auto
qed

lemma a2b_encode: "byte_list bs \<Longrightarrow> a2b 0 0 0 (urlsafe_b64encode bs) = Some bs"
  by (induction bs rule: urlsafe_b64encode.induct)
    (auto simp: byte_list_def b64_char_props join_bits simp del: mod_mult_self4)

text \<open>Dropping the padding and adding it again gives the padded text back.\<close>

lemma rstrip_char_append: "ys = [] \<or> last ys \<noteq> c \<Longrightarrow> rstrip_char c (ys @ replicate n c) = ys"
proof -
  assume "ys = [] \<or> last ys \<noteq> c"
  then have "dropWhile (\<lambda>x. x = c) (rev ys) = rev ys"
    by (cases ys rule: rev_cases) auto
  moreover have "dropWhile (\<lambda>x. x = c) (replicate n c @ rev ys) = dropWhile (\<lambda>x. x = c) (rev ys)"
    by (induction n) auto
  ultimately show ?thesis by (simp add: rstrip_char_def)
qed

lemma urlsafe_b64encode_shape:
  "byte_list bs \<Longrightarrow> \<exists>ys. urlsafe_b64encode bs = ys @ replicate ((4 - length ys mod 4) mod 4) 61
     \<and> (ys = [] \<or> last ys \<noteq> 61) \<and> (\<forall>c \<in> set ys. c < 128 \<and> c \<noteq> 46)"
proof (induction bs rule: urlsafe_b64encode.induct)
  case 1
  then show ?case by simp
next
  case (2 a)
  then show ?case
    by (intro exI [of _ "[b64_char (a div 4), b64_char (a mod 4 * 16)]"])
      (simp add: b64_char_props byte_list_def numeral_2_eq_2)
next
  case (3 a b)
  then show ?case
    by (intro exI [of _ "[b64_char (a div 4), b64_char (a mod 4 * 16 + b div 16), b64_char (b mod 16 * 4)]"])
      (simp add: b64_char_props byte_list_def)
next
  case (4 a b c bs)
  then obtain ys where ys: "urlsafe_b64encode bs = ys @ replicate ((4 - length ys mod 4) mod 4) 61"
    "ys = [] \<or> last ys \<noteq> 61" "\<forall>c \<in> set ys. c < 128 \<and> c \<noteq> 46" by (auto simp: byte_list_def)
  let ?q = "[b64_char (a div 4), b64_char (a mod 4 * 16 + b div 16),
     b64_char (b mod 16 * 4 + c div 64), b64_char (c mod 64)]"
  have "length (?q @ ys) mod 4 = length ys mod 4" by simp
  then show ?case using ys 4(2)
    by (intro exI [of _ "?q @ ys"]) (auto simp: b64_char_props byte_list_def)
qed

lemma b64url_facts:
  assumes "byte_list bs"
  shows "b64url_decode (b64url_encode bs) = Some bs" and "\<forall>c \<in> set (b64url_encode bs). c < 128 \<and> c \<noteq> 46"
proof -
  obtain ys where ys: "urlsafe_b64encode bs = ys @ replicate ((4 - length ys mod 4) mod 4) 61"
    "ys = [] \<or> last ys \<noteq> 61" "\<forall>c \<in> set ys. c < 128 \<and> c \<noteq> 46"
    using urlsafe_b64encode_shape [OF assms] by blast
  have enc: "b64url_encode bs = ys" using rstrip_char_append [OF ys(2)] by (simp add: b64url_encode_def ys(1))
  have "list_all (\<lambda>c. c < 128) (urlsafe_b64encode bs)"
    using ys(3) by (auto simp: ys(1) list_all_iff)
  then have "urlsafe_b64decode (urlsafe_b64encode bs) = Some bs"
    by (simp add: urlsafe_b64decode_def a2b_encode [OF assms])
  then show "b64url_decode (b64url_encode bs) = Some bs"
    by (simp add: b64url_decode_def enc flip: ys(1))
  show "\<forall>c \<in> set (b64url_encode bs). c < 128 \<and> c \<noteq> 46" using ys(3) enc by simp
qed

interpretation b64url: codec b64url_encode b64url_decode byte_list
  by unfold_locales (rule b64url_facts)

section \<open>The token payload: JSON, then UTF-8, then base64\<close>

lemma escape_cp_ascii: "c < 1114112 \<Longrightarrow> x \<in> set (escape_cp c) \<Longrightarrow> x < 128"
proof -
  have h: "hex_digit d < 128" if "d < 16" for d using that by (auto simp: hex_digit_def)
  have u: "x < 128" if "x \<in> set (u_escape c)" for x c using that by (auto simp: u_escape_def h)
  show "c < 1114112 \<Longrightarrow> x \<in> set (escape_cp c) \<Longrightarrow> x < 128"
    by (auto simp: escape_cp_def split: if_splits dest: u)
qed

definition ascii :: "str \<Rightarrow> bool" where
  "ascii s \<longleftrightarrow> list_all (\<lambda>c. c < 128) s"

lemma ascii_simps [simp]:
  "ascii []" "ascii (c # s) \<longleftrightarrow> c < 128 \<and> ascii s" "ascii (s @ t) \<longleftrightarrow> ascii s \<and> ascii t"
  by (simp_all add: ascii_def)

lemma ascii_join: "ascii sep \<Longrightarrow> list_all ascii ss \<Longrightarrow> ascii (join sep ss)"
  by (induction sep ss rule: join.induct) auto

lemma ascii_dump_str: "valid_str s \<Longrightarrow> ascii (dump_str Compact s)"
  using escape_cp_ascii
  by (fastforce simp: ascii_def dump_str_def escape_in_def list_all_iff valid_str_def valid_cp_def)

lemma ascii_show_int: "ascii (show_int i)"
  by (auto simp: ascii_def show_int_def list_all_iff dest!: show_nat_digits)

lemma ascii_dumps: "json_ok j \<Longrightarrow> ascii (dumps Compact j)"
proof (induction j)
  case (JArr xs)
  then show ?case by (auto simp: list_all_iff item_sep_def intro!: ascii_join)
next
  case (JObj kvs)
  have "ascii (dump_str Compact k @ key_sep Compact @ dumps Compact v)" if "(k, v) \<in> set kvs" for k v
    using JObj that by (fastforce simp: list_all_iff ascii_dump_str key_sep_def)
  then show ?case by (auto simp: list_all_iff item_sep_def intro!: ascii_join)
qed (auto simp: lit_def ascii_show_int ascii_dump_str)

lemma ascii_valid: "ascii s \<Longrightarrow> valid_str s"
  by (auto simp: ascii_def valid_str_def list_all_iff valid_cp_def)

lemma byte_list_utf8_encode: "valid_str s \<Longrightarrow> byte_list (utf8_encode s)"
proof (induction s)
  case (Cons c s)
  have c: "c < 1114112" using Cons.prems by (simp add: valid_cp_def)
  have "240 + c div 262144 < 256" using c by auto
  moreover have "128 + y mod 64 < 256" for y :: nat
    using mod_less_divisor [of 64 y] by linarith
  moreover have "192 + c div 64 < 256" if "c < 2048" using that by auto
  moreover have "224 + c div 4096 < 256" if "c < 65536" using that by auto
  ultimately have "byte_list (encode_cp c)"
    by (auto simp: encode_cp_def byte_list_def split: if_splits)
  then show ?case using Cons by (auto simp: byte_list_def list_all_iff)
qed (simp add: byte_list_def)

interpretation json_utf8: codec_chain "dumps Compact" loads json_ok utf8_encode utf8_decode valid_str
  by unfold_locales (simp add: ascii_dumps ascii_valid)

interpretation utf8_b64: codec_chain utf8_encode utf8_decode valid_str b64url_encode b64url_decode byte_list
  by unfold_locales (rule byte_list_utf8_encode)

end
