(* ===== verification/Sha256.thy ===== *)
theory Sha256
  imports Utf8 "HOL-Library.Word"
begin

text \<open>
  SHA-256 and HMAC-SHA256 of the standard library (\<^verbatim>\<open>hashlib.sha256\<close>, \<^verbatim>\<open>hmac.new\<close>), which sign
  the access tokens and hash the client addresses, and HMAC-SHA1. Words are 32 bits
  wide and their additions wrap.
\<close>

unbundle bit_operations_syntax

type_synonym w32 = "32 word"

definition sha_k :: "w32 list" where
  "sha_k = [
    1116352408, 1899447441, 3049323471, 3921009573, 961987163, 1508970993,
    2453635748, 2870763221, 3624381080, 310598401, 607225278, 1426881987,
    1925078388, 2162078206, 2614888103, 3248222580, 3835390401, 4022224774,
    264347078, 604807628, 770255983, 1249150122, 1555081692, 1996064986,
    2554220882, 2821834349, 2952996808, 3210313671, 3336571891, 3584528711,
    113926993, 338241895, 666307205, 773529912, 1294757372, 1396182291,
    1695183700, 1986661051, 2177026350, 2456956037, 2730485921, 2820302411,
    3259730800, 3345764771, 3516065817, 3600352804, 4094571909, 275423344,
    430227734, 506948616, 659060556, 883997877, 958139571, 1322822218,
    1537002063, 1747873779, 1955562222, 2024104815, 2227730452, 2361852424,
    2428436474, 2756734187, 3204031479, 3329325298]"

definition sha_h0 :: "w32 list" where
  "sha_h0 = [
    1779033703, 3144134277, 1013904242, 2773480762, 1359893119, 2600822924,
    528734635, 1541459225]"

text \<open>Big-endian words and bytes.\<close>

fun be_words :: "bytes \<Rightarrow> w32 list" where
  "be_words (a # b # c # d # r) = of_nat (((a * 256 + b) * 256 + c) * 256 + d) # be_words r"
| "be_words _ = []"

definition be_bytes :: "w32 \<Rightarrow> bytes" where
  "be_bytes w = map (\<lambda>d. unat w div d mod 256) [16777216, 65536, 256, 1]"

definition be64 :: "nat \<Rightarrow> bytes" where
  "be64 n = map (\<lambda>i. n div 256 ^ i mod 256) [7, 6, 5, 4, 3, 2, 1, 0]"

definition sha_pad :: "bytes \<Rightarrow> bytes" where
  "sha_pad m = m @ [128] @ replicate ((119 - length m mod 64) mod 64) 0 @ be64 (8 * length m)"

definition schedule_word :: "w32 list \<Rightarrow> w32" where
  "schedule_word ws =
     (let n = length ws; a = ws ! (n - 15); b = ws ! (n - 2);
          s0 = word_rotr 7 a XOR word_rotr 18 a XOR drop_bit 3 a;
          s1 = word_rotr 17 b XOR word_rotr 19 b XOR drop_bit 10 b
      in ws ! (n - 16) + s0 + ws ! (n - 7) + s1)"

fun schedule :: "nat \<Rightarrow> w32 list \<Rightarrow> w32 list" where
  "schedule n ws = (if n = 0 then ws else schedule (n - 1) (ws @ [schedule_word ws]))"

declare schedule.simps [simp del]

type_synonym sha_state = "w32 \<times> w32 \<times> w32 \<times> w32 \<times> w32 \<times> w32 \<times> w32 \<times> w32"

definition sha_round :: "w32 \<times> w32 \<Rightarrow> sha_state \<Rightarrow> sha_state" where
  "sha_round kw st =
     (case (kw, st) of ((k, w), a, b, c, d, e, f, g, h) \<Rightarrow>
        let s1 = word_rotr 6 e XOR word_rotr 11 e XOR word_rotr 25 e;
            ch = (e AND f) XOR (NOT e AND g);
            t1 = h + s1 + ch + k + w;
            s0 = word_rotr 2 a XOR word_rotr 13 a XOR word_rotr 22 a;
            maj = (a AND b) XOR (a AND c) XOR (b AND c)
        in (t1 + s0 + maj, a, b, c, d + t1, e, f, g))"

definition sha_block :: "w32 list \<Rightarrow> w32 list \<Rightarrow> w32 list" where
  "sha_block hs ws =
     (case fold sha_round (zip sha_k (schedule 48 ws))
             (hs ! 0, hs ! 1, hs ! 2, hs ! 3, hs ! 4, hs ! 5, hs ! 6, hs ! 7) of
        (a, b, c, d, e, f, g, h) \<Rightarrow> map2 (+) hs [a, b, c, d, e, f, g, h])"

function sha_blocks :: "w32 list \<Rightarrow> w32 list \<Rightarrow> w32 list" where
  "sha_blocks hs ws =
     (if ws = [] then hs else sha_blocks (sha_block hs (take 16 ws)) (drop 16 ws))"
  by pat_completeness auto
termination by (relation "measure (\<lambda>(hs, ws). length ws)") auto

declare sha_blocks.simps [simp del]

definition sha256 :: "bytes \<Rightarrow> bytes" where
  "sha256 m = concat (map be_bytes (sha_blocks sha_h0 (be_words (sha_pad m))))"

definition hex_byte :: "nat \<Rightarrow> str" where
  "hex_byte b = map (\<lambda>d. if d < 10 then 48 + d else 87 + d) [b div 16, b mod 16]"

definition sha256_hexdigest :: "bytes \<Rightarrow> str" where
  "sha256_hexdigest m = concat (map hex_byte (sha256 m))"

definition hmac_sha256 :: "bytes \<Rightarrow> bytes \<Rightarrow> bytes" where
  "hmac_sha256 key m =
     (let k0 = (if 64 < length key then sha256 key else key);
          k = k0 @ replicate (64 - length k0) 0
      in sha256 (map ((XOR) 92) k @ sha256 (map ((XOR) 54) k @ m)))"

section \<open>SHA-1\<close>

text \<open>For the signatures of Twilio's webhooks.\<close>

definition sha1_h0 :: "w32 list" where
  "sha1_h0 = [1732584193, 4023233417, 2562383102, 271733878, 3285377520]"

fun sha1_schedule :: "nat \<Rightarrow> w32 list \<Rightarrow> w32 list" where
  "sha1_schedule n ws =
     (if n = 0 then ws
      else let k = length ws;
               w = word_rotl 1 (ws ! (k - 3) XOR ws ! (k - 8) XOR ws ! (k - 14) XOR ws ! (k - 16))
           in sha1_schedule (n - 1) (ws @ [w]))"

declare sha1_schedule.simps [simp del]

definition sha1_round :: "nat \<times> w32 \<Rightarrow> w32 \<times> w32 \<times> w32 \<times> w32 \<times> w32 \<Rightarrow> w32 \<times> w32 \<times> w32 \<times> w32 \<times> w32" where
  "sha1_round iw st =
     (case (iw, st) of ((i, w), a, b, c, d, e) \<Rightarrow>
        let (f, k) = (if i < 20 then ((b AND c) OR (NOT b AND d), 1518500249)
                      else if i < 40 then (b XOR c XOR d, 1859775393)
                      else if i < 60 then ((b AND c) OR (b AND d) OR (c AND d), 2400959708)
                      else (b XOR c XOR d, 3395469782))
        in (word_rotl 5 a + f + e + k + w, a, word_rotl 30 b, c, d))"

definition sha1_block :: "w32 list \<Rightarrow> w32 list \<Rightarrow> w32 list" where
  "sha1_block hs ws =
     (case fold sha1_round (zip [0..<80] (sha1_schedule 64 ws)) (hs ! 0, hs ! 1, hs ! 2, hs ! 3, hs ! 4) of
        (a, b, c, d, e) \<Rightarrow> map2 (+) hs [a, b, c, d, e])"

function sha1_blocks :: "w32 list \<Rightarrow> w32 list \<Rightarrow> w32 list" where
  "sha1_blocks hs ws =
     (if ws = [] then hs else sha1_blocks (sha1_block hs (take 16 ws)) (drop 16 ws))"
  by pat_completeness auto
termination by (relation "measure (\<lambda>(hs, ws). length ws)") auto

declare sha1_blocks.simps [simp del]

definition sha1 :: "bytes \<Rightarrow> bytes" where
  "sha1 m = concat (map be_bytes (sha1_blocks sha1_h0 (be_words (sha_pad m))))"

definition hmac_sha1 :: "bytes \<Rightarrow> bytes \<Rightarrow> bytes" where
  "hmac_sha1 key m =
     (let k0 = (if 64 < length key then sha1 key else key);
          k = k0 @ replicate (64 - length k0) 0
      in sha1 (map ((XOR) 92) k @ sha1 (map ((XOR) 54) k @ m)))"

section \<open>Shape of a digest\<close>

lemma hmac_sha1_bytes: "b \<in> set (hmac_sha1 key m) \<Longrightarrow> b < 256"
  by (auto simp: hmac_sha1_def Let_def sha1_def be_bytes_def)


lemma sha256_bytes: "b \<in> set (sha256 m) \<Longrightarrow> b < 256"
  by (auto simp: sha256_def be_bytes_def)

lemma hmac_sha256_bytes: "b \<in> set (hmac_sha256 key m) \<Longrightarrow> b < 256"
  by (auto simp: hmac_sha256_def Let_def dest: sha256_bytes)

lemma length_sha_block: "length hs = 8 \<Longrightarrow> length (sha_block hs ws) = 8"
  by (simp add: sha_block_def split: prod.split)

lemma length_sha_blocks: "length hs = 8 \<Longrightarrow> length (sha_blocks hs ws) = 8"
proof (induction hs ws rule: sha_blocks.induct)
  case (1 hs ws)
  show ?case
  proof (cases "ws = []")
    case True
    then show ?thesis using 1 by (subst sha_blocks.simps) simp
  next
    case False
    then show ?thesis using 1 length_sha_block by (subst sha_blocks.simps) simp
  qed
qed

lemma length_concat_const: "(\<And>x. x \<in> set xs \<Longrightarrow> length (f x) = n) \<Longrightarrow> length (concat (map f xs)) = n * length xs"
  by (induction xs) auto

lemma length_sha256: "length (sha256 m) = 32"
proof -
  have "length (sha_blocks sha_h0 (be_words (sha_pad m))) = 8"
    by (rule length_sha_blocks) (simp add: sha_h0_def)
  then show ?thesis unfolding sha256_def by (subst length_concat_const [where n = 4]) (auto simp: be_bytes_def)
qed

lemma length_hexdigest: "length (sha256_hexdigest m) = 64"
  unfolding sha256_hexdigest_def by (subst length_concat_const [where n = 2]) (auto simp: hex_byte_def length_sha256)

end
