(* ===== verification/Digits.thy ===== *)
theory Digits
  imports Prelude
begin

text \<open>
  Decimal digits of every script, as \<^verbatim>\<open>\d\<close> of the \<^verbatim>\<open>re\<close> module and \<^verbatim>\<open>int(text)\<close> take them
  (general category Nd of Unicode 16, the version of Python 3.14), and \<^verbatim>\<open>int(text)\<close> itself.
\<close>

text \<open>The zero of each of the 76 sets of ten digits.\<close>

definition digit_zeros :: "nat list" where
  "digit_zeros = [
      48, 1632, 1776, 1984, 2406, 2534, 2662, 2790, 2918, 3046, 3174, 3302,
      3430, 3558, 3664, 3792, 3872, 4160, 4240, 6112, 6160, 6470, 6608, 6784,
      6800, 6992, 7088, 7232, 7248, 42528, 43216, 43264, 43472, 43504, 43600, 44016,
      65296, 66720, 68912, 68928, 69734, 69872, 69942, 70096, 70384, 70736, 70864, 71248,
      71360, 71376, 71386, 71472, 71904, 72016, 72688, 72784, 73040, 73120, 73552, 90416,
      92768, 92864, 93008, 93552, 118000, 120782, 120792, 120802, 120812, 120822, 123200, 123632,
      124144, 124401, 125264, 130032]"

definition digit_value :: "nat \<Rightarrow> nat option" where
  "digit_value c =
     (if c < 128 then (if 48 \<le> c \<and> c \<le> 57 then Some (c - 48) else None)
      else map_option (\<lambda>z. c - z) (find (\<lambda>z. z \<le> c \<and> c < z + 10) digit_zeros))"

definition is_digit :: "nat \<Rightarrow> bool" where
  "is_digit c \<longleftrightarrow> digit_value c \<noteq> None"

lemma digit_value_less: "digit_value c = Some d \<Longrightarrow> d < 10"
  by (auto simp: digit_value_def find_Some_iff split: if_splits)

lemma is_digit_ascii: "c < 128 \<Longrightarrow> is_digit c \<longleftrightarrow> 48 \<le> c \<and> c \<le> 57"
  by (simp add: is_digit_def digit_value_def)

definition digits_value :: "str \<Rightarrow> nat" where
  "digits_value ds = foldl (\<lambda>a c. 10 * a + (case digit_value c of Some d \<Rightarrow> d | None \<Rightarrow> 0)) 0 ds"

text \<open>
  \<^verbatim>\<open>int(text)\<close>: surrounding white space, a sign, digits with single underscores between
  them, at most 4300 digits.
\<close>

definition int_of_str :: "str \<Rightarrow> int result" where
  "int_of_str s =
     (let t = strip s;
          neg = (take 1 t = [45]);
          u = (if take 1 t = [45] \<or> take 1 t = [43] then drop 1 t else t);
          groups = split_char 95 u;
          ds = concat groups
      in if list_all (\<lambda>g. g \<noteq> [] \<and> list_all is_digit g) groups \<and> length ds \<le> 4300
         then Inr ((if neg then - 1 else 1) * int (digits_value ds))
         else Inl (ValueError (lit ''invalid literal for int() with base 10'')))"

end
