(* ===== verification/Security.thy ===== *)
theory Security
  imports Base64 Sha256 Digits
begin

text \<open>
  The experience registry (\<^verbatim>\<open>app/core/experiences.py\<close>), the signed access tokens
  (\<^verbatim>\<open>app/core/security.py\<close>) and the request dependencies that check them
  (\<^verbatim>\<open>app/api/deps.py\<close>).

  A \<^verbatim>\<open>datetime\<close> in UTC is its number of microseconds since 1970. \<^verbatim>\<open>token_hex(16)\<close> and the clock
  are arguments. Conversions of JSON floats and containers, which no token issued by this
  code holds, and the non-UTF-8 encodings \<^verbatim>\<open>json.loads\<close> detects, are the fields of \<open>runtime\<close>.
\<close>

section \<open>Experiences\<close>

datatype experience_id = MESSY_NOTES | CONTEXT_WORKBENCH | RAG_DEMO | VOICE_DEMO

fun experience_value :: "experience_id \<Rightarrow> str" where
  "experience_value MESSY_NOTES = lit ''messy-notes''"
| "experience_value CONTEXT_WORKBENCH = lit ''context-workbench''"
| "experience_value RAG_DEMO = lit ''rag-demo''"
| "experience_value VOICE_DEMO = lit ''voice-demo''"

fun EXPERIENCE_ROUTES :: "experience_id \<Rightarrow> str" where
  "EXPERIENCE_ROUTES MESSY_NOTES = lit ''/messy-notes''"
| "EXPERIENCE_ROUTES CONTEXT_WORKBENCH = lit ''/context-workbench''"
| "EXPERIENCE_ROUTES RAG_DEMO = lit ''/rag-demo''"
| "EXPERIENCE_ROUTES VOICE_DEMO = lit ''/voice-demo''"

fun EXPERIENCE_LABELS :: "experience_id \<Rightarrow> str" where
  "EXPERIENCE_LABELS MESSY_NOTES = lit ''Messy Notes''"
| "EXPERIENCE_LABELS CONTEXT_WORKBENCH = lit ''Context Workbench''"
| "EXPERIENCE_LABELS RAG_DEMO = lit ''RAG Demo''"
| "EXPERIENCE_LABELS VOICE_DEMO = lit ''Voice Demo''"

fun EXPERIENCE_DESCRIPTIONS :: "experience_id \<Rightarrow> str" where
  "EXPERIENCE_DESCRIPTIONS MESSY_NOTES =
     lit ''Turn pasted text, text files, or extractable PDFs into a structured brief.''"
| "EXPERIENCE_DESCRIPTIONS CONTEXT_WORKBENCH =
     lit ''A source-grounded Context Engine experience powered by reusable domain packs.''"
| "EXPERIENCE_DESCRIPTIONS RAG_DEMO =
     lit ''A retrieval-grounded demo workspace with persona configuration and scoped document setup.''"
| "EXPERIENCE_DESCRIPTIONS VOICE_DEMO =
     lit ''A real-time voice AI advisor that helps employers assess workforce development readiness.''"

definition all_experiences :: "experience_id list" where
  "all_experiences = [MESSY_NOTES, CONTEXT_WORKBENCH, RAG_DEMO, VOICE_DEMO]"

definition not_scoped :: str where
  "not_scoped = lit ''Invitation code is not scoped to a supported experience.''"

definition parse_experience_id :: "str option \<Rightarrow> experience_id result" where
  "parse_experience_id value =
     (case value of
        None \<Rightarrow> Inl (ValueError not_scoped)
      | Some v \<Rightarrow>
          (case find (\<lambda>e. experience_value e = v) all_experiences of
             None \<Rightarrow> Inl (ValueError not_scoped)
           | Some e \<Rightarrow> Inr e))"

lemma in_all_experiences [simp]: "e \<in> set all_experiences"
  by (cases e) (simp_all add: all_experiences_def)

lemma experience_value_inj [simp]: "experience_value a = experience_value b \<longleftrightarrow> a = b"
  by (cases a; cases b) simp_all

lemma parse_experience_value [simp]: "parse_experience_id (Some (experience_value e)) = Inr e"
  by (cases e) (simp_all add: parse_experience_id_def all_experiences_def)

lemma parse_experience_Inr: "parse_experience_id v = Inr e \<longleftrightarrow> v = Some (experience_value e)"
  by (auto simp: parse_experience_id_def find_Some_iff find_None_iff split: option.splits)

lemma parse_experience_Inl: "parse_experience_id v = Inl e \<Longrightarrow> e = ValueError not_scoped"
  by (auto simp: parse_experience_id_def split: option.splits)

lemma valid_experience_value [simp]: "valid_str (experience_value e)"
  by (cases e) simp_all

section \<open>Dates\<close>

definition min_datetime :: int where "min_datetime = - 62135596800000000"

definition max_datetime :: int where "max_datetime = 253402300799999999"

text \<open>\<^verbatim>\<open>datetime + timedelta(seconds=n)\<close>\<close>

definition add_seconds :: "int \<Rightarrow> int \<Rightarrow> int result" where
  "add_seconds t n =
     (if abs n > 86399999999999 then Inl (OverflowError (lit ''timedelta''))
      else let u = t + n * 1000000 in
        if u < min_datetime \<or> max_datetime < u then Inl (OverflowError (lit ''date value out of range''))
        else Inr u)"

text \<open>
  \<^verbatim>\<open>int(t.timestamp())\<close>: whole seconds, towards zero. The float in between is exact enough
  for this until the year 2514.
\<close>

definition int_timestamp :: "int \<Rightarrow> int" where
  "int_timestamp t = (if 0 \<le> t then t div 1000000 else - (- t div 1000000))"

text \<open>\<^verbatim>\<open>datetime.fromtimestamp(n, tz=UTC)\<close> on a 64-bit Linux \<^verbatim>\<open>time_t\<close>.\<close>

definition from_timestamp :: "int \<Rightarrow> int result" where
  "from_timestamp n =
     (if n < - (2 ^ 63) \<or> 2 ^ 63 \<le> n then Inl (OverflowError (lit ''timestamp out of range for platform time_t''))
      else if n < - 67768040609740800 \<or> 67768036191676799 < n then
        Inl (OSError (lit ''Value too large for defined data type''))
      else let t = n * 1000000 in
        if t < min_datetime \<or> max_datetime < t then Inl (ValueError (lit ''year is out of range''))
        else Inr t)"

section \<open>Settings and claims\<close>

record security_settings =
  access_token_signing_key :: str
  access_token_ttl_seconds :: int
  admin_api_secret :: str

record access_token_claims =
  token_id :: str
  invitation_code_id :: int
  claim_code :: str
  claim_experience_id :: experience_id
  issued_at :: int
  expires_at :: int

text \<open>Parts of the Python runtime that only a payload this code never writes reaches.\<close>

record runtime =
  rt_str :: "json \<Rightarrow> str"
  rt_float_int :: "str \<Rightarrow> int result"
  rt_decode :: "bytes \<Rightarrow> str option"

section \<open>Signing\<close>

definition invalid_token :: error where
  "invalid_token = HTTPException 401 (lit ''Invalid access token.'')"

definition expired_token :: error where
  "expired_token = HTTPException 401 (lit ''Access token expired.'')"

text \<open>\<^verbatim>\<open>payload_segment.encode("ascii")\<close> raises on anything else.\<close>

definition sign :: "str \<Rightarrow> str \<Rightarrow> str result" where
  "sign payload_segment secret =
     (if ascii payload_segment
      then Inr (b64url_encode (hmac_sha256 (utf8_encode secret) payload_segment))
      else Inl UnicodeEncodeError)"

text \<open>\<^verbatim>\<open>hmac.compare_digest\<close> on two strings.\<close>

definition compare_digest :: "str \<Rightarrow> str \<Rightarrow> bool result" where
  "compare_digest a b =
     (if ascii a \<and> ascii b then Inr (a = b)
      else Inl (TypeError (lit ''comparing strings with non-ASCII characters is not supported'')))"

definition token_payload :: "str \<Rightarrow> int \<Rightarrow> str \<Rightarrow> experience_id \<Rightarrow> int \<Rightarrow> int \<Rightarrow> json" where
  "token_payload jti invitation_id code experience issued expires =
     JObj [(lit ''jti'', JStr jti), (lit ''invitation_code_id'', JInt invitation_id),
           (lit ''code'', JStr code), (lit ''experience_id'', JStr (experience_value experience)),
           (lit ''iat'', JInt (int_timestamp issued)), (lit ''exp'', JInt (int_timestamp expires))]"

definition create_access_token ::
  "security_settings \<Rightarrow> int \<Rightarrow> str \<Rightarrow> experience_id \<Rightarrow> str \<Rightarrow> int \<Rightarrow> (str \<times> access_token_claims) result"
where
  "create_access_token settings invitation_id code experience jti issued =
     rbind (add_seconds issued (access_token_ttl_seconds settings)) (\<lambda>expires.
       let payload_segment = b64url_encode (utf8_encode (dumps Compact
             (sort_keys (token_payload jti invitation_id code experience issued expires))))
       in rbind (sign payload_segment (access_token_signing_key settings)) (\<lambda>signature.
            Inr (payload_segment @ 46 # signature,
                 \<lparr> token_id = jti, invitation_code_id = invitation_id, claim_code = code,
                   claim_experience_id = experience, issued_at = issued, expires_at = expires \<rparr>)))"

section \<open>Verifying\<close>

text \<open>
  \<^verbatim>\<open>json.detect_encoding\<close>: byte order marks and zero bytes announce another encoding
  than UTF-8.
\<close>

definition other_encoding :: "bytes \<Rightarrow> bool" where
  "other_encoding b \<longleftrightarrow>
     take 2 b = [254, 255] \<or> take 2 b = [255, 254] \<or> take 3 b = [239, 187, 191]
     \<or> take 4 b = [0, 0, 254, 255]
     \<or> (4 \<le> length b \<and> (b ! 0 = 0 \<or> b ! 1 = 0)) \<or> (length b = 2 \<and> (b ! 0 = 0 \<or> b ! 1 = 0))"

text \<open>Bytes that are not UTF-8 may still hold encoded surrogates, which the decoder lets pass.\<close>

definition loads_bytes :: "runtime \<Rightarrow> bytes \<Rightarrow> json option" where
  "loads_bytes rt b =
     Option.bind (if other_encoding b then rt_decode rt b
                  else (case utf8_decode b of None \<Rightarrow> rt_decode rt b | Some s \<Rightarrow> Some s)) loads"

text \<open>\<^verbatim>\<open>payload[key]\<close>\<close>

definition get_item :: "json \<Rightarrow> str \<Rightarrow> json result" where
  "get_item payload key =
     (case payload of
        JObj kvs \<Rightarrow> (case map_of kvs key of None \<Rightarrow> Inl (KeyError key) | Some v \<Rightarrow> Inr v)
      | _ \<Rightarrow> Inl (TypeError (lit ''not subscriptable'')))"

definition py_str :: "runtime \<Rightarrow> json \<Rightarrow> str" where
  "py_str rt v =
     (case v of
        JStr s \<Rightarrow> s
      | JInt i \<Rightarrow> show_int i
      | JBool b \<Rightarrow> if b then lit ''True'' else lit ''False''
      | JNull \<Rightarrow> lit ''None''
      | _ \<Rightarrow> rt_str rt v)"

definition py_int :: "runtime \<Rightarrow> json \<Rightarrow> int result" where
  "py_int rt v =
     (case v of
        JInt i \<Rightarrow> Inr i
      | JBool b \<Rightarrow> Inr (if b then 1 else 0)
      | JStr s \<Rightarrow> int_of_str s
      | JFloat t \<Rightarrow> rt_float_int rt t
      | _ \<Rightarrow> Inl (TypeError (lit ''int() argument'')))"

definition claims_of_payload :: "runtime \<Rightarrow> json \<Rightarrow> access_token_claims result" where
  "claims_of_payload rt payload =
     rbind (get_item payload (lit ''jti'')) (\<lambda>jti.
     rbind (rbind (get_item payload (lit ''invitation_code_id'')) (py_int rt)) (\<lambda>iid.
     rbind (get_item payload (lit ''code'')) (\<lambda>code.
     rbind (rbind (get_item payload (lit ''experience_id'')) (\<lambda>e. parse_experience_id (Some (py_str rt e)))) (\<lambda>exper.
     rbind (rbind (rbind (get_item payload (lit ''iat'')) (py_int rt)) from_timestamp) (\<lambda>iat.
     rbind (rbind (rbind (get_item payload (lit ''exp'')) (py_int rt)) from_timestamp) (\<lambda>exp.
       Inr \<lparr> token_id = py_str rt jti, invitation_code_id = iid, claim_code = py_str rt code,
             claim_experience_id = exper, issued_at = iat, expires_at = exp \<rparr>))))))"

text \<open>The \<^verbatim>\<open>try\<close> block: \<^verbatim>\<open>OverflowError\<close> and \<^verbatim>\<open>OSError\<close> are not among the caught classes.\<close>

fun caught :: "error \<Rightarrow> bool" where
  "caught (KeyError _) = True"
| "caught (TypeError _) = True"
| "caught (ValueError _) = True"
| "caught UnicodeDecodeError = True"
| "caught UnicodeEncodeError = True"
| "caught _ = False"

definition decode_claims :: "runtime \<Rightarrow> str \<Rightarrow> access_token_claims result" where
  "decode_claims rt payload_segment =
     (case rbind (case b64url_decode payload_segment of
                    None \<Rightarrow> Inl (ValueError (lit ''Incorrect padding''))
                  | Some raw \<Rightarrow> (case loads_bytes rt raw of
                      None \<Rightarrow> Inl (ValueError (lit ''JSONDecodeError''))
                    | Some payload \<Rightarrow> Inr payload)) (claims_of_payload rt) of
        Inl e \<Rightarrow> Inl (if caught e then invalid_token else e)
      | Inr claims \<Rightarrow> Inr claims)"

definition verify_access_token ::
  "runtime \<Rightarrow> str \<Rightarrow> security_settings \<Rightarrow> int \<Rightarrow> access_token_claims result"
where
  "verify_access_token rt token settings clock =
     (case split_once 46 token of
        None \<Rightarrow> Inl invalid_token
      | Some (payload_segment, signature_segment) \<Rightarrow>
          rbind (sign payload_segment (access_token_signing_key settings)) (\<lambda>expected.
          rbind (compare_digest signature_segment expected) (\<lambda>same.
            if \<not> same then Inl invalid_token
            else rbind (decode_claims rt payload_segment) (\<lambda>claims.
              if expires_at claims \<le> clock then Inl expired_token else Inr claims))))"

definition hash_ip_address :: "str option \<Rightarrow> security_settings \<Rightarrow> str option" where
  "hash_ip_address ip settings =
     (case ip of
        None \<Rightarrow> None
      | Some a \<Rightarrow> if a = [] then None
                   else Some (sha256_hexdigest (utf8_encode (access_token_signing_key settings @ 58 # a))))"

section \<open>Request dependencies\<close>

text \<open>The parsed Authorization header: scheme and credentials, if there is one.\<close>

definition get_current_access_token ::
  "runtime \<Rightarrow> (str \<times> str) option \<Rightarrow> security_settings \<Rightarrow> int \<Rightarrow> access_token_claims result"
where
  "get_current_access_token rt credentials settings clock =
     (case credentials of
        None \<Rightarrow> Inl (HTTPException 401 (lit ''Access token required.''))
      | Some (scheme, token) \<Rightarrow>
          if lower scheme \<noteq> lit ''bearer''
          then Inl (HTTPException 401 (lit ''Access token required.''))
          else verify_access_token rt token settings clock)"

definition require_experience_access :: "experience_id \<Rightarrow> access_token_claims \<Rightarrow> access_token_claims result" where
  "require_experience_access experience claims =
     (if claim_experience_id claims \<noteq> experience
      then Inl (HTTPException 403 (lit ''Access token is not valid for this experience.''))
      else Inr claims)"

definition require_admin_secret :: "str option \<Rightarrow> security_settings \<Rightarrow> unit result" where
  "require_admin_secret header settings =
     (if \<not> truthy header then Inl (HTTPException 401 (lit ''Invalid admin secret.''))
      else rbind (compare_digest (the header) (admin_api_secret settings)) (\<lambda>same.
        if same then Inr () else Inl (HTTPException 401 (lit ''Invalid admin secret.''))))"

section \<open>What a token proves\<close>

text \<open>The tokens \<^verbatim>\<open>_sign\<close> vouches for.\<close>

definition signed_token :: "str \<Rightarrow> str \<Rightarrow> bool" where
  "signed_token secret token =
     (case split_once 46 token of
        None \<Rightarrow> False
      | Some (seg, sig) \<Rightarrow> ascii seg \<and> sign seg secret = Inr sig)"

lemma byte_list_hmac: "byte_list (hmac_sha256 k m)"
  by (auto simp: byte_list_def list_all_iff dest: hmac_sha256_bytes)

lemma ascii_b64url: "byte_list bs \<Longrightarrow> ascii (b64url_encode bs)"
  using b64url_facts(2) by (auto simp: ascii_def list_all_iff)

lemma sign_ascii: "ascii seg \<Longrightarrow> \<exists>sig. sign seg k = Inr sig \<and> ascii sig"
  by (simp add: sign_def ascii_b64url byte_list_hmac)

lemma sign_Inr_ascii: "sign seg k = Inr sig \<Longrightarrow> ascii seg \<and> ascii sig"
  by (auto simp: sign_def ascii_b64url byte_list_hmac split: if_splits)

lemma signed_token_ascii: "signed_token secret token \<Longrightarrow> ascii token"
proof -
  assume "signed_token secret token"
  then obtain seg sig where t: "split_once 46 token = Some (seg, sig)" "ascii seg" "sign seg secret = Inr sig"
    by (auto simp: signed_token_def split: option.splits)
  moreover have "ascii sig" using sign_Inr_ascii [OF t(3)] ..
  ultimately show ?thesis using split_once_Some [OF t(1)] by simp
qed

lemma verify_signed:
  assumes "split_once 46 token = Some (seg, sig)" and "ascii seg" and "sign seg (access_token_signing_key st) = Inr sig"
  shows "verify_access_token rt token st clock =
     rbind (decode_claims rt seg) (\<lambda>c. if expires_at c \<le> clock then Inl expired_token else Inr c)"
proof -
  have "ascii sig" using sign_Inr_ascii [OF assms(3)] ..
  then show ?thesis using assms by (simp add: verify_access_token_def compare_digest_def)
qed

lemma verify_unsigned:
  assumes "\<not> signed_token (access_token_signing_key st) token"
  shows "verify_access_token rt token st clock =
     Inl (case split_once 46 token of
            None \<Rightarrow> invalid_token
          | Some (seg, sig) \<Rightarrow>
              if \<not> ascii seg then UnicodeEncodeError
              else if \<not> ascii sig then TypeError (lit ''comparing strings with non-ASCII characters is not supported'')
              else invalid_token)"
proof (cases "split_once 46 token")
  case (Some p)
  then obtain seg sig where t: "split_once 46 token = Some (seg, sig)" by (cases p) simp
  show ?thesis
  proof (cases "ascii seg")
    case True
    then obtain e where "sign seg (access_token_signing_key st) = Inr e" "ascii e" using sign_ascii by blast
    then show ?thesis using assms t True
      by (auto simp: verify_access_token_def signed_token_def compare_digest_def)
  qed (simp add: t verify_access_token_def sign_def)
qed (simp add: verify_access_token_def)

lemma verify_Inr:
  assumes "verify_access_token rt token st clock = Inr c"
  shows "signed_token (access_token_signing_key st) token" and "clock < expires_at c"
    and "decode_claims rt (takeWhile (\<lambda>x. x \<noteq> 46) token) = Inr c"
proof -
  show s: "signed_token (access_token_signing_key st) token"
    using assms verify_unsigned by fastforce
  then obtain seg sig where t: "split_once 46 token = Some (seg, sig)" "ascii seg"
    "sign seg (access_token_signing_key st) = Inr sig"
    by (auto simp: signed_token_def split: option.splits)
  have "token = seg @ 46 # sig" "46 \<notin> set seg" using split_once_Some [OF t(1)] by auto
  then have "takeWhile (\<lambda>x. x \<noteq> 46) token = seg" by (simp add: takeWhile_append)
  moreover have "rbind (decode_claims rt seg) (\<lambda>c. if expires_at c \<le> clock then Inl expired_token else Inr c) = Inr c"
    using assms verify_signed [OF t] by simp
  ultimately show "clock < expires_at c" "decode_claims rt (takeWhile (\<lambda>x. x \<noteq> 46) token) = Inr c"
    by (auto simp: rbind_eq_Inr split: if_splits)
qed

section \<open>Tokens this code issues\<close>

definition sorted_payload :: "str \<Rightarrow> int \<Rightarrow> str \<Rightarrow> experience_id \<Rightarrow> int \<Rightarrow> int \<Rightarrow> json" where
  "sorted_payload jti iid code exper iat exp =
     JObj [(lit ''code'', JStr code), (lit ''exp'', JInt exp),
           (lit ''experience_id'', JStr (experience_value exper)), (lit ''iat'', JInt iat),
           (lit ''invitation_code_id'', JInt iid), (lit ''jti'', JStr jti)]"

lemma sort_token_payload:
  "sort_keys (token_payload jti iid code exper issued expires) =
     sorted_payload jti iid code exper (int_timestamp issued) (int_timestamp expires)"
  by (simp add: token_payload_def sorted_payload_def sort_key_def insort_key.simps lit_def)

lemma sorted_payload_ok: "valid_str jti \<Longrightarrow> valid_str code \<Longrightarrow> json_ok (sorted_payload jti iid code exper iat exp)"
  by (simp add: sorted_payload_def)

lemma payload_bytes: "valid_str jti \<Longrightarrow> valid_str code \<Longrightarrow>
   byte_list (utf8_encode (dumps Compact (sorted_payload jti iid code exper iat exp)))"
  by (rule byte_list_utf8_encode [OF ascii_valid [OF ascii_dumps [OF sorted_payload_ok]]])

lemma utf8_encode_ascii: "ascii s \<Longrightarrow> utf8_encode s = s"
  by (induction s) (auto simp: encode_cp_def)

lemma loads_bytes_payload:
  assumes "valid_str jti" and "valid_str code"
  shows "loads_bytes rt (utf8_encode (dumps Compact (sorted_payload jti iid code exper iat exp)))
     = Some (sorted_payload jti iid code exper iat exp)"
proof -
  let ?p = "sorted_payload jti iid code exper iat exp"
  have ok: "json_ok ?p" by (rule sorted_payload_ok [OF assms])
  obtain r where r: "dumps Compact ?p = [123, 34, 99, 111] @ r"
    by (simp add: sorted_payload_def dump_str_def lit_def escape_in_def escape_cp_def)
  have "ascii (dumps Compact ?p)" by (rule ascii_dumps [OF ok])
  then have "\<not> other_encoding (utf8_encode (dumps Compact ?p))"
    by (simp add: utf8_encode_ascii r other_encoding_def encode_cp_def)
  then show ?thesis
    using json_utf8.chain_dec_enc [OF ok] by (auto simp: loads_bytes_def split: option.splits bind_splits)
qed

lemma decode_issued:
  assumes "valid_str jti" and "valid_str code"
    and "from_timestamp iat = Inr iat'" and "from_timestamp exp = Inr exp'"
  shows "decode_claims rt (b64url_encode (utf8_encode (dumps Compact (sorted_payload jti iid code exper iat exp))))
     = Inr \<lparr> token_id = jti, invitation_code_id = iid, claim_code = code,
             claim_experience_id = exper, issued_at = iat', expires_at = exp' \<rparr>"
proof -
  have "valid_str (dumps Compact (sorted_payload jti iid code exper iat exp))"
    by (intro ascii_valid ascii_dumps sorted_payload_ok assms)
  then have "b64url_decode (b64url_encode (utf8_encode (dumps Compact (sorted_payload jti iid code exper iat exp))))
      = Some (utf8_encode (dumps Compact (sorted_payload jti iid code exper iat exp)))"
    by (intro b64url.dec_enc byte_list_utf8_encode)
  then show ?thesis
    using assms by (simp add: decode_claims_def loads_bytes_payload)
      (simp add: claims_of_payload_def sorted_payload_def get_item_def py_str_def py_int_def)
qed

lemma from_int_timestamp:
  assumes "0 \<le> t" and "t \<le> max_datetime"
  shows "from_timestamp (int_timestamp t) = Inr (t div 1000000 * 1000000)"
proof -
  have "0 \<le> t div 1000000" "t div 1000000 \<le> 253402300799" "t div 1000000 * 1000000 \<le> t"
    using assms div_mult_mod_eq [of t 1000000] by (auto simp: max_datetime_def)
  then show ?thesis using assms
    by (simp add: from_timestamp_def int_timestamp_def max_datetime_def min_datetime_def Let_def)
qed

lemma add_seconds_Inr: "add_seconds t n = Inr u \<longleftrightarrow>
   abs n \<le> 86399999999999 \<and> u = t + n * 1000000 \<and> min_datetime \<le> u \<and> u \<le> max_datetime"
  by (auto simp: add_seconds_def Let_def)

lemma create_access_token_Inr:
  assumes "create_access_token st iid code exper jti issued = Inr (token, claims)"
    and "valid_str jti" and "valid_str code"
  shows "\<exists>expires sig. add_seconds issued (access_token_ttl_seconds st) = Inr expires
     \<and> claims = \<lparr> token_id = jti, invitation_code_id = iid, claim_code = code,
           claim_experience_id = exper, issued_at = issued, expires_at = expires \<rparr>
     \<and> split_once 46 token = Some (b64url_encode (utf8_encode (dumps Compact
           (sorted_payload jti iid code exper (int_timestamp issued) (int_timestamp expires)))), sig)
     \<and> ascii (b64url_encode (utf8_encode (dumps Compact
           (sorted_payload jti iid code exper (int_timestamp issued) (int_timestamp expires)))))
     \<and> sign (b64url_encode (utf8_encode (dumps Compact
           (sorted_payload jti iid code exper (int_timestamp issued) (int_timestamp expires)))))
         (access_token_signing_key st) = Inr sig"
proof -
  obtain expires where e: "add_seconds issued (access_token_ttl_seconds st) = Inr expires"
    using assms(1) by (auto simp: create_access_token_def rbind_eq_Inr)
  let ?p = "utf8_encode (dumps Compact
     (sorted_payload jti iid code exper (int_timestamp issued) (int_timestamp expires)))"
  have b: "byte_list ?p"
    by (rule payload_bytes [OF assms(2,3)])
  then have "46 \<notin> set (b64url_encode ?p)" using b64url_facts(2) by blast
  then show ?thesis using assms(1) e ascii_b64url [OF b]
    by (auto simp: create_access_token_def sort_token_payload rbind_eq_Inr Let_def split_once_append)
qed

lemma create_access_token_total:
  assumes "valid_str jti" and "valid_str code" and "add_seconds issued (access_token_ttl_seconds st) = Inr expires"
  shows "\<exists>token. create_access_token st iid code exper jti issued = Inr (token,
     \<lparr> token_id = jti, invitation_code_id = iid, claim_code = code,
        claim_experience_id = exper, issued_at = issued, expires_at = expires \<rparr>)"
proof -
  have "byte_list (utf8_encode (dumps Compact
      (sorted_payload jti iid code exper (int_timestamp issued) (int_timestamp expires))))"
    by (rule payload_bytes [OF assms(1,2)])
  then obtain sig where "sign (b64url_encode (utf8_encode (dumps Compact
      (sorted_payload jti iid code exper (int_timestamp issued) (int_timestamp expires)))))
      (access_token_signing_key st) = Inr sig"
    using sign_ascii [OF ascii_b64url] by blast
  then show ?thesis using assms(3) by (simp add: create_access_token_def sort_token_payload Let_def)
qed

section \<open>Properties\<close>

definition truncate_seconds :: "int \<Rightarrow> int" where
  "truncate_seconds t = t div 1000000 * 1000000"

lemma verify_issued:
  assumes "create_access_token st iid code exper jti issued = Inr (token, claims)"
    and "valid_str jti" and "valid_str code" and "0 \<le> issued" and "0 \<le> access_token_ttl_seconds st"
  shows "verify_access_token rt token st clock =
     (if truncate_seconds (expires_at claims) \<le> clock then Inl expired_token
      else Inr (claims\<lparr> issued_at := truncate_seconds issued,
                        expires_at := truncate_seconds (expires_at claims) \<rparr>))"
proof -
  obtain expires sig where e: "add_seconds issued (access_token_ttl_seconds st) = Inr expires"
    and c: "claims = \<lparr> token_id = jti, invitation_code_id = iid, claim_code = code,
           claim_experience_id = exper, issued_at = issued, expires_at = expires \<rparr>"
    and t: "split_once 46 token = Some (b64url_encode (utf8_encode (dumps Compact
           (sorted_payload jti iid code exper (int_timestamp issued) (int_timestamp expires)))), sig)"
      "ascii (b64url_encode (utf8_encode (dumps Compact
           (sorted_payload jti iid code exper (int_timestamp issued) (int_timestamp expires)))))"
      "sign (b64url_encode (utf8_encode (dumps Compact
           (sorted_payload jti iid code exper (int_timestamp issued) (int_timestamp expires)))))
         (access_token_signing_key st) = Inr sig"
    using create_access_token_Inr [OF assms(1-3)] by blast
  have "0 \<le> expires" "issued \<le> max_datetime" "expires \<le> max_datetime"
    using e assms(4,5) by (auto simp: add_seconds_Inr)
  then show ?thesis
    using assms(4) decode_issued [OF assms(2,3) from_int_timestamp from_int_timestamp]
    by (simp add: verify_signed [OF t] c truncate_seconds_def)
qed

text \<open>
  C6: A token issued at a time since 1970 is verified with the same settings: until its
  expiry, cut to whole seconds, the claims come back as issued with both times cut to whole
  seconds, and from then on it is refused as expired.
\<close>

theorem token_round_trip:
  assumes "create_access_token st iid code exper jti issued = Inr (token, claims)"
    and "valid_str jti" and "valid_str code" and "0 \<le> issued" and "0 \<le> access_token_ttl_seconds st"
  shows "verify_access_token rt token st clock =
     (if truncate_seconds (expires_at claims) \<le> clock then Inl expired_token
      else Inr (claims\<lparr> issued_at := truncate_seconds issued,
                        expires_at := truncate_seconds (expires_at claims) \<rparr>))"
  by (rule verify_issued [OF assms])

definition demo_settings :: security_settings where
  "demo_settings = \<lparr> access_token_signing_key = lit ''key'', access_token_ttl_seconds = 60,
     admin_api_secret = lit ''admin'' \<rparr>"

definition no_runtime :: runtime where
  "no_runtime = \<lparr> rt_str = \<lambda>_. [], rt_float_int = \<lambda>_. Inl (ValueError []), rt_decode = \<lambda>_. None \<rparr>"

lemma demo_created:
  "\<exists>token. create_access_token demo_settings 7 (lit ''A'') RAG_DEMO (lit ''j'') 1500000
     = Inr (token, \<lparr> token_id = lit ''j'', invitation_code_id = 7, claim_code = lit ''A'',
         claim_experience_id = RAG_DEMO, issued_at = 1500000, expires_at = 61500000 \<rparr>)"
  by (rule create_access_token_total)
    (simp_all add: add_seconds_def demo_settings_def min_datetime_def max_datetime_def)

theorem token_round_trip_witness:
  "\<exists>token claims. create_access_token demo_settings 7 (lit ''A'') RAG_DEMO (lit ''j'') 1500000 = Inr (token, claims)
     \<and> verify_access_token no_runtime token demo_settings 60999999
       = Inr (claims\<lparr> issued_at := 1000000, expires_at := 61000000 \<rparr>)
     \<and> verify_access_token no_runtime token demo_settings 61000000 = Inl expired_token"
proof -
  obtain token claims where c: "create_access_token demo_settings 7 (lit ''A'') RAG_DEMO (lit ''j'') 1500000 = Inr (token, claims)"
    and e: "expires_at claims = 61500000" using demo_created by auto
  have "0 \<le> access_token_ttl_seconds demo_settings" by (simp add: demo_settings_def)
  then show ?thesis using token_round_trip [OF c] c e by (simp add: truncate_seconds_def)
qed

text \<open>
  C7: A request gets through an experience's guard only with a bearer token whose signature
  is the HMAC of its payload under the signing key, whose decoded payload names that
  experience, and whose expiry lies in the future; the claims handed on are the decoded ones.
\<close>

theorem guard_requires_signed_live_token:
  assumes "rbind (get_current_access_token rt credentials st clock) (require_experience_access exper) = Inr claims"
  shows "\<exists>scheme token. credentials = Some (scheme, token) \<and> lower scheme = lit ''bearer''
     \<and> signed_token (access_token_signing_key st) token
     \<and> decode_claims rt (takeWhile (\<lambda>x. x \<noteq> 46) token) = Inr claims
     \<and> claim_experience_id claims = exper \<and> clock < expires_at claims"
  using assms verify_Inr
  by (fastforce simp: get_current_access_token_def require_experience_access_def rbind_eq_Inr
      split: option.splits if_splits)

theorem guard_requires_signed_live_token_witness:
  "\<exists>token claims. rbind (get_current_access_token no_runtime (Some (lit ''Bearer'', token)) demo_settings 5)
      (require_experience_access RAG_DEMO) = Inr claims
    \<and> claim_experience_id claims = RAG_DEMO \<and> 5 < expires_at claims"
proof -
  obtain token where c: "create_access_token demo_settings 7 (lit ''A'') RAG_DEMO (lit ''j'') 1500000
     = Inr (token, \<lparr> token_id = lit ''j'', invitation_code_id = 7, claim_code = lit ''A'',
         claim_experience_id = RAG_DEMO, issued_at = 1500000, expires_at = 61500000 \<rparr>)"
    using demo_created by blast
  let ?c = "\<lparr> token_id = lit ''j'', invitation_code_id = 7, claim_code = lit ''A'',
         claim_experience_id = RAG_DEMO, issued_at = 1000000, expires_at = 61000000 \<rparr>"
  have "verify_access_token no_runtime token demo_settings 5 = Inr ?c"
    using verify_issued [OF c] by (simp add: demo_settings_def truncate_seconds_def)
  moreover have "lower (lit ''Bearer'') = lit ''bearer''" by code_simp
  ultimately have r: "rbind (get_current_access_token no_runtime (Some (lit ''Bearer'', token)) demo_settings 5)
      (require_experience_access RAG_DEMO) = Inr ?c"
    by (simp add: get_current_access_token_def require_experience_access_def)
  show ?thesis using guard_requires_signed_live_token [OF r] r by blast
qed

text \<open>
  A token that is not signed with the key is always refused, with 401 when it has no dot
  or is ASCII. A token with a dot and a non-ASCII character is not answered with 401: the
  uncaught UnicodeEncodeError or TypeError of the signature check escapes the handler.
\<close>

theorem unsigned_token_refused:
  assumes "\<not> signed_token (access_token_signing_key st) token"
  shows "verify_access_token rt token st clock =
     Inl (if 46 \<notin> set token \<or> ascii token then HTTPException 401 (lit ''Invalid access token.'')
          else if ascii (takeWhile (\<lambda>x. x \<noteq> 46) token)
          then TypeError (lit ''comparing strings with non-ASCII characters is not supported'')
          else UnicodeEncodeError)"
proof (cases "split_once 46 token")
  case None
  then have "46 \<notin> set token" using split_once_None by blast
  then show ?thesis using verify_unsigned [OF assms] None by (simp add: invalid_token_def)
next
  case (Some p)
  then obtain seg sig where p: "p = (seg, sig)" by fastforce
  have t: "token = seg @ 46 # sig" "46 \<notin> set seg" using split_once_Some Some p by auto
  then have "takeWhile (\<lambda>x. x \<noteq> 46) token = seg" by (simp add: takeWhile_append)
  then show ?thesis using verify_unsigned [OF assms] Some p t by (simp add: invalid_token_def)
qed

theorem unsigned_token_refused_witness:
  "verify_access_token no_runtime [97, 46, 233] demo_settings 0
     = Inl (TypeError (lit ''comparing strings with non-ASCII characters is not supported''))
   \<and> verify_access_token no_runtime [233, 46, 97] demo_settings 0 = Inl UnicodeEncodeError"
proof -
  have "\<not> signed_token k [97, 46, 233]" "\<not> signed_token k [233, 46, 97]" for k
    using signed_token_ascii [of k] by force+
  then show ?thesis using unsigned_token_refused by (simp add: numeral_eq_iff)
qed

end
