(* ===== verification/Access.thy ===== *)
theory Access
  imports Security
begin

text \<open>
  Invitation storage (\<^verbatim>\<open>app/models/invitation.py\<close>), the public access endpoints
  (\<^verbatim>\<open>app/api/routes/access.py\<close>) with their request schemas (\<^verbatim>\<open>app/schemas/access.py\<close>), and the
  guardrail summary they return (\<^verbatim>\<open>app/core/phase1.py\<close>).

  The three tables form \<open>invite_db\<close>, with the identity counters of the database. A handler
  takes the committed state and returns its response or the exception it raises, together
  with the committed state it leaves. Redemption is in two parts, \<open>redeem_load\<close> (the query
  and its checks) and \<open>redeem_commit\<close> (the writes of the loaded row), because the database
  commits only the second and another request may run in between.
\<close>

section \<open>Tables\<close>

record invitation_code =
  ic_id :: int
  ic_code :: str
  ic_label :: "str option"
  ic_is_active :: bool
  ic_max_uses :: "int option"
  ic_use_count :: int
  ic_created_at :: int
  ic_last_used_at :: "int option"
  ic_request_id :: "int option"

record invitation_redemption =
  rd_id :: int
  rd_code_id :: int
  rd_redeemed_at :: int
  rd_token_id :: str
  rd_user_agent :: "str option"
  rd_ip_hash :: "str option"

record invitation_request =
  rq_id :: int
  rq_name :: str
  rq_email :: str
  rq_label :: "str option"
  rq_reason :: str
  rq_status :: str
  rq_created_at :: int
  rq_user_agent :: "str option"
  rq_ip_hash :: "str option"
  rq_reviewed_at :: "int option"
  rq_reviewer_note :: "str option"
  rq_fulfillment_status :: str
  rq_fulfilled_at :: "int option"
  rq_email_sent_at :: "int option"
  rq_fulfillment_error :: "str option"

record invite_db =
  codes :: "invitation_code list"
  redemptions :: "invitation_redemption list"
  requests :: "invitation_request list"
  next_code_id :: int
  next_redemption_id :: int
  next_request_id :: int

definition empty_invite_db :: invite_db where
  "empty_invite_db = \<lparr> codes = [], redemptions = [], requests = [], next_code_id = 1,
     next_redemption_id = 1, next_request_id = 1 \<rparr>"

text \<open>The relationship \<^verbatim>\<open>InvitationRequest.invitation_codes\<close>.\<close>

definition request_codes :: "invite_db \<Rightarrow> int \<Rightarrow> invitation_code list" where
  "request_codes db r = filter (\<lambda>c. ic_request_id c = Some r) (codes db)"

section \<open>Guardrails\<close>

record phase1_settings =
  max_files_per_run :: int
  max_file_size_bytes :: int
  max_extracted_text_bytes :: int
  max_total_workflow_text_bytes :: int

record phase1_follow_up_policy =
  generated_briefs_per_run :: int
  max_follow_up_questions :: int
  follow_up_scope :: str
  requires_new_run_after_follow_up :: bool

record phase1_guardrails =
  demo_only :: bool
  supported_inputs :: "str list"
  unsupported_inputs :: "str list"
  limits :: phase1_settings
  follow_up_policy :: phase1_follow_up_policy

definition build_phase1_guardrails :: "phase1_settings \<Rightarrow> phase1_guardrails" where
  "build_phase1_guardrails settings =
     \<lparr> demo_only = True,
       supported_inputs = [lit ''pasted text'', lit ''text file upload'', lit ''PDF upload with extractable text''],
       unsupported_inputs = [lit ''images'', lit ''OCR'', lit ''audio/video'', lit ''web lookup''],
       limits = settings,
       follow_up_policy =
         \<lparr> generated_briefs_per_run = 1, max_follow_up_questions = 1,
           follow_up_scope = lit ''Follow-up must be about the generated brief.'',
           requires_new_run_after_follow_up = True \<rparr> \<rparr>"

section \<open>Redeeming a code\<close>

text \<open>
  What the request brings and what is read while it is served: the header and the client
  address, the token id, the two readings of the clock and the database's own time.
\<close>

record request_env =
  user_agent :: "str option"
  client_host :: "str option"
  fresh_jti :: str
  issue_now :: int
  use_now :: int
  db_now :: int

record access_token_response =
  ar_access_token :: str
  ar_token_type :: str
  ar_experience_id :: experience_id
  ar_redirect_path :: str
  ar_expires_at :: int
  ar_phase1 :: phase1_guardrails

definition redeem_request_ok :: "str \<Rightarrow> bool" where
  "redeem_request_ok code \<longleftrightarrow> 1 \<le> length code \<and> length code \<le> 128"

definition redeem_load :: "invite_db \<Rightarrow> str \<Rightarrow> (invitation_code \<times> experience_id) result" where
  "redeem_load db code =
     (case find_row ic_code (strip code) (codes db) of
        None \<Rightarrow> Inl (HTTPException 404 (lit ''Invitation code not found.''))
      | Some ic \<Rightarrow>
          if \<not> ic_is_active ic then Inl (HTTPException 403 (lit ''Invitation code is inactive.''))
          else if (case ic_max_uses ic of None \<Rightarrow> False | Some m \<Rightarrow> m \<le> ic_use_count ic)
          then Inl (HTTPException 403 (lit ''Invitation code has reached its usage limit.''))
          else (case parse_experience_id (ic_label ic) of
                  Inl e \<Rightarrow> Inl (HTTPException 403 (error_text e))
                | Inr exper \<Rightarrow> Inr (ic, exper)))"

definition redeem_commit ::
  "invite_db \<Rightarrow> security_settings \<Rightarrow> request_env \<Rightarrow> invitation_code \<Rightarrow> str \<Rightarrow> invite_db"
where
  "redeem_commit db settings env ic jti =
     db\<lparr> codes := update_row ic_id (ic_id ic)
           (\<lambda>r. r\<lparr> ic_use_count := ic_use_count ic + 1, ic_last_used_at := Some (use_now env) \<rparr>) (codes db),
         redemptions := redemptions db @
           [\<lparr> rd_id = next_redemption_id db, rd_code_id = ic_id ic, rd_redeemed_at = db_now env,
              rd_token_id = jti, rd_user_agent = user_agent env,
              rd_ip_hash = hash_ip_address (client_host env) settings \<rparr>],
         next_redemption_id := next_redemption_id db + 1 \<rparr>"

definition redeem_invitation_code ::
  "invite_db \<Rightarrow> security_settings \<Rightarrow> phase1_settings \<Rightarrow> request_env \<Rightarrow> str
     \<Rightarrow> access_token_response result \<times> invite_db"
where
  "redeem_invitation_code db settings p1 env code =
     (case redeem_load db code of
        Inl e \<Rightarrow> (Inl e, db)
      | Inr (ic, exper) \<Rightarrow>
          (case create_access_token settings (ic_id ic) (ic_code ic) exper (fresh_jti env) (issue_now env) of
             Inl e \<Rightarrow> (Inl e, db)
           | Inr (token, claims) \<Rightarrow>
               (Inr \<lparr> ar_access_token = token, ar_token_type = lit ''bearer'',
                      ar_experience_id = claim_experience_id claims,
                      ar_redirect_path = EXPERIENCE_ROUTES (claim_experience_id claims),
                      ar_expires_at = expires_at claims,
                      ar_phase1 = build_phase1_guardrails p1 \<rparr>,
                redeem_commit db settings env ic (token_id claims))))"

record verification_response =
  vr_status :: str
  vr_token_id :: str
  vr_experience_id :: experience_id
  vr_redirect_path :: str
  vr_expires_at :: int
  vr_phase1 :: phase1_guardrails

definition verify_access :: "access_token_claims \<Rightarrow> phase1_settings \<Rightarrow> verification_response" where
  "verify_access claims p1 =
     \<lparr> vr_status = lit ''ok'', vr_token_id = token_id claims,
       vr_experience_id = claim_experience_id claims,
       vr_redirect_path = EXPERIENCE_ROUTES (claim_experience_id claims),
       vr_expires_at = expires_at claims, vr_phase1 = build_phase1_guardrails p1 \<rparr>"

section \<open>Requesting an invitation\<close>

record invite_request_create =
  p_name :: str
  p_email :: str
  p_experience_id :: experience_id
  p_reason :: str

text \<open>The pattern \<^verbatim>\<open>[^@\s]+@[^@\s]+\.[^@\s]+\<close>, matched against the whole string.\<close>

definition email_ok :: "str \<Rightarrow> bool" where
  "email_ok s =
     (case split_char 64 s of
        [local_part, host] \<Rightarrow>
          local_part \<noteq> [] \<and> list_all (\<lambda>c. \<not> is_space c) s \<and> 46 \<in> set (butlast (tl host))
      | _ \<Rightarrow> False)"

text \<open>
  The length limits come first, on the text as sent; then the three fields are stripped and
  the address is lowered and matched. None is the 422 answer.
\<close>

definition InviteRequestCreate :: "str \<Rightarrow> str \<Rightarrow> experience_id \<Rightarrow> str \<Rightarrow> invite_request_create option" where
  "InviteRequestCreate name email exper reason =
     (if 1 \<le> length name \<and> length name \<le> 255 \<and> 3 \<le> length email \<and> length email \<le> 320
         \<and> 10 \<le> length reason \<and> length reason \<le> 2000 \<and> email_ok (lower (strip email))
      then Some \<lparr> p_name = strip name, p_email = lower (strip email), p_experience_id = exper,
                  p_reason = strip reason \<rparr>
      else None)"

record invite_request_response =
  irr_id :: int
  irr_status :: str
  irr_message :: str

text \<open>The third component is the background task: the request to fulfil.\<close>

definition create_invite_request ::
  "invite_db \<Rightarrow> security_settings \<Rightarrow> request_env \<Rightarrow> invite_request_create
     \<Rightarrow> invite_request_response \<times> invite_db \<times> int"
where
  "create_invite_request db settings env payload =
     (let r = \<lparr> rq_id = next_request_id db, rq_name = p_name payload, rq_email = p_email payload,
                rq_label = Some (experience_value (p_experience_id payload)), rq_reason = p_reason payload,
                rq_status = lit ''submitted'', rq_created_at = db_now env,
                rq_user_agent = user_agent env,
                rq_ip_hash = hash_ip_address (client_host env) settings,
                rq_reviewed_at = None, rq_reviewer_note = None, rq_fulfillment_status = lit ''pending'',
                rq_fulfilled_at = None, rq_email_sent_at = None, rq_fulfillment_error = None \<rparr>
      in (\<lparr> irr_id = rq_id r, irr_status = rq_status r,
            irr_message = lit ''Invite request received. Your invite is being prepared and emailed.'' \<rparr>,
          db\<lparr> requests := requests db @ [r], next_request_id := next_request_id db + 1 \<rparr>,
          rq_id r))"

section \<open>What the intake schema accepts\<close>

lemma split_char_single: "split_char c s = [w] \<longleftrightarrow> s = w \<and> c \<notin> set w"
proof (induction s arbitrary: w)
  case (Cons x s)
  obtain v vs where v: "split_char c s = v # vs" using split_char_not_Nil by (cases "split_char c s") blast+
  show ?case
  proof (cases "x = c")
    case True
    then show ?thesis by (cases w) auto
  next
    case False
    have "vs = [] \<longleftrightarrow> s = v \<and> c \<notin> set v" using Cons.IH [of v] v by simp
    moreover have "split_char c (x # s) = [w] \<longleftrightarrow> vs = [] \<and> w = x # v" using False v by auto
    moreover have "s = v \<longleftrightarrow> w = x # s" if "w = x # v" using that by auto
    moreover have "vs = []" if "w = x # s" "c \<notin> set w" using Cons.IH [of s] v that by simp
    ultimately show ?thesis using False v by (metis list.inject set_ConsD)
  qed
qed auto

lemma split_char_pair: "split_char c s = [a, b] \<longleftrightarrow> s = a @ c # b \<and> c \<notin> set a \<and> c \<notin> set b"
proof (induction s arbitrary: a)
  case (Cons x s)
  show ?case
  proof (cases "x = c")
    case True
    then show ?thesis using split_char_single [of c s b] by (cases a) auto
  next
    case False
    obtain w ws where w: "split_char c s = w # ws" using split_char_not_Nil by (cases "split_char c s") blast+
    show ?thesis
    proof
      assume "split_char c (x # s) = [a, b]"
      then show "x # s = a @ c # b \<and> c \<notin> set a \<and> c \<notin> set b" using False w Cons.IH [of w] by auto
    next
      assume r: "x # s = a @ c # b \<and> c \<notin> set a \<and> c \<notin> set b"
      then obtain a' where "a = x # a'" "s = a' @ c # b" using False by (cases a) auto
      then show "split_char c (x # s) = [a, b]" using False r Cons.IH [of a'] by auto
    qed
  qed
qed auto

lemma inner_dot: "46 \<in> set (butlast (tl h)) \<longleftrightarrow> (\<exists>b d. h = b @ 46 # d \<and> b \<noteq> [] \<and> d \<noteq> [])"
proof
  assume "46 \<in> set (butlast (tl h))"
  then obtain p q where pq: "butlast (tl h) = p @ 46 # q" by (meson split_list)
  then have "tl h \<noteq> []" by auto
  then have "tl h = (p @ 46 # q) @ [last (tl h)]" using pq append_butlast_last_id by metis
  moreover have "h = hd h # tl h" using \<open>tl h \<noteq> []\<close> by (cases h) auto
  ultimately have "h = (hd h # p) @ 46 # (q @ [last (tl h)])" by simp
  then show "\<exists>b d. h = b @ 46 # d \<and> b \<noteq> [] \<and> d \<noteq> []" by blast
next
  assume "\<exists>b d. h = b @ 46 # d \<and> b \<noteq> [] \<and> d \<noteq> []"
  then obtain b d where "h = b @ 46 # d" "b \<noteq> []" "d \<noteq> []" by blast
  then show "46 \<in> set (butlast (tl h))" by (cases b) (auto simp: butlast_append)
qed

text \<open>
  The address check accepts exactly the strings its pattern describes: a local part, an
  at sign, and a host with an inner dot, with no white space and no other at sign.
\<close>

theorem email_ok_is_the_pattern:
  "email_ok s \<longleftrightarrow>
     (\<exists>a b d. s = a @ 64 # b @ 46 # d \<and> a \<noteq> [] \<and> b \<noteq> [] \<and> d \<noteq> []
        \<and> list_all (\<lambda>c. c \<noteq> 64 \<and> \<not> is_space c) (a @ b @ d))"
proof -
  have sp: "\<not> is_space 64" "\<not> is_space 46" by (simp_all add: is_space_def)
  have "email_ok s \<longleftrightarrow> (\<exists>a h. split_char 64 s = [a, h] \<and> a \<noteq> [] \<and> list_all (\<lambda>c. \<not> is_space c) s
      \<and> 46 \<in> set (butlast (tl h)))"
    by (auto simp: email_ok_def split: list.splits)
  also have "\<dots> \<longleftrightarrow> (\<exists>a b d. split_char 64 s = [a, b @ 46 # d] \<and> a \<noteq> [] \<and> b \<noteq> [] \<and> d \<noteq> []
      \<and> list_all (\<lambda>c. \<not> is_space c) s)"
    by (simp add: inner_dot) blast
  also have "\<dots> \<longleftrightarrow> (\<exists>a b d. s = a @ 64 # b @ 46 # d \<and> a \<noteq> [] \<and> b \<noteq> [] \<and> d \<noteq> []
        \<and> list_all (\<lambda>c. c \<noteq> 64 \<and> \<not> is_space c) (a @ b @ d))"
    by (rule arg_cong [of _ _ Ex], rule ext)+ (auto simp: split_char_pair list_all_iff sp)
  finally show ?thesis .
qed

text \<open>
  An accepted intake has stripped fields and a lower-case address of that pattern, and
  the length limits hold before stripping only: a name and a reason made of blanks pass and
  are stored empty.
\<close>

theorem intake_limits_precede_stripping:
  assumes "1 \<le> n" and "n \<le> 255" and "10 \<le> k" and "k \<le> 2000"
    and "3 \<le> length email" and "length email \<le> 320" and "email_ok (lower (strip email))"
  shows "InviteRequestCreate (replicate n 32) email exper (replicate k 32) =
     Some \<lparr> p_name = [], p_email = lower (strip email), p_experience_id = exper, p_reason = [] \<rparr>"
proof -
  have "strip (replicate m 32) = []" for m by (simp add: strip_eq_Nil_iff is_space_def)
  then show ?thesis using assms by (simp add: InviteRequestCreate_def)
qed

theorem intake_limits_precede_stripping_witness:
  "InviteRequestCreate (replicate 1 32) (lit '' A@b.c'') RAG_DEMO (replicate 10 32) =
     Some \<lparr> p_name = [], p_email = lit ''a@b.c'', p_experience_id = RAG_DEMO, p_reason = [] \<rparr>"
proof -
  have 1: "lower (strip (lit '' A@b.c'')) = lit ''a@b.c''" by code_simp
  have 2: "email_ok (lit ''a@b.c'')" by code_simp
  show ?thesis
    using intake_limits_precede_stripping [of 1 10 "lit '' A@b.c''" RAG_DEMO] 1 2 by simp
qed

end
