(* ===== verification/Invitations_Admin.thy ===== *)
theory Invitations_Admin
  imports Access
begin

text \<open>
  The operator's endpoints of \<^verbatim>\<open>app/api/routes/invitations_admin.py\<close> with their schemas
  (\<^verbatim>\<open>app/schemas/invitations.py\<close>), and the draft-only e-mail providers of
  \<^verbatim>\<open>app/services/email.py\<close>. Bytes drawn by \<^verbatim>\<open>token_urlsafe\<close> and the clock are arguments.
\<close>

section \<open>E-mail drafts\<close>

record email_draft =
  ed_provider :: str
  ed_to_email :: str
  ed_subject :: str
  ed_text_body :: str
  ed_html_body :: str
  ed_send_ready :: bool

record email_settings =
  email_provider :: str
  invite_email_base_url :: str
  invite_email_draft_provider :: str
  invite_email_draft_model :: str
  invite_email_bcc_address :: "str option"
  oci_email_smtp_host :: "str option"
  oci_email_smtp_port :: int
  oci_email_smtp_username :: "str option"
  oci_email_smtp_password :: "str option"
  oci_email_from_address :: "str option"
  oci_email_from_name :: "str option"

definition nl :: str where "nl = [10]"

definition stub_invite_email ::
  "str \<Rightarrow> email_settings \<Rightarrow> invitation_request \<Rightarrow> invitation_code \<Rightarrow> email_draft"
where
  "stub_invite_email provider_name settings rq ic =
     (let base_url = rstrip_char 47 (invite_email_base_url settings) in
      \<lparr> ed_provider = provider_name, ed_to_email = rq_email rq,
        ed_subject = lit ''Your messy-notes demo invitation'',
        ed_text_body =
          lit ''Hi '' @ rq_name rq @ lit '','' @ nl @ nl
          @ lit ''Thanks for requesting access to the messy-notes demo. ''
          @ lit ''Use this invitation code to enter the demo: '' @ ic_code ic @ nl @ nl
          @ lit ''Start here: '' @ base_url @ lit ''/'' @ nl @ nl
          @ lit ''This is an invite-only phase-1 demo. It supports pasted text, text ''
          @ lit ''files, and PDFs with extractable text. It does not support OCR, ''
          @ lit ''images, audio, video, or web lookup.'' @ nl,
        ed_html_body =
          lit ''<p>Hi '' @ rq_name rq @ lit '',</p>''
          @ lit ''<p>Thanks for requesting access to the messy-notes demo.</p>''
          @ lit ''<p><strong>Invitation code:</strong> '' @ ic_code ic @ lit ''</p>''
          @ lit ''<p>Start here: <a href=\"'' @ base_url @ lit ''/\">'' @ base_url @ lit ''/</a></p>''
          @ lit ''<p>This phase-1 demo supports pasted text, text files, and PDFs ''
          @ lit ''with extractable text. It does not support OCR, images, audio, ''
          @ lit ''video, or web lookup.</p>'',
        ed_send_ready = False \<rparr>)"

text \<open>\<^verbatim>\<open>get_email_provider(settings).build_invite_email\<close>\<close>

definition build_invite_email :: "email_settings \<Rightarrow> invitation_request \<Rightarrow> invitation_code \<Rightarrow> email_draft" where
  "build_invite_email settings =
     stub_invite_email (if email_provider settings = lit ''oci'' then lit ''oci-email-delivery'' else lit ''stub'') settings"

section \<open>Responses\<close>

record invitation_code_response =
  icr_id :: int
  icr_code :: str
  icr_label :: "experience_id option"
  icr_is_active :: bool
  icr_max_uses :: "int option"
  icr_use_count :: int
  icr_created_at :: int
  icr_last_used_at :: "int option"
  icr_request_id :: "int option"

record invitation_request_view =
  rv_id :: int
  rv_name :: str
  rv_email :: str
  rv_label :: "experience_id option"
  rv_reason :: str
  rv_status :: str
  rv_created_at :: int
  rv_reviewed_at :: "int option"
  rv_reviewer_note :: "str option"
  rv_fulfillment_status :: str
  rv_fulfilled_at :: "int option"
  rv_email_sent_at :: "int option"
  rv_fulfillment_error :: "str option"
  rv_issued_code_id :: "int option"
  rv_issued_code :: "str option"

record email_draft_response =
  dr_draft :: email_draft
  dr_code_id :: int
  dr_request_id :: int

definition optional_experience_id :: "str option \<Rightarrow> experience_id option result" where
  "optional_experience_id value =
     (case value of None \<Rightarrow> Inr None | Some v \<Rightarrow> rbind (parse_experience_id (Some v)) (\<lambda>e. Inr (Some e)))"

definition serialize_invitation_code :: "invitation_code \<Rightarrow> invitation_code_response result" where
  "serialize_invitation_code ic =
     rbind (optional_experience_id (ic_label ic)) (\<lambda>label.
       Inr \<lparr> icr_id = ic_id ic, icr_code = ic_code ic, icr_label = label, icr_is_active = ic_is_active ic,
             icr_max_uses = ic_max_uses ic, icr_use_count = ic_use_count ic,
             icr_created_at = ic_created_at ic, icr_last_used_at = ic_last_used_at ic,
             icr_request_id = ic_request_id ic \<rparr>)"

text \<open>The first code linked to a request, by id.\<close>

definition request_code :: "invite_db \<Rightarrow> invitation_request \<Rightarrow> invitation_code option" where
  "request_code db rq =
     (case sort_key ic_id (request_codes db (rq_id rq)) of [] \<Rightarrow> None | c # _ \<Rightarrow> Some c)"

definition serialize_invitation_request :: "invite_db \<Rightarrow> invitation_request \<Rightarrow> invitation_request_view result" where
  "serialize_invitation_request db rq =
     rbind (optional_experience_id (rq_label rq)) (\<lambda>label.
       Inr \<lparr> rv_id = rq_id rq, rv_name = rq_name rq, rv_email = rq_email rq, rv_label = label,
             rv_reason = rq_reason rq, rv_status = rq_status rq, rv_created_at = rq_created_at rq,
             rv_reviewed_at = rq_reviewed_at rq, rv_reviewer_note = rq_reviewer_note rq,
             rv_fulfillment_status = rq_fulfillment_status rq, rv_fulfilled_at = rq_fulfilled_at rq,
             rv_email_sent_at = rq_email_sent_at rq, rv_fulfillment_error = rq_fulfillment_error rq,
             rv_issued_code_id = map_option ic_id (request_code db rq),
             rv_issued_code = map_option ic_code (request_code db rq) \<rparr>)"

definition serialize_email_draft :: "email_draft \<Rightarrow> invitation_request \<Rightarrow> invitation_code \<Rightarrow> email_draft_response" where
  "serialize_email_draft draft rq ic = \<lparr> dr_draft = draft, dr_code_id = ic_id ic, dr_request_id = rq_id rq \<rparr>"

definition get_invite_request_or_404 :: "invite_db \<Rightarrow> int \<Rightarrow> invitation_request result" where
  "get_invite_request_or_404 db i =
     (case find_row rq_id i (requests db) of
        None \<Rightarrow> Inl (HTTPException 404 (lit ''Invite request not found.''))
      | Some rq \<Rightarrow> Inr rq)"

section \<open>Creating codes\<close>

text \<open>The row of a new code, with the columns the database fills in.\<close>

definition new_code :: "invite_db \<Rightarrow> str \<Rightarrow> str \<Rightarrow> int option \<Rightarrow> int option \<Rightarrow> int \<Rightarrow> invitation_code" where
  "new_code db code label limit request now =
     \<lparr> ic_id = next_code_id db, ic_code = code, ic_label = Some label, ic_is_active = True,
       ic_max_uses = limit, ic_use_count = 0, ic_created_at = now, ic_last_used_at = None,
       ic_request_id = request \<rparr>"

definition add_code :: "invitation_code \<Rightarrow> invite_db \<Rightarrow> invite_db" where
  "add_code ic db = db\<lparr> codes := codes db @ [ic], next_code_id := next_code_id db + 1 \<rparr>"

definition update_request :: "int \<Rightarrow> (invitation_request \<Rightarrow> invitation_request) \<Rightarrow> invite_db \<Rightarrow> invite_db" where
  "update_request i f db = db\<lparr> requests := update_row rq_id i f (requests db) \<rparr>"

text \<open>\<^verbatim>\<open>payload.code.strip() if payload.code else f"demo-{token_urlsafe(n)}"\<close>\<close>

definition chosen_code :: "str option \<Rightarrow> bytes \<Rightarrow> str" where
  "chosen_code given random_bytes =
     (if truthy given then strip (the given) else lit ''demo-'' @ b64url_encode random_bytes)"

record create_code_request =
  cc_code :: "str option"
  cc_label :: experience_id
  cc_max_uses :: "int option"
  cc_request_id :: "int option"

definition optional_code_ok :: "str option \<Rightarrow> bool" where
  "optional_code_ok v \<longleftrightarrow> (case v of None \<Rightarrow> True | Some s \<Rightarrow> 1 \<le> length s \<and> length s \<le> 128)"

definition optional_positive :: "int option \<Rightarrow> bool" where
  "optional_positive v \<longleftrightarrow> (case v of None \<Rightarrow> True | Some n \<Rightarrow> 1 \<le> n)"

definition create_code_request_ok :: "create_code_request \<Rightarrow> bool" where
  "create_code_request_ok p \<longleftrightarrow>
     optional_code_ok (cc_code p) \<and> optional_positive (cc_max_uses p) \<and> optional_positive (cc_request_id p)"

definition create_invitation_code ::
  "invite_db \<Rightarrow> create_code_request \<Rightarrow> bytes \<Rightarrow> int \<Rightarrow> int \<Rightarrow> invitation_code_response result \<times> invite_db"
where
  "create_invitation_code db p random_bytes now db_time =
     (let code = chosen_code (cc_code p) random_bytes in
      if find_row ic_code code (codes db) \<noteq> None
      then (Inl (HTTPException 409 (lit ''Invitation code already exists.'')), db)
      else
        (case (case cc_request_id p of
                 None \<Rightarrow> Inr None
               | Some i \<Rightarrow> rbind (get_invite_request_or_404 db i) (\<lambda>r. Inr (Some r))) of
           Inl e \<Rightarrow> (Inl e, db)
         | Inr rq \<Rightarrow>
             let ic = new_code db code (experience_value (cc_label p)) (cc_max_uses p) (cc_request_id p) db_time;
                 db1 = (case rq of
                          None \<Rightarrow> db
                        | Some r \<Rightarrow>
                            if rq_status r = lit ''submitted''
                            then update_request (rq_id r)
                                   (\<lambda>q. q\<lparr> rq_status := lit ''reviewed'', rq_reviewed_at := Some now \<rparr>) db
                            else db)
             in (serialize_invitation_code ic, add_code ic db1)))"

fun collect_results :: "'a result list \<Rightarrow> 'a list result" where
  "collect_results [] = Inr []"
| "collect_results (r # rs) = rbind r (\<lambda>x. rbind (collect_results rs) (\<lambda>xs. Inr (x # xs)))"

text \<open>
  Newest first. The query leaves the order of equal creation times open; the model keeps
  them in the order of their insertion.
\<close>

definition newest_codes :: "invite_db \<Rightarrow> invitation_code list" where
  "newest_codes db = sort_key (\<lambda>c. - ic_created_at c) (codes db)"

definition list_invitation_codes :: "invite_db \<Rightarrow> invitation_code_response list result" where
  "list_invitation_codes db = collect_results (map serialize_invitation_code (newest_codes db))"

definition deactivate_invitation_code ::
  "invite_db \<Rightarrow> int \<Rightarrow> invitation_code_response result \<times> invite_db"
where
  "deactivate_invitation_code db i =
     (case find_row ic_id i (codes db) of
        None \<Rightarrow> (Inl (HTTPException 404 (lit ''Invitation code not found.'')), db)
      | Some ic \<Rightarrow>
          (serialize_invitation_code (ic\<lparr> ic_is_active := False \<rparr>),
           db\<lparr> codes := update_row ic_id i (\<lambda>c. c\<lparr> ic_is_active := False \<rparr>) (codes db) \<rparr>))"

section \<open>Reviewing requests\<close>

definition list_invite_requests :: "invite_db \<Rightarrow> invitation_request_view list result" where
  "list_invite_requests db =
     collect_results (map (serialize_invitation_request db)
       (sort_key (\<lambda>r. - rq_created_at r) (sort_key (\<lambda>r. - rq_id r) (requests db))))"

definition get_invite_request :: "invite_db \<Rightarrow> int \<Rightarrow> invitation_request_view result" where
  "get_invite_request db i = rbind (get_invite_request_or_404 db i) (serialize_invitation_request db)"

definition review_status_ok :: "str \<Rightarrow> bool" where
  "review_status_ok s \<longleftrightarrow> s \<in> set [lit ''reviewed'', lit ''approved'', lit ''rejected'']"

definition optional_note_ok :: "str option \<Rightarrow> bool" where
  "optional_note_ok v \<longleftrightarrow> (case v of None \<Rightarrow> True | Some s \<Rightarrow> length s \<le> 2000)"

definition review_invite_request ::
  "invite_db \<Rightarrow> int \<Rightarrow> str \<Rightarrow> str option \<Rightarrow> int \<Rightarrow> invitation_request_view result \<times> invite_db"
where
  "review_invite_request db i status note now =
     (case get_invite_request_or_404 db i of
        Inl e \<Rightarrow> (Inl e, db)
      | Inr rq \<Rightarrow>
          if rq_status rq = lit ''rejected'' \<and> status = lit ''approved''
          then (Inl (HTTPException 409 (lit ''Rejected invite requests cannot be approved in place.'')), db)
          else
            let f = (\<lambda>r. r\<lparr> rq_status := status, rq_reviewed_at := Some now, rq_reviewer_note := note \<rparr>);
                db1 = update_request i f db
            in (serialize_invitation_request db1 (f rq), db1))"

record issue_draft_request =
  is_code :: "str option"
  is_label :: "experience_id option"
  is_max_uses :: "int option"
  is_reviewer_note :: "str option"

definition issue_draft_request_ok :: "issue_draft_request \<Rightarrow> bool" where
  "issue_draft_request_ok p \<longleftrightarrow>
     optional_code_ok (is_code p) \<and> optional_positive (is_max_uses p) \<and> optional_note_ok (is_reviewer_note p)"

definition issue_invite_code_draft ::
  "invite_db \<Rightarrow> email_settings \<Rightarrow> int \<Rightarrow> issue_draft_request \<Rightarrow> bytes \<Rightarrow> int \<Rightarrow> int
     \<Rightarrow> (invitation_request_view \<times> invitation_code_response \<times> email_draft_response) result \<times> invite_db"
where
  "issue_invite_code_draft db settings i p random_bytes now db_time =
     (case get_invite_request_or_404 db i of
        Inl e \<Rightarrow> (Inl e, db)
      | Inr rq \<Rightarrow>
          if request_code db rq \<noteq> None
          then (Inl (HTTPException 409 (lit ''Invite request already has an issued invitation code.'')), db)
          else if rq_status rq = lit ''rejected''
          then (Inl (HTTPException 409 (lit ''Rejected invite requests cannot receive an invitation code.'')), db)
          else
            let code = chosen_code (is_code p) random_bytes in
            if find_row ic_code code (codes db) \<noteq> None
            then (Inl (HTTPException 409 (lit ''Invitation code already exists.'')), db)
            else
              let ic = new_code db code
                    (case is_label p of
                       Some e \<Rightarrow> experience_value e
                     | None \<Rightarrow> str_or (rq_label rq) (experience_value MESSY_NOTES))
                    (is_max_uses p) (Some (rq_id rq)) db_time;
                  f = (\<lambda>r. r\<lparr> rq_status := lit ''approved'', rq_reviewed_at := Some now,
                              rq_reviewer_note := is_reviewer_note p \<rparr>);
                  db1 = add_code ic (update_request i f db)
              in (rbind (serialize_invitation_request db1 (f rq)) (\<lambda>rv.
                    rbind (serialize_invitation_code ic) (\<lambda>cv.
                      Inr (rv, cv, serialize_email_draft (build_invite_email settings (f rq) ic) (f rq) ic))),
                  db1))"

section \<open>Statistics\<close>

record invitation_stats_response =
  st_total_codes :: int
  st_active_codes :: int
  st_total_redemptions :: int
  st_codes :: "invitation_code_response list"

definition invitation_stats :: "invite_db \<Rightarrow> invitation_stats_response result" where
  "invitation_stats db =
     rbind (collect_results (map serialize_invitation_code (newest_codes db))) (\<lambda>cs.
       Inr \<lparr> st_total_codes = int (length (newest_codes db)),
             st_active_codes = int (length (filter ic_is_active (newest_codes db))),
             st_total_redemptions = int (length (redemptions db)),
             st_codes = cs \<rparr>)"

end
