(* ===== verification/Fulfillment.thy ===== *)
theory Fulfillment
  imports Invitations_Admin
begin

text \<open>
  Automatic fulfilment of invite requests (\<^verbatim>\<open>app/services/invite_fulfillment.py\<close>) and the SMTP
  sender of \<^verbatim>\<open>app/services/email.py\<close>. The language model that drafts the mail and the SMTP
  server are arguments that may raise; so are the drafter and the sender of the service,
  which its callers may replace.
\<close>

definition INVITE_REQUEST_MAX_USES :: int where
  "INVITE_REQUEST_MAX_USES = 10"

record invite_email_content =
  ec_subject :: str
  ec_text_body :: str
  ec_html_body :: str

definition html_escape_cp :: "nat \<Rightarrow> str" where
  "html_escape_cp c =
     (if c = 38 then lit ''&amp;''
      else if c = 60 then lit ''&lt;''
      else if c = 62 then lit ''&gt;''
      else if c = 34 then lit ''&quot;''
      else if c = 39 then lit ''&#x27;''
      else [c])"

definition html_escape :: "str \<Rightarrow> str" where
  "html_escape s = concat (map html_escape_cp s)"

definition request_experience_id :: "invitation_request \<Rightarrow> experience_id result" where
  "request_experience_id rq =
     (case rq_label rq of None \<Rightarrow> Inr MESSY_NOTES | Some l \<Rightarrow> parse_experience_id (Some l))"

section \<open>Drafting\<close>

definition build_fallback_invite_email ::
  "invitation_request \<Rightarrow> invitation_code \<Rightarrow> email_settings \<Rightarrow> email_draft result"
where
  "build_fallback_invite_email rq ic settings =
     (let base_url = rstrip_char 47 (invite_email_base_url settings) in
      rbind (request_experience_id rq) (\<lambda>exper.
        let label = EXPERIENCE_LABELS exper in
        Inr \<lparr> ed_provider = lit ''fallback-template'', ed_to_email = rq_email rq,
              ed_subject = lit ''Your '' @ label @ lit '' invitation'',
              ed_text_body =
                lit ''Hi '' @ rq_name rq @ lit '','' @ nl @ nl
                @ lit ''Thanks for requesting access to '' @ label @ lit ''. ''
                @ lit ''Based on your note, this should give you a practical look at the ''
                @ lit ''bounded workflow.'' @ nl @ nl
                @ lit ''Invitation code: '' @ ic_code ic @ nl
                @ lit ''Start here: '' @ base_url @ lit ''/'' @ nl @ nl
                @ lit ''The demo supports pasted text, text files, and PDFs with extractable ''
                @ lit ''text. It does not support OCR, images, audio, video, or web lookup.'' @ nl,
              ed_html_body =
                lit ''<p>Hi '' @ html_escape (rq_name rq) @ lit '',</p>''
                @ lit ''<p>Thanks for requesting access to '' @ html_escape label @ lit ''. Based on ''
                @ lit ''your note, this should give you a practical look at the bounded workflow.</p>''
                @ lit ''<p><strong>Invitation code:</strong> '' @ html_escape (ic_code ic) @ lit ''</p>''
                @ lit ''<p>Start here: <a href=\"'' @ html_escape base_url @ lit ''/\">''
                @ html_escape base_url @ lit ''/</a></p>''
                @ lit ''<p>The demo supports pasted text, text files, and PDFs with extractable ''
                @ lit ''text. It does not support OCR, images, audio, video, or web lookup.</p>'',
              ed_send_ready = True \<rparr>))"

text \<open>The prompt; the model gets it with the provider and model names of the settings.\<close>

definition draft_prompt :: "invitation_request \<Rightarrow> invitation_code \<Rightarrow> email_settings \<Rightarrow> experience_id \<Rightarrow> str" where
  "draft_prompt rq ic settings exper =
     lit ''Requester name: '' @ rq_name rq @ nl
     @ lit ''Requester email: '' @ rq_email rq @ nl
     @ lit ''Requested experience: '' @ EXPERIENCE_LABELS exper @ nl
     @ lit ''Reason for access: '' @ rq_reason rq @ nl
     @ lit ''Invitation code: '' @ ic_code ic @ nl
     @ lit ''Start URL: '' @ rstrip_char 47 (invite_email_base_url settings) @ lit ''/'' @ nl
     @ lit ''Mention that the demo supports pasted text, text files, and PDFs ''
     @ lit ''with extractable text.''"

type_synonym email_model = "str \<Rightarrow> str \<Rightarrow> str \<Rightarrow> invite_email_content result"

definition draft_personalized_email ::
  "email_model \<Rightarrow> invitation_request \<Rightarrow> invitation_code \<Rightarrow> email_settings \<Rightarrow> invite_email_content result"
where
  "draft_personalized_email llm rq ic settings =
     rbind (request_experience_id rq) (\<lambda>exper.
       llm (invite_email_draft_provider settings) (invite_email_draft_model settings)
           (draft_prompt rq ic settings exper))"

type_synonym email_drafter = "invitation_request \<Rightarrow> invitation_code \<Rightarrow> email_settings \<Rightarrow> email_draft result"

definition build_invite_email_draft :: "email_model \<Rightarrow> email_drafter" where
  "build_invite_email_draft llm rq ic settings =
     (case draft_personalized_email llm rq ic settings of
        Inr content \<Rightarrow>
          Inr \<lparr> ed_provider = lit ''pydantic-ai:'' @ invite_email_draft_provider settings,
                ed_to_email = rq_email rq, ed_subject = ec_subject content,
                ed_text_body = ec_text_body content, ed_html_body = ec_html_body content,
                ed_send_ready = True \<rparr>
      | Inl _ \<Rightarrow> build_fallback_invite_email rq ic settings)"

section \<open>Sending\<close>

record email_send_result =
  er_provider :: str
  er_to_email :: str
  er_bcc_email :: str

record email_message =
  em_sender_name :: str
  em_from :: str
  em_to :: str
  em_bcc :: str
  em_subject :: str
  em_text :: str
  em_html :: str

definition missing_email_settings :: "email_settings \<Rightarrow> str list" where
  "missing_email_settings settings =
     map fst (filter (\<lambda>(name, value). \<not> truthy value)
       [(lit ''OCI_EMAIL_SMTP_HOST'', oci_email_smtp_host settings),
        (lit ''OCI_EMAIL_SMTP_USERNAME'', oci_email_smtp_username settings),
        (lit ''OCI_EMAIL_SMTP_PASSWORD'', oci_email_smtp_password settings),
        (lit ''OCI_EMAIL_FROM_ADDRESS'', oci_email_from_address settings),
        (lit ''INVITE_EMAIL_BCC_ADDRESS'', invite_email_bcc_address settings)])"

type_synonym smtp_server = "str \<Rightarrow> int \<Rightarrow> str \<Rightarrow> str \<Rightarrow> email_message \<Rightarrow> unit result"

definition send_invite_email :: "smtp_server \<Rightarrow> email_settings \<Rightarrow> email_draft \<Rightarrow> email_send_result result" where
  "send_invite_email smtp settings draft =
     (if missing_email_settings settings \<noteq> []
      then Inl (ValueError (lit ''Missing invite email configuration: ''
             @ join (lit '', '') (missing_email_settings settings) @ lit ''.''))
      else
        let message =
              \<lparr> em_sender_name = str_or (oci_email_from_name settings) (lit ''Demo invitations''),
                em_from = str_or (oci_email_from_address settings) [], em_to = ed_to_email draft,
                em_bcc = str_or (invite_email_bcc_address settings) [], em_subject = ed_subject draft,
                em_text = ed_text_body draft, em_html = ed_html_body draft \<rparr>
        in rbind (smtp (str_or (oci_email_smtp_host settings) []) (oci_email_smtp_port settings)
                    (str_or (oci_email_smtp_username settings) []) (str_or (oci_email_smtp_password settings) [])
                    message) (\<lambda>_.
             Inr \<lparr> er_provider = lit ''oci-email-delivery-smtp'', er_to_email = ed_to_email draft,
                   er_bcc_email = str_or (invite_email_bcc_address settings) [] \<rparr>))"

section \<open>Fulfilling\<close>

text \<open>At most twenty candidates; the argument lists the bytes drawn for them.\<close>

fun first_unused_code :: "invite_db \<Rightarrow> nat \<Rightarrow> bytes list \<Rightarrow> str result" where
  "first_unused_code db n [] = Inl (RuntimeError (lit ''Could not generate a unique invitation code.''))"
| "first_unused_code db n (raw # raws) =
     (if n = 0 then Inl (RuntimeError (lit ''Could not generate a unique invitation code.''))
      else let code = lit ''demo-'' @ b64url_encode raw in
        if find_row ic_code code (codes db) = None then Inr code
        else first_unused_code db (n - 1) raws)"

definition generate_unique_code :: "invite_db \<Rightarrow> bytes list \<Rightarrow> str result" where
  "generate_unique_code db raws = first_unused_code db 20 raws"

text \<open>The handler of the \<^verbatim>\<open>except\<close> block.\<close>

definition record_fulfillment_failure :: "int \<Rightarrow> error \<Rightarrow> invite_db \<Rightarrow> invite_db" where
  "record_fulfillment_failure i e db =
     update_request i (\<lambda>r. r\<lparr> rq_status := lit ''email_failed'', rq_fulfillment_status := lit ''failed'',
                              rq_fulfillment_error := Some (error_text e) \<rparr>) db"

text \<open>
  Each \<open>update_request\<close> or \<open>add_code\<close> below is one commit of the service; after a failure the
  rollback returns to the last of them. \<open>now\<close> is read after sending.
\<close>

definition fulfill_invite_request ::
  "invite_db \<Rightarrow> email_settings \<Rightarrow> email_drafter \<Rightarrow> (email_draft \<Rightarrow> email_send_result result) \<Rightarrow> bytes list
     \<Rightarrow> int \<Rightarrow> int \<Rightarrow> int \<Rightarrow> invite_db"
where
  "fulfill_invite_request db settings drafter sender raws db_time now i =
     (case find_row rq_id i (requests db) of
        None \<Rightarrow> db
      | Some rq \<Rightarrow>
          if request_codes db (rq_id rq) \<noteq> [] then db
          else
            let f = (\<lambda>r. r\<lparr> rq_fulfillment_status := lit ''processing'', rq_fulfillment_error := None \<rparr>);
                db1 = update_request i f db
            in (case rbind (generate_unique_code db1 raws) (\<lambda>code.
                       rbind (request_experience_id (f rq)) (\<lambda>exper.
                         Inr (new_code db1 code (experience_value exper) (Some INVITE_REQUEST_MAX_USES)
                                (Some (rq_id rq)) db_time))) of
                  Inl e \<Rightarrow> record_fulfillment_failure i e db1
                | Inr ic \<Rightarrow>
                    let db2 = add_code ic db1 in
                    (case rbind (drafter (f rq) ic settings) sender of
                       Inl e \<Rightarrow> record_fulfillment_failure i e db2
                     | Inr _ \<Rightarrow>
                         update_request i (\<lambda>r. r\<lparr> rq_status := lit ''fulfilled'',
                           rq_fulfillment_status := lit ''sent'', rq_fulfilled_at := Some now,
                           rq_email_sent_at := Some now, rq_fulfillment_error := None \<rparr>) db2)))"

end
