(* ===== verification/Invite_System.thy ===== *)
theory Invite_System
  imports Fulfillment "HOL-Library.Multiset"
begin

text \<open>
  All the operations on invitations as one transition system over the committed database and
  the requests in progress, its invariant under every interleaving, what holds besides when
  the redemptions of a code stay apart, and the properties of redemption, deactivation and
  fulfilment. The handlers and the task of the other theories are uninterrupted runs of it
  (\<open>redeem_run\<close>, \<open>fulfill_run\<close>).
\<close>

section \<open>The system\<close>

text \<open>
  Handlers and background tasks overlap: the database is shared, and nothing is locked between
  what a request reads and what it writes. A state is the committed database with the work in
  progress. A redemption reads and checks a code in one step and writes the row it read in
  another; a fulfilment claims its request, issues the code and mails it in three. Each
  administrator request and each new invite request reads and commits once, and is a step at
  its commit: the unique column it checks is enforced there again.
\<close>

datatype invite_task =
    Redeeming invitation_code experience_id
  | Issuing int
  | Mailing invitation_request invitation_code

type_synonym invite_state = "invite_db \<times> invite_task multiset"

definition processing :: "invitation_request \<Rightarrow> invitation_request" where
  "processing r = r\<lparr> rq_fulfillment_status := lit ''processing'', rq_fulfillment_error := None \<rparr>"

definition sent :: "int \<Rightarrow> invitation_request \<Rightarrow> invitation_request" where
  "sent now r = r\<lparr> rq_status := lit ''fulfilled'', rq_fulfillment_status := lit ''sent'',
     rq_fulfilled_at := Some now, rq_email_sent_at := Some now, rq_fulfillment_error := None \<rparr>"

definition fulfill_claim :: "invite_db \<Rightarrow> int \<Rightarrow> invite_db option" where
  "fulfill_claim db i =
     (case find_row rq_id i (requests db) of
        None \<Rightarrow> None
      | Some rq \<Rightarrow> if request_codes db (rq_id rq) \<noteq> [] then None else Some (update_request i processing db))"

definition fulfill_code :: "invite_db \<Rightarrow> invitation_request \<Rightarrow> bytes list \<Rightarrow> int \<Rightarrow> invitation_code result" where
  "fulfill_code db rq raws t =
     rbind (generate_unique_code db raws) (\<lambda>code. rbind (request_experience_id rq) (\<lambda>exper.
       Inr (new_code db code (experience_value exper) (Some INVITE_REQUEST_MAX_USES) (Some (rq_id rq)) t)))"

definition fulfill_mail ::
  "invite_db \<Rightarrow> email_settings \<Rightarrow> email_drafter \<Rightarrow> (email_draft \<Rightarrow> email_send_result result) \<Rightarrow> int
     \<Rightarrow> invitation_request \<Rightarrow> invitation_code \<Rightarrow> invite_db"
where
  "fulfill_mail db settings drafter sender now rq ic =
     (case rbind (drafter rq ic settings) sender of
        Inl e \<Rightarrow> record_fulfillment_failure (rq_id rq) e db
      | Inr _ \<Rightarrow> update_request (rq_id rq) (sent now) db)"

inductive invite_step :: "invite_state \<Rightarrow> invite_state \<Rightarrow> bool" where
  redeem_checks: "redeem_request_ok code \<Longrightarrow> redeem_load db code = Inr (ic, exper) \<Longrightarrow>
    invite_step (db, ts) (db, add_mset (Redeeming ic exper) ts)"
| redeem_writes: "create_access_token s (ic_id ic) (ic_code ic) exper (fresh_jti env) (issue_now env) = Inr (token, claims) \<Longrightarrow>
    invite_step (db, add_mset (Redeeming ic exper) ts) (redeem_commit db s env ic (token_id claims), ts)"
| abandoned: "invite_step (db, add_mset task ts) (db, ts)"
| request_invite: "InviteRequestCreate name email exper reason = Some payload \<Longrightarrow>
    create_invite_request db s env payload = (rr, db', scheduled) \<Longrightarrow> invite_step (db, ts) (db', ts)"
| create_code: "create_code_request_ok cp \<Longrightarrow> create_invitation_code db cp raw now t = (cr, db') \<Longrightarrow> invite_step (db, ts) (db', ts)"
| deactivate: "deactivate_invitation_code db i = (dr, db') \<Longrightarrow> invite_step (db, ts) (db', ts)"
| review: "review_status_ok st \<Longrightarrow> review_invite_request db i st note now = (vr, db') \<Longrightarrow> invite_step (db, ts) (db', ts)"
| issue_draft: "issue_draft_request_ok ip \<Longrightarrow> issue_invite_code_draft db es i ip raw now t = (ir, db') \<Longrightarrow>
    invite_step (db, ts) (db', ts)"
| fulfill_claims: "fulfill_claim db i = Some db' \<Longrightarrow> invite_step (db, ts) (db', add_mset (Issuing i) ts)"
| fulfill_fails: "find_row rq_id i (requests db) = Some rq \<Longrightarrow> fulfill_code db rq raws t = Inl e \<Longrightarrow>
    invite_step (db, add_mset (Issuing i) ts) (record_fulfillment_failure i e db, ts)"
| fulfill_issues: "find_row rq_id i (requests db) = Some rq \<Longrightarrow> fulfill_code db rq raws t = Inr ic \<Longrightarrow>
    invite_step (db, add_mset (Issuing i) ts) (add_code ic db, add_mset (Mailing rq ic) ts)"
| fulfill_mails: "invite_step (db, add_mset (Mailing rq ic) ts) (fulfill_mail db es drafter sender now rq ic, ts)"

text \<open>Runs in which no two redemptions of one code are in progress at once.\<close>

definition redeems :: "int \<Rightarrow> invite_task \<Rightarrow> bool" where
  "redeems i task = (case task of Redeeming ic exper \<Rightarrow> ic_id ic = i | _ \<Rightarrow> False)"

definition redemptions_apart :: "invite_task multiset \<Rightarrow> bool" where
  "redemptions_apart ts \<longleftrightarrow> (\<forall>i. size (filter_mset (redeems i) ts) \<le> 1)"

definition calm_step :: "invite_state \<Rightarrow> invite_state \<Rightarrow> bool" where
  "calm_step s s' \<longleftrightarrow> invite_step s s' \<and> redemptions_apart (snd s')"

definition redemption_count :: "invite_db \<Rightarrow> int \<Rightarrow> nat" where
  "redemption_count db i = length (filter (\<lambda>r. rd_code_id r = i) (redemptions db))"

definition code_ok :: "invite_db \<Rightarrow> invitation_code \<Rightarrow> bool" where
  "code_ok db c \<longleftrightarrow> ic_id c < next_code_id db \<and> 0 \<le> ic_use_count c
     \<and> ic_use_count c \<le> int (redemption_count db (ic_id c))
     \<and> (\<forall>m. ic_max_uses c = Some m \<longrightarrow> ic_use_count c \<le> m)"

definition invites_ok :: "invite_db \<Rightarrow> bool" where
  "invites_ok db \<longleftrightarrow>
     distinct (map ic_id (codes db)) \<and> distinct (map ic_code (codes db))
     \<and> distinct (map rq_id (requests db))
     \<and> (\<forall>c \<in> set (codes db). code_ok db c)
     \<and> (\<forall>r \<in> set (requests db). rq_id r < next_request_id db)
     \<and> (\<forall>d \<in> set (redemptions db). rd_code_id d < next_code_id db)"

text \<open>What a redemption in progress has read still holds of the row but for its use count.\<close>

definition code_key :: "invitation_code \<Rightarrow> int \<times> str \<times> int option" where
  "code_key c = (ic_id c, ic_code c, ic_max_uses c)"

definition task_ok :: "invite_db \<Rightarrow> invite_task \<Rightarrow> bool" where
  "task_ok db task = (case task of
     Redeeming ic exper \<Rightarrow> code_key ic \<in> code_key ` set (codes db) \<and> 0 \<le> ic_use_count ic
       \<and> ic_use_count ic \<le> int (redemption_count db (ic_id ic))
       \<and> (\<forall>m. ic_max_uses ic = Some m \<longrightarrow> ic_use_count ic < m)
   | _ \<Rightarrow> True)"

definition invite_state_ok :: "invite_state \<Rightarrow> bool" where
  "invite_state_ok s \<longleftrightarrow> invites_ok (fst s) \<and> (\<forall>task \<in># snd s. task_ok (fst s) task)"

lemma invites_okI:
  assumes "distinct (map ic_id (codes db))" and "distinct (map ic_code (codes db))"
    and "distinct (map rq_id (requests db))" and "\<And>c. c \<in> set (codes db) \<Longrightarrow> code_ok db c"
    and "\<And>r. r \<in> set (requests db) \<Longrightarrow> rq_id r < next_request_id db"
    and "\<And>d. d \<in> set (redemptions db) \<Longrightarrow> rd_code_id d < next_code_id db"
  shows "invites_ok db"
  using assms by (simp add: invites_ok_def)

section \<open>The three kinds of change\<close>

lemma redemption_count_simps [simp]:
  "redemption_count (add_code c db) i = redemption_count db i"
  "redemption_count (redeem_commit db s env ic jti) i =
     redemption_count db i + (if i = ic_id ic then 1 else 0)"
  by (simp_all add: redemption_count_def add_code_def redeem_commit_def)

lemma next_code_id_simps [simp]:
  "next_code_id (add_code c db) = next_code_id db + 1"
  "next_code_id (redeem_commit db s env ic jti) = next_code_id db"
  by (simp_all add: add_code_def redeem_commit_def)

text \<open>Requests change without touching the codes.\<close>

lemma update_request_ok:
  assumes "invites_ok db" and "\<And>r. rq_id (f r) = rq_id r"
  shows "invites_ok (update_request i f db)"
  using assms by (auto simp: invites_ok_def update_request_def code_ok_def redemption_count_def
      map_key_update_row in_set_update_row)

lemma codes_update_request [simp]:
  "codes (update_request i f db) = codes db" "redemptions (update_request i f db) = redemptions db"
  "next_code_id (update_request i f db) = next_code_id db"
  by (simp_all add: update_request_def)

text \<open>A code that no row has yet is added.\<close>

lemma add_code_ok:
  assumes ok: "invites_ok db" and new: "find_row ic_code code (codes db) = None" and pos: "optional_positive limit"
  shows "invites_ok (add_code (new_code db code label limit request t) db)"
proof (rule invites_okI)
  let ?c = "new_code db code label limit request t"
  let ?db = "add_code ?c db"
  have old: "code_ok db c \<and> ic_id c < next_code_id db" if "c \<in> set (codes db)" for c
    using ok that by (auto simp: invites_ok_def code_ok_def)
  have "next_code_id db \<notin> ic_id ` set (codes db)" using old by fastforce
  then show "distinct (map ic_id (codes ?db))"
    using ok by (simp add: add_code_def new_code_def invites_ok_def)
  show "distinct (map ic_code (codes ?db))"
    using ok new by (simp add: add_code_def new_code_def invites_ok_def find_row_None)
  show "distinct (map rq_id (requests ?db))"
    using ok by (simp add: add_code_def invites_ok_def)
  have "code_ok ?db ?c"
    using pos by (auto simp: code_ok_def new_code_def optional_positive_def split: option.splits)
  moreover have "code_ok ?db c" if "c \<in> set (codes db)" for c
    using old [OF that] unfolding code_ok_def by auto
  ultimately show "code_ok ?db c" if "c \<in> set (codes ?db)" for c
    using that by (auto simp: add_code_def)
  show "rq_id r < next_request_id ?db" if "r \<in> set (requests ?db)" for r
    using ok that by (simp add: add_code_def invites_ok_def)
  show "rd_code_id d < next_code_id ?db" if "d \<in> set (redemptions ?db)" for d
    using ok that by (fastforce simp: add_code_def invites_ok_def)
qed

text \<open>A loaded code within its limit is redeemed.\<close>

lemma redeem_load_Inr:
  assumes "redeem_load db code = Inr (ic, exper)"
  shows "find_row ic_code (strip code) (codes db) = Some ic" and "ic_is_active ic"
    and "\<And>m. ic_max_uses ic = Some m \<Longrightarrow> ic_use_count ic < m" and "ic_label ic = Some (experience_value exper)"
  using assms by (auto simp: redeem_load_def parse_experience_Inr split: option.splits if_splits sum.splits)

lemma redeem_load_task:
  assumes "invites_ok db" and "redeem_load db code = Inr (ic, exper)"
  shows "task_ok db (Redeeming ic exper)"
proof -
  have "ic \<in> set (codes db)" using redeem_load_Inr(1) [OF assms(2)] find_row_Some by metis
  then show ?thesis
    using assms(1) redeem_load_Inr(3) [OF assms(2)] by (auto simp: task_ok_def invites_ok_def code_ok_def)
qed

lemma code_key_iff:
  "code_key c = code_key d \<longleftrightarrow> ic_id c = ic_id d \<and> ic_code c = ic_code d \<and> ic_max_uses c = ic_max_uses d"
  by (simp add: code_key_def)

lemma same_code:
  assumes "invites_ok db" "c \<in> set (codes db)" "d \<in> set (codes db)" "ic_id c = ic_id d"
  shows "c = d"
  using assms by (metis distinct_map inj_onD invites_ok_def)

lemma redeem_commit_codes:
  "c \<in> set (codes (redeem_commit db s env ic jti)) \<longleftrightarrow>
     c \<in> set (codes db) \<and> ic_id c \<noteq> ic_id ic
     \<or> (\<exists>q \<in> set (codes db). ic_id q = ic_id ic
          \<and> c = q\<lparr> ic_use_count := ic_use_count ic + 1, ic_last_used_at := Some (use_now env) \<rparr>)"
  by (auto simp: redeem_commit_def in_set_update_row)

lemma redeem_commit_ok:
  assumes ok: "invites_ok db" and l: "task_ok db (Redeeming ic exper)"
  shows "invites_ok (redeem_commit db s env ic jti)"
proof (rule invites_okI)
  let ?db = "redeem_commit db s env ic jti"
  obtain row where row: "row \<in> set (codes db)" "code_key row = code_key ic"
    using l by (auto simp: task_ok_def)
  show "distinct (map ic_id (codes ?db))" "distinct (map ic_code (codes ?db))" "distinct (map rq_id (requests ?db))"
    using ok by (auto simp: redeem_commit_def invites_ok_def map_key_update_row)
  have old: "code_ok db c" if "c \<in> set (codes db)" for c using ok that by (simp add: invites_ok_def)
  show "code_ok ?db c" if c: "c \<in> set (codes ?db)" for c
  proof -
    consider "c \<in> set (codes db)" "ic_id c \<noteq> ic_id ic"
      | q where "q \<in> set (codes db)" "ic_id q = ic_id ic"
          "c = q\<lparr> ic_use_count := ic_use_count ic + 1, ic_last_used_at := Some (use_now env) \<rparr>"
      using c unfolding redeem_commit_codes by blast
    then show ?thesis
    proof cases
      case 1
      then show ?thesis using old [OF 1(1)] unfolding code_ok_def by auto
    next
      case 2
      then have "q = row" using same_code [OF ok _ row(1)] row(2) by (simp add: code_key_iff)
      then show ?thesis using old [OF row(1)] l row(2) 2 unfolding code_ok_def task_ok_def
        by (fastforce simp: code_key_iff)
    qed
  qed
  show "rq_id r < next_request_id ?db" if "r \<in> set (requests ?db)" for r
    using ok that by (simp add: redeem_commit_def invites_ok_def)
  show "rd_code_id e < next_code_id ?db" if "e \<in> set (redemptions ?db)" for e
    using that ok old [OF row(1)] row(2) by (auto simp: redeem_commit_def invites_ok_def code_ok_def code_key_iff)
qed

section \<open>Every operation keeps the invariant\<close>

text \<open>What each operation does to the database, branch by branch.\<close>

lemma redeem_effect:
  assumes "redeem_invitation_code db s p1 env code = (resp, db')"
  obtains (refused) e where "resp = Inl e" "db' = db"
  | (redeemed) ic exper token claims ar where "redeem_load db code = Inr (ic, exper)"
      "create_access_token s (ic_id ic) (ic_code ic) exper (fresh_jti env) (issue_now env) = Inr (token, claims)"
      "resp = Inr ar" "db' = redeem_commit db s env ic (token_id claims)"
  using assms by (auto simp: redeem_invitation_code_def split: sum.splits prod.splits)

definition reviewed :: "int \<Rightarrow> invitation_request \<Rightarrow> invitation_request" where
  "reviewed now q = q\<lparr> rq_status := lit ''reviewed'', rq_reviewed_at := Some now \<rparr>"

lemma created_row:
  assumes eq: "create_invitation_code db cp raw now t = (resp, db')"
    and fresh: "find_row ic_code (chosen_code (cc_code cp) raw) (codes db) = None"
  shows "(\<exists>e. resp = Inl e \<and> db' = db)
    \<or> (\<exists>dbr. (dbr = db \<or> (\<exists>i. dbr = update_request i (reviewed now) db))
        \<and> resp = serialize_invitation_code (new_code db (chosen_code (cc_code cp) raw)
             (experience_value (cc_label cp)) (cc_max_uses cp) (cc_request_id cp) t)
        \<and> db' = add_code (new_code db (chosen_code (cc_code cp) raw)
             (experience_value (cc_label cp)) (cc_max_uses cp) (cc_request_id cp) t) dbr)"
proof -
  have f: "(\<lambda>q. q\<lparr> rq_status := lit ''reviewed'', rq_reviewed_at := Some now \<rparr>) = reviewed now"
    by (simp add: reviewed_def fun_eq_iff)
  show ?thesis
  proof (cases "cc_request_id cp")
    case None
    then show ?thesis using eq fresh by (simp add: create_invitation_code_def Let_def) blast
  next
    case (Some i)
    show ?thesis
    proof (cases "get_invite_request_or_404 db i")
      case (Inl e)
      then show ?thesis using eq fresh Some by (auto simp: create_invitation_code_def Let_def)
    next
      case (Inr r)
      show ?thesis
      proof (cases "rq_status r = lit ''submitted''")
        case True
        then show ?thesis using eq fresh Some Inr by (simp add: create_invitation_code_def Let_def f) blast
      next
        case False
        then show ?thesis using eq fresh Some Inr by (simp add: create_invitation_code_def Let_def) blast
      qed
    qed
  qed
qed

lemma create_code_effect:
  assumes "create_invitation_code db cp raw now t = (resp, db')"
  obtains (refused) e where "resp = Inl e" "db' = db"
  | (created) ic dbr where "find_row ic_code (chosen_code (cc_code cp) raw) (codes db) = None"
      "ic = new_code db (chosen_code (cc_code cp) raw) (experience_value (cc_label cp)) (cc_max_uses cp) (cc_request_id cp) t"
      "dbr = db \<or> (\<exists>i. dbr = update_request i (reviewed now) db)"
      "resp = serialize_invitation_code ic" "db' = add_code ic dbr"
proof (cases "find_row ic_code (chosen_code (cc_code cp) raw) (codes db)")
  case (Some c)
  then show ?thesis using assms that(1) by (auto simp: create_invitation_code_def)
next
  case None
  from created_row [OF assms None] show ?thesis
  proof (elim disjE exE conjE)
    fix e assume "resp = Inl e" "db' = db"
    then show ?thesis by (rule that(1))
  next
    fix dbr assume "dbr = db" "resp = serialize_invitation_code
        (new_code db (chosen_code (cc_code cp) raw) (experience_value (cc_label cp)) (cc_max_uses cp) (cc_request_id cp) t)"
      "db' = add_code (new_code db (chosen_code (cc_code cp) raw) (experience_value (cc_label cp)) (cc_max_uses cp) (cc_request_id cp) t) dbr"
    then show ?thesis using None by (intro that(2)) auto
  next
    fix dbr i assume "dbr = update_request i (reviewed now) db"
      "resp = serialize_invitation_code
        (new_code db (chosen_code (cc_code cp) raw) (experience_value (cc_label cp)) (cc_max_uses cp) (cc_request_id cp) t)"
      "db' = add_code (new_code db (chosen_code (cc_code cp) raw) (experience_value (cc_label cp)) (cc_max_uses cp) (cc_request_id cp) t) dbr"
    then show ?thesis using None by (intro that(2)) auto
  qed
qed

lemma sort_key_Nil: "sort_key f xs = [] \<longleftrightarrow> xs = []"
  by (metis length_0_conv length_sort)

lemma request_code_None: "request_code db rq = None \<longleftrightarrow> request_codes db (rq_id rq) = []"
  by (cases "sort_key ic_id (request_codes db (rq_id rq))")
    (use sort_key_Nil [of ic_id "request_codes db (rq_id rq)"] in \<open>auto simp: request_code_def\<close>)

lemma issued_row:
  assumes "issue_invite_code_draft db es i ip raw now t = (resp, db')"
    and rq: "find_row rq_id i (requests db) = Some rq"
    and none: "request_code db rq = None \<and> rq_status rq \<noteq> lit ''rejected''
        \<and> find_row ic_code (chosen_code (is_code ip) raw) (codes db) = None"
  shows "\<exists>label. db' = add_code (new_code db (chosen_code (is_code ip) raw) label (is_max_uses ip) (Some i) t)
     (update_request i (\<lambda>r. r\<lparr> rq_status := lit ''approved'', rq_reviewed_at := Some now,
        rq_reviewer_note := is_reviewer_note ip \<rparr>) db)"
proof -
  have "rq_id rq = i" using rq find_row_Some by metis
  then show ?thesis using assms(1) none rq
    by (auto simp: issue_invite_code_draft_def get_invite_request_or_404_def Let_def)
qed

lemma issue_draft_effect:
  assumes "issue_invite_code_draft db es i ip raw now t = (resp, db')"
  obtains (refused) e where "resp = Inl e" "db' = db"
  | (issued) ic label f where "find_row ic_code (chosen_code (is_code ip) raw) (codes db) = None"
      "ic = new_code db (chosen_code (is_code ip) raw) label (is_max_uses ip) (Some i) t"
      "f = (\<lambda>r. r\<lparr> rq_status := lit ''approved'', rq_reviewed_at := Some now, rq_reviewer_note := is_reviewer_note ip \<rparr>)"
      "db' = add_code ic (update_request i f db)" "request_codes db i = []"
proof (cases "find_row rq_id i (requests db)")
  case None
  then show ?thesis using assms that(1) by (auto simp: issue_invite_code_draft_def get_invite_request_or_404_def)
next
  case (Some rq)
  then have i: "rq_id rq = i" using find_row_Some by metis
  show ?thesis
  proof (cases "request_code db rq = None \<and> rq_status rq \<noteq> lit ''rejected''
        \<and> find_row ic_code (chosen_code (is_code ip) raw) (codes db) = None")
    case False
    then have "(\<exists>e. resp = Inl e) \<and> db' = db" using assms Some
      by (auto simp: issue_invite_code_draft_def get_invite_request_or_404_def split: if_splits)
    then show ?thesis using that(1) by blast
  next
    case True
    obtain label where "db' = add_code (new_code db (chosen_code (is_code ip) raw) label (is_max_uses ip) (Some i) t)
       (update_request i (\<lambda>r. r\<lparr> rq_status := lit ''approved'', rq_reviewed_at := Some now,
          rq_reviewer_note := is_reviewer_note ip \<rparr>) db)"
      using issued_row [OF assms Some True] by blast
    then show ?thesis using True i by (intro that(2) [OF _ refl refl]) (simp_all add: request_code_None)
  qed
qed

lemma first_unused_code_fresh: "first_unused_code db n raws = Inr code \<Longrightarrow> find_row ic_code code (codes db) = None"
  by (induction db n raws rule: first_unused_code.induct) (auto simp: Let_def split: if_splits)

lemma generate_unique_code_fresh: "generate_unique_code db raws = Inr code \<Longrightarrow> find_row ic_code code (codes db) = None"
  unfolding generate_unique_code_def by (rule first_unused_code_fresh)

lemma fulfill_effect:
  obtains (untouched) "fulfill_invite_request db es drafter sender raws t now i = db"
      "find_row rq_id i (requests db) = None \<or> request_codes db i \<noteq> []"
  | (no_code) rq e where "find_row rq_id i (requests db) = Some rq" "request_codes db i = []"
      "fulfill_invite_request db es drafter sender raws t now i = record_fulfillment_failure i e (update_request i processing db)"
  | (failed) rq e code exper ic where "find_row rq_id i (requests db) = Some rq" "request_codes db i = []"
      "find_row ic_code code (codes db) = None" "request_experience_id rq = Inr exper"
      "ic = new_code db code (experience_value exper) (Some INVITE_REQUEST_MAX_USES) (Some i) t"
      "rbind (drafter (processing rq) ic es) sender = Inl e"
      "fulfill_invite_request db es drafter sender raws t now i
         = record_fulfillment_failure i e (add_code ic (update_request i processing db))"
  | (sent) rq code exper ic where "find_row rq_id i (requests db) = Some rq" "request_codes db i = []"
      "find_row ic_code code (codes db) = None" "request_experience_id rq = Inr exper"
      "ic = new_code db code (experience_value exper) (Some INVITE_REQUEST_MAX_USES) (Some i) t"
      "isl (rbind (drafter (processing rq) ic es) sender) = False"
      "fulfill_invite_request db es drafter sender raws t now i
         = update_request i (sent now) (add_code ic (update_request i processing db))"
proof (cases "find_row rq_id i (requests db)")
  case None
  then show ?thesis using that(1) by (simp add: fulfill_invite_request_def)
next
  case (Some rq)
  then have i: "rq_id rq = i" using find_row_Some by metis
  show ?thesis
  proof (cases "request_codes db i = []")
    case False
    then show ?thesis using that(1) Some i by (simp add: fulfill_invite_request_def)
  next
    case none: True
    have p: "(\<lambda>r. r\<lparr> rq_fulfillment_status := lit ''processing'', rq_fulfillment_error := None \<rparr>) = processing"
      by (simp add: processing_def fun_eq_iff)
    have q: "(\<lambda>r. r\<lparr> rq_status := lit ''fulfilled'', rq_fulfillment_status := lit ''sent'',
       rq_fulfilled_at := Some now, rq_email_sent_at := Some now, rq_fulfillment_error := None \<rparr>) = sent now"
      by (simp add: sent_def fun_eq_iff)
    have l: "request_experience_id (processing rq) = request_experience_id rq"
      by (simp add: request_experience_id_def processing_def)
    let ?db1 = "update_request i processing db"
    let ?rest = "rbind (generate_unique_code ?db1 raws) (\<lambda>code. rbind (request_experience_id (processing rq)) (\<lambda>exper.
       Inr (new_code ?db1 code (experience_value exper) (Some INVITE_REQUEST_MAX_USES) (Some (rq_id rq)) t)))"
    show ?thesis
    proof (cases ?rest)
      case (Inl e)
      then show ?thesis using that(2) [OF Some none] Some i none
        by (simp add: fulfill_invite_request_def p)
    next
      case (Inr ic)
      then obtain code exper where g: "generate_unique_code ?db1 raws = Inr code"
        and x: "request_experience_id rq = Inr exper"
        and ic: "ic = new_code db code (experience_value exper) (Some INVITE_REQUEST_MAX_USES) (Some i) t"
        by (auto simp: rbind_eq_Inr l new_code_def i)
      have fresh: "find_row ic_code code (codes db) = None" using generate_unique_code_fresh [OF g] by simp
      show ?thesis
      proof (cases "rbind (drafter (processing rq) ic es) sender")
        case (Inl e)
        then show ?thesis using that(3) [OF Some none fresh x ic] Inr Some i none
          by (simp add: fulfill_invite_request_def p)
      next
        case (Inr r)
        then show ?thesis using that(4) [OF Some none fresh x ic] \<open>?rest = Inr ic\<close> Some i none
          by (simp add: fulfill_invite_request_def p q)
      qed
    qed
  qed
qed

lemma create_request_ok:
  assumes "invites_ok db" and "create_invite_request db s env payload = (rr, db', task)"
  shows "invites_ok db'" and "codes db' = codes db"
  using assms by (fastforce simp: create_invite_request_def invites_ok_def code_ok_def redemption_count_def Let_def)+

lemma deactivate_effect:
  assumes "deactivate_invitation_code db i = (dr, db')"
  shows "db' = db\<lparr> codes := update_row ic_id i (\<lambda>c. c\<lparr> ic_is_active := False \<rparr>) (codes db) \<rparr>"
  using assms find_row_None [of ic_id i "codes db"] update_row_absent [of i ic_id "codes db"]
  by (auto simp: deactivate_invitation_code_def split: option.splits)

lemma deactivate_ok:
  assumes ok: "invites_ok db" and "deactivate_invitation_code db i = (dr, db')"
  shows "invites_ok db'"
proof -
  note db' = deactivate_effect [OF assms(2)]
  have "code_ok db' c" if "c \<in> set (codes db')" for c
  proof -
    have "c \<in> set (codes db) \<or> (\<exists>q \<in> set (codes db). c = q\<lparr> ic_is_active := False \<rparr>)"
      using that by (auto simp: db' in_set_update_row)
    then obtain q where "q \<in> set (codes db)" "c = q \<or> c = q\<lparr> ic_is_active := False \<rparr>" by blast
    then show ?thesis using ok by (auto simp: db' invites_ok_def code_ok_def redemption_count_def)
  qed
  then show ?thesis using ok by (auto simp: db' invites_ok_def map_key_update_row)
qed

lemma review_effect:
  assumes "review_invite_request db i st note now = (vr, db')"
  shows "db' = db \<or> (\<exists>f. db' = update_request i f db \<and> (\<forall>r. rq_id (f r) = rq_id r))"
  using assms by (force simp: review_invite_request_def Let_def split: sum.splits if_splits)

lemma record_failure_ok: "invites_ok db \<Longrightarrow> invites_ok (record_fulfillment_failure i e db)"
  by (simp add: record_fulfillment_failure_def update_request_ok)

text \<open>
  What a step other than the write of a redemption does to the codes: the rows stay but for
  the active flag, new rows have not been used, and no redemption is added.
\<close>

definition code_counts :: "invitation_code \<Rightarrow> int \<times> str \<times> int option \<times> int" where
  "code_counts c = (ic_id c, ic_code c, ic_max_uses c, ic_use_count c)"

definition inactive_codes :: "invite_db \<Rightarrow> (int \<times> str) set" where
  "inactive_codes db = (\<lambda>c. (ic_id c, ic_code c)) ` {c \<in> set (codes db). \<not> ic_is_active c}"

lemma inactive_codeI: "c \<in> set (codes db) \<Longrightarrow> \<not> ic_is_active c \<Longrightarrow> (ic_id c, ic_code c) \<in> inactive_codes db"
  by (auto simp: inactive_codes_def)

definition no_redemption :: "invite_db \<Rightarrow> invite_db \<Rightarrow> bool" where
  "no_redemption db db' \<longleftrightarrow> redemptions db' = redemptions db \<and> inactive_codes db \<subseteq> inactive_codes db'
     \<and> code_counts ` set (codes db) \<subseteq> code_counts ` set (codes db')
     \<and> (\<forall>c \<in> set (codes db'). code_counts c \<in> code_counts ` set (codes db) \<or> ic_use_count c = 0 \<and> next_code_id db \<le> ic_id c)"

lemma no_redemption_refl [simp]: "no_redemption db db"
  by (simp add: no_redemption_def)

lemma no_redemption_update_request [simp]: "no_redemption db (update_request i f db') \<longleftrightarrow> no_redemption db db'"
  by (simp add: no_redemption_def inactive_codes_def)

lemma no_redemption_failure [simp]: "no_redemption db (record_fulfillment_failure i e db') \<longleftrightarrow> no_redemption db db'"
  by (simp add: record_fulfillment_failure_def)

lemma no_redemption_add_code:
  assumes "codes db' = codes db" "redemptions db' = redemptions db" "next_code_id db' = next_code_id db"
  shows "no_redemption db (add_code (new_code db' code label limit request t) db')"
  using assms by (auto simp: no_redemption_def inactive_codes_def add_code_def new_code_def)

lemma no_redemption_deactivate:
  assumes "deactivate_invitation_code db i = (dr, db')"
  shows "no_redemption db db'"
proof -
  let ?f = "\<lambda>c. c\<lparr> ic_is_active := False \<rparr>"
  have "map code_counts (update_row ic_id i ?f (codes db)) = map code_counts (codes db)"
    by (auto simp: update_row_def code_counts_def)
  then have "code_counts ` set (update_row ic_id i ?f (codes db)) = code_counts ` set (codes db)"
    by (metis list.set_map)
  moreover have "inactive_codes db \<subseteq> inactive_codes (db\<lparr> codes := update_row ic_id i ?f (codes db) \<rparr>)"
    by (force simp: inactive_codes_def in_set_update_row)
  ultimately show ?thesis unfolding deactivate_effect [OF assms] no_redemption_def by auto
qed

section \<open>Each step\<close>

text \<open>
  A step either writes a redemption in progress, or it adds none to the table and the
  work in progress after it was there before, or has just been checked.
\<close>

lemma create_code_step:
  assumes "invites_ok db" "create_code_request_ok cp" "create_invitation_code db cp raw now t = (cr, db')"
  shows "invites_ok db' \<and> no_redemption db db'"
  using assms(3)
proof (cases rule: create_code_effect)
  case (created ic dbr)
  have "invites_ok dbr" "codes dbr = codes db" "next_code_id dbr = next_code_id db" "redemptions dbr = redemptions db"
    using created(3) assms(1) by (auto simp: reviewed_def intro!: update_request_ok)
  moreover have "optional_positive (cc_max_uses cp)" using assms(2) by (simp add: create_code_request_ok_def)
  ultimately show ?thesis
    using created add_code_ok [of dbr] no_redemption_add_code [of dbr db] by (simp add: new_code_def)
qed (use assms in simp)

lemma issue_draft_step:
  assumes "invites_ok db" "issue_draft_request_ok ip" "issue_invite_code_draft db es i ip raw now t = (ir, db')"
  shows "invites_ok db' \<and> no_redemption db db'"
  using assms(3)
proof (cases rule: issue_draft_effect)
  case (issued ic label f)
  have "invites_ok (update_request i f db)" using assms(1) issued(3) by (auto intro!: update_request_ok)
  moreover have "optional_positive (is_max_uses ip)" using assms(2) by (simp add: issue_draft_request_ok_def)
  ultimately show ?thesis
    using issued add_code_ok [of "update_request i f db"] no_redemption_add_code [of "update_request i f db" db]
    by (simp add: new_code_def)
qed (use assms in simp)

lemma fulfill_code_Inr:
  assumes "fulfill_code db rq raws t = Inr ic"
  obtains code label where "find_row ic_code code (codes db) = None"
    "ic = new_code db code label (Some INVITE_REQUEST_MAX_USES) (Some (rq_id rq)) t"
  using assms generate_unique_code_fresh [of db raws] that by (auto simp: fulfill_code_def rbind_eq_Inr)

lemma fulfill_issue_step:
  assumes "invites_ok db" "fulfill_code db rq raws t = Inr ic"
  shows "invites_ok (add_code ic db) \<and> no_redemption db (add_code ic db)"
proof (rule fulfill_code_Inr [OF assms(2)])
  fix code label
  assume "find_row ic_code code (codes db) = None"
    "ic = new_code db code label (Some INVITE_REQUEST_MAX_USES) (Some (rq_id rq)) t"
  then show ?thesis
    using add_code_ok [OF assms(1)] no_redemption_add_code [of db db]
    by (simp add: optional_positive_def INVITE_REQUEST_MAX_USES_def)
qed

lemma fulfill_mail_step:
  "invites_ok db \<Longrightarrow> invites_ok (fulfill_mail db es drafter sender now rq ic)"
  "no_redemption db (fulfill_mail db es drafter sender now rq ic)"
  by (auto simp: fulfill_mail_def record_failure_ok sent_def intro!: update_request_ok split: sum.split)

lemma fulfill_claim_step:
  assumes "fulfill_claim db i = Some db'"
  shows "invites_ok db \<Longrightarrow> invites_ok db'" and "no_redemption db db'"
  using assms by (auto simp: fulfill_claim_def processing_def intro!: update_request_ok split: option.splits if_splits)

lemma invite_step_kinds:
  assumes "invite_step (db, ts) (db', ts')" "invites_ok db"
  obtains (writes) s env ic exper jti where "ts = add_mset (Redeeming ic exper) ts'" "db' = redeem_commit db s env ic jti"
  | (checks) code ic exper where "db' = db" "ts' = add_mset (Redeeming ic exper) ts" "redeem_load db code = Inr (ic, exper)"
  | (other) "invites_ok db'" "no_redemption db db'"
      "\<And>ic exper. Redeeming ic exper \<in># ts' \<Longrightarrow> Redeeming ic exper \<in># ts"
  using assms(1)
proof (cases rule: invite_step.cases)
  case (request_invite name email exper reason payload s env rr scheduled)
  have "redemptions db' = redemptions db"
    using request_invite(3) by (auto simp: create_invite_request_def Let_def)
  then show ?thesis
    using other create_request_ok [OF assms(2) request_invite(3)] request_invite(1) by (simp add: no_redemption_def inactive_codes_def)
next
  case (review st i nt now vr)
  then show ?thesis using other assms(2) review_effect [OF review(3)] update_request_ok [OF assms(2)] by auto
next
  case (redeem_checks code ic exper)
  then show ?thesis using checks by simp
next
  case (redeem_writes s ic exper env token claims)
  then show ?thesis using writes by simp
next
  case (create_code cp raw now t cr)
  then show ?thesis using other create_code_step [OF assms(2) create_code(2, 3)] by simp
next
  case (deactivate i dr)
  then show ?thesis using other deactivate_ok [OF assms(2)] no_redemption_deactivate by simp
next
  case (issue_draft ip es i raw now t ir)
  then show ?thesis using other issue_draft_step [OF assms(2) issue_draft(2, 3)] by simp
next
  case (fulfill_claims i)
  then show ?thesis using other fulfill_claim_step assms(2) by simp
next
  case (fulfill_fails i rq raws t e)
  then show ?thesis using other record_failure_ok [OF assms(2)] by simp
next
  case (fulfill_issues i rq raws t ic)
  then show ?thesis using other fulfill_issue_step [OF assms(2)] by simp
next
  case (fulfill_mails rq ic es drafter sender now)
  then show ?thesis using other fulfill_mail_step assms(2) by simp
qed (use assms(2) other in simp)

section \<open>The invariant\<close>

lemma no_redemption_task:
  assumes "no_redemption db db'" "task_ok db task"
  shows "task_ok db' task"
proof -
  have "code_key ` set (codes db) = (\<lambda>(i, c, m, u). (i, c, m)) ` code_counts ` set (codes db)" for db
    by (simp add: image_image code_key_def code_counts_def)
  then have "code_key ` set (codes db) \<subseteq> code_key ` set (codes db')"
    using assms(1) by (metis image_mono no_redemption_def)
  moreover have "redemption_count db' = redemption_count db"
    using assms(1) by (simp add: fun_eq_iff no_redemption_def redemption_count_def)
  ultimately show ?thesis using assms(2) by (auto simp: task_ok_def split: invite_task.splits)
qed

lemma redeem_commit_task:
  assumes "task_ok db task"
  shows "task_ok (redeem_commit db s env ic jti) task"
proof -
  have "map code_key (codes (redeem_commit db s env ic jti)) = map code_key (codes db)"
    by (simp add: redeem_commit_def map_key_update_row code_key_def)
  then have "code_key ` set (codes (redeem_commit db s env ic jti)) = code_key ` set (codes db)"
    by (metis list.set_map)
  then show ?thesis using assms by (auto simp: task_ok_def split: invite_task.splits)
qed

lemma invite_step_ok: "invite_step s s' \<Longrightarrow> invite_state_ok s \<Longrightarrow> invite_state_ok s'"
proof -
  obtain db ts db' ts' where s: "s = (db, ts)" "s' = (db', ts')" by (metis surj_pair)
  assume step: "invite_step s s'" and ok: "invite_state_ok s"
  have inv: "invites_ok db" and tasks: "\<And>task. task \<in># ts \<Longrightarrow> task_ok db task"
    using ok by (simp_all add: invite_state_ok_def s)
  from step [unfolded s] inv show "invite_state_ok s'"
  proof (cases rule: invite_step_kinds)
    case (writes st env ic exper jti)
    then have t: "task_ok db (Redeeming ic exper)" using tasks by simp
    show ?thesis using writes redeem_commit_ok [OF inv t] redeem_commit_task tasks by (simp add: invite_state_ok_def s)
  next
    case (checks code ic exper)
    then show ?thesis using redeem_load_task [OF inv] tasks inv by (auto simp: invite_state_ok_def s)
  next
    case other
    have "task_ok db' task" if "task \<in># ts'" for task
    proof (cases task)
      case (Redeeming ic exper)
      then show ?thesis using no_redemption_task [OF other(2) tasks] other(3) that by simp
    qed (simp_all add: task_ok_def)
    then show ?thesis using other(1) by (simp add: invite_state_ok_def s)
  qed
qed

interpretation invites: preserved invite_step invite_state_ok
  by unfold_locales (rule invite_step_ok)

lemma empty_invites_ok: "invite_state_ok (empty_invite_db, {#})"
  by (simp add: invite_state_ok_def invites_ok_def empty_invite_db_def)

text \<open>Nothing is lost while the redemptions of a code stay apart.\<close>

definition counts_exact :: "invite_state \<Rightarrow> bool" where
  "counts_exact s \<longleftrightarrow> redemptions_apart (snd s)
     \<and> (\<forall>c \<in> set (codes (fst s)). ic_use_count c = int (redemption_count (fst s) (ic_id c)))
     \<and> (\<forall>ic exper. Redeeming ic exper \<in># snd s \<longrightarrow> code_counts ic \<in> code_counts ` set (codes (fst s)))"


lemma write_exact:
  assumes ok: "invites_ok db" and ex: "counts_exact (db, add_mset (Redeeming ic exper) ts)"
    and c: "c \<in> set (codes (redeem_commit db s env ic jti))"
  shows "ic_use_count c = int (redemption_count (redeem_commit db s env ic jti) (ic_id c))"
proof -
  have "code_counts ic \<in> code_counts ` set (codes db)" using ex unfolding counts_exact_def by auto
  then obtain row where row: "row \<in> set (codes db)" "code_counts row = code_counts ic" by force
  have old: "ic_use_count d = int (redemption_count db (ic_id d))" if "d \<in> set (codes db)" for d
    using ex that by (simp add: counts_exact_def)
  consider "c \<in> set (codes db)" "ic_id c \<noteq> ic_id ic"
    | q where "q \<in> set (codes db)" "ic_id q = ic_id ic"
        "c = q\<lparr> ic_use_count := ic_use_count ic + 1, ic_last_used_at := Some (use_now env) \<rparr>"
    using c unfolding redeem_commit_codes by blast
  then show ?thesis
  proof cases
    case 2
    have rs: "ic_use_count row = ic_use_count ic" "ic_id row = ic_id ic" using row(2) by (simp_all add: code_counts_def)
    have "ic_use_count ic = int (redemption_count db (ic_id ic))" using old [OF row(1)] unfolding rs .
    moreover have "ic_id c = ic_id ic" "ic_use_count c = ic_use_count ic + 1" using 2 by simp_all
    ultimately show ?thesis by simp
  qed (simp add: old)
qed

lemma other_in_progress:
  assumes "redemptions_apart (add_mset (Redeeming ic exper) ts)" "Redeeming ic2 exper2 \<in># ts"
  shows "ic_id ic2 \<noteq> ic_id ic"
proof
  assume same: "ic_id ic2 = ic_id ic"
  have "Redeeming ic2 exper2 \<in># filter_mset (redeems (ic_id ic)) ts"
    using assms(2) same by (simp add: redeems_def)
  then have "filter_mset (redeems (ic_id ic)) ts \<noteq> {#}" by (metis empty_not_add_mset multi_member_split)
  moreover have "size (filter_mset (redeems (ic_id ic)) (add_mset (Redeeming ic exper) ts)) \<le> 1"
    using assms(1) unfolding redemptions_apart_def by blast
  ultimately show False by (auto simp: redeems_def split: if_splits)
qed

lemma write_others:
  assumes "redemptions_apart (add_mset (Redeeming ic exper) ts)" "Redeeming ic2 exper2 \<in># ts"
    and "code_counts ic2 \<in> code_counts ` set (codes db)"
  shows "code_counts ic2 \<in> code_counts ` set (codes (redeem_commit db s env ic jti))"
proof -
  obtain row where "row \<in> set (codes db)" "code_counts row = code_counts ic2" using assms(3) by auto
  moreover from this have "ic_id row \<noteq> ic_id ic" using other_in_progress [OF assms(1, 2)] by (simp add: code_counts_def)
  ultimately show ?thesis by (metis image_eqI redeem_commit_codes)
qed

lemma no_redemption_exact:
  assumes ok: "invites_ok db" and ex: "\<forall>c \<in> set (codes db). ic_use_count c = int (redemption_count db (ic_id c))"
    and nr: "no_redemption db db'" and c: "c \<in> set (codes db')"
  shows "ic_use_count c = int (redemption_count db' (ic_id c))"
proof -
  have same: "redemption_count db' = redemption_count db"
    using nr by (simp add: fun_eq_iff no_redemption_def redemption_count_def)
  consider d where "d \<in> set (codes db)" "code_counts c = code_counts d" | "ic_use_count c = 0" "next_code_id db \<le> ic_id c"
    using nr c by (auto simp: no_redemption_def)
  then show ?thesis
  proof cases
    case 1
    then show ?thesis using ex by (simp add: same code_counts_def)
  next
    case 2
    then have "redemption_count db (ic_id c) = 0"
      using ok by (force simp: redemption_count_def invites_ok_def filter_empty_conv)
    then show ?thesis using 2 by (simp add: same)
  qed
qed

lemma calm_step_exact: "calm_step s s' \<Longrightarrow> invite_state_ok s \<Longrightarrow> counts_exact s \<Longrightarrow> counts_exact s'"
proof -
  obtain db ts db' ts' where s: "s = (db, ts)" "s' = (db', ts')" by (metis surj_pair)
  assume step: "calm_step s s'" and ok: "invite_state_ok s" and ex: "counts_exact s"
  have inv: "invites_ok db" using ok by (simp add: invite_state_ok_def s)
  have apart: "redemptions_apart ts'" and move: "invite_step (db, ts) (db', ts')"
    using step by (simp_all add: calm_step_def s)
  have uses: "\<forall>c \<in> set (codes db). ic_use_count c = int (redemption_count db (ic_id c))"
    and held: "\<And>ic exper. Redeeming ic exper \<in># ts \<Longrightarrow> code_counts ic \<in> code_counts ` set (codes db)"
    using ex unfolding counts_exact_def s by auto
  from move inv show "counts_exact s'"
  proof (cases rule: invite_step_kinds)
    case (writes st env ic exper jti)
    have ex1: "counts_exact (db, add_mset (Redeeming ic exper) ts')" using ex writes(1) by (simp add: s)
    then have "redemptions_apart (add_mset (Redeeming ic exper) ts')" by (simp add: counts_exact_def)
    then have "code_counts ic2 \<in> code_counts ` set (codes db')" if "Redeeming ic2 exper2 \<in># ts'" for ic2 exper2
      using write_others [OF _ that] held [of ic2 exper2] that writes by auto
    then show ?thesis using write_exact [OF inv ex1] apart writes by (auto simp: counts_exact_def s)
  next
    case (checks code ic exper)
    then have "ic \<in> set (codes db)" using redeem_load_Inr(1) find_row_Some by metis
    then show ?thesis using checks apart uses held by (auto simp: counts_exact_def s)
  next
    case other
    have "code_counts ` set (codes db) \<subseteq> code_counts ` set (codes db')" using other(2) by (simp add: no_redemption_def)
    then have "code_counts ic \<in> code_counts ` set (codes db')" if "Redeeming ic exper \<in># ts'" for ic exper
      using held [OF other(3) [OF that]] by blast
    then show ?thesis using no_redemption_exact [OF inv uses other(2)] apart by (auto simp: counts_exact_def s)
  qed
qed

interpretation calm: preserved_under calm_step invite_state_ok counts_exact
  by unfold_locales (auto simp: calm_step_def intro: invite_step_ok calm_step_exact)

lemma empty_counts_exact: "counts_exact (empty_invite_db, {#})"
  by (simp add: counts_exact_def redemptions_apart_def empty_invite_db_def)

lemma calm_is_invite: "calm_step\<^sup>*\<^sup>* s s' \<Longrightarrow> invite_step\<^sup>*\<^sup>* s s'"
  by (rule rtranclp_mono [THEN predicate2D]) (auto simp: calm_step_def)

section \<open>Whole requests\<close>

text \<open>The handler and the task run without interruption are runs of the system.\<close>

lemma redeem_run:
  assumes "redeem_request_ok code" "redeem_invitation_code db s p1 env code = (resp, db')" "redemptions_apart ts"
    and "\<And>ic exper. redeem_load db code = Inr (ic, exper) \<Longrightarrow> filter_mset (redeems (ic_id ic)) ts = {#}"
  shows "calm_step\<^sup>*\<^sup>* (db, ts) (db', ts)"
  using assms(2)
proof (cases rule: redeem_effect)
  case (redeemed ic exper token claims ar)
  have "size (filter_mset (redeems i) (add_mset (Redeeming ic exper) ts)) \<le> 1" for i
    using assms(3) assms(4) [OF redeemed(1)] by (cases "ic_id ic = i") (simp_all add: redeems_def redemptions_apart_def)
  then have "calm_step (db, ts) (db, add_mset (Redeeming ic exper) ts)"
    using invite_step.redeem_checks [OF assms(1) redeemed(1)] by (simp add: calm_step_def redemptions_apart_def)
  moreover have "calm_step (db, add_mset (Redeeming ic exper) ts) (db', ts)"
    using invite_step.redeem_writes [OF redeemed(2)] assms(3) redeemed(4) by (simp add: calm_step_def)
  ultimately show ?thesis by (meson r_into_rtranclp rtranclp.rtrancl_into_rtrancl)
qed simp

lemma fulfill_stages:
  "fulfill_invite_request db es drafter sender raws t now i =
     (case fulfill_claim db i of
        None \<Rightarrow> db
      | Some db1 \<Rightarrow>
          (case find_row rq_id i (requests db1) of
             None \<Rightarrow> db1
           | Some rq \<Rightarrow>
               (case fulfill_code db1 rq raws t of
                  Inl e \<Rightarrow> record_fulfillment_failure i e db1
                | Inr ic \<Rightarrow> fulfill_mail (add_code ic db1) es drafter sender now rq ic)))"
proof (cases "find_row rq_id i (requests db)")
  case None
  then show ?thesis by (simp add: fulfill_invite_request_def fulfill_claim_def)
next
  case (Some rq)
  then have i: "rq_id rq = i" using find_row_Some by metis
  have p: "(\<lambda>r. r\<lparr> rq_fulfillment_status := lit ''processing'', rq_fulfillment_error := None \<rparr>) = processing"
    by (simp add: processing_def fun_eq_iff)
  have q: "(\<lambda>r. r\<lparr> rq_status := lit ''fulfilled'', rq_fulfillment_status := lit ''sent'',
     rq_fulfilled_at := Some now, rq_email_sent_at := Some now, rq_fulfillment_error := None \<rparr>) = sent now"
    by (simp add: sent_def fun_eq_iff)
  have k: "rq_id (processing r) = rq_id r" for r by (simp add: processing_def)
  have row: "find_row rq_id i (requests (update_request i processing db)) = Some (processing rq)"
    using Some by (simp add: update_request_def find_row_update_row k)
  show ?thesis
    using Some by (simp add: fulfill_invite_request_def fulfill_claim_def fulfill_code_def fulfill_mail_def p q row k i
        split: sum.splits)
qed

lemma fulfill_run: "invite_step\<^sup>*\<^sup>* (db, ts) (fulfill_invite_request db es drafter sender raws t now i, ts)"
proof (cases "fulfill_claim db i")
  case None
  then show ?thesis by (simp add: fulfill_stages)
next
  case (Some db1)
  then have c: "invite_step (db, ts) (db1, add_mset (Issuing i) ts)" by (rule invite_step.fulfill_claims)
  show ?thesis
  proof (cases "find_row rq_id i (requests db1)")
    case None
    then show ?thesis using c invite_step.abandoned [of db1 "Issuing i" ts] by (simp add: fulfill_stages Some)
  next
    case row: (Some rq)
    show ?thesis
    proof (cases "fulfill_code db1 rq raws t")
      case (Inl e)
      then show ?thesis using c invite_step.fulfill_fails [OF row Inl, of ts] by (simp add: fulfill_stages Some row)
    next
      case (Inr ic)
      have "invite_step\<^sup>*\<^sup>* (db, ts) (add_code ic db1, add_mset (Mailing rq ic) ts)"
        using c invite_step.fulfill_issues [OF row Inr, of ts] by simp
      then have "invite_step\<^sup>*\<^sup>* (db, ts) (fulfill_mail (add_code ic db1) es drafter sender now rq ic, ts)"
        using invite_step.fulfill_mails by (rule rtranclp.rtrancl_into_rtrancl)
      then show ?thesis by (simp add: fulfill_stages Some row Inr)
    qed
  qed
qed

section \<open>Deactivation lasts\<close>

lemma redeem_commit_inactive: "inactive_codes db \<subseteq> inactive_codes (redeem_commit db s env ic jti)"
proof
  fix x assume "x \<in> inactive_codes db"
  then obtain c where c: "c \<in> set (codes db)" "\<not> ic_is_active c" "x = (ic_id c, ic_code c)" by (auto simp: inactive_codes_def)
  show "x \<in> inactive_codes (redeem_commit db s env ic jti)"
  proof (cases "ic_id c = ic_id ic")
    case True
    let ?c = "c\<lparr> ic_use_count := ic_use_count ic + 1, ic_last_used_at := Some (use_now env) \<rparr>"
    have "?c \<in> set (codes (redeem_commit db s env ic jti))" using True c(1) unfolding redeem_commit_codes by blast
    then show ?thesis using c inactive_codeI by force
  next
    case False
    then have "c \<in> set (codes (redeem_commit db s env ic jti))" using c(1) unfolding redeem_commit_codes by blast
    then show ?thesis using c inactive_codeI by force
  qed
qed

lemma invite_step_inactive:
  assumes "invite_step s s'" "invite_state_ok s" "x \<in> inactive_codes (fst s)"
  shows "x \<in> inactive_codes (fst s')"
proof -
  obtain db ts db' ts' where s: "s = (db, ts)" "s' = (db', ts')" by (metis surj_pair)
  have inv: "invites_ok db" using assms(2) by (simp add: invite_state_ok_def s)
  from assms(1) [unfolded s] inv show ?thesis
  proof (cases rule: invite_step_kinds)
    case other
    then show ?thesis using assms(3) by (auto simp: s no_redemption_def)
  next
    case (writes st env ic exper jti)
    then show ?thesis using assms(3) redeem_commit_inactive [of db st env ic jti] by (auto simp: s)
  qed (use assms(3) in \<open>simp add: s\<close>)
qed

interpretation deactivated: preserved_under invite_step invite_state_ok "\<lambda>s. x \<in> inactive_codes (fst s)" for x
  by unfold_locales (rule invite_step_inactive)

section \<open>Properties\<close>

text \<open>
  C2: In every state that redemptions, fulfilments and administrator requests can reach from an
  empty database, however they overlap, ids and codes are unique, and a code's use count is
  never negative, above its limit or above the number of its recorded redemptions. In a run
  in which no two redemptions of one code overlap it is exactly that number, so that the
  recorded redemptions keep the limit.
\<close>

theorem use_limits_hold:
  assumes "invite_step\<^sup>*\<^sup>* (empty_invite_db, {#}) (db, ts)" and "c \<in> set (codes db)"
  shows "distinct (map ic_id (codes db)) \<and> distinct (map ic_code (codes db))
     \<and> 0 \<le> ic_use_count c \<and> ic_use_count c \<le> int (redemption_count db (ic_id c))
     \<and> (\<forall>m. ic_max_uses c = Some m \<longrightarrow> ic_use_count c \<le> m)
     \<and> (calm_step\<^sup>*\<^sup>* (empty_invite_db, {#}) (db, ts) \<longrightarrow> ic_use_count c = int (redemption_count db (ic_id c))
          \<and> (\<forall>m. ic_max_uses c = Some m \<longrightarrow> int (redemption_count db (ic_id c)) \<le> m))"
proof -
  have "invite_state_ok (db, ts)" by (rule invites.reach_inv [OF assms(1) empty_invites_ok])
  then have ok: "invites_ok db" "code_ok db c" using assms(2) by (auto simp: invite_state_ok_def invites_ok_def)
  have "ic_use_count c = int (redemption_count db (ic_id c))" if "calm_step\<^sup>*\<^sup>* (empty_invite_db, {#}) (db, ts)"
    using calm.reach_fact [OF that empty_invites_ok empty_counts_exact] assms(2) by (simp add: counts_exact_def)
  then show ?thesis using ok unfolding invites_ok_def code_ok_def by auto
qed

definition demo_env :: request_env where
  "demo_env = \<lparr> user_agent = None, client_host = None, fresh_jti = lit ''j'', issue_now = 0, use_now = 1, db_now = 2 \<rparr>"

definition demo_code :: invitation_code where
  "demo_code = \<lparr> ic_id = 1, ic_code = lit ''A'', ic_label = Some (lit ''rag-demo''), ic_is_active = True,
     ic_max_uses = Some 1, ic_use_count = 0, ic_created_at = 0, ic_last_used_at = None, ic_request_id = None \<rparr>"

definition demo_db :: invite_db where
  "demo_db = empty_invite_db\<lparr> codes := [demo_code], next_code_id := 2 \<rparr>"

lemma strip_A [simp]: "strip (lit ''A'') = lit ''A''"
  by code_simp

lemma demo_db_reachable: "calm_step\<^sup>*\<^sup>* (empty_invite_db, {#}) (demo_db, {#})"
proof -
  have "invite_step (empty_invite_db, {#}) (demo_db, {#})"
  proof (rule invite_step.create_code)
    show "create_code_request_ok \<lparr> cc_code = Some (lit ''A''), cc_label = RAG_DEMO, cc_max_uses = Some 1, cc_request_id = None \<rparr>"
      by (simp add: create_code_request_ok_def optional_code_ok_def optional_positive_def)
    show "create_invitation_code empty_invite_db
        \<lparr> cc_code = Some (lit ''A''), cc_label = RAG_DEMO, cc_max_uses = Some 1, cc_request_id = None \<rparr> [] 0 0
        = (serialize_invitation_code demo_code, demo_db)"
      by (simp add: create_invitation_code_def chosen_code_def truthy_def new_code_def add_code_def
          empty_invite_db_def demo_db_def demo_code_def row_simps Let_def)
  qed
  then have "calm_step (empty_invite_db, {#}) (demo_db, {#})" by (simp add: calm_step_def redemptions_apart_def)
  then show ?thesis by blast
qed

lemma demo_load: "redeem_load demo_db (lit ''A'') = Inr (demo_code, RAG_DEMO)"
proof -
  have "parse_experience_id (Some (lit ''rag-demo'')) = Inr RAG_DEMO"
    using parse_experience_value [of RAG_DEMO] by simp
  then show ?thesis by (simp add: redeem_load_def demo_db_def demo_code_def row_simps)
qed

lemma demo_token: "\<exists>token. create_access_token demo_settings 1 (lit ''A'') RAG_DEMO (lit ''j'') 0 = Inr (token,
     \<lparr> token_id = lit ''j'', invitation_code_id = 1, claim_code = lit ''A'', claim_experience_id = RAG_DEMO,
        issued_at = 0, expires_at = 60000000 \<rparr>)"
  by (rule create_access_token_total)
    (simp_all add: add_seconds_def demo_settings_def min_datetime_def max_datetime_def)

lemma demo_redeemed:
  "\<exists>ar. redeem_invitation_code demo_db demo_settings p1 demo_env (lit ''A'')
     = (Inr ar, redeem_commit demo_db demo_settings demo_env demo_code (lit ''j''))"
proof -
  obtain token where "create_access_token demo_settings 1 (lit ''A'') RAG_DEMO (lit ''j'') 0 = Inr (token,
     \<lparr> token_id = lit ''j'', invitation_code_id = 1, claim_code = lit ''A'', claim_experience_id = RAG_DEMO,
        issued_at = 0, expires_at = 60000000 \<rparr>)" using demo_token by blast
  then show ?thesis by (auto simp: redeem_invitation_code_def demo_load demo_env_def demo_code_def)
qed

theorem use_limits_hold_witness:
  "let db = redeem_commit demo_db demo_settings demo_env demo_code (lit ''j'') in
     calm_step\<^sup>*\<^sup>* (empty_invite_db, {#}) (db, {#}) \<and> map ic_use_count (codes db) = [1] \<and> map ic_max_uses (codes db) = [Some 1] \<and> redemption_count db 1 = 1"
proof -
  let ?db = "redeem_commit demo_db demo_settings demo_env demo_code (lit ''j'')"
  obtain p1 ar where "redeem_invitation_code demo_db demo_settings p1 demo_env (lit ''A'') = (Inr ar, ?db)"
    using demo_redeemed by blast
  then have "calm_step\<^sup>*\<^sup>* (demo_db, {#}) (?db, {#})"
    by (rule redeem_run [rotated]) (simp_all add: redeem_request_ok_def redemptions_apart_def)
  then have r: "calm_step\<^sup>*\<^sup>* (empty_invite_db, {#}) (?db, {#})" using demo_db_reachable by (rule rtranclp_trans [rotated])
  have c: "codes ?db = [demo_code\<lparr> ic_use_count := 1, ic_last_used_at := Some 1 \<rparr>]"
    by (simp add: redeem_commit_def demo_db_def demo_code_def demo_env_def row_simps)
  then have "ic_use_count (demo_code\<lparr> ic_use_count := 1, ic_last_used_at := Some 1 \<rparr>)
      = int (redemption_count ?db (ic_id demo_code))"
    using r use_limits_hold [OF calm_is_invite [OF r], of "demo_code\<lparr> ic_use_count := 1, ic_last_used_at := Some 1 \<rparr>"] by simp
  then show ?thesis using r c by (simp add: Let_def demo_code_def)
qed

text \<open>
  Once an operator has deactivated a code, every later attempt to redeem it is refused
  with 403, whatever happened in between. (A redemption that had checked the code before may
  still be written.)
\<close>

theorem deactivated_code_refused:
  assumes "invite_step\<^sup>*\<^sup>* (empty_invite_db, {#}) (db, ts)" and "deactivate_invitation_code db i = (Inr view, db1)"
    and "invite_step\<^sup>*\<^sup>* (db1, ts) (db2, ts2)" and "strip code = icr_code view"
  shows "redeem_invitation_code db2 st p1 env code
       = (Inl (HTTPException 403 (lit ''Invitation code is inactive.'')), db2)"
proof -
  have ok: "invite_state_ok (db, ts)" by (rule invites.reach_inv [OF assms(1) empty_invites_ok])
  have "invite_step (db, ts) (db1, ts)" by (rule invite_step.deactivate [OF assms(2)])
  then have ok1: "invite_state_ok (db1, ts)" using ok invite_step_ok by blast
  obtain c where c: "find_row ic_id i (codes db) = Some c" and v: "icr_code view = ic_code c"
    using assms(2) by (auto simp: deactivate_invitation_code_def serialize_invitation_code_def rbind_eq_Inr
        split: option.splits)
  have "c\<lparr> ic_is_active := False \<rparr> \<in> set (codes db1)"
    using find_row_Some [OF c] by (force simp: deactivate_effect [OF assms(2)] in_set_update_row)
  then have "(i, icr_code view) \<in> inactive_codes (fst (db1, ts))"
    using find_row_Some [OF c] v inactive_codeI by force
  then have "(i, icr_code view) \<in> inactive_codes (fst (db2, ts2))" by (rule deactivated.reach_fact [OF assms(3) ok1])
  then obtain d where d: "d \<in> set (codes db2)" "ic_code d = icr_code view" "\<not> ic_is_active d"
    by (auto simp: inactive_codes_def)
  have "distinct (map ic_code (codes db2))"
    using invites.reach_inv [OF assms(3) ok1] by (simp add: invite_state_ok_def invites_ok_def)
  then have "find_row ic_code (strip code) (codes db2) = Some d"
    using d assms(4) find_row_distinct [of ic_code "codes db2" d] by simp
  then show ?thesis using d by (auto simp: redeem_invitation_code_def redeem_load_def)
qed

definition demo_p1 :: phase1_settings where
  "demo_p1 = \<lparr> max_files_per_run = 3, max_file_size_bytes = 9, max_extracted_text_bytes = 9,
     max_total_workflow_text_bytes = 9 \<rparr>"

lemma demo_deactivated: "\<exists>view db1. deactivate_invitation_code demo_db 1 = (Inr view, db1) \<and> icr_code view = lit ''A''"
proof -
  have "parse_experience_id (Some (lit ''rag-demo'')) = Inr RAG_DEMO"
    using parse_experience_value [of RAG_DEMO] by simp
  then show ?thesis
    by (simp add: deactivate_invitation_code_def demo_db_def demo_code_def row_simps
        serialize_invitation_code_def optional_experience_id_def)
qed

theorem deactivated_code_refused_witness:
  "redeem_invitation_code (snd (deactivate_invitation_code demo_db 1)) demo_settings demo_p1 demo_env (lit ''A'')
     = (Inl (HTTPException 403 (lit ''Invitation code is inactive.'')), snd (deactivate_invitation_code demo_db 1))"
proof -
  obtain view db1 where d: "deactivate_invitation_code demo_db 1 = (Inr view, db1)" "icr_code view = lit ''A''"
    using demo_deactivated by blast
  then show ?thesis
    using deactivated_code_refused [OF calm_is_invite [OF demo_db_reachable] d(1) rtranclp.rtrancl_refl, of "lit ''A''" demo_settings demo_p1 demo_env]
    by simp
qed

text \<open>
  C3: A successful redemption that no other request interrupts returns a bearer token that verifies
  until its expiry and carries the redeemed code, its id and the experience of its label;
  it was within the limit, its row counts one use more, and one redemption with the token's
  id is added.
\<close>

theorem redeem_issues_valid_token:
  assumes "redeem_invitation_code db st p1 env code = (Inr resp, db')"
    and "valid_str (strip code)" and "valid_str (fresh_jti env)" and "0 \<le> issue_now env"
    and "0 \<le> access_token_ttl_seconds st" and "clock < truncate_seconds (ar_expires_at resp)"
  shows "\<exists>ic claims. find_row ic_code (strip code) (codes db) = Some ic \<and> ic_is_active ic
     \<and> (\<forall>m. ic_max_uses ic = Some m \<longrightarrow> ic_use_count ic + 1 \<le> m)
     \<and> verify_access_token rt (ar_access_token resp) st clock = Inr claims
     \<and> invitation_code_id claims = ic_id ic \<and> claim_code claims = strip code
     \<and> ic_label ic = Some (experience_value (claim_experience_id claims))
     \<and> ar_experience_id resp = claim_experience_id claims
     \<and> (\<forall>c \<in> set (codes db). ic_id c \<noteq> ic_id ic \<longrightarrow> c \<in> set (codes db'))
     \<and> ic\<lparr> ic_use_count := ic_use_count ic + 1, ic_last_used_at := Some (use_now env) \<rparr> \<in> set (codes db')
     \<and> map rd_token_id (redemptions db') = map rd_token_id (redemptions db) @ [token_id claims]"
proof -
  obtain ic exper token cl where l: "redeem_load db code = Inr (ic, exper)"
    and t: "create_access_token st (ic_id ic) (ic_code ic) exper (fresh_jti env) (issue_now env) = Inr (token, cl)"
    and resp: "ar_access_token resp = token" "ar_expires_at resp = expires_at cl" "ar_experience_id resp = claim_experience_id cl"
    and db': "db' = redeem_commit db st env ic (token_id cl)"
    using assms(1) by (auto simp: redeem_invitation_code_def split: sum.splits prod.splits)
  have row: "find_row ic_code (strip code) (codes db) = Some ic" by (rule redeem_load_Inr(1) [OF l])
  then have ic: "ic \<in> set (codes db)" "ic_code ic = strip code" using find_row_Some by metis+
  then have v: "valid_str (ic_code ic)" using assms(2) by simp
  have cl: "cl = \<lparr> token_id = fresh_jti env, invitation_code_id = ic_id ic, claim_code = ic_code ic,
      claim_experience_id = exper, issued_at = issue_now env, expires_at = expires_at cl \<rparr>"
    using create_access_token_Inr [OF t assms(3) v] by auto
  have ver: "verify_access_token rt token st clock = Inr (cl\<lparr> issued_at := truncate_seconds (issue_now env),
      expires_at := truncate_seconds (expires_at cl) \<rparr>)"
    using verify_issued [OF t assms(3) v assms(4,5)] assms(6) resp by simp
  have upd: "ic\<lparr> ic_use_count := ic_use_count ic + 1, ic_last_used_at := Some (use_now env) \<rparr> \<in> set (codes db')"
    using ic(1) by (force simp: db' redeem_commit_def update_row_def)
  have rest: "\<forall>c \<in> set (codes db). ic_id c \<noteq> ic_id ic \<longrightarrow> c \<in> set (codes db')"
    by (auto simp: db' redeem_commit_def in_set_update_row)
  have red: "map rd_token_id (redemptions db') = map rd_token_id (redemptions db) @ [token_id cl]"
    by (simp add: db' redeem_commit_def)
  have below: "\<forall>m. ic_max_uses ic = Some m \<longrightarrow> ic_use_count ic + 1 \<le> m"
    using redeem_load_Inr(3) [OF l] by fastforce
  have cl': "invitation_code_id cl = ic_id ic" "claim_code cl = strip code" "claim_experience_id cl = exper"
    using cl ic(2) by (metis access_token_claims.select_convs)+
  show ?thesis
    using row redeem_load_Inr(2,4) [OF l] below ver upd rest red cl' resp
    by (intro exI [of _ ic] exI [of _ "cl\<lparr> issued_at := truncate_seconds (issue_now env),
      expires_at := truncate_seconds (expires_at cl) \<rparr>"]) simp
qed

theorem redeem_issues_valid_token_witness:
  "\<exists>resp claims. redeem_invitation_code demo_db demo_settings demo_p1 demo_env (lit ''A'')
       = (Inr resp, redeem_commit demo_db demo_settings demo_env demo_code (lit ''j''))
     \<and> verify_access_token no_runtime (ar_access_token resp) demo_settings 59999999 = Inr claims
     \<and> invitation_code_id claims = 1"
proof -
  obtain resp where r: "redeem_invitation_code demo_db demo_settings demo_p1 demo_env (lit ''A'')
       = (Inr resp, redeem_commit demo_db demo_settings demo_env demo_code (lit ''j''))"
    using demo_redeemed by blast
  obtain token where "create_access_token demo_settings 1 (lit ''A'') RAG_DEMO (lit ''j'') 0 = Inr (token,
     \<lparr> token_id = lit ''j'', invitation_code_id = 1, claim_code = lit ''A'', claim_experience_id = RAG_DEMO,
        issued_at = 0, expires_at = 60000000 \<rparr>)" using demo_token by blast
  then have "ar_expires_at resp = 60000000"
    using r by (auto simp: redeem_invitation_code_def demo_load demo_env_def demo_code_def split: sum.splits)
  then show ?thesis
    using redeem_issues_valid_token [OF r, of 59999999 no_runtime] r
    by (auto simp: demo_env_def demo_settings_def truncate_seconds_def demo_db_def demo_code_def row_simps)
qed

text \<open>
  C4: Two redemptions that both load a code before either commits are both granted, and the
  second write repeats the first: the use count goes up by one while two redemptions are
  recorded. A code with one use left is redeemed twice. (The four steps are a run of the
  system, \<open>racing_run\<close>; before them the redemptions of a code were apart.)
\<close>

theorem racing_redemptions_exceed_limit:
  assumes "calm_step\<^sup>*\<^sup>* (empty_invite_db, {#}) (db, ts)" and "redeem_load db code = Inr (ic, exper)"
    and "ic_max_uses ic = Some (ic_use_count ic + 1)"
    and db'_def: "db' = redeem_commit (redeem_commit db st env1 ic jti1) st env2 ic jti2"
  shows "int (redemption_count db' (ic_id ic)) = ic_use_count ic + 2
    \<and> (\<forall>c \<in> set (codes db'). ic_id c = ic_id ic \<longrightarrow>
           ic_use_count c = ic_use_count ic + 1 \<and> ic_max_uses c = Some (ic_use_count ic + 1))"
proof -
  have ok: "invites_ok db"
    using invites.reach_inv [OF calm_is_invite [OF assms(1)] empty_invites_ok] by (simp add: invite_state_ok_def)
  have ic: "ic \<in> set (codes db)" using redeem_load_Inr(1) [OF assms(2)] find_row_Some by metis
  then have "ic_use_count ic = int (redemption_count db (ic_id ic))"
    using calm.reach_fact [OF assms(1) empty_invites_ok empty_counts_exact] by (simp add: counts_exact_def)
  then have "int (redemption_count db' (ic_id ic)) = ic_use_count ic + 2" by (simp add: db'_def)
  moreover have uniq: "q = ic" if "q \<in> set (codes db)" "ic_id q = ic_id ic" for q
    using that ic ok by (metis distinct_map inj_onD invites_ok_def)
  moreover have "\<exists>q \<in> set (codes db). ic_id q = ic_id ic \<and> ic_use_count c = ic_use_count ic + 1 \<and> ic_max_uses c = ic_max_uses q"
    if "c \<in> set (codes db')" "ic_id c = ic_id ic" for c
    using that by (auto simp: db'_def redeem_commit_def in_set_update_row) metis
  then have "\<forall>c \<in> set (codes db'). ic_id c = ic_id ic \<longrightarrow>
       ic_use_count c = ic_use_count ic + 1 \<and> ic_max_uses c = Some (ic_use_count ic + 1)"
    using assms(3) uniq by metis
  ultimately show ?thesis by blast
qed

lemma racing_run:
  assumes "redeem_request_ok code" "redeem_load db code = Inr (ic, exper)"
    and "create_access_token st (ic_id ic) (ic_code ic) exper (fresh_jti env1) (issue_now env1) = Inr (token1, claims1)"
    and "create_access_token st (ic_id ic) (ic_code ic) exper (fresh_jti env2) (issue_now env2) = Inr (token2, claims2)"
  shows "invite_step\<^sup>*\<^sup>* (db, ts) (redeem_commit (redeem_commit db st env1 ic (token_id claims1)) st env2 ic (token_id claims2), ts)"
proof -
  note loads = invite_step.redeem_checks [OF assms(1, 2)]
  note writes = invite_step.redeem_writes [OF assms(3)] invite_step.redeem_writes [OF assms(4)]
  show ?thesis
    by (rule rtranclp.rtrancl_into_rtrancl, rule rtranclp.rtrancl_into_rtrancl, rule rtranclp.rtrancl_into_rtrancl,
        rule r_into_rtranclp) (rule loads writes)+
qed

definition other_env :: request_env where
  "other_env = demo_env\<lparr> fresh_jti := lit ''k'' \<rparr>"

lemma other_token: "\<exists>token. create_access_token demo_settings 1 (lit ''A'') RAG_DEMO (lit ''k'') 0 = Inr (token,
     \<lparr> token_id = lit ''k'', invitation_code_id = 1, claim_code = lit ''A'', claim_experience_id = RAG_DEMO,
        issued_at = 0, expires_at = 60000000 \<rparr>)"
  by (rule create_access_token_total)
    (simp_all add: add_seconds_def demo_settings_def min_datetime_def max_datetime_def)

theorem racing_redemptions_exceed_limit_witness:
  "let db' = redeem_commit (redeem_commit demo_db demo_settings demo_env demo_code (lit ''j''))
               demo_settings other_env demo_code (lit ''k'')
   in invite_step\<^sup>*\<^sup>* (empty_invite_db, {#}) (db', {#}) \<and> int (redemption_count db' 1) = 2 \<and> map ic_max_uses (codes db') = [Some 1]"
proof -
  let ?db = "redeem_commit (redeem_commit demo_db demo_settings demo_env demo_code (lit ''j''))
               demo_settings other_env demo_code (lit ''k'')"
  obtain token where t: "create_access_token demo_settings 1 (lit ''A'') RAG_DEMO (lit ''j'') 0 = Inr (token,
     \<lparr> token_id = lit ''j'', invitation_code_id = 1, claim_code = lit ''A'', claim_experience_id = RAG_DEMO,
        issued_at = 0, expires_at = 60000000 \<rparr>)" using demo_token by blast
  obtain token2 where t2: "create_access_token demo_settings 1 (lit ''A'') RAG_DEMO (lit ''k'') 0 = Inr (token2,
     \<lparr> token_id = lit ''k'', invitation_code_id = 1, claim_code = lit ''A'', claim_experience_id = RAG_DEMO,
        issued_at = 0, expires_at = 60000000 \<rparr>)" using other_token by blast
  have "invite_step\<^sup>*\<^sup>* (demo_db, {#}) (?db, {#})"
    using racing_run [OF _ demo_load, of demo_settings demo_env _ _ other_env] t t2
    by (fastforce simp: redeem_request_ok_def demo_code_def demo_env_def other_env_def)
  then have run: "invite_step\<^sup>*\<^sup>* (empty_invite_db, {#}) (?db, {#})"
    using calm_is_invite [OF demo_db_reachable] by (rule rtranclp_trans [rotated])
  then show ?thesis
    using racing_redemptions_exceed_limit [OF demo_db_reachable demo_load _ refl,
        of demo_settings demo_env "lit ''j''" other_env "lit ''k''"]
    by (simp add: Let_def demo_code_def demo_db_def redeem_commit_def row_simps)
qed

text \<open>
  C5: Fulfilling a request that has no code ends in one of two ways: sent, with exactly one
  fresh active code of ten uses for the request's experience, or failed, with the error's
  text recorded and at most one code.
\<close>

theorem fulfillment_settles:
  assumes "find_row rq_id i (requests db) = Some rq" and "request_codes db i = []"
    and db'_def: "db' = fulfill_invite_request db es drafter sender raws t now i"
  shows "\<exists>rq'. find_row rq_id i (requests db') = Some rq'
     \<and> ((rq_status rq' = lit ''fulfilled'' \<and> rq_fulfillment_status rq' = lit ''sent''
           \<and> rq_fulfillment_error rq' = None \<and> rq_email_sent_at rq' = Some now
           \<and> (\<exists>c exper. request_codes db' i = [c] \<and> request_experience_id rq = Inr exper
                 \<and> ic_label c = Some (experience_value exper) \<and> ic_max_uses c = Some 10
                 \<and> ic_use_count c = 0 \<and> ic_is_active c \<and> ic_code c \<notin> ic_code ` set (codes db)))
        \<or> (rq_status rq' = lit ''email_failed'' \<and> rq_fulfillment_status rq' = lit ''failed''
           \<and> (\<exists>e. rq_fulfillment_error rq' = Some (error_text e)) \<and> length (request_codes db' i) \<le> 1))"
proof -
  have upd: "find_row rq_id i (requests (update_request i f d)) = map_option f (find_row rq_id i (requests d))"
    if "\<And>r. rq_id (f r) = rq_id r" for f d
    using that by (simp add: update_request_def find_row_update_row)
  have add: "requests (add_code c d) = requests d" for c d by (simp add: add_code_def)
  have codes_add: "request_codes (add_code c d) i = request_codes d i @ (if ic_request_id c = Some i then [c] else [])" for c d
    by (simp add: request_codes_def add_code_def)
  have codes_upd: "request_codes (update_request i f d) i = request_codes d i" for f d
    by (simp add: request_codes_def)
  show ?thesis unfolding db'_def
    by (rule fulfill_effect [where db = db and es = es and drafter = drafter and sender = sender and raws = raws
          and t = t and now = now and i = i])
      (auto simp: assms record_fulfillment_failure_def upd add codes_add codes_upd new_code_def processing_def sent_def
        INVITE_REQUEST_MAX_USES_def find_row_None)
qed

definition demo_request :: invitation_request where
  "demo_request = \<lparr> rq_id = 1, rq_name = lit ''Ann'', rq_email = lit ''a@b.c'', rq_label = None,
     rq_reason = lit ''to try the demo'', rq_status = lit ''submitted'', rq_created_at = 0,
     rq_user_agent = None, rq_ip_hash = None, rq_reviewed_at = None, rq_reviewer_note = None,
     rq_fulfillment_status = lit ''pending'', rq_fulfilled_at = None, rq_email_sent_at = None,
     rq_fulfillment_error = None \<rparr>"

definition demo_email_settings :: email_settings where
  "demo_email_settings = \<lparr> email_provider = lit ''stub'', invite_email_base_url = lit ''http://x/'',
     invite_email_draft_provider = lit ''openai'', invite_email_draft_model = lit ''m'',
     invite_email_bcc_address = None, oci_email_smtp_host = None, oci_email_smtp_port = 587,
     oci_email_smtp_username = None, oci_email_smtp_password = None, oci_email_from_address = None,
     oci_email_from_name = None \<rparr>"

definition no_llm :: email_model where
  "no_llm p m t = Inl (RuntimeError (lit ''no model''))"

definition no_smtp :: smtp_server where
  "no_smtp h p u w m = Inl (RuntimeError (lit ''no server''))"

definition demo_fulfill :: "invite_db \<Rightarrow> invite_db" where
  "demo_fulfill db = fulfill_invite_request db demo_email_settings (build_invite_email_draft no_llm)
     (send_invite_email no_smtp demo_email_settings) [[1, 2, 3]] 5 6 1"

theorem fulfillment_settles_witness:
  "\<exists>rq'. find_row rq_id 1 (requests (demo_fulfill (empty_invite_db\<lparr> requests := [demo_request] \<rparr>))) = Some rq'
     \<and> (rq_fulfillment_status rq' = lit ''sent'' \<or> rq_fulfillment_status rq' = lit ''failed'')"
  using fulfillment_settles [where db = "empty_invite_db\<lparr> requests := [demo_request] \<rparr>" and i = 1 and rq = demo_request
      and es = demo_email_settings and drafter = "build_invite_email_draft no_llm"
      and sender = "send_invite_email no_smtp demo_email_settings" and raws = "[[1, 2, 3]]" and t = 5 and now = 6]
  by (auto simp: demo_fulfill_def request_codes_def empty_invite_db_def row_simps demo_request_def)

text \<open>
  When the code has been committed and sending fails, the request is left failed with
  its code, and running the fulfilment again, with any mail server, changes nothing: the
  failure is never retried.
\<close>

theorem failed_email_is_not_retried:
  assumes "find_row rq_id i (requests db) = Some rq" and "request_codes db i = []"
    and "request_experience_id rq = Inr exper" and "isl (generate_unique_code db raws) = False"
    and "\<And>d. isl (sender d)"
    and db'_def: "db' = fulfill_invite_request db es drafter sender raws t now i"
  shows "fulfill_invite_request db' es2 drafter2 sender2 raws2 t2 now2 i = db'
     \<and> length (request_codes db' i) = 1
     \<and> (\<exists>rq'. find_row rq_id i (requests db') = Some rq' \<and> rq_fulfillment_status rq' = lit ''failed'')"
proof -
  have i: "rq_id rq = i" using find_row_Some [OF assms(1)] ..
  have p: "(\<lambda>r. r\<lparr> rq_fulfillment_status := lit ''processing'', rq_fulfillment_error := None \<rparr>) = processing"
    by (simp add: processing_def fun_eq_iff)
  have x: "request_experience_id (processing rq) = Inr exper"
    using assms(3) by (simp add: request_experience_id_def processing_def)
  obtain code where "generate_unique_code db raws = Inr code" using assms(4) by (cases "generate_unique_code db raws") auto
  moreover have "first_unused_code (update_request i processing db) n rs = first_unused_code db n rs" for n rs
    by (induction db n rs rule: first_unused_code.induct) (simp_all add: Let_def)
  ultimately have g: "generate_unique_code (update_request i processing db) raws = Inr code"
    by (simp add: generate_unique_code_def)
  let ?ic = "new_code (update_request i processing db) code (experience_value exper) (Some INVITE_REQUEST_MAX_USES) (Some i) t"
  obtain e where e: "rbind (drafter (processing rq) ?ic es) sender = Inl e"
    using assms(5) by (cases "drafter (processing rq) ?ic es") (auto simp: isl_def)
  have db': "db' = record_fulfillment_failure i e (add_code ?ic (update_request i processing db))"
    unfolding db'_def by (simp add: fulfill_invite_request_def assms(1,2) i p g x e Let_def)
  have c: "request_codes db' i = [?ic]"
    using assms(2) by (simp add: db' record_fulfillment_failure_def request_codes_def add_code_def new_code_def)
  have r: "\<exists>rq'. find_row rq_id i (requests db') = Some rq' \<and> rq_fulfillment_status rq' = lit ''failed''"
    using assms(1) by (simp add: db' record_fulfillment_failure_def update_request_def add_code_def find_row_update_row processing_def)
  have "fulfill_invite_request db' es2 drafter2 sender2 raws2 t2 now2 i = db'"
    using r c find_row_Some [of rq_id i "requests db'"] by (auto simp: fulfill_invite_request_def)
  then show ?thesis using c r by simp
qed

theorem failed_email_is_not_retried_witness:
  "demo_fulfill (demo_fulfill (empty_invite_db\<lparr> requests := [demo_request] \<rparr>))
     = demo_fulfill (empty_invite_db\<lparr> requests := [demo_request] \<rparr>)"
proof -
  let ?db = "empty_invite_db\<lparr> requests := [demo_request] \<rparr>"
  have 1: "find_row rq_id 1 (requests ?db) = Some demo_request" by (simp add: row_simps demo_request_def)
  have 2: "request_codes ?db 1 = []" by (simp add: request_codes_def empty_invite_db_def)
  have 3: "request_experience_id demo_request = Inr MESSY_NOTES" by (simp add: request_experience_id_def demo_request_def)
  have 4: "isl (generate_unique_code ?db [[1, 2, 3]]) = False"
    by (simp add: generate_unique_code_def empty_invite_db_def row_simps Let_def)
  have 5: "isl (send_invite_email no_smtp demo_email_settings d)" for d
    by (simp add: send_invite_email_def missing_email_settings_def demo_email_settings_def truthy_def)
  show ?thesis unfolding demo_fulfill_def
    by (rule failed_email_is_not_retried [OF 1 2 3 4 5 refl, THEN conjunct1])
qed

end
