(* ===== verification/Runs.thy ===== *)
theory Runs
  imports Run_Ingestion Security
begin

text \<open>
  Runs and their lifecycle: the tables of \<^verbatim>\<open>app/models/run.py\<close> and \<^verbatim>\<open>app/models/run_event.py\<close>,
  the services of \<^verbatim>\<open>app/services/runs.py\<close>, \<^verbatim>\<open>app/services/run_events.py\<close>,
  \<^verbatim>\<open>app/services/sample_chaos.py\<close> and \<^verbatim>\<open>app/services/follow_up.py\<close>.

  A column that holds a serialised pydantic model is kept as the model itself: the services
  only write it with that model and only read it back through that model. Columns written
  and read with \<^verbatim>\<open>json.dumps\<close> and \<^verbatim>\<open>json.loads\<close> hold the JSON text.
\<close>

section \<open>Tables\<close>

datatype run_status = DRAFT | SUBMITTED | PROCESSING | COMPLETED | FAILED

fun run_status_value :: "run_status \<Rightarrow> str" where
  "run_status_value DRAFT = lit ''draft''"
| "run_status_value SUBMITTED = lit ''submitted''"
| "run_status_value PROCESSING = lit ''processing''"
| "run_status_value COMPLETED = lit ''completed''"
| "run_status_value FAILED = lit ''failed''"

record follow_up_response =
  fr_question :: str
  fr_answer :: str
  fr_category :: str

record notification_preference =
  wants_sms :: bool
  phone_number :: "str option"
  phone_number_blocked :: bool

record run =
  run_id :: int
  run_owner :: "int option"
  run_status :: run_status
  workflow_key :: str
  title :: "str option"
  created_at :: int
  updated_at :: int
  submitted_at :: "int option"
  completed_at :: "int option"
  failed_at :: "int option"
  failure_message :: "str option"
  failure_internal_reason :: "str option"
  input_text :: "str option"
  normalized_input_text :: "str option"
  input_metadata :: "run_input_metadata option"
  uploaded_files :: "uploaded_run_file list option"
  ingestion_summary :: "run_ingestion_summary option"
  output_brief :: "str option"
  post_processor_results :: "str option"
  follow_up_count :: int
  follow_up :: "follow_up_response option"
  preference :: "notification_preference option"

datatype run_event_type =
    RUN_EXECUTION_STARTED | AGENT_STARTED | AGENT_FINISHED | TOOL_CALLED | TOOL_RESULT
  | HANDOFF_OCCURRED | RUN_COMPLETED | RUN_FAILED | POST_PROCESSOR_STARTED | POST_PROCESSOR_COMPLETED

fun run_event_type_value :: "run_event_type \<Rightarrow> str" where
  "run_event_type_value RUN_EXECUTION_STARTED = lit ''run_execution_started''"
| "run_event_type_value AGENT_STARTED = lit ''agent_started''"
| "run_event_type_value AGENT_FINISHED = lit ''agent_finished''"
| "run_event_type_value TOOL_CALLED = lit ''tool_called''"
| "run_event_type_value TOOL_RESULT = lit ''tool_result''"
| "run_event_type_value HANDOFF_OCCURRED = lit ''handoff_occurred''"
| "run_event_type_value RUN_COMPLETED = lit ''run_completed''"
| "run_event_type_value RUN_FAILED = lit ''run_failed''"
| "run_event_type_value POST_PROCESSOR_STARTED = lit ''post_processor_started''"
| "run_event_type_value POST_PROCESSOR_COMPLETED = lit ''post_processor_completed''"

type_synonym dict = "(str \<times> json) list"

record run_event_payload =
  event_type :: run_event_type
  event_status :: "str option"
  agent_role :: "str option"
  tool_name :: "str option"
  tool_arguments :: "dict option"
  tool_result :: "dict option"
  handoff_source_role :: "str option"
  handoff_target_role :: "str option"
  post_processor_key :: "str option"
  message :: "str option"

text \<open>A stored event: the payload's scalar columns, and its two dicts as JSON text.\<close>

record run_event =
  ev_id :: int
  ev_run_id :: int
  ev_type :: run_event_type
  ev_status :: "str option"
  ev_agent_role :: "str option"
  ev_tool_name :: "str option"
  ev_tool_arguments :: "str option"
  ev_tool_result :: "str option"
  ev_handoff_source :: "str option"
  ev_handoff_target :: "str option"
  ev_post_processor_key :: "str option"
  ev_message :: "str option"
  ev_created_at :: int

record run_db =
  runs :: "run list"
  next_run_id :: int
  events :: "run_event list"
  next_event_id :: int

definition empty_run_db :: run_db where
  "empty_run_db = \<lparr> runs = [], next_run_id = 1, events = [], next_event_id = 1 \<rparr>"

text \<open>
  A commit of a loaded run at database time \<open>t\<close>: an UPDATE is sent, and \<^verbatim>\<open>updated_at\<close> moves,
  only if a column changed.
\<close>

definition save_run :: "int \<Rightarrow> run \<Rightarrow> run_db \<Rightarrow> run_db" where
  "save_run t r db = db\<lparr> runs := update_row run_id (run_id r) (\<lambda>old. if old = r then old else r\<lparr> updated_at := t \<rparr>) (runs db) \<rparr>"

section \<open>Creating, loading and listing\<close>

record run_create_request =
  rc_title :: "str option"
  rc_input_text :: "str option"

definition create_run :: "run_db \<Rightarrow> str \<Rightarrow> int \<Rightarrow> run_create_request \<Rightarrow> int option \<Rightarrow> run \<times> run_db" where
  "create_run db default_workflow_key t payload owner =
     (let r = \<lparr> run_id = next_run_id db, run_owner = owner, run_status = DRAFT,
                workflow_key = default_workflow_key, title = strip_or_none (rc_title payload),
                created_at = t, updated_at = t, submitted_at = None, completed_at = None,
                failed_at = None, failure_message = None, failure_internal_reason = None,
                input_text = strip_or_none (rc_input_text payload), normalized_input_text = None,
                input_metadata = None, uploaded_files = None, ingestion_summary = None,
                output_brief = None, post_processor_results = None, follow_up_count = 0,
                follow_up = None, preference = None \<rparr>
      in (r, db\<lparr> runs := runs db @ [r], next_run_id := next_run_id db + 1 \<rparr>))"

text \<open>Rows of the caller's invitation code, and rows of nobody.\<close>

definition visible_to :: "int option \<Rightarrow> run \<Rightarrow> bool" where
  "visible_to owner r \<longleftrightarrow> owner = None \<or> run_owner r = owner \<or> run_owner r = None"

definition get_run_or_404 :: "run_db \<Rightarrow> int \<Rightarrow> int option \<Rightarrow> run result" where
  "get_run_or_404 db i owner =
     (case find (\<lambda>r. run_id r = i \<and> visible_to owner r) (runs db) of
        None \<Rightarrow> Inl (HTTPException 404 (lit ''Run not found.''))
      | Some r \<Rightarrow> Inr r)"

definition list_runs :: "run_db \<Rightarrow> int option \<Rightarrow> run list" where
  "list_runs db owner =
     sort_key (\<lambda>r. - created_at r) (sort_key (\<lambda>r. - run_id r) (filter (visible_to owner) (runs db)))"

section \<open>Editing\<close>

record run_update_request =
  ru_title :: "str option"
  ru_input_text :: "str option"
  ru_input_metadata :: "run_input_metadata option"

definition update_run_draft :: "run_db \<Rightarrow> int \<Rightarrow> run \<Rightarrow> run_update_request \<Rightarrow> run_db" where
  "update_run_draft db t r payload =
     save_run t (r\<lparr> title := strip_or_none (ru_title payload),
                    input_text := strip_or_none (ru_input_text payload),
                    input_metadata := ru_input_metadata payload \<rparr>) db"

definition editable :: "run \<Rightarrow> bool" where
  "editable r \<longleftrightarrow> run_status r = DRAFT \<or> run_status r = FAILED"

record sample_chaos_set =
  sample_key :: str
  sample_title :: str
  sample_description :: str
  sample_notes :: "str list"

definition SAMPLES :: "sample_chaos_set list" where
  "SAMPLES = [
   \<lparr> sample_key = lit ''product-planning'', sample_title = lit ''Product planning mess'',
     sample_description = lit ''Roadmap fragments, launch nerves, and one suspiciously calm spreadsheet.'',
     sample_notes = [
        lit ''Decision: keep the first demo narrow, text-only, and actually shippable.'',
        lit ''Priya says onboarding needs sample data because nobody brings clean notes to a demo.'',
        lit ''Launch page says Q2. Calendar says Q3. Finance says please stop saying quarters.'',
        lit ''Need owner for the sample chaos button and empty-state copy.'',
        lit ''Customer quote maybe: '' @ [39] @ lit ''This saves me from rereading my own meeting notes.'' @ [39] @ lit '' Verify before using.'',
        lit ''Legal asked whether uploaded PDFs are stored. Answer honestly: extracted text is persisted for the run.'',
        lit ''Do not add a general chat tab. It will look tempting. Resist the shiny door.'',
        lit ''Action: add one bounded follow-up after the brief, then close the loop.'',
        lit ''Roadmap maybe includes SMS later, but M6 only captures preference.''] \<rparr>,
   \<lparr> sample_key = lit ''research-synthesis'', sample_title = lit ''Research synthesis mess'',
     sample_description = lit ''Interview notes that mostly agree, except when they absolutely do not.'',
     sample_notes = [
        lit ''User 3 wants fewer options and said the current flow feels like homework.'',
        lit ''User 5 asked for advanced controls, but only after seeing a fake advanced panel.'',
        lit ''Pattern: people trust the brief more when rejected inputs are visible.'',
        lit ''Contradiction: '' @ [39] @ lit ''audit trail is too technical'' @ [39] @ lit '' vs '' @ [39] @ lit ''please show exactly what happened.'' @ [39],
        lit ''Need to separate decisions from vibes. Vibes currently winning 7-3.'',
        lit ''Action for Marcos: pull two concise quotes, not the twelve-paragraph emotional journey.'',
        lit ''Risk: if sample notes are too polished, the demo feels staged.'',
        lit ''Observation: sticky notes made participants smile, then they immediately read the brief.''] \<rparr>,
   \<lparr> sample_key = lit ''strategy-notes'', sample_title = lit ''Strategy notes mess'',
     sample_description = lit ''Positioning, constraints, and a budget line that keeps reappearing.'',
     sample_notes = [
        lit ''North star: practical AI tooling, not a chatbot in a blazer.'',
        lit ''Budget pressure: no paid registry, local build and ship to the VM.'',
        lit ''Decision: backend owns invite validation and signed tokens.'',
        lit ''Frontend owns browser rendering, localStorage token, and the protected demo slug.'',
        lit ''Concern: if backend admin routes leak through ingress, the architecture story collapses.'',
        lit ''Oracle compatibility matters. Postgres is convenient, not proof.'',
        lit ''Need a crisp explanation of config-driven tools/handoffs without pretending it is a giant platform.'',
        lit ''Follow-up model: one question about the generated brief, then boundaries return.''] \<rparr>,
   \<lparr> sample_key = lit ''mixed-life-meeting'', sample_title = lit ''Mixed meeting/personal/random notes'',
     sample_description = lit ''A realistic notebook where strategy and sandwich logistics briefly collide.'',
     sample_notes = [
        lit ''Team retro: deploy docs are clearer, but rollback story still needs one clean sentence.'',
        lit ''Remember to text Sam the dentist recommendation. Not relevant unless Sam funds infrastructure.'',
        lit ''Decision: keep unsupported file states blunt and kind.'',
        lit ''Someone said OCR would be cool. Also someone said please do not build OCR this week.'',
        lit ''Action: ask Dana for the latest VM hostname before recording the demo.'',
        lit ''Risk: users paste giant docs and expect magic. We trim; we should say so.'',
        lit ''Lunch note: the good hummus place closes at 2:30.'',
        lit ''Open question: should completed runs show notification preference even before SMS exists?''] \<rparr>]"

definition list_sample_chaos_sets :: "sample_chaos_set list" where
  "list_sample_chaos_sets = SAMPLES"

definition get_sample_chaos_set :: "str \<Rightarrow> sample_chaos_set result" where
  "get_sample_chaos_set key =
     (case find (\<lambda>s. sample_key s = key) SAMPLES of
        None \<Rightarrow> Inl (HTTPException 404 (lit ''Sample chaos set not found.''))
      | Some s \<Rightarrow> Inr s)"

definition apply_sample_chaos_to_run :: "run_db \<Rightarrow> int \<Rightarrow> run \<Rightarrow> str \<Rightarrow> run_db result" where
  "apply_sample_chaos_to_run db t r key =
     (if \<not> editable r
      then Inl (HTTPException 409 (lit ''Samples can only be loaded into draft or failed runs.''))
      else rbind (get_sample_chaos_set key) (\<lambda>s.
        let text = join [10] (sample_notes s) in
        Inr (save_run t (r\<lparr> title := Some (sample_title s), input_text := Some text,
               normalized_input_text := Some text,
               input_metadata := Some \<lparr> source_kind = lit ''sample:'' @ sample_key s,
                 accepted_file_count = 0, rejected_file_count = 0, warning_count = 0 \<rparr>,
               uploaded_files := None, ingestion_summary := None \<rparr>) db)))"

definition ingest_run_draft ::
  "(bytes \<Rightarrow> str list option) \<Rightarrow> (str \<Rightarrow> int \<Rightarrow> int \<Rightarrow> int \<Rightarrow> text_tools_analysis result) \<Rightarrow> ingestion_settings
     \<Rightarrow> run_db \<Rightarrow> int \<Rightarrow> run \<Rightarrow> str option \<Rightarrow> str option \<Rightarrow> upload_file list \<Rightarrow> run_db result"
where
  "ingest_run_draft pdf analyze S db t r new_title pasted files =
     (if \<not> editable r
      then Inl (HTTPException 409 (lit ''Only draft or failed runs can be updated.''))
      else rbind (ingest_run_input pdf analyze S pasted files) (\<lambda>res.
        Inr (save_run t (r\<lparr> title := strip_or_none new_title, input_text := res_raw_pasted_text res,
               normalized_input_text := res_normalized_input_text res,
               input_metadata := Some (res_input_metadata res),
               uploaded_files := Some (res_uploaded_files res),
               ingestion_summary := Some (res_ingestion_summary res) \<rparr>) db)))"

record run_submit_request =
  rs_title :: "str option"
  rs_input_text :: "str option"
  rs_input_metadata :: "run_input_metadata option"

text \<open>The changes made to the loaded row before the status is checked.\<close>

definition submit_edits :: "run_submit_request option \<Rightarrow> run \<Rightarrow> run" where
  "submit_edits payload r =
     (case payload of
        None \<Rightarrow> r
      | Some p \<Rightarrow>
          let r1 = (if rs_title p \<noteq> None then r\<lparr> title := strip_or_none (rs_title p) \<rparr> else r);
              r2 = (if rs_input_text p \<noteq> None then r1\<lparr> input_text := strip_or_none (rs_input_text p) \<rparr> else r1)
          in (if rs_input_metadata p \<noteq> None then r2\<lparr> input_metadata := rs_input_metadata p \<rparr> else r2))"

definition submit_run :: "run_db \<Rightarrow> int \<Rightarrow> int \<Rightarrow> run \<Rightarrow> run_submit_request option \<Rightarrow> (run \<times> run_db) result" where
  "submit_run db t now r payload =
     (let r1 = submit_edits payload r in
      if \<not> editable r1
      then Inl (HTTPException 409 (lit ''Only draft or failed runs can be submitted.''))
      else let r2 = r1\<lparr> run_status := SUBMITTED, submitted_at := Some now \<rparr>;
               db1 = save_run t r2 db
           in Inr (case find_row run_id (run_id r) (runs db1) of None \<Rightarrow> r2 | Some q \<Rightarrow> q, db1))"

section \<open>Responses\<close>

definition deserialize_json_object :: "str option \<Rightarrow> dict option result" where
  "deserialize_json_object serialized =
     (case serialized of
        None \<Rightarrow> Inr None
      | Some s \<Rightarrow>
          (case loads s of
             None \<Rightarrow> Inl (ValueError (lit ''JSONDecodeError''))
           | Some (JObj kvs) \<Rightarrow> Inr (Some kvs)
           | Some _ \<Rightarrow> Inl (ValueError (lit ''Serialized JSON object payload must decode to a dictionary.''))))"

text \<open>
  The response repeats the columns; the two JSON objects are decoded, and the preference is
  the one \<^verbatim>\<open>enrich_notification_preference\<close> returns.
\<close>

record run_response =
  rr_run :: run
  rr_output_brief :: "dict option"
  rr_post_processor_results :: "dict option"
  rr_preference :: "notification_preference option"

definition serialize_run ::
  "(notification_preference option \<Rightarrow> notification_preference option) \<Rightarrow> run \<Rightarrow> run_response result"
where
  "serialize_run enrich r =
     rbind (deserialize_json_object (output_brief r)) (\<lambda>brief.
     rbind (deserialize_json_object (post_processor_results r)) (\<lambda>post.
       Inr \<lparr> rr_run = r, rr_output_brief = brief, rr_post_processor_results = post,
             rr_preference = enrich (preference r) \<rparr>))"

section \<open>Events\<close>

definition serialize_json :: "dict option \<Rightarrow> str option" where
  "serialize_json v = map_option (\<lambda>d. dumps Spaced (JObj d)) v"

definition deserialize_json :: "str option \<Rightarrow> dict option result" where
  "deserialize_json value =
     (case value of
        None \<Rightarrow> Inr None
      | Some s \<Rightarrow>
          (case loads s of
             None \<Rightarrow> Inl (ValueError (lit ''JSONDecodeError''))
           | Some (JObj kvs) \<Rightarrow> Inr (Some kvs)
           | Some _ \<Rightarrow> Inl (ValueError (lit ''Run event JSON payload must decode to an object.''))))"

definition record_run_event :: "run_db \<Rightarrow> int \<Rightarrow> int \<Rightarrow> run_event_payload \<Rightarrow> run_event \<times> run_db" where
  "record_run_event db t i p =
     (let e = \<lparr> ev_id = next_event_id db, ev_run_id = i, ev_type = event_type p,
                ev_status = event_status p, ev_agent_role = agent_role p, ev_tool_name = tool_name p,
                ev_tool_arguments = serialize_json (tool_arguments p),
                ev_tool_result = serialize_json (tool_result p),
                ev_handoff_source = handoff_source_role p, ev_handoff_target = handoff_target_role p,
                ev_post_processor_key = post_processor_key p, ev_message = message p,
                ev_created_at = t \<rparr>
      in (e, db\<lparr> events := events db @ [e], next_event_id := next_event_id db + 1 \<rparr>))"

record run_event_response =
  re_id :: int
  re_run_id :: int
  re_payload :: run_event_payload
  re_created_at :: int

definition serialize_run_event :: "run_event \<Rightarrow> run_event_response result" where
  "serialize_run_event e =
     rbind (deserialize_json (ev_tool_arguments e)) (\<lambda>args.
     rbind (deserialize_json (ev_tool_result e)) (\<lambda>res.
       Inr \<lparr> re_id = ev_id e, re_run_id = ev_run_id e,
             re_payload = \<lparr> event_type = ev_type e, event_status = ev_status e, agent_role = ev_agent_role e,
               tool_name = ev_tool_name e, tool_arguments = args, tool_result = res,
               handoff_source_role = ev_handoff_source e, handoff_target_role = ev_handoff_target e,
               post_processor_key = ev_post_processor_key e, message = ev_message e \<rparr>,
             re_created_at = ev_created_at e \<rparr>))"

definition events_for_run :: "run_db \<Rightarrow> int \<Rightarrow> run_event list" where
  "events_for_run db i = sort_key ev_id (filter (\<lambda>e. ev_run_id e = i) (events db))"

end
