(* ===== verification/Workflow_Config.thy ===== *)
theory Workflow_Config
  imports Json Complex_Main
begin

text \<open>
  The configured workflows: the typed YAML models and their validators
  (\<^verbatim>\<open>app/workflows/config_models.py\<close>), the tool registry (\<^verbatim>\<open>app/services/tool_registry.py\<close>), the
  provider table (\<^verbatim>\<open>app/services/model_factory.py\<close>) and the startup loader
  (\<^verbatim>\<open>app/workflows/loader.py\<close>).

  The YAML parser is not modelled: a configuration file is the record it holds, and the
  validators run on that record. A float field is the rational it stands for. What a tool
  does is a parameter of its registry entry, so the registry fits both kinds of tools.
\<close>

section \<open>Configuration models\<close>

datatype workflow_provider = OPENAI | ANTHROPIC | OLLAMA | FIREWORKS | OPENROUTER

fun provider_value :: "workflow_provider \<Rightarrow> str" where
  "provider_value OPENAI = lit ''openai''"
| "provider_value ANTHROPIC = lit ''anthropic''"
| "provider_value OLLAMA = lit ''ollama''"
| "provider_value FIREWORKS = lit ''fireworks''"
| "provider_value OPENROUTER = lit ''openrouter''"

record parallel_execution_config =
  pe_enabled :: bool
  pe_group :: "str option"
  pe_can_run_with :: "str list"

record workflow_flags =
  allow_single_follow_up :: bool
  require_structured_brief_output :: bool
  audit_run_events :: bool

record agent_config =
  ag_role :: str
  ag_provider :: workflow_provider
  ag_model :: str
  ag_system_prompt :: str
  ag_temperature :: "rat option"
  ag_max_tokens :: "int option"
  ag_timeout :: "rat option"
  ag_tools :: "str list"
  ag_can_handoff_to :: "str list"
  ag_parallel :: "parallel_execution_config option"

record workflow_config =
  wf_key :: str
  wf_description :: str
  wf_starting_agent :: str
  wf_post_processors :: "str list"
  wf_flags :: workflow_flags
  wf_agents :: "agent_config list"

datatype post_processor_type = AUDIT_TOOL_USAGE_AND_HANDOFFS

fun post_processor_type_value :: "post_processor_type \<Rightarrow> str" where
  "post_processor_type_value AUDIT_TOOL_USAGE_AND_HANDOFFS = lit ''audit_tool_usage_and_handoffs''"

record post_processor_config =
  pp_key :: str
  pp_type :: post_processor_type
  pp_description :: str
  pp_provider :: workflow_provider
  pp_model :: str
  pp_system_prompt :: str
  pp_prompt_template :: str
  pp_temperature :: "rat option"
  pp_max_tokens :: "int option"
  pp_timeout :: "rat option"

section \<open>Validators\<close>

definition invalid :: "str \<Rightarrow> unit result" where
  "invalid m = Inl (ValueError m)"

text \<open>Every element passes the check, or the first failure is the error.\<close>

fun check_all :: "('a \<Rightarrow> unit result) \<Rightarrow> 'a list \<Rightarrow> unit result" where
  "check_all f [] = Inr ()"
| "check_all f (x # xs) = rbind (f x) (\<lambda>_. check_all f xs)"

lemma check_all_Inr: "check_all f xs = Inr () \<longleftrightarrow> (\<forall>x \<in> set xs. f x = Inr ())"
  by (induction xs) (auto simp: rbind_eq_Inr)

text \<open>\<^verbatim>\<open>Field(ge=0.0, le=2.0)\<close>, \<^verbatim>\<open>Field(gt=0)\<close> and \<^verbatim>\<open>Field(min_length=1)\<close>.\<close>

definition model_knobs_ok :: "rat option \<Rightarrow> int option \<Rightarrow> rat option \<Rightarrow> bool" where
  "model_knobs_ok temperature max_tokens timeout \<longleftrightarrow>
     (case temperature of None \<Rightarrow> True | Some x \<Rightarrow> 0 \<le> x \<and> x \<le> 2)
     \<and> (case max_tokens of None \<Rightarrow> True | Some n \<Rightarrow> 0 < n)
     \<and> (case timeout of None \<Rightarrow> True | Some x \<Rightarrow> 0 < x)"

definition agent_fields_ok :: "agent_config \<Rightarrow> bool" where
  "agent_fields_ok a \<longleftrightarrow> ag_role a \<noteq> [] \<and> ag_model a \<noteq> [] \<and> ag_system_prompt a \<noteq> []
     \<and> model_knobs_ok (ag_temperature a) (ag_max_tokens a) (ag_timeout a)"

definition validate_unique_tool_names :: "agent_config \<Rightarrow> unit result" where
  "validate_unique_tool_names a =
     (if \<not> distinct (ag_tools a)
      then invalid (lit ''Agent '' @ [39] @ ag_role a @ [39] @ lit '' lists duplicate tool names.'')
      else if \<not> distinct (ag_can_handoff_to a)
      then invalid (lit ''Agent '' @ [39] @ ag_role a @ [39] @ lit '' lists duplicate handoff targets.'')
      else Inr ())"

definition validate_agent :: "agent_config \<Rightarrow> unit result" where
  "validate_agent a =
     (if agent_fields_ok a then validate_unique_tool_names a else invalid (lit ''field constraint''))"

text \<open>\<^verbatim>\<open>sorted(set(xs) - valid)\<close>\<close>

definition unknown_names :: "str list \<Rightarrow> str list \<Rightarrow> str list" where
  "unknown_names xs valid = sort (remdups (filter (\<lambda>x. x \<notin> set valid) xs))"

definition in_workflow :: "workflow_config \<Rightarrow> str \<Rightarrow> str" where
  "in_workflow w rest = lit ''Workflow '' @ [39] @ wf_key w @ [39] @ rest"

definition check_agent_references :: "workflow_config \<Rightarrow> str list \<Rightarrow> agent_config \<Rightarrow> unit result" where
  "check_agent_references w roles a =
     (let unknown_targets = unknown_names (ag_can_handoff_to a) roles in
      if unknown_targets \<noteq> []
      then invalid (in_workflow w (lit '' agent '' @ [39] @ ag_role a @ [39]
             @ lit '' references unknown handoff targets: '' @ join (lit '', '') unknown_targets))
      else case ag_parallel a of
        None \<Rightarrow> Inr ()
      | Some p \<Rightarrow>
          if ag_role a \<in> set (pe_can_run_with p)
          then invalid (in_workflow w (lit '' agent '' @ [39] @ ag_role a @ [39]
                 @ lit '' cannot list itself in parallel.can_run_with.''))
          else if unknown_names (pe_can_run_with p) roles \<noteq> []
          then invalid (in_workflow w (lit '' agent '' @ [39] @ ag_role a @ [39]
                 @ lit '' references unknown parallel peers: ''
                 @ join (lit '', '') (unknown_names (pe_can_run_with p) roles)))
          else Inr ())"

definition validate_agent_relationships :: "workflow_config \<Rightarrow> unit result" where
  "validate_agent_relationships w =
     (let roles = map ag_role (wf_agents w) in
      if \<not> distinct roles
      then invalid (in_workflow w (lit '' defines duplicate agent roles''))
      else if wf_starting_agent w \<notin> set roles
      then invalid (in_workflow w (lit '' starting agent '' @ [39] @ wf_starting_agent w @ [39] @ lit '' does not exist.''))
      else check_all (check_agent_references w roles) (wf_agents w))"

definition validate_workflow :: "workflow_config \<Rightarrow> unit result" where
  "validate_workflow w =
     (if wf_key w = [] \<or> wf_description w = [] \<or> wf_starting_agent w = [] \<or> wf_agents w = []
      then invalid (lit ''field constraint'')
      else rbind (check_all validate_agent (wf_agents w)) (\<lambda>_. validate_agent_relationships w))"

definition post_processor_ok :: "post_processor_config \<Rightarrow> bool" where
  "post_processor_ok p \<longleftrightarrow> pp_key p \<noteq> [] \<and> pp_description p \<noteq> [] \<and> pp_model p \<noteq> []
     \<and> pp_system_prompt p \<noteq> [] \<and> pp_prompt_template p \<noteq> []
     \<and> model_knobs_ok (pp_temperature p) (pp_max_tokens p) (pp_timeout p)"

definition validate_catalog :: "post_processor_config list \<Rightarrow> unit result" where
  "validate_catalog ps =
     (if ps = [] \<or> \<not> list_all post_processor_ok ps then invalid (lit ''field constraint'')
      else if \<not> distinct (map pp_key ps) then invalid (lit ''Duplicate post-processor keys defined'')
      else Inr ())"

section \<open>The tool registry\<close>

datatype tool_category = READ_ONLY | MUTATIVE

record 'impl tool_entry =
  te_name :: str
  te_description :: str
  te_prompt_instructions :: str
  te_implementation :: 'impl
  te_category :: tool_category

type_synonym 'impl tool_registry = "'impl tool_entry list"

text \<open>The constructor refuses a second entry of the same name.\<close>

fun add_entries :: "'impl tool_registry \<Rightarrow> 'impl tool_entry list \<Rightarrow> 'impl tool_registry result" where
  "add_entries reg [] = Inr reg"
| "add_entries reg (e # es) =
     (if te_name e \<in> te_name ` set reg
      then Inl (ValueError (lit ''Duplicate tool registry entry '' @ [39] @ te_name e @ [39] @ lit ''.''))
      else add_entries (reg @ [e]) es)"

definition ToolRegistry :: "'impl tool_entry list \<Rightarrow> 'impl tool_registry result" where
  "ToolRegistry entries = add_entries [] entries"

definition get_tool :: "'impl tool_registry \<Rightarrow> str \<Rightarrow> 'impl tool_entry result" where
  "get_tool reg name =
     (case find_row te_name name reg of
        None \<Rightarrow> Inl (KeyError (lit ''Unknown tool '' @ [39] @ name @ [39] @ lit ''.''))
      | Some e \<Rightarrow> Inr e)"

fun get_tools :: "'impl tool_registry \<Rightarrow> str list \<Rightarrow> 'impl tool_entry list result" where
  "get_tools reg [] = Inr []"
| "get_tools reg (n # ns) = rbind (get_tool reg n) (\<lambda>e. rbind (get_tools reg ns) (\<lambda>es. Inr (e # es)))"

definition resolve_tools :: "'impl tool_registry \<Rightarrow> str list option \<Rightarrow> 'impl tool_entry list result" where
  "resolve_tools reg names = (case names of None \<Rightarrow> Inr reg | Some ns \<Rightarrow> get_tools reg ns)"

definition scoped :: "'impl tool_registry \<Rightarrow> str list \<Rightarrow> 'impl tool_registry result" where
  "scoped reg names = rbind (resolve_tools reg (Some names)) ToolRegistry"

definition validate_tool_names :: "'impl tool_registry \<Rightarrow> str \<Rightarrow> str list \<Rightarrow> unit result" where
  "validate_tool_names reg key names =
     check_all (\<lambda>n. case get_tool reg n of
         Inr _ \<Rightarrow> Inr ()
       | Inl _ \<Rightarrow> Inl (KeyError (lit ''Workflow '' @ [39] @ key @ [39] @ lit '' references unknown tool ''
                   @ [39] @ n @ [39] @ lit ''.''))) names"

definition prompt_block :: "'impl tool_registry \<Rightarrow> str list option \<Rightarrow> str option result" where
  "prompt_block reg names =
     rbind (resolve_tools reg names) (\<lambda>tools.
       Inr (if tools = [] then None
            else Some (join [10] (lit ''Tool instructions:''
                   # map (\<lambda>t. lit ''- '' @ te_name t @ lit '': '' @ te_prompt_instructions t) tools))))"

section \<open>Providers\<close>

fun required_api_key_env_var :: "workflow_provider \<Rightarrow> str" where
  "required_api_key_env_var OPENAI = lit ''OPENAI_API_KEY''"
| "required_api_key_env_var ANTHROPIC = lit ''ANTHROPIC_API_KEY''"
| "required_api_key_env_var OLLAMA = lit ''OLLAMA_API_KEY''"
| "required_api_key_env_var FIREWORKS = lit ''FIREWORKS_API_KEY''"
| "required_api_key_env_var OPENROUTER = lit ''OPENROUTER_API_KEY''"

definition provider_is_implemented :: "workflow_provider \<Rightarrow> bool" where
  "provider_is_implemented p \<longleftrightarrow> p \<noteq> FIREWORKS \<and> p \<noteq> OPENROUTER"

record provider_settings =
  openai_api_key :: "str option"
  anthropic_api_key :: "str option"
  ollama_base_url :: str
  ollama_api_key :: str

datatype chat_model = OpenAIChat str "str option" str | AnthropicChat str str

text \<open>The client a provider gets: model name, base URL and key.\<close>

definition create_model :: "workflow_provider \<Rightarrow> str \<Rightarrow> provider_settings \<Rightarrow> chat_model result" where
  "create_model p model_name settings =
     (if p = OPENAI then
        (if \<not> truthy (openai_api_key settings)
         then Inl (ValueError (lit ''OPENAI_API_KEY is required for OpenAI-configured agents.''))
         else Inr (OpenAIChat model_name None (the (openai_api_key settings))))
      else if p = ANTHROPIC then
        (if \<not> truthy (anthropic_api_key settings)
         then Inl (ValueError (lit ''ANTHROPIC_API_KEY is required for Anthropic-configured agents.''))
         else Inr (AnthropicChat model_name (the (anthropic_api_key settings))))
      else if p = OLLAMA then
        Inr (OpenAIChat model_name (Some (ollama_base_url settings)) (ollama_api_key settings))
      else Inl (RuntimeError (lit ''Provider '' @ [39] @ provider_value p @ [39]
             @ lit '' is reserved for future milestones. Configure '' @ required_api_key_env_var p
             @ lit '' when runtime support is added.'')))"

record model_settings =
  mo_cache :: bool
  mo_temperature :: "rat option"
  mo_max_tokens :: "int option"
  mo_timeout :: "rat option"

definition create_provider_model_settings ::
  "workflow_provider \<Rightarrow> rat option \<Rightarrow> rat option \<Rightarrow> int option \<Rightarrow> model_settings option"
where
  "create_provider_model_settings p timeout temperature max_tokens =
     (if p = ANTHROPIC
      then Some \<lparr> mo_cache = True, mo_temperature = temperature, mo_max_tokens = max_tokens, mo_timeout = timeout \<rparr>
      else if temperature = None \<and> max_tokens = None \<and> timeout = None then None
      else Some \<lparr> mo_cache = False, mo_temperature = temperature, mo_max_tokens = max_tokens, mo_timeout = timeout \<rparr>)"

definition create_model_settings :: "agent_config \<Rightarrow> model_settings option" where
  "create_model_settings a =
     create_provider_model_settings (ag_provider a) (ag_timeout a) (ag_temperature a) (ag_max_tokens a)"

section \<open>Loading\<close>

record agent_runtime =
  ar_config :: agent_config
  ar_system_prompt :: str
  ar_agent :: "(chat_model \<times> model_settings option) option"

record workflow_runtime =
  wr_config :: workflow_config
  wr_agents :: "(str \<times> agent_runtime) list"

record 'impl workflow_registry =
  reg_workflows :: "(str \<times> workflow_runtime) list"
  reg_post_processors :: "(str \<times> post_processor_config) list"
  reg_tools :: "'impl tool_registry"

definition get_workflow :: "'impl workflow_registry \<Rightarrow> str \<Rightarrow> workflow_runtime result" where
  "get_workflow reg key =
     (case map_of (reg_workflows reg) key of
        None \<Rightarrow> Inl (KeyError (lit ''Unknown workflow '' @ [39] @ key @ [39] @ lit ''.''))
      | Some w \<Rightarrow> Inr w)"

definition assemble_system_prompt :: "str \<Rightarrow> 'impl tool_registry \<Rightarrow> str list \<Rightarrow> str result" where
  "assemble_system_prompt base reg names =
     rbind (prompt_block reg (Some names)) (\<lambda>block.
       Inr (case block of None \<Rightarrow> strip base | Some b \<Rightarrow> strip base @ [10, 10] @ b))"

definition validate_workflow_references ::
  "workflow_config \<Rightarrow> (str \<times> post_processor_config) list \<Rightarrow> 'impl tool_registry \<Rightarrow> unit result"
where
  "validate_workflow_references w pps reg =
     (let missing = filter (\<lambda>k. k \<notin> fst ` set pps) (wf_post_processors w) in
      if missing \<noteq> []
      then invalid (in_workflow w (lit '' references unknown post-processors: '' @ join (lit '', '') missing))
      else check_all (\<lambda>a. validate_tool_names reg (wf_key w) (ag_tools a)) (wf_agents w))"

definition build_agent_runtime ::
  "agent_config \<Rightarrow> 'impl tool_registry \<Rightarrow> provider_settings \<Rightarrow> (chat_model \<times> model_settings option) option result"
where
  "build_agent_runtime a reg settings =
     (if \<not> provider_is_implemented (ag_provider a) then Inr None
      else rbind (create_model (ag_provider a) (ag_model a) settings) (\<lambda>model.
             rbind (assemble_system_prompt (ag_system_prompt a) reg (ag_tools a)) (\<lambda>_.
               rbind (resolve_tools reg (Some (ag_tools a))) (\<lambda>_.
                 Inr (Some (model, create_model_settings a))))))"

fun build_agents ::
  "'impl tool_registry \<Rightarrow> provider_settings \<Rightarrow> agent_config list \<Rightarrow> (str \<times> agent_runtime) list result"
where
  "build_agents reg settings [] = Inr []"
| "build_agents reg settings (a # as) =
     rbind (assemble_system_prompt (ag_system_prompt a) reg (ag_tools a)) (\<lambda>prompt.
     rbind (build_agent_runtime a reg settings) (\<lambda>agent.
     rbind (build_agents reg settings as) (\<lambda>rest.
       Inr ((ag_role a, \<lparr> ar_config = a, ar_system_prompt = prompt, ar_agent = agent \<rparr>) # rest))))"

text \<open>The files in the order of their paths; each is the record the YAML parser gives.\<close>

fun load_workflows ::
  "'impl tool_registry \<Rightarrow> (str \<times> post_processor_config) list \<Rightarrow> provider_settings
     \<Rightarrow> (str \<times> workflow_runtime) list \<Rightarrow> workflow_config list \<Rightarrow> (str \<times> workflow_runtime) list result"
where
  "load_workflows reg pps settings acc [] = Inr acc"
| "load_workflows reg pps settings acc (w # ws) =
     rbind (validate_workflow w) (\<lambda>_.
     rbind (validate_workflow_references w pps reg) (\<lambda>_.
       if wf_key w \<in> fst ` set acc
       then Inl (ValueError (lit ''Duplicate workflow key '' @ [39] @ wf_key w @ [39] @ lit '' loaded at startup.''))
       else rbind (build_agents reg settings (wf_agents w)) (\<lambda>agents.
              load_workflows reg pps settings (acc @ [(wf_key w, \<lparr> wr_config = w, wr_agents = agents \<rparr>)]) ws)))"

definition load_workflow_registry ::
  "'impl tool_entry list \<Rightarrow> post_processor_config list \<Rightarrow> workflow_config list \<Rightarrow> str \<Rightarrow> provider_settings
     \<Rightarrow> 'impl workflow_registry result"
where
  "load_workflow_registry entries catalog files default_key settings =
     rbind (ToolRegistry entries) (\<lambda>reg.
     rbind (validate_catalog catalog) (\<lambda>_.
       let pps = map (\<lambda>p. (pp_key p, p)) catalog in
       rbind (load_workflows reg pps settings [] files) (\<lambda>workflows.
         if workflows = [] then Inl (ValueError (lit ''No workflow YAML files found''))
         else if default_key \<notin> fst ` set workflows
         then Inl (ValueError (lit ''DEFAULT_WORKFLOW_KEY '' @ [39] @ default_key @ [39] @ lit '' is not defined in workflow YAML.''))
         else Inr \<lparr> reg_workflows = workflows, reg_post_processors = pps, reg_tools = reg \<rparr>)))"

section \<open>What a loaded registry guarantees\<close>

lemma add_entries_Inr:
  "add_entries reg es = Inr r \<Longrightarrow> r = reg @ es \<and> (distinct (map te_name reg) \<longrightarrow> distinct (map te_name (reg @ es)))"
proof (induction reg es rule: add_entries.induct)
  case (2 reg e es)
  then have "te_name e \<notin> te_name ` set reg"
    "r = (reg @ [e]) @ es \<and> (distinct (map te_name (reg @ [e])) \<longrightarrow> distinct (map te_name ((reg @ [e]) @ es)))"
    by (auto split: if_splits)
  then show ?case by simp
qed simp

lemma get_tool_Inr: "get_tool reg n = Inr e \<Longrightarrow> e \<in> set reg \<and> te_name e = n"
  by (auto simp: get_tool_def dest: find_row_Some split: option.splits)

lemma get_tool_known: "(\<exists>e. get_tool reg n = Inr e) \<longleftrightarrow> n \<in> te_name ` set reg"
  using find_row_None [of te_name n reg] by (auto simp: get_tool_def split: option.splits)

lemma validate_tool_names_Inr: "validate_tool_names reg key ns = Inr () \<longleftrightarrow> set ns \<subseteq> te_name ` set reg"
proof -
  have "validate_tool_names reg key ns = Inr () \<longleftrightarrow> (\<forall>n \<in> set ns. \<exists>e. get_tool reg n = Inr e)"
  proof -
    have "(case get_tool reg n of Inr _ \<Rightarrow> Inr () | Inl _ \<Rightarrow> Inl e) = Inr () \<longleftrightarrow> (\<exists>x. get_tool reg n = Inr x)"
      for n and e :: error by (cases "get_tool reg n") auto
    then show ?thesis by (simp add: validate_tool_names_def check_all_Inr)
  qed
  then show ?thesis by (auto simp: get_tool_known)
qed

lemma unknown_names_Nil: "unknown_names xs valid = [] \<longleftrightarrow> set xs \<subseteq> set valid"
proof -
  have "unknown_names xs valid = [] \<longleftrightarrow> set (unknown_names xs valid) = {}" by simp
  then show ?thesis by (auto simp: unknown_names_def)
qed

definition parallel_peers_ok :: "str list \<Rightarrow> agent_config \<Rightarrow> bool" where
  "parallel_peers_ok roles a = (case ag_parallel a of
     None \<Rightarrow> True
   | Some p \<Rightarrow> set (pe_can_run_with p) \<subseteq> set roles \<and> ag_role a \<notin> set (pe_can_run_with p))"

lemma parallel_peers_ok_iff:
  "parallel_peers_ok roles a \<longleftrightarrow>
     (\<forall>p. ag_parallel a = Some p \<longrightarrow> set (pe_can_run_with p) \<subseteq> set roles \<and> ag_role a \<notin> set (pe_can_run_with p))"
  by (simp add: parallel_peers_ok_def split: option.split)

definition closed_workflow :: "'impl tool_registry \<Rightarrow> (str \<times> post_processor_config) list \<Rightarrow> str \<times> workflow_runtime \<Rightarrow> bool" where
  "closed_workflow tools pps kw \<longleftrightarrow>
     (let w = wr_config (snd kw); roles = map ag_role (wf_agents w) in
      fst kw = wf_key w \<and> distinct roles \<and> wf_starting_agent w \<in> set roles
      \<and> map fst (wr_agents (snd kw)) = roles \<and> map (ar_config \<circ> snd) (wr_agents (snd kw)) = wf_agents w
      \<and> set (wf_post_processors w) \<subseteq> fst ` set pps
      \<and> (\<forall>a \<in> set (wf_agents w). set (ag_tools a) \<subseteq> te_name ` set tools \<and> distinct (ag_tools a)
            \<and> set (ag_can_handoff_to a) \<subseteq> set roles \<and> distinct (ag_can_handoff_to a)
            \<and> parallel_peers_ok roles a))"

lemma build_agents_Inr:
  "build_agents reg st as = Inr rs \<Longrightarrow> map fst rs = map ag_role as \<and> map (ar_config \<circ> snd) rs = as"
  by (induction reg st as arbitrary: rs rule: build_agents.induct) (auto simp: rbind_eq_Inr)

lemma validate_workflow_Inr:
  assumes "validate_workflow w = Inr ()"
  shows "distinct (map ag_role (wf_agents w))" and "wf_starting_agent w \<in> set (map ag_role (wf_agents w))"
    and "a \<in> set (wf_agents w) \<Longrightarrow> set (ag_can_handoff_to a) \<subseteq> set (map ag_role (wf_agents w)) \<and> distinct (ag_tools a)
      \<and> distinct (ag_can_handoff_to a) \<and> parallel_peers_ok (map ag_role (wf_agents w)) a"
proof -
  let ?roles = "map ag_role (wf_agents w)"
  have agents: "check_all validate_agent (wf_agents w) = Inr ()" and rel: "validate_agent_relationships w = Inr ()"
    using assms by (auto simp: validate_workflow_def invalid_def rbind_eq_Inr split: if_splits)
  show "distinct ?roles" "wf_starting_agent w \<in> set ?roles"
    using rel by (auto simp: validate_agent_relationships_def Let_def invalid_def split: if_splits)
  have c: "check_all (check_agent_references w ?roles) (wf_agents w) = Inr ()"
    using rel by (auto simp: validate_agent_relationships_def Let_def invalid_def split: if_splits)
  show "set (ag_can_handoff_to a) \<subseteq> set ?roles \<and> distinct (ag_tools a) \<and> distinct (ag_can_handoff_to a)
      \<and> parallel_peers_ok ?roles a" if a: "a \<in> set (wf_agents w)"
  proof -
    have "check_agent_references w ?roles a = Inr ()" using c a unfolding check_all_Inr by blast
    then have "unknown_names (ag_can_handoff_to a) ?roles = []" "parallel_peers_ok ?roles a"
      by (auto simp: check_agent_references_def parallel_peers_ok_def unknown_names_Nil Let_def invalid_def
          simp del: set_map split: if_splits option.splits)
    moreover have "validate_agent a = Inr ()" using agents a unfolding check_all_Inr by blast
    ultimately show ?thesis
      by (auto simp: unknown_names_Nil validate_agent_def validate_unique_tool_names_def invalid_def split: if_splits)
  qed
qed

lemma load_workflows_closed:
  "load_workflows reg pps st acc ws = Inr r \<Longrightarrow> \<forall>kw \<in> set acc. closed_workflow reg pps kw \<Longrightarrow> distinct (map fst acc)
     \<Longrightarrow> (\<forall>kw \<in> set r. closed_workflow reg pps kw) \<and> distinct (map fst r) \<and> map fst r = map fst acc @ map wf_key ws"
proof (induction reg pps st acc ws arbitrary: r rule: load_workflows.induct)
  case (2 reg pps st acc w ws)
  from "2.prems"(1) obtain agents where v: "validate_workflow w = Inr ()"
    and refs: "validate_workflow_references w pps reg = Inr ()" and new: "wf_key w \<notin> fst ` set acc"
    and b: "build_agents reg st (wf_agents w) = Inr agents"
    and l: "load_workflows reg pps st (acc @ [(wf_key w, \<lparr> wr_config = w, wr_agents = agents \<rparr>)]) ws = Inr r"
    by (auto simp: rbind_eq_Inr split: if_splits)
  have pp: "set (wf_post_processors w) \<subseteq> fst ` set pps"
    and tools: "\<forall>a \<in> set (wf_agents w). set (ag_tools a) \<subseteq> te_name ` set reg"
    using refs by (auto simp: validate_workflow_references_def Let_def invalid_def filter_empty_conv check_all_Inr
        validate_tool_names_Inr split: if_splits)
  have "closed_workflow reg pps (wf_key w, \<lparr> wr_config = w, wr_agents = agents \<rparr>)"
    using validate_workflow_Inr [OF v] build_agents_Inr [OF b] pp tools
    by (simp add: closed_workflow_def Let_def)
  then have "(\<forall>kw \<in> set r. closed_workflow reg pps kw) \<and> distinct (map fst r)
     \<and> map fst r = map fst (acc @ [(wf_key w, \<lparr> wr_config = w, wr_agents = agents \<rparr>)]) @ map wf_key ws"
    using "2.prems"(2,3) v refs new b l by (intro "2.IH") auto
  moreover have "map fst (acc @ [(wf_key w, \<lparr> wr_config = w, wr_agents = agents \<rparr>)]) @ map wf_key ws
      = map fst acc @ map wf_key (w # ws)" by simp
  ultimately show ?case by metis
qed simp

lemma load_registry_closed:
  assumes "load_workflow_registry entries catalog files dk st = Inr reg"
  shows "\<forall>kw \<in> set (reg_workflows reg). closed_workflow (reg_tools reg) (reg_post_processors reg) kw"
    and "distinct (map fst (reg_workflows reg))" and "distinct (map te_name (reg_tools reg))"
    and "dk \<in> fst ` set (reg_workflows reg)" and "map fst (reg_workflows reg) = map wf_key files"
proof -
  obtain tools workflows where t: "ToolRegistry entries = Inr tools"
    and l: "load_workflows tools (map (\<lambda>p. (pp_key p, p)) catalog) st [] files = Inr workflows"
    and r: "reg = \<lparr> reg_workflows = workflows, reg_post_processors = map (\<lambda>p. (pp_key p, p)) catalog, reg_tools = tools \<rparr>"
    and d: "dk \<in> fst ` set workflows"
    using assms by (auto simp: load_workflow_registry_def rbind_eq_Inr Let_def split: if_splits)
  show "\<forall>kw \<in> set (reg_workflows reg). closed_workflow (reg_tools reg) (reg_post_processors reg) kw"
    "distinct (map fst (reg_workflows reg))" "map fst (reg_workflows reg) = map wf_key files"
    using load_workflows_closed [OF l] by (auto simp: r)
  show "distinct (map te_name (reg_tools reg))" using add_entries_Inr [of "[]" entries tools] t by (auto simp: r ToolRegistry_def)
  show "dk \<in> fst ` set (reg_workflows reg)" using d by (simp add: r)
qed

text \<open>
  C9: A registry that loads is closed: its workflows are the files', each under its own
  distinct key, the default among them; in each the roles are distinct and every agent is
  built, the starting agent exists, handoff targets are distinct and roles, the peers an agent
  can run with are roles other than its own, tools are distinct and registered and
  post-processors configured.
\<close>

theorem loaded_registry_is_closed:
  assumes "load_workflow_registry entries catalog files default_key settings = Inr reg"
    and "(key, w) \<in> set (reg_workflows reg)"
  shows "default_key \<in> set (map wf_key files) \<and> distinct (map wf_key files)
     \<and> get_workflow reg key = Inr w \<and> key = wf_key (wr_config w)
     \<and> distinct (map ag_role (wf_agents (wr_config w)))
     \<and> wf_starting_agent (wr_config w) \<in> ag_role ` set (wf_agents (wr_config w))
     \<and> set (wf_post_processors (wr_config w)) \<subseteq> fst ` set (reg_post_processors reg)
     \<and> (\<forall>a \<in> set (wf_agents (wr_config w)).
          set (ag_tools a) \<subseteq> te_name ` set (reg_tools reg) \<and> distinct (ag_tools a)
          \<and> set (ag_can_handoff_to a) \<subseteq> ag_role ` set (wf_agents (wr_config w)) \<and> distinct (ag_can_handoff_to a)
          \<and> (\<forall>p. ag_parallel a = Some p \<longrightarrow> set (pe_can_run_with p) \<subseteq> ag_role ` set (wf_agents (wr_config w))
                \<and> ag_role a \<notin> set (pe_can_run_with p)))
     \<and> map fst (wr_agents w) = map ag_role (wf_agents (wr_config w))"
proof -
  note l = load_registry_closed [OF assms(1)]
  have "closed_workflow (reg_tools reg) (reg_post_processors reg) (key, w)" using l(1) assms(2) by blast
  moreover have "get_workflow reg key = Inr w" using l(2) assms(2) by (simp add: get_workflow_def)
  moreover have "default_key \<in> set (map wf_key files)" using l(4,5) by (metis list.set_map)
  moreover have "distinct (map wf_key files)" using l(2,5) by simp
  ultimately show ?thesis by (simp add: closed_workflow_def parallel_peers_ok_iff Let_def)
qed

definition demo_agent :: agent_config where
  "demo_agent = \<lparr> ag_role = lit ''solo'', ag_provider = FIREWORKS, ag_model = lit ''m'', ag_system_prompt = lit ''p'',
     ag_temperature = None, ag_max_tokens = None, ag_timeout = None, ag_tools = [lit ''t''],
     ag_can_handoff_to = [lit ''peer''],
     ag_parallel = Some \<lparr> pe_enabled = True, pe_group = None, pe_can_run_with = [lit ''peer''] \<rparr> \<rparr>"

definition demo_peer :: agent_config where
  "demo_peer = demo_agent\<lparr> ag_role := lit ''peer'', ag_can_handoff_to := [], ag_parallel := None \<rparr>"

definition demo_workflow :: workflow_config where
  "demo_workflow = \<lparr> wf_key = lit ''w'', wf_description = lit ''d'', wf_starting_agent = lit ''solo'',
     wf_post_processors = [], wf_flags = \<lparr> allow_single_follow_up = True,
       require_structured_brief_output = True, audit_run_events = True \<rparr>, wf_agents = [demo_agent, demo_peer] \<rparr>"

definition demo_post_processor :: post_processor_config where
  "demo_post_processor = \<lparr> pp_key = lit ''audit'', pp_type = AUDIT_TOOL_USAGE_AND_HANDOFFS, pp_description = lit ''d'',
     pp_provider = ANTHROPIC, pp_model = lit ''m'', pp_system_prompt = lit ''p'', pp_prompt_template = lit ''t'',
     pp_temperature = None, pp_max_tokens = None, pp_timeout = None \<rparr>"

definition demo_tool :: "unit tool_entry" where
  "demo_tool = \<lparr> te_name = lit ''t'', te_description = [], te_prompt_instructions = lit ''use it'',
     te_implementation = (), te_category = READ_ONLY \<rparr>"

definition demo_providers :: provider_settings where
  "demo_providers = \<lparr> openai_api_key = None, anthropic_api_key = None, ollama_base_url = [], ollama_api_key = [] \<rparr>"

theorem loaded_registry_is_closed_witness:
  "\<exists>reg w. load_workflow_registry [demo_tool] [demo_post_processor] [demo_workflow] (lit ''w'') demo_providers = Inr reg
     \<and> get_workflow reg (lit ''w'') = Inr w \<and> wf_agents (wr_config w) = [demo_agent, demo_peer]
     \<and> (\<forall>p. ag_parallel demo_agent = Some p \<longrightarrow> set (pe_can_run_with p) \<subseteq> {ag_role demo_agent, ag_role demo_peer})"
proof -
  have "validate_workflow demo_workflow = Inr ()"
    by (simp add: validate_workflow_def demo_workflow_def demo_agent_def demo_peer_def validate_agent_def agent_fields_ok_def
        model_knobs_ok_def validate_unique_tool_names_def validate_agent_relationships_def
        check_agent_references_def unknown_names_def)
  then have l: "\<exists>w. load_workflow_registry [demo_tool] [demo_post_processor] [demo_workflow] (lit ''w'') demo_providers
      = Inr \<lparr> reg_workflows = [(lit ''w'', w)], reg_post_processors = [(lit ''audit'', demo_post_processor)],
              reg_tools = [demo_tool] \<rparr> \<and> wr_config w = demo_workflow"
    by (simp add: load_workflow_registry_def ToolRegistry_def validate_catalog_def post_processor_ok_def
        model_knobs_ok_def demo_post_processor_def validate_workflow_references_def demo_workflow_def demo_agent_def demo_peer_def
        validate_tool_names_def get_tool_def demo_tool_def row_simps build_agent_runtime_def provider_is_implemented_def
        assemble_system_prompt_def prompt_block_def resolve_tools_def)
  then obtain w where w: "load_workflow_registry [demo_tool] [demo_post_processor] [demo_workflow] (lit ''w'') demo_providers
      = Inr \<lparr> reg_workflows = [(lit ''w'', w)], reg_post_processors = [(lit ''audit'', demo_post_processor)],
              reg_tools = [demo_tool] \<rparr>" "wr_config w = demo_workflow" by blast
  let ?reg = "\<lparr> reg_workflows = [(lit ''w'', w)], reg_post_processors = [(lit ''audit'', demo_post_processor)],
              reg_tools = [demo_tool] \<rparr>"
  have "(lit ''w'', w) \<in> set (reg_workflows ?reg)" by simp
  note closed = loaded_registry_is_closed [OF w(1) this]
  have agents: "wf_agents (wr_config w) = [demo_agent, demo_peer]" by (simp add: w(2) demo_workflow_def)
  have "get_workflow ?reg (lit ''w'') = Inr w" using closed by blast
  moreover have "\<forall>p. ag_parallel demo_agent = Some p \<longrightarrow> set (pe_can_run_with p) \<subseteq> {ag_role demo_agent, ag_role demo_peer}"
    using closed agents by simp
  ultimately show ?thesis using w(1) agents by blast
qed

end
