(* ===== verification/Workflow_Tools.thy ===== *)
theory Workflow_Tools
  imports Runs Workflow_Config
begin

text \<open>
  The deterministic tools of the messy-notes workflow (\<^verbatim>\<open>app/workflows/tools.py\<close>): what they
  take and give, and how the notes become sections, findings, duplicates, contradictions
  and a brief. The letters and digits beyond ASCII, which only the word boundaries of two
  regular expressions ask for, are the argument \<open>wide\<close>.
\<close>

section \<open>Contracts\<close>

record normalized_input_output =
  ni_text :: str
  ni_line_count :: int

record note_section =
  ns_section_id :: str
  ns_heading :: str
  ns_text :: str

record extracted_item =
  it_text :: str
  it_source :: str
  it_confidence :: rat

record reconciliation_input =
  ri_claims :: "extracted_item list"
  ri_decisions :: "extracted_item list"
  ri_action_items :: "extracted_item list"

record duplicate_finding =
  df_text :: str
  df_sources :: "str list"

record contradiction_finding =
  cf_positive :: str
  cf_negative :: str
  cf_sources :: "str list"

record brief_section =
  bs_heading :: str
  bs_content :: str

record brief_input =
  bi_title :: "str option"
  bi_claims :: "extracted_item list"
  bi_decisions :: "extracted_item list"
  bi_action_items :: "extracted_item list"
  bi_duplicates :: "duplicate_finding list"
  bi_contradictions :: "contradiction_finding list"

record brief_output =
  bo_title :: str
  bo_executive_summary :: str
  bo_sections :: "brief_section list"
  bo_open_questions :: "str list"
  bo_audit_notes :: "str list"

section \<open>Normalising and splitting\<close>

text \<open>\<^verbatim>\<open>re.sub(r"\s+", " ", line)\<close>\<close>

fun squeeze_from :: "bool \<Rightarrow> str \<Rightarrow> str" where
  "squeeze_from gap [] = []"
| "squeeze_from gap (c # s) =
     (if is_space c then (if gap then squeeze_from True s else 32 # squeeze_from True s)
      else c # squeeze_from False s)"

definition squeeze_spaces :: "str \<Rightarrow> str" where
  "squeeze_spaces s = squeeze_from False s"

definition normalize_input :: "str \<Rightarrow> normalized_input_output" where
  "normalize_input text_in =
     (let kept = filter (\<lambda>l. l \<noteq> []) (map (\<lambda>l. strip (squeeze_spaces l)) (splitlines text_in))
      in \<lparr> ni_text = join [10] kept, ni_line_count = int (length kept) \<rparr>)"

text \<open>
  \<^verbatim>\<open>re.split(r"\n{2,}|(?<=\n)", text)\<close>: two or more newlines are a separator, and there is an
  empty one after every other newline. \<open>nl\<close> tells whether a newline was just passed, \<open>acc\<close>
  is the piece read so far, backwards.
\<close>

function split_pieces :: "bool \<Rightarrow> str \<Rightarrow> str \<Rightarrow> str list" where
  "split_pieces nl acc s =
     (if take 2 s = [10, 10] then rev acc # split_pieces True [] (dropWhile (\<lambda>c. c = 10) s)
      else if s = [] then (if nl then [rev acc, []] else [rev acc])
      else if nl then rev acc # split_pieces (hd s = 10) [hd s] (tl s)
      else split_pieces (hd s = 10) (hd s # acc) (tl s))"
  by pat_completeness auto
termination
proof (relation "measure (\<lambda>(nl, acc, s). length s)", goal_cases)
  case (2 nl acc s)
  then show ?case by (cases s) (auto simp: numeral_2_eq_2 le_imp_less_Suc length_dropWhile_le)
qed auto

declare split_pieces.simps [simp del]

definition section_of :: "nat \<Rightarrow> str \<Rightarrow> note_section" where
  "section_of n piece = \<lparr> ns_section_id = lit ''s'' @ show_nat n, ns_heading = take 80 (hd (splitlines piece)), ns_text = piece \<rparr>"

fun number_sections :: "nat \<Rightarrow> str list \<Rightarrow> note_section list" where
  "number_sections n [] = []"
| "number_sections n (p # ps) = section_of n p # number_sections (n + 1) ps"

definition split_into_sections :: "str \<Rightarrow> note_section list" where
  "split_into_sections text_in =
     (let sections = number_sections 1 (filter (\<lambda>p. p \<noteq> []) (map strip (split_pieces False [] text_in)))
      in if sections = [] \<and> strip text_in \<noteq> []
         then [\<lparr> ns_section_id = lit ''s1'', ns_heading = lit ''Notes'', ns_text = strip text_in \<rparr>]
         else sections)"

section \<open>Extraction\<close>

definition item_from_section :: "note_section \<Rightarrow> extracted_item" where
  "item_from_section s = \<lparr> it_text = ns_text s, it_source = ns_section_id s, it_confidence = 72 / 100 \<rparr>"

definition looks_like_decision :: "str \<Rightarrow> bool" where
  "looks_like_decision s =
     list_ex (\<lambda>m. contains m (lower s))
       [lit ''decided'', lit ''decision'', lit ''approved'', lit ''will '', lit ''we will'']"

definition looks_like_action :: "str \<Rightarrow> bool" where
  "looks_like_action s =
     list_ex (\<lambda>m. contains m (lower s))
       [lit ''todo'', lit ''action'', lit ''need '', lit ''needs '', lit ''ask '', lit ''owner'', lit ''follow up'']"

definition extract_claims :: "note_section list \<Rightarrow> extracted_item list" where
  "extract_claims ss = map item_from_section
     (filter (\<lambda>s. \<not> looks_like_action (ns_text s) \<and> \<not> looks_like_decision (ns_text s)) ss)"

definition extract_decisions :: "note_section list \<Rightarrow> extracted_item list" where
  "extract_decisions ss = map item_from_section (filter (\<lambda>s. looks_like_decision (ns_text s)) ss)"

definition extract_action_items :: "note_section list \<Rightarrow> extracted_item list" where
  "extract_action_items ss = map item_from_section (filter (\<lambda>s. looks_like_action (ns_text s)) ss)"

section \<open>Reconciliation\<close>

definition all_items :: "reconciliation_input \<Rightarrow> extracted_item list" where
  "all_items p = ri_claims p @ ri_decisions p @ ri_action_items p"

definition is_term_char :: "nat \<Rightarrow> bool" where
  "is_term_char c \<longleftrightarrow> (97 \<le> c \<and> c \<le> 122) \<or> (48 \<le> c \<and> c \<le> 57)"

text \<open>\<^verbatim>\<open>re.sub(r"[^a-z0-9]+", " ", text.lower()).strip()\<close>\<close>

fun blank_others :: "bool \<Rightarrow> str \<Rightarrow> str" where
  "blank_others gap [] = []"
| "blank_others gap (c # s) =
     (if is_term_char c then c # blank_others False s
      else if gap then blank_others True s else 32 # blank_others True s)"

definition duplicate_key :: "str \<Rightarrow> str" where
  "duplicate_key s = strip (blank_others False (lower s))"

text \<open>The buckets in the order of their first item, as a dict keeps them.\<close>

fun add_to_bucket :: "str \<Rightarrow> 'a \<Rightarrow> (str \<times> 'a list) list \<Rightarrow> (str \<times> 'a list) list" where
  "add_to_bucket k x [] = [(k, [x])]"
| "add_to_bucket k x ((j, ys) # bs) = (if j = k then (j, ys @ [x]) # bs else (j, ys) # add_to_bucket k x bs)"

definition buckets_of :: "extracted_item list \<Rightarrow> (str \<times> extracted_item list) list" where
  "buckets_of items = foldl (\<lambda>bs i. add_to_bucket (duplicate_key (it_text i)) i bs) [] items"

definition find_duplicates :: "reconciliation_input \<Rightarrow> duplicate_finding list" where
  "find_duplicates p =
     map (\<lambda>(k, items). \<lparr> df_text = it_text (hd items), df_sources = sort (remdups (map it_source items)) \<rparr>)
       (filter (\<lambda>(k, items). 1 < length items) (buckets_of (all_items p)))"

text \<open>\<^verbatim>\<open>\b(...)\b\<close>: a word of the list with no word character on either side.\<close>

definition is_word_char :: "(nat \<Rightarrow> bool) \<Rightarrow> nat \<Rightarrow> bool" where
  "is_word_char wide c \<longleftrightarrow> is_term_char c \<or> (65 \<le> c \<and> c \<le> 90) \<or> c = 95 \<or> (128 \<le> c \<and> wide c)"

fun word_at :: "(nat \<Rightarrow> bool) \<Rightarrow> str list \<Rightarrow> bool \<Rightarrow> str \<Rightarrow> bool" where
  "word_at wide ws inside [] = False"
| "word_at wide ws inside (c # s) =
     ((\<not> inside \<and> list_ex (\<lambda>w. starts_with w (c # s)
          \<and> (case drop (length w) (c # s) of [] \<Rightarrow> True | d # _ \<Rightarrow> \<not> is_word_char wide d)) ws)
      \<or> word_at wide ws (is_word_char wide c) s)"

definition contains_word :: "(nat \<Rightarrow> bool) \<Rightarrow> str list \<Rightarrow> str \<Rightarrow> bool" where
  "contains_word wide ws s = word_at wide ws False s"

definition contains_negative_signal :: "(nat \<Rightarrow> bool) \<Rightarrow> str \<Rightarrow> bool" where
  "contains_negative_signal wide s = contains_word wide
     [lit ''no'', lit ''not'', lit ''blocked'', lit ''cancel'', lit ''delay'', lit ''risk'', lit ''cannot'',
      lit ''won'' @ [39] @ lit ''t''] (lower s)"

definition contains_positive_signal :: "(nat \<Rightarrow> bool) \<Rightarrow> str \<Rightarrow> bool" where
  "contains_positive_signal wide s = contains_word wide
     [lit ''yes'', lit ''approved'', lit ''will'', lit ''go'', lit ''ready'', lit ''can'', lit ''confirmed''] (lower s)"

definition stopwords :: "str list" where
  "stopwords = [lit ''the'', lit ''and'', lit ''for'', lit ''with'', lit ''that'', lit ''this'', lit ''will'',
     lit ''not'', lit ''need'']"

fun term_runs :: "str \<Rightarrow> str \<Rightarrow> str list" where
  "term_runs acc [] = [rev acc]"
| "term_runs acc (c # s) = (if is_term_char c then term_runs (c # acc) s else rev acc # term_runs [] s)"

definition meaningful_terms :: "str \<Rightarrow> str list" where
  "meaningful_terms s = filter (\<lambda>t. 4 \<le> length t \<and> t \<notin> set stopwords) (term_runs [] (lower s))"

definition contradicts :: "extracted_item \<Rightarrow> extracted_item \<Rightarrow> bool" where
  "contradicts negative positive \<longleftrightarrow> it_source negative \<noteq> it_source positive
     \<and> list_ex (\<lambda>t. t \<in> set (meaningful_terms (it_text positive))) (meaningful_terms (it_text negative))"

definition find_contradictions :: "(nat \<Rightarrow> bool) \<Rightarrow> reconciliation_input \<Rightarrow> contradiction_finding list" where
  "find_contradictions wide p =
     (let negatives = filter (\<lambda>i. contains_negative_signal wide (it_text i)) (all_items p);
          positives = filter (\<lambda>i. contains_positive_signal wide (it_text i)) (all_items p)
      in concat (map (\<lambda>n. case find (contradicts n) positives of
             None \<Rightarrow> []
           | Some q \<Rightarrow> [\<lparr> cf_positive = it_text q, cf_negative = it_text n,
                          cf_sources = [it_source q, it_source n] \<rparr>]) negatives))"

section \<open>The brief\<close>

definition join_items :: "extracted_item list \<Rightarrow> str" where
  "join_items items = join [10] (map (\<lambda>i. lit ''- '' @ it_text i) (take 8 items))"

definition text_or :: "str \<Rightarrow> str \<Rightarrow> str" where
  "text_or s dflt = (if s = [] then dflt else s)"

definition summary_parts :: "brief_input \<Rightarrow> str list" where
  "summary_parts p =
     (if bi_claims p \<noteq> [] then [show_nat (length (bi_claims p)) @ lit '' grounded observations''] else [])
     @ (if bi_decisions p \<noteq> [] then [show_nat (length (bi_decisions p)) @ lit '' decisions''] else [])
     @ (if bi_action_items p \<noteq> [] then [show_nat (length (bi_action_items p)) @ lit '' action items''] else [])"

definition format_brief :: "brief_input \<Rightarrow> brief_output" where
  "format_brief p =
     \<lparr> bo_title = str_or (bi_title p) (lit ''Messy notes brief''),
       bo_executive_summary =
         (if summary_parts p \<noteq> []
          then lit ''This brief summarizes '' @ join (lit '', '') (summary_parts p) @ lit '' from the submitted notes.''
          else lit ''The submitted notes did not contain enough structured detail for a rich brief.''),
       bo_sections =
         [\<lparr> bs_heading = lit ''Key observations'',
            bs_content = text_or (join_items (bi_claims p)) (lit ''No clear factual claims were found.'') \<rparr>,
          \<lparr> bs_heading = lit ''Decisions'',
            bs_content = text_or (join_items (bi_decisions p)) (lit ''No explicit decisions were found.'') \<rparr>,
          \<lparr> bs_heading = lit ''Action items'',
            bs_content = text_or (join_items (bi_action_items p)) (lit ''No explicit action items were found.'') \<rparr>],
       bo_open_questions =
         map (\<lambda>_. lit ''Resolve duplicate or overlapping notes before treating them as separate facts.'')
           (take 1 (bi_duplicates p))
         @ map (\<lambda>_. lit ''Confirm contradictory notes before acting on the brief.'') (take 1 (bi_contradictions p)),
       bo_audit_notes =
         [lit ''Duplicate findings: '' @ show_nat (length (bi_duplicates p)),
          lit ''Potential contradictions: '' @ show_nat (length (bi_contradictions p))] \<rparr>"

section \<open>Sections are the lines\<close>

lemma lstrip_snoc: "\<exists>c \<in> set w. \<not> is_space c \<Longrightarrow> lstrip (w @ [x]) = lstrip w @ [x]"
  by (simp add: lstrip_def dropWhile_append)

lemma strip_snoc_space: "is_space x \<Longrightarrow> strip (w @ [x]) = strip w"
proof (cases "\<exists>c \<in> set w. \<not> is_space c")
  case True
  moreover assume "is_space x"
  ultimately show ?thesis by (simp add: strip_def lstrip_snoc rstrip_def)
next
  case False
  moreover assume "is_space x"
  ultimately have "strip (w @ [x]) = []" "strip w = []" by (auto simp: strip_eq_Nil_iff)
  then show ?thesis by simp
qed

definition kept :: "str list \<Rightarrow> str list" where
  "kept ps = filter (\<lambda>p. p \<noteq> []) (map strip ps)"

lemma kept_simps [simp]:
  "kept [] = []" "kept (p # ps) = (if strip p = [] then [] else [strip p]) @ kept ps"
  by (simp_all add: kept_def)

lemma strip_snoc_newline [simp]: "strip (w @ [10]) = strip w"
  by (rule strip_snoc_space) (simp add: is_space_def)

lemma strip_newline [simp]: "strip [10] = []"
  using strip_snoc_newline [of "[]"] by simp

lemma split_char_prefix: "c \<notin> set a \<Longrightarrow> split_char c (a @ s) = (a @ hd (split_char c s)) # tl (split_char c s)"
proof (induction a)
  case Nil
  then show ?case using split_char_not_Nil [of c s] by simp
qed auto

lemma kept_drop_newlines: "kept (split_char 10 (dropWhile (\<lambda>c. c = 10) s)) = kept (split_char 10 s)"
proof (induction s)
  case (Cons c s)
  then show ?case by (cases "c = 10") simp_all
qed simp

lemma kept_split_pieces:
  "(\<not> nl \<longrightarrow> 10 \<notin> set acc \<longrightarrow> kept (split_pieces nl acc s) = kept (split_char 10 (rev acc @ s)))
   \<and> (nl \<longrightarrow> acc = [] \<or> (\<exists>w. rev acc = w @ [10] \<and> 10 \<notin> set w) \<longrightarrow>
        kept (split_pieces nl acc s) = kept [rev acc] @ kept (split_char 10 s))"
proof (induction nl acc s rule: split_pieces.induct)
  case (1 nl acc s)
  have sim: "split_pieces nl acc s =
     (if take 2 s = [10, 10] then rev acc # split_pieces True [] (dropWhile (\<lambda>c. c = 10) s)
      else if s = [] then (if nl then [rev acc, []] else [rev acc])
      else if nl then rev acc # split_pieces (hd s = 10) [hd s] (tl s)
      else split_pieces (hd s = 10) (hd s # acc) (tl s))" by (rule split_pieces.simps)
  consider (run) "take 2 s = [10, 10]" | (nil) "s = []"
    | (cons) c t where "take 2 s \<noteq> [10, 10]" "s = c # t" by (cases s) auto
  then show ?case
  proof cases
    case run
    then obtain t where s: "s = 10 # t" by (cases s) auto
    have "kept (split_pieces nl acc s) = kept [rev acc] @ kept (split_char 10 s)"
      using "1.IH"(1) [OF run] kept_drop_newlines [of s] run by (simp add: sim)
    moreover have "kept (split_char 10 (rev acc @ s)) = kept [rev acc] @ kept (split_char 10 s)" if "10 \<notin> set acc"
      using that split_char_prefix [of 10 "rev acc" s] by (simp add: s)
    ultimately show ?thesis by (cases nl) auto
  next
    case nil
    have "split_char 10 (rev acc) = [rev acc]" if "10 \<notin> set acc"
      using that split_char_prefix [of 10 "rev acc" "[]"] by simp
    moreover have "split_pieces nl acc s = (if nl then [rev acc, []] else [rev acc])" unfolding sim using nil by simp
    ultimately show ?thesis using nil by (cases nl) auto
  next
    case cons
    show ?thesis
    proof (cases nl)
      case True
      have "kept (split_pieces (c = 10) [c] t) = kept (split_char 10 (c # t))"
      proof (cases "c = 10")
        case True
        then have "kept (split_pieces True [10] t) = kept [[10]] @ kept (split_char 10 t)"
          using "1.IH"(2) [OF cons(1)] cons(2) \<open>nl\<close> by simp
        then show ?thesis using True by simp
      next
        case False
        then show ?thesis using "1.IH"(2) [OF cons(1)] cons(2) \<open>nl\<close> by simp
      qed
      moreover have "split_pieces nl acc s = rev acc # split_pieces (c = 10) [c] t"
        using sim cons True by (simp only: list.distinct if_False if_True list.sel)
      ultimately show ?thesis using True cons by simp
    next
      case False
      have "kept (split_pieces (c = 10) (c # acc) t) = kept (split_char 10 (rev acc @ c # t))" if a: "10 \<notin> set acc"
      proof (cases "c = 10")
        case True
        then have "kept (split_pieces True (10 # acc) t) = kept [rev acc @ [10]] @ kept (split_char 10 t)"
          using "1.IH"(3) [OF cons(1)] cons(2) False a by simp
        then show ?thesis
          using True split_char_prefix [of 10 "rev acc" "10 # t"] a
          by simp
      next
        case c: False
        then show ?thesis using "1.IH"(3) [OF cons(1)] cons(2) False a by simp
      qed
      moreover have "split_pieces nl acc s = split_pieces (c = 10) (c # acc) t"
        using sim cons False by (simp only: list.distinct if_False list.sel)
      ultimately show ?thesis using False cons by simp
    qed
  qed
qed

lemma kept_pieces: "kept (split_pieces False [] s) = kept (split_char 10 s)"
  using kept_split_pieces [of False "[]" s] by simp

lemma number_sections_texts: "map ns_text (number_sections n ps) = ps"
  by (induction n ps rule: number_sections.induct) (simp_all add: section_of_def)

lemma number_sections_ids: "map ns_section_id (number_sections n ps) = map (\<lambda>i. lit ''s'' @ show_nat i) [n..<n + length ps]"
proof (induction n ps rule: number_sections.induct)
  case (2 n p ps)
  have "[n..<n + length (p # ps)] = n # [n + 1..<n + 1 + length ps]" by (simp add: upt_rec)
  then show ?case using 2 by (simp add: section_of_def)
qed simp

lemma number_sections_Nil [simp]: "number_sections n ps = [] \<longleftrightarrow> ps = []"
  by (cases ps) auto

lemma no_kept_lines: "kept (split_char 10 s) = [] \<Longrightarrow> strip s = []"
proof -
  assume "kept (split_char 10 s) = []"
  then have "\<forall>p \<in> set (split_char 10 s). \<forall>c \<in> set p. is_space c"
    by (auto simp: kept_def filter_empty_conv strip_eq_Nil_iff)
  moreover have "set s \<subseteq> insert 10 (\<Union>p \<in> set (split_char 10 s). set p)"
  proof (induction s)
    case (Cons x s)
    obtain w ws where "split_char 10 s = w # ws" using split_char_not_Nil by (cases "split_char 10 s") blast+
    then show ?case using Cons by auto
  qed simp
  moreover have "is_space 10" by (simp add: is_space_def)
  ultimately have "\<forall>c \<in> set s. is_space c" by blast
  then show ?thesis by (simp add: strip_eq_Nil_iff)
qed

lemma split_into_sections_kept: "split_into_sections s = number_sections 1 (kept (split_char 10 s))"
proof -
  have "filter (\<lambda>l. l \<noteq> []) (map strip (split_pieces False [] s)) = kept (split_char 10 s)"
    using kept_pieces [of s] by (simp add: kept_def)
  then show ?thesis using no_kept_lines [of s] by (simp add: split_into_sections_def Let_def)
qed

lemma section_texts: "map ns_text (split_into_sections s) = filter (\<lambda>l. l \<noteq> []) (map strip (split_char 10 s))"
  by (simp add: split_into_sections_kept number_sections_texts kept_def)

text \<open>
  The sections of a text are its lines at newlines, stripped and without the empty
  ones, numbered from s1; the regular expression with its empty separators splits no
  differently, and the fallback for texts without sections is never reached.
\<close>

theorem sections_are_the_lines:
  "map ns_text (split_into_sections s) = filter (\<lambda>l. l \<noteq> []) (map strip (split_char 10 s))
   \<and> map ns_section_id (split_into_sections s)
       = map (\<lambda>i. lit ''s'' @ show_nat i) [1..<1 + length (split_into_sections s)]"
proof -
  have "length (number_sections 1 ps) = length ps" for ps using number_sections_texts [of 1 ps] by (metis length_map)
  then have "map ns_section_id (split_into_sections s) = map (\<lambda>i. lit ''s'' @ show_nat i) [1..<1 + length (split_into_sections s)]"
    by (simp add: split_into_sections_kept number_sections_ids)
  with section_texts [of s] show ?thesis by blast
qed

section \<open>Normalised text\<close>

text \<open>White space is single blanks.\<close>

definition tidy :: "str \<Rightarrow> bool" where
  "tidy s \<longleftrightarrow> successively (\<lambda>a b. \<not> (is_space a \<and> is_space b)) s \<and> (\<forall>c \<in> set s. is_space c \<longrightarrow> c = 32)"

lemma space_32 [simp]: "is_space 32"
  by (simp add: is_space_def)

lemma squeeze_tidy: "tidy (squeeze_from gap s) \<and> (gap \<longrightarrow> squeeze_from gap s = [] \<or> \<not> is_space (hd (squeeze_from gap s)))"
proof (induction s arbitrary: gap)
  case (Cons c s)
  show ?case
  proof (cases "is_space c")
    case True
    then show ?thesis using Cons.IH [of True]
      by (cases "squeeze_from True s") (auto simp: tidy_def)
  next
    case False
    then show ?thesis using Cons.IH [of False]
      by (cases "squeeze_from False s") (auto simp: tidy_def)
  qed
qed (simp add: tidy_def)

lemma tidy_squeeze_id:
  "tidy s \<Longrightarrow> \<not> gap \<or> s = [] \<or> \<not> is_space (hd s) \<Longrightarrow> squeeze_from gap s = s"
proof (induction s arbitrary: gap)
  case (Cons c s)
  have t: "tidy s" using Cons.prems(1) by (cases s) (auto simp: tidy_def)
  show ?case
  proof (cases "is_space c")
    case True
    then have "c = 32" "\<not> gap" using Cons.prems by (auto simp: tidy_def)
    moreover have "s = [] \<or> \<not> is_space (hd s)" using Cons.prems(1) True by (cases s) (auto simp: tidy_def)
    ultimately show ?thesis using Cons.IH [OF t, of True] by simp
  next
    case False
    then show ?thesis using Cons.IH [OF t, of False] by simp
  qed
qed simp

lemma tidy_suffix: "tidy (a @ b) \<Longrightarrow> tidy b"
  by (auto simp: tidy_def successively_append_iff)

lemma tidy_prefix: "tidy (a @ b) \<Longrightarrow> tidy a"
  by (auto simp: tidy_def successively_append_iff)

lemma tidy_strip: "tidy s \<Longrightarrow> tidy (strip s)"
proof -
  assume "tidy s"
  then have "tidy (takeWhile is_space s @ dropWhile is_space s)" by simp
  then have "tidy (lstrip s)" unfolding lstrip_def by (rule tidy_suffix)
  moreover obtain t where "lstrip s = rstrip (lstrip s) @ t" using rstrip_prefix by blast
  ultimately show ?thesis unfolding strip_def by (metis tidy_prefix)
qed

definition clean_line :: "str \<Rightarrow> str" where
  "clean_line l = strip (squeeze_spaces l)"

lemma clean_line_idem: "clean_line (clean_line l) = clean_line l"
proof -
  have "tidy (clean_line l)"
    unfolding clean_line_def squeeze_spaces_def using squeeze_tidy by (intro tidy_strip) blast
  then have "squeeze_spaces (clean_line l) = clean_line l"
    by (simp add: squeeze_spaces_def tidy_squeeze_id)
  then show ?thesis by (simp add: clean_line_def)
qed

lemma clean_line_fixed: "strip (clean_line l) = clean_line l \<and> squeeze_spaces (clean_line l) = clean_line l"
proof -
  have "tidy (clean_line l)"
    unfolding clean_line_def squeeze_spaces_def using squeeze_tidy by (intro tidy_strip) blast
  then have "squeeze_spaces (clean_line l) = clean_line l" by (simp add: squeeze_spaces_def tidy_squeeze_id)
  moreover have "strip (clean_line l) = clean_line l" by (simp add: clean_line_def)
  ultimately show ?thesis by blast
qed

lemma linebreak_space: "is_linebreak c \<Longrightarrow> is_space c \<and> c \<noteq> 32"
  by (auto simp: is_linebreak_def is_space_def)

lemma clean_line_no_break: "c \<in> set (clean_line l) \<Longrightarrow> \<not> is_linebreak c"
proof -
  assume "c \<in> set (clean_line l)"
  moreover have "tidy (clean_line l)"
    unfolding clean_line_def squeeze_spaces_def using squeeze_tidy by (intro tidy_strip) blast
  ultimately show ?thesis using linebreak_space by (auto simp: tidy_def)
qed

lemma linebreak_13 [simp]: "is_linebreak 13" "is_linebreak 10"
  by (simp_all add: is_linebreak_def)

lemma splitlines_acc_step:
  "\<not> is_linebreak c \<Longrightarrow> s \<noteq> [] \<Longrightarrow> splitlines_acc acc (c # s) = splitlines_acc (c # acc) s"
  by (cases s) auto

lemma splitlines_acc_line:
  "\<forall>c \<in> set l. \<not> is_linebreak c \<Longrightarrow> rest \<noteq> [] \<Longrightarrow> splitlines_acc acc (l @ 10 # rest) = (rev acc @ l) # splitlines_acc [] rest"
proof (induction l arbitrary: acc)
  case Nil
  then show ?case by (cases rest) simp_all
next
  case (Cons c l)
  have "splitlines_acc acc ((c # l) @ 10 # rest) = splitlines_acc (c # acc) (l @ 10 # rest)"
    using Cons.prems(1) by (simp add: splitlines_acc_step)
  also have "\<dots> = (rev (c # acc) @ l) # splitlines_acc [] rest"
    using Cons.prems by (intro Cons.IH) simp_all
  finally show ?case by simp
qed

lemma splitlines_acc_last: "\<forall>c \<in> set l. \<not> is_linebreak c \<Longrightarrow> rev acc @ l \<noteq> [] \<Longrightarrow> splitlines_acc acc l = [rev acc @ l]"
proof (induction l arbitrary: acc)
  case (Cons c l)
  show ?case
  proof (cases "l = []")
    case True
    then show ?thesis using Cons.prems by simp
  next
    case False
    have "splitlines_acc acc (c # l) = splitlines_acc (c # acc) l"
      using Cons.prems(1) False by (simp add: splitlines_acc_step)
    also have "\<dots> = [rev (c # acc) @ l]"
      using Cons.prems(1) by (intro Cons.IH) simp_all
    finally show ?thesis by simp
  qed
qed simp

lemma splitlines_join:
  "\<forall>l \<in> set ls. l \<noteq> [] \<and> (\<forall>c \<in> set l. \<not> is_linebreak c) \<Longrightarrow> splitlines (join [10] ls) = ls"
proof (induction "[10::nat]" ls rule: join.induct)
  case 1
  then show ?case by (simp add: splitlines_def)
next
  case (2 s)
  then show ?case using splitlines_acc_last [of s "[]"] by (simp add: splitlines_def)
next
  case (3 s t ss)
  have "join [10] (t # ss) \<noteq> []" using 3(2) join_eq_Nil [of "[10]" "t # ss"] by auto
  moreover have "splitlines (join [10] (t # ss)) = t # ss" using 3 by simp
  ultimately show ?case using splitlines_acc_line [of s "join [10] (t # ss)" "[]"] 3(2) by (simp add: splitlines_def)
qed

lemma kept_line_ok:
  assumes "l \<in> set (filter (\<lambda>l. l \<noteq> []) (map clean_line ls))"
  shows "l \<noteq> [] \<and> (\<forall>c \<in> set l. \<not> is_linebreak c)"
  using assms clean_line_no_break by auto

lemma normalize_lines:
  "splitlines (ni_text (normalize_input s)) = filter (\<lambda>l. l \<noteq> []) (map clean_line (splitlines s))"
proof -
  have "ni_text (normalize_input s) = join [10] (filter (\<lambda>l. l \<noteq> []) (map clean_line (splitlines s)))"
    by (simp add: normalize_input_def clean_line_def [abs_def] Let_def)
  moreover have "splitlines (join [10] (filter (\<lambda>l. l \<noteq> []) (map clean_line (splitlines s)))) = filter (\<lambda>l. l \<noteq> []) (map clean_line (splitlines s))"
    by (intro splitlines_join ballI kept_line_ok)
  ultimately show ?thesis by simp
qed

definition kept_lines :: "str list \<Rightarrow> str list" where
  "kept_lines ls = filter (\<lambda>l. l \<noteq> []) (map clean_line ls)"

lemma kept_lines_idem: "kept_lines (kept_lines ls) = kept_lines ls"
  by (induction ls) (simp_all add: kept_lines_def clean_line_idem)

text \<open>
  Normalising is idempotent, the line count is that of the text it returns, and every
  line of that text is non-empty, stripped and has no white space but single blanks.
\<close>

theorem normalize_input_settles:
  "normalize_input (ni_text (normalize_input s)) = normalize_input s
   \<and> ni_line_count (normalize_input s) = int (length (splitlines (ni_text (normalize_input s))))
   \<and> list_all (\<lambda>l. l \<noteq> [] \<and> strip l = l \<and> squeeze_spaces l = l) (splitlines (ni_text (normalize_input s)))"
proof -
  have n: "normalize_input t = \<lparr> ni_text = join [10] (kept_lines (splitlines t)), ni_line_count = int (length (kept_lines (splitlines t))) \<rparr>" for t
    by (simp add: normalize_input_def clean_line_def [abs_def] kept_lines_def Let_def)
  have "splitlines (ni_text (normalize_input s)) = kept_lines (splitlines s)"
    using normalize_lines [of s] by (simp add: kept_lines_def)
  then have "normalize_input (ni_text (normalize_input s)) = normalize_input s"
    by (simp add: n kept_lines_idem)
  moreover have "l \<noteq> [] \<and> strip l = l \<and> squeeze_spaces l = l" if "l \<in> set (kept_lines (splitlines s))" for l
    using that clean_line_fixed by (auto simp: kept_lines_def)
  ultimately show ?thesis
    unfolding \<open>splitlines (ni_text (normalize_input s)) = _\<close> by (simp add: n list_all_iff)
qed

section \<open>No note is lost\<close>

text \<open>
  Every section gives an item: a claim exactly when it looks like neither an action
  nor a decision, and otherwise an action item, a decision, or both; nothing else is
  extracted.
\<close>

theorem every_section_is_extracted:
  "set (extract_claims ss) \<union> set (extract_decisions ss) \<union> set (extract_action_items ss) = item_from_section ` set ss
   \<and> length (extract_claims ss) \<le> length ss
   \<and> set (extract_claims ss) \<inter> (set (extract_decisions ss) \<union> set (extract_action_items ss)) = {}"
proof -
  have t: "it_text (item_from_section s) = ns_text s" for s by (simp add: item_from_section_def)
  have "i \<notin> set (extract_decisions ss) \<and> i \<notin> set (extract_action_items ss)" if "i \<in> set (extract_claims ss)" for i
  proof -
    have "\<not> looks_like_action (it_text i) \<and> \<not> looks_like_decision (it_text i)"
      using that by (auto simp: extract_claims_def t)
    then show ?thesis by (auto simp: extract_decisions_def extract_action_items_def t)
  qed
  moreover have "set (extract_claims ss) \<union> set (extract_decisions ss) \<union> set (extract_action_items ss) = item_from_section ` set ss"
    by (auto simp: extract_claims_def extract_decisions_def extract_action_items_def)
  moreover have "length (extract_claims ss) \<le> length ss" by (simp add: extract_claims_def)
  ultimately show ?thesis by blast
qed

section \<open>Duplicates\<close>

lemma add_to_bucket_map: "map_of (add_to_bucket k x bs) = (map_of bs)(k \<mapsto> (case map_of bs k of None \<Rightarrow> [] | Some ys \<Rightarrow> ys) @ [x])"
  by (induction k x bs rule: add_to_bucket.induct) (auto simp: fun_eq_iff)

lemma add_to_bucket_keys: "map fst (add_to_bucket k x bs) = (if k \<in> fst ` set bs then map fst bs else map fst bs @ [k])"
  by (induction k x bs rule: add_to_bucket.induct) auto

lemma add_to_bucket_distinct: "distinct (map fst bs) \<Longrightarrow> distinct (map fst (add_to_bucket k x bs))"
  by (auto simp: add_to_bucket_keys)

lemma buckets_of_spec:
  "distinct (map fst (buckets_of items)) \<and>
   map_of (buckets_of items) k =
     (case filter (\<lambda>i. duplicate_key (it_text i) = k) items of [] \<Rightarrow> None | js \<Rightarrow> Some js)"
proof (induction items rule: rev_induct)
  case Nil
  then show ?case by (simp add: buckets_of_def)
next
  case (snoc x xs)
  have b: "buckets_of (xs @ [x]) = add_to_bucket (duplicate_key (it_text x)) x (buckets_of xs)"
    by (simp add: buckets_of_def)
  show ?case using snoc by (auto simp: b add_to_bucket_distinct add_to_bucket_map split: list.splits)
qed

text \<open>
  The duplicate findings are exactly the keys that two or more items share: each cites
  the text of the first such item and the section ids of all of them, sorted and without
  repetition, and no key is reported twice.
\<close>

theorem duplicates_are_the_shared_keys:
  "(f \<in> set (find_duplicates p) \<longleftrightarrow>
      (\<exists>k. 1 < length (filter (\<lambda>i. duplicate_key (it_text i) = k) (all_items p))
          \<and> df_text f = it_text (hd (filter (\<lambda>i. duplicate_key (it_text i) = k) (all_items p)))
          \<and> df_sources f = sort (remdups (map it_source (filter (\<lambda>i. duplicate_key (it_text i) = k) (all_items p))))))
   \<and> distinct (map (duplicate_key \<circ> df_text) (find_duplicates p))"
proof -
  let ?same = "\<lambda>k. filter (\<lambda>i. duplicate_key (it_text i) = k) (all_items p)"
  let ?bs = "buckets_of (all_items p)"
  have d: "distinct (map fst ?bs)" using buckets_of_spec [of "all_items p"] by blast
  have iff: "(k, js) \<in> set ?bs \<longleftrightarrow> js = ?same k \<and> js \<noteq> []" for k js
  proof -
    have "(k, js) \<in> set ?bs \<longleftrightarrow> map_of ?bs k = Some js" using d by simp
    then show ?thesis using buckets_of_spec [of "all_items p" k] by (auto split: list.splits)
  qed
  have key: "duplicate_key (it_text (hd js)) = k" if "(k, js) \<in> set ?bs" for k js
  proof -
    have "hd js \<in> set (?same k)" using that iff [of k js] by (metis hd_in_set)
    then show ?thesis by simp
  qed
  have "map (duplicate_key \<circ> df_text) (find_duplicates p) = map fst (filter (\<lambda>(k, items). 1 < length items) ?bs)"
    using key by (auto simp: find_duplicates_def)
  moreover have "distinct (map fst (filter P ?bs))" for P using d by (simp add: distinct_map_filter)
  moreover have "f \<in> set (find_duplicates p) \<longleftrightarrow> (\<exists>k. 1 < length (?same k) \<and> df_text f = it_text (hd (?same k))
      \<and> df_sources f = sort (remdups (map it_source (?same k))))" (is "?l \<longleftrightarrow> ?r")
  proof
    assume ?l
    then obtain k js where "(k, js) \<in> set ?bs" "1 < length js"
      "f = \<lparr> df_text = it_text (hd js), df_sources = sort (remdups (map it_source js)) \<rparr>"
      by (auto simp: find_duplicates_def)
    then show ?r using iff [of k js] by (intro exI [of _ k]) simp
  next
    assume ?r
    then obtain k where k: "1 < length (?same k)" "df_text f = it_text (hd (?same k))"
      "df_sources f = sort (remdups (map it_source (?same k)))" by blast
    then have "(k, ?same k) \<in> set ?bs" using iff [of k "?same k"] by auto
    moreover have "f = \<lparr> df_text = it_text (hd (?same k)), df_sources = sort (remdups (map it_source (?same k))) \<rparr>"
      using k by simp
    ultimately show ?l using k(1) unfolding find_duplicates_def by force
  qed
  ultimately show ?thesis by simp
qed

text \<open>
  Every contradiction cites a negative item and a positive one of another section with
  a common meaningful term of four letters or more, and each negative item is cited at most
  once.
\<close>

theorem contradictions_cite_two_sections:
  "list_all (\<lambda>f. \<exists>n q t. n \<in> set (all_items p) \<and> q \<in> set (all_items p)
        \<and> contains_negative_signal wide (it_text n) \<and> contains_positive_signal wide (it_text q)
        \<and> it_source n \<noteq> it_source q \<and> t \<in> set (meaningful_terms (it_text n)) \<inter> set (meaningful_terms (it_text q))
        \<and> 4 \<le> length t \<and> f = \<lparr> cf_positive = it_text q, cf_negative = it_text n, cf_sources = [it_source q, it_source n] \<rparr>)
     (find_contradictions wide p)
   \<and> length (find_contradictions wide p) \<le> length (filter (\<lambda>i. contains_negative_signal wide (it_text i)) (all_items p))"
proof -
  have t: "\<exists>t. t \<in> set (meaningful_terms (it_text n)) \<inter> set (meaningful_terms (it_text q)) \<and> 4 \<le> length t"
    if "contradicts n q" for n q
    using that by (auto simp: contradicts_def list_ex_iff meaningful_terms_def)
  have "length (concat (map (\<lambda>n. case find (contradicts n) qs of None \<Rightarrow> [] | Some q \<Rightarrow> [g q n]) ns)) \<le> length ns"
    for qs ns and g :: "extracted_item \<Rightarrow> extracted_item \<Rightarrow> contradiction_finding"
    by (induction ns) (auto split: option.splits)
  then have "length (find_contradictions wide p) \<le> length (filter (\<lambda>i. contains_negative_signal wide (it_text i)) (all_items p))"
    by (simp only: find_contradictions_def Let_def)
  moreover have "list_all (\<lambda>f. \<exists>n q t. n \<in> set (all_items p) \<and> q \<in> set (all_items p)
        \<and> contains_negative_signal wide (it_text n) \<and> contains_positive_signal wide (it_text q)
        \<and> it_source n \<noteq> it_source q \<and> t \<in> set (meaningful_terms (it_text n)) \<inter> set (meaningful_terms (it_text q))
        \<and> 4 \<le> length t \<and> f = \<lparr> cf_positive = it_text q, cf_negative = it_text n, cf_sources = [it_source q, it_source n] \<rparr>)
     (find_contradictions wide p)"
    unfolding list_all_iff
  proof
    fix f assume "f \<in> set (find_contradictions wide p)"
    then obtain n where n: "n \<in> set (all_items p)" "contains_negative_signal wide (it_text n)"
      and m: "f \<in> set (case find (contradicts n) (filter (\<lambda>i. contains_positive_signal wide (it_text i)) (all_items p)) of
             None \<Rightarrow> [] | Some q \<Rightarrow> [\<lparr> cf_positive = it_text q, cf_negative = it_text n, cf_sources = [it_source q, it_source n] \<rparr>])"
      unfolding find_contradictions_def Let_def by auto
    then obtain q where q: "find (contradicts n) (filter (\<lambda>i. contains_positive_signal wide (it_text i)) (all_items p)) = Some q"
      and f: "f = \<lparr> cf_positive = it_text q, cf_negative = it_text n, cf_sources = [it_source q, it_source n] \<rparr>"
      by (cases "find (contradicts n) (filter (\<lambda>i. contains_positive_signal wide (it_text i)) (all_items p))") auto
    from find_SomeD [OF q] have c: "contradicts n q" "q \<in> set (all_items p)" "contains_positive_signal wide (it_text q)" by auto
    then have "it_source n \<noteq> it_source q" by (simp add: contradicts_def)
    with t [OF c(1)] c n f show "\<exists>n q t. n \<in> set (all_items p) \<and> q \<in> set (all_items p)
        \<and> contains_negative_signal wide (it_text n) \<and> contains_positive_signal wide (it_text q)
        \<and> it_source n \<noteq> it_source q \<and> t \<in> set (meaningful_terms (it_text n)) \<inter> set (meaningful_terms (it_text q))
        \<and> 4 \<le> length t \<and> f = \<lparr> cf_positive = it_text q, cf_negative = it_text n, cf_sources = [it_source q, it_source n] \<rparr>"
      by blast
  qed
  ultimately show ?thesis by blast
qed

definition one_note :: note_section where
  "one_note = section_of 1 (lit ''we will follow up'')"

text \<open>
  A note that reads as a decision and as an action is reported as a duplicate of itself,
  and so the brief of that one note asks to resolve overlapping notes.
\<close>

theorem note_is_its_own_duplicate:
  "find_duplicates \<lparr> ri_claims = extract_claims [one_note], ri_decisions = extract_decisions [one_note],
       ri_action_items = extract_action_items [one_note] \<rparr>
     = [\<lparr> df_text = lit ''we will follow up'', df_sources = [lit ''s1''] \<rparr>]"
  by code_simp

text \<open>
  A note that says \<^verbatim>\<open>can't\<close> is a positive signal and no negative one.
\<close>

theorem cannot_contracted_is_positive:
  "contains_positive_signal wide (lit ''we can'' @ [39] @ lit ''t ship'')
   \<and> \<not> contains_negative_signal wide (lit ''we can'' @ [39] @ lit ''t ship'')"
  by code_simp

end
