(* ===== verification/Follow_Up.thy ===== *)
theory Follow_Up
  imports Runs
begin

text \<open>
  The one follow-up question about a finished brief (\<^verbatim>\<open>app/services/follow_up.py\<close>): the guard,
  the classification of the question and the answer read off the stored brief.
\<close>

section \<open>Classification\<close>

definition ALLOWED_MARKERS :: "(str \<times> str) list" where
  "ALLOWED_MARKERS =
     [(lit ''contradiction'', lit ''contradiction''), (lit ''contradict'', lit ''contradiction''),
      (lit ''decision'', lit ''decisions''), (lit ''decisions'', lit ''decisions''),
      (lit ''risk'', lit ''risks''), (lit ''risks'', lit ''risks''),
      (lit ''explain'', lit ''explain''), (lit ''clarify'', lit ''clarify''),
      (lit ''question'', lit ''open_questions''), (lit ''questions'', lit ''open_questions''),
      (lit ''summary'', lit ''summary''), (lit ''summarize'', lit ''summary'')]"

definition BLOCKED_MARKERS :: "str list" where
  "BLOCKED_MARKERS =
     [lit ''weather'', lit ''joke'', lit ''recipe'', lit ''email'', lit ''code'', lit ''write me'']"

definition classify_question :: "str \<Rightarrow> str option" where
  "classify_question question =
     (let lowered = lower question in
      if list_ex (\<lambda>m. contains m lowered) BLOCKED_MARKERS then None
      else case find (\<lambda>(m, c). contains m lowered) ALLOWED_MARKERS of
        Some (m, c) \<Rightarrow> Some c
      | None \<Rightarrow>
          if contains (lit ''?'') question
             \<and> list_ex (\<lambda>m. contains m lowered) [lit ''brief'', lit ''point'', lit ''mean'', lit ''why'']
          then Some (lit ''explain'') else None)"

section \<open>Reading the brief\<close>

text \<open>Truth of a decoded JSON value; a float is false when all its digits are zero.\<close>

definition float_is_zero :: "str \<Rightarrow> bool" where
  "float_is_zero t \<longleftrightarrow>
     list_all (\<lambda>c. c = 48 \<or> c = 46 \<or> c = 45) (takeWhile (\<lambda>c. c \<noteq> 101 \<and> c \<noteq> 69) t)"

fun json_truthy :: "json \<Rightarrow> bool" where
  "json_truthy JNull = False"
| "json_truthy (JBool b) = b"
| "json_truthy (JInt i) = (i \<noteq> 0)"
| "json_truthy (JFloat t) = (\<not> float_is_zero t)"
| "json_truthy (JStr s) = (s \<noteq> [])"
| "json_truthy (JArr xs) = (xs \<noteq> [])"
| "json_truthy (JObj kvs) = (kvs \<noteq> [])"

text \<open>\<^verbatim>\<open>str(d.get(key) or default)\<close>\<close>

definition get_or :: "runtime \<Rightarrow> dict \<Rightarrow> str \<Rightarrow> str \<Rightarrow> str" where
  "get_or rt d key dflt =
     (case map_of d key of
        None \<Rightarrow> dflt
      | Some v \<Rightarrow> if json_truthy v then py_str rt v else dflt)"

definition list_answer :: "runtime \<Rightarrow> json option \<Rightarrow> str" where
  "list_answer rt value =
     (case value of
        Some (JArr items) \<Rightarrow> join (lit '' '') (filter (\<lambda>s. strip s \<noteq> []) (map (py_str rt) items))
      | _ \<Rightarrow> [])"

fun find_section :: "runtime \<Rightarrow> str \<Rightarrow> str \<Rightarrow> json list \<Rightarrow> str" where
  "find_section rt heading fallback [] = fallback"
| "find_section rt heading fallback (JObj d # ss) =
     (if lower (case map_of d (lit ''heading'') of None \<Rightarrow> [] | Some v \<Rightarrow> py_str rt v) = lower heading
      then let content = strip (get_or rt d (lit ''content'') []) in
           if content = [] then fallback else content
      else find_section rt heading fallback ss)"
| "find_section rt heading fallback (s # ss) = find_section rt heading fallback ss"

definition section_answer :: "runtime \<Rightarrow> dict \<Rightarrow> str \<Rightarrow> str \<Rightarrow> str" where
  "section_answer rt brief heading fallback =
     (case map_of brief (lit ''sections'') of
        Some (JArr ss) \<Rightarrow> find_section rt heading fallback ss
      | _ \<Rightarrow> fallback)"

definition first_section :: "runtime \<Rightarrow> dict \<Rightarrow> str" where
  "first_section rt brief =
     (case map_of brief (lit ''sections'') of
        Some (JArr (JObj d # ss)) \<Rightarrow> get_or rt d (lit ''content'') (lit ''the brief has sparse detail.'')
      | _ \<Rightarrow> lit ''the brief has sparse detail.'')"

definition build_answer :: "runtime \<Rightarrow> str \<Rightarrow> dict \<Rightarrow> str" where
  "build_answer rt category brief =
     (let questions = list_answer rt (map_of brief (lit ''open_questions'')) in
      if category = lit ''summary'' then
        get_or rt brief (lit ''executive_summary'')
          (lit ''The brief did not include enough summary detail to compress further.'')
      else if category = lit ''decisions'' then
        section_answer rt brief (lit ''Decisions'') (lit ''The brief did not find explicit decisions in the notes.'')
      else if category = lit ''risks'' then
        (if questions \<noteq> [] then lit ''The main risk is unresolved confidence: '' @ questions
         else lit ''No explicit risks were surfaced beyond verifying the brief before acting on it.'')
      else if category = lit ''contradiction'' then
        (if questions \<noteq> [] then lit ''The brief flags this tension to resolve: '' @ questions
         else lit ''No contradiction was explicit enough for the workflow to flag.'')
      else if category = lit ''open_questions'' then
        (if questions \<noteq> [] then questions else lit ''No open questions were stored on this brief.'')
      else lit ''The safest reading is to stay grounded in the generated sections: '' @ first_section rt brief)"

section \<open>Answering\<close>

definition follow_up_request_ok :: "str \<Rightarrow> bool" where
  "follow_up_request_ok question \<longleftrightarrow> 3 \<le> length question \<and> length question \<le> 500"

definition answer_follow_up :: "runtime \<Rightarrow> run_db \<Rightarrow> int \<Rightarrow> run \<Rightarrow> str \<Rightarrow> (run \<times> run_db) result" where
  "answer_follow_up rt db t r question =
     (if run_status r \<noteq> COMPLETED \<or> \<not> truthy (output_brief r)
      then Inl (HTTPException 409 (lit ''Follow-up is available only after a brief is complete.''))
      else if follow_up_count r \<ge> 1
      then Inl (HTTPException 409 (lit ''This run already used its one follow-up question.''))
      else case classify_question question of
        None \<Rightarrow> Inl (HTTPException 400
          (lit ''Follow-up must stay about this brief: ask about decisions, risks, '' @
           lit ''contradictions, open questions, or one point that needs explaining.''))
      | Some category \<Rightarrow>
          rbind (deserialize_json_object (output_brief r)) (\<lambda>brief.
            let r1 = r\<lparr> follow_up_count := 1,
                        follow_up := Some \<lparr> fr_question = strip question,
                          fr_answer = build_answer rt category (case brief of None \<Rightarrow> [] | Some b \<Rightarrow> b),
                          fr_category = category \<rparr> \<rparr>;
                db1 = save_run t r1 db
            in Inr (case find_row run_id (run_id r) (runs db1) of None \<Rightarrow> r1 | Some q \<Rightarrow> q, db1)))"

text \<open>The route: load under the caller's invitation code, then answer.\<close>

definition follow_up_route :: "runtime \<Rightarrow> run_db \<Rightarrow> int \<Rightarrow> int option \<Rightarrow> int \<Rightarrow> str \<Rightarrow> (run \<times> run_db) result" where
  "follow_up_route rt db t owner i question =
     rbind (get_run_or_404 db i owner) (\<lambda>r. answer_follow_up rt db t r question)"

section \<open>Properties\<close>

lemma answer_follow_up_Inr:
  assumes "answer_follow_up rt db t r question = Inr (r', db')"
  obtains category brief where "run_status r = COMPLETED" "follow_up_count r < 1"
    "classify_question question = Some category" "deserialize_json_object (output_brief r) = Inr brief"
    "db' = save_run t (r\<lparr> follow_up_count := 1,
        follow_up := Some \<lparr> fr_question = strip question,
          fr_answer = build_answer rt category (case brief of None \<Rightarrow> [] | Some b \<Rightarrow> b),
          fr_category = category \<rparr> \<rparr>) db"
  using assms by (auto simp: answer_follow_up_def rbind_eq_Inr Let_def split: if_splits option.splits)

text \<open>The categories the classifier can give are the ones the answer distinguishes.\<close>

lemma classify_question_category:
  "classify_question q = Some c \<Longrightarrow> c \<in> snd ` set ALLOWED_MARKERS"
proof -
  assume "classify_question q = Some c"
  then consider m where "find (\<lambda>(m, c). contains m (lower q)) ALLOWED_MARKERS = Some (m, c)" | "c = lit ''explain''"
    by (auto simp: classify_question_def Let_def split: if_splits option.splits)
  then show ?thesis
  proof cases
    case 1
    then show ?thesis by (metis find_SomeD image_eqI snd_conv)
  next
    case 2
    then show ?thesis by (simp add: ALLOWED_MARKERS_def)
  qed
qed

end
