(* ===== verification/Workflow_Exec.thy ===== *)
theory Workflow_Exec
  imports Workflow_Tools Follow_Up
begin

text \<open>
  Bounded execution of a run (\<^verbatim>\<open>app/services/workflow_executor.py\<close>): the pipeline of the
  messy-notes workflow, the local single-model workflow, the events both record, the audit
  after a run and the summary of its events.

  A step takes the loaded run and the tables and gives a result with the state it left
  behind, because events and commits made before an exception stay. What the outside world
  answers is \<open>exec_env\<close>: the model behind an agent, the clocks, and three texts of the
  standard library that the model leaves open (a float, the quoted form of a string, and
  the message of the JSON decoder).
\<close>

section \<open>Payloads of the tools\<close>

datatype tool_payload =
    TextToolInput str
  | NormalizedInputOutput normalized_input_output
  | SectionsInput str
  | SectionsOutput "note_section list"
  | SectionsToolInput "note_section list"
  | ExtractedItemsOutput "extracted_item list"
  | ReconciliationInput reconciliation_input
  | DuplicateFindingsOutput "duplicate_finding list"
  | ContradictionFindingsOutput "contradiction_finding list"
  | BriefInput brief_input
  | BriefOutput brief_output

type_synonym tool = "tool_payload \<Rightarrow> tool_payload result"

definition wrong_payload :: "'a result" where
  "wrong_payload = Inl (TypeError (lit ''AttributeError''))"

text \<open>Reading a field of what a tool returned.\<close>

definition as_normalized :: "tool_payload \<Rightarrow> normalized_input_output result" where
  "as_normalized p = (case p of NormalizedInputOutput n \<Rightarrow> Inr n | _ \<Rightarrow> wrong_payload)"

definition as_sections :: "tool_payload \<Rightarrow> note_section list result" where
  "as_sections p = (case p of SectionsOutput ss \<Rightarrow> Inr ss | _ \<Rightarrow> wrong_payload)"

definition as_items :: "tool_payload \<Rightarrow> extracted_item list result" where
  "as_items p = (case p of ExtractedItemsOutput is \<Rightarrow> Inr is | _ \<Rightarrow> wrong_payload)"

definition as_duplicates :: "tool_payload \<Rightarrow> duplicate_finding list result" where
  "as_duplicates p = (case p of DuplicateFindingsOutput ds \<Rightarrow> Inr ds | _ \<Rightarrow> wrong_payload)"

definition as_contradictions :: "tool_payload \<Rightarrow> contradiction_finding list result" where
  "as_contradictions p = (case p of ContradictionFindingsOutput cs \<Rightarrow> Inr cs | _ \<Rightarrow> wrong_payload)"

definition as_brief :: "tool_payload \<Rightarrow> brief_output result" where
  "as_brief p = (case p of BriefOutput b \<Rightarrow> Inr b | _ \<Rightarrow> wrong_payload)"

text \<open>\<^verbatim>\<open>model_dump(mode="json")\<close>; \<open>fl\<close> prints a float.\<close>

definition jstrs :: "str list \<Rightarrow> json" where
  "jstrs ss = JArr (map JStr ss)"

definition section_json :: "note_section \<Rightarrow> json" where
  "section_json s = JObj [(lit ''section_id'', JStr (ns_section_id s)), (lit ''heading'', JStr (ns_heading s)),
     (lit ''text'', JStr (ns_text s))]"

definition item_json :: "(rat \<Rightarrow> str) \<Rightarrow> extracted_item \<Rightarrow> json" where
  "item_json fl i = JObj [(lit ''text'', JStr (it_text i)), (lit ''source_section_id'', JStr (it_source i)),
     (lit ''confidence'', JFloat (fl (it_confidence i)))]"

definition items_json :: "(rat \<Rightarrow> str) \<Rightarrow> extracted_item list \<Rightarrow> json" where
  "items_json fl is = JArr (map (item_json fl) is)"

definition duplicate_json :: "duplicate_finding \<Rightarrow> json" where
  "duplicate_json d = JObj [(lit ''text'', JStr (df_text d)), (lit ''source_section_ids'', jstrs (df_sources d))]"

definition contradiction_json :: "contradiction_finding \<Rightarrow> json" where
  "contradiction_json c = JObj [(lit ''positive'', JStr (cf_positive c)), (lit ''negative'', JStr (cf_negative c)),
     (lit ''source_section_ids'', jstrs (cf_sources c))]"

definition brief_section_json :: "brief_section \<Rightarrow> json" where
  "brief_section_json s = JObj [(lit ''heading'', JStr (bs_heading s)), (lit ''content'', JStr (bs_content s))]"

definition brief_dict :: "brief_output \<Rightarrow> dict" where
  "brief_dict b =
     [(lit ''title'', JStr (bo_title b)), (lit ''executive_summary'', JStr (bo_executive_summary b)),
      (lit ''sections'', JArr (map brief_section_json (bo_sections b))),
      (lit ''open_questions'', jstrs (bo_open_questions b)), (lit ''audit_notes'', jstrs (bo_audit_notes b))]"

definition opt_json :: "str option \<Rightarrow> json" where
  "opt_json v = (case v of None \<Rightarrow> JNull | Some s \<Rightarrow> JStr s)"

fun model_dump :: "(rat \<Rightarrow> str) \<Rightarrow> tool_payload \<Rightarrow> dict" where
  "model_dump fl (TextToolInput t) = [(lit ''text'', JStr t)]"
| "model_dump fl (NormalizedInputOutput n) =
     [(lit ''text'', JStr (ni_text n)), (lit ''line_count'', JInt (ni_line_count n))]"
| "model_dump fl (SectionsInput t) = [(lit ''text'', JStr t)]"
| "model_dump fl (SectionsOutput ss) = [(lit ''sections'', JArr (map section_json ss))]"
| "model_dump fl (SectionsToolInput ss) = [(lit ''sections'', JArr (map section_json ss))]"
| "model_dump fl (ExtractedItemsOutput is) = [(lit ''items'', items_json fl is)]"
| "model_dump fl (ReconciliationInput r) =
     [(lit ''claims'', items_json fl (ri_claims r)), (lit ''decisions'', items_json fl (ri_decisions r)),
      (lit ''action_items'', items_json fl (ri_action_items r))]"
| "model_dump fl (DuplicateFindingsOutput ds) = [(lit ''duplicates'', JArr (map duplicate_json ds))]"
| "model_dump fl (ContradictionFindingsOutput cs) = [(lit ''contradictions'', JArr (map contradiction_json cs))]"
| "model_dump fl (BriefInput b) =
     [(lit ''title'', opt_json (bi_title b)), (lit ''claims'', items_json fl (bi_claims b)),
      (lit ''decisions'', items_json fl (bi_decisions b)), (lit ''action_items'', items_json fl (bi_action_items b)),
      (lit ''duplicates'', JArr (map duplicate_json (bi_duplicates b))),
      (lit ''contradictions'', JArr (map contradiction_json (bi_contradictions b)))]"
| "model_dump fl (BriefOutput b) = brief_dict b"

text \<open>Strings are cut at 300 characters and lists at five elements.\<close>

fun truncate_value :: "json \<Rightarrow> json" where
  "truncate_value (JStr s) = JStr (if length s \<le> 300 then s else take 300 s @ lit ''...'')"
| "truncate_value (JArr xs) = JArr (take 5 (map truncate_value xs))"
| "truncate_value (JObj kvs) = JObj (map (\<lambda>(k, v). (k, truncate_value v)) kvs)"
| "truncate_value j = j"

definition summarize_payload :: "(rat \<Rightarrow> str) \<Rightarrow> tool_payload \<Rightarrow> dict" where
  "summarize_payload fl p = map (\<lambda>(k, v). (k, truncate_value v)) (model_dump fl p)"

text \<open>
  \<^verbatim>\<open>brief.model_dump_json()\<close> refuses a string with a lone surrogate.
\<close>

definition brief_strings :: "brief_output \<Rightarrow> str list" where
  "brief_strings b = bo_title b # bo_executive_summary b
     # concat (map (\<lambda>s. [bs_heading s, bs_content s]) (bo_sections b)) @ bo_open_questions b @ bo_audit_notes b"

definition brief_dump_json :: "brief_output \<Rightarrow> str result" where
  "brief_dump_json b =
     (if list_all valid_str (brief_strings b) then Inr (dumps Pydantic (JObj (brief_dict b)))
      else Inl (ValueError (lit ''PydanticSerializationError'')))"

section \<open>The deterministic tools as registry entries\<close>

definition entry :: "string \<Rightarrow> string \<Rightarrow> string \<Rightarrow> tool_category \<Rightarrow> tool \<Rightarrow> tool tool_entry" where
  "entry n d i cat f = \<lparr> te_name = lit n, te_description = lit d, te_prompt_instructions = lit i,
     te_implementation = f, te_category = cat \<rparr>"

text \<open>
  The three tools that take the agent's run context have asynchronous implementations: called
  with a bare payload they give a coroutine, which is no output model, or fail to bind.
\<close>

definition context_tool :: tool where
  "context_tool p = Inl (ValueError (lit ''ValidationError''))"

definition workflow_tool_entries :: "(nat \<Rightarrow> bool) \<Rightarrow> tool tool_entry list" where
  "workflow_tool_entries wide =
     [entry ''capture_notification_preference'' ''Store optional SMS notification preference for a run.''
        ''Use only to store explicit notification preference and phone number. Do not send SMS from the workflow.''
        MUTATIVE context_tool,
      entry ''extract_action_items'' ''Extract action items from note sections.''
        ''Use for todos, asks, owners, and follow-up work.''
        READ_ONLY (\<lambda>p. case p of SectionsToolInput ss \<Rightarrow> Inr (ExtractedItemsOutput (extract_action_items ss)) | _ \<Rightarrow> wrong_payload),
      entry ''extract_claims'' ''Extract factual claims from note sections.''
        ''Use for grounded observations, not decisions or action items.''
        READ_ONLY (\<lambda>p. case p of SectionsToolInput ss \<Rightarrow> Inr (ExtractedItemsOutput (extract_claims ss)) | _ \<Rightarrow> wrong_payload),
      entry ''extract_decisions'' ''Extract explicit decisions from note sections.''
        ''Use only for notes that look like decisions or approvals.''
        READ_ONLY (\<lambda>p. case p of SectionsToolInput ss \<Rightarrow> Inr (ExtractedItemsOutput (extract_decisions ss)) | _ \<Rightarrow> wrong_payload),
      entry ''find_contradictions'' ''Find simple contradictions or tensions in extracted findings.''
        ''Use after extraction and before writing the brief.''
        READ_ONLY (\<lambda>p. case p of ReconciliationInput r \<Rightarrow> Inr (ContradictionFindingsOutput (find_contradictions wide r)) | _ \<Rightarrow> wrong_payload),
      entry ''find_duplicates'' ''Find duplicate extracted findings.''
        ''Use after extraction and before writing the brief.''
        READ_ONLY (\<lambda>p. case p of ReconciliationInput r \<Rightarrow> Inr (DuplicateFindingsOutput (find_duplicates r)) | _ \<Rightarrow> wrong_payload),
      entry ''format_brief'' ''Format reconciled findings into a concise structured brief.''
        ''Use as the final tool before persisting the completed run result.''
        READ_ONLY (\<lambda>p. case p of BriefInput b \<Rightarrow> Inr (BriefOutput (format_brief b)) | _ \<Rightarrow> wrong_payload),
      entry ''load_run_context'' ''Load normalized run inputs, file extracts, and ingestion summary.''
        ''Call this first when you need the persisted notes, uploaded file text, or ingestion warnings for the current run.''
        READ_ONLY context_tool,
      entry ''normalize_input'' ''Normalize pasted and uploaded note text for workflow processing.''
        ''Use before extracting findings so later steps see stable text.''
        READ_ONLY (\<lambda>p. case p of TextToolInput t \<Rightarrow> Inr (NormalizedInputOutput (normalize_input t)) | _ \<Rightarrow> wrong_payload),
      entry ''persist_brief_draft'' ''Persist a structured draft brief back onto the run record.''
        ''Only call this after you have produced a bounded structured brief that is ready to save for later review.''
        MUTATIVE context_tool,
      entry ''split_into_sections'' ''Split normalized notes into stable sections.''
        ''Use after normalization before claim, decision, or action extraction.''
        READ_ONLY (\<lambda>p. case p of SectionsInput t \<Rightarrow> Inr (SectionsOutput (split_into_sections t)) | _ \<Rightarrow> wrong_payload)]"

definition execute_tool :: "tool tool_registry \<Rightarrow> str \<Rightarrow> tool_payload \<Rightarrow> tool_payload result" where
  "execute_tool reg name p = rbind (get_tool reg name) (\<lambda>e. te_implementation e p)"

section \<open>Steps\<close>

record exec_env =
  xe_environment :: str
  xe_agent :: "agent_runtime \<Rightarrow> str \<Rightarrow> str result"
  xe_db_clock :: "int \<Rightarrow> int"
  xe_completed_now :: int
  xe_failed_now :: int
  xe_float :: "rat \<Rightarrow> str"
  xe_repr :: "str \<Rightarrow> str"
  xe_json_error :: "str \<Rightarrow> str"

text \<open>
  The database clock is read at every insert and commit; between two inserts of events it
  is taken to stand, so it is a function of the number of the next event.
\<close>

type_synonym exec_state = "run \<times> run_db"

type_synonym 'a exec = "exec_state \<Rightarrow> 'a result \<times> exec_state"

definition xreturn :: "'a \<Rightarrow> 'a exec" where
  "xreturn x s = (Inr x, s)"

definition xlift :: "'a result \<Rightarrow> 'a exec" where
  "xlift r s = (r, s)"

definition xbind :: "'a exec \<Rightarrow> ('a \<Rightarrow> 'b exec) \<Rightarrow> 'b exec" where
  "xbind m f s = (case m s of (Inl e, s1) \<Rightarrow> (Inl e, s1) | (Inr x, s1) \<Rightarrow> f x s1)"

definition xget :: "run exec" where
  "xget s = (Inr (fst s), s)"

definition xevents :: "run_event list exec" where
  "xevents s = (Inr (events_for_run (snd s) (run_id (fst s))), s)"

text \<open>\<^verbatim>\<open>db.add(run); db.commit(); db.refresh(run)\<close> after the run was changed by \<open>f\<close>\<close>

definition commit_run :: "int \<Rightarrow> run \<Rightarrow> run_db \<Rightarrow> exec_state" where
  "commit_run t r db =
     (let db1 = save_run t r db
      in (case find_row run_id (run_id r) (runs db1) of None \<Rightarrow> r | Some q \<Rightarrow> q, db1))"

definition xcommit :: "exec_env \<Rightarrow> (run \<Rightarrow> run) \<Rightarrow> unit exec" where
  "xcommit env f s = (Inr (), commit_run (xe_db_clock env (next_event_id (snd s))) (f (fst s)) (snd s))"

definition blank_event :: "run_event_type \<Rightarrow> run_event_payload" where
  "blank_event t = \<lparr> event_type = t, event_status = None, agent_role = None, tool_name = None,
     tool_arguments = None, tool_result = None, handoff_source_role = None, handoff_target_role = None,
     post_processor_key = None, message = None \<rparr>"

definition xevent :: "exec_env \<Rightarrow> run_event_payload \<Rightarrow> unit exec" where
  "xevent env p s =
     (Inr (), (fst s, snd (record_run_event (snd s) (xe_db_clock env (next_event_id (snd s))) (run_id (fst s)) p)))"

definition processing :: "str option" where
  "processing = Some (run_status_value PROCESSING)"

definition agent_runtime_of :: "workflow_runtime \<Rightarrow> str \<Rightarrow> agent_runtime result" where
  "agent_runtime_of w role =
     (case map_of (wr_agents w) role of
        None \<Rightarrow> Inl (WorkflowExecutionError (lit ''Unknown workflow agent '' @ [39] @ role @ [39] @ lit ''.''))
      | Some a \<Rightarrow> Inr a)"

definition agent_config_of :: "workflow_runtime \<Rightarrow> str \<Rightarrow> agent_config result" where
  "agent_config_of w role = rbind (agent_runtime_of w role) (\<lambda>a. Inr (ar_config a))"

definition touch_prompt :: "workflow_runtime \<Rightarrow> run \<Rightarrow> str" where
  "touch_prompt w r =
     lit ''Acknowledge the bounded '' @ wf_key (wr_config w) @ lit '' step for run '' @ show_int (run_id r) @ lit ''. '' @
     lit ''Do not call tools; deterministic registry tools execute separately.''"

definition touch_pydantic_agent :: "exec_env \<Rightarrow> workflow_runtime \<Rightarrow> str \<Rightarrow> unit exec" where
  "touch_pydantic_agent env w role =
     (if xe_environment env = lit ''test'' then xreturn ()
      else xbind (xlift (agent_runtime_of w role)) (\<lambda>a.
             if ar_agent a = None then xreturn ()
             else xbind xget (\<lambda>r. xbind (xlift (xe_agent env a (touch_prompt w r))) (\<lambda>_. xreturn ()))))"

definition agent_started :: "exec_env \<Rightarrow> workflow_runtime \<Rightarrow> str \<Rightarrow> bool \<Rightarrow> unit exec" where
  "agent_started env w role touch_agent =
     xbind (xlift (agent_config_of w role)) (\<lambda>_.
     xbind (xevent env ((blank_event AGENT_STARTED)\<lparr> agent_role := Some role, event_status := processing,
        message := Some (lit ''Agent '' @ role @ lit '' started.'') \<rparr>)) (\<lambda>_.
       if touch_agent then touch_pydantic_agent env w role else xreturn ()))"

definition agent_finished :: "exec_env \<Rightarrow> str \<Rightarrow> unit exec" where
  "agent_finished env role =
     xevent env ((blank_event AGENT_FINISHED)\<lparr> agent_role := Some role, event_status := processing,
       message := Some (lit ''Agent '' @ role @ lit '' finished.'') \<rparr>)"

definition run_tool :: "exec_env \<Rightarrow> tool tool_registry \<Rightarrow> str \<Rightarrow> str \<Rightarrow> tool_payload \<Rightarrow> tool_payload exec" where
  "run_tool env reg role name p =
     xbind (xevent env ((blank_event TOOL_CALLED)\<lparr> agent_role := Some role, tool_name := Some name,
        tool_arguments := Some (summarize_payload (xe_float env) p), event_status := processing \<rparr>)) (\<lambda>_.
     xbind (xlift (execute_tool reg name p)) (\<lambda>result.
     xbind (xevent env ((blank_event TOOL_RESULT)\<lparr> agent_role := Some role, tool_name := Some name,
        tool_result := Some (summarize_payload (xe_float env) result), event_status := processing \<rparr>)) (\<lambda>_.
       xreturn result)))"

definition handoff :: "exec_env \<Rightarrow> workflow_runtime \<Rightarrow> str \<Rightarrow> str \<Rightarrow> unit exec" where
  "handoff env w source target =
     xbind (xlift (agent_config_of w source)) (\<lambda>a.
     xbind (xlift (agent_config_of w target)) (\<lambda>_.
       if target \<notin> set (ag_can_handoff_to a)
       then xlift (Inl (WorkflowExecutionError (lit ''Agent '' @ [39] @ source @ [39] @ lit '' cannot hand off to ''
              @ [39] @ target @ [39] @ lit ''.'')))
       else xevent env ((blank_event HANDOFF_OCCURRED)\<lparr> handoff_source_role := Some source,
              handoff_target_role := Some target, event_status := processing,
              message := Some (source @ lit '' handed off to '' @ target @ lit ''.'') \<rparr>)))"

text \<open>The elements in turn, for effect.\<close>

fun xeach :: "('a \<Rightarrow> unit exec) \<Rightarrow> 'a list \<Rightarrow> unit exec" where
  "xeach f [] = xreturn ()"
| "xeach f (x # xs) = xbind (f x) (\<lambda>_. xeach f xs)"

text \<open>
  The thread pool: the three results in the order of the names; the first failure in that
  order is raised. The tools share no state, so their interleaving does not show.
\<close>

fun gather :: "'a result list \<Rightarrow> 'a list result" where
  "gather [] = Inr []"
| "gather (r # rs) = rbind r (\<lambda>x. rbind (gather rs) (\<lambda>xs. Inr (x # xs)))"

definition extraction_tools :: "str list" where
  "extraction_tools = [lit ''extract_claims'', lit ''extract_decisions'', lit ''extract_action_items'']"

type_synonym extraction = "extracted_item list \<times> extracted_item list \<times> extracted_item list"

definition extract_in_turn :: "exec_env \<Rightarrow> tool tool_registry \<Rightarrow> tool_payload \<Rightarrow> (tool_payload \<times> tool_payload \<times> tool_payload) exec" where
  "extract_in_turn env reg p =
     xbind (run_tool env reg (lit ''extractor'') (lit ''extract_claims'') p) (\<lambda>c.
     xbind (run_tool env reg (lit ''extractor'') (lit ''extract_decisions'') p) (\<lambda>d.
     xbind (run_tool env reg (lit ''extractor'') (lit ''extract_action_items'') p) (\<lambda>a.
       xreturn (c, d, a))))"

definition queued_event :: "parallel_execution_config \<Rightarrow> str \<Rightarrow> run_event_payload" where
  "queued_event g name = (blank_event TOOL_CALLED)\<lparr> agent_role := Some (lit ''extractor''), tool_name := Some name,
     tool_arguments := Some [(lit ''parallel_group'', opt_json (pe_group g))], event_status := processing,
     message := Some (lit ''Queued bounded extraction tool.'') \<rparr>"

definition gathered_event :: "parallel_execution_config \<Rightarrow> str \<times> extracted_item list \<Rightarrow> run_event_payload" where
  "gathered_event g ni = (blank_event TOOL_RESULT)\<lparr> agent_role := Some (lit ''extractor''), tool_name := Some (fst ni),
     tool_result := Some [(lit ''item_count'', JInt (int (length (snd ni)))), (lit ''parallel_group'', opt_json (pe_group g))],
     event_status := processing, message := Some (lit ''Completed bounded extraction tool.'') \<rparr>"

definition extract_in_parallel ::
  "exec_env \<Rightarrow> tool tool_registry \<Rightarrow> parallel_execution_config \<Rightarrow> tool_payload \<Rightarrow> (tool_payload \<times> tool_payload \<times> tool_payload) exec"
where
  "extract_in_parallel env reg g p =
     xbind (xeach (\<lambda>n. xevent env (queued_event g n)) extraction_tools) (\<lambda>_.
     xbind (xlift (gather (map (\<lambda>n. execute_tool reg n p) extraction_tools))) (\<lambda>rs.
     xbind (xeach (\<lambda>nr. xbind (xlift (as_items (snd nr))) (\<lambda>is. xevent env (gathered_event g (fst nr, is))))
              (zip extraction_tools rs)) (\<lambda>_.
       xreturn (rs ! 0, rs ! 1, rs ! 2))))"

definition run_extraction_parallel ::
  "exec_env \<Rightarrow> workflow_runtime \<Rightarrow> tool tool_registry \<Rightarrow> tool_payload \<Rightarrow> (tool_payload \<times> tool_payload \<times> tool_payload) exec"
where
  "run_extraction_parallel env w reg p =
     xbind (xlift (agent_config_of w (lit ''extractor''))) (\<lambda>a.
       case ag_parallel a of
         None \<Rightarrow> extract_in_turn env reg p
       | Some g \<Rightarrow> if pe_enabled g then extract_in_parallel env reg g p else extract_in_turn env reg p)"

section \<open>The messy-notes pipeline\<close>

definition source_text :: "run \<Rightarrow> str" where
  "source_text r = str_or (normalized_input_text r) (str_or (input_text r) [])"

definition store_brief :: "exec_env \<Rightarrow> brief_output \<Rightarrow> unit exec" where
  "store_brief env b = xbind (xlift (brief_dump_json b)) (\<lambda>s. xcommit env (\<lambda>r. r\<lparr> output_brief := Some s \<rparr>))"

definition normalize_phase :: "exec_env \<Rightarrow> workflow_runtime \<Rightarrow> tool tool_registry \<Rightarrow> normalized_input_output exec" where
  "normalize_phase env w reg =
     (let orchestrator = wf_starting_agent (wr_config w) in
      xbind (agent_started env w orchestrator True) (\<lambda>_.
      xbind xget (\<lambda>r.
      xbind (run_tool env reg orchestrator (lit ''normalize_input'') (TextToolInput (source_text r))) (\<lambda>p.
      xbind (agent_finished env orchestrator) (\<lambda>_.
      xbind (handoff env w orchestrator (lit ''extractor'')) (\<lambda>_.
      xbind (agent_started env w (lit ''extractor'') True) (\<lambda>_.
        xlift (as_normalized p))))))))"

definition extract_phase :: "exec_env \<Rightarrow> workflow_runtime \<Rightarrow> tool tool_registry \<Rightarrow> str \<Rightarrow> (tool_payload \<times> tool_payload \<times> tool_payload) exec" where
  "extract_phase env w reg notes =
     xbind (run_tool env reg (lit ''extractor'') (lit ''split_into_sections'') (SectionsInput notes)) (\<lambda>p.
     xbind (xlift (as_sections p)) (\<lambda>ss.
     xbind (run_extraction_parallel env w reg (SectionsToolInput ss)) (\<lambda>ps.
     xbind (agent_finished env (lit ''extractor'')) (\<lambda>_.
     xbind (handoff env w (lit ''extractor'') (lit ''reconciler'')) (\<lambda>_.
     xbind (agent_started env w (lit ''reconciler'') True) (\<lambda>_.
       xreturn ps))))))"

definition reconcile_phase :: "exec_env \<Rightarrow> workflow_runtime \<Rightarrow> tool tool_registry \<Rightarrow> extraction \<Rightarrow> (tool_payload \<times> tool_payload) exec" where
  "reconcile_phase env w reg ex =
     (case ex of (claims, decisions, actions) \<Rightarrow>
      let p = ReconciliationInput \<lparr> ri_claims = claims, ri_decisions = decisions, ri_action_items = actions \<rparr> in
      xbind (run_tool env reg (lit ''reconciler'') (lit ''find_duplicates'') p) (\<lambda>dups.
      xbind (run_tool env reg (lit ''reconciler'') (lit ''find_contradictions'') p) (\<lambda>cons.
      xbind (agent_finished env (lit ''reconciler'')) (\<lambda>_.
      xbind (handoff env w (lit ''reconciler'') (lit ''brief_writer'')) (\<lambda>_.
      xbind (agent_started env w (lit ''brief_writer'') True) (\<lambda>_.
        xreturn (dups, cons)))))))"

definition write_phase :: "exec_env \<Rightarrow> tool tool_registry \<Rightarrow> extraction \<Rightarrow> duplicate_finding list \<Rightarrow> contradiction_finding list \<Rightarrow> unit exec" where
  "write_phase env reg ex dups cons =
     (case ex of (claims, decisions, actions) \<Rightarrow>
      xbind xget (\<lambda>r.
      xbind (run_tool env reg (lit ''brief_writer'') (lit ''format_brief'')
               (BriefInput \<lparr> bi_title = title r, bi_claims = claims, bi_decisions = decisions,
                  bi_action_items = actions, bi_duplicates = dups, bi_contradictions = cons \<rparr>)) (\<lambda>p.
      xbind (xlift (as_brief p)) (\<lambda>b.
      xbind (store_brief env b) (\<lambda>_.
        agent_finished env (lit ''brief_writer''))))))"

definition items_of :: "tool_payload \<times> tool_payload \<times> tool_payload \<Rightarrow> extraction result" where
  "items_of ps = (case ps of (c, d, a) \<Rightarrow>
     rbind (as_items c) (\<lambda>cs. rbind (as_items d) (\<lambda>ds. rbind (as_items a) (\<lambda>acts. Inr (cs, ds, acts)))))"

definition messy_notes_v1 :: "exec_env \<Rightarrow> workflow_runtime \<Rightarrow> tool tool_registry \<Rightarrow> unit exec" where
  "messy_notes_v1 env w reg =
     xbind (normalize_phase env w reg) (\<lambda>n.
     xbind (extract_phase env w reg (ni_text n)) (\<lambda>ps.
     xbind (xlift (items_of ps)) (\<lambda>ex.
     xbind (reconcile_phase env w reg ex) (\<lambda>(dups, cons).
     xbind (xlift (as_duplicates dups)) (\<lambda>ds.
     xbind (xlift (as_contradictions cons)) (\<lambda>cs.
       write_phase env reg ex ds cs))))))"

section \<open>The local single-model workflow\<close>

record local_slm_project_brief =
  ls_title :: str
  ls_summary :: str
  ls_key_points :: "str list"
  ls_open_questions :: "str list"
  ls_risks :: "str list"
  ls_next_actions :: "str list"

text \<open>Pydantic takes a string without lone surrogates, and a list of such strings.\<close>

definition str_field :: "dict \<Rightarrow> str \<Rightarrow> str option" where
  "str_field d k = (case map_of d k of Some (JStr s) \<Rightarrow> if valid_str s then Some s else None | _ \<Rightarrow> None)"

fun all_strs :: "json list \<Rightarrow> str list option" where
  "all_strs [] = Some []"
| "all_strs (JStr s # xs) = (if valid_str s then map_option (\<lambda>ss. s # ss) (all_strs xs) else None)"
| "all_strs (_ # xs) = None"

definition strs_field :: "dict \<Rightarrow> str \<Rightarrow> str list option" where
  "strs_field d k = (case map_of d k of Some (JArr xs) \<Rightarrow> all_strs xs | _ \<Rightarrow> None)"

definition slm_keys :: "str list" where
  "slm_keys = [lit ''title'', lit ''summary'', lit ''key_points'', lit ''open_questions'', lit ''risks'', lit ''next_actions'']"

definition validate_project_brief :: "json \<Rightarrow> local_slm_project_brief option" where
  "validate_project_brief j =
     (case j of
        JObj d \<Rightarrow>
          (if \<not> list_all (\<lambda>(k, v). k \<in> set slm_keys) d then None
           else (case (str_field d (lit ''title''), str_field d (lit ''summary''), strs_field d (lit ''key_points''),
                       strs_field d (lit ''open_questions''), strs_field d (lit ''risks''), strs_field d (lit ''next_actions'')) of
                   (Some t, Some s, Some kp, Some oq, Some rs, Some na) \<Rightarrow>
                     Some \<lparr> ls_title = t, ls_summary = s, ls_key_points = kp, ls_open_questions = oq,
                            ls_risks = rs, ls_next_actions = na \<rparr>
                 | _ \<Rightarrow> None))
      | _ \<Rightarrow> None)"

definition parse_local_slm_project_brief :: "(str \<Rightarrow> str) \<Rightarrow> str \<Rightarrow> local_slm_project_brief result" where
  "parse_local_slm_project_brief decode_error raw =
     (let t = strip raw in
      if starts_with (lit ''```'') t
      then Inl (WorkflowExecutionError (lit ''Local SLM returned markdown-fenced output.''))
      else case loads t of
        None \<Rightarrow> Inl (WorkflowExecutionError (lit ''Local SLM returned invalid JSON: '' @ decode_error t @ lit ''.''))
      | Some j \<Rightarrow>
          (case validate_project_brief j of
             None \<Rightarrow> Inl (WorkflowExecutionError (lit ''Local SLM output did not match the expected brief schema.''))
           | Some b \<Rightarrow> Inr b))"

definition bullet_list :: "str list \<Rightarrow> str" where
  "bullet_list items = join [10] (map (\<lambda>i. lit ''- '' @ i) (filter (\<lambda>i. strip i \<noteq> []) items))"

definition local_project_brief_to_run_brief :: "local_slm_project_brief \<Rightarrow> brief_output" where
  "local_project_brief_to_run_brief p =
     \<lparr> bo_title = ls_title p, bo_executive_summary = ls_summary p,
       bo_sections =
         [\<lparr> bs_heading = lit ''Key points'',
            bs_content = text_or (bullet_list (ls_key_points p)) (lit ''No key points provided.'') \<rparr>,
          \<lparr> bs_heading = lit ''Risks'',
            bs_content = text_or (bullet_list (ls_risks p)) (lit ''No risks identified.'') \<rparr>,
          \<lparr> bs_heading = lit ''Next actions'',
            bs_content = text_or (bullet_list (ls_next_actions p)) (lit ''No next actions provided.'') \<rparr>],
       bo_open_questions = ls_open_questions p,
       bo_audit_notes = [lit ''Generated by local messy-brief SLM via Ollama.''] \<rparr>"

definition slm_prompt :: "str \<Rightarrow> str" where
  "slm_prompt notes = lit ''Messy notes:'' @ [10] @ strip notes @ [10, 10] @ lit ''Return only the strict JSON project brief.''"

definition messy_notes_local_slm :: "exec_env \<Rightarrow> workflow_runtime \<Rightarrow> unit exec" where
  "messy_notes_local_slm env w =
     (let role = wf_starting_agent (wr_config w) in
      xbind (agent_started env w role False) (\<lambda>_.
      xbind (xlift (agent_runtime_of w role)) (\<lambda>a.
      xbind xget (\<lambda>r.
        if ar_agent a = None
        then xlift (Inl (WorkflowExecutionError (lit ''Workflow agent '' @ [39] @ role @ [39] @ lit '' is not executable.'')))
        else if strip (source_text r) = []
        then xlift (Inl (WorkflowExecutionError (lit ''Cannot execute local SLM workflow without input.'')))
        else xbind (xlift (xe_agent env a (slm_prompt (source_text r)))) (\<lambda>answer.
             xbind (xlift (parse_local_slm_project_brief (xe_json_error env) answer)) (\<lambda>b.
             xbind (store_brief env (local_project_brief_to_run_brief b)) (\<lambda>_.
               agent_finished env role)))))))"

definition execute_messy_notes :: "exec_env \<Rightarrow> workflow_runtime \<Rightarrow> tool tool_registry \<Rightarrow> unit exec" where
  "execute_messy_notes env w reg =
     (if wf_key (wr_config w) = lit ''messy-notes-local-slm'' then messy_notes_local_slm env w
      else if wf_key (wr_config w) \<noteq> lit ''messy-notes-v1''
      then xlift (Inl (WorkflowExecutionError (lit ''Unsupported workflow '' @ [39] @ wf_key (wr_config w) @ [39] @ lit ''.'')))
      else messy_notes_v1 env w reg)"

section \<open>The audit\<close>

record audit_report =
  au_suspicious :: "str list"
  au_tool_findings :: "str list"
  au_handoff_findings :: "str list"

definition py_opt :: "str option \<Rightarrow> str" where
  "py_opt v = (case v of None \<Rightarrow> lit ''None'' | Some s \<Rightarrow> s)"

definition configured_tools :: "workflow_config \<Rightarrow> str \<Rightarrow> str set" where
  "configured_tools w role = (case find_row ag_role role (rev (wf_agents w)) of None \<Rightarrow> {} | Some a \<Rightarrow> set (ag_tools a))"

definition handoff_graph :: "workflow_config \<Rightarrow> str \<Rightarrow> str set" where
  "handoff_graph w role = (case find_row ag_role role (rev (wf_agents w)) of None \<Rightarrow> {} | Some a \<Rightarrow> set (ag_can_handoff_to a))"

definition audit_tool_event :: "workflow_config \<Rightarrow> run_event \<Rightarrow> audit_report \<Rightarrow> audit_report" where
  "audit_tool_event w e rep =
     (if ev_type e = TOOL_CALLED \<and> truthy (ev_tool_name e)
      then (if the (ev_tool_name e) \<notin> configured_tools w (str_or (ev_agent_role e) [])
            then rep\<lparr> au_suspicious := au_suspicious rep
              @ [py_opt (ev_agent_role e) @ lit '' called unconfigured tool '' @ the (ev_tool_name e) @ lit ''.''] \<rparr>
            else rep\<lparr> au_tool_findings := au_tool_findings rep
              @ [py_opt (ev_agent_role e) @ lit '' used configured tool '' @ the (ev_tool_name e) @ lit ''.''] \<rparr>)
      else rep)"

definition audit_handoff_event :: "workflow_config \<Rightarrow> run_event \<Rightarrow> audit_report \<Rightarrow> audit_report" where
  "audit_handoff_event w e rep =
     (if ev_type e = HANDOFF_OCCURRED
      then let source = str_or (ev_handoff_source e) []; target = str_or (ev_handoff_target e) [] in
           (if target \<notin> handoff_graph w source
            then rep\<lparr> au_suspicious := au_suspicious rep
              @ [lit ''Invalid handoff observed: '' @ source @ lit '' to '' @ target @ lit ''.''] \<rparr>
            else rep\<lparr> au_handoff_findings := au_handoff_findings rep
              @ [lit ''Configured handoff observed: '' @ source @ lit '' to '' @ target @ lit ''.''] \<rparr>)
      else rep)"

definition audit_events :: "workflow_config \<Rightarrow> run_event list \<Rightarrow> audit_report" where
  "audit_events w es =
     foldl (\<lambda>rep e. audit_handoff_event w e (audit_tool_event w e rep))
       \<lparr> au_suspicious = [], au_tool_findings = [], au_handoff_findings = [] \<rparr> es"

definition overall_assessment :: "audit_report \<Rightarrow> str" where
  "overall_assessment rep = (if au_suspicious rep = [] then lit ''ok'' else lit ''needs_review'')"

definition audit_summary :: "audit_report \<Rightarrow> str" where
  "audit_summary rep =
     (if au_suspicious rep = [] then lit ''Tool use and handoffs stayed inside the configured workflow.''
      else lit ''The audit found actions outside the configured workflow.'')"

definition audit_result :: "post_processor_config \<Rightarrow> audit_report \<Rightarrow> json" where
  "audit_result pp rep =
     JObj [(lit ''type'', JStr (post_processor_type_value (pp_type pp))),
           (lit ''overall_assessment'', JStr (overall_assessment rep)),
           (lit ''tool_usage_findings'', jstrs (au_tool_findings rep)),
           (lit ''handoff_findings'', jstrs (au_handoff_findings rep)),
           (lit ''suspicious_actions'', jstrs (au_suspicious rep)),
           (lit ''summary'', JStr (audit_summary rep))]"

definition post_event :: "run_event_type \<Rightarrow> str \<Rightarrow> str \<Rightarrow> run_event_payload" where
  "post_event t key msg = (blank_event t)\<lparr> post_processor_key := Some key,
     event_status := Some (run_status_value COMPLETED),
     message := Some (lit ''Post-processor '' @ key @ msg) \<rparr>"

fun run_post_processors ::
  "exec_env \<Rightarrow> workflow_runtime \<Rightarrow> (str \<times> post_processor_config) list \<Rightarrow> dict \<Rightarrow> str list \<Rightarrow> unit exec"
where
  "run_post_processors env w pps results [] = xreturn ()"
| "run_post_processors env w pps results (key # keys) =
     (case map_of pps key of
        None \<Rightarrow> xlift (Inl (KeyError key))
      | Some pp \<Rightarrow>
          xbind (xevent env (post_event POST_PROCESSOR_STARTED key (lit '' started.''))) (\<lambda>_.
          xbind xevents (\<lambda>es.
            let rep = audit_events (wr_config w) es;
                results1 = dict_set results key (audit_result pp rep) in
            xbind (xcommit env (\<lambda>r. r\<lparr> post_processor_results := Some (dumps Spaced (JObj results1)) \<rparr>)) (\<lambda>_.
            xbind (xevent env ((post_event POST_PROCESSOR_COMPLETED key (lit '' completed.''))
                     \<lparr> tool_result := Some [(lit ''overall_assessment'', JStr (overall_assessment rep))] \<rparr>)) (\<lambda>_.
              run_post_processors env w pps results1 keys)))))"

section \<open>Execution of a run\<close>

definition executable_status :: "run \<Rightarrow> bool" where
  "executable_status r \<longleftrightarrow> run_status r = SUBMITTED \<or> run_status r = FAILED \<or> run_status r = DRAFT"

definition status_event :: "run_event_type \<Rightarrow> run_status \<Rightarrow> str \<Rightarrow> run_event_payload" where
  "status_event t st msg = (blank_event t)\<lparr> event_status := Some (run_status_value st), message := Some msg \<rparr>"

definition execute_body :: "exec_env \<Rightarrow> tool workflow_registry \<Rightarrow> unit exec" where
  "execute_body env reg =
     xbind xget (\<lambda>r.
     xbind (xlift (get_workflow reg (workflow_key r))) (\<lambda>w.
     xbind (xcommit env (\<lambda>r. r\<lparr> run_status := PROCESSING, failed_at := None, failure_message := None,
              failure_internal_reason := None \<rparr>)) (\<lambda>_.
     xbind (xevent env (status_event RUN_EXECUTION_STARTED PROCESSING
              (lit ''Started workflow '' @ wf_key (wr_config w) @ lit ''.''))) (\<lambda>_.
     xbind (execute_messy_notes env w (reg_tools reg)) (\<lambda>_.
     xbind (xcommit env (\<lambda>r. r\<lparr> run_status := COMPLETED, completed_at := Some (xe_completed_now env) \<rparr>)) (\<lambda>_.
     xbind (xevent env (status_event RUN_COMPLETED COMPLETED (lit ''Workflow completed.''))) (\<lambda>_.
       run_post_processors env w (reg_post_processors reg) [] (wf_post_processors (wr_config w)))))))))"

definition exception_text :: "exec_env \<Rightarrow> error \<Rightarrow> str" where
  "exception_text env e = (case e of KeyError m \<Rightarrow> xe_repr env m | _ \<Rightarrow> error_text e)"

definition failure_text :: str where
  "failure_text = lit ''The run failed during bounded workflow execution.''"

definition record_failure :: "exec_env \<Rightarrow> error \<Rightarrow> unit exec" where
  "record_failure env e =
     xbind (xcommit env (\<lambda>r. r\<lparr> run_status := FAILED, failed_at := Some (xe_failed_now env),
              failure_message := Some failure_text, failure_internal_reason := Some (exception_text env e) \<rparr>)) (\<lambda>_.
       xevent env ((status_event RUN_FAILED FAILED failure_text)
         \<lparr> tool_result := Some [(lit ''internal_reason'', JStr (take 500 (exception_text env e)))] \<rparr>))"

definition raised_again :: "exec_env \<Rightarrow> error \<Rightarrow> error" where
  "raised_again env e =
     (case e of HTTPException n d \<Rightarrow> e | _ \<Rightarrow> WorkflowExecutionError (exception_text env e))"

definition execute_run_workflow :: "exec_env \<Rightarrow> tool workflow_registry \<Rightarrow> run_db \<Rightarrow> run \<Rightarrow> run result \<times> run_db" where
  "execute_run_workflow env reg db r =
     (if \<not> executable_status r
      then (Inl (HTTPException 409 (lit ''Only draft, submitted, or failed runs can be executed.'')), db)
      else case execute_body env reg (r, db) of
        (Inr _, r1, db1) \<Rightarrow> (Inr r1, db1)
      | (Inl e, r1, db1) \<Rightarrow> (Inl (raised_again env e), snd (snd (record_failure env e (r1, db1)))))"

section \<open>The summary of a run\<close>

record run_execution_summary =
  sm_run_id :: int
  sm_status :: run_status
  sm_failure_message :: "str option"
  sm_phases :: "str list"
  sm_tools :: "str list"
  sm_handoffs :: "str list"
  sm_audit :: "str option"
  sm_post_processors :: "str list"

definition phase_types :: "run_event_type list" where
  "phase_types = [RUN_EXECUTION_STARTED, RUN_COMPLETED, RUN_FAILED, AGENT_STARTED, AGENT_FINISHED]"

definition phase_label :: "run_event \<Rightarrow> str" where
  "phase_label e = run_event_type_value (ev_type e) @ lit '': ''
     @ str_or (ev_agent_role e) (str_or (ev_message e) (run_event_type_value (ev_type e)))"

definition tool_counts :: "run_event list \<Rightarrow> (str \<times> int) list" where
  "tool_counts es =
     foldl (\<lambda>d e. if ev_type e = TOOL_RESULT \<and> truthy (ev_tool_name e)
                  then let n = the (ev_tool_name e) in
                       dict_set d n ((case map_of d n of None \<Rightarrow> 0 | Some c \<Rightarrow> c) + 1)
                  else d) [] es"

definition tool_line :: "str \<times> int \<Rightarrow> str" where
  "tool_line nc = fst nc @ lit '': '' @ show_int (snd nc) @ lit '' result event'' @ (if snd nc \<noteq> 1 then lit ''s'' else [])"

definition audit_summary_of :: "runtime \<Rightarrow> str option \<Rightarrow> str option result" where
  "audit_summary_of rt stored =
     (if \<not> truthy stored then Inr None
      else case loads (the stored) of
        None \<Rightarrow> Inl (ValueError (lit ''JSONDecodeError''))
      | Some (JObj results) \<Rightarrow>
          Inr (case map_of results (lit ''audit-tool-usage-and-handoffs'') of
                 Some (JObj audit) \<Rightarrow> Some (get_or rt audit (lit ''summary'') [])
               | _ \<Rightarrow> None)
      | Some _ \<Rightarrow> wrong_payload)"

definition build_run_execution_summary :: "runtime \<Rightarrow> run_db \<Rightarrow> run \<Rightarrow> run_execution_summary result" where
  "build_run_execution_summary rt db r =
     (let es = events_for_run db (run_id r) in
      rbind (audit_summary_of rt (post_processor_results r)) (\<lambda>audit.
        Inr \<lparr> sm_run_id = run_id r, sm_status = run_status r, sm_failure_message = failure_message r,
              sm_phases = map phase_label (filter (\<lambda>e. ev_type e \<in> set phase_types) es),
              sm_tools = map tool_line (sort_key fst (tool_counts es)),
              sm_handoffs = map (\<lambda>e. py_opt (ev_handoff_source e) @ lit '' to '' @ py_opt (ev_handoff_target e))
                (filter (\<lambda>e. ev_type e = HANDOFF_OCCURRED) es),
              sm_audit = audit,
              sm_post_processors = map (\<lambda>e. py_opt (ev_post_processor_key e) @ lit '': '' @ str_or (ev_message e) (lit ''completed''))
                (filter (\<lambda>e. ev_type e = POST_PROCESSOR_COMPLETED) es) \<rparr>))"

end
