(* ===== verification/Workflow_Steps.thy ===== *)
theory Workflow_Steps
  imports Workflow_Exec
begin

text \<open>
  What the steps of an execution may change, and that every execution settles. The frame of
  a step is the locale \<open>run_frame\<close>, interpreted for steps that only write the brief, only
  write post-processor results, or write the outcome columns.
\<close>

section \<open>What a step may change\<close>

text \<open>The loaded run is the stored row.\<close>

definition stored :: "exec_state \<Rightarrow> bool" where
  "stored s \<longleftrightarrow> find_row run_id (run_id (fst s)) (runs (snd s)) = Some (fst s)"

text \<open>
  The run changes as \<open>R\<close> allows, the other rows stay, and the events that are added are the
  run's own.
\<close>

definition stays :: "(run \<Rightarrow> run \<Rightarrow> bool) \<Rightarrow> exec_state \<Rightarrow> exec_state \<Rightarrow> bool" where
  "stays R s s1 \<longleftrightarrow> R (fst s) (fst s1)
     \<and> map run_id (runs (snd s1)) = map run_id (runs (snd s))
     \<and> (\<forall>j. j \<noteq> run_id (fst s) \<longrightarrow> find_row run_id j (runs (snd s1)) = find_row run_id j (runs (snd s)))
     \<and> (\<exists>es. events (snd s1) = events (snd s) @ es \<and> (\<forall>e \<in> set es. ev_run_id e = run_id (fst s)))
     \<and> next_run_id (snd s1) = next_run_id (snd s)"

definition framed :: "(run \<Rightarrow> run \<Rightarrow> bool) \<Rightarrow> 'a exec \<Rightarrow> bool" where
  "framed R m \<longleftrightarrow> (\<forall>s. stored s \<longrightarrow> stored (snd (m s)) \<and> stays R s (snd (m s)))"

lemma framedD: "framed R m \<Longrightarrow> stored s \<Longrightarrow> m s = (x, s1) \<Longrightarrow> stored s1 \<and> stays R s s1"
  unfolding framed_def by (metis snd_conv)

lemma find_row_update_own:
  "(\<And>r. key r = k \<Longrightarrow> key (f r) = k) \<Longrightarrow>
   find_row key j (update_row key k f t) = (if j = k then map_option f (find_row key j t) else find_row key j t)"
  by (induction t) (auto simp: row_simps)

lemma find_row_save_run:
  "find_row run_id j (runs (save_run t r db)) =
     (if j = run_id r then map_option (\<lambda>old. if old = r then old else r\<lparr> updated_at := t \<rparr>) (find_row run_id j (runs db))
      else find_row run_id j (runs db))"
  unfolding save_run_def by (simp add: find_row_update_own)

lemma save_run_row:
  assumes "find_row run_id (run_id r) (runs db) = Some old"
  shows "find_row run_id (run_id r) (runs (save_run t r db)) = Some (if old = r then old else r\<lparr> updated_at := t \<rparr>)"
  using assms by (simp add: find_row_save_run)

lemma commit_run_state:
  assumes "stored (q, db)" and "run_id r = run_id q"
  shows "commit_run t r db = (if q = r then q else r\<lparr> updated_at := t \<rparr>, save_run t r db)"
  using assms save_run_row [of r db q t] by (auto simp: commit_run_def stored_def Let_def)

locale run_frame =
  fixes R :: "run \<Rightarrow> run \<Rightarrow> bool"
  assumes R_refl: "R r r"
    and R_trans: "R p q \<Longrightarrow> R q r \<Longrightarrow> R p r"
    and R_time: "R r (r\<lparr> updated_at := t \<rparr>)"
    and R_id: "R r q \<Longrightarrow> run_id q = run_id r"
begin

lemma stays_refl: "stays R s s"
  by (simp add: stays_def R_refl)

lemma stays_trans: "stays R s s1 \<Longrightarrow> stays R s1 s2 \<Longrightarrow> stays R s s2"
  using R_id [of "fst s" "fst s1"] by (auto simp: stays_def intro: R_trans)

lemma framed_return: "framed R (xreturn x)"
  by (simp add: framed_def xreturn_def stays_refl)

lemma framed_lift: "framed R (xlift r)"
  by (simp add: framed_def xlift_def stays_refl)

lemma framed_get: "framed R xget"
  by (simp add: framed_def xget_def stays_refl)

lemma framed_events: "framed R xevents"
  by (simp add: framed_def xevents_def stays_refl)

lemma framed_bind: "framed R m \<Longrightarrow> (\<And>x. framed R (f x)) \<Longrightarrow> framed R (xbind m f)"
  unfolding framed_def xbind_def by (force split: prod.splits sum.splits intro: stays_trans)

lemma framed_event: "framed R (xevent env p)"
  by (auto simp: framed_def xevent_def record_run_event_def Let_def stays_def stored_def R_refl)

lemma framed_commit: "(\<And>r. R r (f r)) \<Longrightarrow> framed R (xcommit env f)"
proof -
  assume f: "\<And>r. R r (f r)"
  have "stored (commit_run t (f q) db) \<and> stays R (q, db) (commit_run t (f q) db)" if "stored (q, db)" for q db t
  proof -
    have id: "run_id (f q) = run_id q" using R_id [OF f] .
    have c: "commit_run t (f q) db = (if q = f q then q else (f q)\<lparr> updated_at := t \<rparr>, save_run t (f q) db)"
      by (rule commit_run_state [OF that id])
    have row: "find_row run_id (run_id q) (runs (save_run t (f q) db)) = Some (if q = f q then q else (f q)\<lparr> updated_at := t \<rparr>)"
      using save_run_row [of "f q" db q t] that id by (auto simp: stored_def)
    have "R q (if q = f q then q else (f q)\<lparr> updated_at := t \<rparr>)"
      using R_refl R_trans [OF f R_time] by simp
    moreover have "map run_id (runs (save_run t (f q) db)) = map run_id (runs db)"
      using id by (auto simp: save_run_def update_row_def)
    moreover have "j \<noteq> run_id q \<longrightarrow> find_row run_id j (runs (save_run t (f q) db)) = find_row run_id j (runs db)" for j
      using id by (simp add: find_row_save_run)
    ultimately show ?thesis using row id by (auto simp: c stays_def stored_def save_run_def)
  qed
  then show ?thesis by (auto simp: framed_def xcommit_def)
qed

lemma framed_each: "(\<And>x. framed R (f x)) \<Longrightarrow> framed R (xeach f xs)"
  by (induction xs) (auto intro: framed_return framed_bind)

lemmas framed_intros = framed_return framed_lift framed_get framed_events framed_event framed_bind framed_each

lemma framed_agent_started: "framed R (agent_started env w role touch_it)"
  unfolding agent_started_def touch_pydantic_agent_def
  by (auto intro!: framed_intros simp: framed_return)

lemma framed_handoff: "framed R (handoff env w a b)"
  unfolding handoff_def by (auto intro!: framed_intros)

lemma framed_tool: "framed R (run_tool env reg role name p)"
  unfolding run_tool_def by (intro framed_intros)

lemma framed_extraction: "framed R (run_extraction_parallel env w reg p)"
  unfolding run_extraction_parallel_def extract_in_turn_def extract_in_parallel_def
  by (auto intro!: framed_intros framed_tool split: option.splits)

end

text \<open>Which columns a step leaves alone: the run with the others blanked is the same.\<close>

definition but_brief :: "run \<Rightarrow> run" where
  "but_brief r = r\<lparr> output_brief := None, updated_at := 0 \<rparr>"

definition but_results :: "run \<Rightarrow> run" where
  "but_results r = r\<lparr> post_processor_results := None, updated_at := 0 \<rparr>"

definition but_outcome :: "run \<Rightarrow> run" where
  "but_outcome r = r\<lparr> run_status := DRAFT, completed_at := None, failed_at := None, failure_message := None,
     failure_internal_reason := None, output_brief := None, post_processor_results := None, updated_at := 0 \<rparr>"

definition same :: "(run \<Rightarrow> run) \<Rightarrow> run \<Rightarrow> run \<Rightarrow> bool" where
  "same blank r q \<longleftrightarrow> blank q = blank r"

lemma blank_frame:
  assumes "\<And>r t. blank (r\<lparr> updated_at := t \<rparr>) = blank r" and "\<And>r. run_id (blank r) = run_id r"
  shows "run_frame (same blank)"
  by unfold_locales (auto simp: same_def assms(1), metis assms(2))

interpretation brief_frame: run_frame "same but_brief"
  by (rule blank_frame) (simp_all add: but_brief_def)

interpretation results_frame: run_frame "same but_results"
  by (rule blank_frame) (simp_all add: but_results_def)

interpretation outcome_frame: run_frame "same but_outcome"
  by (rule blank_frame) (simp_all add: but_outcome_def)


section \<open>The pipeline touches the brief, the post-processors their results\<close>

lemma framed_store_brief: "framed (same but_brief) (store_brief env b)"
  unfolding store_brief_def
  by (intro brief_frame.framed_intros brief_frame.framed_commit) (simp add: same_def but_brief_def)

lemmas pipeline_framed = brief_frame.framed_intros brief_frame.framed_agent_started brief_frame.framed_handoff
  brief_frame.framed_tool brief_frame.framed_extraction framed_store_brief

lemma framed_messy_notes: "framed (same but_brief) (execute_messy_notes env w reg)"
  unfolding execute_messy_notes_def messy_notes_local_slm_def messy_notes_v1_def normalize_phase_def extract_phase_def
    reconcile_phase_def write_phase_def agent_finished_def Let_def
  by (auto intro!: pipeline_framed split: prod.splits)

lemma framed_post_processors: "framed (same but_results) (run_post_processors env w pps results keys)"
proof (induction env w pps results keys rule: run_post_processors.induct)
  case (1 env w pps results)
  then show ?case by (simp add: results_frame.framed_return)
next
  case (2 env w pps results key keys)
  show ?case
  proof (cases "map_of pps key")
    case None
    then show ?thesis by (simp add: results_frame.framed_lift)
  next
    case (Some pp)
    have "framed (same but_results) (xcommit env (\<lambda>r. r\<lparr> post_processor_results := v \<rparr>))" for v
      by (rule results_frame.framed_commit) (simp add: same_def but_results_def)
    then show ?thesis using 2 [OF Some refl refl]
      by (auto simp: Some Let_def intro!: results_frame.framed_intros)
  qed
qed

lemma stays_weaken: "stays R s s1 \<Longrightarrow> (\<And>r q. R r q \<Longrightarrow> S r q) \<Longrightarrow> stays S s s1"
  by (simp add: stays_def)

lemma framed_weaken: "framed R m \<Longrightarrow> (\<And>r q. R r q \<Longrightarrow> S r q) \<Longrightarrow> framed S m"
  unfolding framed_def using stays_weaken by blast

lemma brief_outcome: "same but_brief r q \<Longrightarrow> same but_outcome r q"
proof -
  have "but_outcome x = but_outcome (but_brief x)" for x by (simp add: but_brief_def but_outcome_def)
  then show "same but_brief r q \<Longrightarrow> same but_outcome r q" unfolding same_def by metis
qed

lemma results_outcome: "same but_results r q \<Longrightarrow> same but_outcome r q"
proof -
  have "but_outcome x = but_outcome (but_results x)" for x by (simp add: but_results_def but_outcome_def)
  then show "same but_results r q \<Longrightarrow> same but_outcome r q" unfolding same_def by metis
qed

lemma framed_body: "framed (same but_outcome) (execute_body env reg)"
proof -
  have "framed (same but_outcome) (execute_messy_notes env w ts)" for w ts
    by (rule framed_weaken [OF framed_messy_notes]) (rule brief_outcome)
  moreover have "framed (same but_outcome) (run_post_processors env w pps results keys)" for w pps results keys
    by (rule framed_weaken [OF framed_post_processors]) (rule results_outcome)
  moreover have "framed (same but_outcome) (xcommit env (\<lambda>r. r\<lparr> run_status := st, failed_at := a, failure_message := b,
      failure_internal_reason := c \<rparr>))" for st a b c
    by (rule outcome_frame.framed_commit) (simp add: same_def but_outcome_def)
  moreover have "framed (same but_outcome) (xcommit env (\<lambda>r. r\<lparr> run_status := st, completed_at := a \<rparr>))" for st a
    by (rule outcome_frame.framed_commit) (simp add: same_def but_outcome_def)
  ultimately show ?thesis unfolding execute_body_def by (intro outcome_frame.framed_intros)
qed

section \<open>Results of steps\<close>

lemma xbind_Inr: "xbind m f s = (Inr y, s2) \<longleftrightarrow> (\<exists>x s1. m s = (Inr x, s1) \<and> f x s1 = (Inr y, s2))"
  by (auto simp: xbind_def split: prod.splits sum.splits)

lemma xcommit_state:
  assumes "stored s" and "run_id (f (fst s)) = run_id (fst s)" and "xcommit env f s = (x, s1)"
  shows "\<exists>t. fst s1 = (f (fst s))\<lparr> updated_at := t \<rparr>"
proof -
  let ?t = "xe_db_clock env (next_event_id (snd s))"
  have c: "s1 = commit_run ?t (f (fst s)) (snd s)" using assms(3) by (simp add: xcommit_def)
  have "commit_run ?t (f (fst s)) (snd s)
      = (if fst s = f (fst s) then fst s else (f (fst s))\<lparr> updated_at := ?t \<rparr>, save_run ?t (f (fst s)) (snd s))"
    using assms(1,2) by (intro commit_run_state) simp_all
  moreover have "\<exists>t. q = q\<lparr> updated_at := t \<rparr>" for q :: run by (rule exI [of _ "updated_at q"]) simp
  ultimately show ?thesis unfolding c by (cases "fst s = f (fst s)") auto
qed

lemma xevent_state: "xevent env p s = (x, s1) \<Longrightarrow> fst s1 = fst s"
  by (auto simp: xevent_def)


lemma xstep_state: "xlift r s = (x, s1) \<Longrightarrow> s1 = s" "xreturn y s = (x, s1) \<Longrightarrow> s1 = s"
  "xget s = (z, s1) \<Longrightarrow> s1 = s" "xevents s = (es, s1) \<Longrightarrow> s1 = s"
  by (auto simp: xlift_def xreturn_def xget_def xevents_def)

lemma brief_stored:
  assumes "store_brief env b s = (Inr v, s1)" and "agent_finished env role s1 = (Inr u, s2)" and "stored s"
  shows "output_brief (fst s2) \<noteq> None"
proof -
  obtain brief_text where c: "xcommit env (\<lambda>r. r\<lparr> output_brief := Some brief_text \<rparr>) s = (Inr v, s1)"
    using assms(1) unfolding store_brief_def xbind_Inr by (auto simp: xlift_def)
  have "\<exists>t. fst s1 = (fst s)\<lparr> output_brief := Some brief_text, updated_at := t \<rparr>"
    using xcommit_state [OF assms(3) _ c] by simp
  moreover have "fst s2 = fst s1" using assms(2) by (auto simp: agent_finished_def dest: xevent_state)
  ultimately show ?thesis by auto
qed

text \<open>A framed step that finished leaves a stored run behind.\<close>

lemma framed_stored: "framed R m \<Longrightarrow> stored s \<Longrightarrow> m s = (x, s1) \<Longrightarrow> stored s1"
  using framedD by blast

lemma messy_notes_brief:
  assumes "execute_messy_notes env w reg s = (Inr u, s2)" and "stored s"
  shows "output_brief (fst s2) \<noteq> None"
proof -
  note steps = brief_frame.framed_agent_started brief_frame.framed_tool
  consider (slm) "messy_notes_local_slm env w s = (Inr u, s2)" | (v1) "messy_notes_v1 env w reg s = (Inr u, s2)"
    using assms(1) by (auto simp: execute_messy_notes_def xlift_def split: if_splits)
  then show ?thesis
  proof cases
    case slm
    then obtain x s1 b v s3 where "agent_started env w (wf_starting_agent (wr_config w)) False s = (Inr x, s1)"
      "store_brief env b s1 = (Inr v, s3)" "agent_finished env (wf_starting_agent (wr_config w)) s3 = (Inr u, s2)"
      unfolding messy_notes_local_slm_def Let_def xbind_Inr
      by (auto simp: xlift_def xget_def xbind_Inr simp del: split_paired_Ex split: if_splits)
    then show ?thesis using brief_stored framed_stored [OF brief_frame.framed_agent_started assms(2)] by metis
  next
    case v1
    then obtain ex ds cs s1 n ps s3 s4 dcs where
      "normalize_phase env w reg s = (Inr n, s3)" "extract_phase env w reg (ni_text n) s3 = (Inr ps, s4)"
      "reconcile_phase env w reg ex s4 = (Inr dcs, s1)" and wr: "write_phase env reg ex ds cs s1 = (Inr u, s2)"
      unfolding messy_notes_v1_def xbind_Inr by (auto simp: xlift_def xbind_Inr split: prod.splits)
    moreover have "framed (same but_brief) (normalize_phase env w reg)"
      unfolding normalize_phase_def agent_finished_def Let_def by (intro pipeline_framed)
    moreover have "framed (same but_brief) (extract_phase env w reg t)" for t
      unfolding extract_phase_def agent_finished_def Let_def by (intro pipeline_framed)
    moreover have "framed (same but_brief) (reconcile_phase env w reg ex)"
      unfolding reconcile_phase_def agent_finished_def Let_def by (auto intro!: pipeline_framed split: prod.splits)
    ultimately have st: "stored s1" using assms(2) framed_stored by metis
    obtain c d a where ex: "ex = (c, d, a)" by (metis prod_cases3)
    obtain p y s5 b v s6 where "run_tool env reg (lit ''brief_writer'') (lit ''format_brief'') p s1 = (Inr y, s5)"
      "store_brief env b s5 = (Inr v, s6)" "agent_finished env (lit ''brief_writer'') s6 = (Inr u, s2)"
      using wr unfolding write_phase_def ex prod.case xbind_Inr
      by (auto simp: xlift_def xget_def xbind_Inr simp del: split_paired_Ex)
    then show ?thesis using brief_stored framed_stored [OF brief_frame.framed_tool st] by metis
  qed
qed

section \<open>Every execution settles\<close>

lemma but_brief_fields:
  assumes "same but_brief r q"
  shows "run_status q = run_status r" "failed_at q = failed_at r" "failure_message q = failure_message r"
    "failure_internal_reason q = failure_internal_reason r"
proof -
  have e: "run_status (but_brief x) = run_status x" "failed_at (but_brief x) = failed_at x"
    "failure_message (but_brief x) = failure_message x"
    "failure_internal_reason (but_brief x) = failure_internal_reason x" for x
    by (simp_all add: but_brief_def)
  show "run_status q = run_status r" "failed_at q = failed_at r" "failure_message q = failure_message r"
    "failure_internal_reason q = failure_internal_reason r"
    using assms e [of q] e [of r] by (simp_all add: same_def)
qed

lemma but_results_fields:
  assumes "same but_results r q"
  shows "run_status q = run_status r" "completed_at q = completed_at r" "failed_at q = failed_at r"
    "failure_message q = failure_message r" "output_brief q = output_brief r"
proof -
  have e: "run_status (but_results x) = run_status x" "completed_at (but_results x) = completed_at x"
    "failed_at (but_results x) = failed_at x" "failure_message (but_results x) = failure_message x"
    "output_brief (but_results x) = output_brief x" for x
    by (simp_all add: but_results_def)
  show "run_status q = run_status r" "completed_at q = completed_at r" "failed_at q = failed_at r"
    "failure_message q = failure_message r" "output_brief q = output_brief r"
    using assms e [of q] e [of r] by (simp_all add: same_def)
qed

lemma body_completes:
  assumes "execute_body env reg s = (Inr u, s2)" and "stored s"
  shows "run_status (fst s2) = COMPLETED" "completed_at (fst s2) = Some (xe_completed_now env)"
    "failed_at (fst s2) = None" "failure_message (fst s2) = None" "output_brief (fst s2) \<noteq> None"
proof -
  let ?start = "\<lambda>r. r\<lparr> run_status := PROCESSING, failed_at := None, failure_message := None,
              failure_internal_reason := None \<rparr>"
  let ?finish = "\<lambda>r. r\<lparr> run_status := COMPLETED, completed_at := Some (xe_completed_now env) \<rparr>"
  obtain w p q s3 s4 s5 s6 s7 where
    c1: "xcommit env ?start s = (Inr (), s3)" and e1: "xevent env p s3 = (Inr (), s4)"
    and m: "execute_messy_notes env w (reg_tools reg) s4 = (Inr (), s5)"
    and c2: "xcommit env ?finish s5 = (Inr (), s6)" and e2: "xevent env q s6 = (Inr (), s7)"
    and pp: "run_post_processors env w (reg_post_processors reg) [] (wf_post_processors (wr_config w)) s7 = (Inr (), s2)"
    using assms(1) unfolding execute_body_def xbind_Inr by (auto simp: xget_def xlift_def)
  have st3: "stored s3"
  proof -
    have "framed (same but_outcome) (xcommit env ?start)"
      by (rule outcome_frame.framed_commit) (simp add: same_def but_outcome_def)
    from this assms(2) c1 show ?thesis by (rule framed_stored)
  qed
  have f3: "run_status (fst s3) = PROCESSING" "failed_at (fst s3) = None" "failure_message (fst s3) = None"
    using xcommit_state [OF assms(2) _ c1] by auto
  have st4: "stored s4" and r4: "fst s4 = fst s3"
    using framed_stored [OF brief_frame.framed_event st3 e1] xevent_state [OF e1] by auto
  have m5: "stored s5" "same but_brief (fst s4) (fst s5)"
    using framedD [OF framed_messy_notes st4 m] by (auto simp: stays_def)
  note f5 = but_brief_fields [OF m5(2)] messy_notes_brief [OF m st4]
  have st6: "stored s6"
  proof -
    have "framed (same but_outcome) (xcommit env ?finish)"
      by (rule outcome_frame.framed_commit) (simp add: same_def but_outcome_def)
    from this m5(1) c2 show ?thesis by (rule framed_stored)
  qed
  have f6: "run_status (fst s6) = COMPLETED" "completed_at (fst s6) = Some (xe_completed_now env)"
    "failed_at (fst s6) = None" "failure_message (fst s6) = None" "output_brief (fst s6) \<noteq> None"
    using xcommit_state [OF m5(1) _ c2] f5 f3 r4 by auto
  have st7: "stored s7" and r7: "fst s7 = fst s6"
    using framed_stored [OF brief_frame.framed_event st6 e2] xevent_state [OF e2] by auto
  have "same but_results (fst s7) (fst s2)"
    using framedD [OF framed_post_processors st7 pp] by (simp add: stays_def)
  from but_results_fields [OF this]
  show "run_status (fst s2) = COMPLETED" "completed_at (fst s2) = Some (xe_completed_now env)"
    "failed_at (fst s2) = None" "failure_message (fst s2) = None" "output_brief (fst s2) \<noteq> None"
    using f6 r7 by simp_all
qed

lemma framed_failure: "framed (same but_outcome) (record_failure env e)"
  unfolding record_failure_def
  by (intro outcome_frame.framed_intros outcome_frame.framed_commit) (simp add: same_def but_outcome_def)

lemma failure_state:
  assumes "stored s"
  obtains s2 where "record_failure env e s = (Inr (), s2)" "run_status (fst s2) = FAILED"
    "failed_at (fst s2) = Some (xe_failed_now env)" "failure_message (fst s2) = Some failure_text"
    "failure_internal_reason (fst s2) = Some (exception_text env e)"
    "events (snd s2) \<noteq> []" "ev_type (last (events (snd s2))) = RUN_FAILED"
proof -
  let ?f = "\<lambda>r. r\<lparr> run_status := FAILED, failed_at := Some (xe_failed_now env),
              failure_message := Some failure_text, failure_internal_reason := Some (exception_text env e) \<rparr>"
  obtain s1 where c: "xcommit env ?f s = (Inr (), s1)" by (simp add: xcommit_def)
  obtain s2 where r: "record_failure env e s = (Inr (), s2)" "fst s2 = fst s1"
    "events (snd s2) \<noteq> []" "ev_type (last (events (snd s2))) = RUN_FAILED"
    using c by (auto simp: record_failure_def xbind_def xevent_def record_run_event_def status_event_def
        blank_event_def Let_def)
  moreover have "\<exists>t. fst s1 = (?f (fst s))\<lparr> updated_at := t \<rparr>" by (rule xcommit_state [OF assms _ c]) simp
  ultimately show ?thesis by (intro that [of s2]) auto
qed

lemma run_settles:
  assumes "executable_status r" and "find_row run_id (run_id r) (runs db) = Some r"
    and "execute_run_workflow env reg db r = (res, db1)"
  shows "\<exists>q es. find_row run_id (run_id r) (runs db1) = Some q \<and> same but_outcome r q
     \<and> (\<forall>j. j \<noteq> run_id r \<longrightarrow> find_row run_id j (runs db1) = find_row run_id j (runs db))
     \<and> events db1 = events db @ es \<and> (\<forall>e \<in> set es. ev_run_id e = run_id r)
     \<and> (case res of
          Inr q1 \<Rightarrow> q1 = q \<and> run_status q = COMPLETED \<and> completed_at q = Some (xe_completed_now env)
            \<and> failed_at q = None \<and> failure_message q = None \<and> output_brief q \<noteq> None
        | Inl e \<Rightarrow> run_status q = FAILED \<and> failed_at q = Some (xe_failed_now env) \<and> failure_message q = Some failure_text
            \<and> (\<exists>x. e = raised_again env x \<and> failure_internal_reason q = Some (exception_text env x))
            \<and> es \<noteq> [] \<and> ev_type (last es) = RUN_FAILED)"
proof -
  have st: "stored (r, db)" using assms(2) by (simp add: stored_def)
  obtain y r1 d1 where b: "execute_body env reg (r, db) = (y, (r1, d1))" by (metis prod_cases3)
  have f1: "stored (r1, d1)" "stays (same but_outcome) (r, db) (r1, d1)"
    using framedD [OF framed_body st b] by blast+
  have id1: "run_id r1 = run_id r" using f1(2) outcome_frame.R_id by (auto simp: stays_def)
  show ?thesis
  proof (cases y)
    case (Inr u)
    then have "res = Inr r1" "db1 = d1" using assms(1,3) b by (auto simp: execute_run_workflow_def)
    then show ?thesis using body_completes [OF b [unfolded Inr] st] f1 id1
      by (auto simp: stays_def stored_def)
  next
    case (Inl e)
    obtain s2 where s2: "record_failure env e (r1, d1) = (Inr (), s2)" and fl: "run_status (fst s2) = FAILED"
      "failed_at (fst s2) = Some (xe_failed_now env)" "failure_message (fst s2) = Some failure_text"
      "failure_internal_reason (fst s2) = Some (exception_text env e)"
      and ev: "ev_type (last (events (snd s2))) = RUN_FAILED"
      using failure_state [OF f1(1), of env e] by metis
    have res: "res = Inl (raised_again env e)" "db1 = snd s2" using assms(1,3) b Inl s2 by (auto simp: execute_run_workflow_def)
    have f2: "stored s2" "stays (same but_outcome) (r1, d1) s2" using framedD [OF framed_failure f1(1) s2] by blast+
    have id2: "run_id (fst s2) = run_id r" using f2(2) outcome_frame.R_id id1 by (auto simp: stays_def)
    have "stays (same but_outcome) (r, db) s2" using outcome_frame.stays_trans [OF f1(2) f2(2)] .
    then obtain es where es: "events db1 = events db @ es" "\<forall>e \<in> set es. ev_run_id e = run_id r" and
      oth: "same but_outcome r (fst s2)" "\<forall>j. j \<noteq> run_id r \<longrightarrow> find_row run_id j (runs db1) = find_row run_id j (runs db)"
      by (auto simp: stays_def res)
    obtain e1 where "events d1 = events db @ e1" "events (snd s2) = events d1 @ [last (events (snd s2))]"
      using f1(2) s2 by (auto simp: stays_def record_failure_def xbind_def xevent_def xcommit_def commit_run_def
          save_run_def record_run_event_def Let_def)
    then have "es = e1 @ [last (events (snd s2))]" using es(1) res by simp
    then have "es \<noteq> [] \<and> ev_type (last es) = RUN_FAILED" using ev by simp
    then show ?thesis using res(1) fl oth es f2(1) id2
      by (intro exI [of _ "fst s2"] exI [of _ es]) (auto simp: stored_def res(2))
  qed
qed

lemma run_keeps_ids:
  assumes "executable_status r" and "find_row run_id (run_id r) (runs db) = Some r"
    and "execute_run_workflow env reg db r = (res, db1)"
  shows "map run_id (runs db1) = map run_id (runs db) \<and> next_run_id db1 = next_run_id db"
proof -
  have st: "stored (r, db)" using assms(2) by (simp add: stored_def)
  obtain y r1 d1 where b: "execute_body env reg (r, db) = (y, (r1, d1))" by (metis prod_cases3)
  have f1: "stored (r1, d1)" "stays (same but_outcome) (r, db) (r1, d1)"
    using framedD [OF framed_body st b] by blast+
  show ?thesis
  proof (cases y)
    case (Inr u)
    then have "db1 = d1" using assms(1,3) b by (auto simp: execute_run_workflow_def)
    then show ?thesis using f1(2) by (simp add: stays_def)
  next
    case (Inl e)
    obtain s2 where s2: "record_failure env e (r1, d1) = (Inr (), s2)"
      using failure_state [OF f1(1), of env e] by metis
    have "db1 = snd s2" using assms(1,3) b Inl s2 by (auto simp: execute_run_workflow_def)
    then show ?thesis using f1(2) framedD [OF framed_failure f1(1) s2] by (simp add: stays_def)
  qed
qed

text \<open>
  C15: An execution of a run that may be executed settles: it returns the stored run,
  COMPLETED with a brief and without a failure, or it raises, and then the stored run is
  FAILED with the time and the reason, the last event says so, and the exception carries
  that reason. Either way nothing but the outcome columns of this one run changed, no other
  run did, and the events added are its own.
\<close>

theorem execution_settles:
  assumes "executable_status r" and "find_row run_id (run_id r) (runs db) = Some r"
    and "execute_run_workflow env reg db r = (res, db1)"
  shows "\<exists>q es. find_row run_id (run_id r) (runs db1) = Some q \<and> same but_outcome r q
     \<and> (\<forall>j. j \<noteq> run_id r \<longrightarrow> find_row run_id j (runs db1) = find_row run_id j (runs db))
     \<and> events db1 = events db @ es \<and> (\<forall>e \<in> set es. ev_run_id e = run_id r)
     \<and> (case res of
          Inr q1 \<Rightarrow> q1 = q \<and> run_status q = COMPLETED \<and> completed_at q = Some (xe_completed_now env)
            \<and> failed_at q = None \<and> failure_message q = None \<and> output_brief q \<noteq> None
        | Inl e \<Rightarrow> run_status q = FAILED \<and> failed_at q = Some (xe_failed_now env) \<and> failure_message q = Some failure_text
            \<and> (\<exists>x. e = raised_again env x \<and> failure_internal_reason q = Some (exception_text env x))
            \<and> es \<noteq> [] \<and> ev_type (last es) = RUN_FAILED)"
  using assms by (rule run_settles)

end
