(* ===== verification/Workflow_Run.thy ===== *)
theory Workflow_Run
  imports Workflow_Steps
begin

text \<open>
  The audit of a run's events, and the messy-notes pipeline as a function of the notes: a
  step is \<open>smooth\<close> when it returns its value, leaves the runs alone and adds only events the
  audit accepts, and in a \<open>ready_workflow\<close> every phase is.
\<close>

section \<open>Auditing is exact\<close>

definition tool_call_ok :: "workflow_config \<Rightarrow> run_event \<Rightarrow> bool" where
  "tool_call_ok c e \<longleftrightarrow> ev_type e \<noteq> TOOL_CALLED \<or> \<not> truthy (ev_tool_name e)
     \<or> the (ev_tool_name e) \<in> configured_tools c (str_or (ev_agent_role e) [])"

definition handoff_ok :: "workflow_config \<Rightarrow> run_event \<Rightarrow> bool" where
  "handoff_ok c e \<longleftrightarrow> ev_type e \<noteq> HANDOFF_OCCURRED
     \<or> str_or (ev_handoff_target e) [] \<in> handoff_graph c (str_or (ev_handoff_source e) [])"

definition event_ok :: "workflow_config \<Rightarrow> run_event \<Rightarrow> bool" where
  "event_ok c e \<longleftrightarrow> tool_call_ok c e \<and> handoff_ok c e"

lemma audit_fold:
  "au_suspicious (foldl (\<lambda>rep e. audit_handoff_event c e (audit_tool_event c e rep)) rep es) = []
     \<longleftrightarrow> au_suspicious rep = [] \<and> list_all (event_ok c) es"
proof (induction es arbitrary: rep)
  case (Cons e es)
  have "au_suspicious (audit_handoff_event c e (audit_tool_event c e rep)) = []
      \<longleftrightarrow> au_suspicious rep = [] \<and> event_ok c e"
    by (auto simp: audit_handoff_event_def audit_tool_event_def event_ok_def tool_call_ok_def handoff_ok_def Let_def)
  then show ?case using Cons by auto
qed simp

lemma audit_clean: "au_suspicious (audit_events c es) = [] \<longleftrightarrow> list_all (event_ok c) es"
  by (simp add: audit_events_def audit_fold)

lemma audit_counts:
  "length (au_suspicious (foldl (\<lambda>rep e. audit_handoff_event c e (audit_tool_event c e rep)) rep es))
     = length (au_suspicious rep) + length (filter (\<lambda>e. \<not> event_ok c e) es)
   \<and> length (au_tool_findings (foldl (\<lambda>rep e. audit_handoff_event c e (audit_tool_event c e rep)) rep es))
     = length (au_tool_findings rep)
       + length (filter (\<lambda>e. ev_type e = TOOL_CALLED \<and> truthy (ev_tool_name e) \<and> tool_call_ok c e) es)
   \<and> length (au_handoff_findings (foldl (\<lambda>rep e. audit_handoff_event c e (audit_tool_event c e rep)) rep es))
     = length (au_handoff_findings rep) + length (filter (\<lambda>e. ev_type e = HANDOFF_OCCURRED \<and> handoff_ok c e) es)"
proof (induction es arbitrary: rep)
  case (Cons e es)
  show ?case unfolding foldl_Cons
    using Cons [of "audit_handoff_event c e (audit_tool_event c e rep)"]
    by (auto simp: audit_handoff_event_def audit_tool_event_def event_ok_def tool_call_ok_def handoff_ok_def Let_def)
qed simp

text \<open>
  C17: The audit is exact: it says ''ok'' just when every tool call names a tool configured
  for its agent and every handoff follows the configured graph, and otherwise it lists one
  suspicious action for each event that does not; every other call and handoff is a finding.
\<close>

theorem audit_is_exact:
  "(overall_assessment (audit_events c es) = lit ''ok'' \<longleftrightarrow> list_all (event_ok c) es)
   \<and> length (au_suspicious (audit_events c es)) = length (filter (\<lambda>e. \<not> event_ok c e) es)
   \<and> length (au_tool_findings (audit_events c es))
       = length (filter (\<lambda>e. ev_type e = TOOL_CALLED \<and> truthy (ev_tool_name e) \<and> tool_call_ok c e) es)
   \<and> length (au_handoff_findings (audit_events c es))
       = length (filter (\<lambda>e. ev_type e = HANDOFF_OCCURRED \<and> handoff_ok c e) es)"
proof -
  have "overall_assessment rep = lit ''ok'' \<longleftrightarrow> au_suspicious rep = []" for rep
    by (simp add: overall_assessment_def lit_def)
  then show ?thesis
    using audit_counts [of c "\<lparr> au_suspicious = [], au_tool_findings = [], au_handoff_findings = [] \<rparr>" es]
    by (simp add: audit_clean) (simp add: audit_events_def)
qed

section \<open>Steps that go well\<close>

definition clean :: "workflow_config \<Rightarrow> int \<Rightarrow> run_db \<Rightarrow> bool" where
  "clean c i db \<longleftrightarrow> (\<forall>e \<in> set (events db). ev_run_id e = i \<longrightarrow> event_ok c e)"

text \<open>The step returns \<open>x\<close>, leaves every run alone and adds only events the audit accepts.\<close>

definition smooth :: "workflow_config \<Rightarrow> run \<Rightarrow> 'a exec \<Rightarrow> 'a \<Rightarrow> bool" where
  "smooth c r m x \<longleftrightarrow> (\<forall>db. \<exists>db1. m (r, db) = (Inr x, (r, db1)) \<and> runs db1 = runs db
      \<and> (clean c (run_id r) db \<longrightarrow> clean c (run_id r) db1))"

lemma smooth_return: "smooth c r (xreturn x) x"
  by (simp add: smooth_def xreturn_def)

lemma smooth_lift: "y = Inr x \<Longrightarrow> smooth c r (xlift y) x"
  by (simp add: smooth_def xlift_def)

lemma smooth_get: "smooth c r xget r"
  by (simp add: smooth_def xget_def)

lemma smooth_bind: "smooth c r m x \<Longrightarrow> smooth c r (f x) y \<Longrightarrow> smooth c r (xbind m f) y"
  unfolding smooth_def xbind_def by (metis (no_types, lifting) case_prod_conv sum.case(2))

definition payload_ok :: "workflow_config \<Rightarrow> run_event_payload \<Rightarrow> bool" where
  "payload_ok c p \<longleftrightarrow>
     (event_type p = TOOL_CALLED \<longrightarrow> \<not> truthy (tool_name p) \<or> the (tool_name p) \<in> configured_tools c (str_or (agent_role p) []))
     \<and> (event_type p = HANDOFF_OCCURRED \<longrightarrow>
          str_or (handoff_target_role p) [] \<in> handoff_graph c (str_or (handoff_source_role p) []))"

lemma clean_event:
  "payload_ok c p \<Longrightarrow> clean c i db \<Longrightarrow> clean c i (snd (record_run_event db t j p))"
  by (auto simp: clean_def record_run_event_def Let_def payload_ok_def event_ok_def tool_call_ok_def handoff_ok_def)

lemma runs_record [simp]: "runs (snd (record_run_event db t j p)) = runs db"
  by (simp add: record_run_event_def Let_def)

lemma smooth_event: "payload_ok c p \<Longrightarrow> smooth c r (xevent env p) ()"
  using clean_event by (simp add: smooth_def xevent_def)

lemma smooth_each: "(\<And>x. x \<in> set xs \<Longrightarrow> smooth c r (f x) ()) \<Longrightarrow> smooth c r (xeach f xs) ()"
  by (induction xs) (auto intro: smooth_return smooth_bind)

lemma str_or_Some [simp]: "str_or (Some s) [] = s"
  by (simp add: str_or_def)

lemma smooth_tool:
  assumes "execute_tool reg name p = Inr q" and "name \<in> configured_tools c role"
  shows "smooth c r (run_tool env reg role name p) q"
  unfolding run_tool_def
  by (rule smooth_bind [OF smooth_event], simp add: payload_ok_def blank_event_def assms(2),
      rule smooth_bind [OF smooth_lift [OF assms(1)]], rule smooth_bind [OF smooth_event],
      simp add: payload_ok_def blank_event_def, rule smooth_return)

definition agents_answer :: "exec_env \<Rightarrow> bool" where
  "agents_answer env \<longleftrightarrow> xe_environment env = lit ''test'' \<or> (\<forall>a p. \<exists>s. xe_agent env a p = Inr s)"

lemma smooth_touch:
  assumes "agents_answer env" and "agent_runtime_of w role = Inr a"
  shows "smooth c r (touch_pydantic_agent env w role) ()"
proof (cases "xe_environment env = lit ''test'' \<or> ar_agent a = None")
  case True
  then show ?thesis using assms(2)
    by (auto simp: touch_pydantic_agent_def smooth_return intro!: smooth_bind [OF smooth_lift] smooth_return)
next
  case False
  obtain s where "xe_agent env a (touch_prompt w r) = Inr s"
    using assms(1) False unfolding agents_answer_def by blast
  then have "smooth c r (xbind xget (\<lambda>r. xbind (xlift (xe_agent env a (touch_prompt w r))) (\<lambda>_. xreturn ()))) ()"
    by (intro smooth_bind [OF smooth_get] smooth_bind [OF smooth_lift] smooth_return)
  then show ?thesis using False assms(2)
    by (auto simp: touch_pydantic_agent_def intro!: smooth_bind [OF smooth_lift])
qed

lemma smooth_started:
  assumes "agents_answer env" and "agent_runtime_of w role = Inr a"
  shows "smooth c r (agent_started env w role b) ()"
  unfolding agent_started_def
  by (intro smooth_bind [OF smooth_lift] smooth_bind [OF smooth_event])
    (use assms in \<open>auto simp: agent_config_of_def payload_ok_def blank_event_def intro: smooth_touch smooth_return\<close>)

lemma smooth_finished: "smooth c r (agent_finished env role) ()"
  unfolding agent_finished_def by (rule smooth_event) (simp add: payload_ok_def blank_event_def)

lemma smooth_handoff:
  assumes "agent_runtime_of w a = Inr x" and "agent_runtime_of w b = Inr y"
    and "b \<in> set (ag_can_handoff_to (ar_config x))" and "b \<in> handoff_graph c a"
  shows "smooth c r (handoff env w a b) ()"
  unfolding handoff_def
  by (rule smooth_bind [OF smooth_lift [where x = "ar_config x"]], simp add: agent_config_of_def assms(1),
      rule smooth_bind [OF smooth_lift [where x = "ar_config y"]], simp add: agent_config_of_def assms(2))
    (simp add: assms(3), rule smooth_event, simp add: payload_ok_def blank_event_def assms(4))

section \<open>The brief a run should get\<close>

definition brief_of_notes :: "(nat \<Rightarrow> bool) \<Rightarrow> str option \<Rightarrow> str \<Rightarrow> brief_output" where
  "brief_of_notes wide t notes =
     (let ss = split_into_sections (ni_text (normalize_input notes));
          found = \<lparr> ri_claims = extract_claims ss, ri_decisions = extract_decisions ss, ri_action_items = extract_action_items ss \<rparr>
      in format_brief \<lparr> bi_title = t, bi_claims = extract_claims ss, bi_decisions = extract_decisions ss,
           bi_action_items = extract_action_items ss, bi_duplicates = find_duplicates found,
           bi_contradictions = find_contradictions wide found \<rparr>)"

text \<open>What the workflow's configuration has to grant for its own pipeline.\<close>

definition grants :: "workflow_config \<Rightarrow> str \<Rightarrow> str list \<Rightarrow> str list \<Rightarrow> bool" where
  "grants c role tools targets \<longleftrightarrow>
     (\<exists>a \<in> set (wf_agents c). ag_role a = role \<and> set tools \<subseteq> set (ag_tools a) \<and> set targets \<subseteq> set (ag_can_handoff_to a))"

definition messy_grants :: "workflow_config \<Rightarrow> bool" where
  "messy_grants c \<longleftrightarrow>
     grants c (wf_starting_agent c) [lit ''normalize_input''] [lit ''extractor'']
     \<and> grants c (lit ''extractor'') [lit ''split_into_sections'', lit ''extract_claims'', lit ''extract_decisions'',
         lit ''extract_action_items''] [lit ''reconciler'']
     \<and> grants c (lit ''reconciler'') [lit ''find_duplicates'', lit ''find_contradictions''] [lit ''brief_writer'']
     \<and> grants c (lit ''brief_writer'') [lit ''format_brief''] []"

definition builtin_tools :: "(nat \<Rightarrow> bool) \<Rightarrow> tool tool_registry \<Rightarrow> bool" where
  "builtin_tools wide reg \<longleftrightarrow> (\<forall>e \<in> set (workflow_tool_entries wide). get_tool reg (te_name e) = Inr e)"

lemma execute_builtin:
  assumes "builtin_tools wide reg"
  shows "execute_tool reg (lit ''normalize_input'') (TextToolInput t) = Inr (NormalizedInputOutput (normalize_input t))"
    and "execute_tool reg (lit ''split_into_sections'') (SectionsInput t) = Inr (SectionsOutput (split_into_sections t))"
    and "execute_tool reg (lit ''extract_claims'') (SectionsToolInput ss) = Inr (ExtractedItemsOutput (extract_claims ss))"
    and "execute_tool reg (lit ''extract_decisions'') (SectionsToolInput ss) = Inr (ExtractedItemsOutput (extract_decisions ss))"
    and "execute_tool reg (lit ''extract_action_items'') (SectionsToolInput ss) = Inr (ExtractedItemsOutput (extract_action_items ss))"
    and "execute_tool reg (lit ''find_duplicates'') (ReconciliationInput ri) = Inr (DuplicateFindingsOutput (find_duplicates ri))"
    and "execute_tool reg (lit ''find_contradictions'') (ReconciliationInput ri) = Inr (ContradictionFindingsOutput (find_contradictions wide ri))"
    and "execute_tool reg (lit ''format_brief'') (BriefInput b) = Inr (BriefOutput (format_brief b))"
  using assms by (simp_all add: builtin_tools_def workflow_tool_entries_def entry_def execute_tool_def)

lemma granted:
  assumes "closed_workflow tools pps (k, w)" and "grants (wr_config w) role ts targets"
  obtains x where "agent_runtime_of w role = Inr x" "set targets \<subseteq> set (ag_can_handoff_to (ar_config x))"
    "set ts \<subseteq> configured_tools (wr_config w) role" "set targets \<subseteq> handoff_graph (wr_config w) role"
proof -
  let ?c = "wr_config w"
  obtain a where a: "a \<in> set (wf_agents ?c)" "ag_role a = role" "set ts \<subseteq> set (ag_tools a)"
    "set targets \<subseteq> set (ag_can_handoff_to a)" using assms(2) by (auto simp: grants_def)
  have d: "distinct (map ag_role (wf_agents ?c))" "map fst (wr_agents w) = map ag_role (wf_agents ?c)"
    "map (ar_config \<circ> snd) (wr_agents w) = wf_agents ?c"
    using assms(1) by (auto simp: closed_workflow_def Let_def)
  obtain i where i: "i < length (wf_agents ?c)" "wf_agents ?c ! i = a" using a(1) by (auto simp: in_set_conv_nth)
  have len: "length (wr_agents w) = length (wf_agents ?c)" using d(2) by (metis length_map)
  define x where "x = snd (wr_agents w ! i)"
  have "fst (wr_agents w ! i) = role" using d(2) i a(2) len by (metis nth_map)
  moreover have cfg: "ar_config x = a" using d(3) i len unfolding x_def by (metis comp_apply nth_map)
  ultimately have "(role, x) \<in> set (wr_agents w)" using i len unfolding x_def by (metis nth_mem prod.collapse)
  then have "map_of (wr_agents w) role = Some x" using d(1,2) by simp
  then have "agent_runtime_of w role = Inr x" by (simp add: agent_runtime_of_def)
  moreover have "find_row ag_role role (rev (wf_agents ?c)) = Some a"
    using find_row_distinct [of ag_role "rev (wf_agents ?c)" a] d(1) a(1,2) by (simp add: rev_map [symmetric])
  ultimately show ?thesis using a(3,4) cfg by (intro that [of x]) (simp_all add: configured_tools_def handoff_graph_def)
qed

lemma gather_Inr: "list_all2 (\<lambda>r x. r = Inr x) rs xs \<Longrightarrow> gather rs = Inr xs"
  by (induction rule: list_all2_induct) auto


lemma smooth_in_parallel:
  assumes "builtin_tools wide reg" and "set extraction_tools \<subseteq> configured_tools c (lit ''extractor'')"
  shows "smooth c r (extract_in_parallel env reg g (SectionsToolInput ss))
     (ExtractedItemsOutput (extract_claims ss), ExtractedItemsOutput (extract_decisions ss),
      ExtractedItemsOutput (extract_action_items ss))"
proof -
  let ?rs = "[ExtractedItemsOutput (extract_claims ss), ExtractedItemsOutput (extract_decisions ss),
      ExtractedItemsOutput (extract_action_items ss)]"
  have "gather (map (\<lambda>n. execute_tool reg n (SectionsToolInput ss)) extraction_tools) = Inr ?rs"
    by (simp add: extraction_tools_def execute_builtin [OF assms(1)])
  moreover have "smooth c r (xbind (xlift (as_items (snd nr))) (\<lambda>is. xevent env (gathered_event g (fst nr, is)))) ()"
    if "nr \<in> set (zip extraction_tools ?rs)" for nr
  proof -
    have "\<exists>found. as_items (snd nr) = Inr found" using that by (auto simp: extraction_tools_def as_items_def)
    then obtain found where "as_items (snd nr) = Inr found" by blast
    then show ?thesis
      by (intro smooth_bind [OF smooth_lift] smooth_event) (auto simp: payload_ok_def gathered_event_def blank_event_def)
  qed
  moreover have "smooth c r (xevent env (queued_event g n)) ()" if "n \<in> set extraction_tools" for n
    using that assms(2) by (intro smooth_event) (auto simp: payload_ok_def queued_event_def blank_event_def)
  ultimately show ?thesis
    unfolding extract_in_parallel_def
    by (intro smooth_bind [OF smooth_each] smooth_bind [OF smooth_lift [where x = ?rs]])
      (simp_all add: smooth_return)
qed

lemma smooth_in_turn:
  assumes "builtin_tools wide reg" and "set extraction_tools \<subseteq> configured_tools c (lit ''extractor'')"
  shows "smooth c r (extract_in_turn env reg (SectionsToolInput ss))
     (ExtractedItemsOutput (extract_claims ss), ExtractedItemsOutput (extract_decisions ss),
      ExtractedItemsOutput (extract_action_items ss))"
  unfolding extract_in_turn_def
  by (intro smooth_bind [OF smooth_tool [OF execute_builtin(3) [OF assms(1)]]]
        smooth_bind [OF smooth_tool [OF execute_builtin(4) [OF assms(1)]]]
        smooth_bind [OF smooth_tool [OF execute_builtin(5) [OF assms(1)]]] smooth_return)
    (use assms(2) in \<open>simp_all add: extraction_tools_def\<close>)

text \<open>A workflow that can run: closed, with what the pipeline needs granted.\<close>

locale ready_workflow =
  fixes env :: exec_env and wide :: "nat \<Rightarrow> bool" and reg :: "tool tool_registry"
    and pps :: "(str \<times> post_processor_config) list" and k :: str and w :: workflow_runtime
  assumes closed: "closed_workflow reg pps (k, w)"
    and tools: "builtin_tools wide reg"
    and messy: "messy_grants (wr_config w)"
    and answers: "agents_answer env"
begin

abbreviation "c \<equiv> wr_config w"

lemma orchestrator:
  obtains x where "agent_runtime_of w (wf_starting_agent c) = Inr x"
    "lit ''extractor'' \<in> set (ag_can_handoff_to (ar_config x))" "lit ''extractor'' \<in> handoff_graph c (wf_starting_agent c)"
    "lit ''normalize_input'' \<in> configured_tools c (wf_starting_agent c)"
  using granted [OF closed messy [unfolded messy_grants_def, THEN conjunct1]] by auto

lemma extractor:
  obtains x where "agent_runtime_of w (lit ''extractor'') = Inr x"
    "lit ''reconciler'' \<in> set (ag_can_handoff_to (ar_config x))" "lit ''reconciler'' \<in> handoff_graph c (lit ''extractor'')"
    "lit ''split_into_sections'' \<in> configured_tools c (lit ''extractor'')"
    "set extraction_tools \<subseteq> configured_tools c (lit ''extractor'')"
  using granted [OF closed messy [unfolded messy_grants_def, THEN conjunct2, THEN conjunct1]]
  by (auto simp: extraction_tools_def)

lemma reconciler:
  obtains x where "agent_runtime_of w (lit ''reconciler'') = Inr x"
    "lit ''brief_writer'' \<in> set (ag_can_handoff_to (ar_config x))" "lit ''brief_writer'' \<in> handoff_graph c (lit ''reconciler'')"
    "lit ''find_duplicates'' \<in> configured_tools c (lit ''reconciler'')"
    "lit ''find_contradictions'' \<in> configured_tools c (lit ''reconciler'')"
  using granted [OF closed messy [unfolded messy_grants_def, THEN conjunct2, THEN conjunct2, THEN conjunct1]] by auto

lemma brief_writer:
  obtains x where "agent_runtime_of w (lit ''brief_writer'') = Inr x"
    "lit ''format_brief'' \<in> configured_tools c (lit ''brief_writer'')"
  using granted [OF closed messy [unfolded messy_grants_def, THEN conjunct2, THEN conjunct2, THEN conjunct2]] by auto

lemma smooth_normalize: "smooth c r (normalize_phase env w reg) (normalize_input (source_text r))"
proof -
  obtain x where o: "agent_runtime_of w (wf_starting_agent c) = Inr x"
    "lit ''extractor'' \<in> set (ag_can_handoff_to (ar_config x))" "lit ''extractor'' \<in> handoff_graph c (wf_starting_agent c)"
    "lit ''normalize_input'' \<in> configured_tools c (wf_starting_agent c)" by (rule orchestrator)
  obtain y where e: "agent_runtime_of w (lit ''extractor'') = Inr y" by (rule extractor)
  show ?thesis
    unfolding normalize_phase_def Let_def
    by (intro smooth_bind [OF smooth_started [OF answers o(1)]] smooth_bind [OF smooth_get]
        smooth_bind [OF smooth_tool [OF execute_builtin(1) [OF tools] o(4)]] smooth_bind [OF smooth_finished]
        smooth_bind [OF smooth_handoff [OF o(1) e o(2,3)]] smooth_bind [OF smooth_started [OF answers e]] smooth_lift)
      (simp add: as_normalized_def)
qed

lemma smooth_extract:
  "smooth c r (extract_phase env w reg notes)
     (ExtractedItemsOutput (extract_claims (split_into_sections notes)),
      ExtractedItemsOutput (extract_decisions (split_into_sections notes)),
      ExtractedItemsOutput (extract_action_items (split_into_sections notes)))"
proof -
  obtain y where e: "agent_runtime_of w (lit ''extractor'') = Inr y"
    "lit ''reconciler'' \<in> set (ag_can_handoff_to (ar_config y))" "lit ''reconciler'' \<in> handoff_graph c (lit ''extractor'')"
    "lit ''split_into_sections'' \<in> configured_tools c (lit ''extractor'')"
    "set extraction_tools \<subseteq> configured_tools c (lit ''extractor'')" by (rule extractor)
  obtain z where rc: "agent_runtime_of w (lit ''reconciler'') = Inr z" by (rule reconciler)
  have ex: "smooth c r (run_extraction_parallel env w reg (SectionsToolInput (split_into_sections notes)))
     (ExtractedItemsOutput (extract_claims (split_into_sections notes)),
      ExtractedItemsOutput (extract_decisions (split_into_sections notes)),
      ExtractedItemsOutput (extract_action_items (split_into_sections notes)))"
    unfolding run_extraction_parallel_def
    by (rule smooth_bind [OF smooth_lift [where x = "ar_config y"]])
      (auto simp: agent_config_of_def e(1) intro: smooth_in_parallel [OF tools e(5)] smooth_in_turn [OF tools e(5)]
        split: option.splits)
  show ?thesis
    unfolding extract_phase_def
    by (intro smooth_bind [OF smooth_tool [OF execute_builtin(2) [OF tools] e(4)]]
        smooth_bind [OF smooth_lift [where x = "split_into_sections notes"]] smooth_bind [OF ex]
        smooth_bind [OF smooth_finished] smooth_bind [OF smooth_handoff [OF e(1) rc e(2,3)]]
        smooth_bind [OF smooth_started [OF answers rc]] smooth_return)
      (simp add: as_sections_def)
qed

lemma smooth_reconcile:
  "smooth c r (reconcile_phase env w reg (cl, de, ac))
     (DuplicateFindingsOutput (find_duplicates \<lparr> ri_claims = cl, ri_decisions = de, ri_action_items = ac \<rparr>),
      ContradictionFindingsOutput (find_contradictions wide \<lparr> ri_claims = cl, ri_decisions = de, ri_action_items = ac \<rparr>))"
proof -
  obtain z where rc: "agent_runtime_of w (lit ''reconciler'') = Inr z"
    "lit ''brief_writer'' \<in> set (ag_can_handoff_to (ar_config z))" "lit ''brief_writer'' \<in> handoff_graph c (lit ''reconciler'')"
    "lit ''find_duplicates'' \<in> configured_tools c (lit ''reconciler'')"
    "lit ''find_contradictions'' \<in> configured_tools c (lit ''reconciler'')" by (rule reconciler)
  obtain b where bw: "agent_runtime_of w (lit ''brief_writer'') = Inr b" by (rule brief_writer)
  show ?thesis
    unfolding reconcile_phase_def Let_def prod.case
    by (intro smooth_bind [OF smooth_tool [OF execute_builtin(6) [OF tools] rc(4)]]
        smooth_bind [OF smooth_tool [OF execute_builtin(7) [OF tools] rc(5)]] smooth_bind [OF smooth_finished]
        smooth_bind [OF smooth_handoff [OF rc(1) bw rc(2,3)]] smooth_bind [OF smooth_started [OF answers bw]] smooth_return)
qed

end

section \<open>The brief of valid notes is valid text\<close>

lemma valid_squeeze: "valid_str s \<Longrightarrow> valid_str (squeeze_from gap s)"
  by (induction gap s rule: squeeze_from.induct) (auto simp: valid_cp_def)

lemma splitlines_acc_set: "l \<in> set (splitlines_acc acc s) \<Longrightarrow> set l \<subseteq> set acc \<union> set s"
proof (induction acc s arbitrary: l rule: splitlines_acc.induct)
  case (3 acc c d s)
  consider "c = 13 \<and> d = 10" | "\<not> (c = 13 \<and> d = 10)" "is_linebreak c" | "\<not> (c = 13 \<and> d = 10)" "\<not> is_linebreak c" by blast
  then show ?case
  proof cases
    case 1
    then show ?thesis using "3.IH"(1) [of l] "3.prems" by auto
  next
    case 2
    then have "l = rev acc \<or> l \<in> set (splitlines_acc [] (d # s))"
      using "3.prems" unfolding splitlines_acc.simps by (simp only: if_True if_False set_simps insert_iff)
    then show ?thesis using "3.IH"(2) [OF 2, of l] by auto
  next
    case c3: 3
    then have "l \<in> set (splitlines_acc (c # acc) (d # s))"
      using "3.prems" unfolding splitlines_acc.simps by (simp only: if_True if_False)
    then show ?thesis using "3.IH"(3) [OF c3, of l] by auto
  qed
qed (auto split: if_splits)

lemma valid_line: "valid_str s \<Longrightarrow> l \<in> set (splitlines s) \<Longrightarrow> valid_str l"
  using splitlines_acc_set [of l "[]" s] by (auto simp: splitlines_def intro: valid_str_subset)

lemma valid_normalized: "valid_str s \<Longrightarrow> valid_str (ni_text (normalize_input s))"
  by (auto simp: normalize_input_def squeeze_spaces_def Let_def list_all_iff
      intro!: valid_join valid_strip valid_squeeze dest: valid_line) (simp_all add: valid_cp_def)

lemma split_char_set: "p \<in> set (split_char c s) \<Longrightarrow> set p \<subseteq> set s"
proof (induction s arbitrary: p)
  case (Cons x s)
  obtain w ws where "split_char c s = w # ws" using split_char_not_Nil by (cases "split_char c s") blast+
  then show ?case using Cons by (cases "x = c") fastforce+
qed simp

lemma valid_section: "valid_str s \<Longrightarrow> n \<in> set (split_into_sections s) \<Longrightarrow> valid_str (ns_text n)"
proof -
  assume s: "valid_str s" and n: "n \<in> set (split_into_sections s)"
  have "ns_text n \<in> set (map ns_text (split_into_sections s))" using n by simp
  then have "ns_text n \<in> strip ` set (split_char 10 s)" by (auto simp: section_texts)
  then obtain x where "ns_text n = strip x" "x \<in> set (split_char 10 s)" by blast
  then show ?thesis using valid_strip [OF valid_str_subset [OF split_char_set s]] by simp
qed

lemma valid_show_nat [simp]: "valid_str (show_nat n)"
  using show_nat_digits [of _ n] by (fastforce simp: valid_str_def list_all_iff valid_cp_def)

lemma valid_join_items: "\<forall>i \<in> set is. valid_str (it_text i) \<Longrightarrow> valid_str (join_items is)"
proof -
  assume v: "\<forall>i \<in> set is. valid_str (it_text i)"
  have "valid_str (lit ''- '' @ it_text i)" if "i \<in> set (take 8 is)" for i
    using v in_set_takeD [OF that] by simp
  then show ?thesis unfolding join_items_def by (intro valid_join) (auto simp: list_all_iff valid_cp_def)
qed

lemma valid_text_or: "valid_str s \<Longrightarrow> valid_str t \<Longrightarrow> valid_str (text_or s t)"
  by (simp add: text_or_def)

lemma valid_brief:
  assumes "valid_str notes" and "\<forall>t. heading = Some t \<longrightarrow> valid_str t"
  shows "list_all valid_str (brief_strings (brief_of_notes wide heading notes))"
proof -
  let ?ss = "split_into_sections (ni_text (normalize_input notes))"
  have "valid_str (ns_text n)" if "n \<in> set ?ss" for n
    using that valid_section valid_normalized assms(1) by blast
  then have items: "\<forall>i \<in> set (extract_claims ?ss). valid_str (it_text i)" "\<forall>i \<in> set (extract_decisions ?ss). valid_str (it_text i)"
    "\<forall>i \<in> set (extract_action_items ?ss). valid_str (it_text i)"
    by (auto simp: extract_claims_def extract_decisions_def extract_action_items_def item_from_section_def)
  have "valid_str (str_or heading (lit ''Messy notes brief''))" using assms(2) by (cases heading) (auto simp: str_or_def)
  moreover have "valid_str (join (lit '', '') (summary_parts p))" for p
    by (rule valid_join) (auto simp: summary_parts_def)
  ultimately show ?thesis
    using items [THEN valid_join_items]
    by (auto simp: brief_strings_def brief_of_notes_def format_brief_def Let_def list_all_iff valid_text_or)
qed

section \<open>A messy-notes run\<close>

lemma events_save_run [simp]: "events (save_run t r db) = events db"
  by (simp add: save_run_def)

lemma clean_commit: "clean c i db \<Longrightarrow> clean c i (snd (commit_run t r db))"
  by (simp add: clean_def commit_run_def Let_def)

lemma xcommit_step:
  assumes "stored (r, db)" and "run_id (f r) = run_id r" and "clean c i db"
  obtains t s1 where "xcommit env f (r, db) = (Inr (), s1)" "fst s1 = (f r)\<lparr> updated_at := t \<rparr>" "stored s1"
    "clean c i (snd s1)"
proof -
  let ?t = "xe_db_clock env (next_event_id db)"
  have x: "xcommit env f (r, db) = (Inr (), commit_run ?t (f r) db)" by (simp add: xcommit_def)
  obtain t where t: "fst (commit_run ?t (f r) db) = (f r)\<lparr> updated_at := t \<rparr>"
    using xcommit_state [OF assms(1) _ x] assms(2) by auto
  have "stored (commit_run ?t (f r) db)"
    using save_run_row [of "f r" db r ?t] assms(1,2) commit_run_state [OF assms(1,2), of ?t]
    by (auto simp: stored_def)
  then show ?thesis using that [OF x t] clean_commit [OF assms(3)] by blast
qed

lemma smooth_step:
  assumes "smooth c r m x" and "stored (r, db)" and "clean c (run_id r) db"
  obtains db1 where "m (r, db) = (Inr x, (r, db1))" "stored (r, db1)" "clean c (run_id r) db1"
proof -
  obtain db1 where "m (r, db) = (Inr x, (r, db1))" "runs db1 = runs db" "clean c (run_id r) db1"
    using assms(1,3) by (auto simp: smooth_def)
  then show ?thesis using assms(2) by (intro that [of db1]) (simp_all add: stored_def)
qed

lemma xbind_step: "m s = (Inr x, s1) \<Longrightarrow> xbind m f s = f x s1"
  by (simp add: xbind_def)

lemma store_brief_step:
  assumes "list_all valid_str (brief_strings b)" and "stored (r, db)" and "clean c i db"
  obtains t s1 where "store_brief env b (r, db) = (Inr (), s1)"
    "fst s1 = r\<lparr> output_brief := Some (dumps Pydantic (JObj (brief_dict b))), updated_at := t \<rparr>" "stored s1" "clean c i (snd s1)"
proof -
  let ?f = "\<lambda>r. r\<lparr> output_brief := Some (dumps Pydantic (JObj (brief_dict b))) \<rparr>"
  obtain t s1 where "xcommit env ?f (r, db) = (Inr (), s1)" "fst s1 = (?f r)\<lparr> updated_at := t \<rparr>" "stored s1" "clean c i (snd s1)"
    by (rule xcommit_step [OF assms(2) _ assms(3), of ?f env]) auto
  moreover have "store_brief env b (r, db) = xcommit env ?f (r, db)"
    unfolding store_brief_def by (rule xbind_step) (simp add: xlift_def brief_dump_json_def assms(1))
  ultimately show ?thesis by (intro that [of s1 t]) simp_all
qed

context ready_workflow begin

lemma messy_notes_step:
  assumes "stored (r, db)" and "clean c (run_id r) db"
    and "valid_str (source_text r)" and "\<forall>t. title r = Some t \<longrightarrow> valid_str t"
  obtains t s1 where "messy_notes_v1 env w reg (r, db) = (Inr (), s1)"
    "fst s1 = r\<lparr> output_brief := Some (dumps Pydantic (JObj (brief_dict (brief_of_notes wide (title r) (source_text r))))), updated_at := t \<rparr>"
    "stored s1" "clean c (run_id r) (snd s1)"
proof -
  define ss where "ss = split_into_sections (ni_text (normalize_input (source_text r)))"
  define found where "found = \<lparr> ri_claims = extract_claims ss, ri_decisions = extract_decisions ss, ri_action_items = extract_action_items ss \<rparr>"
  define b where "b = brief_of_notes wide (title r) (source_text r)"
  obtain d1 where n: "normalize_phase env w reg (r, db) = (Inr (normalize_input (source_text r)), (r, d1))"
    and s1: "stored (r, d1)" "clean c (run_id r) d1" by (rule smooth_step [OF smooth_normalize assms(1,2)])
  obtain d2 where e: "extract_phase env w reg (ni_text (normalize_input (source_text r))) (r, d1)
      = (Inr (ExtractedItemsOutput (extract_claims ss), ExtractedItemsOutput (extract_decisions ss),
              ExtractedItemsOutput (extract_action_items ss)), (r, d2))"
    and s2: "stored (r, d2)" "clean c (run_id r) d2" using smooth_step [OF smooth_extract s1] unfolding ss_def by blast
  obtain d3 where rc: "reconcile_phase env w reg (extract_claims ss, extract_decisions ss, extract_action_items ss) (r, d2)
      = (Inr (DuplicateFindingsOutput (find_duplicates found), ContradictionFindingsOutput (find_contradictions wide found)), (r, d3))"
    and s3: "stored (r, d3)" "clean c (run_id r) d3" using smooth_step [OF smooth_reconcile s2] unfolding found_def by blast
  let ?in = "BriefInput \<lparr> bi_title = title r, bi_claims = extract_claims ss, bi_decisions = extract_decisions ss,
     bi_action_items = extract_action_items ss, bi_duplicates = find_duplicates found, bi_contradictions = find_contradictions wide found \<rparr>"
  obtain bw where bw: "lit ''format_brief'' \<in> configured_tools c (lit ''brief_writer'')" by (rule brief_writer)
  have "execute_tool reg (lit ''format_brief'') ?in = Inr (BriefOutput b)"
    unfolding b_def brief_of_notes_def Let_def ss_def [symmetric] found_def [symmetric] by (rule execute_builtin(8) [OF tools])
  then have "smooth c r (run_tool env reg (lit ''brief_writer'') (lit ''format_brief'') ?in) (BriefOutput b)"
    using bw by (rule smooth_tool)
  then obtain d4 where t: "run_tool env reg (lit ''brief_writer'') (lit ''format_brief'') ?in (r, d3) = (Inr (BriefOutput b), (r, d4))"
    and s4: "stored (r, d4)" "clean c (run_id r) d4" by (rule smooth_step [OF _ s3])
  have "list_all valid_str (brief_strings b)" unfolding b_def using assms(3,4) by (rule valid_brief)
  then obtain ut s5 where sb: "store_brief env b (r, d4) = (Inr (), s5)"
    "fst s5 = r\<lparr> output_brief := Some (dumps Pydantic (JObj (brief_dict b))), updated_at := ut \<rparr>" "stored s5" "clean c (run_id r) (snd s5)"
    by (rule store_brief_step [OF _ s4])
  have id5: "run_id (fst s5) = run_id r" by (simp add: sb(2))
  obtain d6 where f: "agent_finished env (lit ''brief_writer'') s5 = (Inr (), (fst s5, d6))" "stored (fst s5, d6)" "clean c (run_id r) d6"
    using smooth_step [OF smooth_finished, of "fst s5" "snd s5" c env "lit ''brief_writer''"] sb(3,4) id5 by auto
  have "write_phase env reg (extract_claims ss, extract_decisions ss, extract_action_items ss) (find_duplicates found)
      (find_contradictions wide found) (r, d3) = (Inr (), (fst s5, d6))"
    unfolding write_phase_def prod.case
    by (simp add: xbind_def xget_def xlift_def t as_brief_def sb(1) f(1))
  then have "messy_notes_v1 env w reg (r, db) = (Inr (), (fst s5, d6))"
    unfolding messy_notes_v1_def
    by (simp add: xbind_def xlift_def n e rc items_of_def as_items_def as_duplicates_def as_contradictions_def)
  then show ?thesis using that [of "(fst s5, d6)" ut] f(2,3) sb(2) b_def by simp
qed

end

definition audited_ok :: "run \<Rightarrow> str set \<Rightarrow> bool" where
  "audited_ok r keys \<longleftrightarrow> (\<exists>results. post_processor_results r = Some (dumps Spaced (JObj results))
     \<and> (\<forall>k \<in> keys. \<exists>pp rep. map_of results k = Some (audit_result pp rep) \<and> overall_assessment rep = lit ''ok''))"

lemma post_processors_step:
  assumes "stored (r, db)" and "clean (wr_config w) (run_id r) db" and "set keys \<subseteq> fst ` set pps"
    and "\<forall>k \<in> past. \<exists>pp rep. map_of results k = Some (audit_result pp rep) \<and> overall_assessment rep = lit ''ok''"
  shows "\<exists>s1. run_post_processors env w pps results keys (r, db) = (Inr (), s1) \<and> stored s1
     \<and> clean (wr_config w) (run_id r) (snd s1) \<and> (keys \<noteq> [] \<longrightarrow> audited_ok (fst s1) (past \<union> set keys))"
  using assms
proof (induction keys arbitrary: r db results past)
  case Nil
  then show ?case by (simp add: xreturn_def)
next
  case (Cons key keys)
  let ?c = "wr_config w"
  obtain pp where pp: "map_of pps key = Some pp"
    using Cons.prems(3) by (metis insert_subset list.simps(15) map_of_eq_None_iff not_Some_eq)
  have ev: "smooth ?c r (xevent env p) ()" if "event_type p \<noteq> TOOL_CALLED" "event_type p \<noteq> HANDOFF_OCCURRED" for r p
    using that by (intro smooth_event) (simp add: payload_ok_def)
  obtain d1 where e1: "xevent env (post_event POST_PROCESSOR_STARTED key (lit '' started.'')) (r, db) = (Inr (), (r, d1))"
    "stored (r, d1)" "clean ?c (run_id r) d1"
    using smooth_step [OF ev [of "post_event POST_PROCESSOR_STARTED key (lit '' started.'')" r] Cons.prems(1,2)]
    by (auto simp: post_event_def blank_event_def)
  define rep where "rep = audit_events ?c (events_for_run d1 (run_id r))"
  have ok: "overall_assessment rep = lit ''ok''"
    using e1(3) audit_clean [of ?c "events_for_run d1 (run_id r)"]
    by (auto simp: rep_def overall_assessment_def clean_def events_for_run_def list_all_iff)
  define results1 where "results1 = dict_set results key (audit_result pp rep)"
  let ?f = "\<lambda>r. r\<lparr> post_processor_results := Some (dumps Spaced (JObj results1)) \<rparr>"
  obtain t s2 where c2: "xcommit env ?f (r, d1) = (Inr (), s2)" "fst s2 = (?f r)\<lparr> updated_at := t \<rparr>" "stored s2" "clean ?c (run_id r) (snd s2)"
    by (rule xcommit_step [OF e1(2) _ e1(3), of ?f env]) simp_all
  have id2: "run_id (fst s2) = run_id r" by (simp add: c2(2))
  let ?p = "(post_event POST_PROCESSOR_COMPLETED key (lit '' completed.''))
     \<lparr> tool_result := Some [(lit ''overall_assessment'', JStr (overall_assessment rep))] \<rparr>"
  obtain d3 where e3: "xevent env ?p s2 = (Inr (), (fst s2, d3))" "stored (fst s2, d3)" "clean ?c (run_id r) d3"
    using smooth_step [OF ev [of ?p "fst s2"], of "snd s2"] c2(3,4) id2 by (auto simp: post_event_def blank_event_def)
  have past1: "\<forall>k \<in> insert key past. \<exists>pp rep. map_of results1 k = Some (audit_result pp rep) \<and> overall_assessment rep = lit ''ok''"
    using Cons.prems(4) ok by (auto simp: results1_def map_of_dict_set)
  have "run_post_processors env w pps results (key # keys) (r, db) = run_post_processors env w pps results1 keys (fst s2, d3)"
    by (simp add: pp xbind_def xevents_def e1(1) c2(1) e3(1) Let_def rep_def [symmetric] results1_def [symmetric]
        del: dumps.simps)
  moreover obtain s4 where s4: "run_post_processors env w pps results1 keys (fst s2, d3) = (Inr (), s4)" "stored s4"
    "clean ?c (run_id r) (snd s4)" "keys \<noteq> [] \<longrightarrow> audited_ok (fst s4) (insert key past \<union> set keys)"
    using Cons.IH [OF e3(2) _ _ past1] e3(3) id2 Cons.prems(3) by auto
  moreover have "audited_ok (fst s4) (past \<union> set (key # keys))"
  proof (cases keys)
    case Nil
    then have "fst s4 = fst s2" using s4(1) by (auto simp: xreturn_def)
    then show ?thesis using past1 c2(2) Nil by (auto simp: audited_ok_def)
  next
    case (Cons k ks)
    then show ?thesis using s4(4) by (auto simp: insert_commute)
  qed
  ultimately show ?case by auto
qed


lemma messy_run_completes:
  assumes "executable_status r" and "find_row run_id (run_id r) (runs db) = Some r"
    and "get_workflow reg (workflow_key r) = Inr w" and "wf_key (wr_config w) = lit ''messy-notes-v1''"
    and "closed_workflow (reg_tools reg) (reg_post_processors reg) (k, w)" and "messy_grants (wr_config w)"
    and "builtin_tools wide (reg_tools reg)" and "agents_answer env"
    and "valid_str (source_text r)" and "\<forall>t. title r = Some t \<longrightarrow> valid_str t"
    and "clean (wr_config w) (run_id r) db"
  shows "\<exists>q db1. execute_run_workflow env reg db r = (Inr q, db1) \<and> run_status q = COMPLETED
     \<and> output_brief q = Some (dumps Pydantic (JObj (brief_dict (brief_of_notes wide (title r) (source_text r)))))
     \<and> clean (wr_config w) (run_id r) db1
     \<and> (wf_post_processors (wr_config w) \<noteq> [] \<longrightarrow> audited_ok q (set (wf_post_processors (wr_config w))))"
proof -
  let ?c = "wr_config w"
  let ?start = "\<lambda>r. r\<lparr> run_status := PROCESSING, failed_at := None, failure_message := None,
              failure_internal_reason := None \<rparr>"
  let ?finish = "\<lambda>r. r\<lparr> run_status := COMPLETED, completed_at := Some (xe_completed_now env) \<rparr>"
  have ready: "ready_workflow env wide (reg_tools reg) (reg_post_processors reg) k w"
    using assms(5-8) by unfold_locales
  have st: "stored (r, db)" using assms(2) by (simp add: stored_def)
  have ev: "smooth ?c q (xevent env (status_event t u m)) ()" if "t \<noteq> TOOL_CALLED" "t \<noteq> HANDOFF_OCCURRED" for q t u m
    using that by (intro smooth_event) (simp add: payload_ok_def status_event_def blank_event_def)
  obtain t1 s1 where c1: "xcommit env ?start (r, db) = (Inr (), s1)" "fst s1 = (?start r)\<lparr> updated_at := t1 \<rparr>"
    "stored s1" "clean ?c (run_id r) (snd s1)"
    by (rule xcommit_step [OF st _ assms(11), of ?start env]) simp_all
  have f1: "run_id (fst s1) = run_id r" "source_text (fst s1) = source_text r" "title (fst s1) = title r"
    by (simp_all add: c1(2) source_text_def)
  obtain d2 where e2: "xevent env (status_event RUN_EXECUTION_STARTED PROCESSING
              (lit ''Started workflow '' @ wf_key ?c @ lit ''.'')) s1 = (Inr (), (fst s1, d2))"
    "stored (fst s1, d2)" "clean ?c (run_id r) d2"
    using smooth_step [OF ev [of RUN_EXECUTION_STARTED "fst s1"], of "snd s1"] c1(3,4) f1(1) by auto
  obtain t3 s3 where m: "messy_notes_v1 env w (reg_tools reg) (fst s1, d2) = (Inr (), s3)"
    "fst s3 = (fst s1)\<lparr> output_brief := Some (dumps Pydantic (JObj (brief_dict (brief_of_notes wide (title r) (source_text r))))),
                 updated_at := t3 \<rparr>" "stored s3" "clean ?c (run_id r) (snd s3)"
    using ready_workflow.messy_notes_step [OF ready e2(2)] e2(3) f1 assms(9,10) by metis
  have f3: "run_id (fst s3) = run_id r" by (simp add: m(2) f1(1))
  obtain t4 s4 where c4: "xcommit env ?finish (fst s3, snd s3) = (Inr (), s4)" "fst s4 = (?finish (fst s3))\<lparr> updated_at := t4 \<rparr>"
    "stored s4" "clean ?c (run_id r) (snd s4)"
    by (rule xcommit_step [of "fst s3" "snd s3" ?finish ?c "run_id r" env]) (simp_all add: m(3,4))
  have c4': "xcommit env ?finish s3 = (Inr (), s4)" using c4(1) unfolding prod.collapse .
  have f4: "run_id (fst s4) = run_id r" by (simp add: c4(2) f3)
  obtain d5 where e5: "xevent env (status_event RUN_COMPLETED COMPLETED (lit ''Workflow completed.'')) s4 = (Inr (), (fst s4, d5))"
    "stored (fst s4, d5)" "clean ?c (run_id r) d5"
    using smooth_step [OF ev [of RUN_COMPLETED "fst s4"], of "snd s4"] c4(3,4) f4 by auto
  have keys: "set (wf_post_processors ?c) \<subseteq> fst ` set (reg_post_processors reg)"
    using assms(5) by (simp add: closed_workflow_def Let_def)
  obtain s6 where pp: "run_post_processors env w (reg_post_processors reg) [] (wf_post_processors ?c) (fst s4, d5) = (Inr (), s6)"
    "stored s6" "clean ?c (run_id r) (snd s6)"
    "wf_post_processors ?c \<noteq> [] \<longrightarrow> audited_ok (fst s6) (set (wf_post_processors ?c))"
    using post_processors_step [OF e5(2) _ keys, where past = "{}" and results = "[]" and env = env and w = w] e5(3) f4 by auto
  have "same but_results (fst s4) (fst s6)"
    using framedD [OF framed_post_processors e5(2) pp(1)] by (simp add: stays_def)
  note f6 = but_results_fields [OF this]
  have "execute_body env reg (r, db) = (Inr (), s6)"
    unfolding execute_body_def execute_messy_notes_def
    by (simp add: xbind_def xget_def xlift_def assms(3,4) c1(1) e2(1) [unfolded assms(4)] m(1) c4' e5(1) pp(1))
  then have "execute_run_workflow env reg db r = (Inr (fst s6), snd s6)"
    using assms(1) by (cases s6) (simp add: execute_run_workflow_def)
  moreover have "run_status (fst s6) = COMPLETED" by (simp add: f6 c4(2))
  moreover have "output_brief (fst s6) = Some (dumps Pydantic (JObj (brief_dict (brief_of_notes wide (title r) (source_text r)))))"
    unfolding f6 by (simp add: c4(2) m(2))
  ultimately show ?thesis using pp(3,4) by blast
qed

text \<open>
  C16: A messy-notes run of a closed workflow that grants the pipeline its tools and
  handoffs completes when its agents answer: the stored brief is the one the deterministic
  tools give for the run's notes, and when no earlier event of the run broke the
  configuration, none of the new ones does and every configured audit says ''ok''.
\<close>

theorem messy_notes_run_completes:
  assumes "executable_status r" and "find_row run_id (run_id r) (runs db) = Some r"
    and "get_workflow reg (workflow_key r) = Inr w" and "wf_key (wr_config w) = lit ''messy-notes-v1''"
    and "closed_workflow (reg_tools reg) (reg_post_processors reg) (k, w)" and "messy_grants (wr_config w)"
    and "builtin_tools wide (reg_tools reg)" and "agents_answer env"
    and "valid_str (source_text r)" and "\<forall>t. title r = Some t \<longrightarrow> valid_str t"
    and "clean (wr_config w) (run_id r) db"
  shows "\<exists>q db1. execute_run_workflow env reg db r = (Inr q, db1) \<and> run_status q = COMPLETED
     \<and> output_brief q = Some (dumps Pydantic (JObj (brief_dict (brief_of_notes wide (title r) (source_text r)))))
     \<and> clean (wr_config w) (run_id r) db1
     \<and> (wf_post_processors (wr_config w) \<noteq> [] \<longrightarrow> audited_ok q (set (wf_post_processors (wr_config w))))"
  using assms by (rule messy_run_completes)

end
