(* ===== verification/Workflow_Shipped.thy ===== *)
theory Workflow_Shipped
  imports Workflow_Run
begin

text \<open>
  The workflows as shipped (\<^verbatim>\<open>app/resources/workflows\<close>, \<^verbatim>\<open>app/resources/post_processors\<close>):
  they load, and the messy-notes workflow grants its pipeline what it needs.
\<close>

section \<open>The configuration files\<close>

definition local_slm_local_brief_writer :: agent_config where
  "local_slm_local_brief_writer = \<lparr> ag_role = lit ''local_brief_writer'', ag_provider = OLLAMA, ag_model = lit ''messy-brief-local'',
     ag_system_prompt =
       lit ''You convert messy notes into concise structured project briefs. Return only valid'' @
       lit '' JSON with these keys: title, summary, key_points, open_questions, risks,'' @
       lit '' next_actions. Preserve known facts, do not invent details, keep future-scope items'' @
       lit '' out of immediate next actions, and omit irrelevant personal reminders.'' @ [10],
     ag_temperature = Some 0, ag_max_tokens = Some 900, ag_timeout = Some 60,
     ag_tools = [],
     ag_can_handoff_to = [], ag_parallel = None \<rparr>"

definition local_slm :: workflow_config where
  "local_slm = \<lparr> wf_key = lit ''messy-notes-local-slm'',
     wf_description = lit ''Local single-model workflow for turning messy notes into a structured brief using the'' @
       lit '' fine-tuned messy-brief SLM served by Ollama.'' @ [10],
     wf_starting_agent = lit ''local_brief_writer'', wf_post_processors = [lit ''audit-tool-usage-and-handoffs''],
     wf_flags = \<lparr> allow_single_follow_up = True, require_structured_brief_output = True,
       audit_run_events = True \<rparr>,
     wf_agents = [local_slm_local_brief_writer] \<rparr>"

definition messy_v1_orchestrator :: agent_config where
  "messy_v1_orchestrator = \<lparr> ag_role = lit ''orchestrator'', ag_provider = OPENAI, ag_model = lit ''gpt-5-mini'',
     ag_system_prompt =
       lit ''You coordinate the messy-notes demo. Stay inside the invite-only demo scope, keep the'' @
       lit '' workflow bounded, and hand off only to configured agents. Do not drift into generic'' @
       lit '' chat. If the notes are incomplete, surface that plainly instead of inventing missing'' @
       lit '' facts.'' @ [10],
     ag_temperature = None, ag_max_tokens = Some 1200, ag_timeout = Some 30,
     ag_tools = [lit ''load_run_context'', lit ''normalize_input''],
     ag_can_handoff_to = [lit ''extractor'', lit ''reconciler''], ag_parallel = None \<rparr>"

definition messy_v1_extractor :: agent_config where
  "messy_v1_extractor = \<lparr> ag_role = lit ''extractor'', ag_provider = ANTHROPIC, ag_model = lit ''claude-haiku-4-5-20251001'',
     ag_system_prompt =
       lit ''Extract concrete facts, open questions, and conflicts from the persisted run input.'' @
       lit '' Stay grounded in the provided notes and flag uncertainty instead of smoothing it'' @
       lit '' over.'' @ [10],
     ag_temperature = Some 0, ag_max_tokens = Some 1600, ag_timeout = Some 30,
     ag_tools = [lit ''load_run_context'', lit ''split_into_sections'', lit ''extract_claims'', lit ''extract_decisions'', lit ''extract_action_items''],
     ag_can_handoff_to = [lit ''reconciler''], ag_parallel = Some \<lparr> pe_enabled = True, pe_group = Some (lit ''extraction''), pe_can_run_with = [lit ''brief_writer''] \<rparr> \<rparr>"

definition messy_v1_reconciler :: agent_config where
  "messy_v1_reconciler = \<lparr> ag_role = lit ''reconciler'', ag_provider = OPENAI, ag_model = lit ''gpt-5-mini'',
     ag_system_prompt =
       lit ''Reconcile extracted findings into one consistent view of the messy notes. Call out'' @
       lit '' disagreements, missing evidence, and assumptions that still need confirmation before'' @
       lit '' a brief is finalized.'' @ [10],
     ag_temperature = None, ag_max_tokens = Some 1400, ag_timeout = Some 30,
     ag_tools = [lit ''load_run_context'', lit ''find_duplicates'', lit ''find_contradictions''],
     ag_can_handoff_to = [lit ''brief_writer''], ag_parallel = None \<rparr>"

definition messy_v1_brief_writer :: agent_config where
  "messy_v1_brief_writer = \<lparr> ag_role = lit ''brief_writer'', ag_provider = ANTHROPIC, ag_model = lit ''claude-haiku-4-5-20251001'',
     ag_system_prompt =
       lit ''Write a concise structured brief from the reconciled notes. Keep the output'' @
       lit '' practical, bounded, and honest about any unresolved questions.'' @ [10],
     ag_temperature = Some (1 / 5), ag_max_tokens = Some 1800, ag_timeout = Some 45,
     ag_tools = [lit ''load_run_context'', lit ''format_brief'', lit ''persist_brief_draft''],
     ag_can_handoff_to = [], ag_parallel = Some \<lparr> pe_enabled = False, pe_group = Some (lit ''synthesis''), pe_can_run_with = [] \<rparr> \<rparr>"

definition messy_v1 :: workflow_config where
  "messy_v1 = \<lparr> wf_key = lit ''messy-notes-v1'',
     wf_description = lit ''Demo workflow for turning messy notes into a structured brief with bounded agent'' @
       lit '' handoffs, explicit tool use, and auditing hooks.'' @ [10],
     wf_starting_agent = lit ''orchestrator'', wf_post_processors = [lit ''audit-tool-usage-and-handoffs''],
     wf_flags = \<lparr> allow_single_follow_up = True, require_structured_brief_output = True,
       audit_run_events = True \<rparr>,
     wf_agents = [messy_v1_orchestrator, messy_v1_extractor, messy_v1_reconciler, messy_v1_brief_writer] \<rparr>"

definition audit_post_processor :: post_processor_config where
  "audit_post_processor = \<lparr> pp_key = lit ''audit-tool-usage-and-handoffs'', pp_type = AUDIT_TOOL_USAGE_AND_HANDOFFS,
     pp_description = lit ''Future post-run audit that checks tool use and handoffs against the configured'' @
       lit '' workflow boundaries.'' @ [10],
     pp_provider = ANTHROPIC, pp_model = lit ''claude-haiku-4-5-20251001'',
     pp_system_prompt =
       lit ''You audit the messy-notes demo workflow after a run finishes. Check whether tools'' @
       lit '' were used appropriately, whether handoffs stayed inside the configured graph, and'' @
       lit '' whether the run log is sufficient for review.'' @ [10],
     pp_prompt_template =
       lit ''WORKFLOW: {workflow_key}'' @ [10] @
       lit ''AGENT GRAPH: {agent_graph}'' @ [10] @
       lit ''RUN EVENTS: {run_events}'' @ [10] @ [10] @
       lit ''Audit tool usage and handoff appropriateness for this run.'' @ [10],
     pp_temperature = Some 0, pp_max_tokens = Some 1200, pp_timeout = Some 30 \<rparr>"

section \<open>Valid configurations load\<close>

lemma add_entries_distinct: "distinct (map te_name (reg @ es)) \<Longrightarrow> add_entries reg es = Inr (reg @ es)"
  by (induction reg es rule: add_entries.induct) auto

lemma get_tools_known: "set ns \<subseteq> te_name ` set reg \<Longrightarrow> \<exists>es. get_tools reg ns = Inr es"
proof (induction ns)
  case (Cons n ns)
  then obtain e es where "get_tool reg n = Inr e" "get_tools reg ns = Inr es" using get_tool_known [of reg n] by auto
  then show ?case by simp
qed simp

lemma build_agents_known:
  assumes "\<forall>a \<in> set as. set (ag_tools a) \<subseteq> te_name ` set reg"
    and "truthy (openai_api_key st)" and "truthy (anthropic_api_key st)"
  shows "\<exists>rs. build_agents reg st as = Inr rs"
  using assms(1)
proof (induction as)
  case (Cons a as)
  have "set (ag_tools a) \<subseteq> te_name ` set reg" using Cons.prems by simp
  then obtain es where es: "get_tools reg (ag_tools a) = Inr es" using get_tools_known by blast
  then have p: "\<exists>p. assemble_system_prompt (ag_system_prompt a) reg (ag_tools a) = Inr p"
    by (simp add: assemble_system_prompt_def prompt_block_def resolve_tools_def)
  have "\<exists>m. create_model (ag_provider a) (ag_model a) st = Inr m" if "provider_is_implemented (ag_provider a)"
    using that assms(2,3) by (cases "ag_provider a") (auto simp: create_model_def provider_is_implemented_def)
  then have "\<exists>r. build_agent_runtime a reg st = Inr r"
    using p es by (auto simp: build_agent_runtime_def resolve_tools_def)
  then show ?case using p Cons by auto
qed simp

lemma load_workflows_known:
  assumes "\<forall>w \<in> set ws. validate_workflow w = Inr () \<and> set (wf_post_processors w) \<subseteq> fst ` set pps
       \<and> (\<forall>a \<in> set (wf_agents w). set (ag_tools a) \<subseteq> te_name ` set reg)"
    and "distinct (map fst acc @ map wf_key ws)"
    and "truthy (openai_api_key st)" and "truthy (anthropic_api_key st)"
  shows "\<exists>r. load_workflows reg pps st acc ws = Inr r"
  using assms(1,2)
proof (induction ws arbitrary: acc)
  case (Cons w ws)
  have "filter (\<lambda>k. k \<notin> fst ` set pps) (wf_post_processors w) = []" using Cons.prems(1) by (auto simp: filter_empty_conv)
  moreover have "check_all (\<lambda>a. validate_tool_names reg (wf_key w) (ag_tools a)) (wf_agents w) = Inr ()"
    using Cons.prems(1) by (simp add: check_all_Inr validate_tool_names_Inr)
  ultimately have refs: "validate_workflow_references w pps reg = Inr ()" by (simp add: validate_workflow_references_def)
  have "\<forall>a \<in> set (wf_agents w). set (ag_tools a) \<subseteq> te_name ` set reg" using Cons.prems(1) by simp
  then obtain rs where rs: "build_agents reg st (wf_agents w) = Inr rs" using build_agents_known assms(3,4) by blast
  have "\<exists>r. load_workflows reg pps st (acc @ [(wf_key w, \<lparr> wr_config = w, wr_agents = rs \<rparr>)]) ws = Inr r"
    using Cons.prems by (intro Cons.IH) auto
  moreover have "wf_key w \<notin> fst ` set acc" using Cons.prems(2) by auto
  ultimately show ?case using Cons.prems(1) refs rs by simp
qed simp

lemma load_workflows_configs:
  "load_workflows reg pps st acc ws = Inr r \<Longrightarrow> map (wr_config \<circ> snd) r = map (wr_config \<circ> snd) acc @ ws"
proof (induction reg pps st acc ws arbitrary: r rule: load_workflows.induct)
  case (2 reg pps st acc w ws)
  from "2.prems" obtain agents where v: "wf_key w \<notin> fst ` set acc"
    and l: "load_workflows reg pps st (acc @ [(wf_key w, \<lparr> wr_config = w, wr_agents = agents \<rparr>)]) ws = Inr r"
    by (auto simp: rbind_eq_Inr split: if_splits)
  from "2.IH" [OF v l] show ?case by simp
qed simp

lemma configuration_loads:
  assumes "distinct (map te_name entries)" and "validate_catalog catalog = Inr ()"
    and "\<forall>w \<in> set files. validate_workflow w = Inr () \<and> set (wf_post_processors w) \<subseteq> pp_key ` set catalog
       \<and> (\<forall>a \<in> set (wf_agents w). set (ag_tools a) \<subseteq> te_name ` set entries)"
    and "distinct (map wf_key files)" and "default_key \<in> wf_key ` set files"
    and "truthy (openai_api_key settings)" and "truthy (anthropic_api_key settings)"
  shows "\<exists>workflows. load_workflow_registry entries catalog files default_key settings
     = Inr \<lparr> reg_workflows = workflows, reg_post_processors = map (\<lambda>p. (pp_key p, p)) catalog, reg_tools = entries \<rparr>"
proof -
  let ?pps = "map (\<lambda>p. (pp_key p, p)) catalog"
  have "fst ` set ?pps = pp_key ` set catalog" by force
  then obtain r where r: "load_workflows entries ?pps settings [] files = Inr r"
    using load_workflows_known [of files ?pps entries "[]" settings] assms by auto
  have "map fst r = map wf_key files" using load_workflows_closed [OF r] by simp
  then have keys: "fst ` set r = wf_key ` set files" by (metis list.set_map)
  then have "r \<noteq> []" "default_key \<in> fst ` set r" using assms(5) by auto
  moreover have "ToolRegistry entries = Inr entries"
    using add_entries_distinct [of "[]" entries] assms(1) by (simp add: ToolRegistry_def)
  ultimately show ?thesis using r assms(2) by (simp add: load_workflow_registry_def Let_def)
qed

text \<open>
  A configuration loads when its tool names and workflow keys are distinct, every file
  and the catalogue pass their validators, every tool and post-processor a workflow mentions
  exists, the default workflow is among the files, and the two provider keys are set; the
  registry then holds exactly the given tools, catalogue and workflow keys.
\<close>

theorem valid_configuration_loads:
  assumes "distinct (map te_name entries)" and "validate_catalog catalog = Inr ()"
    and "\<forall>w \<in> set files. validate_workflow w = Inr () \<and> set (wf_post_processors w) \<subseteq> pp_key ` set catalog
       \<and> (\<forall>a \<in> set (wf_agents w). set (ag_tools a) \<subseteq> te_name ` set entries)"
    and "distinct (map wf_key files)" and "default_key \<in> wf_key ` set files"
    and "truthy (openai_api_key settings)" and "truthy (anthropic_api_key settings)"
  shows "\<exists>reg. load_workflow_registry entries catalog files default_key settings = Inr reg
     \<and> map fst (reg_workflows reg) = map wf_key files \<and> reg_tools reg = entries
     \<and> reg_post_processors reg = map (\<lambda>p. (pp_key p, p)) catalog"
proof -
  obtain ws where l: "load_workflow_registry entries catalog files default_key settings
     = Inr \<lparr> reg_workflows = ws, reg_post_processors = map (\<lambda>p. (pp_key p, p)) catalog, reg_tools = entries \<rparr>"
    using configuration_loads [OF assms] by blast
  then show ?thesis using load_registry_closed(5) [OF l] by simp
qed

section \<open>The shipped ones do\<close>

definition shipped_keys :: provider_settings where
  "shipped_keys = \<lparr> openai_api_key = Some (lit ''k''), anthropic_api_key = Some (lit ''k''),
     ollama_base_url = lit ''http://localhost:11434/v1'', ollama_api_key = lit ''ollama'' \<rparr>"

lemmas shipped_agents = local_slm_local_brief_writer_def messy_v1_orchestrator_def messy_v1_extractor_def
  messy_v1_reconciler_def messy_v1_brief_writer_def

lemma valid_local_slm: "validate_workflow local_slm = Inr ()"
  by (simp add: validate_workflow_def local_slm_def shipped_agents validate_agent_def agent_fields_ok_def
      model_knobs_ok_def validate_unique_tool_names_def validate_agent_relationships_def
      check_agent_references_def unknown_names_def)

lemma valid_messy_v1: "validate_workflow messy_v1 = Inr ()"
  by (simp add: validate_workflow_def messy_v1_def shipped_agents validate_agent_def agent_fields_ok_def
      model_knobs_ok_def validate_unique_tool_names_def validate_agent_relationships_def
      check_agent_references_def unknown_names_def)

definition shipped_registry :: "(nat \<Rightarrow> bool) \<Rightarrow> tool workflow_registry result" where
  "shipped_registry wide = load_workflow_registry (workflow_tool_entries wide) [audit_post_processor]
     [local_slm, messy_v1] (lit ''messy-notes-v1'') shipped_keys"

lemma te_names: "map te_name (workflow_tool_entries wide) =
   map lit [''capture_notification_preference'', ''extract_action_items'', ''extract_claims'', ''extract_decisions'',
     ''find_contradictions'', ''find_duplicates'', ''format_brief'', ''load_run_context'', ''normalize_input'',
     ''persist_brief_draft'', ''split_into_sections'']"
  by (simp add: workflow_tool_entries_def entry_def)


lemma te_names_distinct: "distinct (map te_name (workflow_tool_entries wide))"
  by (simp add: te_names)

lemma te_names_set: "te_name ` set (workflow_tool_entries wide) = set (map te_name (workflow_tool_entries wide))"
  by simp

lemma shipped_ok:
  shows "validate_catalog [audit_post_processor] = Inr ()"
    and "\<forall>w \<in> set [local_slm, messy_v1]. validate_workflow w = Inr ()
       \<and> set (wf_post_processors w) \<subseteq> pp_key ` set [audit_post_processor]
       \<and> (\<forall>a \<in> set (wf_agents w). set (ag_tools a) \<subseteq> te_name ` set (workflow_tool_entries wide))"
    and "distinct (map wf_key [local_slm, messy_v1])"
    and "lit ''messy-notes-v1'' \<in> wf_key ` set [local_slm, messy_v1]"
    and "truthy (openai_api_key shipped_keys)" and "truthy (anthropic_api_key shipped_keys)"
proof -
  show "validate_catalog [audit_post_processor] = Inr ()"
    by (simp add: validate_catalog_def post_processor_ok_def model_knobs_ok_def audit_post_processor_def)
  have "\<forall>a \<in> set (wf_agents w). set (ag_tools a) \<subseteq> te_name ` set (workflow_tool_entries wide)"
    if "w \<in> {local_slm, messy_v1}" for w
    using that unfolding te_names_set te_names by (auto simp: local_slm_def messy_v1_def shipped_agents)
  then show "\<forall>w \<in> set [local_slm, messy_v1]. validate_workflow w = Inr ()
       \<and> set (wf_post_processors w) \<subseteq> pp_key ` set [audit_post_processor]
       \<and> (\<forall>a \<in> set (wf_agents w). set (ag_tools a) \<subseteq> te_name ` set (workflow_tool_entries wide))"
    using valid_local_slm valid_messy_v1
    by (simp add: local_slm_def messy_v1_def audit_post_processor_def)
qed (simp_all add: local_slm_def messy_v1_def shipped_keys_def truthy_def)

lemma shipped_wf_keys: "map wf_key [local_slm, messy_v1] = map lit [''messy-notes-local-slm'', ''messy-notes-v1'']"
  by (simp add: local_slm_def messy_v1_def)

theorem valid_configuration_loads_witness:
  "\<exists>reg. shipped_registry (\<lambda>_. False) = Inr reg
     \<and> map fst (reg_workflows reg) = map lit [''messy-notes-local-slm'', ''messy-notes-v1'']"
  using valid_configuration_loads [OF te_names_distinct [of "\<lambda>_. False"] shipped_ok(1) shipped_ok(2) [of "\<lambda>_. False"] shipped_ok(3-6)]
  unfolding shipped_registry_def shipped_wf_keys by blast

lemma shipped_closed:
  obtains reg w where "shipped_registry wide = Inr reg" "get_workflow reg (lit ''messy-notes-v1'') = Inr w"
    "wr_config w = messy_v1" "reg_tools reg = workflow_tool_entries wide"
    "closed_workflow (workflow_tool_entries wide) (reg_post_processors reg) (lit ''messy-notes-v1'', w)"
proof -
  obtain ws where l: "shipped_registry wide = Inr \<lparr> reg_workflows = ws,
      reg_post_processors = map (\<lambda>p. (pp_key p, p)) [audit_post_processor], reg_tools = workflow_tool_entries wide \<rparr>"
    (is "_ = Inr ?reg")
    using configuration_loads [OF te_names_distinct shipped_ok] unfolding shipped_registry_def by blast
  have "load_workflows (workflow_tool_entries wide) (map (\<lambda>p. (pp_key p, p)) [audit_post_processor]) shipped_keys []
      [local_slm, messy_v1] = Inr ws"
    using l by (auto simp: shipped_registry_def load_workflow_registry_def rbind_eq_Inr Let_def split: if_splits)
  from load_workflows_configs [OF this] have cfg: "map (wr_config \<circ> snd) ws = [local_slm, messy_v1]" by simp
  note c = load_registry_closed [OF l [unfolded shipped_registry_def]]
  have keys: "map fst ws = [lit ''messy-notes-local-slm'', lit ''messy-notes-v1'']"
    using c(5) unfolding shipped_wf_keys by simp
  obtain v w where ws: "ws = [(lit ''messy-notes-local-slm'', v), (lit ''messy-notes-v1'', w)]"
    using keys by (auto simp: map_eq_Cons_conv)
  show ?thesis
  proof (rule that [OF l, of w])
    show "get_workflow ?reg (lit ''messy-notes-v1'') = Inr w" by (simp add: get_workflow_def ws)
    show "wr_config w = messy_v1" using cfg by (simp add: ws)
    show "closed_workflow (workflow_tool_entries wide) (reg_post_processors ?reg) (lit ''messy-notes-v1'', w)"
      using c(1) by (simp add: ws)
  qed simp
qed

definition shipped_runtime :: "(nat \<Rightarrow> bool) \<Rightarrow> workflow_runtime" where
  "shipped_runtime wide =
     (case shipped_registry wide of Inr reg \<Rightarrow> (case get_workflow reg (lit ''messy-notes-v1'') of Inr w \<Rightarrow> w))"

lemma shipped_grants: "messy_grants messy_v1"
  by (simp add: messy_grants_def grants_def messy_v1_def shipped_agents)

lemma shipped_builtin: "builtin_tools wide (workflow_tool_entries wide)"
proof -
  have "get_tool (workflow_tool_entries wide) (te_name e) = Inr e" if "e \<in> set (workflow_tool_entries wide)" for e
    using find_row_distinct [OF te_names_distinct that] by (simp add: get_tool_def)
  then show ?thesis by (simp add: builtin_tools_def)
qed

definition test_env :: exec_env where
  "test_env = \<lparr> xe_environment = lit ''test'', xe_agent = (\<lambda>a p. Inr []), xe_db_clock = (\<lambda>i. i),
     xe_completed_now = 7, xe_failed_now = 8, xe_float = (\<lambda>x. lit ''0.72''), xe_repr = (\<lambda>s. s),
     xe_json_error = (\<lambda>s. []) \<rparr>"

lemma test_env_answers: "agents_answer test_env"
  by (simp add: agents_answer_def test_env_def)

interpretation shipped: ready_workflow test_env wide "workflow_tool_entries wide"
  "[(pp_key audit_post_processor, audit_post_processor)]" "lit ''messy-notes-v1''" "shipped_runtime wide" for wide
proof -
  obtain reg w where "shipped_registry wide = Inr reg" "get_workflow reg (lit ''messy-notes-v1'') = Inr w"
    "wr_config w = messy_v1"
    "closed_workflow (workflow_tool_entries wide) (reg_post_processors reg) (lit ''messy-notes-v1'', w)"
    "reg_tools reg = workflow_tool_entries wide"
    by (rule shipped_closed)
  moreover have "reg_post_processors reg = [(pp_key audit_post_processor, audit_post_processor)]"
    using calculation(1) unfolding shipped_registry_def load_workflow_registry_def
    by (auto simp: rbind_eq_Inr Let_def split: if_splits)
  ultimately show "ready_workflow test_env wide (workflow_tool_entries wide)
     [(pp_key audit_post_processor, audit_post_processor)] (lit ''messy-notes-v1'') (shipped_runtime wide)"
    using shipped_grants shipped_builtin test_env_answers
    by (unfold_locales) (simp_all add: shipped_runtime_def)
qed

end
