(* ===== verification/Sms.thy ===== *)
theory Sms
  imports Runs Digits
begin

text \<open>
  SMS notifications: the tables of \<^verbatim>\<open>app/models/sms.py\<close>, the services of
  \<^verbatim>\<open>app/services/notifications.py\<close>, the Twilio client of \<^verbatim>\<open>app/services/twilio.py\<close>, the model
  calls of \<^verbatim>\<open>app/services/sms_ai.py\<close> and the webhook of \<^verbatim>\<open>app/api/routes/webhooks.py\<close>.

  The HTTP transport and the language model are arguments that may raise. A function that
  commits returns the database it leaves.
\<close>

section \<open>Tables and settings\<close>

record sms_conversation =
  cv_id :: int
  cv_phone :: str
  cv_run_id :: "int option"
  cv_llm_reply_count :: int

record sms_message =
  ms_id :: int
  ms_conversation_id :: "int option"
  ms_run_id :: "int option"
  ms_phone :: str
  ms_direction :: str
  ms_body :: str
  ms_provider :: str
  ms_sid :: "str option"
  ms_status :: str
  ms_error :: "str option"

record sms_opt_out =
  oo_phone :: str
  oo_source :: str
  oo_reason :: "str option"

record sms_db =
  conversations :: "sms_conversation list"
  next_conversation_id :: int
  messages :: "sms_message list"
  next_message_id :: int
  opt_outs :: "sms_opt_out list"

definition empty_sms_db :: sms_db where
  "empty_sms_db = \<lparr> conversations = [], next_conversation_id = 1, messages = [],
     next_message_id = 1, opt_outs = [] \<rparr>"

record sms_settings =
  sms_notification_enabled :: bool
  twilio_account_sid :: "str option"
  twilio_auth_token :: "str option"
  twilio_from_number :: "str option"
  environment :: str

definition LLM_REPLY_LIMIT :: int where
  "LLM_REPLY_LIMIT = 2"

definition SMS_LIMIT_MESSAGE :: str where
  "SMS_LIMIT_MESSAGE = lit ''This SMS thread is limited for the demo. Please return to the app for the '' @
     lit ''full run details.''"

definition SMS_FALLBACK_MESSAGE :: str where
  "SMS_FALLBACK_MESSAGE = lit ''Thanks for the reply. I could not generate a useful SMS answer right now; '' @
     lit ''please return to the app for the run details.''"

definition SMS_OPT_OUT_CONFIRMATION :: str where
  "SMS_OPT_OUT_CONFIRMATION = lit ''Understood - we won'' @ [39] @ lit ''t send future messages to this number.''"

definition EXACT_OPT_OUT_MESSAGES :: "str list" where
  "EXACT_OPT_OUT_MESSAGES = [lit ''stop'', lit ''stopall'', lit ''unsubscribe'', lit ''cancel'', lit ''end'', lit ''quit'']"

section \<open>Phone numbers\<close>

definition normalize_us_phone :: "str option \<Rightarrow> str option" where
  "normalize_us_phone phone =
     (case phone of
        None \<Rightarrow> None
      | Some p \<Rightarrow>
          if strip p = [] then None
          else
            let digits0 = filter is_digit p;
                digits = (if length digits0 = 11 \<and> take 1 digits0 = [49] then drop 1 digits0 else digits0)
            in if length digits \<noteq> 10 then None
               else if digits ! 0 \<in> set [48, 49] \<or> digits ! 3 \<in> set [48, 49] then None
               else Some (lit ''+1'' @ digits))"

definition is_phone_opted_out :: "sms_db \<Rightarrow> str \<Rightarrow> bool" where
  "is_phone_opted_out db phone =
     (case normalize_us_phone (Some phone) of
        None \<Rightarrow> False
      | Some n \<Rightarrow> find_row oo_phone n (opt_outs db) \<noteq> None)"

definition upsert_sms_opt_out :: "sms_db \<Rightarrow> str \<Rightarrow> str \<Rightarrow> str option \<Rightarrow> sms_db result" where
  "upsert_sms_opt_out db phone source why =
     (case normalize_us_phone (Some phone) of
        None \<Rightarrow> Inl (ValueError (lit ''Cannot opt out an invalid phone number.''))
      | Some n \<Rightarrow>
          Inr (case find_row oo_phone n (opt_outs db) of
                 None \<Rightarrow> db\<lparr> opt_outs := opt_outs db @ [\<lparr> oo_phone = n, oo_source = source, oo_reason = why \<rparr>] \<rparr>
               | Some _ \<Rightarrow> db\<lparr> opt_outs := update_row oo_phone n
                   (\<lambda>x. x\<lparr> oo_source := source, oo_reason := why \<rparr>) (opt_outs db) \<rparr>))"

definition enrich_notification_preference ::
  "sms_db \<Rightarrow> notification_preference option \<Rightarrow> notification_preference option"
where
  "enrich_notification_preference db pref =
     (case pref of
        None \<Rightarrow> None
      | Some p \<Rightarrow>
          (case phone_number p of
             None \<Rightarrow> Some p
           | Some n \<Rightarrow> Some (p\<lparr> phone_number_blocked := is_phone_opted_out db n \<rparr>)))"

record sms_phone_status =
  ps_valid :: bool
  ps_phone_number :: "str option"
  ps_blocked :: bool

definition get_sms_phone_status :: "sms_db \<Rightarrow> str option \<Rightarrow> sms_phone_status" where
  "get_sms_phone_status db phone =
     (case normalize_us_phone phone of
        None \<Rightarrow> \<lparr> ps_valid = False, ps_phone_number = None, ps_blocked = False \<rparr>
      | Some n \<Rightarrow> \<lparr> ps_valid = True, ps_phone_number = Some n, ps_blocked = is_phone_opted_out db n \<rparr>)"

section \<open>Preferences\<close>

definition capture_notification_preference ::
  "run_db \<Rightarrow> sms_db \<Rightarrow> bool \<Rightarrow> int \<Rightarrow> run \<Rightarrow> bool \<Rightarrow> str option \<Rightarrow> run_db result"
where
  "capture_notification_preference rdb sdb enabled t r wants phone =
     (if wants \<and> \<not> enabled
      then Inl (HTTPException 409 (lit ''SMS notifications are not available yet.''))
      else
        let n = normalize_us_phone phone in
        if wants \<and> n = None
        then Inl (HTTPException 422 (lit ''Enter a valid US phone number for SMS notification.''))
        else if wants \<and> n \<noteq> None \<and> is_phone_opted_out sdb (the n)
        then Inl (HTTPException 409 (lit ''This number is in the permanent opt-out list.''))
        else Inr (save_run t (r\<lparr> preference := Some \<lparr> wants_sms = wants,
               phone_number = (if wants then n else None), phone_number_blocked = False \<rparr> \<rparr>) rdb))"

section \<open>The Twilio client\<close>

record sms_send_result =
  sr_sid :: "str option"
  sr_status :: str

definition hex_upper :: "nat \<Rightarrow> nat" where
  "hex_upper d = (if d < 10 then 48 + d else 55 + d)"

text \<open>\<^verbatim>\<open>urllib.parse.quote_plus\<close> and \<^verbatim>\<open>urlencode\<close>.\<close>

definition quote_byte :: "nat \<Rightarrow> str" where
  "quote_byte b =
     (if (48 \<le> b \<and> b \<le> 57) \<or> (65 \<le> b \<and> b \<le> 90) \<or> (97 \<le> b \<and> b \<le> 122) \<or> b \<in> set [95, 46, 45, 126] then [b]
      else if b = 32 then [43]
      else [37, hex_upper (b div 16), hex_upper (b mod 16)])"

definition quote_plus :: "str \<Rightarrow> str" where
  "quote_plus s = concat (map quote_byte (utf8_encode s))"

definition urlencode :: "(str \<times> str) list \<Rightarrow> str" where
  "urlencode kvs = join (lit ''&'') (map (\<lambda>(k, v). quote_plus k @ lit ''='' @ quote_plus v) kvs)"

text \<open>Base64 with the standard alphabet.\<close>

definition b64encode :: "bytes \<Rightarrow> str" where
  "b64encode raw = map (\<lambda>c. if c = 45 then 43 else if c = 95 then 47 else c) (urlsafe_b64encode raw)"

definition string_or_none :: "json option \<Rightarrow> str option" where
  "string_or_none v = (case v of Some (JStr s) \<Rightarrow> if s = [] then None else Some s | _ \<Rightarrow> None)"

text \<open>URL, form body and Authorization header of the POST; the answer is the body read.\<close>

type_synonym http_post = "str \<Rightarrow> bytes \<Rightarrow> str \<Rightarrow> bytes result"

definition send_sms :: "http_post \<Rightarrow> sms_settings \<Rightarrow> str \<Rightarrow> str \<Rightarrow> sms_send_result result" where
  "send_sms http settings to_phone body =
     (if \<not> truthy (twilio_account_sid settings) \<or> \<not> truthy (twilio_auth_token settings)
         \<or> \<not> truthy (twilio_from_number settings)
      then Inl (RuntimeError (lit ''Twilio SMS credentials are not configured.''))
      else
        let sid = the (twilio_account_sid settings);
            url = lit ''https://api.twilio.com/2010-04-01/Accounts/'' @ sid @ lit ''/Messages.json'';
            payload = urlencode [(lit ''To'', to_phone), (lit ''From'', the (twilio_from_number settings)),
                                 (lit ''Body'', body)];
            token = b64encode (utf8_encode (sid @ lit '':'' @ the (twilio_auth_token settings)))
        in (case rbind (http url payload (lit ''Basic '' @ token)) (\<lambda>raw.
                   case utf8_decode raw of
                     None \<Rightarrow> Inl UnicodeDecodeError
                   | Some s \<Rightarrow> (case loads s of None \<Rightarrow> Inl (ValueError (lit ''JSONDecodeError'')) | Some j \<Rightarrow> Inr j)) of
              Inl e \<Rightarrow> Inl (RuntimeError (error_text e))
            | Inr (JObj d) \<Rightarrow>
                Inr \<lparr> sr_sid = string_or_none (map_of d (lit ''sid'')),
                      sr_status = str_or (string_or_none (map_of d (lit ''status''))) (lit ''sent'') \<rparr>
            | Inr _ \<Rightarrow> Inl (RuntimeError (lit ''Twilio response was not a JSON object.''))))"

section \<open>Recording messages\<close>

text \<open>The latest conversation with the phone, of the given run if there is one.\<close>

definition find_conversation :: "sms_db \<Rightarrow> str \<Rightarrow> int option \<Rightarrow> sms_conversation option" where
  "find_conversation db phone rid =
     (case sort_key (\<lambda>c. - cv_id c)
             (filter (\<lambda>c. cv_phone c = phone \<and> (rid \<noteq> None \<longrightarrow> cv_run_id c = rid)) (conversations db)) of
        [] \<Rightarrow> None | c # _ \<Rightarrow> Some c)"

definition get_or_create_conversation :: "sms_db \<Rightarrow> str \<Rightarrow> int option \<Rightarrow> sms_conversation \<times> sms_db" where
  "get_or_create_conversation db phone rid =
     (case find_conversation db phone rid of
        Some c \<Rightarrow> (c, db)
      | None \<Rightarrow>
          let c = \<lparr> cv_id = next_conversation_id db, cv_phone = phone, cv_run_id = rid, cv_llm_reply_count = 0 \<rparr>
          in (c, db\<lparr> conversations := conversations db @ [c],
                     next_conversation_id := next_conversation_id db + 1 \<rparr>))"

definition add_message :: "sms_message \<Rightarrow> sms_db \<Rightarrow> sms_db" where
  "add_message m db = db\<lparr> messages := messages db @ [m], next_message_id := next_message_id db + 1 \<rparr>"

definition record_outbound_message ::
  "sms_db \<Rightarrow> str \<Rightarrow> int option \<Rightarrow> str \<Rightarrow> str \<Rightarrow> int option \<Rightarrow> str option \<Rightarrow> sms_message \<times> sms_db"
where
  "record_outbound_message db phone rid body status conv err =
     (let m = \<lparr> ms_id = next_message_id db, ms_conversation_id = conv, ms_run_id = rid, ms_phone = phone,
                ms_direction = lit ''outbound'', ms_body = body, ms_provider = lit ''twilio'', ms_sid = None,
                ms_status = status, ms_error = err \<rparr>
      in (m, add_message m db))"

definition record_inbound_message ::
  "sms_db \<Rightarrow> sms_conversation \<Rightarrow> str \<Rightarrow> int option \<Rightarrow> str \<Rightarrow> str option \<Rightarrow> sms_db"
where
  "record_inbound_message db conv phone rid body sid =
     add_message \<lparr> ms_id = next_message_id db, ms_conversation_id = Some (cv_id conv), ms_run_id = rid,
       ms_phone = phone, ms_direction = lit ''inbound'', ms_body = body, ms_provider = lit ''twilio'',
       ms_sid = sid, ms_status = lit ''received'', ms_error = None \<rparr> db"

text \<open>The outcome of a send, written on the message recorded before it.\<close>

definition settle_message :: "sms_send_result result \<Rightarrow> sms_message \<Rightarrow> sms_db \<Rightarrow> sms_db" where
  "settle_message outcome m db =
     db\<lparr> messages := update_row ms_id (ms_id m)
           (\<lambda>x. case outcome of
                  Inr r \<Rightarrow> x\<lparr> ms_sid := sr_sid r, ms_status := sr_status r \<rparr>
                | Inl e \<Rightarrow> x\<lparr> ms_status := lit ''failed'', ms_error := Some (error_text e) \<rparr>) (messages db) \<rparr>"

definition send_reply ::
  "http_post \<Rightarrow> sms_settings \<Rightarrow> sms_db \<Rightarrow> sms_conversation \<Rightarrow> int option \<Rightarrow> str \<Rightarrow> str \<Rightarrow> sms_db"
where
  "send_reply http settings db conv rid phone body =
     (let (m, db1) = record_outbound_message db phone rid body (lit ''attempted'') (Some (cv_id conv)) None
      in settle_message (send_sms http settings phone body) m db1)"

section \<open>Completion notices\<close>

definition completion_message :: "run \<Rightarrow> str" where
  "completion_message r =
     lit ''Your messy-notes run is complete: '' @ str_or (title r) (lit ''Run #'' @ show_int (run_id r)) @
     lit ''. Open the demo app to review the brief and audit summary.''"

definition maybe_send_completion_notification ::
  "http_post \<Rightarrow> sms_settings \<Rightarrow> sms_db \<Rightarrow> run \<Rightarrow> sms_db"
where
  "maybe_send_completion_notification http settings db r =
     (if \<not> sms_notification_enabled settings then db
      else case preference r of
        None \<Rightarrow> db
      | Some p \<Rightarrow>
          if run_status r \<noteq> COMPLETED \<or> \<not> wants_sms p \<or> \<not> truthy (phone_number p) then db
          else
            (case normalize_us_phone (phone_number p) of
               None \<Rightarrow> snd (record_outbound_message db (the (phone_number p)) (Some (run_id r)) []
                 (lit ''skipped_invalid_phone'') None (Some (lit ''Stored SMS phone number is invalid.'')))
             | Some n \<Rightarrow>
                 if is_phone_opted_out db n
                 then snd (record_outbound_message db n (Some (run_id r)) [] (lit ''skipped_opted_out'') None
                   (Some (lit ''Phone number is permanently opted out.'')))
                 else
                   let (conv, db1) = get_or_create_conversation db n (Some (run_id r))
                   in send_reply http settings db1 conv (Some (run_id r)) n (completion_message r)))"

section \<open>Replies\<close>

text \<open>The two model calls: whether a text asks to stop, and a reply to a prompt.\<close>

record sms_model =
  llm_is_opt_out :: "str \<Rightarrow> bool result"
  llm_reply_body :: "str \<Rightarrow> str result"

definition is_opt_out_message :: "sms_model \<Rightarrow> str \<Rightarrow> bool" where
  "is_opt_out_message llm body =
     (if filter (\<lambda>c. 97 \<le> c \<and> c \<le> 122) (lower body) \<in> set EXACT_OPT_OUT_MESSAGES then True
      else (case llm_is_opt_out llm body of Inl _ \<Rightarrow> False | Inr b \<Rightarrow> b))"

definition reply_context :: "run option \<Rightarrow> str" where
  "reply_context r =
     (case r of
        None \<Rightarrow> lit ''No linked run context.'' @ [10]
      | Some q \<Rightarrow> lit ''Run title: '' @ str_or (title q) (lit ''Untitled run'') @ [10]
          @ lit ''Run status: '' @ run_status_value (run_status q) @ [10]
          @ lit ''Generated brief JSON: '' @ str_or (output_brief q) (lit ''{}'') @ [10])"

definition generate_sms_reply_with_llm :: "sms_model \<Rightarrow> str \<Rightarrow> run option \<Rightarrow> str result" where
  "generate_sms_reply_with_llm llm body r =
     rbind (llm_reply_body llm (reply_context r @ [10] @ lit ''Inbound SMS: '' @ body)) (\<lambda>b.
       Inr (take 320 (strip b)))"

definition generate_reply :: "sms_model \<Rightarrow> str \<Rightarrow> run option \<Rightarrow> str" where
  "generate_reply llm body r =
     (case generate_sms_reply_with_llm llm body r of
        Inl _ \<Rightarrow> SMS_FALLBACK_MESSAGE
      | Inr reply \<Rightarrow> if reply = [] then SMS_FALLBACK_MESSAGE else reply)"

definition count_reply :: "sms_conversation \<Rightarrow> sms_db \<Rightarrow> sms_db" where
  "count_reply conv db =
     db\<lparr> conversations := update_row cv_id (cv_id conv)
           (\<lambda>c. c\<lparr> cv_llm_reply_count := cv_llm_reply_count conv + 1 \<rparr>) (conversations db) \<rparr>"

text \<open>\<^verbatim>\<open>db.get(Run, conversation.run_id) if conversation.run_id else None\<close>\<close>

definition conversation_run :: "run_db \<Rightarrow> sms_conversation \<Rightarrow> run option" where
  "conversation_run rdb conv =
     (case cv_run_id conv of
        None \<Rightarrow> None
      | Some i \<Rightarrow> if i = 0 then None else find_row run_id i (runs rdb))"

definition handle_inbound_sms_reply ::
  "http_post \<Rightarrow> sms_model \<Rightarrow> sms_settings \<Rightarrow> run_db \<Rightarrow> sms_db \<Rightarrow> str \<Rightarrow> str \<Rightarrow> str option \<Rightarrow> sms_db result"
where
  "handle_inbound_sms_reply http llm settings rdb db from_phone body sid =
     (case normalize_us_phone (Some from_phone) of
        None \<Rightarrow> Inr db
      | Some n \<Rightarrow>
          let (conv, db1) = get_or_create_conversation db n None;
              r = conversation_run rdb conv;
              rid = map_option run_id r;
              db2 = record_inbound_message db1 conv n rid body sid
          in if is_opt_out_message llm body
             then rbind (upsert_sms_opt_out db2 n (lit ''twilio_reply'') (Some (lit ''Inbound SMS opt-out intent.''))) (\<lambda>db3.
                    Inr (send_reply http settings db3 conv rid n SMS_OPT_OUT_CONFIRMATION))
             else if is_phone_opted_out db2 n then Inr db2
             else if cv_llm_reply_count conv < LLM_REPLY_LIMIT
             then Inr (send_reply http settings (count_reply conv db2) conv rid n (generate_reply llm body r))
             else Inr (send_reply http settings db2 conv rid n SMS_LIMIT_MESSAGE))"

section \<open>The webhook\<close>

definition valid_twilio_signature :: "str \<Rightarrow> (str \<times> str) list \<Rightarrow> str \<Rightarrow> str \<Rightarrow> bool result" where
  "valid_twilio_signature url form signature auth_token =
     compare_digest (b64encode (hmac_sha1 (utf8_encode auth_token)
         (utf8_encode (url @ concat (map (\<lambda>(k, v). k @ v) (sort_key fst form))))))
       signature"

definition message_sid :: "(str \<times> str) list \<Rightarrow> str option" where
  "message_sid form =
     (if truthy (map_of form (lit ''MessageSid'')) then map_of form (lit ''MessageSid'')
      else map_of form (lit ''SmsSid''))"

text \<open>
  The form fields as a dict (the last value of a repeated key), the signature header, and
  the answer: None stands for 202, and an exception carries its status.
\<close>

definition twilio_sms_webhook ::
  "http_post \<Rightarrow> sms_model \<Rightarrow> sms_settings \<Rightarrow> run_db \<Rightarrow> sms_db \<Rightarrow> str \<Rightarrow> (str \<times> str) list \<Rightarrow> str option
     \<Rightarrow> error option \<times> sms_db"
where
  "twilio_sms_webhook http llm settings rdb db url form signature =
     (let checked =
            (if truthy signature \<and> truthy (twilio_auth_token settings)
             then rbind (valid_twilio_signature url form (the signature) (the (twilio_auth_token settings))) (\<lambda>ok.
                    if ok then Inr () else Inl (HTTPException 403 (lit ''Invalid Twilio webhook signature.'')))
             else Inr ())
      in case checked of
           Inl e \<Rightarrow> (Some e, db)
         | Inr _ \<Rightarrow>
             if \<not> truthy (map_of form (lit ''From'')) \<or> map_of form (lit ''Body'') = None
             then (Some (HTTPException 422 (lit ''Twilio webhook requires From and Body fields.'')), db)
             else
               (case handle_inbound_sms_reply http llm settings rdb db
                       (the (map_of form (lit ''From''))) (the (map_of form (lit ''Body'')))
                       (message_sid form) of
                  Inl e \<Rightarrow> (Some (HTTPException 500 (lit ''Unable to process inbound SMS.'')), db)
                | Inr db1 \<Rightarrow> (None, db1)))"

section \<open>The system\<close>

inductive sms_step :: "sms_db \<Rightarrow> sms_db \<Rightarrow> bool" where
  notify: "sms_step db (maybe_send_completion_notification http st db r)"
| webhook: "sms_step db (snd (twilio_sms_webhook http llm st rdb db url form signature))"

subsection \<open>Phone numbers in normal form\<close>

lemma is_digit_not_plus: "\<not> is_digit 43"
  by (simp add: is_digit_ascii)

lemma is_digit_one: "is_digit 49"
  by (simp add: is_digit_ascii)

lemma normalize_us_phone_Some:
  assumes "normalize_us_phone p = Some n"
  obtains ds where "n = lit ''+1'' @ ds" "length ds = 10" "list_all is_digit ds"
    "ds ! 0 \<noteq> 48 \<and> ds ! 0 \<noteq> 49 \<and> ds ! 3 \<noteq> 48 \<and> ds ! 3 \<noteq> 49"
proof -
  obtain q where q: "p = Some q" using assms by (cases p) (auto simp: normalize_us_phone_def)
  let ?d0 = "filter is_digit q"
  let ?ds = "if length ?d0 = 11 \<and> take 1 ?d0 = [49] then drop 1 ?d0 else ?d0"
  have "list_all is_digit ?ds" by (auto simp: list_all_iff dest: in_set_dropD)
  moreover have "length ?ds = 10 \<and> n = lit ''+1'' @ ?ds \<and> ?ds ! 0 \<noteq> 48 \<and> ?ds ! 0 \<noteq> 49 \<and> ?ds ! 3 \<noteq> 48 \<and> ?ds ! 3 \<noteq> 49"
    using assms unfolding q normalize_us_phone_def by (simp only: option.case Let_def) (auto split: if_splits)
  ultimately show ?thesis using that by blast
qed

lemma normalize_us_phone_digits:
  assumes "length ds = 10" and "list_all is_digit ds"
    and "ds ! 0 \<noteq> 48 \<and> ds ! 0 \<noteq> 49 \<and> ds ! 3 \<noteq> 48 \<and> ds ! 3 \<noteq> 49"
  shows "normalize_us_phone (Some ds) = Some (lit ''+1'' @ ds)"
    and "normalize_us_phone (Some (lit ''+1'' @ ds)) = Some (lit ''+1'' @ ds)"
proof -
  have f: "filter is_digit ds = ds" using assms(2) by (simp add: list_all_iff)
  have sp: "\<not> is_space c" if "is_digit c" for c
    using that by (cases "c < 128") (auto simp: is_digit_ascii is_space_def is_digit_def digit_value_def digit_zeros_def)
  have "strip ds \<noteq> []" using assms(1,2) sp by (cases ds) (auto simp: strip_eq_Nil_iff)
  then show "normalize_us_phone (Some ds) = Some (lit ''+1'' @ ds)"
    using assms f by (simp add: normalize_us_phone_def)
  have "strip (lit ''+1'' @ ds) \<noteq> []" using sp [OF is_digit_one] by (auto simp: strip_eq_Nil_iff lit_def)
  moreover have "filter is_digit (lit ''+1'' @ ds) = 49 # ds" by (simp add: lit_def f is_digit_not_plus is_digit_one)
  ultimately show "normalize_us_phone (Some (lit ''+1'' @ ds)) = Some (lit ''+1'' @ ds)"
    using assms by (simp add: normalize_us_phone_def)
qed

lemma normalize_us_phone_idem: "normalize_us_phone p = Some n \<Longrightarrow> normalize_us_phone (Some n) = Some n"
  by (elim normalize_us_phone_Some) (simp add: normalize_us_phone_digits)

lemma opted_out_normal: "normalize_us_phone p = Some n \<Longrightarrow> is_phone_opted_out db n \<longleftrightarrow> n \<in> oo_phone ` set (opt_outs db)"
  by (simp add: is_phone_opted_out_def normalize_us_phone_idem find_row_None)

subsection \<open>What an operation leaves alone\<close>

definition talk :: "str \<Rightarrow> sms_message \<Rightarrow> bool" where
  "talk n m \<longleftrightarrow> ms_phone m = n \<and> ms_direction m = lit ''outbound'' \<and> ms_body m \<noteq> []
     \<and> ms_body m \<noteq> SMS_OPT_OUT_CONFIRMATION"

definition talk_count :: "str \<Rightarrow> sms_db \<Rightarrow> nat" where
  "talk_count n db = length (filter (talk n) (messages db))"

definition conversations_ok :: "sms_db \<Rightarrow> bool" where
  "conversations_ok db \<longleftrightarrow> distinct (map cv_id (conversations db))
     \<and> (\<forall>c \<in> set (conversations db). cv_id c < next_conversation_id db
          \<and> 0 \<le> cv_llm_reply_count c \<and> cv_llm_reply_count c \<le> LLM_REPLY_LIMIT)"

lemma settle_message_simps [simp]:
  "conversations (settle_message out m db) = conversations db"
  "next_conversation_id (settle_message out m db) = next_conversation_id db"
  "opt_outs (settle_message out m db) = opt_outs db"
  "talk_count n (settle_message out m db) = talk_count n db"
proof -
  have "talk n (f x) = talk n x"
    if "f = (\<lambda>x. if ms_id x = ms_id m then (case out of Inr r \<Rightarrow> x\<lparr> ms_sid := sr_sid r, ms_status := sr_status r \<rparr>
        | Inl e \<Rightarrow> x\<lparr> ms_status := lit ''failed'', ms_error := Some (error_text e) \<rparr>) else x)" for f x
    by (cases out) (simp_all add: that talk_def)
  then show "talk_count n (settle_message out m db) = talk_count n db"
    by (simp add: talk_count_def settle_message_def update_row_def filter_map o_def)
qed (simp_all add: settle_message_def)

lemma add_message_simps [simp]:
  "conversations (add_message m db) = conversations db"
  "next_conversation_id (add_message m db) = next_conversation_id db"
  "opt_outs (add_message m db) = opt_outs db"
  "talk_count n (add_message m db) = talk_count n db + (if talk n m then 1 else 0)"
  by (simp_all add: add_message_def talk_count_def)

lemma record_outbound_simps [simp]:
  "conversations (snd (record_outbound_message db p rid body s cv err)) = conversations db"
  "next_conversation_id (snd (record_outbound_message db p rid body s cv err)) = next_conversation_id db"
  "opt_outs (snd (record_outbound_message db p rid body s cv err)) = opt_outs db"
  "talk_count n (snd (record_outbound_message db p rid body s cv err)) = talk_count n db
     + (if p = n \<and> body \<noteq> [] \<and> body \<noteq> SMS_OPT_OUT_CONFIRMATION then 1 else 0)"
  by (simp_all add: record_outbound_message_def Let_def talk_def)

lemma record_inbound_simps [simp]:
  "conversations (record_inbound_message db cv p rid body sid) = conversations db"
  "next_conversation_id (record_inbound_message db cv p rid body sid) = next_conversation_id db"
  "opt_outs (record_inbound_message db cv p rid body sid) = opt_outs db"
  "talk_count n (record_inbound_message db cv p rid body sid) = talk_count n db"
  by (simp_all add: record_inbound_message_def talk_def)

lemma send_reply_simps [simp]:
  "conversations (send_reply http st db cv rid p body) = conversations db"
  "next_conversation_id (send_reply http st db cv rid p body) = next_conversation_id db"
  "opt_outs (send_reply http st db cv rid p body) = opt_outs db"
  "talk_count n (send_reply http st db cv rid p body) = talk_count n db
     + (if p = n \<and> body \<noteq> [] \<and> body \<noteq> SMS_OPT_OUT_CONFIRMATION then 1 else 0)"
  by (simp_all add: send_reply_def record_outbound_message_def Let_def talk_def)

lemma get_or_create_simps [simp]:
  "opt_outs (snd (get_or_create_conversation db p rid)) = opt_outs db"
  "messages (snd (get_or_create_conversation db p rid)) = messages db"
  "talk_count n (snd (get_or_create_conversation db p rid)) = talk_count n db"
  by (simp_all add: get_or_create_conversation_def talk_count_def Let_def split: option.split)

lemma find_conversation_Some: "find_conversation db p rid = Some c \<Longrightarrow> c \<in> set (conversations db) \<and> cv_phone c = p"
proof -
  assume "find_conversation db p rid = Some c"
  then obtain cs where cs: "sort_key (\<lambda>c. - cv_id c)
      (filter (\<lambda>c. cv_phone c = p \<and> (rid \<noteq> None \<longrightarrow> cv_run_id c = rid)) (conversations db)) = c # cs"
    by (auto simp: find_conversation_def split: list.splits)
  then have "c \<in> set (sort_key (\<lambda>c. - cv_id c)
      (filter (\<lambda>c. cv_phone c = p \<and> (rid \<noteq> None \<longrightarrow> cv_run_id c = rid)) (conversations db)))" by simp
  then show ?thesis by simp
qed

lemma get_or_create_ok:
  assumes "conversations_ok db" and "get_or_create_conversation db p rid = (c, db')"
  shows "conversations_ok db'" and "c \<in> set (conversations db')"
proof -
  consider "find_conversation db p rid = Some c" "db' = db"
    | "find_conversation db p rid = None" "c = \<lparr> cv_id = next_conversation_id db, cv_phone = p, cv_run_id = rid, cv_llm_reply_count = 0 \<rparr>"
      "db' = db\<lparr> conversations := conversations db @ [c], next_conversation_id := next_conversation_id db + 1 \<rparr>"
    using assms(2) by (auto simp: get_or_create_conversation_def Let_def split: option.splits)
  then have "conversations_ok db' \<and> c \<in> set (conversations db')"
  proof cases
    case 1
    then show ?thesis using assms(1) find_conversation_Some by blast
  next
    case 2
    have "next_conversation_id db \<notin> cv_id ` set (conversations db)"
      using assms(1) by (fastforce simp: conversations_ok_def)
    then show ?thesis using assms(1) 2(2,3) by (fastforce simp: conversations_ok_def LLM_REPLY_LIMIT_def)
  qed
  then show "conversations_ok db'" "c \<in> set (conversations db')" by blast+
qed

lemma conversations_ok_cong:
  "conversations db' = conversations db \<Longrightarrow> next_conversation_id db' = next_conversation_id db
     \<Longrightarrow> conversations_ok db' = conversations_ok db"
  by (simp add: conversations_ok_def)

lemma count_reply_ok:
  assumes "conversations_ok db" and "c \<in> set (conversations db)" and "cv_llm_reply_count c < LLM_REPLY_LIMIT"
  shows "conversations_ok (count_reply c db)"
  using assms by (auto simp: conversations_ok_def count_reply_def map_key_update_row in_set_update_row)

lemma count_reply_simps [simp]:
  "opt_outs (count_reply c db) = opt_outs db" "messages (count_reply c db) = messages db"
  "talk_count n (count_reply c db) = talk_count n db"
  by (simp_all add: count_reply_def talk_count_def)

subsection \<open>Every operation, case by case\<close>

lemma notify_effect:
  obtains (silent) "maybe_send_completion_notification http st db r = db"
  | (skipped) p s e where "maybe_send_completion_notification http st db r
        = snd (record_outbound_message db p (Some (run_id r)) [] s None e)"
  | (sent) n conv db1 q where "normalize_us_phone q = Some n" "\<not> is_phone_opted_out db n"
      "get_or_create_conversation db n (Some (run_id r)) = (conv, db1)"
      "maybe_send_completion_notification http st db r
        = send_reply http st db1 conv (Some (run_id r)) n (completion_message r)"
proof (cases "sms_notification_enabled st \<and> preference r \<noteq> None \<and> run_status r = COMPLETED
    \<and> wants_sms (the (preference r)) \<and> truthy (phone_number (the (preference r)))")
  case False
  then have "maybe_send_completion_notification http st db r = db"
    by (auto simp: maybe_send_completion_notification_def split: option.split)
  then show ?thesis by (rule that(1))
next
  case True
  then obtain p where p: "preference r = Some p" by blast
  show ?thesis
  proof (cases "normalize_us_phone (phone_number p)")
    case None
    then show ?thesis using True p that(2) by (simp add: maybe_send_completion_notification_def)
  next
    case (Some n)
    obtain conv db1 where g: "get_or_create_conversation db n (Some (run_id r)) = (conv, db1)" by fastforce
    show ?thesis
    proof (cases "is_phone_opted_out db n")
      case True
      then show ?thesis using \<open>sms_notification_enabled st \<and> _\<close> p Some that(2)
        by (simp add: maybe_send_completion_notification_def)
    next
      case False
      then show ?thesis using True p Some g that(3) [OF Some False g] by (simp add: maybe_send_completion_notification_def)
    qed
  qed
qed

lemma inbound_effect:
  obtains (invalid) "handle_inbound_sms_reply http llm st rdb db from_phone body sid = Inr db"
      "normalize_us_phone (Some from_phone) = None"
  | (opted_out) n conv db1 rid db3 where "normalize_us_phone (Some from_phone) = Some n"
      "get_or_create_conversation db n None = (conv, db1)" "is_opt_out_message llm body"
      "upsert_sms_opt_out (record_inbound_message db1 conv n rid body sid) n (lit ''twilio_reply'')
         (Some (lit ''Inbound SMS opt-out intent.'')) = Inr db3"
      "handle_inbound_sms_reply http llm st rdb db from_phone body sid
         = Inr (send_reply http st db3 conv rid n SMS_OPT_OUT_CONFIRMATION)"
  | (silent) n conv db1 rid where "normalize_us_phone (Some from_phone) = Some n"
      "get_or_create_conversation db n None = (conv, db1)" "is_phone_opted_out db n"
      "handle_inbound_sms_reply http llm st rdb db from_phone body sid = Inr (record_inbound_message db1 conv n rid body sid)"
  | (answered) n conv db1 rid reply where "normalize_us_phone (Some from_phone) = Some n"
      "get_or_create_conversation db n None = (conv, db1)" "\<not> is_phone_opted_out db n"
      "cv_llm_reply_count conv < LLM_REPLY_LIMIT"
      "handle_inbound_sms_reply http llm st rdb db from_phone body sid
         = Inr (send_reply http st (count_reply conv (record_inbound_message db1 conv n rid body sid)) conv rid n reply)"
  | (limited) n conv db1 rid where "normalize_us_phone (Some from_phone) = Some n"
      "get_or_create_conversation db n None = (conv, db1)" "\<not> is_phone_opted_out db n"
      "handle_inbound_sms_reply http llm st rdb db from_phone body sid
         = Inr (send_reply http st (record_inbound_message db1 conv n rid body sid) conv rid n SMS_LIMIT_MESSAGE)"
proof (cases "normalize_us_phone (Some from_phone)")
  case None
  then show ?thesis using that(1) by (simp add: handle_inbound_sms_reply_def)
next
  case (Some n)
  obtain conv db1 where g: "get_or_create_conversation db n None = (conv, db1)" by fastforce
  define rid where "rid = map_option run_id (conversation_run rdb conv)"
  let ?db2 = "record_inbound_message db1 conv n rid body sid"
  have out: "is_phone_opted_out ?db2 n = is_phone_opted_out db n"
    using get_or_create_simps(1) [where db = db and p = n and rid = None] by (simp add: opted_out_normal [OF Some] g)
  note h = handle_inbound_sms_reply_def [of http llm st rdb db from_phone body sid]
  show ?thesis
  proof (cases "is_opt_out_message llm body")
    case True
    obtain db3 where u: "upsert_sms_opt_out ?db2 n (lit ''twilio_reply'') (Some (lit ''Inbound SMS opt-out intent.'')) = Inr db3"
      using normalize_us_phone_idem [OF Some] by (simp add: upsert_sms_opt_out_def)
    show ?thesis by (rule that(2) [OF Some g True u]) (use Some g True u in \<open>simp add: h Let_def rid_def\<close>)
  next
    case nostop: False
    consider "is_phone_opted_out db n" | "\<not> is_phone_opted_out db n" "cv_llm_reply_count conv < LLM_REPLY_LIMIT"
      | "\<not> is_phone_opted_out db n" "\<not> cv_llm_reply_count conv < LLM_REPLY_LIMIT" by blast
    then show ?thesis
    proof cases
      case 1
      then show ?thesis by (intro that(3) [OF Some g]) (use Some g nostop out in \<open>simp_all add: h Let_def rid_def\<close>)
    next
      case 2
      then show ?thesis by (intro that(4) [OF Some g]) (use Some g nostop out in \<open>simp_all add: h Let_def rid_def\<close>)
    next
      case 3
      then show ?thesis by (intro that(5) [OF Some g]) (use Some g nostop out in \<open>simp_all add: h Let_def rid_def\<close>)
    qed
  qed
qed

lemma upsert_effect:
  assumes "upsert_sms_opt_out db n src why = Inr db'" and "normalize_us_phone (Some n) = Some n"
  shows "conversations db' = conversations db" and "next_conversation_id db' = next_conversation_id db"
    and "messages db' = messages db" and "oo_phone ` set (opt_outs db') = insert n (oo_phone ` set (opt_outs db))"
proof -
  have "oo_phone ` set (update_row oo_phone n (\<lambda>x. x\<lparr> oo_source := src, oo_reason := why \<rparr>) (opt_outs db))
      = oo_phone ` set (opt_outs db)"
  proof -
    have "map oo_phone (update_row oo_phone n (\<lambda>x. x\<lparr> oo_source := src, oo_reason := why \<rparr>) (opt_outs db))
      = map oo_phone (opt_outs db)" by (rule map_key_update_row) simp
    then show ?thesis by (metis set_map)
  qed
  moreover have "n \<in> oo_phone ` set (opt_outs db)" if "find_row oo_phone n (opt_outs db) \<noteq> None"
    using that by (simp add: find_row_None)
  ultimately show "conversations db' = conversations db" "next_conversation_id db' = next_conversation_id db"
    "messages db' = messages db" "oo_phone ` set (opt_outs db') = insert n (oo_phone ` set (opt_outs db))"
    using assms by (auto simp: upsert_sms_opt_out_def split: option.splits)
qed

lemma webhook_effect:
  obtains (unchanged) "snd (twilio_sms_webhook http llm st rdb db url form signature) = db"
  | (handled) db' p b sid where "handle_inbound_sms_reply http llm st rdb db p b sid = Inr db'"
      "snd (twilio_sms_webhook http llm st rdb db url form signature) = db'"
proof (cases "handle_inbound_sms_reply http llm st rdb db
    (the (map_of form (lit ''From''))) (the (map_of form (lit ''Body'')))
    (message_sid form)")
  case (Inl e)
  then have "snd (twilio_sms_webhook http llm st rdb db url form signature) = db"
    by (simp add: twilio_sms_webhook_def Let_def split: sum.split)
  then show ?thesis by (rule that(1))
next
  case (Inr db')
  then have "snd (twilio_sms_webhook http llm st rdb db url form signature) \<in> {db, db'}"
    by (simp add: twilio_sms_webhook_def Let_def split: sum.split)
  then show ?thesis using that(1) that(2) [OF Inr] by blast
qed

lemma handle_conversations_ok:
  assumes ok: "conversations_ok db" and h: "handle_inbound_sms_reply http llm st rdb db p b sid = Inr db'"
  shows "conversations_ok db'"
proof (rule inbound_effect [where http = http and llm = llm and st = st and rdb = rdb and db = db and from_phone = p and body = b and sid = sid])
  fix n conv db1 rid db3
  assume "get_or_create_conversation db n None = (conv, db1)" "normalize_us_phone (Some p) = Some n"
    and u: "upsert_sms_opt_out (record_inbound_message db1 conv n rid b sid) n (lit ''twilio_reply'')
         (Some (lit ''Inbound SMS opt-out intent.'')) = Inr db3"
    and e: "handle_inbound_sms_reply http llm st rdb db p b sid = Inr (send_reply http st db3 conv rid n SMS_OPT_OUT_CONFIRMATION)"
  then have "conversations_ok db1" using get_or_create_ok ok by blast
  moreover have "conversations db' = conversations db1 \<and> next_conversation_id db' = next_conversation_id db1"
    using e h upsert_effect(1,2) [OF u] normalize_us_phone_idem \<open>normalize_us_phone (Some p) = Some n\<close> by auto
  ultimately show ?thesis using conversations_ok_cong by blast
next
  fix n conv db1 rid reply
  assume g: "get_or_create_conversation db n None = (conv, db1)" and l: "cv_llm_reply_count conv < LLM_REPLY_LIMIT"
    and e: "handle_inbound_sms_reply http llm st rdb db p b sid
         = Inr (send_reply http st (count_reply conv (record_inbound_message db1 conv n rid b sid)) conv rid n reply)"
  have "conversations_ok (record_inbound_message db1 conv n rid b sid)"
    using get_or_create_ok(1) [OF ok g] by (simp add: conversations_ok_def)
  then have "conversations_ok (count_reply conv (record_inbound_message db1 conv n rid b sid))"
    using get_or_create_ok(2) [OF ok g] l by (simp add: count_reply_ok)
  moreover have "db' = send_reply http st (count_reply conv (record_inbound_message db1 conv n rid b sid)) conv rid n reply"
    using e h by simp
  ultimately show ?thesis by (simp add: conversations_ok_def)
next
  fix n conv db1 rid
  assume g: "get_or_create_conversation db n None = (conv, db1)"
    and e: "handle_inbound_sms_reply http llm st rdb db p b sid = Inr (record_inbound_message db1 conv n rid b sid)"
  then show ?thesis using h get_or_create_ok(1) [OF ok g] by (auto simp: conversations_ok_def)
next
  fix n conv db1 rid
  assume g: "get_or_create_conversation db n None = (conv, db1)"
    and e: "handle_inbound_sms_reply http llm st rdb db p b sid
         = Inr (send_reply http st (record_inbound_message db1 conv n rid b sid) conv rid n SMS_LIMIT_MESSAGE)"
  have "db' = send_reply http st (record_inbound_message db1 conv n rid b sid) conv rid n SMS_LIMIT_MESSAGE"
    using e h by simp
  then show ?thesis using get_or_create_ok(1) [OF ok g] by (simp add: conversations_ok_def)
qed (use h ok in simp)

lemma sms_step_ok: "sms_step db db' \<Longrightarrow> conversations_ok db \<Longrightarrow> conversations_ok db'"
proof (induction rule: sms_step.induct)
  case (notify db http st r)
  show ?case
  proof (rule notify_effect [where http = http and st = st and db = db and r = r])
    fix n conv db1
    assume g: "get_or_create_conversation db n (Some (run_id r)) = (conv, db1)"
      and e: "maybe_send_completion_notification http st db r = send_reply http st db1 conv (Some (run_id r)) n (completion_message r)"
    show ?thesis using get_or_create_ok(1) [OF notify g] by (simp add: e conversations_ok_def)
  qed (use notify in \<open>simp_all add: conversations_ok_def\<close>)
next
  case (webhook db http llm st rdb url form signature)
  show ?case
    by (rule webhook_effect [where http = http and llm = llm and st = st and rdb = rdb and db = db and url = url and form = form and signature = signature]) (use webhook handle_conversations_ok in auto)
qed

interpretation sms: preserved sms_step conversations_ok
  by unfold_locales (rule sms_step_ok)





section \<open>Properties\<close>


definition demo_sms_settings :: sms_settings where
  "demo_sms_settings = \<lparr> sms_notification_enabled = True, twilio_account_sid = Some (lit ''AC1''),
     twilio_auth_token = Some (lit ''secret''), twilio_from_number = Some (lit ''+12125550000''),
     environment = lit ''production'' \<rparr>"

definition demo_llm :: sms_model where
  "demo_llm = \<lparr> llm_is_opt_out = \<lambda>_. Inr False, llm_reply_body = \<lambda>_. Inr (lit ''ok'') \<rparr>"

definition demo_http :: http_post where
  "demo_http url payload auth = Inr (lit ''{}'')"

definition demo_phone :: str where
  "demo_phone = lit ''+12125550123''"


text \<open>
  In every reachable state no conversation has had more replies of the model than the
  limit of two.
\<close>

theorem model_replies_are_limited:
  assumes "sms_step\<^sup>*\<^sup>* empty_sms_db db" and "c \<in> set (conversations db)"
  shows "0 \<le> cv_llm_reply_count c \<and> cv_llm_reply_count c \<le> 2"
proof -
  have "conversations_ok empty_sms_db" by (simp add: conversations_ok_def empty_sms_db_def)
  from sms.reach_inv [OF assms(1) this] show ?thesis
    using assms(2) by (simp add: conversations_ok_def LLM_REPLY_LIMIT_def)
qed

definition demo_reply_db :: sms_db where
  "demo_reply_db = snd (twilio_sms_webhook demo_http demo_llm demo_sms_settings empty_run_db empty_sms_db []
     [(lit ''From'', demo_phone), (lit ''Body'', lit ''hello'')] None)"

lemma demo_reply_conversations:
  "map cv_llm_reply_count (conversations demo_reply_db) = [1]"
  by code_simp

theorem model_replies_are_limited_witness:
  "\<exists>c \<in> set (conversations demo_reply_db). cv_llm_reply_count c = 1 \<and> cv_llm_reply_count c \<le> 2"
proof -
  have "sms_step\<^sup>*\<^sup>* empty_sms_db demo_reply_db" unfolding demo_reply_db_def by (intro r_into_rtranclp sms_step.webhook)
  moreover obtain c where "c \<in> set (conversations demo_reply_db)" "cv_llm_reply_count c = 1"
    using demo_reply_conversations by (cases "conversations demo_reply_db") auto
  ultimately show ?thesis using model_replies_are_limited by blast
qed

text \<open>
  A webhook without a signature header is trusted, also when an auth token is
  configured: anyone can put a valid number on the permanent opt-out list.
\<close>

theorem unsigned_webhook_opts_out:
  assumes "normalize_us_phone (Some p) = Some n"
  shows "\<exists>db'. twilio_sms_webhook http llm st rdb db url [(lit ''From'', p), (lit ''Body'', lit ''STOP'')] None = (None, db')
     \<and> is_phone_opted_out db' n"
proof -
  let ?form = "[(lit ''From'', p), (lit ''Body'', lit ''STOP'')]"
  have p: "p \<noteq> []" using assms by (auto simp: normalize_us_phone_def)
  have stop: "is_opt_out_message llm (lit ''STOP'')"
  proof -
    have "filter (\<lambda>c. 97 \<le> c \<and> c \<le> 122) (lower (lit ''STOP'')) = lit ''stop''" by code_simp
    then show ?thesis by (simp add: is_opt_out_message_def EXACT_OPT_OUT_MESSAGES_def)
  qed
  have w: "twilio_sms_webhook http llm st rdb db url ?form None =
     (case handle_inbound_sms_reply http llm st rdb db p (lit ''STOP'') (message_sid ?form) of
        Inl e \<Rightarrow> (Some (HTTPException 500 (lit ''Unable to process inbound SMS.'')), db) | Inr db1 \<Rightarrow> (None, db1))"
    using p by (simp add: twilio_sms_webhook_def truthy_def)
  obtain conv db1 where g: "get_or_create_conversation db n None = (conv, db1)" by fastforce
  define rid where "rid = map_option run_id (conversation_run rdb conv)"
  define db2 where "db2 = record_inbound_message db1 conv n rid (lit ''STOP'') (message_sid ?form)"
  obtain db3 where u: "upsert_sms_opt_out db2 n (lit ''twilio_reply'') (Some (lit ''Inbound SMS opt-out intent.'')) = Inr db3"
    using normalize_us_phone_idem [OF assms] by (simp add: upsert_sms_opt_out_def)
  have "handle_inbound_sms_reply http llm st rdb db p (lit ''STOP'') (message_sid ?form)
      = Inr (send_reply http st db3 conv rid n SMS_OPT_OUT_CONFIRMATION)"
    using assms g u stop by (simp add: handle_inbound_sms_reply_def Let_def rid_def db2_def)
  moreover have "n \<in> oo_phone ` set (opt_outs (send_reply http st db3 conv rid n SMS_OPT_OUT_CONFIRMATION))"
    using upsert_effect(4) [OF u normalize_us_phone_idem [OF assms]] by simp
  ultimately show ?thesis using w opted_out_normal [OF assms] by (metis sum.simps(6))
qed

theorem unsigned_webhook_opts_out_witness:
  "\<exists>db'. twilio_sms_webhook demo_http demo_llm demo_sms_settings empty_run_db empty_sms_db []
      [(lit ''From'', demo_phone), (lit ''Body'', lit ''STOP'')] None = (None, db')
    \<and> is_phone_opted_out db' demo_phone"
proof -
  have "normalize_us_phone (Some demo_phone) = Some demo_phone" by code_simp
  then show ?thesis by (rule unsigned_webhook_opts_out)
qed

text \<open>
  A stored number is \<^verbatim>\<open>+1\<close> and ten characters that \<^verbatim>\<open>\d\<close> matches, in a form that
  normalises to itself. They need not be ASCII: ten digits of another script pass every
  check, the one against a leading 0 or 1 included, as a number of their own that no
  opt-out of the ASCII number covers.
\<close>

theorem digits_of_any_script_pass:
  assumes "length ds = 10" and "list_all (\<lambda>c. is_digit c \<and> 128 \<le> c) ds"
  shows "normalize_us_phone (Some ds) = Some (lit ''+1'' @ ds)
     \<and> normalize_us_phone (Some (lit ''+1'' @ ds)) = Some (lit ''+1'' @ ds)"
proof -
  have "\<forall>i < 10. ds ! i \<noteq> 48 \<and> ds ! i \<noteq> 49" using assms by (force simp: list_all_length)
  moreover have "list_all is_digit ds" using assms(2) by (simp add: list_all_iff)
  ultimately show ?thesis using normalize_us_phone_digits [OF assms(1)] by simp
qed

theorem digits_of_any_script_pass_witness:
  "normalize_us_phone (Some (replicate 10 1632)) = Some (lit ''+1'' @ replicate 10 1632)"
proof -
  have "list_all (\<lambda>c. is_digit c \<and> 128 \<le> c) (replicate 10 1632)" by code_simp
  then show ?thesis using digits_of_any_script_pass [of "replicate 10 1632"] by simp
qed

end
