(* ===== verification/Run_System.thy ===== *)
theory Run_System
  imports Workflow_Shipped Sms
begin

text \<open>
  Runs over time: the steps the routes of \<^verbatim>\<open>app/api/routes/runs.py\<close> can make, by the invitation
  code of the caller, and what every reachable state keeps. A submission is two steps, the
  commit of \<open>submit_run\<close> and the execution, because the first stays when the second fails.
\<close>

section \<open>Steps\<close>

inductive run_step :: "int option \<Rightarrow> run_db \<Rightarrow> run_db \<Rightarrow> bool" where
  created: "run_step o1 db (snd (create_run db wk t payload o1))"
| updated: "get_run_or_404 db i o1 = Inr r \<Longrightarrow> run_step o1 db (update_run_draft db t r p)"
| sampled: "get_run_or_404 db i o1 = Inr r \<Longrightarrow> apply_sample_chaos_to_run db t r key = Inr db1 \<Longrightarrow> run_step o1 db db1"
| ingested: "get_run_or_404 db i o1 = Inr r \<Longrightarrow> ingest_run_draft pdf analyze S db t r ttl pasted files = Inr db1
     \<Longrightarrow> run_step o1 db db1"
| submitted: "get_run_or_404 db i o1 = Inr r \<Longrightarrow> submit_run db t now r sp = Inr (q, db1) \<Longrightarrow> run_step o1 db db1"
| executed: "get_run_or_404 db i o1 = Inr r \<Longrightarrow> run_step o1 db (snd (execute_run_workflow env reg db r))"
| followed: "follow_up_route rt db t o1 i question = Inr (q, db1) \<Longrightarrow> run_step o1 db db1"
| preferred: "get_run_or_404 db i o1 = Inr r \<Longrightarrow> capture_notification_preference db sdb enabled t r wants phone = Inr db1
     \<Longrightarrow> run_step o1 db db1"

definition any_step :: "run_db \<Rightarrow> run_db \<Rightarrow> bool" where
  "any_step db db1 \<longleftrightarrow> (\<exists>o1. run_step o1 db db1)"

section \<open>What one step does to the rows\<close>

text \<open>Ids are distinct and given out in turn.\<close>

definition ids_ok :: "run_db \<Rightarrow> bool" where
  "ids_ok db \<longleftrightarrow> distinct (map run_id (runs db)) \<and> (\<forall>r \<in> set (runs db). run_id r < next_run_id db)"

lemma get_run_Inr:
  assumes "get_run_or_404 db i o1 = Inr r" and "ids_ok db"
  shows "r \<in> set (runs db)" "run_id r = i" "visible_to o1 r" "find_row run_id i (runs db) = Some r" "stored (r, db)"
proof -
  show r: "r \<in> set (runs db)" "run_id r = i" "visible_to o1 r"
    using assms(1) by (auto simp: get_run_or_404_def dest: find_SomeD split: option.splits)
  show "find_row run_id i (runs db) = Some r"
    using find_row_distinct [of run_id "runs db" r] assms(2) r by (simp add: ids_ok_def)
  then show "stored (r, db)" by (simp add: stored_def r(2))
qed

text \<open>How a route changes the row it loaded, up to the time of the change.\<close>

definition touched :: "run \<Rightarrow> run \<Rightarrow> bool" where
  "touched r q \<longleftrightarrow> (\<exists>t. q = r\<lparr> updated_at := t \<rparr>)"

lemma touched_refl: "touched r r"
  unfolding touched_def by (rule exI [of _ "updated_at r"]) simp

definition becomes :: "run \<Rightarrow> run \<Rightarrow> bool" where
  "becomes r q \<longleftrightarrow>
     (run_owner q = run_owner r \<and> run_id q = run_id r) \<and>
     ((run_status q = run_status r \<and> follow_up_count q = follow_up_count r \<and> follow_up q = follow_up r
        \<and> output_brief q = output_brief r \<and> completed_at q = completed_at r \<and> failed_at q = failed_at r
        \<and> failure_message q = failure_message r \<and> submitted_at q = submitted_at r)
      \<or> (editable r \<and> run_status q = SUBMITTED \<and> submitted_at q \<noteq> None
        \<and> follow_up_count q = follow_up_count r \<and> follow_up q = follow_up r)
      \<or> (executable_status r \<and> follow_up_count q = follow_up_count r \<and> follow_up q = follow_up r
        \<and> (run_status q = COMPLETED \<and> output_brief q \<noteq> None \<and> completed_at q \<noteq> None
           \<or> run_status q = FAILED \<and> failed_at q \<noteq> None \<and> failure_message q = Some failure_text))
      \<or> (run_status r = COMPLETED \<and> run_status q = COMPLETED \<and> output_brief q = output_brief r \<and> completed_at q = completed_at r
        \<and> follow_up_count r < 1 \<and> follow_up_count q = 1
        \<and> (\<exists>f. follow_up q = Some f \<and> fr_category f \<in> snd ` set ALLOWED_MARKERS)))"

text \<open>One row, visible to the caller, becomes another; the rest stay.\<close>

definition one_row :: "int option \<Rightarrow> run_db \<Rightarrow> run_db \<Rightarrow> bool" where
  "one_row o1 db db1 \<longleftrightarrow> (\<exists>r q. find_row run_id (run_id r) (runs db) = Some r \<and> visible_to o1 r
     \<and> find_row run_id (run_id r) (runs db1) = Some q \<and> becomes r q
     \<and> (\<forall>j. j \<noteq> run_id r \<longrightarrow> find_row run_id j (runs db1) = find_row run_id j (runs db))
     \<and> map run_id (runs db1) = map run_id (runs db) \<and> next_run_id db1 = next_run_id db)"

lemma becomes_updated [simp]: "becomes r (q\<lparr> updated_at := t \<rparr>) = becomes r q"
  unfolding becomes_def by simp

lemma becomes_touched: "becomes r q \<Longrightarrow> touched q p \<Longrightarrow> becomes r p"
  by (auto simp: touched_def)

lemma save_run_one_row:
  assumes "get_run_or_404 db i o1 = Inr r" and "ids_ok db" and "becomes r q"
  shows "one_row o1 db (save_run t q db)"
proof -
  note g = get_run_Inr [OF assms(1,2)]
  have id: "run_id q = run_id r" using assms(3) by (simp add: becomes_def)
  let ?p = "if r = q then r else q\<lparr> updated_at := t \<rparr>"
  have "find_row run_id (run_id r) (runs (save_run t q db)) = Some ?p"
    using g(4) id by (simp add: find_row_save_run g(2))
  moreover have "touched q ?p" using touched_refl by (auto simp: touched_def)
  then have "becomes r ?p" using becomes_touched assms(3) by blast
  moreover have "map run_id (runs (save_run t q db)) = map run_id (runs db)"
    using id by (auto simp: save_run_def update_row_def)
  moreover have "next_run_id (save_run t q db) = next_run_id db" by (simp add: save_run_def)
  ultimately show ?thesis
    unfolding one_row_def using g id by (intro exI [of _ r] exI [of _ ?p]) (simp add: find_row_save_run)
qed

lemma but_outcome_fields:
  assumes "same but_outcome r q"
  shows "run_owner q = run_owner r" "run_id q = run_id r" "follow_up_count q = follow_up_count r" "follow_up q = follow_up r"
proof -
  have e: "run_owner (but_outcome x) = run_owner x" "run_id (but_outcome x) = run_id x"
    "follow_up_count (but_outcome x) = follow_up_count x" "follow_up (but_outcome x) = follow_up x" for x
    by (simp_all add: but_outcome_def)
  show "run_owner q = run_owner r" "run_id q = run_id r" "follow_up_count q = follow_up_count r" "follow_up q = follow_up r"
    using assms e [of q] e [of r] by (simp_all add: same_def)
qed


lemma becomes_same:
  assumes "run_owner q = run_owner r" "run_id q = run_id r" "run_status q = run_status r"
    "follow_up_count q = follow_up_count r" "follow_up q = follow_up r" "output_brief q = output_brief r"
    "completed_at q = completed_at r" "failed_at q = failed_at r" "failure_message q = failure_message r"
    "submitted_at q = submitted_at r"
  shows "becomes r q"
  using assms by (simp add: becomes_def)

lemma submit_edits_fields:
  "run_owner (submit_edits p r) = run_owner r" "run_id (submit_edits p r) = run_id r"
  "run_status (submit_edits p r) = run_status r" "follow_up_count (submit_edits p r) = follow_up_count r"
  "follow_up (submit_edits p r) = follow_up r" "normalized_input_text (submit_edits p r) = normalized_input_text r"
  "workflow_key (submit_edits p r) = workflow_key r"
  by (cases p; simp add: submit_edits_def Let_def)+

text \<open>The row a step loaded, or a new one.\<close>

lemma run_step_row:
  assumes "run_step o1 db db1" and "ids_ok db"
  shows "one_row o1 db db1
     \<or> (\<exists>wk t p. db1 = snd (create_run db wk t p o1))
     \<or> (runs db1 = runs db \<and> next_run_id db1 = next_run_id db)"
  using assms(1)
proof cases
  case (created wk t payload)
  then show ?thesis by blast
next
  case (updated i r t p)
  then show ?thesis
    unfolding update_run_draft_def
    by (intro disjI1, simp only:, intro save_run_one_row [OF updated(2) assms(2)] becomes_same) simp_all
next
  case (sampled i r t key)
  then have "\<exists>q. db1 = save_run t q db \<and> becomes r q"
    by (clarsimp simp: apply_sample_chaos_to_run_def Let_def rbind_eq_Inr split: if_splits)
      (rule exI, rule conjI, rule refl, rule becomes_same, simp_all)
  then obtain q where "db1 = save_run t q db" "becomes r q" by blast
  then show ?thesis using save_run_one_row [OF sampled(1) assms(2)] by blast
next
  case (ingested i r pdf analyze S t ttl pasted files)
  then have "\<exists>q. db1 = save_run t q db \<and> becomes r q"
    by (clarsimp simp: ingest_run_draft_def Let_def rbind_eq_Inr split: if_splits)
      (rule exI, rule conjI, rule refl, rule becomes_same, simp_all)
  then obtain q where "db1 = save_run t q db" "becomes r q" by blast
  then show ?thesis using save_run_one_row [OF ingested(1) assms(2)] by blast
next
  case (submitted i r t now sp q)
  then have "editable (submit_edits sp r)" and d: "db1 = save_run t ((submit_edits sp r)\<lparr> run_status := SUBMITTED, submitted_at := Some now \<rparr>) db"
    by (auto simp: submit_run_def Let_def split: if_splits)
  then have "becomes r ((submit_edits sp r)\<lparr> run_status := SUBMITTED, submitted_at := Some now \<rparr>)"
    by (simp add: becomes_def submit_edits_fields editable_def)
  then show ?thesis using save_run_one_row [OF submitted(1) assms(2)] d by blast
next
  case (executed i r env reg)
  show ?thesis
  proof (cases "executable_status r")
    case False
    then show ?thesis using executed by (simp add: execute_run_workflow_def)
  next
    case True
    note g = get_run_Inr [OF executed(2) assms(2)]
    obtain res where x: "execute_run_workflow env reg db r = (res, db1)" using executed(1) by (metis prod.collapse)
    have row: "find_row run_id (run_id r) (runs db) = Some r" using g(2,4) by simp
    obtain q where q: "find_row run_id (run_id r) (runs db1) = Some q" "same but_outcome r q"
      "\<forall>j. j \<noteq> run_id r \<longrightarrow> find_row run_id j (runs db1) = find_row run_id j (runs db)"
      "case res of Inr q1 \<Rightarrow> run_status q = COMPLETED \<and> completed_at q \<noteq> None \<and> output_brief q \<noteq> None
        | Inl e \<Rightarrow> run_status q = FAILED \<and> failed_at q \<noteq> None \<and> failure_message q = Some failure_text"
      using run_settles [OF True row x] by (cases res) auto
    have "becomes r q" using q(4) but_outcome_fields [OF q(2)] True by (cases res) (auto simp: becomes_def)
    moreover have "map run_id (runs db1) = map run_id (runs db) \<and> next_run_id db1 = next_run_id db"
      using run_keeps_ids [OF True row x] .
    ultimately show ?thesis using q g row unfolding one_row_def by (intro disjI1 exI [of _ r] exI [of _ q]) simp
  qed
next
  case (followed rt t i question q)
  then obtain r where g: "get_run_or_404 db i o1 = Inr r" and f: "answer_follow_up rt db t r question = Inr (q, db1)"
    by (auto simp: follow_up_route_def rbind_eq_Inr)
  obtain cat b where c: "run_status r = COMPLETED" "follow_up_count r < 1" "classify_question question = Some cat"
    and d: "db1 = save_run t (r\<lparr> follow_up_count := 1, follow_up := Some \<lparr> fr_question = strip question,
          fr_answer = build_answer rt cat (case b of None \<Rightarrow> [] | Some b \<Rightarrow> b), fr_category = cat \<rparr> \<rparr>) db"
    by (rule answer_follow_up_Inr [OF f]) blast
  have "becomes r (r\<lparr> follow_up_count := 1, follow_up := Some \<lparr> fr_question = strip question,
          fr_answer = build_answer rt cat (case b of None \<Rightarrow> [] | Some b \<Rightarrow> b), fr_category = cat \<rparr> \<rparr>)"
    using c classify_question_category [OF c(3)] by (simp add: becomes_def)
  then show ?thesis using save_run_one_row [OF g assms(2)] d by blast
next
  case (preferred i r sdb enabled t wants phone)
  then have "\<exists>p. db1 = save_run t (r\<lparr> preference := p \<rparr>) db"
    by (auto simp: capture_notification_preference_def Let_def split: if_splits)
  then obtain p where "db1 = save_run t (r\<lparr> preference := p \<rparr>) db" by blast
  moreover have "becomes r (r\<lparr> preference := p \<rparr>)" by (rule becomes_same) simp_all
  ultimately obtain q where "db1 = save_run t q db" "becomes r q" by blast
  then show ?thesis using save_run_one_row [OF preferred(1) assms(2)] by blast
qed


section \<open>Invariants\<close>

definition row_ok :: "run \<Rightarrow> bool" where
  "row_ok r \<longleftrightarrow>
     (run_status r = COMPLETED \<longrightarrow> output_brief r \<noteq> None \<and> completed_at r \<noteq> None)
     \<and> (run_status r = FAILED \<longrightarrow> failed_at r \<noteq> None \<and> failure_message r = Some failure_text)
     \<and> (run_status r = SUBMITTED \<longrightarrow> submitted_at r \<noteq> None)
     \<and> run_status r \<noteq> PROCESSING
     \<and> (follow_up_count r = 0 \<and> follow_up r = None
        \<or> follow_up_count r = 1 \<and> run_status r = COMPLETED
          \<and> (\<exists>f. follow_up r = Some f \<and> fr_category f \<in> snd ` set ALLOWED_MARKERS))"

definition runs_ok :: "run_db \<Rightarrow> bool" where
  "runs_ok db \<longleftrightarrow> ids_ok db \<and> (\<forall>r \<in> set (runs db). row_ok r)"

lemma becomes_row_ok: "becomes r q \<Longrightarrow> row_ok r \<Longrightarrow> row_ok q"
  unfolding becomes_def row_ok_def editable_def executable_status_def
  by (elim conjE disjE) simp_all

lemma row_ok_found: "ids_ok db \<Longrightarrow> (\<forall>r \<in> set (runs db). row_ok r) \<longleftrightarrow> (\<forall>j r. find_row run_id j (runs db) = Some r \<longrightarrow> row_ok r)"
proof -
  assume "ids_ok db"
  then have "find_row run_id (run_id r) (runs db) = Some r" if "r \<in> set (runs db)" for r
    using find_row_distinct [of run_id "runs db" r] that by (simp add: ids_ok_def)
  moreover have "r \<in> set (runs db)" if "find_row run_id j (runs db) = Some r" for j r
    using find_row_Some [OF that] by blast
  ultimately show ?thesis by blast
qed

lemma created_run:
  "runs (snd (create_run db wk t p o1)) = runs db @ [fst (create_run db wk t p o1)]"
  "next_run_id (snd (create_run db wk t p o1)) = next_run_id db + 1"
  "run_id (fst (create_run db wk t p o1)) = next_run_id db"
  "run_owner (fst (create_run db wk t p o1)) = o1"
  "row_ok (fst (create_run db wk t p o1))"
  by (simp_all add: create_run_def Let_def row_ok_def)

lemma one_row_ids: "one_row o1 db db1 \<Longrightarrow> ids_ok db \<Longrightarrow> ids_ok db1"
proof -
  assume a: "one_row o1 db db1" "ids_ok db"
  then have m: "map run_id (runs db1) = map run_id (runs db)" "next_run_id db1 = next_run_id db" by (auto simp: one_row_def)
  then have e: "run_id ` set (runs db1) = run_id ` set (runs db)" by (metis list.set_map)
  have "ids_ok d \<longleftrightarrow> distinct (map run_id (runs d)) \<and> (\<forall>i \<in> run_id ` set (runs d). i < next_run_id d)" for d
    by (auto simp: ids_ok_def)
  then have "ids_ok db1 \<longleftrightarrow> ids_ok db" by (simp only: m e)
  then show ?thesis using a(2) by simp
qed

lemma run_step_ids: "run_step o1 db db1 \<Longrightarrow> ids_ok db \<Longrightarrow> ids_ok db1"
proof -
  assume s: "run_step o1 db db1" and ok: "ids_ok db"
  consider "one_row o1 db db1" | wk t p where "db1 = snd (create_run db wk t p o1)"
    | "runs db1 = runs db" "next_run_id db1 = next_run_id db"
    using run_step_row [OF s ok] by blast
  then show ?thesis
  proof cases
    case 1
    then show ?thesis using ok one_row_ids by blast
  next
    case 2
    then show ?thesis using ok by (auto simp: ids_ok_def created_run)
  next
    case 3
    then show ?thesis using ok by (simp add: ids_ok_def)
  qed
qed

lemma run_step_ok: "run_step o1 db db1 \<Longrightarrow> runs_ok db \<Longrightarrow> runs_ok db1"
proof -
  assume s: "run_step o1 db db1" and ok: "runs_ok db"
  have ids: "ids_ok db" "ids_ok db1" using ok run_step_ids [OF s] by (auto simp: runs_ok_def)
  consider (row) "one_row o1 db db1" | (new) wk t p where "db1 = snd (create_run db wk t p o1)"
    | (idle) "runs db1 = runs db" "next_run_id db1 = next_run_id db"
    using run_step_row [OF s ids(1)] by blast
  then show ?thesis
  proof cases
    case row
    then obtain r q where r: "find_row run_id (run_id r) (runs db) = Some r"
      "find_row run_id (run_id r) (runs db1) = Some q" "becomes r q"
      "\<forall>j. j \<noteq> run_id r \<longrightarrow> find_row run_id j (runs db1) = find_row run_id j (runs db)"
      by (auto simp: one_row_def)
    have "row_ok p" if "find_row run_id j (runs db1) = Some p" for j p
    proof (cases "j = run_id r")
      case True
      then show ?thesis using that r ok becomes_row_ok by (auto simp: runs_ok_def dest: find_row_Some)
    next
      case False
      then show ?thesis using that r(4) ok by (auto simp: runs_ok_def dest: find_row_Some)
    qed
    then show ?thesis using ids row_ok_found by (auto simp: runs_ok_def)
  next
    case new
    then show ?thesis using ok ids(2) by (auto simp: runs_ok_def created_run)
  next
    case idle
    then show ?thesis using ok ids(2) by (simp add: runs_ok_def)
  qed
qed

lemma any_step_ok: "any_step db db1 \<Longrightarrow> runs_ok db \<Longrightarrow> runs_ok db1"
  using run_step_ok by (auto simp: any_step_def)

interpretation run_rows: preserved any_step runs_ok
  by unfold_locales (rule any_step_ok)

lemma runs_ok_empty: "runs_ok empty_run_db"
  by (simp add: runs_ok_def ids_ok_def empty_run_db_def)


text \<open>A stored row after a step: as it was, or changed by a caller who sees it.\<close>

lemma run_step_find:
  assumes "run_step o1 db db1" and "ids_ok db" and "find_row run_id j (runs db) = Some r"
  shows "\<exists>q. find_row run_id j (runs db1) = Some q \<and> (q = r \<or> becomes r q \<and> visible_to o1 r)"
proof -
  consider (row) "one_row o1 db db1" | (new) wk t p where "db1 = snd (create_run db wk t p o1)"
    | (idle) "runs db1 = runs db" "next_run_id db1 = next_run_id db"
    using run_step_row [OF assms(1,2)] by blast
  then show ?thesis
  proof cases
    case row
    then obtain r1 q where r: "find_row run_id (run_id r1) (runs db) = Some r1" "visible_to o1 r1"
      "find_row run_id (run_id r1) (runs db1) = Some q" "becomes r1 q"
      "\<forall>j. j \<noteq> run_id r1 \<longrightarrow> find_row run_id j (runs db1) = find_row run_id j (runs db)"
      by (auto simp: one_row_def)
    show ?thesis
    proof (cases "j = run_id r1")
      case True
      then have "r1 = r" using assms(3) r(1) by simp
      then show ?thesis using r True by simp
    next
      case False
      then show ?thesis using r(5) assms(3) by simp
    qed
  next
    case new
    then show ?thesis using assms(3) by (simp add: created_run find_row_append)
  next
    case idle
    then show ?thesis using assms(3) by simp
  qed
qed

section \<open>Properties\<close>

text \<open>
  C11: In every reachable state run ids are distinct, a COMPLETED run has a brief and a
  completion time, a FAILED one the failure time and message, a SUBMITTED one its time of
  submission, none is left PROCESSING by a finished request, and a follow-up is counted
  once, stored with one of the known categories, and only on a completed run.
\<close>

theorem reachable_runs_are_ok:
  assumes "any_step\<^sup>*\<^sup>* empty_run_db db" and "r \<in> set (runs db)"
  shows "row_ok r \<and> find_row run_id (run_id r) (runs db) = Some r"
proof -
  have "runs_ok db" by (rule run_rows.reach_inv [OF assms(1) runs_ok_empty])
  then show ?thesis using assms(2) find_row_distinct [of run_id "runs db" r] by (simp add: runs_ok_def ids_ok_def)
qed

definition demo_run :: run where
  "demo_run = fst (create_run empty_run_db (lit ''messy-notes-v1'') 5
     \<lparr> rc_title = Some (lit ''Plan''), rc_input_text = Some (lit ''we will ship'') \<rparr> (Some 1))"

definition demo_run_db :: run_db where
  "demo_run_db = snd (create_run empty_run_db (lit ''messy-notes-v1'') 5
     \<lparr> rc_title = Some (lit ''Plan''), rc_input_text = Some (lit ''we will ship'') \<rparr> (Some 1))"

lemma demo_run_reachable: "any_step\<^sup>*\<^sup>* empty_run_db demo_run_db"
  using run_step.created unfolding demo_run_db_def any_step_def by (intro r_into_rtranclp) blast

lemma demo_run_rows: "runs demo_run_db = [demo_run]"
  by (simp add: demo_run_db_def demo_run_def create_run_def Let_def empty_run_db_def)

lemma demo_run_fields: "run_id demo_run = 1" "run_owner demo_run = Some 1" "run_status demo_run = DRAFT"
  "workflow_key demo_run = lit ''messy-notes-v1''" "source_text demo_run = lit ''we will ship''"
  "title demo_run = Some (lit ''Plan'')" "normalized_input_text demo_run = None"
  by (simp_all add: demo_run_def create_run_def Let_def empty_run_db_def source_text_def str_or_def truthy_def)
    (code_simp, code_simp)

theorem reachable_runs_are_ok_witness: "row_ok demo_run"
  using reachable_runs_are_ok [OF demo_run_reachable, of demo_run] by (simp add: demo_run_rows)

definition frozen :: "int \<Rightarrow> run \<Rightarrow> run_db \<Rightarrow> bool" where
  "frozen i r db \<longleftrightarrow> (\<exists>q. find_row run_id i (runs db) = Some q \<and> run_status q = COMPLETED
     \<and> output_brief q = output_brief r \<and> completed_at q = completed_at r
     \<and> (follow_up r \<noteq> None \<longrightarrow> follow_up q = follow_up r \<and> follow_up_count q = 1))"

lemma step_frozen:
  assumes "any_step db db1" and "runs_ok db" and "frozen i r db"
  shows "frozen i r db1"
proof -
  obtain p where p: "find_row run_id i (runs db) = Some p" "run_status p = COMPLETED"
    "output_brief p = output_brief r" "completed_at p = completed_at r"
    "follow_up r \<noteq> None \<longrightarrow> follow_up p = follow_up r \<and> follow_up_count p = 1"
    using assms(3) by (auto simp: frozen_def)
  obtain o1 where st: "run_step o1 db db1" using assms(1) by (auto simp: any_step_def)
  have "ids_ok db" using assms(2) by (simp add: runs_ok_def)
  from run_step_find [OF st this p(1)]
  obtain q where q: "find_row run_id i (runs db1) = Some q" "q = p \<or> becomes p q" by blast
  have "run_status q = COMPLETED \<and> output_brief q = output_brief p \<and> completed_at q = completed_at p
     \<and> (follow_up_count p = 1 \<longrightarrow> follow_up q = follow_up p \<and> follow_up_count q = 1)"
    using q(2) p(2) by (auto simp: becomes_def editable_def executable_status_def)
  then show ?thesis using q(1) p by (auto simp: frozen_def)
qed

interpretation completed: preserved_under any_step runs_ok "frozen i r" for i r
  by unfold_locales (rule step_frozen)

text \<open>
  C10: What a completed run shows is final: whatever requests follow, it stays COMPLETED
  with the same brief and completion time, and once its follow-up is answered that answer
  stays as well.
\<close>

theorem completed_run_is_final:
  assumes "any_step\<^sup>*\<^sup>* empty_run_db db" and "r \<in> set (runs db)" and "run_status r = COMPLETED"
    and "any_step\<^sup>*\<^sup>* db db1"
  shows "\<exists>q. find_row run_id (run_id r) (runs db1) = Some q \<and> run_status q = COMPLETED
     \<and> output_brief q = output_brief r \<and> completed_at q = completed_at r
     \<and> (follow_up r = None \<or> follow_up q = follow_up r)"
proof -
  have ok: "runs_ok db" by (rule run_rows.reach_inv [OF assms(1) runs_ok_empty])
  then have row: "find_row run_id (run_id r) (runs db) = Some r" "row_ok r"
    using assms(2) find_row_distinct [of run_id "runs db" r] by (auto simp: runs_ok_def ids_ok_def)
  have "follow_up r \<noteq> None \<longrightarrow> follow_up_count r = 1" using row(2) by (auto simp: row_ok_def)
  then have "frozen (run_id r) r db" using row assms(3) by (simp add: frozen_def)
  then have "frozen (run_id r) r db1" using completed.reach_fact [OF assms(4) ok] by blast
  then show ?thesis by (auto simp: frozen_def)
qed


lemma demo_completed:
  obtains reg q db1 where "shipped_registry (\<lambda>_. False) = Inr reg"
    "execute_run_workflow test_env reg demo_run_db demo_run = (Inr q, db1)" "any_step\<^sup>*\<^sup>* empty_run_db db1"
    "q \<in> set (runs db1)" "run_status q = COMPLETED" "run_id q = 1" "find_row run_id 1 (runs db1) = Some q"
    "output_brief q = Some (dumps Pydantic (JObj (brief_dict (brief_of_notes (\<lambda>_. False) (Some (lit ''Plan'')) (lit ''we will ship'')))))"
proof -
  obtain reg w where reg: "shipped_registry (\<lambda>_. False) = Inr reg" "get_workflow reg (lit ''messy-notes-v1'') = Inr w"
    "wr_config w = messy_v1" "reg_tools reg = workflow_tool_entries (\<lambda>_. False)"
    "closed_workflow (workflow_tool_entries (\<lambda>_. False)) (reg_post_processors reg) (lit ''messy-notes-v1'', w)"
    by (rule shipped_closed)
  have row: "find_row run_id (run_id demo_run) (runs demo_run_db) = Some demo_run"
    by (simp add: demo_run_rows find_row_Cons)
  have ex: "executable_status demo_run" by (simp add: executable_status_def demo_run_fields)
  have cl: "clean messy_v1 1 demo_run_db"
    by (simp add: clean_def demo_run_db_def create_run_def Let_def empty_run_db_def)
  obtain q db1 where q: "execute_run_workflow test_env reg demo_run_db demo_run = (Inr q, db1)" "run_status q = COMPLETED"
    "output_brief q = Some (dumps Pydantic (JObj (brief_dict (brief_of_notes (\<lambda>_. False) (Some (lit ''Plan'')) (lit ''we will ship'')))))"
    using messy_run_completes [OF ex row, of reg w "lit ''messy-notes-v1''" "\<lambda>_. False" test_env]
      reg shipped_grants shipped_builtin test_env_answers cl
    by (auto simp: demo_run_fields messy_v1_def)
  have "get_run_or_404 demo_run_db 1 (Some 1) = Inr demo_run"
    by (simp add: get_run_or_404_def demo_run_rows demo_run_fields visible_to_def)
  from run_step.executed [OF this, of test_env reg] have "any_step demo_run_db db1" by (auto simp: any_step_def q(1))
  then have reach: "any_step\<^sup>*\<^sup>* empty_run_db db1" using demo_run_reachable by (rule rtranclp.rtrancl_into_rtrancl [rotated])
  have f: "find_row run_id 1 (runs db1) = Some q" "run_id q = 1"
    using run_settles [OF ex row q(1)] but_outcome_fields(2) [of demo_run q] by (auto simp: demo_run_fields)
  have "q \<in> set (runs db1)" using f(1) by (blast dest: find_row_Some)
  from that [OF reg(1) q(1) reach this q(2) f(2,1) q(3)] show ?thesis .
qed

lemma demo_brief_ok:
  "json_ok (JObj (brief_dict (brief_of_notes (\<lambda>_. False) (Some (lit ''Plan'')) (lit ''we will ship''))))"
  by code_simp

lemma demo_question: "classify_question (lit ''Any risks?'') = Some (lit ''risks'')"
  by code_simp

lemma find_row_visible:
  assumes "ids_ok db" "find_row run_id i (runs db) = Some r" "visible_to o1 r"
  shows "get_run_or_404 db i o1 = Inr r"
proof -
  have r: "r \<in> set (runs db)" "run_id r = i" using find_row_Some [OF assms(2)] by simp_all
  show ?thesis
  proof (cases "get_run_or_404 db i o1")
    case (Inl e)
    then show ?thesis using r assms(3) by (auto simp: get_run_or_404_def find_None_iff split: option.splits)
  next
    case (Inr q)
    then show ?thesis using get_run_Inr(4) [OF Inr assms(1)] assms(2) by simp
  qed
qed

text \<open>The completed run is asked its one question, run again and followed by a new run.\<close>

lemma demo_followed:
  obtains reg q db1 p db2 where
    "execute_run_workflow test_env reg demo_run_db demo_run = (Inr q, db1)" "any_step\<^sup>*\<^sup>* empty_run_db db1"
    "run_status q = COMPLETED" "follow_up_route rt db1 9 (Some 1) 1 (lit ''Any risks?'') = Inr (p, db2)"
    "any_step db1 db2" "p \<in> set (runs db2)" "run_id p = 1" "run_status p = COMPLETED"
    "output_brief p = Some (dumps Pydantic (JObj (brief_dict (brief_of_notes (\<lambda>_. False) (Some (lit ''Plan'')) (lit ''we will ship'')))))"
    "map_option fr_question (follow_up p) = Some (lit ''Any risks?'')"
    "get_run_or_404 db2 1 (Some 1) = Inr p"
proof -
  let ?brief = "brief_dict (brief_of_notes (\<lambda>_. False) (Some (lit ''Plan'')) (lit ''we will ship''))"
  obtain reg q db1 where q: "execute_run_workflow test_env reg demo_run_db demo_run = (Inr q, db1)" "any_step\<^sup>*\<^sup>* empty_run_db db1"
    "q \<in> set (runs db1)" "run_status q = COMPLETED" "run_id q = 1" "find_row run_id 1 (runs db1) = Some q"
    "output_brief q = Some (dumps Pydantic (JObj ?brief))"
    by (rule demo_completed) blast
  have row: "find_row run_id (run_id demo_run) (runs demo_run_db) = Some demo_run"
    by (simp add: demo_run_rows find_row_Cons)
  have ex: "executable_status demo_run" by (simp add: executable_status_def demo_run_fields)
  have kept: "run_owner q = Some 1" "follow_up_count q = 0"
    using run_settles [OF ex row q(1)] but_outcome_fields [of demo_run q]
    by (auto simp: demo_run_fields) (simp add: demo_run_def create_run_def Let_def)
  have d: "deserialize_json_object (output_brief q) = Inr (Some ?brief)" "truthy (output_brief q)"
    unfolding q(7) by (simp_all add: deserialize_json_object_def loads_dumps demo_brief_ok truthy_def del: json_ok.simps dumps.simps)
      (simp add: brief_dict_def)
  have "ids_ok db1" using run_rows.reach_inv [OF q(2) runs_ok_empty] by (simp add: runs_ok_def)
  then have g: "get_run_or_404 db1 1 (Some 1) = Inr q"
    using q(6) kept by (intro find_row_visible) (simp_all add: visible_to_def)
  define r1 where "r1 = q\<lparr> follow_up_count := 1, follow_up := Some \<lparr> fr_question = strip (lit ''Any risks?''),
     fr_answer = build_answer rt (lit ''risks'') ?brief, fr_category = lit ''risks'' \<rparr> \<rparr>"
  have ne: "q \<noteq> r1" using kept by (auto simp: r1_def dest: arg_cong [of _ _ follow_up_count])
  have id1: "run_id r1 = 1" using q(5) by (simp add: r1_def)
  define p where "p = r1\<lparr> updated_at := 9 \<rparr>"
  have f: "find_row run_id 1 (runs (save_run 9 r1 db1)) = Some p"
    using save_run_row [of r1 db1 q 9] q(5,6) ne by (simp add: p_def id1)
  have a: "answer_follow_up rt db1 9 q (lit ''Any risks?'') = Inr (p, save_run 9 r1 db1)"
    using q(4,5) kept d demo_question f by (simp add: answer_follow_up_def Let_def r1_def)
  then have route: "follow_up_route rt db1 9 (Some 1) 1 (lit ''Any risks?'') = Inr (p, save_run 9 r1 db1)"
    by (simp add: follow_up_route_def g)
  then have st: "any_step db1 (save_run 9 r1 db1)" unfolding any_step_def by (blast intro: run_step.followed)
  have "ids_ok (save_run 9 r1 db1)"
    using any_step_ok [OF st run_rows.reach_inv [OF q(2) runs_ok_empty]] by (simp add: runs_ok_def)
  then have "get_run_or_404 (save_run 9 r1 db1) 1 (Some 1) = Inr p"
    using f kept by (intro find_row_visible) (simp_all add: visible_to_def p_def r1_def)
  moreover have "p \<in> set (runs (save_run 9 r1 db1))" using f by (blast dest: find_row_Some)
  moreover have "strip (lit ''Any risks?'') = lit ''Any risks?''" by code_simp
  ultimately show ?thesis
    using that [OF q(1,2,4) route st] q(4,5,7) by (simp add: p_def r1_def)
qed

theorem completed_run_is_final_witness:
  "\<exists>reg q db1 p db2 db3. execute_run_workflow test_env reg demo_run_db demo_run = (Inr q, db1) \<and> any_step\<^sup>*\<^sup>* empty_run_db db1
     \<and> follow_up_route no_runtime db1 9 (Some 1) 1 (lit ''Any risks?'') = Inr (p, db2) \<and> any_step db1 db2
     \<and> db3 = snd (create_run (snd (execute_run_workflow test_env reg db2 p)) (lit ''messy-notes-v1'') 10
         \<lparr> rc_title = None, rc_input_text = None \<rparr> (Some 1)) \<and> any_step\<^sup>*\<^sup>* db2 db3
     \<and> (\<exists>q. find_row run_id 1 (runs db3) = Some q \<and> run_status q = COMPLETED
          \<and> output_brief q = Some (dumps Pydantic (JObj (brief_dict (brief_of_notes (\<lambda>_. False) (Some (lit ''Plan'')) (lit ''we will ship'')))))
          \<and> map_option fr_question (follow_up q) = Some (lit ''Any risks?''))"
proof -
  obtain reg q db1 p db2 where d: "execute_run_workflow test_env reg demo_run_db demo_run = (Inr q, db1)" "any_step\<^sup>*\<^sup>* empty_run_db db1"
    "follow_up_route no_runtime db1 9 (Some 1) 1 (lit ''Any risks?'') = Inr (p, db2)" "any_step db1 db2"
    "p \<in> set (runs db2)" "run_id p = 1" "run_status p = COMPLETED"
    "output_brief p = Some (dumps Pydantic (JObj (brief_dict (brief_of_notes (\<lambda>_. False) (Some (lit ''Plan'')) (lit ''we will ship'')))))"
    "map_option fr_question (follow_up p) = Some (lit ''Any risks?'')" "get_run_or_404 db2 1 (Some 1) = Inr p"
    by (rule demo_followed) blast
  let ?db = "snd (execute_run_workflow test_env reg db2 p)"
  let ?db3 = "snd (create_run ?db (lit ''messy-notes-v1'') 10 \<lparr> rc_title = None, rc_input_text = None \<rparr> (Some 1))"
  have "any_step db2 ?db" "any_step ?db ?db3"
    unfolding any_step_def using run_step.executed [OF d(10)] run_step.created by blast+
  then have more: "any_step\<^sup>*\<^sup>* db2 ?db3" by simp
  have "any_step\<^sup>*\<^sup>* empty_run_db db2" using d(2,4) by simp
  from completed_run_is_final [OF this d(5,7) more]
  have "\<exists>q. find_row run_id 1 (runs ?db3) = Some q \<and> run_status q = COMPLETED \<and> output_brief q = output_brief p \<and> follow_up q = follow_up p"
    using d(6,9) by auto
  then show ?thesis using d(1-4,8,9) more by metis
qed

theorem messy_notes_run_completes_witness:
  "\<exists>reg q db1. shipped_registry (\<lambda>_. False) = Inr reg
     \<and> execute_run_workflow test_env reg demo_run_db demo_run = (Inr q, db1) \<and> run_status q = COMPLETED"
proof -
  obtain reg w where reg: "shipped_registry (\<lambda>_. False) = Inr reg" "get_workflow reg (lit ''messy-notes-v1'') = Inr w"
    "wr_config w = messy_v1" "reg_tools reg = workflow_tool_entries (\<lambda>_. False)"
    "closed_workflow (workflow_tool_entries (\<lambda>_. False)) (reg_post_processors reg) (lit ''messy-notes-v1'', w)"
    by (rule shipped_closed)
  have row: "find_row run_id (run_id demo_run) (runs demo_run_db) = Some demo_run"
    by (simp add: demo_run_rows find_row_Cons)
  have ex: "executable_status demo_run" by (simp add: executable_status_def demo_run_fields)
  have cl: "clean messy_v1 1 demo_run_db"
    by (simp add: clean_def demo_run_db_def create_run_def Let_def empty_run_db_def)
  show ?thesis
    using messy_notes_run_completes [OF ex row, of reg w "lit ''messy-notes-v1''" "\<lambda>_. False" test_env]
      reg shipped_grants shipped_builtin test_env_answers cl
    by (auto simp: demo_run_fields messy_v1_def)
qed

theorem execution_settles_witness:
  "\<exists>reg q db1. execute_run_workflow test_env reg demo_run_db demo_run = (Inr q, db1) \<and> run_status q = COMPLETED"
proof -
  obtain reg q db1 where q: "execute_run_workflow test_env reg demo_run_db demo_run = (Inr q, db1)"
    by (rule demo_completed) blast
  have row: "find_row run_id (run_id demo_run) (runs demo_run_db) = Some demo_run"
    by (simp add: demo_run_rows find_row_Cons)
  have ex: "executable_status demo_run" by (simp add: executable_status_def demo_run_fields)
  show ?thesis using execution_settles [OF ex row q] q by auto
qed


section \<open>Isolation of the invitation codes\<close>

text \<open>Requests under other codes than \<open>k\<close>.\<close>

definition foreign_step :: "int \<Rightarrow> run_db \<Rightarrow> run_db \<Rightarrow> bool" where
  "foreign_step k db db1 \<longleftrightarrow> (\<exists>k1. k1 \<noteq> k \<and> run_step (Some k1) db db1)"

definition held :: "int \<Rightarrow> run \<Rightarrow> run_db \<Rightarrow> bool" where
  "held k r db \<longleftrightarrow> run_owner r = Some k \<and> find_row run_id (run_id r) (runs db) = Some r"

lemma foreign_step_held:
  assumes "foreign_step k db db1" and "runs_ok db" and "held k r db"
  shows "held k r db1"
proof -
  obtain k1 where k: "k1 \<noteq> k" "run_step (Some k1) db db1" using assms(1) by (auto simp: foreign_step_def)
  have "ids_ok db" "find_row run_id (run_id r) (runs db) = Some r" "\<not> visible_to (Some k1) r"
    using assms(2,3) k(1) by (auto simp: runs_ok_def held_def visible_to_def)
  then show ?thesis using run_step_find [OF k(2)] assms(3) by (auto simp: held_def)
qed

lemma foreign_step_ok: "foreign_step k db db1 \<Longrightarrow> runs_ok db \<Longrightarrow> runs_ok db1"
  using run_step_ok by (auto simp: foreign_step_def)

interpretation others: preserved_under "foreign_step k" runs_ok "held k r" for k r
  by unfold_locales (rule foreign_step_ok, assumption, assumption, rule foreign_step_held)

lemma hidden_run:
  assumes "ids_ok db" and "held k r db" and "k1 \<noteq> k"
  shows "get_run_or_404 db (run_id r) (Some k1) = Inl (HTTPException 404 (lit ''Run not found.''))"
    and "r \<notin> set (list_runs db (Some k1))"
proof -
  have "q = r" if "q \<in> set (runs db)" "run_id q = run_id r" for q
    using find_row_distinct [of run_id "runs db" q] assms(1,2) that by (simp add: ids_ok_def held_def)
  moreover have "\<not> visible_to (Some k1) r" using assms(2,3) by (simp add: held_def visible_to_def)
  ultimately have "\<not> (\<exists>q. q \<in> set (runs db) \<and> run_id q = run_id r \<and> visible_to (Some k1) q)" by blast
  then have "find (\<lambda>q. run_id q = run_id r \<and> visible_to (Some k1) q) (runs db) = None"
    by (auto simp: find_None_iff)
  then show "get_run_or_404 db (run_id r) (Some k1) = Inl (HTTPException 404 (lit ''Run not found.''))"
    by (simp add: get_run_or_404_def)
  show "r \<notin> set (list_runs db (Some k1))" using \<open>\<not> visible_to (Some k1) r\<close> by (simp add: list_runs_def)
qed

text \<open>
  C12: A run belongs to the invitation code it was created under: callers with other codes
  are answered 404 for it and do not see it in their list, and whatever they do leaves its
  row as it was.
\<close>

theorem runs_are_private:
  assumes "any_step\<^sup>*\<^sup>* empty_run_db db" and "r \<in> set (runs db)" and "run_owner r = Some k"
    and "(foreign_step k)\<^sup>*\<^sup>* db db1"
  shows "find_row run_id (run_id r) (runs db1) = Some r
    \<and> (\<forall>k1. k1 \<noteq> k \<longrightarrow> get_run_or_404 db1 (run_id r) (Some k1) = Inl (HTTPException 404 (lit ''Run not found.''))
          \<and> r \<notin> set (list_runs db1 (Some k1)))"
proof -
  have ok: "runs_ok db" by (rule run_rows.reach_inv [OF assms(1) runs_ok_empty])
  then have "held k r db"
    using assms(2,3) find_row_distinct [of run_id "runs db" r] by (simp add: runs_ok_def ids_ok_def held_def)
  then have h: "held k r db1" by (rule others.reach_fact [OF assms(4) ok])
  have "ids_ok db1" using others.reach_inv [OF assms(4) ok] by (simp add: runs_ok_def)
  from hidden_run [OF this h] h show ?thesis by (simp add: held_def)
qed

theorem runs_are_private_witness:
  "get_run_or_404 (snd (create_run demo_run_db (lit ''messy-notes-v1'') 9 \<lparr> rc_title = None, rc_input_text = None \<rparr> (Some 2)))
     1 (Some 2) = Inl (HTTPException 404 (lit ''Run not found.''))"
proof -
  have "foreign_step 1 demo_run_db
    (snd (create_run demo_run_db (lit ''messy-notes-v1'') 9 \<lparr> rc_title = None, rc_input_text = None \<rparr> (Some 2)))"
    unfolding foreign_step_def by (intro exI [of _ 2] conjI run_step.created) simp
  from runs_are_private [OF demo_run_reachable _ _ r_into_rtranclp, OF _ _ this, of demo_run]
  show ?thesis by (simp add: demo_run_rows demo_run_fields)
qed

section \<open>Events as they are read back\<close>

definition event_dicts_ok :: "run_event_payload \<Rightarrow> bool" where
  "event_dicts_ok p \<longleftrightarrow> pred_option (\<lambda>d. json_ok (JObj d)) (tool_arguments p)
     \<and> pred_option (\<lambda>d. json_ok (JObj d)) (tool_result p)"

lemma deserialize_serialize_json:
  "pred_option (\<lambda>d. json_ok (JObj d)) v \<Longrightarrow> deserialize_json (serialize_json v) = Inr v"
  by (cases v) (simp_all add: deserialize_json_def serialize_json_def loads_dumps del: dumps.simps json_ok.simps)

text \<open>
  A recorded event is read back exactly: the response for the stored row repeats the
  payload, its two dicts decoded from the JSON text they were stored as.
\<close>

theorem recorded_event_is_read_back:
  assumes "event_dicts_ok p"
  shows "serialize_run_event (fst (record_run_event db t i p)) =
           Inr \<lparr> re_id = next_event_id db, re_run_id = i, re_payload = p, re_created_at = t \<rparr>
    \<and> fst (record_run_event db t i p) \<in> set (events_for_run (snd (record_run_event db t i p)) i)"
  using assms by (simp add: serialize_run_event_def record_run_event_def Let_def events_for_run_def
      event_dicts_ok_def deserialize_serialize_json rbind_def)

definition demo_event :: run_event_payload where
  "demo_event = \<lparr> event_type = TOOL_CALLED, event_status = Some (lit ''started''),
     agent_role = Some (lit ''orchestrator''), tool_name = Some (lit ''normalize_input''),
     tool_arguments = Some [(lit ''text'', JStr [233, 34, 10]), (lit ''n'', JInt (- 3))], tool_result = None,
     handoff_source_role = None, handoff_target_role = None, post_processor_key = None, message = None \<rparr>"

theorem recorded_event_is_read_back_witness:
  "serialize_run_event (fst (record_run_event empty_run_db 7 1 demo_event)) =
     Inr \<lparr> re_id = 1, re_run_id = 1, re_payload = demo_event, re_created_at = 7 \<rparr>"
proof -
  have "json_ok (JObj [(lit ''text'', JStr [233, 34, 10]), (lit ''n'', JInt (- 3))])" by code_simp
  then have "event_dicts_ok demo_event"
    by (simp add: event_dicts_ok_def demo_event_def del: json_ok.simps)
  then show ?thesis using recorded_event_is_read_back [of demo_event empty_run_db 7 1] by (simp add: empty_run_db_def)
qed

section \<open>Edits after normalisation\<close>

text \<open>
  Once a draft has a normalised text, from a sample or an ingestion, the text a caller
  sends with a later draft update or with the submission is stored but never reaches the
  workflow, which goes on reading the old normalised text.
\<close>

theorem later_edits_never_reach_the_workflow:
  assumes "normalized_input_text r = Some n" and "n \<noteq> []" and "find_row run_id (run_id r) (runs db) = Some r"
  shows "(\<forall>p e q db1. submit_run db t now r (Some p) = Inr (q, db1) \<and> rs_input_text p = Some e
        \<longrightarrow> input_text q = strip_or_none (Some e) \<and> source_text q = n)
    \<and> (\<exists>q. find_row run_id (run_id r) (runs (update_run_draft db t r u)) = Some q
      \<and> input_text q = strip_or_none (ru_input_text u) \<and> source_text q = n)"
proof -
  have saved: "\<exists>q. find_row run_id (run_id r) (runs (save_run t r2 db)) = Some q
      \<and> input_text q = input_text r2 \<and> source_text q = n"
    if "run_id r2 = run_id r" "normalized_input_text r2 = Some n" for r2
    using that assms(2,3) by (cases "r = r2") (simp_all add: find_row_save_run source_text_def str_or_def)
  have "input_text q = strip_or_none (Some e) \<and> source_text q = n"
    if sub: "submit_run db t now r (Some p) = Inr (q, db1)" and e: "rs_input_text p = Some e" for p e q db1
  proof -
    define r2 where "r2 = (submit_edits (Some p) r)\<lparr> run_status := SUBMITTED, submitted_at := Some now \<rparr>"
    have "run_id r2 = run_id r" "normalized_input_text r2 = Some n" "input_text r2 = strip_or_none (Some e)"
      using assms(1) e by (simp_all add: r2_def submit_edits_fields) (simp add: submit_edits_def Let_def)
    with saved [of r2] obtain q1 where "find_row run_id (run_id r) (runs (save_run t r2 db)) = Some q1"
      "input_text q1 = strip_or_none (Some e)" "source_text q1 = n" by auto
    moreover from this(1) have "q = q1"
      using sub by (simp add: submit_run_def Let_def r2_def [symmetric] split: if_splits)
    ultimately show ?thesis by simp
  qed
  moreover have "\<exists>q. find_row run_id (run_id r) (runs (update_run_draft db t r u)) = Some q
      \<and> input_text q = strip_or_none (ru_input_text u) \<and> source_text q = n"
    unfolding update_run_draft_def using saved [of "r\<lparr> title := strip_or_none (ru_title u),
      input_text := strip_or_none (ru_input_text u), input_metadata := ru_input_metadata u \<rparr>"] assms(1) by simp
  ultimately show ?thesis by blast
qed

theorem later_edits_never_reach_the_workflow_witness:
  "\<exists>db1 q. apply_sample_chaos_to_run demo_run_db 6 demo_run (lit ''strategy-notes'') = Inr db1
     \<and> find_row run_id 1 (runs (update_run_draft db1 7 (hd (runs db1))
          \<lparr> ru_title = None, ru_input_text = Some (lit ''my own notes''), ru_input_metadata = None \<rparr>)) = Some q
     \<and> input_text q = Some (lit ''my own notes'')
     \<and> source_text q = join [10] (sample_notes (SAMPLES ! 2))"
proof -
  define s where "s = SAMPLES ! 2"
  have s: "get_sample_chaos_set (lit ''strategy-notes'') = Inr s" "join [10] (sample_notes s) \<noteq> []"
    unfolding s_def by code_simp+
  have "editable demo_run" by (simp add: editable_def demo_run_fields)
  then have "\<exists>r1. apply_sample_chaos_to_run demo_run_db 6 demo_run (lit ''strategy-notes'') = Inr (save_run 6 r1 demo_run_db)
      \<and> run_id r1 = 1 \<and> normalized_input_text r1 = Some (join [10] (sample_notes s))"
    unfolding apply_sample_chaos_to_run_def s(1) rbind_def Let_def by simp (rule exI, rule conjI, rule refl, simp add: demo_run_fields)
  then obtain r1 where r1: "apply_sample_chaos_to_run demo_run_db 6 demo_run (lit ''strategy-notes'') = Inr (save_run 6 r1 demo_run_db)"
    "run_id r1 = 1" "normalized_input_text r1 = Some (join [10] (sample_notes s))"
    by blast
  define db1 r where "db1 = save_run 6 r1 demo_run_db" and "r = (if demo_run = r1 then demo_run else r1\<lparr> updated_at := 6 \<rparr>)"
  then have d: "apply_sample_chaos_to_run demo_run_db 6 demo_run (lit ''strategy-notes'') = Inr db1"
    "runs db1 = [r]" "run_id r = 1" "normalized_input_text r = Some (join [10] (sample_notes s))"
    using r1 by (auto simp: save_run_def update_row_def demo_run_rows demo_run_fields)
  have "find_row run_id (run_id r) (runs db1) = Some r" using d by (simp add: find_row_Cons)
  from later_edits_never_reach_the_workflow [OF d(4) s(2) this, of 7 7
    "\<lparr> ru_title = None, ru_input_text = Some (lit ''my own notes''), ru_input_metadata = None \<rparr>"]
  obtain q where "find_row run_id 1 (runs (update_run_draft db1 7 r
      \<lparr> ru_title = None, ru_input_text = Some (lit ''my own notes''), ru_input_metadata = None \<rparr>)) = Some q"
    "input_text q = strip_or_none (Some (lit ''my own notes''))" "source_text q = join [10] (sample_notes s)"
    using d(3) by auto
  moreover have "strip_or_none (Some (lit ''my own notes'')) = Some (lit ''my own notes'')" by code_simp
  ultimately show ?thesis using d s_def by auto
qed

end
