(* ===== verification/Run_Routes.thy ===== *)
theory Run_Routes
  imports Run_System
begin

text \<open>
  The routes of \<^verbatim>\<open>app/api/routes/runs.py\<close> over the two databases they work on, the runs and the
  SMS threads, for the claims of a verified access token, and that what they do to the runs
  are the steps of the run system.
\<close>

section \<open>Routes\<close>

definition messy_notes_access :: "access_token_claims \<Rightarrow> access_token_claims result" where
  "messy_notes_access claims = require_experience_access MESSY_NOTES claims"

definition run_of_caller :: "access_token_claims \<Rightarrow> run_db \<Rightarrow> int \<Rightarrow> run result" where
  "run_of_caller claims rdb i =
     rbind (messy_notes_access claims) (\<lambda>c. get_run_or_404 rdb i (Some (invitation_code_id c)))"

definition run_answer :: "sms_db \<Rightarrow> run \<Rightarrow> run_response result" where
  "run_answer sdb r = serialize_run (enrich_notification_preference sdb) r"

text \<open>The answer for a committed row; a refresh of a row that is gone would raise.\<close>

definition saved_answer :: "sms_db \<Rightarrow> run_db \<Rightarrow> int \<Rightarrow> run_db result \<Rightarrow> run_response result \<times> run_db" where
  "saved_answer sdb rdb i saved =
     (case saved of
        Inl e \<Rightarrow> (Inl e, rdb)
      | Inr rdb1 \<Rightarrow>
          (case find_row run_id i (runs rdb1) of
             None \<Rightarrow> (Inl (RuntimeError (lit ''InvalidRequestError'')), rdb1)
           | Some q \<Rightarrow> (run_answer sdb q, rdb1)))"

definition list_runs_route :: "access_token_claims \<Rightarrow> run_db \<Rightarrow> sms_db \<Rightarrow> run_response list result" where
  "list_runs_route claims rdb sdb =
     rbind (messy_notes_access claims) (\<lambda>c.
       gather (map (run_answer sdb) (list_runs rdb (Some (invitation_code_id c)))))"

definition create_run_route ::
  "access_token_claims \<Rightarrow> run_db \<Rightarrow> sms_db \<Rightarrow> str \<Rightarrow> int \<Rightarrow> run_create_request \<Rightarrow> run_response result \<times> run_db"
where
  "create_run_route claims rdb sdb default_workflow_key t payload =
     (case messy_notes_access claims of
        Inl e \<Rightarrow> (Inl e, rdb)
      | Inr c \<Rightarrow>
          let (r, rdb1) = create_run rdb default_workflow_key t payload (Some (invitation_code_id c))
          in (run_answer sdb r, rdb1))"

definition list_sample_chaos_route :: "access_token_claims \<Rightarrow> sample_chaos_set list result" where
  "list_sample_chaos_route claims = rbind (messy_notes_access claims) (\<lambda>_. Inr list_sample_chaos_sets)"

definition sms_phone_status_route :: "access_token_claims \<Rightarrow> sms_db \<Rightarrow> str option \<Rightarrow> sms_phone_status result" where
  "sms_phone_status_route claims sdb phone =
     rbind (messy_notes_access claims) (\<lambda>_. Inr (get_sms_phone_status sdb phone))"

definition get_run_route :: "access_token_claims \<Rightarrow> run_db \<Rightarrow> sms_db \<Rightarrow> int \<Rightarrow> run_response result" where
  "get_run_route claims rdb sdb i = rbind (run_of_caller claims rdb i) (run_answer sdb)"

definition update_run_route ::
  "access_token_claims \<Rightarrow> run_db \<Rightarrow> sms_db \<Rightarrow> int \<Rightarrow> int \<Rightarrow> run_update_request \<Rightarrow> run_response result \<times> run_db"
where
  "update_run_route claims rdb sdb i t payload =
     saved_answer sdb rdb i (rbind (run_of_caller claims rdb i) (\<lambda>r. Inr (update_run_draft rdb t r payload)))"

definition apply_sample_chaos_route ::
  "access_token_claims \<Rightarrow> run_db \<Rightarrow> sms_db \<Rightarrow> int \<Rightarrow> int \<Rightarrow> str \<Rightarrow> run_response result \<times> run_db"
where
  "apply_sample_chaos_route claims rdb sdb i t key =
     saved_answer sdb rdb i (rbind (run_of_caller claims rdb i) (\<lambda>r. apply_sample_chaos_to_run rdb t r key))"

definition notification_preference_route ::
  "access_token_claims \<Rightarrow> run_db \<Rightarrow> sms_db \<Rightarrow> bool \<Rightarrow> int \<Rightarrow> int \<Rightarrow> bool \<Rightarrow> str option \<Rightarrow> run_response result \<times> run_db"
where
  "notification_preference_route claims rdb sdb enabled i t wants phone =
     saved_answer sdb rdb i (rbind (run_of_caller claims rdb i) (\<lambda>r.
       capture_notification_preference rdb sdb enabled t r wants phone))"

definition ask_follow_up_route ::
  "access_token_claims \<Rightarrow> runtime \<Rightarrow> run_db \<Rightarrow> sms_db \<Rightarrow> int \<Rightarrow> int \<Rightarrow> str \<Rightarrow> run_response result \<times> run_db"
where
  "ask_follow_up_route claims rt rdb sdb i t question =
     saved_answer sdb rdb i (rbind (messy_notes_access claims) (\<lambda>c.
       rbind (follow_up_route rt rdb t (Some (invitation_code_id c)) i question) (\<lambda>(q, rdb1). Inr rdb1)))"

definition ingest_run_route ::
  "access_token_claims \<Rightarrow> (bytes \<Rightarrow> str list option) \<Rightarrow> (str \<Rightarrow> int \<Rightarrow> int \<Rightarrow> int \<Rightarrow> text_tools_analysis result)
     \<Rightarrow> ingestion_settings \<Rightarrow> run_db \<Rightarrow> sms_db \<Rightarrow> int \<Rightarrow> int \<Rightarrow> str option \<Rightarrow> str option \<Rightarrow> upload_file list
     \<Rightarrow> run_response result \<times> run_db"
where
  "ingest_run_route claims pdf analyze S rdb sdb i t new_title pasted files =
     saved_answer sdb rdb i (rbind (run_of_caller claims rdb i) (\<lambda>r.
       ingest_run_draft pdf analyze S rdb t r new_title pasted files))"

text \<open>Execution, the completion notice, and the answer with the preference read afterwards.\<close>

definition execute_and_notify ::
  "exec_env \<Rightarrow> tool workflow_registry \<Rightarrow> http_post \<Rightarrow> sms_settings \<Rightarrow> run_db \<Rightarrow> sms_db \<Rightarrow> run
     \<Rightarrow> run_response result \<times> run_db \<times> sms_db"
where
  "execute_and_notify env reg http settings rdb sdb r =
     (case execute_run_workflow env reg rdb r of
        (Inl e, rdb1) \<Rightarrow> (Inl e, rdb1, sdb)
      | (Inr q, rdb1) \<Rightarrow>
          let sdb1 = maybe_send_completion_notification http settings sdb q
          in (run_answer sdb1 q, rdb1, sdb1))"

definition submit_run_route ::
  "access_token_claims \<Rightarrow> exec_env \<Rightarrow> tool workflow_registry \<Rightarrow> http_post \<Rightarrow> sms_settings \<Rightarrow> run_db \<Rightarrow> sms_db
     \<Rightarrow> int \<Rightarrow> int \<Rightarrow> int \<Rightarrow> run_submit_request option \<Rightarrow> run_response result \<times> run_db \<times> sms_db"
where
  "submit_run_route claims env reg http settings rdb sdb i t now payload =
     (case rbind (run_of_caller claims rdb i) (\<lambda>r. submit_run rdb t now r payload) of
        Inl e \<Rightarrow> (Inl e, rdb, sdb)
      | Inr (q, rdb1) \<Rightarrow> execute_and_notify env reg http settings rdb1 sdb q)"

definition execute_run_route ::
  "access_token_claims \<Rightarrow> exec_env \<Rightarrow> tool workflow_registry \<Rightarrow> http_post \<Rightarrow> sms_settings \<Rightarrow> run_db \<Rightarrow> sms_db
     \<Rightarrow> int \<Rightarrow> run_response result \<times> run_db \<times> sms_db"
where
  "execute_run_route claims env reg http settings rdb sdb i =
     (case run_of_caller claims rdb i of
        Inl e \<Rightarrow> (Inl e, rdb, sdb)
      | Inr r \<Rightarrow> execute_and_notify env reg http settings rdb sdb r)"

definition get_run_events :: "run_db \<Rightarrow> int \<Rightarrow> run_event list" where
  "get_run_events rdb i = events_for_run rdb i"

definition list_run_events_route :: "access_token_claims \<Rightarrow> run_db \<Rightarrow> int \<Rightarrow> run_event_response list result" where
  "list_run_events_route claims rdb i =
     rbind (run_of_caller claims rdb i) (\<lambda>r. gather (map serialize_run_event (get_run_events rdb (run_id r))))"

definition get_run_execution_summary_route ::
  "access_token_claims \<Rightarrow> runtime \<Rightarrow> run_db \<Rightarrow> int \<Rightarrow> run_execution_summary result"
where
  "get_run_execution_summary_route claims rt rdb i =
     rbind (run_of_caller claims rdb i) (\<lambda>r. build_run_execution_summary rt rdb r)"

section \<open>The routes as steps\<close>

text \<open>What one request under invitation code \<open>k\<close> does to the two databases.\<close>

inductive route_step :: "int \<Rightarrow> run_db \<times> sms_db \<Rightarrow> run_db \<times> sms_db \<Rightarrow> bool" where
  create: "route_step (invitation_code_id c) (rdb, sdb) (snd (create_run_route c rdb sdb wk t p), sdb)"
| update: "route_step (invitation_code_id c) (rdb, sdb) (snd (update_run_route c rdb sdb i t u), sdb)"
| sample: "route_step (invitation_code_id c) (rdb, sdb) (snd (apply_sample_chaos_route c rdb sdb i t key), sdb)"
| prefer_sms: "route_step (invitation_code_id c) (rdb, sdb) (snd (notification_preference_route c rdb sdb enabled i t wants phone), sdb)"
| follow: "route_step (invitation_code_id c) (rdb, sdb) (snd (ask_follow_up_route c rt rdb sdb i t question), sdb)"
| ingest: "route_step (invitation_code_id c) (rdb, sdb)
     (snd (ingest_run_route c pdf analyze S rdb sdb i t new_title pasted files), sdb)"
| submit: "route_step (invitation_code_id c) (rdb, sdb)
     (snd (submit_run_route c env reg http settings rdb sdb i t now payload))"
| execute: "route_step (invitation_code_id c) (rdb, sdb) (snd (execute_run_route c env reg http settings rdb sdb i))"

lemma run_of_caller_Inr: "run_of_caller c rdb i = Inr r \<Longrightarrow> get_run_or_404 rdb i (Some (invitation_code_id c)) = Inr r"
  by (auto simp: run_of_caller_def messy_notes_access_def require_experience_access_def rbind_eq_Inr split: if_splits)

lemma saved_answer_db: "snd (saved_answer sdb rdb i x) = (case x of Inl e \<Rightarrow> rdb | Inr rdb1 \<Rightarrow> rdb1)"
  by (auto simp: saved_answer_def split: sum.split option.split)

lemma saved_step:
  assumes "\<And>rdb1. x = Inr rdb1 \<Longrightarrow> run_step k rdb rdb1"
  shows "(run_step k)\<^sup>*\<^sup>* rdb (snd (saved_answer sdb rdb i x))"
  using assms by (cases x) (auto simp: saved_answer_db)

lemma execute_and_notify_rdb:
  assumes "(rdb1, sdb1) = snd (execute_and_notify env reg http settings rdb sdb r)"
  shows "rdb1 = snd (execute_run_workflow env reg rdb r)"
  using assms by (auto simp: execute_and_notify_def Let_def split: prod.splits sum.splits)

lemma submit_run_Inr:
  assumes "submit_run rdb t now r payload = Inr (q, rdb1)" and "get_run_or_404 rdb i o1 = Inr r" and "ids_ok rdb"
  shows "run_status q = SUBMITTED" "run_id q = i" "get_run_or_404 rdb1 i o1 = Inr q"
    "find_row run_id i (runs rdb1) = Some q" "ids_ok rdb1"
proof -
  note g = get_run_Inr [OF assms(2,3)]
  define r2 where "r2 = (submit_edits payload r)\<lparr> run_status := SUBMITTED, submitted_at := Some now \<rparr>"
  have ed: "editable r" and db1: "rdb1 = save_run t r2 rdb"
    and q: "q = (case find_row run_id (run_id r) (runs rdb1) of None \<Rightarrow> r2 | Some q \<Rightarrow> q)"
    using assms(1) unfolding submit_run_def Let_def r2_def [symmetric]
    by (auto simp: editable_def submit_edits_fields split: if_splits)
  have r2: "run_id r2 = run_id r" "run_status r2 = SUBMITTED" "run_owner r2 = run_owner r"
    by (simp_all add: r2_def submit_edits_fields)
  have "r \<noteq> r2" using ed r2(2) by (auto simp: editable_def)
  then have f: "find_row run_id i (runs rdb1) = Some (r2\<lparr> updated_at := t \<rparr>)"
    using g(2,4) r2(1) by (simp add: db1 find_row_save_run)
  then have q2: "q = r2\<lparr> updated_at := t \<rparr>" using q g(2) by simp
  show "run_status q = SUBMITTED" "run_id q = i" using q2 r2 g(2) by simp_all
  show fq: "find_row run_id i (runs rdb1) = Some q" using f q2 by simp
  have "run_step o1 rdb rdb1" using assms(1,2) by (rule run_step.submitted [rotated])
  then show ids: "ids_ok rdb1" using assms(3) by (rule run_step_ids)
  have "q \<in> set (runs rdb1)" using fq by (blast dest: find_row_Some)
  moreover have "visible_to o1 q" using g(3) q2 r2(3) by (simp add: visible_to_def)
  ultimately have "\<exists>p. find (\<lambda>r. run_id r = i \<and> visible_to o1 r) (runs rdb1) = Some p"
    using \<open>run_id q = i\<close> find_None_iff [of "\<lambda>r. run_id r = i \<and> visible_to o1 r" "runs rdb1"]
    by (cases "find (\<lambda>r. run_id r = i \<and> visible_to o1 r) (runs rdb1)") auto
  then obtain p where p: "get_run_or_404 rdb1 i o1 = Inr p" by (auto simp: get_run_or_404_def)
  then have "p = q" using get_run_Inr(4) [OF p ids] fq by simp
  then show "get_run_or_404 rdb1 i o1 = Inr q" using p by simp
qed


lemma route_step_steps:
  assumes "route_step k (rdb, sdb) (rdb1, sdb1)" and "ids_ok rdb"
  shows "(run_step (Some k))\<^sup>*\<^sup>* rdb rdb1"
  using assms(1)
proof cases
  case (create c wk t p)
  then show ?thesis
    using run_step.created [of "Some k" rdb wk t p]
    by (auto simp: create_run_route_def messy_notes_access_def require_experience_access_def split: if_splits prod.split)
next
  case (update c i t u)
  then show ?thesis
    by (auto simp: update_run_route_def rbind_eq_Inr intro!: saved_step dest!: run_of_caller_Inr intro: run_step.updated)
next
  case (sample c i t key)
  then show ?thesis
    by (auto simp: apply_sample_chaos_route_def rbind_eq_Inr intro!: saved_step dest!: run_of_caller_Inr intro: run_step.sampled)
next
  case (prefer_sms c enabled i t wants phone)
  then show ?thesis
    by (auto simp: notification_preference_route_def rbind_eq_Inr intro!: saved_step dest!: run_of_caller_Inr intro: run_step.preferred)
next
  case (follow c rt i t question)
  then show ?thesis
    by (auto simp: ask_follow_up_route_def rbind_eq_Inr messy_notes_access_def require_experience_access_def
        intro!: saved_step split: if_splits intro: run_step.followed)
next
  case (ingest c pdf analyze S i t new_title pasted files)
  then show ?thesis
    by (auto simp: ingest_run_route_def rbind_eq_Inr intro!: saved_step dest!: run_of_caller_Inr intro: run_step.ingested)
next
  case (submit c env reg http settings i t now payload)
  show ?thesis
  proof (cases "rbind (run_of_caller c rdb i) (\<lambda>r. submit_run rdb t now r payload)")
    case (Inl e)
    then show ?thesis using submit by (simp add: submit_run_route_def)
  next
    case (Inr y)
    obtain q d where y: "y = (q, d)" by (cases y)
    then obtain r where r: "get_run_or_404 rdb i (Some k) = Inr r" "submit_run rdb t now r payload = Inr (q, d)"
      using Inr submit(1) by (auto simp: rbind_eq_Inr dest!: run_of_caller_Inr)
    have "run_step (Some k) rdb d" using r by (rule run_step.submitted)
    moreover have "rdb1 = snd (execute_run_workflow env reg d q)"
      using submit(2) Inr y by (intro execute_and_notify_rdb) (simp add: submit_run_route_def)
    then have "run_step (Some k) d rdb1" using run_step.executed [OF submit_run_Inr(3) [OF r(2,1) assms(2)]] by simp
    ultimately show ?thesis by (rule converse_rtranclp_into_rtranclp [OF _ r_into_rtranclp])
  qed
next
  case (execute c env reg http settings i)
  show ?thesis
  proof (cases "run_of_caller c rdb i")
    case (Inl e)
    then show ?thesis using execute by (simp add: execute_run_route_def)
  next
    case (Inr r)
    then have "rdb1 = snd (execute_run_workflow env reg rdb r)"
      using execute(2) by (intro execute_and_notify_rdb) (simp add: execute_run_route_def)
    then have "run_step (Some k) rdb rdb1" using run_of_caller_Inr [OF Inr] execute(1) run_step.executed by blast
    then show ?thesis by (rule r_into_rtranclp)
  qed
qed

text \<open>
  C13: The routes do to the runs only what the steps allow: whatever a request does, with
  the committed submission before its execution, is a sequence of steps under the caller's
  invitation code.
\<close>

theorem routes_refine_steps:
  assumes "route_step k (rdb, sdb) (rdb1, sdb1)" and "ids_ok rdb"
  shows "(run_step (Some k))\<^sup>*\<^sup>* rdb rdb1"
  using assms by (rule route_step_steps)

section \<open>Submission from end to end\<close>

lemma send_reply_effect:
  "opt_outs (send_reply http st db conv rid n b) = opt_outs db"
  "length (messages (send_reply http st db conv rid n b)) = length (messages db) + 1"
  by (simp_all add: send_reply_def record_outbound_message_def add_message_def settle_message_def Let_def update_row_def)

lemma get_or_create_effect:
  "get_or_create_conversation db n rid = (conv, db1) \<Longrightarrow> opt_outs db1 = opt_outs db \<and> messages db1 = messages db"
  by (auto simp: get_or_create_conversation_def Let_def split: option.splits)

lemma notify_at_most_once:
  "opt_outs (maybe_send_completion_notification http st db r) = opt_outs db
     \<and> length (messages (maybe_send_completion_notification http st db r)) \<le> length (messages db) + 1"
  by (rule notify_effect [where http = http and st = st and db = db and r = r])
    (auto simp: send_reply_effect record_outbound_message_def add_message_def Let_def dest: get_or_create_effect)

lemma execute_and_notify_settles:
  assumes "executable_status r" and "find_row run_id i (runs rdb) = Some r" and "run_id r = i"
    and "execute_and_notify env reg http st rdb sdb r = (res, rdb1, sdb1)"
  shows "\<exists>q. find_row run_id i (runs rdb1) = Some q
     \<and> (run_status q = COMPLETED \<and> output_brief q \<noteq> None \<or> run_status q = FAILED \<and> sdb1 = sdb \<and> (\<exists>e. res = Inl e))
     \<and> opt_outs sdb1 = opt_outs sdb \<and> length (messages sdb1) \<le> length (messages sdb) + 1"
proof -
  obtain x d where x: "execute_run_workflow env reg rdb r = (x, d)" by (cases "execute_run_workflow env reg rdb r")
  have row: "find_row run_id (run_id r) (runs rdb) = Some r" using assms(2,3) by simp
  obtain q where q: "find_row run_id i (runs d) = Some q"
    "case x of Inr q1 \<Rightarrow> q1 = q \<and> run_status q = COMPLETED \<and> output_brief q \<noteq> None | Inl e \<Rightarrow> run_status q = FAILED"
    using run_settles [OF assms(1) row x] assms(3) by (cases x) auto
  show ?thesis
  proof (cases x)
    case (Inl e)
    then show ?thesis using q x assms(4) by (auto simp: execute_and_notify_def)
  next
    case (Inr q1)
    then show ?thesis using q x assms(4) notify_at_most_once by (auto simp: execute_and_notify_def Let_def)
  qed
qed

lemma submission_refused:
  "rbind (run_of_caller c rdb i) (\<lambda>r. submit_run rdb t now r payload) = Inl e
     \<Longrightarrow> \<exists>n d. e = HTTPException n d \<and> n \<in> {403, 404, 409}"
  by (auto simp: run_of_caller_def messy_notes_access_def require_experience_access_def get_run_or_404_def
      submit_run_def Let_def rbind_def split: sum.splits if_splits option.splits)

text \<open>
  C14: A submission either is refused, with 403, 404 or 409 and nothing changed, or it ends
  in a settled run: COMPLETED with a brief, or FAILED with the request raising and nobody
  texted. At most one message is recorded, and no number is opted out or in.
\<close>

theorem submission_settles:
  assumes "any_step\<^sup>*\<^sup>* empty_run_db rdb"
    and "submit_run_route c env reg http st rdb sdb i t now payload = (res, rdb1, sdb1)"
  shows "case rbind (run_of_caller c rdb i) (\<lambda>r. submit_run rdb t now r payload) of
       Inl e \<Rightarrow> res = Inl e \<and> rdb1 = rdb \<and> sdb1 = sdb \<and> (\<exists>n d. e = HTTPException n d \<and> n \<in> {403, 404, 409})
     | Inr _ \<Rightarrow> \<exists>q. find_row run_id i (runs rdb1) = Some q
         \<and> (run_status q = COMPLETED \<and> output_brief q \<noteq> None \<or> run_status q = FAILED \<and> sdb1 = sdb \<and> (\<exists>e. res = Inl e))
         \<and> opt_outs sdb1 = opt_outs sdb \<and> length (messages sdb1) \<le> length (messages sdb) + 1"
proof (cases "rbind (run_of_caller c rdb i) (\<lambda>r. submit_run rdb t now r payload)")
  case (Inl e)
  then show ?thesis using assms(2) submission_refused [OF Inl] by (simp add: submit_run_route_def)
next
  case (Inr y)
  obtain q d where y: "y = (q, d)" by (cases y)
  obtain r where r: "get_run_or_404 rdb i (Some (invitation_code_id c)) = Inr r" "submit_run rdb t now r payload = Inr (q, d)"
    using Inr y by (auto simp: rbind_eq_Inr dest!: run_of_caller_Inr)
  have "ids_ok rdb" using run_rows.reach_inv [OF assms(1) runs_ok_empty] by (simp add: runs_ok_def)
  note s = submit_run_Inr [OF r(2,1) this]
  have ex: "executable_status q" using s(1) by (simp add: executable_status_def)
  have "execute_and_notify env reg http st d sdb q = (res, rdb1, sdb1)"
    using assms(2) Inr y by (simp add: submit_run_route_def)
  from execute_and_notify_settles [OF ex s(4,2) this] show ?thesis using Inr by simp
qed

definition demo_claims :: access_token_claims where
  "demo_claims = \<lparr> token_id = lit ''t'', invitation_code_id = 1, claim_code = lit ''DEMO'',
     claim_experience_id = MESSY_NOTES, issued_at = 0, expires_at = 100 \<rparr>"

lemma demo_run_of_caller: "run_of_caller demo_claims demo_run_db 1 = Inr demo_run"
  by (simp add: run_of_caller_def messy_notes_access_def require_experience_access_def demo_claims_def
      get_run_or_404_def demo_run_rows demo_run_fields visible_to_def rbind_def)

theorem submission_settles_witness:
  "\<exists>q. find_row run_id 1 (runs (fst (snd (submit_run_route demo_claims test_env
        \<lparr> reg_workflows = [], reg_post_processors = [], reg_tools = [] \<rparr> (\<lambda>u b h. Inl (OSError []))
        \<lparr> sms_notification_enabled = True, twilio_account_sid = None, twilio_auth_token = None,
          twilio_from_number = None, environment = lit ''test'' \<rparr> demo_run_db empty_sms_db 1 6 6 None)))) = Some q
     \<and> (run_status q = COMPLETED \<or> run_status q = FAILED)"
  (is "\<exists>q. find_row run_id 1 (runs (fst (snd ?x))) = Some q \<and> _ q")
proof -
  obtain res rdb1 sdb1 where x: "?x = (res, rdb1, sdb1)" by (rule prod_cases3)
  have "editable demo_run" by (simp add: editable_def demo_run_fields)
  then obtain y where "rbind (run_of_caller demo_claims demo_run_db 1) (\<lambda>r. submit_run demo_run_db 6 6 r None) = Inr y"
    by (auto simp: demo_run_of_caller rbind_def submit_run_def submit_edits_def Let_def)
  with submission_settles [OF demo_run_reachable x] show ?thesis by (auto simp: x)
qed

theorem routes_refine_steps_witness:
  "(run_step (Some 1))\<^sup>*\<^sup>* demo_run_db (snd (update_run_route demo_claims demo_run_db empty_sms_db 1 6
     \<lparr> ru_title = None, ru_input_text = None, ru_input_metadata = None \<rparr>))"
proof -
  have "ids_ok demo_run_db" using run_rows.reach_inv [OF demo_run_reachable runs_ok_empty] by (simp add: runs_ok_def)
  from routes_refine_steps [OF route_step.update this, of demo_claims] show ?thesis by (simp add: demo_claims_def)
qed

end
