(* ===== verification/Context_Models.thy ===== *)
theory Context_Models
  imports Json
begin

text \<open>
  The context engine's data (\<^verbatim>\<open>app/core/context_engine/models.py\<close>, \<^verbatim>\<open>interfaces.py\<close>), the default
  chunker (\<^verbatim>\<open>chunking.py\<close>) and the domain registry (\<^verbatim>\<open>registry.py\<close>). A dict of arbitrary JSON
  values is the list of its items in insertion order; ids come from a supply of uuid4 hex
  strings.
\<close>

section \<open>Data\<close>

type_synonym json_dict = "(str \<times> json) list"

definition new_context_id :: "string \<Rightarrow> str \<Rightarrow> str" where
  "new_context_id prefix uuid_hex = lit prefix @ lit ''_'' @ uuid_hex"

datatype owner_type = INVITATION_CODE | SYSTEM

fun owner_type_value :: "owner_type \<Rightarrow> str" where
  "owner_type_value INVITATION_CODE = lit ''invitation_code''"
| "owner_type_value SYSTEM = lit ''system''"

datatype readiness_status =
    READY_FOR_AGENT | NEEDS_HUMAN_CLARIFICATION | NEEDS_SOURCE_MATERIAL | NEEDS_DECISION | BLOCKED | NEEDS_REVIEW

fun readiness_value :: "readiness_status \<Rightarrow> str" where
  "readiness_value READY_FOR_AGENT = lit ''ready_for_agent''"
| "readiness_value NEEDS_HUMAN_CLARIFICATION = lit ''needs_human_clarification''"
| "readiness_value NEEDS_SOURCE_MATERIAL = lit ''needs_source_material''"
| "readiness_value NEEDS_DECISION = lit ''needs_decision''"
| "readiness_value BLOCKED = lit ''blocked''"
| "readiness_value NEEDS_REVIEW = lit ''needs_review''"

text \<open>\<^verbatim>\<open>Enum(value)\<close>: a string that is no value raises.\<close>

definition owner_type_of :: "str \<Rightarrow> owner_type result" where
  "owner_type_of s =
     (case find (\<lambda>t. owner_type_value t = s) [INVITATION_CODE, SYSTEM] of
        None \<Rightarrow> Inl (ValueError (s @ lit '' is not a valid OwnerType''))
      | Some t \<Rightarrow> Inr t)"

definition readiness_of :: "str \<Rightarrow> readiness_status result" where
  "readiness_of s =
     (case find (\<lambda>t. readiness_value t = s)
             [READY_FOR_AGENT, NEEDS_HUMAN_CLARIFICATION, NEEDS_SOURCE_MATERIAL, NEEDS_DECISION, BLOCKED, NEEDS_REVIEW] of
        None \<Rightarrow> Inl (ValueError (s @ lit '' is not a valid ReadinessStatus''))
      | Some t \<Rightarrow> Inr t)"

lemma owner_type_of_value [simp]: "owner_type_of (owner_type_value t) = Inr t"
  by (cases t) (simp_all add: owner_type_of_def lit_eq_iff)

lemma readiness_of_value [simp]: "readiness_of (readiness_value t) = Inr t"
  by (cases t) (simp_all add: readiness_of_def lit_eq_iff)

record source_link =
  sl_artifact_id :: str
  sl_chunk_id :: "str option"
  sl_start :: "nat option"
  sl_end :: "nat option"
  sl_label :: "str option"
  sl_excerpt :: "str option"

text \<open>A confidence is a float and kept as its text.\<close>

record evidence_link =
  el_source :: source_link
  el_confidence :: "str option"
  el_note :: "str option"

record artifact_type =
  at_id :: str
  at_display_name :: str
  at_description :: "str option"
  at_mime_types :: "str list"
  at_metadata :: json_dict

record artifact =
  a_id :: str
  a_domain_id :: str
  a_type_id :: str
  a_owner_type :: owner_type
  a_owner_id :: str
  a_title :: "str option"
  a_text :: str
  a_source_uri :: "str option"
  a_metadata :: json_dict
  a_created_at :: int

record artifact_chunk =
  ck_id :: str
  ck_artifact_id :: str
  ck_index :: nat
  ck_text :: str
  ck_start :: nat
  ck_end :: nat
  ck_source_link :: source_link
  ck_metadata :: json_dict

record context_entity =
  en_id :: str
  en_type :: str
  en_name :: str
  en_links :: "source_link list"
  en_metadata :: json_dict

record context_relationship =
  rl_id :: str
  rl_type :: str
  rl_source_entity_id :: str
  rl_target_entity_id :: str
  rl_links :: "source_link list"
  rl_metadata :: json_dict

record context_signal =
  sg_id :: str
  sg_type :: str
  sg_label :: str
  sg_value :: json
  sg_links :: "source_link list"
  sg_metadata :: json_dict

record view_section =
  vs_id :: str
  vs_title :: str
  vs_content :: "str option"
  vs_evidence :: "evidence_link list"
  vs_metadata :: json_dict

record perspective_view =
  pv_id :: str
  pv_definition_id :: str
  pv_title :: str
  pv_sections :: "view_section list"
  pv_metadata :: json_dict

record actionable_item =
  ai_id :: str
  ai_type :: str
  ai_title :: str
  ai_description :: "str option"
  ai_readiness :: readiness_status
  ai_links :: "source_link list"
  ai_metadata :: json_dict

record extraction_result =
  er_entities :: "context_entity list"
  er_relationships :: "context_relationship list"
  er_signals :: "context_signal list"
  er_items :: "actionable_item list"

record ingestion_request =
  ir_domain_id :: str
  ir_type_id :: str
  ir_owner_type :: owner_type
  ir_owner_id :: str
  ir_text :: str
  ir_title :: "str option"
  ir_source_uri :: "str option"
  ir_metadata :: json_dict

record context_ingestion_result =
  ig_artifact :: artifact
  ig_chunks :: "artifact_chunk list"
  ig_entities :: "context_entity list"
  ig_relationships :: "context_relationship list"
  ig_signals :: "context_signal list"
  ig_items :: "actionable_item list"
  ig_extractor_ids :: "str list"

text \<open>The owner namespace of every lookup: domain, owner type and owner id.\<close>

type_synonym scope = "str \<times> owner_type \<times> str"

definition scope_of :: "artifact \<Rightarrow> scope" where
  "scope_of a = (a_domain_id a, a_owner_type a, a_owner_id a)"

record build_context =
  bc_scope :: scope
  bc_artifacts :: "artifact list"
  bc_chunks :: "artifact_chunk list"
  bc_entities :: "context_entity list"
  bc_relationships :: "context_relationship list"
  bc_signals :: "context_signal list"
  bc_items :: "actionable_item list"

section \<open>The default chunker\<close>

text \<open>A frozen dataclass whose bounds \<^verbatim>\<open>__post_init__\<close> checks: the pairs that pass.\<close>

typedef simple_text_chunker = "{(sz :: nat, ov :: nat). 1 \<le> sz \<and> ov < sz}"
  by (rule exI [of _ "(1, 0)"]) simp

setup_lifting type_definition_simple_text_chunker

lift_definition chunk_size :: "simple_text_chunker \<Rightarrow> nat" is fst .

lift_definition overlap :: "simple_text_chunker \<Rightarrow> nat" is snd .

lemma chunker_bounds: "1 \<le> chunk_size c" "overlap c < chunk_size c"
  by (transfer, auto)+

lift_definition chunker_of :: "nat \<Rightarrow> nat \<Rightarrow> simple_text_chunker" is
  "\<lambda>sz ov. if 1 \<le> sz \<and> ov < sz then (sz, ov) else (1, 0)"
  by auto

definition SimpleTextChunker :: "int \<Rightarrow> int \<Rightarrow> simple_text_chunker result" where
  "SimpleTextChunker sz ov =
     (if sz < 1 then Inl (ValueError (lit ''Chunk size must be positive.''))
      else if ov < 0 \<or> sz \<le> ov then Inl (ValueError (lit ''Chunk overlap must be smaller than chunk size.''))
      else Inr (chunker_of (nat sz) (nat ov)))"

lemma SimpleTextChunker_Inr:
  assumes "SimpleTextChunker sz ov = Inr c"
  shows "int (chunk_size c) = sz" "int (overlap c) = ov"
  using assms by (auto simp: SimpleTextChunker_def chunk_size.rep_eq overlap.rep_eq chunker_of.rep_eq split: if_splits)

definition default_chunker :: simple_text_chunker where
  "default_chunker = chunker_of 1200 120"

lemma default_chunker_bounds: "chunk_size default_chunker = 1200" "overlap default_chunker = 120"
  by (simp_all add: default_chunker_def chunk_size.rep_eq overlap.rep_eq chunker_of.rep_eq)

definition chunk_of :: "artifact \<Rightarrow> str \<Rightarrow> nat \<Rightarrow> nat \<Rightarrow> nat \<Rightarrow> artifact_chunk" where
  "chunk_of a i ix start stop =
     (let t = take (stop - start) (drop start (a_text a)) in
      \<lparr> ck_id = i, ck_artifact_id = a_id a, ck_index = ix, ck_text = t, ck_start = start, ck_end = stop,
        ck_source_link = \<lparr> sl_artifact_id = a_id a, sl_chunk_id = Some i, sl_start = Some start,
          sl_end = Some stop, sl_label = None, sl_excerpt = Some (take 240 t) \<rparr>,
        ck_metadata = [] \<rparr>)"

text \<open>The loop; \<open>uuid\<close> gives the hex text of the chunk's new id.\<close>

function chunk_loop :: "simple_text_chunker \<Rightarrow> (nat \<Rightarrow> str) \<Rightarrow> artifact \<Rightarrow> nat \<Rightarrow> nat \<Rightarrow> artifact_chunk list" where
  "chunk_loop c uuid a start ix =
     (if length (a_text a) \<le> start then []
      else let stop = min (length (a_text a)) (start + chunk_size c);
               k = chunk_of a (new_context_id ''chunk'' (uuid ix)) ix start stop
           in if stop = length (a_text a) then [k]
              else k # chunk_loop c uuid a (stop - overlap c) (ix + 1))"
  by pat_completeness auto

termination
proof (relation "measure (\<lambda>(c, uuid, a, start, ix). length (a_text a) - start)")
  fix c uuid a start ix stop k
  assume "\<not> length (a_text a) \<le> start" and "stop = min (length (a_text a)) (start + chunk_size c)"
    and "stop \<noteq> length (a_text a)"
  then have "start < stop - overlap c" "start < length (a_text a)"
    using chunker_bounds [of c] by (auto simp: min_def split: if_splits)
  then show "((c, uuid, a, stop - overlap c, ix + 1), (c, uuid, a, start, ix))
      \<in> measure (\<lambda>(c, uuid, a, start, ix). length (a_text a) - start)"
    by simp
qed simp

declare chunk_loop.simps [simp del]

definition chunk :: "simple_text_chunker \<Rightarrow> (nat \<Rightarrow> str) \<Rightarrow> artifact \<Rightarrow> artifact_chunk list" where
  "chunk c uuid a = chunk_loop c uuid a 0 0"


text \<open>A slice of the text, and the text from its start on.\<close>

lemma chunk_loop_text:
  assumes "start < length (a_text a)"
  shows "\<exists>k ks. chunk_loop c uuid a start ix = k # ks \<and> ck_start k = start
     \<and> ck_text k @ concat (map (\<lambda>q. drop (overlap c) (ck_text q)) ks) = drop start (a_text a)"
  using assms
proof (induction c uuid a start ix rule: chunk_loop.induct)
  case (1 c uuid a start ix)
  define stop where "stop = min (length (a_text a)) (start + chunk_size c)"
  define k where "k = chunk_of a (new_context_id ''chunk'' (uuid ix)) ix start stop"
  have k: "ck_start k = start" "ck_text k = take (stop - start) (drop start (a_text a))"
    by (simp_all add: k_def chunk_of_def Let_def)
  have lo: "chunk_loop c uuid a start ix = (if stop = length (a_text a) then [k] else k # chunk_loop c uuid a (stop - overlap c) (ix + 1))"
    using "1.prems" by (subst chunk_loop.simps) (simp add: Let_def stop_def k_def)
  show ?case
  proof (cases "stop = length (a_text a)")
    case True
    then show ?thesis using lo k by simp
  next
    case False
    then have stop: "stop = start + chunk_size c" "stop < length (a_text a)" by (auto simp: stop_def)
    have lt: "stop - overlap c < length (a_text a)" using stop by simp
    obtain q qs where q: "chunk_loop c uuid a (stop - overlap c) (ix + 1) = q # qs"
      "ck_text q @ concat (map (\<lambda>q. drop (overlap c) (ck_text q)) qs) = drop (stop - overlap c) (a_text a)"
      using "1.IH" [OF _ stop_def k_def False lt] "1.prems" by auto
    have big: "overlap c \<le> length (ck_text q)"
    proof (cases qs)
      case Nil
      then have "ck_text q = drop (stop - overlap c) (a_text a)" using q(2) by simp
      then have "length (ck_text q) = length (a_text a) - (stop - overlap c)" by (simp only: length_drop)
      then show ?thesis using stop chunker_bounds [of c] by linarith
    next
      case (Cons q1 qs1)
      have "ck_text q = take (min (length (a_text a)) (stop - overlap c + chunk_size c) - (stop - overlap c)) (drop (stop - overlap c) (a_text a))"
        using q(1) lt by (subst (asm) chunk_loop.simps) (auto simp: Let_def chunk_of_def split: if_splits)
      then show ?thesis using chunker_bounds [of c] stop by auto
    qed
    have "drop (overlap c) (ck_text q) @ concat (map (\<lambda>q. drop (overlap c) (ck_text q)) qs)
        = drop (overlap c) (ck_text q @ concat (map (\<lambda>q. drop (overlap c) (ck_text q)) qs))"
      using big by simp
    also have "\<dots> = drop stop (a_text a)"
      unfolding q(2) using chunker_bounds [of c] stop by (simp add: add.commute)
    finally have "ck_text k @ drop (overlap c) (ck_text q) @ concat (map (\<lambda>q. drop (overlap c) (ck_text q)) qs) = drop start (a_text a)"
      using stop k(2) by (metis (no_types, lifting) append_take_drop_id drop_drop le_add_diff_inverse2 le_add1)
    then show ?thesis using lo False q(1) k by simp
  qed
qed

definition chunk_ok :: "simple_text_chunker \<Rightarrow> artifact \<Rightarrow> artifact_chunk \<Rightarrow> bool" where
  "chunk_ok c a k \<longleftrightarrow> ck_artifact_id k = a_id a \<and> ck_start k < ck_end k \<and> ck_end k \<le> length (a_text a)
     \<and> ck_end k - ck_start k \<le> chunk_size c \<and> ck_text k = take (ck_end k - ck_start k) (drop (ck_start k) (a_text a))
     \<and> sl_artifact_id (ck_source_link k) = a_id a \<and> sl_chunk_id (ck_source_link k) = Some (ck_id k)
     \<and> sl_start (ck_source_link k) = Some (ck_start k) \<and> sl_end (ck_source_link k) = Some (ck_end k)
     \<and> sl_label (ck_source_link k) = None \<and> sl_excerpt (ck_source_link k) = Some (take 240 (ck_text k))
     \<and> ck_metadata k = []"

lemma chunk_of_ok:
  "start < stop \<Longrightarrow> stop \<le> length (a_text a) \<Longrightarrow> stop - start \<le> chunk_size c \<Longrightarrow> chunk_ok c a (chunk_of a i ix start stop)"
  by (simp add: chunk_ok_def chunk_of_def Let_def)

lemma chunk_loop_ok: "list_all (chunk_ok c a) (chunk_loop c uuid a start ix)"
proof (induction c uuid a start ix rule: chunk_loop.induct)
  case (1 c uuid a start ix)
  show ?case
  proof (cases "length (a_text a) \<le> start")
    case True
    then show ?thesis by (simp add: chunk_loop.simps)
  next
    case False
    then show ?thesis using "1.IH" [OF False refl refl] chunker_bounds [of c]
      by (subst chunk_loop.simps) (auto simp: Let_def min_def intro!: chunk_of_ok)
  qed
qed

lemma chunk_loop_ids:
  "map ck_index (chunk_loop c uuid a start ix) = [ix ..< ix + length (chunk_loop c uuid a start ix)]
   \<and> map ck_id (chunk_loop c uuid a start ix) = map (\<lambda>i. new_context_id ''chunk'' (uuid i)) [ix ..< ix + length (chunk_loop c uuid a start ix)]"
proof (induction c uuid a start ix rule: chunk_loop.induct)
  case (1 c uuid a start ix)
  show ?case
  proof (cases "length (a_text a) \<le> start")
    case True
    then show ?thesis by (simp add: chunk_loop.simps)
  next
    case False
    then show ?thesis using "1.IH" [OF False refl refl]
      by (subst (1 2 3 4) chunk_loop.simps) (simp add: Let_def chunk_of_def upt_rec)
  qed
qed

text \<open>
  C28: The default chunker loses nothing: the first chunk followed by every later one
  without its overlap is the artifact's text. Every chunk is a non-empty slice of at most
  the chunk size that its source link locates, and they are numbered from 0.
\<close>

theorem chunks_rebuild_the_text:
  "concat (map ck_text (take 1 (chunk c uuid a))) @ concat (map (\<lambda>k. drop (overlap c) (ck_text k)) (drop 1 (chunk c uuid a))) = a_text a
   \<and> list_all (chunk_ok c a) (chunk c uuid a)
   \<and> map ck_index (chunk c uuid a) = [0 ..< length (chunk c uuid a)]"
proof -
  have "concat (map ck_text (take 1 (chunk c uuid a))) @ concat (map (\<lambda>k. drop (overlap c) (ck_text k)) (drop 1 (chunk c uuid a))) = a_text a"
  proof (cases "a_text a")
    case Nil
    then show ?thesis by (simp add: chunk_def chunk_loop.simps)
  next
    case (Cons x xs)
    then show ?thesis using chunk_loop_text [of 0 a c uuid 0] by (auto simp: chunk_def)
  qed
  then show ?thesis using chunk_loop_ok [of c a uuid 0 0] chunk_loop_ids [of c uuid a 0 0] by (simp add: chunk_def)
qed

end
