(* ===== verification/Context_Store.thy ===== *)
theory Context_Store
  imports Context_Models
begin

text \<open>
  The repository contract of the context engine (\<^verbatim>\<open>ContextRepository\<close> of
  \<^verbatim>\<open>app/core/context_engine/storage.py\<close>): its operations as a record of functions over a state,
  and as the locale \<open>context_store\<close> what the service relies on. A repository may give a dict back
  with its keys sorted, so contents are compared in a canonical form.
\<close>

section \<open>Canonical form\<close>

definition canon_dict :: "json_dict \<Rightarrow> json_dict" where
  "canon_dict d = sort_key fst (map (\<lambda>(k, v). (k, sort_keys v)) d)"

definition canon_artifact :: "artifact \<Rightarrow> artifact" where
  "canon_artifact a = a\<lparr> a_metadata := canon_dict (a_metadata a) \<rparr>"

definition canon_chunk :: "artifact_chunk \<Rightarrow> artifact_chunk" where
  "canon_chunk k = k\<lparr> ck_metadata := canon_dict (ck_metadata k) \<rparr>"

definition canon_entity :: "context_entity \<Rightarrow> context_entity" where
  "canon_entity e = e\<lparr> en_metadata := canon_dict (en_metadata e) \<rparr>"

definition canon_relationship :: "context_relationship \<Rightarrow> context_relationship" where
  "canon_relationship r = r\<lparr> rl_metadata := canon_dict (rl_metadata r) \<rparr>"

definition canon_signal :: "context_signal \<Rightarrow> context_signal" where
  "canon_signal s = s\<lparr> sg_value := sort_keys (sg_value s), sg_metadata := canon_dict (sg_metadata s) \<rparr>"

definition canon_item :: "actionable_item \<Rightarrow> actionable_item" where
  "canon_item i = i\<lparr> ai_metadata := canon_dict (ai_metadata i) \<rparr>"

lemma sort_keys_JObj: "sort_keys (JObj d) = JObj (canon_dict d)"
  by (simp add: canon_dict_def)

lemma map_fst_insort_key: "map fst (insort_key fst x xs) = insort (fst x) (map fst xs)"
  by (induction xs) auto

lemma map_fst_sort_key: "map fst (sort_key fst xs) = sort (map fst xs)"
  by (induction xs) (simp_all add: sort_key_def map_fst_insort_key)

lemma json_ok_sort_keys: "json_ok j \<Longrightarrow> json_ok (sort_keys j)"
proof (induction j rule: sort_keys.induct)
  case (1 xs)
  then show ?case by (simp add: list_all_iff)
next
  case (2 kvs)
  have m: "map fst (map (\<lambda>(k, v). (k, sort_keys v)) kvs) = map fst kvs" by (simp add: case_prod_unfold)
  have "distinct (map fst kvs)" using 2(2) by simp
  then have d: "distinct (map fst (sort_key fst (map (\<lambda>(k, v). (k, sort_keys v)) kvs)))"
    unfolding map_fst_sort_key m by (simp only: distinct_sort)
  have "valid_str k \<and> json_ok v"
    if kv: "(k, v) \<in> set (sort_key fst (map (\<lambda>(k, v). (k, sort_keys v)) kvs))" for k v
  proof -
    obtain w where w: "(k, w) \<in> set kvs" "v = sort_keys w" using kv by auto
    then have "valid_str k" "json_ok w" using 2(2) by (auto simp: list_all_iff)
    then show ?thesis using "2.IH" [OF w(1)] w(2) by simp
  qed
  then have "list_all (\<lambda>(k, v). valid_str k \<and> json_ok v) (sort_key fst (map (\<lambda>(k, v). (k, sort_keys v)) kvs))"
    unfolding list_all_iff by blast
  with d show ?case by (simp only: sort_keys.simps json_ok.simps)
qed simp_all

section \<open>Operations\<close>

record 's repository =
  rp_store_artifact :: "artifact \<Rightarrow> 's \<Rightarrow> unit result \<times> 's"
  rp_store_chunks :: "artifact_chunk list \<Rightarrow> 's \<Rightarrow> unit result \<times> 's"
  rp_store_entities :: "context_entity list \<Rightarrow> 's \<Rightarrow> unit result \<times> 's"
  rp_store_relationships :: "context_relationship list \<Rightarrow> 's \<Rightarrow> unit result \<times> 's"
  rp_store_signals :: "context_signal list \<Rightarrow> 's \<Rightarrow> unit result \<times> 's"
  rp_store_actionable_items :: "actionable_item list \<Rightarrow> 's \<Rightarrow> unit result \<times> 's"
  rp_index_artifact_outputs :: "artifact \<Rightarrow> context_signal list \<Rightarrow> actionable_item list \<Rightarrow> 's \<Rightarrow> 's"
  rp_list_artifacts :: "scope \<Rightarrow> 's \<Rightarrow> artifact list result"
  rp_get_artifact :: "scope \<Rightarrow> str \<Rightarrow> 's \<Rightarrow> artifact option result"
  rp_list_chunks_for_artifact :: "str \<Rightarrow> 's \<Rightarrow> artifact_chunk list result"
  rp_list_chunks_for_artifacts :: "str list \<Rightarrow> 's \<Rightarrow> artifact_chunk list result"
  rp_list_entities :: "scope \<Rightarrow> 's \<Rightarrow> context_entity list result"
  rp_list_relationships :: "scope \<Rightarrow> 's \<Rightarrow> context_relationship list result"
  rp_list_signals :: "scope \<Rightarrow> 's \<Rightarrow> context_signal list result"
  rp_list_actionable_items :: "scope \<Rightarrow> 's \<Rightarrow> actionable_item list result"
  rp_get_perspective_view :: "scope \<Rightarrow> str \<Rightarrow> 's \<Rightarrow> perspective_view option result"
  rp_store_perspective_view :: "perspective_view \<Rightarrow> scope \<Rightarrow> artifact list \<Rightarrow> 's \<Rightarrow> perspective_view result \<times> 's"

text \<open>One operation after another, on the state the first left; an error ends it.\<close>

definition stbind :: "('s \<Rightarrow> 'a result \<times> 's) \<Rightarrow> ('a \<Rightarrow> 's \<Rightarrow> 'b result \<times> 's) \<Rightarrow> 's \<Rightarrow> 'b result \<times> 's" where
  "stbind m f s = (case m s of (Inl e, s1) \<Rightarrow> (Inl e, s1) | (Inr x, s1) \<Rightarrow> f x s1)"

definition streturn :: "'a \<Rightarrow> 's \<Rightarrow> 'a result \<times> 's" where
  "streturn x s = (Inr x, s)"

definition stlift :: "'a result \<Rightarrow> 's \<Rightarrow> 'a result \<times> 's" where
  "stlift r s = (r, s)"

definition stread :: "('s \<Rightarrow> 'a result) \<Rightarrow> 's \<Rightarrow> 'a result \<times> 's" where
  "stread f s = (f s, s)"

definition stmodify :: "('s \<Rightarrow> 's) \<Rightarrow> 's \<Rightarrow> unit result \<times> 's" where
  "stmodify f s = (Inr (), f s)"

lemmas st_defs = stbind_def streturn_def stlift_def stread_def stmodify_def

section \<open>The contract\<close>

text \<open>What is listed for an owner, in canonical form.\<close>

record holdings =
  h_artifacts :: "artifact set"
  h_entities :: "context_entity set"
  h_relationships :: "context_relationship set"
  h_signals :: "context_signal set"
  h_items :: "actionable_item set"

definition no_holdings :: holdings where
  "no_holdings = \<lparr> h_artifacts = {}, h_entities = {}, h_relationships = {}, h_signals = {}, h_items = {} \<rparr>"

text \<open>What the five listings of an owner give.\<close>

definition listed_holdings :: "'s repository \<Rightarrow> scope \<Rightarrow> 's \<Rightarrow> holdings result" where
  "listed_holdings R k s =
     rbind (rp_list_artifacts R k s) (\<lambda>as.
     rbind (rp_list_entities R k s) (\<lambda>es.
     rbind (rp_list_relationships R k s) (\<lambda>rs.
     rbind (rp_list_signals R k s) (\<lambda>ss.
     rbind (rp_list_actionable_items R k s) (\<lambda>is.
       Inr \<lparr> h_artifacts = canon_artifact ` set as, h_entities = canon_entity ` set es,
             h_relationships = canon_relationship ` set rs, h_signals = canon_signal ` set ss,
             h_items = canon_item ` set is \<rparr>)))))"

definition add_artifact :: "artifact \<Rightarrow> holdings \<Rightarrow> holdings" where
  "add_artifact a h = h\<lparr> h_artifacts := insert (canon_artifact a) (h_artifacts h) \<rparr>"

definition add_outputs ::
  "context_entity list \<Rightarrow> context_relationship list \<Rightarrow> context_signal list \<Rightarrow> actionable_item list \<Rightarrow> holdings \<Rightarrow> holdings"
where
  "add_outputs es rs ss is h = h\<lparr> h_entities := h_entities h \<union> canon_entity ` set es,
     h_relationships := h_relationships h \<union> canon_relationship ` set rs,
     h_signals := h_signals h \<union> canon_signal ` set ss, h_items := h_items h \<union> canon_item ` set is \<rparr>"

text \<open>The link as the JSON object that is stored.\<close>

definition opt_str_json :: "str option \<Rightarrow> json" where
  "opt_str_json v = (case v of None \<Rightarrow> JNull | Some s \<Rightarrow> JStr s)"

definition opt_nat_json :: "nat option \<Rightarrow> json" where
  "opt_nat_json v = (case v of None \<Rightarrow> JNull | Some n \<Rightarrow> JInt (int n))"

definition link_dict :: "source_link \<Rightarrow> json_dict" where
  "link_dict l =
     [(lit ''artifact_id'', JStr (sl_artifact_id l)), (lit ''chunk_id'', opt_str_json (sl_chunk_id l)),
      (lit ''start_offset'', opt_nat_json (sl_start l)), (lit ''end_offset'', opt_nat_json (sl_end l)),
      (lit ''label'', opt_str_json (sl_label l)), (lit ''excerpt'', opt_str_json (sl_excerpt l))]"

lemma json_ok_link:
  "json_ok (JObj (link_dict l)) \<longleftrightarrow> valid_str (sl_artifact_id l) \<and> pred_option valid_str (sl_chunk_id l)
     \<and> pred_option valid_str (sl_label l) \<and> pred_option valid_str (sl_excerpt l)"
  by (simp add: link_dict_def lit_eq_iff opt_str_json_def opt_nat_json_def option.pred_set split: option.split)

text \<open>
  Derived records a store takes for owner \<open>k\<close>: new ids, source links to known artifacts
  beginning with one of \<open>k\<close>, and nothing in them that JSON text would not give back.
\<close>

definition derived_ok ::
  "(str \<Rightarrow> scope option) \<Rightarrow> str set \<Rightarrow> scope \<Rightarrow> ('r \<Rightarrow> str) \<Rightarrow> ('r \<Rightarrow> source_link list) \<Rightarrow> ('r \<Rightarrow> json_dict) \<Rightarrow> 'r list \<Rightarrow> bool"
where
  "derived_ok known used k rid links meta xs \<longleftrightarrow> distinct (map rid xs) \<and> rid ` set xs \<inter> used = {}
     \<and> list_all (\<lambda>x. links x \<noteq> [] \<and> known (sl_artifact_id (hd (links x))) = Some k
          \<and> list_all (\<lambda>l. known (sl_artifact_id l) \<noteq> None \<and> json_ok (JObj (link_dict l))) (links x)
          \<and> json_ok (JObj (meta x))) xs"

definition outputs_ok ::
  "(str \<Rightarrow> scope option) \<Rightarrow> str set \<Rightarrow> scope \<Rightarrow> context_entity list \<Rightarrow> context_relationship list \<Rightarrow> context_signal list
     \<Rightarrow> actionable_item list \<Rightarrow> bool"
where
  "outputs_ok known used k es rs ss is \<longleftrightarrow>
     derived_ok known used k en_id en_links en_metadata es
     \<and> derived_ok known used k rl_id rl_links rl_metadata rs
     \<and> derived_ok known used k sg_id sg_links sg_metadata ss \<and> list_all (\<lambda>s. json_ok (sg_value s)) ss
     \<and> derived_ok known used k ai_id ai_links ai_metadata is"

definition output_ids ::
  "context_entity list \<Rightarrow> context_relationship list \<Rightarrow> context_signal list \<Rightarrow> actionable_item list \<Rightarrow> str set"
where
  "output_ids es rs ss is = en_id ` set es \<union> rl_id ` set rs \<union> sg_id ` set ss \<union> ai_id ` set is"

definition chunks_ok :: "str set \<Rightarrow> str \<Rightarrow> artifact_chunk list \<Rightarrow> bool" where
  "chunks_ok used i ks \<longleftrightarrow> distinct (map ck_id ks) \<and> ck_id ` set ks \<inter> used = {} \<and> distinct (map ck_index ks)
     \<and> list_all (\<lambda>k. ck_artifact_id k = i \<and> sl_artifact_id (ck_source_link k) = i
          \<and> json_ok (JObj (link_dict (ck_source_link k))) \<and> json_ok (JObj (ck_metadata k))) ks"

text \<open>\<^verbatim>\<open>dict.update\<close>\<close>

definition dict_update :: "('k \<times> 'v) list \<Rightarrow> ('k \<times> 'v) list \<Rightarrow> ('k \<times> 'v) list" where
  "dict_update d e = foldl (\<lambda>d (k, v). dict_set d k v) d e"

definition latest_created_at :: "artifact list \<Rightarrow> int option" where
  "latest_created_at as = (if as = [] then None else Some (Max (a_created_at ` set as)))"

definition perspective_cache_metadata :: "(int \<Rightarrow> str) \<Rightarrow> artifact list \<Rightarrow> json_dict" where
  "perspective_cache_metadata isofmt as =
     [(lit ''source_artifact_ids'', JArr (map (\<lambda>a. JStr (a_id a)) as)),
      (lit ''source_artifact_count'', JInt (int (length as))),
      (lit ''latest_artifact_created_at'',
         (case latest_created_at as of None \<Rightarrow> JNull | Some t \<Rightarrow> JStr (isofmt t))),
      (lit ''is_stale'', JBool False)]"

definition with_cache_metadata :: "(int \<Rightarrow> str) \<Rightarrow> artifact list \<Rightarrow> perspective_view \<Rightarrow> perspective_view" where
  "with_cache_metadata isofmt as v = v\<lparr> pv_metadata := dict_update (pv_metadata v) (perspective_cache_metadata isofmt as) \<rparr>"

lemma cache_keys:
  "map_of (pv_metadata (with_cache_metadata isofmt as v)) (lit ''source_artifact_ids'') = Some (JArr (map (\<lambda>a. JStr (a_id a)) as))"
  "map_of (pv_metadata (with_cache_metadata isofmt as v)) (lit ''source_artifact_count'') \<noteq> None"
  "map_of (pv_metadata (with_cache_metadata isofmt as v)) (lit ''latest_artifact_created_at'') \<noteq> None"
  by (simp_all add: with_cache_metadata_def dict_update_def perspective_cache_metadata_def map_of_dict_set lit_eq_iff)

text \<open>A view as the JSON object its model dump is.\<close>

definition evidence_dict :: "evidence_link \<Rightarrow> json_dict" where
  "evidence_dict e = [(lit ''source'', JObj (link_dict (el_source e))),
     (lit ''confidence'', (case el_confidence e of None \<Rightarrow> JNull | Some t \<Rightarrow> JFloat t)),
     (lit ''note'', opt_str_json (el_note e))]"

definition section_dict :: "view_section \<Rightarrow> json_dict" where
  "section_dict x = [(lit ''id'', JStr (vs_id x)), (lit ''title'', JStr (vs_title x)),
     (lit ''content'', opt_str_json (vs_content x)),
     (lit ''evidence_links'', JArr (map (\<lambda>e. JObj (evidence_dict e)) (vs_evidence x))),
     (lit ''metadata'', JObj (vs_metadata x))]"

definition view_dict :: "perspective_view \<Rightarrow> json_dict" where
  "view_dict v = [(lit ''id'', JStr (pv_id v)), (lit ''view_definition_id'', JStr (pv_definition_id v)),
     (lit ''title'', JStr (pv_title v)), (lit ''sections'', JArr (map (\<lambda>x. JObj (section_dict x)) (pv_sections v))),
     (lit ''metadata'', JObj (pv_metadata v))]"

text \<open>The last steps of an ingestion, as the service takes them.\<close>

definition save_outputs ::
  "'s repository \<Rightarrow> artifact \<Rightarrow> context_entity list \<Rightarrow> context_relationship list \<Rightarrow> context_signal list
     \<Rightarrow> actionable_item list \<Rightarrow> 's \<Rightarrow> unit result \<times> 's"
where
  "save_outputs R a es rs ss is =
     stbind (rp_store_entities R es) (\<lambda>_.
     stbind (rp_store_relationships R rs) (\<lambda>_.
     stbind (rp_store_signals R ss) (\<lambda>_.
     stbind (rp_store_actionable_items R is) (\<lambda>_.
       stmodify (rp_index_artifact_outputs R a ss is)))))"

text \<open>What listing and the view cache give, outside the owners \<open>K\<close>, is the same in both states.\<close>

definition undisturbed :: "'s repository \<Rightarrow> scope set \<Rightarrow> 's \<Rightarrow> 's \<Rightarrow> bool" where
  "undisturbed R K s s1 \<longleftrightarrow> (\<forall>k d. rp_get_perspective_view R k d s1 = rp_get_perspective_view R k d s)
     \<and> (\<forall>k. k \<notin> K \<longrightarrow> rp_list_artifacts R k s1 = rp_list_artifacts R k s)"

lemma undisturbedI:
  assumes "rp_get_perspective_view R = (\<lambda>k d. get k d)" and "\<And>k d. get k d s1 = get k d s"
    and "\<And>k. k \<notin> K \<Longrightarrow> rp_list_artifacts R k s1 = rp_list_artifacts R k s"
  shows "undisturbed R K s s1"
  using assms unfolding undisturbed_def by metis

lemma undisturbed_views: "undisturbed R K s s1 \<Longrightarrow> rp_get_perspective_view R k d s1 = rp_get_perspective_view R k d s"
  unfolding undisturbed_def by blast

lemma undisturbed_lists: "undisturbed R K s s1 \<Longrightarrow> k \<notin> K \<Longrightarrow> rp_list_artifacts R k s1 = rp_list_artifacts R k s"
  unfolding undisturbed_def by blast

lemma undisturbed_refl: "undisturbed R K s s"
  unfolding undisturbed_def by blast

lemma undisturbed_trans: "undisturbed R K s s1 \<Longrightarrow> undisturbed R L s1 s2 \<Longrightarrow> K \<union> L \<subseteq> M \<Longrightarrow> undisturbed R M s s2"
  unfolding undisturbed_def by (metis UnI1 UnI2 subsetD)

locale context_store =
  fixes R :: "'s repository" and ok :: "'s \<Rightarrow> bool" and used :: "'s \<Rightarrow> str set"
    and known :: "'s \<Rightarrow> str \<Rightarrow> scope option" and look :: "'s \<Rightarrow> scope \<Rightarrow> holdings"
    and look_chunks :: "'s \<Rightarrow> str \<Rightarrow> artifact_chunk set" and isofmt :: "int \<Rightarrow> str"
  assumes list_artifacts: "ok s \<Longrightarrow> \<exists>xs. rp_list_artifacts R k s = Inr xs \<and> canon_artifact ` set xs = h_artifacts (look s k)"
    and list_entities: "ok s \<Longrightarrow> \<exists>xs. rp_list_entities R k s = Inr xs \<and> canon_entity ` set xs = h_entities (look s k)"
    and list_relationships: "ok s \<Longrightarrow> \<exists>xs. rp_list_relationships R k s = Inr xs \<and> canon_relationship ` set xs = h_relationships (look s k)"
    and list_signals: "ok s \<Longrightarrow> \<exists>xs. rp_list_signals R k s = Inr xs \<and> canon_signal ` set xs = h_signals (look s k)"
    and list_items: "ok s \<Longrightarrow> \<exists>xs. rp_list_actionable_items R k s = Inr xs \<and> canon_item ` set xs = h_items (look s k)"
    and list_chunks: "ok s \<Longrightarrow> \<exists>xs. rp_list_chunks_for_artifact R i s = Inr xs \<and> canon_chunk ` set xs = look_chunks s i"
    and list_chunks_of_all: "ok s \<Longrightarrow> \<exists>xs. rp_list_chunks_for_artifacts R ids s = Inr xs \<and> canon_chunk ` set xs = (\<Union>i \<in> set ids. look_chunks s i)"
    and get_artifact: "ok s \<Longrightarrow> \<exists>r. rp_get_artifact R k i s = Inr r \<and> canon_artifact ` set_option r = {x \<in> h_artifacts (look s k). a_id x = i}"
    and look_artifacts: "ok s \<Longrightarrow> x \<in> h_artifacts (look s k) \<Longrightarrow> known s (a_id x) = Some k \<and> scope_of x = k"
    and known_used: "ok s \<Longrightarrow> known s i \<noteq> None \<Longrightarrow> i \<in> used s"
    and store_artifact: "ok s \<Longrightarrow> a_id a \<notin> used s \<Longrightarrow> json_ok (JObj (a_metadata a)) \<Longrightarrow>
      \<exists>s1. rp_store_artifact R a s = (Inr (), s1) \<and> ok s1 \<and> used s1 = insert (a_id a) (used s)
        \<and> known s1 = (known s)(a_id a \<mapsto> scope_of a) \<and> look_chunks s1 = look_chunks s \<and> look_chunks s (a_id a) = {}
        \<and> look s1 = (look s)(scope_of a := add_artifact a (look s (scope_of a))) \<and> undisturbed R {scope_of a} s s1"
    and store_chunks: "ok s \<Longrightarrow> known s i \<noteq> None \<Longrightarrow> look_chunks s i = {} \<Longrightarrow> chunks_ok (used s) i ks \<Longrightarrow>
      \<exists>s1. rp_store_chunks R ks s = (Inr (), s1) \<and> ok s1 \<and> used s1 = used s \<union> ck_id ` set ks
        \<and> known s1 = known s \<and> look s1 = look s \<and> look_chunks s1 = (look_chunks s)(i := canon_chunk ` set ks)
        \<and> undisturbed R {} s s1"
    and store_outputs: "ok s \<Longrightarrow> known s (a_id a) = Some (scope_of a) \<Longrightarrow> outputs_ok (known s) (used s) (scope_of a) es rs ss is \<Longrightarrow>
      \<exists>s1. save_outputs R a es rs ss is s = (Inr (), s1) \<and> ok s1 \<and> used s1 = used s \<union> output_ids es rs ss is
        \<and> known s1 = known s \<and> look_chunks s1 = look_chunks s
        \<and> look s1 = (look s)(scope_of a := add_outputs es rs ss is (look s (scope_of a))) \<and> undisturbed R {} s s1"
    and store_view: "ok s \<Longrightarrow> pv_id v \<notin> used s \<Longrightarrow> json_ok (JObj (view_dict (with_cache_metadata isofmt as v))) \<Longrightarrow>
      \<exists>s1 u. rp_store_perspective_view R v k as s = (Inr (with_cache_metadata isofmt as v), s1) \<and> ok s1
        \<and> known s1 = known s \<and> look s1 = look s \<and> look_chunks s1 = look_chunks s \<and> used s1 \<subseteq> insert (pv_id v) (used s)
        \<and> rp_list_artifacts R k s1 = rp_list_artifacts R k s
        \<and> rp_get_perspective_view R k (pv_definition_id v) s1 = Inr (Some u)
        \<and> u\<lparr> pv_metadata := [] \<rparr> = v\<lparr> pv_metadata := [] \<rparr>
        \<and> (\<forall>key. key \<noteq> lit ''generated_at'' \<longrightarrow>
              map_of (pv_metadata u) key = map_of (pv_metadata (with_cache_metadata isofmt as v)) key)"
begin

lemma listed_holdings_look: "ok s \<Longrightarrow> listed_holdings R k s = Inr (look s k)"
  using list_artifacts [of s k] list_entities [of s k] list_relationships [of s k] list_signals [of s k] list_items [of s k]
  by (auto simp: listed_holdings_def)

text \<open>An owner's artifacts are listed under no other owner.\<close>

lemma listed_once:
  assumes "ok s" and "rp_list_artifacts R k s = Inr xs" and "rp_list_artifacts R k1 s = Inr ys" and "k \<noteq> k1"
  shows "a_id ` set xs \<inter> a_id ` set ys = {}"
proof -
  have id: "a_id (canon_artifact x) = a_id x" for x by (simp add: canon_artifact_def)
  have "known s (a_id x) = Some k2" if "rp_list_artifacts R k2 s = Inr zs" "x \<in> set zs" for k2 zs x
    using list_artifacts [OF assms(1), of k2] look_artifacts [OF assms(1), of "canon_artifact x" k2] that by (auto simp: id)
  from this [OF assms(2)] this [OF assms(3)] show ?thesis using assms(4) by force
qed

end

end
