(* ===== verification/Context_Registry.thy ===== *)
theory Context_Registry
  imports Context_Models
begin

text \<open>
  Domain packs (\<^verbatim>\<open>app/core/context_engine/interfaces.py\<close>) and their registry (\<^verbatim>\<open>registry.py\<close>).
  The extensions of a pack are functions that may raise; \<open>'x\<close> is the execution context an
  extension takes when it has a \<^verbatim>\<open>_with_execution\<close> method.
\<close>

section \<open>Domain packs\<close>

record 'x context_extractor =
  ex_id :: str
  ex_artifact_type_ids :: "str list option"
  ex_extract :: "artifact \<Rightarrow> artifact_chunk list \<Rightarrow> extraction_result result"
  ex_extract_with_execution :: "(artifact \<Rightarrow> artifact_chunk list \<Rightarrow> 'x option \<Rightarrow> extraction_result result) option"

record artifact_ingestor =
  ing_id :: str
  ing_ingest :: "json_dict \<Rightarrow> ingestion_request result"

record 'x perspective_builder =
  pb_id :: str
  pb_build :: "build_context \<Rightarrow> perspective_view result"
  pb_build_with_execution :: "(build_context \<Rightarrow> 'x option \<Rightarrow> perspective_view result) option"

record 'x task_generator =
  tg_id :: str
  tg_generate :: "artifact \<Rightarrow> actionable_item list result"
  tg_generate_with_execution ::
    "(artifact \<Rightarrow> artifact_chunk list \<Rightarrow> actionable_item list \<Rightarrow> 'x option \<Rightarrow> actionable_item list result) option"

record view_definition =
  vd_id :: str
  vd_display_name :: str
  vd_description :: "str option"
  vd_metadata :: json_dict

record 'x domain_pack =
  dp_id :: str
  dp_display_name :: str
  dp_artifact_types :: "artifact_type list"
  dp_extractors :: "'x context_extractor list"
  dp_perspective_builders :: "'x perspective_builder list"
  dp_task_generators :: "'x task_generator list"
  dp_view_definitions :: "view_definition list"
  dp_chunker :: "(artifact \<Rightarrow> artifact_chunk list result) option"
  dp_ingestors :: "artifact_ingestor list"
  dp_metadata :: json_dict

section \<open>The registry\<close>

type_synonym 'x domain_registry = "(str \<times> 'x domain_pack) list"

definition domain_text :: "str \<Rightarrow> str \<Rightarrow> str" where
  "domain_text i rest = lit ''Domain '' @ [39] @ i @ [39] @ rest"

definition missing_views :: "'x domain_pack \<Rightarrow> str list" where
  "missing_views pack =
     sort (remdups (filter (\<lambda>i. i \<notin> vd_id ` set (dp_view_definitions pack)) (map pb_id (dp_perspective_builders pack))))"

definition register_domain :: "'x domain_registry \<Rightarrow> 'x domain_pack \<Rightarrow> 'x domain_registry result" where
  "register_domain reg pack =
     (if dp_id pack \<in> fst ` set reg
      then Inl (ValueError (domain_text (dp_id pack) (lit '' is already registered.'')))
      else if \<not> distinct (map at_id (dp_artifact_types pack))
      then Inl (ValueError (domain_text (dp_id pack) (lit '' has duplicate artifact types.'')))
      else if \<not> distinct (map vd_id (dp_view_definitions pack))
      then Inl (ValueError (domain_text (dp_id pack) (lit '' has duplicate view definitions.'')))
      else if \<not> distinct (map pb_id (dp_perspective_builders pack))
      then Inl (ValueError (domain_text (dp_id pack) (lit '' has duplicate perspective builders.'')))
      else if missing_views pack \<noteq> []
      then Inl (ValueError (domain_text (dp_id pack) (lit '' has perspective builders without matching view definitions: ''
             @ join (lit '', '') (missing_views pack) @ lit ''.'')))
      else Inr (dict_set reg (dp_id pack) pack))"

definition get_domain :: "'x domain_registry \<Rightarrow> str \<Rightarrow> 'x domain_pack result" where
  "get_domain reg i =
     (case map_of reg i of
        None \<Rightarrow> Inl (KeyError (domain_text i (lit '' is not registered.'')))
      | Some p \<Rightarrow> Inr p)"

definition list_domains :: "'x domain_registry \<Rightarrow> 'x domain_pack list" where
  "list_domains reg = map (\<lambda>i. the (map_of reg i)) (sort (map fst reg))"

definition list_artifact_types :: "'x domain_registry \<Rightarrow> str \<Rightarrow> artifact_type list result" where
  "list_artifact_types reg i = rbind (get_domain reg i) (\<lambda>p. Inr (dp_artifact_types p))"

definition list_perspectives :: "'x domain_registry \<Rightarrow> str \<Rightarrow> str list result" where
  "list_perspectives reg i = rbind (get_domain reg i) (\<lambda>p. Inr (map pb_id (dp_perspective_builders p)))"

definition list_views :: "'x domain_registry \<Rightarrow> str \<Rightarrow> view_definition list result" where
  "list_views reg i = rbind (get_domain reg i) (\<lambda>p. Inr (dp_view_definitions p))"

fun register_domains :: "'x domain_registry \<Rightarrow> 'x domain_pack list \<Rightarrow> 'x domain_registry result" where
  "register_domains reg [] = Inr reg"
| "register_domains reg (p # ps) = rbind (register_domain reg p) (\<lambda>reg1. register_domains reg1 ps)"

section \<open>What a registry guarantees\<close>

definition pack_ok :: "'x domain_pack \<Rightarrow> bool" where
  "pack_ok p \<longleftrightarrow> distinct (map at_id (dp_artifact_types p)) \<and> distinct (map vd_id (dp_view_definitions p))
     \<and> distinct (map pb_id (dp_perspective_builders p))
     \<and> pb_id ` set (dp_perspective_builders p) \<subseteq> vd_id ` set (dp_view_definitions p)"

definition registry_ok :: "'x domain_registry \<Rightarrow> bool" where
  "registry_ok reg \<longleftrightarrow> distinct (map fst reg) \<and> (\<forall>(i, p) \<in> set reg. dp_id p = i \<and> pack_ok p)"

lemma missing_views_Nil: "missing_views p = [] \<longleftrightarrow> pb_id ` set (dp_perspective_builders p) \<subseteq> vd_id ` set (dp_view_definitions p)"
proof -
  have "missing_views p = [] \<longleftrightarrow> set (missing_views p) = {}" by simp
  also have "\<dots> \<longleftrightarrow> pb_id ` set (dp_perspective_builders p) \<subseteq> vd_id ` set (dp_view_definitions p)"
    by (auto simp: missing_views_def)
  finally show ?thesis .
qed

lemma register_domain_iff:
  "register_domain reg p = Inr reg1 \<longleftrightarrow> dp_id p \<notin> fst ` set reg \<and> pack_ok p \<and> reg1 = reg @ [(dp_id p, p)]"
  by (auto simp: register_domain_def pack_ok_def missing_views_Nil dict_set_new)

lemma register_domain_ok: "register_domain reg p = Inr reg1 \<Longrightarrow> registry_ok reg \<Longrightarrow> registry_ok reg1"
  by (auto simp: register_domain_iff registry_ok_def)

lemma register_domains_iff:
  "register_domains reg ps = Inr reg1 \<longleftrightarrow> reg1 = reg @ map (\<lambda>p. (dp_id p, p)) ps
     \<and> list_all pack_ok ps \<and> distinct (map dp_id ps) \<and> dp_id ` set ps \<inter> fst ` set reg = {}"
proof (induction ps arbitrary: reg)
  case (Cons p ps)
  show ?case by (auto simp: rbind_eq_Inr register_domain_iff Cons.IH)
qed auto

lemma registered_ok: "register_domains [] ps = Inr reg \<Longrightarrow> registry_ok reg"
  by (auto simp: register_domains_iff registry_ok_def comp_def list_all_iff)

lemma get_domain_ok: "registry_ok reg \<Longrightarrow> get_domain reg i = Inr p \<Longrightarrow> dp_id p = i \<and> pack_ok p"
  by (auto simp: get_domain_def registry_ok_def dest: map_of_SomeD split: option.splits)

text \<open>
  Registration at start-up succeeds exactly for packs with distinct ids that are each
  consistent, with distinct artifact types, views and builders and a view for every builder;
  then every pack is found under its id, and the list is all of them in the order of ids.
\<close>

theorem registration_is_exact:
  "(\<exists>reg. register_domains [] ps = Inr reg) = (list_all pack_ok ps \<and> distinct (map dp_id ps))
   \<and> (case register_domains [] ps of
        Inl _ \<Rightarrow> True
      | Inr reg \<Rightarrow> list_all (\<lambda>p. get_domain reg (dp_id p) = Inr p) ps
          \<and> sorted (map dp_id (list_domains reg)) \<and> set (list_domains reg) = set ps)"
proof -
  have "list_all (\<lambda>p. get_domain reg (dp_id p) = Inr p) ps
      \<and> sorted (map dp_id (list_domains reg)) \<and> set (list_domains reg) = set ps"
    if "register_domains [] ps = Inr reg" for reg
  proof -
    have reg: "reg = map (\<lambda>p. (dp_id p, p)) ps" "distinct (map dp_id ps)" using that by (auto simp: register_domains_iff)
    have keys: "map fst reg = map dp_id ps" by (simp add: reg comp_def)
    have found: "map_of reg (dp_id p) = Some p" if "p \<in> set ps" for p
      using reg(2) that keys by (intro map_of_is_SomeI) (auto simp: reg(1) comp_def)
    then have "list_all (\<lambda>p. get_domain reg (dp_id p) = Inr p) ps" by (simp add: list_all_iff get_domain_def)
    moreover have same: "dp_id (the (map_of reg i)) = i" if "i \<in> set (map dp_id ps)" for i
      using that found by auto
    then have "map dp_id (list_domains reg) = sort (map dp_id ps)"
      unfolding list_domains_def keys map_map comp_def by (intro map_idI) (simp add: same)
    moreover have "set (list_domains reg) = set ps"
      unfolding list_domains_def keys set_map set_sort using found by force
    ultimately show ?thesis by simp
  qed
  moreover have "(\<exists>reg. register_domains [] ps = Inr reg) = (list_all pack_ok ps \<and> distinct (map dp_id ps))"
    by (simp add: register_domains_iff)
  ultimately show ?thesis by (simp split: sum.split)
qed

end
