(* ===== verification/Context_Service.thy ===== *)
theory Context_Service
  imports Context_Store Context_Registry
begin

text \<open>
  The context engine service (\<^verbatim>\<open>app/core/context_engine/service.py\<close>) over any repository: the
  ingestion of an artifact through the extensions of its domain, and the views that are
  built and cached. The lemmas are proved from the repository contract alone.
\<close>

section \<open>Extensions of a domain\<close>

definition run_extractor ::
  "'x option \<Rightarrow> artifact \<Rightarrow> artifact_chunk list \<Rightarrow> 'x context_extractor \<Rightarrow> extraction_result result"
where
  "run_extractor ctx a ks ex =
     (case ex_extract_with_execution ex of
        Some f \<Rightarrow> f a ks ctx
      | None \<Rightarrow> ex_extract ex a ks)"

definition supports :: "str \<Rightarrow> 'x context_extractor \<Rightarrow> bool" where
  "supports type_id ex = (case ex_artifact_type_ids ex of None \<Rightarrow> True | Some ids \<Rightarrow> type_id \<in> set ids)"

definition no_extraction :: extraction_result where
  "no_extraction = \<lparr> er_entities = [], er_relationships = [], er_signals = [], er_items = [] \<rparr>"

definition extend_extraction :: "extraction_result \<Rightarrow> extraction_result \<Rightarrow> extraction_result" where
  "extend_extraction acc r = \<lparr> er_entities = er_entities acc @ er_entities r,
     er_relationships = er_relationships acc @ er_relationships r, er_signals = er_signals acc @ er_signals r,
     er_items = er_items acc @ er_items r \<rparr>"

fun run_extractors ::
  "'x option \<Rightarrow> artifact \<Rightarrow> artifact_chunk list \<Rightarrow> 'x context_extractor list \<Rightarrow> extraction_result \<times> str list
     \<Rightarrow> (extraction_result \<times> str list) result"
where
  "run_extractors ctx a ks [] acc = Inr acc"
| "run_extractors ctx a ks (ex # exs) (acc, ids) =
     (if \<not> supports (a_type_id a) ex then run_extractors ctx a ks exs (acc, ids)
      else rbind (run_extractor ctx a ks ex) (\<lambda>r.
             run_extractors ctx a ks exs (extend_extraction acc r, ids @ [ex_id ex])))"

fun run_task_generators ::
  "'x option \<Rightarrow> artifact \<Rightarrow> artifact_chunk list \<Rightarrow> 'x task_generator list \<Rightarrow> actionable_item list
     \<Rightarrow> actionable_item list result"
where
  "run_task_generators ctx a ks [] items = Inr items"
| "run_task_generators ctx a ks (g # gs) items =
     (case tg_generate_with_execution g of
        Some f \<Rightarrow> rbind (f a ks items ctx) (\<lambda>items1. run_task_generators ctx a ks gs items1)
      | None \<Rightarrow> rbind (tg_generate g a) (\<lambda>new. run_task_generators ctx a ks gs (items @ new)))"

definition run_extensions ::
  "'x option \<Rightarrow> 'x domain_pack \<Rightarrow> artifact \<Rightarrow> artifact_chunk list \<Rightarrow> (extraction_result \<times> str list) result"
where
  "run_extensions ctx domain a ks =
     rbind (run_extractors ctx a ks (dp_extractors domain) (no_extraction, [])) (\<lambda>(r, ids).
     rbind (run_task_generators ctx a ks (dp_task_generators domain) (er_items r)) (\<lambda>items.
       Inr (r\<lparr> er_items := items \<rparr>, ids)))"

section \<open>Ingestion\<close>

text \<open>
  What the service holds: the registry, the default chunker, the execution context, a
  supply of uuid4 hex strings (for the artifact, and for the chunks by their index) and the
  clock.
\<close>

record 'x context_engine =
  ce_registry :: "'x domain_registry"
  ce_default_chunker :: simple_text_chunker
  ce_execution_context :: "'x option"
  ce_artifact_uuid :: str
  ce_chunk_uuid :: "nat \<Rightarrow> str"
  ce_now :: int

definition new_artifact :: "'x context_engine \<Rightarrow> ingestion_request \<Rightarrow> artifact" where
  "new_artifact eng req = \<lparr> a_id = new_context_id ''art'' (ce_artifact_uuid eng), a_domain_id = ir_domain_id req,
     a_type_id = ir_type_id req, a_owner_type = ir_owner_type req, a_owner_id = ir_owner_id req,
     a_title = ir_title req, a_text = ir_text req, a_source_uri = ir_source_uri req,
     a_metadata = ir_metadata req, a_created_at = ce_now eng \<rparr>"

definition chunks_of :: "'x context_engine \<Rightarrow> 'x domain_pack \<Rightarrow> artifact \<Rightarrow> artifact_chunk list result" where
  "chunks_of eng domain a =
     (case dp_chunker domain of
        Some f \<Rightarrow> f a
      | None \<Rightarrow> Inr (chunk (ce_default_chunker eng) (ce_chunk_uuid eng) a))"

text \<open>The checks before anything is stored.\<close>

definition admit :: "'x context_engine \<Rightarrow> ingestion_request \<Rightarrow> 'x domain_pack result" where
  "admit eng req =
     rbind (get_domain (ce_registry eng) (ir_domain_id req)) (\<lambda>domain.
       if ir_type_id req \<notin> at_id ` set (dp_artifact_types domain)
       then Inl (ValueError (lit ''Artifact type '' @ [39] @ ir_type_id req @ [39] @ lit '' is not registered for domain ''
              @ [39] @ ir_domain_id req @ [39] @ lit ''.''))
       else if strip (ir_text req) = [] then Inl (ValueError (lit ''Artifact text cannot be empty.''))
       else Inr domain)"

definition ingest_artifact ::
  "'s repository \<Rightarrow> 'x context_engine \<Rightarrow> ingestion_request \<Rightarrow> 's \<Rightarrow> context_ingestion_result result \<times> 's"
where
  "ingest_artifact R eng req =
     stbind (stlift (admit eng req)) (\<lambda>domain.
       let a = new_artifact eng req in
       stbind (rp_store_artifact R a) (\<lambda>_.
       stbind (stlift (chunks_of eng domain a)) (\<lambda>ks.
       stbind (rp_store_chunks R ks) (\<lambda>_.
       stbind (stlift (run_extensions (ce_execution_context eng) domain a ks)) (\<lambda>(r, ids).
       stbind (save_outputs R a (er_entities r) (er_relationships r) (er_signals r) (er_items r)) (\<lambda>_.
         streturn \<lparr> ig_artifact = a, ig_chunks = ks, ig_entities = er_entities r,
           ig_relationships = er_relationships r, ig_signals = er_signals r, ig_items = er_items r,
           ig_extractor_ids = ids \<rparr>))))))"

definition ingest_payload ::
  "'s repository \<Rightarrow> 'x context_engine \<Rightarrow> str \<Rightarrow> str \<Rightarrow> json_dict \<Rightarrow> 's \<Rightarrow> context_ingestion_result result \<times> 's"
where
  "ingest_payload R eng domain_id ingestor_id payload =
     stbind (stlift (get_domain (ce_registry eng) domain_id)) (\<lambda>domain.
       case find (\<lambda>i. ing_id i = ingestor_id) (dp_ingestors domain) of
         None \<Rightarrow> stlift (Inl (ValueError (lit ''Artifact ingestor '' @ [39] @ ingestor_id @ [39]
                   @ lit '' is not registered for domain '' @ [39] @ domain_id @ [39] @ lit ''.'')))
       | Some i \<Rightarrow>
           stbind (stlift (ing_ingest i payload)) (\<lambda>req.
             if ir_domain_id req \<noteq> domain_id
             then stlift (Inl (ValueError (lit ''Artifact ingestor returned a mismatched domain id.'')))
             else ingest_artifact R eng req))"

section \<open>Views\<close>

definition build_view ::
  "'s repository \<Rightarrow> 'x context_engine \<Rightarrow> scope \<Rightarrow> str \<Rightarrow> artifact list option \<Rightarrow> 's
     \<Rightarrow> (perspective_view \<times> artifact list) result \<times> 's"
where
  "build_view R eng k view_id given =
     stbind (stlift (get_domain (ce_registry eng) (fst k))) (\<lambda>domain.
       case find (\<lambda>b. pb_id b = view_id) (dp_perspective_builders domain) of
         None \<Rightarrow> stlift (Inl (ValueError (lit ''Perspective '' @ [39] @ view_id @ [39]
                   @ lit '' is not registered for domain '' @ [39] @ fst k @ [39] @ lit ''.'')))
       | Some b \<Rightarrow>
           stbind (case given of
                     Some (a # as) \<Rightarrow> streturn (a # as)
                   | _ \<Rightarrow> stread (rp_list_artifacts R k)) (\<lambda>as.
           stbind (stread (rp_list_chunks_for_artifacts R (map a_id as))) (\<lambda>ks.
           stbind (stread (rp_list_entities R k)) (\<lambda>es.
           stbind (stread (rp_list_relationships R k)) (\<lambda>rs.
           stbind (stread (rp_list_signals R k)) (\<lambda>ss.
           stbind (stread (rp_list_actionable_items R k)) (\<lambda>items.
             let context = \<lparr> bc_scope = k, bc_artifacts = as, bc_chunks = ks, bc_entities = es,
                   bc_relationships = rs, bc_signals = ss, bc_items = items \<rparr>
             in stbind (stlift (case pb_build_with_execution b of
                                  Some f \<Rightarrow> f context (ce_execution_context eng)
                                | None \<Rightarrow> pb_build b context)) (\<lambda>v.
                streturn (v, as)))))))))"

definition build_perspective ::
  "'s repository \<Rightarrow> 'x context_engine \<Rightarrow> scope \<Rightarrow> str \<Rightarrow> 's \<Rightarrow> perspective_view result \<times> 's"
where
  "build_perspective R eng k view_id =
     stbind (build_view R eng k view_id None) (\<lambda>(v, as). rp_store_perspective_view R v k as)"

text \<open>\<^verbatim>\<open>dict.pop(key, None)\<close>\<close>

definition dict_pop :: "json_dict \<Rightarrow> str \<Rightarrow> json_dict" where
  "dict_pop d k = filter (\<lambda>e. fst e \<noteq> k) d"

definition with_stale_metadata :: "perspective_view \<Rightarrow> artifact list \<Rightarrow> perspective_view" where
  "with_stale_metadata v as =
     (let current = map (\<lambda>a. JStr (a_id a)) as;
          saved = (case map_of (pv_metadata v) (lit ''source_artifact_ids'') of Some (JArr xs) \<Rightarrow> xs | _ \<Rightarrow> []);
          stale = (current \<noteq> saved);
          d1 = dict_set (pv_metadata v) (lit ''is_stale'') (JBool stale);
          d2 = dict_set d1 (lit ''current_artifact_count'') (JInt (int (length current)));
          d3 = dict_set d2 (lit ''source_artifact_count'') (JInt (int (length saved)))
      in v\<lparr> pv_metadata :=
           (if stale then dict_set d3 (lit ''stale_reason'') (JStr (lit ''Artifacts changed after this view was generated.''))
            else dict_pop d3 (lit ''stale_reason'')) \<rparr>)"

definition get_perspective ::
  "'s repository \<Rightarrow> 'x context_engine \<Rightarrow> scope \<Rightarrow> str \<Rightarrow> bool \<Rightarrow> 's \<Rightarrow> perspective_view result \<times> 's"
where
  "get_perspective R eng k view_id regenerate =
     stbind (stread (rp_list_artifacts R k)) (\<lambda>as.
     stbind (if regenerate then streturn None else stread (rp_get_perspective_view R k view_id)) (\<lambda>cached.
       case cached of
         Some v \<Rightarrow> streturn (with_stale_metadata v as)
       | None \<Rightarrow> stbind (build_view R eng k view_id (Some as)) (\<lambda>(v, built). rp_store_perspective_view R v k built)))"

section \<open>What an ingestion does, from the contract\<close>

lemma admit_refuses:
  assumes "admit eng req = Inl e"
  shows "ingest_artifact R eng req s = (Inl e, s)"
  using assms by (simp add: ingest_artifact_def st_defs)

lemma chunk_ids: "map ck_id (chunk c uuid a) = map (\<lambda>i. new_context_id ''chunk'' (uuid i)) [0 ..< length (chunk c uuid a)]"
  using chunk_loop_ids [of c uuid a 0 0] by (simp add: chunk_def)

lemma new_context_id_inj: "new_context_id p u = new_context_id p v \<longleftrightarrow> u = v"
  by (simp add: new_context_id_def)

lemma valid_take: "valid_str s \<Longrightarrow> valid_str (take n s)"
  by (rule valid_str_subset) (auto dest: in_set_takeD)

lemma valid_drop: "valid_str s \<Longrightarrow> valid_str (drop n s)"
  by (rule valid_str_subset) (auto dest: in_set_dropD)

text \<open>The default chunker's chunks are ones a repository takes, when the uuids are new.\<close>

lemma default_chunks_ok:
  assumes "inj uuid" and "\<forall>n. new_context_id ''chunk'' (uuid n) \<notin> used" and "\<forall>n. valid_str (uuid n)"
    and "valid_str (a_text a)" and "valid_str (a_id a)"
  shows "chunks_ok used (a_id a) (chunk c uuid a)"
proof -
  have "distinct (map ck_id (chunk c uuid a))"
    unfolding chunk_ids distinct_map using assms(1) by (auto simp: inj_on_def new_context_id_inj)
  moreover have id: "\<exists>n. ck_id k = new_context_id ''chunk'' (uuid n)" if "k \<in> set (chunk c uuid a)" for k
  proof -
    have "ck_id k \<in> set (map ck_id (chunk c uuid a))" using that by simp
    then show ?thesis unfolding chunk_ids by auto
  qed
  moreover have "distinct (map ck_index (chunk c uuid a))"
    using chunk_loop_ids [of c uuid a 0 0] by (simp add: chunk_def)
  moreover have "ck_artifact_id k = a_id a \<and> sl_artifact_id (ck_source_link k) = a_id a
      \<and> json_ok (JObj (link_dict (ck_source_link k))) \<and> json_ok (JObj (ck_metadata k))"
    if k: "k \<in> set (chunk c uuid a)" for k
  proof -
    have ok: "chunk_ok c a k" using chunk_loop_ok [of c a uuid 0 0] k by (simp add: chunk_def list_all_iff)
    obtain n where n: "ck_id k = new_context_id ''chunk'' (uuid n)" using id [OF k] by blast
    have "valid_str (ck_id k)" using assms(3) by (simp add: n new_context_id_def)
    moreover have "valid_str (ck_text k)" using ok assms(4) by (simp add: chunk_ok_def valid_take valid_drop)
    ultimately have "json_ok (JObj (link_dict (ck_source_link k)))"
      unfolding json_ok_link using ok assms(4,5) by (simp add: chunk_ok_def valid_take valid_drop)
    then show ?thesis using ok by (simp add: chunk_ok_def)
  qed
  moreover have "ck_id ` set (chunk c uuid a) \<inter> used = {}" using id assms(2) by fastforce
  ultimately show ?thesis unfolding chunks_ok_def list_all_iff by blast
qed

text \<open>
  The contents of a repository, whatever keeps them, and what an ingestion does to them.
\<close>

record context_view =
  cx_used :: "str set"
  cx_known :: "str \<Rightarrow> scope option"
  cx_look :: "scope \<Rightarrow> holdings"
  cx_chunks :: "str \<Rightarrow> artifact_chunk set"

definition put_artifact :: "artifact \<Rightarrow> context_view \<Rightarrow> context_view" where
  "put_artifact a v = v\<lparr> cx_used := insert (a_id a) (cx_used v), cx_known := (cx_known v)(a_id a \<mapsto> scope_of a),
     cx_look := (cx_look v)(scope_of a := add_artifact a (cx_look v (scope_of a))) \<rparr>"

definition put_chunks :: "str \<Rightarrow> artifact_chunk list \<Rightarrow> context_view \<Rightarrow> context_view" where
  "put_chunks i ks v = v\<lparr> cx_used := cx_used v \<union> ck_id ` set ks, cx_chunks := (cx_chunks v)(i := canon_chunk ` set ks) \<rparr>"

definition put_outputs :: "artifact \<Rightarrow> extraction_result \<Rightarrow> context_view \<Rightarrow> context_view" where
  "put_outputs a r v = v\<lparr> cx_used := cx_used v \<union> output_ids (er_entities r) (er_relationships r) (er_signals r) (er_items r),
     cx_look := (cx_look v)(scope_of a := add_outputs (er_entities r) (er_relationships r) (er_signals r) (er_items r)
       (cx_look v (scope_of a))) \<rparr>"

definition spec_ingest :: "'x context_engine \<Rightarrow> ingestion_request \<Rightarrow> context_view \<Rightarrow> context_ingestion_result result \<times> context_view" where
  "spec_ingest eng req v =
     (case admit eng req of
        Inl e \<Rightarrow> (Inl e, v)
      | Inr domain \<Rightarrow>
          let a = new_artifact eng req; v1 = put_artifact a v in
          (case chunks_of eng domain a of
             Inl e \<Rightarrow> (Inl e, v1)
           | Inr ks \<Rightarrow>
               let v2 = put_chunks (a_id a) ks v1 in
               (case run_extensions (ce_execution_context eng) domain a ks of
                  Inl e \<Rightarrow> (Inl e, v2)
                | Inr (r, ids) \<Rightarrow>
                    (Inr \<lparr> ig_artifact = a, ig_chunks = ks, ig_entities = er_entities r,
                       ig_relationships = er_relationships r, ig_signals = er_signals r, ig_items = er_items r,
                       ig_extractor_ids = ids \<rparr>, put_outputs a r v2))))"

text \<open>
  What an ingestion needs: a new id for the artifact, metadata that are JSON, and extensions
  whose chunks and records a repository takes.
\<close>

definition spec_ready :: "'x context_engine \<Rightarrow> ingestion_request \<Rightarrow> context_view \<Rightarrow> bool" where
  "spec_ready eng req v \<longleftrightarrow>
     (case admit eng req of
        Inl e \<Rightarrow> True
      | Inr domain \<Rightarrow>
          let a = new_artifact eng req; v1 = put_artifact a v in
          a_id a \<notin> cx_used v \<and> json_ok (JObj (ir_metadata req))
          \<and> (case chunks_of eng domain a of
               Inl e \<Rightarrow> True
             | Inr ks \<Rightarrow>
                 chunks_ok (cx_used v1) (a_id a) ks
                 \<and> (case run_extensions (ce_execution_context eng) domain a ks of
                      Inl e \<Rightarrow> True
                    | Inr (r, ids) \<Rightarrow>
                        outputs_ok (cx_known v1) (cx_used (put_chunks (a_id a) ks v1)) (scope_of a)
                          (er_entities r) (er_relationships r) (er_signals r) (er_items r))))"

text \<open>Ingestions one after another, each with its own uuids and clock.\<close>

fun ingest_all ::
  "'s repository \<Rightarrow> ('x context_engine \<times> ingestion_request) list \<Rightarrow> 's \<Rightarrow> context_ingestion_result result list \<times> 's"
where
  "ingest_all R [] s = ([], s)"
| "ingest_all R ((eng, req) # steps) s =
     (let (r, s1) = ingest_artifact R eng req s; (rs, s2) = ingest_all R steps s1 in (r # rs, s2))"

fun spec_ingest_all ::
  "('x context_engine \<times> ingestion_request) list \<Rightarrow> context_view \<Rightarrow> context_ingestion_result result list \<times> context_view"
where
  "spec_ingest_all [] v = ([], v)"
| "spec_ingest_all ((eng, req) # steps) v =
     (let (r, v1) = spec_ingest eng req v; (rs, v2) = spec_ingest_all steps v1 in (r # rs, v2))"

fun spec_ready_all :: "('x context_engine \<times> ingestion_request) list \<Rightarrow> context_view \<Rightarrow> bool" where
  "spec_ready_all [] v = True"
| "spec_ready_all ((eng, req) # steps) v \<longleftrightarrow> spec_ready eng req v \<and> spec_ready_all steps (snd (spec_ingest eng req v))"

lemma spec_induct [case_names 1 2]:
  "P [] \<Longrightarrow> (\<And>eng req steps. P steps \<Longrightarrow> P ((eng, req) # steps)) \<Longrightarrow> P steps"
  by (induction steps) auto

definition request_scope :: "ingestion_request \<Rightarrow> scope" where
  "request_scope req = (ir_domain_id req, ir_owner_type req, ir_owner_id req)"

lemma scope_of_new_artifact [simp]: "scope_of (new_artifact eng req) = request_scope req"
  by (simp add: scope_of_def new_artifact_def request_scope_def)

lemma spec_ingest_look:
  "k \<noteq> request_scope req \<Longrightarrow> cx_look (snd (spec_ingest eng req v)) k = cx_look v k"
  by (simp add: spec_ingest_def Let_def put_artifact_def put_chunks_def put_outputs_def split: sum.split prod.split)

lemma spec_ingest_artifact:
  "admit eng req = Inr domain \<Longrightarrow> h_artifacts (cx_look (snd (spec_ingest eng req v)) (request_scope req))
     = insert (canon_artifact (new_artifact eng req)) (h_artifacts (cx_look v (request_scope req)))"
  by (simp add: spec_ingest_def Let_def put_artifact_def put_chunks_def put_outputs_def add_artifact_def add_outputs_def
      split: sum.split prod.split)

lemma spec_ingest_grows:
  "cx_used v \<subseteq> cx_used (snd (spec_ingest eng req v))"
  "h_artifacts (cx_look v k) \<subseteq> h_artifacts (cx_look (snd (spec_ingest eng req v)) k)"
  by (auto simp: spec_ingest_def Let_def put_artifact_def put_chunks_def put_outputs_def add_artifact_def add_outputs_def
      split: sum.splits prod.splits)

text \<open>The ingestions that store an artifact for an owner: all but those refused at once.\<close>

definition stores_for :: "scope \<Rightarrow> 'x context_engine \<times> ingestion_request \<Rightarrow> bool" where
  "stores_for k step = (case step of (eng, req) \<Rightarrow> request_scope req = k \<and> \<not> isl (admit eng req))"

lemma map_of_dict_pop: "map_of (dict_pop d k) x = (if x = k then None else map_of d x)"
  by (induction d) (auto simp: dict_pop_def)

lemma stale_flag: "map_of (pv_metadata (with_stale_metadata v as)) (lit ''is_stale'')
    = Some (JBool (map (\<lambda>a. JStr (a_id a)) as
        \<noteq> (case map_of (pv_metadata v) (lit ''source_artifact_ids'') of Some (JArr xs) \<Rightarrow> xs | _ \<Rightarrow> [])))"
  by (simp add: with_stale_metadata_def Let_def map_of_dict_set map_of_dict_pop lit_eq_iff)

definition freshness_keys :: "str list" where
  "freshness_keys = [lit ''generated_at'', lit ''is_stale'', lit ''current_artifact_count'', lit ''source_artifact_count'', lit ''stale_reason'']"

lemma stale_keeps:
  "(with_stale_metadata v as)\<lparr> pv_metadata := [] \<rparr> = v\<lparr> pv_metadata := [] \<rparr>"
  "key \<notin> set freshness_keys \<Longrightarrow> map_of (pv_metadata (with_stale_metadata v as)) key = map_of (pv_metadata v) key"
  by (simp_all add: with_stale_metadata_def freshness_keys_def Let_def map_of_dict_set map_of_dict_pop)

text \<open>Reading steps.\<close>

lemma stbind_known: "m s = (Inr x, s1) \<Longrightarrow> stbind m f s = f x s1"
  by (simp add: stbind_def)

lemma stbind_read: "f s = Inr x \<Longrightarrow> stbind (stread f) g s = g x s" "stbind (stlift (Inr x)) g s = g x s"
  by (simp_all add: stbind_def stread_def stlift_def)

context context_store begin

definition view_of :: "'s \<Rightarrow> context_view" where
  "view_of s = \<lparr> cx_used = used s, cx_known = known s, cx_look = look s, cx_chunks = look_chunks s \<rparr>"

lemma view_artifact:
  assumes "ok s" and "a_id a \<notin> used s" and "json_ok (JObj (a_metadata a))"
  obtains s1 where "rp_store_artifact R a s = (Inr (), s1)" "ok s1" "view_of s1 = put_artifact a (view_of s)"
    "look_chunks s1 (a_id a) = {}" "undisturbed R {scope_of a} s s1"
  using store_artifact [OF assms] that by (auto simp: view_of_def put_artifact_def)

lemma view_chunks:
  assumes "ok s" and "known s i \<noteq> None" and "look_chunks s i = {}" and "chunks_ok (used s) i ks"
  obtains s1 where "rp_store_chunks R ks s = (Inr (), s1)" "ok s1" "view_of s1 = put_chunks i ks (view_of s)"
    "undisturbed R {} s s1"
  using store_chunks [OF assms] that by (auto simp: view_of_def put_chunks_def)

lemma view_outputs:
  assumes "ok s" and "known s (a_id a) = Some (scope_of a)"
    and "outputs_ok (known s) (used s) (scope_of a) (er_entities r) (er_relationships r) (er_signals r) (er_items r)"
  obtains s1 where "save_outputs R a (er_entities r) (er_relationships r) (er_signals r) (er_items r) s = (Inr (), s1)"
    "ok s1" "view_of s1 = put_outputs a r (view_of s)" "undisturbed R {} s s1"
  using store_outputs [OF assms] that by (auto simp: view_of_def put_outputs_def)

lemma ingest_refines:
  assumes "ok s" and "spec_ready eng req (view_of s)"
  shows "\<exists>s1. ingest_artifact R eng req s = (fst (spec_ingest eng req (view_of s)), s1) \<and> ok s1
     \<and> view_of s1 = snd (spec_ingest eng req (view_of s)) \<and> undisturbed R {scope_of (new_artifact eng req)} s s1"
proof (cases "admit eng req")
  case (Inl e)
  then show ?thesis using assms(1) admit_refuses [OF Inl, of R s] by (simp add: spec_ingest_def undisturbed_refl)
next
  case (Inr domain)
  define a where "a = new_artifact eng req"
  have meta: "a_metadata a = ir_metadata req" by (simp add: a_def new_artifact_def)
  have ready: "a_id a \<notin> used s" "json_ok (JObj (a_metadata a))"
    using assms(2) Inr unfolding meta by (auto simp: spec_ready_def Let_def a_def [symmetric] view_of_def)
  obtain s1 where s1: "rp_store_artifact R a s = (Inr (), s1)" "ok s1" "view_of s1 = put_artifact a (view_of s)"
    "look_chunks s1 (a_id a) = {}" "undisturbed R {scope_of a} s s1"
    by (rule view_artifact [OF assms(1) ready])
  have v1: "known s1 = cx_known (put_artifact a (view_of s))" "used s1 = cx_used (put_artifact a (view_of s))"
    unfolding s1(3) [symmetric] by (simp_all add: view_of_def)
  have known1: "known s1 (a_id a) = Some (scope_of a)" by (simp add: v1 put_artifact_def)
  show ?thesis
  proof (cases "chunks_of eng domain a")
    case (Inl e)
    then show ?thesis using Inr s1 by (simp add: ingest_artifact_def spec_ingest_def st_defs a_def [symmetric] Let_def)
  next
    case ks: (Inr ks)
    have "chunks_ok (used s1) (a_id a) ks"
      using assms(2) Inr ks by (simp add: spec_ready_def Let_def a_def [symmetric] v1)
    then obtain s2 where s2: "rp_store_chunks R ks s1 = (Inr (), s2)" "ok s2" "view_of s2 = put_chunks (a_id a) ks (view_of s1)"
      "undisturbed R {} s1 s2"
      using view_chunks [OF s1(2) _ s1(4)] known1 by auto
    have u2: "undisturbed R {scope_of a} s s2" by (rule undisturbed_trans [OF s1(5) s2(4)]) simp
    have v2: "known s2 = known s1" "used s2 = cx_used (put_chunks (a_id a) ks (put_artifact a (view_of s)))"
      using arg_cong [OF s2(3), of cx_known] arg_cong [OF s2(3), of cx_used] unfolding s1(3) [symmetric]
      by (simp_all add: view_of_def put_chunks_def)
    show ?thesis
    proof (cases "run_extensions (ce_execution_context eng) domain a ks")
      case (Inl e)
      then show ?thesis using Inr ks s1 s2 u2
        by (simp add: ingest_artifact_def spec_ingest_def st_defs a_def [symmetric] Let_def)
    next
      case x: (Inr y)
      obtain r ids where y: "y = (r, ids)" by (cases y)
      have "outputs_ok (known s2) (used s2) (scope_of a) (er_entities r) (er_relationships r) (er_signals r) (er_items r)"
        using assms(2) Inr ks x y by (simp add: spec_ready_def Let_def a_def [symmetric] v1 v2)
      then obtain s3 where s3: "save_outputs R a (er_entities r) (er_relationships r) (er_signals r) (er_items r) s2 = (Inr (), s3)"
        "ok s3" "view_of s3 = put_outputs a r (view_of s2)" "undisturbed R {} s2 s3"
        using view_outputs [OF s2(2)] known1 v2(1) by metis
      have "undisturbed R {scope_of a} s s3" by (rule undisturbed_trans [OF u2 s3(4)]) simp
      then show ?thesis using Inr ks s1 s2 s3 x y
        by (simp add: ingest_artifact_def spec_ingest_def st_defs a_def [symmetric] Let_def)
    qed
  qed
qed

lemma ingest_all_refines:
  assumes "ok s" and "spec_ready_all steps (view_of s)"
  shows "\<exists>s1. ingest_all R steps s = (fst (spec_ingest_all steps (view_of s)), s1) \<and> ok s1
     \<and> view_of s1 = snd (spec_ingest_all steps (view_of s))"
  using assms
proof (induction steps arbitrary: s rule: spec_induct)
  case (2 eng req steps)
  have "spec_ready eng req (view_of s)" using 2(3) by simp
  from ingest_refines [OF 2(2) this]
  obtain s1 where s1: "ingest_artifact R eng req s = (fst (spec_ingest eng req (view_of s)), s1)" "ok s1"
    "view_of s1 = snd (spec_ingest eng req (view_of s))"
    by blast
  have "spec_ready_all steps (view_of s1)" using 2(3) s1(3) by simp
  from "2.IH" [OF s1(2) this] show ?case by (auto simp: s1 split_beta)
qed simp

lemma ingest_look:
  assumes "ok s" and "spec_ready eng req (view_of s)"
  shows "listed_holdings R k (snd (ingest_artifact R eng req s)) = Inr (cx_look (snd (spec_ingest eng req (view_of s))) k)"
proof -
  obtain s1 where s1: "snd (ingest_artifact R eng req s) = s1" "ok s1" "view_of s1 = snd (spec_ingest eng req (view_of s))"
    using ingest_refines [OF assms] by auto
  have "cx_look (view_of s1) = look s1" by (simp add: view_of_def)
  then show ?thesis using listed_holdings_look [OF s1(2), of k] s1(1,3) by simp
qed

lemma canon_fields: "a_id (canon_artifact a) = a_id a" "scope_of (canon_artifact a) = scope_of a"
  by (simp_all add: canon_artifact_def scope_of_def)

lemma got_artifact:
  assumes "ok s"
  shows "\<exists>r. rp_get_artifact R k i s = Inr r \<and> (\<forall>a. r = Some a \<longrightarrow> a_id a = i \<and> known s i = Some k \<and> scope_of a = k)"
proof -
  obtain r where both: "rp_get_artifact R k i s = Inr r \<and> canon_artifact ` set_option r = {x \<in> h_artifacts (look s k). a_id x = i}"
    using get_artifact [OF assms, of k i] by (rule exE)
  note r = conjunct1 [OF both] conjunct2 [OF both]
  have "a_id a = i \<and> known s i = Some k \<and> scope_of a = k" if a: "r = Some a" for a
  proof -
    have "canon_artifact a \<in> canon_artifact ` set_option r" using a by simp
    then have "canon_artifact a \<in> h_artifacts (look s k)" "a_id (canon_artifact a) = i" unfolding r(2) mem_Collect_eq by (rule conjunct1, rule conjunct2)
    then show ?thesis using look_artifacts [OF assms, of "canon_artifact a" k] by (simp add: canon_fields)
  qed
  then show ?thesis using r(1) by (intro exI [of _ r]) simp
qed

lemma listed_artifact: "ok s \<Longrightarrow> rp_list_artifacts R k s = Inr xs \<Longrightarrow> a \<in> set xs \<Longrightarrow> known s (a_id a) = Some k \<and> scope_of a = k"
  using list_artifacts [of s k] look_artifacts [of s "canon_artifact a" k] by (auto simp: canon_fields)

text \<open>The context a view is built from: the owner's records and their chunks, and no others.\<close>

definition own_context :: "'s \<Rightarrow> build_context \<Rightarrow> bool" where
  "own_context s c \<longleftrightarrow> canon_artifact ` set (bc_artifacts c) = h_artifacts (look s (bc_scope c))
     \<and> canon_chunk ` set (bc_chunks c) = (\<Union>i \<in> a_id ` set (bc_artifacts c). look_chunks s i)
     \<and> canon_entity ` set (bc_entities c) = h_entities (look s (bc_scope c))
     \<and> canon_relationship ` set (bc_relationships c) = h_relationships (look s (bc_scope c))
     \<and> canon_signal ` set (bc_signals c) = h_signals (look s (bc_scope c))
     \<and> canon_item ` set (bc_items c) = h_items (look s (bc_scope c))"

lemma view_of_own_context:
  assumes "ok s" and "get_domain (ce_registry eng) (fst k) = Inr domain"
    and "find (\<lambda>b. pb_id b = view_id) (dp_perspective_builders domain) = Some b"
    and "given = None \<or> given = Some as \<and> rp_list_artifacts R k s = Inr as"
  shows "\<exists>c. bc_scope c = k \<and> own_context s c \<and> rp_list_artifacts R k s = Inr (bc_artifacts c)
     \<and> build_view R eng k view_id given s =
         (rbind (case pb_build_with_execution b of Some f \<Rightarrow> f c (ce_execution_context eng) | None \<Rightarrow> pb_build b c)
            (\<lambda>v. Inr (v, bc_artifacts c)), s)"
proof -
  obtain xs where xs: "rp_list_artifacts R k s = Inr xs" "canon_artifact ` set xs = h_artifacts (look s k)"
    using list_artifacts [OF assms(1), of k] by blast
  obtain es where es: "rp_list_entities R k s = Inr es" "canon_entity ` set es = h_entities (look s k)"
    using list_entities [OF assms(1), of k] by blast
  obtain rs where rs: "rp_list_relationships R k s = Inr rs" "canon_relationship ` set rs = h_relationships (look s k)"
    using list_relationships [OF assms(1), of k] by blast
  obtain ss where ss: "rp_list_signals R k s = Inr ss" "canon_signal ` set ss = h_signals (look s k)"
    using list_signals [OF assms(1), of k] by blast
  obtain acts where acts: "rp_list_actionable_items R k s = Inr acts" "canon_item ` set acts = h_items (look s k)"
    using list_items [OF assms(1), of k] by blast
  note l = xs es rs ss acts
  obtain ks where both: "rp_list_chunks_for_artifacts R (map a_id xs) s = Inr ks
      \<and> canon_chunk ` set ks = (\<Union>i \<in> set (map a_id xs). look_chunks s i)"
    using list_chunks_of_all [OF assms(1), of "map a_id xs"] by (rule exE)
  note ks = conjunct1 [OF both] conjunct2 [OF both]
  let ?c = "\<lparr> bc_scope = k, bc_artifacts = xs, bc_chunks = ks, bc_entities = es, bc_relationships = rs, bc_signals = ss, bc_items = acts \<rparr>"
  have g: "(case given of Some (a # as) \<Rightarrow> streturn (a # as) | _ \<Rightarrow> stread (rp_list_artifacts R k)) s = (Inr xs, s)"
    using assms(4) l(1) by (auto simp: st_defs split: list.split)
  define y where "y = (case pb_build_with_execution b of Some f \<Rightarrow> f ?c (ce_execution_context eng) | None \<Rightarrow> pb_build b ?c)"
  have "build_view R eng k view_id given s = stbind (stlift y) (\<lambda>v. streturn (v, xs)) s"
    unfolding build_view_def assms(2) stbind_read assms(3) option.case stbind_read
    by (subst stbind_known, rule g) (simp only: l ks(1) stbind_read Let_def y_def)
  then have "build_view R eng k view_id given s = (rbind y (\<lambda>v. Inr (v, xs)), s)"
    by (cases y) (simp_all add: st_defs)
  moreover have "own_context s ?c" using l ks by (simp add: own_context_def)
  ultimately show ?thesis using l(1) unfolding y_def by (intro exI [of _ ?c]) simp
qed

text \<open>A cached view is read back with its contents, and flagged once its owner's artifacts changed.\<close>

lemma ingestions_change:
  assumes "ok s" and "spec_ready_all steps (view_of s)"
  shows "\<exists>rs s1. ingest_all R steps s = (rs, s1) \<and> ok s1 \<and> used s \<subseteq> used s1
     \<and> h_artifacts (look s k) \<subseteq> h_artifacts (look s1 k)
     \<and> rp_get_perspective_view R k d s1 = rp_get_perspective_view R k d s
     \<and> (if list_ex (stores_for k) steps then \<exists>a \<in> h_artifacts (look s1 k). a_id a \<notin> used s
        else rp_list_artifacts R k s1 = rp_list_artifacts R k s)"
  using assms
proof (induction steps arbitrary: s rule: spec_induct)
  case (2 eng req steps)
  have ready: "spec_ready eng req (view_of s)" using 2(3) by simp
  obtain r s1 where s1: "ingest_artifact R eng req s = (r, s1)" "ok s1" "view_of s1 = snd (spec_ingest eng req (view_of s))"
    "undisturbed R {request_scope req} s s1"
    using ingest_refines [OF 2(2) ready] by auto
  have v: "used s1 = cx_used (view_of s1)" "look s1 = cx_look (view_of s1)" "used s = cx_used (view_of s)" "look s = cx_look (view_of s)"
    by (simp_all add: view_of_def)
  have grows: "used s \<subseteq> used s1" "h_artifacts (look s k) \<subseteq> h_artifacts (look s1 k)"
    unfolding v s1(3) by (rule spec_ingest_grows)+
  have get1: "rp_get_perspective_view R k d s1 = rp_get_perspective_view R k d s" by (rule undisturbed_views [OF s1(4)])
  have "spec_ready_all steps (view_of s1)" using 2(3) s1(3) by simp
  from "2.IH" [OF s1(2) this] obtain rs s2 where s2: "ingest_all R steps s1 = (rs, s2)" "ok s2" "used s1 \<subseteq> used s2"
    "h_artifacts (look s1 k) \<subseteq> h_artifacts (look s2 k)"
    "rp_get_perspective_view R k d s2 = rp_get_perspective_view R k d s1"
    "if list_ex (stores_for k) steps then \<exists>a \<in> h_artifacts (look s2 k). a_id a \<notin> used s1
        else rp_list_artifacts R k s2 = rp_list_artifacts R k s1" by blast
  have "if list_ex (stores_for k) ((eng, req) # steps) then \<exists>a \<in> h_artifacts (look s2 k). a_id a \<notin> used s
        else rp_list_artifacts R k s2 = rp_list_artifacts R k s"
  proof (cases "stores_for k (eng, req)")
    case True
    then obtain domain where ad: "admit eng req = Inr domain" "request_scope req = k"
      by (cases "admit eng req") (auto simp: stores_for_def)
    have "a_id (canon_artifact (new_artifact eng req)) \<notin> used s"
      using ready ad by (simp add: spec_ready_def Let_def view_of_def canon_artifact_def)
    moreover have "canon_artifact (new_artifact eng req) \<in> h_artifacts (look s1 k)"
      using spec_ingest_artifact [OF ad(1), of "view_of s"] unfolding v s1(3) ad(2) by simp
    ultimately show ?thesis using True s2(4) by auto
  next
    case False
    have "rp_list_artifacts R k s1 = rp_list_artifacts R k s"
    proof (cases "request_scope req = k")
      case True
      then obtain e where "admit eng req = Inl e" using False by (cases "admit eng req") (auto simp: stores_for_def)
      then show ?thesis using s1(1) admit_refuses [of eng req e R s] by simp
    next
      case False
      then show ?thesis using undisturbed_lists [OF s1(4), of k] by blast
    qed
    then show ?thesis using False s2(6) grows(1) by (auto split: if_splits)
  qed
  then show ?case using s1(1) s2 grows get1 by (auto simp: split_beta)
qed auto

lemma cached_view_after:
  assumes "ok s" and "rp_list_artifacts R k s = Inr as" and "pv_id v \<notin> used s"
    and "json_ok (JObj (view_dict (with_cache_metadata isofmt as v)))"
    and "rp_store_perspective_view R v k as s = (w, s1)" and "spec_ready_all steps (view_of s1)"
    and "ingest_all R steps s1 = (rs, s2)"
  shows "\<exists>u. get_perspective R eng k (pv_definition_id v) False s2 = (Inr u, s2)
     \<and> u\<lparr> pv_metadata := [] \<rparr> = v\<lparr> pv_metadata := [] \<rparr>
     \<and> (\<forall>key. key \<notin> set freshness_keys \<longrightarrow>
          map_of (pv_metadata u) key = map_of (pv_metadata (with_cache_metadata isofmt as v)) key)
     \<and> map_of (pv_metadata u) (lit ''is_stale'') = Some (JBool (list_ex (stores_for k) steps))"
proof -
  obtain u where s1: "ok s1" "known s1 = known s" "look s1 = look s" "rp_list_artifacts R k s1 = rp_list_artifacts R k s"
    "rp_get_perspective_view R k (pv_definition_id v) s1 = Inr (Some u)" "u\<lparr> pv_metadata := [] \<rparr> = v\<lparr> pv_metadata := [] \<rparr>"
    "\<forall>key. key \<noteq> lit ''generated_at'' \<longrightarrow>
        map_of (pv_metadata u) key = map_of (pv_metadata (with_cache_metadata isofmt as v)) key"
    using store_view [OF assms(1,3,4), of k] assms(5) by auto
  from ingestions_change [OF s1(1) assms(6), of k "pv_definition_id v"] assms(7)
  have s2: "ok s2" "h_artifacts (look s1 k) \<subseteq> h_artifacts (look s2 k)"
    "rp_get_perspective_view R k (pv_definition_id v) s2 = Inr (Some u)"
    "if list_ex (stores_for k) steps then \<exists>a \<in> h_artifacts (look s2 k). a_id a \<notin> used s1
        else rp_list_artifacts R k s2 = rp_list_artifacts R k s1" by (simp_all add: s1(5))
  obtain cur where cur: "rp_list_artifacts R k s2 = Inr cur" "canon_artifact ` set cur = h_artifacts (look s2 k)"
    using list_artifacts [OF s2(1)] by blast
  have get: "get_perspective R eng k (pv_definition_id v) False s2 = (Inr (with_stale_metadata u cur), s2)"
    using s2(3) cur(1) by (simp add: get_perspective_def st_defs)
  have "map_of (pv_metadata u) (lit ''source_artifact_ids'') = Some (JArr (map (\<lambda>a. JStr (a_id a)) as))"
    using s1(7) cache_keys(1) [of isofmt as v] by (simp add: lit_eq_iff)
  then have flag: "map_of (pv_metadata (with_stale_metadata u cur)) (lit ''is_stale'')
      = Some (JBool (map a_id cur \<noteq> map a_id as))"
    using inj_map_eq_map [of JStr "map a_id cur" "map a_id as"] by (simp add: stale_flag inj_def comp_def)
  have id: "a_id (canon_artifact x) = a_id x" for x by (simp add: canon_artifact_def)
  have "map a_id cur \<noteq> map a_id as \<longleftrightarrow> list_ex (stores_for k) steps"
  proof (cases "list_ex (stores_for k) steps")
    case True
    then obtain a where a: "a \<in> h_artifacts (look s2 k)" "a_id a \<notin> used s1" using s2(4) by auto
    have "a_id a \<in> a_id ` set cur" using a(1) unfolding cur(2) [symmetric] using id by (metis (no_types, lifting) image_iff)
    moreover have "a_id x \<noteq> a_id a" if "x \<in> set as" for x
    proof -
      have "canon_artifact x \<in> h_artifacts (look s1 k)"
        using list_artifacts [OF s1(1), of k] s1(4) assms(2) that by auto
      then have "known s1 (a_id x) \<noteq> None" using look_artifacts [OF s1(1)] id by fastforce
      then show ?thesis using known_used [OF s1(1)] a(2) by metis
    qed
    ultimately show ?thesis using True by (metis (no_types, lifting) image_iff list.set_map)
  next
    case False
    then show ?thesis using s2(4) cur(1) s1(4) assms(2) by simp
  qed
  then show ?thesis using get flag stale_keeps s1(6,7) by (auto simp: freshness_keys_def)
qed

end

end
