(* ===== verification/Context_Memory.thy ===== *)
theory Context_Memory
  imports Context_Service
begin

text \<open>
  The in-memory repository (\<^verbatim>\<open>InMemoryContextRepository\<close> of
  \<^verbatim>\<open>app/core/context_engine/storage.py\<close>): dicts of records and owner indexes of their ids; that it
  keeps the contract is the interpretation \<open>memory\<close>. \<open>isofmt\<close> is \<^verbatim>\<open>datetime.isoformat\<close>.
\<close>

section \<open>State and operations\<close>

record memory =
  mm_artifacts :: "(str \<times> artifact) list"
  mm_chunks :: "(str \<times> artifact_chunk) list"
  mm_entities :: "(str \<times> context_entity) list"
  mm_relationships :: "(str \<times> context_relationship) list"
  mm_signals :: "(str \<times> context_signal) list"
  mm_actionable_items :: "(str \<times> actionable_item) list"
  mm_perspective_views :: "((scope \<times> str) \<times> perspective_view) list"
  mm_artifact_index :: "scope \<Rightarrow> str list"
  mm_entity_index :: "scope \<Rightarrow> str list"
  mm_relationship_index :: "scope \<Rightarrow> str list"
  mm_signal_index :: "scope \<Rightarrow> str list"
  mm_task_index :: "scope \<Rightarrow> str list"

definition empty_memory :: memory where
  "empty_memory = \<lparr> mm_artifacts = [], mm_chunks = [], mm_entities = [], mm_relationships = [], mm_signals = [],
     mm_actionable_items = [], mm_perspective_views = [], mm_artifact_index = (\<lambda>_. []), mm_entity_index = (\<lambda>_. []),
     mm_relationship_index = (\<lambda>_. []), mm_signal_index = (\<lambda>_. []), mm_task_index = (\<lambda>_. []) \<rparr>"

definition record_text :: "string \<Rightarrow> str \<Rightarrow> str \<Rightarrow> str" where
  "record_text rtype i rest = lit rtype @ lit '' '' @ [39] @ i @ [39] @ rest"

definition artifact_for_required_source_link ::
  "(str \<times> artifact) list \<Rightarrow> source_link list \<Rightarrow> string \<Rightarrow> str \<Rightarrow> artifact result"
where
  "artifact_for_required_source_link artifacts links rtype i =
     (case links of
        [] \<Rightarrow> Inl (ValueError (record_text rtype i (lit '' must include source links.'')))
      | l # _ \<Rightarrow>
          (case map_of artifacts (sl_artifact_id l) of
             None \<Rightarrow> Inl (ValueError (record_text rtype i (lit '' references unknown artifact ''
                       @ [39] @ sl_artifact_id l @ [39] @ lit ''.'')))
           | Some a \<Rightarrow> Inr a))"

text \<open>The loops over new records: with the owner index, and without.\<close>

definition index_add :: "scope \<Rightarrow> str list \<Rightarrow> (scope \<Rightarrow> str list) \<Rightarrow> scope \<Rightarrow> str list" where
  "index_add k ids ix = ix(k := ix k @ ids)"

fun store_indexed ::
  "string \<Rightarrow> ('r \<Rightarrow> str) \<Rightarrow> ('r \<Rightarrow> source_link list) \<Rightarrow> (str \<times> artifact) list \<Rightarrow> 'r list
     \<Rightarrow> (str \<times> 'r) list \<times> (scope \<Rightarrow> str list) \<Rightarrow> unit result \<times> (str \<times> 'r) list \<times> (scope \<Rightarrow> str list)"
where
  "store_indexed rtype rid links artifacts [] (tab, ix) = (Inr (), tab, ix)"
| "store_indexed rtype rid links artifacts (x # xs) (tab, ix) =
     (case artifact_for_required_source_link artifacts (links x) rtype (rid x) of
        Inl e \<Rightarrow> (Inl e, tab, ix)
      | Inr a \<Rightarrow> store_indexed rtype rid links artifacts xs
                   (dict_set tab (rid x) x, index_add (scope_of a) [rid x] ix))"

fun store_checked ::
  "string \<Rightarrow> ('r \<Rightarrow> str) \<Rightarrow> ('r \<Rightarrow> source_link list) \<Rightarrow> (str \<times> artifact) list \<Rightarrow> 'r list
     \<Rightarrow> (str \<times> 'r) list \<Rightarrow> unit result \<times> (str \<times> 'r) list"
where
  "store_checked rtype rid links artifacts [] tab = (Inr (), tab)"
| "store_checked rtype rid links artifacts (x # xs) tab =
     (case artifact_for_required_source_link artifacts (links x) rtype (rid x) of
        Inl e \<Rightarrow> (Inl e, tab)
      | Inr a \<Rightarrow> store_checked rtype rid links artifacts xs (dict_set tab (rid x) x))"

text \<open>\<^verbatim>\<open>[table[i] for i in ids]\<close>\<close>

fun fetch_all :: "(str \<times> 'r) list \<Rightarrow> str list \<Rightarrow> 'r list result" where
  "fetch_all tab [] = Inr []"
| "fetch_all tab (i # ids) =
     (case map_of tab i of
        None \<Rightarrow> Inl (KeyError i)
      | Some x \<Rightarrow> rbind (fetch_all tab ids) (\<lambda>xs. Inr (x # xs)))"

definition mem_store_artifact :: "artifact \<Rightarrow> memory \<Rightarrow> unit result \<times> memory" where
  "mem_store_artifact a m = (Inr (), m\<lparr> mm_artifacts := dict_set (mm_artifacts m) (a_id a) a,
     mm_artifact_index := index_add (scope_of a) [a_id a] (mm_artifact_index m) \<rparr>)"

definition mem_store_chunks :: "artifact_chunk list \<Rightarrow> memory \<Rightarrow> unit result \<times> memory" where
  "mem_store_chunks ks m = (Inr (), m\<lparr> mm_chunks := foldl (\<lambda>d k. dict_set d (ck_id k) k) (mm_chunks m) ks \<rparr>)"

definition mem_store_entities :: "context_entity list \<Rightarrow> memory \<Rightarrow> unit result \<times> memory" where
  "mem_store_entities es m =
     (let (r, tab, ix) = store_indexed ''ContextEntity'' en_id en_links (mm_artifacts m) es (mm_entities m, mm_entity_index m)
      in (r, m\<lparr> mm_entities := tab, mm_entity_index := ix \<rparr>))"

definition mem_store_relationships :: "context_relationship list \<Rightarrow> memory \<Rightarrow> unit result \<times> memory" where
  "mem_store_relationships rs m =
     (let (r, tab, ix) = store_indexed ''ContextRelationship'' rl_id rl_links (mm_artifacts m) rs
            (mm_relationships m, mm_relationship_index m)
      in (r, m\<lparr> mm_relationships := tab, mm_relationship_index := ix \<rparr>))"

definition mem_store_signals :: "context_signal list \<Rightarrow> memory \<Rightarrow> unit result \<times> memory" where
  "mem_store_signals ss m =
     (let (r, tab) = store_checked ''ContextSignal'' sg_id sg_links (mm_artifacts m) ss (mm_signals m)
      in (r, m\<lparr> mm_signals := tab \<rparr>))"

definition mem_store_actionable_items :: "actionable_item list \<Rightarrow> memory \<Rightarrow> unit result \<times> memory" where
  "mem_store_actionable_items is m =
     (let (r, tab) = store_checked ''ActionableItem'' ai_id ai_links (mm_artifacts m) is (mm_actionable_items m)
      in (r, m\<lparr> mm_actionable_items := tab \<rparr>))"

definition mem_index_artifact_outputs :: "artifact \<Rightarrow> context_signal list \<Rightarrow> actionable_item list \<Rightarrow> memory \<Rightarrow> memory" where
  "mem_index_artifact_outputs a ss is m =
     m\<lparr> mm_signal_index := index_add (scope_of a) (map sg_id ss) (mm_signal_index m),
        mm_task_index := index_add (scope_of a) (map ai_id is) (mm_task_index m) \<rparr>"

definition mem_list_artifacts :: "scope \<Rightarrow> memory \<Rightarrow> artifact list result" where
  "mem_list_artifacts k m = fetch_all (mm_artifacts m) (mm_artifact_index m k)"

definition mem_get_artifact :: "scope \<Rightarrow> str \<Rightarrow> memory \<Rightarrow> artifact option result" where
  "mem_get_artifact k i m =
     Inr (case map_of (mm_artifacts m) i of
            None \<Rightarrow> None
          | Some a \<Rightarrow> if scope_of a \<noteq> k then None else Some a)"

definition mem_list_chunks_for_artifact :: "str \<Rightarrow> memory \<Rightarrow> artifact_chunk list result" where
  "mem_list_chunks_for_artifact i m = Inr (filter (\<lambda>k. ck_artifact_id k = i) (map snd (mm_chunks m)))"

definition mem_list_chunks_for_artifacts :: "str list \<Rightarrow> memory \<Rightarrow> artifact_chunk list result" where
  "mem_list_chunks_for_artifacts ids m = Inr (filter (\<lambda>k. ck_artifact_id k \<in> set ids) (map snd (mm_chunks m)))"

definition mem_list_entities :: "scope \<Rightarrow> memory \<Rightarrow> context_entity list result" where
  "mem_list_entities k m = fetch_all (mm_entities m) (mm_entity_index m k)"

definition mem_list_relationships :: "scope \<Rightarrow> memory \<Rightarrow> context_relationship list result" where
  "mem_list_relationships k m = fetch_all (mm_relationships m) (mm_relationship_index m k)"

definition mem_list_signals :: "scope \<Rightarrow> memory \<Rightarrow> context_signal list result" where
  "mem_list_signals k m = fetch_all (mm_signals m) (mm_signal_index m k)"

definition mem_list_actionable_items :: "scope \<Rightarrow> memory \<Rightarrow> actionable_item list result" where
  "mem_list_actionable_items k m = fetch_all (mm_actionable_items m) (mm_task_index m k)"

definition mem_get_perspective_view :: "scope \<Rightarrow> str \<Rightarrow> memory \<Rightarrow> perspective_view option result" where
  "mem_get_perspective_view k v m = Inr (map_of (mm_perspective_views m) (k, v))"

definition mem_store_perspective_view ::
  "(int \<Rightarrow> str) \<Rightarrow> perspective_view \<Rightarrow> scope \<Rightarrow> artifact list \<Rightarrow> memory \<Rightarrow> perspective_view result \<times> memory"
where
  "mem_store_perspective_view isofmt v k as m =
     (let stored = with_cache_metadata isofmt as v
      in (Inr stored, m\<lparr> mm_perspective_views := dict_set (mm_perspective_views m) (k, pv_definition_id v) stored \<rparr>))"

definition InMemoryContextRepository :: "(int \<Rightarrow> str) \<Rightarrow> memory repository" where
  "InMemoryContextRepository isofmt = \<lparr>
     rp_store_artifact = mem_store_artifact, rp_store_chunks = mem_store_chunks,
     rp_store_entities = mem_store_entities, rp_store_relationships = mem_store_relationships,
     rp_store_signals = mem_store_signals, rp_store_actionable_items = mem_store_actionable_items,
     rp_index_artifact_outputs = mem_index_artifact_outputs, rp_list_artifacts = mem_list_artifacts,
     rp_get_artifact = mem_get_artifact, rp_list_chunks_for_artifact = mem_list_chunks_for_artifact,
     rp_list_chunks_for_artifacts = mem_list_chunks_for_artifacts, rp_list_entities = mem_list_entities,
     rp_list_relationships = mem_list_relationships, rp_list_signals = mem_list_signals,
     rp_list_actionable_items = mem_list_actionable_items, rp_get_perspective_view = mem_get_perspective_view,
     rp_store_perspective_view = mem_store_perspective_view isofmt \<rparr>"

lemma memory_ops [simp]:
  "rp_store_artifact (InMemoryContextRepository isofmt) = mem_store_artifact"
  "rp_store_chunks (InMemoryContextRepository isofmt) = mem_store_chunks"
  "rp_list_artifacts (InMemoryContextRepository isofmt) = mem_list_artifacts"
  "rp_list_chunks_for_artifact (InMemoryContextRepository isofmt) = mem_list_chunks_for_artifact"
  "rp_list_entities (InMemoryContextRepository isofmt) = mem_list_entities"
  "rp_list_relationships (InMemoryContextRepository isofmt) = mem_list_relationships"
  "rp_list_signals (InMemoryContextRepository isofmt) = mem_list_signals"
  "rp_list_actionable_items (InMemoryContextRepository isofmt) = mem_list_actionable_items"
  by (simp_all add: InMemoryContextRepository_def)

section \<open>The contract holds\<close>

text \<open>The records of a table an index lists.\<close>

definition listed :: "(str \<times> 'r) list \<Rightarrow> str list \<Rightarrow> 'r set" where
  "listed tab ids = {x. \<exists>i \<in> set ids. map_of tab i = Some x}"

definition table_ok :: "(str \<times> 'r) list \<Rightarrow> ('k \<Rightarrow> str list) \<Rightarrow> bool" where
  "table_ok tab ix \<longleftrightarrow> distinct (map fst tab) \<and> (\<forall>k. set (ix k) \<subseteq> fst ` set tab)"

lemma fetch_all_listed:
  assumes "set ids \<subseteq> fst ` set tab"
  shows "\<exists>xs. fetch_all tab ids = Inr xs \<and> set xs = listed tab ids"
  using assms
proof (induction ids)
  case (Cons i ids)
  then obtain x xs where "map_of tab i = Some x" "fetch_all tab ids = Inr xs" "set xs = listed tab ids"
    by (metis insert_subset list.simps(15) map_of_eq_None_iff not_None_eq)
  then show ?case by (auto simp: listed_def)
qed (simp add: listed_def)


lemma listed_extend:
  assumes "distinct (map fst (tab @ map (\<lambda>x. (rid x, x)) xs))" and "set ids \<subseteq> fst ` set tab"
  shows "listed (tab @ map (\<lambda>x. (rid x, x)) xs) ids = listed tab ids"
    and "listed (tab @ map (\<lambda>x. (rid x, x)) xs) (ids @ map rid xs) = listed tab ids \<union> set xs"
proof -
  have old: "map_of (tab @ map (\<lambda>x. (rid x, x)) xs) i = map_of tab i" if "i \<in> fst ` set tab" for i
    using that by (auto simp: map_add_def map_of_eq_None_iff split: option.split)
  have "(\<exists>i \<in> set ids. map_of (tab @ map (\<lambda>x. (rid x, x)) xs) i = Some y) \<longleftrightarrow> (\<exists>i \<in> set ids. map_of tab i = Some y)" for y
    using old assms(2) by (intro bex_cong refl) (metis subsetD)
  then show l: "listed (tab @ map (\<lambda>x. (rid x, x)) xs) ids = listed tab ids"
    by (simp only: listed_def)
  have new: "map_of (tab @ map (\<lambda>x. (rid x, x)) xs) (rid x) = Some x" if "x \<in> set xs" for x
    using assms(1) that by (intro map_of_is_SomeI) auto
  have "listed (tab @ map (\<lambda>x. (rid x, x)) xs) (ids @ map rid xs)
      = listed (tab @ map (\<lambda>x. (rid x, x)) xs) ids \<union> listed (tab @ map (\<lambda>x. (rid x, x)) xs) (map rid xs)"
    unfolding listed_def set_append by blast
  also have "listed (tab @ map (\<lambda>x. (rid x, x)) xs) (map rid xs) = set xs"
    using new by (auto simp: listed_def simp del: map_of_append)
  finally show "listed (tab @ map (\<lambda>x. (rid x, x)) xs) (ids @ map rid xs) = listed tab ids \<union> set xs"
    by (simp only: l)
qed


definition known_artifact :: "(str \<times> artifact) list \<Rightarrow> str \<Rightarrow> scope option" where
  "known_artifact artifacts i = map_option scope_of (map_of artifacts i)"

lemma store_indexed_ok:
  assumes "derived_ok (known_artifact artifacts) used k rid links meta xs" and "fst ` set tab \<subseteq> used"
  shows "store_indexed rtype rid links artifacts xs (tab, ix)
     = (Inr (), tab @ map (\<lambda>x. (rid x, x)) xs, ix(k := ix k @ map rid xs))"
  using assms
proof (induction xs arbitrary: tab ix used)
  case (Cons x xs)
  obtain l ls where l: "links x = l # ls" using Cons.prems(1) by (cases "links x") (auto simp: derived_ok_def)
  then obtain a where a: "map_of artifacts (sl_artifact_id l) = Some a" "scope_of a = k"
    using Cons.prems(1) by (auto simp: derived_ok_def known_artifact_def)
  have "rid x \<notin> fst ` set tab" using Cons.prems by (auto simp: derived_ok_def)
  then have add: "dict_set tab (rid x) x = tab @ [(rid x, x)]" by (rule dict_set_new)
  have "derived_ok (known_artifact artifacts) (insert (rid x) used) k rid links meta xs"
    using Cons.prems(1) by (auto simp: derived_ok_def)
  then have "store_indexed rtype rid links artifacts xs (tab @ [(rid x, x)], index_add k [rid x] ix)
      = (Inr (), (tab @ [(rid x, x)]) @ map (\<lambda>x. (rid x, x)) xs,
          (index_add k [rid x] ix)(k := index_add k [rid x] ix k @ map rid xs))"
    using Cons.prems(2) by (intro Cons.IH) auto
  then show ?case by (simp add: artifact_for_required_source_link_def l a add index_add_def fun_eq_iff)
qed (simp add: fun_eq_iff)

lemma store_checked_ok:
  assumes "derived_ok (known_artifact artifacts) used k rid links meta xs" and "fst ` set tab \<subseteq> used"
  shows "store_checked rtype rid links artifacts xs tab = (Inr (), tab @ map (\<lambda>x. (rid x, x)) xs)"
  using assms
proof (induction xs arbitrary: tab used)
  case (Cons x xs)
  obtain l ls where l: "links x = l # ls" using Cons.prems(1) by (cases "links x") (auto simp: derived_ok_def)
  then obtain a where a: "map_of artifacts (sl_artifact_id l) = Some a" "scope_of a = k"
    using Cons.prems(1) by (auto simp: derived_ok_def known_artifact_def)
  have "rid x \<notin> fst ` set tab" using Cons.prems by (auto simp: derived_ok_def)
  then have add: "dict_set tab (rid x) x = tab @ [(rid x, x)]" by (rule dict_set_new)
  have "derived_ok (known_artifact artifacts) (insert (rid x) used) k rid links meta xs"
    using Cons.prems(1) by (auto simp: derived_ok_def)
  from Cons.IH [OF this, of "tab @ [(rid x, x)]"] Cons.prems(2)
  show ?case by (auto simp: artifact_for_required_source_link_def l a add)
qed simp

definition memory_used :: "memory \<Rightarrow> str set" where
  "memory_used m = fst ` set (mm_artifacts m) \<union> fst ` set (mm_chunks m) \<union> fst ` set (mm_entities m)
     \<union> fst ` set (mm_relationships m) \<union> fst ` set (mm_signals m) \<union> fst ` set (mm_actionable_items m)"

definition memory_look :: "memory \<Rightarrow> scope \<Rightarrow> holdings" where
  "memory_look m k = \<lparr> h_artifacts = canon_artifact ` listed (mm_artifacts m) (mm_artifact_index m k),
     h_entities = canon_entity ` listed (mm_entities m) (mm_entity_index m k),
     h_relationships = canon_relationship ` listed (mm_relationships m) (mm_relationship_index m k),
     h_signals = canon_signal ` listed (mm_signals m) (mm_signal_index m k),
     h_items = canon_item ` listed (mm_actionable_items m) (mm_task_index m k) \<rparr>"

definition memory_chunks :: "memory \<Rightarrow> str \<Rightarrow> artifact_chunk set" where
  "memory_chunks m i = canon_chunk ` {k \<in> snd ` set (mm_chunks m). ck_artifact_id k = i}"

definition memory_ok :: "memory \<Rightarrow> bool" where
  "memory_ok m \<longleftrightarrow> table_ok (mm_artifacts m) (mm_artifact_index m) \<and> table_ok (mm_entities m) (mm_entity_index m)
     \<and> table_ok (mm_relationships m) (mm_relationship_index m) \<and> table_ok (mm_signals m) (mm_signal_index m)
     \<and> table_ok (mm_actionable_items m) (mm_task_index m)
     \<and> (\<forall>(i, a) \<in> set (mm_artifacts m). a_id a = i)
     \<and> (\<forall>k. \<forall>i \<in> set (mm_artifact_index m k). known_artifact (mm_artifacts m) i = Some k)
     \<and> (\<forall>(i, a) \<in> set (mm_artifacts m). i \<in> set (mm_artifact_index m (scope_of a)))
     \<and> distinct (map fst (mm_chunks m))
     \<and> (\<forall>c \<in> snd ` set (mm_chunks m). ck_artifact_id c \<in> fst ` set (mm_artifacts m))"

lemma extend_keys: "map fst (tab @ map (\<lambda>x. (rid x, x)) xs) = map fst tab @ map rid xs"
  by (simp add: comp_def)

lemma extend_key_set: "fst ` set (tab @ map (\<lambda>x. (rid x, x)) xs) = fst ` set tab \<union> rid ` set xs"
  by (simp add: image_Un image_image)

lemma extend_distinct:
  "table_ok tab ix \<Longrightarrow> distinct (map rid xs) \<Longrightarrow> rid ` set xs \<inter> fst ` set tab = {}
     \<Longrightarrow> distinct (map fst (tab @ map (\<lambda>x. (rid x, x)) xs))"
  unfolding extend_keys by (auto simp: table_ok_def)

lemma table_ok_extend:
  assumes "table_ok tab ix" and "distinct (map rid xs)" and "rid ` set xs \<inter> fst ` set tab = {}"
  shows "table_ok (tab @ map (\<lambda>x. (rid x, x)) xs) (ix(k := ix k @ map rid xs))"
    and "listed (tab @ map (\<lambda>x. (rid x, x)) xs) ((ix(k := ix k @ map rid xs)) j)
      = (if j = k then listed tab (ix k) \<union> set xs else listed tab (ix j))"
proof -
  note d = extend_distinct [OF assms]
  have sub: "set (ix j) \<subseteq> fst ` set tab" for j using assms(1) by (simp add: table_ok_def)
  have "set ((ix(k := ix k @ map rid xs)) j) \<subseteq> fst ` set tab \<union> rid ` set xs" for j
    using sub [of j] by auto
  then show "table_ok (tab @ map (\<lambda>x. (rid x, x)) xs) (ix(k := ix k @ map rid xs))"
    unfolding table_ok_def extend_key_set using d by blast
  show "listed (tab @ map (\<lambda>x. (rid x, x)) xs) ((ix(k := ix k @ map rid xs)) j)
      = (if j = k then listed tab (ix k) \<union> set xs else listed tab (ix j))"
    using listed_extend [OF d] sub by simp
qed

lemma fetch_table: "table_ok tab ix \<Longrightarrow> \<exists>xs. fetch_all tab (ix k) = Inr xs \<and> f ` set xs = f ` listed tab (ix k)"
  using fetch_all_listed [of "ix k" tab] unfolding table_ok_def by metis


abbreviation memory_known :: "memory \<Rightarrow> str \<Rightarrow> scope option" where
  "memory_known m \<equiv> known_artifact (mm_artifacts m)"

lemma memory_okD:
  assumes "memory_ok m"
  shows "table_ok (mm_artifacts m) (mm_artifact_index m)" "table_ok (mm_entities m) (mm_entity_index m)"
    "table_ok (mm_relationships m) (mm_relationship_index m)" "table_ok (mm_signals m) (mm_signal_index m)"
    "table_ok (mm_actionable_items m) (mm_task_index m)" "(i, a) \<in> set (mm_artifacts m) \<Longrightarrow> a_id a = i"
    "i \<in> set (mm_artifact_index m k) \<Longrightarrow> memory_known m i = Some k"
    "(i, a) \<in> set (mm_artifacts m) \<Longrightarrow> i \<in> set (mm_artifact_index m (scope_of a))"
  using assms unfolding memory_ok_def by (elim conjE, blast)+

lemma known_artifact_key: "known_artifact artifacts i \<noteq> None \<longleftrightarrow> i \<in> fst ` set artifacts"
  by (simp add: known_artifact_def map_of_eq_None_iff)

lemma memory_views: "rp_get_perspective_view (InMemoryContextRepository isofmt) = (\<lambda>k d. mem_get_perspective_view k d)"
  by (simp add: InMemoryContextRepository_def)

lemma fetch_all_append:
  assumes "set ids \<subseteq> fst ` set tab"
  shows "fetch_all (tab @ new) ids = fetch_all tab ids"
  using assms
proof (induction ids)
  case (Cons i ids)
  then obtain x where "map_of tab i = Some x" by (metis insert_subset list.simps(15) map_of_eq_None_iff not_None_eq)
  then show ?case using Cons by (simp add: map_add_def)
qed simp

text \<open>New chunks and derived records leave the artifacts and the view cache alone.\<close>

lemma memory_undisturbed:
  assumes "mm_artifacts m1 = mm_artifacts m" and "mm_artifact_index m1 = mm_artifact_index m"
    and "mm_perspective_views m1 = mm_perspective_views m"
  shows "undisturbed (InMemoryContextRepository isofmt) {} m m1"
  by (rule undisturbedI [OF memory_views]) (simp_all add: assms mem_get_perspective_view_def mem_list_artifacts_def)

lemma memory_store_artifact:
  assumes "memory_ok m" and "a_id a \<notin> memory_used m"
  shows "\<exists>m1. rp_store_artifact (InMemoryContextRepository isofmt) a m = (Inr (), m1) \<and> memory_ok m1 \<and> memory_used m1 = insert (a_id a) (memory_used m)
    \<and> memory_known m1 = (memory_known m)(a_id a \<mapsto> scope_of a) \<and> memory_chunks m1 = memory_chunks m \<and> memory_chunks m (a_id a) = {}
    \<and> memory_look m1 = (memory_look m)(scope_of a := add_artifact a (memory_look m (scope_of a)))
    \<and> undisturbed (InMemoryContextRepository isofmt) {scope_of a} m m1"
proof -
  define m1 where "m1 = m\<lparr> mm_artifacts := mm_artifacts m @ [(a_id a, a)],
      mm_artifact_index := (mm_artifact_index m)(scope_of a := mm_artifact_index m (scope_of a) @ [a_id a]) \<rparr>"
  have new: "a_id a \<notin> fst ` set (mm_artifacts m)" using assms(2) by (simp add: memory_used_def)
  have st: "rp_store_artifact (InMemoryContextRepository isofmt) a m = (Inr (), m1)"
    by (simp add: mem_store_artifact_def m1_def dict_set_new [OF new] index_add_def)
  have tab: "table_ok (mm_artifacts m) (mm_artifact_index m)" using assms(1) by (simp add: memory_ok_def)
  note ext = table_ok_extend [OF tab, where rid = a_id and xs = "[a]" and k = "scope_of a"]
  have known: "memory_known m1 = (memory_known m)(a_id a \<mapsto> scope_of a)"
  proof -
    have "map_of (mm_artifacts m) (a_id a) = None" using new by (simp add: map_of_eq_None_iff)
    then show ?thesis by (auto simp: m1_def known_artifact_def fun_eq_iff map_add_def split: option.split)
  qed
  have "memory_known m1 i = Some k" if "i \<in> set (mm_artifact_index m1 k)" for i k
  proof (cases "i = a_id a")
    case True
    have "i \<notin> set (mm_artifact_index m k)" using tab new True unfolding table_ok_def by blast
    then show ?thesis using that known True by (simp add: m1_def split: if_splits)
  next
    case False
    then have "i \<in> set (mm_artifact_index m k)" using that by (simp add: m1_def split: if_splits)
    then show ?thesis using memory_okD(7) [OF assms(1)] known False by simp
  qed
  then have ix: "\<forall>k. \<forall>i \<in> set (mm_artifact_index m1 k). memory_known m1 i = Some k" by blast
  have all: "\<forall>(i, b) \<in> set (mm_artifacts m1). i \<in> set (mm_artifact_index m1 (scope_of b))"
    by (auto simp: m1_def dest: memory_okD(8) [OF assms(1)])
  have "memory_ok m1"
    unfolding memory_ok_def
    using assms(1) ext(1) new by (intro conjI ix all) (auto simp: m1_def memory_ok_def)
  moreover have "memory_used m1 = insert (a_id a) (memory_used m)" by (auto simp: memory_used_def m1_def)
  moreover have "memory_chunks m1 = memory_chunks m" by (simp add: memory_chunks_def fun_eq_iff m1_def)
  moreover have "\<forall>c \<in> snd ` set (mm_chunks m). ck_artifact_id c \<noteq> a_id a"
    using assms(1) new unfolding memory_ok_def by (metis (no_types, lifting))
  then have "memory_chunks m (a_id a) = {}" by (auto simp: memory_chunks_def)
  moreover have "memory_look m1 k = ((memory_look m)(scope_of a := add_artifact a (memory_look m (scope_of a)))) k" for k
    using ext(2) [of k] new by (auto simp: memory_look_def m1_def add_artifact_def)
  moreover have "undisturbed (InMemoryContextRepository isofmt) {scope_of a} m m1"
  proof (rule undisturbedI [OF memory_views])
    fix k :: scope
    assume "k \<notin> {scope_of a}"
    then have "mm_artifact_index m1 k = mm_artifact_index m k" by (simp add: m1_def)
    moreover have "set (mm_artifact_index m k) \<subseteq> fst ` set (mm_artifacts m)" using tab unfolding table_ok_def by blast
    then have "fetch_all (mm_artifacts m @ [(a_id a, a)]) (mm_artifact_index m k) = fetch_all (mm_artifacts m) (mm_artifact_index m k)"
      by (rule fetch_all_append)
    ultimately show "rp_list_artifacts (InMemoryContextRepository isofmt) k m1 = rp_list_artifacts (InMemoryContextRepository isofmt) k m"
      by (simp add: mem_list_artifacts_def) (simp add: m1_def)
  qed (simp add: mem_get_perspective_view_def m1_def)
  ultimately show ?thesis using st known by blast
qed

lemma foldl_dict_set:
  "distinct (map rid xs) \<Longrightarrow> rid ` set xs \<inter> fst ` set tab = {}
     \<Longrightarrow> foldl (\<lambda>d x. dict_set d (rid x) x) tab xs = tab @ map (\<lambda>x. (rid x, x)) xs"
proof (induction xs arbitrary: tab)
  case (Cons x xs)
  have "dict_set tab (rid x) x = tab @ [(rid x, x)]" using Cons.prems by (intro dict_set_new) auto
  then show ?case using Cons by auto
qed simp

lemma memory_store_chunks:
  assumes "memory_ok m" and "memory_known m i \<noteq> None" and "memory_chunks m i = {}" and "chunks_ok (memory_used m) i ks"
  shows "\<exists>m1. rp_store_chunks (InMemoryContextRepository isofmt) ks m = (Inr (), m1) \<and> memory_ok m1 \<and> memory_used m1 = memory_used m \<union> ck_id ` set ks
    \<and> memory_known m1 = memory_known m \<and> memory_look m1 = memory_look m
    \<and> memory_chunks m1 = (memory_chunks m)(i := canon_chunk ` set ks)
    \<and> undisturbed (InMemoryContextRepository isofmt) {} m m1"
proof -
  define m1 where "m1 = m\<lparr> mm_chunks := mm_chunks m @ map (\<lambda>k. (ck_id k, k)) ks \<rparr>"
  have ks: "distinct (map ck_id ks)" "ck_id ` set ks \<inter> fst ` set (mm_chunks m) = {}" "\<forall>k \<in> set ks. ck_artifact_id k = i"
    using assms(4) by (auto simp: chunks_ok_def memory_used_def list_all_iff)
  have st: "rp_store_chunks (InMemoryContextRepository isofmt) ks m = (Inr (), m1)"
    by (simp add: mem_store_chunks_def m1_def foldl_dict_set [OF ks(1,2)])
  have new: "snd ` set (mm_chunks m1) = snd ` set (mm_chunks m) \<union> set ks" by (simp add: m1_def image_Un image_image)
  have "distinct (map fst (mm_chunks m1))"
    using assms(1) ks(1,2) unfolding m1_def by (simp add: memory_ok_def extend_keys comp_def) blast
  moreover have i: "i \<in> fst ` set (mm_artifacts m)" using assms(2) by (simp only: known_artifact_key)
  moreover have "ck_artifact_id c \<in> fst ` set (mm_artifacts m)" if "c \<in> snd ` set (mm_chunks m)" for c
    using assms(1) that unfolding memory_ok_def by blast
  ultimately have "memory_ok m1"
    unfolding memory_ok_def new using memory_okD [OF assms(1)] ks(3) by (auto simp: m1_def)
  moreover have "memory_used m1 = memory_used m \<union> ck_id ` set ks" by (auto simp: memory_used_def m1_def image_Un image_image)
  moreover have "memory_look m1 = memory_look m" by (simp add: memory_look_def fun_eq_iff m1_def)
  moreover have "memory_chunks m1 j = ((memory_chunks m)(i := canon_chunk ` set ks)) j" for j
  proof (cases "j = i")
    case True
    have "{k \<in> snd ` set (mm_chunks m1). ck_artifact_id k = i} = {k \<in> snd ` set (mm_chunks m). ck_artifact_id k = i} \<union> set ks"
      unfolding new using ks(3) by blast
    moreover have "{k \<in> snd ` set (mm_chunks m). ck_artifact_id k = i} = {}"
      using assms(3) by (simp only: memory_chunks_def image_is_empty)
    ultimately show ?thesis using True by (simp add: memory_chunks_def)
  next
    case False
    have "{k \<in> snd ` set (mm_chunks m1). ck_artifact_id k = j} = {k \<in> snd ` set (mm_chunks m). ck_artifact_id k = j}"
      unfolding new using ks(3) False by blast
    then show ?thesis using False by (simp add: memory_chunks_def)
  qed
  moreover have "undisturbed (InMemoryContextRepository isofmt) {} m m1" by (rule memory_undisturbed) (simp_all add: m1_def)
  moreover have "memory_known m1 = memory_known m" by (simp add: m1_def)
  ultimately show ?thesis using st by blast
qed

lemma derived_ids:
  "derived_ok known used k rid links meta xs \<Longrightarrow> fst ` set tab \<subseteq> used
     \<Longrightarrow> distinct (map rid xs) \<and> rid ` set xs \<inter> fst ` set tab = {}"
  by (auto simp: derived_ok_def)

lemma memory_store_outputs:
  assumes "memory_ok m" and "outputs_ok (memory_known m) (memory_used m) (scope_of a) es rs ss is"
  shows "\<exists>m1. save_outputs (InMemoryContextRepository isofmt) a es rs ss is m = (Inr (), m1) \<and> memory_ok m1
    \<and> memory_used m1 = memory_used m \<union> output_ids es rs ss is \<and> memory_known m1 = memory_known m
    \<and> memory_chunks m1 = memory_chunks m
    \<and> memory_look m1 = (memory_look m)(scope_of a := add_outputs es rs ss is (memory_look m (scope_of a)))
    \<and> undisturbed (InMemoryContextRepository isofmt) {} m m1"
proof -
  let ?k = "scope_of a"
  let ?rows = "\<lambda>rid xs. map (\<lambda>x. (rid x, x)) xs"
  define m1 where "m1 = m\<lparr> mm_entities := mm_entities m @ ?rows en_id es,
      mm_entity_index := (mm_entity_index m)(?k := mm_entity_index m ?k @ map en_id es),
      mm_relationships := mm_relationships m @ ?rows rl_id rs,
      mm_relationship_index := (mm_relationship_index m)(?k := mm_relationship_index m ?k @ map rl_id rs),
      mm_signals := mm_signals m @ ?rows sg_id ss,
      mm_signal_index := (mm_signal_index m)(?k := mm_signal_index m ?k @ map sg_id ss),
      mm_actionable_items := mm_actionable_items m @ ?rows ai_id is,
      mm_task_index := (mm_task_index m)(?k := mm_task_index m ?k @ map ai_id is) \<rparr>"
  have d: "derived_ok (memory_known m) (memory_used m) ?k en_id en_links en_metadata es"
    "derived_ok (memory_known m) (memory_used m) ?k rl_id rl_links rl_metadata rs"
    "derived_ok (memory_known m) (memory_used m) ?k sg_id sg_links sg_metadata ss"
    "derived_ok (memory_known m) (memory_used m) ?k ai_id ai_links ai_metadata is"
    using assms(2) by (simp_all add: outputs_ok_def)
  have u: "fst ` set (mm_entities m) \<subseteq> memory_used m" "fst ` set (mm_relationships m) \<subseteq> memory_used m"
    "fst ` set (mm_signals m) \<subseteq> memory_used m" "fst ` set (mm_actionable_items m) \<subseteq> memory_used m"
    by (auto simp: memory_used_def)
  have st: "save_outputs (InMemoryContextRepository isofmt) a es rs ss is m = (Inr (), m1)"
    by (simp add: save_outputs_def InMemoryContextRepository_def stbind_def stmodify_def mem_store_entities_def
        mem_store_relationships_def mem_store_signals_def mem_store_actionable_items_def mem_index_artifact_outputs_def
        store_indexed_ok [OF d(1) u(1)] store_indexed_ok [OF d(2) u(2)] store_checked_ok [OF d(3) u(3)]
        store_checked_ok [OF d(4) u(4)] index_add_def m1_def)
  note t = memory_okD(2-5) [OF assms(1)]
  note i = derived_ids [OF d(1) u(1)] derived_ids [OF d(2) u(2)] derived_ids [OF d(3) u(3)] derived_ids [OF d(4) u(4)]
  note e = table_ok_extend [OF t(1) conjunct1 [OF i(1)] conjunct2 [OF i(1)], where k = ?k]
    table_ok_extend [OF t(2) conjunct1 [OF i(2)] conjunct2 [OF i(2)], where k = ?k]
    table_ok_extend [OF t(3) conjunct1 [OF i(3)] conjunct2 [OF i(3)], where k = ?k]
    table_ok_extend [OF t(4) conjunct1 [OF i(4)] conjunct2 [OF i(4)], where k = ?k]
  have "memory_ok m1" using assms(1) e(1,3,5,7) by (simp add: memory_ok_def m1_def)
  moreover have "memory_used m1 = memory_used m \<union> output_ids es rs ss is"
    by (auto simp: memory_used_def m1_def output_ids_def image_Un image_image)
  moreover have "memory_chunks m1 = memory_chunks m" by (simp add: memory_chunks_def fun_eq_iff m1_def)
  moreover have "memory_look m1 j = ((memory_look m)(?k := add_outputs es rs ss is (memory_look m ?k))) j" for j
    using e(2) [of j] e(4) [of j] e(6) [of j] e(8) [of j]
    by (cases "j = ?k") (simp_all add: memory_look_def m1_def add_outputs_def image_Un)
  moreover have "undisturbed (InMemoryContextRepository isofmt) {} m m1" by (rule memory_undisturbed) (simp_all add: m1_def)
  moreover have "memory_known m1 = memory_known m" by (simp add: m1_def)
  ultimately show ?thesis using st by blast
qed

lemma memory_look_artifacts:
  assumes "memory_ok m" and "x \<in> h_artifacts (memory_look m k)"
  shows "memory_known m (a_id x) = Some k \<and> scope_of x = k"
proof -
  obtain i a where a: "x = canon_artifact a" "i \<in> set (mm_artifact_index m k)" "map_of (mm_artifacts m) i = Some a"
    using assms(2) by (auto simp: memory_look_def listed_def)
  have "memory_known m i = Some k" by (rule memory_okD(7) [OF assms(1) a(2)])
  moreover have "a_id a = i" by (rule memory_okD(6) [OF assms(1) map_of_SomeD [OF a(3)]])
  ultimately show ?thesis using a(1,3) by (auto simp: known_artifact_def canon_artifact_def scope_of_def)
qed

lemma memory_get_artifact:
  assumes "memory_ok m"
  shows "\<exists>r. rp_get_artifact (InMemoryContextRepository isofmt) k i m = Inr r
    \<and> canon_artifact ` set_option r = {x \<in> h_artifacts (memory_look m k). a_id x = i}"
proof -
  have id: "a_id (canon_artifact a) = a_id a" for a by (simp add: canon_artifact_def)
  have "{x \<in> h_artifacts (memory_look m k). a_id x = i}
      = canon_artifact ` {a. map_of (mm_artifacts m) i = Some a \<and> i \<in> set (mm_artifact_index m k)}"
  proof -
    have key: "a_id a = j" if "map_of (mm_artifacts m) j = Some a" for j a by (rule memory_okD(6) [OF assms map_of_SomeD [OF that]])
    show ?thesis by (auto simp: memory_look_def listed_def id) (metis (mono_tags, lifting) key image_eqI mem_Collect_eq, metis key)
  qed
  also have "{a. map_of (mm_artifacts m) i = Some a \<and> i \<in> set (mm_artifact_index m k)}
      = {a. map_of (mm_artifacts m) i = Some a \<and> scope_of a = k}"
    using memory_okD(7) [OF assms, of i k] memory_okD(8) [OF assms, of i] by (auto simp: known_artifact_def dest: map_of_SomeD)
  finally show ?thesis
    by (cases "map_of (mm_artifacts m) i") (auto simp: InMemoryContextRepository_def mem_get_artifact_def)
qed

lemma memory_store_view:
  assumes "memory_ok m"
  shows "\<exists>m1 u. rp_store_perspective_view (InMemoryContextRepository isofmt) v k as m = (Inr (with_cache_metadata isofmt as v), m1)
    \<and> memory_ok m1 \<and> memory_known m1 = memory_known m \<and> memory_look m1 = memory_look m \<and> memory_chunks m1 = memory_chunks m
    \<and> memory_used m1 \<subseteq> insert (pv_id v) (memory_used m)
    \<and> rp_list_artifacts (InMemoryContextRepository isofmt) k m1 = rp_list_artifacts (InMemoryContextRepository isofmt) k m
    \<and> rp_get_perspective_view (InMemoryContextRepository isofmt) k (pv_definition_id v) m1 = Inr (Some u)
    \<and> u\<lparr> pv_metadata := [] \<rparr> = v\<lparr> pv_metadata := [] \<rparr>
    \<and> (\<forall>key. key \<noteq> lit ''generated_at'' \<longrightarrow>
          map_of (pv_metadata u) key = map_of (pv_metadata (with_cache_metadata isofmt as v)) key)"
proof -
  let ?w = "with_cache_metadata isofmt as v"
  define m1 where "m1 = m\<lparr> mm_perspective_views := dict_set (mm_perspective_views m) (k, pv_definition_id v) ?w \<rparr>"
  have "rp_store_perspective_view (InMemoryContextRepository isofmt) v k as m = (Inr ?w, m1)"
    by (simp add: InMemoryContextRepository_def mem_store_perspective_view_def m1_def Let_def)
  moreover have "rp_get_perspective_view (InMemoryContextRepository isofmt) k (pv_definition_id v) m1 = Inr (Some ?w)"
    by (simp add: InMemoryContextRepository_def mem_get_perspective_view_def m1_def map_of_dict_set)
  moreover have "memory_ok m1 = memory_ok m" unfolding memory_ok_def m1_def by simp
  moreover have "memory_known m1 = memory_known m" "memory_look m1 = memory_look m" "memory_chunks m1 = memory_chunks m"
    "memory_used m1 = memory_used m"
    by (simp_all add: m1_def memory_look_def memory_chunks_def memory_used_def fun_eq_iff)
  moreover have "rp_list_artifacts (InMemoryContextRepository isofmt) k m1 = rp_list_artifacts (InMemoryContextRepository isofmt) k m"
    by (simp add: mem_list_artifacts_def m1_def)
  moreover have "?w\<lparr> pv_metadata := [] \<rparr> = v\<lparr> pv_metadata := [] \<rparr>" by (simp add: with_cache_metadata_def)
  ultimately show ?thesis using assms by (intro exI [of _ m1] exI [of _ ?w]) auto
qed

interpretation memory: context_store "InMemoryContextRepository isofmt" memory_ok memory_used memory_known
    memory_look memory_chunks isofmt for isofmt
proof unfold_locales
  fix m :: memory and k :: scope
  assume ok: "memory_ok m"
  show "\<exists>xs. rp_list_artifacts (InMemoryContextRepository isofmt) k m = Inr xs \<and> canon_artifact ` set xs = h_artifacts (memory_look m k)"
    "\<exists>xs. rp_list_entities (InMemoryContextRepository isofmt) k m = Inr xs \<and> canon_entity ` set xs = h_entities (memory_look m k)"
    "\<exists>xs. rp_list_relationships (InMemoryContextRepository isofmt) k m = Inr xs \<and> canon_relationship ` set xs = h_relationships (memory_look m k)"
    "\<exists>xs. rp_list_signals (InMemoryContextRepository isofmt) k m = Inr xs \<and> canon_signal ` set xs = h_signals (memory_look m k)"
    "\<exists>xs. rp_list_actionable_items (InMemoryContextRepository isofmt) k m = Inr xs \<and> canon_item ` set xs = h_items (memory_look m k)"
    unfolding memory_ops memory_look_def mem_list_artifacts_def mem_list_entities_def mem_list_relationships_def
      mem_list_signals_def mem_list_actionable_items_def holdings.simps
    by (rule memory_okD(1-5) [OF ok, THEN fetch_table])+
  show "\<exists>xs. rp_list_chunks_for_artifact (InMemoryContextRepository isofmt) i m = Inr xs \<and> canon_chunk ` set xs = memory_chunks m i" for i
    unfolding memory_ops mem_list_chunks_for_artifact_def memory_chunks_def by simp
  show "\<exists>xs. rp_list_chunks_for_artifacts (InMemoryContextRepository isofmt) ids m = Inr xs
      \<and> canon_chunk ` set xs = (\<Union>i \<in> set ids. memory_chunks m i)" for ids
    by (auto simp: InMemoryContextRepository_def mem_list_chunks_for_artifacts_def memory_chunks_def)
  show "memory_known m i \<noteq> None \<Longrightarrow> i \<in> memory_used m" for i
    unfolding known_artifact_key memory_used_def by blast
  show "x \<in> h_artifacts (memory_look m k) \<Longrightarrow> memory_known m (a_id x) = Some k \<and> scope_of x = k" for x
    by (rule memory_look_artifacts [OF ok])
qed (rule memory_store_artifact memory_store_chunks memory_store_outputs memory_store_view memory_get_artifact; assumption)+

lemma empty_memory_ok: "memory_ok empty_memory" "memory_used empty_memory = {}" "memory_look empty_memory = (\<lambda>_. no_holdings)"
  "memory_chunks empty_memory = (\<lambda>_. {})" "memory_known empty_memory = (\<lambda>_. None)"
  by (simp_all add: memory_ok_def table_ok_def empty_memory_def memory_used_def memory_look_def no_holdings_def
      listed_def memory_chunks_def known_artifact_def fun_eq_iff)

end
