(* ===== verification/Context_Rows.thy ===== *)
theory Context_Rows
  imports Context_Store
begin

text \<open>
  Rows of the context engine's tables (\<^verbatim>\<open>app/models/context_engine.py\<close>) and how
  \<^verbatim>\<open>app/core/context_engine/sqlalchemy_storage.py\<close> writes records into them and reads them back:
  metadata, source links, signal values and views as JSON text with sorted keys.
\<close>

section \<open>JSON columns\<close>

definition json_dump :: "json \<Rightarrow> str" where
  "json_dump j = dumps Spaced (sort_keys j)"

definition json_error :: "'a result" where
  "json_error = Inl (ValueError (lit ''JSONDecodeError''))"

definition invalid_record :: "'a result" where
  "invalid_record = Inl (ValueError (lit ''ValidationError''))"

definition json_load :: "str option \<Rightarrow> json \<Rightarrow> json result" where
  "json_load text fallback =
     (case text of
        None \<Rightarrow> Inr fallback
      | Some t \<Rightarrow> (case loads t of None \<Rightarrow> json_error | Some j \<Rightarrow> Inr j))"

definition load_dict :: "str option \<Rightarrow> json_dict result" where
  "load_dict text = rbind (json_load text (JObj [])) (\<lambda>j. case j of JObj d \<Rightarrow> Inr d | _ \<Rightarrow> invalid_record)"

text \<open>Reading a model field: absent and null are None.\<close>

definition str_at :: "json_dict \<Rightarrow> string \<Rightarrow> str result" where
  "str_at d k = (case map_of d (lit k) of Some (JStr s) \<Rightarrow> Inr s | _ \<Rightarrow> invalid_record)"

definition opt_str_at :: "json_dict \<Rightarrow> string \<Rightarrow> str option result" where
  "opt_str_at d k =
     (case map_of d (lit k) of
        None \<Rightarrow> Inr None | Some JNull \<Rightarrow> Inr None | Some (JStr s) \<Rightarrow> Inr (Some s) | _ \<Rightarrow> invalid_record)"

definition opt_nat_at :: "json_dict \<Rightarrow> string \<Rightarrow> nat option result" where
  "opt_nat_at d k =
     (case map_of d (lit k) of
        None \<Rightarrow> Inr None | Some JNull \<Rightarrow> Inr None
      | Some (JInt i) \<Rightarrow> if i < 0 then invalid_record else Inr (Some (nat i))
      | _ \<Rightarrow> invalid_record)"

text \<open>\<^verbatim>\<open>SourceLink(**item)\<close>\<close>

definition link_of_dict :: "json_dict \<Rightarrow> source_link result" where
  "link_of_dict d =
     rbind (str_at d ''artifact_id'') (\<lambda>a.
     rbind (opt_str_at d ''chunk_id'') (\<lambda>c.
     rbind (opt_nat_at d ''start_offset'') (\<lambda>s.
     rbind (opt_nat_at d ''end_offset'') (\<lambda>e.
     rbind (opt_str_at d ''label'') (\<lambda>l.
     rbind (opt_str_at d ''excerpt'') (\<lambda>x.
       Inr \<lparr> sl_artifact_id = a, sl_chunk_id = c, sl_start = s, sl_end = e, sl_label = l, sl_excerpt = x \<rparr>))))))"

definition link_of_json :: "json \<Rightarrow> source_link result" where
  "link_of_json j = (case j of JObj d \<Rightarrow> link_of_dict d | _ \<Rightarrow> Inl (TypeError (lit ''argument after ** must be a mapping'')))"

text \<open>Every element, or the first error.\<close>

fun each :: "('a \<Rightarrow> 'b result) \<Rightarrow> 'a list \<Rightarrow> 'b list result" where
  "each f [] = Inr []"
| "each f (x # xs) = rbind (f x) (\<lambda>y. rbind (each f xs) (\<lambda>ys. Inr (y # ys)))"

definition source_links_dump :: "source_link list \<Rightarrow> str" where
  "source_links_dump links = json_dump (JArr (map (\<lambda>l. JObj (link_dict l)) links))"

definition source_links_load :: "str option \<Rightarrow> source_link list result" where
  "source_links_load text =
     rbind (json_load text (JArr [])) (\<lambda>j. case j of JArr xs \<Rightarrow> each link_of_json xs | _ \<Rightarrow> invalid_record)"

section \<open>Rows\<close>

record artifact_row =
  ar_id :: str
  ar_domain_id :: str
  ar_type_id :: str
  ar_owner_type :: str
  ar_owner_id :: str
  ar_title :: "str option"
  ar_text :: str
  ar_source_uri :: "str option"
  ar_metadata_json :: "str option"
  ar_created_at :: int

record chunk_row =
  kr_id :: str
  kr_artifact_id :: str
  kr_index :: nat
  kr_text :: str
  kr_start :: nat
  kr_end :: nat
  kr_link_json :: str
  kr_metadata_json :: "str option"

text \<open>
  The four tables of derived records share their key, owner and JSON columns; \<open>dr_columns\<close>
  are the table's own.
\<close>

record 'c derived_row =
  dr_id :: str
  dr_domain_id :: str
  dr_owner_type :: str
  dr_owner_id :: str
  dr_columns :: 'c
  dr_links_json :: "str option"
  dr_metadata_json :: "str option"

record entity_columns =
  ec_type :: str
  ec_name :: str

record relationship_columns =
  rc_type :: str
  rc_source :: str
  rc_target :: str

record signal_columns =
  sc_type :: str
  sc_label :: str
  sc_value_json :: "str option"

record item_columns =
  ic_type :: str
  ic_title :: str
  ic_description :: "str option"
  ic_readiness :: str

record view_row =
  vr_id :: str
  vr_domain_id :: str
  vr_owner_type :: str
  vr_owner_id :: str
  vr_definition_id :: str
  vr_view_json :: str
  vr_source_ids_json :: str
  vr_artifact_count :: int
  vr_latest :: "int option"
  vr_generated_at :: int

record link_row =
  lr_id :: int
  lr_link :: source_link

section \<open>Writing and reading\<close>

definition artifact_record :: "artifact \<Rightarrow> artifact_row" where
  "artifact_record a = \<lparr> ar_id = a_id a, ar_domain_id = a_domain_id a, ar_type_id = a_type_id a,
     ar_owner_type = owner_type_value (a_owner_type a), ar_owner_id = a_owner_id a, ar_title = a_title a,
     ar_text = a_text a, ar_source_uri = a_source_uri a,
     ar_metadata_json = Some (json_dump (JObj (a_metadata a))), ar_created_at = a_created_at a \<rparr>"

definition artifact_from_record :: "artifact_row \<Rightarrow> artifact result" where
  "artifact_from_record r =
     rbind (owner_type_of (ar_owner_type r)) (\<lambda>t.
     rbind (load_dict (ar_metadata_json r)) (\<lambda>m.
       Inr \<lparr> a_id = ar_id r, a_domain_id = ar_domain_id r, a_type_id = ar_type_id r, a_owner_type = t,
             a_owner_id = ar_owner_id r, a_title = ar_title r, a_text = ar_text r, a_source_uri = ar_source_uri r,
             a_metadata = m, a_created_at = ar_created_at r \<rparr>))"

definition chunk_record :: "artifact_chunk \<Rightarrow> chunk_row" where
  "chunk_record k = \<lparr> kr_id = ck_id k, kr_artifact_id = ck_artifact_id k, kr_index = ck_index k, kr_text = ck_text k,
     kr_start = ck_start k, kr_end = ck_end k, kr_link_json = json_dump (JObj (link_dict (ck_source_link k))),
     kr_metadata_json = Some (json_dump (JObj (ck_metadata k))) \<rparr>"

definition chunk_from_record :: "chunk_row \<Rightarrow> artifact_chunk result" where
  "chunk_from_record r =
     rbind (load_dict (Some (kr_link_json r))) (\<lambda>d.
     rbind (link_of_dict d) (\<lambda>l.
     rbind (load_dict (kr_metadata_json r)) (\<lambda>m.
       Inr \<lparr> ck_id = kr_id r, ck_artifact_id = kr_artifact_id r, ck_index = kr_index r, ck_text = kr_text r,
             ck_start = kr_start r, ck_end = kr_end r, ck_source_link = l, ck_metadata = m \<rparr>)))"

definition derived_record ::
  "('r \<Rightarrow> str) \<Rightarrow> ('r \<Rightarrow> source_link list) \<Rightarrow> ('r \<Rightarrow> json_dict) \<Rightarrow> ('r \<Rightarrow> 'c) \<Rightarrow> scope \<Rightarrow> 'r \<Rightarrow> 'c derived_row"
where
  "derived_record rid links meta cols k x = \<lparr> dr_id = rid x, dr_domain_id = fst k,
     dr_owner_type = owner_type_value (fst (snd k)), dr_owner_id = snd (snd k), dr_columns = cols x,
     dr_links_json = Some (source_links_dump (links x)), dr_metadata_json = Some (json_dump (JObj (meta x))) \<rparr>"

definition derived_from_record ::
  "(str \<Rightarrow> 'c \<Rightarrow> source_link list \<Rightarrow> json_dict \<Rightarrow> 'r result) \<Rightarrow> 'c derived_row \<Rightarrow> 'r result"
where
  "derived_from_record build r =
     rbind (source_links_load (dr_links_json r)) (\<lambda>links.
     rbind (load_dict (dr_metadata_json r)) (\<lambda>m. build (dr_id r) (dr_columns r) links m))"

definition entity_columns_of :: "context_entity \<Rightarrow> entity_columns" where
  "entity_columns_of e = \<lparr> ec_type = en_type e, ec_name = en_name e \<rparr>"

definition entity_from_columns :: "str \<Rightarrow> entity_columns \<Rightarrow> source_link list \<Rightarrow> json_dict \<Rightarrow> context_entity result" where
  "entity_from_columns i c links m =
     Inr \<lparr> en_id = i, en_type = ec_type c, en_name = ec_name c, en_links = links, en_metadata = m \<rparr>"

definition relationship_columns_of :: "context_relationship \<Rightarrow> relationship_columns" where
  "relationship_columns_of r = \<lparr> rc_type = rl_type r, rc_source = rl_source_entity_id r, rc_target = rl_target_entity_id r \<rparr>"

definition relationship_from_columns ::
  "str \<Rightarrow> relationship_columns \<Rightarrow> source_link list \<Rightarrow> json_dict \<Rightarrow> context_relationship result"
where
  "relationship_from_columns i c links m =
     Inr \<lparr> rl_id = i, rl_type = rc_type c, rl_source_entity_id = rc_source c, rl_target_entity_id = rc_target c,
           rl_links = links, rl_metadata = m \<rparr>"

definition signal_columns_of :: "context_signal \<Rightarrow> signal_columns" where
  "signal_columns_of s = \<lparr> sc_type = sg_type s, sc_label = sg_label s, sc_value_json = Some (json_dump (sg_value s)) \<rparr>"

definition signal_from_columns :: "str \<Rightarrow> signal_columns \<Rightarrow> source_link list \<Rightarrow> json_dict \<Rightarrow> context_signal result" where
  "signal_from_columns i c links m =
     rbind (json_load (sc_value_json c) JNull) (\<lambda>v.
       Inr \<lparr> sg_id = i, sg_type = sc_type c, sg_label = sc_label c, sg_value = v, sg_links = links, sg_metadata = m \<rparr>)"

definition item_columns_of :: "actionable_item \<Rightarrow> item_columns" where
  "item_columns_of i = \<lparr> ic_type = ai_type i, ic_title = ai_title i, ic_description = ai_description i,
     ic_readiness = readiness_value (ai_readiness i) \<rparr>"

definition item_from_columns :: "str \<Rightarrow> item_columns \<Rightarrow> source_link list \<Rightarrow> json_dict \<Rightarrow> actionable_item result" where
  "item_from_columns i c links m =
     rbind (readiness_of (ic_readiness c)) (\<lambda>st.
       Inr \<lparr> ai_id = i, ai_type = ic_type c, ai_title = ic_title c, ai_description = ic_description c,
             ai_readiness = st, ai_links = links, ai_metadata = m \<rparr>)"

section \<open>Reading back what was written\<close>

lemma load_dump: "json_ok j \<Longrightarrow> json_load (Some (json_dump j)) f = Inr (sort_keys j)"
  by (simp add: json_load_def json_dump_def loads_dumps json_ok_sort_keys)

lemma load_dict_dump: "json_ok (JObj d) \<Longrightarrow> load_dict (Some (json_dump (JObj d))) = Inr (canon_dict d)"
  unfolding load_dict_def load_dump by (simp add: sort_keys_JObj del: sort_keys.simps)

lemma map_of_sort_key:
  assumes "distinct (map fst d)"
  shows "map_of (sort_key fst d) = map_of d"
proof -
  have "distinct (map fst (sort_key fst d))" using assms unfolding map_fst_sort_key by simp
  moreover have "set (sort_key fst d) = set d" by simp
  ultimately show ?thesis using assms map_of_inject_set by blast
qed

lemma map_of_canon_dict:
  assumes "distinct (map fst d)"
  shows "map_of (canon_dict d) k = map_option sort_keys (map_of d k)"
proof -
  have "map fst (map (\<lambda>(k, v). (k, sort_keys v)) d) = map fst d" by (simp add: case_prod_unfold)
  then have "map_of (canon_dict d) = map_of (map (\<lambda>(k, v). (k, sort_keys v)) d)"
    unfolding canon_dict_def by (intro map_of_sort_key) (simp only: assms)
  then show ?thesis by (simp add: map_of_map)
qed

lemma sort_keys_opt [simp]: "sort_keys (opt_str_json v) = opt_str_json v" "sort_keys (opt_nat_json n) = opt_nat_json n"
  by (cases v; simp add: opt_str_json_def) (cases n; simp add: opt_nat_json_def)

lemma opt_at:
  "map_of d (lit k) = Some (opt_str_json v) \<Longrightarrow> opt_str_at d k = Inr v"
  "map_of d (lit k) = Some (opt_nat_json n) \<Longrightarrow> opt_nat_at d k = Inr n"
  by (cases v; simp add: opt_str_at_def opt_str_json_def) (cases n; simp add: opt_nat_at_def opt_nat_json_def)

lemma link_of_canon_dict: "link_of_dict (canon_dict (link_dict l)) = Inr l"
proof -
  have "distinct (map fst (link_dict l))" by (simp add: link_dict_def lit_eq_iff)
  note m = map_of_canon_dict [OF this]
  let ?d = "canon_dict (link_dict l)"
  have "str_at ?d ''artifact_id'' = Inr (sl_artifact_id l)" unfolding str_at_def m by (simp add: link_dict_def)
  moreover have "map_of ?d (lit ''chunk_id'') = Some (opt_str_json (sl_chunk_id l))" unfolding m by (simp add: link_dict_def lit_eq_iff)
  then have "opt_str_at ?d ''chunk_id'' = Inr (sl_chunk_id l)" by (rule opt_at)
  moreover have "map_of ?d (lit ''start_offset'') = Some (opt_nat_json (sl_start l))" unfolding m by (simp add: link_dict_def lit_eq_iff)
  then have "opt_nat_at ?d ''start_offset'' = Inr (sl_start l)" by (rule opt_at)
  moreover have "map_of ?d (lit ''end_offset'') = Some (opt_nat_json (sl_end l))" unfolding m by (simp add: link_dict_def lit_eq_iff)
  then have "opt_nat_at ?d ''end_offset'' = Inr (sl_end l)" by (rule opt_at)
  moreover have "map_of ?d (lit ''label'') = Some (opt_str_json (sl_label l))" unfolding m by (simp add: link_dict_def lit_eq_iff)
  then have "opt_str_at ?d ''label'' = Inr (sl_label l)" by (rule opt_at)
  moreover have "map_of ?d (lit ''excerpt'') = Some (opt_str_json (sl_excerpt l))" unfolding m by (simp add: link_dict_def lit_eq_iff)
  then have "opt_str_at ?d ''excerpt'' = Inr (sl_excerpt l)" by (rule opt_at)
  ultimately show ?thesis by (simp add: link_of_dict_def)
qed

lemma each_map: "(\<And>x. x \<in> set xs \<Longrightarrow> f (g x) = Inr (h x)) \<Longrightarrow> each f (map g xs) = Inr (map h xs)"
  by (induction xs) auto

lemma links_load_dump:
  assumes "list_all (\<lambda>l. json_ok (JObj (link_dict l))) links"
  shows "source_links_load (Some (source_links_dump links)) = Inr links"
proof -
  have "json_ok (JArr (map (\<lambda>l. JObj (link_dict l)) links))" using assms by (simp add: list_all_iff del: json_ok.simps(4))
  from load_dump [OF this]
  have "json_load (Some (source_links_dump links)) (JArr []) = Inr (JArr (map (\<lambda>l. JObj (canon_dict (link_dict l))) links))"
    unfolding source_links_dump_def by (simp add: comp_def sort_keys_JObj del: sort_keys.simps(2))
  then show ?thesis
    using each_map [of links link_of_json "\<lambda>l. JObj (canon_dict (link_dict l))" id]
    by (simp add: source_links_load_def link_of_json_def link_of_canon_dict)
qed

lemma artifact_read_back: "json_ok (JObj (a_metadata a)) \<Longrightarrow> artifact_from_record (artifact_record a) = Inr (canon_artifact a)"
  by (simp add: artifact_from_record_def artifact_record_def load_dict_dump canon_artifact_def del: json_ok.simps)

lemma chunk_read_back:
  "json_ok (JObj (link_dict (ck_source_link k))) \<Longrightarrow> json_ok (JObj (ck_metadata k))
     \<Longrightarrow> chunk_from_record (chunk_record k) = Inr (canon_chunk k)"
  by (simp add: chunk_from_record_def chunk_record_def load_dict_dump link_of_canon_dict canon_chunk_def del: json_ok.simps)

text \<open>How a kind of derived record is read back.\<close>

definition reads_back ::
  "('r \<Rightarrow> str) \<Rightarrow> ('r \<Rightarrow> source_link list) \<Rightarrow> ('r \<Rightarrow> json_dict) \<Rightarrow> ('r \<Rightarrow> 'c)
     \<Rightarrow> (str \<Rightarrow> 'c \<Rightarrow> source_link list \<Rightarrow> json_dict \<Rightarrow> 'r result) \<Rightarrow> ('r \<Rightarrow> 'r) \<Rightarrow> ('r \<Rightarrow> bool) \<Rightarrow> bool"
where
  "reads_back rid links meta cols build canon good \<longleftrightarrow>
     (\<forall>x. good x \<longrightarrow> build (rid x) (cols x) (links x) (canon_dict (meta x)) = Inr (canon x))"

lemma derived_read_back:
  assumes "reads_back rid links meta cols build canon good" and "good x"
    and "list_all (\<lambda>l. json_ok (JObj (link_dict l))) (links x)" and "json_ok (JObj (meta x))"
  shows "derived_from_record build (derived_record rid links meta cols k x) = Inr (canon x)"
  using assms by (simp add: derived_from_record_def derived_record_def links_load_dump load_dict_dump reads_back_def del: json_ok.simps)

lemma reads_back_kinds:
  "reads_back en_id en_links en_metadata entity_columns_of entity_from_columns canon_entity (\<lambda>_. True)"
  "reads_back rl_id rl_links rl_metadata relationship_columns_of relationship_from_columns canon_relationship (\<lambda>_. True)"
  "reads_back sg_id sg_links sg_metadata signal_columns_of signal_from_columns canon_signal (\<lambda>s. json_ok (sg_value s))"
  "reads_back ai_id ai_links ai_metadata item_columns_of item_from_columns canon_item (\<lambda>_. True)"
  by (simp_all add: reads_back_def entity_columns_of_def entity_from_columns_def canon_entity_def
      relationship_columns_of_def relationship_from_columns_def canon_relationship_def signal_columns_of_def
      signal_from_columns_def load_dump canon_signal_def item_columns_of_def item_from_columns_def canon_item_def)

lemma sort_key_map_fst: "(\<And>x. fst (f x) = fst x) \<Longrightarrow> sort_key fst (map f xs) = map f (sort_key fst xs)"
proof -
  assume f: "\<And>x. fst (f x) = fst x"
  have ins: "insort_key fst (f x) (map f ys) = map f (insort_key fst x ys)" for x ys
    by (induction ys) (auto simp: f)
  show ?thesis by (induction xs) (simp_all add: sort_key_def ins)
qed

lemma sort_key_sorted: "sorted (map f xs) \<Longrightarrow> sort_key f xs = xs"
  by (induction xs) (simp_all add: sort_key_def insort_is_Cons)

lemma sort_key_idem: "sort_key fst (sort_key fst xs) = sort_key fst xs"
  by (rule sort_key_sorted) simp

lemma sort_keys_idem: "sort_keys (sort_keys j) = sort_keys j"
proof (induction j rule: sort_keys.induct)
  case (2 kvs)
  let ?f = "\<lambda>(k, v). (k, sort_keys v)"
  have key: "fst (?f x) = fst x" for x by (simp add: case_prod_unfold)
  have "map ?f (map ?f (sort_key fst kvs)) = map ?f (sort_key fst kvs)"
    using 2 by (auto simp: comp_def case_prod_unfold)
  then have "sort_key fst (map ?f (sort_key fst (map ?f kvs))) = sort_key fst (map ?f kvs)"
    unfolding sort_key_map_fst [OF key] sort_key_idem by simp
  then show ?case by simp
qed (simp_all add: comp_def)

lemma canon_dict_idem: "canon_dict (canon_dict d) = canon_dict d"
  using sort_keys_idem [of "JObj d"] by (simp add: sort_keys_JObj del: sort_keys.simps)

lemma canon_idem [simp]:
  "canon_artifact (canon_artifact a) = canon_artifact a" "canon_chunk (canon_chunk k) = canon_chunk k"
  "canon_entity (canon_entity e) = canon_entity e" "canon_relationship (canon_relationship r) = canon_relationship r"
  "canon_signal (canon_signal s) = canon_signal s" "canon_item (canon_item i) = canon_item i"
  by (simp_all add: canon_artifact_def canon_chunk_def canon_entity_def canon_relationship_def canon_signal_def
      canon_item_def canon_dict_idem sort_keys_idem)

section \<open>Views\<close>

text \<open>Fields of a validated model: an absent list or dict is empty.\<close>

definition dict_at :: "json_dict \<Rightarrow> string \<Rightarrow> json_dict result" where
  "dict_at d k = (case map_of d (lit k) of None \<Rightarrow> Inr [] | Some (JObj m) \<Rightarrow> Inr m | _ \<Rightarrow> invalid_record)"

definition models_at :: "(json_dict \<Rightarrow> 'a result) \<Rightarrow> json_dict \<Rightarrow> string \<Rightarrow> 'a list result" where
  "models_at f d k =
     (case map_of d (lit k) of
        None \<Rightarrow> Inr []
      | Some (JArr xs) \<Rightarrow> each (\<lambda>j. case j of JObj m \<Rightarrow> f m | _ \<Rightarrow> invalid_record) xs
      | _ \<Rightarrow> invalid_record)"

definition evidence_of_dict :: "json_dict \<Rightarrow> evidence_link result" where
  "evidence_of_dict d =
     rbind (case map_of d (lit ''source'') of Some (JObj m) \<Rightarrow> link_of_dict m | _ \<Rightarrow> invalid_record) (\<lambda>l.
     rbind (case map_of d (lit ''confidence'') of
              None \<Rightarrow> Inr None | Some JNull \<Rightarrow> Inr None | Some (JFloat t) \<Rightarrow> Inr (Some t)
            | Some (JInt i) \<Rightarrow> Inr (Some (show_int i @ lit ''.0'')) | _ \<Rightarrow> invalid_record) (\<lambda>c.
     rbind (opt_str_at d ''note'') (\<lambda>n.
       Inr \<lparr> el_source = l, el_confidence = c, el_note = n \<rparr>)))"

definition section_of_dict :: "json_dict \<Rightarrow> view_section result" where
  "section_of_dict d =
     rbind (str_at d ''id'') (\<lambda>i.
     rbind (str_at d ''title'') (\<lambda>t.
     rbind (opt_str_at d ''content'') (\<lambda>c.
     rbind (models_at evidence_of_dict d ''evidence_links'') (\<lambda>e.
     rbind (dict_at d ''metadata'') (\<lambda>m.
       Inr \<lparr> vs_id = i, vs_title = t, vs_content = c, vs_evidence = e, vs_metadata = m \<rparr>)))))"

definition view_of_dict :: "json_dict \<Rightarrow> perspective_view result" where
  "view_of_dict d =
     rbind (str_at d ''id'') (\<lambda>i.
     rbind (str_at d ''view_definition_id'') (\<lambda>v.
     rbind (str_at d ''title'') (\<lambda>t.
     rbind (models_at section_of_dict d ''sections'') (\<lambda>x.
     rbind (dict_at d ''metadata'') (\<lambda>m.
       Inr \<lparr> pv_id = i, pv_definition_id = v, pv_title = t, pv_sections = x, pv_metadata = m \<rparr>)))))"

text \<open>\<^verbatim>\<open>model_dump_json\<close> and \<^verbatim>\<open>PerspectiveView.model_validate_json\<close>\<close>

definition view_dump :: "perspective_view \<Rightarrow> str" where
  "view_dump v = dumps Pydantic (JObj (view_dict v))"

definition view_load :: "str \<Rightarrow> perspective_view result" where
  "view_load text = (case loads text of Some (JObj d) \<Rightarrow> view_of_dict d | _ \<Rightarrow> invalid_record)"

text \<open>\<^verbatim>\<open>dict.setdefault\<close>\<close>

definition set_default :: "json_dict \<Rightarrow> string \<Rightarrow> json \<Rightarrow> json_dict" where
  "set_default d k v = (if map_of d (lit k) = None then d @ [(lit k, v)] else d)"

definition view_from_record :: "(int \<Rightarrow> str) \<Rightarrow> view_row \<Rightarrow> perspective_view result" where
  "view_from_record isofmt r =
     rbind (view_load (vr_view_json r)) (\<lambda>v.
     rbind (json_load (Some (vr_source_ids_json r)) (JArr [])) (\<lambda>ids.
       let d1 = set_default (pv_metadata v) ''source_artifact_ids'' ids;
           d2 = set_default d1 ''source_artifact_count'' (JInt (vr_artifact_count r));
           d3 = set_default d2 ''latest_artifact_created_at''
                  (case vr_latest r of None \<Rightarrow> JNull | Some t \<Rightarrow> JStr (isofmt t))
       in Inr (v\<lparr> pv_metadata := set_default d3 ''generated_at'' (JStr (isofmt (vr_generated_at r))) \<rparr>)))"

lemma map_of_set_default:
  "map_of (set_default d k v) x = (if x = lit k \<and> map_of d x = None then Some v else map_of d x)"
  by (auto simp: set_default_def map_add_def split: option.split)

lemma link_of_link_dict: "link_of_dict (link_dict l) = Inr l"
  by (simp add: link_of_dict_def link_dict_def str_at_def opt_str_at_def opt_nat_at_def opt_str_json_def opt_nat_json_def
      lit_eq_iff split: option.split)

lemma evidence_of_evidence_dict: "evidence_of_dict (evidence_dict e) = Inr e"
  by (simp add: evidence_of_dict_def evidence_dict_def link_of_link_dict opt_str_at_def opt_str_json_def lit_eq_iff
      split: option.split)

lemma models_at_map:
  "map_of d (lit k) = Some (JArr (map (\<lambda>x. JObj (g x)) xs)) \<Longrightarrow> (\<And>x. f (g x) = Inr x) \<Longrightarrow> models_at f d k = Inr xs"
  using each_map [of xs "\<lambda>j. case j of JObj m \<Rightarrow> f m | _ \<Rightarrow> invalid_record" "\<lambda>x. JObj (g x)" id]
  by (simp add: models_at_def)

lemma section_of_section_dict: "section_of_dict (section_dict x) = Inr x"
proof -
  have "models_at evidence_of_dict (section_dict x) ''evidence_links'' = Inr (vs_evidence x)"
    by (rule models_at_map [of _ _ evidence_dict]) (simp_all add: section_dict_def lit_eq_iff evidence_of_evidence_dict)
  moreover have "opt_str_at (section_dict x) ''content'' = Inr (vs_content x)"
    by (rule opt_at) (simp add: section_dict_def lit_eq_iff)
  moreover have "str_at (section_dict x) ''id'' = Inr (vs_id x)" "str_at (section_dict x) ''title'' = Inr (vs_title x)"
    "dict_at (section_dict x) ''metadata'' = Inr (vs_metadata x)"
    by (simp_all add: section_dict_def str_at_def dict_at_def lit_eq_iff)
  ultimately show ?thesis by (simp add: section_of_dict_def)
qed

lemma view_of_view_dict: "view_of_dict (view_dict v) = Inr v"
proof -
  have "models_at section_of_dict (view_dict v) ''sections'' = Inr (pv_sections v)"
    by (rule models_at_map [of _ _ section_dict]) (simp_all add: view_dict_def lit_eq_iff section_of_section_dict)
  moreover have "str_at (view_dict v) ''id'' = Inr (pv_id v)" "str_at (view_dict v) ''title'' = Inr (pv_title v)"
    "str_at (view_dict v) ''view_definition_id'' = Inr (pv_definition_id v)"
    "dict_at (view_dict v) ''metadata'' = Inr (pv_metadata v)"
    by (simp_all add: view_dict_def str_at_def dict_at_def lit_eq_iff)
  ultimately show ?thesis by (simp add: view_of_dict_def)
qed

lemma view_load_dump: "json_ok (JObj (view_dict v)) \<Longrightarrow> view_load (view_dump v) = Inr v"
  unfolding view_load_def view_dump_def loads_dumps by (simp add: view_of_view_dict)

end
