(* ===== verification/Context_Sql.thy ===== *)
theory Context_Sql
  imports Context_Rows
begin

text \<open>
  The durable repository (\<^verbatim>\<open>SQLAlchemyContextRepository\<close> of
  \<^verbatim>\<open>app/core/context_engine/sqlalchemy_storage.py\<close>) over tables with their primary keys, the unique
  index of a chunk in its artifact and the foreign keys to artifacts. Every operation is one
  transaction: an exception leaves the tables as they were. That it keeps the contract is
  the interpretation \<open>sql\<close>. \<open>db_now\<close> is the server's clock, the default of a view's
  \<^verbatim>\<open>generated_at\<close>. Strings are ordered by code points, as a binary collation does.
\<close>

section \<open>Tables\<close>

record sql_db =
  db_artifacts :: "artifact_row list"
  db_chunks :: "chunk_row list"
  db_entities :: "entity_columns derived_row list"
  db_relationships :: "relationship_columns derived_row list"
  db_signals :: "signal_columns derived_row list"
  db_actionable_items :: "item_columns derived_row list"
  db_perspective_views :: "view_row list"
  db_source_links :: "link_row list"
  db_next_link_id :: int
  db_now :: int

definition empty_sql_db :: sql_db where
  "empty_sql_db = \<lparr> db_artifacts = [], db_chunks = [], db_entities = [], db_relationships = [], db_signals = [],
     db_actionable_items = [], db_perspective_views = [], db_source_links = [], db_next_link_id = 1, db_now = 0 \<rparr>"

definition integrity_error :: error where
  "integrity_error = RuntimeError (lit ''IntegrityError'')"

section \<open>Storing\<close>

definition sql_store_artifact :: "artifact \<Rightarrow> sql_db \<Rightarrow> unit result \<times> sql_db" where
  "sql_store_artifact a db =
     (if find_row ar_id (a_id a) (db_artifacts db) \<noteq> None then (Inl integrity_error, db)
      else (Inr (), db\<lparr> db_artifacts := db_artifacts db @ [artifact_record a] \<rparr>))"

definition links_known :: "sql_db \<Rightarrow> source_link list \<Rightarrow> bool" where
  "links_known db links \<longleftrightarrow> list_all (\<lambda>l. find_row ar_id (sl_artifact_id l) (db_artifacts db) \<noteq> None) links"

definition add_source_link_record :: "source_link \<Rightarrow> sql_db \<Rightarrow> sql_db" where
  "add_source_link_record l db =
     db\<lparr> db_source_links := db_source_links db @ [\<lparr> lr_id = db_next_link_id db, lr_link = l \<rparr>],
         db_next_link_id := db_next_link_id db + 1 \<rparr>"

definition add_source_link_records :: "source_link list \<Rightarrow> sql_db \<Rightarrow> sql_db" where
  "add_source_link_records links db = foldl (\<lambda>db l. add_source_link_record l db) db links"

definition sql_store_chunks :: "artifact_chunk list \<Rightarrow> sql_db \<Rightarrow> unit result \<times> sql_db" where
  "sql_store_chunks ks db =
     (let rows = db_chunks db @ map chunk_record ks; links = map ck_source_link ks in
      if distinct (map kr_id rows) \<and> distinct (map (\<lambda>r. (kr_artifact_id r, kr_index r)) rows) \<and> links_known db links
         \<and> list_all (\<lambda>k. find_row ar_id (ck_artifact_id k) (db_artifacts db) \<noteq> None) ks
      then (Inr (), add_source_link_records links (db\<lparr> db_chunks := rows \<rparr>))
      else (Inl integrity_error, db))"

definition row_owner :: "artifact_row \<Rightarrow> scope result" where
  "row_owner r = rbind (owner_type_of (ar_owner_type r)) (\<lambda>t. Inr (ar_domain_id r, t, ar_owner_id r))"

fun first_owner :: "artifact_row list \<Rightarrow> source_link list \<Rightarrow> scope option result" where
  "first_owner artifacts [] = Inr None"
| "first_owner artifacts (l # ls) =
     (case find_row ar_id (sl_artifact_id l) artifacts of
        None \<Rightarrow> first_owner artifacts ls
      | Some r \<Rightarrow> rbind (row_owner r) (\<lambda>k. Inr (Some k)))"

definition owner_from_required_sources :: "artifact_row list \<Rightarrow> source_link list \<Rightarrow> string \<Rightarrow> str \<Rightarrow> scope result" where
  "owner_from_required_sources artifacts links rtype i =
     (case links of
        [] \<Rightarrow> Inl (ValueError (lit rtype @ lit '' '' @ [39] @ i @ [39] @ lit '' must include source links.''))
      | l # _ \<Rightarrow>
          rbind (first_owner artifacts links) (\<lambda>found.
            case found of
              Some k \<Rightarrow> Inr k
            | None \<Rightarrow> Inl (ValueError (lit rtype @ lit '' '' @ [39] @ i @ [39] @ lit '' references unknown source artifact ''
                        @ [39] @ sl_artifact_id l @ [39] @ lit ''.''))))"

text \<open>The new rows of a table of derived records, if every one can be inserted.\<close>

definition new_derived ::
  "string \<Rightarrow> ('r \<Rightarrow> str) \<Rightarrow> ('r \<Rightarrow> source_link list) \<Rightarrow> ('r \<Rightarrow> json_dict) \<Rightarrow> ('r \<Rightarrow> 'c) \<Rightarrow> sql_db
     \<Rightarrow> 'c derived_row list \<Rightarrow> 'r list \<Rightarrow> 'c derived_row list result"
where
  "new_derived rtype rid links meta cols db tab xs =
     rbind (each (\<lambda>x. rbind (owner_from_required_sources (db_artifacts db) (links x) rtype (rid x)) (\<lambda>k.
              Inr (derived_record rid links meta cols k x))) xs) (\<lambda>rows.
       if distinct (map dr_id (tab @ rows)) \<and> links_known db (concat (map links xs)) then Inr rows
       else Inl integrity_error)"

definition sql_store_entities :: "context_entity list \<Rightarrow> sql_db \<Rightarrow> unit result \<times> sql_db" where
  "sql_store_entities es db =
     (case new_derived ''ContextEntity'' en_id en_links en_metadata entity_columns_of db (db_entities db) es of
        Inl e \<Rightarrow> (Inl e, db)
      | Inr rows \<Rightarrow> (Inr (), add_source_link_records (concat (map en_links es)) (db\<lparr> db_entities := db_entities db @ rows \<rparr>)))"

definition sql_store_relationships :: "context_relationship list \<Rightarrow> sql_db \<Rightarrow> unit result \<times> sql_db" where
  "sql_store_relationships rs db =
     (case new_derived ''ContextRelationship'' rl_id rl_links rl_metadata relationship_columns_of db (db_relationships db) rs of
        Inl e \<Rightarrow> (Inl e, db)
      | Inr rows \<Rightarrow> (Inr (), add_source_link_records (concat (map rl_links rs))
          (db\<lparr> db_relationships := db_relationships db @ rows \<rparr>)))"

definition sql_store_signals :: "context_signal list \<Rightarrow> sql_db \<Rightarrow> unit result \<times> sql_db" where
  "sql_store_signals ss db =
     (case new_derived ''ContextSignal'' sg_id sg_links sg_metadata signal_columns_of db (db_signals db) ss of
        Inl e \<Rightarrow> (Inl e, db)
      | Inr rows \<Rightarrow> (Inr (), add_source_link_records (concat (map sg_links ss)) (db\<lparr> db_signals := db_signals db @ rows \<rparr>)))"

definition sql_store_actionable_items :: "actionable_item list \<Rightarrow> sql_db \<Rightarrow> unit result \<times> sql_db" where
  "sql_store_actionable_items is db =
     (case new_derived ''ActionableItem'' ai_id ai_links ai_metadata item_columns_of db (db_actionable_items db) is of
        Inl e \<Rightarrow> (Inl e, db)
      | Inr rows \<Rightarrow> (Inr (), add_source_link_records (concat (map ai_links is))
          (db\<lparr> db_actionable_items := db_actionable_items db @ rows \<rparr>)))"

definition sql_index_artifact_outputs :: "artifact \<Rightarrow> context_signal list \<Rightarrow> actionable_item list \<Rightarrow> sql_db \<Rightarrow> sql_db" where
  "sql_index_artifact_outputs a ss is db = db"

section \<open>Listing\<close>

definition owns_artifact :: "scope \<Rightarrow> artifact_row \<Rightarrow> bool" where
  "owns_artifact k r \<longleftrightarrow> ar_domain_id r = fst k \<and> ar_owner_type r = owner_type_value (fst (snd k)) \<and> ar_owner_id r = snd (snd k)"

definition owns :: "scope \<Rightarrow> 'c derived_row \<Rightarrow> bool" where
  "owns k r \<longleftrightarrow> dr_domain_id r = fst k \<and> dr_owner_type r = owner_type_value (fst (snd k)) \<and> dr_owner_id r = snd (snd k)"

definition sql_list_artifacts :: "scope \<Rightarrow> sql_db \<Rightarrow> artifact list result" where
  "sql_list_artifacts k db =
     each artifact_from_record (sort_key ar_created_at (sort_key ar_id (filter (owns_artifact k) (db_artifacts db))))"

definition sql_get_artifact :: "scope \<Rightarrow> str \<Rightarrow> sql_db \<Rightarrow> artifact option result" where
  "sql_get_artifact k i db =
     (case find (\<lambda>r. ar_id r = i \<and> owns_artifact k r) (db_artifacts db) of
        None \<Rightarrow> Inr None
      | Some r \<Rightarrow> rbind (artifact_from_record r) (\<lambda>a. Inr (Some a)))"

definition sql_list_chunks_for_artifact :: "str \<Rightarrow> sql_db \<Rightarrow> artifact_chunk list result" where
  "sql_list_chunks_for_artifact i db =
     each chunk_from_record (sort_key kr_index (filter (\<lambda>r. kr_artifact_id r = i) (db_chunks db)))"

definition sql_list_chunks_for_artifacts :: "str list \<Rightarrow> sql_db \<Rightarrow> artifact_chunk list result" where
  "sql_list_chunks_for_artifacts ids db =
     (if ids = [] then Inr []
      else each chunk_from_record
             (sort_key kr_artifact_id (sort_key kr_index (filter (\<lambda>r. kr_artifact_id r \<in> set ids) (db_chunks db)))))"

definition list_derived ::
  "(str \<Rightarrow> 'c \<Rightarrow> source_link list \<Rightarrow> json_dict \<Rightarrow> 'r result) \<Rightarrow> scope \<Rightarrow> 'c derived_row list \<Rightarrow> 'r list result"
where
  "list_derived build k tab = each (derived_from_record build) (sort_key dr_id (filter (owns k) tab))"

definition sql_list_entities :: "scope \<Rightarrow> sql_db \<Rightarrow> context_entity list result" where
  "sql_list_entities k db = list_derived entity_from_columns k (db_entities db)"

definition sql_list_relationships :: "scope \<Rightarrow> sql_db \<Rightarrow> context_relationship list result" where
  "sql_list_relationships k db = list_derived relationship_from_columns k (db_relationships db)"

definition sql_list_signals :: "scope \<Rightarrow> sql_db \<Rightarrow> context_signal list result" where
  "sql_list_signals k db = list_derived signal_from_columns k (db_signals db)"

definition sql_list_actionable_items :: "scope \<Rightarrow> sql_db \<Rightarrow> actionable_item list result" where
  "sql_list_actionable_items k db = list_derived item_from_columns k (db_actionable_items db)"

section \<open>Cached views\<close>

text \<open>\<^verbatim>\<open>model_dump_json\<close> raises on a string that has no UTF-8.\<close>

fun encodable :: "json \<Rightarrow> bool" where
  "encodable (JStr s) = valid_str s"
| "encodable (JArr xs) = list_all encodable xs"
| "encodable (JObj kvs) = list_all (\<lambda>(k, v). valid_str k \<and> encodable v) kvs"
| "encodable j = True"

definition owns_view :: "scope \<Rightarrow> str \<Rightarrow> view_row \<Rightarrow> bool" where
  "owns_view k d r \<longleftrightarrow> vr_domain_id r = fst k \<and> vr_owner_type r = owner_type_value (fst (snd k))
     \<and> vr_owner_id r = snd (snd k) \<and> vr_definition_id r = d"

definition sql_get_perspective_view :: "(int \<Rightarrow> str) \<Rightarrow> scope \<Rightarrow> str \<Rightarrow> sql_db \<Rightarrow> perspective_view option result" where
  "sql_get_perspective_view isofmt k d db =
     (case find (owns_view k d) (db_perspective_views db) of
        None \<Rightarrow> Inr None
      | Some r \<Rightarrow> rbind (view_from_record isofmt r) (\<lambda>v. Inr (Some v)))"

text \<open>The columns a view is stored in; a new row also gets its owner and \<open>generated_at\<close>.\<close>

definition fill_view_row :: "perspective_view \<Rightarrow> artifact list \<Rightarrow> view_row \<Rightarrow> view_row" where
  "fill_view_row stored as r = r\<lparr> vr_id := pv_id stored, vr_view_json := view_dump stored,
     vr_source_ids_json := json_dump (JArr (map (\<lambda>a. JStr (a_id a)) as)),
     vr_artifact_count := int (length as), vr_latest := latest_created_at as \<rparr>"

definition new_view_row :: "perspective_view \<Rightarrow> scope \<Rightarrow> artifact list \<Rightarrow> int \<Rightarrow> view_row" where
  "new_view_row stored k as now = fill_view_row stored as
     \<lparr> vr_id = [], vr_domain_id = fst k, vr_owner_type = owner_type_value (fst (snd k)), vr_owner_id = snd (snd k),
       vr_definition_id = pv_definition_id stored, vr_view_json = [], vr_source_ids_json = [], vr_artifact_count = 0,
       vr_latest = None, vr_generated_at = now \<rparr>"

definition sql_store_perspective_view ::
  "(int \<Rightarrow> str) \<Rightarrow> perspective_view \<Rightarrow> scope \<Rightarrow> artifact list \<Rightarrow> sql_db \<Rightarrow> perspective_view result \<times> sql_db"
where
  "sql_store_perspective_view isofmt v k as db =
     (let stored = with_cache_metadata isofmt as v; rows = db_perspective_views db in
      if \<not> encodable (JObj (view_dict stored)) then (Inl (ValueError (lit ''PydanticSerializationError'')), db)
      else
        (case find (owns_view k (pv_definition_id v)) rows of
           None \<Rightarrow>
             if pv_id v \<in> vr_id ` set rows then (Inl integrity_error, db)
             else (Inr stored, db\<lparr> db_perspective_views := rows @ [new_view_row stored k as (db_now db)] \<rparr>)
         | Some old \<Rightarrow>
             if pv_id v \<in> vr_id ` {r \<in> set rows. vr_id r \<noteq> vr_id old} then (Inl integrity_error, db)
             else (Inr stored, db\<lparr> db_perspective_views :=
                    map (\<lambda>r. if vr_id r = vr_id old then fill_view_row stored as r else r) rows \<rparr>)))"

definition SQLAlchemyContextRepository :: "(int \<Rightarrow> str) \<Rightarrow> sql_db repository" where
  "SQLAlchemyContextRepository isofmt = \<lparr>
     rp_store_artifact = sql_store_artifact, rp_store_chunks = sql_store_chunks,
     rp_store_entities = sql_store_entities, rp_store_relationships = sql_store_relationships,
     rp_store_signals = sql_store_signals, rp_store_actionable_items = sql_store_actionable_items,
     rp_index_artifact_outputs = sql_index_artifact_outputs, rp_list_artifacts = sql_list_artifacts,
     rp_get_artifact = sql_get_artifact, rp_list_chunks_for_artifact = sql_list_chunks_for_artifact,
     rp_list_chunks_for_artifacts = sql_list_chunks_for_artifacts, rp_list_entities = sql_list_entities,
     rp_list_relationships = sql_list_relationships, rp_list_signals = sql_list_signals,
     rp_list_actionable_items = sql_list_actionable_items,
     rp_get_perspective_view = sql_get_perspective_view isofmt,
     rp_store_perspective_view = sql_store_perspective_view isofmt \<rparr>"

lemma sql_ops [simp]:
  "rp_store_artifact (SQLAlchemyContextRepository isofmt) = sql_store_artifact"
  "rp_store_chunks (SQLAlchemyContextRepository isofmt) = sql_store_chunks"
  "rp_list_artifacts (SQLAlchemyContextRepository isofmt) = sql_list_artifacts"
  "rp_list_chunks_for_artifact (SQLAlchemyContextRepository isofmt) = sql_list_chunks_for_artifact"
  "rp_list_entities (SQLAlchemyContextRepository isofmt) = sql_list_entities"
  "rp_list_relationships (SQLAlchemyContextRepository isofmt) = sql_list_relationships"
  "rp_list_signals (SQLAlchemyContextRepository isofmt) = sql_list_signals"
  "rp_list_actionable_items (SQLAlchemyContextRepository isofmt) = sql_list_actionable_items"
  "rp_get_perspective_view (SQLAlchemyContextRepository isofmt) = sql_get_perspective_view isofmt"
  "rp_store_perspective_view (SQLAlchemyContextRepository isofmt) = sql_store_perspective_view isofmt"
  by (simp_all add: SQLAlchemyContextRepository_def)

section \<open>Reading what an accepted state holds\<close>

definition decoded :: "('row \<Rightarrow> 'r result) \<Rightarrow> 'row list \<Rightarrow> 'r set" where
  "decoded f rows = {x. \<exists>r \<in> set rows. f r = Inr x}"

definition rows_ok :: "('row \<Rightarrow> str) \<Rightarrow> ('row \<Rightarrow> 'r result) \<Rightarrow> ('r \<Rightarrow> 'r) \<Rightarrow> 'row list \<Rightarrow> bool" where
  "rows_ok key f canon rows \<longleftrightarrow> distinct (map key rows) \<and> (\<forall>r \<in> set rows. \<exists>x. f r = Inr x \<and> canon x = x)"

lemma each_decoded:
  assumes "\<forall>r \<in> set rows. \<exists>x. f r = Inr x \<and> canon x = x"
  shows "\<exists>xs. each f rows = Inr xs \<and> canon ` set xs = decoded f rows"
  using assms
proof (induction rows)
  case (Cons r rows)
  then obtain x xs where "f r = Inr x" "canon x = x" "each f rows = Inr xs" "canon ` set xs = decoded f rows" by auto
  then show ?case by (auto simp: decoded_def)
qed (simp add: decoded_def)

lemma decoded_cong: "set rows = set rows1 \<Longrightarrow> decoded f rows = decoded f rows1"
  by (simp add: decoded_def)

lemma decoded_append: "decoded f (rows @ new) = decoded f rows \<union> decoded f new"
  by (auto simp: decoded_def)

lemma decoded_map: "(\<And>x. x \<in> set xs \<Longrightarrow> f (g x) = Inr (h x)) \<Longrightarrow> decoded f (map g xs) = h ` set xs"
  by (auto simp: decoded_def)

lemma rows_ok_append:
  "rows_ok key f canon rows \<Longrightarrow> rows_ok key f canon new \<Longrightarrow> key ` set rows \<inter> key ` set new = {}
     \<Longrightarrow> rows_ok key f canon (rows @ new)"
  by (auto simp: rows_ok_def)

lemma list_rows:
  assumes "rows_ok key f canon rows" and "set rows1 \<subseteq> set rows"
  shows "\<exists>xs. each f rows1 = Inr xs \<and> canon ` set xs = decoded f rows1"
  using assms by (intro each_decoded) (auto simp: rows_ok_def)

lemma owner_type_value_inj [simp]: "owner_type_value t = owner_type_value u \<longleftrightarrow> t = u"
  by (cases t; cases u) (simp_all add: lit_eq_iff)

lemma owns_record [simp]: "owns k (derived_record rid links meta cols k1 x) \<longleftrightarrow> k1 = k"
  by (cases k; cases k1) (auto simp: owns_def derived_record_def)

lemma owns_artifact_record [simp]: "owns_artifact k (artifact_record a) \<longleftrightarrow> scope_of a = k"
  by (cases k) (auto simp: owns_artifact_def artifact_record_def scope_of_def)

lemma link_records_simps [simp]:
  "db_artifacts (add_source_link_records ls db) = db_artifacts db" "db_chunks (add_source_link_records ls db) = db_chunks db"
  "db_entities (add_source_link_records ls db) = db_entities db"
  "db_relationships (add_source_link_records ls db) = db_relationships db"
  "db_signals (add_source_link_records ls db) = db_signals db"
  "db_actionable_items (add_source_link_records ls db) = db_actionable_items db"
  "db_perspective_views (add_source_link_records ls db) = db_perspective_views db"
  unfolding add_source_link_records_def
  by (induction ls arbitrary: db) (simp_all add: add_source_link_record_def)


section \<open>The contract holds\<close>

definition sql_ok :: "sql_db \<Rightarrow> bool" where
  "sql_ok db \<longleftrightarrow> rows_ok ar_id artifact_from_record canon_artifact (db_artifacts db)
     \<and> rows_ok kr_id chunk_from_record canon_chunk (db_chunks db)
     \<and> distinct (map (\<lambda>r. (kr_artifact_id r, kr_index r)) (db_chunks db))
     \<and> kr_artifact_id ` set (db_chunks db) \<subseteq> ar_id ` set (db_artifacts db)
     \<and> rows_ok dr_id (derived_from_record entity_from_columns) canon_entity (db_entities db)
     \<and> rows_ok dr_id (derived_from_record relationship_from_columns) canon_relationship (db_relationships db)
     \<and> rows_ok dr_id (derived_from_record signal_from_columns) canon_signal (db_signals db)
     \<and> rows_ok dr_id (derived_from_record item_from_columns) canon_item (db_actionable_items db)"

definition sql_used :: "sql_db \<Rightarrow> str set" where
  "sql_used db = ar_id ` set (db_artifacts db) \<union> kr_id ` set (db_chunks db) \<union> dr_id ` set (db_entities db)
     \<union> dr_id ` set (db_relationships db) \<union> dr_id ` set (db_signals db) \<union> dr_id ` set (db_actionable_items db)
     \<union> vr_id ` set (db_perspective_views db)"

definition sql_known :: "sql_db \<Rightarrow> str \<Rightarrow> scope option" where
  "sql_known db i =
     (case find_row ar_id i (db_artifacts db) of
        None \<Rightarrow> None
      | Some r \<Rightarrow> (case row_owner r of Inl e \<Rightarrow> None | Inr k \<Rightarrow> Some k))"

definition sql_look :: "sql_db \<Rightarrow> scope \<Rightarrow> holdings" where
  "sql_look db k = \<lparr> h_artifacts = decoded artifact_from_record (filter (owns_artifact k) (db_artifacts db)),
     h_entities = decoded (derived_from_record entity_from_columns) (filter (owns k) (db_entities db)),
     h_relationships = decoded (derived_from_record relationship_from_columns) (filter (owns k) (db_relationships db)),
     h_signals = decoded (derived_from_record signal_from_columns) (filter (owns k) (db_signals db)),
     h_items = decoded (derived_from_record item_from_columns) (filter (owns k) (db_actionable_items db)) \<rparr>"

definition sql_chunks :: "sql_db \<Rightarrow> str \<Rightarrow> artifact_chunk set" where
  "sql_chunks db i = decoded chunk_from_record (filter (\<lambda>r. kr_artifact_id r = i) (db_chunks db))"

lemma sql_okD:
  assumes "sql_ok db"
  shows "rows_ok ar_id artifact_from_record canon_artifact (db_artifacts db)"
    "rows_ok kr_id chunk_from_record canon_chunk (db_chunks db)"
    "distinct (map (\<lambda>r. (kr_artifact_id r, kr_index r)) (db_chunks db))"
    "rows_ok dr_id (derived_from_record entity_from_columns) canon_entity (db_entities db)"
    "rows_ok dr_id (derived_from_record relationship_from_columns) canon_relationship (db_relationships db)"
    "rows_ok dr_id (derived_from_record signal_from_columns) canon_signal (db_signals db)"
    "rows_ok dr_id (derived_from_record item_from_columns) canon_item (db_actionable_items db)"
    "kr_artifact_id ` set (db_chunks db) \<subseteq> ar_id ` set (db_artifacts db)"
  using assms unfolding sql_ok_def by blast+

lemma list_sorted_rows:
  assumes "rows_ok key f canon rows" and "set sel = set (filter P rows)"
  shows "\<exists>xs. each f sel = Inr xs \<and> canon ` set xs = decoded f (filter P rows)"
  using list_rows [OF assms(1), of sel] assms(2) decoded_cong [OF assms(2), of f] by auto

lemma row_owner_record [simp]: "row_owner (artifact_record a) = Inr (scope_of a)"
  by (simp add: row_owner_def artifact_record_def scope_of_def)

lemma sql_known_row: "sql_known db i = Some k \<Longrightarrow> \<exists>r. find_row ar_id i (db_artifacts db) = Some r \<and> row_owner r = Inr k"
  by (auto simp: sql_known_def split: option.splits sum.splits)

lemma decoded_artifact:
  assumes "artifact_from_record r = Inr x"
  shows "a_id x = ar_id r" "row_owner r = Inr (scope_of x)"
  using assms by (auto simp: artifact_from_record_def row_owner_def scope_of_def rbind_def split: sum.splits)

lemma owns_artifact_owner: "owns_artifact k r \<Longrightarrow> row_owner r = Inr k"
  by (cases k) (auto simp: owns_artifact_def row_owner_def)

lemma sql_look_artifacts:
  assumes "sql_ok db" and "x \<in> h_artifacts (sql_look db k)"
  shows "sql_known db (a_id x) = Some k \<and> scope_of x = k"
proof -
  obtain r where r: "r \<in> set (db_artifacts db)" "owns_artifact k r" "artifact_from_record r = Inr x"
    using assms(2) by (auto simp: sql_look_def decoded_def)
  have "find_row ar_id (ar_id r) (db_artifacts db) = Some r"
    using sql_okD(1) [OF assms(1)] r(1) by (intro find_row_distinct) (simp_all add: rows_ok_def)
  then show ?thesis using decoded_artifact [OF r(3)] owns_artifact_owner [OF r(2)] by (simp add: sql_known_def)
qed

end
