(* ===== verification/Context_Sql_Contract.thy ===== *)
theory Context_Sql_Contract
  imports Context_Sql Context_Service
begin

text \<open>
  The durable repository keeps the contract of \<open>context_store\<close>: what each operation does to an
  accepted database, and the interpretation \<open>sql\<close>.
\<close>

lemma rows_ok_records:
  assumes "\<And>x. x \<in> set xs \<Longrightarrow> key (g x) = rid x \<and> f (g x) = Inr (canon x) \<and> canon (canon x) = canon x"
    and "distinct (map rid xs)" and "rid ` set xs \<inter> used = {}" and "key ` set rows \<subseteq> used" and "rows_ok key f canon rows"
  shows "rows_ok key f canon (rows @ map g xs)"
proof (rule rows_ok_append [OF assms(5)])
  have "map key (map g xs) = map rid xs" using assms(1) by simp
  then show "rows_ok key f canon (map g xs)"
    unfolding rows_ok_def using assms(1,2) by (auto simp del: map_map)
  have "key ` set (map g xs) = rid ` set xs" using assms(1) by (force simp: image_image)
  then show "key ` set rows \<inter> key ` set (map g xs) = {}" using assms(3,4) by blast
qed

lemma sql_used_tables:
  "ar_id ` set (db_artifacts db) \<subseteq> sql_used db" "kr_id ` set (db_chunks db) \<subseteq> sql_used db"
  "dr_id ` set (db_entities db) \<subseteq> sql_used db" "dr_id ` set (db_relationships db) \<subseteq> sql_used db"
  "dr_id ` set (db_signals db) \<subseteq> sql_used db" "dr_id ` set (db_actionable_items db) \<subseteq> sql_used db"
  by (auto simp: sql_used_def)

lemma ar_id_record [simp]: "ar_id (artifact_record a) = a_id a"
  by (simp add: artifact_record_def)

lemma sql_undisturbed:
  assumes "\<And>k. k \<notin> K \<Longrightarrow> filter (owns_artifact k) (db_artifacts db1) = filter (owns_artifact k) (db_artifacts db)"
    and "db_perspective_views db1 = db_perspective_views db"
  shows "undisturbed (SQLAlchemyContextRepository isofmt) K db db1"
proof (rule undisturbedI [where get = "sql_get_perspective_view isofmt"])
  fix k :: scope
  assume k: "k \<notin> K"
  show "rp_list_artifacts (SQLAlchemyContextRepository isofmt) k db1 = rp_list_artifacts (SQLAlchemyContextRepository isofmt) k db"
    unfolding sql_ops sql_list_artifacts_def by (simp only: assms(1) [OF k])
qed (simp_all add: sql_get_perspective_view_def assms(2))

lemma sql_store_artifact_law:
  assumes "sql_ok db" and "a_id a \<notin> sql_used db" and "json_ok (JObj (a_metadata a))"
  shows "\<exists>db1. rp_store_artifact (SQLAlchemyContextRepository isofmt) a db = (Inr (), db1) \<and> sql_ok db1
    \<and> sql_used db1 = insert (a_id a) (sql_used db) \<and> sql_known db1 = (sql_known db)(a_id a \<mapsto> scope_of a)
    \<and> sql_chunks db1 = sql_chunks db \<and> sql_chunks db (a_id a) = {}
    \<and> sql_look db1 = (sql_look db)(scope_of a := add_artifact a (sql_look db (scope_of a)))
    \<and> undisturbed (SQLAlchemyContextRepository isofmt) {scope_of a} db db1"
proof -
  define db1 where "db1 = db\<lparr> db_artifacts := db_artifacts db @ map artifact_record [a] \<rparr>"
  note read = artifact_read_back [OF assms(3)]
  have new: "a_id a \<notin> ar_id ` set (db_artifacts db)" using assms(2) sql_used_tables(1) by blast
  then have no: "find_row ar_id (a_id a) (db_artifacts db) = None" by (rule find_row_None [THEN iffD2])
  then have st: "rp_store_artifact (SQLAlchemyContextRepository isofmt) a db = (Inr (), db1)"
    by (simp add: sql_store_artifact_def db1_def)
  have rows: "rows_ok ar_id artifact_from_record canon_artifact (db_artifacts db1)"
    using rows_ok_records [of "[a]" ar_id artifact_record a_id artifact_from_record canon_artifact "sql_used db" "db_artifacts db"]
      sql_okD(1) [OF assms(1)] assms(2) sql_used_tables(1) by (simp add: db1_def read)
  then have "sql_ok db1" using assms(1) by (auto simp: sql_ok_def db1_def)
  moreover have "sql_used db1 = insert (a_id a) (sql_used db)" by (auto simp: sql_used_def db1_def)
  moreover have "sql_known db1 = (sql_known db)(a_id a \<mapsto> scope_of a)"
    using no by (auto simp: fun_eq_iff sql_known_def db1_def row_simps split: option.split)
  moreover have "sql_chunks db1 = sql_chunks db" by (simp add: sql_chunks_def fun_eq_iff db1_def)
  moreover have "sql_chunks db (a_id a) = {}"
    using new sql_okD(8) [OF assms(1)] by (force simp: sql_chunks_def decoded_def filter_empty_conv)
  moreover have "sql_look db1 k = ((sql_look db)(scope_of a := add_artifact a (sql_look db (scope_of a)))) k" for k
    by (auto simp: sql_look_def db1_def add_artifact_def decoded_append) (auto simp: decoded_def read)
  moreover have "undisturbed (SQLAlchemyContextRepository isofmt) {scope_of a} db db1"
    by (rule sql_undisturbed) (auto simp: db1_def)
  ultimately show ?thesis using st by blast
qed

lemma sql_store_chunks_law:
  assumes "sql_ok db" and "sql_known db i \<noteq> None" and "sql_chunks db i = {}" and "chunks_ok (sql_used db) i ks"
  shows "\<exists>db1. rp_store_chunks (SQLAlchemyContextRepository isofmt) ks db = (Inr (), db1) \<and> sql_ok db1
    \<and> sql_used db1 = sql_used db \<union> ck_id ` set ks \<and> sql_known db1 = sql_known db \<and> sql_look db1 = sql_look db
    \<and> sql_chunks db1 = (sql_chunks db)(i := canon_chunk ` set ks)
    \<and> undisturbed (SQLAlchemyContextRepository isofmt) {} db db1"
proof -
  define rows where "rows = db_chunks db @ map chunk_record ks"
  define db1 where "db1 = add_source_link_records (map ck_source_link ks) (db\<lparr> db_chunks := rows \<rparr>)"
  have row [simp]: "kr_id (chunk_record k) = ck_id k" "kr_artifact_id (chunk_record k) = ck_artifact_id k"
    "kr_index (chunk_record k) = ck_index k" for k
    by (simp_all add: chunk_record_def)
  have ks: "distinct (map ck_id ks)" "ck_id ` set ks \<inter> sql_used db = {}" "distinct (map ck_index ks)"
    "\<forall>k \<in> set ks. ck_artifact_id k = i \<and> sl_artifact_id (ck_source_link k) = i"
    "\<And>k. k \<in> set ks \<Longrightarrow> chunk_from_record (chunk_record k) = Inr (canon_chunk k)"
    using assms(4) by (auto simp: chunks_ok_def list_all_iff intro!: chunk_read_back)
  have none: "kr_artifact_id r \<noteq> i" if "r \<in> set (db_chunks db)" for r
  proof
    assume "kr_artifact_id r = i"
    moreover obtain x where "chunk_from_record r = Inr x" using sql_okD(2) [OF assms(1)] \<open>r \<in> _\<close> unfolding rows_ok_def by blast
    ultimately have "x \<in> sql_chunks db i" using \<open>r \<in> _\<close> by (auto simp: sql_chunks_def decoded_def)
    then show False using assms(3) by simp
  qed
  have art: "find_row ar_id i (db_artifacts db) \<noteq> None" using assms(2) by (auto simp: sql_known_def split: option.splits)
  have ok: "rows_ok kr_id chunk_from_record canon_chunk rows"
    unfolding rows_def
    using sql_okD(2) [OF assms(1)] ks sql_used_tables(2) by (intro rows_ok_records [where rid = ck_id and used = "sql_used db"]) auto
  have ix: "distinct (map (\<lambda>r. (kr_artifact_id r, kr_index r)) rows)"
    unfolding rows_def using sql_okD(3) [OF assms(1)] ks(3,4) none by (auto simp: distinct_map inj_on_def)
  have "links_known db (map ck_source_link ks)"
    "list_all (\<lambda>k. find_row ar_id (ck_artifact_id k) (db_artifacts db) \<noteq> None) ks"
    using ks(4) art by (simp_all add: links_known_def list_all_iff)
  then have st: "rp_store_chunks (SQLAlchemyContextRepository isofmt) ks db = (Inr (), db1)"
    using ok ix by (simp add: sql_store_chunks_def Let_def rows_def [symmetric] rows_ok_def db1_def)
  have "i \<in> ar_id ` set (db_artifacts db)" using art by (simp only: find_row_None) blast
  then have "kr_artifact_id ` set rows \<subseteq> ar_id ` set (db_artifacts db)"
    using sql_okD(8) [OF assms(1)] ks(4) by (auto simp: rows_def)
  then have "sql_ok db1" using assms(1) ok ix by (simp add: sql_ok_def db1_def)
  moreover have "sql_used db1 = sql_used db \<union> ck_id ` set ks" by (auto simp: sql_used_def db1_def rows_def image_Un image_image)
  moreover have "sql_known db1 = sql_known db" "sql_look db1 = sql_look db"
    by (simp_all add: fun_eq_iff sql_known_def sql_look_def db1_def)
  moreover have "sql_chunks db1 j = ((sql_chunks db)(i := canon_chunk ` set ks)) j" for j
  proof (cases "j = i")
    case True
    have "filter (\<lambda>r. kr_artifact_id r = i) rows = map chunk_record ks"
      using none ks(4) by (auto simp: rows_def filter_map comp_def filter_empty_conv intro!: filter_True)
    then show ?thesis using True decoded_map [of ks chunk_from_record chunk_record canon_chunk, OF ks(5)]
      by (simp add: sql_chunks_def db1_def)
  next
    case False
    then have "filter (\<lambda>r. kr_artifact_id r = j) rows = filter (\<lambda>r. kr_artifact_id r = j) (db_chunks db)"
      using ks(4) by (auto simp: rows_def filter_empty_conv)
    then show ?thesis using False by (simp add: sql_chunks_def db1_def)
  qed
  moreover have "undisturbed (SQLAlchemyContextRepository isofmt) {} db db1" by (rule sql_undisturbed) (simp_all add: db1_def)
  ultimately show ?thesis using st by blast
qed

lemma first_owner_known:
  assumes "list_all (\<lambda>l. sql_known db (sl_artifact_id l) \<noteq> None) links" and "links \<noteq> []"
    and "sql_known db (sl_artifact_id (hd links)) = Some k"
  shows "owner_from_required_sources (db_artifacts db) links rtype i = Inr k" "links_known db links"
proof -
  obtain l ls where l: "links = l # ls" using assms(2) by (cases links) auto
  obtain r where r: "find_row ar_id (sl_artifact_id l) (db_artifacts db) = Some r" "row_owner r = Inr k"
    using sql_known_row assms(3) unfolding l by (metis list.sel(1))
  then show "owner_from_required_sources (db_artifacts db) links rtype i = Inr k"
    by (simp add: owner_from_required_sources_def l)
  show "links_known db links"
    using assms(1) unfolding links_known_def list_all_iff by (metis not_None_eq option.exhaust sql_known_row)
qed

lemma derived_rows:
  assumes "reads_back rid links meta cols build canon good" and "\<And>x. canon (canon x) = canon x"
    and "derived_ok (sql_known db) used k rid links meta xs" and "list_all good xs" and "dr_id ` set tab \<subseteq> used"
    and "rows_ok dr_id (derived_from_record build) canon tab"
  shows "new_derived rtype rid links meta cols db tab xs = Inr (map (derived_record rid links meta cols k) xs)" (is "?new = Inr ?rows")
    and "rows_ok dr_id (derived_from_record build) canon (tab @ map (derived_record rid links meta cols k) xs)"
    and "decoded (derived_from_record build) (filter (owns j) (tab @ map (derived_record rid links meta cols k) xs))
      = decoded (derived_from_record build) (filter (owns j) tab) \<union> (if j = k then canon ` set xs else {})"
proof -
  have id [simp]: "dr_id (derived_record rid links meta cols k x) = rid x" for x by (simp add: derived_record_def)
  have xs: "distinct (map rid xs)" "rid ` set xs \<inter> used = {}"
    "\<And>x. x \<in> set xs \<Longrightarrow> links x \<noteq> [] \<and> sql_known db (sl_artifact_id (hd (links x))) = Some k
        \<and> list_all (\<lambda>l. sql_known db (sl_artifact_id l) \<noteq> None) (links x)
        \<and> list_all (\<lambda>l. json_ok (JObj (link_dict l))) (links x) \<and> json_ok (JObj (meta x)) \<and> good x"
    using assms(3,4) unfolding derived_ok_def list_all_iff by blast+
  have read: "derived_from_record build (derived_record rid links meta cols k x) = Inr (canon x)" if "x \<in> set xs" for x
    using xs(3) [OF that] by (intro derived_read_back [OF assms(1)]) auto
  show ok: "rows_ok dr_id (derived_from_record build) canon (tab @ map (derived_record rid links meta cols k) xs)"
    using assms(2,5,6) xs(1,2) read by (intro rows_ok_records [where rid = rid and used = used]) auto
  have "each (\<lambda>x. rbind (owner_from_required_sources (db_artifacts db) (links x) rtype (rid x)) (\<lambda>k.
      Inr (derived_record rid links meta cols k x))) (map id xs) = Inr (map (derived_record rid links meta cols k) xs)"
    using xs(3) by (intro each_map) (simp add: first_owner_known [where k = k])
  moreover have "links_known db (links x)" if "x \<in> set xs" for x
    using xs(3) [OF that] by (intro first_owner_known(2) [where k = k]) blast+
  then have "links_known db (concat (map links xs))"
    unfolding links_known_def list_all_iff by (simp del: not_None_eq)
  moreover have "distinct (map dr_id (tab @ map (derived_record rid links meta cols k) xs))"
    using ok unfolding rows_ok_def by blast
  ultimately show "?new = Inr ?rows" by (simp add: new_derived_def image_image)
  have "filter (owns j) (map (derived_record rid links meta cols k) xs) = (if j = k then map (derived_record rid links meta cols k) xs else [])"
    by (auto simp: filter_map comp_def)
  then show "decoded (derived_from_record build) (filter (owns j) (tab @ map (derived_record rid links meta cols k) xs))
      = decoded (derived_from_record build) (filter (owns j) tab) \<union> (if j = k then canon ` set xs else {})"
    using decoded_map [of xs "derived_from_record build" "derived_record rid links meta cols k" canon, OF read]
    by (auto simp: decoded_append) (simp_all add: decoded_def)
qed

lemma sql_store_outputs_law:
  assumes "sql_ok db" and "outputs_ok (sql_known db) (sql_used db) (scope_of a) es rs ss is"
  shows "\<exists>db1. save_outputs (SQLAlchemyContextRepository isofmt) a es rs ss is db = (Inr (), db1) \<and> sql_ok db1
    \<and> sql_used db1 = sql_used db \<union> output_ids es rs ss is \<and> sql_known db1 = sql_known db \<and> sql_chunks db1 = sql_chunks db
    \<and> sql_look db1 = (sql_look db)(scope_of a := add_outputs es rs ss is (sql_look db (scope_of a)))
    \<and> undisturbed (SQLAlchemyContextRepository isofmt) {} db db1"
proof -
  let ?k = "scope_of a"
  define er where "er = map (derived_record en_id en_links en_metadata entity_columns_of ?k) es"
  define rr where "rr = map (derived_record rl_id rl_links rl_metadata relationship_columns_of ?k) rs"
  define sr where "sr = map (derived_record sg_id sg_links sg_metadata signal_columns_of ?k) ss"
  define ir where "ir = map (derived_record ai_id ai_links ai_metadata item_columns_of ?k) is"
  have d: "derived_ok (sql_known db) (sql_used db) ?k en_id en_links en_metadata es"
    "derived_ok (sql_known db) (sql_used db) ?k rl_id rl_links rl_metadata rs"
    "derived_ok (sql_known db) (sql_used db) ?k sg_id sg_links sg_metadata ss" "list_all (\<lambda>s. json_ok (sg_value s)) ss"
    "derived_ok (sql_known db) (sql_used db) ?k ai_id ai_links ai_metadata is"
    using assms(2) by (simp_all add: outputs_ok_def)
  have t: "list_all (\<lambda>_. True) xs" for xs :: "'r list" by (simp add: list_all_iff)
  note e = derived_rows [OF reads_back_kinds(1) canon_idem(3) d(1) t sql_used_tables(3) sql_okD(4) [OF assms(1)], folded er_def]
  note r = derived_rows [OF reads_back_kinds(2) canon_idem(4) d(2) t sql_used_tables(4) sql_okD(5) [OF assms(1)], folded rr_def]
  note s = derived_rows [OF reads_back_kinds(3) canon_idem(5) d(3,4) sql_used_tables(5) sql_okD(6) [OF assms(1)], folded sr_def]
  note i = derived_rows [OF reads_back_kinds(4) canon_idem(6) d(5) t sql_used_tables(6) sql_okD(7) [OF assms(1)], folded ir_def]
  have art: "new_derived rtype rid links meta cols (db2 :: sql_db) tab xs = new_derived rtype rid links meta cols db tab xs"
    if "db_artifacts db2 = db_artifacts db" for rtype and rid :: "'r \<Rightarrow> str" and links meta and cols :: "'r \<Rightarrow> 'c" and db2 tab xs
    by (simp add: new_derived_def links_known_def that)
  define db1 where "db1 = add_source_link_records (concat (map ai_links is)) ((add_source_link_records (concat (map sg_links ss))
     ((add_source_link_records (concat (map rl_links rs)) ((add_source_link_records (concat (map en_links es))
       (db\<lparr> db_entities := db_entities db @ er \<rparr>))\<lparr> db_relationships := db_relationships db @ rr \<rparr>))
         \<lparr> db_signals := db_signals db @ sr \<rparr>))\<lparr> db_actionable_items := db_actionable_items db @ ir \<rparr>)"
  have f: "db_artifacts db1 = db_artifacts db" "db_chunks db1 = db_chunks db" "db_entities db1 = db_entities db @ er"
    "db_relationships db1 = db_relationships db @ rr" "db_signals db1 = db_signals db @ sr"
    "db_actionable_items db1 = db_actionable_items db @ ir" "db_perspective_views db1 = db_perspective_views db"
    by (simp_all add: db1_def)
  have st: "save_outputs (SQLAlchemyContextRepository isofmt) a es rs ss is db = (Inr (), db1)"
    by (simp add: save_outputs_def SQLAlchemyContextRepository_def stbind_def stmodify_def sql_store_entities_def
        sql_store_relationships_def sql_store_signals_def sql_store_actionable_items_def sql_index_artifact_outputs_def
        art e(1) r(1) s(1) i(1) db1_def)
  have "sql_ok db1" using assms(1) e(2) r(2) s(2) i(2) unfolding sql_ok_def f by blast
  moreover have ids: "dr_id ` set er = en_id ` set es" "dr_id ` set rr = rl_id ` set rs" "dr_id ` set sr = sg_id ` set ss"
    "dr_id ` set ir = ai_id ` set is"
    by (simp_all add: er_def rr_def sr_def ir_def image_image derived_record_def)
  have "sql_used db1 = sql_used db \<union> output_ids es rs ss is"
    unfolding sql_used_def f output_ids_def set_append image_Un ids by blast
  moreover have "sql_known db1 = sql_known db" "sql_chunks db1 = sql_chunks db"
    by (simp_all add: fun_eq_iff sql_known_def sql_chunks_def f)
  moreover have "sql_look db1 j = ((sql_look db)(?k := add_outputs es rs ss is (sql_look db ?k))) j" for j
    unfolding sql_look_def f e(3) r(3) s(3) i(3) by (simp add: add_outputs_def)
  moreover have "undisturbed (SQLAlchemyContextRepository isofmt) {} db db1" by (rule sql_undisturbed) (simp_all add: f)
  ultimately show ?thesis using st by blast
qed

lemma json_ok_encodable: "json_ok j \<Longrightarrow> encodable j"
  by (induction j rule: encodable.induct) (auto simp: list_all_iff)

lemma json_ok_value: "json_ok (JObj d) \<Longrightarrow> map_of d k = Some j \<Longrightarrow> json_ok j"
  by (drule map_of_SomeD) (auto simp: list_all_iff)

lemma set_default_present: "map_of d (lit k) \<noteq> None \<Longrightarrow> set_default d k v = d"
  by (simp add: set_default_def)

text \<open>A row a view was stored in reads as that view, with the row's \<^verbatim>\<open>generated_at\<close>.\<close>

lemma view_read_back:
  assumes "json_ok (JObj (view_dict (with_cache_metadata isofmt as v)))"
  shows "view_from_record isofmt (fill_view_row (with_cache_metadata isofmt as v) as r)
     = Inr ((with_cache_metadata isofmt as v)\<lparr> pv_metadata :=
         set_default (pv_metadata (with_cache_metadata isofmt as v)) ''generated_at'' (JStr (isofmt (vr_generated_at r))) \<rparr>)"
proof -
  let ?w = "with_cache_metadata isofmt as v"
  have "json_ok (JObj (pv_metadata ?w))" using assms by (rule json_ok_value [of _ "lit ''metadata''"]) (simp add: view_dict_def lit_eq_iff)
  then have "json_ok (JArr (map (\<lambda>a. JStr (a_id a)) as))" by (rule json_ok_value) (rule cache_keys(1))
  from load_dump [OF this, of "JArr []"]
  have "json_load (Some (json_dump (JArr (map (\<lambda>a. JStr (a_id a)) as)))) (JArr []) = Inr (JArr (map (\<lambda>a. JStr (a_id a)) as))"
    by (simp add: comp_def)
  then show ?thesis
    using set_default_present [OF cache_keys(2) [of isofmt as v]] set_default_present [OF cache_keys(3) [of isofmt as v]]
      set_default_present [of "pv_metadata ?w" "''source_artifact_ids''"] cache_keys(1) [of isofmt as v]
    by (simp add: view_from_record_def fill_view_row_def view_load_dump [OF assms] Let_def)
qed

lemma find_map_same: "(\<And>r. P (g r) = P r) \<Longrightarrow> find P (map g xs) = map_option g (find P xs)"
  by (induction xs) auto

lemma find_append_new: "find P xs = None \<Longrightarrow> P y \<Longrightarrow> find P (xs @ [y]) = Some y"
  by (induction xs) (auto split: if_splits)

lemma sql_store_view_law:
  assumes "sql_ok db" and "pv_id v \<notin> sql_used db" and "json_ok (JObj (view_dict (with_cache_metadata isofmt as v)))"
  shows "\<exists>db1 u. rp_store_perspective_view (SQLAlchemyContextRepository isofmt) v k as db = (Inr (with_cache_metadata isofmt as v), db1)
    \<and> sql_ok db1 \<and> sql_known db1 = sql_known db \<and> sql_look db1 = sql_look db \<and> sql_chunks db1 = sql_chunks db
    \<and> sql_used db1 \<subseteq> insert (pv_id v) (sql_used db)
    \<and> rp_list_artifacts (SQLAlchemyContextRepository isofmt) k db1 = rp_list_artifacts (SQLAlchemyContextRepository isofmt) k db
    \<and> rp_get_perspective_view (SQLAlchemyContextRepository isofmt) k (pv_definition_id v) db1 = Inr (Some u)
    \<and> u\<lparr> pv_metadata := [] \<rparr> = v\<lparr> pv_metadata := [] \<rparr>
    \<and> (\<forall>key. key \<noteq> lit ''generated_at'' \<longrightarrow>
          map_of (pv_metadata u) key = map_of (pv_metadata (with_cache_metadata isofmt as v)) key)"
proof -
  let ?w = "with_cache_metadata isofmt as v" and ?rows = "db_perspective_views db"
  let ?get = "rp_get_perspective_view (SQLAlchemyContextRepository isofmt) k (pv_definition_id v)"
  let ?u = "\<lambda>t. ?w\<lparr> pv_metadata := set_default (pv_metadata ?w) ''generated_at'' (JStr (isofmt t)) \<rparr>"
  have w: "pv_id ?w = pv_id v" "pv_definition_id ?w = pv_definition_id v" by (simp_all add: with_cache_metadata_def)
  have new: "pv_id v \<notin> vr_id ` set ?rows" using assms(2) by (simp add: sql_used_def)
  note enc = json_ok_encodable [OF assms(3)]
  have own: "owns_view k d (fill_view_row x as r) = owns_view k d r" for d x r by (simp add: owns_view_def fill_view_row_def)
  have "\<exists>rows t. rp_store_perspective_view (SQLAlchemyContextRepository isofmt) v k as db = (Inr ?w, db\<lparr> db_perspective_views := rows \<rparr>)
    \<and> vr_id ` set rows \<subseteq> insert (pv_id v) (vr_id ` set ?rows) \<and> ?get (db\<lparr> db_perspective_views := rows \<rparr>) = Inr (Some (?u t))"
  proof (cases "find (owns_view k (pv_definition_id v)) ?rows")
    case None
    let ?row = "new_view_row ?w k as (db_now db)"
    have "owns_view k (pv_definition_id v) ?row" unfolding new_view_row_def own by (simp add: owns_view_def w)
    with None have "find (owns_view k (pv_definition_id v)) (?rows @ [?row]) = Some ?row" by (rule find_append_new)
    then have "?get (db\<lparr> db_perspective_views := ?rows @ [?row] \<rparr>) = Inr (Some (?u (db_now db)))"
      by (simp add: sql_get_perspective_view_def new_view_row_def view_read_back [OF assms(3)])
    moreover have "vr_id ?row = pv_id v" by (simp add: new_view_row_def fill_view_row_def w)
    ultimately show ?thesis using None new enc
      by (intro exI [of _ "?rows @ [?row]"] exI [of _ "db_now db"]) (simp add: sql_store_perspective_view_def Let_def del: encodable.simps)
  next
    case (Some old)
    let ?g = "\<lambda>r. if vr_id r = vr_id old then fill_view_row ?w as r else r"
    have "find (owns_view k (pv_definition_id v)) (map ?g ?rows) = map_option ?g (find (owns_view k (pv_definition_id v)) ?rows)"
      by (rule find_map_same) (simp add: own)
    then have "?get (db\<lparr> db_perspective_views := map ?g ?rows \<rparr>) = Inr (Some (?u (vr_generated_at old)))"
      using Some by (simp add: sql_get_perspective_view_def view_read_back [OF assms(3)])
    moreover have "vr_id ` set (map ?g ?rows) \<subseteq> insert (pv_id v) (vr_id ` set ?rows)" by (auto simp: fill_view_row_def w)
    moreover have "pv_id v \<notin> vr_id ` {r \<in> set ?rows. vr_id r \<noteq> vr_id old}" using new by blast
    ultimately show ?thesis using Some enc
      by (intro exI [of _ "map ?g ?rows"] exI [of _ "vr_generated_at old"]) (simp add: sql_store_perspective_view_def Let_def del: encodable.simps)
  qed
  then obtain rows t where r: "rp_store_perspective_view (SQLAlchemyContextRepository isofmt) v k as db = (Inr ?w, db\<lparr> db_perspective_views := rows \<rparr>)"
    "vr_id ` set rows \<subseteq> insert (pv_id v) (vr_id ` set ?rows)" "?get (db\<lparr> db_perspective_views := rows \<rparr>) = Inr (Some (?u t))"
    by blast
  let ?db1 = "db\<lparr> db_perspective_views := rows \<rparr>"
  have "sql_ok ?db1" using assms(1) by (simp add: sql_ok_def)
  moreover have "sql_known ?db1 = sql_known db" "sql_look ?db1 = sql_look db" "sql_chunks ?db1 = sql_chunks db"
    by (simp_all add: fun_eq_iff sql_known_def sql_look_def sql_chunks_def)
  moreover have "sql_used ?db1 \<subseteq> insert (pv_id v) (sql_used db)" using r(2) by (auto simp: sql_used_def)
  moreover have "rp_list_artifacts (SQLAlchemyContextRepository isofmt) k ?db1 = rp_list_artifacts (SQLAlchemyContextRepository isofmt) k db"
    by (simp add: sql_list_artifacts_def)
  moreover have "(?u t)\<lparr> pv_metadata := [] \<rparr> = v\<lparr> pv_metadata := [] \<rparr>" by (simp add: with_cache_metadata_def)
  moreover have "\<forall>key. key \<noteq> lit ''generated_at'' \<longrightarrow> map_of (pv_metadata (?u t)) key = map_of (pv_metadata ?w) key"
    by (simp add: map_of_set_default)
  ultimately show ?thesis using r(1,3) by blast
qed

lemma sql_get_artifact_law:
  assumes "sql_ok db"
  shows "\<exists>r. rp_get_artifact (SQLAlchemyContextRepository isofmt) k i db = Inr r
    \<and> canon_artifact ` set_option r = {x \<in> h_artifacts (sql_look db k). a_id x = i}"
proof -
  have ok: "distinct (map ar_id (db_artifacts db))" "\<And>r. r \<in> set (db_artifacts db) \<Longrightarrow> \<exists>x. artifact_from_record r = Inr x \<and> canon_artifact x = x"
    using sql_okD(1) [OF assms] unfolding rows_ok_def by blast+
  have rep: "rp_get_artifact (SQLAlchemyContextRepository isofmt) = sql_get_artifact" by (simp add: SQLAlchemyContextRepository_def)
  show ?thesis
  proof (cases "find (\<lambda>r. ar_id r = i \<and> owns_artifact k r) (db_artifacts db)")
    case None
    moreover have "\<not> owns_artifact k r" if "r \<in> set (db_artifacts db)" "ar_id r = i" for r
      using None that by (auto simp: find_None_iff)
    then have "{x \<in> h_artifacts (sql_look db k). a_id x = i} = {}"
      by (auto simp: sql_look_def decoded_def decoded_artifact(1))
    ultimately show ?thesis by (simp add: rep sql_get_artifact_def)
  next
    case (Some r)
    then have r: "r \<in> set (db_artifacts db)" "ar_id r = i" "owns_artifact k r" by (auto dest: find_SomeD)
    obtain x where x: "artifact_from_record r = Inr x" "canon_artifact x = x" using ok(2) [OF r(1)] by blast
    have uniq: "q = r" if "q \<in> set (db_artifacts db)" "ar_id q = i" for q
      using ok(1) that r(1,2) by (auto simp: distinct_map inj_on_def)
    have "y = x" if y: "y \<in> h_artifacts (sql_look db k)" "a_id y = i" for y
    proof -
      obtain q where q: "q \<in> set (db_artifacts db)" "artifact_from_record q = Inr y"
        using y(1) by (auto simp: sql_look_def decoded_def)
      then have "q = r" using uniq [of q] decoded_artifact(1) [OF q(2)] y(2) by metis
      then show ?thesis using q(2) x(1) by simp
    qed
    moreover have "x \<in> h_artifacts (sql_look db k)" using r x(1) by (auto simp: sql_look_def decoded_def)
    moreover have "a_id x = i" using decoded_artifact(1) [OF x(1)] r(2) by simp
    ultimately have "{x \<in> h_artifacts (sql_look db k). a_id x = i} = {x}" by blast
    then show ?thesis using Some x by (auto simp: rep sql_get_artifact_def)
  qed
qed

interpretation sql: context_store "SQLAlchemyContextRepository isofmt" sql_ok sql_used sql_known sql_look sql_chunks isofmt
  for isofmt
proof unfold_locales
  fix db :: sql_db and k :: scope
  assume ok: "sql_ok db"
  note tables = sql_okD [OF ok]
  show "\<exists>xs. rp_list_artifacts (SQLAlchemyContextRepository isofmt) k db = Inr xs \<and> canon_artifact ` set xs = h_artifacts (sql_look db k)"
    unfolding sql_ops sql_list_artifacts_def sql_look_def holdings.simps by (rule list_sorted_rows [OF tables(1)]) simp
  show "\<exists>xs. rp_list_entities (SQLAlchemyContextRepository isofmt) k db = Inr xs \<and> canon_entity ` set xs = h_entities (sql_look db k)"
    unfolding sql_ops sql_list_entities_def list_derived_def sql_look_def holdings.simps by (rule list_sorted_rows [OF tables(4)]) simp
  show "\<exists>xs. rp_list_relationships (SQLAlchemyContextRepository isofmt) k db = Inr xs \<and> canon_relationship ` set xs = h_relationships (sql_look db k)"
    unfolding sql_ops sql_list_relationships_def list_derived_def sql_look_def holdings.simps by (rule list_sorted_rows [OF tables(5)]) simp
  show "\<exists>xs. rp_list_signals (SQLAlchemyContextRepository isofmt) k db = Inr xs \<and> canon_signal ` set xs = h_signals (sql_look db k)"
    unfolding sql_ops sql_list_signals_def list_derived_def sql_look_def holdings.simps by (rule list_sorted_rows [OF tables(6)]) simp
  show "\<exists>xs. rp_list_actionable_items (SQLAlchemyContextRepository isofmt) k db = Inr xs \<and> canon_item ` set xs = h_items (sql_look db k)"
    unfolding sql_ops sql_list_actionable_items_def list_derived_def sql_look_def holdings.simps by (rule list_sorted_rows [OF tables(7)]) simp
  show "\<exists>xs. rp_list_chunks_for_artifact (SQLAlchemyContextRepository isofmt) i db = Inr xs \<and> canon_chunk ` set xs = sql_chunks db i" for i
    unfolding sql_ops sql_list_chunks_for_artifact_def sql_chunks_def by (rule list_sorted_rows [OF tables(2)]) simp
  show "\<exists>xs. rp_list_chunks_for_artifacts (SQLAlchemyContextRepository isofmt) ids db = Inr xs
      \<and> canon_chunk ` set xs = (\<Union>i \<in> set ids. sql_chunks db i)" for ids
  proof -
    have "\<exists>xs. each chunk_from_record (sort_key kr_artifact_id (sort_key kr_index (filter (\<lambda>r. kr_artifact_id r \<in> set ids) (db_chunks db)))) = Inr xs
        \<and> canon_chunk ` set xs = decoded chunk_from_record (filter (\<lambda>r. kr_artifact_id r \<in> set ids) (db_chunks db))"
      by (rule list_sorted_rows [OF tables(2)]) simp
    moreover have "decoded chunk_from_record (filter (\<lambda>r. kr_artifact_id r \<in> set ids) (db_chunks db)) = (\<Union>i \<in> set ids. sql_chunks db i)"
      by (auto simp: decoded_def sql_chunks_def)
    ultimately show ?thesis by (auto simp: SQLAlchemyContextRepository_def sql_list_chunks_for_artifacts_def)
  qed
  show "sql_known db i \<noteq> None \<Longrightarrow> i \<in> sql_used db" for i
    using sql_used_tables(1) [of db] by (auto simp: sql_known_def split: option.splits dest!: find_row_Some)
  show "x \<in> h_artifacts (sql_look db k) \<Longrightarrow> sql_known db (a_id x) = Some k \<and> scope_of x = k" for x
    by (rule sql_look_artifacts [OF ok])
qed (rule sql_store_artifact_law sql_store_chunks_law sql_store_outputs_law sql_store_view_law sql_get_artifact_law; assumption)+

lemma empty_sql_db_ok: "sql_ok empty_sql_db" "sql_used empty_sql_db = {}" "sql_look empty_sql_db = (\<lambda>_. no_holdings)"
  "sql_chunks empty_sql_db = (\<lambda>_. {})" "sql_known empty_sql_db = (\<lambda>_. None)"
  by (simp_all add: sql_ok_def rows_ok_def empty_sql_db_def sql_used_def sql_look_def no_holdings_def
      decoded_def sql_chunks_def sql_known_def fun_eq_iff row_simps)

end
