(* ===== verification/Context_System.thy ===== *)
theory Context_System
  imports Context_Memory Context_Sql_Contract
begin

text \<open>
  The context engine as it is composed: the service over the in-memory and over the durable
  repository. The properties are instances of the contract's lemmas by the interpretations
  \<open>memory\<close> and \<open>sql\<close>.
\<close>

definition memory_view :: "memory \<Rightarrow> context_view" where
  "memory_view m = \<lparr> cx_used = memory_used m, cx_known = memory_known m, cx_look = memory_look m, cx_chunks = memory_chunks m \<rparr>"

definition sql_view :: "sql_db \<Rightarrow> context_view" where
  "sql_view db = \<lparr> cx_used = sql_used db, cx_known = sql_known db, cx_look = sql_look db, cx_chunks = sql_chunks db \<rparr>"

definition no_context :: context_view where
  "no_context = \<lparr> cx_used = {}, cx_known = (\<lambda>_. None), cx_look = (\<lambda>_. no_holdings), cx_chunks = (\<lambda>_. {}) \<rparr>"

lemma view_of_eqs: "memory.view_of = memory_view" "sql.view_of = sql_view"
  by (simp_all add: fun_eq_iff memory.view_of_def memory_view_def sql.view_of_def sql_view_def)

lemma empty_views: "memory_view empty_memory = no_context" "sql_view empty_sql_db = no_context"
  by (simp_all only: memory_view_def sql_view_def no_context_def empty_memory_ok empty_sql_db_ok)

section \<open>A domain, an engine and requests\<close>

definition note_entity :: "artifact \<Rightarrow> context_entity" where
  "note_entity a = \<lparr> en_id = a_id a @ lit ''_e'', en_type = lit ''note'', en_name = a_text a,
     en_links = [\<lparr> sl_artifact_id = a_id a, sl_chunk_id = None, sl_start = Some 0, sl_end = None, sl_label = None, sl_excerpt = None \<rparr>],
     en_metadata = [] \<rparr>"

definition note_extractor :: "unit context_extractor" where
  "note_extractor = \<lparr> ex_id = lit ''note'', ex_artifact_type_ids = None,
     ex_extract = (\<lambda>a ks. Inr (no_extraction\<lparr> er_entities := [note_entity a] \<rparr>)), ex_extract_with_execution = None \<rparr>"

definition failing_extractor :: "unit context_extractor" where
  "failing_extractor = note_extractor\<lparr> ex_extract := (\<lambda>a ks. Inl (RuntimeError (lit ''model unavailable''))) \<rparr>"

definition note_pack :: "unit context_extractor \<Rightarrow> unit domain_pack" where
  "note_pack ex = \<lparr> dp_id = lit ''notes'', dp_display_name = lit ''Notes'',
     dp_artifact_types = [\<lparr> at_id = lit ''note'', at_display_name = lit ''Note'', at_description = None, at_mime_types = [], at_metadata = [] \<rparr>],
     dp_extractors = [ex], dp_perspective_builders = [], dp_task_generators = [], dp_view_definitions = [],
     dp_chunker = Some (\<lambda>a. Inr []), dp_ingestors = [], dp_metadata = [] \<rparr>"

definition note_engine :: "unit context_extractor \<Rightarrow> string \<Rightarrow> unit context_engine" where
  "note_engine ex uuid = \<lparr> ce_registry = [(lit ''notes'', note_pack ex)], ce_default_chunker = default_chunker,
     ce_execution_context = None, ce_artifact_uuid = lit uuid, ce_chunk_uuid = (\<lambda>n. show_nat n), ce_now = 7 \<rparr>"

definition note_request :: "string \<Rightarrow> ingestion_request" where
  "note_request owner = \<lparr> ir_domain_id = lit ''notes'', ir_type_id = lit ''note'', ir_owner_type = INVITATION_CODE,
     ir_owner_id = lit owner, ir_text = lit ''hello'', ir_title = None, ir_source_uri = None, ir_metadata = [] \<rparr>"

definition note_view :: perspective_view where
  "note_view = \<lparr> pv_id = lit ''v'', pv_definition_id = lit ''d'', pv_title = lit ''t'', pv_sections = [], pv_metadata = [] \<rparr>"

lemmas note_defs = note_extractor_def failing_extractor_def note_pack_def note_engine_def note_request_def

lemma note_admitted: "admit (note_engine ex u) (note_request w) = Inr (note_pack ex)"
  by (simp add: admit_def get_domain_def note_defs lit_eq_iff) (simp add: lit_def strip_def lstrip_def rstrip_def is_space_def)

lemma note_chunks: "chunks_of eng (note_pack ex) a = Inr []"
  by (simp add: chunks_of_def note_pack_def)

lemma note_extensions:
  "run_extensions None (note_pack note_extractor) a ks = Inr (no_extraction\<lparr> er_entities := [note_entity a] \<rparr>, [lit ''note''])"
  "run_extensions None (note_pack failing_extractor) a ks = Inl (RuntimeError (lit ''model unavailable''))"
  by (simp_all add: run_extensions_def note_defs supports_def run_extractor_def no_extraction_def extend_extraction_def)

lemma note_context: "ce_execution_context (note_engine ex u) = None"
  by (simp add: note_engine_def)

lemma note_id: "a_id (new_artifact (note_engine ex u) req) = new_context_id ''art'' (lit u)"
  by (simp add: new_artifact_def note_engine_def)

lemma note_metadata: "ir_metadata (note_request w) = []"
  by (simp add: note_request_def)

lemma note_ready:
  assumes "new_context_id ''art'' (lit u) \<notin> cx_used v" and "new_context_id ''art'' (lit u) @ lit ''_e'' \<notin> cx_used v"
    and "ex = note_extractor \<or> ex = failing_extractor" and "valid_str (lit u)"
  shows "spec_ready (note_engine ex u) (note_request w) v"
proof -
  let ?a = "new_artifact (note_engine ex u) (note_request w)"
  have id: "a_id ?a = new_context_id ''art'' (lit u)" by (rule note_id)
  have link: "json_ok (JObj (link_dict (hd (en_links (note_entity ?a)))))"
    unfolding json_ok_link using assms(4) by (simp add: note_entity_def id new_context_id_def)
  have "outputs_ok (cx_known (put_artifact ?a v)) (cx_used (put_chunks (a_id ?a) [] (put_artifact ?a v))) (scope_of ?a)
      [note_entity ?a] [] [] []"
    using assms(1,2) link
    by (simp add: outputs_ok_def derived_ok_def note_entity_def put_artifact_def put_chunks_def id new_context_id_def del: json_ok.simps)
      (simp add: lit_def request_scope_def)
  then show ?thesis
    using assms(1,3) unfolding spec_ready_def note_admitted
    by (auto simp: Let_def note_chunks note_context note_extensions note_id chunks_ok_def put_artifact_def put_chunks_def no_extraction_def note_metadata)
qed

section \<open>Both repositories keep the contract\<close>

lemma ingestions_agree:
  assumes "spec_ready_all steps no_context"
  shows "fst (ingest_all (InMemoryContextRepository isofmt) steps empty_memory) = fst (ingest_all (SQLAlchemyContextRepository isofmt) steps empty_sql_db)
     \<and> listed_holdings (InMemoryContextRepository isofmt) k (snd (ingest_all (InMemoryContextRepository isofmt) steps empty_memory))
       = listed_holdings (SQLAlchemyContextRepository isofmt) k (snd (ingest_all (SQLAlchemyContextRepository isofmt) steps empty_sql_db))"
proof -
  have "spec_ready_all steps (memory.view_of empty_memory)" "spec_ready_all steps (sql.view_of empty_sql_db)"
    using assms by (simp_all add: view_of_eqs empty_views)
  from memory.ingest_all_refines [OF empty_memory_ok(1) this(1)] sql.ingest_all_refines [OF empty_sql_db_ok(1) this(2)]
  obtain m db where m: "ingest_all (InMemoryContextRepository isofmt) steps empty_memory = (fst (spec_ingest_all steps no_context), m)"
      "memory_ok m" "memory_view m = snd (spec_ingest_all steps no_context)"
    and db: "ingest_all (SQLAlchemyContextRepository isofmt) steps empty_sql_db = (fst (spec_ingest_all steps no_context), db)"
      "sql_ok db" "sql_view db = snd (spec_ingest_all steps no_context)"
    unfolding view_of_eqs empty_views by blast
  have "cx_look (memory_view m) = cx_look (sql_view db)" using m(3) db(3) by simp
  then have "memory_look m = sql_look db" by (simp add: memory_view_def sql_view_def)
  then show ?thesis
    using memory.listed_holdings_look [OF m(2), of isofmt k] sql.listed_holdings_look [OF db(2), of isofmt k] m(1) db(1) by simp
qed

text \<open>
  C18: The durable repository and the in-memory one agree on every sequence of ingestions whose
  extensions behave: new ids, links to artifacts that exist, the first of a record to an artifact
  of its own owner, and metadata without floats. From empty stores such a sequence, for any domains
  and owners, gives the same results, errors included, and every owner's artifacts, entities,
  relationships, signals and items are then the same sets of records, up to the order of keys in
  their JSON. (The order of a listing is not compared: one store keeps that of insertion, the
  other sorts by time.)
\<close>

theorem repositories_agree:
  assumes "spec_ready_all steps no_context"
  shows "fst (ingest_all (InMemoryContextRepository isofmt) steps empty_memory) = fst (ingest_all (SQLAlchemyContextRepository isofmt) steps empty_sql_db)
     \<and> listed_holdings (InMemoryContextRepository isofmt) k (snd (ingest_all (InMemoryContextRepository isofmt) steps empty_memory))
       = listed_holdings (SQLAlchemyContextRepository isofmt) k (snd (ingest_all (SQLAlchemyContextRepository isofmt) steps empty_sql_db))"
  using assms by (rule ingestions_agree)

lemma note_spec:
  "snd (spec_ingest (note_engine note_extractor u) (note_request w) v)
     = put_outputs (new_artifact (note_engine note_extractor u) (note_request w))
         (no_extraction\<lparr> er_entities := [note_entity (new_artifact (note_engine note_extractor u) (note_request w))] \<rparr>)
         (put_chunks (new_context_id ''art'' (lit u)) [] (put_artifact (new_artifact (note_engine note_extractor u) (note_request w)) v))"
  by (simp add: spec_ingest_def note_admitted note_chunks note_context note_extensions note_id Let_def)

lemma note_used:
  "cx_used (snd (spec_ingest (note_engine note_extractor u) (note_request w) v))
     = cx_used v \<union> {new_context_id ''art'' (lit u), new_context_id ''art'' (lit u) @ lit ''_e''}"
  unfolding note_spec
  by (auto simp: put_outputs_def put_chunks_def put_artifact_def output_ids_def no_extraction_def note_entity_def note_id)

definition note_steps :: "(unit context_engine \<times> ingestion_request) list" where
  "note_steps = [(note_engine note_extractor ''1'', note_request ''7''), (note_engine note_extractor ''2'', note_request ''8''),
     (note_engine failing_extractor ''3'', note_request ''7'')]"

lemma note_steps_ready: "spec_ready_all note_steps no_context"
  unfolding note_steps_def spec_ready_all.simps
  by (intro conjI note_ready TrueI) (simp_all add: note_used no_context_def new_context_id_def lit_def valid_cp_def)

lemma failing_spec:
  "snd (spec_ingest (note_engine failing_extractor u) (note_request w) v)
     = put_chunks (new_context_id ''art'' (lit u)) [] (put_artifact (new_artifact (note_engine failing_extractor u) (note_request w)) v)"
  by (simp add: spec_ingest_def note_admitted note_chunks note_context note_extensions note_id Let_def)

text \<open>The owner of the first and the last step holds both artifacts and the entity of the first.\<close>

lemma note_steps_held:
  "a_id ` h_artifacts (cx_look (snd (spec_ingest_all note_steps no_context)) (request_scope (note_request ''7'')))
     = {new_context_id ''art'' (lit ''1''), new_context_id ''art'' (lit ''3'')}"
  "en_id ` h_entities (cx_look (snd (spec_ingest_all note_steps no_context)) (request_scope (note_request ''7'')))
     = {new_context_id ''art'' (lit ''1'') @ lit ''_e''}"
proof -
  have ne: "request_scope (note_request ''8'') \<noteq> request_scope (note_request ''7'')"
    by (simp add: request_scope_def note_request_def lit_def)
  have id: "a_id (canon_artifact a) = a_id a" "en_id (canon_entity e) = en_id e" for a e
    by (simp_all add: canon_artifact_def canon_entity_def)
  note steps = note_steps_def spec_ingest_all.simps note_spec failing_spec split_beta Let_def snd_conv
  show "a_id ` h_artifacts (cx_look (snd (spec_ingest_all note_steps no_context)) (request_scope (note_request ''7'')))
     = {new_context_id ''art'' (lit ''1''), new_context_id ''art'' (lit ''3'')}"
    using ne unfolding steps
    by (auto simp: put_outputs_def put_chunks_def put_artifact_def add_artifact_def add_outputs_def no_context_def no_holdings_def
        no_extraction_def id note_id)
  show "en_id ` h_entities (cx_look (snd (spec_ingest_all note_steps no_context)) (request_scope (note_request ''7'')))
     = {new_context_id ''art'' (lit ''1'') @ lit ''_e''}"
    using ne unfolding steps
    by (auto simp: put_outputs_def put_chunks_def put_artifact_def add_artifact_def add_outputs_def no_context_def no_holdings_def
        no_extraction_def id note_id note_entity_def)
qed

theorem repositories_agree_witness:
  "\<exists>h. listed_holdings (InMemoryContextRepository show_int) (request_scope (note_request ''7'')) (snd (ingest_all (InMemoryContextRepository show_int) note_steps empty_memory)) = Inr h
     \<and> listed_holdings (SQLAlchemyContextRepository show_int) (request_scope (note_request ''7'')) (snd (ingest_all (SQLAlchemyContextRepository show_int) note_steps empty_sql_db)) = Inr h
     \<and> a_id ` h_artifacts h = {new_context_id ''art'' (lit ''1''), new_context_id ''art'' (lit ''3'')}
     \<and> en_id ` h_entities h = {new_context_id ''art'' (lit ''1'') @ lit ''_e''}
     \<and> fst (ingest_all (InMemoryContextRepository show_int) note_steps empty_memory) = fst (ingest_all (SQLAlchemyContextRepository show_int) note_steps empty_sql_db)"
proof -
  let ?k = "request_scope (note_request ''7'')"
  have "spec_ready_all note_steps (memory.view_of empty_memory)" by (simp only: view_of_eqs empty_views note_steps_ready)
  from memory.ingest_all_refines [OF empty_memory_ok(1) this, of show_int]
  obtain m where m: "snd (ingest_all (InMemoryContextRepository show_int) note_steps empty_memory) = m" "memory_ok m"
    "memory_view m = snd (spec_ingest_all note_steps no_context)" unfolding view_of_eqs empty_views by auto
  have "memory_look m = cx_look (snd (spec_ingest_all note_steps no_context))" unfolding m(3) [symmetric] by (simp add: memory_view_def)
  then have held: "listed_holdings (InMemoryContextRepository show_int) ?k m = Inr (cx_look (snd (spec_ingest_all note_steps no_context)) ?k)"
    using memory.listed_holdings_look [OF m(2), of show_int ?k] by simp
  have agree: "fst (ingest_all (InMemoryContextRepository show_int) note_steps empty_memory) = fst (ingest_all (SQLAlchemyContextRepository show_int) note_steps empty_sql_db)"
    "listed_holdings (InMemoryContextRepository show_int) ?k (snd (ingest_all (InMemoryContextRepository show_int) note_steps empty_memory))
       = listed_holdings (SQLAlchemyContextRepository show_int) ?k (snd (ingest_all (SQLAlchemyContextRepository show_int) note_steps empty_sql_db))"
    using repositories_agree [OF note_steps_ready, of show_int ?k] by blast+
  show ?thesis
    using held agree unfolding m(1)
    by (intro exI [of _ "cx_look (snd (spec_ingest_all note_steps no_context)) ?k"]) (simp add: note_steps_held)
qed

section \<open>Owners\<close>



definition note_db :: sql_db where
  "note_db = snd (ingest_artifact (SQLAlchemyContextRepository (\<lambda>_. lit ''t'')) (note_engine note_extractor ''1'') (note_request ''7'') empty_sql_db)"

lemma note_db_ok: "sql_ok note_db" "sql_view note_db = snd (spec_ingest (note_engine note_extractor ''1'') (note_request ''7'') no_context)"
proof -
  have "spec_ready (note_engine note_extractor ''1'') (note_request ''7'') (sql.view_of empty_sql_db)"
    unfolding view_of_eqs empty_views by (rule note_ready) (simp_all add: no_context_def lit_def valid_cp_def)
  from sql.ingest_refines [OF empty_sql_db_ok(1) this, of "\<lambda>_. lit ''t''"]
  show "sql_ok note_db" "sql_view note_db = snd (spec_ingest (note_engine note_extractor ''1'') (note_request ''7'') no_context)"
    by (auto simp: note_db_def view_of_eqs empty_views)
qed

lemma note_db_ready:
  assumes "ex = note_extractor \<or> ex = failing_extractor"
  shows "spec_ready (note_engine ex ''2'') (note_request w) (sql_view note_db)"
  using assms unfolding note_db_ok(2)
  by (intro note_ready) (simp_all add: note_used no_context_def new_context_id_def lit_def valid_cp_def)

lemma note_scope: "request_scope (note_request w) = (lit ''notes'', INVITATION_CODE, lit w)"
  by (simp add: request_scope_def note_request_def)


section \<open>Ingestions that stop half-way\<close>

lemma partial_ingestion:
  assumes "sql_ok db" and "spec_ready eng req (sql_view db)" and "admit eng req = Inr domain"
    and "chunks_of eng domain (new_artifact eng req) = Inr ks"
    and "run_extensions (ce_execution_context eng) domain (new_artifact eng req) ks = Inl e"
    and "listed_holdings (SQLAlchemyContextRepository isofmt) (request_scope req) db = Inr h"
  shows "\<exists>db1. ingest_artifact (SQLAlchemyContextRepository isofmt) eng req db = (Inl e, db1)
     \<and> listed_holdings (SQLAlchemyContextRepository isofmt) (request_scope req) db1 = Inr (add_artifact (new_artifact eng req) h)
     \<and> sql_chunks db1 (a_id (new_artifact eng req)) = canon_chunk ` set ks"
proof -
  let ?a = "new_artifact eng req"
  note ready = assms(2) [folded view_of_eqs]
  have spec: "spec_ingest eng req (sql_view db) = (Inl e, put_chunks (a_id ?a) ks (put_artifact ?a (sql_view db)))"
    using assms(3,4,5) by (simp add: spec_ingest_def Let_def)
  obtain db1 where db1: "ingest_artifact (SQLAlchemyContextRepository isofmt) eng req db = (Inl e, db1)" "sql_ok db1"
    "sql_view db1 = put_chunks (a_id ?a) ks (put_artifact ?a (sql_view db))"
    using sql.ingest_refines [OF assms(1) ready, of isofmt] unfolding view_of_eqs spec by auto
  have h: "h = sql_look db (request_scope req)"
    using assms(6) sql.listed_holdings_look [OF assms(1), of isofmt "request_scope req"] by simp
  have "sql_look db1 (request_scope req) = add_artifact ?a h"
    using arg_cong [OF db1(3), of cx_look] by (simp add: sql_view_def put_chunks_def put_artifact_def h)
  moreover have "sql_chunks db1 (a_id ?a) = canon_chunk ` set ks"
    using arg_cong [OF db1(3), of cx_chunks] by (simp add: sql_view_def put_chunks_def put_artifact_def)
  ultimately show ?thesis using db1(1) sql.listed_holdings_look [OF db1(2), of isofmt "request_scope req"] by simp
qed

text \<open>
  An ingestion is not atomic: when an extractor or a task generator raises, the artifact
  and its chunks have already been committed, so the caller gets the error while the artifact
  is listed from then on, without any derived record.
\<close>

theorem failed_extraction_leaves_the_artifact:
  assumes "sql_ok db" and "spec_ready eng req (sql_view db)" and "admit eng req = Inr domain"
    and "chunks_of eng domain (new_artifact eng req) = Inr ks"
    and "run_extensions (ce_execution_context eng) domain (new_artifact eng req) ks = Inl e"
    and "listed_holdings (SQLAlchemyContextRepository isofmt) (request_scope req) db = Inr h"
  shows "\<exists>db1. ingest_artifact (SQLAlchemyContextRepository isofmt) eng req db = (Inl e, db1)
     \<and> listed_holdings (SQLAlchemyContextRepository isofmt) (request_scope req) db1 = Inr (add_artifact (new_artifact eng req) h)
     \<and> sql_chunks db1 (a_id (new_artifact eng req)) = canon_chunk ` set ks"
  using assms by (rule partial_ingestion)

theorem failed_extraction_leaves_the_artifact_witness:
  "\<exists>db1. ingest_artifact (SQLAlchemyContextRepository show_int) (note_engine failing_extractor ''2'') (note_request ''7'') note_db
     = (Inl (RuntimeError (lit ''model unavailable'')), db1)"
proof -
  note chunks = note_chunks [of "note_engine failing_extractor ''2''" failing_extractor
      "new_artifact (note_engine failing_extractor ''2'') (note_request ''7'')"]
  have ext: "run_extensions (ce_execution_context (note_engine failing_extractor ''2'')) (note_pack failing_extractor)
      (new_artifact (note_engine failing_extractor ''2'') (note_request ''7'')) [] = Inl (RuntimeError (lit ''model unavailable''))"
    by (simp add: note_context note_extensions)
  from failed_extraction_leaves_the_artifact [OF note_db_ok(1) note_db_ready note_admitted chunks ext
      sql.listed_holdings_look [OF note_db_ok(1)]]
  show ?thesis by blast
qed

section \<open>Cached views\<close>

lemma sql_cached_view:
  assumes "sql_ok db" and "sql_list_artifacts k db = Inr as" and "pv_id v \<notin> sql_used db"
    and "json_ok (JObj (view_dict (with_cache_metadata isofmt as v)))"
    and "sql_store_perspective_view isofmt v k as db = (w, db1)" and "spec_ready_all steps (sql_view db1)"
    and "ingest_all (SQLAlchemyContextRepository isofmt) steps db1 = (rs, db2)"
  shows "\<exists>u. get_perspective (SQLAlchemyContextRepository isofmt) eng k (pv_definition_id v) False db2 = (Inr u, db2)
     \<and> u\<lparr> pv_metadata := [] \<rparr> = v\<lparr> pv_metadata := [] \<rparr>
     \<and> (\<forall>key. key \<notin> set freshness_keys \<longrightarrow>
          map_of (pv_metadata u) key = map_of (pv_metadata (with_cache_metadata isofmt as v)) key)
     \<and> map_of (pv_metadata u) (lit ''is_stale'') = Some (JBool (list_ex (stores_for k) steps))"
proof -
  have s: "rp_store_perspective_view (SQLAlchemyContextRepository isofmt) v k as db = (w, db1)" using assms(5) by simp
  have l: "rp_list_artifacts (SQLAlchemyContextRepository isofmt) k db = Inr as" using assms(2) by simp
  have rdy: "spec_ready_all steps (sql.view_of db1)" using assms(6) by (simp only: view_of_eqs)
  show ?thesis using sql.cached_view_after [OF assms(1) l assms(3,4) s rdy assms(7), of eng] .
qed

text \<open>
  C27: After any ingestions, none or many, a cached view is served without building: its id,
  definition, title and sections are those stored, and so are its metadata but for the five keys
  about its age. Its \<^verbatim>\<open>is_stale\<close> flag is exact: set when one of the ingestions stored an artifact
  for the view's own owner, even if that ingestion then raised, and clear when all went to other
  owners, were refused, or there were none.
\<close>

theorem stale_flag_is_exact:
  assumes "sql_ok db" and "sql_list_artifacts k db = Inr as" and "pv_id v \<notin> sql_used db"
    and "json_ok (JObj (view_dict (with_cache_metadata isofmt as v)))"
    and "sql_store_perspective_view isofmt v k as db = (w, db1)" and "spec_ready_all steps (sql_view db1)"
    and "ingest_all (SQLAlchemyContextRepository isofmt) steps db1 = (rs, db2)"
  shows "\<exists>u. get_perspective (SQLAlchemyContextRepository isofmt) eng k (pv_definition_id v) False db2 = (Inr u, db2)
     \<and> u\<lparr> pv_metadata := [] \<rparr> = v\<lparr> pv_metadata := [] \<rparr>
     \<and> (\<forall>key. key \<notin> set freshness_keys \<longrightarrow>
          map_of (pv_metadata u) key = map_of (pv_metadata (with_cache_metadata isofmt as v)) key)
     \<and> map_of (pv_metadata u) (lit ''is_stale'') = Some (JBool (list_ex (stores_for k) steps))"
  using assms by (rule sql_cached_view)

lemma note_view_json: "valid_str i \<Longrightarrow> json_ok (JObj (view_dict (with_cache_metadata isofmt [] (note_view\<lparr> pv_id := i \<rparr>))))"
  by (simp add: view_dict_def with_cache_metadata_def note_view_def dict_update_def perspective_cache_metadata_def
      latest_created_at_def lit_eq_iff)

definition view_db :: sql_db where
  "view_db = snd (sql_store_perspective_view (\<lambda>_. lit ''t'') note_view (request_scope (note_request ''7'')) [] empty_sql_db)"

text \<open>An ingestion for another owner, then one for the view's own, which raises.\<close>

definition later_steps :: "(unit context_engine \<times> ingestion_request) list" where
  "later_steps = [(note_engine note_extractor ''1'', note_request ''8''), (note_engine failing_extractor ''2'', note_request ''7'')]"

definition flag_after :: "nat \<Rightarrow> json option" where
  "flag_after n = (case get_perspective (SQLAlchemyContextRepository (\<lambda>_. lit ''t'')) (note_engine note_extractor ''3'')
       (request_scope (note_request ''7'')) (lit ''d'') False
       (snd (ingest_all (SQLAlchemyContextRepository (\<lambda>_. lit ''t'')) (take n later_steps) view_db)) of
     (Inl e, _) \<Rightarrow> None | (Inr u, _) \<Rightarrow> map_of (pv_metadata u) (lit ''is_stale''))"

theorem stale_flag_is_exact_witness:
  "flag_after 0 = Some (JBool False) \<and> flag_after 1 = Some (JBool False) \<and> flag_after 2 = Some (JBool True)"
proof -
  let ?k = "request_scope (note_request ''7'')"
  have empty: "sql_list_artifacts ?k empty_sql_db = Inr []"
    by (simp add: sql_list_artifacts_def empty_sql_db_def)
  have json: "json_ok (JObj (view_dict (with_cache_metadata (\<lambda>_. lit ''t'') [] note_view)))"
    using note_view_json [of "lit ''v''"] by (simp add: note_view_def)
  have new: "pv_id note_view \<notin> sql_used empty_sql_db" by (simp only: empty_sql_db_ok) simp
  have st: "sql_store_perspective_view (\<lambda>_. lit ''t'') note_view ?k [] empty_sql_db
      = (fst (sql_store_perspective_view (\<lambda>_. lit ''t'') note_view ?k [] empty_sql_db), view_db)"
    by (simp add: view_db_def)
  then have rst: "rp_store_perspective_view (SQLAlchemyContextRepository (\<lambda>_. lit ''t'')) note_view ?k [] empty_sql_db
      = (fst (sql_store_perspective_view (\<lambda>_. lit ''t'') note_view ?k [] empty_sql_db), view_db)"
    by simp
  have "sql_used view_db \<subseteq> {lit ''v''}"
    using sql.store_view [OF empty_sql_db_ok(1) new json, of ?k] rst
    by (auto simp: empty_sql_db_ok note_view_def)
  then have used: "cx_used (sql_view view_db) \<subseteq> {lit ''v''}" by (simp add: sql_view_def)
  have one: "spec_ready (note_engine note_extractor ''1'') (note_request ''8'') (sql_view view_db)"
    using used by (intro note_ready) (auto simp: new_context_id_def lit_def valid_cp_def)
  have two: "spec_ready (note_engine failing_extractor ''2'') (note_request ''7'')
      (snd (spec_ingest (note_engine note_extractor ''1'') (note_request ''8'') (sql_view view_db)))"
    using used by (intro note_ready) (auto simp: note_used new_context_id_def lit_def valid_cp_def)
  have ready: "spec_ready_all (take n later_steps) (sql_view view_db)" if "n \<in> {0, 1, 2}" for n
    using that one two by (auto simp: later_steps_def numeral_2_eq_2)
  have flag: "flag_after n = Some (JBool (list_ex (stores_for ?k) (take n later_steps)))" if n: "n \<in> {0, 1, 2}" for n
    using stale_flag_is_exact [OF empty_sql_db_ok(1) empty new json st ready [OF n] surjective_pairing, of "note_engine note_extractor ''3''"]
    by (auto simp: flag_after_def note_view_def)
  show ?thesis
    by (simp add: flag later_steps_def stores_for_def note_admitted note_scope numeral_2_eq_2)
qed

lemma regenerated_row:
  assumes "find (owns_view k (pv_definition_id v)) (db_perspective_views db) = Some r"
    and "json_ok (JObj (view_dict (with_cache_metadata isofmt as v)))"
    and "map_of (pv_metadata v) (lit ''generated_at'') = None"
    and "sql_store_perspective_view isofmt v k as db = (Inr w, db1)"
    and "sql_get_perspective_view isofmt k (pv_definition_id v) db1 = Inr (Some u)"
  shows "map_of (pv_metadata u) (lit ''generated_at'') = Some (JStr (isofmt (vr_generated_at r)))"
proof -
  let ?w = "with_cache_metadata isofmt as v"
  let ?g = "\<lambda>q. if vr_id q = vr_id r then fill_view_row ?w as q else q"
  have db1: "db1 = db\<lparr> db_perspective_views := map ?g (db_perspective_views db) \<rparr>"
    using assms(1,4) by (simp add: sql_store_perspective_view_def Let_def split: if_splits)
  have "find (owns_view k (pv_definition_id v)) (map ?g (db_perspective_views db))
      = map_option ?g (find (owns_view k (pv_definition_id v)) (db_perspective_views db))"
    by (rule find_map_same) (simp add: owns_view_def fill_view_row_def)
  then have u: "u = ?w\<lparr> pv_metadata := set_default (pv_metadata ?w) ''generated_at'' (JStr (isofmt (vr_generated_at r))) \<rparr>"
    using assms(1,5) by (simp add: db1 sql_get_perspective_view_def view_read_back [OF assms(2)])
  have "map_of (pv_metadata ?w) (lit ''generated_at'') = None"
    using assms(3) by (simp add: with_cache_metadata_def dict_update_def perspective_cache_metadata_def map_of_dict_set lit_eq_iff)
  then show ?thesis by (simp add: u map_of_set_default)
qed

text \<open>
  A view that is stored over a cached one is read back with the \<^verbatim>\<open>generated_at\<close> of the row it
  replaces, whatever the time is: the column is filled by its default when the row is first
  inserted and by nothing afterwards, so a regenerated view reports its first generation.
\<close>

theorem regeneration_keeps_the_first_time:
  assumes "find (owns_view k (pv_definition_id v)) (db_perspective_views db) = Some r"
    and "json_ok (JObj (view_dict (with_cache_metadata isofmt as v)))"
    and "map_of (pv_metadata v) (lit ''generated_at'') = None"
    and "sql_store_perspective_view isofmt v k as db = (Inr w, db1)"
    and "sql_get_perspective_view isofmt k (pv_definition_id v) db1 = Inr (Some u)"
  shows "map_of (pv_metadata u) (lit ''generated_at'') = Some (JStr (isofmt (vr_generated_at r)))"
  using assms by (rule regenerated_row)

definition regenerated_at_9 :: sql_db where
  "regenerated_at_9 = (snd (sql_store_perspective_view show_int note_view (request_scope (note_request ''7'')) [] empty_sql_db))\<lparr> db_now := 9 \<rparr>"

theorem regeneration_keeps_the_first_time_witness:
  "\<exists>w db1 u. sql_store_perspective_view show_int (note_view\<lparr> pv_id := lit ''w'' \<rparr>) (request_scope (note_request ''7'')) [] regenerated_at_9 = (Inr w, db1)
     \<and> sql_get_perspective_view show_int (request_scope (note_request ''7'')) (lit ''d'') db1 = Inr (Some u)
     \<and> map_of (pv_metadata u) (lit ''generated_at'') = Some (JStr (show_int 0))"
proof -
  let ?k = "request_scope (note_request ''7'')" and ?v = "note_view\<lparr> pv_id := lit ''w'' \<rparr>"
  let ?row = "new_view_row (with_cache_metadata show_int [] note_view) ?k [] 0"
  have same: "note_view\<lparr> pv_id := lit ''v'' \<rparr> = note_view" by (simp add: note_view_def)
  have json: "json_ok (JObj (view_dict (with_cache_metadata show_int [] (note_view\<lparr> pv_id := i \<rparr>))))" if "i \<in> {lit ''v'', lit ''w''}" for i
    using that by (intro note_view_json) auto
  note enc = json_ok_encodable [OF json]
  have db: "regenerated_at_9 = empty_sql_db\<lparr> db_perspective_views := [?row], db_now := 9 \<rparr>"
    using enc [of "lit ''v''"] unfolding same
    by (simp add: regenerated_at_9_def sql_store_perspective_view_def empty_sql_db_def Let_def del: encodable.simps)
  have own: "owns_view ?k (lit ''d'') ?row" "vr_id ?row = lit ''v''" "vr_generated_at ?row = 0"
    by (simp_all add: owns_view_def new_view_row_def fill_view_row_def with_cache_metadata_def note_view_def)
  have found: "find (owns_view ?k (pv_definition_id ?v)) (db_perspective_views regenerated_at_9) = Some ?row"
    using own(1) by (simp add: db note_view_def)
  have ok: "sql_ok regenerated_at_9" "pv_id ?v \<notin> sql_used regenerated_at_9"
    using own(2) empty_sql_db_ok(1) by (simp_all add: db sql_ok_def sql_used_def empty_sql_db_def lit_eq_iff)
  obtain db1 u where u: "sql_store_perspective_view show_int ?v ?k [] regenerated_at_9 = (Inr (with_cache_metadata show_int [] ?v), db1)"
    "sql_get_perspective_view show_int ?k (lit ''d'') db1 = Inr (Some u)"
    using sql.store_view [OF ok json [of "lit ''w''"], of ?k] by (auto simp: note_view_def)
  have "map_of (pv_metadata ?v) (lit ''generated_at'') = None" "pv_definition_id ?v = lit ''d''" by (simp_all add: note_view_def)
  from regeneration_keeps_the_first_time [OF found json this(1) u(1)] u(2) this(2) own(3)
  have "map_of (pv_metadata u) (lit ''generated_at'') = Some (JStr (show_int 0))" by simp
  then show ?thesis using u by blast
qed

section \<open>Views are built from the owner's records\<close>

lemma sql_own_context: "sql.own_context db c \<longleftrightarrow>
    listed_holdings (SQLAlchemyContextRepository isofmt) (bc_scope c) db = Inr \<lparr> h_artifacts = canon_artifact ` set (bc_artifacts c),
      h_entities = canon_entity ` set (bc_entities c), h_relationships = canon_relationship ` set (bc_relationships c),
      h_signals = canon_signal ` set (bc_signals c), h_items = canon_item ` set (bc_items c) \<rparr>
    \<and> canon_chunk ` set (bc_chunks c) = (\<Union>i \<in> a_id ` set (bc_artifacts c). sql_chunks db i)"
  if "sql_ok db"
  unfolding sql.listed_holdings_look [OF that] sql.own_context_def by (cases "sql_look db (bc_scope c)") auto

lemma build_view_reads: "\<exists>r. build_view R eng k view_id given s = (r, s)"
  unfolding build_view_def by (simp add: st_defs Let_def split: sum.split option.split list.split)

lemma built_from_own:
  assumes "sql_ok db" and "build_perspective (SQLAlchemyContextRepository isofmt) eng k view_id db = (Inr v, db1)"
  shows "\<exists>domain b c raw. get_domain (ce_registry eng) (fst k) = Inr domain \<and> b \<in> set (dp_perspective_builders domain) \<and> pb_id b = view_id
     \<and> bc_scope c = k \<and> sql.own_context db c
     \<and> (case pb_build_with_execution b of Some f \<Rightarrow> f c (ce_execution_context eng) | None \<Rightarrow> pb_build b c) = Inr raw
     \<and> v = with_cache_metadata isofmt (bc_artifacts c) raw"
proof -
  let ?R = "SQLAlchemyContextRepository isofmt"
  obtain r where r: "build_view ?R eng k view_id None db = (r, db)"
    using build_view_reads [of ?R eng k view_id None db] by (rule exE)
  then obtain raw as where raw: "r = Inr (raw, as)" "sql_store_perspective_view isofmt raw k as db = (Inr v, db1)"
    using assms(2) by (cases r) (auto simp: build_perspective_def stbind_def)
  obtain domain where d: "get_domain (ce_registry eng) (fst k) = Inr domain"
    using r raw(1) by (cases "get_domain (ce_registry eng) (fst k)") (auto simp: build_view_def st_defs)
  obtain b where b: "find (\<lambda>b. pb_id b = view_id) (dp_perspective_builders domain) = Some b"
    using r raw(1) d by (cases "find (\<lambda>b. pb_id b = view_id) (dp_perspective_builders domain)") (auto simp: build_view_def st_defs)
  obtain c where c: "bc_scope c = k" "sql.own_context db c"
    "build_view ?R eng k view_id None db =
       (rbind (case pb_build_with_execution b of Some f \<Rightarrow> f c (ce_execution_context eng) | None \<Rightarrow> pb_build b c)
          (\<lambda>v. Inr (v, bc_artifacts c)), db)"
    using sql.view_of_own_context [OF assms(1) d b, of None _ isofmt] by auto
  have "rbind (case pb_build_with_execution b of Some f \<Rightarrow> f c (ce_execution_context eng) | None \<Rightarrow> pb_build b c)
      (\<lambda>v. Inr (v, bc_artifacts c)) = Inr (raw, as)"
    using c(3) r raw(1) by simp
  then have "(case pb_build_with_execution b of Some f \<Rightarrow> f c (ce_execution_context eng) | None \<Rightarrow> pb_build b c) = Inr raw \<and> as = bc_artifacts c"
    by (simp add: rbind_eq_Inr)
  moreover have "v = with_cache_metadata isofmt as raw"
    using raw(2) by (simp add: sql_store_perspective_view_def Let_def split: if_splits option.splits)
  ultimately show ?thesis using d c(1,2) find_SomeD [OF b]
    by (intro exI [of _ domain] exI [of _ b] exI [of _ c] exI [of _ raw]) simp
qed

text \<open>
  A view that is built comes from the builder registered under its id, called with exactly
  what is listed for that domain and owner and the chunks of those artifacts, and nothing of
  any other owner; what is cached and returned is the builder's view with the cache metadata.
\<close>

theorem views_are_built_from_own_records:
  assumes "sql_ok db" and "build_perspective (SQLAlchemyContextRepository isofmt) eng k view_id db = (Inr v, db1)"
  shows "\<exists>domain b c raw. get_domain (ce_registry eng) (fst k) = Inr domain \<and> b \<in> set (dp_perspective_builders domain) \<and> pb_id b = view_id
     \<and> bc_scope c = k
     \<and> listed_holdings (SQLAlchemyContextRepository isofmt) k db = Inr \<lparr> h_artifacts = canon_artifact ` set (bc_artifacts c),
         h_entities = canon_entity ` set (bc_entities c), h_relationships = canon_relationship ` set (bc_relationships c),
         h_signals = canon_signal ` set (bc_signals c), h_items = canon_item ` set (bc_items c) \<rparr>
     \<and> canon_chunk ` set (bc_chunks c) = (\<Union>i \<in> a_id ` set (bc_artifacts c). sql_chunks db i)
     \<and> (case pb_build_with_execution b of Some f \<Rightarrow> f c (ce_execution_context eng) | None \<Rightarrow> pb_build b c) = Inr raw
     \<and> v = with_cache_metadata isofmt (bc_artifacts c) raw"
  using built_from_own [OF assms] unfolding sql_own_context [OF assms(1), of _ isofmt] by metis

definition view_engine :: "unit context_engine" where
  "view_engine = (note_engine note_extractor ''1'')\<lparr> ce_registry := [(lit ''notes'', (note_pack note_extractor)\<lparr>
     dp_perspective_builders := [\<lparr> pb_id = lit ''d'', pb_build = (\<lambda>c. Inr note_view), pb_build_with_execution = None \<rparr>] \<rparr>)] \<rparr>"

theorem views_are_built_from_own_records_witness:
  "\<exists>v db1 domain b. build_perspective (SQLAlchemyContextRepository show_int) view_engine (request_scope (note_request ''7'')) (lit ''d'') empty_sql_db = (Inr v, db1)
     \<and> get_domain (ce_registry view_engine) (lit ''notes'') = Inr domain \<and> b \<in> set (dp_perspective_builders domain)"
proof -
  let ?k = "request_scope (note_request ''7'')"
  have json: "json_ok (JObj (view_dict (with_cache_metadata show_int [] note_view)))"
    using note_view_json [of "lit ''v''" show_int] by (simp add: note_view_def lit_def valid_cp_def)
  have "pv_id note_view \<notin> sql_used empty_sql_db" by (simp only: empty_sql_db_ok) simp
  then obtain db1 where db1: "sql_store_perspective_view show_int note_view ?k [] empty_sql_db = (Inr (with_cache_metadata show_int [] note_view), db1)"
    using sql.store_view [OF empty_sql_db_ok(1) _ json, of ?k] by auto
  have "build_view (SQLAlchemyContextRepository show_int) view_engine ?k (lit ''d'') None empty_sql_db = (Inr (note_view, []), empty_sql_db)"
    by (simp add: build_view_def st_defs view_engine_def note_engine_def get_domain_def note_scope SQLAlchemyContextRepository_def
        sql_list_artifacts_def sql_list_chunks_for_artifacts_def sql_list_entities_def sql_list_relationships_def sql_list_signals_def
        sql_list_actionable_items_def list_derived_def empty_sql_db_def Let_def)
  then have built: "build_perspective (SQLAlchemyContextRepository show_int) view_engine ?k (lit ''d'') empty_sql_db
      = (Inr (with_cache_metadata show_int [] note_view), db1)"
    using db1 by (simp add: build_perspective_def stbind_def)
  from views_are_built_from_own_records [OF empty_sql_db_ok(1) built] obtain domain b where
    "get_domain (ce_registry view_engine) (fst ?k) = Inr domain" "b \<in> set (dp_perspective_builders domain)" by metis
  then show ?thesis using built by (auto simp: note_scope)
qed

end
