(* ===== verification/Context_Routes.thy ===== *)
theory Context_Routes
  imports Context_System Run_Ingestion Security
begin

text \<open>
  The routes of \<^verbatim>\<open>app/api/routes/context.py\<close> over any repository, for the claims of a verified
  access token: the owner is always the caller's invitation code. \<open>pdf\<close> gives the pages' text
  of a PDF, or None where the reader raises.
\<close>

section \<open>Requests and answers\<close>

record context_artifact_create_request =
  cq_artifact_type_id :: str
  cq_text :: str
  cq_title :: "str option"
  cq_source_uri :: "str option"
  cq_metadata :: json_dict

record domain_summary =
  dm_id :: str
  dm_display_name :: str
  dm_metadata :: json_dict

record domain_detail = domain_summary +
  dm_artifact_types :: "artifact_type list"
  dm_perspectives :: "str list"
  dm_views :: "view_definition list"

section \<open>Routes\<close>

definition caller_scope :: "access_token_claims \<Rightarrow> str \<Rightarrow> scope" where
  "caller_scope claims domain_id = (domain_id, INVITATION_CODE, show_int (invitation_code_id claims))"

definition domain_missing :: error where
  "domain_missing = HTTPException 404 (lit ''Context domain not found.'')"

definition domain_or_404 :: "'x domain_registry \<Rightarrow> str \<Rightarrow> 'x domain_pack result" where
  "domain_or_404 reg d = (case get_domain reg d of Inl (KeyError m) \<Rightarrow> Inl domain_missing | r \<Rightarrow> r)"

definition owner_actionable_items ::
  "'s repository \<Rightarrow> 'x domain_registry \<Rightarrow> access_token_claims \<Rightarrow> str \<Rightarrow> 's \<Rightarrow> actionable_item list result"
where
  "owner_actionable_items R reg claims d s =
     rbind (domain_or_404 reg d) (\<lambda>_. rp_list_actionable_items R (caller_scope claims d) s)"

definition list_context_domains :: "'x domain_registry \<Rightarrow> domain_summary list" where
  "list_context_domains reg =
     map (\<lambda>p. \<lparr> dm_id = dp_id p, dm_display_name = dp_display_name p, dm_metadata = dp_metadata p \<rparr>) (list_domains reg)"

definition get_context_domain :: "'x domain_registry \<Rightarrow> str \<Rightarrow> domain_detail result" where
  "get_context_domain reg d =
     rbind (domain_or_404 reg d) (\<lambda>p.
     rbind (list_artifact_types reg d) (\<lambda>ts.
     rbind (list_perspectives reg d) (\<lambda>ps.
     rbind (list_views reg d) (\<lambda>vs.
       Inr \<lparr> dm_id = dp_id p, dm_display_name = dp_display_name p, dm_metadata = dp_metadata p,
             dm_artifact_types = ts, dm_perspectives = ps, dm_views = vs \<rparr>))))"

definition list_context_artifacts ::
  "'s repository \<Rightarrow> 'x domain_registry \<Rightarrow> access_token_claims \<Rightarrow> str \<Rightarrow> 's \<Rightarrow> artifact list result"
where
  "list_context_artifacts R reg claims d s =
     rbind (domain_or_404 reg d) (\<lambda>_. rp_list_artifacts R (caller_scope claims d) s)"

definition get_context_artifact ::
  "'s repository \<Rightarrow> 'x domain_registry \<Rightarrow> access_token_claims \<Rightarrow> str \<Rightarrow> str \<Rightarrow> 's \<Rightarrow> (artifact \<times> artifact_chunk list) result"
where
  "get_context_artifact R reg claims d i s =
     rbind (domain_or_404 reg d) (\<lambda>_.
     rbind (rp_get_artifact R (caller_scope claims d) i s) (\<lambda>found.
       case found of
         None \<Rightarrow> Inl (HTTPException 404 (lit ''Context artifact not found.''))
       | Some a \<Rightarrow> rbind (rp_list_chunks_for_artifact R (a_id a) s) (\<lambda>ks. Inr (a, ks))))"

definition list_context_signals ::
  "'s repository \<Rightarrow> 'x domain_registry \<Rightarrow> access_token_claims \<Rightarrow> str \<Rightarrow> 's \<Rightarrow> context_signal list result"
where
  "list_context_signals R reg claims d s =
     rbind (domain_or_404 reg d) (\<lambda>_. rp_list_signals R (caller_scope claims d) s)"

definition list_context_tasks ::
  "'s repository \<Rightarrow> 'x domain_registry \<Rightarrow> access_token_claims \<Rightarrow> str \<Rightarrow> 's \<Rightarrow> actionable_item list result"
where
  "list_context_tasks R reg claims d s = owner_actionable_items R reg claims d s"

definition list_context_actionable_items ::
  "'s repository \<Rightarrow> 'x domain_registry \<Rightarrow> access_token_claims \<Rightarrow> str \<Rightarrow> 's \<Rightarrow> actionable_item list result"
where
  "list_context_actionable_items R reg claims d s = owner_actionable_items R reg claims d s"

text \<open>The two except clauses of a route: a KeyError is a missing domain, a ValueError has \<open>status\<close>.\<close>

definition service_answer :: "nat \<Rightarrow> 'a result \<times> 's \<Rightarrow> 'a result \<times> 's" where
  "service_answer status rs =
     (case rs of
        (Inl (KeyError m), s) \<Rightarrow> (Inl domain_missing, s)
      | (Inl (ValueError m), s) \<Rightarrow> (Inl (HTTPException status m), s)
      | (r, s) \<Rightarrow> (r, s))"

definition ingest_context_artifact ::
  "'s repository \<Rightarrow> 'x context_engine \<Rightarrow> access_token_claims \<Rightarrow> str \<Rightarrow> context_artifact_create_request \<Rightarrow> 's
     \<Rightarrow> context_ingestion_result result \<times> 's"
where
  "ingest_context_artifact R eng claims d payload s =
     service_answer 400 (ingest_artifact R eng
       \<lparr> ir_domain_id = d, ir_type_id = cq_artifact_type_id payload, ir_owner_type = INVITATION_CODE,
         ir_owner_id = show_int (invitation_code_id claims), ir_text = cq_text payload, ir_title = cq_title payload,
         ir_source_uri = cq_source_uri payload, ir_metadata = cq_metadata payload \<rparr> s)"

text \<open>The text after the last dot of a file name, lowered; empty without a dot.\<close>

definition name_suffix :: "str \<Rightarrow> str" where
  "name_suffix f = (if 46 \<in> set f then lower (rev (takeWhile (\<lambda>c. c \<noteq> 46) (rev f))) else [])"

definition extract_upload_text :: "(bytes \<Rightarrow> str list option) \<Rightarrow> upload_file \<Rightarrow> (str \<times> str) result" where
  "extract_upload_text pdf f =
     (let ctype = str_or (up_content_type f) [];
          suffix = name_suffix (str_or (up_filename f) (lit ''uploaded artifact''))
      in if ctype = lit ''application/pdf'' \<or> suffix = lit ''pdf''
         then (case pdf (up_bytes f) of
                 None \<Rightarrow> Inl (HTTPException 400 (lit ''Uploaded PDF could not be read as extractable text.''))
               | Some pages \<Rightarrow>
                   let text = strip (join [10, 10] (filter (\<lambda>p. p \<noteq> []) (map strip pages)))
                   in if text = [] then Inl (HTTPException 400 (lit ''Uploaded PDF did not contain extractable text.''))
                      else Inr (text, ctype))
         else if ctype \<in> {lit ''text/plain'', lit ''text/markdown'', lit ''text/csv'', lit ''application/json''}
            \<or> starts_with (lit ''text/'') ctype
            \<or> suffix \<in> {lit ''txt'', lit ''md'', lit ''markdown'', lit ''csv'', lit ''json''}
         then (case utf8_decode (up_bytes f) of
                 None \<Rightarrow> Inl (HTTPException 400 (lit ''Uploaded text file must be UTF-8 encoded.''))
               | Some t \<Rightarrow> Inr (t, ctype))
         else Inl (HTTPException 400 (lit ''Only text files and extractable PDFs are supported.'')))"

definition upload_metadata :: "str option \<Rightarrow> json_dict result" where
  "upload_metadata metadata_json =
     (if \<not> truthy metadata_json then Inr []
      else (case loads (the metadata_json) of
              None \<Rightarrow> Inl (HTTPException 400 (lit ''metadata_json must be valid JSON.''))
            | Some (JObj d) \<Rightarrow> Inr d
            | Some _ \<Rightarrow> Inl (HTTPException 400 (lit ''metadata_json must be a JSON object.''))))"

definition upload_request ::
  "access_token_claims \<Rightarrow> str \<Rightarrow> str \<Rightarrow> str option \<Rightarrow> str option \<Rightarrow> str option \<Rightarrow> str \<Rightarrow> str \<Rightarrow> json_dict \<Rightarrow> ingestion_request"
where
  "upload_request claims d type_id new_title uri fname text ctype m =
     (let m1 = set_default m ''ingestion_method'' (JStr (lit ''upload''));
          m2 = set_default m1 ''file_name'' (opt_str_json fname);
          m3 = set_default m2 ''content_type'' (JStr ctype)
      in \<lparr> ir_domain_id = d, ir_type_id = type_id, ir_owner_type = INVITATION_CODE,
           ir_owner_id = show_int (invitation_code_id claims), ir_text = text,
           ir_title = (if truthy new_title then new_title else fname),
           ir_source_uri = (if truthy uri then uri else if truthy fname then Some (lit ''upload://'' @ the fname) else None),
           ir_metadata = m3 \<rparr>)"

definition upload_context_artifact ::
  "(bytes \<Rightarrow> str list option) \<Rightarrow> 's repository \<Rightarrow> 'x context_engine \<Rightarrow> access_token_claims \<Rightarrow> str \<Rightarrow> str \<Rightarrow> str option
     \<Rightarrow> str option \<Rightarrow> str option \<Rightarrow> upload_file \<Rightarrow> 's \<Rightarrow> context_ingestion_result result \<times> 's"
where
  "upload_context_artifact pdf R eng claims d type_id new_title uri metadata_json f =
     stbind (stlift (extract_upload_text pdf f)) (\<lambda>(text, ctype).
     stbind (stlift (upload_metadata metadata_json)) (\<lambda>m s.
       service_answer 400 (ingest_artifact R eng (upload_request claims d type_id new_title uri (up_filename f) text ctype m) s)))"

definition get_context_view ::
  "'s repository \<Rightarrow> 'x context_engine \<Rightarrow> access_token_claims \<Rightarrow> str \<Rightarrow> str \<Rightarrow> bool \<Rightarrow> 's \<Rightarrow> perspective_view result \<times> 's"
where
  "get_context_view R eng claims d view_id regenerate s =
     service_answer 404 (get_perspective R eng (caller_scope claims d) view_id regenerate s)"

section \<open>What a caller sees\<close>

lemma show_int_inj: "show_int i = show_int j \<longleftrightarrow> i = j"
proof -
  have nat: "show_nat m = show_nat n \<longleftrightarrow> m = n" for m n using dec_value_show_nat by metis
  have sign: "45 # show_nat m \<noteq> show_nat n" for m n 
  proof
    assume "45 # show_nat m = show_nat n"
    then have "45 \<in> set (show_nat n)" by (metis list.set_intros(1))
    then show False using show_nat_digits [of 45 n] by simp
  qed
  show ?thesis using sign sign [symmetric] nat by (auto simp: show_int_def)
qed

lemma domain_or_404_Inl: "domain_or_404 reg d = Inl e \<Longrightarrow> e = domain_missing"
  by (auto simp: domain_or_404_def get_domain_def split: option.splits)

lemma others_get_404:
  assumes "sql_ok db" and "list_context_artifacts (SQLAlchemyContextRepository isofmt) reg c d db = Inr xs"
    and "invitation_code_id c1 \<noteq> invitation_code_id c" and "x \<in> set xs"
  shows "scope_of x = caller_scope c d
     \<and> get_context_artifact (SQLAlchemyContextRepository isofmt) reg1 c1 d1 (a_id x) db
         \<in> {Inl domain_missing, Inl (HTTPException 404 (lit ''Context artifact not found.''))}"
proof -
  have "rp_list_artifacts (SQLAlchemyContextRepository isofmt) (caller_scope c d) db = Inr xs"
    using assms(2) by (auto simp: list_context_artifacts_def rbind_eq_Inr)
  from sql.listed_artifact [OF assms(1) this assms(4)]
  have x: "sql_known db (a_id x) = Some (caller_scope c d)" "scope_of x = caller_scope c d" by blast+
  obtain r where r: "rp_get_artifact (SQLAlchemyContextRepository isofmt) (caller_scope c1 d1) (a_id x) db = Inr r"
    "\<forall>a. r = Some a \<longrightarrow> a_id a = a_id x \<and> sql_known db (a_id x) = Some (caller_scope c1 d1) \<and> scope_of a = caller_scope c1 d1"
    using sql.got_artifact [OF assms(1)] by metis
  have "caller_scope c1 d1 \<noteq> caller_scope c d" using assms(3) by (simp add: caller_scope_def show_int_inj)
  then have "r = None" using r(2) x(1) by (cases r) auto
  then show ?thesis
    using x(2) r(1) domain_or_404_Inl [of reg1 d1] by (cases "domain_or_404 reg1 d1") (simp_all add: get_context_artifact_def)
qed

text \<open>
  A caller is listed the artifacts of their own invitation code only, and an artifact that
  is listed for one caller answers 404 to every caller with another code, under whatever
  domain it is asked for.
\<close>

theorem artifacts_are_private_to_callers:
  assumes "sql_ok db" and "list_context_artifacts (SQLAlchemyContextRepository isofmt) reg c d db = Inr xs"
    and "invitation_code_id c1 \<noteq> invitation_code_id c" and "x \<in> set xs"
  shows "scope_of x = caller_scope c d
     \<and> get_context_artifact (SQLAlchemyContextRepository isofmt) reg1 c1 d1 (a_id x) db
         \<in> {Inl domain_missing, Inl (HTTPException 404 (lit ''Context artifact not found.''))}"
  using assms by (rule others_get_404)

definition caller :: "int \<Rightarrow> access_token_claims" where
  "caller i = \<lparr> token_id = lit ''t'', invitation_code_id = i, claim_code = lit ''A'', claim_experience_id = RAG_DEMO,
     issued_at = 0, expires_at = 9 \<rparr>"

lemma note_db_lists:
  "\<exists>x xs. list_context_artifacts (SQLAlchemyContextRepository isofmt) [(lit ''notes'', note_pack note_extractor)] (caller 7) (lit ''notes'') note_db
     = Inr (x # xs)"
proof -
  have k: "caller_scope (caller 7) (lit ''notes'') = request_scope (note_request ''7'')"
    by (simp add: caller_scope_def caller_def note_scope show_int_def show_nat.simps lit_def)
  obtain xs where xs: "sql_list_artifacts (request_scope (note_request ''7'')) note_db = Inr xs"
    "canon_artifact ` set xs = h_artifacts (sql_look note_db (request_scope (note_request ''7'')))"
    using sql.list_artifacts [OF note_db_ok(1), of "\<lambda>_. []" "request_scope (note_request ''7'')"] by auto
  have "cx_look (sql_view note_db) = sql_look note_db" by (simp add: sql_view_def)
  then have "h_artifacts (sql_look note_db (request_scope (note_request ''7''))) \<noteq> {}"
    using spec_ingest_artifact [OF note_admitted, of note_extractor "''1''" "''7''" no_context] note_db_ok(2) by simp
  then have "xs \<noteq> []" using xs(2) by auto
  then show ?thesis
    using xs(1) by (cases xs) (simp_all add: list_context_artifacts_def domain_or_404_def get_domain_def k)
qed

theorem artifacts_are_private_to_callers_witness:
  "\<exists>x xs. list_context_artifacts (SQLAlchemyContextRepository show_int) [(lit ''notes'', note_pack note_extractor)] (caller 7) (lit ''notes'') note_db = Inr (x # xs)
     \<and> get_context_artifact (SQLAlchemyContextRepository show_int) [(lit ''notes'', note_pack note_extractor)] (caller 8) (lit ''notes'') (a_id x) note_db
         \<in> {Inl domain_missing, Inl (HTTPException 404 (lit ''Context artifact not found.''))}"
proof -
  obtain x xs where l: "list_context_artifacts (SQLAlchemyContextRepository show_int) [(lit ''notes'', note_pack note_extractor)] (caller 7) (lit ''notes'') note_db
      = Inr (x # xs)"
    using note_db_lists by blast
  have "invitation_code_id (caller 8) \<noteq> invitation_code_id (caller 7)" by (simp add: caller_def)
  from artifacts_are_private_to_callers [OF note_db_ok(1) l this] show ?thesis using l by fastforce
qed

end
