(* ===== verification/Job_Extract.thy ===== *)
theory Job_Extract
  imports Context_Store Workflow_Tools
begin

text \<open>
  The rule-based extraction of the job search domain (\<^verbatim>\<open>app/domains/job_search/models.py\<close>,
  \<^verbatim>\<open>extractors/*.py\<close>): lines and keywords of the chunks that match regular expressions, as
  signals, entities and actions with links to where they were found. The regular expressions are
  a small backtracking matcher, with the priorities of the \<^verbatim>\<open>re\<close> module. \<open>wide\<close> are the
  word characters above ASCII; \<open>uuid\<close> supplies the ids by kind and position.
\<close>

section \<open>Regular expressions\<close>

text \<open>A repetition is of one character class, between a least and a greatest number of times.\<close>

datatype regex =
    Cls "nat \<Rightarrow> bool"
  | Many "nat \<Rightarrow> bool" nat "nat option"
  | Cat regex regex
  | Alt regex regex
  | WordEdge
  | TextStart
  | LineStart
  | LineEnd
  | Group regex

definition word_before :: "(nat \<Rightarrow> bool) \<Rightarrow> str \<Rightarrow> nat \<Rightarrow> bool" where
  "word_before wide s i \<longleftrightarrow> 0 < i \<and> i \<le> length s \<and> is_word_char wide (s ! (i - 1))"

definition word_after :: "(nat \<Rightarrow> bool) \<Rightarrow> str \<Rightarrow> nat \<Rightarrow> bool" where
  "word_after wide s i \<longleftrightarrow> i < length s \<and> is_word_char wide (s ! i)"

type_synonym regex_state = "nat \<times> (nat \<times> nat) option"

text \<open>The ends of the matches from a position, the preferred one first, each with its group.\<close>

fun ends :: "(nat \<Rightarrow> bool) \<Rightarrow> str \<Rightarrow> regex \<Rightarrow> regex_state \<Rightarrow> regex_state list" where
  "ends wide s (Cls P) (i, g) = (if i < length s \<and> P (s ! i) then [(i + 1, g)] else [])"
| "ends wide s (Many P least most) (i, g) =
     (let rest = drop i s;
          n = length (takeWhile P (case most of None \<Rightarrow> rest | Some m \<Rightarrow> take m rest))
      in map (\<lambda>k. (i + k, g)) (rev [least..<n + 1]))"
| "ends wide s (Cat a b) st = concat (map (ends wide s b) (ends wide s a st))"
| "ends wide s (Alt a b) st = ends wide s a st @ ends wide s b st"
| "ends wide s WordEdge (i, g) = (if word_before wide s i \<noteq> word_after wide s i then [(i, g)] else [])"
| "ends wide s TextStart (i, g) = (if i = 0 then [(i, g)] else [])"
| "ends wide s LineStart (i, g) = (if i = 0 \<or> (i \<le> length s \<and> s ! (i - 1) = 10) then [(i, g)] else [])"
| "ends wide s LineEnd (i, g) = (if i = length s \<or> (i < length s \<and> s ! i = 10) then [(i, g)] else [])"
| "ends wide s (Group r) (i, g) = map (\<lambda>(j, h). (j, Some (i, j))) (ends wide s r (i, g))"

text \<open>\<^verbatim>\<open>re.search\<close> from a position: start, end and group of the leftmost match.\<close>

definition search_from :: "(nat \<Rightarrow> bool) \<Rightarrow> regex \<Rightarrow> str \<Rightarrow> nat \<Rightarrow> (nat \<times> nat \<times> (nat \<times> nat) option) option" where
  "search_from wide r s from =
     map_option (\<lambda>i. (i, hd (ends wide s r (i, None))))
       (find (\<lambda>i. ends wide s r (i, None) \<noteq> []) [from..<length s + 1])"

definition search :: "(nat \<Rightarrow> bool) \<Rightarrow> regex \<Rightarrow> str \<Rightarrow> (nat \<times> nat \<times> (nat \<times> nat) option) option" where
  "search wide r s = search_from wide r s 0"

definition matches :: "(nat \<Rightarrow> bool) \<Rightarrow> regex \<Rightarrow> str \<Rightarrow> bool" where
  "matches wide r s \<longleftrightarrow> search wide r s \<noteq> None"

text \<open>
  \<^verbatim>\<open>re.IGNORECASE\<close> for an ASCII pattern: besides the capitals, the dotted and the dotless i, the
  long s and the Kelvin sign are equal to their letters.
\<close>

definition fold_case :: "nat \<Rightarrow> nat" where
  "fold_case c =
     (if 65 \<le> c \<and> c \<le> 90 then c + 32
      else if c = 304 \<or> c = 305 then 105
      else if c = 383 then 115
      else if c = 8490 then 107
      else c)"

definition same_letter :: "nat \<Rightarrow> nat \<Rightarrow> bool" where
  "same_letter p c \<longleftrightarrow> fold_case p = fold_case c"

fun chars_re :: "str \<Rightarrow> regex" where
  "chars_re [] = Many (\<lambda>c. False) 0 None"
| "chars_re (p # ps) = Cat (Cls (same_letter p)) (chars_re ps)"

fun alternatives :: "str list \<Rightarrow> regex" where
  "alternatives [] = Cls (\<lambda>c. False)"
| "alternatives [w] = chars_re w"
| "alternatives (w # ws) = Alt (chars_re w) (alternatives ws)"

text \<open>\<^verbatim>\<open>a|b|c\<close> and \<^verbatim>\<open>\b(a|b|c)\b\<close>\<close>

definition any_of :: "string \<Rightarrow> regex" where
  "any_of ws = alternatives (split_char 124 (lit ws))"

definition words :: "string \<Rightarrow> regex" where
  "words ws = Cat WordEdge (Cat (any_of ws) WordEdge)"

definition ascii_digit :: "nat \<Rightarrow> bool" where
  "ascii_digit c \<longleftrightarrow> 48 \<le> c \<and> c \<le> 57"

text \<open>\<^verbatim>\<open>\$[0-9]\<close>\<close>

definition money :: regex where
  "money = Cat (Cls (\<lambda>c. c = 36)) (Cls ascii_digit)"

section \<open>Texts\<close>

definition strip_chars :: "str \<Rightarrow> str \<Rightarrow> str" where
  "strip_chars cs s = rev (dropWhile (\<lambda>c. c \<in> set cs) (rev (dropWhile (\<lambda>c. c \<in> set cs) s)))"

text \<open>The characters are a space, a hyphen, a colon, tab, newline and carriage return.\<close>

definition normalize_space :: "str \<Rightarrow> str" where
  "normalize_space s = strip_chars [32, 45, 58, 9, 10, 13] (squeeze_spaces s)"

text \<open>\<^verbatim>\<open>str.find\<close>\<close>

fun find_text :: "str \<Rightarrow> str \<Rightarrow> nat option" where
  "find_text p [] = (if p = [] then Some 0 else None)"
| "find_text p (c # s) = (if starts_with p (c # s) then Some 0 else map_option Suc (find_text p s))"

section \<open>Values with their sources\<close>

record extracted_value =
  ev_value :: str
  ev_link :: source_link

definition first_source_link :: "artifact_chunk list \<Rightarrow> source_link result" where
  "first_source_link ks =
     (case ks of
        k # _ \<Rightarrow> Inr (ck_source_link k)
      | [] \<Rightarrow> Inl (ValueError (lit ''At least one chunk is required for extraction.'')))"

fun link_in :: "str \<Rightarrow> str option \<Rightarrow> artifact_chunk list \<Rightarrow> source_link option" where
  "link_in needle label [] = None"
| "link_in needle label (k # ks) =
     (case find_text (lower needle) (lower (ck_text k)) of
        None \<Rightarrow> link_in needle label ks
      | Some offset \<Rightarrow>
          Some \<lparr> sl_artifact_id = ck_artifact_id k, sl_chunk_id = Some (ck_id k), sl_start = Some (ck_start k + offset),
                 sl_end = Some (ck_start k + offset + length needle), sl_label = label, sl_excerpt = Some (take 500 needle) \<rparr>)"

definition source_for_match :: "artifact_chunk list \<Rightarrow> str \<Rightarrow> str option \<Rightarrow> source_link result" where
  "source_for_match ks match_text label =
     (let needle = strip match_text
      in case link_in needle label ks of
           Some l \<Rightarrow> Inr l
         | None \<Rightarrow> rbind (first_source_link ks) (\<lambda>l.
             Inr (l\<lparr> sl_label := (if truthy label then label else sl_label l),
                    sl_excerpt := (if take 500 needle = [] then sl_excerpt l else Some (take 500 needle)) \<rparr>)))"

text \<open>The lines of all chunks, in order; a line counts once whatever its case.\<close>

fun matching_lines ::
  "(nat \<Rightarrow> bool) \<Rightarrow> artifact_chunk list \<Rightarrow> regex list \<Rightarrow> str \<Rightarrow> str list \<Rightarrow> str list \<Rightarrow> extracted_value list result"
where
  "matching_lines wide ks patterns label seen [] = Inr []"
| "matching_lines wide ks patterns label seen (l # ls) =
     (let cleaned = normalize_space l
      in if cleaned = [] \<or> lower cleaned \<in> set seen then matching_lines wide ks patterns label seen ls
         else if list_ex (\<lambda>p. matches wide p cleaned) patterns
         then rbind (source_for_match ks cleaned (Some label)) (\<lambda>link.
              rbind (matching_lines wide ks patterns label (lower cleaned # seen) ls) (\<lambda>vs.
                Inr (\<lparr> ev_value = cleaned, ev_link = link \<rparr> # vs)))
         else matching_lines wide ks patterns label seen ls)"

definition lines_containing ::
  "(nat \<Rightarrow> bool) \<Rightarrow> artifact_chunk list \<Rightarrow> regex list \<Rightarrow> string \<Rightarrow> extracted_value list result"
where
  "lines_containing wide ks patterns label =
     matching_lines wide ks patterns (lit label) [] (concat (map (\<lambda>k. splitlines (ck_text k)) ks))"

text \<open>\<^verbatim>\<open>\b\<close>, the escaped keyword, \<^verbatim>\<open>\b\<close>\<close>

definition keyword_re :: "str \<Rightarrow> regex" where
  "keyword_re keyword = Cat WordEdge (Cat (chars_re keyword) WordEdge)"

fun keyword_link :: "(nat \<Rightarrow> bool) \<Rightarrow> str \<Rightarrow> string \<Rightarrow> artifact_chunk list \<Rightarrow> source_link option" where
  "keyword_link wide keyword label [] = None"
| "keyword_link wide keyword label (k # ks) =
     (case search wide (keyword_re keyword) (ck_text k) of
        None \<Rightarrow> keyword_link wide keyword label ks
      | Some (i, j, g) \<Rightarrow>
          Some \<lparr> sl_artifact_id = ck_artifact_id k, sl_chunk_id = Some (ck_id k), sl_start = Some (ck_start k + i),
                 sl_end = Some (ck_start k + j), sl_label = Some (lit label),
                 sl_excerpt = Some (take (j - i) (drop i (ck_text k))) \<rparr>)"

fun keyword_values_from ::
  "(nat \<Rightarrow> bool) \<Rightarrow> artifact_chunk list \<Rightarrow> string \<Rightarrow> str list \<Rightarrow> str list \<Rightarrow> extracted_value list"
where
  "keyword_values_from wide ks label seen [] = []"
| "keyword_values_from wide ks label seen (w # ws) =
     (if lower w \<in> set seen then keyword_values_from wide ks label seen ws
      else case keyword_link wide w label ks of
             None \<Rightarrow> keyword_values_from wide ks label seen ws
           | Some l \<Rightarrow> \<lparr> ev_value = w, ev_link = l \<rparr> # keyword_values_from wide ks label (lower w # seen) ws)"

definition keyword_values :: "(nat \<Rightarrow> bool) \<Rightarrow> artifact_chunk list \<Rightarrow> str list \<Rightarrow> string \<Rightarrow> extracted_value list" where
  "keyword_values wide ks keywords label = keyword_values_from wide ks label [] keywords"

definition TECH_KEYWORDS :: "str list" where
  "TECH_KEYWORDS = map lit
     [''Python'', ''TypeScript'', ''React'', ''Next.js'', ''FastAPI'', ''SQLAlchemy'', ''Oracle'', ''Postgres'',
      ''Kubernetes'', ''Docker'', ''Terraform'', ''AWS'', ''GCP'', ''OCI'', ''LangChain'', ''OpenAI'', ''Anthropic'',
      ''RAG'', ''agents'', ''embeddings'']"

section \<open>Records\<close>

text \<open>What an extractor found; its records still wait for their ids.\<close>

record findings =
  fi_entities :: "(str \<Rightarrow> context_entity) list"
  fi_signals :: "(str \<Rightarrow> context_signal) list"
  fi_actions :: "(str \<Rightarrow> actionable_item) list"

definition nothing :: findings where
  "nothing = \<lparr> fi_entities = [], fi_signals = [], fi_actions = [] \<rparr>"

definition generated :: "str \<Rightarrow> json_dict \<Rightarrow> json_dict" where
  "generated kind extra = dict_update [(lit ''generated_by'', JStr (lit ''deterministic'')), (lit ''explicit_or_inferred'', JStr kind)]
     (filter (\<lambda>(k, v). v \<noteq> JNull) extra)"

definition signal :: "string \<Rightarrow> string \<Rightarrow> str \<Rightarrow> source_link \<Rightarrow> json_dict \<Rightarrow> str \<Rightarrow> context_signal" where
  "signal stype label v link extra uuid =
     \<lparr> sg_id = new_context_id ''signal'' uuid, sg_type = lit stype, sg_label = lit label, sg_value = JStr v, sg_links = [link],
       sg_metadata = generated (if starts_with (lit ''inferred'') (lit stype)
             \<or> (case map_of extra (lit ''reason'') of Some (JStr r) \<Rightarrow> r \<noteq> [] | _ \<Rightarrow> False)
           then lit ''inferred'' else lit ''explicit'') extra \<rparr>"

definition entity :: "string \<Rightarrow> str \<Rightarrow> source_link \<Rightarrow> str \<Rightarrow> context_entity" where
  "entity etype name link uuid =
     \<lparr> en_id = new_context_id ''entity'' uuid, en_type = lit etype, en_name = name, en_links = [link],
       en_metadata = generated (lit ''explicit'') [] \<rparr>"

definition action :: "string \<Rightarrow> string \<Rightarrow> source_link \<Rightarrow> str option \<Rightarrow> str \<Rightarrow> actionable_item" where
  "action itype heading link description uuid =
     \<lparr> ai_id = new_context_id ''item'' uuid, ai_type = lit itype, ai_title = lit heading, ai_description = description,
       ai_readiness = NEEDS_REVIEW, ai_links = [link], ai_metadata = generated (lit ''inferred'') [] \<rparr>"

definition signals_from_values :: "string \<Rightarrow> string \<Rightarrow> extracted_value list \<Rightarrow> (str \<Rightarrow> context_signal) list" where
  "signals_from_values stype label vs = map (\<lambda>v. signal stype label (ev_value v) (ev_link v) []) vs"

definition only_signals :: "(str \<Rightarrow> context_signal) list \<Rightarrow> findings" where
  "only_signals ss = nothing\<lparr> fi_signals := ss \<rparr>"

fun collect :: "findings result list \<Rightarrow> findings result" where
  "collect [] = Inr nothing"
| "collect (r # rs) = rbind r (\<lambda>a. rbind (collect rs) (\<lambda>b.
     Inr \<lparr> fi_entities = fi_entities a @ fi_entities b, fi_signals = fi_signals a @ fi_signals b,
           fi_actions = fi_actions a @ fi_actions b \<rparr>))"

text \<open>The first matching lines as signals of one type.\<close>

definition line_signals ::
  "(nat \<Rightarrow> bool) \<Rightarrow> artifact_chunk list \<Rightarrow> nat \<Rightarrow> string \<Rightarrow> string \<Rightarrow> string \<Rightarrow> regex list \<Rightarrow> findings result"
where
  "line_signals wide ks most stype heading label patterns =
     rbind (lines_containing wide ks patterns label) (\<lambda>vs.
       Inr (only_signals (signals_from_values stype heading (take most vs))))"

definition numbered_with :: "(nat \<Rightarrow> str) \<Rightarrow> (str \<Rightarrow> 'a) list \<Rightarrow> 'a list" where
  "numbered_with uuid fs = map (\<lambda>(n, f). f (uuid n)) (zip [0..<length fs] fs)"

record job_result =
  jr_outputs :: extraction_result
  jr_metadata :: json_dict

definition no_result :: job_result where
  "no_result = \<lparr> jr_outputs = \<lparr> er_entities = [], er_relationships = [], er_signals = [], er_items = [] \<rparr>, jr_metadata = [] \<rparr>"

definition result_of :: "(string \<Rightarrow> nat \<Rightarrow> str) \<Rightarrow> artifact \<Rightarrow> findings \<Rightarrow> job_result" where
  "result_of uuid a f =
     \<lparr> jr_outputs = \<lparr> er_entities = numbered_with (uuid ''entity'') (fi_entities f), er_relationships = [],
           er_signals = numbered_with (uuid ''signal'') (fi_signals f),
           er_items = numbered_with (uuid ''item'') (fi_actions f) \<rparr>,
       jr_metadata = [(lit ''artifact_type_id'', JStr (a_type_id a))] \<rparr>"

section \<open>Job descriptions\<close>

definition infer_seniority :: "(nat \<Rightarrow> bool) \<Rightarrow> str \<Rightarrow> string option" where
  "infer_seniority wide t =
     (let has = (\<lambda>ws. contains_word wide (split_char 124 (lit ws)) (lower t))
      in if has ''staff|principal|architect'' then Some ''staff_or_principal''
         else if has ''senior|lead'' then Some ''senior_or_lead''
         else if has ''manager|director|head of'' then Some ''management''
         else if has ''junior|associate|entry'' then Some ''early_career''
         else None)"

text \<open>\<^verbatim>\<open>(?im)^\s*label\s*:\s*(.+)$\<close>\<close>

definition labeled_re :: "str \<Rightarrow> regex" where
  "labeled_re label =
     Cat LineStart (Cat (Many is_space 0 None) (Cat (chars_re label) (Cat (Many is_space 0 None) (Cat (Cls (\<lambda>c. c = 58))
       (Cat (Many is_space 0 None) (Cat (Group (Many (\<lambda>c. c \<noteq> 10) 1 None)) LineEnd))))))"

definition group_text :: "str \<Rightarrow> (nat \<times> nat \<times> (nat \<times> nat) option) \<Rightarrow> str" where
  "group_text s m = (case m of (i, j, Some (a, b)) \<Rightarrow> take (b - a) (drop a s) | _ \<Rightarrow> [])"

fun extract_labeled_value :: "(nat \<Rightarrow> bool) \<Rightarrow> str \<Rightarrow> str list \<Rightarrow> str option" where
  "extract_labeled_value wide t [] = None"
| "extract_labeled_value wide t (l # ls) =
     (case search wide (labeled_re l) t of
        Some m \<Rightarrow> Some (take 160 (normalize_space (group_text t m)))
      | None \<Rightarrow> extract_labeled_value wide t ls)"

definition role_like :: "(nat \<Rightarrow> bool) \<Rightarrow> str \<Rightarrow> bool" where
  "role_like wide cleaned \<longleftrightarrow> cleaned \<noteq> [] \<and> length cleaned \<le> 120
     \<and> \<not> list_ex (\<lambda>p. starts_with (lit p) (lower cleaned)) [''http://'', ''https://'', ''www.'']
     \<and> matches wide (words ''engineer|developer|architect|manager|director|designer|analyst|lead'') cleaned"

definition role_like_heading :: "(nat \<Rightarrow> bool) \<Rightarrow> str \<Rightarrow> str option" where
  "role_like_heading wide t = find (role_like wide) (map normalize_space (splitlines t))"

definition linked_value ::
  "artifact_chunk list \<Rightarrow> str \<Rightarrow> string \<Rightarrow> string \<Rightarrow> string \<Rightarrow> string \<Rightarrow> str \<Rightarrow> findings result"
where
  "linked_value ks needle label etype stype heading v =
     rbind (source_for_match ks needle (Some (lit label))) (\<lambda>link.
       Inr \<lparr> fi_entities = [entity etype v link], fi_signals = [signal stype heading v link []], fi_actions = [] \<rparr>)"

definition title_findings :: "(nat \<Rightarrow> bool) \<Rightarrow> artifact_chunk list \<Rightarrow> str \<Rightarrow> findings result" where
  "title_findings wide ks t =
     (let named = extract_labeled_value wide t [lit ''title'', lit ''role'']
      in case (if named = None then role_like_heading wide t else named) of
           None \<Rightarrow> Inr nothing
         | Some v \<Rightarrow> linked_value ks v ''role title'' ''role'' ''role_title'' ''Role title'' v)"

definition company_findings :: "(nat \<Rightarrow> bool) \<Rightarrow> artifact_chunk list \<Rightarrow> str \<Rightarrow> findings result" where
  "company_findings wide ks t =
     (case extract_labeled_value wide t [lit ''company'', lit ''organization''] of
        None \<Rightarrow> Inr nothing
      | Some v \<Rightarrow> linked_value ks v ''company'' ''organization'' ''company'' ''Company'' v)"

definition seniority_findings :: "(nat \<Rightarrow> bool) \<Rightarrow> artifact_chunk list \<Rightarrow> str \<Rightarrow> findings result" where
  "seniority_findings wide ks t =
     (case infer_seniority wide t of
        None \<Rightarrow> Inr nothing
      | Some v \<Rightarrow> rbind (source_for_match ks (hd (split_char 95 (lit v))) (Some (lit ''seniority''))) (\<lambda>link.
          Inr (only_signals [signal ''seniority'' ''Seniority'' (lit v) link []])))"

definition keyword_findings ::
  "(nat \<Rightarrow> bool) \<Rightarrow> artifact_chunk list \<Rightarrow> string \<Rightarrow> string \<Rightarrow> string \<Rightarrow> findings"
where
  "keyword_findings wide ks label stype heading =
     (let vs = keyword_values wide ks TECH_KEYWORDS label
      in \<lparr> fi_entities = map (\<lambda>v. entity ''technology'' (ev_value v) (ev_link v)) vs,
           fi_signals = signals_from_values stype heading vs, fi_actions = [] \<rparr>)"

definition scope_findings ::
  "extracted_value list \<Rightarrow> extracted_value list \<Rightarrow> extracted_value list \<Rightarrow> findings"
where
  "scope_findings responsibilities leadership unusual =
     (if unusual \<noteq> [] \<or> 6 \<le> length responsibilities
      then let source = ev_link (hd (if unusual \<noteq> [] then unusual else if leadership \<noteq> [] then leadership else responsibilities))
           in \<lparr> fi_entities = [],
                fi_signals = [signal ''inferred_risk'' ''Inferred risk'' (lit ''Role may have broad or ambiguous scope.'') source
                    [(lit ''reason'', JStr (lit ''scope_language''))]],
                fi_actions = [action ''clarify_scope'' ''Clarify scope and success expectations'' source
                    (Some (lit ''Ask what outcomes matter in the first 90 days and which responsibilities are highest priority.''))] \<rparr>
      else nothing)"

definition responsibility_patterns :: "regex list" where
  "responsibility_patterns =
     [words ''responsib|own|build|lead|design|deliver|operate|manage'',
      Cat TextStart (chars_re (lit ''- ''))]"

definition extract_job_description ::
  "(nat \<Rightarrow> bool) \<Rightarrow> (string \<Rightarrow> nat \<Rightarrow> str) \<Rightarrow> artifact \<Rightarrow> artifact_chunk list \<Rightarrow> job_result result"
where
  "extract_job_description wide uuid a ks =
     (if a_type_id a \<noteq> lit ''job_description'' then Inr no_result
      else
        rbind (lines_containing wide ks responsibility_patterns ''responsibility'') (\<lambda>responsibilities0.
        rbind (lines_containing wide ks
            [words ''mentor|leadership|cross-functional|stakeholder|influence|strategy''] ''leadership expectation'') (\<lambda>leadership.
        rbind (lines_containing wide ks
            [words ''0 to 1|zero to one|wear many hats|ambiguous|founding|greenfield'',
             words ''on-call|24/7|global|multiple teams|turnaround''] ''scope indicator'') (\<lambda>unusual.
        let responsibilities = take 8 responsibilities0
        in rbind (collect
             [title_findings wide ks (a_text a), company_findings wide ks (a_text a), seniority_findings wide ks (a_text a),
              Inr (only_signals (signals_from_values ''responsibility'' ''Responsibility'' responsibilities)),
              Inr (keyword_findings wide ks ''technology'' ''technology'' ''Technology''),
              Inr (only_signals (signals_from_values ''leadership_expectation'' ''Leadership expectation'' (take 5 leadership))),
              line_signals wide ks 5 ''compensation'' ''Compensation signal'' ''compensation''
                [money, words ''compensation|salary|equity|bonus|OTE|range''],
              line_signals wide ks 5 ''location_constraint'' ''Location constraint'' ''location constraint''
                [words ''remote|hybrid|onsite|on-site|relocation|timezone|location''],
              Inr (only_signals (signals_from_values ''unusual_scope_indicator'' ''Unusual scope indicator'' (take 5 unusual))),
              Inr (scope_findings responsibilities leadership unusual)])
             (\<lambda>f. Inr (result_of uuid a f))))))"

section \<open>Resumes\<close>

lemma search_from_start: "search_from wide r s from = Some (i, j, g) \<Longrightarrow> from \<le> i \<and> i \<le> length s"
  by (auto simp: search_from_def find_Some_iff nth_append split: if_splits)

text \<open>\<^verbatim>\<open>re.finditer\<close>: the search goes on behind each match.\<close>

function find_all :: "(nat \<Rightarrow> bool) \<Rightarrow> regex \<Rightarrow> str \<Rightarrow> nat \<Rightarrow> (nat \<times> nat \<times> (nat \<times> nat) option) list" where
  "find_all wide r s from =
     (case search_from wide r s from of
        None \<Rightarrow> []
      | Some (i, j, g) \<Rightarrow> (i, j, g) # find_all wide r s (if i < j then j else i + 1))"
  by pat_completeness auto

termination
  by (relation "measure (\<lambda>(wide, r, s, from). length s + 1 - from)") (auto dest!: search_from_start)

text \<open>\<^verbatim>\<open>(?m)^([A-Z][A-Za-z0-9&., ]{2,60})\s+[|\<close>, a long dash, \<^verbatim>\<open>-]\<close>\<close>

definition company_char :: "nat \<Rightarrow> bool" where
  "company_char c \<longleftrightarrow> (65 \<le> c \<and> c \<le> 90) \<or> is_term_char c \<or> c \<in> {38, 46, 44, 32}"

definition company_re :: regex where
  "company_re = Cat LineStart (Cat (Group (Cat (Cls (\<lambda>c. 65 \<le> c \<and> c \<le> 90)) (Many company_char 2 (Some 60))))
     (Cat (Many is_space 1 None) (Cls (\<lambda>c. c \<in> {124, 8212, 45}))))"

fun unless_seen :: "str list \<Rightarrow> str list \<Rightarrow> str list" where
  "unless_seen seen [] = []"
| "unless_seen seen (v # vs) =
     (if lower v \<in> set seen then unless_seen seen vs else v # unless_seen (lower v # seen) vs)"

definition companies_from_text :: "(nat \<Rightarrow> bool) \<Rightarrow> str \<Rightarrow> str list" where
  "companies_from_text wide t = unless_seen [] (map (\<lambda>m. normalize_space (group_text t m)) (find_all wide company_re t 0))"

definition company_from_role_line :: "str \<Rightarrow> str option" where
  "company_from_role_line line =
     (case find_text (lit '' at '') line of
        Some i \<Rightarrow> Some (take 120 (normalize_space (drop (i + 4) line)))
      | None \<Rightarrow>
          (case find_text (lit '' - '') line of
             Some i \<Rightarrow> Some (take 120 (normalize_space (take i line)))
           | None \<Rightarrow> None))"

definition role_line_findings :: "extracted_value list \<Rightarrow> findings" where
  "role_line_findings vs =
     \<lparr> fi_entities = concat (map (\<lambda>v. case company_from_role_line (ev_value v) of
           None \<Rightarrow> [] | Some c \<Rightarrow> [entity ''organization'' c (ev_link v)]) vs),
       fi_signals = signals_from_values ''role_experience'' ''Role experience'' vs, fi_actions = [] \<rparr>"

definition extract_resume ::
  "(nat \<Rightarrow> bool) \<Rightarrow> (string \<Rightarrow> nat \<Rightarrow> str) \<Rightarrow> artifact \<Rightarrow> artifact_chunk list \<Rightarrow> job_result result"
where
  "extract_resume wide uuid a ks =
     (if a_type_id a \<noteq> lit ''resume'' then Inr no_result
      else
        rbind (lines_containing wide ks [words ''engineer|developer|architect|manager|director|lead|founder''] ''resume role'')
          (\<lambda>role_lines.
        rbind (collect
             ([Inr (role_line_findings (take 10 role_lines)),
               Inr (keyword_findings wide ks ''technical skill'' ''technical_skill'' ''Technical skill''),
               line_signals wide ks 8 ''platform_experience'' ''Infrastructure/platform experience'' ''platform experience''
                 [words ''platform|infrastructure|kubernetes|terraform|cloud|oracle|postgres''],
               line_signals wide ks 8 ''ai_agent_experience'' ''AI/agent experience'' ''ai experience''
                 [words ''ai|agent|rag|llm|embedding|openai|anthropic|prompt''],
               line_signals wide ks 10 ''measurable_outcome'' ''Measurable outcome'' ''measurable outcome''
                 [Alt (Cat WordEdge (Cat (Many ascii_digit 1 None) (Cls (\<lambda>c. c = 37))))
                    (Alt money (words ''increased|reduced|saved|grew|launched|improved''))],
               line_signals wide ks 10 ''leadership_signal'' ''Leadership signal'' ''leadership signal''
                 [words ''led|mentored|managed|hired|strategy|stakeholder|cross-functional'']]
              @ map (\<lambda>c. linked_value ks c ''company'' ''organization'' ''company_experience'' ''Company'' c)
                  (take 8 (companies_from_text wide (a_text a)))))
          (\<lambda>f. Inr (result_of uuid a f))))"

section \<open>Interview notes and stories\<close>

definition extract_interview_notes ::
  "(nat \<Rightarrow> bool) \<Rightarrow> (string \<Rightarrow> nat \<Rightarrow> str) \<Rightarrow> artifact \<Rightarrow> artifact_chunk list \<Rightarrow> job_result result"
where
  "extract_interview_notes wide uuid a ks =
     (if a_type_id a \<noteq> lit ''interview_notes'' then Inr no_result
      else
        rbind (lines_containing wide ks [words ''concern|worried|gap|unclear|hesitat|pushback''] ''interviewer concern'') (\<lambda>concerns.
        rbind (lines_containing wide ks [words ''system design|architecture|scale|data|api|frontend|backend|cloud'']
            ''technical theme'') (\<lambda>themes.
        rbind (collect
             [Inr (only_signals (signals_from_values ''interviewer_concern'' ''Interviewer concern'' (take 8 concerns))),
              line_signals wide ks 8 ''open_question'' ''Open question'' ''open question''
                [any_of ''?|open question|need to know|clarify''],
              Inr (only_signals (signals_from_values ''technical_theme'' ''Technical theme'' (take 8 themes))),
              line_signals wide ks 8 ''interview_risk'' ''Interview risk'' ''interview risk''
                [words ''risk|blocker|weak|missing|not enough|scope|title''],
              line_signals wide ks 8 ''next_action_signal'' ''Next action'' ''next action''
                [words ''next|follow up|send|prepare|study|draft|schedule''],
              Inr (nothing\<lparr> fi_actions :=
                map (\<lambda>v. action ''clarify_interviewer_concern'' ''Clarify interviewer concern'' (ev_link v) (Some (ev_value v)))
                  (take 3 concerns)
                @ map (\<lambda>v. action ''prepare_technical_study_plan'' ''Prepare technical study plan'' (ev_link v) (Some (ev_value v)))
                    (take 3 themes) \<rparr>)])
          (\<lambda>f. Inr (result_of uuid a f)))))"

definition extract_personal_story ::
  "(nat \<Rightarrow> bool) \<Rightarrow> (string \<Rightarrow> nat \<Rightarrow> str) \<Rightarrow> artifact \<Rightarrow> artifact_chunk list \<Rightarrow> job_result result"
where
  "extract_personal_story wide uuid a ks =
     (if a_type_id a \<noteq> lit ''personal_story'' then Inr no_result
      else
        rbind (collect
             [line_signals wide ks 5 ''story_situation'' ''Situation'' ''story situation''
                [words ''situation|context|challenge|problem|when|at the time''],
              line_signals wide ks 5 ''story_action'' ''Action'' ''story action''
                [words ''i led|i built|i designed|i created|action|approach|we built''],
              line_signals wide ks 5 ''story_result'' ''Result'' ''story result''
                [words ''result|outcome|impact|improved|reduced|increased|launched|saved''],
              line_signals wide ks 5 ''relevant_competency'' ''Relevant competency'' ''competency''
                [words ''ownership|collaboration|communication|judgment|execution''],
              line_signals wide ks 5 ''leadership_theme'' ''Leadership theme'' ''leadership theme''
                [words ''led|mentored|aligned|stakeholder|strategy|influence''],
              line_signals wide ks 5 ''technical_theme'' ''Technical theme'' ''technical theme''
                [words ''api|system|platform|data|cloud|kubernetes|python|typescript|ai'']])
          (\<lambda>f. Inr (result_of uuid a f)))"

section \<open>Other notes\<close>

definition question :: regex where
  "question = Cls (\<lambda>c. c = 63)"

definition note_findings :: "(nat \<Rightarrow> bool) \<Rightarrow> str \<Rightarrow> artifact_chunk list \<Rightarrow> findings result list" where
  "note_findings wide type_id ks =
     (if type_id = lit ''recruiter_message'' then
        [line_signals wide ks 6 ''open_question'' ''Recruiter question'' ''recruiter question''
           [question, words ''available|interest|timeline|process''],
         line_signals wide ks 6 ''compensation'' ''Compensation mention'' ''compensation''
           [money, words ''comp|salary|range|equity|bonus|ote''],
         line_signals wide ks 6 ''location_constraint'' ''Location/process constraint'' ''location/process''
           [words ''remote|hybrid|onsite|relocat|timezone|process|round'']]
      else if type_id = lit ''company_research'' then
        [line_signals wide ks 8 ''company_signal'' ''Company signal'' ''company signal''
           [words ''market|customer|product|funding|revenue|team|strategy''],
         line_signals wide ks 6 ''inferred_risk'' ''Company concern'' ''company concern''
           [words ''risk|concern|layoff|runway|competition|unclear|weak'']]
      else if type_id = lit ''compensation_notes'' then
        [line_signals wide ks 8 ''compensation'' ''Compensation signal'' ''compensation''
           [money, words ''base|bonus|equity|salary|range|ote''],
         line_signals wide ks 6 ''open_question'' ''Compensation question'' ''compensation question''
           [question, words ''clarify|decide|minimum|target|tradeoff'']]
      else if type_id = lit ''follow_up_notes'' then
        [line_signals wide ks 8 ''next_action_signal'' ''Follow-up signal'' ''follow-up''
           [words ''send|follow up|reply|thank|schedule|prepare|next''],
         line_signals wide ks 6 ''open_question'' ''Follow-up question'' ''question''
           [question, words ''ask|clarify'']]
      else [])"

definition NOTE_TYPES :: "str list" where
  "NOTE_TYPES = [lit ''recruiter_message'', lit ''company_research'', lit ''compensation_notes'', lit ''follow_up_notes'']"

text \<open>Without any signal the start of the source is one.\<close>

definition extract_career_notes ::
  "(nat \<Rightarrow> bool) \<Rightarrow> (string \<Rightarrow> nat \<Rightarrow> str) \<Rightarrow> artifact \<Rightarrow> artifact_chunk list \<Rightarrow> job_result result"
where
  "extract_career_notes wide uuid a ks =
     (if a_type_id a \<notin> set NOTE_TYPES then Inr no_result
      else
        rbind (collect (note_findings wide (a_type_id a) ks)) (\<lambda>f.
        rbind (if fi_signals f = [] \<and> ks \<noteq> []
               then let first = take 160 (ck_text (hd ks))
                    in rbind (source_for_match ks (take 40 first) (Some (a_type_id a))) (\<lambda>link.
                         Inr (only_signals [signal ''source_summary'' ''Source summary'' first link []]))
               else Inr f) (\<lambda>g.
          Inr (result_of uuid a g))))"

section \<open>Extraction succeeds and stays with its artifact\<close>

text \<open>A result that is a value with a property.\<close>

definition yields :: "('a \<Rightarrow> bool) \<Rightarrow> 'a result \<Rightarrow> bool" where
  "yields P r \<longleftrightarrow> (\<exists>x. r = Inr x \<and> P x)"

lemma yields_Inr: "P x \<Longrightarrow> yields P (Inr x)"
  by (simp add: yields_def)

lemma yields_rbind: "yields P r \<Longrightarrow> (\<And>x. P x \<Longrightarrow> yields Q (f x)) \<Longrightarrow> yields Q (rbind r f)"
  by (auto simp: yields_def)

lemma yieldsE: "yields P r \<Longrightarrow> (\<And>x. r = Inr x \<Longrightarrow> P x \<Longrightarrow> thesis) \<Longrightarrow> thesis"
  by (auto simp: yields_def)

definition link_to :: "str \<Rightarrow> source_link \<Rightarrow> bool" where
  "link_to i l \<longleftrightarrow> sl_artifact_id l = i"

definition links_to :: "str \<Rightarrow> source_link list \<Rightarrow> bool" where
  "links_to i ls \<longleftrightarrow> ls \<noteq> [] \<and> list_all (link_to i) ls"

lemma links_to_one [simp]: "links_to i [l] = link_to i l"
  by (simp add: links_to_def)

definition chunks_from :: "str \<Rightarrow> artifact_chunk list \<Rightarrow> bool" where
  "chunks_from i ks \<longleftrightarrow> ks \<noteq> [] \<and> list_all (\<lambda>k. ck_artifact_id k = i \<and> link_to i (ck_source_link k)) ks"

definition value_to :: "str \<Rightarrow> extracted_value \<Rightarrow> bool" where
  "value_to i v \<longleftrightarrow> link_to i (ev_link v)"

definition findings_to :: "str \<Rightarrow> findings \<Rightarrow> bool" where
  "findings_to i f \<longleftrightarrow> list_all (\<lambda>e. \<forall>u. links_to i (en_links (e u))) (fi_entities f)
     \<and> list_all (\<lambda>s. \<forall>u. links_to i (sg_links (s u))) (fi_signals f)
     \<and> list_all (\<lambda>x. \<forall>u. links_to i (ai_links (x u))) (fi_actions f)"

definition outputs_to :: "str \<Rightarrow> extraction_result \<Rightarrow> bool" where
  "outputs_to i r \<longleftrightarrow> list_all (\<lambda>e. links_to i (en_links e)) (er_entities r)
     \<and> list_all (\<lambda>x. links_to i (rl_links x)) (er_relationships r)
     \<and> list_all (\<lambda>s. links_to i (sg_links s)) (er_signals r) \<and> list_all (\<lambda>x. links_to i (ai_links x)) (er_items r)"

lemma link_in_to:
  "list_all (\<lambda>k. ck_artifact_id k = i \<and> link_to i (ck_source_link k)) ks \<Longrightarrow> link_in needle label ks = Some l \<Longrightarrow> link_to i l"
  by (induction ks) (auto simp: link_to_def split: option.splits)

lemma source_to:
  assumes "chunks_from i ks"
  shows "yields (link_to i) (source_for_match ks m label)"
proof (cases "link_in (strip m) label ks")
  case None
  then show ?thesis using assms
    by (cases ks) (auto simp: source_for_match_def first_source_link_def chunks_from_def Let_def yields_def link_to_def)
next
  case (Some l)
  then have "link_to i l" using assms by (intro link_in_to) (auto simp: chunks_from_def)
  then show ?thesis using Some by (simp add: source_for_match_def Let_def yields_Inr)
qed

lemma matching_lines_to: "chunks_from i ks \<Longrightarrow> yields (list_all (value_to i)) (matching_lines wide ks ps label seen ls)"
proof (induction ls arbitrary: seen)
  case (Cons l ls)
  let ?c = "normalize_space l"
  have rest: "yields (list_all (value_to i)) (matching_lines wide ks ps label sn ls)" for sn using Cons by blast
  have "yields (list_all (value_to i)) (rbind (source_for_match ks ?c (Some label)) (\<lambda>link.
      rbind (matching_lines wide ks ps label (lower ?c # seen) ls) (\<lambda>vs. Inr (\<lparr> ev_value = ?c, ev_link = link \<rparr> # vs))))"
    by (intro yields_rbind [OF source_to [OF Cons.prems]] yields_rbind [OF rest] yields_Inr) (simp add: value_to_def)
  then show ?case using rest by (simp add: Let_def)
qed (simp add: yields_Inr)

lemma lines_to: "chunks_from i ks \<Longrightarrow> yields (list_all (value_to i)) (lines_containing wide ks ps label)"
  by (simp add: lines_containing_def matching_lines_to)

lemma list_all_take: "list_all P xs \<Longrightarrow> list_all P (take n xs)"
  by (auto simp: list_all_iff dest: in_set_takeD)

lemma keyword_link_to:
  "list_all (\<lambda>k. ck_artifact_id k = i \<and> link_to i (ck_source_link k)) ks \<Longrightarrow> keyword_link wide w label ks = Some l \<Longrightarrow> link_to i l"
  by (induction ks) (auto simp: link_to_def split: option.splits)

lemma keyword_values_to: "chunks_from i ks \<Longrightarrow> list_all (value_to i) (keyword_values_from wide ks label seen ws)"
  by (induction ws arbitrary: seen) (auto simp: chunks_from_def value_to_def keyword_link_to split: option.splits)

named_theorems findings_to_intros

lemma nothing_to [findings_to_intros]: "findings_to i nothing"
  by (simp add: findings_to_def nothing_def)

lemma signals_to [findings_to_intros]:
  "list_all (value_to i) vs \<Longrightarrow> findings_to i (only_signals (signals_from_values stype label vs))"
  by (auto simp: findings_to_def only_signals_def nothing_def signals_from_values_def list_all_iff signal_def value_to_def)

lemma one_signal_to [findings_to_intros]: "link_to i l \<Longrightarrow> findings_to i (only_signals [signal stype label v l extra])"
  by (simp add: findings_to_def only_signals_def nothing_def signal_def)

lemma keyword_findings_to [findings_to_intros]: "chunks_from i ks \<Longrightarrow> findings_to i (keyword_findings wide ks label stype heading)"
  using keyword_values_to [of i ks wide label "[]" TECH_KEYWORDS]
  by (auto simp: findings_to_def keyword_findings_def Let_def keyword_values_def signals_from_values_def list_all_iff entity_def
      signal_def value_to_def)

lemma scope_findings_to [findings_to_intros]:
  assumes "list_all (value_to i) rs" and "list_all (value_to i) ls" and "list_all (value_to i) us"
  shows "findings_to i (scope_findings rs ls us)"
proof -
  have h: "vs \<noteq> [] \<Longrightarrow> list_all (value_to i) vs \<Longrightarrow> link_to i (ev_link (hd vs))" for vs
    by (cases vs) (auto simp: value_to_def)
  have r: "6 \<le> length rs \<Longrightarrow> rs \<noteq> []" by auto
  show ?thesis using h [OF _ assms(1)] h [OF _ assms(2)] h [OF _ assms(3)] r
    by (auto simp: scope_findings_def Let_def findings_to_def nothing_def signal_def action_def)
qed

lemma linked_value_to: "chunks_from i ks \<Longrightarrow> yields (findings_to i) (linked_value ks m label e t h v)"
  unfolding linked_value_def
  by (rule yields_rbind [OF source_to], assumption) (simp add: yields_Inr findings_to_def entity_def signal_def)

lemma line_signals_to: "chunks_from i ks \<Longrightarrow> yields (findings_to i) (line_signals wide ks n t h label ps)"
  unfolding line_signals_def
  by (rule yields_rbind [OF lines_to], assumption) (intro yields_Inr findings_to_intros list_all_take)

lemma collect_to: "list_all (yields (findings_to i)) rs \<Longrightarrow> yields (findings_to i) (collect rs)"
proof (induction rs)
  case (Cons r rs)
  then have "yields (findings_to i) r" "yields (findings_to i) (collect rs)" by simp_all
  then show ?case by (auto simp: findings_to_def elim!: yieldsE intro!: yields_Inr)
qed (simp add: yields_Inr nothing_to)

declare collect.simps [simp del]

lemma job_description_parts_to:
  assumes "chunks_from i ks"
  shows "yields (findings_to i) (title_findings wide ks t)" "yields (findings_to i) (company_findings wide ks t)"
    "yields (findings_to i) (seniority_findings wide ks t)"
  using linked_value_to [OF assms] assms
  by (auto simp: title_findings_def company_findings_def seniority_findings_def Let_def
      intro!: yields_Inr findings_to_intros yields_rbind [OF source_to] split: option.splits)

lemma in_numbered_with: "x \<in> set (numbered_with uuid fs) \<Longrightarrow> \<exists>f \<in> set fs. \<exists>u. x = f u"
  by (auto simp: numbered_with_def dest: set_zip_rightD)

lemma result_to: "findings_to i f \<Longrightarrow> outputs_to i (jr_outputs (result_of uuid a f))"
  by (auto simp: outputs_to_def result_of_def findings_to_def list_all_iff dest!: in_numbered_with)

lemma no_result_to: "outputs_to i (jr_outputs no_result)"
  by (simp add: no_result_def outputs_to_def)

definition extracts_to :: "str \<Rightarrow> job_result result \<Rightarrow> bool" where
  "extracts_to i r \<longleftrightarrow> yields (\<lambda>x. outputs_to i (jr_outputs x)) r"

lemma extracts_no_result: "extracts_to i (Inr no_result)"
  by (simp add: extracts_to_def yields_Inr no_result_to)

lemma extracts_collected:
  "list_all (yields (findings_to i)) rs \<Longrightarrow> extracts_to i (rbind (collect rs) (\<lambda>f. Inr (result_of uuid a f)))"
  unfolding extracts_to_def by (rule yields_rbind [OF collect_to]) (auto intro: yields_Inr result_to)

lemma extracts_rbind: "yields P r \<Longrightarrow> (\<And>x. P x \<Longrightarrow> extracts_to i (f x)) \<Longrightarrow> extracts_to i (rbind r f)"
  unfolding extracts_to_def by (rule yields_rbind)

lemmas part_intros = yields_Inr findings_to_intros list_all_take line_signals_to linked_value_to job_description_parts_to

lemma job_description_to: "chunks_from i ks \<Longrightarrow> extracts_to i (extract_job_description wide uuid a ks)"
  unfolding extract_job_description_def
  by (auto simp: Let_def extracts_no_result
      intro!: extracts_rbind [OF lines_to] extracts_collected part_intros)

lemma role_lines_to: "list_all (value_to i) vs \<Longrightarrow> findings_to i (role_line_findings vs)"
  by (auto simp: role_line_findings_def findings_to_def list_all_iff signals_from_values_def signal_def entity_def value_to_def
      split: option.splits)

lemma resume_to: "chunks_from i ks \<Longrightarrow> extracts_to i (extract_resume wide uuid a ks)"
  unfolding extract_resume_def
  by (auto simp: extracts_no_result list_all_iff
      intro!: extracts_rbind [OF lines_to] extracts_collected part_intros role_lines_to)

lemma note_actions_to:
  assumes "list_all (value_to i) cs" and "list_all (value_to i) ts"
  shows "findings_to i (nothing\<lparr> fi_actions := map (\<lambda>v. action t1 h1 (ev_link v) (Some (ev_value v))) cs
    @ map (\<lambda>v. action t2 h2 (ev_link v) (Some (ev_value v))) ts \<rparr>)"
  using assms by (auto simp: findings_to_def nothing_def list_all_iff action_def value_to_def)

lemma interview_notes_to: "chunks_from i ks \<Longrightarrow> extracts_to i (extract_interview_notes wide uuid a ks)"
  unfolding extract_interview_notes_def
  by (auto simp: extracts_no_result
      intro!: extracts_rbind [OF lines_to] extracts_collected part_intros note_actions_to)

lemma personal_story_to: "chunks_from i ks \<Longrightarrow> extracts_to i (extract_personal_story wide uuid a ks)"
  unfolding extract_personal_story_def by (auto simp: extracts_no_result intro!: extracts_collected part_intros)

lemma note_findings_to: "chunks_from i ks \<Longrightarrow> list_all (yields (findings_to i)) (note_findings wide t ks)"
  by (simp add: note_findings_def line_signals_to)

lemma career_notes_to:
  assumes ks: "chunks_from i ks"
  shows "extracts_to i (extract_career_notes wide uuid a ks)"
proof -
  let ?first = "take 160 (ck_text (hd ks))"
  have summary: "yields (findings_to i) (rbind (source_for_match ks (take 40 ?first) (Some (a_type_id a))) (\<lambda>link.
      Inr (only_signals [signal ''source_summary'' ''Source summary'' ?first link []])))"
    by (intro yields_rbind [OF source_to [OF ks]] yields_Inr findings_to_intros)
  have "extracts_to i (rbind (if fi_signals f = [] \<and> ks \<noteq> []
      then let first = ?first in rbind (source_for_match ks (take 40 first) (Some (a_type_id a))) (\<lambda>link.
             Inr (only_signals [signal ''source_summary'' ''Source summary'' first link []]))
      else Inr f) (\<lambda>g. Inr (result_of uuid a g)))" if "findings_to i f" for f
  proof (rule extracts_rbind [of "findings_to i"])
    show "yields (findings_to i) (if fi_signals f = [] \<and> ks \<noteq> []
      then let first = ?first in rbind (source_for_match ks (take 40 first) (Some (a_type_id a))) (\<lambda>link.
             Inr (only_signals [signal ''source_summary'' ''Source summary'' first link []]))
      else Inr f)"
      using summary that by (simp add: Let_def yields_Inr)
  qed (simp add: extracts_to_def yields_Inr result_to)
  then have "extracts_to i (rbind (collect (note_findings wide (a_type_id a) ks)) (\<lambda>f.
      rbind (if fi_signals f = [] \<and> ks \<noteq> []
      then let first = ?first in rbind (source_for_match ks (take 40 first) (Some (a_type_id a))) (\<lambda>link.
             Inr (only_signals [signal ''source_summary'' ''Source summary'' first link []]))
      else Inr f) (\<lambda>g. Inr (result_of uuid a g))))"
    by (rule extracts_rbind [OF collect_to [OF note_findings_to [OF ks]]])
  then show ?thesis by (simp add: extract_career_notes_def extracts_no_result)
qed

section \<open>Where a value was found\<close>

lemma lower_cp_one: "c \<noteq> 304 \<Longrightarrow> length (lower_cp c) = 1"
  by (auto simp: lower_cp_def split: option.splits)

lemma length_lower: "304 \<notin> set s \<Longrightarrow> length (lower s) = length s"
  by (induction s) (auto simp: lower_def lower_cp_one)

lemma lower_slice:
  assumes "304 \<notin> set s"
  shows "lower (take n (drop i s)) = take n (drop i (lower s))"
proof -
  have "lower s = lower (take i s) @ lower (take n (drop i s)) @ lower (drop n (drop i s))"
    by (metis append_take_drop_id lower_append)
  moreover have "length (lower (take i s)) = min i (length s)" "length (lower (take n (drop i s))) = min n (length s - i)"
    using assms length_lower by (metis in_set_takeD in_set_dropD length_take length_drop min.commute)+
  ultimately show ?thesis by (auto simp: min_def)
qed

lemma find_text_Some: "find_text p s = Some i \<Longrightarrow> take (length p) (drop i s) = p"
  by (induction p s arbitrary: i rule: find_text.induct) (auto simp: starts_with_def split: if_splits)

end
