(* ===== verification/Context_Flows.thy ===== *)
theory Context_Flows
  imports Context_Registry Workflow_Config
begin

text \<open>
  The model flows of the context engine (\<^verbatim>\<open>app/core/context_engine/llm.py\<close>): which model a step of a
  domain uses, where its prompt is read, and the run of one structured request. The answer of
  the model is a parameter, as are the file system below the prompt root and the YAML reader. A
  path has no symbolic links, so \<^verbatim>\<open>resolve()\<close> only removes dots.
\<close>

section \<open>Configuration\<close>

datatype execution_mode = DETERMINISTIC | LLM | HYBRID

fun mode_value :: "execution_mode \<Rightarrow> str" where
  "mode_value DETERMINISTIC = lit ''deterministic''"
| "mode_value LLM = lit ''llm''"
| "mode_value HYBRID = lit ''hybrid''"

definition execution_mode_of :: "str \<Rightarrow> execution_mode result" where
  "execution_mode_of s =
     (case find (\<lambda>m. mode_value m = s) [DETERMINISTIC, LLM, HYBRID] of
        None \<Rightarrow> Inl (ValueError (s @ lit '' is not a valid ContextExecutionMode''))
      | Some m \<Rightarrow> Inr m)"

record model_profile =
  mp_provider :: workflow_provider
  mp_model :: str
  mp_temperature :: "rat option"
  mp_max_tokens :: "int option"
  mp_timeout :: "rat option"
  mp_structured_output :: bool

definition profile_ok :: "model_profile \<Rightarrow> bool" where
  "profile_ok p \<longleftrightarrow> mp_model p \<noteq> []
     \<and> (case mp_temperature p of None \<Rightarrow> True | Some t \<Rightarrow> 0 \<le> t \<and> t \<le> 2)
     \<and> (case mp_max_tokens p of None \<Rightarrow> True | Some n \<Rightarrow> 0 < n)
     \<and> (case mp_timeout p of None \<Rightarrow> True | Some t \<Rightarrow> 0 < t)"

record model_step =
  ms_id :: str
  ms_purpose :: str
  ms_model_profile :: "str option"
  ms_prompt_template :: str
  ms_prompt_version :: str

definition model_step_ok :: "model_step \<Rightarrow> bool" where
  "model_step_ok s \<longleftrightarrow> ms_id s \<noteq> [] \<and> ms_purpose s \<noteq> [] \<and> ms_prompt_template s \<noteq> [] \<and> ms_prompt_version s \<noteq> []"

record flow_config =
  fc_domain_id :: str
  fc_flow_id :: str
  fc_mode :: "execution_mode option"
  fc_model_profile :: "str option"
  fc_steps :: "model_step list"

definition flow_ok :: "flow_config \<Rightarrow> bool" where
  "flow_ok f \<longleftrightarrow> fc_domain_id f \<noteq> [] \<and> fc_flow_id f \<noteq> [] \<and> list_all model_step_ok (fc_steps f)"

record flow_catalog =
  ca_default_mode :: execution_mode
  ca_default_model_profile :: "str option"
  ca_model_profiles :: "(str \<times> model_profile) list"
  ca_flows :: "flow_config list"

definition catalog_ok :: "flow_catalog \<Rightarrow> bool" where
  "catalog_ok c \<longleftrightarrow> list_all (\<lambda>(k, p). profile_ok p) (ca_model_profiles c) \<and> list_all flow_ok (ca_flows c)"

text \<open>
  \<open>read\<close> gives the decoded YAML of a file, None for an empty one; \<open>decode\<close> are the fields pydantic
  makes of it. Only a missing file and an invalid catalog become a \<^verbatim>\<open>ValueError\<close>.
\<close>

definition load_context_model_flow_catalog ::
  "(str \<Rightarrow> 'p option result) \<Rightarrow> ('p \<Rightarrow> flow_catalog result) \<Rightarrow> str \<Rightarrow> flow_catalog result"
where
  "load_context_model_flow_catalog read decode path =
     (let invalid = (\<lambda>why. ValueError (lit ''Invalid Context Engine model configuration in '' @ [39] @ path @ [39] @ lit '': '' @ why))
      in case read path of
           Inl (OSError e) \<Rightarrow> Inl (ValueError (lit ''Missing Context Engine model configuration: '' @ path))
         | Inl e \<Rightarrow> Inl e
         | Inr None \<Rightarrow> Inl (ValueError (lit ''Context Engine model configuration '' @ [39] @ path @ [39] @ lit '' is empty.''))
         | Inr (Some payload) \<Rightarrow>
             (case decode payload of
                Inl e \<Rightarrow> Inl (invalid (error_text e))
              | Inr c \<Rightarrow> if catalog_ok c then Inr c else Inl (invalid (lit ''validation error''))))"

section \<open>Steps\<close>

record resolved_step =
  rs_domain_id :: str
  rs_flow_id :: str
  rs_step_id :: str
  rs_purpose :: str
  rs_mode :: execution_mode
  rs_model_profile_id :: str
  rs_model_profile :: model_profile
  rs_prompt_template :: str
  rs_prompt_version :: str

definition quoted :: "str \<Rightarrow> str" where
  "quoted s = [39] @ s @ [39]"

definition step_profile :: "flow_catalog \<Rightarrow> flow_config \<Rightarrow> model_step \<Rightarrow> str option" where
  "step_profile c flow step =
     (if truthy (ms_model_profile step) then ms_model_profile step
      else if truthy (fc_model_profile flow) then fc_model_profile flow
      else ca_default_model_profile c)"

definition resolve_step ::
  "flow_catalog \<Rightarrow> str \<Rightarrow> str \<Rightarrow> str \<Rightarrow> str option \<Rightarrow> execution_mode option \<Rightarrow> resolved_step result"
where
  "resolve_step c domain_id flow_id step_id purpose mode_override =
     (let path = domain_id @ [47] @ flow_id @ [47] @ step_id
      in case find (\<lambda>f. fc_domain_id f = domain_id \<and> fc_flow_id f = flow_id) (ca_flows c) of
           None \<Rightarrow> Inl (ValueError (lit ''No Context Engine model flow configured for '' @ domain_id @ [47] @ flow_id @ lit ''.''))
         | Some flow \<Rightarrow>
             (case find (\<lambda>s. ms_id s = step_id) (fc_steps flow) of
                None \<Rightarrow> Inl (ValueError (lit ''No Context Engine model step configured for '' @ path @ lit ''.''))
              | Some step \<Rightarrow>
                  if purpose \<noteq> None \<and> purpose \<noteq> Some (ms_purpose step)
                  then Inl (ValueError (lit ''Context Engine step '' @ path @ lit '' has purpose '' @ quoted (ms_purpose step)
                         @ lit '', expected '' @ quoted (the purpose) @ lit ''.''))
                  else (case step_profile c flow step of
                          None \<Rightarrow> Inl (ValueError (lit ''Context Engine step '' @ path @ lit '' has no model profile.''))
                        | Some profile_id \<Rightarrow>
                            (case map_of (ca_model_profiles c) profile_id of
                               None \<Rightarrow> Inl (ValueError (lit ''Context Engine model profile '' @ quoted profile_id @ lit '' is not configured.''))
                             | Some profile \<Rightarrow>
                                 Inr \<lparr> rs_domain_id = domain_id, rs_flow_id = flow_id, rs_step_id = step_id,
                                   rs_purpose = ms_purpose step,
                                   rs_mode = (case mode_override of
                                       Some m \<Rightarrow> m
                                     | None \<Rightarrow> (case fc_mode flow of Some m \<Rightarrow> m | None \<Rightarrow> ca_default_mode c)),
                                   rs_model_profile_id = profile_id, rs_model_profile = profile,
                                   rs_prompt_template = ms_prompt_template step,
                                   rs_prompt_version = ms_prompt_version step \<rparr>))))"

definition metadata_for_generated_step :: "str \<Rightarrow> resolved_step \<Rightarrow> json_dict" where
  "metadata_for_generated_step now step =
     [(lit ''generated_by'', JStr (lit ''llm'')), (lit ''model_profile'', JStr (rs_model_profile_id step)),
      (lit ''prompt_template'', JStr (rs_prompt_template step)), (lit ''prompt_version'', JStr (rs_prompt_version step)),
      (lit ''generated_at'', JStr now)]"

section \<open>Prompts\<close>

text \<open>A path is the list of its parts from the root; \<open>..\<close> at the root stays there.\<close>

definition path_parts :: "str \<Rightarrow> str list" where
  "path_parts s = filter (\<lambda>p. p \<noteq> [] \<and> p \<noteq> [46]) (split_char 47 s)"

definition resolved_path :: "str list \<Rightarrow> str list" where
  "resolved_path ps = foldl (\<lambda>acc p. if p = [46, 46] then butlast acc else acc @ [p]) [] ps"

definition joined_path :: "str list \<Rightarrow> str \<Rightarrow> str list" where
  "joined_path base template = (if starts_with [47] template then [] else base) @ path_parts template"

fun prefix_of :: "str list \<Rightarrow> str list \<Rightarrow> bool" where
  "prefix_of [] ys = True"
| "prefix_of (x # xs) [] = False"
| "prefix_of (x # xs) (y # ys) = (x = y \<and> prefix_of xs ys)"

definition load_prompt :: "(str list \<Rightarrow> str result) \<Rightarrow> str list \<Rightarrow> resolved_step \<Rightarrow> str result" where
  "load_prompt read root0 step =
     (let path = resolved_path (joined_path root0 (rs_prompt_template step)); base = resolved_path root0
      in if \<not> prefix_of base path
         then Inl (ValueError (lit ''Context Engine prompt template path escapes prompt root.''))
         else read path)"

section \<open>One request\<close>

definition outside_loop :: "bool \<Rightarrow> 'o result \<Rightarrow> 'o result" where
  "outside_loop in_loop answer =
     (if in_loop then Inl (RuntimeError (lit ''Context Engine synchronous LLM execution cannot run inside an event loop.''))
      else answer)"

text \<open>\<open>in_loop\<close> tells whether the caller runs inside an event loop, as an \<^verbatim>\<open>async\<close> route does.\<close>

definition run_structured ::
  "provider_settings \<Rightarrow> bool \<Rightarrow> (chat_model \<Rightarrow> model_settings option \<Rightarrow> str \<Rightarrow> str \<Rightarrow> 'o result)
     \<Rightarrow> resolved_step \<Rightarrow> str \<Rightarrow> str \<Rightarrow> 'o result"
where
  "run_structured settings in_loop ask step instructions prompt =
     (let profile = rs_model_profile step
      in if \<not> mp_structured_output profile
         then Inl (ValueError (lit ''Context Engine step '' @ rs_domain_id step @ [47] @ rs_flow_id step @ [47] @ rs_step_id step
                @ lit '' requires structured_output=true.''))
         else if \<not> provider_is_implemented (mp_provider profile)
         then Inl (ValueError (lit ''Provider '' @ quoted (provider_value (mp_provider profile))
                @ lit '' is not implemented for Context Engine.''))
         else rbind (create_model (mp_provider profile) (mp_model profile) settings) (\<lambda>model.
                outside_loop in_loop (ask model (create_provider_model_settings (mp_provider profile) (mp_timeout profile)
                  (mp_temperature profile) (mp_max_tokens profile)) instructions prompt)))"

section \<open>Prompts stay below their root\<close>

lemma prefix_of_iff: "prefix_of xs ys \<longleftrightarrow> (\<exists>zs. ys = xs @ zs)"
proof (induction xs ys rule: prefix_of.induct)
  case (3 x xs y ys)
  then show ?case by auto
qed auto

lemma load_prompt_reads:
  assumes "load_prompt read base step = Inr prompt"
  obtains rest where "read (resolved_path base @ rest) = Inr prompt"
  using assms by (auto simp: load_prompt_def Let_def prefix_of_iff split: if_splits)

lemma run_structured_in_loop: "\<exists>e. run_structured settings True ask step i p = Inl e"
  by (cases "create_model (mp_provider (rs_model_profile step)) (mp_model (rs_model_profile step)) settings")
     (auto simp: run_structured_def outside_loop_def Let_def)

lemma resolve_step_mode:
  "resolve_step c d f s p (Some m) = Inr st \<Longrightarrow> rs_mode st = m"
  by (auto simp: resolve_step_def Let_def split: option.splits if_splits)

end
