(* ===== verification/Job_Views.thy ===== *)
theory Job_Views
  imports Job_Extract Context_Registry Follow_Up "HOL-Library.List_Lexorder"
begin

text \<open>
  The perspectives and the tasks of the job search domain
  (\<^verbatim>\<open>app/domains/job_search/perspectives/builders.py\<close>, \<^verbatim>\<open>task_generators/generators.py\<close>): sections of
  a view from the signals and items of an owner, and the next actions one artifact calls for.
  \<open>uuid\<close> supplies the hex of the ids: for a view one, for a task one by its position.
\<close>

section \<open>Sections\<close>

definition signals_of :: "build_context \<Rightarrow> str list \<Rightarrow> context_signal list" where
  "signals_of ctx types = filter (\<lambda>s. sg_type s \<in> set types) (bc_signals ctx)"

definition bullet_lines :: "str list \<Rightarrow> str" where
  "bullet_lines ls = join [10] (map (\<lambda>l. lit ''- '' @ l) ls)"

definition signals_content :: "runtime \<Rightarrow> context_signal list \<Rightarrow> str \<Rightarrow> str" where
  "signals_content rt ss fallback =
     (if ss = [] then fallback
      else bullet_lines (map (\<lambda>s. if json_truthy (sg_value s) then py_str rt (sg_value s) else sg_label s) (take 8 ss)))"

definition has_reason :: "json_dict \<Rightarrow> bool" where
  "has_reason d = (case map_of d (lit ''reason'') of None \<Rightarrow> False | Some v \<Rightarrow> v \<noteq> JNull)"

definition evidence_kind :: "context_signal \<Rightarrow> str" where
  "evidence_kind s =
     (if starts_with (lit ''inferred'') (sg_type s) \<or> has_reason (sg_metadata s) then lit ''inferred'' else lit ''explicit'')"

definition signals_evidence :: "context_signal list \<Rightarrow> evidence_link list" where
  "signals_evidence ss = concat (map (\<lambda>s. map (\<lambda>l. \<lparr> el_source = l, el_confidence = None,
       el_note = Some (sg_label s @ lit '' ('' @ evidence_kind s @ lit '')'') \<rparr>) (take 1 (sg_links s))) (take 8 ss))"

definition sorted_strings :: "str list \<Rightarrow> json" where
  "sorted_strings ss = JArr (map JStr (sort (remdups ss)))"

definition signals_section :: "runtime \<Rightarrow> str \<Rightarrow> str \<Rightarrow> context_signal list \<Rightarrow> str \<Rightarrow> view_section" where
  "signals_section rt sid heading ss fallback =
     \<lparr> vs_id = sid, vs_title = heading, vs_content = Some (signals_content rt ss fallback), vs_evidence = signals_evidence ss,
       vs_metadata = [(lit ''signal_types'', sorted_strings (map sg_type ss)),
                      (lit ''evidence_kinds'', sorted_strings (map evidence_kind ss))] \<rparr>"

definition task_section :: "build_context \<Rightarrow> str \<Rightarrow> str \<Rightarrow> str list \<Rightarrow> str \<Rightarrow> view_section" where
  "task_section ctx sid heading item_types fallback =
     (let items = filter (\<lambda>i. ai_type i \<in> set item_types) (bc_items ctx)
      in \<lparr> vs_id = sid, vs_title = heading,
           vs_content = Some (if items = [] then fallback else bullet_lines (map ai_title (take 8 items))),
           vs_evidence = concat (map (\<lambda>i. map (\<lambda>l. \<lparr> el_source = l, el_confidence = None, el_note = Some (ai_title i) \<rparr>)
               (take 1 (ai_links i))) (take 8 items)),
           vs_metadata = [(lit ''item_types'', sorted_strings item_types),
                          (lit ''readiness_statuses'', sorted_strings (map (\<lambda>i. readiness_value (ai_readiness i)) items))] \<rparr>)"

definition manual_section :: "str \<Rightarrow> str \<Rightarrow> str \<Rightarrow> source_link option \<Rightarrow> view_section" where
  "manual_section sid heading t source =
     \<lparr> vs_id = sid, vs_title = heading, vs_content = Some t,
       vs_evidence = (case source of None \<Rightarrow> [] | Some l \<Rightarrow> [\<lparr> el_source = l, el_confidence = None, el_note = None \<rparr>]),
       vs_metadata = [(lit ''evidence_kinds'', JArr [JStr (lit ''human_judgment'')])] \<rparr>"

section \<open>Views\<close>

definition new_view :: "str \<Rightarrow> str \<Rightarrow> str \<Rightarrow> view_section list \<Rightarrow> perspective_view" where
  "new_view uuid definition_id heading sections =
     \<lparr> pv_id = new_context_id ''view'' uuid, pv_definition_id = definition_id, pv_title = heading,
       pv_sections = sections, pv_metadata = [] \<rparr>"

definition build_role_fit :: "runtime \<Rightarrow> str \<Rightarrow> build_context \<Rightarrow> perspective_view" where
  "build_role_fit rt uuid ctx = new_view uuid (lit ''role_fit'') (lit ''Role Fit'')
     [signals_section rt (lit ''strong_matches'') (lit ''Strong Matches'')
        (signals_of ctx [lit ''technology'', lit ''technical_skill'', lit ''platform_experience'']) (lit ''No strong matches yet.''),
      signals_section rt (lit ''weak_or_missing'') (lit ''Weak or Missing Evidence'')
        (signals_of ctx [lit ''open_question'', lit ''interviewer_concern'']) (lit ''No missing-evidence signals yet.''),
      signals_section rt (lit ''risks'') (lit ''Risks'')
        (signals_of ctx [lit ''inferred_risk'', lit ''unusual_scope_indicator'']) (lit ''No role-fit risks extracted yet.''),
      signals_section rt (lit ''positioning'') (lit ''Suggested Positioning'')
        (signals_of ctx [lit ''leadership_signal'', lit ''measurable_outcome'', lit ''ai_agent_experience'', lit ''role_experience''])
        (lit ''Add resume or story evidence to generate positioning.''),
      signals_section rt (lit ''open_questions'') (lit ''Open Questions'')
        (signals_of ctx [lit ''open_question'', lit ''location_constraint'', lit ''company_signal''])
        (lit ''No open questions captured yet.'')]"

definition build_interview_prep :: "runtime \<Rightarrow> str \<Rightarrow> build_context \<Rightarrow> perspective_view" where
  "build_interview_prep rt uuid ctx = new_view uuid (lit ''interview_prep'') (lit ''Interview Prep'')
     [signals_section rt (lit ''themes'') (lit ''Likely Interview Themes'')
        (signals_of ctx [lit ''technical_theme'', lit ''leadership_expectation'', lit ''company_signal''])
        (lit ''No interview themes yet.''),
      signals_section rt (lit ''stories'') (lit ''Best Supporting Stories'')
        (signals_of ctx [lit ''story_situation'', lit ''story_action'', lit ''story_result''])
        (lit ''Add personal stories to ground this section.''),
      signals_section rt (lit ''technical'') (lit ''Technical Topics'')
        (signals_of ctx [lit ''technology'', lit ''technical_skill'', lit ''platform_experience''])
        (lit ''No technical topics extracted yet.''),
      signals_section rt (lit ''questions'') (lit ''Questions To Ask'')
        (signals_of ctx [lit ''open_question'', lit ''location_constraint'', lit ''compensation''])
        (lit ''No questions suggested yet.''),
      signals_section rt (lit ''concerns'') (lit ''Concerns To Clarify'')
        (signals_of ctx [lit ''interviewer_concern'', lit ''interview_risk'', lit ''inferred_risk'', lit ''company_signal''])
        (lit ''No concerns captured yet.'')]"

definition build_resume_positioning :: "runtime \<Rightarrow> str \<Rightarrow> build_context \<Rightarrow> perspective_view" where
  "build_resume_positioning rt uuid ctx = new_view uuid (lit ''resume_positioning'') (lit ''Resume Positioning'')
     [signals_section rt (lit ''strong_resume'') (lit ''Strong Resume Areas'')
        (signals_of ctx [lit ''measurable_outcome'', lit ''technical_skill'', lit ''leadership_signal''])
        (lit ''No strong resume areas extracted yet.''),
      signals_section rt (lit ''missing'') (lit ''Missing Evidence'')
        (signals_of ctx [lit ''responsibility'', lit ''leadership_expectation'']) (lit ''No missing evidence inferred yet.''),
      signals_section rt (lit ''weak'') (lit ''Weak Positioning'')
        (signals_of ctx [lit ''interviewer_concern'', lit ''interview_risk'']) (lit ''No weak positioning signals yet.''),
      task_section ctx (lit ''rewrites'') (lit ''Suggested Rewrites'') [lit ''rewrite_resume_section'']
        (lit ''No rewrite tasks generated yet.'')]"

definition build_application_pipeline :: "runtime \<Rightarrow> str \<Rightarrow> build_context \<Rightarrow> perspective_view" where
  "build_application_pipeline rt uuid ctx = new_view uuid (lit ''application_pipeline'') (lit ''Application Pipeline'')
     [signals_section rt (lit ''active'') (lit ''Active Opportunities'')
        (signals_of ctx [lit ''company'', lit ''role_title'']) (lit ''No active opportunities ingested yet.''),
      task_section ctx (lit ''next'') (lit ''Next Actions'')
        [lit ''prepare_interview_brief'', lit ''draft_recruiter_follow_up'', lit ''research_company_concerns'']
        (lit ''No next actions generated yet.''),
      signals_section rt (lit ''blockers'') (lit ''Blockers'')
        (signals_of ctx [lit ''interview_risk'', lit ''inferred_risk'']) (lit ''No blockers extracted yet.''),
      task_section ctx (lit ''followups'') (lit ''Follow-Ups'')
        [lit ''draft_recruiter_follow_up'', lit ''clarify_compensation_expectations'', lit ''clarify_scope'',
         lit ''prepare_architecture_story'']
        (lit ''No follow-up tasks generated yet.'')]"

definition build_compensation_scope_risk :: "runtime \<Rightarrow> str \<Rightarrow> build_context \<Rightarrow> perspective_view" where
  "build_compensation_scope_risk rt uuid ctx =
     (let human_source = (case bc_signals ctx of
            s # _ \<Rightarrow> (case sg_links s of l # _ \<Rightarrow> Some l | [] \<Rightarrow> None)
          | [] \<Rightarrow> None)
      in new_view uuid (lit ''compensation_scope_risk'') (lit ''Compensation and Scope Risk'')
     [signals_section rt (lit ''comp'') (lit ''Compensation Signals'')
        (signals_of ctx [lit ''compensation'']) (lit ''No compensation signals yet.''),
      signals_section rt (lit ''scope'') (lit ''Scope Risks'')
        (signals_of ctx [lit ''unusual_scope_indicator'', lit ''inferred_risk'']) (lit ''No scope risks extracted yet.''),
      signals_section rt (lit ''title'') (lit ''Title Concerns'')
        (signals_of ctx [lit ''role_title'', lit ''seniority'']) (lit ''No title concerns extracted yet.''),
      manual_section (lit ''judgment'') (lit ''Human Judgment Areas'')
        (lit ''Use these signals as prompts for human judgment; the demo does not decide compensation fairness or career fit automatically.'')
        human_source])"

section \<open>Tasks\<close>

definition artifact_source :: "artifact \<Rightarrow> source_link" where
  "artifact_source a = \<lparr> sl_artifact_id = a_id a, sl_chunk_id = None, sl_start = None, sl_end = None,
     sl_label = Some (a_type_id a), sl_excerpt = Some (take 500 (a_text a)) \<rparr>"

definition task_item ::
  "source_link \<Rightarrow> str \<Rightarrow> str \<Rightarrow> str option \<Rightarrow> readiness_status \<Rightarrow> str \<Rightarrow> actionable_item"
where
  "task_item source item_type heading description readiness uuid =
     \<lparr> ai_id = new_context_id ''item'' uuid, ai_type = item_type, ai_title = heading, ai_description = description,
       ai_readiness = readiness, ai_links = [source], ai_metadata = [] \<rparr>"

text \<open>The tasks of one artifact, each waiting for its id.\<close>

definition tasks_for :: "artifact \<Rightarrow> (str \<Rightarrow> actionable_item) list" where
  "tasks_for a =
     (let t = a_type_id a; source = artifact_source a;
          on = (\<lambda>types items. if t \<in> set types then items else []);
          items =
            on [lit ''job_description'']
              [task_item source (lit ''prepare_interview_brief'') (lit ''Prepare interview brief'')
                 (Some (lit ''Summarize role requirements, likely themes, risks, and source-grounded questions before the next conversation.''))
                 NEEDS_REVIEW,
               task_item source (lit ''research_company_concerns'') (lit ''Research company concerns'')
                 (Some (lit ''Add company research notes if the current source does not explain the business, market, or team context.''))
                 NEEDS_SOURCE_MATERIAL]
            @ on [lit ''resume'']
              [task_item source (lit ''rewrite_resume_section'') (lit ''Rewrite resume section'')
                 (Some (lit ''Tune resume bullets toward the role using only existing source-grounded skills, outcomes, and leadership evidence.''))
                 NEEDS_REVIEW]
            @ on [lit ''recruiter_message'']
              [task_item source (lit ''draft_recruiter_follow_up'') (lit ''Draft recruiter follow-up'')
                 (Some (lit ''Prepare a concise response that clarifies process, scope, location, and compensation boundaries.''))
                 READY_FOR_AGENT]
            @ on [lit ''compensation_notes'', lit ''job_description'']
              [task_item source (lit ''clarify_compensation_expectations'') (lit ''Clarify compensation expectations'')
                 (Some (lit ''Decide the minimum, target, and tradeoff boundaries before delegating any outreach.''))
                 NEEDS_DECISION]
            @ on [lit ''interview_notes'']
              [task_item source (lit ''prepare_architecture_story'') (lit ''Prepare architecture story'')
                 (Some (lit ''Select a source-grounded story that answers the strongest technical or leadership concern in the notes.''))
                 NEEDS_HUMAN_CLARIFICATION]
            @ on [lit ''company_research'']
              [task_item source (lit ''research_company_concerns'') (lit ''Research company concerns'')
                 (Some (lit ''Turn the captured company notes into grounded questions for the next conversation.''))
                 READY_FOR_AGENT]
            @ on [lit ''follow_up_notes'']
              [task_item source (lit ''draft_recruiter_follow_up'') (lit ''Draft follow-up from notes'') None READY_FOR_AGENT]
      in if items = []
         then [task_item source (lit ''prepare_interview_brief'') (lit ''Review source artifact'') None BLOCKED]
         else items)"

definition generate_tasks :: "(nat \<Rightarrow> str) \<Rightarrow> artifact \<Rightarrow> actionable_item list" where
  "generate_tasks uuid a = numbered_with uuid (tasks_for a)"

end
