(* ===== verification/Job_Llm.thy ===== *)
theory Job_Llm
  imports Job_Extract Context_Flows Job_Views Context_Rows
begin

text \<open>
  The model-assisted side of the job search domain (\<^verbatim>\<open>app/domains/job_search/llm.py\<close>): what a model
  answers, how an answer becomes records of the context engine, what a model is shown, and the
  adapters that add its answers to the rule-based ones or fall back to them. The execution
  context holds the answers of the models as functions that may raise.
\<close>

section \<open>Answers of a model\<close>

datatype confidence_label = LOW_CONFIDENCE | MEDIUM_CONFIDENCE | HIGH_CONFIDENCE

fun confidence_value :: "confidence_label \<Rightarrow> str" where
  "confidence_value LOW_CONFIDENCE = lit ''low''"
| "confidence_value MEDIUM_CONFIDENCE = lit ''medium''"
| "confidence_value HIGH_CONFIDENCE = lit ''high''"

datatype evidence_label = EXPLICIT | INFERRED

fun evidence_value :: "evidence_label \<Rightarrow> str" where
  "evidence_value EXPLICIT = lit ''explicit''"
| "evidence_value INFERRED = lit ''inferred''"

record llm_reference =
  lr_chunk_id :: str
  lr_excerpt :: str
  lr_label :: "str option"

record llm_entity =
  le_type :: str
  le_name :: str
  le_kind :: evidence_label
  le_confidence :: confidence_label
  le_references :: "llm_reference list"
  le_rationale :: str

record llm_signal =
  ls_title :: str
  ls_summary :: str
  ls_type :: str
  ls_kind :: evidence_label
  ls_confidence :: confidence_label
  ls_references :: "llm_reference list"
  ls_rationale :: str

record llm_relationship =
  lp_type :: str
  lp_source_name :: str
  lp_target_name :: str
  lp_kind :: evidence_label
  lp_confidence :: confidence_label
  lp_references :: "llm_reference list"
  lp_rationale :: str

text \<open>Priority and owner are two of the few words the schema allows.\<close>

record llm_item =
  li_type :: str
  li_title :: str
  li_description :: str
  li_priority :: str
  li_readiness :: readiness_status
  li_owner_type :: str
  li_rationale :: str
  li_references :: "llm_reference list"

record llm_extraction =
  lx_entities :: "llm_entity list"
  lx_signals :: "llm_signal list"
  lx_relationships :: "llm_relationship list"
  lx_items :: "llm_item list"
  lx_warnings :: "str list"

record llm_section =
  lc_id :: str
  lc_title :: str
  lc_conclusion :: str
  lc_why :: str
  lc_confidence :: confidence_label
  lc_references :: "llm_reference list"
  lc_implications :: "str list"
  lc_kind :: evidence_label
  lc_rationale :: str

record llm_view =
  lv_title :: str
  lv_sections :: "llm_section list"
  lv_warnings :: "str list"

record llm_tasks =
  lk_items :: "llm_item list"
  lk_warnings :: "str list"

text \<open>
  What an extension gets to run models with: the catalog, the files of the prompts, the settings of
  the providers, whether the caller is in an event loop, the clock, and the answers.
\<close>

record execution_context =
  xc_catalog :: flow_catalog
  xc_mode_override :: "execution_mode option"
  xc_prompt_root :: "str list"
  xc_read :: "str list \<Rightarrow> str result"
  xc_settings :: provider_settings
  xc_in_loop :: bool
  xc_now :: str
  xc_isofmt :: "int \<Rightarrow> str"
  xc_repr :: "str \<Rightarrow> str"
  xc_uuid :: "string \<Rightarrow> nat \<Rightarrow> str"
  xc_extraction :: "chat_model \<Rightarrow> model_settings option \<Rightarrow> str \<Rightarrow> str \<Rightarrow> llm_extraction result"
  xc_view :: "chat_model \<Rightarrow> model_settings option \<Rightarrow> str \<Rightarrow> str \<Rightarrow> llm_view result"
  xc_tasks :: "chat_model \<Rightarrow> model_settings option \<Rightarrow> str \<Rightarrow> str \<Rightarrow> llm_tasks result"

definition context_step :: "execution_context \<Rightarrow> str \<Rightarrow> string \<Rightarrow> str \<Rightarrow> string \<Rightarrow> resolved_step result" where
  "context_step x domain_id flow_id step_id purpose =
     resolve_step (xc_catalog x) domain_id (lit flow_id) step_id (Some (lit purpose)) (xc_mode_override x)"

definition step_prompt :: "execution_context \<Rightarrow> resolved_step \<Rightarrow> str result" where
  "step_prompt x step = load_prompt (xc_read x) (xc_prompt_root x) step"

section \<open>From an answer to records\<close>

text \<open>A dict by id: the last chunk of an id counts.\<close>

definition by_key :: "('a \<Rightarrow> str) \<Rightarrow> 'a list \<Rightarrow> str \<Rightarrow> 'a option" where
  "by_key key xs k = find (\<lambda>x. key x = k) (rev xs)"

definition reference_link :: "llm_reference \<Rightarrow> (str \<Rightarrow> artifact_chunk option) \<Rightarrow> artifact \<Rightarrow> source_link result" where
  "reference_link r chunk_of_id a =
     (case chunk_of_id (lr_chunk_id r) of
        None \<Rightarrow> Inl (ValueError (lit ''Unknown source chunk '' @ quoted (lr_chunk_id r) @ lit ''.''))
      | Some k \<Rightarrow>
          if strip (lr_excerpt r) = [] then Inl (ValueError (lit ''LLM source reference excerpt cannot be empty.''))
          else Inr \<lparr> sl_artifact_id = a_id a, sl_chunk_id = Some (ck_id k), sl_start = Some (ck_start k), sl_end = Some (ck_end k),
                     sl_label = Some (str_or (lr_label r) (a_type_id a)), sl_excerpt = Some (take 1000 (strip (lr_excerpt r))) \<rparr>)"

definition reference_links :: "artifact_chunk list \<Rightarrow> artifact \<Rightarrow> llm_reference list \<Rightarrow> source_link list result" where
  "reference_links ks a rs =
     rbind (each (\<lambda>r. reference_link r (by_key ck_id ks) a) rs) (\<lambda>links.
       if links = [] then Inl (ValueError (lit ''LLM output must include source references.'')) else Inr links)"

definition llm_metadata :: "evidence_label \<Rightarrow> confidence_label \<Rightarrow> str \<Rightarrow> json_dict" where
  "llm_metadata kind confidence rationale =
     [(lit ''explicit_or_inferred'', JStr (evidence_value kind)), (lit ''confidence'', JStr (confidence_value confidence)),
      (lit ''rationale'', JStr rationale)]"

definition map_entity :: "execution_context \<Rightarrow> resolved_step \<Rightarrow> artifact_chunk list \<Rightarrow> artifact \<Rightarrow> nat \<times> llm_entity \<Rightarrow> context_entity result" where
  "map_entity x step ks a ne =
     (case ne of (n, e) \<Rightarrow> rbind (reference_links ks a (le_references e)) (\<lambda>links.
        Inr \<lparr> en_id = new_context_id ''entity'' (xc_uuid x ''entity'' n), en_type = le_type e, en_name = le_name e, en_links = links,
              en_metadata = metadata_for_generated_step (xc_now x) step
                @ llm_metadata (le_kind e) (le_confidence e) (le_rationale e) \<rparr>))"

definition map_signal :: "execution_context \<Rightarrow> resolved_step \<Rightarrow> artifact_chunk list \<Rightarrow> artifact \<Rightarrow> nat \<times> llm_signal \<Rightarrow> context_signal result" where
  "map_signal x step ks a ns =
     (case ns of (n, s) \<Rightarrow> rbind (reference_links ks a (ls_references s)) (\<lambda>links.
        Inr \<lparr> sg_id = new_context_id ''signal'' (xc_uuid x ''signal'' n), sg_type = ls_type s, sg_label = ls_title s,
              sg_value = JStr (ls_summary s), sg_links = links,
              sg_metadata = metadata_for_generated_step (xc_now x) step @ [(lit ''summary'', JStr (ls_summary s))]
                @ llm_metadata (ls_kind s) (ls_confidence s) (ls_rationale s) \<rparr>))"

text \<open>Actions found with an artifact and the ones synthesized later draw on different ids: \<open>kind\<close>.\<close>

definition map_item :: "string \<Rightarrow> execution_context \<Rightarrow> resolved_step \<Rightarrow> artifact_chunk list \<Rightarrow> artifact \<Rightarrow> nat \<times> llm_item \<Rightarrow> actionable_item result" where
  "map_item kind x step ks a ni =
     (case ni of (n, i) \<Rightarrow> rbind (reference_links ks a (li_references i)) (\<lambda>links.
        Inr \<lparr> ai_id = new_context_id ''item'' (xc_uuid x kind n), ai_type = li_type i, ai_title = li_title i,
              ai_description = Some (li_description i), ai_readiness = li_readiness i, ai_links = links,
              ai_metadata = metadata_for_generated_step (xc_now x) step
                @ [(lit ''priority'', JStr (li_priority i)), (lit ''owner_type'', JStr (li_owner_type i)),
                   (lit ''rationale'', JStr (li_rationale i)), (lit ''explicit_or_inferred'', JStr (lit ''inferred'')),
                   (lit ''confidence'', JStr (lit ''medium''))] \<rparr>))"

definition enumerated :: "'a list \<Rightarrow> (nat \<times> 'a) list" where
  "enumerated xs = zip [0..<length xs] xs"

definition map_items :: "string \<Rightarrow> execution_context \<Rightarrow> resolved_step \<Rightarrow> artifact_chunk list \<Rightarrow> artifact \<Rightarrow> llm_item list \<Rightarrow> actionable_item list result" where
  "map_items kind x step ks a items = each (map_item kind x step ks a) (enumerated items)"

definition normalize_entity_name :: "str \<Rightarrow> str" where
  "normalize_entity_name v = strip (squeeze_spaces (lower v))"

definition entity_id_of :: "context_entity list \<Rightarrow> str \<Rightarrow> str option" where
  "entity_id_of es name =
     map_option en_id (by_key (\<lambda>e. normalize_entity_name (en_name e)) es (normalize_entity_name name))"

text \<open>A relationship between entities that are not in the answer is dropped with a warning.\<close>

fun map_relationships ::
  "execution_context \<Rightarrow> resolved_step \<Rightarrow> artifact_chunk list \<Rightarrow> artifact \<Rightarrow> context_entity list \<Rightarrow> (nat \<times> llm_relationship) list
     \<Rightarrow> (context_relationship list \<times> str list) result"
where
  "map_relationships x step ks a es [] = Inr ([], [])"
| "map_relationships x step ks a es ((n, p) # ps) =
     (case (entity_id_of es (lp_source_name p), entity_id_of es (lp_target_name p)) of
        (Some i, Some j) \<Rightarrow>
          rbind (reference_links ks a (lp_references p)) (\<lambda>links.
          rbind (map_relationships x step ks a es ps) (\<lambda>(rs, ws).
            Inr (\<lparr> rl_id = new_context_id ''rel'' (xc_uuid x ''rel'' n), rl_type = lp_type p, rl_source_entity_id = i,
                   rl_target_entity_id = j, rl_links = links,
                   rl_metadata = metadata_for_generated_step (xc_now x) step
                     @ [(lit ''source_entity_name'', JStr (lp_source_name p)), (lit ''target_entity_name'', JStr (lp_target_name p))]
                     @ llm_metadata (lp_kind p) (lp_confidence p) (lp_rationale p) \<rparr> # rs, ws)))
      | _ \<Rightarrow>
          rbind (map_relationships x step ks a es ps) (\<lambda>(rs, ws).
            Inr (rs, (lit ''Dropped relationship with unresolved entity names: '' @ xc_repr x (lp_source_name p) @ lit '' -> ''
                   @ xc_repr x (lp_target_name p) @ lit ''.'') # ws)))"

definition strings :: "str list \<Rightarrow> json" where
  "strings ss = JArr (map JStr ss)"

definition map_extraction_output ::
  "execution_context \<Rightarrow> resolved_step \<Rightarrow> artifact_chunk list \<Rightarrow> artifact \<Rightarrow> llm_extraction \<Rightarrow> job_result result"
where
  "map_extraction_output x step ks a out =
     rbind (each (map_entity x step ks a) (enumerated (lx_entities out))) (\<lambda>es.
     rbind (each (map_signal x step ks a) (enumerated (lx_signals out))) (\<lambda>ss.
     rbind (map_relationships x step ks a es (enumerated (lx_relationships out))) (\<lambda>(rs, ws).
     rbind (map_items ''item'' x step ks a (lx_items out)) (\<lambda>items.
       Inr \<lparr> jr_outputs = \<lparr> er_entities = es, er_relationships = rs, er_signals = ss, er_items = items \<rparr>,
             jr_metadata = [(lit ''generated_by'', JStr (lit ''llm'')), (lit ''warnings'', strings (lx_warnings out @ ws))] \<rparr>))))"

section \<open>Short ids for a prompt\<close>

type_synonym id_map = "(str \<times> str) list"

record prompt_ids =
  pi_artifacts :: id_map
  pi_chunks :: id_map
  pi_signals :: id_map
  pi_items :: id_map

definition no_ids :: prompt_ids where
  "no_ids = \<lparr> pi_artifacts = [], pi_chunks = [], pi_signals = [], pi_items = [] \<rparr>"

definition compact :: "string \<Rightarrow> id_map \<Rightarrow> str \<Rightarrow> str \<times> id_map" where
  "compact prefix m original =
     (case map_of m original of
        Some c \<Rightarrow> (c, m)
      | None \<Rightarrow> let c = lit prefix @ show_nat (length m + 1) in (c, m @ [(original, c)]))"

definition artifact_ref :: "str \<Rightarrow> prompt_ids \<Rightarrow> str \<times> prompt_ids" where
  "artifact_ref i p = (case compact ''a'' (pi_artifacts p) i of (c, m) \<Rightarrow> (c, p\<lparr> pi_artifacts := m \<rparr>))"

definition chunk_ref :: "str \<Rightarrow> prompt_ids \<Rightarrow> str \<times> prompt_ids" where
  "chunk_ref i p = (case compact ''c'' (pi_chunks p) i of (c, m) \<Rightarrow> (c, p\<lparr> pi_chunks := m \<rparr>))"

definition signal_ref :: "str \<Rightarrow> prompt_ids \<Rightarrow> str \<times> prompt_ids" where
  "signal_ref i p = (case compact ''s'' (pi_signals p) i of (c, m) \<Rightarrow> (c, p\<lparr> pi_signals := m \<rparr>))"

definition item_ref :: "str \<Rightarrow> prompt_ids \<Rightarrow> str \<times> prompt_ids" where
  "item_ref i p = (case compact ''i'' (pi_items p) i of (c, m) \<Rightarrow> (c, p\<lparr> pi_items := m \<rparr>))"

definition original_chunk_id :: "prompt_ids \<Rightarrow> str \<Rightarrow> str" where
  "original_chunk_id p i = (case find (\<lambda>(original, c). c = i) (pi_chunks p) of None \<Rightarrow> i | Some (original, c) \<Rightarrow> original)"

section \<open>What a perspective is given\<close>

record context_limits =
  cl_chunks :: nat
  cl_signals :: nat
  cl_items :: nat
  cl_chunk_chars :: nat
  cl_excerpt_chars :: nat

definition default_limits :: context_limits where
  "default_limits = \<lparr> cl_chunks = 18, cl_signals = 24, cl_items = 6, cl_chunk_chars = 900, cl_excerpt_chars = 300 \<rparr>"

definition limits_ok :: "context_limits \<Rightarrow> bool" where
  "limits_ok l \<longleftrightarrow> 1 \<le> cl_chunks l \<and> 1 \<le> cl_chunk_chars l \<and> 1 \<le> cl_excerpt_chars l"

record graph_node =
  gn_types :: "str list"
  gn_depends_on :: "str list"
  gn_fallback_types :: "str list"

record context_graph =
  cg_limits :: context_limits
  cg_nodes :: "(str \<times> graph_node) list"

definition node :: "context_graph \<Rightarrow> string \<Rightarrow> graph_node" where
  "node g name =
     (case map_of (cg_nodes g) (lit name) of
        Some n \<Rightarrow> n
      | None \<Rightarrow> \<lparr> gn_types = [], gn_depends_on = [], gn_fallback_types = [] \<rparr>)"

definition require_node_types :: "context_graph \<Rightarrow> string \<Rightarrow> unit result" where
  "require_node_types g name =
     (if gn_types (node g name) = []
      then Inl (ValueError (lit ''Perspective context graph node '' @ quoted (lit name) @ lit '' must declare explicit types.''))
      else Inr ())"

definition select_signals :: "build_context \<Rightarrow> context_graph \<Rightarrow> context_signal list" where
  "select_signals c g = filter (\<lambda>s. sg_type s \<in> set (gn_types (node g ''signals''))) (bc_signals c)"

definition select_items :: "build_context \<Rightarrow> context_graph \<Rightarrow> actionable_item list" where
  "select_items c g = filter (\<lambda>i. ai_type i \<in> set (gn_types (node g ''actionable_items''))) (bc_items c)"

definition has_selected_source :: "source_link list \<Rightarrow> str list \<Rightarrow> str list \<Rightarrow> bool" where
  "has_selected_source links chunk_ids artifact_ids \<longleftrightarrow>
     list_ex (\<lambda>l. (case sl_chunk_id l of Some i \<Rightarrow> i \<in> set chunk_ids | None \<Rightarrow> False) \<or> sl_artifact_id l \<in> set artifact_ids) links"

definition artifact_type_for_chunk :: "build_context \<Rightarrow> artifact_chunk \<Rightarrow> str option" where
  "artifact_type_for_chunk c k = map_option a_type_id (by_key a_id (bc_artifacts c) (ck_artifact_id k))"

definition artifacts_for_chunks :: "artifact list \<Rightarrow> artifact_chunk list \<Rightarrow> artifact list" where
  "artifacts_for_chunks as ks = filter (\<lambda>a. a_id a \<in> set (map ck_artifact_id ks)) as"

fun dedupe_unless :: "str list \<Rightarrow> artifact_chunk list \<Rightarrow> artifact_chunk list" where
  "dedupe_unless seen [] = []"
| "dedupe_unless seen (k # ks) =
     (if ck_id k \<in> set seen then dedupe_unless seen ks else k # dedupe_unless (ck_id k # seen) ks)"

definition dedupe_chunks :: "artifact_chunk list \<Rightarrow> artifact_chunk list" where
  "dedupe_chunks ks = dedupe_unless [] ks"

definition linked_chunk_ids :: "source_link list \<Rightarrow> str list" where
  "linked_chunk_ids ls = concat (map (\<lambda>l. case sl_chunk_id l of Some i \<Rightarrow> if i = [] then [] else [i] | None \<Rightarrow> []) ls)"

definition wanted_chunk_ids :: "build_context \<Rightarrow> perspective_view \<Rightarrow> context_graph \<Rightarrow> str list" where
  "wanted_chunk_ids c v g =
     (let on = (\<lambda>name ids. if lit name \<in> set (gn_depends_on (node g ''chunks'')) then ids else [])
      in on ''deterministic_view''
           (linked_chunk_ids (concat (map (\<lambda>s. map el_source (vs_evidence s)) (pv_sections v))))
       @ on ''signals'' (linked_chunk_ids (concat (map sg_links (select_signals c g))))
       @ on ''actionable_items'' (linked_chunk_ids (concat (map ai_links (select_items c g)))))"

text \<open>
  The chunks the view, the signals and the items point to, filled up with others of the fallback
  types. The list grows while \<^verbatim>\<open>chunk not in selected\<close> is asked; equal chunks have one id, so
  the last deduplication makes that the same.
\<close>

definition select_chunks :: "build_context \<Rightarrow> perspective_view \<Rightarrow> context_graph \<Rightarrow> artifact_chunk list" where
  "select_chunks c v g =
     (let ids = wanted_chunk_ids c v g;
          selected = dedupe_chunks (List.map_filter (by_key ck_id (bc_chunks c)) ids);
          own = gn_fallback_types (node g ''chunks'');
          types = (if own = [] then gn_types (node g ''artifacts'') else own);
          others = filter (\<lambda>k. k \<notin> set selected \<and> (case artifact_type_for_chunk c k of Some t \<Rightarrow> t \<in> set types | None \<Rightarrow> False)) (bc_chunks c)
      in take (cl_chunks (cg_limits g))
           (dedupe_chunks (if length selected < cl_chunks (cg_limits g) then selected @ others else selected)))"

section \<open>Prompts\<close>

text \<open>\<^verbatim>\<open>json.dumps(..., indent=2)\<close>; the number is the indentation of the value.\<close>

definition new_line :: "nat \<Rightarrow> str" where
  "new_line n = [10] @ replicate n 32"

fun pretty :: "nat \<Rightarrow> json \<Rightarrow> str" where
  "pretty n (JArr xs) =
     (if xs = [] then lit ''[]''
      else [91] @ new_line (n + 2) @ join ([44] @ new_line (n + 2)) (map (pretty (n + 2)) xs) @ new_line n @ [93])"
| "pretty n (JObj kvs) =
     (if kvs = [] then lit ''{}''
      else [123] @ new_line (n + 2)
        @ join ([44] @ new_line (n + 2)) (map (\<lambda>(k, v). dump_str Spaced k @ [58, 32] @ pretty (n + 2) v) kvs)
        @ new_line n @ [125])"
| "pretty n j = dumps Spaced j"

definition prompt_text :: "json_dict \<Rightarrow> str" where
  "prompt_text d = pretty 0 (sort_keys (JObj d))"

definition objects :: "('a \<Rightarrow> json_dict) \<Rightarrow> 'a list \<Rightarrow> json" where
  "objects f xs = JArr (map (\<lambda>x. JObj (f x)) xs)"

definition artifact_dict :: "(int \<Rightarrow> str) \<Rightarrow> artifact \<Rightarrow> json_dict" where
  "artifact_dict isofmt a =
     [(lit ''id'', JStr (a_id a)), (lit ''domain_id'', JStr (a_domain_id a)), (lit ''artifact_type_id'', JStr (a_type_id a)),
      (lit ''owner_type'', JStr (owner_type_value (a_owner_type a))), (lit ''owner_id'', JStr (a_owner_id a)),
      (lit ''title'', opt_str_json (a_title a)), (lit ''text'', JStr (a_text a)), (lit ''source_uri'', opt_str_json (a_source_uri a)),
      (lit ''metadata'', JObj (a_metadata a)), (lit ''created_at'', JStr (isofmt (a_created_at a)))]"

definition chunk_dict :: "artifact_chunk \<Rightarrow> json_dict" where
  "chunk_dict k =
     [(lit ''id'', JStr (ck_id k)), (lit ''artifact_id'', JStr (ck_artifact_id k)), (lit ''chunk_index'', JInt (int (ck_index k))),
      (lit ''text'', JStr (ck_text k)), (lit ''start_offset'', JInt (int (ck_start k))), (lit ''end_offset'', JInt (int (ck_end k))),
      (lit ''source_link'', JObj (link_dict (ck_source_link k))), (lit ''metadata'', JObj (ck_metadata k))]"

definition item_dict :: "actionable_item \<Rightarrow> json_dict" where
  "item_dict i =
     [(lit ''id'', JStr (ai_id i)), (lit ''item_type'', JStr (ai_type i)), (lit ''title'', JStr (ai_title i)),
      (lit ''description'', opt_str_json (ai_description i)), (lit ''readiness_status'', JStr (readiness_value (ai_readiness i))),
      (lit ''source_links'', objects link_dict (ai_links i)), (lit ''metadata'', JObj (ai_metadata i))]"

definition artifact_extraction_prompt :: "(int \<Rightarrow> str) \<Rightarrow> artifact \<Rightarrow> artifact_chunk list \<Rightarrow> str" where
  "artifact_extraction_prompt isofmt a ks =
     prompt_text [(lit ''artifact'', JObj (artifact_dict isofmt a)), (lit ''chunks'', objects chunk_dict ks)]"

definition actionable_item_prompt :: "(int \<Rightarrow> str) \<Rightarrow> artifact \<Rightarrow> artifact_chunk list \<Rightarrow> actionable_item list \<Rightarrow> str" where
  "actionable_item_prompt isofmt a ks items =
     prompt_text [(lit ''artifact'', JObj (artifact_dict isofmt a)), (lit ''chunks'', objects chunk_dict ks),
       (lit ''current_actionable_items'', objects item_dict items)]"

text \<open>Short ids are given out in the order the values are built.\<close>

fun threaded :: "('a \<Rightarrow> 's \<Rightarrow> 'b \<times> 's) \<Rightarrow> 'a list \<Rightarrow> 's \<Rightarrow> 'b list \<times> 's" where
  "threaded f [] s = ([], s)"
| "threaded f (x # xs) s = (case f x s of (y, s1) \<Rightarrow> (case threaded f xs s1 of (ys, s2) \<Rightarrow> (y # ys, s2)))"

definition compact_artifact :: "artifact \<Rightarrow> prompt_ids \<Rightarrow> json \<times> prompt_ids" where
  "compact_artifact a p =
     (case artifact_ref (a_id a) p of (i, p1) \<Rightarrow>
        (JObj [(lit ''id'', JStr i), (lit ''type'', JStr (a_type_id a)), (lit ''title'', opt_str_json (a_title a))], p1))"

definition compact_chunk :: "context_limits \<Rightarrow> artifact_chunk \<Rightarrow> prompt_ids \<Rightarrow> json \<times> prompt_ids" where
  "compact_chunk l k p =
     (case chunk_ref (ck_id k) p of (i, p1) \<Rightarrow> (case artifact_ref (ck_artifact_id k) p1 of (a, p2) \<Rightarrow>
        (JObj [(lit ''id'', JStr i), (lit ''artifact_id'', JStr a), (lit ''index'', JInt (int (ck_index k))),
               (lit ''text'', JStr (take (cl_chunk_chars l) (ck_text k)))], p2)))"

definition compact_source_link :: "context_limits \<Rightarrow> source_link \<Rightarrow> prompt_ids \<Rightarrow> json \<times> prompt_ids" where
  "compact_source_link l s p =
     (case artifact_ref (sl_artifact_id s) p of (a, p1) \<Rightarrow>
      (case (if truthy (sl_chunk_id s) then (case chunk_ref (the (sl_chunk_id s)) p1 of (k, p2) \<Rightarrow> (JStr k, p2)) else (JNull, p1)) of
         (k, p2) \<Rightarrow>
        (JObj [(lit ''artifact_id'', JStr a), (lit ''chunk_id'', k), (lit ''label'', opt_str_json (sl_label s)),
               (lit ''excerpt'', JStr (take (cl_excerpt_chars l) (str_or (sl_excerpt s) [])))], p2)))"

definition compact_source_links :: "context_limits \<Rightarrow> source_link list \<Rightarrow> prompt_ids \<Rightarrow> json \<times> prompt_ids" where
  "compact_source_links l ss p =
     (case threaded (compact_source_link l) (filter (\<lambda>s. truthy (sl_chunk_id s) \<or> sl_artifact_id s \<noteq> []) ss) p of
        (js, p1) \<Rightarrow> (JArr js, p1))"

definition compact_metadata :: "json_dict \<Rightarrow> json_dict" where
  "compact_metadata d = filter (\<lambda>(k, v). k \<in> set (map lit
     [''generated_by'', ''explicit_or_inferred'', ''confidence'', ''rationale'', ''summary'', ''reason''])) d"

definition compact_signal :: "context_limits \<Rightarrow> context_signal \<Rightarrow> prompt_ids \<Rightarrow> json \<times> prompt_ids" where
  "compact_signal l s p =
     (case signal_ref (sg_id s) p of (i, p1) \<Rightarrow> (case compact_source_links l (sg_links s) p1 of (links, p2) \<Rightarrow>
        (JObj [(lit ''id'', JStr i), (lit ''type'', JStr (sg_type s)), (lit ''label'', JStr (sg_label s)), (lit ''value'', sg_value s),
               (lit ''source_links'', links), (lit ''metadata'', JObj (compact_metadata (sg_metadata s)))], p2)))"

definition compact_item :: "context_limits \<Rightarrow> actionable_item \<Rightarrow> prompt_ids \<Rightarrow> json \<times> prompt_ids" where
  "compact_item l x p =
     (case item_ref (ai_id x) p of (i, p1) \<Rightarrow> (case compact_source_links l (ai_links x) p1 of (links, p2) \<Rightarrow>
        (JObj [(lit ''id'', JStr i), (lit ''type'', JStr (ai_type x)), (lit ''title'', JStr (ai_title x)),
               (lit ''description'', opt_str_json (ai_description x)), (lit ''readiness'', JStr (readiness_value (ai_readiness x))),
               (lit ''source_links'', links)], p2)))"

definition compact_evidence :: "context_limits \<Rightarrow> evidence_link \<Rightarrow> prompt_ids \<Rightarrow> json \<times> prompt_ids" where
  "compact_evidence l e p =
     (case compact_source_link l (el_source e) p of (s, p1) \<Rightarrow>
        (JObj [(lit ''source'', s), (lit ''confidence'', (case el_confidence e of None \<Rightarrow> JNull | Some t \<Rightarrow> JFloat t)),
               (lit ''note'', opt_str_json (el_note e))], p1))"

definition compact_section :: "context_limits \<Rightarrow> view_section \<Rightarrow> prompt_ids \<Rightarrow> json \<times> prompt_ids" where
  "compact_section l x p =
     (case threaded (compact_evidence l) (vs_evidence x) p of (es, p1) \<Rightarrow>
        (JObj [(lit ''id'', JStr (vs_id x)), (lit ''title'', JStr (vs_title x)), (lit ''content'', opt_str_json (vs_content x)),
               (lit ''evidence_links'', JArr es)], p1))"

definition compact_view :: "context_limits \<Rightarrow> perspective_view \<Rightarrow> prompt_ids \<Rightarrow> json \<times> prompt_ids" where
  "compact_view l v p =
     (case threaded (compact_section l) (pv_sections v) p of (ss, p1) \<Rightarrow>
        (JObj [(lit ''id'', JStr (pv_definition_id v)), (lit ''title'', JStr (pv_title v)), (lit ''sections'', JArr ss)], p1))"

definition prompt_rules :: json where
  "prompt_rules = JObj
     [(lit ''source_reference_rule'',
        JStr (lit ''Use chunk ids exactly as provided. They are compact ids for this request and will be remapped after validation.'')),
      (lit ''max_sections'', JInt 5), (lit ''max_evidence_references_per_section'', JInt 3),
      (lit ''max_actionable_implications_per_section'', JInt 3)]"

definition prompt_signals :: "build_context \<Rightarrow> context_graph \<Rightarrow> artifact_chunk list \<Rightarrow> context_signal list" where
  "prompt_signals c g ks = take (cl_signals (cg_limits g))
     (filter (\<lambda>s. has_selected_source (sg_links s) (map ck_id ks) (map ck_artifact_id ks)) (select_signals c g))"

definition prompt_items :: "build_context \<Rightarrow> context_graph \<Rightarrow> artifact_chunk list \<Rightarrow> actionable_item list" where
  "prompt_items c g ks = take (cl_items (cg_limits g))
     (filter (\<lambda>i. has_selected_source (ai_links i) (map ck_id ks) (map ck_artifact_id ks)) (select_items c g))"

definition perspective_prompt :: "build_context \<Rightarrow> perspective_view \<Rightarrow> context_graph \<Rightarrow> str \<times> prompt_ids" where
  "perspective_prompt c v g =
     (let l = cg_limits g; ks = select_chunks c v g
      in case compact_view l v no_ids of (view, p1) \<Rightarrow>
         (case threaded compact_artifact (artifacts_for_chunks (bc_artifacts c) ks) p1 of (as, p2) \<Rightarrow>
         (case threaded (compact_chunk l) ks p2 of (cs, p3) \<Rightarrow>
         (case threaded (compact_signal l) (prompt_signals c g ks) p3 of (ss, p4) \<Rightarrow>
         (case threaded (compact_item l) (prompt_items c g ks) p4 of (is, p5) \<Rightarrow>
           (prompt_text [(lit ''perspective_id'', JStr (pv_definition_id v)), (lit ''instructions'', prompt_rules),
              (lit ''deterministic_view'', view), (lit ''artifacts'', JArr as), (lit ''chunks'', JArr cs),
              (lit ''signals'', JArr ss), (lit ''actionable_items'', JArr is)], p5))))))"

end
