(* ===== verification/Job_Adapters.thy ===== *)
theory Job_Adapters
  imports Job_Llm Context_Service
begin

text \<open>
  The adapters of \<^verbatim>\<open>app/domains/job_search/llm.py\<close>: each runs its rule-based extension, asks a model
  when the step of the domain says so, and keeps the rule-based outcome when anything on the way
  to the model's records raises.
\<close>

section \<open>Marking rule-based records\<close>

definition mark :: "string \<Rightarrow> json_dict \<Rightarrow> json_dict" where
  "mark kind d = set_default (set_default d ''generated_by'' (JStr (lit ''deterministic''))) ''explicit_or_inferred'' (JStr (lit kind))"

definition on_outputs :: "(extraction_result \<Rightarrow> extraction_result) \<Rightarrow> job_result \<Rightarrow> job_result" where
  "on_outputs f r = r\<lparr> jr_outputs := f (jr_outputs r) \<rparr>"

definition truthy_at :: "json_dict \<Rightarrow> string \<Rightarrow> bool" where
  "truthy_at d k = (case map_of d (lit k) of None \<Rightarrow> False | Some v \<Rightarrow> json_truthy v)"

definition mark_deterministic_extraction :: "job_result \<Rightarrow> job_result" where
  "mark_deterministic_extraction = on_outputs (\<lambda>r.
     \<lparr> er_entities = map (en_metadata_update (mark ''explicit'')) (er_entities r),
       er_relationships = map (rl_metadata_update (mark ''explicit'')) (er_relationships r),
       er_signals = map (sg_metadata_update (\<lambda>d. mark (if truthy_at d ''reason'' then ''inferred'' else ''explicit'') d)) (er_signals r),
       er_items = map (ai_metadata_update (mark ''inferred'')) (er_items r) \<rparr>)"

definition mark_deterministic_view :: "perspective_view \<Rightarrow> perspective_view" where
  "mark_deterministic_view v =
     v\<lparr> pv_metadata := set_default (pv_metadata v) ''generated_by'' (JStr (lit ''deterministic'')),
        pv_sections := map (vs_metadata_update (\<lambda>d. set_default d ''generated_by'' (JStr (lit ''deterministic'')))) (pv_sections v) \<rparr>"

definition with_fallback_warning :: "str \<Rightarrow> job_result \<Rightarrow> job_result" where
  "with_fallback_warning w r =
     (let warn = (\<lambda>d. set_default d ''fallback_warning'' (JStr w))
      in r\<lparr> jr_metadata := warn (jr_metadata r),
            jr_outputs := (jr_outputs r)\<lparr> er_signals := map (sg_metadata_update warn) (er_signals (jr_outputs r)),
                                          er_items := map (ai_metadata_update warn) (er_items (jr_outputs r)) \<rparr> \<rparr>)"

definition has_outputs :: "job_result \<Rightarrow> bool" where
  "has_outputs r \<longleftrightarrow> er_entities (jr_outputs r) \<noteq> [] \<or> er_relationships (jr_outputs r) \<noteq> []
     \<or> er_signals (jr_outputs r) \<noteq> [] \<or> er_items (jr_outputs r) \<noteq> []"

definition not_configured :: str where
  "not_configured = lit ''llm_execution_not_configured''"

definition llm_failed :: "error \<Rightarrow> str" where
  "llm_failed e = lit ''llm_failed: '' @ error_text e"

section \<open>Extraction\<close>

text \<open>The model's share of a step: None when the step is rule-based.\<close>

definition model_extraction ::
  "execution_context \<Rightarrow> artifact \<Rightarrow> artifact_chunk list \<Rightarrow> (execution_mode \<times> llm_extraction \<times> job_result) option result"
where
  "model_extraction x a ks =
     rbind (context_step x (a_domain_id a) ''extraction'' (lit ''artifact_extraction'') ''structured_extraction'') (\<lambda>step.
       if rs_mode step = DETERMINISTIC then Inr None
       else rbind (step_prompt x step) (\<lambda>instructions.
            rbind (run_structured (xc_settings x) (xc_in_loop x) (xc_extraction x) step instructions
                     (artifact_extraction_prompt (xc_isofmt x) a ks)) (\<lambda>out.
            rbind (map_extraction_output x step ks a out) (\<lambda>r. Inr (Some (rs_mode step, out, r))))))"

definition with_model_extraction :: "execution_mode \<Rightarrow> llm_extraction \<Rightarrow> job_result \<Rightarrow> job_result \<Rightarrow> job_result" where
  "with_model_extraction mode out r d =
     (if mode = LLM then (if has_outputs r then r else d)
      else \<lparr> jr_outputs = extend_extraction (jr_outputs d) (jr_outputs r),
             jr_metadata = dict_update (jr_metadata d)
               [(lit ''llm_mode'', JStr (mode_value mode)), (lit ''llm_warnings'', strings (lx_warnings out))] \<rparr>)"

definition extract_with_execution ::
  "(artifact \<Rightarrow> artifact_chunk list \<Rightarrow> job_result result) \<Rightarrow> artifact \<Rightarrow> artifact_chunk list \<Rightarrow> execution_context option
     \<Rightarrow> job_result result"
where
  "extract_with_execution base a ks ctx =
     rbind (base a ks) (\<lambda>d0.
       let d = mark_deterministic_extraction d0
       in Inr (case ctx of
            None \<Rightarrow> with_fallback_warning not_configured d
          | Some x \<Rightarrow>
              (case model_extraction x a ks of
                 Inl e \<Rightarrow> with_fallback_warning (llm_failed e) d
               | Inr None \<Rightarrow> d
               | Inr (Some (mode, out, r)) \<Rightarrow> with_model_extraction mode out r d)))"

section \<open>Perspectives\<close>

fun confidence_score :: "confidence_label \<Rightarrow> str" where
  "confidence_score LOW_CONFIDENCE = lit ''0.35''"
| "confidence_score MEDIUM_CONFIDENCE = lit ''0.65''"
| "confidence_score HIGH_CONFIDENCE = lit ''0.9''"

definition section_evidence ::
  "build_context \<Rightarrow> prompt_ids \<Rightarrow> llm_section \<Rightarrow> llm_reference \<Rightarrow> evidence_link result"
where
  "section_evidence c p sec r =
     (let known = by_key (\<lambda>k. original_chunk_id p (ck_id k)) (bc_chunks c); i = original_chunk_id p (lr_chunk_id r)
      in case known i of
           None \<Rightarrow> Inl (ValueError (lit ''Unknown source chunk '' @ quoted (lr_chunk_id r) @ lit ''.''))
         | Some k \<Rightarrow>
             (case by_key a_id (bc_artifacts c) (ck_artifact_id k) of
                None \<Rightarrow> Inl (ValueError (lit ''Unknown source artifact '' @ quoted (ck_artifact_id k) @ lit ''.''))
              | Some a \<Rightarrow>
                  rbind (reference_link (r\<lparr> lr_chunk_id := i \<rparr>) known a) (\<lambda>l.
                    Inr \<lparr> el_source = l, el_confidence = Some (confidence_score (lc_confidence sec)),
                          el_note = Some (lc_title sec @ lit '' ('' @ evidence_value (lc_kind sec) @ lit '')'') \<rparr>)))"

definition section_content :: "llm_section \<Rightarrow> str" where
  "section_content sec = join [10] (lc_conclusion sec # (lit ''Why it matters: '' @ lc_why sec)
     # map (\<lambda>i. lit ''Implication: '' @ i) (lc_implications sec))"

definition map_section ::
  "execution_context \<Rightarrow> resolved_step \<Rightarrow> build_context \<Rightarrow> prompt_ids \<Rightarrow> llm_section \<Rightarrow> view_section result"
where
  "map_section x step c p sec =
     rbind (each (section_evidence c p sec) (lc_references sec)) (\<lambda>evidence.
       Inr \<lparr> vs_id = lc_id sec, vs_title = lc_title sec, vs_content = Some (section_content sec), vs_evidence = evidence,
             vs_metadata = metadata_for_generated_step (xc_now x) step
               @ [(lit ''confidence'', JStr (confidence_value (lc_confidence sec))),
                  (lit ''explicit_or_inferred'', JStr (evidence_value (lc_kind sec))),
                  (lit ''rationale'', JStr (lc_rationale sec)), (lit ''actionable_implications'', strings (lc_implications sec)),
                  (lit ''evidence_kinds'', strings [evidence_value (lc_kind sec)])] \<rparr>)"

definition map_perspective_output ::
  "execution_context \<Rightarrow> resolved_step \<Rightarrow> build_context \<Rightarrow> str \<Rightarrow> prompt_ids \<Rightarrow> llm_view \<Rightarrow> perspective_view result"
where
  "map_perspective_output x step c view_id p out =
     rbind (each (map_section x step c p) (lv_sections out)) (\<lambda>sections.
       Inr ((new_view (xc_uuid x ''view'' 0) view_id (lv_title out) sections)\<lparr>
              pv_metadata := metadata_for_generated_step (xc_now x) step @ [(lit ''warnings'', strings (lv_warnings out))] \<rparr>))"

definition model_view ::
  "execution_context \<Rightarrow> context_graph \<Rightarrow> str \<Rightarrow> build_context \<Rightarrow> perspective_view
     \<Rightarrow> (execution_mode \<times> perspective_view) option result"
where
  "model_view x g view_id c d =
     rbind (context_step x (fst (bc_scope c)) ''perspective_synthesis'' view_id ''perspective_synthesis'') (\<lambda>step.
       if rs_mode step = DETERMINISTIC then Inr None
       else (case perspective_prompt c d g of (prompt, p) \<Rightarrow>
            rbind (step_prompt x step) (\<lambda>instructions.
            rbind (run_structured (xc_settings x) (xc_in_loop x) (xc_view x) step instructions prompt) (\<lambda>out.
            rbind (map_perspective_output x step c view_id p out) (\<lambda>v. Inr (Some (rs_mode step, v)))))))"

definition warned_view :: "str \<Rightarrow> perspective_view \<Rightarrow> perspective_view" where
  "warned_view w v = v\<lparr> pv_metadata := dict_set (pv_metadata v) (lit ''fallback_warning'') (JStr w) \<rparr>"

definition build_with_execution ::
  "str \<Rightarrow> context_graph \<Rightarrow> (build_context \<Rightarrow> perspective_view result) \<Rightarrow> build_context \<Rightarrow> execution_context option
     \<Rightarrow> perspective_view result"
where
  "build_with_execution view_id g base c ctx =
     rbind (base c) (\<lambda>d0.
       let d = mark_deterministic_view d0
       in Inr (case ctx of
            None \<Rightarrow> warned_view not_configured d
          | Some x \<Rightarrow>
              (case model_view x g view_id c d of
                 Inl e \<Rightarrow> warned_view (llm_failed e) d
               | Inr None \<Rightarrow> d
               | Inr (Some (mode, v)) \<Rightarrow>
                   if mode = LLM then v
                   else v\<lparr> pv_metadata := dict_set (pv_metadata v) (lit ''deterministic_section_count'')
                             (JInt (int (length (pv_sections d)))) \<rparr>)))"

section \<open>Tasks\<close>

definition model_tasks ::
  "execution_context \<Rightarrow> artifact \<Rightarrow> artifact_chunk list \<Rightarrow> actionable_item list
     \<Rightarrow> (execution_mode \<times> actionable_item list) option result"
where
  "model_tasks x a ks items =
     rbind (context_step x (a_domain_id a) ''actionable_item_synthesis'' (lit ''actionable_items'') ''actionable_item_synthesis'')
       (\<lambda>step.
       if rs_mode step = DETERMINISTIC then Inr None
       else rbind (step_prompt x step) (\<lambda>instructions.
            rbind (run_structured (xc_settings x) (xc_in_loop x) (xc_tasks x) step instructions
                     (actionable_item_prompt (xc_isofmt x) a ks items)) (\<lambda>out.
            rbind (map_items ''task'' x step ks a (lk_items out)) (\<lambda>new. Inr (Some (rs_mode step, new))))))"

definition warned_item :: "str \<Rightarrow> actionable_item \<Rightarrow> actionable_item" where
  "warned_item w i = i\<lparr> ai_metadata := dict_set (ai_metadata i) (lit ''fallback_warning'') (JStr w) \<rparr>"

definition generate_with_execution ::
  "(artifact \<Rightarrow> actionable_item list result) \<Rightarrow> artifact \<Rightarrow> artifact_chunk list \<Rightarrow> actionable_item list
     \<Rightarrow> execution_context option \<Rightarrow> actionable_item list result"
where
  "generate_with_execution base a ks current ctx =
     rbind (base a) (\<lambda>d0.
       let d = map (ai_metadata_update (mark ''inferred'')) d0
       in Inr (case ctx of
            None \<Rightarrow> current @ map (warned_item not_configured) d
          | Some x \<Rightarrow>
              (case model_tasks x a ks (current @ d) of
                 Inl e \<Rightarrow> current @ map (warned_item (llm_failed e)) d
               | Inr None \<Rightarrow> current @ d
               | Inr (Some (mode, new)) \<Rightarrow>
                   if mode = LLM then current @ (if new = [] then d else new) else current @ d @ new)))"

end
