(* ===== verification/Job_Pack.thy ===== *)
theory Job_Pack
  imports Job_Adapters Context_Service Context_System
begin

text \<open>
  The domain packs (\<^verbatim>\<open>app/domains/job_search/register.py\<close>, \<^verbatim>\<open>app/domains/test_domain/domain.py\<close>) and what
  the application starts with (\<^verbatim>\<open>app/core/context_engine/factory.py\<close>). A manifest is its decoded YAML.
  Two libraries are parameters: \<open>str\<close> of a decoded value (in the runtime) and pydantic's reading
  of a context graph.
\<close>

section \<open>Reading a manifest\<close>

definition member :: "json_dict \<Rightarrow> string \<Rightarrow> json \<Rightarrow> json" where
  "member d k fallback = (case map_of d (lit k) of None \<Rightarrow> fallback | Some v \<Rightarrow> v)"

definition required :: "json \<Rightarrow> string \<Rightarrow> json result" where
  "required entry k =
     (case entry of
        JObj d \<Rightarrow> (case map_of d (lit k) of None \<Rightarrow> Inl (KeyError (lit k)) | Some v \<Rightarrow> Inr v)
      | _ \<Rightarrow> Inl (TypeError (lit ''indices must be integers'')))"

definition text_of :: "runtime \<Rightarrow> json \<Rightarrow> string \<Rightarrow> str result" where
  "text_of rt entry k = rbind (required entry k) (\<lambda>v. Inr (py_str rt v))"

text \<open>\<^verbatim>\<open>list(value)\<close>\<close>

definition list_value :: "json \<Rightarrow> json list result" where
  "list_value v =
     (case v of
        JArr xs \<Rightarrow> Inr xs
      | JObj d \<Rightarrow> Inr (map (\<lambda>(k, v). JStr k) d)
      | JStr s \<Rightarrow> Inr (map (\<lambda>c. JStr [c]) s)
      | _ \<Rightarrow> Inl (TypeError (lit ''object is not iterable'')))"

definition got :: "json \<Rightarrow> string \<Rightarrow> json \<Rightarrow> json result" where
  "got entry k fallback =
     (case entry of
        JObj d \<Rightarrow> Inr (member d k fallback)
      | _ \<Rightarrow> Inl (TypeError (lit ''object has no attribute get'')))"

definition listed_at :: "json \<Rightarrow> string \<Rightarrow> json list result" where
  "listed_at entry k = rbind (got entry k (JArr [])) list_value"

definition text_only :: "json \<Rightarrow> str result" where
  "text_only v = (case v of JStr s \<Rightarrow> Inr s | _ \<Rightarrow> invalid_record)"

definition artifact_type_of_entry :: "runtime \<Rightarrow> json list \<Rightarrow> json \<Rightarrow> artifact_type result" where
  "artifact_type_of_entry rt mime_types entry =
     rbind (text_of rt entry ''id'') (\<lambda>i.
     rbind (text_of rt entry ''display_name'') (\<lambda>name.
     rbind (listed_at entry ''extractor_ids'') (\<lambda>ids.
     rbind (each text_only mime_types) (\<lambda>mimes.
       Inr \<lparr> at_id = i, at_display_name = name,
             at_description = Some (lit ''Career-context source material registered by the job_search domain pack.''),
             at_mime_types = mimes, at_metadata = [(lit ''extractor_ids'', JArr ids)] \<rparr>))))"

definition view_of_entry :: "runtime \<Rightarrow> json \<Rightarrow> view_definition result" where
  "view_of_entry rt entry =
     rbind (text_of rt entry ''id'') (\<lambda>i.
     rbind (text_of rt entry ''display_name'') (\<lambda>name.
     rbind (got entry ''description'' JNull) (\<lambda>d.
     rbind (got entry ''context'' (JObj [])) (\<lambda>context.
       Inr \<lparr> vd_id = i, vd_display_name = name, vd_description = (if json_truthy d then Some (py_str rt d) else None),
             vd_metadata = [(lit ''context_dependency_graph'', context)] \<rparr>))))"

definition entry_named :: "string \<Rightarrow> json \<Rightarrow> bool" where
  "entry_named view_id entry = (case entry of JObj d \<Rightarrow> map_of d (lit ''id'') = Some (JStr (lit view_id)) | _ \<Rightarrow> False)"

definition context_graph_for_view :: "(json \<Rightarrow> context_graph result) \<Rightarrow> json list \<Rightarrow> string \<Rightarrow> context_graph result" where
  "context_graph_for_view validate entries view_id =
     (case find (entry_named view_id) entries of
        Some (JObj d) \<Rightarrow>
          (case map_of d (lit ''context'') of
             None \<Rightarrow> Inl (ValueError (lit ''Job Search view '' @ quoted (lit view_id) @ lit '' is missing context graph.''))
           | Some context \<Rightarrow>
               rbind (validate context) (\<lambda>g.
               rbind (require_node_types g ''signals'') (\<lambda>_.
               rbind (require_node_types g ''actionable_items'') (\<lambda>_. Inr g))))
      | _ \<Rightarrow> Inl (ValueError (lit ''Job Search view '' @ quoted (lit view_id) @ lit '' is not configured.'')))"

section \<open>The job search pack\<close>

definition assisted_extractor ::
  "string \<Rightarrow> string list \<Rightarrow> (artifact \<Rightarrow> artifact_chunk list \<Rightarrow> job_result result) \<Rightarrow> execution_context context_extractor"
where
  "assisted_extractor i types base =
     \<lparr> ex_id = lit i, ex_artifact_type_ids = Some (map lit types),
       ex_extract = (\<lambda>a ks. rbind (base a ks) (\<lambda>r. Inr (jr_outputs r))),
       ex_extract_with_execution = Some (\<lambda>a ks ctx. rbind (extract_with_execution base a ks ctx) (\<lambda>r. Inr (jr_outputs r))) \<rparr>"

definition assisted_builder ::
  "string \<Rightarrow> (build_context \<Rightarrow> perspective_view) \<Rightarrow> context_graph \<Rightarrow> execution_context perspective_builder"
where
  "assisted_builder i base g =
     \<lparr> pb_id = lit i, pb_build = (\<lambda>c. Inr (base c)),
       pb_build_with_execution = Some (build_with_execution (lit i) g (\<lambda>c. Inr (base c))) \<rparr>"

definition assisted_generator :: "string \<Rightarrow> (artifact \<Rightarrow> actionable_item list) \<Rightarrow> execution_context task_generator" where
  "assisted_generator i base =
     \<lparr> tg_id = lit i, tg_generate = (\<lambda>a. Inr (base a)),
       tg_generate_with_execution = Some (generate_with_execution (\<lambda>a. Inr (base a))) \<rparr>"

text \<open>
  A pack is that of one call: \<open>uuid\<close> supplies the hex of the ids the call makes, by kind and
  position.
\<close>

definition job_search_extractors ::
  "(nat \<Rightarrow> bool) \<Rightarrow> (string \<Rightarrow> nat \<Rightarrow> str) \<Rightarrow> execution_context context_extractor list"
where
  "job_search_extractors wide uuid =
     [assisted_extractor ''job-description-extractor'' [''job_description''] (extract_job_description wide uuid),
      assisted_extractor ''resume-extractor'' [''resume''] (extract_resume wide uuid),
      assisted_extractor ''interview-notes-extractor'' [''interview_notes''] (extract_interview_notes wide uuid),
      assisted_extractor ''personal-story-extractor'' [''personal_story''] (extract_personal_story wide uuid),
      assisted_extractor ''career-context-notes-extractor''
        [''recruiter_message'', ''company_research'', ''compensation_notes'', ''follow_up_notes''] (extract_career_notes wide uuid)]"

definition JOB_SEARCH_VIEWS :: "(string \<times> (runtime \<Rightarrow> str \<Rightarrow> build_context \<Rightarrow> perspective_view)) list" where
  "JOB_SEARCH_VIEWS =
     [(''role_fit'', build_role_fit), (''interview_prep'', build_interview_prep),
      (''resume_positioning'', build_resume_positioning), (''application_pipeline'', build_application_pipeline),
      (''compensation_scope_risk'', build_compensation_scope_risk)]"

definition job_search_builders ::
  "runtime \<Rightarrow> (string \<Rightarrow> nat \<Rightarrow> str) \<Rightarrow> (json \<Rightarrow> context_graph result) \<Rightarrow> json list
     \<Rightarrow> execution_context perspective_builder list result"
where
  "job_search_builders rt uuid validate entries =
     each (\<lambda>(i, base). rbind (context_graph_for_view validate entries i) (\<lambda>g.
       Inr (assisted_builder i (base rt (uuid ''view'' 0)) g))) JOB_SEARCH_VIEWS"

definition routing_entry :: "runtime \<Rightarrow> json \<Rightarrow> (str \<times> json) result" where
  "routing_entry rt entry = rbind (text_of rt entry ''id'') (\<lambda>i. rbind (listed_at entry ''extractor_ids'') (\<lambda>ids. Inr (i, JArr ids)))"

definition pack_metadata :: "runtime \<Rightarrow> json_dict \<Rightarrow> json list \<Rightarrow> json_dict result" where
  "pack_metadata rt d types =
     rbind (text_of rt (JObj d) ''id'') (\<lambda>i.
     rbind (listed_at (JObj d) ''unsupported_inputs'') (\<lambda>unsupported.
     rbind (each (routing_entry rt) types) (\<lambda>routing.
       Inr [(lit ''domain_pack'', JStr i), (lit ''status'', JStr (py_str rt (member d ''status'' (JStr (lit ''mvp''))))),
            (lit ''source_grounded'', JBool (json_truthy (member d ''source_grounded'' (JBool True)))),
            (lit ''execution_modes'', strings [lit ''deterministic'', lit ''llm'', lit ''hybrid'']),
            (lit ''llm_assisted'', JBool True), (lit ''unsupported_inputs'', JArr unsupported),
            (lit ''extractor_routing'', JObj (dict_update [] routing))])))"

definition manifest_list :: "json_dict \<Rightarrow> string \<Rightarrow> json list result" where
  "manifest_list d k =
     (case member d k (JArr []) of
        JArr xs \<Rightarrow> Inr xs
      | _ \<Rightarrow> Inl (ValueError (lit ''Job Search domain manifest '' @ lit k @ lit '' must be a list.'')))"

definition build_job_search_domain_pack ::
  "(nat \<Rightarrow> bool) \<Rightarrow> runtime \<Rightarrow> (string \<Rightarrow> nat \<Rightarrow> str) \<Rightarrow> (json \<Rightarrow> context_graph result) \<Rightarrow> json
     \<Rightarrow> execution_context domain_pack result"
where
  "build_job_search_domain_pack wide rt uuid validate manifest =
     (case manifest of
        JObj d \<Rightarrow>
          rbind (manifest_list d ''artifact_types'') (\<lambda>types.
          rbind (manifest_list d ''views'') (\<lambda>entries.
          rbind (listed_at (JObj d) ''accepted_mime_types'') (\<lambda>mimes.
          rbind (text_of rt (JObj d) ''id'') (\<lambda>i.
          rbind (text_of rt (JObj d) ''display_name'') (\<lambda>name.
          rbind (each (artifact_type_of_entry rt mimes) types) (\<lambda>ats.
          rbind (job_search_builders rt uuid validate entries) (\<lambda>builders.
          rbind (each (view_of_entry rt) entries) (\<lambda>views.
          rbind (pack_metadata rt d types) (\<lambda>meta.
            Inr \<lparr> dp_id = i, dp_display_name = name, dp_artifact_types = ats, dp_extractors = job_search_extractors wide uuid,
                  dp_perspective_builders = builders,
                  dp_task_generators = [assisted_generator ''job-search-task-generator'' (generate_tasks (uuid ''task''))],
                  dp_view_definitions = views, dp_chunker = None, dp_ingestors = [], dp_metadata = meta \<rparr>)))))))))
      | _ \<Rightarrow> Inl (ValueError (lit ''Job Search domain manifest must be a mapping.'')))"

section \<open>The test pack\<close>

definition payload_text :: "runtime \<Rightarrow> json_dict \<Rightarrow> string \<Rightarrow> str option" where
  "payload_text rt d k = (case map_of d (lit k) of None \<Rightarrow> None | Some JNull \<Rightarrow> None | Some v \<Rightarrow> Some (py_str rt v))"

definition test_ingest :: "runtime \<Rightarrow> json_dict \<Rightarrow> ingestion_request result" where
  "test_ingest rt d =
     rbind (text_of rt (JObj d) ''owner_id'') (\<lambda>owner.
       Inr \<lparr> ir_domain_id = lit ''test-domain'', ir_type_id = py_str rt (member d ''artifact_type_id'' (JStr (lit ''note''))),
             ir_owner_type = INVITATION_CODE, ir_owner_id = owner, ir_text = strip (py_str rt (member d ''text'' (JStr []))),
             ir_title = payload_text rt d ''title'', ir_source_uri = payload_text rt d ''source_uri'', ir_metadata = [] \<rparr>)"

definition bare_link :: "artifact \<Rightarrow> str option \<Rightarrow> source_link" where
  "bare_link a excerpt = \<lparr> sl_artifact_id = a_id a, sl_chunk_id = None, sl_start = None, sl_end = None, sl_label = None,
     sl_excerpt = excerpt \<rparr>"

definition test_extract :: "(string \<Rightarrow> nat \<Rightarrow> str) \<Rightarrow> artifact \<Rightarrow> artifact_chunk list \<Rightarrow> extraction_result" where
  "test_extract uuid a ks =
     (let l = (case ks of k # _ \<Rightarrow> ck_source_link k | [] \<Rightarrow> bare_link a (Some (take 120 (a_text a))))
      in \<lparr> er_entities = [\<lparr> en_id = new_context_id ''entity'' (uuid ''entity'' 0), en_type = lit ''test_entity'',
               en_name = str_or (a_title a) (lit ''Untitled artifact''), en_links = [l], en_metadata = [] \<rparr>],
           er_relationships = [],
           er_signals = [\<lparr> sg_id = new_context_id ''signal'' (uuid ''signal'' 0), sg_type = lit ''test_signal'',
               sg_label = lit ''Artifact contains text'', sg_value = JBool (strip (a_text a) \<noteq> []), sg_links = [l], sg_metadata = [] \<rparr>],
           er_items = [\<lparr> ai_id = new_context_id ''item'' (uuid ''item'' 0), ai_type = lit ''test_action'',
               ai_title = lit ''Review artifact'', ai_description = None, ai_readiness = READY_FOR_AGENT, ai_links = [l],
               ai_metadata = [] \<rparr>] \<rparr>)"

text \<open>\<^verbatim>\<open>IndexError\<close> is no class a caller names and a \<^verbatim>\<open>RuntimeError\<close> here.\<close>

definition test_build :: "str \<Rightarrow> build_context \<Rightarrow> perspective_view result" where
  "test_build uuid c =
     (case bc_artifacts c of
        a # _ \<Rightarrow> Inr (new_view uuid (lit ''test-summary'') (lit ''Test Summary'')
          [\<lparr> vs_id = lit ''summary'', vs_title = lit ''Summary'', vs_content = Some (take 200 (a_text a)), vs_evidence = [],
             vs_metadata = [] \<rparr>])
      | [] \<Rightarrow> Inl (RuntimeError (lit ''list index out of range'')))"

definition test_generate :: "(nat \<Rightarrow> str) \<Rightarrow> artifact \<Rightarrow> actionable_item list" where
  "test_generate uuid a =
     [\<lparr> ai_id = new_context_id ''item'' (uuid 0), ai_type = lit ''test_generated_task'',
        ai_title = lit ''Check '' @ str_or (a_title a) (lit ''artifact''), ai_description = None,
        ai_readiness = NEEDS_HUMAN_CLARIFICATION, ai_links = [bare_link a None], ai_metadata = [] \<rparr>]"

definition build_test_domain_pack :: "runtime \<Rightarrow> (string \<Rightarrow> nat \<Rightarrow> str) \<Rightarrow> execution_context domain_pack" where
  "build_test_domain_pack rt uuid =
     \<lparr> dp_id = lit ''test-domain'', dp_display_name = lit ''Test Domain'',
       dp_artifact_types = [\<lparr> at_id = lit ''note'', at_display_name = lit ''Note'',
           at_description = Some (lit ''Small generic text artifact for validating extensions.''),
           at_mime_types = [lit ''text/plain''], at_metadata = [] \<rparr>],
       dp_extractors = [\<lparr> ex_id = lit ''test-domain-extractor'', ex_artifact_type_ids = None,
           ex_extract = (\<lambda>a ks. Inr (test_extract uuid a ks)), ex_extract_with_execution = None \<rparr>],
       dp_perspective_builders = [\<lparr> pb_id = lit ''test-summary'', pb_build = test_build (uuid ''view'' 0),
           pb_build_with_execution = None \<rparr>],
       dp_task_generators = [\<lparr> tg_id = lit ''test-task-generator'', tg_generate = (\<lambda>a. Inr (test_generate (uuid ''task'') a)),
           tg_generate_with_execution = None \<rparr>],
       dp_view_definitions = [\<lparr> vd_id = lit ''test-summary'', vd_display_name = lit ''Test Summary'',
           vd_description = Some (lit ''Minimal registered view for tests.''), vd_metadata = [] \<rparr>],
       dp_chunker = None, dp_ingestors = [\<lparr> ing_id = lit ''test-artifact-ingestor'', ing_ingest = test_ingest rt \<rparr>],
       dp_metadata = [(lit ''purpose'', JStr (lit ''architecture-validation''))] \<rparr>"

section \<open>Start-up\<close>

definition build_domain_registry ::
  "(nat \<Rightarrow> bool) \<Rightarrow> runtime \<Rightarrow> (string \<Rightarrow> nat \<Rightarrow> str) \<Rightarrow> (json \<Rightarrow> context_graph result) \<Rightarrow> json \<Rightarrow> str
     \<Rightarrow> execution_context domain_registry result"
where
  "build_domain_registry wide rt uuid validate manifest environment =
     rbind (build_job_search_domain_pack wide rt uuid validate manifest) (\<lambda>p.
     rbind (register_domain [] p) (\<lambda>reg.
       if environment = lit ''test'' then register_domain reg (build_test_domain_pack rt uuid) else Inr reg))"

text \<open>\<open>base\<close> has everything an execution context needs but the catalog, the mode and the prompts' root.\<close>

definition build_execution_context ::
  "(str \<Rightarrow> 'p option result) \<Rightarrow> ('p \<Rightarrow> flow_catalog result) \<Rightarrow> str list \<Rightarrow> str \<Rightarrow> str \<Rightarrow> str \<Rightarrow> execution_context
     \<Rightarrow> execution_context option result"
where
  "build_execution_context read decode cwd path mode environment base =
     (case load_context_model_flow_catalog read decode path of
        Inl (ValueError e) \<Rightarrow> if environment = lit ''test'' then Inr None else Inl (ValueError e)
      | Inl e \<Rightarrow> Inl e
      | Inr catalog \<Rightarrow> rbind (execution_mode_of mode) (\<lambda>m.
          Inr (Some (base\<lparr> xc_catalog := catalog, xc_mode_override := Some m,
                xc_prompt_root := cwd @ [lit ''app'', lit ''domains''] \<rparr>))))"

end
