(* ===== verification/Job_Properties.thy ===== *)
theory Job_Properties
  imports Job_Pack
begin

text \<open>
  What the job search domain promises: the records of an artifact are grounded in it whatever a
  model answers, a model that fails costs nothing but its own records, and what a model is shown
  and what it may cite is bounded by the owner's context.
\<close>

section \<open>Records of a model's answer\<close>

lemma each_all: "each f xs = Inr ys \<Longrightarrow> (\<forall>x \<in> set xs. \<forall>y. f x = Inr y \<longrightarrow> P y) \<Longrightarrow> list_all P ys"
  by (induction xs arbitrary: ys) (fastforce simp: rbind_eq_Inr)+

lemma reference_link_to: "reference_link r known a = Inr l \<Longrightarrow> link_to (a_id a) l"
  by (auto simp: reference_link_def link_to_def split: option.splits if_splits)

lemma reference_links_to: "reference_links ks a rs = Inr ls \<Longrightarrow> links_to (a_id a) ls"
  by (auto simp: reference_links_def links_to_def rbind_eq_Inr split: if_splits
      elim!: each_all intro: reference_link_to)

lemma map_entity_to: "map_entity x step ks a ne = Inr e \<Longrightarrow> links_to (a_id a) (en_links e)"
  by (auto simp: map_entity_def rbind_eq_Inr split: prod.splits dest: reference_links_to)

lemma map_signal_to: "map_signal x step ks a ns = Inr s \<Longrightarrow> links_to (a_id a) (sg_links s)"
  by (auto simp: map_signal_def rbind_eq_Inr split: prod.splits dest: reference_links_to)

lemma map_item_to: "map_item kind x step ks a ni = Inr i \<Longrightarrow> links_to (a_id a) (ai_links i)"
  by (auto simp: map_item_def rbind_eq_Inr split: prod.splits dest: reference_links_to)

lemma map_items_to: "map_items kind x step ks a is = Inr js \<Longrightarrow> list_all (\<lambda>i. links_to (a_id a) (ai_links i)) js"
  by (auto simp: map_items_def elim!: each_all intro: map_item_to)

lemma map_relationships_to:
  "map_relationships x step ks a es ps = Inr (rs, ws) \<Longrightarrow> list_all (\<lambda>r. links_to (a_id a) (rl_links r)) rs"
proof (induction ps arbitrary: rs ws)
  case (Cons np ps)
  obtain n p where np: "np = (n, p)" by fastforce
  show ?case using Cons by (auto simp: np rbind_eq_Inr split: option.splits dest: reference_links_to)
qed simp

lemma map_extraction_to: "map_extraction_output x step ks a out = Inr r \<Longrightarrow> outputs_to (a_id a) (jr_outputs r)"
  by (auto simp: map_extraction_output_def rbind_eq_Inr outputs_to_def
      elim!: each_all intro: map_entity_to map_signal_to dest: map_relationships_to map_items_to)

section \<open>Adapters keep the records grounded\<close>

lemma marked_to: "outputs_to i (jr_outputs (mark_deterministic_extraction r)) = outputs_to i (jr_outputs r)"
  by (simp add: outputs_to_def mark_deterministic_extraction_def on_outputs_def list.pred_map comp_def)

lemma warned_to: "outputs_to i (jr_outputs (with_fallback_warning w r)) = outputs_to i (jr_outputs r)"
  by (simp add: outputs_to_def with_fallback_warning_def Let_def list.pred_map comp_def)

lemma extended_to: "outputs_to i a \<Longrightarrow> outputs_to i b \<Longrightarrow> outputs_to i (extend_extraction a b)"
  by (simp add: outputs_to_def extend_extraction_def)

lemma model_extraction_to: "model_extraction x a ks = Inr (Some (mode, out, r)) \<Longrightarrow> outputs_to (a_id a) (jr_outputs r)"
  by (auto simp: model_extraction_def rbind_eq_Inr split: if_splits intro: map_extraction_to)

lemma with_model_to:
  "outputs_to i (jr_outputs r) \<Longrightarrow> outputs_to i (jr_outputs d) \<Longrightarrow> outputs_to i (jr_outputs (with_model_extraction mode out r d))"
  by (auto simp: with_model_extraction_def extended_to)

lemma extract_with_execution_to:
  assumes "extracts_to (a_id a) (base a ks)"
  shows "extracts_to (a_id a) (extract_with_execution base a ks ctx)"
  using assms
  by (auto simp: extract_with_execution_def extracts_to_def yields_def Let_def marked_to warned_to
      intro!: with_model_to dest!: model_extraction_to split: option.splits sum.splits)

definition supplies_to :: "str \<Rightarrow> actionable_item list result \<Rightarrow> bool" where
  "supplies_to i r \<longleftrightarrow> yields (list_all (\<lambda>x. links_to i (ai_links x))) r"

lemma model_tasks_to: "model_tasks x a ks items = Inr (Some (mode, new)) \<Longrightarrow> list_all (\<lambda>i. links_to (a_id a) (ai_links i)) new"
  by (auto simp: model_tasks_def rbind_eq_Inr split: if_splits intro: map_items_to)

lemma generate_with_execution_to:
  assumes "supplies_to (a_id a) (base a)" and "list_all (\<lambda>i. links_to (a_id a) (ai_links i)) current"
  shows "supplies_to (a_id a) (generate_with_execution base a ks current ctx)"
  using assms
  by (auto simp: generate_with_execution_def supplies_to_def yields_def Let_def list.pred_map comp_def warned_item_def
      dest!: model_tasks_to split: option.splits sum.splits)

lemma generate_tasks_to: "list_all (\<lambda>i. links_to (a_id a) (ai_links i)) (generate_tasks uuid a)"
proof -
  have "f \<in> set (tasks_for a) \<Longrightarrow> links_to (a_id a) (ai_links (f u))" for f u
    by (auto simp: tasks_for_def Let_def task_item_def artifact_source_def link_to_def split: if_splits)
  then show ?thesis by (auto simp: generate_tasks_def list_all_iff dest!: in_numbered_with)
qed

section \<open>The extensions of a pack\<close>

lemma job_search_packD:
  assumes "build_job_search_domain_pack wide rt uuid validate manifest = Inr p"
  shows "dp_extractors p = job_search_extractors wide uuid"
    "dp_task_generators p = [assisted_generator ''job-search-task-generator'' (generate_tasks (uuid ''task''))]"
    "dp_chunker p = None"
  using assms by (auto simp: build_job_search_domain_pack_def rbind_eq_Inr split: json.splits)

definition grounded_extractor :: "'x context_extractor \<Rightarrow> bool" where
  "grounded_extractor ex \<longleftrightarrow> (\<forall>ctx a ks. chunks_from (a_id a) ks \<longrightarrow> yields (outputs_to (a_id a)) (run_extractor ctx a ks ex))"

lemma assisted_grounded:
  assumes "\<And>a ks. chunks_from (a_id a) ks \<Longrightarrow> extracts_to (a_id a) (base a ks)"
  shows "grounded_extractor (assisted_extractor i types base)"
  unfolding grounded_extractor_def
proof (intro allI impI)
  fix ctx and a :: artifact and ks
  assume "chunks_from (a_id a) ks"
  then have "extracts_to (a_id a) (extract_with_execution base a ks ctx)"
    by (intro extract_with_execution_to assms)
  then show "yields (outputs_to (a_id a)) (run_extractor ctx a ks (assisted_extractor i types base))"
    by (auto simp: run_extractor_def assisted_extractor_def extracts_to_def yields_def)
qed

lemma job_search_grounded: "list_all grounded_extractor (job_search_extractors wide uuid)"
  by (auto simp: job_search_extractors_def
      intro!: assisted_grounded job_description_to resume_to interview_notes_to personal_story_to career_notes_to)

lemma run_extractors_to:
  assumes "chunks_from (a_id a) ks" and "list_all grounded_extractor exs" and "outputs_to (a_id a) acc"
  shows "yields (\<lambda>(r, ids). outputs_to (a_id a) r) (run_extractors ctx a ks exs (acc, ids))"
  using assms(2,3)
proof (induction exs arbitrary: acc ids)
  case (Cons ex exs)
  show ?case
  proof (cases "supports (a_type_id a) ex")
    case True
    have "yields (outputs_to (a_id a)) (run_extractor ctx a ks ex)"
      using Cons.prems assms(1) by (simp add: grounded_extractor_def)
    then have "yields (\<lambda>(r, ids). outputs_to (a_id a) r)
        (rbind (run_extractor ctx a ks ex) (\<lambda>r. run_extractors ctx a ks exs (extend_extraction acc r, ids @ [ex_id ex])))"
      by (rule yields_rbind) (use Cons in \<open>auto intro!: extended_to\<close>)
    then show ?thesis using True by simp
  qed (use Cons in auto)
qed (simp add: yields_Inr)

lemma chunks_from_chunker: "strip (a_text a) \<noteq> [] \<Longrightarrow> chunks_from (a_id a) (chunk c u a)"
proof -
  assume "strip (a_text a) \<noteq> []"
  then have "0 < length (a_text a)" by (cases "a_text a") (auto simp: strip_def rstrip_def lstrip_def)
  then have "chunk c u a \<noteq> []" using chunk_loop_text [of 0 a c u 0] by (auto simp: chunk_def)
  then show ?thesis using chunk_loop_ok [of c a u 0 0]
    by (auto simp: chunks_from_def chunk_def list_all_iff chunk_ok_def link_to_def)
qed

lemma run_extensions_to:
  assumes p: "build_job_search_domain_pack wide rt uuid validate manifest = Inr p" and ks: "chunks_from (a_id a) ks"
  shows "\<exists>r ids. run_extensions ctx p a ks = Inr (r, ids) \<and> outputs_to (a_id a) r"
proof -
  have "outputs_to (a_id a) no_extraction" by (simp add: outputs_to_def no_extraction_def)
  from run_extractors_to [OF ks job_search_grounded this, of ctx wide uuid "[]"]
  obtain r ids where r: "run_extractors ctx a ks (dp_extractors p) (no_extraction, []) = Inr (r, ids)" "outputs_to (a_id a) r"
    by (auto simp: job_search_packD [OF p] yields_def)
  have "supplies_to (a_id a) (generate_with_execution (\<lambda>a. Inr (generate_tasks (uuid ''task'') a)) a ks (er_items r) ctx)"
    by (rule generate_with_execution_to) (use r(2) in \<open>auto simp: supplies_to_def yields_def generate_tasks_to outputs_to_def\<close>)
  then obtain items where "generate_with_execution (\<lambda>a. Inr (generate_tasks (uuid ''task'') a)) a ks (er_items r) ctx = Inr items"
    "list_all (\<lambda>x. links_to (a_id a) (ai_links x)) items" by (auto simp: supplies_to_def yields_def)
  then show ?thesis using r
    by (simp add: run_extensions_def job_search_packD [OF p] assisted_generator_def outputs_to_def)
qed

section \<open>A silent model\<close>

definition without_metadata :: "extraction_result \<Rightarrow> extraction_result" where
  "without_metadata r =
     \<lparr> er_entities = map (en_metadata_update (\<lambda>_. [])) (er_entities r),
       er_relationships = map (rl_metadata_update (\<lambda>_. [])) (er_relationships r),
       er_signals = map (sg_metadata_update (\<lambda>_. [])) (er_signals r), er_items = map (ai_metadata_update (\<lambda>_. [])) (er_items r) \<rparr>"

text \<open>The caller is in an event loop, the setting is rule-based, or every request raises.\<close>

definition silent :: "execution_context \<Rightarrow> bool" where
  "silent x \<longleftrightarrow> xc_in_loop x \<or> xc_mode_override x = Some DETERMINISTIC
     \<or> (\<forall>m s i p. isl (xc_extraction x m s i p) \<and> isl (xc_view x m s i p) \<and> isl (xc_tasks x m s i p))"

lemma run_structured_isl:
  "in_loop \<or> (\<forall>m s i p. isl (ask m s i p)) \<Longrightarrow> isl (run_structured settings in_loop ask step i p)"
  by (cases "create_model (mp_provider (rs_model_profile step)) (mp_model (rs_model_profile step)) settings")
     (auto simp: run_structured_def outside_loop_def Let_def)

lemma rbind_isl: "isl r \<Longrightarrow> isl (rbind r f)"
  by (cases r) auto

lemma step_mode: "context_step x d f s p = Inr step \<Longrightarrow> xc_mode_override x = Some m \<Longrightarrow> rs_mode step = m"
  by (auto simp: context_step_def dest: resolve_step_mode)

lemma silent_extraction: "silent x \<Longrightarrow> model_extraction x a ks = Inr r \<Longrightarrow> r = None"
  by (auto simp: model_extraction_def silent_def rbind_eq_Inr dest: step_mode split: if_splits)
     (metis isl_def run_structured_isl sum.disc(2))+

lemma silent_tasks: "silent x \<Longrightarrow> model_tasks x a ks items = Inr r \<Longrightarrow> r = None"
  by (auto simp: model_tasks_def silent_def rbind_eq_Inr dest: step_mode split: if_splits)
     (metis isl_def run_structured_isl sum.disc(2))+

definition plain_items :: "actionable_item list \<Rightarrow> actionable_item list" where
  "plain_items is = map (ai_metadata_update (\<lambda>_. [])) is"

lemma plain_warned [simp]: "plain_items (map (warned_item w) is) = plain_items is"
  by (simp add: plain_items_def warned_item_def)

lemma plain_append [simp]: "plain_items (xs @ ys) = plain_items xs @ plain_items ys"
  by (simp add: plain_items_def)

lemma without_metadata_warned [simp]:
  "without_metadata (jr_outputs (with_fallback_warning w r)) = without_metadata (jr_outputs r)"
  by (simp add: without_metadata_def with_fallback_warning_def Let_def)

lemma without_metadata_extend:
  "without_metadata (extend_extraction a b) = extend_extraction (without_metadata a) (without_metadata b)"
  by (simp add: without_metadata_def extend_extraction_def)

lemma without_metadata_items: "without_metadata (r\<lparr> er_items := is \<rparr>) = (without_metadata r)\<lparr> er_items := plain_items is \<rparr>"
  by (simp add: without_metadata_def plain_items_def)

lemma er_items_without_metadata: "er_items (without_metadata r) = plain_items (er_items r)"
  by (simp add: without_metadata_def plain_items_def)

definition same_records :: "extraction_result result \<Rightarrow> extraction_result result \<Rightarrow> bool" where
  "same_records r s \<longleftrightarrow> (\<exists>x y. r = Inr x \<and> s = Inr y \<and> without_metadata x = without_metadata y)"

lemma silent_extract:
  assumes "silent x" and "extracts_to i (base a ks)"
  shows "same_records (rbind (extract_with_execution base a ks (Some x)) (\<lambda>r. Inr (jr_outputs r)))
    (rbind (extract_with_execution base a ks None) (\<lambda>r. Inr (jr_outputs r)))"
proof -
  obtain d where d: "base a ks = Inr d" using assms(2) by (auto simp: extracts_to_def yields_def)
  have "model_extraction x a ks = Inr None \<or> (\<exists>e. model_extraction x a ks = Inl e)"
    using silent_extraction [OF assms(1), of a ks] by (cases "model_extraction x a ks") auto
  then show ?thesis by (auto simp: d extract_with_execution_def Let_def same_records_def)
qed

definition quiet_extractor :: "execution_context \<Rightarrow> execution_context context_extractor \<Rightarrow> bool" where
  "quiet_extractor x ex \<longleftrightarrow> (\<forall>a ks. chunks_from (a_id a) ks \<longrightarrow> same_records (run_extractor (Some x) a ks ex) (run_extractor None a ks ex))"

lemma assisted_quiet:
  assumes "silent x" and "\<And>a ks. chunks_from (a_id a) ks \<Longrightarrow> extracts_to (a_id a) (base a ks)"
  shows "quiet_extractor x (assisted_extractor i types base)"
  using silent_extract [OF assms(1) assms(2)]
  by (simp add: quiet_extractor_def run_extractor_def assisted_extractor_def)

lemma job_search_quiet: "silent x \<Longrightarrow> list_all (quiet_extractor x) (job_search_extractors wide uuid)"
  by (auto simp: job_search_extractors_def
      intro!: assisted_quiet job_description_to resume_to interview_notes_to personal_story_to career_notes_to)

lemma quiet_extractors:
  assumes "chunks_from (a_id a) ks" and "list_all (quiet_extractor x) exs" and "without_metadata acc = without_metadata acc1"
  shows "\<exists>r r1 js. run_extractors (Some x) a ks exs (acc, ids) = Inr (r, js) \<and> run_extractors None a ks exs (acc1, ids) = Inr (r1, js)
    \<and> without_metadata r = without_metadata r1"
  using assms(2,3)
proof (induction exs arbitrary: acc acc1 ids)
  case (Cons ex exs)
  show ?case
  proof (cases "supports (a_type_id a) ex")
    case True
    have "same_records (run_extractor (Some x) a ks ex) (run_extractor None a ks ex)"
      using Cons.prems(1) assms(1) by (simp add: quiet_extractor_def)
    then obtain r r1 where r: "run_extractor (Some x) a ks ex = Inr r" "run_extractor None a ks ex = Inr r1"
      "without_metadata r = without_metadata r1"
      unfolding same_records_def by blast
    have "without_metadata (extend_extraction acc r) = without_metadata (extend_extraction acc1 r1)"
      by (simp add: without_metadata_extend Cons.prems(2) r(3))
    from Cons.IH [OF _ this, of "ids @ [ex_id ex]"] show ?thesis using Cons.prems(1) True by (simp add: r)
  qed (use Cons in auto)
qed simp

lemma silent_generate:
  assumes "silent x" and "plain_items current = plain_items current1"
  shows "\<exists>is js. generate_with_execution (\<lambda>a. Inr (base a)) a ks current (Some x) = Inr is
    \<and> generate_with_execution (\<lambda>a. Inr (base a)) a ks current1 None = Inr js \<and> plain_items is = plain_items js"
proof -
  have "model_tasks x a ks items = Inr None \<or> (\<exists>e. model_tasks x a ks items = Inl e)" for items
    using silent_tasks [OF assms(1), of a ks items] by (cases "model_tasks x a ks items") auto
  from this [of "current @ map (ai_metadata_update (mark ''inferred'')) (base a)"] assms(2)
  show ?thesis by (auto simp: generate_with_execution_def Let_def simp del: map_map)
qed

lemma silent_extensions:
  assumes p: "build_job_search_domain_pack wide rt uuid validate manifest = Inr p" and ks: "chunks_from (a_id a) ks" and x: "silent x"
  shows "\<exists>r r1 ids. run_extensions (Some x) p a ks = Inr (r, ids) \<and> run_extensions None p a ks = Inr (r1, ids)
    \<and> without_metadata r = without_metadata r1"
proof -
  obtain r r1 ids where r: "run_extractors (Some x) a ks (dp_extractors p) (no_extraction, []) = Inr (r, ids)"
    "run_extractors None a ks (dp_extractors p) (no_extraction, []) = Inr (r1, ids)" "without_metadata r = without_metadata r1"
    using quiet_extractors [OF ks job_search_quiet [OF x], of no_extraction no_extraction wide uuid "[]"]
    by (auto simp: job_search_packD [OF p])
  have "plain_items (er_items r) = plain_items (er_items r1)" using arg_cong [OF r(3), of er_items] by (simp add: er_items_without_metadata)
  from silent_generate [OF x this, of "generate_tasks (uuid ''task'')" a ks] show ?thesis using r
    by (auto simp: run_extensions_def job_search_packD [OF p] assisted_generator_def without_metadata_items)
qed

section \<open>Short ids\<close>

definition short_ids_ok :: "string \<Rightarrow> id_map \<Rightarrow> bool" where
  "short_ids_ok prefix m \<longleftrightarrow> distinct (map fst m) \<and> map snd m = map (\<lambda>n. lit prefix @ show_nat (n + 1)) [0..<length m]"

lemma show_nat_inj: "show_nat m = show_nat n \<longleftrightarrow> m = n"
  by (metis dec_value_show_nat)

lemma compact_ok: "short_ids_ok prefix m \<Longrightarrow> short_ids_ok prefix (snd (compact prefix m i))
    \<and> map_of (snd (compact prefix m i)) i = Some (fst (compact prefix m i))
    \<and> (\<exists>more. snd (compact prefix m i) = m @ more)"
  by (auto simp: compact_def Let_def short_ids_ok_def map_add_def dest: map_of_eq_None_iff [THEN iffD1] split: option.splits)

lemma short_ids_find:
  assumes "short_ids_ok prefix m" and "(i, c) \<in> set m"
  shows "find (\<lambda>(original, short). short = c) m = Some (i, c)"
proof -
  have d: "distinct (map snd m)" using assms(1)
    by (auto simp: short_ids_ok_def distinct_map inj_on_def show_nat_inj)
  show ?thesis using assms(2) d
  proof (induction m)
    case (Cons x m)
    then show ?case by (cases x) (force simp: in_set_conv_decomp)
  qed simp
qed

definition advances :: "prompt_ids \<Rightarrow> prompt_ids \<Rightarrow> bool" where
  "advances p q \<longleftrightarrow> (short_ids_ok ''c'' (pi_chunks p) \<longrightarrow> short_ids_ok ''c'' (pi_chunks q)) \<and> (\<exists>more. pi_chunks q = pi_chunks p @ more)"

lemma advances_refl [simp]: "advances p p"
  by (simp add: advances_def)

lemma advances_trans [trans]: "advances p q \<Longrightarrow> advances q r \<Longrightarrow> advances p r"
  by (auto simp: advances_def)

lemma advances_keys: "advances p q \<Longrightarrow> fst ` set (pi_chunks p) \<subseteq> fst ` set (pi_chunks q)"
  by (auto simp: advances_def)

named_theorems advancing

lemma advances_refs [advancing]:
  "artifact_ref i p = (c, q) \<Longrightarrow> advances p q" "signal_ref i p = (c, q) \<Longrightarrow> advances p q" "item_ref i p = (c, q) \<Longrightarrow> advances p q"
  by (auto simp: advances_def artifact_ref_def signal_ref_def item_ref_def split: prod.splits)

lemma chunk_ref_advances [advancing]: "chunk_ref i p = (c, q) \<Longrightarrow> advances p q"
  using compact_ok [of "''c''" "pi_chunks p" i] by (cases "compact ''c'' (pi_chunks p) i")
    (auto simp: advances_def chunk_ref_def compact_def Let_def split: option.splits)

lemma chunk_ref_known: "chunk_ref i p = (c, q) \<Longrightarrow> i \<in> fst ` set (pi_chunks q)"
  by (auto simp: chunk_ref_def compact_def Let_def image_iff split: option.splits dest!: map_of_SomeD) (metis fst_conv)

lemma threaded_advances:
  assumes "\<And>x p y q. f x p = (y, q) \<Longrightarrow> advances p q" and "threaded f xs p = (ys, q)"
  shows "advances p q"
  using assms(2)
proof (induction xs arbitrary: p ys)
  case (Cons x xs)
  then show ?case by (auto split: prod.splits intro: advances_trans [OF assms(1)])
qed simp

lemma link_advances [advancing]: "compact_source_link l s p = (j, q) \<Longrightarrow> advances p q"
  by (auto simp: compact_source_link_def split: prod.splits if_splits intro: advances_trans [OF advances_refs(1) chunk_ref_advances]
      dest: advances_refs(1))

lemma links_advances [advancing]: "compact_source_links l ss p = (j, q) \<Longrightarrow> advances p q"
  by (auto simp: compact_source_links_def split: prod.splits intro: threaded_advances [OF link_advances])

lemma evidence_advances [advancing]: "compact_evidence l e p = (j, q) \<Longrightarrow> advances p q"
  by (auto simp: compact_evidence_def split: prod.splits intro: link_advances)

lemma section_advances [advancing]: "compact_section l x p = (j, q) \<Longrightarrow> advances p q"
  by (auto simp: compact_section_def split: prod.splits intro: threaded_advances [OF evidence_advances])

lemma view_advances [advancing]: "compact_view l v p = (j, q) \<Longrightarrow> advances p q"
  by (auto simp: compact_view_def split: prod.splits intro: threaded_advances [OF section_advances])

lemma artifact_advances [advancing]: "compact_artifact a p = (j, q) \<Longrightarrow> advances p q"
  by (auto simp: compact_artifact_def split: prod.splits intro: advances_refs)

lemma chunk_advances [advancing]: "compact_chunk l k p = (j, q) \<Longrightarrow> advances p q"
  by (auto simp: compact_chunk_def split: prod.splits intro: advances_trans [OF chunk_ref_advances advances_refs(1)])

lemma signal_advances [advancing]: "compact_signal l x p = (j, q) \<Longrightarrow> advances p q"
  by (auto simp: compact_signal_def split: prod.splits intro: advances_trans [OF advances_refs(2) links_advances])

lemma item_advances [advancing]: "compact_item l x p = (j, q) \<Longrightarrow> advances p q"
  by (auto simp: compact_item_def split: prod.splits intro: advances_trans [OF advances_refs(3) links_advances])

lemma compact_chunk_known: "compact_chunk l k p = (j, q) \<Longrightarrow> ck_id k \<in> fst ` set (pi_chunks q)"
  by (auto simp: compact_chunk_def split: prod.splits dest!: chunk_ref_known advances_refs(1) dest: advances_keys)

lemma chunks_known: "threaded (compact_chunk l) ks p = (js, q) \<Longrightarrow> ck_id ` set ks \<subseteq> fst ` set (pi_chunks q)"
proof (induction ks arbitrary: p js)
  case (Cons k ks)
  obtain j r where r: "compact_chunk l k p = (j, r)" by fastforce
  obtain js1 where q: "threaded (compact_chunk l) ks r = (js1, q)" using Cons.prems by (auto simp: r split: prod.splits)
  have "ck_id k \<in> fst ` set (pi_chunks q)"
    using compact_chunk_known [OF r] advances_keys [OF threaded_advances [of "compact_chunk l", OF _ q]] chunk_advances by blast
  then show ?case using Cons.IH [OF q] by simp
qed simp

lemma perspective_ids:
  "short_ids_ok ''c'' (pi_chunks (snd (perspective_prompt c v g)))
   \<and> ck_id ` set (select_chunks c v g) \<subseteq> fst ` set (pi_chunks (snd (perspective_prompt c v g)))"
proof -
  let ?l = "cg_limits g" and ?ks = "select_chunks c v g"
  obtain view p1 where 1: "compact_view ?l v no_ids = (view, p1)" by fastforce
  obtain as p2 where 2: "threaded compact_artifact (artifacts_for_chunks (bc_artifacts c) ?ks) p1 = (as, p2)" by fastforce
  obtain cs p3 where 3: "threaded (compact_chunk ?l) ?ks p2 = (cs, p3)" by fastforce
  obtain ss p4 where 4: "threaded (compact_signal ?l) (prompt_signals c g ?ks) p3 = (ss, p4)" by fastforce
  obtain xs p5 where 5: "threaded (compact_item ?l) (prompt_items c g ?ks) p4 = (xs, p5)" by fastforce
  have p5: "snd (perspective_prompt c v g) = p5" by (simp add: perspective_prompt_def Let_def 1 2 3 4 5)
  have a: "advances p3 p4" "advances p4 p5"
    using threaded_advances [of "compact_signal ?l", OF _ 4] threaded_advances [of "compact_item ?l", OF _ 5]
      signal_advances item_advances by blast+
  have "advances p1 p2" "advances p2 p3"
    using threaded_advances [of compact_artifact, OF _ 2] threaded_advances [of "compact_chunk ?l", OF _ 3]
      artifact_advances chunk_advances by blast+
  then have "advances no_ids p3" using advances_trans view_advances [OF 1] by blast
  then have "advances no_ids p5" using a advances_trans by blast
  then have "short_ids_ok ''c'' (pi_chunks p5)"
    by (auto simp: advances_def no_ids_def short_ids_ok_def)
  moreover have "ck_id ` set ?ks \<subseteq> fst ` set (pi_chunks p5)"
    using chunks_known [OF 3] advances_keys [OF advances_trans [OF a(1) a(2)]] by (rule subset_trans)
  ultimately show ?thesis by (simp add: p5)
qed

lemma original_of_short: "short_ids_ok ''c'' (pi_chunks p) \<Longrightarrow> (i, c) \<in> set (pi_chunks p) \<Longrightarrow> original_chunk_id p c = i"
  by (simp add: original_chunk_id_def short_ids_find)

section \<open>Bounds of a prompt\<close>

lemma dedupe_unless_props:
  "distinct (map ck_id (dedupe_unless seen ks)) \<and> set (dedupe_unless seen ks) \<subseteq> set ks
   \<and> ck_id ` set (dedupe_unless seen ks) \<inter> set seen = {}"
  by (induction seen ks rule: dedupe_unless.induct) auto

lemma by_key_member: "by_key f xs k = Some x \<Longrightarrow> x \<in> set xs \<and> f x = k"
  unfolding by_key_def find_Some_iff by (metis length_rev nth_mem set_rev)

lemma selected_from: "set (select_chunks c v g) \<subseteq> set (bc_chunks c)"
proof -
  let ?found = "\<lambda>ids. dedupe_chunks (List.map_filter (by_key ck_id (bc_chunks c)) ids)"
  have dedupe: "set (dedupe_chunks ks) \<subseteq> set ks" for ks using dedupe_unless_props by (simp add: dedupe_chunks_def)
  have "set (List.map_filter (by_key ck_id (bc_chunks c)) ids) \<subseteq> set (bc_chunks c)" for ids
    by (auto simp: List.map_filter_def dest: by_key_member)
  then have found: "set (?found ids) \<subseteq> set (bc_chunks c)" for ids using dedupe by (rule subset_trans [rotated])
  have "set (take n (dedupe_chunks (if b then ?found ids @ filter P (bc_chunks c) else ?found ids))) \<subseteq> set (bc_chunks c)" for n b ids P
  proof -
    have "set (if b then ?found ids @ filter P (bc_chunks c) else ?found ids) \<subseteq> set (bc_chunks c)"
      using found [of ids] by auto
    then show ?thesis using dedupe set_take_subset by (meson subset_trans)
  qed
  then show ?thesis unfolding select_chunks_def Let_def .
qed

lemma selected_distinct: "distinct (map ck_id (select_chunks c v g))"
  using dedupe_unless_props by (simp add: select_chunks_def Let_def dedupe_chunks_def flip: take_map)

lemma selected_length: "length (select_chunks c v g) \<le> cl_chunks (cg_limits g)"
  by (simp add: select_chunks_def Let_def)

section \<open>What a model's view cites\<close>

definition cites :: "build_context \<Rightarrow> source_link \<Rightarrow> bool" where
  "cites c l \<longleftrightarrow> list_ex (\<lambda>k. sl_chunk_id l = Some (ck_id k) \<and> sl_artifact_id l = ck_artifact_id k
     \<and> sl_start l = Some (ck_start k) \<and> sl_end l = Some (ck_end k) \<and> list_ex (\<lambda>a. a_id a = ck_artifact_id k) (bc_artifacts c))
     (bc_chunks c)"

lemma section_evidence_cites: "section_evidence c p sec r = Inr e \<Longrightarrow> cites c (el_source e)"
  by (auto simp: section_evidence_def Let_def rbind_eq_Inr reference_link_def cites_def list_ex_iff
      split: option.splits if_splits dest!: by_key_member)

lemma mapped_view_cites:
  assumes "map_perspective_output x step c view_id p out = Inr v"
  shows "list_all (\<lambda>s. list_all (\<lambda>e. cites c (el_source e)) (vs_evidence s)) (pv_sections v)"
proof -
  have "list_all (\<lambda>e. cites c (el_source e)) (vs_evidence s)" if "map_section x step c p sec = Inr s" for sec s
    using that by (auto simp: map_section_def rbind_eq_Inr elim!: each_all dest: section_evidence_cites)
  then show ?thesis using assms
    by (auto simp: map_perspective_output_def rbind_eq_Inr new_view_def elim!: each_all)
qed

section \<open>Located evidence\<close>

definition at_source :: "artifact \<Rightarrow> source_link \<Rightarrow> str" where
  "at_source a l =
     (case (sl_start l, sl_end l) of (Some i, Some j) \<Rightarrow> take (j - i) (drop i (a_text a)) | _ \<Rightarrow> [])"

lemma slice_of_slice: "i + n \<le> m \<Longrightarrow> take n (drop i (take m (drop b s))) = take n (drop (b + i) s)"
  by (simp add: drop_take add.commute)

lemma ends_bounds: "(j, h) \<in> set (ends wide s r (i, g)) \<Longrightarrow> i \<le> length s \<Longrightarrow> i \<le> j \<and> j \<le> length s"
proof (induction wide s r "(i, g)" arbitrary: i g j h rule: ends.induct)
  case (2 wide s P least most i g)
  have "length (takeWhile P (case most of None \<Rightarrow> drop i s | Some m \<Rightarrow> take m (drop i s))) \<le> length s - i"
    by (rule order_trans [OF length_takeWhile_le]) (auto split: option.split)
  then show ?case using 2 by (auto simp: Let_def)
next
  case (3 wide s a b i g)
  then obtain j1 h1 where "(j1, h1) \<in> set (ends wide s a (i, g))" "(j, h) \<in> set (ends wide s b (j1, h1))" by auto
  then show ?case using 3 by (meson le_trans)
qed (auto split: if_splits)

lemma search_from_bounds:
  assumes "search_from wide r s from = Some (i, j, g)"
  shows "i \<le> j \<and> j \<le> length s"
proof -
  have h: "hd (ends wide s r (i, None)) = (j, g)" "ends wide s r (i, None) \<noteq> []"
    using assms by (auto simp: search_from_def find_Some_iff)
  then have "(j, g) \<in> set (ends wide s r (i, None))" using list.set_sel(1) by metis
  then show ?thesis using search_from_start [OF assms] by (auto dest: ends_bounds)
qed

lemma keyword_link_located:
  assumes "list_all (chunk_ok ch a) ks" and "keyword_link wide w label ks = Some l"
  shows "sl_artifact_id l = a_id a \<and> sl_excerpt l = Some (at_source a l)"
  using assms
proof (induction ks)
  case (Cons k ks)
  show ?case
  proof (cases "search wide (keyword_re w) (ck_text k)")
    case (Some m)
    obtain i j g where m: "m = (i, j, g)" using prod_cases3 by blast
    have ij: "i \<le> j \<and> j \<le> length (ck_text k)" using Some search_from_bounds unfolding m search_def by blast
    have k: "chunk_ok ch a k" using Cons.prems(1) by simp
    then have "take (j - i) (drop i (ck_text k)) = take (j - i) (drop (ck_start k + i) (a_text a))"
      using ij by (simp add: chunk_ok_def slice_of_slice)
    then show ?thesis using Cons.prems(2) k by (auto simp: Some m at_source_def chunk_ok_def)
  qed (use Cons in auto)
qed simp

lemma link_in_located:
  assumes "list_all (chunk_ok ch a) ks" and "link_in needle label ks = Some l" and "304 \<notin> set (a_text a)" and "304 \<notin> set needle"
  shows "sl_artifact_id l = a_id a \<and> lower (at_source a l) = lower needle"
  using assms(1,2)
proof (induction ks)
  case (Cons k ks)
  show ?case
  proof (cases "find_text (lower needle) (lower (ck_text k))")
    case (Some i)
    have k: "chunk_ok ch a k" using Cons.prems(1) by simp
    then have t: "304 \<notin> set (ck_text k)" using assms(3) by (auto simp: chunk_ok_def dest: in_set_takeD in_set_dropD)
    have n: "length (lower needle) = length needle" "length (lower (ck_text k)) = length (ck_text k)"
      using assms(4) t by (simp_all add: length_lower)
    have f: "take (length needle) (drop i (lower (ck_text k))) = lower needle" using find_text_Some [OF Some] n by simp
    have "length (take (length needle) (drop i (lower (ck_text k)))) = length needle" by (simp only: f n)
    then have "min (length needle) (length (ck_text k) - i) = length needle" by (simp only: length_take length_drop n min.commute)
    then have len: "i + length needle \<le> length (ck_text k) \<or> needle = []" by (cases needle) auto
    have "lower (take (length needle) (drop i (ck_text k))) = lower needle" using f t by (simp add: lower_slice)
    moreover have "take (length needle) (drop i (ck_text k)) = take (length needle) (drop (ck_start k + i) (a_text a))"
      using len k by (auto simp: chunk_ok_def slice_of_slice)
    ultimately show ?thesis using Cons.prems(2) k by (auto simp: Some at_source_def chunk_ok_def)
  qed (use Cons in auto)
qed simp

end
