(* ===== verification/Job_Shipped.thy ===== *)
theory Job_Shipped
  imports Job_Properties
begin

text \<open>
  The files the application ships for the job search domain: the manifest
  (\<^verbatim>\<open>app/domains/job_search/domain.yaml\<close>) and the model flows
  (\<^verbatim>\<open>app/resources/context_engine/model-flows.yaml\<close>), and the properties of the domain, with an
  artifact and an execution context at which they are applied.
\<close>

section \<open>The shipped files\<close>

definition text_json :: "string \<Rightarrow> json" where
  "text_json s = JStr (lit s)"

definition names :: "string list \<Rightarrow> json" where
  "names ss = JArr (map text_json ss)"

definition object :: "(string \<times> json) list \<Rightarrow> json" where
  "object kvs = JObj (map (\<lambda>(k, v). (lit k, v)) kvs)"

definition shipped_type :: "string \<times> string \<times> string \<Rightarrow> json" where
  "shipped_type t = (case t of (i, name, extractor_id) \<Rightarrow>
     object [(''id'', text_json i), (''display_name'', text_json name), (''extractor_ids'', names [extractor_id])])"

definition shipped_graph ::
  "int \<times> int \<times> int \<times> int \<times> int \<Rightarrow> string list \<Rightarrow> string list \<Rightarrow> string list \<Rightarrow> json"
where
  "shipped_graph limits artifacts signals items =
     (case limits of (chunks, signal_count, item_count, chunk_chars, excerpt_chars) \<Rightarrow>
       object
         [(''limits'', object [(''chunks'', JInt chunks), (''signals'', JInt signal_count), (''actionable_items'', JInt item_count),
             (''chunk_chars'', JInt chunk_chars), (''source_excerpt_chars'', JInt excerpt_chars)]),
          (''nodes'', object [(''deterministic_view'', object []), (''artifacts'', object [(''types'', names artifacts)]),
             (''signals'', object [(''types'', names signals)]), (''actionable_items'', object [(''types'', names items)]),
             (''chunks'', object [(''depends_on'', names [''deterministic_view'', ''signals'', ''actionable_items'']),
                (''fallback_artifact_types'', names artifacts)])])])"

definition shipped_view :: "string \<Rightarrow> string \<Rightarrow> string \<Rightarrow> json \<Rightarrow> json" where
  "shipped_view i name description graph =
     object [(''id'', text_json i), (''display_name'', text_json name), (''description'', text_json description), (''context'', graph)]"

definition SHIPPED_TYPES :: "(string \<times> string \<times> string) list" where
  "SHIPPED_TYPES =
     [(''job_description'', ''Job Description'', ''job-description-extractor''),
      (''resume'', ''Resume'', ''resume-extractor''),
      (''recruiter_message'', ''Recruiter Message'', ''career-context-notes-extractor''),
      (''interview_notes'', ''Interview Notes'', ''interview-notes-extractor''),
      (''company_research'', ''Company Research'', ''career-context-notes-extractor''),
      (''personal_story'', ''Personal Story'', ''personal-story-extractor''),
      (''compensation_notes'', ''Compensation Notes'', ''career-context-notes-extractor''),
      (''follow_up_notes'', ''Follow-Up Notes'', ''career-context-notes-extractor'')]"

definition role_fit_context :: json where
  "role_fit_context = shipped_graph (18, 24, 6, 900, 300)
     [''job_description'', ''resume'', ''personal_story'']
     [''role_expectation'', ''technology'', ''technical_skill'', ''platform_experience'',
      ''inferred_risk'', ''unusual_scope_indicator'', ''open_question'', ''interviewer_concern'',
      ''leadership_signal'', ''measurable_outcome'', ''ai_agent_experience'', ''role_experience'',
      ''leadership_expectation'', ''responsibility'', ''company_signal'', ''location_constraint'']
     [''add_supporting_evidence'', ''clarify_scope'', ''prepare_interview_brief'',
      ''rewrite_resume_section'', ''prepare_architecture_story'']"

definition interview_prep_context :: json where
  "interview_prep_context = shipped_graph (18, 24, 6, 900, 300)
     [''job_description'', ''resume'', ''personal_story'', ''company_research'', ''interview_notes'']
     [''technical_theme'', ''leadership_expectation'', ''company_signal'', ''story_situation'',
      ''story_action'', ''story_result'', ''technology'', ''technical_skill'', ''platform_experience'',
      ''open_question'', ''location_constraint'', ''compensation'', ''interviewer_concern'',
      ''interview_risk'', ''inferred_risk'']
     [''prepare_interview_brief'', ''prepare_architecture_story'', ''research_company_concerns'']"

definition resume_positioning_context :: json where
  "resume_positioning_context = shipped_graph (18, 24, 6, 900, 300)
     [''job_description'', ''resume'', ''personal_story'']
     [''role_expectation'', ''measurable_outcome'', ''technical_skill'', ''leadership_signal'',
      ''responsibility'', ''leadership_expectation'', ''interviewer_concern'', ''interview_risk'',
      ''technology'', ''platform_experience'']
     [''rewrite_resume_section'', ''add_supporting_evidence'']"

definition application_pipeline_context :: json where
  "application_pipeline_context = shipped_graph (14, 18, 10, 700, 240)
     [''job_description'', ''recruiter_message'', ''company_research'', ''follow_up_notes'']
     [''company'', ''role_title'', ''interview_risk'', ''inferred_risk'', ''company_signal'',
      ''open_question'']
     [''prepare_interview_brief'', ''draft_recruiter_follow_up'', ''research_company_concerns'',
      ''clarify_compensation_expectations'', ''clarify_scope'', ''prepare_architecture_story'']"

definition compensation_scope_risk_context :: json where
  "compensation_scope_risk_context = shipped_graph (14, 18, 6, 700, 240)
     [''job_description'', ''compensation_notes'', ''company_research'', ''recruiter_message'']
     [''compensation'', ''unusual_scope_indicator'', ''inferred_risk'', ''role_title'', ''seniority'',
      ''company_signal'', ''open_question'']
     [''clarify_compensation_expectations'', ''clarify_scope'', ''research_company_concerns'']"

definition SHIPPED_VIEWS :: "json list" where
  "SHIPPED_VIEWS =
     [shipped_view ''role_fit'' ''Role Fit'' ''Source-grounded fit, evidence gaps, risks, and positioning.'' role_fit_context,
      shipped_view ''interview_prep'' ''Interview Prep'' ''Interview themes, supporting stories, topics, and concerns.'' interview_prep_context,
      shipped_view ''resume_positioning'' ''Resume Positioning'' ''Resume evidence and rewrite suggestions.'' resume_positioning_context,
      shipped_view ''application_pipeline'' ''Application Pipeline'' ''Opportunities, next actions, blockers, and follow-ups.'' application_pipeline_context,
      shipped_view ''compensation_scope_risk'' ''Compensation and Scope Risk'' ''Compensation signals, scope risk, and judgment areas.'' compensation_scope_risk_context]"

definition shipped_manifest :: json where
  "shipped_manifest = object
     [(''id'', text_json ''job_search''), (''display_name'', text_json ''Job Search / Career Context''), (''status'', text_json ''mvp''),
      (''source_grounded'', JBool True), (''accepted_mime_types'', names [''text/plain'', ''application/pdf'']),
      (''unsupported_inputs'', names [''images'', ''OCR'', ''audio'', ''video'', ''web lookup'']),
      (''artifact_types'', JArr (map shipped_type SHIPPED_TYPES)), (''views'', JArr SHIPPED_VIEWS),
      (''extractors'', names [''job-description-extractor'', ''resume-extractor'', ''interview-notes-extractor'',
         ''personal-story-extractor'', ''career-context-notes-extractor'']),
      (''task_generators'', names [''job-search-task-generator''])]"

definition shipped_profile :: "string \<Rightarrow> workflow_provider \<Rightarrow> string \<Rightarrow> str \<times> model_profile" where
  "shipped_profile i provider name =
     (lit i, \<lparr> mp_provider = provider, mp_model = lit name, mp_temperature = Some 0, mp_max_tokens = Some 4096, mp_timeout = Some 120,
        mp_structured_output = True \<rparr>)"

definition shipped_step :: "string \<times> string \<times> string \<times> string \<Rightarrow> model_step" where
  "shipped_step s = (case s of (i, purpose, template, version) \<Rightarrow>
     \<lparr> ms_id = lit i, ms_purpose = lit purpose, ms_model_profile = None, ms_prompt_template = lit template,
       ms_prompt_version = lit version \<rparr>)"

definition shipped_flow :: "string \<Rightarrow> string \<Rightarrow> (string \<times> string \<times> string \<times> string) list \<Rightarrow> flow_config" where
  "shipped_flow i profile steps =
     \<lparr> fc_domain_id = lit ''job_search'', fc_flow_id = lit i, fc_mode = Some HYBRID, fc_model_profile = Some (lit profile),
       fc_steps = map shipped_step steps \<rparr>"

definition EXTRACTION_STEPS :: "(string \<times> string \<times> string \<times> string) list" where
  "EXTRACTION_STEPS =
     [(''artifact_extraction'', ''structured_extraction'', ''job_search/prompts/artifact_extraction.md'', ''job-search-artifact-extraction-v1'')]"

definition PERSPECTIVE_STEPS :: "(string \<times> string \<times> string \<times> string) list" where
  "PERSPECTIVE_STEPS =
     [(''role_fit'', ''perspective_synthesis'', ''job_search/prompts/perspective_synthesis.md'', ''job-search-perspective-synthesis-v1''),
      (''interview_prep'', ''perspective_synthesis'', ''job_search/prompts/perspective_synthesis.md'', ''job-search-perspective-synthesis-v1''),
      (''resume_positioning'', ''perspective_synthesis'', ''job_search/prompts/perspective_synthesis.md'', ''job-search-perspective-synthesis-v1''),
      (''application_pipeline'', ''perspective_synthesis'', ''job_search/prompts/perspective_synthesis.md'', ''job-search-perspective-synthesis-v1''),
      (''compensation_scope_risk'', ''perspective_synthesis'', ''job_search/prompts/perspective_synthesis.md'', ''job-search-perspective-synthesis-v1'')]"

definition TASK_STEPS :: "(string \<times> string \<times> string \<times> string) list" where
  "TASK_STEPS =
     [(''actionable_items'', ''actionable_item_synthesis'', ''job_search/prompts/actionable_item_synthesis.md'', ''job-search-actionable-item-synthesis-v1'')]"

definition shipped_catalog :: flow_catalog where
  "shipped_catalog =
     \<lparr> ca_default_mode = HYBRID, ca_default_model_profile = Some (lit ''fast_structured''),
       ca_model_profiles = [shipped_profile ''fast_structured'' OPENAI ''gpt-5-mini'',
         shipped_profile ''stronger_reasoning'' ANTHROPIC ''claude-haiku-4-5-20251001''],
       ca_flows =
         [shipped_flow ''extraction'' ''fast_structured'' EXTRACTION_STEPS,
          shipped_flow ''perspective_synthesis'' ''stronger_reasoning'' PERSPECTIVE_STEPS,
          shipped_flow ''actionable_item_synthesis'' ''fast_structured'' TASK_STEPS] \<rparr>"

text \<open>What pydantic makes of a context graph whose values have the declared types.\<close>

definition plain_texts :: "json \<Rightarrow> str list result" where
  "plain_texts v = (case v of JArr xs \<Rightarrow> each text_only xs | _ \<Rightarrow> invalid_record)"

definition plain_nat :: "json \<Rightarrow> string \<Rightarrow> nat \<Rightarrow> nat result" where
  "plain_nat v k fallback = rbind (got v k (JInt (int fallback))) (\<lambda>x.
     case x of JInt i \<Rightarrow> if i < 0 then invalid_record else Inr (nat i) | _ \<Rightarrow> invalid_record)"

definition plain_node :: "str \<times> json \<Rightarrow> (str \<times> graph_node) result" where
  "plain_node kv = (case kv of (k, v) \<Rightarrow>
     rbind (rbind (got v ''types'' (JArr [])) plain_texts) (\<lambda>types.
     rbind (rbind (got v ''depends_on'' (JArr [])) plain_texts) (\<lambda>on.
     rbind (rbind (got v ''fallback_artifact_types'' (JArr [])) plain_texts) (\<lambda>fallback.
       Inr (k, \<lparr> gn_types = types, gn_depends_on = on, gn_fallback_types = fallback \<rparr>)))))"

definition plain_graph :: "json \<Rightarrow> context_graph result" where
  "plain_graph v =
     rbind (got v ''limits'' (JObj [])) (\<lambda>l.
     rbind (plain_nat l ''chunks'' 18) (\<lambda>chunks.
     rbind (plain_nat l ''signals'' 24) (\<lambda>signals.
     rbind (plain_nat l ''actionable_items'' 6) (\<lambda>items.
     rbind (plain_nat l ''chunk_chars'' 900) (\<lambda>chunk_chars.
     rbind (plain_nat l ''source_excerpt_chars'' 300) (\<lambda>excerpt_chars.
     rbind (got v ''nodes'' (JObj [])) (\<lambda>nodes.
     rbind (case nodes of JObj d \<Rightarrow> each plain_node d | _ \<Rightarrow> invalid_record) (\<lambda>ns.
       Inr \<lparr> cg_limits = \<lparr> cl_chunks = chunks, cl_signals = signals, cl_items = items, cl_chunk_chars = chunk_chars,
                            cl_excerpt_chars = excerpt_chars \<rparr>,
             cg_nodes = ns \<rparr>))))))))"

definition reads_shipped_graphs :: "(json \<Rightarrow> context_graph result) \<Rightarrow> bool" where
  "reads_shipped_graphs validate \<longleftrightarrow> list_all (\<lambda>e. rbind (required e ''context'') validate = rbind (required e ''context'') plain_graph)
     SHIPPED_VIEWS"

section \<open>The shipped domain\<close>

lemma map_of_lit: "map_of (map (\<lambda>(k, v). (lit k, v)) kvs) (lit k) = map_of kvs k"
  by (induction kvs) auto

lemma text_of_object: "text_of rt (object kvs) k = (case map_of kvs k of None \<Rightarrow> Inl (KeyError (lit k)) | Some v \<Rightarrow> Inr (py_str rt v))"
  by (simp add: text_of_def required_def object_def map_of_lit split: option.split)

lemma got_object: "got (object kvs) k fallback = Inr (case map_of kvs k of None \<Rightarrow> fallback | Some v \<Rightarrow> v)"
  by (simp add: got_def object_def member_def map_of_lit)

lemma required_object: "required (object kvs) k = (case map_of kvs k of None \<Rightarrow> Inl (KeyError (lit k)) | Some v \<Rightarrow> Inr v)"
  by (simp add: required_def object_def map_of_lit split: option.split)

lemma py_str_text [simp]: "py_str rt (text_json s) = lit s"
  by (simp add: py_str_def text_json_def)

lemma list_value_names [simp]: "list_value (names ss) = Inr (map text_json ss)"
  by (simp add: list_value_def names_def)

lemma texts_of_names [simp]: "each text_only (map text_json ss) = Inr (map lit ss)"
  by (induction ss) (auto simp: text_only_def text_json_def)

lemma shipped_type_reads:
  "artifact_type_of_entry rt (map text_json mimes) (shipped_type (i, name, ex)) =
     Inr \<lparr> at_id = lit i, at_display_name = lit name,
           at_description = Some (lit ''Career-context source material registered by the job_search domain pack.''),
           at_mime_types = map lit mimes, at_metadata = [(lit ''extractor_ids'', names [ex])] \<rparr>"
  "routing_entry rt (shipped_type (i, name, ex)) = Inr (lit i, names [ex])"
  by (simp_all add: artifact_type_of_entry_def routing_entry_def shipped_type_def text_of_object listed_at_def got_object names_def
      list_value_def text_only_def)

lemma each_of_map: "each f (map g xs) = each (\<lambda>x. f (g x)) xs"
  by (induction xs) auto

lemma each_Inr: "(\<And>x. x \<in> set xs \<Longrightarrow> f x = Inr (g x)) \<Longrightarrow> each f xs = Inr (map g xs)"
  by (induction xs) auto

lemma plain_texts_names [simp]: "plain_texts (names ss) = Inr (map lit ss)"
  by (simp add: plain_texts_def names_def)

lemma plain_texts_Nil [simp]: "plain_texts (JArr []) = Inr []"
  by (simp add: plain_texts_def)

lemma shipped_graph_reads:
  assumes "0 \<le> c" "0 \<le> s" "0 \<le> i" "0 \<le> cc" "0 \<le> xc"
  shows "plain_graph (shipped_graph (c, s, i, cc, xc) as ss is) =
     Inr \<lparr> cg_limits = \<lparr> cl_chunks = nat c, cl_signals = nat s, cl_items = nat i, cl_chunk_chars = nat cc, cl_excerpt_chars = nat xc \<rparr>,
           cg_nodes = [(lit ''deterministic_view'', \<lparr> gn_types = [], gn_depends_on = [], gn_fallback_types = [] \<rparr>),
             (lit ''artifacts'', \<lparr> gn_types = map lit as, gn_depends_on = [], gn_fallback_types = [] \<rparr>),
             (lit ''signals'', \<lparr> gn_types = map lit ss, gn_depends_on = [], gn_fallback_types = [] \<rparr>),
             (lit ''actionable_items'', \<lparr> gn_types = map lit is, gn_depends_on = [], gn_fallback_types = [] \<rparr>),
             (lit ''chunks'', \<lparr> gn_types = [], gn_depends_on = map lit [''deterministic_view'', ''signals'', ''actionable_items''],
                gn_fallback_types = map lit as \<rparr>)] \<rparr>"
proof -
  have nodes: "each plain_node (map (\<lambda>(k, v). (lit k, v)) kvs) = each (\<lambda>(k, v). plain_node (lit k, v)) kvs" for kvs
    by (simp add: each_of_map case_prod_unfold)
  have n: "(case object kvs of JObj d \<Rightarrow> each plain_node d | _ \<Rightarrow> invalid_record) = each (\<lambda>(k, v). plain_node (lit k, v)) kvs" for kvs
    by (simp add: object_def nodes)
  show ?thesis using assms by (simp add: plain_graph_def shipped_graph_def got_object plain_nat_def n plain_node_def)
qed

lemma entry_named_view: "entry_named i (shipped_view j name d g) = (i = j)"
  by (auto simp: entry_named_def shipped_view_def object_def text_json_def)

lemma found_view:
  assumes "find (entry_named i) entries = Some (shipped_view i name d v)" and "plain_graph v = Inr g"
    and "gn_types (node g ''signals'') \<noteq> []" and "gn_types (node g ''actionable_items'') \<noteq> []"
  shows "context_graph_for_view plain_graph entries i = Inr g"
  using assms by (simp add: context_graph_for_view_def shipped_view_def object_def require_node_types_def)

lemma found_graph:
  assumes "find (entry_named i) entries = Some (shipped_view i name d v)" and "v = shipped_graph (c, s, n, cc, xc) as ss is"
    and "0 \<le> c \<and> 0 \<le> s \<and> 0 \<le> n \<and> 0 \<le> cc \<and> 0 \<le> xc" and "ss \<noteq> []" and "is \<noteq> []"
  shows "\<exists>g. context_graph_for_view plain_graph entries i = Inr g"
proof -
  obtain g where g: "plain_graph v = Inr g" "gn_types (node g ''signals'') = map lit ss" "gn_types (node g ''actionable_items'') = map lit is"
    using assms(3) by (simp add: assms(2) shipped_graph_reads node_def)
  show ?thesis using found_view [OF assms(1) g(1)] g(2,3) assms(4,5) by auto
qed

lemma find_view:
  "find (entry_named i) (shipped_view j name d v # es) = (if i = j then Some (shipped_view j name d v) else find (entry_named i) es)"
  by (simp add: entry_named_view)

lemma view_contexts:
  "\<exists>g. context_graph_for_view plain_graph SHIPPED_VIEWS ''role_fit'' = Inr g"
  "\<exists>g. context_graph_for_view plain_graph SHIPPED_VIEWS ''interview_prep'' = Inr g"
  "\<exists>g. context_graph_for_view plain_graph SHIPPED_VIEWS ''resume_positioning'' = Inr g"
  "\<exists>g. context_graph_for_view plain_graph SHIPPED_VIEWS ''application_pipeline'' = Inr g"
  "\<exists>g. context_graph_for_view plain_graph SHIPPED_VIEWS ''compensation_scope_risk'' = Inr g"
  subgoal by (rule found_graph [OF _ role_fit_context_def]) (simp_all add: SHIPPED_VIEWS_def find_view del: find.simps)
  subgoal by (rule found_graph [OF _ interview_prep_context_def]) (simp_all add: SHIPPED_VIEWS_def find_view del: find.simps)
  subgoal by (rule found_graph [OF _ resume_positioning_context_def]) (simp_all add: SHIPPED_VIEWS_def find_view del: find.simps)
  subgoal by (rule found_graph [OF _ application_pipeline_context_def]) (simp_all add: SHIPPED_VIEWS_def find_view del: find.simps)
  subgoal by (rule found_graph [OF _ compensation_scope_risk_context_def]) (simp_all add: SHIPPED_VIEWS_def find_view del: find.simps)
  done

lemma same_contexts:
  assumes "reads_shipped_graphs validate"
  shows "context_graph_for_view validate SHIPPED_VIEWS i = context_graph_for_view plain_graph SHIPPED_VIEWS i"
proof (cases "find (entry_named i) SHIPPED_VIEWS")
  case (Some e)
  then have "e \<in> set SHIPPED_VIEWS" by (auto simp: find_Some_iff)
  then have "rbind (required e ''context'') validate = rbind (required e ''context'') plain_graph"
    using assms by (simp add: reads_shipped_graphs_def list_all_iff)
  then show ?thesis by (auto simp: context_graph_for_view_def Some required_def split: json.split option.splits)
qed (simp add: context_graph_for_view_def)

lemma shipped_builders:
  assumes "reads_shipped_graphs validate"
  shows "\<exists>bs. job_search_builders rt uuid validate SHIPPED_VIEWS = Inr bs \<and> map pb_id bs = map (\<lambda>(i, base). lit i) JOB_SEARCH_VIEWS"
proof -
  have "list_all (\<lambda>v. \<exists>g. context_graph_for_view plain_graph SHIPPED_VIEWS (fst v) = Inr g) vs \<Longrightarrow>
      \<exists>bs. each (\<lambda>(i, base). rbind (context_graph_for_view validate SHIPPED_VIEWS i) (\<lambda>g.
        Inr (assisted_builder i (base rt (uuid ''view'' 0)) g))) vs = Inr bs \<and> map pb_id bs = map (\<lambda>(i, base). lit i) vs" for vs
  proof (induction vs)
    case (Cons v vs)
    then show ?case by (cases v) (auto simp: same_contexts [OF assms] assisted_builder_def)
  qed simp
  from this [of JOB_SEARCH_VIEWS] view_contexts show ?thesis
    unfolding job_search_builders_def by (simp add: JOB_SEARCH_VIEWS_def del: each.simps)
qed

lemma shipped_views_read:
  "each (view_of_entry rt) SHIPPED_VIEWS = Inr vs \<Longrightarrow> map vd_id vs = map (\<lambda>(i, base). lit i) JOB_SEARCH_VIEWS"
  "\<exists>vs. each (view_of_entry rt) SHIPPED_VIEWS = Inr vs"
  by (auto simp: SHIPPED_VIEWS_def view_of_entry_def shipped_view_def text_of_object got_object JOB_SEARCH_VIEWS_def)

lemma shipped_pack:
  assumes "reads_shipped_graphs validate"
  shows "\<exists>p. build_job_search_domain_pack wide rt uuid validate shipped_manifest = Inr p \<and> dp_id p = lit ''job_search''
    \<and> map at_id (dp_artifact_types p) = map (\<lambda>(i, name, ex). lit i) SHIPPED_TYPES
    \<and> map at_metadata (dp_artifact_types p) = map (\<lambda>(i, name, ex). [(lit ''extractor_ids'', names [ex])]) SHIPPED_TYPES
    \<and> map pb_id (dp_perspective_builders p) = map (\<lambda>(i, base). lit i) JOB_SEARCH_VIEWS
    \<and> map vd_id (dp_view_definitions p) = map (\<lambda>(i, base). lit i) JOB_SEARCH_VIEWS
    \<and> dp_extractors p = job_search_extractors wide uuid"
proof -
  obtain bs where bs: "job_search_builders rt uuid validate SHIPPED_VIEWS = Inr bs" "map pb_id bs = map (\<lambda>(i, base). lit i) JOB_SEARCH_VIEWS"
    using shipped_builders [OF assms] by blast
  obtain vs where vs: "each (view_of_entry rt) SHIPPED_VIEWS = Inr vs" using shipped_views_read(2) by blast
  have types: "each (artifact_type_of_entry rt (map text_json mimes)) (map shipped_type SHIPPED_TYPES) = Inr (map (\<lambda>(i, name, ex).
      \<lparr> at_id = lit i, at_display_name = lit name,
        at_description = Some (lit ''Career-context source material registered by the job_search domain pack.''),
        at_mime_types = map lit mimes, at_metadata = [(lit ''extractor_ids'', names [ex])] \<rparr>) SHIPPED_TYPES)" for mimes
    unfolding each_of_map by (rule each_Inr) (auto simp: shipped_type_reads)
  have routing: "\<exists>xs. each (routing_entry rt) (map shipped_type SHIPPED_TYPES) = Inr xs"
    unfolding each_of_map using each_Inr [of SHIPPED_TYPES "\<lambda>x. routing_entry rt (shipped_type x)" "\<lambda>(i, name, ex). (lit i, names [ex])"]
    by (auto simp: shipped_type_reads)
  obtain kvs where m: "shipped_manifest = object kvs" "map_of kvs ''id'' = Some (text_json ''job_search'')"
    "map_of kvs ''display_name'' = Some (text_json ''Job Search / Career Context'')"
    "map_of kvs ''artifact_types'' = Some (JArr (map shipped_type SHIPPED_TYPES))" "map_of kvs ''views'' = Some (JArr SHIPPED_VIEWS)"
    "map_of kvs ''accepted_mime_types'' = Some (names [''text/plain'', ''application/pdf''])"
    "map_of kvs ''unsupported_inputs'' = Some (names [''images'', ''OCR'', ''audio'', ''video'', ''web lookup''])"
    by (rule that [OF shipped_manifest_def]) simp_all
  define d where "d = map (\<lambda>(k, v). (lit k, v)) kvs"
  have lists: "manifest_list d ''artifact_types'' = Inr (map shipped_type SHIPPED_TYPES)" "manifest_list d ''views'' = Inr SHIPPED_VIEWS"
    by (simp_all add: manifest_list_def member_def map_of_lit m d_def)
  have texts: "text_of rt (JObj d) ''id'' = Inr (lit ''job_search'')" "text_of rt (JObj d) ''display_name'' = Inr (lit ''Job Search / Career Context'')"
    using text_of_object [of rt kvs "''id''"] text_of_object [of rt kvs "''display_name''"] by (simp_all add: object_def m d_def)
  have more: "listed_at (JObj d) ''accepted_mime_types'' = Inr (map text_json [''text/plain'', ''application/pdf''])"
    "listed_at (JObj d) ''unsupported_inputs'' = Inr (map text_json [''images'', ''OCR'', ''audio'', ''video'', ''web lookup''])"
    using got_object [of kvs "''accepted_mime_types''" "JArr []"] got_object [of kvs "''unsupported_inputs''" "JArr []"]
    by (simp_all add: object_def listed_at_def m d_def)
  obtain xs where xs: "each (routing_entry rt) (map shipped_type SHIPPED_TYPES) = Inr xs" using routing by blast
  obtain meta where meta: "pack_metadata rt d (map shipped_type SHIPPED_TYPES) = Inr meta"
    by (rule that) (simp only: pack_metadata_def texts more xs rbind_simps)
  let ?ats = "map (\<lambda>(i, name, ex). \<lparr> at_id = lit i, at_display_name = lit name,
      at_description = Some (lit ''Career-context source material registered by the job_search domain pack.''),
      at_mime_types = map lit [''text/plain'', ''application/pdf''], at_metadata = [(lit ''extractor_ids'', names [ex])] \<rparr>) SHIPPED_TYPES"
  have man: "shipped_manifest = JObj d" by (simp add: m(1) object_def d_def)
  have "build_job_search_domain_pack wide rt uuid validate shipped_manifest = Inr \<lparr> dp_id = lit ''job_search'',
      dp_display_name = lit ''Job Search / Career Context'', dp_artifact_types = ?ats,
      dp_extractors = job_search_extractors wide uuid, dp_perspective_builders = bs,
      dp_task_generators = [assisted_generator ''job-search-task-generator'' (generate_tasks (uuid ''task''))],
      dp_view_definitions = vs, dp_chunker = None, dp_ingestors = [], dp_metadata = meta \<rparr>"
    unfolding build_job_search_domain_pack_def man json.case by (simp only: lists texts more types bs(1) vs meta rbind_simps)
  then show ?thesis using bs(2) shipped_views_read(1) [OF vs] by (simp add: comp_def case_prod_unfold)
qed

lemma shipped_types_are_routed:
  assumes "(i, name, ex) \<in> set SHIPPED_TYPES"
  shows "names [ex] = JArr (map (\<lambda>x. JStr (ex_id x)) (filter (supports (lit i)) (job_search_extractors wide uuid)))"
  using assms by (auto simp: SHIPPED_TYPES_def job_search_extractors_def supports_def assisted_extractor_def names_def text_json_def)

lemma find_step:
  "(i, purpose, template, version) \<in> set steps \<Longrightarrow> distinct (map fst steps) \<Longrightarrow>
   find (\<lambda>s. ms_id s = lit i) (map shipped_step steps) = Some (shipped_step (i, purpose, template, version))"
  by (induction steps) (force simp: shipped_step_def)+

lemma shipped_resolves:
  assumes "find (\<lambda>f. fc_domain_id f = lit ''job_search'' \<and> fc_flow_id f = lit flow) (ca_flows shipped_catalog)
      = Some (shipped_flow flow profile steps)"
    and "list_ex (\<lambda>(j, p, t, v). j = i \<and> p = purpose) steps" and "distinct (map fst steps)"
    and "profile \<in> {''fast_structured'', ''stronger_reasoning''}"
  shows "\<exists>st. context_step (x\<lparr> xc_catalog := shipped_catalog \<rparr>) (lit ''job_search'') flow (lit i) purpose = Inr st"
proof -
  obtain template version where step: "(i, purpose, template, version) \<in> set steps" using assms(2) by (auto simp: list_ex_iff)
  have p: "step_profile shipped_catalog (shipped_flow flow profile steps) (shipped_step (i, purpose, template, version)) = Some (lit profile)"
    using assms(4) by (auto simp: step_profile_def shipped_step_def shipped_flow_def truthy_def)
  have "map_of (ca_model_profiles shipped_catalog) (lit profile) \<noteq> None"
    using assms(4) by (auto simp: shipped_catalog_def shipped_profile_def)
  then obtain prof where prof: "map_of (ca_model_profiles shipped_catalog) (lit profile) = Some prof" by blast
  have steps: "find (\<lambda>s. ms_id s = lit i) (fc_steps (shipped_flow flow profile steps)) = Some (shipped_step (i, purpose, template, version))"
    using find_step [OF step assms(3)] by (simp add: shipped_flow_def)
  have "ms_purpose (shipped_step (i, purpose, template, version)) = lit purpose" by (simp add: shipped_step_def)
  then show ?thesis by (simp add: context_step_def resolve_step_def Let_def assms(1) steps p prof)
qed

lemma find_flow:
  "find (\<lambda>f. fc_domain_id f = lit ''job_search'' \<and> fc_flow_id f = lit i) (shipped_flow j profile steps # fs) =
     (if i = j then Some (shipped_flow j profile steps)
      else find (\<lambda>f. fc_domain_id f = lit ''job_search'' \<and> fc_flow_id f = lit i) fs)"
  by (auto simp: shipped_flow_def)

lemma shipped_flows: "ca_flows shipped_catalog = [shipped_flow ''extraction'' ''fast_structured'' EXTRACTION_STEPS,
    shipped_flow ''perspective_synthesis'' ''stronger_reasoning'' PERSPECTIVE_STEPS,
    shipped_flow ''actionable_item_synthesis'' ''fast_structured'' TASK_STEPS]"
  by (simp add: shipped_catalog_def)

lemma shipped_steps:
  "\<exists>st. context_step (x\<lparr> xc_catalog := shipped_catalog \<rparr>) (lit ''job_search'') ''extraction'' (lit ''artifact_extraction'') ''structured_extraction'' = Inr st"
  "\<exists>st. context_step (x\<lparr> xc_catalog := shipped_catalog \<rparr>) (lit ''job_search'') ''actionable_item_synthesis'' (lit ''actionable_items'')
     ''actionable_item_synthesis'' = Inr st"
  subgoal by (rule shipped_resolves [of _ "''fast_structured''" EXTRACTION_STEPS])
    (simp_all add: shipped_flows find_flow EXTRACTION_STEPS_def del: find.simps)
  subgoal by (rule shipped_resolves [of _ "''fast_structured''" TASK_STEPS])
    (simp_all add: shipped_flows find_flow TASK_STEPS_def del: find.simps)
  done

lemma shipped_view_steps:
  assumes "v \<in> lit ` fst ` set JOB_SEARCH_VIEWS"
  shows "\<exists>st. context_step (x\<lparr> xc_catalog := shipped_catalog \<rparr>) (lit ''job_search'') ''perspective_synthesis'' v
     ''perspective_synthesis'' = Inr st"
proof -
  obtain i where i: "v = lit i" "i \<in> fst ` set JOB_SEARCH_VIEWS" using assms by blast
  then have "list_ex (\<lambda>(j, p, t, v). j = i \<and> p = ''perspective_synthesis'') PERSPECTIVE_STEPS"
    by (auto simp: JOB_SEARCH_VIEWS_def PERSPECTIVE_STEPS_def)
  moreover have "find (\<lambda>f. fc_domain_id f = lit ''job_search'' \<and> fc_flow_id f = lit ''perspective_synthesis'') (ca_flows shipped_catalog)
      = Some (shipped_flow ''perspective_synthesis'' ''stronger_reasoning'' PERSPECTIVE_STEPS)"
    by (simp add: shipped_flows find_flow del: find.simps)
  ultimately show ?thesis unfolding i(1) by (intro shipped_resolves) (auto simp: PERSPECTIVE_STEPS_def)
qed

lemma shipped_registry:
  assumes "reads_shipped_graphs validate"
  shows "\<exists>reg p. build_domain_registry wide rt uuid validate shipped_manifest environment = Inr reg
     \<and> get_domain reg (lit ''job_search'') = Inr p \<and> length reg = (if environment = lit ''test'' then 2 else 1)
     \<and> map pb_id (dp_perspective_builders p) = map vd_id (dp_view_definitions p)
     \<and> list_all (\<lambda>t. at_metadata t = [(lit ''extractor_ids'',
           JArr (map (\<lambda>ex. JStr (ex_id ex)) (filter (supports (at_id t)) (dp_extractors p))))]) (dp_artifact_types p)
     \<and> list_all (\<lambda>b. \<exists>st. context_step (x\<lparr> xc_catalog := shipped_catalog \<rparr>) (dp_id p) ''perspective_synthesis'' (pb_id b)
           ''perspective_synthesis'' = Inr st) (dp_perspective_builders p)"
proof -
  obtain p where p: "build_job_search_domain_pack wide rt uuid validate shipped_manifest = Inr p" "dp_id p = lit ''job_search''"
    "map at_id (dp_artifact_types p) = map (\<lambda>(i, name, ex). lit i) SHIPPED_TYPES"
    "map at_metadata (dp_artifact_types p) = map (\<lambda>(i, name, ex). [(lit ''extractor_ids'', names [ex])]) SHIPPED_TYPES"
    "map pb_id (dp_perspective_builders p) = map (\<lambda>(i, base). lit i) JOB_SEARCH_VIEWS"
    "map vd_id (dp_view_definitions p) = map (\<lambda>(i, base). lit i) JOB_SEARCH_VIEWS" "dp_extractors p = job_search_extractors wide uuid"
    using shipped_pack [OF assms] by blast
  have views: "distinct (map (\<lambda>(i, base). lit i) JOB_SEARCH_VIEWS)" by (simp add: JOB_SEARCH_VIEWS_def)
  have "distinct (map (\<lambda>(i, name, ex). lit i) SHIPPED_TYPES)" by (simp add: SHIPPED_TYPES_def)
  moreover have "pb_id ` set (dp_perspective_builders p) = vd_id ` set (dp_view_definitions p)" by (metis p(5,6) set_map)
  ultimately have ok: "pack_ok p" using views by (simp add: pack_ok_def p(3,5,6))
  have test: "pack_ok (build_test_domain_pack rt uuid)" "dp_id (build_test_domain_pack rt uuid) = lit ''test-domain''"
    by (simp_all add: pack_ok_def build_test_domain_pack_def)
  have reg: "register_domain [] p = Inr [(lit ''job_search'', p)]"
    "register_domain [(lit ''job_search'', p)] (build_test_domain_pack rt uuid)
       = Inr [(lit ''job_search'', p), (lit ''test-domain'', build_test_domain_pack rt uuid)]"
    by (simp_all add: register_domain_iff ok p(2) test)
  have types: "list_all (\<lambda>t. at_metadata t = [(lit ''extractor_ids'',
      JArr (map (\<lambda>ex. JStr (ex_id ex)) (filter (supports (at_id t)) (dp_extractors p))))]) (dp_artifact_types p)"
  proof (unfold list_all_length, intro allI impI)
    fix n
    assume n: "n < length (dp_artifact_types p)"
    then have m: "n < length SHIPPED_TYPES" using arg_cong [OF p(3), of length] by simp
    obtain i name ex where t: "SHIPPED_TYPES ! n = (i, name, ex)" using prod_cases3 by blast
    then have "(i, name, ex) \<in> set SHIPPED_TYPES" using m nth_mem by metis
    moreover have "at_id (dp_artifact_types p ! n) = lit i" "at_metadata (dp_artifact_types p ! n) = [(lit ''extractor_ids'', names [ex])]"
      using arg_cong [OF p(3), of "\<lambda>xs. xs ! n"] arg_cong [OF p(4), of "\<lambda>xs. xs ! n"] n m by (simp_all add: t)
    ultimately show "at_metadata (dp_artifact_types p ! n) = [(lit ''extractor_ids'', JArr (map (\<lambda>ex. JStr (ex_id ex))
        (filter (supports (at_id (dp_artifact_types p ! n))) (dp_extractors p))))]"
      using shipped_types_are_routed by (simp add: p(7))
  qed
  have "list_all (\<lambda>b. \<exists>st. context_step (x\<lparr> xc_catalog := shipped_catalog \<rparr>) (dp_id p) ''perspective_synthesis'' (pb_id b)
      ''perspective_synthesis'' = Inr st) (dp_perspective_builders p)"
  proof (unfold list_all_iff p(2), intro ballI shipped_view_steps)
    fix b
    assume "b \<in> set (dp_perspective_builders p)"
    then have "pb_id b \<in> set (map (\<lambda>(i, base). lit i) JOB_SEARCH_VIEWS)" by (metis p(5) image_eqI set_map)
    then show "pb_id b \<in> lit ` fst ` set JOB_SEARCH_VIEWS" by force
  qed
  then show ?thesis using types by (auto simp: build_domain_registry_def p(1,5,6) reg get_domain_def)
qed

lemma silent_views: "silent x \<Longrightarrow> model_view x g i c d = Inr r \<Longrightarrow> r = None"
  by (auto simp: model_view_def silent_def rbind_eq_Inr dest: step_mode split: if_splits prod.splits)
     (metis isl_def run_structured_isl sum.disc(2))+

lemma silent_build:
  assumes "silent x"
  shows "\<exists>v. build_with_execution i g (\<lambda>b. Inr (base b)) b (Some x) = Inr v
    \<and> pv_sections v = pv_sections (mark_deterministic_view (base b))"
proof -
  have "model_view x g i b (mark_deterministic_view (base b)) = Inr None \<or> (\<exists>e. model_view x g i b (mark_deterministic_view (base b)) = Inl e)"
    using silent_views [OF assms, of g i b "mark_deterministic_view (base b)"]
    by (cases "model_view x g i b (mark_deterministic_view (base b))") auto
  then show ?thesis by (auto simp: build_with_execution_def Let_def warned_view_def)
qed

section \<open>An artifact and contexts\<close>

definition demo_posting :: artifact where
  "demo_posting = \<lparr> a_id = lit ''art_1'', a_domain_id = lit ''job_search'', a_type_id = lit ''job_description'',
     a_owner_type = INVITATION_CODE, a_owner_id = lit ''7'', a_title = None, a_text = lit ''Use Python daily.'',
     a_source_uri = None, a_metadata = [], a_created_at = 1 \<rparr>"

definition demo_ids :: "string \<Rightarrow> nat \<Rightarrow> str" where
  "demo_ids kind n = lit kind @ show_nat n"

definition demo_chunks :: "artifact_chunk list" where
  "demo_chunks = chunk default_chunker show_nat demo_posting"

definition demo_reference :: llm_reference where
  "demo_reference = \<lparr> lr_chunk_id = lit ''c1'', lr_excerpt = lit ''Python'', lr_label = None \<rparr>"

definition demo_answer :: llm_view where
  "demo_answer = \<lparr> lv_title = lit ''Fit'', lv_sections =
     [\<lparr> lc_id = lit ''s'', lc_title = lit ''Fit'', lc_conclusion = lit ''Good'', lc_why = lit ''Daily'', lc_confidence = HIGH_CONFIDENCE,
        lc_references = [demo_reference], lc_implications = [], lc_kind = EXPLICIT, lc_rationale = lit ''r'' \<rparr>],
     lv_warnings = [] \<rparr>"

text \<open>Models answer views only, and the prompts are empty.\<close>

definition demo_execution :: "bool \<Rightarrow> execution_context" where
  "demo_execution in_loop =
     \<lparr> xc_catalog = shipped_catalog, xc_mode_override = None, xc_prompt_root = [], xc_read = (\<lambda>_. Inr []),
       xc_settings = \<lparr> openai_api_key = Some (lit ''k''), anthropic_api_key = Some (lit ''k''), ollama_base_url = [], ollama_api_key = [] \<rparr>,
       xc_in_loop = in_loop, xc_now = lit ''t'', xc_isofmt = show_int, xc_repr = quoted, xc_uuid = demo_ids,
       xc_extraction = (\<lambda>m s i p. Inl (ProviderError [])), xc_view = (\<lambda>m s i p. Inr demo_answer),
       xc_tasks = (\<lambda>m s i p. Inl (ProviderError [])) \<rparr>"

definition demo_graph :: context_graph where
  "demo_graph = \<lparr> cg_limits = default_limits,
     cg_nodes = [(lit ''artifacts'', \<lparr> gn_types = [lit ''job_description''], gn_depends_on = [], gn_fallback_types = [] \<rparr>)] \<rparr>"

definition demo_build :: build_context where
  "demo_build = \<lparr> bc_scope = scope_of demo_posting, bc_artifacts = [demo_posting], bc_chunks = demo_chunks, bc_entities = [],
     bc_relationships = [], bc_signals = [], bc_items = [] \<rparr>"

lemma plain_reads_shipped: "reads_shipped_graphs plain_graph"
  by (simp add: reads_shipped_graphs_def list_all_iff)

lemma demo_text: "strip (a_text demo_posting) \<noteq> []"
  by (simp add: demo_posting_def strip_def lstrip_def rstrip_def lit_def is_space_def)

lemma demo_silent: "silent (demo_execution True)"
  by (simp add: silent_def demo_execution_def)

lemma shipped_pack_exists: "\<exists>p. build_job_search_domain_pack (\<lambda>_. False) no_runtime demo_ids plain_graph shipped_manifest = Inr p"
  using shipped_pack [OF plain_reads_shipped] by blast

lemma demo_chunks_are: "demo_chunks = [chunk_of demo_posting (lit ''chunk_0'') 0 0 17]"
proof -
  have "length (a_text demo_posting) = 17" by (simp add: demo_posting_def lit_def)
  moreover have "new_context_id ''chunk'' (show_nat 0) = lit ''chunk_0''" by (simp add: new_context_id_def show_nat.simps lit_def)
  ultimately show ?thesis by (simp add: demo_chunks_def chunk_def chunk_loop.simps default_chunker_bounds Let_def)
qed

lemma demo_keyword: "keyword_link (\<lambda>_. False) (lit ''Python'') ''technology'' demo_chunks \<noteq> None"
  unfolding demo_chunks_are by code_simp

definition demo_model_view :: "(execution_mode \<times> perspective_view) option result" where
  "demo_model_view = model_view (demo_execution False) demo_graph (lit ''role_fit'') demo_build
     (mark_deterministic_view (build_role_fit no_runtime [] demo_build))"

lemma demo_view_made: "case demo_model_view of Inr (Some mv) \<Rightarrow> True | _ \<Rightarrow> False"
  unfolding demo_model_view_def demo_build_def demo_chunks_are by code_simp

lemma shipped_catalog_ok: "catalog_ok shipped_catalog"
  by (simp add: catalog_ok_def shipped_catalog_def profile_ok_def shipped_profile_def flow_ok_def shipped_flow_def EXTRACTION_STEPS_def
      PERSPECTIVE_STEPS_def TASK_STEPS_def shipped_step_def model_step_ok_def)

lemma extraction_template:
  assumes "context_step (x\<lparr> xc_catalog := shipped_catalog \<rparr>) (lit ''job_search'') ''extraction'' (lit ''artifact_extraction'')
      ''structured_extraction'' = Inr st"
  shows "rs_prompt_template st = lit ''job_search/prompts/artifact_extraction.md''"
  using assms by (simp add: context_step_def resolve_step_def Let_def shipped_flows find_flow EXTRACTION_STEPS_def shipped_flow_def
      shipped_step_def split: option.splits if_splits) auto

lemma demo_template_below:
  "prefix_of (resolved_path [lit ''app'', lit ''domains''])
     (resolved_path (joined_path [lit ''app'', lit ''domains''] (lit ''job_search/prompts/artifact_extraction.md'')))"
  by code_simp

lemma demo_step_prompt:
  "rs_prompt_template st = lit ''job_search/prompts/artifact_extraction.md'' \<Longrightarrow> xc_prompt_root x = [lit ''app'', lit ''domains''] \<Longrightarrow>
   xc_read x = (\<lambda>_. Inr []) \<Longrightarrow> step_prompt x st = Inr []"
  using demo_template_below by (simp add: step_prompt_def load_prompt_def Let_def)

section \<open>Properties\<close>

text \<open>
  C33: Whatever models answer, and whether or not they are asked, the extensions of the job search
  domain succeed on any artifact with text, and every entity, relationship, signal and action
  they give has source links, all of them to that artifact.
\<close>

theorem job_search_records_are_grounded:
  assumes "build_job_search_domain_pack wide rt uuid validate manifest = Inr p" and "strip (a_text a) \<noteq> []"
  shows "\<exists>r ids. run_extensions ctx p a (chunk c u a) = Inr (r, ids) \<and> outputs_to (a_id a) r"
  by (rule run_extensions_to [OF assms(1) chunks_from_chunker [OF assms(2)]])

theorem job_search_records_are_grounded_witness:
  "\<exists>p r ids. build_job_search_domain_pack (\<lambda>_. False) no_runtime demo_ids plain_graph shipped_manifest = Inr p
     \<and> run_extensions (Some (demo_execution False)) p demo_posting demo_chunks = Inr (r, ids) \<and> outputs_to (a_id demo_posting) r"
  using shipped_pack_exists job_search_records_are_grounded [OF _ demo_text] unfolding demo_chunks_def by blast

text \<open>
  C34: A model that gives no answer costs nothing but its own records: when requests are made inside
  an event loop, as the upload route makes them, when the setting is deterministic, or when every
  request raises, an ingestion has the records it has without any model, up to their metadata,
  and a view has the rule-based sections. In particular no upload ever reaches a model.
\<close>

theorem silent_model_costs_nothing:
  assumes "build_job_search_domain_pack wide rt uuid validate manifest = Inr p" and "strip (a_text a) \<noteq> []" and "silent x"
  shows "(\<exists>r r1 ids. run_extensions (Some x) p a (chunk c u a) = Inr (r, ids) \<and> run_extensions None p a (chunk c u a) = Inr (r1, ids)
      \<and> without_metadata r = without_metadata r1)
    \<and> (\<exists>v. build_with_execution i g (\<lambda>b. Inr (base b)) b (Some x) = Inr v
      \<and> pv_sections v = pv_sections (mark_deterministic_view (base b)))"
  using silent_extensions [OF assms(1) chunks_from_chunker [OF assms(2)] assms(3)] silent_build [OF assms(3)] by blast

theorem silent_model_costs_nothing_witness:
  "\<exists>p r r1 ids. build_job_search_domain_pack (\<lambda>_. False) no_runtime demo_ids plain_graph shipped_manifest = Inr p
     \<and> run_extensions (Some (demo_execution True)) p demo_posting demo_chunks = Inr (r, ids)
     \<and> run_extensions None p demo_posting demo_chunks = Inr (r1, ids) \<and> without_metadata r = without_metadata r1"
  using shipped_pack_exists silent_model_costs_nothing [OF _ demo_text demo_silent] unfolding demo_chunks_def by blast

text \<open>
  C35: The short chunk ids of a perspective prompt lead back: every chunk the prompt contains has one,
  no two chunks share one, and the id a model copies from the prompt is turned into the id of
  that chunk.
\<close>

theorem short_ids_lead_back:
  "list_all (\<lambda>(i, s). original_chunk_id (snd (perspective_prompt c v g)) s = i) (pi_chunks (snd (perspective_prompt c v g)))
   \<and> distinct (map snd (pi_chunks (snd (perspective_prompt c v g))))
   \<and> ck_id ` set (select_chunks c v g) \<subseteq> fst ` set (pi_chunks (snd (perspective_prompt c v g)))"
proof -
  have ok: "short_ids_ok ''c'' (pi_chunks (snd (perspective_prompt c v g)))" using perspective_ids by blast
  then have "distinct (map snd (pi_chunks (snd (perspective_prompt c v g))))"
    by (auto simp: short_ids_ok_def distinct_map inj_on_def show_nat_inj)
  then show ?thesis using perspective_ids [of c v g] original_of_short [OF ok] by (auto simp: list_all_iff)
qed

text \<open>
  C36: A prompt stays within the limits of its perspective: at most so many chunks, signals and
  actions, each of them the owner's and no chunk twice, and of a chunk at most the configured
  number of characters.
\<close>

theorem prompts_are_bounded:
  "length (select_chunks c v g) \<le> cl_chunks (cg_limits g) \<and> distinct (map ck_id (select_chunks c v g))
   \<and> set (select_chunks c v g) \<subseteq> set (bc_chunks c)
   \<and> length (prompt_signals c g ks) \<le> cl_signals (cg_limits g) \<and> set (prompt_signals c g ks) \<subseteq> set (bc_signals c)
   \<and> length (prompt_items c g ks) \<le> cl_items (cg_limits g) \<and> set (prompt_items c g ks) \<subseteq> set (bc_items c)
   \<and> (\<exists>i a t. fst (compact_chunk (cg_limits g) k p) =
        JObj [(lit ''id'', JStr i), (lit ''artifact_id'', JStr a), (lit ''index'', JInt (int (ck_index k))), (lit ''text'', JStr t)]
        \<and> length t \<le> cl_chunk_chars (cg_limits g))"
  using selected_length [of c v g] selected_distinct [of c v g] selected_from [of c v g]
  by (auto simp: prompt_signals_def prompt_items_def select_signals_def select_items_def compact_chunk_def
      dest: in_set_takeD split: prod.split)

text \<open>
  C37: A view a model synthesizes cites the owner's context only: every evidence link is to a chunk
  of the owner and to the artifact of that chunk, with the chunk's offsets. (The excerpt is the
  model's; nothing compares it with the chunk.)
\<close>

theorem model_views_cite_the_owner:
  assumes "model_view x g view_id c d = Inr (Some (mode, v))"
  shows "list_all (\<lambda>s. list_all (\<lambda>e. cites c (el_source e)) (vs_evidence s)) (pv_sections v)"
  using assms by (auto simp: model_view_def rbind_eq_Inr split: if_splits prod.splits dest: mapped_view_cites)

theorem model_views_cite_the_owner_witness:
  "\<exists>mode v. demo_model_view = Inr (Some (mode, v))
     \<and> list_all (\<lambda>s. list_all (\<lambda>e. cites demo_build (el_source e)) (vs_evidence s)) (pv_sections v)"
proof -
  obtain mode v where "demo_model_view = Inr (Some (mode, v))"
    using demo_view_made by (auto split: sum.splits option.splits)
  then show ?thesis using model_views_cite_the_owner unfolding demo_model_view_def by blast
qed

text \<open>
  C38: Evidence of the rule-based extraction is located: the excerpt of a keyword is the artifact's
  text at the offsets of its link, and a line's link is to text equal to the line up to case.
  U+0130 is left out, the only character whose lower case has another length.
\<close>

theorem evidence_is_located:
  assumes "304 \<notin> set (a_text a)" and "304 \<notin> set needle"
  shows "(case keyword_link wide w label (chunk c u a) of
       None \<Rightarrow> True
     | Some l \<Rightarrow> sl_artifact_id l = a_id a \<and> sl_excerpt l = Some (at_source a l))
   \<and> (case link_in needle line_label (chunk c u a) of
       None \<Rightarrow> True
     | Some l \<Rightarrow> sl_artifact_id l = a_id a \<and> lower (at_source a l) = lower needle)"
  using keyword_link_located [OF chunk_loop_ok [of c a u 0 0, folded chunk_def], of wide w label]
    link_in_located [OF chunk_loop_ok [of c a u 0 0, folded chunk_def] _ assms, of line_label]
  by (auto split: option.split)

theorem evidence_is_located_witness:
  "\<exists>l. keyword_link (\<lambda>_. False) (lit ''Python'') ''technology'' demo_chunks = Some l
     \<and> sl_artifact_id l = a_id demo_posting \<and> sl_excerpt l = Some (at_source demo_posting l)"
proof -
  have "304 \<notin> set (a_text demo_posting)" "304 \<notin> set (lit ''Python'')" by (simp_all add: demo_posting_def lit_def)
  from evidence_is_located [OF this, of "\<lambda>_. False" "lit ''Python''" "''technology''" default_chunker show_nat None] demo_keyword
  show ?thesis by (auto simp: demo_chunks_def)
qed

text \<open>
  C39: The shipped manifest gives a domain the registry accepts, in every environment: each of its
  views has a builder and each of its artifact types exactly the extractors the manifest names,
  and the shipped model flows configure every step the domain runs. Pydantic is assumed to read
  the shipped context graphs as they are written.
\<close>

theorem shipped_domain_registers:
  assumes "reads_shipped_graphs validate"
  shows "\<exists>reg p. build_domain_registry wide rt uuid validate shipped_manifest environment = Inr reg
     \<and> get_domain reg (lit ''job_search'') = Inr p \<and> length reg = (if environment = lit ''test'' then 2 else 1)
     \<and> map pb_id (dp_perspective_builders p) = map vd_id (dp_view_definitions p)
     \<and> list_all (\<lambda>t. at_metadata t = [(lit ''extractor_ids'',
           JArr (map (\<lambda>ex. JStr (ex_id ex)) (filter (supports (at_id t)) (dp_extractors p))))]) (dp_artifact_types p)
     \<and> list_all (\<lambda>b. \<exists>st. context_step (x\<lparr> xc_catalog := shipped_catalog \<rparr>) (dp_id p) ''perspective_synthesis'' (pb_id b)
           ''perspective_synthesis'' = Inr st) (dp_perspective_builders p)"
  by (rule shipped_registry [OF assms])

theorem shipped_domain_registers_witness:
  "\<exists>reg p. build_domain_registry (\<lambda>_. False) no_runtime demo_ids plain_graph shipped_manifest (lit ''test'') = Inr reg
     \<and> get_domain reg (lit ''job_search'') = Inr p \<and> length reg = 2"
  using shipped_domain_registers [OF plain_reads_shipped, where wide = "\<lambda>_. False" and rt = no_runtime and uuid = demo_ids
      and environment = "lit ''test''" and x = "demo_execution False"]
  by (simp only: refl if_True) blast

text \<open>
  C40: The execution setting decides: in the context the application starts with, every step runs in
  the mode of the setting, whatever mode the catalog gives its flow, and the prompt of a step is
  read below \<^verbatim>\<open>app/domains\<close>, whatever template the catalog names.
\<close>

theorem steps_follow_the_setting:
  assumes "build_execution_context read decode cwd path mode environment base = Inr (Some x)"
    and "context_step x domain_id flow_id step_id purpose = Inr st" and "step_prompt x st = Inr prompt"
  shows "execution_mode_of mode = Inr (rs_mode st)
     \<and> (\<exists>rest. xc_read base (resolved_path (cwd @ [lit ''app'', lit ''domains'']) @ rest) = Inr prompt)"
proof -
  obtain catalog m where x: "x = base\<lparr> xc_catalog := catalog, xc_mode_override := Some m, xc_prompt_root := cwd @ [lit ''app'', lit ''domains''] \<rparr>"
    "execution_mode_of mode = Inr m"
    using assms(1) by (auto simp: build_execution_context_def rbind_eq_Inr split: sum.splits error.splits if_splits)
  have "rs_mode st = m" using assms(2) by (rule step_mode) (simp add: x)
  moreover have "\<exists>rest. xc_read base (resolved_path (cwd @ [lit ''app'', lit ''domains'']) @ rest) = Inr prompt"
    using assms(3) load_prompt_reads by (fastforce simp: step_prompt_def x)
  ultimately show ?thesis by (simp add: x)
qed

theorem steps_follow_the_setting_witness:
  "\<exists>x st. build_execution_context (\<lambda>_. Inr (Some ())) (\<lambda>_. Inr shipped_catalog) [] [] (lit ''llm'') [] (demo_execution False) = Inr (Some x)
     \<and> context_step x (lit ''job_search'') ''extraction'' (lit ''artifact_extraction'') ''structured_extraction'' = Inr st \<and> rs_mode st = LLM"
proof -
  define x where "x = (demo_execution False)\<lparr> xc_catalog := shipped_catalog, xc_mode_override := Some LLM,
    xc_prompt_root := [lit ''app'', lit ''domains''] \<rparr>"
  have llm: "execution_mode_of (lit ''llm'') = Inr LLM" by (simp add: execution_mode_of_def)
  have built: "build_execution_context (\<lambda>_. Inr (Some ())) (\<lambda>_. Inr shipped_catalog) [] [] (lit ''llm'') [] (demo_execution False) = Inr (Some x)"
    by (simp add: build_execution_context_def load_context_model_flow_catalog_def shipped_catalog_ok llm x_def)
  have same: "x\<lparr> xc_catalog := shipped_catalog \<rparr> = x" by (simp add: x_def)
  obtain st where st: "context_step x (lit ''job_search'') ''extraction'' (lit ''artifact_extraction'') ''structured_extraction'' = Inr st"
    using shipped_steps(1) [of x] unfolding same by blast
  then have "rs_prompt_template st = lit ''job_search/prompts/artifact_extraction.md''" using extraction_template [of x st] unfolding same by blast
  then have "step_prompt x st = Inr []" by (rule demo_step_prompt) (simp_all add: x_def demo_execution_def)
  from steps_follow_the_setting [OF built st this] have "rs_mode st = LLM" by (simp add: llm)
  then show ?thesis using built st by blast
qed

end
