(* ===== verification/Rag_Text.thy ===== *)
theory Rag_Text
  imports Workflow_Tools Run_Ingestion Sha256 "HOL-Library.Multiset"
begin

text \<open>
  Text of the RAG demo (\<^verbatim>\<open>app/services/rag/models.py\<close>, \<^verbatim>\<open>extraction.py\<close>, \<^verbatim>\<open>chunking.py\<close> and the text
  half of \<^verbatim>\<open>repository.py\<close>): what is extracted from an upload, how it is hashed and how it is cut
  into overlapping chunks. The PDF library is the parameter \<open>pdf\<close>: the text of every page, or
  None when the reader cannot open the bytes.
\<close>

section \<open>Data\<close>

record extracted_section =
  xs_text :: str
  xs_page_number :: "int option"
  xs_source_location :: "str option"

record prepared_chunk =
  pc_text :: str
  pc_index :: nat
  pc_page_number :: "int option"
  pc_source_location :: "str option"

record prepared_document =
  pd_source :: str
  pd_title :: "str option"
  pd_sha256 :: str
  pd_sections :: "extracted_section list"
  pd_combined_text :: str

section \<open>Extraction\<close>

text \<open>\<^verbatim>\<open>re.sub(r"\s+", " ", value).strip()\<close>; an empty text is None.\<close>

definition normalize_text :: "str option \<Rightarrow> str option" where
  "normalize_text v = Option.bind v (\<lambda>t. none_if_empty (strip (squeeze_spaces t)))"

definition plain_section :: "str \<Rightarrow> extracted_section" where
  "plain_section t = \<lparr> xs_text = t, xs_page_number = None, xs_source_location = None \<rparr>"

definition extract_text_section :: "bytes \<Rightarrow> extracted_section result" where
  "extract_text_section bs =
     (case utf8_decode bs of
        None \<Rightarrow> Inl (ValueError (lit ''Text files must be UTF-8 encoded.''))
      | Some t \<Rightarrow>
          (case normalize_text (Some t) of
             None \<Rightarrow> Inl (ValueError (lit ''Text file did not contain extractable text.''))
           | Some n \<Rightarrow> Inr (plain_section n)))"

definition page_section :: "nat \<Rightarrow> str \<Rightarrow> extracted_section option" where
  "page_section n page =
     map_option (\<lambda>t. \<lparr> xs_text = t, xs_page_number = Some (int n),
         xs_source_location = Some (lit ''page '' @ show_nat n) \<rparr>) (normalize_text (Some page))"

definition extract_pdf_sections :: "(bytes \<Rightarrow> str list option) \<Rightarrow> bytes \<Rightarrow> extracted_section list result" where
  "extract_pdf_sections pdf bs =
     (case pdf bs of
        None \<Rightarrow> Inl (ValueError (lit ''PDF could not be opened.''))
      | Some pages \<Rightarrow>
          (case List.map_filter (\<lambda>(n, page). page_section n page) (zip [1..<Suc (length pages)] pages) of
             [] \<Rightarrow> Inl (ValueError (lit ''PDF did not contain extractable text. OCR is not supported.''))
           | s # ss \<Rightarrow> Inr (s # ss)))"

text \<open>\<^verbatim>\<open>fallback_source or file_name\<close>: an absent or empty source gives the other.\<close>

definition extract_sections ::
  "(bytes \<Rightarrow> str list option) \<Rightarrow> str option \<Rightarrow> upload_file option \<Rightarrow> str option \<Rightarrow> (extracted_section list \<times> str) result"
where
  "extract_sections pdf pasted f fallback_source =
     (case normalize_text pasted of
        Some t \<Rightarrow> Inr ([plain_section t], str_or fallback_source (lit ''pasted-text''))
      | None \<Rightarrow>
          (case f of
             None \<Rightarrow> Inl (ValueError (lit ''Provide either input_text or a text/PDF file.''))
           | Some u \<Rightarrow>
               let fname = str_or (up_filename u) (lit ''uploaded-document'');
                   ctype = str_or (up_content_type u) (lit ''application/octet-stream'');
                   suffix = lower (path_suffix fname)
               in if up_bytes u = [] then Inl (ValueError (lit ''Uploaded document was empty.''))
                  else rbind
                    (if ctype = lit ''text/plain'' \<or> suffix = lit ''.txt''
                     then rbind (extract_text_section (up_bytes u)) (\<lambda>s. Inr [s])
                     else if ctype = lit ''application/pdf'' \<or> suffix = lit ''.pdf''
                     then extract_pdf_sections pdf (up_bytes u)
                     else Inl (ValueError (lit ''Only pasted text, .txt files, and extractable PDFs are supported.'')))
                    (\<lambda>sections. Inr (sections, str_or fallback_source fname))))"

definition section_part :: "extracted_section \<Rightarrow> str" where
  "section_part s =
     (if truthy (xs_source_location s) then the (xs_source_location s) @ [10] @ xs_text s else xs_text s)"

definition combine_sections :: "extracted_section list \<Rightarrow> str" where
  "combine_sections sections = strip (join [10, 10] (map section_part sections))"

section \<open>Hashing and labels\<close>

definition nullable_json :: "('a \<Rightarrow> json) \<Rightarrow> 'a option \<Rightarrow> json" where
  "nullable_json f v = (case v of None \<Rightarrow> JNull | Some x \<Rightarrow> f x)"

definition rag_section_json :: "extracted_section \<Rightarrow> json" where
  "rag_section_json s = JObj
     [(lit ''text'', JStr (xs_text s)), (lit ''page_number'', nullable_json JInt (xs_page_number s)),
      (lit ''source_location'', nullable_json JStr (xs_source_location s))]"

definition hash_payload :: "extracted_section list \<Rightarrow> str" where
  "hash_payload sections = dumps Compact (sort_keys (JArr (map rag_section_json sections)))"

definition content_hash :: "extracted_section list \<Rightarrow> str" where
  "content_hash sections = sha256_hexdigest (utf8_encode (hash_payload sections))"

definition rag_serialize_json :: "(str \<times> json) list option \<Rightarrow> str option" where
  "rag_serialize_json v = map_option (\<lambda>d. dumps Compact (sort_keys (JObj d))) v"

text \<open>The loop of \<^verbatim>\<open>normalize_labels\<close>; \<open>seen\<close> holds the labels kept so far.\<close>

fun labels_loop :: "str list \<Rightarrow> str list \<Rightarrow> str list" where
  "labels_loop seen [] = []"
| "labels_loop seen (l # ls) =
     (let k = lower (strip l) in
      if k \<noteq> [] \<and> k \<notin> set seen then k # labels_loop (k # seen) ls else labels_loop seen ls)"

definition normalize_labels :: "str list \<Rightarrow> str list" where
  "normalize_labels labels = labels_loop [] labels"

text \<open>
  \<^verbatim>\<open>str.upper\<close> as far as the pattern below can tell: the characters whose upper case is ASCII.
  Any other character stays outside ASCII and so outside the pattern.
\<close>

definition upper_cp :: "nat \<Rightarrow> str" where
  "upper_cp c =
     (if 97 \<le> c \<and> c \<le> 122 then [c - 32]
      else if c = 223 then lit ''SS'' else if c = 305 then lit ''I'' else if c = 383 then lit ''S''
      else if c = 64256 then lit ''FF'' else if c = 64257 then lit ''FI'' else if c = 64258 then lit ''FL''
      else if c = 64259 then lit ''FFI'' else if c = 64260 then lit ''FFL''
      else if c = 64261 \<or> c = 64262 then lit ''ST'' else [c])"

definition upper_letter :: "nat \<Rightarrow> bool" where
  "upper_letter c \<longleftrightarrow> 65 \<le> c \<and> c \<le> 90"

definition model_name_char :: "nat \<Rightarrow> bool" where
  "model_name_char c \<longleftrightarrow> upper_letter c \<or> (48 \<le> c \<and> c \<le> 57) \<or> c = 95"

definition oracle_model_name :: "str \<Rightarrow> str result" where
  "oracle_model_name name =
     (let n = concat (map upper_cp (strip name)) in
      case n of
        [] \<Rightarrow> Inl (ValueError (lit ''Oracle embedding model name is invalid.''))
      | c # cs \<Rightarrow>
          if upper_letter c \<and> list_all model_name_char cs \<and> length cs \<le> 127 then Inr n
          else Inl (ValueError (lit ''Oracle embedding model name is invalid.'')))"

definition prepare_document ::
  "(bytes \<Rightarrow> str list option) \<Rightarrow> str option \<Rightarrow> upload_file option \<Rightarrow> str option \<Rightarrow> str option \<Rightarrow> prepared_document result"
where
  "prepare_document pdf pasted f source new_title =
     rbind (extract_sections pdf pasted f source) (\<lambda>(sections, resolved_source).
       let combined = combine_sections sections in
       if combined = [] then Inl (ValueError (lit ''No extractable text was available for RAG ingestion.''))
       else Inr \<lparr> pd_source = resolved_source, pd_title = new_title, pd_sha256 = content_hash sections,
              pd_sections = sections, pd_combined_text = combined \<rparr>)"

section \<open>Chunking\<close>

text \<open>\<^verbatim>\<open>str.rfind\<close>: the last position of the pattern.\<close>

fun rfind :: "str \<Rightarrow> str \<Rightarrow> nat option" where
  "rfind p [] = (if p = [] then Some 0 else None)"
| "rfind p (c # s) =
     (case rfind p s of
        Some i \<Rightarrow> Some (Suc i)
      | None \<Rightarrow> if starts_with p (c # s) then Some 0 else None)"

fun pattern_end :: "str \<Rightarrow> str list \<Rightarrow> nat option" where
  "pattern_end w [] = None"
| "pattern_end w (p # ps) =
     (case rfind p w of
        None \<Rightarrow> pattern_end w ps
      | Some i \<Rightarrow> if max 1 (length w div 2) \<le> i then Some (i + length p) else pattern_end w ps)"

definition text_slice :: "str \<Rightarrow> nat \<Rightarrow> nat \<Rightarrow> str" where
  "text_slice t a b = take (b - a) (drop a t)"

definition find_split_point :: "str \<Rightarrow> nat \<Rightarrow> nat \<Rightarrow> nat" where
  "find_split_point v start hard_end =
     (if length v \<le> hard_end then hard_end
      else (case pattern_end (text_slice v start hard_end) [[10, 10], [10], [46, 32], [32]] of
              Some k \<Rightarrow> start + k
            | None \<Rightarrow> hard_end))"

text \<open>
  The windows the loop of \<^verbatim>\<open>split_text_into_chunks\<close> cuts. The position it continues at is
  \<^verbatim>\<open>max(end - chunk_overlap, start + 1)\<close>, which is positive, so truncated subtraction is exact.
\<close>

function split_windows :: "str \<Rightarrow> nat \<Rightarrow> nat \<Rightarrow> nat \<Rightarrow> (nat \<times> nat) list" where
  "split_windows t sz ov start =
     (if length t \<le> start then []
      else let stop = find_split_point t start (min (start + sz) (length t))
           in if length t \<le> stop then [(start, stop)]
              else (start, stop) # split_windows t sz ov (max (stop - ov) (start + 1)))"
  by pat_completeness auto

termination
  by (relation "measure (\<lambda>(t, sz, ov, start). length t - start)") auto

declare split_windows.simps [simp del]

definition window_chunks :: "str \<Rightarrow> (nat \<times> nat) list \<Rightarrow> str list" where
  "window_chunks t ws = filter (\<lambda>c. c \<noteq> []) (map (\<lambda>(a, b). strip (text_slice t a b)) ws)"

definition chunk_limits :: "int \<Rightarrow> int \<Rightarrow> unit result" where
  "chunk_limits sz ov =
     (if sz < 100 then Inl (ValueError (lit ''RAG chunk size must be at least 100 characters.''))
      else if ov < 0 \<or> sz \<le> ov
      then Inl (ValueError (lit ''RAG chunk overlap must be non-negative and smaller than size.''))
      else Inr ())"

definition split_text_into_chunks :: "str \<Rightarrow> int \<Rightarrow> int \<Rightarrow> str list result" where
  "split_text_into_chunks v sz ov =
     rbind (chunk_limits sz ov) (\<lambda>_.
       Inr (case normalize_text (Some v) of
              None \<Rightarrow> []
            | Some t \<Rightarrow>
                if int (length t) \<le> sz then [t]
                else window_chunks t (split_windows t (nat sz) (nat ov) 0)))"

text \<open>The chunks of the sections in order, numbered from \<open>n\<close> on.\<close>

definition number_chunks :: "nat \<Rightarrow> extracted_section \<Rightarrow> str list \<Rightarrow> prepared_chunk list" where
  "number_chunks n s ts =
     map (\<lambda>(i, t). \<lparr> pc_text = t, pc_index = i, pc_page_number = xs_page_number s,
            pc_source_location = xs_source_location s \<rparr>) (zip [n..<n + length ts] ts)"

fun chunk_sections :: "(str \<Rightarrow> str list result) \<Rightarrow> prepared_chunk list \<Rightarrow> extracted_section list \<Rightarrow> prepared_chunk list result" where
  "chunk_sections split acc [] = Inr acc"
| "chunk_sections split acc (s # ss) =
     rbind (split (xs_text s)) (\<lambda>ts. chunk_sections split (acc @ number_chunks (length acc) s ts) ss)"

definition build_rag_chunks :: "extracted_section list \<Rightarrow> int \<Rightarrow> int \<Rightarrow> prepared_chunk list result" where
  "build_rag_chunks sections sz ov =
     rbind (chunk_limits sz ov) (\<lambda>_. chunk_sections (\<lambda>t. split_text_into_chunks t sz ov) [] sections)"

text \<open>
  The optional sidecar (\<^verbatim>\<open>app/services/text_tools.py\<close>): any failure falls back to the local
  chunking. \<open>sidecar\<close> is the client's \<^verbatim>\<open>chunk_text\<close>: the texts, or the error it raises.
\<close>

definition build_rag_chunks_with_optional_text_tools ::
  "(str \<Rightarrow> int \<Rightarrow> int \<Rightarrow> str list result) \<Rightarrow> bool \<Rightarrow> extracted_section list \<Rightarrow> int \<Rightarrow> int \<Rightarrow> prepared_chunk list result"
where
  "build_rag_chunks_with_optional_text_tools sidecar enabled sections sz ov =
     (if \<not> enabled then build_rag_chunks sections sz ov
      else (case chunk_sections (\<lambda>t. sidecar t sz ov) [] sections of
              Inr chunks \<Rightarrow> Inr chunks
            | Inl _ \<Rightarrow> build_rag_chunks sections sz ov))"

section \<open>Normal texts\<close>

text \<open>What \<open>normalize_text\<close> gives: no space at either end and only single blanks inside.\<close>

definition normal :: "str \<Rightarrow> bool" where
  "normal t \<longleftrightarrow> t \<noteq> [] \<and> tidy t \<and> strip t = t"

lemma normalize_text_normal: "normalize_text v = Some t \<Longrightarrow> normal t"
  using squeeze_tidy [of False] tidy_strip
  by (auto simp: normalize_text_def none_if_empty_def normal_def squeeze_spaces_def split: bind_splits if_splits)

lemma normal_normalize: "normal t \<Longrightarrow> normalize_text (Some t) = Some t"
  by (simp add: normal_def normalize_text_def none_if_empty_def squeeze_spaces_def tidy_squeeze_id)

lemma normal_ends: "normal t \<Longrightarrow> \<not> is_space (hd t) \<and> \<not> is_space (last t)"
  unfolding normal_def using strip_hd [of t] strip_last [of t] by simp

lemma strip_split: "\<exists>a b. s = a @ strip s @ b \<and> (\<forall>c \<in> set a. is_space c) \<and> (\<forall>c \<in> set b. is_space c)"
proof -
  obtain b where "lstrip s = strip s @ b" "\<forall>c \<in> set b. is_space c"
    unfolding strip_def using rstrip_prefix by blast
  then have "s = takeWhile is_space s @ strip s @ b"
    unfolding lstrip_def by (metis takeWhile_dropWhile_id)
  then show ?thesis using \<open>\<forall>c \<in> set b. is_space c\<close> set_takeWhileD by metis
qed

lemma normal_strip_part: "tidy t \<Longrightarrow> t = a @ s @ b \<Longrightarrow> strip s \<noteq> [] \<Longrightarrow> normal (strip s)"
  unfolding normal_def using tidy_strip [of s] tidy_prefix [of s b] tidy_suffix [of a "s @ b"] by simp

lemma slice_parts: "\<exists>a b. t = a @ text_slice t i j @ b"
  unfolding text_slice_def by (metis append_take_drop_id)

section \<open>The windows\<close>

lemma rfind_bound: "rfind p s = Some i \<Longrightarrow> i + length p \<le> length s"
  by (induction p s arbitrary: i rule: rfind.induct)
     (auto simp: starts_with_def split: if_splits option.splits dest: arg_cong [where f = length])

lemma pattern_end_bound: "pattern_end w ps = Some k \<Longrightarrow> 1 \<le> k \<and> k \<le> length w"
  by (induction w ps rule: pattern_end.induct)
     (auto split: option.splits if_splits dest: rfind_bound)

lemma find_split_point_bounds:
  assumes "start < hard_end" "hard_end \<le> length t"
  shows "start < find_split_point t start hard_end \<and> find_split_point t start hard_end \<le> hard_end"
proof (cases "pattern_end (text_slice t start hard_end) [[10, 10], [10], [46, 32], [32]]")
  case None
  then show ?thesis using assms by (simp add: find_split_point_def)
next
  case (Some k)
  then have "1 \<le> k \<and> k \<le> hard_end - start"
    using pattern_end_bound [OF Some] assms by (simp add: text_slice_def)
  moreover have "find_split_point t start hard_end = (if length t \<le> hard_end then hard_end else start + k)"
    unfolding find_split_point_def Some by simp
  ultimately show ?thesis using assms by auto
qed

lemma split_windows_cases:
  assumes "start < length t" "0 < sz"
  obtains (final) "length t - start \<le> sz" "split_windows t sz ov start = [(start, length t)]"
  | (more) stop where "start < stop" "stop < length t" "stop - start \<le> sz"
      "split_windows t sz ov start = (start, stop) # split_windows t sz ov (max (stop - ov) (start + 1))"
proof -
  define stop where "stop = find_split_point t start (min (start + sz) (length t))"
  have b: "start < stop \<and> stop \<le> min (start + sz) (length t)"
    unfolding stop_def using assms by (intro find_split_point_bounds) auto
  have w: "split_windows t sz ov start =
      (if length t \<le> stop then [(start, stop)] else (start, stop) # split_windows t sz ov (max (stop - ov) (start + 1)))"
    using assms(1) unfolding split_windows.simps [of t sz ov start] Let_def stop_def [symmetric] by simp
  show ?thesis
  proof (cases "length t \<le> stop")
    case True
    then have "stop = length t" using b by simp
    then show ?thesis using final w b by (simp add: le_diff_conv add.commute)
  next
    case False
    then show ?thesis using more [of stop] w b by (simp add: le_diff_conv add.commute)
  qed
qed

lemma split_windows_inside:
  assumes "0 < sz"
  shows "(a, b) \<in> set (split_windows t sz ov start) \<Longrightarrow> start \<le> a \<and> a < b \<and> b \<le> length t \<and> b - a \<le> sz"
proof (induction "length t - start" arbitrary: start rule: less_induct)
  case less
  have lt: "start < length t" using less.prems by (auto simp: split_windows.simps [of t sz ov start] split: if_splits)
  show ?case
    using lt assms
  proof (cases rule: split_windows_cases [where ov = ov])
    case final
    then show ?thesis using less.prems lt by simp
  next
    case (more stop)
    have "(a, b) \<in> set (split_windows t sz ov (max (stop - ov) (start + 1))) \<Longrightarrow>
        max (stop - ov) (start + 1) \<le> a \<and> a < b \<and> b \<le> length t \<and> b - a \<le> sz"
      using lt by (intro less.hyps) auto
    then show ?thesis using less.prems more by auto
  qed
qed

lemma split_windows_cover:
  assumes "0 < sz"
  shows "start \<le> i \<Longrightarrow> i < length t \<Longrightarrow> \<exists>(a, b) \<in> set (split_windows t sz ov start). a \<le> i \<and> i < b"
proof (induction "length t - start" arbitrary: start rule: less_induct)
  case less
  have lt: "start < length t" using less.prems by simp
  show ?case
    using lt assms
  proof (cases rule: split_windows_cases [where ov = ov])
    case final
    then show ?thesis using less.prems by simp
  next
    case (more stop)
    show ?thesis
    proof (cases "i < stop")
      case True
      then show ?thesis using more less.prems by auto
    next
      case False
      then have "\<exists>(a, b) \<in> set (split_windows t sz ov (max (stop - ov) (start + 1))). a \<le> i \<and> i < b"
        using lt less.prems more by (intro less.hyps) auto
      then show ?thesis using more by auto
    qed
  qed
qed


section \<open>What chunking guarantees\<close>

lemma strip_covers:
  assumes "i < length s" "\<not> is_space (s ! i)"
  shows "\<exists>a \<le> i. i < a + length (strip s) \<and> take (length (strip s)) (drop a s) = strip s"
proof -
  obtain a b where s: "s = a @ strip s @ b" and a: "\<forall>c \<in> set a. is_space c" and b: "\<forall>c \<in> set b. is_space c"
    using strip_split [of s] by (elim exE conjE)
  have "length a \<le> i"
    using assms a s by (metis linorder_not_le nth_append nth_mem)
  moreover have "i < length a + length (strip s)"
  proof (rule ccontr)
    assume ge: "\<not> i < length a + length (strip s)"
    have nth: "(a @ u @ b) ! i = b ! (i - length a - length u)" if "\<not> i < length a + length u" for u
      using that by (auto simp: nth_append)
    have "s ! i = b ! (i - length a - length (strip s))"
      using nth [OF ge] s by metis
    moreover have "i - length a - length (strip s) < length b"
      using ge assms(1) arg_cong [OF s, of length] by simp
    ultimately show False using b assms(2) by simp
  qed
  moreover have "take (length (strip s)) (drop (length a) s) = strip s"
    using s by (metis append_eq_conv_conj)
  ultimately show ?thesis by blast
qed

lemma length_text_slice: "b \<le> length t \<Longrightarrow> length (text_slice t a b) = b - a"
  by (simp add: text_slice_def)

lemma split_result:
  assumes "split_text_into_chunks v sz ov = Inr cs"
  shows "100 \<le> sz \<and> 0 \<le> ov \<and> ov < sz \<and>
     (case normalize_text (Some v) of None \<Rightarrow> cs = []
      | Some t \<Rightarrow> normal t \<and> (if int (length t) \<le> sz then cs = [t] else cs = window_chunks t (split_windows t (nat sz) (nat ov) 0)))"
proof -
  have lim: "chunk_limits sz ov = Inr ()"
    using assms by (auto simp: split_text_into_chunks_def rbind_eq_Inr)
  then have "100 \<le> sz \<and> 0 \<le> ov \<and> ov < sz" by (auto simp: chunk_limits_def split: if_splits)
  moreover have "cs = (case normalize_text (Some v) of None \<Rightarrow> []
      | Some t \<Rightarrow> if int (length t) \<le> sz then [t] else window_chunks t (split_windows t (nat sz) (nat ov) 0))"
    using assms lim by (simp add: split_text_into_chunks_def)
  ultimately show ?thesis using normalize_text_normal [of "Some v"] by (auto split: option.split)
qed

lemma window_chunks_fit:
  assumes "c \<in> set (window_chunks t (split_windows t sz ov start))" "0 < sz" "tidy t"
  shows "normal c \<and> length c \<le> sz \<and> contains c t"
proof -
  obtain a b where w: "(a, b) \<in> set (split_windows t sz ov start)" and c: "c = strip (text_slice t a b)" "c \<noteq> []"
    using assms(1) by (auto simp: window_chunks_def)
  have "b \<le> length t \<and> b - a \<le> sz" using split_windows_inside [OF assms(2) w] by blast
  then have "length c \<le> sz" using length_strip [of "text_slice t a b"] length_text_slice [of b t a] c(1) by simp
  obtain p q where pq: "t = p @ text_slice t a b @ q" using slice_parts by blast
  obtain p1 q1 where "text_slice t a b = p1 @ c @ q1" using strip_split [of "text_slice t a b"] c(1) by blast
  then have "t = (p @ p1) @ c @ (q1 @ q)" using pq by simp
  then have "contains c t" unfolding contains_iff by blast
  moreover have "normal c" using normal_strip_part [OF assms(3) pq] c by simp
  ultimately show ?thesis using \<open>length c \<le> sz\<close> by simp
qed

lemma chunk_fits:
  assumes "split_text_into_chunks v sz ov = Inr cs" "c \<in> set cs"
  shows "normal c \<and> int (length c) \<le> sz"
proof -
  note r = split_result [OF assms(1)]
  show ?thesis
  proof (cases "normalize_text (Some v)")
    case None
    then show ?thesis using r assms(2) by simp
  next
    case (Some t)
    show ?thesis
    proof (cases "int (length t) \<le> sz")
      case True
      then show ?thesis using r Some assms(2) by simp
    next
      case False
      then have "c \<in> set (window_chunks t (split_windows t (nat sz) (nat ov) 0))" "tidy t" "0 < nat sz"
        using r Some assms(2) by (auto simp: normal_def)
      then show ?thesis using window_chunks_fit [of c t "nat sz" "nat ov" 0] r by auto
    qed
  qed
qed

lemma window_chunks_cover:
  assumes "0 < sz" "i < length t" "\<not> is_space (t ! i)"
  shows "\<exists>c \<in> set (window_chunks t (split_windows t sz ov 0)). \<exists>a \<le> i. i < a + length c \<and> take (length c) (drop a t) = c"
proof -
  obtain a b where w: "(a, b) \<in> set (split_windows t sz ov 0)" "a \<le> i" "i < b"
    using split_windows_cover [OF assms(1) _ assms(2), of 0 ov] by auto
  have b: "b \<le> length t" using split_windows_inside [OF assms(1) w(1)] by blast
  define c where "c = strip (text_slice t a b)"
  have i: "i - a < length (text_slice t a b)" "\<not> is_space (text_slice t a b ! (i - a))"
    using w b assms(3) by (auto simp: text_slice_def)
  obtain k where k: "k \<le> i - a" "i - a < k + length c" "take (length c) (drop k (text_slice t a b)) = c"
    using strip_covers [OF i] unfolding c_def by blast
  have len: "k + length c \<le> b - a"
    using arg_cong [OF k(3), of length] k(1) k(2) length_text_slice [OF b, of a] by auto
  have "take (length c) (drop (a + k) t) = c"
    using k(3) len by (simp add: text_slice_def drop_take add.commute min_def split: if_splits)
  moreover have "c \<in> set (window_chunks t (split_windows t sz ov 0))"
    using w(1) k(2) k(1) by (force simp: window_chunks_def c_def)
  ultimately show ?thesis using k(1, 2) w(2) by (intro bexI [of _ c] exI [of _ "a + k"]) auto
qed

lemma split_covers:
  assumes "normalize_text (Some v) = Some t" and "100 \<le> sz" and "0 \<le> ov" and "ov < sz"
    and "i < length t" and "\<not> is_space (t ! i)"
  shows "\<exists>cs. split_text_into_chunks v sz ov = Inr cs
     \<and> list_all (\<lambda>c. normal c \<and> int (length c) \<le> sz) cs
     \<and> list_ex (\<lambda>c. \<exists>a \<le> i. i < a + length c \<and> take (length c) (drop a t) = c) cs"
proof -
  obtain cs where cs: "split_text_into_chunks v sz ov = Inr cs"
    using assms by (simp add: split_text_into_chunks_def chunk_limits_def)
  have "\<exists>c \<in> set cs. \<exists>a \<le> i. i < a + length c \<and> take (length c) (drop a t) = c"
  proof (cases "int (length t) \<le> sz")
    case True
    then have "cs = [t]" using split_result [OF cs] assms(1) by simp
    then show ?thesis using assms(5) by auto
  next
    case False
    then have "cs = window_chunks t (split_windows t (nat sz) (nat ov) 0)" using split_result [OF cs] assms(1) by simp
    then show ?thesis using window_chunks_cover [of "nat sz" i t "nat ov"] assms by simp
  qed
  then show ?thesis using cs chunk_fits [OF cs] by (auto simp: list_all_iff list_ex_iff)
qed

lemma split_nonempty:
  assumes "normalize_text (Some v) = Some t" and "100 \<le> sz" and "0 \<le> ov" and "ov < sz"
    and "i < length t" and "\<not> is_space (t ! i)"
  shows "\<exists>cs. split_text_into_chunks v sz ov = Inr cs \<and> cs \<noteq> []"
proof -
  obtain cs where "split_text_into_chunks v sz ov = Inr cs"
    and "list_ex (\<lambda>c. \<exists>a \<le> i. i < a + length c \<and> take (length c) (drop a t) = c) cs"
    using split_covers [OF assms] by (elim exE conjE)
  then show ?thesis by auto
qed

text \<open>
  C32: chunking returns a text's chunks for every valid size and overlap; each is non-empty,
  stripped, free of runs of whitespace and at most the chunk size long, and every character of
  the normalized text that is not a space lies in one of them, where it stands in the text.
\<close>

theorem chunks_cover_the_text:
  assumes "normalize_text (Some v) = Some t" and "100 \<le> sz" and "0 \<le> ov" and "ov < sz"
    and "i < length t" and "\<not> is_space (t ! i)"
  shows "\<exists>cs. split_text_into_chunks v sz ov = Inr cs
     \<and> list_all (\<lambda>c. normal c \<and> int (length c) \<le> sz) cs
     \<and> list_ex (\<lambda>c. \<exists>a \<le> i. i < a + length c \<and> take (length c) (drop a t) = c) cs"
  using assms by (rule split_covers)

theorem chunks_cover_the_text_witness:
  "\<exists>cs. split_text_into_chunks (lit '' a  b'') 100 10 = Inr cs
     \<and> list_all (\<lambda>c. normal c \<and> int (length c) \<le> 100) cs
     \<and> list_ex (\<lambda>c. \<exists>a \<le> 2. 2 < a + length c \<and> take (length c) (drop a (lit ''a b'')) = c) cs"
  by (rule chunks_cover_the_text)
     (simp_all add: normalize_text_def none_if_empty_def lit_def squeeze_spaces_def is_space_def strip_def rstrip_def lstrip_def)

section \<open>Numbered chunks\<close>

lemma number_chunks_index: "map pc_index (number_chunks n s ts) = [n..<n + length ts]"
  by (simp add: number_chunks_def comp_def case_prod_unfold)

lemma number_chunks_text: "map pc_text (number_chunks n s ts) = ts"
  by (simp add: number_chunks_def comp_def case_prod_unfold)

lemma length_number_chunks [simp]: "length (number_chunks n s ts) = length ts"
  by (simp add: number_chunks_def)

lemma number_chunks_from:
  "c \<in> set (number_chunks n s ts) \<Longrightarrow>
     pc_text c \<in> set ts \<and> pc_page_number c = xs_page_number s \<and> pc_source_location c = xs_source_location s"
  by (auto simp: number_chunks_def dest: set_zip_rightD)

text \<open>A chunk is one of the pieces its section splits into, and carries that section's place.\<close>

definition chunk_from :: "(str \<Rightarrow> str list result) \<Rightarrow> extracted_section list \<Rightarrow> prepared_chunk \<Rightarrow> bool" where
  "chunk_from split sections c \<longleftrightarrow>
     (\<exists>s \<in> set sections. \<exists>ts. split (xs_text s) = Inr ts \<and> pc_text c \<in> set ts
        \<and> pc_page_number c = xs_page_number s \<and> pc_source_location c = xs_source_location s)"

lemma chunk_sections_from:
  "chunk_sections split acc ss = Inr cs \<Longrightarrow> c \<in> set cs \<Longrightarrow> c \<in> set acc \<or> chunk_from split ss c"
proof (induction ss arbitrary: acc)
  case (Cons s ss)
  obtain ts where ts: "split (xs_text s) = Inr ts" "chunk_sections split (acc @ number_chunks (length acc) s ts) ss = Inr cs"
    using Cons.prems(1) by (auto simp: rbind_eq_Inr)
  show ?case using Cons.IH [OF ts(2) Cons.prems(2)] ts(1) number_chunks_from [of c "length acc" s ts]
    by (auto simp: chunk_from_def)
qed simp

lemma chunk_sections_index:
  "chunk_sections split acc ss = Inr cs \<Longrightarrow> map pc_index acc = [0..<length acc] \<Longrightarrow> map pc_index cs = [0..<length cs]"
proof (induction ss arbitrary: acc)
  case (Cons s ss)
  obtain ts where ts: "chunk_sections split (acc @ number_chunks (length acc) s ts) ss = Inr cs"
    using Cons.prems(1) by (auto simp: rbind_eq_Inr)
  show ?case using Cons.prems(2) upt_add_eq_append [of 0 "length acc" "length ts"]
    by (intro Cons.IH [OF ts]) (simp add: number_chunks_index)
qed simp

lemma build_rag_chunks_normal:
  "build_rag_chunks sections sz ov = Inr cs \<Longrightarrow> c \<in> set cs \<Longrightarrow> normal (pc_text c) \<and> int (length (pc_text c)) \<le> sz"
  by (auto simp: build_rag_chunks_def rbind_eq_Inr chunk_from_def dest!: chunk_sections_from dest: chunk_fits)

lemma chunk_sections_total:
  "(\<And>s. s \<in> set ss \<Longrightarrow> \<exists>ts. split (xs_text s) = Inr ts) \<Longrightarrow> \<exists>cs. chunk_sections split acc ss = Inr cs"
proof (induction ss arbitrary: acc)
  case (Cons s ss)
  obtain ts where "split (xs_text s) = Inr ts" using Cons.prems [of s] by auto
  then show ?case using Cons.IH Cons.prems by simp
qed simp

lemma build_rag_chunks_total:
  "100 \<le> sz \<Longrightarrow> 0 \<le> ov \<Longrightarrow> ov < sz \<Longrightarrow> \<exists>cs. build_rag_chunks sections sz ov = Inr cs"
  by (simp add: build_rag_chunks_def chunk_limits_def, intro chunk_sections_total)
     (simp add: split_text_into_chunks_def chunk_limits_def)

section \<open>What is hashed, labelled and quoted\<close>

definition section_ok :: "extracted_section \<Rightarrow> bool" where
  "section_ok s \<longleftrightarrow> valid_str (xs_text s) \<and> (case xs_source_location s of None \<Rightarrow> True | Some l \<Rightarrow> valid_str l)"

lemma sort_section_json:
  "sort_keys (rag_section_json s) = JObj
     [(lit ''page_number'', nullable_json JInt (xs_page_number s)),
      (lit ''source_location'', nullable_json JStr (xs_source_location s)), (lit ''text'', JStr (xs_text s))]"
proof -
  have "sort_keys (nullable_json JInt v) = nullable_json JInt v" "sort_keys (nullable_json JStr w) = nullable_json JStr w" for v w
    by (simp_all add: nullable_json_def split: option.split)
  then show ?thesis by (simp add: rag_section_json_def lit_def)
qed

lemma sections_json_ok: "list_all section_ok ss \<Longrightarrow> json_ok (sort_keys (JArr (map rag_section_json ss)))"
  by (induction ss) (auto simp: sort_section_json section_ok_def nullable_json_def split: option.splits)

lemma section_json_inj: "sort_keys (rag_section_json s) = sort_keys (rag_section_json r) \<Longrightarrow> s = r"
  by (cases s; cases r) (auto simp: sort_section_json nullable_json_def split: option.splits)

lemma hash_payload_inj:
  assumes "list_all section_ok ss" "list_all section_ok rs" "hash_payload ss = hash_payload rs"
  shows "ss = rs"
proof -
  have "sort_keys (JArr (map rag_section_json ss)) = sort_keys (JArr (map rag_section_json rs))"
    using loads_dumps [OF sections_json_ok [OF assms(1)], of Compact]
      loads_dumps [OF sections_json_ok [OF assms(2)], of Compact] assms(3)
    unfolding hash_payload_def by simp
  then have "map (\<lambda>s. sort_keys (rag_section_json s)) ss = map (\<lambda>s. sort_keys (rag_section_json s)) rs" by (simp add: comp_def)
  then show ?thesis by (rule map_injective) (auto intro: injI section_json_inj)
qed

lemma hash_payload_valid: "list_all section_ok ss \<Longrightarrow> valid_str (hash_payload ss)"
  unfolding hash_payload_def by (intro ascii_valid ascii_dumps sections_json_ok)

text \<open>
  the bytes that are hashed to recognise a document determine its sections, their texts,
  pages and locations, so distinct documents share a hash only where SHA-256 collides.
\<close>

theorem documents_are_told_apart:
  assumes "list_all section_ok ss" and "list_all section_ok rs"
  shows "utf8_encode (hash_payload ss) = utf8_encode (hash_payload rs) \<longleftrightarrow> ss = rs"
proof
  assume "utf8_encode (hash_payload ss) = utf8_encode (hash_payload rs)"
  then have "hash_payload ss = hash_payload rs"
    using utf8_decode_encode hash_payload_valid assms by (metis option.inject)
  then show "ss = rs" using hash_payload_inj assms by blast
qed simp

theorem documents_are_told_apart_witness:
  "utf8_encode (hash_payload [plain_section (lit ''a b'')]) \<noteq> utf8_encode (hash_payload [plain_section (lit ''a''), plain_section (lit ''b'')])"
  using documents_are_told_apart [of "[plain_section (lit ''a b'')]" "[plain_section (lit ''a''), plain_section (lit ''b'')]"]
  by (simp add: section_ok_def plain_section_def)

lemma remdups_snoc: "remdups (xs @ [x]) = filter (\<lambda>y. y \<noteq> x) (remdups xs) @ [x]"
  by (induction xs) auto

lemma labels_loop_eq:
  "labels_loop seen ls = filter (\<lambda>k. k \<notin> set seen) (rev (remdups (rev (filter (\<lambda>k. k \<noteq> []) (map (\<lambda>l. lower (strip l)) ls)))))"
proof (induction seen ls rule: labels_loop.induct)
  case (2 seen l ls)
  then show ?case
    by (auto simp: Let_def remdups_snoc rev_filter [symmetric] intro!: filter_cong)
qed simp

text \<open>C1: the labels of a request, trimmed and lowered, each kept once at its first place.\<close>

theorem labels_keep_their_first_place:
  "normalize_labels ls = rev (remdups (rev (filter (\<lambda>k. k \<noteq> []) (map (\<lambda>l. lower (strip l)) ls))))"
  by (simp add: normalize_labels_def labels_loop_eq)

lemma normalize_labels_distinct: "distinct (normalize_labels ls)" "[] \<notin> set (normalize_labels ls)"
  by (simp_all add: normalize_labels_def labels_loop_eq)

text \<open>
  the model name the code writes into an SQL statement is at most 128 capital letters,
  digits and underscores, starting with a letter, whatever the setting holds.
\<close>

theorem model_names_are_identifiers:
  assumes "oracle_model_name name = Inr n"
  shows "n \<noteq> [] \<and> length n \<le> 128 \<and> upper_letter (hd n) \<and> list_all model_name_char n"
proof (cases "concat (map upper_cp (strip name))")
  case Nil
  then show ?thesis using assms unfolding oracle_model_name_def Let_def Nil by simp
next
  case (Cons c cs)
  then have "upper_letter c \<and> list_all model_name_char cs \<and> length cs \<le> 127 \<and> n = c # cs"
    using assms by (simp only: oracle_model_name_def Let_def list.case split: if_splits) simp_all
  then show ?thesis by (simp add: model_name_char_def)
qed

theorem model_names_are_identifiers_witness:
  "oracle_model_name (lit '' all_minilm '') = Inr (lit ''ALL_MINILM'') \<and> list_all model_name_char (lit ''ALL_MINILM'')"
proof -
  have "oracle_model_name (lit '' all_minilm '') = Inr (lit ''ALL_MINILM'')"
    by (simp add: oracle_model_name_def Let_def lit_def strip_def rstrip_def lstrip_def is_space_def upper_cp_def
        upper_letter_def model_name_char_def)
  then show ?thesis using model_names_are_identifiers by blast
qed

end
