(* ===== verification/Rag_Embed.thy ===== *)
theory Rag_Embed
  imports Rag_Text
begin

text \<open>
  Embedding the chunks of a document one at a time
  (\<^verbatim>\<open>LocalPostgresRagStrategy._embed_prepared_chunks\<close>): a chunk the provider refuses as too long is
  cut in two or more smaller ones, which are tried in its place. The provider is the parameter
  \<open>emb\<close>: the vectors it answers for a list of texts, or the error it raises.
\<close>

record rag_settings =
  rs_chunk_size :: int
  rs_chunk_overlap :: int
  rs_text_tools_enabled :: bool
  rs_oracle_chunking_provider :: str
  rs_oracle_embedding_model :: str

record 'f vector_chunk =
  vc_text :: str
  vc_embedding :: "'f list"
  vc_index :: nat
  vc_page_number :: "int option"
  vc_source_location :: "str option"

definition EMBEDDING_DIMENSIONS :: nat where
  "EMBEDDING_DIMENSIONS = 384"

type_synonym 'f embedder = "str list \<Rightarrow> 'f list list result"

definition should_split_embedding_input :: "str \<Rightarrow> str \<Rightarrow> bool" where
  "should_split_embedding_input msg t =
     (let m = lower msg in
      100 < length t \<and> (contains (lit ''context length'') m \<or> contains (lit ''input length'') m \<or> contains (lit ''too long'') m))"

definition retry_size :: "rag_settings \<Rightarrow> str \<Rightarrow> int" where
  "retry_size S t = max 100 (min (rs_chunk_size S) (int (length t div 2)))"

definition retry_overlap :: "rag_settings \<Rightarrow> str \<Rightarrow> int" where
  "retry_overlap S t = min (rs_chunk_overlap S) (max 0 (retry_size S t div 10))"

definition split_prepared_chunk_for_retry :: "rag_settings \<Rightarrow> prepared_chunk \<Rightarrow> prepared_chunk list result" where
  "split_prepared_chunk_for_retry S c =
     rbind (split_text_into_chunks (pc_text c) (retry_size S (pc_text c)) (retry_overlap S (pc_text c))) (\<lambda>ts.
       if length ts \<le> 1 then Inl (RuntimeError (lit ''RAG chunk exceeded embedding context length.''))
       else Inr (map (\<lambda>t. c\<lparr> pc_text := t \<rparr>) ts))"

lemma retry_size_less: "100 < length t \<Longrightarrow> retry_size S t < int (length t)"
  by (auto simp: retry_size_def max_def min_def)

lemma retry_pieces_shorter:
  assumes "split_prepared_chunk_for_retry S c = Inr ps" "100 < length (pc_text c)" "p \<in> set ps"
  shows "length (pc_text p) < length (pc_text c) \<and> normal (pc_text p)"
proof -
  obtain ts where ts: "split_text_into_chunks (pc_text c) (retry_size S (pc_text c)) (retry_overlap S (pc_text c)) = Inr ts"
    and ps: "ps = map (\<lambda>t. c\<lparr> pc_text := t \<rparr>) ts"
    using assms(1) by (auto simp: split_prepared_chunk_for_retry_def rbind_eq_Inr split: if_splits)
  obtain t where "t \<in> set ts" "p = c\<lparr> pc_text := t \<rparr>" using assms(3) ps by auto
  then show ?thesis using chunk_fits [OF ts] retry_size_less [OF assms(2), of S] by force
qed

text \<open>The texts still to do are only ever replaced by finitely many shorter ones.\<close>

definition pending_lengths :: "prepared_chunk list \<Rightarrow> nat multiset" where
  "pending_lengths ps = mset (map (\<lambda>p. length (pc_text p)) ps)"

lemma pending_lengths_split:
  assumes "\<And>q. q \<in> set qs \<Longrightarrow> length (pc_text q) < length (pc_text c)"
  shows "(pending_lengths (qs @ ps), pending_lengths (c # ps)) \<in> mult less_than"
proof -
  have "(pending_lengths ps + mset (map (\<lambda>p. length (pc_text p)) qs), pending_lengths ps + {#length (pc_text c)#}) \<in> mult less_than"
    using assms by (intro one_step_implies_mult) auto
  then show ?thesis by (simp add: pending_lengths_def union_commute)
qed

lemma pending_lengths_tail: "(pending_lengths ps, pending_lengths (c # ps)) \<in> mult less_than"
  using pending_lengths_split [of "[]"] by simp

definition vector_chunk_of :: "prepared_chunk \<Rightarrow> nat \<Rightarrow> 'f list \<Rightarrow> 'f vector_chunk" where
  "vector_chunk_of c n v = \<lparr> vc_text = pc_text c, vc_embedding = v, vc_index = n,
     vc_page_number = pc_page_number c, vc_source_location = pc_source_location c \<rparr>"

function embed_loop :: "'f embedder \<Rightarrow> rag_settings \<Rightarrow> 'f vector_chunk list \<Rightarrow> prepared_chunk list \<Rightarrow> 'f vector_chunk list result" where
  "embed_loop emb S acc [] = Inr acc"
| "embed_loop emb S acc (c # pending) =
     (case emb [pc_text c] of
        Inl (RuntimeError msg) \<Rightarrow>
          if should_split_embedding_input msg (pc_text c) then
            (case split_prepared_chunk_for_retry S c of
               Inl e \<Rightarrow> Inl e
             | Inr smaller \<Rightarrow> embed_loop emb S acc (smaller @ pending))
          else Inl (RuntimeError msg)
      | Inl e \<Rightarrow> Inl e
      | Inr [v] \<Rightarrow> embed_loop emb S (acc @ [vector_chunk_of c (length acc) v]) pending
      | Inr _ \<Rightarrow> Inl (RuntimeError (lit ''Embedding provider returned an unexpected number of vectors.'')))"
  by pat_completeness auto

termination
proof (relation "inv_image (mult less_than) (\<lambda>(emb, S, acc, pending). pending_lengths pending)")
  show "wf (inv_image (mult less_than) (\<lambda>(emb, S, acc, pending). pending_lengths pending))"
    by (intro wf_inv_image wf_mult wf_less_than)
next
  fix emb :: "'f embedder" and S acc c pending and e msg and smaller
  assume "should_split_embedding_input msg (pc_text c)" "split_prepared_chunk_for_retry S c = Inr smaller"
  then have "(pending_lengths (smaller @ pending), pending_lengths (c # pending)) \<in> mult less_than"
    by (intro pending_lengths_split) (auto simp: should_split_embedding_input_def Let_def dest: retry_pieces_shorter)
  then show "((emb, S, acc, smaller @ pending), emb, S, acc, c # pending)
      \<in> inv_image (mult less_than) (\<lambda>(emb, S, acc, pending). pending_lengths pending)" by simp
qed (simp add: pending_lengths_tail)

definition embed_prepared_chunks :: "'f embedder \<Rightarrow> rag_settings \<Rightarrow> prepared_chunk list \<Rightarrow> 'f vector_chunk list result" where
  "embed_prepared_chunks emb S chunks = embed_loop emb S [] chunks"


section \<open>A long text always splits\<close>

lemma strip_nonblank: "i < length s \<Longrightarrow> \<not> is_space (s ! i) \<Longrightarrow> strip s \<noteq> []"
  using nth_mem [of i s] by (auto simp: strip_eq_Nil_iff)

lemma window_chunks_two:
  assumes "normal t" "0 < sz" "sz < length t"
  shows "2 \<le> length (window_chunks t (split_windows t sz ov 0))"
proof -
  have pos: "0 < length t" using assms(3) by linarith
  show ?thesis
    using pos assms(2)
  proof (cases rule: split_windows_cases [where ov = ov])
    case final
    then show ?thesis using assms by simp
  next
    case (more stop)
    let ?next = "max (stop - ov) (0 + 1)"
    have "\<not> is_space (t ! 0)" using normal_ends [OF assms(1)] pos by (simp add: hd_conv_nth)
    then have first: "strip (text_slice t 0 stop) \<noteq> []"
      using more(1, 2) by (intro strip_nonblank [of 0]) (auto simp: text_slice_def)
    have last: "\<not> is_space (t ! (length t - 1))" using normal_ends [OF assms(1)] pos by (simp add: last_conv_nth)
    have "?next \<le> length t - 1" "length t - 1 < length t" using more(1, 2) pos by auto
    from split_windows_cover [OF assms(2) this, of ov]
    obtain a b where w: "(a, b) \<in> set (split_windows t sz ov ?next)" "a \<le> length t - 1" "length t - 1 < b"
      by auto
    have "b \<le> length t" using split_windows_inside [OF assms(2) w(1)] by blast
    then have "strip (text_slice t a b) \<noteq> []"
      using w last by (intro strip_nonblank [of "length t - 1 - a"]) (auto simp: text_slice_def)
    then have "window_chunks t (split_windows t sz ov ?next) \<noteq> []"
      using w(1) by (force simp: window_chunks_def filter_empty_conv)
    then have "1 \<le> length (window_chunks t (split_windows t sz ov ?next))" by (simp add: Suc_le_eq)
    then show ?thesis using first more(4) by (simp add: window_chunks_def)
  qed
qed

lemma retry_splits:
  assumes "normal (pc_text c)" "100 < length (pc_text c)" "0 \<le> rs_chunk_overlap S"
  shows "\<exists>ps. split_prepared_chunk_for_retry S c = Inr ps \<and> 2 \<le> length ps"
proof -
  let ?t = "pc_text c" and ?sz = "retry_size S (pc_text c)" and ?ov = "retry_overlap S (pc_text c)"
  have sz: "100 \<le> ?sz" "?sz < int (length ?t)" using retry_size_less [OF assms(2)] by (auto simp: retry_size_def)
  have ov: "0 \<le> ?ov" "?ov < ?sz" using sz(1) assms(3) by (auto simp: retry_overlap_def)
  have "split_text_into_chunks ?t ?sz ?ov = Inr (window_chunks ?t (split_windows ?t (nat ?sz) (nat ?ov) 0))"
    using sz ov by (simp add: split_text_into_chunks_def chunk_limits_def normal_normalize [OF assms(1)])
  moreover have "2 \<le> length (window_chunks ?t (split_windows ?t (nat ?sz) (nat ?ov) 0))"
    using sz by (intro window_chunks_two [OF assms(1)]) auto
  ultimately show ?thesis by (simp add: split_prepared_chunk_for_retry_def)
qed

section \<open>Every chunk ends up embedded\<close>

text \<open>
  A provider whose only refusal is that a text of more than 100 characters is too long for it,
  and that answers a single text with a single vector.
\<close>

definition length_limited :: "'f embedder \<Rightarrow> bool" where
  "length_limited emb \<longleftrightarrow>
     (\<forall>t. (\<exists>v. emb [t] = Inr [v])
        \<or> (\<exists>msg. emb [t] = Inl (RuntimeError msg) \<and> should_split_embedding_input msg t))"

definition embedded :: "'f embedder \<Rightarrow> 'f vector_chunk \<Rightarrow> bool" where
  "embedded emb v \<longleftrightarrow> emb [vc_text v] = Inr [vc_embedding v]"

lemma embed_loop_total:
  assumes "length_limited emb" "0 \<le> rs_chunk_overlap S"
  shows "list_all (\<lambda>c. normal (pc_text c)) pending \<Longrightarrow>
    \<exists>vs. embed_loop emb S acc pending = Inr vs \<and> length acc + length pending \<le> length vs"
  using assms
proof (induction emb S acc pending rule: embed_loop.induct)
  case (2 emb S acc c pending)
  consider (answer) v where "emb [pc_text c] = Inr [v]"
    | (refusal) msg where "emb [pc_text c] = Inl (RuntimeError msg)" "should_split_embedding_input msg (pc_text c)"
    using "2.prems"(2) unfolding length_limited_def by blast
  then show ?case
  proof cases
    case answer
    then show ?thesis using "2.IH"(2) [OF answer refl refl] "2.prems" by fastforce
  next
    case refusal
    have big: "100 < length (pc_text c)" using refusal(2) by (simp add: should_split_embedding_input_def Let_def)
    obtain ps where ps: "split_prepared_chunk_for_retry S c = Inr ps" "2 \<le> length ps"
      using retry_splits [of c S] "2.prems" big by auto
    have "list_all (\<lambda>c. normal (pc_text c)) (ps @ pending)"
      using retry_pieces_shorter [OF ps(1) big] "2.prems"(1) by (auto simp: list_all_iff)
    then obtain vs where "embed_loop emb S acc (ps @ pending) = Inr vs" "length acc + length (ps @ pending) \<le> length vs"
      using "2.IH"(1) [OF refusal(1) refl refusal(2) ps(1)] "2.prems" by blast
    then show ?thesis using refusal ps by simp
  qed
qed simp

text \<open>What the loop gives back, for any provider.\<close>

lemma embed_loop_result:
  "embed_loop emb S acc pending = Inr vs \<Longrightarrow> list_all (embedded emb) acc \<Longrightarrow> map vc_index acc = [0..<length acc]
     \<Longrightarrow> list_all (embedded emb) vs \<and> map vc_index vs = [0..<length vs]"
proof (induction emb S acc pending rule: embed_loop.induct)
  case (2 emb S acc c pending)
  consider (answer) v where "emb [pc_text c] = Inr [v]"
      "embed_loop emb S (acc @ [vector_chunk_of c (length acc) v]) pending = Inr vs"
    | (refusal) msg ps where "emb [pc_text c] = Inl (RuntimeError msg)" "should_split_embedding_input msg (pc_text c)"
      "split_prepared_chunk_for_retry S c = Inr ps" "embed_loop emb S acc (ps @ pending) = Inr vs"
    using "2.prems"(1) by (auto split: sum.splits error.splits if_splits list.splits)
  then show ?case
  proof cases
    case answer
    then show ?thesis using "2.prems"
      by (intro "2.IH"(2) [OF answer(1) refl refl answer(2)]) (auto simp: embedded_def vector_chunk_of_def)
  next
    case refusal
    then show ?thesis using "2.prems" by (intro "2.IH"(1) [OF refusal(1) refl refusal(2-4)])
  qed
qed simp

lemma embed_loop_longer:
  "embed_loop emb S acc pending = Inr vs \<Longrightarrow> length acc + length pending \<le> length vs"
proof (induction emb S acc pending rule: embed_loop.induct)
  case (2 emb S acc c pending)
  consider (answer) v where "emb [pc_text c] = Inr [v]"
      "embed_loop emb S (acc @ [vector_chunk_of c (length acc) v]) pending = Inr vs"
    | (refusal) msg ps where "emb [pc_text c] = Inl (RuntimeError msg)" "should_split_embedding_input msg (pc_text c)"
      "split_prepared_chunk_for_retry S c = Inr ps" "embed_loop emb S acc (ps @ pending) = Inr vs"
    using "2.prems"(1) by (auto split: sum.splits error.splits if_splits list.splits)
  then show ?case
  proof cases
    case answer
    then show ?thesis using "2.IH"(2) [OF answer(1) refl refl answer(2)] by simp
  next
    case refusal
    have "2 \<le> length ps"
      using refusal(3) by (auto simp: split_prepared_chunk_for_retry_def rbind_eq_Inr split: if_splits)
    then show ?thesis using "2.IH"(1) [OF refusal(1) refl refusal(2-4)] by simp
  qed
qed simp

text \<open>Cutting and embedding normalized chunks leaves normalized chunks.\<close>

lemma embed_loop_normal:
  "embed_loop emb S acc pending = Inr vs \<Longrightarrow> list_all (\<lambda>c. normal (pc_text c)) pending \<Longrightarrow> list_all (\<lambda>v. normal (vc_text v)) acc
     \<Longrightarrow> list_all (\<lambda>v. normal (vc_text v)) vs"
proof (induction emb S acc pending rule: embed_loop.induct)
  case (2 emb S acc c pending)
  consider (answer) v where "emb [pc_text c] = Inr [v]"
      "embed_loop emb S (acc @ [vector_chunk_of c (length acc) v]) pending = Inr vs"
    | (refusal) msg ps where "emb [pc_text c] = Inl (RuntimeError msg)" "should_split_embedding_input msg (pc_text c)"
      "split_prepared_chunk_for_retry S c = Inr ps" "embed_loop emb S acc (ps @ pending) = Inr vs"
    using "2.prems"(1) by (auto split: sum.splits error.splits if_splits list.splits)
  then show ?case
  proof cases
    case answer
    then show ?thesis using "2.prems"
      by (intro "2.IH"(2) [OF answer(1) refl refl answer(2)]) (auto simp: vector_chunk_of_def)
  next
    case refusal
    have "list_all (\<lambda>c. normal (pc_text c)) ps"
      using retry_pieces_shorter [OF refusal(3)] refusal(2)
      by (auto simp: list_all_iff should_split_embedding_input_def Let_def)
    then show ?thesis using "2.prems" by (intro "2.IH"(1) [OF refusal(1) refl refusal(2-4)]) auto
  qed
qed simp

text \<open>
  with a provider whose only refusal is that a text is too long, every list of normalized
  chunks is embedded: the call returns, nothing is dropped, the chunks are numbered from 0 and
  each carries the provider's own vector for its text.
\<close>

theorem every_chunk_is_embedded:
  assumes "length_limited emb" and "0 \<le> rs_chunk_overlap S" and "list_all (\<lambda>c. normal (pc_text c)) chunks"
  shows "\<exists>vs. embed_prepared_chunks emb S chunks = Inr vs \<and> length chunks \<le> length vs
     \<and> map vc_index vs = [0..<length vs] \<and> list_all (\<lambda>v. emb [vc_text v] = Inr [vc_embedding v]) vs"
proof -
  obtain vs where vs: "embed_loop emb S [] chunks = Inr vs" "length chunks \<le> length vs"
    using embed_loop_total [OF assms, of "[]"] by auto
  then show ?thesis using embed_loop_result [OF vs(1)]
    by (simp add: embed_prepared_chunks_def embedded_def list_all_iff)
qed

text \<open>A provider that takes at most 100 characters, and two hundred and one of them.\<close>

definition small_context :: "nat embedder" where
  "small_context ts = (if length (hd ts) \<le> 100 then Inr [replicate 384 (length (hd ts))]
     else Inl (RuntimeError (lit ''input length exceeds the context length'')))"

definition long_chunk :: prepared_chunk where
  "long_chunk = \<lparr> pc_text = replicate 201 97, pc_index = 0, pc_page_number = None, pc_source_location = None \<rparr>"

definition demo_rag_settings :: rag_settings where
  "demo_rag_settings = \<lparr> rs_chunk_size = 600, rs_chunk_overlap = 60, rs_text_tools_enabled = False,
     rs_oracle_chunking_provider = lit ''oracle'', rs_oracle_embedding_model = lit ''ALL_MINILM'' \<rparr>"

lemma small_context_limited: "length_limited small_context"
  by (simp add: length_limited_def small_context_def should_split_embedding_input_def Let_def lit_def lower_def
      lower_cp_def lower_ranges_def starts_with_def)

lemma normal_replicate: "normal (replicate (Suc n) 97)"
proof -
  have "is_space 97 = False" by (simp add: is_space_def)
  then have "\<forall>c \<in> set (replicate (Suc n) 97). \<not> is_space c" by simp
  moreover from this have "tidy (replicate (Suc n) 97)" by (auto simp: tidy_def successively_conv_nth)
  ultimately show ?thesis
    by (auto simp: normal_def strip_def lstrip_def rstrip_def dropWhile_idem_hd rev_swap simp del: replicate.simps)
qed

theorem every_chunk_is_embedded_witness:
  "\<exists>vs. embed_prepared_chunks small_context demo_rag_settings [long_chunk] = Inr vs \<and> 1 \<le> length vs"
  using every_chunk_is_embedded [OF small_context_limited, of demo_rag_settings "[long_chunk]"] normal_replicate [of 200]
  by (auto simp: demo_rag_settings_def long_chunk_def)

end
