(* ===== verification/Rag_Store.thy ===== *)
theory Rag_Store
  imports Rag_Embed
begin

text \<open>
  The documents of the RAG demo in the database (\<^verbatim>\<open>app/models/rag.py\<close>, \<^verbatim>\<open>app/services/rag/repository.py\<close>)
  and the contract of a strategy that stores and searches them (\<^verbatim>\<open>strategy.py\<close>). An operation that
  raises leaves the database as it was: nothing is committed before the last step. Vectors have
  the type \<open>'v\<close> and distances the ordered type \<open>'d\<close>.
\<close>

section \<open>Tables\<close>

record rag_document =
  rd_id :: int
  rd_source :: str
  rd_title :: "str option"
  rd_sha256 :: "str option"
  rd_metadata :: "str option"
  rd_created_at :: int

record rag_label =
  rl_id :: int
  rl_key :: str

record rag_document_label =
  dl_document_id :: int
  dl_label_id :: int

record 'v rag_chunk =
  rc_id :: int
  rc_document_id :: int
  rc_index :: nat
  rc_page_number :: "int option"
  rc_source_location :: "str option"
  rc_text :: str
  rc_metadata :: "str option"
  rc_embedding :: 'v

record persona_document =
  pl_persona_id :: int
  pl_document_id :: int
  pl_display_name :: "str option"
  pl_source :: "str option"
  pl_metadata :: "str option"
  pl_created_at :: int

text \<open>The document tables and the identity sequences; \<open>ds_now\<close> is the database clock.\<close>

record 'v document_store =
  ds_documents :: "rag_document list"
  ds_labels :: "rag_label list"
  ds_document_labels :: "rag_document_label list"
  ds_chunks :: "'v rag_chunk list"
  ds_links :: "persona_document list"
  ds_next_document :: int
  ds_next_label :: int
  ds_next_chunk :: int
  ds_now :: int

definition empty_document_store :: "'v document_store" where
  "empty_document_store = \<lparr> ds_documents = [], ds_labels = [], ds_document_labels = [], ds_chunks = [], ds_links = [],
     ds_next_document = 1, ds_next_label = 1, ds_next_chunk = 1, ds_now = 0 \<rparr>"

record rag_document_result =
  dr_document_id :: int
  dr_source :: str
  dr_title :: "str option"
  dr_labels :: "str list"
  dr_chunk_count :: nat
  dr_reused :: bool

record 'd rag_search_result =
  sr_chunk_id :: int
  sr_document_id :: int
  sr_source :: str
  sr_title :: "str option"
  sr_chunk_index :: nat
  sr_chunk_text :: str
  sr_distance :: 'd

section \<open>The repository\<close>

definition get_or_create_label :: "str \<Rightarrow> 'v document_store \<Rightarrow> int \<times> 'v document_store" where
  "get_or_create_label k db =
     (case find_row rl_key k (ds_labels db) of
        Some l \<Rightarrow> (rl_id l, db)
      | None \<Rightarrow> (ds_next_label db,
          db\<lparr> ds_labels := ds_labels db @ [\<lparr> rl_id = ds_next_label db, rl_key = k \<rparr>], ds_next_label := ds_next_label db + 1 \<rparr>))"

fun get_or_create_labels :: "str list \<Rightarrow> 'v document_store \<Rightarrow> int list \<times> 'v document_store" where
  "get_or_create_labels [] db = ([], db)"
| "get_or_create_labels (k # ks) db =
     (let (i, db1) = get_or_create_label k db; (js, db2) = get_or_create_labels ks db1 in (i # js, db2))"

definition create_document ::
  "str \<Rightarrow> str list \<Rightarrow> str option \<Rightarrow> str option \<Rightarrow> (str \<times> json) list option \<Rightarrow> 'v document_store
     \<Rightarrow> (rag_document \<times> 'v document_store) result"
where
  "create_document source labels new_title sha metadata db =
     (let ks = normalize_labels labels in
      if ks = [] then Inl (ValueError (lit ''At least one RAG label is required.''))
      else let (js, db1) = get_or_create_labels ks db;
               d = \<lparr> rd_id = ds_next_document db1, rd_source = source, rd_title = new_title, rd_sha256 = sha,
                     rd_metadata = rag_serialize_json metadata, rd_created_at = ds_now db1 \<rparr>
           in Inr (d, db1\<lparr> ds_documents := ds_documents db1 @ [d], ds_next_document := ds_next_document db1 + 1,
                ds_document_labels := ds_document_labels db1
                  @ map (\<lambda>i. \<lparr> dl_document_id = rd_id d, dl_label_id = i \<rparr>) js \<rparr>))"

definition get_document_by_hash :: "str \<Rightarrow> 'v document_store \<Rightarrow> rag_document option" where
  "get_document_by_hash sha db = find_row rd_sha256 (Some sha) (ds_documents db)"

definition link_key :: "persona_document \<Rightarrow> int \<times> int" where
  "link_key l = (pl_persona_id l, pl_document_id l)"

definition link_persona_document ::
  "int \<Rightarrow> rag_document \<Rightarrow> str option \<Rightarrow> (str \<times> json) list option \<Rightarrow> 'v document_store \<Rightarrow> persona_document \<times> 'v document_store"
where
  "link_persona_document p d display metadata db =
     (case find_row link_key (p, rd_id d) (ds_links db) of
        Some l \<Rightarrow> (l, db)
      | None \<Rightarrow>
          let l = \<lparr> pl_persona_id = p, pl_document_id = rd_id d, pl_display_name = display, pl_source = Some (rd_source d),
                    pl_metadata = rag_serialize_json metadata, pl_created_at = ds_now db \<rparr>
          in (l, db\<lparr> ds_links := ds_links db @ [l] \<rparr>))"

definition unlink_persona_document :: "int \<Rightarrow> int \<Rightarrow> 'v document_store \<Rightarrow> bool \<times> 'v document_store" where
  "unlink_persona_document p i db =
     (case find_row link_key (p, i) (ds_links db) of
        None \<Rightarrow> (False, db)
      | Some _ \<Rightarrow> (True, db\<lparr> ds_links := filter (\<lambda>l. link_key l \<noteq> (p, i)) (ds_links db) \<rparr>))"

definition chunks_of_document :: "int \<Rightarrow> 'v document_store \<Rightarrow> 'v rag_chunk list" where
  "chunks_of_document i db = filter (\<lambda>c. rc_document_id c = i) (ds_chunks db)"

definition document_chunk_count :: "int \<Rightarrow> 'v document_store \<Rightarrow> nat" where
  "document_chunk_count i db = length (chunks_of_document i db)"

text \<open>\<^verbatim>\<open>[label.label_key for label in document.labels]\<close>, read back through the join table.\<close>

definition document_labels :: "int \<Rightarrow> 'v document_store \<Rightarrow> str list" where
  "document_labels i db =
     concat (map (\<lambda>dl. map rl_key (filter (\<lambda>l. rl_id l = dl_label_id dl) (ds_labels db)))
       (filter (\<lambda>dl. dl_document_id dl = i) (ds_document_labels db)))"

text \<open>One inserted chunk row; the columns the insert statement binds are the arguments.\<close>

definition insert_chunk ::
  "int \<Rightarrow> nat \<Rightarrow> int option \<Rightarrow> str option \<Rightarrow> str \<Rightarrow> str option \<Rightarrow> 'v \<Rightarrow> 'v document_store \<Rightarrow> 'v document_store"
where
  "insert_chunk i ix page loc t metadata v db =
     db\<lparr> ds_chunks := ds_chunks db @ [\<lparr> rc_id = ds_next_chunk db, rc_document_id = i, rc_index = ix, rc_page_number = page,
            rc_source_location = loc, rc_text = t, rc_metadata = metadata, rc_embedding = v \<rparr>],
         ds_next_chunk := ds_next_chunk db + 1 \<rparr>"

section \<open>The search statements\<close>

text \<open>The documents that carry one of the labels, and those linked to a persona.\<close>

definition carries_label :: "str list \<Rightarrow> 'v document_store \<Rightarrow> rag_document \<Rightarrow> bool" where
  "carries_label ks db d \<longleftrightarrow>
     list_ex (\<lambda>dl. dl_document_id dl = rd_id d
       \<and> list_ex (\<lambda>l. rl_id l = dl_label_id dl \<and> rl_key l \<in> set ks) (ds_labels db)) (ds_document_labels db)"

definition linked_to :: "int \<Rightarrow> 'v document_store \<Rightarrow> rag_document \<Rightarrow> bool" where
  "linked_to p db d \<longleftrightarrow> list_ex (\<lambda>l. pl_persona_id l = p \<and> pl_document_id l = rd_id d) (ds_links db)"

definition search_result :: "('v \<Rightarrow> 'd) \<Rightarrow> 'v rag_chunk \<times> rag_document \<Rightarrow> 'd rag_search_result" where
  "search_result dst = (\<lambda>(c, d). \<lparr> sr_chunk_id = rc_id c, sr_document_id = rd_id d, sr_source = rd_source d, sr_title = rd_title d,
     sr_chunk_index = rc_index c, sr_chunk_text = rc_text c, sr_distance = dst (rc_embedding c) \<rparr>)"

definition chunk_documents :: "'v document_store \<Rightarrow> ('v rag_chunk \<times> rag_document) list" where
  "chunk_documents db =
     concat (map (\<lambda>c. map (\<lambda>d. (c, d)) (filter (\<lambda>d. rd_id d = rc_document_id c) (ds_documents db))) (ds_chunks db))"

text \<open>\<^verbatim>\<open>ORDER BY distance ASC LIMIT\<close>; rows at the same distance come in the order of the table.\<close>

definition nearest :: "('v \<Rightarrow> 'd::linorder) \<Rightarrow> int \<Rightarrow> ('v rag_chunk \<times> rag_document) list \<Rightarrow> 'd rag_search_result list" where
  "nearest dst limit rows = take (nat limit) (sort_key sr_distance (map (search_result dst) rows))"

definition label_rows :: "str list \<Rightarrow> 'v document_store \<Rightarrow> ('v rag_chunk \<times> rag_document) list" where
  "label_rows ks db = filter (\<lambda>(c, d). carries_label ks db d) (chunk_documents db)"

definition persona_rows :: "int \<Rightarrow> 'v document_store \<Rightarrow> ('v rag_chunk \<times> rag_document) list" where
  "persona_rows p db =
     concat (map (\<lambda>(c, d). map (\<lambda>l. (c, d)) (filter (\<lambda>l. pl_document_id l = rd_id d \<and> pl_persona_id l = p) (ds_links db)))
       (chunk_documents db))"

text \<open>The checks both strategies make before a search.\<close>

definition check_query :: "str \<Rightarrow> int \<Rightarrow> unit result" where
  "check_query query limit =
     (if strip query = [] then Inl (ValueError (lit ''RAG search query cannot be empty.''))
      else if limit < 1 then Inl (ValueError (lit ''Search limit must be at least 1.''))
      else Inr ())"

definition check_labels :: "str list \<Rightarrow> str list result" where
  "check_labels labels =
     (let ks = normalize_labels labels in
      if ks = [] then Inl (ValueError (lit ''At least one RAG label is required.'')) else Inr ks)"

definition check_persona_id :: "int \<Rightarrow> unit result" where
  "check_persona_id p = (if p < 1 then Inl (ValueError (lit ''RAG persona id must be positive.'')) else Inr ())"

section \<open>Well-formed document tables\<close>

definition docs_ok :: "'v document_store \<Rightarrow> bool" where
  "docs_ok db \<longleftrightarrow>
     distinct (map rd_id (ds_documents db)) \<and> (\<forall>d \<in> set (ds_documents db). rd_id d < ds_next_document db)
     \<and> distinct (map rl_id (ds_labels db)) \<and> distinct (map rl_key (ds_labels db)) \<and> (\<forall>l \<in> set (ds_labels db). rl_id l < ds_next_label db)
     \<and> (\<forall>dl \<in> set (ds_document_labels db). dl_document_id dl \<in> rd_id ` set (ds_documents db) \<and> dl_label_id dl \<in> rl_id ` set (ds_labels db))
     \<and> distinct (map rc_id (ds_chunks db)) \<and> (\<forall>c \<in> set (ds_chunks db). rc_id c < ds_next_chunk db \<and> rc_document_id c \<in> rd_id ` set (ds_documents db))
     \<and> (\<forall>i. map rc_index (chunks_of_document i db) = [0..<document_chunk_count i db])
     \<and> distinct (map link_key (ds_links db)) \<and> (\<forall>l \<in> set (ds_links db). pl_document_id l \<in> rd_id ` set (ds_documents db))"

lemma empty_docs_ok: "docs_ok empty_document_store"
  by (simp add: docs_ok_def empty_document_store_def chunks_of_document_def document_chunk_count_def)

text \<open>Only the label table changes while labels are looked up, and it only grows.\<close>

definition labels_grown :: "'v document_store \<Rightarrow> 'v document_store \<Rightarrow> bool" where
  "labels_grown db db1 \<longleftrightarrow>
     db1 = db\<lparr> ds_labels := ds_labels db1, ds_next_label := ds_next_label db1 \<rparr> \<and> set (ds_labels db) \<subseteq> set (ds_labels db1)"

lemma labels_grown_keeps:
  assumes "labels_grown db db1"
  shows "ds_documents db1 = ds_documents db" "ds_document_labels db1 = ds_document_labels db" "ds_chunks db1 = ds_chunks db"
    "ds_links db1 = ds_links db" "ds_next_document db1 = ds_next_document db" "ds_next_chunk db1 = ds_next_chunk db"
    "ds_now db1 = ds_now db"
  using assms by (cases db; cases db1; simp add: labels_grown_def)+

lemma labels_grown_refl: "labels_grown db db"
  by (simp add: labels_grown_def)

lemma labels_grown_trans: "labels_grown a b \<Longrightarrow> labels_grown b c \<Longrightarrow> labels_grown a c"
  by (cases a; cases b; cases c) (auto simp: labels_grown_def)

definition label_row :: "'v document_store \<Rightarrow> str \<Rightarrow> int \<Rightarrow> bool" where
  "label_row db k i \<longleftrightarrow> \<lparr> rl_id = i, rl_key = k \<rparr> \<in> set (ds_labels db)"

lemma label_row_grown: "labels_grown db db1 \<Longrightarrow> label_row db k i \<Longrightarrow> label_row db1 k i"
  by (auto simp: labels_grown_def label_row_def)

lemma label_created:
  assumes "get_or_create_label k db = (i, db1)" "docs_ok db"
  shows "labels_grown db db1 \<and> docs_ok db1 \<and> label_row db1 k i"
proof (cases "find_row rl_key k (ds_labels db)")
  case None
  then have new: "k \<notin> rl_key ` set (ds_labels db)" by (simp add: find_row_None)
  have i: "i = ds_next_label db"
    and db1: "db1 = db\<lparr> ds_labels := ds_labels db @ [\<lparr> rl_id = ds_next_label db, rl_key = k \<rparr>], ds_next_label := ds_next_label db + 1 \<rparr>"
    using assms(1) None by (auto simp: get_or_create_label_def)
  have "docs_ok db1"
    using assms(2) new unfolding db1 docs_ok_def by (auto simp: chunks_of_document_def document_chunk_count_def)
  then show ?thesis using i db1 by (auto simp: labels_grown_def label_row_def)
next
  case (Some l)
  then have "db1 = db" "i = rl_id l" "l \<in> set (ds_labels db)" "rl_key l = k"
    using assms(1) find_row_Some [OF Some] Some by (auto simp: get_or_create_label_def)
  then show ?thesis using labels_grown_refl [of db] assms(2) by (cases l) (simp add: label_row_def)
qed

lemma labels_created:
  "get_or_create_labels ks db = (js, db1) \<Longrightarrow> docs_ok db \<Longrightarrow>
     labels_grown db db1 \<and> docs_ok db1 \<and> list_all2 (label_row db1) ks js"
proof (induction ks arbitrary: db js db1)
  case Nil
  then show ?case by (simp add: labels_grown_refl)
next
  case (Cons k ks)
  obtain i db2 where one: "get_or_create_label k db = (i, db2)" by (rule prod.exhaust)
  obtain is1 db3 where rest: "get_or_create_labels ks db2 = (is1, db3)" by (rule prod.exhaust)
  have eq: "js = i # is1" "db1 = db3" using Cons.prems(1) one rest by simp_all
  note a = label_created [OF one Cons.prems(2)]
  note b = Cons.IH [OF rest] 
  show ?case using a b labels_grown_trans label_row_grown unfolding eq by (metis list_all2_Cons)
qed

section \<open>Adding a document\<close>

lemma document_created:
  assumes "create_document source labels new_title sha metadata db = Inr (d, db1)" "docs_ok db"
  obtains js db0 where "get_or_create_labels (normalize_labels labels) db = (js, db0)" "labels_grown db db0" "docs_ok db0"
    "list_all2 (label_row db0) (normalize_labels labels) js" "normalize_labels labels \<noteq> []"
    "d = \<lparr> rd_id = ds_next_document db, rd_source = source, rd_title = new_title, rd_sha256 = sha,
        rd_metadata = rag_serialize_json metadata, rd_created_at = ds_now db \<rparr>"
    "db1 = db0\<lparr> ds_documents := ds_documents db0 @ [d], ds_next_document := ds_next_document db + 1,
        ds_document_labels := ds_document_labels db0 @ map (\<lambda>i. \<lparr> dl_document_id = rd_id d, dl_label_id = i \<rparr>) js \<rparr>"
proof -
  obtain js db0 where g: "get_or_create_labels (normalize_labels labels) db = (js, db0)" by (rule prod.exhaust)
  have ks: "normalize_labels labels \<noteq> []" using assms(1) by (auto simp: create_document_def Let_def)
  have grown: "labels_grown db db0" "docs_ok db0" "list_all2 (label_row db0) (normalize_labels labels) js"
    using labels_created [OF g assms(2)] by blast+
  note kept = labels_grown_keeps [OF grown(1)]
  have d: "d = \<lparr> rd_id = ds_next_document db, rd_source = source, rd_title = new_title, rd_sha256 = sha,
        rd_metadata = rag_serialize_json metadata, rd_created_at = ds_now db \<rparr>"
    using assms(1) ks by (simp add: create_document_def Let_def g kept)
  have db1: "db1 = db0\<lparr> ds_documents := ds_documents db0 @ [d], ds_next_document := ds_next_document db + 1,
        ds_document_labels := ds_document_labels db0 @ map (\<lambda>i. \<lparr> dl_document_id = rd_id d, dl_label_id = i \<rparr>) js \<rparr>"
    using assms(1) ks by (auto simp: create_document_def Let_def g kept)
  show ?thesis by (rule that [OF g grown ks d db1])
qed

lemma create_document_ok:
  assumes "create_document source labels new_title sha metadata db = Inr (d, db1)" "docs_ok db"
  shows "docs_ok db1 \<and> chunks_of_document (rd_id d) db1 = [] \<and> d \<in> set (ds_documents db1)"
proof (rule document_created [OF assms])
  fix js db0
  assume grown: "labels_grown db db0" and ok: "docs_ok db0"
    and rows: "list_all2 (label_row db0) (normalize_labels labels) js"
    and d: "d = \<lparr> rd_id = ds_next_document db, rd_source = source, rd_title = new_title, rd_sha256 = sha,
        rd_metadata = rag_serialize_json metadata, rd_created_at = ds_now db \<rparr>"
    and db1: "db1 = db0\<lparr> ds_documents := ds_documents db0 @ [d], ds_next_document := ds_next_document db + 1,
        ds_document_labels := ds_document_labels db0 @ map (\<lambda>i. \<lparr> dl_document_id = rd_id d, dl_label_id = i \<rparr>) js \<rparr>"
  note kept = labels_grown_keeps [OF grown]
  have labels: "i \<in> rl_id ` set (ds_labels db0)" if i: "i \<in> set js" for i
  proof -
    obtain n where "n < length js" "js ! n = i" using i unfolding in_set_conv_nth by (elim exE conjE)
    then have "label_row db0 (normalize_labels labels ! n) i" using list_all2_nthD2 [OF rows, of n] by simp
    then have "\<lparr> rl_id = i, rl_key = normalize_labels labels ! n \<rparr> \<in> set (ds_labels db0)" by (simp add: label_row_def)
    from imageI [OF this, of rl_id] show ?thesis by simp
  qed
  have fresh: "rd_id d \<notin> rd_id ` set (ds_documents db0)"
    using ok kept by (auto simp: docs_ok_def d)
  have "rc_document_id c \<noteq> rd_id d" if "c \<in> set (ds_chunks db0)" for c
  proof -
    have "rc_document_id c \<in> rd_id ` set (ds_documents db0)" using ok that by (simp add: docs_ok_def)
    then show ?thesis using fresh by metis
  qed
  then have none: "chunks_of_document (rd_id d) db0 = []" by (simp add: chunks_of_document_def filter_empty_conv)
  have same: "chunks_of_document i db1 = chunks_of_document i db0" for i by (simp add: db1 chunks_of_document_def)
  have "docs_ok db1"
    using ok fresh labels unfolding docs_ok_def document_chunk_count_def same
    by (auto simp: db1 d kept)
  then show ?thesis using none same by (simp add: db1)
qed

section \<open>Inserting chunks\<close>

text \<open>A chunk to insert: its position, page, location, text, metadata and vector.\<close>

type_synonym 'v new_chunk = "nat \<times> int option \<times> str option \<times> str \<times> str option \<times> 'v"

definition insert_chunks :: "int \<Rightarrow> 'v new_chunk list \<Rightarrow> 'v document_store \<Rightarrow> 'v document_store" where
  "insert_chunks i rows db = foldl (\<lambda>db (ix, page, loc, t, metadata, v). insert_chunk i ix page loc t metadata v db) db rows"

definition chunk_row_of :: "int \<Rightarrow> int \<Rightarrow> 'v new_chunk \<Rightarrow> 'v rag_chunk" where
  "chunk_row_of i k = (\<lambda>(ix, page, loc, t, metadata, v). \<lparr> rc_id = k, rc_document_id = i, rc_index = ix, rc_page_number = page,
     rc_source_location = loc, rc_text = t, rc_metadata = metadata, rc_embedding = v \<rparr>)"

lemma insert_chunks_rows:
  "insert_chunks i rows db = db\<lparr> ds_chunks := ds_chunks db @ map (\<lambda>(k, r). chunk_row_of i (ds_next_chunk db + int k) r) (zip [0..<length rows] rows),
     ds_next_chunk := ds_next_chunk db + int (length rows) \<rparr>"
proof (induction rows rule: rev_induct)
  case (snoc r rows)
  obtain ix page loc t metadata v where r: "r = (ix, page, loc, t, metadata, v)" by (metis prod_cases6)
  have "insert_chunks i (rows @ [r]) db = insert_chunk i ix page loc t metadata v (insert_chunks i rows db)"
    by (simp add: insert_chunks_def r)
  then show ?case unfolding snoc.IH by (simp add: insert_chunk_def chunk_row_of_def r)
qed (simp add: insert_chunks_def)

lemma insert_chunks_ok:
  assumes "docs_ok db" "chunks_of_document i db = []" "i \<in> rd_id ` set (ds_documents db)"
    and "map fst rows = [0..<length rows]"
  shows "docs_ok (insert_chunks i rows db)" "document_chunk_count i (insert_chunks i rows db) = length rows"
proof -
  define new where "new = map (\<lambda>(k, r). chunk_row_of i (ds_next_chunk db + int k) r) (zip [0..<length rows] rows)"
  have chunks: "ds_chunks (insert_chunks i rows db) = ds_chunks db @ new"
    by (simp add: insert_chunks_rows new_def)
  have doc: "rc_document_id c = i" if "c \<in> set new" for c using that by (auto simp: chunk_row_of_def new_def)
  have ids: "map rc_id new = map (\<lambda>k. ds_next_chunk db + int k) [0..<length rows]"
    unfolding new_def by (rule nth_equalityI) (auto simp: chunk_row_of_def split: prod.split)
  have ix: "map rc_index new = map fst rows"
    unfolding new_def by (rule nth_equalityI) (auto simp: chunk_row_of_def split: prod.split)
  have own: "chunks_of_document i (insert_chunks i rows db) = new"
    using assms(2) doc by (simp add: chunks_of_document_def chunks filter_id_conv)
  have other: "chunks_of_document j (insert_chunks i rows db) = chunks_of_document j db" if "j \<noteq> i" for j
    using doc that by (auto simp: chunks_of_document_def chunks filter_empty_conv)
  show count: "document_chunk_count i (insert_chunks i rows db) = length rows"
    by (simp add: document_chunk_count_def own new_def)
  have "map rc_index (chunks_of_document j (insert_chunks i rows db)) = [0..<document_chunk_count j (insert_chunks i rows db)]" for j
  proof (cases "j = i")
    case True
    then show ?thesis using ix assms(4) count own by simp
  next
    case False
    then show ?thesis using assms(1) other by (simp add: docs_ok_def document_chunk_count_def)
  qed
  moreover have "distinct (map rc_id (ds_chunks (insert_chunks i rows db)))"
  proof -
    have "distinct (map rc_id new)" unfolding ids by (simp add: distinct_map inj_on_def)
    moreover have "rc_id ` set (ds_chunks db) \<inter> rc_id ` set new = {}"
    proof -
      have "rc_id ` set new = set (map rc_id new)" by (simp only: set_map)
      then show ?thesis using assms(1) unfolding ids by (force simp: docs_ok_def)
    qed
    ultimately show ?thesis using assms(1) by (simp add: chunks docs_ok_def)
  qed
  moreover have "rc_id c < ds_next_chunk (insert_chunks i rows db) \<and> rc_document_id c \<in> rd_id ` set (ds_documents db)"
    if "c \<in> set (ds_chunks (insert_chunks i rows db))" for c
  proof (cases "c \<in> set new")
    case True
    then have "rc_id c \<in> set (map rc_id new)" by (simp only: set_map image_eqI)
    then show ?thesis using doc [OF True] assms(3) unfolding ids by (auto simp: insert_chunks_rows)
  next
    case False
    then have "c \<in> set (ds_chunks db)" using that by (simp add: chunks)
    then show ?thesis using assms(1) by (fastforce simp: docs_ok_def insert_chunks_rows)
  qed
  ultimately show "docs_ok (insert_chunks i rows db)"
    using assms(1) unfolding docs_ok_def by (simp add: insert_chunks_rows)
qed

section \<open>What a search returns\<close>

lemma chunk_documents_iff:
  "(c, d) \<in> set (chunk_documents db) \<longleftrightarrow> c \<in> set (ds_chunks db) \<and> d \<in> set (ds_documents db) \<and> rd_id d = rc_document_id c"
  by (auto simp: chunk_documents_def)

lemma label_rows_iff:
  "(c, d) \<in> set (label_rows ks db) \<longleftrightarrow> (c, d) \<in> set (chunk_documents db) \<and> carries_label ks db d"
  by (simp add: label_rows_def)

lemma persona_rows_iff:
  "(c, d) \<in> set (persona_rows p db) \<longleftrightarrow> (c, d) \<in> set (chunk_documents db) \<and> linked_to p db d"
  by (fastforce simp: persona_rows_def linked_to_def list_ex_iff)

lemma nearest_from_rows: "r \<in> set (nearest dst limit rows) \<Longrightarrow> \<exists>x \<in> set rows. r = search_result dst x"
  by (auto simp: nearest_def dest!: in_set_takeD)

lemma length_nearest: "length (nearest dst limit rows) = min (nat limit) (length rows)"
  by (simp add: nearest_def min.commute)

text \<open>The rows returned are in order of distance and no row left out is nearer.\<close>

lemma nearest_sorted: "sorted (map sr_distance (nearest dst limit rows))"
  by (simp add: nearest_def take_map [symmetric] sorted_wrt_take)

lemma nearest_rest:
  assumes "x \<in> set rows" "search_result dst x \<notin> set (nearest dst limit rows)" "r \<in> set (nearest dst limit rows)"
  shows "sr_distance r \<le> sr_distance (search_result dst x)"
proof -
  let ?all = "sort_key sr_distance (map (search_result dst) rows)"
  have "search_result dst x \<in> set ?all" using assms(1) by simp
  then have "search_result dst x \<in> set (drop (nat limit) ?all)"
    using assms(2) unfolding nearest_def by (metis UnE append_take_drop_id set_append)
  moreover have "sorted (map sr_distance (take (nat limit) ?all) @ map sr_distance (drop (nat limit) ?all))"
    by (simp flip: map_append)
  ultimately show ?thesis using assms(3) unfolding nearest_def sorted_append by auto
qed

definition scoped_answer ::
  "(rag_document \<Rightarrow> bool) \<Rightarrow> ('v \<Rightarrow> 'd::linorder) \<Rightarrow> int \<Rightarrow> 'v document_store \<Rightarrow> 'd rag_search_result list \<Rightarrow> bool"
where
  "scoped_answer P dst limit db rs \<longleftrightarrow>
     length rs \<le> nat limit \<and> sorted (map sr_distance rs)
     \<and> (\<forall>r \<in> set rs. \<exists>c d. c \<in> set (ds_chunks db) \<and> d \<in> set (ds_documents db) \<and> rd_id d = rc_document_id c \<and> P d
            \<and> r = search_result dst (c, d))
     \<and> (\<forall>c \<in> set (ds_chunks db). \<forall>d \<in> set (ds_documents db). rd_id d = rc_document_id c \<longrightarrow> P d \<longrightarrow>
            search_result dst (c, d) \<in> set rs
            \<or> length rs = nat limit \<and> (\<forall>r \<in> set rs. sr_distance r \<le> dst (rc_embedding c)))"

lemma nearest_scoped:
  assumes "\<And>c d. (c, d) \<in> set rows \<longleftrightarrow> (c, d) \<in> set (chunk_documents db) \<and> P d"
  shows "scoped_answer P dst limit db (nearest dst limit rows)"
  unfolding scoped_answer_def
proof (intro conjI ballI impI)
  show "length (nearest dst limit rows) \<le> nat limit" by (simp add: length_nearest)
  show "sorted (map sr_distance (nearest dst limit rows))" by (rule nearest_sorted)
next
  fix r assume "r \<in> set (nearest dst limit rows)"
  then obtain c d where "(c, d) \<in> set rows" "r = search_result dst (c, d)" using nearest_from_rows by fastforce
  then show "\<exists>c d. c \<in> set (ds_chunks db) \<and> d \<in> set (ds_documents db) \<and> rd_id d = rc_document_id c \<and> P d
      \<and> r = search_result dst (c, d)"
    using assms chunk_documents_iff by blast
next
  fix c d assume "c \<in> set (ds_chunks db)" "d \<in> set (ds_documents db)" "rd_id d = rc_document_id c" "P d"
  then have row: "(c, d) \<in> set rows" using assms chunk_documents_iff by blast
  show "search_result dst (c, d) \<in> set (nearest dst limit rows)
      \<or> length (nearest dst limit rows) = nat limit \<and> (\<forall>r \<in> set (nearest dst limit rows). sr_distance r \<le> dst (rc_embedding c))"
  proof (cases "search_result dst (c, d) \<in> set (nearest dst limit rows)")
    case False
    then have "length rows > nat limit"
      using row by (cases "length rows \<le> nat limit") (force simp: nearest_def)+
    then show ?thesis using nearest_rest [OF row False] by (auto simp: length_nearest search_result_def)
  qed simp
qed

section \<open>The contract of a strategy\<close>

text \<open>What storing a prepared document does: a document row with its labels and its numbered chunks.\<close>

definition stores_document ::
  "prepared_document \<Rightarrow> str list \<Rightarrow> 'v document_store \<Rightarrow> rag_document_result \<Rightarrow> 'v document_store \<Rightarrow> bool"
where
  "stores_document p labels db r db2 \<longleftrightarrow>
     (\<exists>d db1 rows. create_document (pd_source p) labels (pd_title p) (Some (pd_sha256 p)) None db = Inr (d, db1)
        \<and> map fst rows = [0..<length rows] \<and> db2 = insert_chunks (rd_id d) rows db1
        \<and> r = \<lparr> dr_document_id = rd_id d, dr_source = rd_source d, dr_title = rd_title d,
                dr_labels = document_labels (rd_id d) db2, dr_chunk_count = length rows, dr_reused = False \<rparr>)"

locale rag_strategy =
  fixes create :: "prepared_document \<Rightarrow> str list \<Rightarrow> 'v document_store \<Rightarrow> (rag_document_result \<times> 'v document_store) result"
    and search :: "str list \<Rightarrow> str \<Rightarrow> int \<Rightarrow> 'v document_store \<Rightarrow> ('d::linorder) rag_search_result list result"
    and search_persona :: "int \<Rightarrow> str \<Rightarrow> int \<Rightarrow> 'v document_store \<Rightarrow> 'd rag_search_result list result"
  assumes create_stores: "create p labels db = Inr (r, db2) \<Longrightarrow> docs_ok db \<Longrightarrow> stores_document p labels db r db2"
    and search_rows: "search labels q limit db = Inr rs \<Longrightarrow> \<exists>dst. rs = nearest dst limit (label_rows (normalize_labels labels) db)"
    and persona_search_rows: "search_persona i q limit db = Inr rs \<Longrightarrow> \<exists>dst. rs = nearest dst limit (persona_rows i db)"
begin

lemma create_ok:
  assumes "create p labels db = Inr (r, db2)" "docs_ok db"
  shows "docs_ok db2 \<and> document_chunk_count (dr_document_id r) db2 = dr_chunk_count r"
proof -
  obtain d db1 rows where c: "create_document (pd_source p) labels (pd_title p) (Some (pd_sha256 p)) None db = Inr (d, db1)"
    and rows: "map fst rows = [0..<length rows]" "db2 = insert_chunks (rd_id d) rows db1"
    and r: "dr_document_id r = rd_id d" "dr_chunk_count r = length rows"
    using create_stores [OF assms] by (auto simp: stores_document_def)
  note ok = create_document_ok [OF c assms(2)]
  then have "rd_id d \<in> rd_id ` set (ds_documents db1)" by blast
  then show ?thesis using insert_chunks_ok [of db1 "rd_id d" rows] ok rows r by simp
qed

lemma search_scoped:
  "search labels q limit db = Inr rs \<Longrightarrow> \<exists>dst. scoped_answer (carries_label (normalize_labels labels) db) dst limit db rs"
  using search_rows nearest_scoped label_rows_iff by metis

lemma search_persona_scoped:
  "search_persona i q limit db = Inr rs \<Longrightarrow> \<exists>dst. scoped_answer (linked_to i db) dst limit db rs"
  using persona_search_rows nearest_scoped persona_rows_iff by metis

end

end
