(* ===== verification/Rag_Strategies.thy ===== *)
theory Rag_Strategies
  imports Rag_Store
begin

text \<open>
  The two implementations of the strategy contract: chunks embedded by a provider and stored
  with pgvector (\<^verbatim>\<open>app/services/rag/local_postgres.py\<close>), and chunks cut and embedded inside Oracle
  (\<^verbatim>\<open>app/services/rag/oracle_native.py\<close>). Code outside the repository is a parameter: the embedding
  provider \<open>emb\<close>, the sidecar's chunker \<open>sidecar\<close>, the databases' distance functions, and Oracle's
  \<^verbatim>\<open>VECTOR_CHUNKS\<close> and \<^verbatim>\<open>VECTOR_EMBEDDING\<close>.
\<close>

section \<open>Local Postgres\<close>

text \<open>Indexing an empty answer.\<close>

definition index_error :: error where
  "index_error = IndexError (lit ''list index out of range'')"

definition wrong_dimensions :: "'f list \<Rightarrow> error" where
  "wrong_dimensions v = ValueError (lit ''Embedding must have '' @ show_nat EMBEDDING_DIMENSIONS
     @ lit '' dimensions; received '' @ show_nat (length v) @ lit ''.'')"

definition validate_vector_chunk :: "'f vector_chunk \<Rightarrow> unit result" where
  "validate_vector_chunk c =
     (if strip (vc_text c) = [] then Inl (ValueError (lit ''RAG chunk text cannot be empty.''))
      else if length (vc_embedding c) \<noteq> EMBEDDING_DIMENSIONS then Inl (wrong_dimensions (vc_embedding c))
      else Inr ())"

fun validate_vector_chunks :: "'f vector_chunk list \<Rightarrow> unit result" where
  "validate_vector_chunks [] = Inr ()"
| "validate_vector_chunks (c # cs) = rbind (validate_vector_chunk c) (\<lambda>_. validate_vector_chunks cs)"

definition vector_row :: "'f vector_chunk \<Rightarrow> 'f list new_chunk" where
  "vector_row c = (vc_index c, vc_page_number c, vc_source_location c, vc_text c, rag_serialize_json None, vc_embedding c)"

definition document_result :: "rag_document \<Rightarrow> nat \<Rightarrow> 'v document_store \<Rightarrow> rag_document_result" where
  "document_result d n db = \<lparr> dr_document_id = rd_id d, dr_source = rd_source d, dr_title = rd_title d,
     dr_labels = document_labels (rd_id d) db, dr_chunk_count = n, dr_reused = False \<rparr>"

definition local_create_document_from_prepared ::
  "'f embedder \<Rightarrow> (str \<Rightarrow> int \<Rightarrow> int \<Rightarrow> str list result) \<Rightarrow> rag_settings \<Rightarrow> prepared_document \<Rightarrow> str list \<Rightarrow> 'f list document_store
     \<Rightarrow> (rag_document_result \<times> 'f list document_store) result"
where
  "local_create_document_from_prepared emb sidecar S p labels db =
     rbind (build_rag_chunks_with_optional_text_tools sidecar (rs_text_tools_enabled S) (pd_sections p)
              (rs_chunk_size S) (rs_chunk_overlap S)) (\<lambda>prepared.
     if prepared = [] then Inl (ValueError (lit ''No extractable text was available for RAG ingestion.''))
     else rbind (embed_prepared_chunks emb S prepared) (\<lambda>chunks.
          rbind (validate_vector_chunks chunks) (\<lambda>_.
          rbind (create_document (pd_source p) labels (pd_title p) (Some (pd_sha256 p)) None db) (\<lambda>(d, db1).
            let db2 = insert_chunks (rd_id d) (map vector_row chunks) db1
            in Inr (document_result d (length chunks) db2, db2)))))"

definition local_query_vector :: "'f embedder \<Rightarrow> str \<Rightarrow> 'f list result" where
  "local_query_vector emb query =
     rbind (emb [query]) (\<lambda>vs. case vs of [] \<Rightarrow> Inl index_error
       | v # _ \<Rightarrow> if length v \<noteq> EMBEDDING_DIMENSIONS then Inl (wrong_dimensions v) else Inr v)"

definition local_search ::
  "'f embedder \<Rightarrow> ('f list \<Rightarrow> 'f list \<Rightarrow> 'd::linorder) \<Rightarrow> str list \<Rightarrow> str \<Rightarrow> int \<Rightarrow> 'f list document_store \<Rightarrow> 'd rag_search_result list result"
where
  "local_search emb cosine labels query limit db =
     rbind (check_labels labels) (\<lambda>ks. rbind (check_query query limit) (\<lambda>_. rbind (local_query_vector emb query) (\<lambda>v.
       Inr (nearest (\<lambda>w. cosine w v) limit (label_rows ks db)))))"

definition local_search_persona_documents ::
  "'f embedder \<Rightarrow> ('f list \<Rightarrow> 'f list \<Rightarrow> 'd::linorder) \<Rightarrow> int \<Rightarrow> str \<Rightarrow> int \<Rightarrow> 'f list document_store \<Rightarrow> 'd rag_search_result list result"
where
  "local_search_persona_documents emb cosine p query limit db =
     rbind (check_persona_id p) (\<lambda>_. rbind (check_query query limit) (\<lambda>_. rbind (local_query_vector emb query) (\<lambda>v.
       Inr (nearest (\<lambda>w. cosine w v) limit (persona_rows p db)))))"

section \<open>Oracle\<close>

text \<open>
  \<open>vector_chunks text size overlap\<close> are the offsets, lengths and texts of the chunks the database
  cuts; \<open>vector_embedding model text\<close> is the vector it computes, or the error the driver raises;
  \<open>vector_distance\<close> is its cosine distance.
\<close>

record 'v oracle_database =
  vector_chunks :: "str \<Rightarrow> int \<Rightarrow> int \<Rightarrow> (nat \<times> nat \<times> str) list result"
  vector_embedding :: "str \<Rightarrow> str \<Rightarrow> 'v result"

definition oracle_chunk_size :: "int \<Rightarrow> int result" where
  "oracle_chunk_size n =
     (if n < 50 \<or> 4000 < n then Inl (ValueError (lit ''Oracle RAG chunk size must be between 50 and 4000 characters.''))
      else Inr n)"

text \<open>For the sizes the check above lets through, \<^verbatim>\<open>int(size * 0.05)\<close> and \<^verbatim>\<open>int(size * 0.20)\<close> are the integer quotients.\<close>

definition oracle_chunk_overlap :: "int \<Rightarrow> int \<Rightarrow> int result" where
  "oracle_chunk_overlap n sz =
     (if n = 0 then Inr n
      else if n < max 1 (sz div 20) \<or> sz div 5 < n
      then Inl (ValueError (lit ''Oracle RAG chunk overlap must be 0 or between 5% and 20% of chunk size.''))
      else Inr n)"

text \<open>The rows of one insert, in order, with the vectors the database computes for their texts.\<close>

fun embed_rows :: "(str \<Rightarrow> 'v result) \<Rightarrow> (nat \<times> int option \<times> str option \<times> str \<times> str option) list \<Rightarrow> 'v new_chunk list result" where
  "embed_rows vec [] = Inr []"
| "embed_rows vec ((ix, page, loc, t, metadata) # rows) =
     rbind (vec t) (\<lambda>v. rbind (embed_rows vec rows) (\<lambda>rest. Inr ((ix, page, loc, t, metadata, v) # rest)))"

definition oracle_chunk_metadata :: "nat \<Rightarrow> nat \<Rightarrow> str" where
  "oracle_chunk_metadata off len =
     dumps Compact (JObj [(lit ''chunk_offset'', JInt (int off)), (lit ''chunk_length'', JInt (int len))])"

definition oracle_rows :: "(nat \<times> nat \<times> str) list \<Rightarrow> (nat \<times> int option \<times> str option \<times> str \<times> str option) list" where
  "oracle_rows cs =
     map (\<lambda>(n, off, len, t). (n, None, Some (lit ''offset '' @ show_nat off), t, Some (oracle_chunk_metadata off len)))
       (zip [0..<length cs] (sort_key fst cs))"

definition insert_oracle_chunks ::
  "'v oracle_database \<Rightarrow> rag_settings \<Rightarrow> int \<Rightarrow> str \<Rightarrow> 'v document_store \<Rightarrow> (nat \<times> 'v document_store) result"
where
  "insert_oracle_chunks ora S i document_text db =
     rbind (oracle_chunk_size (rs_chunk_size S)) (\<lambda>sz.
     rbind (oracle_chunk_overlap (rs_chunk_overlap S) sz) (\<lambda>ov.
     rbind (oracle_model_name (rs_oracle_embedding_model S)) (\<lambda>model.
     rbind (vector_chunks ora document_text sz ov) (\<lambda>cs.
     rbind (embed_rows (vector_embedding ora model) (oracle_rows cs)) (\<lambda>rows.
       let db2 = insert_chunks i rows db in Inr (document_chunk_count i db2, db2))))))"

definition build_text_tools_chunks ::
  "(str \<Rightarrow> int \<Rightarrow> int \<Rightarrow> str list result) \<Rightarrow> rag_settings \<Rightarrow> extracted_section list \<Rightarrow> prepared_chunk list result"
where
  "build_text_tools_chunks sidecar S sections =
     rbind (chunk_sections (\<lambda>t. sidecar t (rs_chunk_size S) (rs_chunk_overlap S)) [] sections) (\<lambda>chunks.
       if chunks = [] then Inl (ValueError (lit ''No extractable text was available for RAG ingestion.'')) else Inr chunks)"

definition rust_chunk_metadata :: "nat \<Rightarrow> str" where
  "rust_chunk_metadata len =
     dumps Compact (JObj [(lit ''chunk_provider'', JStr (lit ''rust'')), (lit ''chunk_length'', JInt (int len))])"

definition insert_prepared_chunks ::
  "'v oracle_database \<Rightarrow> rag_settings \<Rightarrow> int \<Rightarrow> prepared_chunk list \<Rightarrow> 'v document_store \<Rightarrow> (nat \<times> 'v document_store) result"
where
  "insert_prepared_chunks ora S i chunks db =
     rbind (oracle_model_name (rs_oracle_embedding_model S)) (\<lambda>model.
     rbind (embed_rows (vector_embedding ora model)
         (map (\<lambda>c. (pc_index c, pc_page_number c, pc_source_location c, pc_text c, Some (rust_chunk_metadata (length (pc_text c))))) chunks)) (\<lambda>rows.
       Inr (length chunks, insert_chunks i rows db)))"

definition oracle_insert_chunks ::
  "'v oracle_database \<Rightarrow> (str \<Rightarrow> int \<Rightarrow> int \<Rightarrow> str list result) \<Rightarrow> rag_settings \<Rightarrow> int \<Rightarrow> prepared_document \<Rightarrow> 'v document_store
     \<Rightarrow> (nat \<times> 'v document_store) result"
where
  "oracle_insert_chunks ora sidecar S i p db =
     (let provider = lower (strip (rs_oracle_chunking_provider S)) in
      if provider = lit ''oracle'' then insert_oracle_chunks ora S i (pd_combined_text p) db
      else if provider = lit ''rust'' then
        (if \<not> rs_text_tools_enabled S
         then Inl (ValueError (lit ''TEXT_TOOLS_ENABLED must be true when RAG_ORACLE_CHUNKING_PROVIDER=rust.''))
         else rbind (build_text_tools_chunks sidecar S (pd_sections p)) (\<lambda>chunks. insert_prepared_chunks ora S i chunks db))
      else Inl (ValueError (lit ''RAG_ORACLE_CHUNKING_PROVIDER must be 'oracle' or 'rust'.'')))"

definition oracle_create_document_from_prepared ::
  "'v oracle_database \<Rightarrow> (str \<Rightarrow> int \<Rightarrow> int \<Rightarrow> str list result) \<Rightarrow> rag_settings \<Rightarrow> prepared_document \<Rightarrow> str list \<Rightarrow> 'v document_store
     \<Rightarrow> (rag_document_result \<times> 'v document_store) result"
where
  "oracle_create_document_from_prepared ora sidecar S p labels db =
     rbind (create_document (pd_source p) labels (pd_title p) (Some (pd_sha256 p)) None db) (\<lambda>(d, db1).
     rbind (oracle_insert_chunks ora sidecar S (rd_id d) p db1) (\<lambda>(n, db2).
       Inr (document_result d n db2, db2)))"

text \<open>The query is embedded inside the statement; an error of the database fails the search.\<close>

definition oracle_query_vector :: "'v oracle_database \<Rightarrow> rag_settings \<Rightarrow> str \<Rightarrow> 'v result" where
  "oracle_query_vector ora S query =
     rbind (oracle_model_name (rs_oracle_embedding_model S)) (\<lambda>model. vector_embedding ora model query)"

definition oracle_search ::
  "'v oracle_database \<Rightarrow> ('v \<Rightarrow> 'v \<Rightarrow> 'd::linorder) \<Rightarrow> rag_settings \<Rightarrow> str list \<Rightarrow> str \<Rightarrow> int \<Rightarrow> 'v document_store \<Rightarrow> 'd rag_search_result list result"
where
  "oracle_search ora vector_distance S labels query limit db =
     rbind (check_labels labels) (\<lambda>ks. rbind (check_query query limit) (\<lambda>_. rbind (oracle_query_vector ora S query) (\<lambda>v.
       Inr (nearest (\<lambda>w. vector_distance w v) limit (label_rows ks db)))))"

definition oracle_search_persona_documents ::
  "'v oracle_database \<Rightarrow> ('v \<Rightarrow> 'v \<Rightarrow> 'd::linorder) \<Rightarrow> rag_settings \<Rightarrow> int \<Rightarrow> str \<Rightarrow> int \<Rightarrow> 'v document_store \<Rightarrow> 'd rag_search_result list result"
where
  "oracle_search_persona_documents ora vector_distance S p query limit db =
     rbind (check_persona_id p) (\<lambda>_. rbind (check_query query limit) (\<lambda>_. rbind (oracle_query_vector ora S query) (\<lambda>v.
       Inr (nearest (\<lambda>w. vector_distance w v) limit (persona_rows p db)))))"

section \<open>The service facade\<close>

text \<open>\<^verbatim>\<open>RagService\<close> hands every call to its strategy; \<^verbatim>\<open>build_rag_service\<close> picks it by the dialect.\<close>

record ('v, 'd) rag_service =
  rg_create :: "prepared_document \<Rightarrow> str list \<Rightarrow> 'v document_store \<Rightarrow> (rag_document_result \<times> 'v document_store) result"
  rg_search :: "str list \<Rightarrow> str \<Rightarrow> int \<Rightarrow> 'v document_store \<Rightarrow> 'd rag_search_result list result"
  rg_search_persona :: "int \<Rightarrow> str \<Rightarrow> int \<Rightarrow> 'v document_store \<Rightarrow> 'd rag_search_result list result"

definition LocalPostgresRagStrategy ::
  "'f embedder \<Rightarrow> ('f list \<Rightarrow> 'f list \<Rightarrow> 'd::linorder) \<Rightarrow> (str \<Rightarrow> int \<Rightarrow> int \<Rightarrow> str list result) \<Rightarrow> rag_settings \<Rightarrow> ('f list, 'd) rag_service"
where
  "LocalPostgresRagStrategy emb cosine sidecar S =
     \<lparr> rg_create = local_create_document_from_prepared emb sidecar S, rg_search = local_search emb cosine,
       rg_search_persona = local_search_persona_documents emb cosine \<rparr>"

definition OracleNativeRagStrategy ::
  "'v oracle_database \<Rightarrow> ('v \<Rightarrow> 'v \<Rightarrow> 'd::linorder) \<Rightarrow> (str \<Rightarrow> int \<Rightarrow> int \<Rightarrow> str list result) \<Rightarrow> rag_settings \<Rightarrow> ('v, 'd) rag_service"
where
  "OracleNativeRagStrategy ora vector_distance sidecar S =
     \<lparr> rg_create = oracle_create_document_from_prepared ora sidecar S, rg_search = oracle_search ora vector_distance S,
       rg_search_persona = oracle_search_persona_documents ora vector_distance S \<rparr>"

definition build_rag_service :: "str \<Rightarrow> ('v, 'd) rag_service \<Rightarrow> ('v, 'd) rag_service \<Rightarrow> ('v, 'd) rag_service result" where
  "build_rag_service dialect oracle_service postgres_service =
     (if dialect = lit ''oracle'' then Inr oracle_service
      else if dialect = lit ''postgresql'' then Inr postgres_service
      else Inl (RuntimeError (lit ''Unsupported database dialect for RAG: '' @ dialect @ lit ''.'')))"

definition ingest_document ::
  "(bytes \<Rightarrow> str list option) \<Rightarrow> ('v, 'd) rag_service \<Rightarrow> str list \<Rightarrow> str option \<Rightarrow> str option \<Rightarrow> str option \<Rightarrow> upload_file option
     \<Rightarrow> 'v document_store \<Rightarrow> (rag_document_result \<times> 'v document_store) result"
where
  "ingest_document pdf G labels source new_title pasted f db =
     rbind (prepare_document pdf pasted f source new_title) (\<lambda>p. rg_create G p labels db)"

section \<open>Both keep the contract\<close>

lemma embed_rows_kept: "embed_rows vec rows = Inr out \<Longrightarrow> map fst out = map fst rows"
  by (induction vec rows arbitrary: out rule: embed_rows.induct) (auto simp: rbind_eq_Inr)

lemma oracle_rows_numbered: "map fst (oracle_rows cs) = [0..<length cs]"
  by (rule nth_equalityI) (auto simp: oracle_rows_def split: prod.split)

lemma local_create_stores:
  assumes "local_create_document_from_prepared emb sidecar S p labels db = Inr (r, db2)"
  shows "stores_document p labels db r db2"
proof -
  obtain prepared chunks d db1 where e: "embed_prepared_chunks emb S prepared = Inr chunks"
    and c: "create_document (pd_source p) labels (pd_title p) (Some (pd_sha256 p)) None db = Inr (d, db1)"
    and db2: "db2 = insert_chunks (rd_id d) (map vector_row chunks) db1" "r = document_result d (length chunks) db2"
    using assms by (auto simp: local_create_document_from_prepared_def rbind_eq_Inr Let_def split: if_splits)
  have "map vc_index chunks = [0..<length chunks]"
    using embed_loop_result [of emb S "[]" prepared chunks] e by (simp add: embed_prepared_chunks_def)
  then have "map fst (map vector_row chunks) = [0..<length (map vector_row chunks)]"
    by (simp add: vector_row_def comp_def)
  then show ?thesis
    unfolding stores_document_def using c db2
    by (intro exI [of _ d] exI [of _ db1] exI [of _ "map vector_row chunks"]) (simp add: document_result_def)
qed

text \<open>
  With the sidecar's chunks Oracle stores the positions the loop counted; with its own it
  numbers them by their offsets. Either way they are 0, 1, 2 and so on.
\<close>

lemma chunk_count_inserted:
  assumes "create_document source labels new_title sha metadata db = Inr (d, db1)" "docs_ok db" "map fst rows = [0..<length rows]"
  shows "document_chunk_count (rd_id d) (insert_chunks (rd_id d) rows db1) = length rows"
  using create_document_ok [OF assms(1, 2)] insert_chunks_ok(2) [OF _ _ _ assms(3)] by blast

lemma insert_oracle_chunks_rows:
  assumes "insert_oracle_chunks ora S i t db = Inr (n, db2)"
  shows "\<exists>rows. map fst rows = [0..<length rows] \<and> db2 = insert_chunks i rows db \<and> n = document_chunk_count i db2"
proof -
  obtain model cs rows where r: "embed_rows (vector_embedding ora model) (oracle_rows cs) = Inr rows"
    and db2: "db2 = insert_chunks i rows db" "n = document_chunk_count i db2"
    using assms by (auto simp: insert_oracle_chunks_def rbind_eq_Inr Let_def)
  have "map fst rows = [0..<length cs]" using embed_rows_kept [OF r] oracle_rows_numbered by simp
  moreover from this have "length rows = length cs" by (metis length_map length_upt minus_nat.diff_0)
  ultimately show ?thesis using db2 by metis
qed

lemma insert_prepared_chunks_rows:
  assumes "insert_prepared_chunks ora S i chunks db = Inr (n, db2)" "map pc_index chunks = [0..<length chunks]"
  shows "\<exists>rows. map fst rows = [0..<length rows] \<and> db2 = insert_chunks i rows db \<and> n = length rows"
proof -
  let ?cols = "map (\<lambda>c. (pc_index c, pc_page_number c, pc_source_location c, pc_text c, Some (rust_chunk_metadata (length (pc_text c))))) chunks"
  obtain model rows where r: "embed_rows (vector_embedding ora model) ?cols = Inr rows"
    and db2: "db2 = insert_chunks i rows db" "n = length chunks"
    using assms(1) by (auto simp: insert_prepared_chunks_def rbind_eq_Inr)
  have "map fst rows = map pc_index chunks" using embed_rows_kept [OF r] by (simp add: comp_def)
  moreover from this have "length rows = length chunks" by (rule map_eq_imp_length_eq)
  ultimately show ?thesis using db2 assms(2) by metis
qed

lemma oracle_create_stores:
  assumes "oracle_create_document_from_prepared ora sidecar S p labels db = Inr (r, db2)" "docs_ok db"
  shows "stores_document p labels db r db2"
proof -
  obtain d db1 n where c: "create_document (pd_source p) labels (pd_title p) (Some (pd_sha256 p)) None db = Inr (d, db1)"
    and ins: "oracle_insert_chunks ora sidecar S (rd_id d) p db1 = Inr (n, db2)" and r: "r = document_result d n db2"
    using assms(1) by (auto simp: oracle_create_document_from_prepared_def rbind_eq_Inr)
  have "\<exists>rows. map fst rows = [0..<length rows] \<and> db2 = insert_chunks (rd_id d) rows db1 \<and> n = length rows"
  proof (cases "lower (strip (rs_oracle_chunking_provider S)) = lit ''oracle''")
    case True
    then have "insert_oracle_chunks ora S (rd_id d) (pd_combined_text p) db1 = Inr (n, db2)"
      using ins by (simp add: oracle_insert_chunks_def)
    from insert_oracle_chunks_rows [OF this] show ?thesis using chunk_count_inserted [OF c assms(2)] by metis
  next
    case False
    then obtain chunks where k: "build_text_tools_chunks sidecar S (pd_sections p) = Inr chunks"
      "insert_prepared_chunks ora S (rd_id d) chunks db1 = Inr (n, db2)"
      using ins by (auto simp: oracle_insert_chunks_def Let_def rbind_eq_Inr split: if_splits)
    have "map pc_index chunks = [0..<length chunks]"
      using k(1) chunk_sections_index [of _ "[]" "pd_sections p" chunks]
      by (auto simp: build_text_tools_chunks_def rbind_eq_Inr split: if_splits)
    then show ?thesis using insert_prepared_chunks_rows [OF k(2)] by blast
  qed
  then show ?thesis unfolding stores_document_def using c r by (fastforce simp: document_result_def)
qed

lemma local_searches:
  "local_search emb cosine labels q limit db = Inr rs \<Longrightarrow> \<exists>dst. rs = nearest dst limit (label_rows (normalize_labels labels) db)"
  "local_search_persona_documents emb cosine i q limit db = Inr rs \<Longrightarrow> \<exists>dst. rs = nearest dst limit (persona_rows i db)"
  by (auto simp: local_search_def local_search_persona_documents_def check_labels_def Let_def rbind_eq_Inr split: if_splits)

lemma oracle_searches:
  "oracle_search ora cosine S labels q limit db = Inr rs \<Longrightarrow> \<exists>dst. rs = nearest dst limit (label_rows (normalize_labels labels) db)"
  "oracle_search_persona_documents ora cosine S i q limit db = Inr rs \<Longrightarrow> \<exists>dst. rs = nearest dst limit (persona_rows i db)"
  by (auto simp: oracle_search_def oracle_search_persona_documents_def check_labels_def Let_def rbind_eq_Inr split: if_splits)

interpretation postgres: rag_strategy "local_create_document_from_prepared emb sidecar S" "local_search emb cosine"
    "local_search_persona_documents emb cosine"
  for emb sidecar S cosine
  by unfold_locales (rule local_create_stores local_searches, assumption)+

interpretation oracle_native: rag_strategy "oracle_create_document_from_prepared ora sidecar S" "oracle_search ora vector_distance S"
    "oracle_search_persona_documents ora vector_distance S"
  for ora sidecar S vector_distance
  by unfold_locales (rule oracle_create_stores oracle_searches, assumption+)+

end
