(* ===== verification/Rag_Chat.thy ===== *)
theory Rag_Chat
  imports Rag_Strategies Security
begin

text \<open>
  Personas, conversations and the bounded chat turn of the RAG demo (\<^verbatim>\<open>app/services/rag/chat.py\<close>
  and the persona and conversation routes of \<^verbatim>\<open>app/api/routes/rag.py\<close>). The two model calls of a
  turn are the parameters \<open>planner\<close> and \<open>answerer\<close>: from the instructions and the prompt to the
  validated output or the error raised. A turn has two halves, because the handler gives up
  control while the model answers: what it checks before, and what it writes after.
\<close>

section \<open>Tables\<close>

record rag_persona =
  ps_id :: int
  ps_invitation_code_id :: int
  ps_name :: str
  ps_name_key :: str
  ps_instructions :: str
  ps_capabilities :: "str option"
  ps_tool_config :: "str option"
  ps_is_active :: bool
  ps_created_at :: int
  ps_updated_at :: int

record rag_conversation =
  cv_id :: int
  cv_invitation_code_id :: int
  cv_persona_id :: "int option"
  cv_title :: "str option"
  cv_status :: str
  cv_created_at :: int
  cv_updated_at :: int

record rag_message =
  ms_id :: int
  ms_conversation_id :: int
  ms_role :: str
  ms_content :: str
  ms_turn_index :: nat
  ms_metadata :: "str option"
  ms_created_at :: int

record rag_citation =
  ct_id :: int
  ct_message_id :: int
  ct_document_id :: int
  ct_chunk_id :: int
  ct_chunk_index :: nat
  ct_source :: str
  ct_title :: "str option"
  ct_snippet :: str
  ct_rank :: nat

record 'v rag_db =
  rb_docs :: "'v document_store"
  rb_personas :: "rag_persona list"
  rb_conversations :: "rag_conversation list"
  rb_messages :: "rag_message list"
  rb_citations :: "rag_citation list"
  rb_next_persona :: int
  rb_next_conversation :: int
  rb_next_message :: int
  rb_next_citation :: int

definition empty_rag_db :: "'v rag_db" where
  "empty_rag_db = \<lparr> rb_docs = empty_document_store, rb_personas = [], rb_conversations = [], rb_messages = [], rb_citations = [],
     rb_next_persona = 1, rb_next_conversation = 1, rb_next_message = 1, rb_next_citation = 1 \<rparr>"

abbreviation rb_now :: "'v rag_db \<Rightarrow> int" where
  "rb_now db \<equiv> ds_now (rb_docs db)"

section \<open>Personas\<close>

text \<open>\<^verbatim>\<open>str.split()\<close>: the maximal runs of characters that are not space.\<close>

fun words_from :: "str \<Rightarrow> str \<Rightarrow> str list" where
  "words_from cur [] = (if cur = [] then [] else [rev cur])"
| "words_from cur (c # s) =
     (if is_space c then (if cur = [] then words_from [] s else rev cur # words_from [] s) else words_from (c # cur) s)"

definition split_words :: "str \<Rightarrow> str list" where
  "split_words s = words_from [] s"

definition clean_persona_name :: "str \<Rightarrow> str" where
  "clean_persona_name n = join [32] (split_words (strip n))"

definition normalize_persona_name :: "str \<Rightarrow> str" where
  "normalize_persona_name n = lower (clean_persona_name n)"

definition clean_optional_text :: "str option \<Rightarrow> str option" where
  "clean_optional_text v = strip_or_none v"

record persona_request =
  pq_name :: str
  pq_instructions :: str
  pq_capabilities :: "str option"
  pq_tool_config :: "str option"

text \<open>The limits of the request schema; a body outside them is answered 422 before the handler runs.\<close>

definition at_most :: "nat \<Rightarrow> str option \<Rightarrow> bool" where
  "at_most n v = (case v of None \<Rightarrow> True | Some s \<Rightarrow> length s \<le> n)"

definition persona_request_ok :: "persona_request \<Rightarrow> bool" where
  "persona_request_ok q \<longleftrightarrow> 1 \<le> length (pq_name q) \<and> length (pq_name q) \<le> 255
     \<and> 1 \<le> length (pq_instructions q) \<and> length (pq_instructions q) \<le> 8000
     \<and> at_most 8000 (pq_capabilities q) \<and> at_most 8000 (pq_tool_config q)"

definition invalid_body :: error where
  "invalid_body = HTTPException 422 (lit ''Unprocessable Entity'')"

definition checked_body :: "bool \<Rightarrow> unit result" where
  "checked_body ok = (if ok then Inr () else Inl invalid_body)"

definition rag_access :: "access_token_claims \<Rightarrow> access_token_claims result" where
  "rag_access claims = require_experience_access RAG_DEMO claims"

definition persona_missing :: error where
  "persona_missing = HTTPException 404 (lit ''Persona not found.'')"

definition get_active_persona_or_404 :: "'v rag_db \<Rightarrow> int \<Rightarrow> int \<Rightarrow> rag_persona result" where
  "get_active_persona_or_404 db i inv_id =
     (case find (\<lambda>p. ps_id p = i \<and> ps_invitation_code_id p = inv_id \<and> ps_is_active p) (rb_personas db) of
        None \<Rightarrow> Inl persona_missing
      | Some p \<Rightarrow> Inr p)"

definition ensure_persona_name_available :: "'v rag_db \<Rightarrow> int \<Rightarrow> str \<Rightarrow> int option \<Rightarrow> unit result" where
  "ensure_persona_name_available db inv_id key except =
     (if list_ex (\<lambda>p. ps_invitation_code_id p = inv_id \<and> ps_name_key p = key \<and> ps_is_active p \<and> Some (ps_id p) \<noteq> except) (rb_personas db)
      then Inl (HTTPException 409 (lit ''An active persona with this name already exists.''))
      else Inr ())"

text \<open>The unique constraint on invitation, name key and active flag, checked at the commit.\<close>

definition rag_integrity_error :: error where
  "rag_integrity_error = RuntimeError (lit ''IntegrityError'')"

definition persona_key :: "rag_persona \<Rightarrow> int \<times> str \<times> bool" where
  "persona_key p = (ps_invitation_code_id p, ps_name_key p, ps_is_active p)"

definition commit_personas :: "rag_persona list \<Rightarrow> 'v rag_db \<Rightarrow> 'v rag_db result" where
  "commit_personas ps db =
     (if distinct (map persona_key ps) then Inr (db\<lparr> rb_personas := ps \<rparr>) else Inl rag_integrity_error)"

definition list_rag_personas_route ::
  "(str \<Rightarrow> 'k::linorder) \<Rightarrow> access_token_claims \<Rightarrow> 'v rag_db \<Rightarrow> rag_persona list result"
where
  "list_rag_personas_route collate claims db =
     rbind (rag_access claims) (\<lambda>c.
       Inr (sort_key (\<lambda>p. collate (ps_name p)) (sort_key ps_id
         (filter (\<lambda>p. ps_invitation_code_id p = invitation_code_id c \<and> ps_is_active p) (rb_personas db)))))"

definition create_rag_persona_route ::
  "access_token_claims \<Rightarrow> persona_request \<Rightarrow> 'v rag_db \<Rightarrow> (rag_persona \<times> 'v rag_db) result"
where
  "create_rag_persona_route claims q db =
     rbind (rag_access claims) (\<lambda>c. rbind (checked_body (persona_request_ok q)) (\<lambda>_.
       let name = clean_persona_name (pq_name q); key = normalize_persona_name name in
       rbind (ensure_persona_name_available db (invitation_code_id c) key None) (\<lambda>_.
         let p = \<lparr> ps_id = rb_next_persona db, ps_invitation_code_id = invitation_code_id c, ps_name = name, ps_name_key = key,
                   ps_instructions = strip (pq_instructions q), ps_capabilities = clean_optional_text (pq_capabilities q),
                   ps_tool_config = clean_optional_text (pq_tool_config q), ps_is_active = True,
                   ps_created_at = rb_now db, ps_updated_at = rb_now db \<rparr>
         in rbind (commit_personas (rb_personas db @ [p]) (db\<lparr> rb_next_persona := rb_next_persona db + 1 \<rparr>)) (\<lambda>db1. Inr (p, db1)))))"

definition get_rag_persona_route :: "access_token_claims \<Rightarrow> 'v rag_db \<Rightarrow> int \<Rightarrow> rag_persona result" where
  "get_rag_persona_route claims db i =
     rbind (rag_access claims) (\<lambda>c. get_active_persona_or_404 db i (invitation_code_id c))"

text \<open>\<^verbatim>\<open>onupdate\<close> sets the time only when some column changes: an unchanged row is not written.\<close>

definition saved_persona :: "'v rag_db \<Rightarrow> rag_persona \<Rightarrow> rag_persona \<Rightarrow> rag_persona" where
  "saved_persona db old new = (if new = old then old else new\<lparr> ps_updated_at := rb_now db \<rparr>)"

definition edited_persona :: "persona_request \<Rightarrow> rag_persona \<Rightarrow> rag_persona" where
  "edited_persona q p =
     p\<lparr> ps_name := clean_persona_name (pq_name q), ps_name_key := normalize_persona_name (clean_persona_name (pq_name q)),
        ps_instructions := strip (pq_instructions q), ps_capabilities := clean_optional_text (pq_capabilities q),
        ps_tool_config := clean_optional_text (pq_tool_config q) \<rparr>"

definition update_rag_persona_route ::
  "access_token_claims \<Rightarrow> int \<Rightarrow> persona_request \<Rightarrow> 'v rag_db \<Rightarrow> (rag_persona \<times> 'v rag_db) result"
where
  "update_rag_persona_route claims i q db =
     rbind (rag_access claims) (\<lambda>c. rbind (checked_body (persona_request_ok q)) (\<lambda>_.
     rbind (get_active_persona_or_404 db i (invitation_code_id c)) (\<lambda>p.
     rbind (ensure_persona_name_available db (invitation_code_id c) (normalize_persona_name (clean_persona_name (pq_name q))) (Some (ps_id p))) (\<lambda>_.
       let p1 = saved_persona db p (edited_persona q p) in
       rbind (commit_personas (update_row ps_id (ps_id p) (\<lambda>_. p1) (rb_personas db)) db) (\<lambda>db1. Inr (p1, db1))))))"

definition delete_rag_persona_route :: "access_token_claims \<Rightarrow> int \<Rightarrow> 'v rag_db \<Rightarrow> (unit \<times> 'v rag_db) result" where
  "delete_rag_persona_route claims i db =
     rbind (rag_access claims) (\<lambda>c. rbind (get_active_persona_or_404 db i (invitation_code_id c)) (\<lambda>p.
       rbind (commit_personas (update_row ps_id (ps_id p) (\<lambda>_. saved_persona db p (p\<lparr> ps_is_active := False \<rparr>)) (rb_personas db)) db) (\<lambda>db1.
         Inr ((), db1))))"

section \<open>Conversations\<close>

record conversation_response =
  cr_conversation :: rag_conversation
  cr_persona_name :: "str option"

definition serialize_conversation :: "'v rag_db \<Rightarrow> rag_conversation \<Rightarrow> conversation_response" where
  "serialize_conversation db v =
     \<lparr> cr_conversation = v,
       cr_persona_name = Option.bind (cv_persona_id v) (\<lambda>i. map_option ps_name (find_row ps_id i (rb_personas db))) \<rparr>"

definition conversation_missing :: error where
  "conversation_missing = HTTPException 404 (lit ''Conversation not found.'')"

definition get_conversation_or_404 :: "'v rag_db \<Rightarrow> int \<Rightarrow> int \<Rightarrow> rag_conversation result" where
  "get_conversation_or_404 db i inv_id =
     (case find (\<lambda>v. cv_id v = i \<and> cv_invitation_code_id v = inv_id) (rb_conversations db) of
        None \<Rightarrow> Inl conversation_missing
      | Some v \<Rightarrow> Inr v)"

definition list_rag_conversations_route :: "access_token_claims \<Rightarrow> 'v rag_db \<Rightarrow> conversation_response list result" where
  "list_rag_conversations_route claims db =
     rbind (rag_access claims) (\<lambda>c.
       Inr (map (serialize_conversation db) (rev (sort_key cv_updated_at (sort_key cv_id
         (filter (\<lambda>v. cv_invitation_code_id v = invitation_code_id c) (rb_conversations db)))))))"

definition create_rag_conversation_route ::
  "access_token_claims \<Rightarrow> int \<Rightarrow> str option \<Rightarrow> 'v rag_db \<Rightarrow> (conversation_response \<times> 'v rag_db) result"
where
  "create_rag_conversation_route claims persona_id new_title db =
     rbind (rag_access claims) (\<lambda>c. rbind (checked_body (at_most 255 new_title)) (\<lambda>_.
     rbind (get_active_persona_or_404 db persona_id (invitation_code_id c)) (\<lambda>p.
       let v = \<lparr> cv_id = rb_next_conversation db, cv_invitation_code_id = invitation_code_id c, cv_persona_id = Some (ps_id p),
                 cv_title = clean_optional_text new_title, cv_status = lit ''active'',
                 cv_created_at = rb_now db, cv_updated_at = rb_now db \<rparr>;
           db1 = db\<lparr> rb_conversations := rb_conversations db @ [v], rb_next_conversation := rb_next_conversation db + 1 \<rparr>
       in Inr (serialize_conversation db1 v, db1))))"

definition messages_of :: "int \<Rightarrow> 'v rag_db \<Rightarrow> rag_message list" where
  "messages_of i db = filter (\<lambda>m. ms_conversation_id m = i) (rb_messages db)"

definition get_rag_conversation_route ::
  "access_token_claims \<Rightarrow> 'v rag_db \<Rightarrow> int \<Rightarrow> (conversation_response \<times> rag_message list) result"
where
  "get_rag_conversation_route claims db i =
     rbind (rag_access claims) (\<lambda>c. rbind (get_conversation_or_404 db i (invitation_code_id c)) (\<lambda>v.
       Inr (serialize_conversation db v, sort_key ms_turn_index (sort_key ms_id (messages_of (cv_id v) db)))))"

section \<open>Prompts\<close>

text \<open>A literal with line breaks: the pieces of one line each, joined by them.\<close>

definition lines :: "str list \<Rightarrow> str" where
  "lines ls = join [10] ls"

definition persona_context :: "rag_persona \<Rightarrow> str" where
  "persona_context p = lines
     [lit ''Persona name: '' @ ps_name p, lit ''Persona instructions:'', ps_instructions p, [],
      lit ''Persona capabilities:'', str_or (ps_capabilities p) (lit ''Not specified.'')]"

definition planner_instructions :: "rag_persona \<Rightarrow> str" where
  "planner_instructions p =
     lit ''You plan one bounded RAG demo chat turn. Decide whether the user request '' @
     lit ''fits the selected persona. Use the persona capabilities as the boundary '' @
     lit ''for off-topic questions. If the request is outside scope, return a brief '' @
     lit ''user-facing refusal that says what this persona can help with. If the '' @
     lit ''request is allowed, extract one to three concise semantic search queries '' @
     lit ''for document retrieval. Do not include conversational filler in search '' @
     lit ''queries.'' @ [10, 10] @ persona_context p"

definition answer_instructions :: "rag_persona \<Rightarrow> str" where
  "answer_instructions p =
     lit ''You are a bounded retrieval-grounded assistant. Answer only for the '' @
     lit ''selected persona. Use retrieved context when document knowledge is '' @
     lit ''requested. If the retrieved context is insufficient, say so plainly. '' @
     lit ''Do not invent facts, documents, or citations. Return markdown content '' @
     lit ''and cite only chunk ids that were actually useful.'' @ [10, 10] @ persona_context p"

definition format_message :: "rag_message \<Rightarrow> str" where
  "format_message m = ms_role m @ lit '' ['' @ show_nat (ms_turn_index m) @ lit '']: '' @ ms_content m"

definition format_recent_messages :: "rag_message list \<Rightarrow> str" where
  "format_recent_messages ms =
     (if ms = [] then lit ''No previous messages.'' else join [10] (map format_message (drop (length ms - 8) ms)))"

definition format_chunk :: "'d rag_search_result \<Rightarrow> str" where
  "format_chunk c = lines
     [lit ''Chunk id: '' @ show_int (sr_chunk_id c), lit ''Document id: '' @ show_int (sr_document_id c),
      lit ''Title: '' @ str_or (sr_title c) (lit ''Untitled''), lit ''Source: '' @ sr_source c,
      lit ''Chunk index: '' @ show_nat (sr_chunk_index c), lit ''Text:'', sr_chunk_text c]"

definition format_retrieved_chunks :: "'d rag_search_result list \<Rightarrow> str" where
  "format_retrieved_chunks cs = (if cs = [] then lit ''No retrieved context.'' else join [10, 10] (map format_chunk cs))"

definition planner_prompt :: "rag_message list \<Rightarrow> str \<Rightarrow> str" where
  "planner_prompt ms content =
     lit ''Recent conversation:'' @ [10] @ format_recent_messages ms @ [10, 10] @ lit ''Latest user message:'' @ [10] @ content"

definition answer_prompt :: "rag_message list \<Rightarrow> str \<Rightarrow> 'd rag_search_result list \<Rightarrow> str" where
  "answer_prompt ms content cs =
     lit ''Retrieved context:'' @ [10] @ format_retrieved_chunks cs @ [10, 10] @ planner_prompt ms content"

section \<open>One turn\<close>

record turn_plan =
  tp_is_allowed :: bool
  tp_refusal_reason :: "str option"
  tp_user_facing_refusal :: "str option"
  tp_needs_retrieval :: bool
  tp_search_queries :: "str list"

record assistant_draft =
  ad_content :: str
  ad_citation_chunk_ids :: "int list"

definition plan_turn :: "(str \<Rightarrow> str \<Rightarrow> turn_plan result) \<Rightarrow> rag_persona \<Rightarrow> rag_message list \<Rightarrow> str \<Rightarrow> turn_plan result" where
  "plan_turn planner p recent content = planner (planner_instructions p) (planner_prompt recent content)"

definition draft_answer ::
  "(str \<Rightarrow> str \<Rightarrow> assistant_draft result) \<Rightarrow> rag_persona \<Rightarrow> rag_message list \<Rightarrow> str \<Rightarrow> 'd rag_search_result list \<Rightarrow> assistant_draft result"
where
  "draft_answer answerer p recent content cs = answerer (answer_instructions p) (answer_prompt recent content cs)"

text \<open>What is checked and read before the first model call.\<close>

record turn_context =
  tc_conversation :: rag_conversation
  tc_persona :: rag_persona
  tc_user_turns :: nat
  tc_content :: str
  tc_recent :: "rag_message list"

definition user_turn_count :: "int \<Rightarrow> 'v rag_db \<Rightarrow> nat" where
  "user_turn_count i db = length (filter (\<lambda>m. ms_role m = lit ''user'') (messages_of i db))"

definition recent_messages :: "int \<Rightarrow> 'v rag_db \<Rightarrow> rag_message list" where
  "recent_messages i db = rev (take 8 (rev (sort_key ms_turn_index (sort_key ms_id (messages_of i db)))))"

definition begin_turn :: "access_token_claims \<Rightarrow> int \<Rightarrow> str \<Rightarrow> 'v rag_db \<Rightarrow> turn_context result" where
  "begin_turn claims i content db =
     rbind (rag_access claims) (\<lambda>c.
     rbind (checked_body (1 \<le> length content \<and> length content \<le> 8000)) (\<lambda>_.
     rbind (get_conversation_or_404 db i (invitation_code_id c)) (\<lambda>v.
     if cv_status v \<noteq> lit ''active'' then Inl (HTTPException 409 (lit ''Conversation is not active.''))
     else (case cv_persona_id v of
       None \<Rightarrow> Inl (HTTPException 409 (lit ''Conversation persona is no longer available.''))
     | Some pid \<Rightarrow>
         rbind (get_active_persona_or_404 db pid (invitation_code_id c)) (\<lambda>p.
           let turns = user_turn_count (cv_id v) db; text_in = strip content in
           if 10 \<le> turns then Inl (HTTPException 409 (lit ''RAG conversations are limited to 10 user turns.''))
           else if text_in = [] then Inl (HTTPException 422 (lit ''Message content cannot be empty.''))
           else Inr \<lparr> tc_conversation = v, tc_persona = p, tc_user_turns = turns, tc_content = text_in,
                  tc_recent = recent_messages (cv_id v) db \<rparr>)))))"

text \<open>The results kept so far, until there are five: the flag says the retrieval is complete.\<close>

fun collect_chunks :: "'d rag_search_result list \<Rightarrow> 'd rag_search_result list \<Rightarrow> bool \<times> 'd rag_search_result list" where
  "collect_chunks acc [] = (False, acc)"
| "collect_chunks acc (r # rs) =
     (if sr_chunk_id r \<in> set (map sr_chunk_id acc) then collect_chunks acc rs
      else if 5 \<le> length (acc @ [r]) then (True, acc @ [r])
      else collect_chunks (acc @ [r]) rs)"

fun retrieve_queries ::
  "(str \<Rightarrow> 'd rag_search_result list result) \<Rightarrow> 'd rag_search_result list \<Rightarrow> str list \<Rightarrow> 'd rag_search_result list result"
where
  "retrieve_queries search acc [] = Inr acc"
| "retrieve_queries search acc (q # qs) =
     rbind (search q) (\<lambda>rs.
       let (full, acc1) = collect_chunks acc rs in if full then Inr acc1 else retrieve_queries search acc1 qs)"

definition plan_queries :: "turn_plan \<Rightarrow> str \<Rightarrow> str list" where
  "plan_queries plan content =
     (let qs = filter (\<lambda>q. q \<noteq> []) (map strip (tp_search_queries plan)) in take 3 (if qs = [] then [content] else qs))"

definition retrieve_for_plan ::
  "('v, 'd) rag_service \<Rightarrow> int \<Rightarrow> turn_plan \<Rightarrow> str \<Rightarrow> 'v rag_db \<Rightarrow> 'd rag_search_result list result"
where
  "retrieve_for_plan G p plan content db =
     (if \<not> tp_is_allowed plan \<or> \<not> tp_needs_retrieval plan then Inr []
      else retrieve_queries (\<lambda>q. rg_search_persona G p q 5 (rb_docs db)) [] (plan_queries plan content))"

definition draft_assistant_response ::
  "(str \<Rightarrow> str \<Rightarrow> assistant_draft result) \<Rightarrow> turn_context \<Rightarrow> turn_plan \<Rightarrow> 'd rag_search_result list \<Rightarrow> assistant_draft result"
where
  "draft_assistant_response answerer tc plan cs =
     (if \<not> tp_is_allowed plan
      then Inr \<lparr> ad_content = str_or (tp_user_facing_refusal plan) (lit ''I can only help with questions that fit this persona.''),
             ad_citation_chunk_ids = [] \<rparr>
      else draft_answer answerer (tc_persona tc) (tc_recent tc) (tc_content tc) cs)"

definition next_message_index :: "int \<Rightarrow> 'v rag_db \<Rightarrow> nat" where
  "next_message_index i db =
     (case map ms_turn_index (messages_of i db) of [] \<Rightarrow> 0 | n # ns \<Rightarrow> foldl max n ns + 1)"

definition plan_json :: "turn_plan \<Rightarrow> json" where
  "plan_json plan = JObj
     [(lit ''is_allowed'', JBool (tp_is_allowed plan)), (lit ''refusal_reason'', nullable_json JStr (tp_refusal_reason plan)),
      (lit ''user_facing_refusal'', nullable_json JStr (tp_user_facing_refusal plan)),
      (lit ''needs_retrieval'', JBool (tp_needs_retrieval plan)),
      (lit ''search_queries'', JArr (map JStr (tp_search_queries plan)))]"

definition message_metadata :: "(str \<times> json) list \<Rightarrow> str" where
  "message_metadata d = str_or (rag_serialize_json (Some d)) (lit ''{}'')"

definition citation_snippet :: "str \<Rightarrow> str" where
  "citation_snippet t = take 600 (join [32] (split_words t))"

definition selected_chunk_ids :: "assistant_draft \<Rightarrow> 'd rag_search_result list \<Rightarrow> int list" where
  "selected_chunk_ids draft cs =
     (let chosen = filter (\<lambda>i. i \<in> set (map sr_chunk_id cs)) (ad_citation_chunk_ids draft) in
      if chosen = [] \<and> strip (ad_content draft) \<noteq> [] then map sr_chunk_id cs else chosen)"

text \<open>The dict of the retrieved chunks by id: a later chunk with the same id would replace it.\<close>

definition chunk_by_id :: "'d rag_search_result list \<Rightarrow> int \<Rightarrow> 'd rag_search_result option" where
  "chunk_by_id cs i = find_row sr_chunk_id i (rev cs)"

definition citation_of :: "int \<Rightarrow> int \<Rightarrow> nat \<Rightarrow> 'd rag_search_result \<Rightarrow> rag_citation" where
  "citation_of i message_id rank c =
     \<lparr> ct_id = i, ct_message_id = message_id, ct_document_id = sr_document_id c, ct_chunk_id = sr_chunk_id c,
       ct_chunk_index = sr_chunk_index c, ct_source = sr_source c, ct_title = sr_title c,
       ct_snippet = citation_snippet (sr_chunk_text c), ct_rank = rank \<rparr>"

definition new_citations :: "int \<Rightarrow> int \<Rightarrow> assistant_draft \<Rightarrow> 'd rag_search_result list \<Rightarrow> rag_citation list" where
  "new_citations first message_id draft cs =
     map (\<lambda>(n, c). citation_of (first + int n) message_id (n + 1) c)
       (enumerate 0 (List.map_filter (chunk_by_id cs) (take 5 (selected_chunk_ids draft cs))))"

record turn_response =
  tr_user_message :: rag_message
  tr_assistant_message :: rag_message
  tr_citations :: "rag_citation list"
  tr_turns_remaining :: nat

definition commit_turn ::
  "turn_context \<Rightarrow> turn_plan \<Rightarrow> 'd rag_search_result list \<Rightarrow> assistant_draft \<Rightarrow> 'v rag_db \<Rightarrow> turn_response \<times> 'v rag_db"
where
  "commit_turn tc plan cs draft db =
     (let i = cv_id (tc_conversation tc); n = next_message_index i db; k = rb_next_message db;
          user = \<lparr> ms_id = k, ms_conversation_id = i, ms_role = lit ''user'', ms_content = tc_content tc, ms_turn_index = n,
                   ms_metadata = None, ms_created_at = rb_now db \<rparr>;
          assistant = \<lparr> ms_id = k + 1, ms_conversation_id = i, ms_role = lit ''assistant'', ms_content = ad_content draft,
                   ms_turn_index = n + 1,
                   ms_metadata = Some (message_metadata
                     [(lit ''plan'', plan_json plan), (lit ''retrieved_chunk_ids'', JArr (map (\<lambda>c. JInt (sr_chunk_id c)) cs))]),
                   ms_created_at = rb_now db \<rparr>;
          cts = new_citations (rb_next_citation db) (k + 1) draft cs
      in (\<lparr> tr_user_message = user, tr_assistant_message = assistant, tr_citations = cts,
            tr_turns_remaining = 10 - tc_user_turns tc - 1 \<rparr>,
          db\<lparr> rb_messages := rb_messages db @ [user, assistant], rb_next_message := k + 2,
              rb_citations := rb_citations db @ cts, rb_next_citation := rb_next_citation db + int (length cts) \<rparr>))"

definition create_rag_conversation_message_route ::
  "('v, 'd) rag_service \<Rightarrow> (str \<Rightarrow> str \<Rightarrow> turn_plan result) \<Rightarrow> (str \<Rightarrow> str \<Rightarrow> assistant_draft result)
     \<Rightarrow> access_token_claims \<Rightarrow> int \<Rightarrow> str \<Rightarrow> 'v rag_db \<Rightarrow> (turn_response \<times> 'v rag_db) result"
where
  "create_rag_conversation_message_route G planner answerer claims i content db =
     rbind (begin_turn claims i content db) (\<lambda>tc.
     rbind (plan_turn planner (tc_persona tc) (tc_recent tc) (tc_content tc)) (\<lambda>plan.
     rbind (retrieve_for_plan G (ps_id (tc_persona tc)) plan (tc_content tc) db) (\<lambda>cs.
     rbind (draft_assistant_response answerer tc plan cs) (\<lambda>draft.
       Inr (commit_turn tc plan cs draft db)))))"

end
