(* ===== verification/Rag_Routes.thy ===== *)
theory Rag_Routes
  imports Rag_Chat
begin

text \<open>
  The document routes of \<^verbatim>\<open>app/api/routes/rag.py\<close> over a strategy, and the steps a set of
  overlapping requests takes. A request that fails leaves the database as it was.
\<close>

section \<open>Documents\<close>

record persona_document_response =
  pr_document_id :: int
  pr_source :: str
  pr_title :: "str option"
  pr_display_name :: "str option"
  pr_chunk_count :: nat
  pr_linked_at :: int

definition serialize_persona_document :: "'v document_store \<Rightarrow> persona_document \<Rightarrow> rag_document \<Rightarrow> persona_document_response" where
  "serialize_persona_document ds l d =
     \<lparr> pr_document_id = rd_id d, pr_source = rd_source d, pr_title = rd_title d, pr_display_name = pl_display_name l,
       pr_chunk_count = document_chunk_count (rd_id d) ds, pr_linked_at = pl_created_at l \<rparr>"

text \<open>The links of a persona, latest first, each with its document.\<close>

definition list_rag_persona_documents_route ::
  "access_token_claims \<Rightarrow> int \<Rightarrow> 'v rag_db \<Rightarrow> persona_document_response list result"
where
  "list_rag_persona_documents_route claims i db =
     rbind (rag_access claims) (\<lambda>c. rbind (get_active_persona_or_404 db i (invitation_code_id c)) (\<lambda>p.
       Inr (List.map_filter (\<lambda>l. map_option (serialize_persona_document (rb_docs db) l)
                (find_row rd_id (pl_document_id l) (ds_documents (rb_docs db))))
              (sort_key (\<lambda>l. - pl_created_at l) (filter (\<lambda>l. pl_persona_id l = ps_id p) (ds_links (rb_docs db)))))))"

text \<open>\<^verbatim>\<open>except ValueError\<close> answers 400 and \<^verbatim>\<open>except RuntimeError\<close> 503, with the text of the error.\<close>

fun service_error :: "error \<Rightarrow> error" where
  "service_error (ValueError m) = HTTPException 400 m"
| "service_error UnicodeDecodeError = HTTPException 400 (error_text UnicodeDecodeError)"
| "service_error UnicodeEncodeError = HTTPException 400 (error_text UnicodeEncodeError)"
| "service_error (RuntimeError m) = HTTPException 503 m"
| "service_error e = e"

definition answer_errors :: "'a result \<Rightarrow> 'a result" where
  "answer_errors r = (case r of Inl e \<Rightarrow> Inl (service_error e) | Inr x \<Rightarrow> Inr x)"

definition persona_label :: "rag_persona \<Rightarrow> str" where
  "persona_label p = lit ''persona-'' @ show_int (ps_id p)"

text \<open>The document with this content: the one already stored, or a new one under the persona's label.\<close>

definition find_or_create_document ::
  "('v, 'd) rag_service \<Rightarrow> rag_persona \<Rightarrow> prepared_document \<Rightarrow> 'v document_store \<Rightarrow> (bool \<times> rag_document \<times> 'v document_store) result"
where
  "find_or_create_document G p prepared ds =
     (case get_document_by_hash (pd_sha256 prepared) ds of
        Some d \<Rightarrow> Inr (True, d, ds)
      | None \<Rightarrow> rbind (rg_create G prepared [persona_label p] ds) (\<lambda>(r, ds1).
          case find_row rd_id (dr_document_id r) (ds_documents ds1) of
            None \<Rightarrow> Inl (RuntimeError (lit ''RAG document was not persisted.''))
          | Some d \<Rightarrow> Inr (False, d, ds1)))"

definition upload_rag_persona_document_route ::
  "(bytes \<Rightarrow> str list option) \<Rightarrow> ('v, 'd) rag_service \<Rightarrow> access_token_claims \<Rightarrow> int \<Rightarrow> str option \<Rightarrow> str option \<Rightarrow> str option
     \<Rightarrow> upload_file option \<Rightarrow> 'v rag_db \<Rightarrow> ((persona_document_response \<times> bool) \<times> 'v rag_db) result"
where
  "upload_rag_persona_document_route pdf G claims i source new_title pasted f db =
     rbind (rag_access claims) (\<lambda>c. rbind (get_active_persona_or_404 db i (invitation_code_id c)) (\<lambda>p.
       answer_errors (rbind (prepare_document pdf pasted f source new_title) (\<lambda>prepared.
         rbind (find_or_create_document G p prepared (rb_docs db)) (\<lambda>(reused, d, ds1).
           let (l, ds2) = link_persona_document (ps_id p) d (Some (str_or (pd_title prepared) (pd_source prepared))) None ds1
           in Inr ((serialize_persona_document ds2 l d, reused), db\<lparr> rb_docs := ds2 \<rparr>))))))"

definition unlink_rag_persona_document_route ::
  "access_token_claims \<Rightarrow> int \<Rightarrow> int \<Rightarrow> 'v rag_db \<Rightarrow> (unit \<times> 'v rag_db) result"
where
  "unlink_rag_persona_document_route claims i document_id db =
     rbind (rag_access claims) (\<lambda>c. rbind (get_active_persona_or_404 db i (invitation_code_id c)) (\<lambda>p.
       let (removed, ds1) = unlink_persona_document (ps_id p) document_id (rb_docs db) in
       if removed then Inr ((), db\<lparr> rb_docs := ds1 \<rparr>)
       else Inl (HTTPException 404 (lit ''Persona document not found.''))))"

definition ingest_rag_document_route ::
  "(bytes \<Rightarrow> str list option) \<Rightarrow> ('v, 'd) rag_service \<Rightarrow> access_token_claims \<Rightarrow> str list \<Rightarrow> str option \<Rightarrow> str option \<Rightarrow> str option
     \<Rightarrow> upload_file option \<Rightarrow> 'v rag_db \<Rightarrow> (rag_document_result \<times> 'v rag_db) result"
where
  "ingest_rag_document_route pdf G claims labels source new_title pasted f db =
     rbind (rag_access claims) (\<lambda>_.
       answer_errors (rbind (ingest_document pdf G labels source new_title pasted f (rb_docs db)) (\<lambda>(r, ds1).
         Inr (r, db\<lparr> rb_docs := ds1 \<rparr>))))"

definition search_request_ok :: "str list \<Rightarrow> str \<Rightarrow> int \<Rightarrow> bool" where
  "search_request_ok labels query limit \<longleftrightarrow>
     1 \<le> length query \<and> length query \<le> 4000 \<and> labels \<noteq> [] \<and> 1 \<le> limit \<and> limit \<le> 20"

definition search_rag_chunks_route ::
  "('v, 'd) rag_service \<Rightarrow> access_token_claims \<Rightarrow> str list \<Rightarrow> str \<Rightarrow> int \<Rightarrow> 'v rag_db \<Rightarrow> 'd rag_search_result list result"
where
  "search_rag_chunks_route G claims labels query limit db =
     rbind (rag_access claims) (\<lambda>_. rbind (checked_body (search_request_ok labels query limit)) (\<lambda>_.
       answer_errors (rg_search G labels query limit (rb_docs db))))"

section \<open>Steps\<close>

text \<open>
  A handler runs without interruption between two \<^verbatim>\<open>await\<close>s. A turn awaits the planner and then
  the answerer, an upload awaits the file: in between other requests are handled. A state is
  the database with the requests that are waiting, each with what it has read so far. Two
  turns written at once by different workers collide in the unique turn index: one of
  them is abandoned.
\<close>

datatype 'd rag_task =
    Planning turn_context
  | Answering turn_context turn_plan "'d rag_search_result list"
  | Uploading rag_persona "str option" "str option" "str option" "upload_file option"

type_synonym ('v, 'd) rag_state = "'v rag_db \<times> 'd rag_task multiset"

definition begin_upload :: "access_token_claims \<Rightarrow> int \<Rightarrow> 'v rag_db \<Rightarrow> rag_persona result" where
  "begin_upload claims i db = rbind (rag_access claims) (\<lambda>c. get_active_persona_or_404 db i (invitation_code_id c))"

definition store_upload ::
  "(bytes \<Rightarrow> str list option) \<Rightarrow> ('v, 'd) rag_service \<Rightarrow> rag_persona \<Rightarrow> str option \<Rightarrow> str option \<Rightarrow> str option
     \<Rightarrow> upload_file option \<Rightarrow> 'v rag_db \<Rightarrow> ((persona_document_response \<times> bool) \<times> 'v rag_db) result"
where
  "store_upload pdf G p source new_title pasted f db =
     answer_errors (rbind (prepare_document pdf pasted f source new_title) (\<lambda>prepared.
       rbind (find_or_create_document G p prepared (rb_docs db)) (\<lambda>(reused, d, ds1).
         let (l, ds2) = link_persona_document (ps_id p) d (Some (str_or (pd_title prepared) (pd_source prepared))) None ds1
         in Inr ((serialize_persona_document ds2 l d, reused), db\<lparr> rb_docs := ds2 \<rparr>))))"

lemma upload_stages:
  "upload_rag_persona_document_route pdf G claims i source new_title pasted f db =
     rbind (begin_upload claims i db) (\<lambda>p. store_upload pdf G p source new_title pasted f db)"
  by (cases "rag_access claims")
    (simp_all add: upload_rag_persona_document_route_def begin_upload_def store_upload_def)

text \<open>
  What the requests do, piece by piece; each turn asks its own models. \<open>clock\<close> is the passing of
  time, and \<open>abandoned\<close> a request that fails after an \<^verbatim>\<open>await\<close>: it has written nothing.
\<close>

inductive rag_step ::
  "(bytes \<Rightarrow> str list option) \<Rightarrow> ('v, 'd) rag_service \<Rightarrow> ('v, 'd) rag_state \<Rightarrow> ('v, 'd) rag_state \<Rightarrow> bool"
  for pdf G
where
  create_persona: "create_rag_persona_route claims q db = Inr (p, db1) \<Longrightarrow> rag_step pdf G (db, ts) (db1, ts)"
| update_persona: "update_rag_persona_route claims i q db = Inr (p, db1) \<Longrightarrow> rag_step pdf G (db, ts) (db1, ts)"
| delete_persona: "delete_rag_persona_route claims i db = Inr (u, db1) \<Longrightarrow> rag_step pdf G (db, ts) (db1, ts)"
| create_conversation: "create_rag_conversation_route claims i new_title db = Inr (v, db1) \<Longrightarrow> rag_step pdf G (db, ts) (db1, ts)"
| turn_begins: "begin_turn claims i content db = Inr tc \<Longrightarrow> rag_step pdf G (db, ts) (db, add_mset (Planning tc) ts)"
| turn_retrieves: "plan_turn planner (tc_persona tc) (tc_recent tc) (tc_content tc) = Inr plan
    \<Longrightarrow> retrieve_for_plan G (ps_id (tc_persona tc)) plan (tc_content tc) db = Inr cs
    \<Longrightarrow> rag_step pdf G (db, add_mset (Planning tc) ts) (db, add_mset (Answering tc plan cs) ts)"
| turn_commits: "draft_assistant_response answerer tc plan cs = Inr draft \<Longrightarrow> commit_turn tc plan cs draft db = (r, db1)
    \<Longrightarrow> rag_step pdf G (db, add_mset (Answering tc plan cs) ts) (db1, ts)"
| upload_begins: "begin_upload claims i db = Inr p
    \<Longrightarrow> rag_step pdf G (db, ts) (db, add_mset (Uploading p source new_title pasted f) ts)"
| upload_stores: "store_upload pdf G p source new_title pasted f db = Inr (r, db1)
    \<Longrightarrow> rag_step pdf G (db, add_mset (Uploading p source new_title pasted f) ts) (db1, ts)"
| abandoned: "rag_step pdf G (db, add_mset task ts) (db, ts)"
| unlink: "unlink_rag_persona_document_route claims i document_id db = Inr (u, db1) \<Longrightarrow> rag_step pdf G (db, ts) (db1, ts)"
| ingest: "ingest_rag_document_route pdf G claims labels source new_title pasted f db = Inr (r, db1)
    \<Longrightarrow> rag_step pdf G (db, ts) (db1, ts)"
| clock: "rag_step pdf G (db, ts) (db\<lparr> rb_docs := (rb_docs db)\<lparr> ds_now := t \<rparr> \<rparr>, ts)"

text \<open>Runs in which at most \<open>k\<close> turns of a conversation are in progress at once.\<close>

definition turn_of :: "int \<Rightarrow> 'd rag_task \<Rightarrow> bool" where
  "turn_of i task = (case task of
     Planning tc \<Rightarrow> cv_id (tc_conversation tc) = i
   | Answering tc plan cs \<Rightarrow> cv_id (tc_conversation tc) = i
   | Uploading p source new_title pasted f \<Rightarrow> False)"

definition open_turns :: "int \<Rightarrow> 'd rag_task multiset \<Rightarrow> nat" where
  "open_turns i ts = size (filter_mset (turn_of i) ts)"

definition rag_step_within ::
  "nat \<Rightarrow> (bytes \<Rightarrow> str list option) \<Rightarrow> ('v, 'd) rag_service \<Rightarrow> ('v, 'd) rag_state \<Rightarrow> ('v, 'd) rag_state \<Rightarrow> bool"
where
  "rag_step_within k pdf G s s1 \<longleftrightarrow> rag_step pdf G s s1 \<and> (\<forall>i. open_turns i (snd s1) \<le> k)"

section \<open>Well-formed chats\<close>

definition personas_ok :: "'v rag_db \<Rightarrow> bool" where
  "personas_ok db \<longleftrightarrow> distinct (map ps_id (rb_personas db)) \<and> distinct (map persona_key (rb_personas db))
     \<and> (\<forall>p \<in> set (rb_personas db). ps_id p < rb_next_persona db)
     \<and> (\<forall>l \<in> set (ds_links (rb_docs db)). pl_persona_id l \<in> ps_id ` set (rb_personas db))"

definition rag_conversations_ok :: "'v rag_db \<Rightarrow> bool" where
  "rag_conversations_ok db \<longleftrightarrow> distinct (map cv_id (rb_conversations db))
     \<and> (\<forall>v \<in> set (rb_conversations db). cv_id v < rb_next_conversation db
          \<and> (\<exists>p \<in> set (rb_personas db). cv_persona_id v = Some (ps_id p) \<and> ps_invitation_code_id p = cv_invitation_code_id v))"

text \<open>The messages of a conversation: turns 0, 1, 2 and so on, user and assistant in alternation.\<close>

definition alternating :: "rag_message list \<Rightarrow> bool" where
  "alternating ms \<longleftrightarrow> map ms_turn_index ms = [0..<length ms] \<and> even (length ms)
     \<and> (\<forall>m \<in> set ms. ms_role m = (if even (ms_turn_index m) then lit ''user'' else lit ''assistant''))"

definition messages_ok :: "'v rag_db \<Rightarrow> bool" where
  "messages_ok db \<longleftrightarrow> distinct (map ms_id (rb_messages db))
     \<and> (\<forall>m \<in> set (rb_messages db). ms_id m < rb_next_message db \<and> ms_conversation_id m \<in> cv_id ` set (rb_conversations db))
     \<and> (\<forall>i. alternating (messages_of i db))"

definition citation_ok :: "'v rag_db \<Rightarrow> rag_citation \<Rightarrow> bool" where
  "citation_ok db ct \<longleftrightarrow>
     (\<exists>m \<in> set (rb_messages db). ms_id m = ct_message_id ct \<and> ms_role m = lit ''assistant'')
     \<and> (\<exists>c \<in> set (ds_chunks (rb_docs db)). rc_id c = ct_chunk_id ct \<and> rc_document_id c = ct_document_id ct
          \<and> rc_index c = ct_chunk_index ct \<and> ct_snippet ct = citation_snippet (rc_text c))"

definition citations_ok :: "'v rag_db \<Rightarrow> bool" where
  "citations_ok db \<longleftrightarrow> distinct (map ct_id (rb_citations db)) \<and> (\<forall>ct \<in> set (rb_citations db). ct_id ct < rb_next_citation db \<and> citation_ok db ct)"

definition rag_ok :: "'v rag_db \<Rightarrow> bool" where
  "rag_ok db \<longleftrightarrow> docs_ok (rb_docs db) \<and> personas_ok db \<and> rag_conversations_ok db \<and> messages_ok db \<and> citations_ok db"

text \<open>What a waiting request has read stays true.\<close>

definition quotes_chunk :: "'v document_store \<Rightarrow> 'd rag_search_result \<Rightarrow> bool" where
  "quotes_chunk ds r \<longleftrightarrow> (\<exists>c \<in> set (ds_chunks ds). rc_id c = sr_chunk_id r \<and> rc_document_id c = sr_document_id r
     \<and> rc_index c = sr_chunk_index r \<and> rc_text c = sr_chunk_text r)"

definition rag_task_ok :: "'v rag_db \<Rightarrow> 'd rag_task \<Rightarrow> bool" where
  "rag_task_ok db task = (case task of
     Planning tc \<Rightarrow> cv_id (tc_conversation tc) \<in> cv_id ` set (rb_conversations db)
   | Answering tc plan cs \<Rightarrow> cv_id (tc_conversation tc) \<in> cv_id ` set (rb_conversations db) \<and> list_all (quotes_chunk (rb_docs db)) cs
   | Uploading p source new_title pasted f \<Rightarrow> ps_id p \<in> ps_id ` set (rb_personas db))"

definition rag_state_ok :: "('v, 'd) rag_state \<Rightarrow> bool" where
  "rag_state_ok s \<longleftrightarrow> rag_ok (fst s) \<and> (\<forall>task \<in># snd s. rag_task_ok (fst s) task)"

lemma empty_rag_ok: "rag_ok empty_rag_db"
  by (simp add: rag_ok_def empty_rag_db_def empty_docs_ok personas_ok_def rag_conversations_ok_def messages_ok_def
      citations_ok_def alternating_def messages_of_def) (simp add: empty_document_store_def)

lemma empty_rag_state_ok: "rag_state_ok (empty_rag_db, {#})"
  by (simp add: rag_state_ok_def empty_rag_ok)

end
