(* ===== verification/Rag_System.thy ===== *)
theory Rag_System
  imports Rag_Routes
begin

text \<open>
  What the RAG demo keeps true over any overlapping requests, for any strategy that keeps its
  contract: well-formed tables, alternating conversations, as many turns in each as were begun
  below the limit, and answers that only cite chunks of documents linked to the persona they
  speak for.
\<close>

section \<open>Growth\<close>

text \<open>What no request but the commit of a turn changes, and what none takes away.\<close>

definition rag_grows :: "'v rag_db \<Rightarrow> 'v rag_db \<Rightarrow> bool" where
  "rag_grows db db1 \<longleftrightarrow> cv_id ` set (rb_conversations db) \<subseteq> cv_id ` set (rb_conversations db1)
     \<and> ps_id ` set (rb_personas db) \<subseteq> ps_id ` set (rb_personas db1)
     \<and> set (ds_chunks (rb_docs db)) \<subseteq> set (ds_chunks (rb_docs db1))"

lemma rag_grows_refl [simp]: "rag_grows db db"
  by (simp add: rag_grows_def)

lemma rag_grows_task: "rag_grows db db1 \<Longrightarrow> rag_task_ok db task \<Longrightarrow> rag_task_ok db1 task"
  by (fastforce simp: rag_grows_def rag_task_ok_def list_all_iff quotes_chunk_def split: rag_task.splits)

section \<open>Personas and conversations\<close>

lemma active_personaD:
  "get_active_persona_or_404 db i inv_id = Inr p \<Longrightarrow>
     p \<in> set (rb_personas db) \<and> ps_id p = i \<and> ps_invitation_code_id p = inv_id \<and> ps_is_active p"
  by (auto simp: get_active_persona_or_404_def split: option.splits dest: find_SomeD)

lemma conversationD:
  "get_conversation_or_404 db i inv_id = Inr v \<Longrightarrow>
     v \<in> set (rb_conversations db) \<and> cv_id v = i \<and> cv_invitation_code_id v = inv_id"
  by (auto simp: get_conversation_or_404_def split: option.splits dest: find_SomeD)

lemma rag_access_same: "rag_access claims = Inr c \<Longrightarrow> c = claims"
  by (auto simp: rag_access_def require_experience_access_def split: if_splits)

lemma new_persona_ok:
  assumes "rag_ok db" "ps_id p = rb_next_persona db"
    and "commit_personas (rb_personas db @ [p]) (db\<lparr> rb_next_persona := rb_next_persona db + 1 \<rparr>) = Inr db1"
  shows "rag_ok db1"
proof -
  have keys: "distinct (map persona_key (rb_personas db @ [p]))"
    and db1: "db1 = db\<lparr> rb_next_persona := rb_next_persona db + 1, rb_personas := rb_personas db @ [p] \<rparr>"
    using assms(3) by (auto simp: commit_personas_def split: if_splits)
  have "personas_ok db1" using assms(1, 2) keys by (auto simp: rag_ok_def personas_ok_def db1)
  moreover have "rag_conversations_ok db1" using assms(1) by (auto simp: rag_ok_def rag_conversations_ok_def db1)
  ultimately show ?thesis using assms(1)
    by (simp add: rag_ok_def messages_ok_def citations_ok_def citation_ok_def messages_of_def db1)
qed

lemma changed_persona_ok:
  assumes "rag_ok db" "p \<in> set (rb_personas db)" "ps_id q = ps_id p" "ps_invitation_code_id q = ps_invitation_code_id p"
    and "commit_personas (update_row ps_id (ps_id p) (\<lambda>_. q) (rb_personas db)) db = Inr db1"
  shows "rag_ok db1"
proof -
  let ?ps = "update_row ps_id (ps_id p) (\<lambda>_. q) (rb_personas db)"
  have keys: "distinct (map persona_key ?ps)" and db1: "db1 = db\<lparr> rb_personas := ?ps \<rparr>"
    using assms(5) by (auto simp: commit_personas_def split: if_splits)
  have ids: "map ps_id ?ps = map ps_id (rb_personas db)"
    using assms(3) by (auto simp: update_row_def)
  have old: "distinct (map ps_id (rb_personas db))" using assms(1) by (simp add: rag_ok_def personas_ok_def)
  have same: "\<exists>r \<in> set ?ps. ps_id r = ps_id s \<and> ps_invitation_code_id r = ps_invitation_code_id s" if "s \<in> set (rb_personas db)" for s
  proof (cases "ps_id s = ps_id p")
    case True
    then have "s = p" using old assms(2) that by (auto simp: distinct_map dest: inj_onD)
    moreover have "q \<in> set ?ps" using assms(2) by (auto simp: in_set_update_row)
    ultimately show ?thesis using assms(3, 4) by metis
  qed (auto simp: in_set_update_row that)
  have "personas_ok db1"
    using assms(1) keys ids old unfolding rag_ok_def personas_ok_def db1
    by (auto simp: in_set_update_row) (metis assms(2, 3), metis (no_types) image_set list.set_map ids)
  moreover have "rag_conversations_ok db1"
    unfolding rag_conversations_ok_def db1 
  proof (simp, intro conjI ballI)
    show "distinct (map cv_id (rb_conversations db))" using assms(1) by (simp add: rag_ok_def rag_conversations_ok_def)
  next
    fix v assume v: "v \<in> set (rb_conversations db)"
    then show "cv_id v < rb_next_conversation db" using assms(1) by (simp add: rag_ok_def rag_conversations_ok_def)
    obtain s where "s \<in> set (rb_personas db)" "cv_persona_id v = Some (ps_id s)" "ps_invitation_code_id s = cv_invitation_code_id v"
      using assms(1) v by (auto simp: rag_ok_def rag_conversations_ok_def)
    then show "\<exists>p \<in> set ?ps. cv_persona_id v = Some (ps_id p) \<and> ps_invitation_code_id p = cv_invitation_code_id v"
      using same by metis
  qed
  ultimately show ?thesis using assms(1)
    by (simp add: rag_ok_def messages_ok_def citations_ok_def citation_ok_def messages_of_def db1)
qed

lemma new_persona_grows:
  "commit_personas (rb_personas db @ [p]) (db\<lparr> rb_next_persona := n \<rparr>) = Inr db1 \<Longrightarrow> rag_grows db db1 \<and> rb_messages db1 = rb_messages db"
  by (auto simp: commit_personas_def rag_grows_def split: if_splits)

lemma changed_persona_grows:
  assumes "commit_personas (update_row ps_id i (\<lambda>_. q) (rb_personas db)) db = Inr db1" "ps_id q = i"
  shows "rag_grows db db1 \<and> rb_messages db1 = rb_messages db"
proof -
  have "map ps_id (update_row ps_id i (\<lambda>_. q) (rb_personas db)) = map ps_id (rb_personas db)"
    using assms(2) by (auto simp: update_row_def)
  then have "ps_id ` set (update_row ps_id i (\<lambda>_. q) (rb_personas db)) = ps_id ` set (rb_personas db)"
    by (metis list.set_map)
  then show ?thesis using assms(1) by (auto simp: commit_personas_def rag_grows_def split: if_splits)
qed

lemma create_persona_ok:
  assumes "rag_ok db" "create_rag_persona_route claims q db = Inr (p, db1)"
  shows "rag_ok db1 \<and> rag_grows db db1 \<and> rb_messages db1 = rb_messages db"
proof -
  have "ps_id p = rb_next_persona db"
    "commit_personas (rb_personas db @ [p]) (db\<lparr> rb_next_persona := rb_next_persona db + 1 \<rparr>) = Inr db1"
    using assms(2) by (auto simp: create_rag_persona_route_def rbind_eq_Inr Let_def)
  then show ?thesis using new_persona_ok [OF assms(1)] new_persona_grows by blast
qed

lemma saved_persona_same:
  "ps_id (saved_persona db p q) = (if q = p then ps_id p else ps_id q)"
  "ps_invitation_code_id (saved_persona db p q) = (if q = p then ps_invitation_code_id p else ps_invitation_code_id q)"
  by (simp_all add: saved_persona_def)

lemma update_persona_ok:
  assumes "rag_ok db" "update_rag_persona_route claims i q db = Inr (p1, db1)"
  shows "rag_ok db1 \<and> rag_grows db db1 \<and> rb_messages db1 = rb_messages db"
proof -
  obtain p c where p: "get_active_persona_or_404 db i c = Inr p"
    and c: "commit_personas (update_row ps_id (ps_id p) (\<lambda>_. saved_persona db p (edited_persona q p)) (rb_personas db)) db = Inr db1"
    using assms(2) by (auto simp: update_rag_persona_route_def rbind_eq_Inr Let_def)
  have same: "ps_id (saved_persona db p (edited_persona q p)) = ps_id p"
    "ps_invitation_code_id (saved_persona db p (edited_persona q p)) = ps_invitation_code_id p"
    by (simp_all add: saved_persona_same edited_persona_def)
  show ?thesis
    using changed_persona_ok [OF assms(1) _ same c] changed_persona_grows [OF c same(1)] active_personaD [OF p] by blast
qed

lemma delete_persona_ok:
  assumes "rag_ok db" "delete_rag_persona_route claims i db = Inr (u, db1)"
  shows "rag_ok db1 \<and> rag_grows db db1 \<and> rb_messages db1 = rb_messages db"
proof -
  obtain p c where p: "get_active_persona_or_404 db i c = Inr p"
    and c: "commit_personas (update_row ps_id (ps_id p) (\<lambda>_. saved_persona db p (p\<lparr> ps_is_active := False \<rparr>)) (rb_personas db)) db = Inr db1"
    using assms(2) by (auto simp: delete_rag_persona_route_def rbind_eq_Inr)
  have same: "ps_id (saved_persona db p (p\<lparr> ps_is_active := False \<rparr>)) = ps_id p"
    "ps_invitation_code_id (saved_persona db p (p\<lparr> ps_is_active := False \<rparr>)) = ps_invitation_code_id p"
    by (simp_all add: saved_persona_same)
  show ?thesis
    using changed_persona_ok [OF assms(1) _ same c] changed_persona_grows [OF c same(1)] active_personaD [OF p] by blast
qed

lemma create_conversation_ok:
  assumes "rag_ok db" "create_rag_conversation_route claims i new_title db = Inr (r, db1)"
  shows "rag_ok db1 \<and> rag_grows db db1 \<and> rb_messages db1 = rb_messages db"
proof -
  obtain p c where p: "get_active_persona_or_404 db i c = Inr p"
    and db1: "db1 = db\<lparr> rb_conversations := rb_conversations db @
         [\<lparr> cv_id = rb_next_conversation db, cv_invitation_code_id = c, cv_persona_id = Some (ps_id p),
            cv_title = clean_optional_text new_title, cv_status = lit ''active'', cv_created_at = rb_now db,
            cv_updated_at = rb_now db \<rparr>],
       rb_next_conversation := rb_next_conversation db + 1 \<rparr>"
    using assms(2) by (auto simp: create_rag_conversation_route_def rbind_eq_Inr Let_def)
  have "rag_conversations_ok db1"
    using assms(1) active_personaD [OF p] by (auto simp: rag_ok_def rag_conversations_ok_def db1)
  moreover have "messages_ok db1"
    using assms(1) by (auto simp: rag_ok_def messages_ok_def messages_of_def db1)
  ultimately show ?thesis using assms(1)
    by (auto simp: rag_ok_def personas_ok_def citations_ok_def citation_ok_def rag_grows_def db1)
qed

section \<open>Documents\<close>

lemma documents_changed_ok:
  assumes "rag_ok db" "docs_ok ds" "set (ds_chunks (rb_docs db)) \<subseteq> set (ds_chunks ds)"
    and "\<forall>l \<in> set (ds_links ds). pl_persona_id l \<in> ps_id ` set (rb_personas db)"
  shows "rag_ok (db\<lparr> rb_docs := ds \<rparr>)"
proof -
  have "citation_ok (db\<lparr> rb_docs := ds \<rparr>) ct" if "citation_ok db ct" for ct
    using that assms(3) by (force simp: citation_ok_def)
  then have "citations_ok (db\<lparr> rb_docs := ds \<rparr>)"
    using assms(1) by (simp add: rag_ok_def citations_ok_def)
  then show ?thesis using assms
    by (simp add: rag_ok_def personas_ok_def rag_conversations_ok_def messages_ok_def messages_of_def)
qed

lemma linked_document_ok:
  assumes "docs_ok ds" "d \<in> set (ds_documents ds)" "link_persona_document p d display metadata ds = (l, ds1)"
  shows "docs_ok ds1 \<and> ds_chunks ds1 = ds_chunks ds \<and> (\<forall>k \<in> set (ds_links ds1). k \<in> set (ds_links ds) \<or> pl_persona_id k = p)"
proof (cases "find_row link_key (p, rd_id d) (ds_links ds)")
  case None
  then have new: "(p, rd_id d) \<notin> link_key ` set (ds_links ds)" by (simp add: find_row_None)
  have ds1: "ds1 = ds\<lparr> ds_links := ds_links ds @ [l] \<rparr>" and l: "link_key l = (p, rd_id d)"
    using assms(3) None by (auto simp: link_persona_document_def link_key_def Let_def)
  have "docs_ok ds1"
    using assms(1, 2) new l unfolding docs_ok_def ds1 document_chunk_count_def chunks_of_document_def
    by (auto simp: link_key_def)
  then show ?thesis using l by (auto simp: ds1 link_key_def)
next
  case (Some k)
  then show ?thesis using assms(1, 3) by (simp add: link_persona_document_def)
qed

lemma unlinked_document_ok:
  assumes "docs_ok ds" "unlink_persona_document p i ds = (removed, ds1)"
  shows "docs_ok ds1 \<and> ds_chunks ds1 = ds_chunks ds \<and> set (ds_links ds1) \<subseteq> set (ds_links ds)"
  using assms
  by (auto simp: unlink_persona_document_def docs_ok_def document_chunk_count_def chunks_of_document_def
      distinct_map_filter split: option.splits)

lemma unlink_ok:
  assumes "rag_ok db" "unlink_rag_persona_document_route claims i document_id db = Inr (u, db1)"
  shows "rag_ok db1 \<and> rag_grows db db1 \<and> rb_messages db1 = rb_messages db"
proof -
  obtain p :: rag_persona where p: "(let (removed, ds1) = unlink_persona_document (ps_id p) document_id (rb_docs db) in
       if removed then Inr ((), db\<lparr> rb_docs := ds1 \<rparr>) else Inl (HTTPException 404 (lit ''Persona document not found.''))) = Inr (u, db1)"
    using assms(2) unfolding unlink_rag_persona_document_route_def rbind_eq_Inr by (elim exE conjE) blast
  obtain removed ds1 where un: "unlink_persona_document (ps_id p) document_id (rb_docs db) = (removed, ds1)" by (rule prod.exhaust)
  have "db1 = db\<lparr> rb_docs := ds1 \<rparr>" using p un by (auto split: if_splits)
  have ok: "docs_ok (rb_docs db)" and links: "\<forall>l \<in> set (ds_links (rb_docs db)). pl_persona_id l \<in> ps_id ` set (rb_personas db)"
    using assms(1) by (simp_all add: rag_ok_def personas_ok_def)
  have "rag_ok (db\<lparr> rb_docs := ds1 \<rparr>)"
    using unlinked_document_ok [OF ok un] links by (intro documents_changed_ok [OF assms(1)]) auto
  then show ?thesis using unlinked_document_ok [OF ok un] unfolding \<open>db1 = db\<lparr> rb_docs := ds1 \<rparr>\<close> by (simp add: rag_grows_def)
qed

lemma clock_ok:
  assumes "rag_ok db"
  shows "rag_ok (db\<lparr> rb_docs := (rb_docs db)\<lparr> ds_now := t \<rparr> \<rparr>)"
proof (rule documents_changed_ok [OF assms])
  show "docs_ok ((rb_docs db)\<lparr> ds_now := t \<rparr>)"
    using assms unfolding rag_ok_def docs_ok_def document_chunk_count_def chunks_of_document_def by simp
qed (use assms in \<open>auto simp: rag_ok_def personas_ok_def\<close>)

lemma stores_document_keeps:
  assumes "stores_document p labels ds r ds2" "docs_ok ds"
  shows "ds_links ds2 = ds_links ds" "set (ds_chunks ds) \<subseteq> set (ds_chunks ds2)"
    "\<exists>d \<in> set (ds_documents ds2). rd_id d = dr_document_id r \<and> rd_source d = pd_source p \<and> rd_title d = pd_title p
       \<and> rd_sha256 d = Some (pd_sha256 p)"
proof -
  obtain d ds1 rows where c: "create_document (pd_source p) labels (pd_title p) (Some (pd_sha256 p)) None ds = Inr (d, ds1)"
    and ds2: "ds2 = insert_chunks (rd_id d) rows ds1" and r: "dr_document_id r = rd_id d"
    using assms(1) by (auto simp: stores_document_def)
  have "ds_links ds1 = ds_links ds \<and> ds_chunks ds1 = ds_chunks ds \<and> d \<in> set (ds_documents ds1)
      \<and> rd_source d = pd_source p \<and> rd_title d = pd_title p \<and> rd_sha256 d = Some (pd_sha256 p)"
    by (rule document_created [OF c assms(2)]) (simp add: labels_grown_keeps)
  then show "ds_links ds2 = ds_links ds" "set (ds_chunks ds) \<subseteq> set (ds_chunks ds2)"
    "\<exists>d \<in> set (ds_documents ds2). rd_id d = dr_document_id r \<and> rd_source d = pd_source p \<and> rd_title d = pd_title p
       \<and> rd_sha256 d = Some (pd_sha256 p)"
    using r by (auto simp: ds2 insert_chunks_rows)
qed

section \<open>Retrieval and citations\<close>

lemma collect_chunks_kept:
  "collect_chunks acc rs = (full, out) \<Longrightarrow>
     set out \<subseteq> set acc \<union> set rs \<and> (length acc < 5 \<longrightarrow> length out \<le> 5 \<and> (\<not> full \<longrightarrow> length out < 5))
     \<and> (distinct (map sr_chunk_id acc) \<longrightarrow> distinct (map sr_chunk_id out))"
proof (induction acc rs rule: collect_chunks.induct)
  case (2 acc r rs)
  consider (seen) "sr_chunk_id r \<in> set (map sr_chunk_id acc)"
    | (five) "sr_chunk_id r \<notin> set (map sr_chunk_id acc)" "5 \<le> length (acc @ [r])"
    | (more) "sr_chunk_id r \<notin> set (map sr_chunk_id acc)" "\<not> 5 \<le> length (acc @ [r])"
    by blast
  then show ?case
  proof cases
    case seen
    then show ?thesis using "2.IH"(1) [OF seen] "2.prems" by auto
  next
    case five
    then show ?thesis using "2.prems" by auto
  next
    case more
    then show ?thesis using "2.IH"(2) [OF more] "2.prems" by auto
  qed
qed auto

lemma retrieve_queries_kept:
  assumes "retrieve_queries search acc qs = Inr out" "list_all P acc" "length acc < 5" "distinct (map sr_chunk_id acc)"
    and "\<And>q rs. search q = Inr rs \<Longrightarrow> list_all P rs"
  shows "list_all P out \<and> length out \<le> 5 \<and> distinct (map sr_chunk_id out)"
  using assms(1-4)
proof (induction qs arbitrary: acc)
  case (Cons q qs)
  obtain rs where rs: "search q = Inr rs" using Cons.prems(1) by (auto simp: rbind_eq_Inr)
  obtain full acc1 where c: "collect_chunks acc rs = (full, acc1)" by (rule prod.exhaust)
  note k = collect_chunks_kept [OF c]
  have P: "list_all P acc1" using k Cons.prems(2) assms(5) [OF rs] by (auto simp: list_all_iff)
  show ?case
  proof (cases full)
    case True
    then have "out = acc1" using Cons.prems(1) rs c by simp
    then show ?thesis using P k Cons.prems by simp
  next
    case False
    then have "retrieve_queries search acc1 qs = Inr out" using Cons.prems(1) rs c by simp
    then show ?thesis using Cons.IH P k False Cons.prems by blast
  qed
qed auto

lemma new_citations_are:
  "new_citations first mid draft cs =
     map (\<lambda>(n, c). citation_of (first + int n) mid (n + 1) c) (enumerate 0 (List.map_filter (chunk_by_id cs) (take 5 (selected_chunk_ids draft cs))))"
  by (rule new_citations_def)

lemma chunk_by_id_Some: "chunk_by_id cs i = Some c \<Longrightarrow> c \<in> set cs \<and> sr_chunk_id c = i"
  by (auto simp: chunk_by_id_def dest: find_row_Some)

lemma length_map_filter_le: "length (List.map_filter f xs) \<le> length xs"
  by (induction xs) (auto simp: map_filter_simps split: option.split)

lemma new_citations_props:
  shows "ct \<in> set (new_citations first mid draft cs) \<Longrightarrow> \<exists>c \<in> set cs. \<exists>n. ct = citation_of (first + int n) mid (n + 1) c"
    and "length (new_citations first mid draft cs) \<le> 5"
    and "map ct_rank (new_citations first mid draft cs) = [1..<Suc (length (new_citations first mid draft cs))]"
    and "map ct_id (new_citations first mid draft cs) = map (\<lambda>n. first + int n) [0..<length (new_citations first mid draft cs)]"
proof -
  let ?xs = "List.map_filter (chunk_by_id cs) (take 5 (selected_chunk_ids draft cs))"
  have in_cs: "c \<in> set cs" if "c \<in> set ?xs" for c
    using that by (auto simp: map_filter_def dest: chunk_by_id_Some)
  show "\<exists>c \<in> set cs. \<exists>n. ct = citation_of (first + int n) mid (n + 1) c" if "ct \<in> set (new_citations first mid draft cs)"
    using that in_cs by (fastforce simp: new_citations_def in_set_enumerate_eq)
  show "length (new_citations first mid draft cs) \<le> 5"
    using length_map_filter_le [of "chunk_by_id cs" "take 5 (selected_chunk_ids draft cs)"]
    by (simp add: new_citations_def)
  show "map ct_rank (new_citations first mid draft cs) = [1..<Suc (length (new_citations first mid draft cs))]"
    by (rule nth_equalityI) (auto simp: new_citations_def citation_of_def nth_enumerate_eq simp del: upt_Suc split: prod.split)
  show "map ct_id (new_citations first mid draft cs) = map (\<lambda>n. first + int n) [0..<length (new_citations first mid draft cs)]"
    by (rule nth_equalityI) (auto simp: new_citations_def citation_of_def nth_enumerate_eq split: prod.split)
qed

section \<open>Turns\<close>

lemma foldl_max_upt: "foldl max n [Suc n..<Suc (n + k)] = n + k"
  by (induction k) auto

lemma next_index_length:
  assumes "map ms_turn_index (messages_of i db) = [0..<length (messages_of i db)]"
  shows "next_message_index i db = length (messages_of i db)"
proof (cases "length (messages_of i db)")
  case (Suc k)
  then have "map ms_turn_index (messages_of i db) = 0 # [Suc 0..<Suc (0 + k)]" using assms by (simp add: upt_conv_Cons del: upt_Suc)
  then show ?thesis using foldl_max_upt [of 0 k] Suc by (simp add: next_message_index_def del: upt_Suc)
qed (simp add: next_message_index_def)

lemma user_assistant [simp]: "lit ''user'' \<noteq> lit ''assistant''" "lit ''assistant'' \<noteq> lit ''user''"
  by simp_all

lemma even_upt: "length (filter even [0..<2 * k]) = k"
  by (induction k) auto

lemma alternating_user_turns:
  assumes "alternating (messages_of i db)"
  shows "2 * user_turn_count i db = length (messages_of i db)"
proof -
  let ?ms = "messages_of i db"
  obtain k where k: "length ?ms = 2 * k" using assms by (auto simp: alternating_def elim: evenE)
  have "filter (\<lambda>m. ms_role m = lit ''user'') ?ms = filter (\<lambda>m. even (ms_turn_index m)) ?ms"
    using assms by (intro filter_cong) (auto simp: alternating_def)
  also have "length \<dots> = length (filter even (map ms_turn_index ?ms))" by (simp add: filter_map comp_def)
  also have "\<dots> = k" using assms k by (simp add: alternating_def even_upt)
  finally show ?thesis using k by (simp add: user_turn_count_def)
qed

lemma commit_turn_messages:
  assumes "commit_turn tc plan cs draft db = (r, db1)"
  shows "messages_of i db1 = messages_of i db @ (if i = cv_id (tc_conversation tc) then [tr_user_message r, tr_assistant_message r] else [])"
    and "rb_docs db1 = rb_docs db" "rb_personas db1 = rb_personas db" "rb_conversations db1 = rb_conversations db"
    and "ms_role (tr_user_message r) = lit ''user''" "ms_role (tr_assistant_message r) = lit ''assistant''"
    and "ms_turn_index (tr_user_message r) = next_message_index (cv_id (tc_conversation tc)) db"
    and "ms_turn_index (tr_assistant_message r) = next_message_index (cv_id (tc_conversation tc)) db + 1"
  using assms by (auto simp: commit_turn_def Let_def messages_of_def)

lemma begin_turnD:
  assumes "begin_turn claims i content db = Inr tc"
  shows "tc_conversation tc \<in> set (rb_conversations db)" "cv_id (tc_conversation tc) = i"
    "cv_invitation_code_id (tc_conversation tc) = invitation_code_id claims"
    "tc_persona tc \<in> set (rb_personas db)" "cv_persona_id (tc_conversation tc) = Some (ps_id (tc_persona tc))"
    "ps_invitation_code_id (tc_persona tc) = invitation_code_id claims" "ps_is_active (tc_persona tc)"
    "tc_user_turns tc = user_turn_count i db" "user_turn_count i db < 10" "tc_content tc \<noteq> []"
  using assms
  by (auto simp: begin_turn_def rbind_eq_Inr Let_def split: if_splits option.splits
      dest!: rag_access_same active_personaD conversationD)

lemma alternating_append:
  assumes "alternating ms" "ms_role u = lit ''user''" "ms_role a = lit ''assistant''"
    and "ms_turn_index u = length ms" "ms_turn_index a = length ms + 1"
  shows "alternating (ms @ [u, a])"
  using assms by (auto simp: alternating_def)

lemma commit_turn_ok:
  assumes "rag_ok db" "rag_task_ok db (Answering tc plan cs)" and c: "commit_turn tc plan cs draft db = (r, db1)"
  shows "rag_ok db1 \<and> rag_grows db db1"
proof -
  let ?i = "cv_id (tc_conversation tc)" and ?k = "rb_next_message db"
  let ?cts = "new_citations (rb_next_citation db) (?k + 1) draft cs"
  note t = commit_turn_messages [OF c]
  have i: "?i \<in> cv_id ` set (rb_conversations db)" and g: "list_all (quotes_chunk (rb_docs db)) cs"
    using assms(2) by (simp_all add: rag_task_ok_def)
  have alt: "alternating (messages_of j db)" for j
    using assms(1) by (simp add: rag_ok_def messages_ok_def)
  have msgs: "rb_messages db1 = rb_messages db @ [tr_user_message r, tr_assistant_message r]" "rb_next_message db1 = ?k + 2"
    "ms_id (tr_user_message r) = ?k" "ms_id (tr_assistant_message r) = ?k + 1"
    "ms_conversation_id (tr_user_message r) = ?i" "ms_conversation_id (tr_assistant_message r) = ?i"
    and cts: "rb_citations db1 = rb_citations db @ ?cts" "rb_next_citation db1 = rb_next_citation db + int (length ?cts)"
    using c by (auto simp: commit_turn_def Let_def)
  have next_index: "next_message_index ?i db = length (messages_of ?i db)"
    using alt [of ?i] by (intro next_index_length) (simp add: alternating_def)
  have "messages_ok db1"
    unfolding messages_ok_def
  proof (intro conjI ballI allI)
    show "distinct (map ms_id (rb_messages db1))"
      using assms(1) by (auto simp: rag_ok_def messages_ok_def msgs)
  next
    fix m assume "m \<in> set (rb_messages db1)"
    then show "ms_id m < rb_next_message db1" "ms_conversation_id m \<in> cv_id ` set (rb_conversations db1)"
      using assms(1) i by (auto simp: rag_ok_def messages_ok_def msgs t(4))
  next
    fix j
    show "alternating (messages_of j db1)"
      using alt [of j] next_index t(5-8) by (auto simp: t(1) intro: alternating_append)
  qed
  moreover have "citations_ok db1"
    unfolding citations_ok_def
  proof (intro conjI)
    have old: "ct_id ct < rb_next_citation db" if "ct \<in> set (rb_citations db)" for ct
      using assms(1) that by (simp add: rag_ok_def citations_ok_def)
    have ids: "ct_id ` set ?cts = {rb_next_citation db ..< rb_next_citation db + int (length ?cts)}"
    proof -
      have "ct_id ` set ?cts = (\<lambda>n. rb_next_citation db + int n) ` set [0..<length ?cts]"
        using arg_cong [OF new_citations_props(4) [of "rb_next_citation db" "?k + 1" draft cs], of set] by (simp only: list.set_map)
      also have "\<dots> = {rb_next_citation db ..< rb_next_citation db + int (length ?cts)}"
        by (auto simp: image_iff intro!: bexI [of _ "nat (x - rb_next_citation db)" for x])
      finally show ?thesis .
    qed
    have "distinct (map ct_id ?cts)"
      unfolding new_citations_props(4) by (simp add: distinct_map inj_on_def)
    then show "distinct (map ct_id (rb_citations db1))"
      using assms(1) old ids by (fastforce simp: cts(1) rag_ok_def citations_ok_def)
    show "\<forall>ct \<in> set (rb_citations db1). ct_id ct < rb_next_citation db1 \<and> citation_ok db1 ct"
    proof
    fix ct assume "ct \<in> set (rb_citations db1)"
    then consider "ct \<in> set (rb_citations db)" | "ct \<in> set ?cts" by (auto simp: cts)
    then show "ct_id ct < rb_next_citation db1 \<and> citation_ok db1 ct"
    proof cases
      case 1
      then have "ct_id ct < rb_next_citation db" "citation_ok db ct" using assms(1) by (auto simp: rag_ok_def citations_ok_def)
      then show ?thesis
        by (auto simp: cts citation_ok_def msgs t(2))
    next
      case 2
      then have "ct_id ct \<in> ct_id ` set ?cts" by blast
      then have less: "ct_id ct < rb_next_citation db1" unfolding ids by (simp add: cts)
      obtain q n where q: "q \<in> set cs" "ct = citation_of (rb_next_citation db + int n) (?k + 1) (n + 1) q"
        using new_citations_props(1) [OF 2] by blast
      then have "quotes_chunk (rb_docs db) q" using g by (simp add: list_all_iff)
      then have "citation_ok db1 ct"
        unfolding quotes_chunk_def citation_ok_def q(2) using t(2, 6) msgs by (auto simp: citation_of_def)
      with less show ?thesis ..
    qed
    qed
  qed
  ultimately have "rag_ok db1"
    using assms(1) by (simp add: rag_ok_def personas_ok_def rag_conversations_ok_def t) (use c in \<open>auto simp: commit_turn_def Let_def\<close>)
  then show ?thesis by (simp add: rag_grows_def t)
qed

lemma commit_turn_counts:
  assumes "commit_turn tc plan cs draft db = (r, db1)"
  shows "user_turn_count i db1 = user_turn_count i db + (if cv_id (tc_conversation tc) = i then 1 else 0)"
  using commit_turn_messages(1) [OF assms, of i] commit_turn_messages(5, 6) [OF assms] by (simp add: user_turn_count_def)

text \<open>The turns of a conversation, finished and in progress.\<close>

definition turns_bounded :: "nat \<Rightarrow> ('v, 'd) rag_state \<Rightarrow> bool" where
  "turns_bounded k s \<longleftrightarrow> (\<forall>i. user_turn_count i (fst s) + open_turns i (snd s) \<le> 9 + k)"

section \<open>Strategies that keep the contract\<close>

text \<open>A result that quotes a stored chunk of a document linked to the persona.\<close>

definition grounded :: "int \<Rightarrow> 'v document_store \<Rightarrow> 'd rag_search_result \<Rightarrow> bool" where
  "grounded p ds r \<longleftrightarrow> (\<exists>c d. c \<in> set (ds_chunks ds) \<and> d \<in> set (ds_documents ds) \<and> rd_id d = rc_document_id c \<and> linked_to p ds d
     \<and> sr_chunk_id r = rc_id c \<and> sr_document_id r = rd_id d \<and> sr_chunk_index r = rc_index c \<and> sr_chunk_text r = rc_text c
     \<and> sr_source r = rd_source d \<and> sr_title r = rd_title d)"

lemma grounded_quotes: "list_all (grounded p ds) cs \<Longrightarrow> list_all (quotes_chunk ds) cs"
  by (fastforce simp: list_all_iff grounded_def quotes_chunk_def)

locale rag_demo = rag_strategy create search search_persona
  for create :: "prepared_document \<Rightarrow> str list \<Rightarrow> 'v document_store \<Rightarrow> (rag_document_result \<times> 'v document_store) result"
    and search :: "str list \<Rightarrow> str \<Rightarrow> int \<Rightarrow> 'v document_store \<Rightarrow> ('d::linorder) rag_search_result list result"
    and search_persona :: "int \<Rightarrow> str \<Rightarrow> int \<Rightarrow> 'v document_store \<Rightarrow> 'd rag_search_result list result" +
  fixes G :: "('v, 'd) rag_service"
  assumes G: "G = \<lparr> rg_create = create, rg_search = search, rg_search_persona = search_persona \<rparr>"
begin

lemma find_or_create_ok:
  assumes "find_or_create_document G p prepared ds = Inr (reused, d, ds1)" "docs_ok ds"
  shows "docs_ok ds1 \<and> d \<in> set (ds_documents ds1) \<and> ds_links ds1 = ds_links ds \<and> set (ds_chunks ds) \<subseteq> set (ds_chunks ds1)"
proof (cases "get_document_by_hash (pd_sha256 prepared) ds")
  case None
  then obtain r where c: "create prepared [persona_label p] ds = Inr (r, ds1)" and d: "find_row rd_id (dr_document_id r) (ds_documents ds1) = Some d"
    using assms(1) by (auto simp: find_or_create_document_def rbind_eq_Inr G split: option.splits)
  show ?thesis
    using create_ok [OF c assms(2)] stores_document_keeps [OF create_stores [OF c assms(2)] assms(2)] find_row_Some [OF d] by simp
next
  case (Some e)
  then have "d = e" "ds1 = ds" using assms(1) by (simp_all add: find_or_create_document_def)
  then show ?thesis using Some find_row_Some [of rd_sha256 "Some (pd_sha256 prepared)" "ds_documents ds" e] assms(2)
    by (simp add: get_document_by_hash_def)
qed

lemma answer_errors_Inr: "answer_errors r = Inr x \<longleftrightarrow> r = Inr x"
  by (cases r) (auto simp: answer_errors_def)

lemma store_upload_ok:
  assumes "rag_ok db" "ps_id p \<in> ps_id ` set (rb_personas db)" "store_upload pdf G p source new_title pasted f db = Inr (r, db1)"
  shows "rag_ok db1 \<and> rag_grows db db1 \<and> rb_messages db1 = rb_messages db"
proof -
  have ok: "docs_ok (rb_docs db)" and links: "\<forall>l \<in> set (ds_links (rb_docs db)). pl_persona_id l \<in> ps_id ` set (rb_personas db)"
    using assms(1) by (simp_all add: rag_ok_def personas_ok_def)
  obtain prepared reused d ds1 where fc: "find_or_create_document G p prepared (rb_docs db) = Inr (reused, d, ds1)"
    and rest: "(let (l, ds2) = link_persona_document (ps_id p) d (Some (str_or (pd_title prepared) (pd_source prepared))) None ds1
       in Inr ((serialize_persona_document ds2 l d, reused), db\<lparr> rb_docs := ds2 \<rparr>)) = (Inr (r, db1) :: ((persona_document_response \<times> bool) \<times> 'v rag_db) result)"
    using assms(3) by (auto simp: store_upload_def rbind_eq_Inr answer_errors_Inr)
  obtain l ds2 where k: "link_persona_document (ps_id p) d (Some (str_or (pd_title prepared) (pd_source prepared))) None ds1 = (l, ds2)"
    by (rule prod.exhaust)
  have db1: "db1 = db\<lparr> rb_docs := ds2 \<rparr>" using rest k by simp
  note fc_ok = find_or_create_ok [OF fc ok]
  have k_ok: "docs_ok ds2 \<and> ds_chunks ds2 = ds_chunks ds1 \<and> (\<forall>k \<in> set (ds_links ds2). k \<in> set (ds_links ds1) \<or> pl_persona_id k = ps_id p)"
    using linked_document_ok [OF _ _ k] fc_ok by blast
  have "rag_ok (db\<lparr> rb_docs := ds2 \<rparr>)"
    using fc_ok k_ok links assms(2) by (intro documents_changed_ok [OF assms(1)]) auto
  then show ?thesis using fc_ok k_ok unfolding db1 by (simp add: rag_grows_def)
qed

lemma begin_uploadD: "begin_upload claims i db = Inr p \<Longrightarrow> ps_id p \<in> ps_id ` set (rb_personas db)"
  by (auto simp: begin_upload_def rbind_eq_Inr dest!: active_personaD)

lemma upload_ok:
  assumes "rag_ok db" "upload_rag_persona_document_route pdf G claims i source new_title pasted f db = Inr (r, db1)"
  shows "rag_ok db1"
proof -
  obtain p where "begin_upload claims i db = Inr p" "store_upload pdf G p source new_title pasted f db = Inr (r, db1)"
    using assms(2) by (auto simp: upload_stages rbind_eq_Inr)
  then show ?thesis using store_upload_ok [OF assms(1) begin_uploadD] by blast
qed

lemma ingest_ok:
  assumes "rag_ok db" "ingest_rag_document_route pdf G claims labels source new_title pasted f db = Inr (r, db1)"
  shows "rag_ok db1 \<and> rag_grows db db1 \<and> rb_messages db1 = rb_messages db"
proof -
  have ok: "docs_ok (rb_docs db)" and links: "\<forall>l \<in> set (ds_links (rb_docs db)). pl_persona_id l \<in> ps_id ` set (rb_personas db)"
    using assms(1) by (simp_all add: rag_ok_def personas_ok_def)
  obtain p ds1 where c: "create p labels (rb_docs db) = Inr (r, ds1)" and db1: "db1 = db\<lparr> rb_docs := ds1 \<rparr>"
    using assms(2) by (auto simp: ingest_rag_document_route_def ingest_document_def rbind_eq_Inr answer_errors_Inr G)
  have "rag_ok (db\<lparr> rb_docs := ds1 \<rparr>)"
    using create_ok [OF c ok] stores_document_keeps [OF create_stores [OF c ok] ok] links
    by (intro documents_changed_ok [OF assms(1)]) auto
  then show ?thesis using stores_document_keeps [OF create_stores [OF c ok] ok] unfolding db1 by (simp add: rag_grows_def)
qed

lemma search_grounded: "search_persona i q limit ds = Inr rs \<Longrightarrow> list_all (grounded i ds) rs"
  using search_persona_scoped [of i q limit ds rs]
  by (fastforce simp: scoped_answer_def list_all_iff grounded_def search_result_def)

lemma retrieval_grounded:
  assumes "retrieve_for_plan G p plan content db = Inr cs"
  shows "list_all (grounded p (rb_docs db)) cs \<and> length cs \<le> 5 \<and> distinct (map sr_chunk_id cs)"
proof (cases "\<not> tp_is_allowed plan \<or> \<not> tp_needs_retrieval plan")
  case True
  then show ?thesis using assms by (auto simp: retrieve_for_plan_def)
next
  case False
  then have r: "retrieve_queries (\<lambda>q. search_persona p q 5 (rb_docs db)) [] (plan_queries plan content) = Inr cs"
    using assms by (simp add: retrieve_for_plan_def G)
  show ?thesis
    using retrieve_queries_kept [OF r, of "grounded p (rb_docs db)"] search_grounded by simp
qed

lemma turn_parts:
  assumes "create_rag_conversation_message_route G planner answerer claims i content db = Inr (r, db1)"
  obtains tc plan and cs :: "'d rag_search_result list" and draft where "begin_turn claims i content db = Inr tc"
    "list_all (grounded (ps_id (tc_persona tc)) (rb_docs db)) cs" "length cs \<le> 5" "distinct (map sr_chunk_id cs)"
    "commit_turn tc plan cs draft db = (r, db1)"
proof -
  obtain tc plan cs draft where t: "begin_turn claims i content db = Inr tc"
    "retrieve_for_plan G (ps_id (tc_persona tc)) plan (tc_content tc) db = Inr cs" "commit_turn tc plan cs draft db = (r, db1)"
    using assms by (auto simp: create_rag_conversation_message_route_def rbind_eq_Inr)
  have g: "list_all (grounded (ps_id (tc_persona tc)) (rb_docs db)) cs" "length cs \<le> 5" "distinct (map sr_chunk_id cs)"
    using retrieval_grounded [OF t(2)] by blast+
  show ?thesis by (rule that [OF t(1) g t(3)])
qed

text \<open>
  A step commits a turn, takes up a request or carries it on without writing, or changes
  nothing about the messages.
\<close>

lemma rag_step_kinds:
  assumes "rag_step pdf G (db, ts) (db1, ts1)" "rag_state_ok (db, ts)"
  obtains (commits) tc plan cs draft r where "ts = add_mset (Answering tc plan cs) ts1" "commit_turn tc plan cs draft db = (r, db1)"
  | (begins) claims i content tc where "db1 = db" "ts1 = add_mset (Planning tc) ts" "begin_turn claims i content db = Inr tc"
  | (retrieves) tc plan and cs :: "'d rag_search_result list" and rest where "db1 = db" "ts = add_mset (Planning tc) rest"
      "ts1 = add_mset (Answering tc plan cs) rest" "list_all (quotes_chunk (rb_docs db)) cs"
  | (uploads) p source new_title pasted f where "db1 = db" "ts1 = add_mset (Uploading p source new_title pasted f) ts"
      "ps_id p \<in> ps_id ` set (rb_personas db)"
  | (other) "rag_ok db1" "rag_grows db db1" "rb_messages db1 = rb_messages db" "ts1 \<subseteq># ts"
proof -
  have ok: "rag_ok db" using assms(2) by (simp add: rag_state_ok_def)
  from assms(1) show ?thesis
  proof (cases rule: rag_step.cases)
    case (create_persona claims q p)
    then show ?thesis using other create_persona_ok [OF ok] by simp
  next
    case (update_persona claims i q p)
    then show ?thesis using other update_persona_ok [OF ok] by simp
  next
    case (delete_persona claims i u)
    then show ?thesis using other delete_persona_ok [OF ok] by simp
  next
    case (create_conversation claims i new_title v)
    then show ?thesis using other create_conversation_ok [OF ok] by simp
  next
    case (turn_begins claims i content tc)
    then show ?thesis using begins by simp
  next
    case (turn_retrieves planner tc plan cs rest)
    then show ?thesis using retrieves retrieval_grounded grounded_quotes by blast
  next
    case (turn_commits answerer tc plan cs draft r)
    then show ?thesis using commits by blast
  next
    case (upload_begins claims i p source new_title pasted f)
    then show ?thesis using uploads begin_uploadD by blast
  next
    case (upload_stores p source new_title pasted f r)
    have "ps_id p \<in> ps_id ` set (rb_personas db)"
      using assms(2) upload_stores(1) by (simp add: rag_state_ok_def rag_task_ok_def)
    then show ?thesis using other store_upload_ok [OF ok _ upload_stores(2)] upload_stores(1) by simp
  next
    case (unlink claims i document_id u)
    then show ?thesis using other unlink_ok [OF ok] by simp
  next
    case (ingest claims labels source new_title pasted f r)
    then show ?thesis using other ingest_ok [OF ok] by simp
  next
    case (clock t)
    then show ?thesis using other clock_ok [OF ok] by (simp add: rag_grows_def)
  qed (use other ok in simp)
qed

lemma step_ok:
  assumes "rag_step pdf G s s1" "rag_state_ok s"
  shows "rag_state_ok s1"
proof -
  obtain db ts db1 ts1 where s: "s = (db, ts)" "s1 = (db1, ts1)" by (metis surj_pair)
  have ok: "rag_ok db" and tasks: "\<And>task. task \<in># ts \<Longrightarrow> rag_task_ok db task"
    using assms(2) by (simp_all add: rag_state_ok_def s)
  from assms [unfolded s] show ?thesis
  proof (cases rule: rag_step_kinds)
    case (commits tc plan cs draft r)
    have "rag_task_ok db (Answering tc plan cs)" by (rule tasks) (simp add: commits(1))
    then have "rag_ok db1 \<and> rag_grows db db1" using commit_turn_ok [OF ok _ commits(2)] by blast
    then show ?thesis using tasks commits(1) rag_grows_task by (auto simp: rag_state_ok_def s)
  next
    case (begins claims i content tc)
    have "rag_task_ok db (Planning tc)" using begin_turnD(1) [OF begins(3)] by (simp add: rag_task_ok_def)
    then show ?thesis using tasks ok begins by (auto simp: rag_state_ok_def s)
  next
    case (retrieves tc plan cs rest)
    have "cv_id (tc_conversation tc) \<in> cv_id ` set (rb_conversations db)"
      using tasks [of "Planning tc"] retrieves(2) by (simp add: rag_task_ok_def)
    then have "rag_task_ok db (Answering tc plan cs)" using retrieves(4) by (simp add: rag_task_ok_def)
    then show ?thesis using tasks ok retrieves by (auto simp: rag_state_ok_def s)
  next
    case (uploads p source new_title pasted f)
    then show ?thesis using tasks ok by (auto simp: rag_state_ok_def rag_task_ok_def s)
  next
    case other
    have "rag_task_ok db1 task" if "task \<in># ts1" for task
      using rag_grows_task [OF other(2) tasks [OF mset_subset_eqD [OF other(4) that]]] .
    then show ?thesis using other(1) by (simp add: rag_state_ok_def s)
  qed
qed

sublocale steps: preserved "rag_step pdf G" rag_state_ok for pdf
  by unfold_locales (rule step_ok)

lemma step_bounded:
  assumes "rag_step_within k pdf G s s1" "rag_state_ok s" "turns_bounded k s"
  shows "turns_bounded k s1"
  unfolding turns_bounded_def
proof
  fix i
  obtain db ts db1 ts1 where s: "s = (db, ts)" "s1 = (db1, ts1)" by (metis surj_pair)
  have step: "rag_step pdf G (db, ts) (db1, ts1)" and few: "open_turns i ts1 \<le> k"
    using assms(1) by (simp_all add: rag_step_within_def s)
  have old: "user_turn_count i db + open_turns i ts \<le> 9 + k" using assms(3) by (simp add: turns_bounded_def s)
  from step assms(2) [unfolded s] have "user_turn_count i db1 + open_turns i ts1 \<le> 9 + k"
  proof (cases rule: rag_step_kinds)
    case (commits tc plan cs draft r)
    then show ?thesis using old by (simp add: commit_turn_counts [OF commits(2)] open_turns_def turn_of_def split: if_splits)
  next
    case (begins claims j content tc)
    then show ?thesis
      using old few begin_turnD(2, 9) [OF begins(3)] by (cases "i = j") (simp_all add: open_turns_def turn_of_def)
  next
    case (retrieves tc plan cs rest)
    then show ?thesis using old by (simp add: open_turns_def turn_of_def split: if_splits)
  next
    case (uploads p source new_title pasted f)
    then show ?thesis using old by (simp add: open_turns_def turn_of_def)
  next
    case other
    have "open_turns i ts1 \<le> open_turns i ts"
      using other(4) by (simp add: open_turns_def multiset_filter_mono size_mset_mono)
    moreover have "user_turn_count i db1 = user_turn_count i db"
      using other(3) by (simp add: user_turn_count_def messages_of_def)
    ultimately show ?thesis using old by simp
  qed
  then show "user_turn_count i (fst s1) + open_turns i (snd s1) \<le> 9 + k" by (simp add: s)
qed

sublocale bounded: preserved_under "rag_step_within k pdf G" rag_state_ok "turns_bounded k" for k pdf
  by unfold_locales (auto simp: rag_step_within_def intro: step_ok step_bounded)

end

lemma empty_turns_bounded: "turns_bounded k (empty_rag_db, {#})"
  by (simp add: turns_bounded_def user_turn_count_def messages_of_def empty_rag_db_def open_turns_def)

text \<open>Every run keeps within some number of overlapping turns, and a turn by itself is a run.\<close>

lemma within_mono: "rag_step_within k pdf G s s1 \<Longrightarrow> k \<le> m \<Longrightarrow> rag_step_within m pdf G s s1"
  by (auto simp: rag_step_within_def intro: le_trans)

lemma every_run_is_within:
  "(rag_step pdf G)\<^sup>*\<^sup>* s s1 \<Longrightarrow> \<exists>k. (rag_step_within k pdf G)\<^sup>*\<^sup>* s s1"
proof (induction rule: rtranclp_induct)
  case (step s1 s2)
  then obtain k where k: "(rag_step_within k pdf G)\<^sup>*\<^sup>* s s1" by blast
  let ?m = "k + size (snd s2)"
  have "(rag_step_within ?m pdf G)\<^sup>*\<^sup>* s s1"
    using k by (rule rtranclp_mono [THEN predicate2D, rotated]) (auto intro: within_mono)
  moreover have "open_turns i (snd s2) \<le> ?m" for i by (simp add: open_turns_def size_filter_mset_lesseq trans_le_add2)
  then have "rag_step_within ?m pdf G s1 s2" using step(2) by (simp add: rag_step_within_def)
  ultimately show ?case by (blast intro: rtranclp.rtrancl_into_rtrancl)
qed blast

lemma turn_run:
  assumes "create_rag_conversation_message_route G planner answerer claims i content db = Inr (r, db1)"
    and "\<And>j. open_turns j ts + (if j = i then 1 else 0) \<le> k"
  shows "(rag_step_within k pdf G)\<^sup>*\<^sup>* (db, ts) (db1, ts)"
proof -
  obtain tc plan draft and cs :: "'b rag_search_result list" where t: "begin_turn claims i content db = Inr tc"
    "plan_turn planner (tc_persona tc) (tc_recent tc) (tc_content tc) = Inr plan"
    "retrieve_for_plan G (ps_id (tc_persona tc)) plan (tc_content tc) db = Inr cs"
    "draft_assistant_response answerer tc plan cs = Inr draft" "commit_turn tc plan cs draft db = (r, db1)"
    using assms(1) by (auto simp: create_rag_conversation_message_route_def rbind_eq_Inr)
  have few: "open_turns j ts \<le> k" "open_turns j (add_mset (Planning tc) ts) \<le> k" "open_turns j (add_mset (Answering tc plan cs) ts) \<le> k" for j
    using assms(2) [of j] begin_turnD(2) [OF t(1)] by (auto simp: open_turns_def turn_of_def split: if_splits)
  have "rag_step_within k pdf G (db, ts) (db, add_mset (Planning tc) ts)"
    "rag_step_within k pdf G (db, add_mset (Planning tc) ts) (db, add_mset (Answering tc plan cs) ts)"
    "rag_step_within k pdf G (db, add_mset (Answering tc plan cs) ts) (db1, ts)"
    using few rag_step.turn_begins [OF t(1)] rag_step.turn_retrieves [OF t(2, 3)] rag_step.turn_commits [OF t(4, 5)]
    by (simp_all add: rag_step_within_def)
  then show ?thesis by (meson rtranclp.rtrancl_into_rtrancl rtranclp.rtrancl_refl)
qed

lemma upload_run:
  assumes "upload_rag_persona_document_route pdf G claims i source new_title pasted f db = Inr (r, db1)"
    and "\<And>j. open_turns j ts \<le> k"
  shows "(rag_step_within k pdf G)\<^sup>*\<^sup>* (db, ts) (db1, ts)"
proof -
  obtain p where p: "begin_upload claims i db = Inr p" "store_upload pdf G p source new_title pasted f db = Inr (r, db1)"
    using assms(1) by (auto simp: upload_stages rbind_eq_Inr)
  have "rag_step_within k pdf G (db, ts) (db, add_mset (Uploading p source new_title pasted f) ts)"
    "rag_step_within k pdf G (db, add_mset (Uploading p source new_title pasted f) ts) (db1, ts)"
    using rag_step.upload_begins [OF p(1)] rag_step.upload_stores [OF p(2)] assms(2)
    by (simp_all add: rag_step_within_def open_turns_def turn_of_def)
  then show ?thesis by (meson rtranclp.rtrancl_into_rtrancl rtranclp.rtrancl_refl)
qed

end
