(* ===== verification/Rag_Properties.thy ===== *)
theory Rag_Properties
  imports Rag_System
begin

text \<open>
  The properties of the RAG demo as a whole: both strategies are instances of the contract the
  chat is verified against, and what follows for tenants, documents and conversations.
\<close>

interpretation postgres_demo: rag_demo "local_create_document_from_prepared emb sidecar S" "local_search emb cosine"
    "local_search_persona_documents emb cosine" "LocalPostgresRagStrategy emb cosine sidecar S"
  for emb sidecar S cosine
  by unfold_locales (simp add: LocalPostgresRagStrategy_def)

interpretation oracle_demo: rag_demo "oracle_create_document_from_prepared ora sidecar S" "oracle_search ora vector_distance S"
    "oracle_search_persona_documents ora vector_distance S" "OracleNativeRagStrategy ora vector_distance sidecar S"
  for ora sidecar S vector_distance
  by unfold_locales (simp add: OracleNativeRagStrategy_def)

section \<open>A small database\<close>

definition rag_caller :: "int \<Rightarrow> access_token_claims" where
  "rag_caller i = \<lparr> token_id = lit ''t'', invitation_code_id = i, claim_code = lit ''A'', claim_experience_id = RAG_DEMO,
     issued_at = 0, expires_at = 9 \<rparr>"

definition demo_persona :: rag_persona where
  "demo_persona = \<lparr> ps_id = 1, ps_invitation_code_id = 7, ps_name = lit ''a'', ps_name_key = lit ''a'', ps_instructions = lit ''b'',
     ps_capabilities = None, ps_tool_config = None, ps_is_active = True, ps_created_at = 0, ps_updated_at = 0 \<rparr>"

definition demo_conversation :: rag_conversation where
  "demo_conversation = \<lparr> cv_id = 1, cv_invitation_code_id = 7, cv_persona_id = Some 1, cv_title = None,
     cv_status = lit ''active'', cv_created_at = 0, cv_updated_at = 0 \<rparr>"

definition demo_document :: rag_document where
  "demo_document = \<lparr> rd_id = 1, rd_source = lit ''notes'', rd_title = None, rd_sha256 = None, rd_metadata = None, rd_created_at = 0 \<rparr>"

definition demo_chunk :: "nat list rag_chunk" where
  "demo_chunk = \<lparr> rc_id = 1, rc_document_id = 1, rc_index = 0, rc_page_number = None, rc_source_location = None,
     rc_text = lit ''hello'', rc_metadata = None, rc_embedding = replicate 384 0 \<rparr>"

definition demo_documents :: "nat list document_store" where
  "demo_documents = \<lparr> ds_documents = [demo_document], ds_labels = [\<lparr> rl_id = 1, rl_key = lit ''x'' \<rparr>],
     ds_document_labels = [\<lparr> dl_document_id = 1, dl_label_id = 1 \<rparr>], ds_chunks = [demo_chunk],
     ds_links = [\<lparr> pl_persona_id = 1, pl_document_id = 1, pl_display_name = None, pl_source = None, pl_metadata = None, pl_created_at = 0 \<rparr>],
     ds_next_document = 2, ds_next_label = 2, ds_next_chunk = 2, ds_now = 0 \<rparr>"

definition demo_rag_db :: "nat list rag_db" where
  "demo_rag_db = \<lparr> rb_docs = demo_documents, rb_personas = [demo_persona], rb_conversations = [demo_conversation],
     rb_messages = [], rb_citations = [], rb_next_persona = 2, rb_next_conversation = 2, rb_next_message = 1, rb_next_citation = 1 \<rparr>"

lemmas demo_defs = demo_rag_db_def demo_documents_def demo_chunk_def demo_document_def demo_conversation_def demo_persona_def

lemma demo_documents_ok: "docs_ok demo_documents"
  by (auto simp: docs_ok_def demo_defs chunks_of_document_def document_chunk_count_def link_key_def)

lemma demo_rag_ok: "rag_ok demo_rag_db"
  using demo_documents_ok
  by (auto simp: rag_ok_def demo_rag_db_def personas_ok_def rag_conversations_ok_def messages_ok_def citations_ok_def
      messages_of_def alternating_def demo_persona_def demo_conversation_def) (simp add: demo_documents_def)

definition demo_service :: "(nat list, nat) rag_service" where
  "demo_service = LocalPostgresRagStrategy small_context (\<lambda>_ _. 0) (\<lambda>_ _ _. Inl (OSError (lit ''refused''))) demo_rag_settings"

definition demo_planner :: "str \<Rightarrow> str \<Rightarrow> turn_plan result" where
  "demo_planner = (\<lambda>_ _. Inr \<lparr> tp_is_allowed = True, tp_refusal_reason = None, tp_user_facing_refusal = None,
     tp_needs_retrieval = True, tp_search_queries = [] \<rparr>)"

definition demo_answerer :: "str \<Rightarrow> str \<Rightarrow> assistant_draft result" where
  "demo_answerer = (\<lambda>_ _. Inr \<lparr> ad_content = lit ''a'', ad_citation_chunk_ids = [1] \<rparr>)"

lemma demo_search: "rg_search_persona demo_service 1 (lit ''q'') 5 demo_documents = Inr [search_result (\<lambda>_. 0) (demo_chunk, demo_document)]"
  by (simp add: demo_service_def LocalPostgresRagStrategy_def local_search_persona_documents_def check_persona_id_def check_query_def
      local_query_vector_def small_context_def EMBEDDING_DIMENSIONS_def nearest_def persona_rows_def chunk_documents_def
      demo_documents_def demo_document_def demo_chunk_def lit_def strip_def rstrip_def lstrip_def is_space_def)

lemma demo_begin:
  "begin_turn (rag_caller 7) 1 (lit ''q'') demo_rag_db =
     Inr \<lparr> tc_conversation = demo_conversation, tc_persona = demo_persona, tc_user_turns = 0, tc_content = lit ''q'', tc_recent = [] \<rparr>"
  by (simp add: begin_turn_def rag_caller_def rag_access_def require_experience_access_def checked_body_def get_conversation_or_404_def
      get_active_persona_or_404_def demo_rag_db_def demo_conversation_def demo_persona_def user_turn_count_def messages_of_def
      recent_messages_def Let_def lit_def strip_def rstrip_def lstrip_def is_space_def)

lemma demo_turn:
  "\<exists>r db1. create_rag_conversation_message_route demo_service demo_planner demo_answerer (rag_caller 7) 1 (lit ''q'') demo_rag_db = Inr (r, db1)
     \<and> map ct_chunk_id (tr_citations r) = [1]"
proof -
  let ?tc = "\<lparr> tc_conversation = demo_conversation, tc_persona = demo_persona, tc_user_turns = 0, tc_content = lit ''q'', tc_recent = [] \<rparr>"
  obtain plan where plan: "plan_turn demo_planner demo_persona [] (lit ''q'') = Inr plan" "tp_is_allowed plan" "tp_needs_retrieval plan"
    "tp_search_queries plan = []"
    by (simp add: plan_turn_def demo_planner_def)
  have docs: "rb_docs demo_rag_db = demo_documents" by (simp add: demo_rag_db_def)
  have pid: "ps_id demo_persona = 1" by (simp add: demo_persona_def)
  let ?cs = "[search_result (\<lambda>_. 0::nat) (demo_chunk, demo_document)]"
  have cs: "retrieve_for_plan demo_service 1 plan (lit ''q'') demo_rag_db = Inr ?cs"
    by (simp add: retrieve_for_plan_def plan plan_queries_def docs demo_search)
  obtain draft where draft: "draft_assistant_response demo_answerer ?tc plan ?cs = Inr draft" "ad_citation_chunk_ids draft = [1]"
    by (simp add: draft_assistant_response_def plan draft_answer_def demo_answerer_def)
  have "map ct_chunk_id (new_citations 1 2 draft ?cs) = [1]"
    by (simp add: new_citations_def selected_chunk_ids_def draft search_result_def demo_chunk_def chunk_by_id_def find_row_def
        map_filter_simps citation_of_def)
  then have "map ct_chunk_id (tr_citations (fst (commit_turn ?tc plan ?cs draft demo_rag_db))) = [1]"
    by (simp add: commit_turn_def Let_def demo_rag_db_def)
  moreover have "create_rag_conversation_message_route demo_service demo_planner demo_answerer (rag_caller 7) 1 (lit ''q'') demo_rag_db
      = Inr (commit_turn ?tc plan ?cs draft demo_rag_db)"
    by (simp add: create_rag_conversation_message_route_def demo_begin plan pid cs draft)
  ultimately show ?thesis by (cases "commit_turn ?tc plan ?cs draft demo_rag_db") auto
qed

section \<open>Overlapping requests\<close>

text \<open>
  C29: after any requests, however their pieces between two \<^verbatim>\<open>await\<close>s interleave, the tables fit
  together: ids are unique, at most one active persona of a tenant has a name, links,
  conversations and citations refer to existing rows of the right kind and tenant, the chunks of a
  document are numbered from 0, and the messages of a conversation are numbered from 0 and
  alternate between user and assistant. If at most \<open>k\<close> turns of a conversation were ever in
  progress at once, it has at most \<open>9 + k\<close> user turns: ten when they do not overlap. (Every run has
  such a \<open>k\<close>, \<open>every_run_is_within\<close>.)
\<close>

theorem rag_tables_stay_well_formed:
  assumes "(rag_step_within k pdf (LocalPostgresRagStrategy emb cosine sidecar S))\<^sup>*\<^sup>* (empty_rag_db, {#}) (db, ts)"
  shows "rag_ok db \<and> user_turn_count i db \<le> 9 + k"
proof -
  have "rag_state_ok (db, ts)" by (rule postgres_demo.bounded.reach_inv [OF assms empty_rag_state_ok])
  moreover have "turns_bounded k (db, ts)"
    by (rule postgres_demo.bounded.reach_fact [OF assms empty_rag_state_ok empty_turns_bounded])
  then have "user_turn_count i db + open_turns i ts \<le> 9 + k" by (simp add: turns_bounded_def)
  ultimately show ?thesis by (simp add: rag_state_ok_def)
qed

section \<open>Turns\<close>

text \<open>
  The limit is checked before the model is called and the messages are written after, so two
  requests that both begin at nine user turns both succeed and leave eleven.
\<close>

theorem concurrent_turns_pass_the_limit:
  assumes "begin_turn claims i content db = Inr tc" and "user_turn_count i db = 9"
  shows "user_turn_count i (snd (commit_turn tc plan2 cs2 draft2 (snd (commit_turn tc plan cs draft db)))) = 11"
proof -
  obtain r db1 where c1: "commit_turn tc plan cs draft db = (r, db1)" by (rule prod.exhaust)
  obtain r2 db2 where c2: "commit_turn tc plan2 cs2 draft2 db1 = (r2, db2)" by (rule prod.exhaust)
  have i: "cv_id (tc_conversation tc) = i" using begin_turnD(2) [OF assms(1)] .
  show ?thesis
    using assms(2) commit_turn_messages(1) [OF c1, of i] commit_turn_messages(5, 6) [OF c1]
      commit_turn_messages(1) [OF c2, of i] commit_turn_messages(5, 6) [OF c2]
    by (simp add: c1 c2 i user_turn_count_def)
qed

definition nine_turns :: "nat list rag_db" where
  "nine_turns = demo_rag_db\<lparr> rb_messages := map (\<lambda>n. \<lparr> ms_id = int n + 1, ms_conversation_id = 1,
     ms_role = (if even n then lit ''user'' else lit ''assistant''), ms_content = lit ''x'', ms_turn_index = n, ms_metadata = None,
     ms_created_at = 0 \<rparr>) [0..<18], rb_next_message := 19 \<rparr>"

lemma nine_turns_count: "user_turn_count 1 nine_turns = 9"
  by (simp add: user_turn_count_def messages_of_def nine_turns_def upt_rec)

definition demo_plan :: turn_plan where
  "demo_plan = \<lparr> tp_is_allowed = True, tp_refusal_reason = None, tp_user_facing_refusal = None,
     tp_needs_retrieval = False, tp_search_queries = [] \<rparr>"

definition demo_draft :: assistant_draft where
  "demo_draft = \<lparr> ad_content = lit ''a'', ad_citation_chunk_ids = [] \<rparr>"

theorem concurrent_turns_pass_the_limit_witness:
  "\<exists>tc. begin_turn (rag_caller 7) 1 (lit ''q'') nine_turns = Inr tc
     \<and> user_turn_count 1 (snd (commit_turn tc demo_plan ([] :: nat rag_search_result list) demo_draft
         (snd (commit_turn tc demo_plan ([] :: nat rag_search_result list) demo_draft nine_turns)))) = 11"
proof -
  obtain tc where tc: "begin_turn (rag_caller 7) 1 (lit ''q'') nine_turns = Inr tc"
    using nine_turns_count
    by (simp add: begin_turn_def rag_caller_def rag_access_def require_experience_access_def checked_body_def get_conversation_or_404_def
      get_active_persona_or_404_def nine_turns_def demo_rag_db_def demo_conversation_def demo_persona_def
      Let_def lit_def strip_def rstrip_def lstrip_def is_space_def)
  then show ?thesis using concurrent_turns_pass_the_limit [OF tc nine_turns_count] by blast
qed

text \<open>
  C30: an answer only cites chunks of documents linked to the conversation's own persona, quoting
  their text, at most five of them, ranked 1, 2, 3 and so on.
\<close>

theorem answers_cite_linked_documents:
  assumes "create_rag_conversation_message_route (LocalPostgresRagStrategy emb cosine sidecar S) planner answerer claims i content db = Inr (r, db1)"
  shows "list_ex (\<lambda>v. cv_id v = i \<and> cv_invitation_code_id v = invitation_code_id claims
       \<and> list_all (\<lambda>ct. list_ex (\<lambda>c. rc_id c = ct_chunk_id ct \<and> rc_document_id c = ct_document_id ct
              \<and> ct_snippet ct = citation_snippet (rc_text c)
              \<and> list_ex (\<lambda>l. Some (pl_persona_id l) = cv_persona_id v \<and> pl_document_id l = rc_document_id c) (ds_links (rb_docs db)))
            (ds_chunks (rb_docs db))) (tr_citations r)) (rb_conversations db)
     \<and> length (tr_citations r) \<le> 5 \<and> map ct_rank (tr_citations r) = [1..<Suc (length (tr_citations r))]"
proof (rule postgres_demo.turn_parts [OF assms])
  fix tc plan draft and cs :: "'b rag_search_result list"
  assume b: "begin_turn claims i content db = Inr tc"
    and g: "list_all (grounded (ps_id (tc_persona tc)) (rb_docs db)) cs"
    and c: "commit_turn tc plan cs draft db = (r, db1)"
  let ?v = "tc_conversation tc"
  have cts: "tr_citations r = new_citations (rb_next_citation db) (rb_next_message db + 1) draft cs"
    using c by (auto simp: commit_turn_def Let_def)
  note props = new_citations_props
  have "list_ex (\<lambda>c. rc_id c = ct_chunk_id ct \<and> rc_document_id c = ct_document_id ct \<and> ct_snippet ct = citation_snippet (rc_text c)
      \<and> list_ex (\<lambda>l. Some (pl_persona_id l) = cv_persona_id ?v \<and> pl_document_id l = rc_document_id c) (ds_links (rb_docs db)))
    (ds_chunks (rb_docs db))" if ct: "ct \<in> set (tr_citations r)" for ct
  proof -
    obtain q n where q: "q \<in> set cs" "ct = citation_of (rb_next_citation db + int n) (rb_next_message db + 1) (n + 1) q"
      using props(1) ct unfolding cts by blast
    obtain k d where k: "k \<in> set (ds_chunks (rb_docs db))" "rd_id d = rc_document_id k" "linked_to (ps_id (tc_persona tc)) (rb_docs db) d"
      "sr_chunk_id q = rc_id k" "sr_document_id q = rd_id d" "sr_chunk_text q = rc_text k"
      using g q(1) by (auto simp: list_all_iff grounded_def)
    then show ?thesis using begin_turnD(5) [OF b] by (fastforce simp: list_ex_iff linked_to_def q(2) citation_of_def)
  qed
  then have "list_all (\<lambda>ct. list_ex (\<lambda>c. rc_id c = ct_chunk_id ct \<and> rc_document_id c = ct_document_id ct
      \<and> ct_snippet ct = citation_snippet (rc_text c)
      \<and> list_ex (\<lambda>l. Some (pl_persona_id l) = cv_persona_id ?v \<and> pl_document_id l = rc_document_id c) (ds_links (rb_docs db)))
    (ds_chunks (rb_docs db))) (tr_citations r)"
    by (simp add: list_all_iff)
  moreover have "length (tr_citations r) \<le> 5" "map ct_rank (tr_citations r) = [1..<Suc (length (tr_citations r))]"
    unfolding cts by (rule props)+
  ultimately show ?thesis
    using begin_turnD(1, 2, 3) [OF b] by (intro conjI) (auto simp only: list_ex_iff intro!: bexI [of _ ?v])
qed

theorem answers_cite_linked_documents_witness:
  "\<exists>r db1. create_rag_conversation_message_route demo_service demo_planner demo_answerer (rag_caller 7) 1 (lit ''q'') demo_rag_db = Inr (r, db1)
     \<and> map ct_chunk_id (tr_citations r) = [1] \<and> map ct_rank (tr_citations r) = [1]"
proof -
  obtain r db1 where r: "create_rag_conversation_message_route demo_service demo_planner demo_answerer (rag_caller 7) 1 (lit ''q'') demo_rag_db
      = Inr (r, db1)" "map ct_chunk_id (tr_citations r) = [1]"
    using demo_turn by (elim exE conjE) (rule that)
  have "length (tr_citations r) = 1" using r(2) by (metis One_nat_def length_Cons length_map list.size(3))
  moreover have "map ct_rank (tr_citations r) = [1..<Suc (length (tr_citations r))]"
    using answers_cite_linked_documents [OF r(1) [unfolded demo_service_def]] by blast
  ultimately show ?thesis using r by auto
qed

text \<open>
  a turn appends one user and one assistant message to its conversation and nothing else
  changes but the citations: the conversation's own row, its time of last update included, stays
  as it was.
\<close>

theorem a_turn_only_appends:
  assumes "create_rag_conversation_message_route G planner answerer claims i content db = Inr (r, db1)"
  shows "messages_of i db1 = messages_of i db @ [tr_user_message r, tr_assistant_message r]
     \<and> rb_conversations db1 = rb_conversations db \<and> rb_personas db1 = rb_personas db \<and> rb_docs db1 = rb_docs db"
proof -
  obtain tc plan draft and cs :: "'b rag_search_result list" where t: "begin_turn claims i content db = Inr tc" "commit_turn tc plan cs draft db = (r, db1)"
    using assms by (auto simp: create_rag_conversation_message_route_def rbind_eq_Inr)
  show ?thesis using commit_turn_messages(1) [OF t(2), of i] commit_turn_messages(2-4) [OF t(2)] begin_turnD(2) [OF t(1)] by simp
qed

theorem a_turn_only_appends_witness:
  "\<exists>r db1. create_rag_conversation_message_route demo_service demo_planner demo_answerer (rag_caller 7) 1 (lit ''q'') demo_rag_db = Inr (r, db1)
     \<and> length (messages_of 1 db1) = 2"
proof -
  obtain r db1 where r: "create_rag_conversation_message_route demo_service demo_planner demo_answerer (rag_caller 7) 1 (lit ''q'') demo_rag_db
      = Inr (r, db1)"
    using demo_turn by (elim exE conjE) (rule that)
  have "messages_of 1 demo_rag_db = []" by (simp add: messages_of_def demo_rag_db_def)
  then show ?thesis using r a_turn_only_appends [OF r] by simp
qed

section \<open>Personas\<close>

text \<open>
  the name of a soft-deleted persona stays taken among the deleted ones: deleting a second
  persona of that name violates the unique constraint, and the persona stays active.
\<close>

theorem a_name_can_be_deleted_once:
  assumes "rag_ok db" and "rag_access claims = Inr claims" and "get_active_persona_or_404 db i (invitation_code_id claims) = Inr p"
    and "q \<in> set (rb_personas db)" and "\<not> ps_is_active q" and "ps_name_key q = ps_name_key p"
    and "ps_invitation_code_id q = invitation_code_id claims"
  shows "delete_rag_persona_route claims i db = Inl rag_integrity_error"
proof -
  let ?p1 = "saved_persona db p (p\<lparr> ps_is_active := False \<rparr>)"
  let ?ps = "update_row ps_id (ps_id p) (\<lambda>_. ?p1) (rb_personas db)"
  note p = active_personaD [OF assms(3)]
  have dp: "distinct (map ps_id (rb_personas db))" using assms(1) by (simp add: rag_ok_def personas_ok_def)
  have "p \<noteq> q" using p assms(5) by auto
  then have ne: "ps_id p \<noteq> ps_id q" using dp p assms(4) by (auto simp: distinct_map dest: inj_onD)
  have "q \<in> set ?ps" "?p1 \<in> set ?ps" using assms(4) ne p by (auto simp: in_set_update_row)
  moreover have "ps_id ?p1 = ps_id p" by (simp add: saved_persona_def)
  then have "q \<noteq> ?p1" using ne by metis
  moreover have "\<not> ps_is_active ?p1" using p by (auto simp: saved_persona_def) (metis rag_persona.select_convs(8) rag_persona.surjective rag_persona.update_convs(8))
  then have "persona_key q = persona_key ?p1"
    using assms(5, 6, 7) p by (simp add: persona_key_def saved_persona_def)
  ultimately have "\<not> distinct (map persona_key ?ps)" by (auto simp: distinct_map dest: inj_onD)
  then show ?thesis
    using assms(2, 3) by (simp add: delete_rag_persona_route_def commit_personas_def)
qed

definition deleted_before :: "nat list rag_db" where
  "deleted_before = demo_rag_db\<lparr> rb_personas := [demo_persona, demo_persona\<lparr> ps_id := 2, ps_is_active := False \<rparr>], rb_next_persona := 3 \<rparr>"

lemma deleted_before_ok: "rag_ok deleted_before"
  using demo_documents_ok
  by (auto simp: rag_ok_def deleted_before_def demo_rag_db_def personas_ok_def rag_conversations_ok_def messages_ok_def citations_ok_def
      messages_of_def alternating_def demo_persona_def demo_conversation_def persona_key_def) (simp add: demo_documents_def)

theorem a_name_can_be_deleted_once_witness:
  "delete_rag_persona_route (rag_caller 7) 1 deleted_before = Inl rag_integrity_error"
  by (rule a_name_can_be_deleted_once [OF deleted_before_ok, where p = demo_persona and q = "demo_persona\<lparr> ps_id := 2, ps_is_active := False \<rparr>"])
     (simp_all add: rag_access_def require_experience_access_def rag_caller_def get_active_persona_or_404_def deleted_before_def demo_persona_def)

text \<open>
  to a caller with another invitation code a persona does not exist: reading, editing,
  deleting, talking to it and listing, adding or removing its documents all answer 404.
\<close>

theorem personas_are_private_to_tenants:
  assumes "rag_ok db" and "p \<in> set (rb_personas db)" and "ps_invitation_code_id p \<noteq> invitation_code_id claims"
    and "rag_access claims = Inr claims" and "persona_request_ok q" and "at_most 255 t"
  shows "get_rag_persona_route claims db (ps_id p) = Inl persona_missing
     \<and> update_rag_persona_route claims (ps_id p) q db = Inl persona_missing
     \<and> delete_rag_persona_route claims (ps_id p) db = Inl persona_missing
     \<and> create_rag_conversation_route claims (ps_id p) t db = Inl persona_missing
     \<and> list_rag_persona_documents_route claims (ps_id p) db = Inl persona_missing
     \<and> upload_rag_persona_document_route pdf G claims (ps_id p) source new_title pasted f db = Inl persona_missing
     \<and> unlink_rag_persona_document_route claims (ps_id p) document_id db = Inl persona_missing"
proof -
  have dp: "distinct (map ps_id (rb_personas db))" using assms(1) by (simp add: rag_ok_def personas_ok_def)
  have "r = p" if "r \<in> set (rb_personas db)" "ps_id r = ps_id p" for r
    using dp that assms(2) by (auto simp: distinct_map dest: inj_onD)
  then have "find (\<lambda>r. ps_id r = ps_id p \<and> ps_invitation_code_id r = invitation_code_id claims \<and> ps_is_active r) (rb_personas db) = None"
    using assms(3) by (auto simp: find_None_iff)
  then have "get_active_persona_or_404 db (ps_id p) (invitation_code_id claims) = Inl persona_missing"
    by (simp add: get_active_persona_or_404_def)
  then show ?thesis using assms(4, 5, 6)
    by (simp add: get_rag_persona_route_def update_rag_persona_route_def delete_rag_persona_route_def create_rag_conversation_route_def
        list_rag_persona_documents_route_def upload_rag_persona_document_route_def unlink_rag_persona_document_route_def checked_body_def)
qed

definition persona_a :: persona_request where
  "persona_a = \<lparr> pq_name = lit ''a'', pq_instructions = lit ''b'', pq_capabilities = None, pq_tool_config = None \<rparr>"

theorem personas_are_private_to_tenants_witness:
  "get_rag_persona_route (rag_caller 8) demo_rag_db 1 = Inl persona_missing
   \<and> delete_rag_persona_route (rag_caller 8) 1 demo_rag_db = Inl persona_missing"
proof -
  have h: "demo_persona \<in> set (rb_personas demo_rag_db)" "ps_invitation_code_id demo_persona \<noteq> invitation_code_id (rag_caller 8)"
    "rag_access (rag_caller 8) = Inr (rag_caller 8)" "persona_request_ok persona_a" "at_most 255 None"
    by (simp_all add: demo_rag_db_def demo_persona_def rag_caller_def rag_access_def require_experience_access_def
        persona_request_ok_def persona_a_def at_most_def)
  have pid: "ps_id demo_persona = 1" by (simp add: demo_persona_def)
  note t = personas_are_private_to_tenants [OF demo_rag_ok h, unfolded pid]
  show ?thesis using t [THEN conjunct1] t [THEN conjunct2, THEN conjunct2, THEN conjunct1] by blast
qed

section \<open>Documents\<close>

lemma uploaded:
  assumes "upload_rag_persona_document_route pdf G claims i source new_title pasted f db = Inr ((resp, reused), db1)"
  obtains p prepared d ds1 l ds2 where "get_active_persona_or_404 db i (invitation_code_id claims) = Inr p"
    "prepare_document pdf pasted f source new_title = Inr prepared"
    "find_or_create_document G p prepared (rb_docs db) = Inr (reused, d, ds1)"
    "link_persona_document (ps_id p) d (Some (str_or (pd_title prepared) (pd_source prepared))) None ds1 = (l, ds2)"
    "resp = serialize_persona_document ds2 l d" "db1 = db\<lparr> rb_docs := ds2 \<rparr>"
proof -
  have acc: "rag_access claims = Inr claims"
    using assms rag_access_same [of claims] by (cases "rag_access claims") (auto simp: upload_rag_persona_document_route_def)
  obtain p where p: "get_active_persona_or_404 db i (invitation_code_id claims) = Inr p"
    using assms acc by (cases "get_active_persona_or_404 db i (invitation_code_id claims)") (auto simp: upload_rag_persona_document_route_def)
  note r1 = assms [unfolded upload_rag_persona_document_route_def acc p rbind_simps postgres_demo.answer_errors_Inr]
  obtain prepared where pr: "prepare_document pdf pasted f source new_title = Inr prepared"
    using r1 by (cases "prepare_document pdf pasted f source new_title") auto
  obtain reused1 d ds1 where fc: "find_or_create_document G p prepared (rb_docs db) = Inr (reused1, d, ds1)"
    using r1 by (cases "find_or_create_document G p prepared (rb_docs db)") (auto simp: pr)
  obtain l ds2 where k: "link_persona_document (ps_id p) d (Some (str_or (pd_title prepared) (pd_source prepared))) None ds1 = (l, ds2)"
    by (rule prod.exhaust)
  have "reused1 = reused" "resp = serialize_persona_document ds2 l d" "db1 = db\<lparr> rb_docs := ds2 \<rparr>"
    using r1 by (simp_all add: pr fc k)
  then show ?thesis using that [OF p pr _ k] fc by simp
qed

text \<open>What is hashed does not depend on the source or the title the caller gives.\<close>

lemma prepared_same:
  assumes "prepare_document pdf pasted f source new_title = Inr a" "prepare_document pdf pasted f source2 title2 = Inr b"
  shows "pd_sha256 a = pd_sha256 b \<and> pd_sections a = pd_sections b"
proof -
  have "fst x = fst y" if "extract_sections pdf pasted f source = Inr x" "extract_sections pdf pasted f source2 = Inr y" for x y
    using that by (auto simp: extract_sections_def Let_def rbind_eq_Inr split: option.splits if_splits)
  then show ?thesis using assms
    by (fastforce simp: prepare_document_def rbind_eq_Inr Let_def split: if_splits)
qed

lemma find_row_new: "find_row key k xs = None \<Longrightarrow> key x = k \<Longrightarrow> find_row key k (xs @ x # ys) = Some x"
  by (simp add: row_simps)

lemma created_document_found:
  assumes "stores_document prepared labels ds r ds2" "docs_ok ds" "get_document_by_hash (pd_sha256 prepared) ds = None"
  shows "\<exists>d. get_document_by_hash (pd_sha256 prepared) ds2 = Some d \<and> find_row rd_id (dr_document_id r) (ds_documents ds2) = Some d"
proof -
  obtain d ds1 rows where c: "create_document (pd_source prepared) labels (pd_title prepared) (Some (pd_sha256 prepared)) None ds = Inr (d, ds1)"
    and ds2: "ds2 = insert_chunks (rd_id d) rows ds1" and r: "dr_document_id r = rd_id d"
    using assms(1) by (auto simp: stores_document_def)
  have docs: "ds_documents ds1 = ds_documents ds @ [d]" "rd_sha256 d = Some (pd_sha256 prepared)" "rd_id d = ds_next_document ds"
    by (rule document_created [OF c assms(2)], simp add: labels_grown_keeps)+
  have "find_row rd_id (rd_id d) (ds_documents ds) = None"
    using assms(2) docs(3) by (auto simp: find_row_None docs_ok_def)
  then show ?thesis
    using assms(3) docs r by (simp add: get_document_by_hash_def ds2 insert_chunks_rows find_row_new)
qed

lemma link_keeps_documents:
  "link_persona_document p d display metadata ds = (l, ds1) \<Longrightarrow> ds_documents ds1 = ds_documents ds \<and> ds_chunks ds1 = ds_chunks ds"
  by (auto simp: link_persona_document_def Let_def split: option.splits)

lemma upload_stores_hash:
  assumes "upload_rag_persona_document_route pdf (LocalPostgresRagStrategy emb cosine sidecar S) claims i source new_title pasted f db
      = Inr ((resp, reused), db1)" "rag_ok db"
    and "prepare_document pdf pasted f source new_title = Inr prepared"
  shows "\<exists>d. get_document_by_hash (pd_sha256 prepared) (rb_docs db1) = Some d
     \<and> pr_document_id resp = rd_id d \<and> pr_source resp = rd_source d \<and> pr_title resp = rd_title d"
proof (rule uploaded [OF assms(1)])
  fix p q d ds1 l ds2
  let ?G = "LocalPostgresRagStrategy emb cosine sidecar S"
  assume q: "prepare_document pdf pasted f source new_title = Inr q"
    and fc: "find_or_create_document ?G p q (rb_docs db) = Inr (reused, d, ds1)"
    and k: "link_persona_document (ps_id p) d (Some (str_or (pd_title q) (pd_source q))) None ds1 = (l, ds2)"
    and resp: "resp = serialize_persona_document ds2 l d" and db1: "db1 = db\<lparr> rb_docs := ds2 \<rparr>"
  have ok: "docs_ok (rb_docs db)" using assms(2) by (simp add: rag_ok_def)
  have qp: "q = prepared" using q assms(3) by simp
  have "get_document_by_hash (pd_sha256 q) ds1 = Some d"
  proof (cases "get_document_by_hash (pd_sha256 q) (rb_docs db)")
    case None
    then obtain r where c: "local_create_document_from_prepared emb sidecar S q [persona_label p] (rb_docs db) = Inr (r, ds1)"
      and d: "find_row rd_id (dr_document_id r) (ds_documents ds1) = Some d"
      using fc by (auto simp: find_or_create_document_def rbind_eq_Inr LocalPostgresRagStrategy_def split: option.splits)
    show ?thesis using created_document_found [OF postgres.create_stores [OF c ok] ok None] d by auto
  next
    case (Some e)
    then show ?thesis using fc by (simp add: find_or_create_document_def)
  qed
  then show ?thesis
    using link_keeps_documents [OF k] by (auto simp: db1 resp serialize_persona_document_def get_document_by_hash_def qp)
qed

text \<open>
  content is stored once, whoever uploads it: uploading the same text or file again, for any
  persona of any tenant and under any name, reuses the first document with its chunks, and shows
  the later uploader the source and the title the first one gave it.
\<close>

theorem same_content_is_stored_once:
  assumes "rag_ok db"
    and "upload_rag_persona_document_route pdf (LocalPostgresRagStrategy emb cosine sidecar S) claims i source new_title pasted f db
      = Inr ((resp, reused), db1)"
    and "upload_rag_persona_document_route pdf (LocalPostgresRagStrategy emb cosine sidecar S) claims2 i2 source2 title2 pasted f db1
      = Inr ((resp2, reused2), db2)"
  shows "reused2 \<and> pr_document_id resp2 = pr_document_id resp \<and> pr_source resp2 = pr_source resp \<and> pr_title resp2 = pr_title resp
     \<and> ds_documents (rb_docs db2) = ds_documents (rb_docs db1) \<and> ds_chunks (rb_docs db2) = ds_chunks (rb_docs db1)"
proof (rule uploaded [OF assms(3)])
  fix p q d ds1 l ds2
  assume q: "prepare_document pdf pasted f source2 title2 = Inr q"
    and fc: "find_or_create_document (LocalPostgresRagStrategy emb cosine sidecar S) p q (rb_docs db1) = Inr (reused2, d, ds1)"
    and k: "link_persona_document (ps_id p) d (Some (str_or (pd_title q) (pd_source q))) None ds1 = (l, ds2)"
    and resp: "resp2 = serialize_persona_document ds2 l d" and db2: "db2 = db1\<lparr> rb_docs := ds2 \<rparr>"
  obtain prepared where pr: "prepare_document pdf pasted f source new_title = Inr prepared"
    by (rule uploaded [OF assms(2)])
  obtain e where e: "get_document_by_hash (pd_sha256 prepared) (rb_docs db1) = Some e"
    "pr_document_id resp = rd_id e" "pr_source resp = rd_source e" "pr_title resp = rd_title e"
    using upload_stores_hash [OF assms(2, 1) pr] by (elim exE conjE)
  have "get_document_by_hash (pd_sha256 q) (rb_docs db1) = Some e" using e(1) prepared_same [OF pr q] by simp
  then have "reused2" "d = e" "ds1 = rb_docs db1" using fc by (auto simp: find_or_create_document_def)
  then show ?thesis using e link_keeps_documents [OF k] by (simp add: resp db2 serialize_persona_document_def)
qed

section \<open>Uploads that succeed\<close>

lemma lower_not_Nil: "s \<noteq> [] \<Longrightarrow> lower s \<noteq> []"
proof (cases s)
  case (Cons c cs)
  have "lower_cp c \<noteq> []" by (auto simp: lower_cp_def split: option.split)
  then show ?thesis using Cons by (simp add: lower_def)
qed simp

lemma persona_labels: "normalize_labels [persona_label p] \<noteq> []"
proof -
  have "112 \<in> set (persona_label p)" "\<not> is_space 112" by (auto simp: persona_label_def lit_def is_space_def)
  then have "strip (persona_label p) \<noteq> []" by (auto simp: strip_eq_Nil_iff)
  then show ?thesis using lower_not_Nil by (simp add: normalize_labels_def Let_def)
qed

lemma pasted_text_prepared:
  assumes "normalize_text pasted = Some t"
  shows "\<exists>q. prepare_document pdf pasted f source new_title = Inr q \<and> pd_sections q = [plain_section t]
     \<and> pd_source q = str_or source (lit ''pasted-text'') \<and> pd_title q = new_title"
proof -
  have n: "t \<noteq> []" "strip t = t" using normalize_text_normal [OF assms] by (simp_all add: normal_def)
  then show ?thesis
    by (simp add: prepare_document_def extract_sections_def assms combine_sections_def section_part_def plain_section_def truthy_def)
qed

definition rag_settings_ok :: "rag_settings \<Rightarrow> bool" where
  "rag_settings_ok S \<longleftrightarrow> 100 \<le> rs_chunk_size S \<and> 0 \<le> rs_chunk_overlap S \<and> rs_chunk_overlap S < rs_chunk_size S \<and> \<not> rs_text_tools_enabled S"

definition embeds_right_size :: "'f embedder \<Rightarrow> bool" where
  "embeds_right_size emb \<longleftrightarrow> (\<forall>t v. emb [t] = Inr [v] \<longrightarrow> length v = EMBEDDING_DIMENSIONS)"

lemma validated:
  "list_all (\<lambda>v. normal (vc_text v)) vs \<Longrightarrow> list_all (embedded emb) vs \<Longrightarrow> embeds_right_size emb \<Longrightarrow> validate_vector_chunks vs = Inr ()"
  by (induction vs) (auto simp: validate_vector_chunk_def normal_def embedded_def embeds_right_size_def)

lemma text_chunked:
  assumes "rag_settings_ok S" "normal t"
  shows "\<exists>cs. build_rag_chunks [plain_section t] (rs_chunk_size S) (rs_chunk_overlap S) = Inr cs \<and> cs \<noteq> []"
proof -
  have t: "0 < length t" "\<not> is_space (t ! 0)"
    using assms(2) normal_ends [OF assms(2)] by (auto simp: normal_def hd_conv_nth)
  obtain ts where ts: "split_text_into_chunks t (rs_chunk_size S) (rs_chunk_overlap S) = Inr ts" "ts \<noteq> []"
  proof -
    have "\<exists>ts. split_text_into_chunks t (rs_chunk_size S) (rs_chunk_overlap S) = Inr ts \<and> ts \<noteq> []"
      using split_nonempty [OF normal_normalize [OF assms(2)] _ _ _ t] assms(1) by (simp add: rag_settings_ok_def)
    then show ?thesis using that by blast
  qed
  have "build_rag_chunks [plain_section t] (rs_chunk_size S) (rs_chunk_overlap S) = Inr (number_chunks 0 (plain_section t) ts)"
    using ts assms(1) by (simp add: build_rag_chunks_def chunk_limits_def rag_settings_ok_def plain_section_def)
  moreover have "number_chunks 0 (plain_section t) ts \<noteq> []"
    using ts(2) length_number_chunks by (metis length_0_conv)
  ultimately show ?thesis by blast
qed

lemma text_stored:
  assumes "rag_settings_ok S" "length_limited emb" "embeds_right_size emb" "normal t" "pd_sections q = [plain_section t]"
    and "normalize_labels labels \<noteq> []"
  shows "\<exists>r ds1. local_create_document_from_prepared emb sidecar S q labels ds = Inr (r, ds1)"
proof -
  obtain cs where cs: "build_rag_chunks [plain_section t] (rs_chunk_size S) (rs_chunk_overlap S) = Inr cs" "cs \<noteq> []"
    using text_chunked [OF assms(1, 4)] by (elim exE conjE)
  have norm: "list_all (\<lambda>c. normal (pc_text c)) cs"
    using build_rag_chunks_normal [OF cs(1)] by (simp add: list_all_iff)
  obtain vs where vs: "embed_loop emb S [] cs = Inr vs"
    using embed_loop_total [OF assms(2) _ norm, of S "[]"] assms(1) by (auto simp: rag_settings_ok_def)
  have "validate_vector_chunks vs = Inr ()"
    using embed_loop_result [OF vs] embed_loop_normal [OF vs norm] validated assms(3) by auto
  moreover obtain d ds1 where "create_document (pd_source q) labels (pd_title q) (Some (pd_sha256 q)) None ds = Inr (d, ds1)"
    using assms(6) by (cases "get_or_create_labels (normalize_labels labels) ds") (simp add: create_document_def Let_def)
  ultimately show ?thesis
    using assms(1, 5) cs vs
    by (simp add: local_create_document_from_prepared_def build_rag_chunks_with_optional_text_tools_def rag_settings_ok_def
        embed_prepared_chunks_def Let_def)
qed

lemma upload_works:
  assumes "rag_ok db" and "rag_access claims = Inr claims" and "get_active_persona_or_404 db i (invitation_code_id claims) = Inr p"
    and "normalize_text pasted = Some t" and "rag_settings_ok S" and "length_limited emb" and "embeds_right_size emb"
  shows "\<exists>resp reused db1. upload_rag_persona_document_route pdf (LocalPostgresRagStrategy emb cosine sidecar S) claims i source new_title pasted f db
     = Inr ((resp, reused), db1)"
proof -
  let ?G = "LocalPostgresRagStrategy emb cosine sidecar S"
  obtain q where q: "prepare_document pdf pasted f source new_title = Inr q" "pd_sections q = [plain_section t]"
    using pasted_text_prepared [OF assms(4)] by blast
  have ok: "docs_ok (rb_docs db)" using assms(1) by (simp add: rag_ok_def)
  have "\<exists>reused d ds1. find_or_create_document ?G p q (rb_docs db) = Inr (reused, d, ds1)"
  proof (cases "get_document_by_hash (pd_sha256 q) (rb_docs db)")
    case None
    obtain r ds1 where c: "local_create_document_from_prepared emb sidecar S q [persona_label p] (rb_docs db) = Inr (r, ds1)"
      using text_stored [OF assms(5-7) normalize_text_normal [OF assms(4)] q(2) persona_labels] by blast
    obtain d where "find_row rd_id (dr_document_id r) (ds_documents ds1) = Some d"
      using created_document_found [OF postgres.create_stores [OF c ok] ok None] by blast
    then show ?thesis using None c by (auto simp: find_or_create_document_def LocalPostgresRagStrategy_def)
  qed (auto simp: find_or_create_document_def)
  then obtain reused d ds1 where fc: "find_or_create_document ?G p q (rb_docs db) = Inr (reused, d, ds1)" by (elim exE)
  obtain l ds2 where k: "link_persona_document (ps_id p) d (Some (str_or (pd_title q) (pd_source q))) None ds1 = (l, ds2)" by (rule prod.exhaust)
  show ?thesis
    by (simp add: upload_rag_persona_document_route_def assms(2, 3) q(1) fc k answer_errors_def)
qed

text \<open>
  with valid chunk settings and a provider that only ever refuses a text for its length and
  answers vectors of the right size, every upload of some text to one of the caller's active
  personas succeeds.
\<close>

theorem valid_uploads_succeed:
  assumes "rag_ok db" and "rag_access claims = Inr claims" and "get_active_persona_or_404 db i (invitation_code_id claims) = Inr p"
    and "normalize_text pasted = Some t" and "rag_settings_ok S" and "length_limited emb" and "embeds_right_size emb"
  shows "\<exists>resp reused db1. upload_rag_persona_document_route pdf (LocalPostgresRagStrategy emb cosine sidecar S) claims i source new_title pasted f db
     = Inr ((resp, reused), db1)"
  using assms by (rule upload_works)

definition refused :: "str \<Rightarrow> int \<Rightarrow> int \<Rightarrow> str list result" where
  "refused = (\<lambda>_ _ _. Inl (OSError (lit ''refused'')))"

abbreviation demo_upload_to ::
  "int \<Rightarrow> int \<Rightarrow> string \<Rightarrow> nat list rag_db \<Rightarrow> ((persona_document_response \<times> bool) \<times> nat list rag_db) result"
where
  "demo_upload_to i tenant source db \<equiv> upload_rag_persona_document_route (\<lambda>_. None)
     (LocalPostgresRagStrategy small_context (\<lambda>_ _. 0::nat) refused demo_rag_settings) (rag_caller tenant) i (Some (lit source)) None
     (Some (lit ''hi'')) None db"

lemma demo_hypotheses:
  "rag_access (rag_caller j) = Inr (rag_caller j)" "normalize_text (Some (lit ''hi'')) = Some (lit ''hi'')"
  "rag_settings_ok demo_rag_settings" "embeds_right_size small_context"
  "get_active_persona_or_404 demo_rag_db 1 (invitation_code_id (rag_caller 7)) = Inr demo_persona"
  by (auto simp: rag_access_def require_experience_access_def rag_caller_def normalize_text_def none_if_empty_def squeeze_spaces_def
      is_space_def lit_def strip_def rstrip_def lstrip_def rag_settings_ok_def demo_rag_settings_def embeds_right_size_def
      small_context_def EMBEDDING_DIMENSIONS_def get_active_persona_or_404_def demo_rag_db_def demo_persona_def split: if_splits)

theorem valid_uploads_succeed_witness:
  "\<exists>resp reused db1. demo_upload_to 1 7 ''x'' demo_rag_db = Inr ((resp, reused), db1)"
  by (rule valid_uploads_succeed [OF demo_rag_ok demo_hypotheses(1) demo_hypotheses(5, 2, 3) small_context_limited demo_hypotheses(4)])

lemma demo_uploaded_twice:
  "\<exists>resp reused db1 resp2 reused2 db2. demo_upload_to 1 7 ''x'' demo_rag_db = Inr ((resp, reused), db1)
     \<and> demo_upload_to 1 7 ''y'' db1 = Inr ((resp2, reused2), db2) \<and> rag_ok db1"
proof -
  obtain resp reused db1 where one: "demo_upload_to 1 7 ''x'' demo_rag_db = Inr ((resp, reused), db1)"
    using upload_works [OF demo_rag_ok demo_hypotheses(1) demo_hypotheses(5, 2, 3) small_context_limited demo_hypotheses(4),
        of "\<lambda>_. None" "\<lambda>_ _. 0::nat" refused "Some (lit ''x'')" None None] by (elim exE)
  have ok: "rag_ok db1" by (rule postgres_demo.upload_ok [OF demo_rag_ok one])
  have "rb_personas db1 = rb_personas demo_rag_db" by (rule uploaded [OF one]) simp
  then have p: "get_active_persona_or_404 db1 1 (invitation_code_id (rag_caller 7)) = Inr demo_persona"
    using demo_hypotheses(5) by (simp add: get_active_persona_or_404_def)
  show ?thesis
    using one ok upload_works [OF ok demo_hypotheses(1) p demo_hypotheses(2, 3) small_context_limited demo_hypotheses(4),
        of "\<lambda>_. None" "\<lambda>_ _. 0::nat" refused "Some (lit ''y'')" None None] by fastforce
qed

theorem same_content_is_stored_once_witness:
  "\<exists>resp reused db1 resp2 db2. demo_upload_to 1 7 ''x'' demo_rag_db = Inr ((resp, reused), db1)
     \<and> demo_upload_to 1 7 ''y'' db1 = Inr ((resp2, True), db2) \<and> pr_document_id resp2 = pr_document_id resp"
proof -
  obtain resp reused db1 resp2 reused2 db2 where u: "demo_upload_to 1 7 ''x'' demo_rag_db = Inr ((resp, reused), db1)"
    "demo_upload_to 1 7 ''y'' db1 = Inr ((resp2, reused2), db2)"
    using demo_uploaded_twice by (elim exE conjE)
  have "reused2 \<and> pr_document_id resp2 = pr_document_id resp" using same_content_is_stored_once [OF demo_rag_ok u] by blast
  then have "reused2 = True" "pr_document_id resp2 = pr_document_id resp" by simp_all
  with u show ?thesis by blast
qed

section \<open>Searches\<close>

lemma local_create_some:
  assumes "local_create_document_from_prepared emb sidecar S q labels ds = Inr (r, ds1)"
  shows "0 < dr_chunk_count r"
proof -
  obtain cs vs where "cs \<noteq> []" "embed_prepared_chunks emb S cs = Inr vs" "dr_chunk_count r = length vs"
    using assms by (auto simp: local_create_document_from_prepared_def rbind_eq_Inr Let_def document_result_def split: if_splits)
  then show ?thesis using embed_loop_longer [of emb S "[]" cs vs] by (cases cs) (auto simp: embed_prepared_chunks_def)
qed

lemma labels_carried:
  assumes "create_document source labels new_title sha metadata db = Inr (d, db1)" "docs_ok db"
  shows "carries_label (normalize_labels labels) db1 d"
proof (rule document_created [OF assms])
  fix js db0
  assume rows: "list_all2 (label_row db0) (normalize_labels labels) js" and ne: "normalize_labels labels \<noteq> []"
    and db1: "db1 = db0\<lparr> ds_documents := ds_documents db0 @ [d], ds_next_document := ds_next_document db + 1,
        ds_document_labels := ds_document_labels db0 @ map (\<lambda>i. \<lparr> dl_document_id = rd_id d, dl_label_id = i \<rparr>) js \<rparr>"
  obtain k ks j js1 where kj: "normalize_labels labels = k # ks" "js = j # js1"
    using rows ne by (cases "normalize_labels labels"; cases js) auto
  then have "\<lparr> rl_id = j, rl_key = k \<rparr> \<in> set (ds_labels db0)" using rows by (simp add: label_row_def)
  then have "list_ex (\<lambda>l. rl_id l = j \<and> rl_key l \<in> set (normalize_labels labels)) (ds_labels db0)"
    unfolding list_ex_iff by (rule bexI [rotated]) (simp add: kj)
  then show ?thesis by (simp add: carries_label_def db1 kj(2))
qed

lemma carries_label_documents:
  "ds_labels ds1 = ds_labels ds \<Longrightarrow> ds_document_labels ds1 = ds_document_labels ds \<Longrightarrow> carries_label ks ds1 d = carries_label ks ds d"
  by (simp add: carries_label_def)

text \<open>
  a label search is not scoped to the caller: a document a tenant uploads to a persona is
  answered to every caller of the demo that searches the label of that persona's id, every chunk
  of it unless as many nearer ones are answered as the limit allows.
\<close>

theorem label_search_crosses_tenants:
  assumes "rag_ok db"
    and "upload_rag_persona_document_route pdf (LocalPostgresRagStrategy emb cosine sidecar S) claims i source new_title pasted f db
      = Inr ((resp, False), db1)"
    and "search_rag_chunks_route (LocalPostgresRagStrategy emb cosine sidecar S) other [lit ''persona-'' @ show_int i] query limit db1 = Inr rs"
    and "c \<in> set (chunks_of_document (pr_document_id resp) (rb_docs db1))"
  shows "list_ex (\<lambda>r. sr_chunk_id r = rc_id c \<and> sr_chunk_text r = rc_text c) rs \<or> length rs = nat limit"
proof (rule uploaded [OF assms(2)])
  fix p q d ds1 l ds2
  let ?G = "LocalPostgresRagStrategy emb cosine sidecar S"
  assume p: "get_active_persona_or_404 db i (invitation_code_id claims) = Inr p"
    and fc: "find_or_create_document ?G p q (rb_docs db) = Inr (False, d, ds1)"
    and k: "link_persona_document (ps_id p) d (Some (str_or (pd_title q) (pd_source q))) None ds1 = (l, ds2)"
    and resp: "resp = serialize_persona_document ds2 l d" and db1: "db1 = db\<lparr> rb_docs := ds2 \<rparr>"
  have ok: "docs_ok (rb_docs db)" using assms(1) by (simp add: rag_ok_def)
  have label: "lit ''persona-'' @ show_int i = persona_label p" using active_personaD [OF p] by (simp add: persona_label_def)
  obtain r where c: "local_create_document_from_prepared emb sidecar S q [persona_label p] (rb_docs db) = Inr (r, ds1)"
    and d: "find_row rd_id (dr_document_id r) (ds_documents ds1) = Some d"
    using fc by (auto simp: find_or_create_document_def rbind_eq_Inr LocalPostgresRagStrategy_def split: option.splits)
  obtain e ds0 rows where e: "create_document (pd_source q) [persona_label p] (pd_title q) (Some (pd_sha256 q)) None (rb_docs db) = Inr (e, ds0)"
    "ds1 = insert_chunks (rd_id e) rows ds0" "dr_document_id r = rd_id e"
    using postgres.create_stores [OF c ok] by (auto simp: stores_document_def)
  have ed: "d = e"
  proof -
    have "docs_ok ds1" using postgres.create_ok [OF c ok] by blast
    moreover have "e \<in> set (ds_documents ds1)" using create_document_ok [OF e(1) ok] by (simp add: e(2) insert_chunks_rows)
    ultimately have "find_row rd_id (rd_id e) (ds_documents ds1) = Some e" by (intro find_row_distinct) (simp_all add: docs_ok_def)
    then show ?thesis using d e(3) by simp
  qed
  have tables: "ds_labels ds2 = ds_labels ds0" "ds_document_labels ds2 = ds_document_labels ds0"
    "d \<in> set (ds_documents ds2)"
    using k find_row_Some [OF d] by (auto simp: e(2) insert_chunks_rows link_persona_document_def Let_def split: option.splits)
  have carries: "carries_label (normalize_labels [persona_label p]) ds2 d"
    using labels_carried [OF e(1) ok] carries_label_documents [OF tables(1, 2)] ed by simp
  have "local_search emb cosine [persona_label p] query limit ds2 = Inr rs"
    using assms(3) unfolding label
    by (auto simp: search_rag_chunks_route_def rbind_eq_Inr postgres_demo.answer_errors_Inr LocalPostgresRagStrategy_def db1)
  then obtain dst where a: "scoped_answer (carries_label (normalize_labels [persona_label p]) ds2) dst limit ds2 rs"
    using postgres.search_scoped by blast
  have ck: "c \<in> set (ds_chunks ds2)" "rc_document_id c = rd_id d"
    using assms(4) by (auto simp: chunks_of_document_def db1 resp serialize_persona_document_def)
  then have "search_result dst (c, d) \<in> set rs \<or> length rs = nat limit"
    using a carries tables(3) unfolding scoped_answer_def by metis
  moreover have "sr_chunk_id (search_result dst (c, d)) = rc_id c" "sr_chunk_text (search_result dst (c, d)) = rc_text c"
    by (simp_all add: search_result_def)
  ultimately show ?thesis unfolding list_ex_iff by blast
qed

lemma demo_upload_new:
  assumes "demo_upload_to 1 7 ''x'' demo_rag_db = Inr ((resp, reused), db1)"
  shows "\<not> reused \<and> chunks_of_document (pr_document_id resp) (rb_docs db1) \<noteq> []"
proof (rule uploaded [OF assms])
  fix p q d ds1 l ds2
  let ?G = "LocalPostgresRagStrategy small_context (\<lambda>_ _. 0::nat) refused demo_rag_settings"
  assume fc: "find_or_create_document ?G p q (rb_docs demo_rag_db) = Inr (reused, d, ds1)"
    and k: "link_persona_document (ps_id p) d (Some (str_or (pd_title q) (pd_source q))) None ds1 = (l, ds2)"
    and resp: "resp = serialize_persona_document ds2 l d" and db1: "db1 = demo_rag_db\<lparr> rb_docs := ds2 \<rparr>"
  have docs: "rb_docs demo_rag_db = demo_documents" by (simp add: demo_rag_db_def)
  have "get_document_by_hash (pd_sha256 q) demo_documents = None"
    by (simp add: get_document_by_hash_def demo_documents_def demo_document_def row_simps)
  then obtain r where c: "local_create_document_from_prepared small_context refused demo_rag_settings q [persona_label p] demo_documents = Inr (r, ds1)"
    and d: "find_row rd_id (dr_document_id r) (ds_documents ds1) = Some d" and new: "\<not> reused"
    using fc by (auto simp: find_or_create_document_def rbind_eq_Inr LocalPostgresRagStrategy_def docs split: option.splits)
  have "0 < document_chunk_count (dr_document_id r) ds1"
    using postgres.create_ok [OF c demo_documents_ok] local_create_some [OF c] by simp
  then have "chunks_of_document (rd_id d) ds1 \<noteq> []" using find_row_Some [OF d] by (simp add: document_chunk_count_def)
  then show ?thesis
    using new link_keeps_documents [OF k] by (simp add: resp serialize_persona_document_def db1 chunks_of_document_def)
qed

lemma demo_label_search:
  "\<exists>rs. search_rag_chunks_route (LocalPostgresRagStrategy small_context (\<lambda>_ _. 0::nat) refused demo_rag_settings) (rag_caller 8)
     [lit ''persona-'' @ show_int 1] (lit ''q'') 20 db = Inr rs"
proof -
  have "lit ''persona-'' @ show_int 1 = persona_label demo_persona" by (simp add: persona_label_def demo_persona_def)
  then have "check_labels [lit ''persona-'' @ show_int 1] = Inr (normalize_labels [lit ''persona-'' @ show_int 1])"
    using persona_labels [of demo_persona] by (simp add: check_labels_def Let_def)
  moreover have "check_query (lit ''q'') 20 = Inr ()" "search_request_ok [lit ''persona-'' @ show_int 1] (lit ''q'') 20"
    by (simp_all add: check_query_def search_request_ok_def lit_def strip_def rstrip_def lstrip_def is_space_def)
  moreover have "\<exists>v. local_query_vector small_context (lit ''q'') = Inr v"
    by (simp add: local_query_vector_def small_context_def EMBEDDING_DIMENSIONS_def)
  ultimately show ?thesis
    using demo_hypotheses(1) [of 8]
    by (auto simp: search_rag_chunks_route_def checked_body_def LocalPostgresRagStrategy_def local_search_def answer_errors_def)
qed

theorem label_search_crosses_tenants_witness:
  "\<exists>resp db1 rs (c :: nat list rag_chunk). demo_upload_to 1 7 ''x'' demo_rag_db = Inr ((resp, False), db1)
     \<and> search_rag_chunks_route (LocalPostgresRagStrategy small_context (\<lambda>_ _. 0::nat) refused demo_rag_settings) (rag_caller 8)
         [lit ''persona-'' @ show_int 1] (lit ''q'') 20 db1 = Inr rs
     \<and> (list_ex (\<lambda>r. sr_chunk_id r = rc_id c \<and> sr_chunk_text r = rc_text c) rs \<or> length rs = nat 20)"
proof -
  obtain resp reused db1 where u: "demo_upload_to 1 7 ''x'' demo_rag_db = Inr ((resp, reused), db1)"
    using demo_uploaded_twice by (elim exE conjE)
  have new: "reused = False" using demo_upload_new [OF u] by blast
  obtain c where c: "c \<in> set (chunks_of_document (pr_document_id resp) (rb_docs db1))"
    using demo_upload_new [OF u] by (cases "chunks_of_document (pr_document_id resp) (rb_docs db1)") auto
  obtain rs where rs: "search_rag_chunks_route (LocalPostgresRagStrategy small_context (\<lambda>_ _. 0::nat) refused demo_rag_settings) (rag_caller 8)
         [lit ''persona-'' @ show_int 1] (lit ''q'') 20 db1 = Inr rs"
    using demo_label_search [of db1] by (rule exE)
  show ?thesis
    using u rs label_search_crosses_tenants [OF demo_rag_ok u [unfolded new] rs c] unfolding new by blast
qed

lemma local_search_scoped:
  assumes "local_search emb cosine labels query limit db = Inr rs"
  shows "\<exists>v vs. emb [query] = Inr (v # vs) \<and> length v = EMBEDDING_DIMENSIONS
     \<and> scoped_answer (carries_label (normalize_labels labels) db) (\<lambda>w. cosine w v) limit db rs"
proof -
  obtain v where v: "local_query_vector emb query = Inr v" "rs = nearest (\<lambda>w. cosine w v) limit (label_rows (normalize_labels labels) db)"
    using assms by (auto simp: local_search_def check_labels_def Let_def rbind_eq_Inr split: if_splits)
  obtain x where x: "emb [query] = Inr x"
    using v(1) by (cases "emb [query]") (auto simp: local_query_vector_def)
  obtain vs where "x = v # vs" "length v = EMBEDDING_DIMENSIONS"
    using v(1) x by (cases x) (auto simp: local_query_vector_def split: if_splits)
  then have "emb [query] = Inr (v # vs)" "length v = EMBEDDING_DIMENSIONS" using x by simp_all
  moreover have "scoped_answer (carries_label (normalize_labels labels) db) (\<lambda>w. cosine w v) limit db rs"
    unfolding v(2) by (rule nearest_scoped) (rule label_rows_iff)
  ultimately show ?thesis by blast
qed

text \<open>
  a label search answers stored chunks of documents that carry one of the labels, nearest to
  the query's own vector first and at most as many as asked for, and leaves one out only when that
  many at least as near are answered.
\<close>

theorem searches_answer_the_nearest:
  assumes "local_search emb cosine labels query limit db = Inr rs"
  shows "\<exists>v vs. emb [query] = Inr (v # vs) \<and> length v = EMBEDDING_DIMENSIONS
     \<and> scoped_answer (carries_label (normalize_labels labels) db) (\<lambda>w. cosine w v) limit db rs"
  using assms by (rule local_search_scoped)

theorem searches_answer_the_nearest_witness:
  "\<exists>rs (v :: nat list). local_search small_context (\<lambda>w v. length w - length v) [lit ''x''] (lit ''q'') 5 demo_documents = Inr rs
     \<and> scoped_answer (carries_label (normalize_labels [lit ''x'']) demo_documents) (\<lambda>w. length w - length v) 5 demo_documents rs"
proof -
  have "check_labels [lit ''x''] = Inr [lit ''x'']" "check_query (lit ''q'') 5 = Inr ()"
    by (simp_all add: check_labels_def check_query_def normalize_labels_def Let_def lit_def strip_def rstrip_def lstrip_def is_space_def
        lower_def lower_cp_def)
  moreover obtain v where "local_query_vector small_context (lit ''q'') = Inr v"
    by (simp add: local_query_vector_def small_context_def EMBEDDING_DIMENSIONS_def)
  ultimately obtain rs where rs: "local_search small_context (\<lambda>w v. length w - length v) [lit ''x''] (lit ''q'') 5 demo_documents = Inr rs"
    by (simp add: local_search_def)
  obtain v :: "nat list" where "scoped_answer (carries_label (normalize_labels [lit ''x'']) demo_documents) (\<lambda>w. length w - length v) 5 demo_documents rs"
    using searches_answer_the_nearest [OF rs] by (elim exE conjE) (rule that, assumption)
  then show ?thesis using rs by blast
qed

section \<open>Stored vectors\<close>

text \<open>The type of the vector column, which the table itself does not check on every database.\<close>

definition vectors_ok :: "'f list document_store \<Rightarrow> bool" where
  "vectors_ok ds \<longleftrightarrow> list_all (\<lambda>c. length (rc_embedding c) = EMBEDDING_DIMENSIONS \<and> strip (rc_text c) \<noteq> []) (ds_chunks ds)"

lemma validated_chunks: "validate_vector_chunks vs = Inr () \<Longrightarrow>
    list_all (\<lambda>v. length (vc_embedding v) = EMBEDDING_DIMENSIONS \<and> strip (vc_text v) \<noteq> []) vs"
  by (induction vs) (auto simp: validate_vector_chunk_def rbind_eq_Inr split: if_splits)

text \<open>
  C31: storing a document keeps the document tables well formed and the vector column of its type:
  every stored vector has 384 components and belongs to a chunk of some text, and the document
  has the number of chunks reported, at least one.
\<close>

theorem stored_vectors_have_the_column_type:
  assumes "docs_ok ds" and "vectors_ok ds" and "local_create_document_from_prepared emb sidecar S q labels ds = Inr (r, ds1)"
  shows "docs_ok ds1 \<and> vectors_ok ds1 \<and> document_chunk_count (dr_document_id r) ds1 = dr_chunk_count r \<and> 0 < dr_chunk_count r"
proof -
  obtain vs d ds0 where v: "validate_vector_chunks vs = Inr ()"
    and c: "create_document (pd_source q) labels (pd_title q) (Some (pd_sha256 q)) None ds = Inr (d, ds0)"
    and ds1: "ds1 = insert_chunks (rd_id d) (map vector_row vs) ds0"
    using assms(3) by (auto simp: local_create_document_from_prepared_def rbind_eq_Inr Let_def split: if_splits)
  have old: "ds_chunks ds0 = ds_chunks ds"
    by (rule document_created [OF c assms(1)]) (simp add: labels_grown_keeps)
  have "length (rc_embedding k) = EMBEDDING_DIMENSIONS \<and> strip (rc_text k) \<noteq> []" if k: "k \<in> set (ds_chunks ds1)" for k
  proof (cases "k \<in> set (ds_chunks ds)")
    case True
    then show ?thesis using assms(2) by (simp add: vectors_ok_def list_all_iff)
  next
    case False
    then obtain w n where "w \<in> set vs" "k = chunk_row_of (rd_id d) n (vector_row w)"
      using k by (auto simp: ds1 insert_chunks_rows old dest!: set_zip_rightD)
    then show ?thesis using validated_chunks [OF v] by (simp add: chunk_row_of_def vector_row_def list_all_iff)
  qed
  then show ?thesis
    using postgres.create_ok [OF assms(3, 1)] local_create_some [OF assms(3)] by (simp add: vectors_ok_def list_all_iff)
qed

theorem stored_vectors_have_the_column_type_witness:
  "\<exists>r ds1. local_create_document_from_prepared small_context refused demo_rag_settings
      \<lparr> pd_source = lit ''s'', pd_title = None, pd_sha256 = lit ''0'', pd_sections = [plain_section (lit ''hi'')], pd_combined_text = lit ''hi'' \<rparr>
      [persona_label demo_persona] demo_documents = Inr (r, ds1) \<and> vectors_ok ds1 \<and> 0 < dr_chunk_count r"
proof -
  let ?q = "\<lparr> pd_source = lit ''s'', pd_title = None, pd_sha256 = lit ''0'', pd_sections = [plain_section (lit ''hi'')], pd_combined_text = lit ''hi'' \<rparr>"
  have hi: "normal (lit ''hi'')" using normalize_text_normal [OF demo_hypotheses(2)] .
  obtain r ds1 where c: "local_create_document_from_prepared small_context refused demo_rag_settings ?q [persona_label demo_persona] demo_documents
      = Inr (r, ds1)"
    using text_stored [OF demo_hypotheses(3) small_context_limited demo_hypotheses(4) hi, of ?q "[persona_label demo_persona]" refused demo_documents]
      persona_labels by (auto simp del: demo_documents_def)
  have "vectors_ok demo_documents"
    by (simp add: vectors_ok_def demo_documents_def demo_chunk_def EMBEDDING_DIMENSIONS_def lit_def strip_eq_Nil_iff is_space_def)
  from stored_vectors_have_the_column_type [OF demo_documents_ok this c] c show ?thesis by blast
qed

section \<open>A chat that is reached\<close>

text \<open>A persona, a conversation, an uploaded document and a turn about it, from the empty database.\<close>

definition chat_db :: "nat list rag_db" where
  "chat_db = empty_rag_db\<lparr> rb_personas := [demo_persona], rb_next_persona := 2, rb_conversations := [demo_conversation],
     rb_next_conversation := 2 \<rparr>"

abbreviation demo_strategy :: "(nat list, nat) rag_service" where
  "demo_strategy \<equiv> LocalPostgresRagStrategy small_context (\<lambda>_ _. 0) refused demo_rag_settings"

lemma persona_a_created:
  "create_rag_persona_route (rag_caller 7) persona_a (empty_rag_db :: nat list rag_db)
     = Inr (demo_persona, empty_rag_db\<lparr> rb_personas := [demo_persona], rb_next_persona := 2 \<rparr>)"
  by (simp add: create_rag_persona_route_def rag_access_def require_experience_access_def rag_caller_def checked_body_def
      persona_request_ok_def persona_a_def at_most_def ensure_persona_name_available_def clean_persona_name_def split_words_def
      normalize_persona_name_def strip_def rstrip_def lstrip_def is_space_def lit_def lower_def lower_cp_def lower_ranges_def
      clean_optional_text_def strip_or_none_def commit_personas_def empty_rag_db_def empty_document_store_def demo_persona_def Let_def)

lemma conversation_created:
  "\<exists>v. create_rag_conversation_route (rag_caller 7) 1 None (empty_rag_db\<lparr> rb_personas := [demo_persona], rb_next_persona := 2 \<rparr> :: nat list rag_db)
     = Inr (v, chat_db)"
  by (simp add: create_rag_conversation_route_def rag_access_def require_experience_access_def rag_caller_def checked_body_def
      at_most_def get_active_persona_or_404_def demo_persona_def clean_optional_text_def strip_or_none_def chat_db_def
      demo_conversation_def empty_rag_db_def empty_document_store_def Let_def)

lemma chat_db_reached: "(rag_step_within 1 pdf demo_strategy)\<^sup>*\<^sup>* (empty_rag_db, {#}) (chat_db, {#})"
proof -
  obtain v where v: "create_rag_conversation_route (rag_caller 7) 1 None
      (empty_rag_db\<lparr> rb_personas := [demo_persona], rb_next_persona := 2 \<rparr> :: nat list rag_db) = Inr (v, chat_db)"
    using conversation_created by blast
  have "rag_step_within 1 pdf demo_strategy (empty_rag_db, {#}) (empty_rag_db\<lparr> rb_personas := [demo_persona], rb_next_persona := 2 \<rparr>, {#})"
    "rag_step_within 1 pdf demo_strategy (empty_rag_db\<lparr> rb_personas := [demo_persona], rb_next_persona := 2 \<rparr>, {#}) (chat_db, {#})"
    using rag_step.create_persona [OF persona_a_created] rag_step.create_conversation [OF v]
    by (simp_all add: rag_step_within_def open_turns_def)
  then show ?thesis by (meson rtranclp.rtrancl_into_rtrancl rtranclp.rtrancl_refl)
qed

lemma first_upload:
  assumes "upload_rag_persona_document_route pdf (LocalPostgresRagStrategy emb cosine sidecar S) claims i source new_title pasted f db
      = Inr ((resp, reused), db1)" and "docs_ok (rb_docs db)" and "ds_documents (rb_docs db) = []"
  shows "\<exists>c d. c \<in> set (ds_chunks (rb_docs db1)) \<and> d \<in> set (ds_documents (rb_docs db1)) \<and> rd_id d = rc_document_id c
     \<and> linked_to i (rb_docs db1) d \<and> db1 = db\<lparr> rb_docs := rb_docs db1 \<rparr>"
proof (rule uploaded [OF assms(1)])
  fix p q d ds1 l ds2
  let ?G = "LocalPostgresRagStrategy emb cosine sidecar S"
  assume p: "get_active_persona_or_404 db i (invitation_code_id claims) = Inr p"
    and fc: "find_or_create_document ?G p q (rb_docs db) = Inr (reused, d, ds1)"
    and k: "link_persona_document (ps_id p) d (Some (str_or (pd_title q) (pd_source q))) None ds1 = (l, ds2)"
    and db1: "db1 = db\<lparr> rb_docs := ds2 \<rparr>"
  have "get_document_by_hash (pd_sha256 q) (rb_docs db) = None"
    by (simp add: get_document_by_hash_def assms(3) row_simps)
  then obtain r where c: "local_create_document_from_prepared emb sidecar S q [persona_label p] (rb_docs db) = Inr (r, ds1)"
    and d: "find_row rd_id (dr_document_id r) (ds_documents ds1) = Some d"
    using fc by (auto simp: find_or_create_document_def rbind_eq_Inr LocalPostgresRagStrategy_def split: option.splits)
  have "0 < document_chunk_count (dr_document_id r) ds1"
    using postgres.create_ok [OF c assms(2)] local_create_some [OF c] by simp
  then have "chunks_of_document (rd_id d) ds1 \<noteq> []" using find_row_Some [OF d] by (simp add: document_chunk_count_def)
  then obtain c where "c \<in> set (ds_chunks ds1)" "rc_document_id c = rd_id d"
    by (auto simp: chunks_of_document_def filter_empty_conv)
  moreover have "linked_to i ds2 d"
    using k active_personaD [OF p]
    by (auto simp: linked_to_def link_persona_document_def link_key_def list_ex_iff Let_def split: option.splits dest!: find_row_Some)
  ultimately show ?thesis
    using find_row_Some [OF d] link_keeps_documents [OF k] by (intro exI [of _ c] exI [of _ d]) (simp add: db1)
qed

lemma collect_first: "rs \<noteq> [] \<Longrightarrow> snd (collect_chunks [] rs) \<noteq> []"
proof -
  have keep: "acc \<noteq> [] \<Longrightarrow> snd (collect_chunks acc rs) \<noteq> []" for acc rs
    by (induction acc rs rule: collect_chunks.induct) auto
  show "rs \<noteq> [] \<Longrightarrow> snd (collect_chunks [] rs) \<noteq> []" using keep by (cases rs) auto
qed

text \<open>A plan that searches the message itself finds something when the persona has a chunk.\<close>

lemma linked_chunk_retrieved:
  assumes "c \<in> set (ds_chunks (rb_docs db))" "d \<in> set (ds_documents (rb_docs db))" "rd_id d = rc_document_id c"
    "linked_to 1 (rb_docs db) d"
  shows "\<exists>cs. retrieve_for_plan demo_strategy 1 (demo_plan\<lparr> tp_needs_retrieval := True \<rparr>) (lit ''q'') db = Inr cs \<and> cs \<noteq> []"
proof -
  have q: "check_persona_id 1 = Inr ()" "check_query (lit ''q'') 5 = Inr ()" "strip (lit ''q'') = lit ''q''"
    by (simp_all add: check_persona_id_def check_query_def lit_def strip_def rstrip_def lstrip_def is_space_def)
  obtain v where "local_query_vector small_context (lit ''q'') = Inr v"
    by (simp add: local_query_vector_def small_context_def EMBEDDING_DIMENSIONS_def)
  then obtain rs where rs: "local_search_persona_documents small_context (\<lambda>_ _. 0::nat) 1 (lit ''q'') 5 (rb_docs db) = Inr rs"
    using q by (simp add: local_search_persona_documents_def)
  obtain dst where "scoped_answer (linked_to 1 (rb_docs db)) dst 5 (rb_docs db) rs"
    using postgres.search_persona_scoped [OF rs] by blast
  then have "search_result dst (c, d) \<in> set rs \<or> length rs = nat 5" using assms by (auto simp: scoped_answer_def)
  then have "rs \<noteq> []" by auto
  then have "snd (collect_chunks [] rs) \<noteq> []" by (rule collect_first)
  then show ?thesis
    using rs by (simp add: retrieve_for_plan_def demo_plan_def plan_queries_def LocalPostgresRagStrategy_def split_beta)
qed

lemma answer_cites:
  assumes "cs \<noteq> []"
  shows "new_citations n m (demo_draft :: assistant_draft) cs \<noteq> []"
proof -
  have s: "selected_chunk_ids demo_draft cs = map sr_chunk_id cs"
    by (simp add: selected_chunk_ids_def demo_draft_def lit_def strip_eq_Nil_iff is_space_def)
  obtain c rest where c: "cs = c # rest" using assms by (cases cs) auto
  have "find_row sr_chunk_id (sr_chunk_id c) (rev cs) \<noteq> None" by (auto simp: c find_row_None)
  then have "List.map_filter (chunk_by_id cs) (take 5 (selected_chunk_ids demo_draft cs)) \<noteq> []"
    unfolding s by (auto simp: c chunk_by_id_def map_filter_simps split: option.splits)
  then have "enumerate 0 (List.map_filter (chunk_by_id cs) (take 5 (selected_chunk_ids demo_draft cs))) \<noteq> []"
    by (metis length_enumerate length_0_conv)
  then show ?thesis by (simp add: new_citations_def)
qed

theorem rag_tables_stay_well_formed_witness:
  "\<exists>db. (rag_step_within 1 (\<lambda>_. None) demo_strategy)\<^sup>*\<^sup>* (empty_rag_db, {#}) (db, {#}) \<and> rag_ok db
     \<and> rb_personas db = [demo_persona] \<and> rb_conversations db = [demo_conversation]
     \<and> ds_documents (rb_docs db) \<noteq> [] \<and> ds_chunks (rb_docs db) \<noteq> [] \<and> ds_links (rb_docs db) \<noteq> []
     \<and> length (messages_of 1 db) = 2 \<and> rb_citations db \<noteq> [] \<and> user_turn_count 1 db \<le> 10"
proof -
  have ok: "rag_ok chat_db"
    using rag_tables_stay_well_formed [OF chat_db_reached [of "\<lambda>_. None"]] by blast
  have p: "get_active_persona_or_404 chat_db 1 (invitation_code_id (rag_caller 7)) = Inr demo_persona"
    by (simp add: get_active_persona_or_404_def chat_db_def rag_caller_def demo_persona_def)
  obtain resp reused db1 where u: "demo_upload_to 1 7 ''x'' chat_db = Inr ((resp, reused), db1)"
    using upload_works [OF ok demo_hypotheses(1) p demo_hypotheses(2, 3) small_context_limited demo_hypotheses(4),
        of "\<lambda>_. None" "\<lambda>_ _. 0::nat" refused "Some (lit ''x'')" None None] by (elim exE)
  have "docs_ok (rb_docs chat_db)" "ds_documents (rb_docs chat_db) = []"
    using ok by (simp_all add: rag_ok_def) (simp add: chat_db_def empty_rag_db_def empty_document_store_def)
  from first_upload [OF u this] obtain c d where cd: "c \<in> set (ds_chunks (rb_docs db1))" "d \<in> set (ds_documents (rb_docs db1))"
    "rd_id d = rc_document_id c" "linked_to 1 (rb_docs db1) d" and db1: "db1 = chat_db\<lparr> rb_docs := rb_docs db1 \<rparr>"
    by blast
  have run1: "(rag_step_within 1 (\<lambda>_. None) demo_strategy)\<^sup>*\<^sup>* (empty_rag_db, {#}) (db1, {#})"
    using chat_db_reached upload_run [OF u, of "{#}" 1] by (rule rtranclp_trans) (simp add: open_turns_def)
  let ?tc = "\<lparr> tc_conversation = demo_conversation, tc_persona = demo_persona, tc_user_turns = 0, tc_content = lit ''q'', tc_recent = [] \<rparr>"
  let ?plan = "demo_plan\<lparr> tp_needs_retrieval := True \<rparr>"
  have b: "begin_turn (rag_caller 7) 1 (lit ''q'') db1 = Inr ?tc"
    by (subst db1) (simp add: begin_turn_def rag_caller_def rag_access_def require_experience_access_def checked_body_def
        get_conversation_or_404_def get_active_persona_or_404_def chat_db_def empty_rag_db_def demo_conversation_def demo_persona_def
        user_turn_count_def messages_of_def recent_messages_def Let_def lit_def strip_def rstrip_def lstrip_def is_space_def)
  obtain cs where cs: "retrieve_for_plan demo_strategy 1 ?plan (lit ''q'') db1 = Inr cs" "cs \<noteq> []"
    using linked_chunk_retrieved [OF cd] by blast
  obtain r db2 where t: "commit_turn ?tc ?plan cs demo_draft db1 = (r, db2)" by (rule prod.exhaust)
  have route: "create_rag_conversation_message_route demo_strategy (\<lambda>_ _. Inr ?plan) (\<lambda>_ _. Inr demo_draft) (rag_caller 7) 1 (lit ''q'') db1
      = Inr (r, db2)"
    using b cs t by (simp add: create_rag_conversation_message_route_def plan_turn_def draft_assistant_response_def draft_answer_def
        demo_plan_def demo_persona_def)
  have run2: "(rag_step_within 1 (\<lambda>_. None) demo_strategy)\<^sup>*\<^sup>* (empty_rag_db, {#}) (db2, {#})"
    using run1 turn_run [OF route, of "{#}" 1] by (rule rtranclp_trans) (simp add: open_turns_def)
  have "messages_of 1 db1 = []" by (subst db1) (simp add: messages_of_def chat_db_def empty_rag_db_def)
  then have m: "length (messages_of 1 db2) = 2"
    using commit_turn_messages(1) [OF t, of 1] by (simp add: demo_conversation_def)
  have "rb_citations db2 \<noteq> []" using t answer_cites [OF cs(2)] by (auto simp: commit_turn_def Let_def)
  moreover have "rb_personas db2 = [demo_persona]" "rb_conversations db2 = [demo_conversation]"
    unfolding commit_turn_messages(3, 4) [OF t] by (subst db1, simp add: chat_db_def)+
  moreover have "ds_documents (rb_docs db2) \<noteq> []" "ds_chunks (rb_docs db2) \<noteq> []" "ds_links (rb_docs db2) \<noteq> []"
    using cd commit_turn_messages(2) [OF t] by (auto simp: linked_to_def)
  ultimately show ?thesis
    using run2 m rag_tables_stay_well_formed [OF run2, of 1] by (intro exI [of _ db2]) simp
qed

end
