(* ===== verification/Voice_Audio.thy ===== *)
theory Voice_Audio
  imports Complex_Main Sms "HOL-Library.Word"
begin

text \<open>
  The audio conversion of the OpenAI voice client (\<^verbatim>\<open>app/services/voice/openai_client.py\<close>): the
  8 kHz mu-law bytes of the telephone bridge to the 24 kHz PCM16 of the provider and back, both
  in base64. A sample is a Python integer, so shifts and masks are those of \<open>int\<close>. Positions
  between samples are rational numbers: the rates make them thirds, which the floats of the code
  approximate too closely to round to another sample.
\<close>

unbundle bit_operations_syntax

section \<open>Mu-law samples\<close>

definition clamp_pcm16 :: "int \<Rightarrow> int" where
  "clamp_pcm16 value = max (- 32768) (min 32767 value)"

definition decode_mulaw_sample :: "int \<Rightarrow> int" where
  "decode_mulaw_sample byte =
     (let value = NOT byte AND 255;
          sign = value AND 128;
          exponent = drop_bit 4 value AND 7;
          mantissa = value AND 15;
          sample = push_bit (nat exponent + 3) (mantissa OR 16) - 33
      in if sign \<noteq> 0 then - sample else sample)"

text \<open>The loop that looks for the highest bit set, from bit 14 down.\<close>

fun mulaw_exponent :: "int \<Rightarrow> nat \<Rightarrow> int \<Rightarrow> nat" where
  "mulaw_exponent s 0 m = 0"
| "mulaw_exponent s (Suc e) m = (if s AND m = 0 then mulaw_exponent s e (drop_bit 1 m) else Suc e)"

definition encode_mulaw_sample :: "int \<Rightarrow> int" where
  "encode_mulaw_sample sample0 =
     (let sample1 = clamp_pcm16 sample0;
          sign = (if sample1 < 0 then 128 else 0);
          sample = min 32635 \<bar>sample1\<bar> + 33;
          exponent = mulaw_exponent sample 7 16384;
          mantissa = drop_bit (exponent + 3) sample AND 15
      in NOT (sign OR push_bit 4 (int exponent) OR mantissa) AND 255)"

section \<open>Resampling\<close>

text \<open>\<^verbatim>\<open>round\<close>: to the nearest integer, a half to the even one.\<close>

definition py_round :: "rat \<Rightarrow> int" where
  "py_round x =
     (let f = \<lfloor>x\<rfloor>; d = x - of_int f
      in if d < 1 / 2 then f else if 1 / 2 < d then f + 1 else if even f then f else f + 1)"

definition interpolated :: "int list \<Rightarrow> rat \<Rightarrow> int" where
  "interpolated samples source_pos =
     (let left = nat \<lfloor>source_pos\<rfloor>;
          right = min (left + 1) (length samples - 1);
          fraction = source_pos - of_int \<lfloor>source_pos\<rfloor>
      in clamp_pcm16 (py_round (of_int (samples ! left) * (1 - fraction) + of_int (samples ! right) * fraction)))"

definition output_length :: "int list \<Rightarrow> int \<Rightarrow> int \<Rightarrow> int" where
  "output_length samples source_rate target_rate =
     max 1 (py_round (of_int (int (length samples) * target_rate) / of_int source_rate))"

definition resample_pcm16 :: "int list \<Rightarrow> int \<Rightarrow> int \<Rightarrow> int list" where
  "resample_pcm16 samples source_rate target_rate =
     (if samples = [] then []
      else if source_rate = target_rate then samples
      else map (\<lambda>k. interpolated samples (of_nat k * (of_int source_rate / of_int target_rate)))
             [0..<nat (output_length samples source_rate target_rate)])"

section \<open>Bytes and base64\<close>

text \<open>
  \<^verbatim>\<open>base64.b64decode\<close> of a text: the standard alphabet, foreign characters skipped; None stands
  for the \<^verbatim>\<open>ValueError\<close> of a non-ASCII text or of missing padding.
\<close>

definition b64decode :: "str \<Rightarrow> bytes option" where
  "b64decode s = (if ascii s then a2b 0 0 0 (filter (\<lambda>c. c \<noteq> 45 \<and> c \<noteq> 95) s) else None)"

text \<open>\<^verbatim>\<open>struct.pack\<close> and \<^verbatim>\<open>struct.unpack\<close> with the format \<^verbatim>\<open><h\<close>, once for each sample.\<close>

definition pack_sample :: "int \<Rightarrow> bytes" where
  "pack_sample s = (let u = nat (s mod 65536) in [u mod 256, u div 256])"

definition pack_samples :: "int list \<Rightarrow> bytes" where
  "pack_samples ss = concat (map pack_sample ss)"

fun unpack_samples :: "bytes \<Rightarrow> int list" where
  "unpack_samples (a # b # bs) =
     (let u = int a + 256 * int b in (if 32768 \<le> u then u - 65536 else u) # unpack_samples bs)"
| "unpack_samples _ = []"

definition pcm16_samples_to_b64 :: "int list \<Rightarrow> str" where
  "pcm16_samples_to_b64 samples = (if samples = [] then [] else b64encode (pack_samples samples))"

definition mulaw_8khz_b64_to_pcm16_24khz_b64 :: "str \<Rightarrow> str option" where
  "mulaw_8khz_b64_to_pcm16_24khz_b64 audio =
     map_option (\<lambda>mulaw. pcm16_samples_to_b64
         (resample_pcm16 (map (\<lambda>b. decode_mulaw_sample (int b)) mulaw) 8000 24000)) (b64decode audio)"

definition pcm16_24khz_b64_to_mulaw_8khz_b64 :: "str \<Rightarrow> str option" where
  "pcm16_24khz_b64_to_mulaw_8khz_b64 audio =
     map_option (\<lambda>raw0.
         let raw = (if length raw0 mod 2 \<noteq> 0 then butlast raw0 else raw0)
         in if raw = [] then []
            else b64encode (map (\<lambda>s. nat (encode_mulaw_sample s))
                   (resample_pcm16 (unpack_samples raw) 24000 8000))) (b64decode audio)"

section \<open>Reading base64 back\<close>

lemma a2b_standard: "a2b q l p (map (\<lambda>c. if c = 45 then 43 else if c = 95 then 47 else c) s) = a2b q l p s"
proof (induction q l p s rule: a2b.induct)
  case (2 q l p c s)
  let ?c = "if c = 45 then 43 else if c = 95 then 47 else c"
  have v: "b64_value ?c = b64_value c" "?c = 61 \<longleftrightarrow> c = 61" by (auto simp: b64_value_def)
  then show ?case using 2 by (simp only: list.map a2b.simps) (auto split: option.splits)
qed simp

lemma urlsafe_b64encode_ascii: "byte_list bs \<Longrightarrow> ascii (urlsafe_b64encode bs)"
  using urlsafe_b64encode_shape [of bs] by (auto simp: ascii_def list_all_iff)

lemma b64decode_encode: "byte_list bs \<Longrightarrow> b64decode (b64encode bs) = Some bs"
proof -
  assume bs: "byte_list bs"
  let ?t = "b64encode bs"
  have "ascii ?t" using urlsafe_b64encode_ascii [OF bs] by (auto simp: b64encode_def ascii_def list_all_iff)
  moreover have "filter (\<lambda>c. c \<noteq> 45 \<and> c \<noteq> 95) ?t = ?t" by (auto simp: filter_id_conv b64encode_def)
  ultimately show ?thesis by (simp add: b64decode_def) (simp add: b64encode_def a2b_standard a2b_encode [OF bs])
qed

lemma b64_value_less: "b64_value c = Some v \<Longrightarrow> v < 64"
  by (auto simp: b64_value_def split: if_splits)

lemma a2b_bytes:
  "a2b q l p s = Some bs \<Longrightarrow> q < 4 \<Longrightarrow> q = 1 \<longrightarrow> l < 64 \<Longrightarrow> q = 2 \<longrightarrow> l < 16 \<Longrightarrow> q = 3 \<longrightarrow> l < 4 \<Longrightarrow> byte_list bs"
proof (induction q l p s arbitrary: bs rule: a2b.induct)
  case (1 q l p)
  then show ?case by (simp add: byte_list_def split: if_splits)
next
  case (2 q l p c s)
  show ?case
  proof (cases "c = 61 \<or> b64_value c = None")
    case True
    then show ?thesis using 2 by (auto simp: byte_list_def split: if_splits)
  next
    case False
    then obtain v where v: "b64_value c = Some v" "c \<noteq> 61" by auto
    then have v64: "v < 64" "v div 16 < 4" "v div 4 < 16" "v mod 16 < 16" "v mod 4 < 4"
      using b64_value_less [OF v(1)] by auto
    have q: "q = 0 \<or> q = 1 \<or> q = 2 \<or> q = 3" using "2.prems"(2) by linarith
    show ?thesis
      using q "2.IH" "2.prems" v v64 by (auto simp: byte_list_def)
  qed
qed

interpretation b64: codec b64encode b64decode byte_list
  by unfold_locales (rule b64decode_encode)

section \<open>Packing and resampling\<close>

definition pcm16 :: "int \<Rightarrow> bool" where
  "pcm16 s \<longleftrightarrow> - 32768 \<le> s \<and> s \<le> 32767"

lemma clamp_pcm16_range: "pcm16 (clamp_pcm16 s)" "pcm16 s \<Longrightarrow> clamp_pcm16 s = s"
  by (auto simp: pcm16_def clamp_pcm16_def)

lemma unpack_pack_sample: "pcm16 s \<Longrightarrow> unpack_samples (pack_sample s @ bs) = s # unpack_samples bs"
proof -
  assume s: "pcm16 s"
  let ?u = "s mod 65536"
  have u: "0 \<le> ?u" "?u < 65536" by simp_all
  have "int (nat ?u mod 256) + 256 * int (nat ?u div 256) = ?u"
    using u by (simp add: zmod_int zdiv_int)
  moreover have "(if 32768 \<le> ?u then ?u - 65536 else ?u) = s"
  proof (cases "s < 0")
    case True
    then have "(s + 65536) mod 65536 = s + 65536" using s by (intro mod_pos_pos_trivial) (auto simp: pcm16_def)
    then have "?u = s + 65536" by simp
    then show ?thesis using s True by (simp add: pcm16_def)
  next
    case False
    then show ?thesis using s by (simp add: pcm16_def)
  qed
  ultimately show ?thesis by (simp add: pack_sample_def Let_def)
qed

lemma unpack_pack: "list_all pcm16 ss \<Longrightarrow> unpack_samples (pack_samples ss) = ss"
  by (induction ss) (auto simp: pack_samples_def unpack_pack_sample)

lemma pack_samples_bytes: "byte_list (pack_samples ss)" "length (pack_samples ss) = 2 * length ss"
proof -
  have "x mod 65536 < 256 * 256" for x :: int by simp
  then have "nat (x mod 65536) div 256 < 256" for x :: int
    by (simp add: less_mult_imp_div_less nat_less_iff)
  then show "byte_list (pack_samples ss)"
    by (induction ss) (auto simp: pack_samples_def pack_sample_def byte_list_def Let_def)
  show "length (pack_samples ss) = 2 * length ss"
    by (induction ss) (auto simp: pack_samples_def pack_sample_def Let_def)
qed

lemma py_round_of_int [simp]: "py_round (of_int i) = i"
  by (simp add: py_round_def)

lemma interpolated_at: "interpolated xs (of_nat k) = clamp_pcm16 (xs ! k)"
  by (simp add: interpolated_def Let_def)

text \<open>Every position the code reads lies within the samples, for any two rates.\<close>

lemma py_round_le: "of_int (py_round x) \<le> x + 1 / 2"
proof -
  have f: "of_int \<lfloor>x\<rfloor> \<le> x" by (rule of_int_floor_le)
  show ?thesis
  proof (cases "x - of_int \<lfloor>x\<rfloor> < 1 / 2")
    case True
    then have "py_round x = \<lfloor>x\<rfloor>" by (simp add: py_round_def)
    then show ?thesis using f by linarith
  next
    case False
    have "py_round x \<le> \<lfloor>x\<rfloor> + 1" by (simp add: py_round_def Let_def)
    then have "of_int (py_round x) \<le> (of_int (\<lfloor>x\<rfloor> + 1) :: rat)" by (rule of_int_le_iff [THEN iffD2])
    then show ?thesis using False by simp
  qed
qed

lemma source_pos_in_range:
  assumes "0 < s" and "0 < t" and "xs \<noteq> []" and "k < nat (output_length xs s t)"
  shows "nat \<lfloor>of_nat k * (of_int s / of_int t :: rat)\<rfloor> < length xs"
proof (cases "k = 0")
  case True
  then show ?thesis using assms(3) by simp
next
  case False
  let ?n = "of_nat (length xs) :: rat"
  let ?r = "of_int t / of_int s :: rat"
  have r: "0 < ?r" using assms by simp
  have "int k < max 1 (py_round (?n * ?r))"
    using assms(4) by (simp add: output_length_def mult.commute)
  then have "int k + 1 \<le> py_round (?n * ?r)" using False by simp
  then have "of_int (int k + 1) \<le> (of_int (py_round (?n * ?r)) :: rat)" by (rule of_int_le_iff [THEN iffD2])
  also have "\<dots> \<le> ?n * ?r + 1 / 2" by (rule py_round_le)
  finally have "of_nat k < ?n * ?r" by simp
  then have "of_nat k * (of_int s / of_int t) < ?n" using assms(1,2) by (simp add: field_simps)
  then have "\<lfloor>of_nat k * (of_int s / of_int t) :: rat\<rfloor> < int (length xs)" by (simp add: floor_less_iff)
  moreover have "0 < length xs" using assms(3) by simp
  ultimately show ?thesis by linarith
qed

lemma resample_pcm16_samples: "list_all pcm16 xs \<Longrightarrow> list_all pcm16 (resample_pcm16 xs s t)"
  by (auto simp: resample_pcm16_def interpolated_def Let_def list_all_iff clamp_pcm16_range)

lemma upsample:
  assumes "xs \<noteq> []" and "list_all pcm16 xs"
  shows "length (resample_pcm16 xs 8000 24000) = 3 * length xs"
    and "i < length xs \<Longrightarrow> resample_pcm16 xs 8000 24000 ! (3 * i) = xs ! i"
proof -
  have "of_int (int (length xs) * 24000) / of_int 8000 = (of_int (int (3 * length xs)) :: rat)" by simp
  then have "output_length xs 8000 24000 = max 1 (int (3 * length xs))"
    unfolding output_length_def by (simp only: py_round_of_int)
  then have n: "nat (output_length xs 8000 24000) = 3 * length xs" using assms(1) by (cases xs) auto
  then show "length (resample_pcm16 xs 8000 24000) = 3 * length xs" using assms(1) by (simp add: resample_pcm16_def)
  assume i: "i < length xs"
  have "of_nat (3 * i) * (of_int 8000 / of_int 24000) = (of_nat i :: rat)" by simp
  then have "interpolated xs (of_nat (3 * i) * (of_int 8000 / of_int 24000)) = clamp_pcm16 (xs ! i)"
    by (simp only: interpolated_at)
  then show "resample_pcm16 xs 8000 24000 ! (3 * i) = xs ! i"
    using i assms n by (simp add: resample_pcm16_def clamp_pcm16_range list_all_length)
qed

lemma downsample:
  assumes "xs \<noteq> []" and "length xs = 3 * m" and "list_all pcm16 xs"
  shows "resample_pcm16 xs 24000 8000 = map (\<lambda>k. xs ! (3 * k)) [0..<m]"
proof -
  have "of_int (int (length xs) * 8000) / of_int 24000 = (of_int (int m) :: rat)" using assms(2) by simp
  then have "output_length xs 24000 8000 = max 1 (int m)"
    unfolding output_length_def by (simp only: py_round_of_int)
  moreover have "0 < m" using assms(1,2) by (cases m) auto
  ultimately have n: "nat (output_length xs 24000 8000) = m" by simp
  have "interpolated xs (of_nat k * (of_int 24000 / of_int 8000)) = xs ! (3 * k)" if "k < m" for k
  proof -
    have "of_nat k * (of_int 24000 / of_int 8000) = (of_nat (3 * k) :: rat)" by simp
    then show ?thesis using that assms(2,3) by (simp only: interpolated_at) (simp add: clamp_pcm16_range list_all_length)
  qed
  then show ?thesis using assms(1) n by (simp add: resample_pcm16_def)
qed

lemma down_up: "xs \<noteq> [] \<Longrightarrow> list_all pcm16 xs \<Longrightarrow>
    resample_pcm16 (resample_pcm16 xs 8000 24000) 24000 8000 = xs"
proof -
  assume xs: "xs \<noteq> []" "list_all pcm16 xs"
  let ?u = "resample_pcm16 xs 8000 24000"
  have l: "length ?u = 3 * length xs" by (rule upsample(1) [OF xs])
  then have "?u \<noteq> []" using xs(1) by auto
  then have "resample_pcm16 ?u 24000 8000 = map (\<lambda>k. ?u ! (3 * k)) [0..<length xs]"
    using l resample_pcm16_samples [OF xs(2)] by (rule downsample)
  also have "\<dots> = map (\<lambda>k. xs ! k) [0..<length xs]" using upsample(2) [OF xs] by simp
  finally show ?thesis by (simp add: map_nth)
qed

section \<open>Mu-law there and back\<close>

text \<open>The arithmetic of the byte layout: sign, three bits of exponent, four bits of mantissa.\<close>

lemma not_and_255: "NOT (x :: int) AND 255 = 255 - x" if "0 \<le> x" "x < 256"
proof -
  have "NOT x AND 255 = take_bit 8 (NOT x)" by (simp add: take_bit_eq_mask mask_eq_exp_minus_1)
  also have "\<dots> = (- x - 1) mod 256" by (simp add: take_bit_eq_mod not_int_def)
  also have "\<dots> = (- x - 1 + 256) mod 256" by (simp only: mod_add_self2)
  also have "- x - 1 + 256 = 255 - x" by simp
  also have "(255 - x) mod 256 = 255 - x" using that by (intro mod_pos_pos_trivial) auto
  finally show ?thesis .
qed

lemma low_bits: "(x :: int) AND 15 = x mod 16" "(x :: int) AND 7 = x mod 8"
  by (simp_all add: flip: take_bit_eq_mod [of 4 x, simplified] take_bit_eq_mod [of 3 x, simplified])
    (simp_all add: take_bit_eq_mask mask_eq_exp_minus_1)

lemma and_128: "(x :: int) AND 128 = 0 \<longleftrightarrow> x < 128" if "0 \<le> x" "x < 256"
proof -
  have "(x AND 2 ^ 7 = 0) \<longleftrightarrow> \<not> bit x 7" by (rule and_exp_eq_0_iff_not_bit)
  also have "\<dots> \<longleftrightarrow> even (x div 128)" by (simp add: bit_iff_odd)
  also have "\<dots> \<longleftrightarrow> x < 128"
  proof (cases "x < 128")
    case False
    then have "x div 128 = 1" using that by (intro int_div_pos_eq [where r = "x - 128"]) auto
    then show ?thesis using False by simp
  qed (use that in simp)
  finally show ?thesis by simp
qed

lemma or_16: "(m :: int) OR 16 = m + 16" if "0 \<le> m" "m < 16"
proof -
  have "list_all (\<lambda>k. int k OR 16 = int k + 16) [0..<16]" by (simp add: upt_rec)
  moreover have "nat m \<in> set [0..<16]" "int (nat m) = m" using that by auto
  ultimately show ?thesis unfolding list_all_iff by metis
qed

lemma decode_mulaw:
  assumes "s = 0 \<or> s = 128" and "e < 8" and "0 \<le> m" "m < 16"
  shows "decode_mulaw_sample (255 - (s + 16 * int e + m))
    = (if s = 0 then (m + 16) * 2 ^ (e + 3) - 33 else 33 - (m + 16) * 2 ^ (e + 3))"
proof -
  define v where "v = s + 16 * int e + m"
  have v: "0 \<le> v" "v < 256" using assms by (auto simp: v_def)
  have "NOT (255 - v) AND 255 = v" using not_and_255 [of "255 - v"] v by simp
  moreover have "v AND 128 = 0 \<longleftrightarrow> s = 0" using and_128 [OF v] assms by (auto simp: v_def)
  moreover have "v mod 16 = m"
    using assms by (intro int_mod_pos_eq [where q = "int e + 8 * (s div 128)"]) (auto simp: v_def)
  moreover have "drop_bit 4 v mod 8 = int e"
  proof -
    have "v div 16 = int e + 8 * (s div 128)"
      using assms by (intro int_div_pos_eq [where r = m]) (auto simp: v_def)
    then show ?thesis using assms(2) by (simp add: drop_bit_eq_div)
  qed
  ultimately have "decode_mulaw_sample (255 - v) = (if s = 0 then (m + 16) * 2 ^ (e + 3) - 33 else 33 - (m + 16) * 2 ^ (e + 3))"
    using or_16 [OF assms(3,4)] by (simp add: decode_mulaw_sample_def low_bits Let_def push_bit_eq_mult)
  then show ?thesis by (simp only: v_def)
qed

lemma mulaw_exponent_range:
  assumes "0 \<le> y" and "y < 2 ^ (e + 8)"
  shows "mulaw_exponent y e (2 ^ (e + 7)) \<le> e \<and> y < 2 ^ (mulaw_exponent y e (2 ^ (e + 7)) + 8)
    \<and> (0 < mulaw_exponent y e (2 ^ (e + 7)) \<longrightarrow> 2 ^ (mulaw_exponent y e (2 ^ (e + 7)) + 7) \<le> y)"
  using assms
proof (induction e)
  case (Suc e)
  let ?m = "2 ^ (Suc e + 7) :: int"
  have "?m = 2 * 2 ^ (e + 7)" by (simp only: add_Suc power_Suc)
  then have d: "drop_bit 1 ?m = 2 ^ (e + 7)" by (simp add: drop_bit_eq_div del: power_Suc)
  have bit: "y AND ?m = 0 \<longleftrightarrow> even (y div ?m)"
    by (simp only: and_exp_eq_0_iff_not_bit bit_iff_odd not_not)
  show ?case
  proof (cases "y < ?m")
    case True
    then have "y div ?m = 0" using Suc.prems(1) by (simp add: div_pos_pos_trivial)
    then have "mulaw_exponent y (Suc e) ?m = mulaw_exponent y e (2 ^ (e + 7))" using bit d by simp
    then show ?thesis using Suc.IH [OF Suc.prems(1)] True by (simp add: add.commute)
  next
    case False
    then have "y div ?m = 1" using Suc.prems by (intro int_div_pos_eq [where r = "y - ?m"]) (auto simp: power_add)
    then have "mulaw_exponent y (Suc e) ?m = Suc e" using bit by simp
    then show ?thesis using Suc.prems False by simp
  qed
qed simp

lemma encode_bits: "s OR push_bit 4 (int e) OR m = s + 16 * int e + m"
  if "s = 0 \<or> s = 128" "e < 8" "0 \<le> m" "m < 16"
proof -
  have "e \<in> set [0..<8]" "m \<in> set (map int [0..<16])" using that by (auto simp: image_iff intro!: bexI [of _ "nat m"])
  then have "list_all (\<lambda>e. list_all (\<lambda>m. \<forall>s \<in> {0, 128}. s OR push_bit 4 (int e) OR m = s + 16 * int e + m)
      (map int [0..<16])) [0..<8] \<Longrightarrow> ?thesis" using that(1) by (auto simp: list_all_iff simp del: upt_rec)
  then show ?thesis by (simp add: upt_rec push_bit_eq_mult)
qed

text \<open>A sample is written as the byte with the exponent and the mantissa of its magnitude.\<close>

lemma encode_mulaw:
  assumes "pcm16 x"
  obtains e where "e < 8" and "min 32635 \<bar>x\<bar> + 33 < 2 ^ (e + 8)" and "e = 0 \<or> 2 ^ (e + 7) \<le> min 32635 \<bar>x\<bar> + 33"
    and "encode_mulaw_sample x
      = 255 - ((if x < 0 then 128 else 0) + 16 * int e + (min 32635 \<bar>x\<bar> + 33) div 2 ^ (e + 3) mod 16)"
proof -
  let ?y = "min 32635 \<bar>x\<bar> + 33"
  let ?e = "mulaw_exponent ?y 7 16384"
  let ?s = "if x < 0 then 128 else 0 :: int"
  let ?m = "?y div 2 ^ (?e + 3) mod 16"
  have e: "?e \<le> 7 \<and> ?y < 2 ^ (?e + 8) \<and> (0 < ?e \<longrightarrow> 2 ^ (?e + 7) \<le> ?y)"
    using mulaw_exponent_range [of ?y 7] by simp
  have b: "NOT (?s OR push_bit 4 (int ?e) OR ?m) AND 255 = 255 - (?s + 16 * int ?e + ?m)"
  proof -
    have m: "0 \<le> ?m" "?m < 16" by simp_all
    have "?s OR push_bit 4 (int ?e) OR ?m = ?s + 16 * int ?e + ?m" using e m by (intro encode_bits) auto
    moreover have "0 \<le> ?s + 16 * int ?e + ?m" "?s + 16 * int ?e + ?m < 256" using e m by auto
    ultimately show ?thesis by (simp only: not_and_255)
  qed
  have "encode_mulaw_sample x = NOT (?s OR push_bit 4 (int ?e) OR ?m) AND 255"
    unfolding encode_mulaw_sample_def clamp_pcm16_range(2) [OF assms] Let_def low_bits drop_bit_eq_div by (rule refl)
  then have "encode_mulaw_sample x = 255 - (?s + 16 * int ?e + ?m)" by (simp only: b)
  moreover have "?e < 8" "?y < 2 ^ (?e + 8)" "?e = 0 \<or> 2 ^ (?e + 7) \<le> ?y" using e by auto
  ultimately show ?thesis by (rule that [rotated 3])
qed

lemma decode_encode_mulaw:
  assumes "pcm16 x"
  obtains e where "e < 8" and "min 32635 \<bar>x\<bar> + 33 < 2 ^ (e + 8)" and "e = 0 \<or> 2 ^ (e + 7) \<le> min 32635 \<bar>x\<bar> + 33"
    and "decode_mulaw_sample (encode_mulaw_sample x) =
      (let z = ((min 32635 \<bar>x\<bar> + 33) div 2 ^ (e + 3) mod 16 + 16) * 2 ^ (e + 3) - 33 in if x < 0 then - z else z)"
proof -
  obtain e where e: "e < 8" "min 32635 \<bar>x\<bar> + 33 < 2 ^ (e + 8)" "e = 0 \<or> 2 ^ (e + 7) \<le> min 32635 \<bar>x\<bar> + 33"
    "encode_mulaw_sample x = 255 - ((if x < 0 then 128 else 0) + 16 * int e + (min 32635 \<bar>x\<bar> + 33) div 2 ^ (e + 3) mod 16)"
    using encode_mulaw [OF assms] by metis
  have "decode_mulaw_sample (encode_mulaw_sample x) =
      (let z = ((min 32635 \<bar>x\<bar> + 33) div 2 ^ (e + 3) mod 16 + 16) * 2 ^ (e + 3) - 33 in if x < 0 then - z else z)"
    unfolding e(4) by (subst decode_mulaw) (use e(1) in auto)
  then show ?thesis using that e by blast
qed

lemma loud_sample:
  assumes "(2 :: int) ^ (e + 7) \<le> y" and "y < 2 ^ (e + 8)"
  shows "(y div 2 ^ (e + 3) mod 16 + 16) * 2 ^ (e + 3) \<le> y"
    and "16 * (y - (y div 2 ^ (e + 3) mod 16 + 16) * 2 ^ (e + 3)) \<le> y"
proof -
  let ?d = "2 ^ (e + 3) :: int"
  have p: "2 ^ (e + 7) = 16 * ?d" "2 ^ (e + 8) = 32 * ?d" by (simp_all add: power_add)
  have "16 \<le> y div ?d" using assms(1) p by (simp add: zdiv_mono1 [of "16 * ?d" y ?d, simplified])
  moreover have "y div ?d < 32"
  proof (rule ccontr)
    assume "\<not> y div ?d < 32"
    then have "32 * ?d \<le> y div ?d * ?d" by (intro mult_right_mono) auto
    also have "\<dots> \<le> y" by (metis add_increasing2 div_mult_mod_eq mult.commute order_refl pos_mod_sign zero_less_numeral zero_less_power)
    finally show False using assms(2) p by simp
  qed
  ultimately have "y div ?d mod 16 = y div ?d - 16" by (intro int_mod_pos_eq [where q = 1]) auto
  then have q: "y div ?d mod 16 + 16 = y div ?d" by simp
  have r: "y - y div ?d * ?d = y mod ?d" by (rule minus_div_mult_eq_mod)
  have "0 \<le> y mod ?d" "y mod ?d < ?d" by simp_all
  moreover have "16 * ?d \<le> y" using assms(1) p by simp
  ultimately show "(y div ?d mod 16 + 16) * ?d \<le> y" "16 * (y - (y div ?d mod 16 + 16) * ?d) \<le> y"
    unfolding q r using r by linarith+
qed

lemma quiet_sample:
  assumes "33 \<le> (y :: int)" and "y < 128"
  shows "y + 88 \<le> (y div 2 ^ 3 mod 16 + 16) * 2 ^ 3 - 33" and "(y div 2 ^ 3 mod 16 + 16) * 2 ^ 3 - 33 \<le> y + 95"
proof -
  have "y = y div 8 * 8 + y mod 8" by (rule div_mult_mod_eq [symmetric])
  moreover have "y div 8 mod 16 = y div 8" using assms by (intro mod_pos_pos_trivial) auto
  moreover have "0 \<le> y mod 8" "y mod 8 < 8" by simp_all
  ultimately show "y + 88 \<le> (y div 2 ^ 3 mod 16 + 16) * 2 ^ 3 - 33" "(y div 2 ^ 3 mod 16 + 16) * 2 ^ 3 - 33 \<le> y + 95"
    by simp_all
qed

lemma mulaw_error:
  assumes "\<bar>x\<bar> \<le> 32635"
  defines "y \<equiv> \<bar>x\<bar>" and "z \<equiv> \<bar>decode_mulaw_sample (encode_mulaw_sample x)\<bar>"
  shows "if 95 \<le> y then z \<le> y \<and> 16 * (y - z) \<le> y + 33 else y + 121 \<le> z \<and> z \<le> y + 128"
    and "decode_mulaw_sample (encode_mulaw_sample x) < 0 \<longleftrightarrow> x < 0"
proof -
  have "pcm16 x" using assms(1) by (auto simp: pcm16_def)
  then obtain e where e: "e < 8" "min 32635 \<bar>x\<bar> + 33 < 2 ^ (e + 8)" "e = 0 \<or> 2 ^ (e + 7) \<le> min 32635 \<bar>x\<bar> + 33"
    "decode_mulaw_sample (encode_mulaw_sample x) =
      (let z = ((min 32635 \<bar>x\<bar> + 33) div 2 ^ (e + 3) mod 16 + 16) * 2 ^ (e + 3) - 33 in if x < 0 then - z else z)"
    by (rule decode_encode_mulaw)
  have m: "min 32635 \<bar>x\<bar> = y" using assms(1) by (simp add: y_def)
  define w where "w = ((y + 33) div 2 ^ (e + 3) mod 16 + 16) * 2 ^ (e + 3) - 33"
  have w: "0 < w"
  proof -
    have "(8 :: int) \<le> 2 ^ (e + 3)" by (simp add: power_add)
    moreover have "16 \<le> (y + 33) div 2 ^ (e + 3) mod 16 + 16" by simp
    ultimately have "16 * 8 \<le> ((y + 33) div 2 ^ (e + 3) mod 16 + 16) * 2 ^ (e + 3)" by (intro mult_mono) auto
    then show ?thesis by (simp add: w_def)
  qed
  have d: "decode_mulaw_sample (encode_mulaw_sample x) = (if x < 0 then - w else w)"
    using e(4) by (simp only: m w_def Let_def)
  then have z: "z = w" using w by (simp add: z_def)
  show "decode_mulaw_sample (encode_mulaw_sample x) < 0 \<longleftrightarrow> x < 0" using d w by simp
  show "if 95 \<le> y then z \<le> y \<and> 16 * (y - z) \<le> y + 33 else y + 121 \<le> z \<and> z \<le> y + 128"
  proof (cases "95 \<le> y")
    case True
    have "2 ^ (e + 7) \<le> y + 33" using e(3) True by (auto simp: m)
    moreover have "y + 33 < 2 ^ (e + 8)" using e(2) by (simp add: m)
    ultimately have "w \<le> y" "16 * (y - w) \<le> y + 33"
      using loud_sample [of e "y + 33"] by (simp_all add: w_def)
    then show ?thesis using True z by simp
  next
    case False
    have "e = 0"
    proof (rule ccontr)
      assume "e \<noteq> 0"
      then have "2 ^ (e + 7) \<le> y + 33" using e(3) by (simp add: m)
      moreover have "(2 :: int) ^ 8 \<le> 2 ^ (e + 7)" using \<open>e \<noteq> 0\<close> by (intro power_increasing) auto
      ultimately show False using False by simp
    qed
    then have "w = ((y + 33) div 2 ^ 3 mod 16 + 16) * 2 ^ 3 - 33" by (simp add: w_def)
    moreover have "0 \<le> y" by (simp add: y_def)
    ultimately show ?thesis using quiet_sample [of "y + 33"] False z by simp
  qed
qed

lemma encode_decode_mulaw:
  assumes "b < 256"
  shows "encode_mulaw_sample (decode_mulaw_sample (int b)) = int b" and "pcm16 (decode_mulaw_sample (int b))"
proof -
  define v where "v = 255 - int b"
  define s e m where "s = (if v < 128 then 0 else 128 :: int)" and "e = nat (v mod 128 div 16)" and "m = v mod 16"
  have v: "0 \<le> v" "v < 256" using assms by (auto simp: v_def)
  have "v mod 128 = v - s" using v by (auto simp: s_def intro: int_mod_pos_eq [where q = 1])
  moreover have "v mod 128 mod 16 = m" by (simp add: m_def mod_mod_cancel)
  moreover have "v mod 128 div 16 < 8 \<and> 0 \<le> v mod 128 div 16"
  proof -
    have "0 \<le> v mod 128" "v mod 128 < 128" by simp_all
    then show ?thesis by linarith
  qed
  then have e: "int e = v mod 128 div 16" "e < 8" by (auto simp: e_def)
  ultimately have "v = s + 16 * int e + m"
    using div_mult_mod_eq [of "v mod 128" 16] by simp
  then have sem: "v = s + 16 * int e + m" "s = 0 \<or> s = 128" "e < 8" "0 \<le> m" "m < 16"
    using e by (simp_all add: s_def m_def)
  define y where "y = (m + 16) * 2 ^ (e + 3)"
  have y: "2 ^ (e + 7) \<le> y" "y < 2 ^ (e + 8)" "128 \<le> y" "y \<le> 31744"
  proof -
    have p: "2 ^ (e + 7) = 16 * (2 ^ (e + 3) :: int)" "2 ^ (e + 8) = 32 * (2 ^ (e + 3) :: int)" by (simp_all add: power_add)
    show "2 ^ (e + 7) \<le> y" "y < 2 ^ (e + 8)" unfolding y_def p using sem by (auto intro!: mult_right_mono mult_strict_right_mono)
    have "(2 :: int) ^ 7 \<le> 2 ^ (e + 7)" by (intro power_increasing) auto
    then show "128 \<le> y" using \<open>2 ^ (e + 7) \<le> y\<close> by simp
    have "(2 :: int) ^ (e + 3) \<le> 2 ^ 10" using sem by (intro power_increasing) auto
    then have "y \<le> 31 * 2 ^ 10" unfolding y_def using sem by (intro mult_mono) auto
    then show "y \<le> 31744" by simp
  qed
  have d: "decode_mulaw_sample (int b) = (if s = 0 then y - 33 else 33 - y)"
    using decode_mulaw [OF sem(2-5)] by (simp add: y_def v_def flip: sem(1))
  then show r: "pcm16 (decode_mulaw_sample (int b))" using y by (auto simp: pcm16_def)
  let ?x = "decode_mulaw_sample (int b)"
  have mag: "min 32635 \<bar>?x\<bar> + 33 = y" using d y by auto
  obtain k where k: "k < 8" "min 32635 \<bar>?x\<bar> + 33 < 2 ^ (k + 8)" "k = 0 \<or> 2 ^ (k + 7) \<le> min 32635 \<bar>?x\<bar> + 33"
    "encode_mulaw_sample ?x = 255 - ((if ?x < 0 then 128 else 0) + 16 * int k + (min 32635 \<bar>?x\<bar> + 33) div 2 ^ (k + 3) mod 16)"
    by (rule encode_mulaw [OF r])
  have "k = e"
  proof -
    have "(2 :: int) ^ (e + 7) < 2 ^ (k + 8)" using k(2) y(1) by (simp only: mag)
    then have "e \<le> k" using power_less_imp_less_exp [of 2 "e + 7" "k + 8"] by simp
    moreover have "k = 0 \<or> (2 :: int) ^ (k + 7) < 2 ^ (e + 8)" using k(3) y(2) by (auto simp only: mag intro: le_less_trans)
    then have "k \<le> e" using power_less_imp_less_exp [of 2 "k + 7" "e + 8"] by auto
    ultimately show ?thesis by simp
  qed
  moreover have "y div 2 ^ (e + 3) = m + 16" by (simp add: y_def)
  moreover have "(m + 16) mod 16 = m" using sem by simp
  moreover have "?x < 0 \<longleftrightarrow> s = 128" using d y sem(2) by auto
  ultimately have "encode_mulaw_sample ?x = 255 - (s + 16 * int e + m)" using k(4) sem(2) by (auto simp: mag)
  then show "encode_mulaw_sample ?x = int b" by (simp add: v_def flip: sem(1))
qed

section \<open>The bridge keeps the caller's audio\<close>

lemma round_trip:
  assumes "b64decode audio = Some mulaw" and "mulaw_8khz_b64_to_pcm16_24khz_b64 audio = Some pcm"
  shows "pcm16_24khz_b64_to_mulaw_8khz_b64 pcm = Some (b64encode mulaw)"
proof -
  let ?xs = "map (\<lambda>b. decode_mulaw_sample (int b)) mulaw"
  let ?us = "resample_pcm16 ?xs 8000 24000"
  have bs: "byte_list mulaw" using assms(1) a2b_bytes [of 0 0 0 _ mulaw] by (auto simp: b64decode_def split: if_splits)
  then have xs: "list_all pcm16 ?xs" by (auto simp: byte_list_def list_all_iff encode_decode_mulaw)
  have pcm: "pcm = pcm16_samples_to_b64 ?us" using assms by (simp add: mulaw_8khz_b64_to_pcm16_24khz_b64_def)
  show ?thesis
  proof (cases "mulaw = []")
    case True
    then have "pcm = []" using pcm by (simp add: resample_pcm16_def pcm16_samples_to_b64_def)
    then show ?thesis using True
      by (simp add: pcm16_24khz_b64_to_mulaw_8khz_b64_def b64decode_def b64encode_def)
  next
    case False
    have us: "?us \<noteq> []" using upsample(1) [of ?xs] xs False by auto
    then have p: "pcm = b64encode (pack_samples ?us)" using pcm by (simp add: pcm16_samples_to_b64_def)
    have "b64decode pcm = Some (pack_samples ?us)" unfolding p by (rule b64.dec_enc) (rule pack_samples_bytes)
    moreover have "pack_samples ?us \<noteq> []" using us pack_samples_bytes(2) [of ?us] by auto
    moreover have "unpack_samples (pack_samples ?us) = ?us" using resample_pcm16_samples [OF xs] by (rule unpack_pack)
    moreover have "resample_pcm16 ?us 24000 8000 = ?xs" using False xs by (intro down_up) auto
    moreover have "map (\<lambda>s. nat (encode_mulaw_sample s)) ?xs = mulaw"
      using bs by (intro nth_equalityI) (auto simp: byte_list_def list_all_length encode_decode_mulaw)
    ultimately show ?thesis
      by (simp add: pcm16_24khz_b64_to_mulaw_8khz_b64_def pack_samples_bytes(2) Let_def del: map_map)
  qed
qed

text \<open>
  C25: Audio of the caller converted for the provider and back is the audio itself, byte for byte.
\<close>

theorem caller_audio_survives:
  assumes "b64decode audio = Some mulaw"
  shows "\<exists>pcm. mulaw_8khz_b64_to_pcm16_24khz_b64 audio = Some pcm
    \<and> pcm16_24khz_b64_to_mulaw_8khz_b64 pcm = Some (b64encode mulaw)"
  using assms round_trip [OF assms] by (simp add: mulaw_8khz_b64_to_pcm16_24khz_b64_def)

theorem caller_audio_survives_witness:
  "b64decode (lit ''/38='') = Some [255, 127]
    \<and> (\<exists>pcm. mulaw_8khz_b64_to_pcm16_24khz_b64 (lit ''/38='') = Some pcm
       \<and> pcm16_24khz_b64_to_mulaw_8khz_b64 pcm = Some (b64encode [255, 127]))"
proof -
  have "b64decode (lit ''/38='') = Some [255, 127]" by code_simp
  then show ?thesis using caller_audio_survives by blast
qed

text \<open>
  A sample keeps its sign. From 95 on it comes back within a sixteenth of its biased magnitude;
  a quieter one, silence included, comes back louder by more than 120.
\<close>

theorem quiet_samples_grow:
  assumes "\<bar>x\<bar> \<le> 32635"
  shows "(decode_mulaw_sample (encode_mulaw_sample x) < 0 \<longleftrightarrow> x < 0)
    \<and> (if 95 \<le> \<bar>x\<bar>
       then \<bar>decode_mulaw_sample (encode_mulaw_sample x)\<bar> \<le> \<bar>x\<bar>
         \<and> 16 * (\<bar>x\<bar> - \<bar>decode_mulaw_sample (encode_mulaw_sample x)\<bar>) \<le> \<bar>x\<bar> + 33
       else \<bar>x\<bar> + 121 \<le> \<bar>decode_mulaw_sample (encode_mulaw_sample x)\<bar>
         \<and> \<bar>decode_mulaw_sample (encode_mulaw_sample x)\<bar> \<le> \<bar>x\<bar> + 128)"
  using mulaw_error [OF assms] by simp

theorem quiet_samples_grow_witness:
  "\<bar>0 :: int\<bar> \<le> 32635 \<and> 121 \<le> \<bar>decode_mulaw_sample (encode_mulaw_sample 0)\<bar>"
  using quiet_samples_grow [of 0] by (simp add: abs_if split: if_splits)

end
