(* ===== verification/Voice_Tools.thy ===== *)
theory Voice_Tools
  imports Runs Workflow_Config Security Follow_Up
begin

text \<open>
  The tools of the voice demo (\<^verbatim>\<open>app/services/voice/tools.py\<close>) and how the registry executes
  one (\<^verbatim>\<open>app/services/tool_registry.py\<close>). A tool takes the JSON arguments of the call and the
  dict of the persona's configuration and gives the JSON of its output model. The models behind
  the meeting preparation, the gateway that transfers calls and \<^verbatim>\<open>float()\<close> are parameters.
\<close>

section \<open>Contracts\<close>

datatype primary_problem = HIRING | RETENTION | BOTH | UNCLEAR
datatype partnership_status = NO_PARTNERSHIP | INFORMAL | ACTIVE
datatype manager_capacity = LOW | MODERATE | HIGH
datatype workforce_program_experience = NO_EXPERIENCE | SOME_EXPERIENCE | EXPERIENCED

definition primary_problems :: "(str \<times> primary_problem) list" where
  "primary_problems = [(lit ''hiring'', HIRING), (lit ''retention'', RETENTION), (lit ''both'', BOTH), (lit ''unclear'', UNCLEAR)]"

definition partnership_statuses :: "(str \<times> partnership_status) list" where
  "partnership_statuses = [(lit ''none'', NO_PARTNERSHIP), (lit ''informal'', INFORMAL), (lit ''active'', ACTIVE)]"

definition manager_capacities :: "(str \<times> manager_capacity) list" where
  "manager_capacities = [(lit ''low'', LOW), (lit ''moderate'', MODERATE), (lit ''high'', HIGH)]"

definition program_experiences :: "(str \<times> workforce_program_experience) list" where
  "program_experiences =
     [(lit ''none'', NO_EXPERIENCE), (lit ''some'', SOME_EXPERIENCE), (lit ''experienced'', EXPERIENCED)]"

text \<open>
  \<^verbatim>\<open>model_validate\<close> of a JSON value: an object whose fields have the declared types; fields the
  model does not declare are ignored.
\<close>

definition validation_error :: error where
  "validation_error = ValueError (lit ''ValidationError'')"

definition string_field :: "json option \<Rightarrow> str result" where
  "string_field v = (case v of Some (JStr s) \<Rightarrow> Inr s | _ \<Rightarrow> Inl validation_error)"

definition string_field_or_empty :: "json option \<Rightarrow> str result" where
  "string_field_or_empty v = (if v = None then Inr [] else string_field v)"

definition enum_field :: "(str \<times> 'a) list \<Rightarrow> json option \<Rightarrow> 'a result" where
  "enum_field values v =
     rbind (string_field v) (\<lambda>s. case map_of values s of None \<Rightarrow> Inl validation_error | Some x \<Rightarrow> Inr x)"

definition model_fields :: "json \<Rightarrow> dict result" where
  "model_fields args = (case args of JObj d \<Rightarrow> Inr d | _ \<Rightarrow> Inl validation_error)"

record readiness_input =
  rn_company_size :: str
  rn_industry :: str
  rn_primary_problem :: primary_problem
  rn_partnership_status :: partnership_status
  rn_manager_capacity :: manager_capacity
  rn_experience :: workforce_program_experience

definition AssessEmployerReadinessInput :: "json \<Rightarrow> readiness_input result" where
  "AssessEmployerReadinessInput args =
     rbind (model_fields args) (\<lambda>d.
     rbind (string_field (map_of d (lit ''company_size''))) (\<lambda>size.
     rbind (string_field_or_empty (map_of d (lit ''industry''))) (\<lambda>industry.
     rbind (enum_field primary_problems (map_of d (lit ''primary_problem''))) (\<lambda>problem.
     rbind (enum_field partnership_statuses (map_of d (lit ''partnership_status''))) (\<lambda>partnership.
     rbind (enum_field manager_capacities (map_of d (lit ''manager_capacity''))) (\<lambda>capacity.
     rbind (enum_field program_experiences (map_of d (lit ''workforce_program_experience''))) (\<lambda>exper.
       Inr \<lparr> rn_company_size = size, rn_industry = industry, rn_primary_problem = problem,
             rn_partnership_status = partnership, rn_manager_capacity = capacity, rn_experience = exper \<rparr>)))))))"

record meeting_input =
  mt_company_name :: str
  mt_meeting_purpose :: str
  mt_user_role :: str
  mt_desired_outcome :: str

definition PrepareMeetingContextInput :: "json \<Rightarrow> meeting_input result" where
  "PrepareMeetingContextInput args =
     rbind (model_fields args) (\<lambda>d.
     rbind (string_field (map_of d (lit ''company_name''))) (\<lambda>company.
     rbind (string_field (map_of d (lit ''meeting_purpose''))) (\<lambda>purpose.
     rbind (string_field_or_empty (map_of d (lit ''user_role''))) (\<lambda>role.
     rbind (string_field_or_empty (map_of d (lit ''desired_outcome''))) (\<lambda>outcome.
       Inr \<lparr> mt_company_name = company, mt_meeting_purpose = purpose, mt_user_role = role,
             mt_desired_outcome = outcome \<rparr>)))))"

text \<open>
  The pattern \<^verbatim>\<open>^\+[1-9]\d{1,14}$\<close> of a number, in the regular expressions of pydantic, whose
  \<^verbatim>\<open>\d\<close> is any decimal digit of Unicode.
\<close>

definition e164 :: "str \<Rightarrow> bool" where
  "e164 s = (case s of
       p # c # ds \<Rightarrow> p = 43 \<and> 49 \<le> c \<and> c \<le> 57 \<and> 1 \<le> length ds \<and> length ds \<le> 14 \<and> list_all is_digit ds
     | _ \<Rightarrow> False)"

definition WarmTransferCallInput :: "json \<Rightarrow> str result" where
  "WarmTransferCallInput args =
     rbind (model_fields args) (\<lambda>d.
     rbind (string_field (map_of d (lit ''transfer_to_phone_number''))) (\<lambda>n.
       if e164 n then Inr n else Inl validation_error))"

text \<open>What lies outside: \<^verbatim>\<open>float(value)\<close> as JSON prints it, the models, the gateway, and format fields.\<close>

record voice_env =
  ve_runtime :: runtime
  ve_float :: "json \<Rightarrow> str result"
  ve_format_field :: "str \<Rightarrow> json \<Rightarrow> json \<Rightarrow> str result"
  ve_meeting_model :: "str \<Rightarrow> str \<Rightarrow> str \<Rightarrow> str \<Rightarrow> str option result"
  ve_transfer :: "str \<Rightarrow> json \<Rightarrow> str \<Rightarrow> unit result"
  ve_openai_api_key :: "str option"
  ve_anthropic_api_key :: "str option"
  ve_prep_provider :: str
  ve_prep_model :: str
  ve_prep_min_delay :: str

definition dict_get :: "dict \<Rightarrow> str \<Rightarrow> json \<Rightarrow> json" where
  "dict_get d k v = (case map_of d k of None \<Rightarrow> v | Some x \<Rightarrow> x)"

section \<open>Readiness\<close>

text \<open>One outcome: starting point, risk, step, and the pieces of the spoken template around its two fields.\<close>

definition spoken_outcome :: "str \<Rightarrow> str \<Rightarrow> str \<Rightarrow> str \<Rightarrow> str \<Rightarrow> str \<Rightarrow> json" where
  "spoken_outcome start risk step a b c =
     JObj [(lit ''starting_point'', JStr start), (lit ''top_risk'', JStr risk), (lit ''next_step'', JStr step),
           (lit ''voice_response'', JStr (a @ lit ''{top_risk}'' @ b @ lit ''{next_step}'' @ c))]"

definition DEFAULT_OUTCOMES :: dict where
  "DEFAULT_OUTCOMES =
     [(lit ''apprenticeship'', spoken_outcome (lit ''formal apprenticeship program'')
         (lit ''high coordination overhead without existing partnerships'')
         (lit ''register with a registered apprenticeship intermediary and identify one employer partner'')
         (lit ''Based on what you shared, your organization looks ready for a formal apprenticeship ''
     @ lit ''program. The main risk to watch is '')
         (lit ''. The most important next step is to '') (lit ''.'')),
      (lit ''paid_internship'', spoken_outcome (lit ''small paid internship pilot with one education partner'')
         (lit ''manager bandwidth during peak periods'')
         (lit ''identify one school or college partner and define a clear intern role'')
         (lit ''Based on what you shared, I would start with a small paid internship pilot rather ''
     @ lit ''than a full apprenticeship. The main risk is '')
         (lit ''. The most important next step is to '') (lit ''.'')),
      (lit ''job_shadowing'', spoken_outcome (lit ''job shadowing or informational visits'')
         (lit ''low visibility without consistent outreach'')
         (lit ''reach out to one local school or workforce organization to arrange an initial visit'')
         (lit ''Based on what you shared, I would begin with job shadowing before committing to a ''
     @ lit ''paid program. The main risk is '')
         (lit ''. The most important next step is to '') (lit ''.'')),
      (lit ''retention_focus'', spoken_outcome (lit ''retention and job quality improvements before adding new programs'')
         (lit ''recruiting into a role with known turnover without fixing root causes'')
         (lit ''survey current employees to identify the top two reasons people leave'')
         (lit ''Based on what you shared, I would focus on retention before launching a new ''
     @ lit ''workforce program. The main risk of skipping this step is '')
         (lit ''. The most important first action is to '') (lit ''.'')),
      (lit ''partnership_building'', spoken_outcome (lit ''building one education partnership before scaling programs'')
         (lit ''launching a program without a reliable talent pipeline'')
         (lit ''attend one local workforce convening or contact a community college workforce liaison'')
         (lit ''Based on what you shared, the most important thing right now is building your first ''
     @ lit ''education partnership. The main risk of moving too fast is '')
         (lit ''. The most concrete next step is to '') (lit ''.''))]"

definition select_outcome ::
  "primary_problem \<Rightarrow> partnership_status \<Rightarrow> manager_capacity \<Rightarrow> workforce_program_experience \<Rightarrow> str"
where
  "select_outcome problem partnership capacity exper =
     (if problem = RETENTION then lit ''retention_focus''
      else if partnership = NO_PARTNERSHIP \<and> exper = NO_EXPERIENCE then lit ''partnership_building''
      else if capacity = LOW
      then (if partnership = NO_PARTNERSHIP then lit ''job_shadowing'' else lit ''paid_internship'')
      else if partnership = ACTIVE \<and> capacity = HIGH \<and> exper = EXPERIENCED then lit ''apprenticeship''
      else if partnership \<in> {INFORMAL, ACTIVE} \<and> capacity \<in> {MODERATE, HIGH} then lit ''paid_internship''
      else lit ''job_shadowing'')"

text \<open>\<^verbatim>\<open>str.format\<close>: doubled braces are literal, a field ends at the brace that closes it.\<close>

fun field_end :: "nat \<Rightarrow> str \<Rightarrow> (str \<times> str) option" where
  "field_end n [] = None"
| "field_end n (c # s) =
     (if c = 125 \<and> n = 0 then Some ([], s)
      else map_option (\<lambda>(f, r). (c # f, r))
             (field_end (if c = 125 then n - 1 else if c = 123 then n + 1 else n) s))"

lemma field_end_shorter: "field_end n s = Some (f, r) \<Longrightarrow> length r < length s"
proof (induction n s arbitrary: f r rule: field_end.induct)
  case (2 n c s)
  show ?case
  proof (cases "c = 125 \<and> n = 0")
    case False
    then obtain f1 where "field_end (if c = 125 then n - 1 else if c = 123 then n + 1 else n) s = Some (f1, r)"
      using "2.prems" by auto
    then show ?thesis using "2.IH" [OF False] by fastforce
  qed (use "2.prems" in simp)
qed simp

function format_text :: "(str \<Rightarrow> str result) \<Rightarrow> str \<Rightarrow> str result" where
  "format_text field [] = Inr []"
| "format_text field (c # s) =
     (if c = 123
      then (if take 1 s = [123] then rbind (format_text field (drop 1 s)) (\<lambda>t. Inr (123 # t))
            else case field_end 0 s of
                None \<Rightarrow> Inl (ValueError (lit ''expected closing brace before end of string''))
              | Some (f, r) \<Rightarrow> rbind (field f) (\<lambda>v. rbind (format_text field r) (\<lambda>t. Inr (v @ t))))
      else if c = 125
      then (if take 1 s = [125] then rbind (format_text field (drop 1 s)) (\<lambda>t. Inr (125 # t))
            else Inl (ValueError (lit ''Single closing brace encountered in format string'')))
      else rbind (format_text field s) (\<lambda>t. Inr (c # t)))"
  by pat_completeness auto

termination
  by (relation "measure (\<lambda>(field, s). length s)") (auto dest: field_end_shorter)

declare format_text.simps(2) [simp del]

definition outcome_field :: "voice_env \<Rightarrow> json \<Rightarrow> json \<Rightarrow> str \<Rightarrow> str result" where
  "outcome_field env top_risk next_step f =
     (if f = lit ''top_risk'' then Inr (py_str (ve_runtime env) top_risk)
      else if f = lit ''next_step'' then Inr (py_str (ve_runtime env) next_step)
      else ve_format_field env f top_risk next_step)"

definition render_outcome :: "voice_env \<Rightarrow> json \<Rightarrow> str result" where
  "render_outcome env outcome =
     rbind (get_item outcome (lit ''voice_response'')) (\<lambda>template.
     rbind (get_item outcome (lit ''top_risk'')) (\<lambda>top_risk.
     rbind (get_item outcome (lit ''next_step'')) (\<lambda>next_step.
       case template of
         JStr t \<Rightarrow> format_text (outcome_field env top_risk next_step) t
       | _ \<Rightarrow> Inl (TypeError (lit ''no attribute format'')))))"

text \<open>\<^verbatim>\<open>{**_DEFAULT_OUTCOMES, **custom_outcomes}\<close>\<close>

fun dict_merge :: "dict \<Rightarrow> dict \<Rightarrow> dict" where
  "dict_merge d [] = d"
| "dict_merge d ((k, v) # e) = dict_merge (dict_set d k v) e"

definition outcomes_of :: "dict \<Rightarrow> dict result" where
  "outcomes_of tool_config =
     (case dict_get tool_config (lit ''outcomes'') (JObj []) of
        JObj custom \<Rightarrow> Inr (dict_merge DEFAULT_OUTCOMES custom)
      | _ \<Rightarrow> Inl (TypeError (lit ''not a mapping'')))"

definition assess_employer_readiness :: "voice_env \<Rightarrow> readiness_input \<Rightarrow> dict \<Rightarrow> json result" where
  "assess_employer_readiness env i tool_config =
     rbind (outcomes_of tool_config) (\<lambda>outcomes.
     let key = select_outcome (rn_primary_problem i) (rn_partnership_status i) (rn_manager_capacity i) (rn_experience i)
     in rbind (get_item (JObj outcomes) (lit ''paid_internship'')) (\<lambda>fallback.
        let outcome = dict_get outcomes key fallback
        in rbind (render_outcome env outcome) (\<lambda>spoken.
           rbind (rbind (get_item outcome (lit ''starting_point'')) (\<lambda>v. string_field (Some v))) (\<lambda>start.
           rbind (rbind (get_item outcome (lit ''top_risk'')) (\<lambda>v. string_field (Some v))) (\<lambda>risk.
           rbind (rbind (get_item outcome (lit ''next_step'')) (\<lambda>v. string_field (Some v))) (\<lambda>step.
             Inr (JObj [(lit ''recommended_starting_point'', JStr start), (lit ''top_risk'', JStr risk),
                        (lit ''next_step'', JStr step), (lit ''voice_response'', JStr spoken)])))))))"

section \<open>Meeting preparation\<close>

definition MEETING_PREP_SYSTEM_PROMPT :: str where
  "MEETING_PREP_SYSTEM_PROMPT =
     lit ''You prepare concise meeting guidance for a voice assistant demo. Do not browse the ''
     @ lit ''web, imply live lookup, cite sources, or claim current facts. Use only the company ''
     @ lit ''name, meeting purpose, caller details, and general model knowledge. Frame ''
     @ lit ''company-specific content as unverified background or plausible preparation ''
     @ lit ''hypotheses. Return strict JSON with keys: summary, talking_points, watchout, ''
     @ lit ''recommended_next_question.''"

definition MEETING_PREP_LIMITATIONS :: str where
  "MEETING_PREP_LIMITATIONS =
     lit ''This meeting prep does not browse the web, verify current company facts, or use ''
     @ lit ''private account data. It uses the details provided in the conversation plus general ''
     @ lit ''model knowledge, so treat the guidance as preparation hypotheses rather than live ''
     @ lit ''research.''"

definition fallback_meeting_context :: "meeting_input \<Rightarrow> dict" where
  "fallback_meeting_context i =
     [(lit ''summary'', JStr (lit ''Prepare for '' @ mt_company_name i
        @ lit '' by connecting the conversation directly to '' @ mt_meeting_purpose i
        @ lit '' and confirming what success would look like for both sides.'')),
      (lit ''talking_points'', JArr [
         JStr (lit ''Open with the meeting purpose and the outcome the user wants.''),
         JStr (lit ''Ask what constraints, stakeholders, and timing matter most.''),
         JStr (lit ''Frame any company-specific angle as a hypothesis to confirm.'')]),
      (lit ''watchout'', JStr (lit ''Avoid treating general model knowledge as verified current company news.'')),
      (lit ''recommended_next_question'', JStr (lit ''What would make this meeting feel successful when it ends?''))]"

definition or_not_provided :: "str \<Rightarrow> str" where
  "or_not_provided s = (if s = [] then lit ''Not provided'' else s)"

definition meeting_prompt :: "meeting_input \<Rightarrow> str" where
  "meeting_prompt i =
     lit ''Company: '' @ mt_company_name i @ [10] @ lit ''Meeting purpose: '' @ mt_meeting_purpose i @ [10]
     @ lit ''Caller role: '' @ or_not_provided (mt_user_role i) @ [10]
     @ lit ''Desired outcome: '' @ or_not_provided (mt_desired_outcome i)"

definition loads_result :: "str \<Rightarrow> json result" where
  "loads_result s = (case loads s of None \<Rightarrow> Inl (ValueError (lit ''JSONDecodeError'')) | Some j \<Rightarrow> Inr j)"

definition generate_meeting_prep_context :: "voice_env \<Rightarrow> meeting_input \<Rightarrow> dict \<Rightarrow> json result" where
  "generate_meeting_prep_context env i tool_config =
     (let provider = lower (py_str (ve_runtime env) (dict_get tool_config (lit ''provider'') (JStr (ve_prep_provider env))));
          model = py_str (ve_runtime env) (dict_get tool_config (lit ''model'') (JStr (ve_prep_model env)));
          complete = ve_meeting_model env provider model MEETING_PREP_SYSTEM_PROMPT (meeting_prompt i)
      in if provider = lit ''openai'' then
           (if \<not> truthy (ve_openai_api_key env)
            then Inl (ValueError (lit ''OPENAI_API_KEY required for meeting prep context''))
            else rbind complete (\<lambda>content. loads_result (str_or content [123, 125])))
         else if provider = lit ''anthropic'' then
           (if \<not> truthy (ve_anthropic_api_key env)
            then Inl (ValueError (lit ''ANTHROPIC_API_KEY required for meeting prep context''))
            else rbind complete (\<lambda>content.
                 rbind (loads_result (case content of None \<Rightarrow> [123, 125] | Some s \<Rightarrow> s)) (\<lambda>parsed.
                   Inr (case parsed of JObj _ \<Rightarrow> parsed | _ \<Rightarrow> JObj (fallback_meeting_context i)))))
         else Inl (ValueError (lit ''Unsupported meeting prep provider: '' @ provider)))"

text \<open>What a \<^verbatim>\<open>for\<close> loop sees of a JSON value.\<close>

definition json_items :: "json \<Rightarrow> json list result" where
  "json_items v =
     (case v of
        JArr xs \<Rightarrow> Inr xs
      | JStr s \<Rightarrow> Inr (map (\<lambda>c. JStr [c]) s)
      | JObj d \<Rightarrow> Inr (map (\<lambda>(k, x). JStr k) d)
      | _ \<Rightarrow> Inl (TypeError (lit ''object is not iterable'')))"

definition text_or_fallback :: "voice_env \<Rightarrow> dict \<Rightarrow> str \<Rightarrow> dict \<Rightarrow> json" where
  "text_or_fallback env generated key fallback =
     (let t = strip (py_str (ve_runtime env) (dict_get generated key (JStr [])))
      in if t = [] then dict_get fallback key JNull else JStr t)"

definition prepare_meeting_context :: "voice_env \<Rightarrow> meeting_input \<Rightarrow> dict \<Rightarrow> json result" where
  "prepare_meeting_context env i tool_config =
     (let fallback = fallback_meeting_context i;
          generated0 = (case generate_meeting_prep_context env i tool_config of Inl _ \<Rightarrow> JObj fallback | Inr g \<Rightarrow> g)
      in rbind (ve_float env (dict_get tool_config (lit ''min_delay_seconds'') (JFloat (ve_prep_min_delay env)))) (\<lambda>min_delay.
           case generated0 of
             JObj generated \<Rightarrow>
               rbind (json_items (dict_get generated (lit ''talking_points'') (JArr []))) (\<lambda>items.
               let points = take 4 (filter (\<lambda>t. t \<noteq> []) (map (\<lambda>v. strip (py_str (ve_runtime env) v)) items))
               in Inr (JObj [
                 (lit ''company_name'', JStr (mt_company_name i)),
                 (lit ''meeting_purpose'', JStr (mt_meeting_purpose i)),
                 (lit ''summary'', text_or_fallback env generated (lit ''summary'') fallback),
                 (lit ''talking_points'', if points = [] then dict_get fallback (lit ''talking_points'') JNull
                                        else JArr (map JStr points)),
                 (lit ''watchout'', text_or_fallback env generated (lit ''watchout'') fallback),
                 (lit ''recommended_next_question'', text_or_fallback env generated (lit ''recommended_next_question'') fallback),
                 (lit ''limitations'', JStr MEETING_PREP_LIMITATIONS)]))
           | _ \<Rightarrow> Inl (TypeError (lit ''no attribute get''))))"

section \<open>Warm transfer\<close>

record warm_transfer_config =
  wt_gateway_base_url :: str
  wt_trunk_host :: str
  wt_twilio_number :: str
  wt_trunk_port :: int
  wt_timeout_seconds :: str
  wt_rtp_target_host :: str
  wt_rtp_target_port :: json
  wt_session_id :: str

text \<open>Only \<^verbatim>\<open>TypeError\<close> and \<^verbatim>\<open>ValueError\<close> fall back.\<close>

definition coerce :: "'a \<Rightarrow> 'a result \<Rightarrow> 'a result" where
  "coerce fallback r =
     (case r of Inl (TypeError _) \<Rightarrow> Inr fallback | Inl (ValueError _) \<Rightarrow> Inr fallback | _ \<Rightarrow> r)"

definition dict_or_empty :: "json option \<Rightarrow> dict" where
  "dict_or_empty v = (case v of Some (JObj d) \<Rightarrow> d | _ \<Rightarrow> [])"

definition load_warm_transfer_config :: "voice_env \<Rightarrow> dict \<Rightarrow> warm_transfer_config result" where
  "load_warm_transfer_config env tool_config =
     (let warm = dict_or_empty (map_of tool_config (lit ''warm_transfer''));
          rtx = dict_or_empty (map_of tool_config (lit ''_runtime''));
          setting = (\<lambda>k v. dict_get warm k (dict_get tool_config k v));
          text = (\<lambda>k. strip (py_str (ve_runtime env) (setting k (JStr []))));
          first = dict_get rtx (lit ''session_id'') JNull;
          second = dict_get warm (lit ''session_id'') JNull;
          sid = (if json_truthy first then first
                 else if json_truthy second then second
                 else dict_get tool_config (lit ''session_id'') (JStr []))
      in rbind (coerce 5060 (py_int (ve_runtime env) (setting (lit ''trunk_port'') (JInt 5060)))) (\<lambda>port.
         rbind (coerce (lit ''5.0'') (ve_float env (setting (lit ''timeout_seconds'') (JFloat (lit ''5.0''))))) (\<lambda>timeout.
           Inr \<lparr> wt_gateway_base_url = text (lit ''gateway_base_url''), wt_trunk_host = text (lit ''trunk_host''),
                 wt_twilio_number = text (lit ''twilio_number''), wt_trunk_port = port, wt_timeout_seconds = timeout,
                 wt_rtp_target_host = text (lit ''rtp_target_host''),
                 wt_rtp_target_port = setting (lit ''rtp_target_port'') JNull,
                 wt_session_id = strip (py_str (ve_runtime env) sid) \<rparr>)))"

definition transfer_output :: "str \<Rightarrow> str option \<Rightarrow> str \<Rightarrow> str \<Rightarrow> json" where
  "transfer_output status sid number text =
     JObj [(lit ''status'', JStr status), (lit ''session_id'', case sid of None \<Rightarrow> JNull | Some s \<Rightarrow> JStr s),
           (lit ''transfer_to_phone_number'', JStr number), (lit ''message'', JStr text)]"

definition missing_keys :: "warm_transfer_config \<Rightarrow> str list" where
  "missing_keys cfg =
     map fst (filter (\<lambda>(k, v). v = []) [(lit ''gateway_base_url'', wt_gateway_base_url cfg),
       (lit ''trunk_host'', wt_trunk_host cfg), (lit ''twilio_number'', wt_twilio_number cfg)])"

definition transfer_payload :: "voice_env \<Rightarrow> warm_transfer_config \<Rightarrow> str \<Rightarrow> json" where
  "transfer_payload env cfg number =
     JObj ([(lit ''session_id'', JStr (wt_session_id cfg)), (lit ''target_phone'', JStr number),
            (lit ''twilio_number'', JStr (wt_twilio_number cfg)), (lit ''trunk_host'', JStr (wt_trunk_host cfg)),
            (lit ''trunk_port'', JInt (wt_trunk_port cfg))]
       @ (if wt_rtp_target_host cfg \<noteq> [] \<and> json_truthy (wt_rtp_target_port cfg)
          then [(lit ''rtp_target_host'', JStr (wt_rtp_target_host cfg)), (lit ''rtp_target_port'', wt_rtp_target_port cfg)]
          else []))"

definition warm_transfer_call :: "voice_env \<Rightarrow> str \<Rightarrow> dict \<Rightarrow> json result" where
  "warm_transfer_call env number tool_config =
     rbind (load_warm_transfer_config env tool_config) (\<lambda>cfg.
       if wt_session_id cfg = []
       then Inr (transfer_output (lit ''failed'') None number
              (lit ''Warm transfer is not available because no active call session id was found in runtime context.''))
       else if missing_keys cfg \<noteq> []
       then Inr (transfer_output (lit ''failed'') (Some (wt_session_id cfg)) number
              (lit ''Warm transfer tool is missing required configuration keys: '' @ join (lit '', '') (missing_keys cfg)))
       else (case ve_transfer env (rstrip_char 47 (wt_gateway_base_url cfg) @ lit ''/api/internal/transfer/start'')
                    (transfer_payload env cfg number) (wt_timeout_seconds cfg) of
               Inl e \<Rightarrow> Inr (transfer_output (lit ''failed'') (Some (wt_session_id cfg)) number
                          (lit ''Warm transfer request failed: '' @ error_text e))
             | Inr _ \<Rightarrow> Inr (transfer_output (lit ''started'') (Some (wt_session_id cfg)) number
                          (lit ''Warm transfer request accepted by SBC gateway; outbound dialing has started.''))))"

section \<open>The registry\<close>

text \<open>What a voice tool adds to the fields of a registry entry: its code, and whether it ends the call.\<close>

record voice_impl =
  vi_run :: "json \<Rightarrow> dict \<Rightarrow> json result"
  vi_is_terminal :: bool

type_synonym voice_tool = "voice_impl tool_entry"

definition end_conversation :: "json \<Rightarrow> dict \<Rightarrow> json result" where
  "end_conversation args tool_config =
     rbind (model_fields args) (\<lambda>d. Inr (JObj [(lit ''status'', JStr (lit ''closing''))]))"

definition record_answer :: "json \<Rightarrow> dict \<Rightarrow> json result" where
  "record_answer args tool_config =
     rbind (model_fields args) (\<lambda>d.
     rbind (string_field (map_of d (lit ''question''))) (\<lambda>q.
     rbind (string_field (map_of d (lit ''user_response''))) (\<lambda>r.
     rbind (string_field (map_of d (lit ''derived_answer''))) (\<lambda>a.
       Inr (JObj [(lit ''status'', JStr (lit ''recorded''))])))))"

definition assess_employer_readiness_entry :: "(json \<Rightarrow> dict \<Rightarrow> json result) \<Rightarrow> voice_tool" where
  "assess_employer_readiness_entry run =
     \<lparr> te_name = lit ''assess_employer_readiness'',
       te_description = (lit ''Assess an employer''
     @ [39]
     @ lit ''s workforce development readiness based on collected answers and return a concise, ''
     @ lit ''voice-ready recommendation grounded in workforce frameworks.''),
       te_prompt_instructions = (lit ''Call assess_employer_readiness tool after you have collected company size, primary ''
     @ lit ''problem, partnership status, manager capacity, and workforce program experience. ''
     @ lit ''Read the voice_response field directly to the caller.''),
       te_implementation = \<lparr> vi_run = run, vi_is_terminal = False \<rparr>,
       te_category = READ_ONLY \<rparr>"

definition end_conversation_entry :: "(json \<Rightarrow> dict \<Rightarrow> json result) \<Rightarrow> voice_tool" where
  "end_conversation_entry run =
     \<lparr> te_name = lit ''end_conversation'',
       te_description = lit ''Signal that the conversation has reached a natural conclusion and the session should close.'',
       te_prompt_instructions = (lit ''Call end_conversation tool immediately after detecting that the user is all set, and ''
     @ lit ''you delivered final remarks (e.g. ''
     @ [39]
     @ lit ''have a great day''
     @ [39]
     @ lit '', ''
     @ [39]
     @ lit ''take care''
     @ [39]
     @ lit '', ''
     @ [39]
     @ lit ''glad I could help''
     @ [39]
     @ lit '', ''
     @ [39]
     @ lit ''I''
     @ [39]
     @ lit ''m still here if you need anything''
     @ [39]
     @ lit ''). This includes follow-up responses after an interruption. If you have just said ''
     @ lit ''goodbye or a closing phrase of any kind, call this tool ''
     @ [8212]
     @ lit '' do not wait for further confirmation. ''),
       te_implementation = \<lparr> vi_run = run, vi_is_terminal = True \<rparr>,
       te_category = READ_ONLY \<rparr>"

definition prepare_meeting_context_entry :: "(json \<Rightarrow> dict \<Rightarrow> json result) \<Rightarrow> voice_tool" where
  "prepare_meeting_context_entry run =
     \<lparr> te_name = lit ''prepare_meeting_context'',
       te_description = (lit ''Prepare meeting context from the company name and meeting purpose without live web ''
     @ lit ''lookup, current-fact verification, or source-link claims.''),
       te_prompt_instructions = (lit ''Call prepare_meeting_context after the user names the company and meeting purpose. ''
     @ lit ''Tell the user you are preparing context from what they shared and general background ''
     @ lit ''knowledge, not looking it up live. While the result is pending, continue asking ''
     @ lit ''useful generic meeting-prep questions. When the result arrives, begin with ''
     @ [39]
     @ lit ''I got the results for...''
     @ [39]
     @ lit '' and ask the recommended next question.''),
       te_implementation = \<lparr> vi_run = run, vi_is_terminal = False \<rparr>,
       te_category = READ_ONLY \<rparr>"

definition record_answer_entry :: "(json \<Rightarrow> dict \<Rightarrow> json result) \<Rightarrow> voice_tool" where
  "record_answer_entry run =
     \<lparr> te_name = lit ''record_answer'',
       te_description = (lit ''Record a specific question asked during the conversation, the user''
     @ [39]
     @ lit ''s actual spoken response, and your normalized interpretation of it.''),
       te_prompt_instructions = (lit ''Call record_answer after each intake question once you have a clear response. Pass ''
     @ lit ''the exact question text, the user''
     @ [39]
     @ lit ''s spoken response verbatim, and your normalized interpretation (e.g. the enum value ''
     @ lit ''or derived fact).''),
       te_implementation = \<lparr> vi_run = run, vi_is_terminal = False \<rparr>,
       te_category = READ_ONLY \<rparr>"

definition warm_transfer_call_entry :: "(json \<Rightarrow> dict \<Rightarrow> json result) \<Rightarrow> voice_tool" where
  "warm_transfer_call_entry run =
     \<lparr> te_name = lit ''warm_transfer_call'',
       te_description = (lit ''Start a warm transfer by instructing the internal Rust SBC gateway to dial a ''
     @ lit ''destination phone number over the configured Twilio SIP trunk.''),
       te_prompt_instructions = (lit ''Call warm_transfer_call when the caller explicitly asks to be transferred to a ''
     @ lit ''person. Pass only a strict E.164 number (starts with + and country code). Confirm ''
     @ lit ''the number with the caller before calling this tool.''),
       te_implementation = \<lparr> vi_run = run, vi_is_terminal = False \<rparr>,
       te_category = MUTATIVE \<rparr>"

definition LEGACY_VOICE_TOOL_NAMES :: "str list" where
  "LEGACY_VOICE_TOOL_NAMES = [lit ''assess_employer_readiness'', lit ''end_conversation'', lit ''record_answer'']"

definition VOICE_TOOL_NAMES :: "str list" where
  "VOICE_TOOL_NAMES =
     [lit ''assess_employer_readiness'', lit ''end_conversation'', lit ''prepare_meeting_context'',
      lit ''record_answer'', lit ''warm_transfer_call'']"

definition voice_tool_registry :: "voice_env \<Rightarrow> voice_tool list" where
  "voice_tool_registry env =
     [assess_employer_readiness_entry (\<lambda>args cfg. rbind (AssessEmployerReadinessInput args) (\<lambda>i. assess_employer_readiness env i cfg)),
      end_conversation_entry end_conversation,
      prepare_meeting_context_entry (\<lambda>args cfg. rbind (PrepareMeetingContextInput args) (\<lambda>i. prepare_meeting_context env i cfg)),
      record_answer_entry record_answer,
      warm_transfer_call_entry (\<lambda>args cfg. rbind (WarmTransferCallInput args) (\<lambda>n. warm_transfer_call env n cfg))]"

text \<open>\<^verbatim>\<open>execute_json_async\<close>: validate, run, print the output model.\<close>

definition execute_json :: "voice_tool \<Rightarrow> json \<Rightarrow> dict \<Rightarrow> str result" where
  "execute_json e args tool_config =
     rbind (vi_run (te_implementation e) args tool_config) (\<lambda>v. Inr (dumps Pydantic v))"

definition voice_tool_terminal :: "voice_tool \<Rightarrow> bool" where
  "voice_tool_terminal e = vi_is_terminal (te_implementation e)"

section \<open>Recommendations\<close>

lemma format_plain:
  "list_all (\<lambda>c. c \<noteq> 123 \<and> c \<noteq> 125) t \<Longrightarrow>
     format_text field (t @ s) = rbind (format_text field s) (\<lambda>r. Inr (t @ r))"
proof (induction t)
  case (Cons c t)
  then have "format_text field (c # t @ s) = rbind (format_text field (t @ s)) (\<lambda>r. Inr (c # r))"
    by (simp add: format_text.simps(2))
  then show ?case using Cons by (cases "format_text field s") auto
qed (cases "format_text field s"; simp)

lemma field_end_plain: "list_all (\<lambda>c. c \<noteq> 123 \<and> c \<noteq> 125) f \<Longrightarrow> field_end 0 (f @ 125 # s) = Some (f, s)"
  by (induction f) auto

lemma format_field:
  assumes "list_all (\<lambda>c. c \<noteq> 123 \<and> c \<noteq> 125) f"
  shows "format_text field (123 # f @ 125 # s) = rbind (field f) (\<lambda>v. rbind (format_text field s) (\<lambda>r. Inr (v @ r)))"
proof -
  have "take 1 (f @ 125 # s) \<noteq> [123]" using assms by (cases f) auto
  then show ?thesis by (simp add: format_text.simps(2) field_end_plain [OF assms])
qed

lemma plain_names: "list_all (\<lambda>c. c \<noteq> 123 \<and> c \<noteq> 125) (lit ''top_risk'')" "list_all (\<lambda>c. c \<noteq> 123 \<and> c \<noteq> 125) (lit ''next_step'')"
  by code_simp+

lemma holes: "lit ''{top_risk}'' = 123 # lit ''top_risk'' @ [125]" "lit ''{next_step}'' = 123 # lit ''next_step'' @ [125]"
  by (simp_all add: lit_def)

text \<open>A template with the two fields, each once and in this order, speaks the risk and the step.\<close>

lemma render_template:
  assumes plain: "list_all (list_all (\<lambda>c. c \<noteq> 123 \<and> c \<noteq> 125)) [a, b, c]"
  shows "format_text (outcome_field env (JStr r) (JStr n)) (a @ lit ''{top_risk}'' @ b @ lit ''{next_step}'' @ c) = Inr (a @ r @ b @ n @ c)"
proof -
  let ?f = "outcome_field env (JStr r) (JStr n)"
  have p: "list_all (\<lambda>c. c \<noteq> 123 \<and> c \<noteq> 125) a" "list_all (\<lambda>c. c \<noteq> 123 \<and> c \<noteq> 125) b" "list_all (\<lambda>c. c \<noteq> 123 \<and> c \<noteq> 125) c"
    using plain by simp_all
  have "format_text ?f (c @ []) = Inr (c @ [])" using format_plain [OF p(3), of ?f "[]"] by simp
  then have "format_text ?f (lit ''{next_step}'' @ c) = Inr (n @ c)"
    using format_field [OF plain_names(2), of ?f c] by (simp add: holes outcome_field_def py_str_def)
  then have "format_text ?f (b @ lit ''{next_step}'' @ c) = Inr (b @ n @ c)"
    by (simp add: format_plain [OF p(2)])
  then have "format_text ?f (lit ''{top_risk}'' @ b @ lit ''{next_step}'' @ c) = Inr (r @ b @ n @ c)"
    using format_field [OF plain_names(1), of ?f "b @ lit ''{next_step}'' @ c"]
    by (simp add: holes outcome_field_def py_str_def)
  then show ?thesis by (simp add: format_plain [OF p(1)])
qed

lemma assess_spoken:
  assumes "outcomes_of cfg = Inr os" and "map_of os (lit ''paid_internship'') = Some fallback"
    and "dict_get os (select_outcome (rn_primary_problem i) (rn_partnership_status i) (rn_manager_capacity i) (rn_experience i)) fallback
      = spoken_outcome start r n a b c"
    and "list_all (list_all (\<lambda>c. c \<noteq> 123 \<and> c \<noteq> 125)) [a, b, c]"
  shows "assess_employer_readiness env i cfg =
    Inr (JObj [(lit ''recommended_starting_point'', JStr start), (lit ''top_risk'', JStr r),
               (lit ''next_step'', JStr n), (lit ''voice_response'', JStr (a @ r @ b @ n @ c))])"
  using assms(1-3) render_template [OF assms(4)]
  by (simp add: assess_employer_readiness_def Let_def get_item_def render_outcome_def spoken_outcome_def string_field_def)

lemma default_outcomes:
  assumes "map_of cfg (lit ''outcomes'') = None"
  shows "outcomes_of cfg = Inr DEFAULT_OUTCOMES"
  using assms by (simp add: outcomes_of_def dict_get_def)

lemma default_fallback: "\<exists>v. map_of DEFAULT_OUTCOMES (lit ''paid_internship'') = Some v"
  by (simp add: DEFAULT_OUTCOMES_def)

definition default_keys :: "str list" where
  "default_keys = [lit ''apprenticeship'', lit ''paid_internship'', lit ''job_shadowing'', lit ''retention_focus'', lit ''partnership_building'']"

lemma select_outcome_default: "select_outcome p q m w \<in> set default_keys"
  by (simp add: select_outcome_def default_keys_def)

lemma apprenticeship_iff:
  "select_outcome p q m w = lit ''apprenticeship'' \<longleftrightarrow> p \<noteq> RETENTION \<and> q = ACTIVE \<and> m = HIGH \<and> w = EXPERIENCED"
  by (cases q; cases m; cases w) (simp_all add: select_outcome_def)

text \<open>Every default outcome is a spoken one, and only the first recommends an apprenticeship.\<close>

definition speaks :: "str \<Rightarrow> json option \<Rightarrow> bool" where
  "speaks key v \<longleftrightarrow> (\<exists>start r n a b c. v = Some (spoken_outcome start r n a b c)
     \<and> list_all (list_all (\<lambda>c. c \<noteq> 123 \<and> c \<noteq> 125)) [a, b, c]
     \<and> (start = lit ''formal apprenticeship program'' \<longleftrightarrow> key = lit ''apprenticeship''))"

lemma speaksI:
  "list_all (list_all (\<lambda>c. c \<noteq> 123 \<and> c \<noteq> 125)) [a, b, c] \<Longrightarrow>
     (start = lit ''formal apprenticeship program'' \<longleftrightarrow> key = lit ''apprenticeship'') \<Longrightarrow>
     speaks key (Some (spoken_outcome start r n a b c))"
  unfolding speaks_def by blast

lemma default_spoken: "key \<in> set default_keys \<Longrightarrow> speaks key (map_of DEFAULT_OUTCOMES key)"
  unfolding default_keys_def DEFAULT_OUTCOMES_def
  by (simp only: set_simps insert_iff empty_iff simp_thms, elim disjE;
      simp; rule speaksI; code_simp)

lemma recommendation:
  assumes "map_of cfg (lit ''outcomes'') = None"
  shows "\<exists>start r n a b c. assess_employer_readiness env i cfg =
      Inr (JObj [(lit ''recommended_starting_point'', JStr start), (lit ''top_risk'', JStr r),
                 (lit ''next_step'', JStr n), (lit ''voice_response'', JStr (a @ r @ b @ n @ c))])
    \<and> (start = lit ''formal apprenticeship program'' \<longleftrightarrow>
         rn_primary_problem i \<noteq> RETENTION \<and> rn_partnership_status i = ACTIVE \<and> rn_manager_capacity i = HIGH
         \<and> rn_experience i = EXPERIENCED)"
proof -
  let ?key = "select_outcome (rn_primary_problem i) (rn_partnership_status i) (rn_manager_capacity i) (rn_experience i)"
  obtain fallback where f: "map_of DEFAULT_OUTCOMES (lit ''paid_internship'') = Some fallback"
    using default_fallback by blast
  have "speaks ?key (map_of DEFAULT_OUTCOMES ?key)" by (rule default_spoken [OF select_outcome_default])
  then obtain start r n a b c where s: "map_of DEFAULT_OUTCOMES ?key = Some (spoken_outcome start r n a b c)"
    "list_all (list_all (\<lambda>c. c \<noteq> 123 \<and> c \<noteq> 125)) [a, b, c]"
    "start = lit ''formal apprenticeship program'' \<longleftrightarrow> ?key = lit ''apprenticeship''"
    unfolding speaks_def by (elim exE conjE) (rule that)
  have "dict_get DEFAULT_OUTCOMES ?key fallback = spoken_outcome start r n a b c" using s(1) by (simp add: dict_get_def)
  note assess_spoken [OF default_outcomes [OF assms] f this s(2)]
  then show ?thesis using s(3) unfolding apprenticeship_iff by blast
qed

text \<open>
  Without outcomes of its own a persona always gets a recommendation, whose spoken text says the
  risk and the step it returns, and an apprenticeship is recommended exactly to an employer
  with active partnerships, high manager capacity and experience whose problem is not retention.
\<close>

theorem readiness_recommends:
  assumes "map_of cfg (lit ''outcomes'') = None"
  shows "\<exists>start r n a b c. assess_employer_readiness env i cfg =
      Inr (JObj [(lit ''recommended_starting_point'', JStr start), (lit ''top_risk'', JStr r),
                 (lit ''next_step'', JStr n), (lit ''voice_response'', JStr (a @ r @ b @ n @ c))])
    \<and> (start = lit ''formal apprenticeship program'' \<longleftrightarrow>
         rn_primary_problem i \<noteq> RETENTION \<and> rn_partnership_status i = ACTIVE \<and> rn_manager_capacity i = HIGH
         \<and> rn_experience i = EXPERIENCED)"
  using assms by (rule recommendation)

definition demo_readiness :: readiness_input where
  "demo_readiness = \<lparr> rn_company_size = lit ''large'', rn_industry = [], rn_primary_problem = HIRING,
     rn_partnership_status = ACTIVE, rn_manager_capacity = HIGH, rn_experience = EXPERIENCED \<rparr>"

definition no_voice_env :: voice_env where
  "no_voice_env = \<lparr> ve_runtime = no_runtime, ve_float = (\<lambda>v. Inr (lit ''1.0'')), ve_format_field = (\<lambda>f r n. Inl (KeyError f)),
     ve_meeting_model = (\<lambda>p m s u. Inr None), ve_transfer = (\<lambda>u p t. Inr ()), ve_openai_api_key = None,
     ve_anthropic_api_key = None, ve_prep_provider = lit ''openai'', ve_prep_model = lit ''m'', ve_prep_min_delay = lit ''0.0'' \<rparr>"

theorem readiness_recommends_witness:
  "\<exists>r n a b c. assess_employer_readiness no_voice_env demo_readiness [] =
      Inr (JObj [(lit ''recommended_starting_point'', JStr (lit ''formal apprenticeship program'')), (lit ''top_risk'', JStr r),
                 (lit ''next_step'', JStr n), (lit ''voice_response'', JStr (a @ r @ b @ n @ c))])"
proof -
  have "map_of ([] :: dict) (lit ''outcomes'') = None" by simp
  from readiness_recommends [OF this, of no_voice_env demo_readiness] show ?thesis
    by (fastforce simp: demo_readiness_def)
qed

text \<open>The registry holds the five tools under distinct names; only the first ends the call.\<close>

lemma voice_tool_registry_names: "map te_name (voice_tool_registry env) = VOICE_TOOL_NAMES"
  by (simp add: voice_tool_registry_def VOICE_TOOL_NAMES_def assess_employer_readiness_entry_def end_conversation_entry_def
      prepare_meeting_context_entry_def record_answer_entry_def warm_transfer_call_entry_def)

lemma distinct_voice_tool_names: "distinct VOICE_TOOL_NAMES"
  by (simp add: VOICE_TOOL_NAMES_def)

end
