(* ===== verification/Voice_Store.thy ===== *)
theory Voice_Store
  imports Voice_Tools Rag_Chat Invitations_Admin
begin

text \<open>
  The tables of the voice demo (\<^verbatim>\<open>app/models/voice.py\<close>), its configuration, persona and history
  routes (\<^verbatim>\<open>app/api/routes/voice.py\<close>), and the greeting that is written again after every change
  (\<^verbatim>\<open>app/services/voice/greeting.py\<close>). The admin routes take the experience from the path; the
  routes of the demo are the same handlers at its own experience, behind its access token. A
  handler that raises leaves the tables as they were. The last component of an answer names the
  experiences whose greeting a background task refreshes.
\<close>

section \<open>Tables\<close>

record voice_config =
  vc_id :: int
  vc_experience_id :: str
  vc_voice_name :: str
  vc_voice_provider :: "str option"
  vc_synthesized_greeting :: "str option"
  vc_greeting_synced_at :: "int option"
  vc_created_at :: int
  vc_updated_at :: int

record voice_persona =
  vp_id :: int
  vp_experience_id :: str
  vp_name :: str
  vp_name_key :: str
  vp_instructions :: str
  vp_capabilities :: "str option"
  vp_tool_config :: "str option"
  vp_tool_names :: "str option"
  vp_is_active :: bool
  vp_created_at :: int
  vp_updated_at :: int

text \<open>Seconds and dollars are the rationals the floats of the columns stand for.\<close>

record voice_record =
  vr_id :: int
  vr_experience_id :: str
  vr_call_sid :: str
  vr_provider :: str
  vr_voice :: str
  vr_started_at :: int
  vr_ended_at :: "int option"
  vr_duration_seconds :: "rat option"
  vr_input_audio_seconds :: "rat option"
  vr_output_audio_seconds :: "rat option"
  vr_estimated_cost_usd :: "rat option"
  vr_transcript :: str

record voice_db =
  vb_configs :: "voice_config list"
  vb_personas :: "voice_persona list"
  vb_records :: "voice_record list"
  vb_next_config :: int
  vb_next_persona :: int
  vb_next_record :: int
  vb_now :: int

definition empty_voice_db :: voice_db where
  "empty_voice_db = \<lparr> vb_configs = [], vb_personas = [], vb_records = [], vb_next_config = 1,
     vb_next_persona = 1, vb_next_record = 1, vb_now = 0 \<rparr>"

definition voice_integrity_error :: error where
  "voice_integrity_error = RuntimeError (lit ''IntegrityError'')"

definition voice_persona_key :: "voice_persona \<Rightarrow> str \<times> str \<times> bool" where
  "voice_persona_key p = (vp_experience_id p, vp_name_key p, vp_is_active p)"

text \<open>The unique constraints, checked when the rows are written.\<close>

definition commit_voice_personas :: "voice_persona list \<Rightarrow> voice_db \<Rightarrow> voice_db result" where
  "commit_voice_personas ps db =
     (if distinct (map voice_persona_key ps) then Inr (db\<lparr> vb_personas := ps \<rparr>) else Inl voice_integrity_error)"

definition commit_voice_configs :: "voice_config list \<Rightarrow> voice_db \<Rightarrow> voice_db result" where
  "commit_voice_configs cs db =
     (if distinct (map vc_experience_id cs) then Inr (db\<lparr> vb_configs := cs \<rparr>) else Inl voice_integrity_error)"

definition commit_voice_records :: "voice_record list \<Rightarrow> voice_db \<Rightarrow> voice_db result" where
  "commit_voice_records rs db =
     (if distinct (map vr_call_sid rs) then Inr (db\<lparr> vb_records := rs \<rparr>) else Inl voice_integrity_error)"

section \<open>Tool names of a persona\<close>

fun all_strings :: "json list \<Rightarrow> str list option" where
  "all_strings [] = Some []"
| "all_strings (JStr s # vs) = map_option ((#) s) (all_strings vs)"
| "all_strings (v # vs) = None"

definition parse_tool_names :: "str option \<Rightarrow> str list option" where
  "parse_tool_names raw =
     (case raw of
        None \<Rightarrow> None
      | Some s \<Rightarrow> (case loads s of Some (JArr vs) \<Rightarrow> all_strings vs | _ \<Rightarrow> None))"

definition persona_tool_names :: "voice_persona \<Rightarrow> str list" where
  "persona_tool_names p =
     (case parse_tool_names (vp_tool_names p) of None \<Rightarrow> LEGACY_VOICE_TOOL_NAMES | Some ns \<Rightarrow> ns)"

definition validate_voice_tool_names :: "voice_env \<Rightarrow> str list \<Rightarrow> unit result" where
  "validate_voice_tool_names env names =
     (if \<not> distinct names then Inl (HTTPException 400 (lit ''Duplicate voice tool names.''))
      else check_all (\<lambda>n. case get_tool (voice_tool_registry env) n of
               Inr _ \<Rightarrow> Inr ()
             | Inl _ \<Rightarrow> Inl (HTTPException 400 (lit ''Unknown voice tool: '' @ n))) names)"

definition serialize_tool_names :: "voice_env \<Rightarrow> str list option \<Rightarrow> str option result" where
  "serialize_tool_names env names =
     (case names of
        None \<Rightarrow> Inr None
      | Some ns \<Rightarrow> rbind (validate_voice_tool_names env ns) (\<lambda>_. Inr (Some (dumps Spaced (JArr (map JStr ns))))))"

section \<open>Requests and answers\<close>

record voice_persona_create =
  vq_name :: str
  vq_instructions :: str
  vq_capabilities :: "str option"
  vq_tool_config :: "str option"
  vq_tool_names :: "str list option"

record voice_persona_update =
  vu_instructions :: "str option"
  vu_capabilities :: "str option"
  vu_tool_config :: "str option"
  vu_tool_names :: "str list option"

record voice_config_upsert =
  vk_voice_name :: str
  vk_voice_provider :: "str option"

definition voice_persona_create_ok :: "voice_persona_create \<Rightarrow> bool" where
  "voice_persona_create_ok q \<longleftrightarrow> 1 \<le> length (vq_name q) \<and> length (vq_name q) \<le> 255
     \<and> 1 \<le> length (vq_instructions q) \<and> length (vq_instructions q) \<le> 16000
     \<and> at_most 8000 (vq_capabilities q) \<and> at_most 32000 (vq_tool_config q)"

definition voice_persona_update_ok :: "voice_persona_update \<Rightarrow> bool" where
  "voice_persona_update_ok u \<longleftrightarrow> vu_instructions u \<noteq> Some [] \<and> at_most 16000 (vu_instructions u)
     \<and> at_most 8000 (vu_capabilities u) \<and> at_most 32000 (vu_tool_config u)"

definition voice_config_upsert_ok :: "voice_config_upsert \<Rightarrow> bool" where
  "voice_config_upsert_ok u \<longleftrightarrow> 1 \<le> length (vk_voice_name u) \<and> length (vk_voice_name u) \<le> 128
     \<and> at_most 32 (vk_voice_provider u)"

record voice_persona_response =
  vs_persona :: voice_persona
  vs_tool_names :: "str list"

definition serialize_voice_persona :: "voice_persona \<Rightarrow> voice_persona_response" where
  "serialize_voice_persona p = \<lparr> vs_persona = p, vs_tool_names = persona_tool_names p \<rparr>"

type_synonym 'a answer = "('a \<times> voice_db \<times> str list) result"

section \<open>Configuration\<close>

definition config_of :: "str \<Rightarrow> voice_db \<Rightarrow> voice_config option" where
  "config_of e db = find_row vc_experience_id e (vb_configs db)"

definition admin_get_experience_config :: "str \<Rightarrow> voice_db \<Rightarrow> voice_config result" where
  "admin_get_experience_config e db =
     (case config_of e db of
        None \<Rightarrow> Inl (HTTPException 404 (lit ''No config found for this experience.''))
      | Some c \<Rightarrow> Inr c)"

definition new_config :: "voice_db \<Rightarrow> str \<Rightarrow> str \<Rightarrow> str option \<Rightarrow> voice_config" where
  "new_config db e name provider = \<lparr> vc_id = vb_next_config db, vc_experience_id = e, vc_voice_name = name,
     vc_voice_provider = provider, vc_synthesized_greeting = None, vc_greeting_synced_at = None,
     vc_created_at = vb_now db, vc_updated_at = vb_now db \<rparr>"

definition touched_config :: "voice_db \<Rightarrow> voice_config \<Rightarrow> voice_config \<Rightarrow> voice_config" where
  "touched_config db old new = (if new = old then old else new\<lparr> vc_updated_at := vb_now db \<rparr>)"

definition add_config :: "voice_config \<Rightarrow> voice_db \<Rightarrow> voice_db result" where
  "add_config c db =
     rbind (commit_voice_configs (vb_configs db @ [c]) db) (\<lambda>db1. Inr (db1\<lparr> vb_next_config := vb_next_config db + 1 \<rparr>))"

definition save_config :: "voice_config \<Rightarrow> voice_config \<Rightarrow> voice_db \<Rightarrow> (voice_config \<times> voice_db) result" where
  "save_config old new db =
     (let c = touched_config db old new
      in rbind (commit_voice_configs (update_row vc_id (vc_id old) (\<lambda>_. c) (vb_configs db)) db) (\<lambda>db1. Inr (c, db1)))"

definition admin_upsert_experience_config :: "str \<Rightarrow> voice_config_upsert \<Rightarrow> voice_db \<Rightarrow> voice_config answer" where
  "admin_upsert_experience_config e u db =
     rbind (checked_body (voice_config_upsert_ok u)) (\<lambda>_.
       case config_of e db of
         None \<Rightarrow>
           (let c = new_config db e (vk_voice_name u) (vk_voice_provider u)
            in rbind (add_config c db) (\<lambda>db1. Inr (c, db1, [e])))
       | Some c \<Rightarrow>
           rbind (save_config c (c\<lparr> vc_voice_name := vk_voice_name u, vc_voice_provider := vk_voice_provider u \<rparr>) db)
             (\<lambda>(c1, db1). Inr (c1, db1, [e])))"

definition admin_refresh_greeting :: "str \<Rightarrow> voice_db \<Rightarrow> voice_config answer" where
  "admin_refresh_greeting e db = rbind (admin_get_experience_config e db) (\<lambda>c. Inr (c, db, [e]))"

section \<open>Personas\<close>

definition active_personas :: "str \<Rightarrow> voice_db \<Rightarrow> voice_persona list" where
  "active_personas e db = filter (\<lambda>p. vp_experience_id p = e \<and> vp_is_active p) (vb_personas db)"

definition admin_list_personas :: "str \<Rightarrow> voice_db \<Rightarrow> voice_persona_response list" where
  "admin_list_personas e db = map serialize_voice_persona (sort_key vp_id (active_personas e db))"

definition voice_name_key :: "str \<Rightarrow> str" where
  "voice_name_key name = lower (join [32] (split_words (strip name)))"

definition new_voice_persona :: "voice_db \<Rightarrow> str \<Rightarrow> voice_persona_create \<Rightarrow> str option \<Rightarrow> voice_persona" where
  "new_voice_persona db e q names =
     \<lparr> vp_id = vb_next_persona db, vp_experience_id = e, vp_name = strip (vq_name q), vp_name_key = voice_name_key (vq_name q),
       vp_instructions = vq_instructions q, vp_capabilities = vq_capabilities q, vp_tool_config = vq_tool_config q,
       vp_tool_names = names, vp_is_active = True, vp_created_at = vb_now db, vp_updated_at = vb_now db \<rparr>"

definition admin_create_persona :: "voice_env \<Rightarrow> str \<Rightarrow> voice_persona_create \<Rightarrow> voice_db \<Rightarrow> voice_persona_response answer" where
  "admin_create_persona env e q db =
     rbind (checked_body (voice_persona_create_ok q)) (\<lambda>_.
       if find (\<lambda>p. vp_name_key p = voice_name_key (vq_name q)) (active_personas e db) \<noteq> None
          then Inl (HTTPException 409 (lit ''An active persona with this name already exists.''))
          else rbind (serialize_tool_names env (vq_tool_names q)) (\<lambda>names.
            let p = new_voice_persona db e q names
            in rbind (commit_voice_personas (vb_personas db @ [p]) db) (\<lambda>db1.
                 Inr (serialize_voice_persona p, db1\<lparr> vb_next_persona := vb_next_persona db + 1 \<rparr>, [e]))))"

definition get_voice_persona :: "str \<Rightarrow> int \<Rightarrow> voice_db \<Rightarrow> voice_persona result" where
  "get_voice_persona e i db =
     (case find_row vp_id i (vb_personas db) of
        Some p \<Rightarrow> if vp_experience_id p = e then Inr p else Inl (HTTPException 404 (lit ''Persona not found.''))
      | None \<Rightarrow> Inl (HTTPException 404 (lit ''Persona not found.'')))"

definition save_voice_persona :: "voice_persona \<Rightarrow> voice_persona \<Rightarrow> voice_db \<Rightarrow> voice_persona_response answer" where
  "save_voice_persona old new db =
     (let p = (if new = old then old else new\<lparr> vp_updated_at := vb_now db \<rparr>)
      in rbind (commit_voice_personas (update_row vp_id (vp_id old) (\<lambda>_. p) (vb_personas db)) db) (\<lambda>db1.
           Inr (serialize_voice_persona p, db1, [vp_experience_id old])))"

definition updated_persona :: "voice_persona_update \<Rightarrow> str option \<Rightarrow> voice_persona \<Rightarrow> voice_persona" where
  "updated_persona u names p =
     p\<lparr> vp_instructions := (case vu_instructions u of None \<Rightarrow> vp_instructions p | Some s \<Rightarrow> s),
        vp_capabilities := (case vu_capabilities u of None \<Rightarrow> vp_capabilities p | Some s \<Rightarrow> Some s),
        vp_tool_config := (case vu_tool_config u of None \<Rightarrow> vp_tool_config p | Some s \<Rightarrow> Some s),
        vp_tool_names := (if vu_tool_names u = None then vp_tool_names p else names) \<rparr>"

definition admin_update_persona ::
  "voice_env \<Rightarrow> str \<Rightarrow> int \<Rightarrow> voice_persona_update \<Rightarrow> voice_db \<Rightarrow> voice_persona_response answer"
where
  "admin_update_persona env e i u db =
     rbind (checked_body (voice_persona_update_ok u)) (\<lambda>_.
     rbind (get_voice_persona e i db) (\<lambda>p.
     rbind (serialize_tool_names env (vu_tool_names u)) (\<lambda>names.
       save_voice_persona p (updated_persona u names p) db)))"

definition admin_deactivate_persona :: "str \<Rightarrow> int \<Rightarrow> voice_db \<Rightarrow> voice_persona_response answer" where
  "admin_deactivate_persona e i db =
     rbind (get_voice_persona e i db) (\<lambda>p. save_voice_persona p (p\<lparr> vp_is_active := False \<rparr>) db)"

text \<open>The persona a stream runs with: the one asked for, or the first active one.\<close>

definition get_active_persona_or_503 :: "voice_db \<Rightarrow> str \<Rightarrow> int option \<Rightarrow> voice_persona result" where
  "get_active_persona_or_503 db e persona_id =
     (case persona_id of
        Some i \<Rightarrow>
          (case find_row vp_id i (active_personas e db) of
             None \<Rightarrow> Inl (HTTPException 404 (lit ''Persona not found.''))
           | Some p \<Rightarrow> Inr p)
      | None \<Rightarrow>
          (case sort_key vp_id (active_personas e db) of
             [] \<Rightarrow> Inl (HTTPException 503 (lit ''No active voice persona configured for this experience.''))
           | p # ps \<Rightarrow> Inr p))"

section \<open>Conversation history\<close>

record voice_summary =
  sm_record :: voice_record
  sm_entry_count :: nat

text \<open>\<^verbatim>\<open>len(json.loads(text))\<close>, an empty list when the text is no JSON.\<close>

definition transcript_of :: "voice_record \<Rightarrow> json" where
  "transcript_of r = (case loads (vr_transcript r) of None \<Rightarrow> JArr [] | Some v \<Rightarrow> v)"

definition json_len :: "json \<Rightarrow> nat result" where
  "json_len v =
     (case v of
        JArr xs \<Rightarrow> Inr (length xs)
      | JObj d \<Rightarrow> Inr (length d)
      | JStr s \<Rightarrow> Inr (length s)
      | _ \<Rightarrow> Inl (TypeError (lit ''object has no len()'')))"

definition serialize_history_summary :: "voice_record \<Rightarrow> voice_summary result" where
  "serialize_history_summary r =
     rbind (json_len (transcript_of r)) (\<lambda>n. Inr \<lparr> sm_record = r, sm_entry_count = n \<rparr>)"

fun all_dicts :: "json list \<Rightarrow> dict list option" where
  "all_dicts [] = Some []"
| "all_dicts (JObj d # vs) = map_option ((#) d) (all_dicts vs)"
| "all_dicts (v # vs) = None"

definition serialize_history_detail :: "voice_record \<Rightarrow> (voice_summary \<times> dict list) result" where
  "serialize_history_detail r =
     rbind (serialize_history_summary r) (\<lambda>s.
       case transcript_of r of
         JArr vs \<Rightarrow> (case all_dicts vs of None \<Rightarrow> Inl validation_error | Some ds \<Rightarrow> Inr (s, ds))
       | _ \<Rightarrow> Inl validation_error)"

section \<open>The routes of the demo\<close>

definition VOICE_EXPERIENCE :: str where
  "VOICE_EXPERIENCE = experience_value VOICE_DEMO"

definition voice_access :: "access_token_claims \<Rightarrow> access_token_claims result" where
  "voice_access claims = require_experience_access VOICE_DEMO claims"

definition PROVIDER_VOICES :: "(str \<times> str list) list" where
  "PROVIDER_VOICES =
     [(lit ''xai'', [lit ''eve'', lit ''ara'', lit ''rex'', lit ''sal'', lit ''leo'']),
      (lit ''openai'', [lit ''marin'', lit ''cedar'', lit ''alloy'', lit ''ash'', lit ''ballad'', lit ''coral'', lit ''echo'',
                      lit ''sage'', lit ''shimmer'', lit ''verse''])]"

definition PROVIDER_NAMES :: "(str \<times> str) list" where
  "PROVIDER_NAMES = [(lit ''xai'', lit ''xAI''), (lit ''openai'', lit ''OpenAI'')]"

record voice_provider_info =
  vf_provider_id :: str
  vf_provider_name :: str
  vf_voices :: "str list"

definition list_voice_providers :: "access_token_claims \<Rightarrow> voice_provider_info list result" where
  "list_voice_providers claims =
     rbind (voice_access claims) (\<lambda>_. Inr (map (\<lambda>(pid, voices).
       \<lparr> vf_provider_id = pid, vf_provider_name = (case map_of PROVIDER_NAMES pid of None \<Rightarrow> [] | Some n \<Rightarrow> n),
         vf_voices = voices \<rparr>) PROVIDER_VOICES))"

definition list_voice_tools :: "voice_env \<Rightarrow> access_token_claims \<Rightarrow> (str \<times> str \<times> bool) list result" where
  "list_voice_tools env claims =
     rbind (voice_access claims) (\<lambda>_.
     rbind (resolve_tools (voice_tool_registry env) (Some VOICE_TOOL_NAMES)) (\<lambda>es.
       Inr (map (\<lambda>e. (te_name e, te_description e, voice_tool_terminal e)) es)))"

definition list_conversation_history :: "access_token_claims \<Rightarrow> int \<Rightarrow> int \<Rightarrow> voice_db \<Rightarrow> voice_summary list result" where
  "list_conversation_history claims limit offset db =
     rbind (voice_access claims) (\<lambda>_.
     rbind (checked_body (1 \<le> limit \<and> limit \<le> 100 \<and> 0 \<le> offset)) (\<lambda>_.
       collect_results (map serialize_history_summary
         (take (nat limit) (drop (nat offset) (sort_key (\<lambda>r. - vr_started_at r)
           (filter (\<lambda>r. vr_experience_id r = VOICE_EXPERIENCE) (vb_records db))))))))"

definition get_conversation_detail :: "access_token_claims \<Rightarrow> int \<Rightarrow> voice_db \<Rightarrow> (voice_summary \<times> dict list) result" where
  "get_conversation_detail claims i db =
     rbind (voice_access claims) (\<lambda>_.
       case find_row vr_id i (vb_records db) of
         Some r \<Rightarrow> if vr_experience_id r = VOICE_EXPERIENCE then serialize_history_detail r
                   else Inl (HTTPException 404 (lit ''Conversation not found.''))
       | None \<Rightarrow> Inl (HTTPException 404 (lit ''Conversation not found.'')))"

definition get_voice_config :: "access_token_claims \<Rightarrow> voice_db \<Rightarrow> voice_config result" where
  "get_voice_config claims db =
     rbind (voice_access claims) (\<lambda>_.
       case config_of VOICE_EXPERIENCE db of
         None \<Rightarrow> Inl (HTTPException 404 (lit ''Voice experience not configured yet.''))
       | Some c \<Rightarrow> Inr c)"

definition upsert_voice_config :: "access_token_claims \<Rightarrow> voice_config_upsert \<Rightarrow> voice_db \<Rightarrow> voice_config answer" where
  "upsert_voice_config claims u db =
     rbind (voice_access claims) (\<lambda>_. admin_upsert_experience_config VOICE_EXPERIENCE u db)"

definition list_voice_personas :: "access_token_claims \<Rightarrow> voice_db \<Rightarrow> voice_persona_response list result" where
  "list_voice_personas claims db = rbind (voice_access claims) (\<lambda>_. Inr (admin_list_personas VOICE_EXPERIENCE db))"

definition create_voice_persona ::
  "voice_env \<Rightarrow> access_token_claims \<Rightarrow> voice_persona_create \<Rightarrow> voice_db \<Rightarrow> voice_persona_response answer"
where
  "create_voice_persona env claims q db = rbind (voice_access claims) (\<lambda>_. admin_create_persona env VOICE_EXPERIENCE q db)"

definition update_voice_persona ::
  "voice_env \<Rightarrow> access_token_claims \<Rightarrow> int \<Rightarrow> voice_persona_update \<Rightarrow> voice_db \<Rightarrow> voice_persona_response answer"
where
  "update_voice_persona env claims i u db = rbind (voice_access claims) (\<lambda>_. admin_update_persona env VOICE_EXPERIENCE i u db)"

definition deactivate_voice_persona :: "access_token_claims \<Rightarrow> int \<Rightarrow> voice_db \<Rightarrow> voice_persona_response answer" where
  "deactivate_voice_persona claims i db = rbind (voice_access claims) (\<lambda>_. admin_deactivate_persona VOICE_EXPERIENCE i db)"

text \<open>The admin router checks its secret before every route.\<close>

definition voice_admin_route :: "str option \<Rightarrow> security_settings \<Rightarrow> 'a result \<Rightarrow> 'a result" where
  "voice_admin_route header settings body = rbind (require_admin_secret header settings) (\<lambda>_. body)"

section \<open>The greeting\<close>

definition SYNTHESIS_SYSTEM_PROMPT :: str where
  "SYNTHESIS_SYSTEM_PROMPT =
     lit ''You write short, natural voice greetings for an AI phone advisor. The greeting must ''
     @ lit ''be one or two sentences. It should state the advisor''
     @ [39]
     @ lit ''s name, briefly mention what help is available, and end with an open question. Do ''
     @ lit ''not use bullet points, markdown, or any formatting. Write as spoken words only.''"

record greeting_settings =
  gs_provider :: str
  gs_model :: str
  gs_openai_api_key :: "str option"
  gs_anthropic_api_key :: "str option"

text \<open>
  The completion is a parameter: provider, model, system and user prompt to the content. OpenAI
  may answer without one; a block of Anthropic without text counts as empty.
\<close>

type_synonym greeting_model = "str \<Rightarrow> str \<Rightarrow> str \<Rightarrow> str \<Rightarrow> str option result"

definition call_llm :: "greeting_model \<Rightarrow> greeting_settings \<Rightarrow> str \<Rightarrow> str result" where
  "call_llm ask settings prompt =
     (let answer = rbind (ask (gs_provider settings) (gs_model settings) SYNTHESIS_SYSTEM_PROMPT prompt)
                     (\<lambda>content. Inr (strip (str_or content [])));
          required = lit '' required for voice greeting synthesis''
      in if gs_provider settings = lit ''openai'' then
           (if \<not> truthy (gs_openai_api_key settings) then Inl (ValueError (lit ''OPENAI_API_KEY'' @ required)) else answer)
         else if gs_provider settings = lit ''anthropic'' then
           (if \<not> truthy (gs_anthropic_api_key settings) then Inl (ValueError (lit ''ANTHROPIC_API_KEY'' @ required)) else answer)
         else Inl (ValueError (lit ''Unsupported voice greeting provider: '' @ gs_provider settings)))"

definition fallback_greeting :: "voice_config \<Rightarrow> voice_persona list \<Rightarrow> str" where
  "fallback_greeting c ps =
     (let names = map vp_name ps; hi = lit ''Hi, I'' @ [39] @ lit ''m '' @ vc_voice_name c @ lit ''. I can help with ''
      in case names of
           [n] \<Rightarrow> hi @ n @ lit ''. What can I help you with today?''
         | _ \<Rightarrow> hi @ join (lit '', '') (butlast names) @ lit '', or '' @ last names @ lit ''. What are you looking for today?'')"

definition greeting_prompt :: "voice_config \<Rightarrow> voice_persona list \<Rightarrow> str" where
  "greeting_prompt c ps =
     (let parts = map (\<lambda>p. str_or (vp_capabilities p) (vp_name p)) ps;
          who = lit ''Write a greeting for a voice advisor named '' @ vc_voice_name c @ lit ''. ''
      in case parts of
           [x] \<Rightarrow> who @ lit ''Capabilities: '' @ x
         | _ \<Rightarrow> who @ lit ''It can help with multiple things: '' @ join (lit ''; '') parts)"

definition synthesize_greeting :: "greeting_model \<Rightarrow> greeting_settings \<Rightarrow> voice_config \<Rightarrow> voice_persona list \<Rightarrow> str" where
  "synthesize_greeting ask settings c ps =
     (if ps = [] then lit ''Hi, I'' @ [39] @ lit ''m '' @ vc_voice_name c @ lit ''. How can I help you today?''
      else case call_llm ask settings (greeting_prompt c ps) of
             Inl _ \<Rightarrow> fallback_greeting c ps
           | Inr s \<Rightarrow> s)"

text \<open>A missing configuration is added first; \<open>clock\<close> is the time the greeting is stored with.\<close>

definition refresh_greeting_if_needed :: "greeting_model \<Rightarrow> greeting_settings \<Rightarrow> int \<Rightarrow> str \<Rightarrow> voice_db \<Rightarrow> voice_db result" where
  "refresh_greeting_if_needed ask settings clock e db =
     rbind (case config_of e db of
              Some c \<Rightarrow> Inr (c, db)
            | None \<Rightarrow> (let c = new_config db e (lit ''Assistant'') None in rbind (add_config c db) (\<lambda>db1. Inr (c, db1))))
       (\<lambda>(c, db1).
         let greeting = synthesize_greeting ask settings c (active_personas e db1)
         in rbind (save_config c (c\<lparr> vc_synthesized_greeting := Some greeting, vc_greeting_synced_at := Some clock \<rparr>) db1)
              (\<lambda>(c1, db2). Inr db2))"

end
