(* ===== verification/Voice_Client.thy ===== *)
theory Voice_Client
  imports Voice_Audio Voice_Store
begin

text \<open>
  The realtime clients of the voice demo (\<^verbatim>\<open>app/services/voice/base_client.py\<close>, \<^verbatim>\<open>openai_client.py\<close>,
  \<^verbatim>\<open>xai_client.py\<close>, \<^verbatim>\<open>factory.py\<close>, \<^verbatim>\<open>cost.py\<close>): the commands of the bridge as messages on the wire,
  and the events of the provider as the bridge reads them. The connection itself is a parameter
  of the demo. A field that the protocol declares as a string is read as one; anything else counts
  as absent.
\<close>

section \<open>The factory\<close>

datatype voice_client =
    XaiVoiceClient (client_api_key: str) (client_model: str)
  | OpenAiVoiceClient (client_api_key: str) (client_model: str)

record voice_settings =
  vt_voice_provider :: str
  vt_openai_api_key :: "str option"
  vt_xai_api_key :: "str option"

definition PROVIDER_MODELS :: "(str \<times> str) list" where
  "PROVIDER_MODELS = [(lit ''xai'', lit ''grok-voice-think-fast-1.0''), (lit ''openai'', lit ''gpt-realtime-2'')]"

definition get_voice_client :: "voice_settings \<Rightarrow> str option \<Rightarrow> voice_client result" where
  "get_voice_client settings override =
     (let provider = lower (str_or override (vt_voice_provider settings))
      in case map_of PROVIDER_MODELS provider of
           None \<Rightarrow> Inl (ValueError (lit ''Unknown VOICE_PROVIDER: '' @ provider))
         | Some model \<Rightarrow>
             if provider = lit ''openai'' then
               (if \<not> truthy (vt_openai_api_key settings)
                then Inl (RuntimeError (lit ''OPENAI_API_KEY is required when VOICE_PROVIDER=openai''))
                else Inr (OpenAiVoiceClient (the (vt_openai_api_key settings)) model))
             else if \<not> truthy (vt_xai_api_key settings)
             then Inl (RuntimeError (lit ''XAI_API_KEY is required when VOICE_PROVIDER=xai''))
             else Inr (XaiVoiceClient (the (vt_xai_api_key settings)) model))"

text \<open>Dollars per second; \<open>round_to\<close> is \<^verbatim>\<open>round\<close> of the float next to the value.\<close>

definition rate_per_second :: "str \<Rightarrow> rat" where
  "rate_per_second provider =
     (if provider = lit ''xai'' then 3 / 3600 else if provider = lit ''openai'' then 225 / 60000 else 0)"

definition estimate_cost :: "(nat \<Rightarrow> rat \<Rightarrow> rat) \<Rightarrow> str \<Rightarrow> rat \<Rightarrow> rat" where
  "estimate_cost round_to provider total_seconds = round_to 6 (total_seconds * rate_per_second (lower provider))"

section \<open>Commands and the wire\<close>

datatype voice_command =
    ConfigureSession str "json list" str
  | StartResponse
  | CancelResponse
  | SendAudio str
  | SendToolResult str str

definition typed :: "str \<Rightarrow> dict \<Rightarrow> json" where
  "typed t d = JObj ((lit ''type'', JStr t) # d)"

definition turn_detection :: json where
  "turn_detection = JObj [(lit ''type'', JStr (lit ''server_vad'')), (lit ''threshold'', JFloat (lit ''0.85'')),
     (lit ''silence_duration_ms'', JInt 0)]"

definition audio_format :: "str \<Rightarrow> int \<Rightarrow> json" where
  "audio_format t rate = JObj [(lit ''type'', JStr t), (lit ''rate'', JInt rate)]"

definition xai_session :: "str \<Rightarrow> json list \<Rightarrow> str \<Rightarrow> json \<Rightarrow> json" where
  "xai_session instructions tools voice fmt =
     typed (lit ''session.update'') [(lit ''session'', JObj [
       (lit ''voice'', JStr voice), (lit ''instructions'', JStr instructions),
       (lit ''input_audio_transcription'', JObj [(lit ''model'', JStr (lit ''grok-2-audio''))]),
       (lit ''turn_detection'', turn_detection), (lit ''tools'', JArr tools),
       (lit ''audio'', JObj [(lit ''input'', JObj [(lit ''format'', fmt)]), (lit ''output'', JObj [(lit ''format'', fmt)])])])]"

definition openai_session :: "str \<Rightarrow> str \<Rightarrow> json list \<Rightarrow> str \<Rightarrow> json" where
  "openai_session model instructions tools voice =
     (let fmt = audio_format (lit ''audio/pcm'') 24000
      in typed (lit ''session.update'') [(lit ''session'', JObj [
           (lit ''type'', JStr (lit ''realtime'')), (lit ''model'', JStr model),
           (lit ''instructions'', JStr (instructions @ [10, 10]
              @ lit ''Respond only in English unless the user explicitly asks for another language.'')),
           (lit ''output_modalities'', JArr [JStr (lit ''audio'')]), (lit ''tools'', JArr tools),
           (lit ''audio'', JObj [
             (lit ''input'', JObj [(lit ''format'', fmt),
               (lit ''transcription'', JObj [(lit ''model'', JStr (lit ''gpt-4o-mini-transcribe'')),
                                           (lit ''language'', JStr (lit ''en''))]),
               (lit ''turn_detection'', turn_detection)]),
             (lit ''output'', JObj [(lit ''format'', fmt), (lit ''voice'', JStr voice)])])])])"

definition append_audio :: "str \<Rightarrow> json" where
  "append_audio audio = typed (lit ''input_audio_buffer.append'') [(lit ''audio'', JStr audio)]"

text \<open>The messages of one command; the bridge asks for 8 kHz mu-law, which the OpenAI client converts.\<close>

fun wire :: "voice_client \<Rightarrow> voice_command \<Rightarrow> json list result" where
  "wire (XaiVoiceClient key model) (ConfigureSession instructions tools voice) =
     Inr [xai_session instructions tools voice (audio_format (lit ''audio/pcmu'') 8000)]"
| "wire (OpenAiVoiceClient key model) (ConfigureSession instructions tools voice) =
     Inr [openai_session model instructions tools voice]"
| "wire client StartResponse = Inr [typed (lit ''response.create'') []]"
| "wire client CancelResponse = Inr [typed (lit ''response.cancel'') []]"
| "wire (XaiVoiceClient key model) (SendAudio audio) = Inr [append_audio audio]"
| "wire (OpenAiVoiceClient key model) (SendAudio audio) =
     (case mulaw_8khz_b64_to_pcm16_24khz_b64 audio of
        None \<Rightarrow> Inl (ValueError (lit ''Incorrect padding''))
      | Some pcm \<Rightarrow> Inr [append_audio pcm])"
| "wire client (SendToolResult call_id output) =
     Inr [typed (lit ''conversation.item.create'') [(lit ''item'', typed (lit ''function_call_output'')
            [(lit ''call_id'', JStr call_id), (lit ''output'', JStr output)])],
          typed (lit ''response.create'') []]"

section \<open>Events\<close>

definition OPENAI_EVENT_REMAP :: "(str \<times> str) list" where
  "OPENAI_EVENT_REMAP =
     [(lit ''response.audio.delta'', lit ''response.output_audio.delta''),
      (lit ''response.audio_transcript.delta'', lit ''response.output_audio_transcript.delta''),
      (lit ''response.audio_transcript.done'', lit ''response.output_audio_transcript.done'')]"

definition string_at :: "dict \<Rightarrow> str \<Rightarrow> str option" where
  "string_at d k = (case map_of d k of Some (JStr s) \<Rightarrow> Some s | _ \<Rightarrow> None)"

definition text_at :: "dict \<Rightarrow> str \<Rightarrow> str" where
  "text_at d k = str_or (string_at d k) []"

text \<open>A call of \<^verbatim>\<open>get\<close> on what is no object.\<close>

definition no_get :: error where
  "no_get = AttributeError (lit ''object has no attribute '' @ [39] @ lit ''get'' @ [39])"

text \<open>\<^verbatim>\<open>receive\<close>: the OpenAI client renames events and converts the audio of the answer.\<close>

definition renamed :: "dict \<Rightarrow> dict" where
  "renamed d = (case map_of OPENAI_EVENT_REMAP (text_at d (lit ''type'')) of
      None \<Rightarrow> d | Some t \<Rightarrow> dict_set d (lit ''type'') (JStr t))"

fun received :: "voice_client \<Rightarrow> json \<Rightarrow> json result" where
  "received (XaiVoiceClient key model) v = Inr v"
| "received (OpenAiVoiceClient key model) (JObj d) =
     (let e = renamed d
      in if text_at e (lit ''type'') = lit ''response.output_audio.delta'' \<and> text_at e (lit ''delta'') \<noteq> []
         then (case pcm16_24khz_b64_to_mulaw_8khz_b64 (text_at e (lit ''delta'')) of
                 None \<Rightarrow> Inl (ValueError (lit ''Incorrect padding''))
               | Some mulaw \<Rightarrow> Inr (JObj (dict_set e (lit ''delta'') (JStr mulaw))))
         else Inr (JObj e))"
| "received (OpenAiVoiceClient key model) v = Inl no_get"

datatype provider_event =
    ResponseCreated "str option"
  | SpeechStarted
  | AudioDelta "str option" str
  | TranscriptDelta str
  | UserSaid str
  | ArgumentsDelta str str str
  | ArgumentsDone str str str
  | ResponseDone
  | OtherEvent
  | EventNotAnObject

definition response_id_of :: "dict \<Rightarrow> str option" where
  "response_id_of d = (case map_of d (lit ''response'') of Some (JObj r) \<Rightarrow> string_at r (lit ''id'') | _ \<Rightarrow> None)"

definition event_of_dict :: "dict \<Rightarrow> provider_event" where
  "event_of_dict d =
     (let t = text_at d (lit ''type'')
      in if t = lit ''response.created'' then ResponseCreated (response_id_of d)
         else if t = lit ''input_audio_buffer.speech_started'' then SpeechStarted
         else if t = lit ''response.output_audio.delta'' then AudioDelta (string_at d (lit ''response_id'')) (text_at d (lit ''delta''))
         else if t = lit ''response.output_audio_transcript.delta'' \<or> t = lit ''response.text.delta''
         then TranscriptDelta (text_at d (lit ''delta''))
         else if t = lit ''conversation.item.input_audio_transcription.completed'' then UserSaid (text_at d (lit ''transcript''))
         else if t = lit ''response.function_call_arguments.delta''
         then ArgumentsDelta (text_at d (lit ''call_id'')) (text_at d (lit ''name'')) (text_at d (lit ''delta''))
         else if t = lit ''response.function_call_arguments.done''
         then ArgumentsDone (text_at d (lit ''call_id'')) (text_at d (lit ''name'')) (text_at d (lit ''arguments''))
         else if t = lit ''response.done'' then ResponseDone
         else OtherEvent)"

definition read_provider_event :: "json \<Rightarrow> provider_event" where
  "read_provider_event v = (case v of JObj d \<Rightarrow> event_of_dict d | _ \<Rightarrow> EventNotAnObject)"

datatype twilio_message =
    StreamStart str str
  | StreamMedia str
  | StreamStop
  | OtherMessage
  | MessageNotAnObject

text \<open>\<^verbatim>\<open>get(key, {})\<close>, when it is an object or missing.\<close>

definition object_at :: "dict \<Rightarrow> str \<Rightarrow> dict option" where
  "object_at d k = (case map_of d k of None \<Rightarrow> Some [] | Some (JObj o1) \<Rightarrow> Some o1 | _ \<Rightarrow> None)"

text \<open>What is no JSON is skipped; JSON that is no object, or whose part is none, raises at its \<^verbatim>\<open>get\<close>.\<close>

definition read_twilio_message :: "str \<Rightarrow> twilio_message" where
  "read_twilio_message raw =
     (case loads raw of
        None \<Rightarrow> OtherMessage
      | Some (JObj d) \<Rightarrow>
          (let e = text_at d (lit ''event'')
           in if e = lit ''start''
              then (case object_at d (lit ''start'') of None \<Rightarrow> MessageNotAnObject
                    | Some start \<Rightarrow> StreamStart (text_at start (lit ''callSid'')) (text_at start (lit ''streamSid'')))
              else if e = lit ''media''
              then (case object_at d (lit ''media'') of None \<Rightarrow> MessageNotAnObject
                    | Some media \<Rightarrow> StreamMedia (text_at media (lit ''payload'')))
              else if e = lit ''stop'' then StreamStop
              else OtherMessage)
      | Some v \<Rightarrow> MessageNotAnObject)"

end
