(* ===== verification/Voice_System.thy ===== *)
theory Voice_System
  imports Voice_Store
begin

text \<open>
  The requests on the voice tables as a transition system: the unique constraints and the tool
  names of every persona hold in all states it reaches, so that a stream can always build the
  registry of its persona.
\<close>

section \<open>Tool names\<close>

lemma all_strings_map: "all_strings (map JStr ns) = Some ns"
  by (induction ns) auto

lemma tool_name_valid: "n \<in> set VOICE_TOOL_NAMES \<Longrightarrow> valid_str n"
  by (auto simp: VOICE_TOOL_NAMES_def)

lemma get_voice_tool: "n \<in> set VOICE_TOOL_NAMES \<longleftrightarrow> (\<exists>e. get_tool (voice_tool_registry env) n = Inr e)"
  unfolding get_tool_known by (metis set_map voice_tool_registry_names)

definition tool_names_ok :: "str list \<Rightarrow> bool" where
  "tool_names_ok ns \<longleftrightarrow> distinct ns \<and> set ns \<subseteq> set VOICE_TOOL_NAMES"

lemma validate_voice_tool_names_iff: "validate_voice_tool_names env ns = Inr () \<longleftrightarrow> tool_names_ok ns"
proof -
  have "(case get_tool (voice_tool_registry env) n of Inl _ \<Rightarrow> Inl (HTTPException 400 (lit ''Unknown voice tool: '' @ n)) | Inr _ \<Rightarrow> Inr ()) = Inr ()
      \<longleftrightarrow> n \<in> set VOICE_TOOL_NAMES" for n
    using get_voice_tool [of n env] by (auto split: sum.splits)
  then show ?thesis by (auto simp: validate_voice_tool_names_def tool_names_ok_def check_all_Inr)
qed

lemma parse_serialize_tool_names:
  assumes "serialize_tool_names env (Some ns) = Inr v"
  shows "parse_tool_names v = Some ns" and "tool_names_ok ns"
proof -
  have v: "v = Some (dumps Spaced (JArr (map JStr ns)))" and ok: "validate_voice_tool_names env ns = Inr ()"
    using assms by (auto simp: serialize_tool_names_def rbind_eq_Inr)
  show "tool_names_ok ns" using ok by (simp add: validate_voice_tool_names_iff)
  then have "json_ok (JArr (map JStr ns))" by (auto simp: tool_names_ok_def tool_name_valid list_all_iff)
  then show "parse_tool_names v = Some ns" by (simp add: v parse_tool_names_def loads_dumps all_strings_map del: dumps.simps)
qed

definition persona_tools_ok :: "voice_persona \<Rightarrow> bool" where
  "persona_tools_ok p \<longleftrightarrow> tool_names_ok (persona_tool_names p)"

lemma legacy_tools_ok: "tool_names_ok LEGACY_VOICE_TOOL_NAMES"
  by (auto simp: tool_names_ok_def LEGACY_VOICE_TOOL_NAMES_def VOICE_TOOL_NAMES_def)

lemma serialized_tools_ok:
  assumes "serialize_tool_names env names = Inr v" and "vp_tool_names p = v"
  shows "persona_tools_ok p"
proof (cases names)
  case None
  then show ?thesis using assms
    by (simp add: persona_tools_ok_def persona_tool_names_def serialize_tool_names_def parse_tool_names_def legacy_tools_ok)
next
  case (Some ns)
  then show ?thesis using parse_serialize_tool_names [of env ns v] assms
    by (simp add: persona_tools_ok_def persona_tool_names_def)
qed

text \<open>A registry scoped to valid names exists and holds exactly those tools.\<close>

lemma get_tools_names: "get_tools reg ns = Inr es \<Longrightarrow> map te_name es = ns \<and> set es \<subseteq> set reg"
  by (induction ns arbitrary: es) (auto simp: rbind_eq_Inr dest: get_tool_Inr)

lemma get_tools_exist: "\<forall>n \<in> set ns. \<exists>e. get_tool reg n = Inr e \<Longrightarrow> \<exists>es. get_tools reg ns = Inr es"
  by (induction ns) auto

lemma add_voice_entries:
  "distinct (map te_name (reg @ es)) \<Longrightarrow> add_entries reg es = Inr (reg @ es)"
  by (induction es arbitrary: reg) auto

lemma scoped_exists:
  assumes "tool_names_ok ns"
  obtains es where "scoped (voice_tool_registry env) ns = Inr es" "map te_name es = ns" "set es \<subseteq> set (voice_tool_registry env)"
proof -
  have "\<forall>n \<in> set ns. \<exists>e. get_tool (voice_tool_registry env) n = Inr e"
    using assms get_voice_tool [of _ env] by (auto simp: tool_names_ok_def)
  then obtain es where es: "get_tools (voice_tool_registry env) ns = Inr es" using get_tools_exist by blast
  then have n: "map te_name es = ns" "set es \<subseteq> set (voice_tool_registry env)" using get_tools_names by blast+
  moreover have "distinct (map te_name ([] @ es))" using n assms by (simp add: tool_names_ok_def)
  ultimately have "scoped (voice_tool_registry env) ns = Inr es"
    using es add_voice_entries [of "[]" es] by (simp add: scoped_def resolve_tools_def ToolRegistry_def)
  then show ?thesis using that n by blast
qed

section \<open>The invariant\<close>

definition configs_ok :: "voice_db \<Rightarrow> bool" where
  "configs_ok db \<longleftrightarrow> distinct (map vc_id (vb_configs db)) \<and> (\<forall>c \<in> set (vb_configs db). vc_id c < vb_next_config db)
     \<and> distinct (map vc_experience_id (vb_configs db))"

definition voice_personas_ok :: "voice_db \<Rightarrow> bool" where
  "voice_personas_ok db \<longleftrightarrow> distinct (map vp_id (vb_personas db)) \<and> (\<forall>p \<in> set (vb_personas db). vp_id p < vb_next_persona db)
     \<and> distinct (map voice_persona_key (vb_personas db)) \<and> (\<forall>p \<in> set (vb_personas db). persona_tools_ok p)"

definition records_ok :: "voice_db \<Rightarrow> bool" where
  "records_ok db \<longleftrightarrow> distinct (map vr_id (vb_records db)) \<and> (\<forall>r \<in> set (vb_records db). vr_id r < vb_next_record db)
     \<and> distinct (map vr_call_sid (vb_records db))"

definition voice_ok :: "voice_db \<Rightarrow> bool" where
  "voice_ok db \<longleftrightarrow> configs_ok db \<and> voice_personas_ok db \<and> records_ok db"

lemma voice_ok_empty: "voice_ok empty_voice_db"
  by (simp add: voice_ok_def configs_ok_def voice_personas_ok_def records_ok_def empty_voice_db_def)

text \<open>What an operation on one table leaves alone.\<close>

lemma commit_frames:
  "commit_voice_configs cs db = Inr db1 \<Longrightarrow> db1 = db\<lparr> vb_configs := cs \<rparr> \<and> distinct (map vc_experience_id cs)"
  "commit_voice_personas ps db = Inr db1 \<Longrightarrow> db1 = db\<lparr> vb_personas := ps \<rparr> \<and> distinct (map voice_persona_key ps)"
  "commit_voice_records rs db = Inr db1 \<Longrightarrow> db1 = db\<lparr> vb_records := rs \<rparr> \<and> distinct (map vr_call_sid rs)"
  by (auto simp: commit_voice_configs_def commit_voice_personas_def commit_voice_records_def split: if_splits)

lemma add_config_ok:
  assumes "add_config c db = Inr db1" and "vc_id c = vb_next_config db" and "voice_ok db"
  shows "voice_ok db1"
  using assms
  by (force simp: add_config_def rbind_eq_Inr voice_ok_def configs_ok_def voice_personas_ok_def records_ok_def
      dest!: commit_frames(1))

lemma save_config_ok:
  assumes "save_config old new db = Inr (c, db1)" and "vc_id new = vc_id old" and "voice_ok db" and "old \<in> set (vb_configs db)"
  shows "voice_ok db1"
proof -
  have c: "vc_id c = vc_id old" and db1: "db1 = db\<lparr> vb_configs := update_row vc_id (vc_id old) (\<lambda>_. c) (vb_configs db) \<rparr>"
    "distinct (map vc_experience_id (vb_configs db1))"
    using assms(1,2) by (auto simp: save_config_def Let_def rbind_eq_Inr touched_config_def dest!: commit_frames(1))
  have "map vc_id (vb_configs db1) = map vc_id (vb_configs db)" using c by (auto simp: db1(1) update_row_def)
  moreover have "\<forall>x \<in> set (vb_configs db1). vc_id x < vb_next_config db"
    using assms(3,4) c by (auto simp: db1(1) in_set_update_row voice_ok_def configs_ok_def)
  ultimately show ?thesis using assms(3) db1(2)
    by (simp add: db1(1) voice_ok_def configs_ok_def voice_personas_ok_def records_ok_def)
qed

lemma config_of_in: "config_of e db = Some c \<Longrightarrow> c \<in> set (vb_configs db) \<and> vc_experience_id c = e"
  by (auto simp: config_of_def dest: find_row_Some)

lemma new_config_id [simp]: "vc_id (new_config db e n p) = vb_next_config db"
  by (simp add: new_config_def)

lemma upsert_config_ok:
  "admin_upsert_experience_config e u db = Inr (c, db1, ts) \<Longrightarrow> voice_ok db \<Longrightarrow> voice_ok db1"
  unfolding admin_upsert_experience_config_def rbind_eq_Inr
  by (auto simp: Let_def rbind_eq_Inr split: option.splits dest: config_of_in intro: add_config_ok save_config_ok)

lemma save_voice_persona_ok:
  assumes "save_voice_persona old new db = Inr (r, db1, ts)" and "vp_id new = vp_id old" and "old \<in> set (vb_personas db)"
    and "persona_tools_ok new" and "voice_ok db"
  shows "voice_ok db1"
proof -
  define p where "p = (if new = old then old else new\<lparr> vp_updated_at := vb_now db \<rparr>)"
  have p: "vp_id p = vp_id old" "persona_tools_ok p"
    using assms(2,4) by (auto simp: p_def persona_tools_ok_def persona_tool_names_def)
  have db1: "db1 = db\<lparr> vb_personas := update_row vp_id (vp_id old) (\<lambda>_. p) (vb_personas db) \<rparr>"
    "distinct (map voice_persona_key (vb_personas db1))"
    using assms(1) by (auto simp: save_voice_persona_def Let_def rbind_eq_Inr p_def [symmetric] dest!: commit_frames(2))
  have "map vp_id (vb_personas db1) = map vp_id (vb_personas db)" using p by (auto simp: db1(1) update_row_def)
  moreover have "\<forall>x \<in> set (vb_personas db1). vp_id x < vb_next_persona db \<and> persona_tools_ok x"
    using assms(3,5) p by (auto simp: db1(1) in_set_update_row voice_ok_def voice_personas_ok_def)
  ultimately show ?thesis using assms(5) db1(2)
    by (simp add: db1(1) voice_ok_def configs_ok_def voice_personas_ok_def records_ok_def)
qed

lemma get_voice_persona_in: "get_voice_persona e i db = Inr p \<Longrightarrow> p \<in> set (vb_personas db) \<and> vp_id p = i \<and> vp_experience_id p = e"
  by (auto simp: get_voice_persona_def split: option.splits if_splits dest: find_row_Some)

lemma persona_tools_in: "voice_ok db \<Longrightarrow> p \<in> set (vb_personas db) \<Longrightarrow> persona_tools_ok p"
  by (simp add: voice_ok_def voice_personas_ok_def)

lemma create_voice_persona_ok:
  assumes "admin_create_persona env e q db = Inr (r, db1, ts)" and "voice_ok db"
  shows "voice_ok db1"
proof -
  obtain names db0 where n: "serialize_tool_names env (vq_tool_names q) = Inr names"
    and db0: "commit_voice_personas (vb_personas db @ [new_voice_persona db e q names]) db = Inr db0"
    and db1: "db1 = db0\<lparr> vb_next_persona := vb_next_persona db + 1 \<rparr>"
    using assms(1) by (auto simp: admin_create_persona_def Let_def rbind_eq_Inr split: if_splits)
  have p: "vp_id (new_voice_persona db e q names) = vb_next_persona db" "persona_tools_ok (new_voice_persona db e q names)"
    using serialized_tools_ok [OF n] by (simp_all add: new_voice_persona_def)
  show ?thesis using assms(2) p commit_frames(2) [OF db0]
    by (force simp: db1 voice_ok_def configs_ok_def voice_personas_ok_def records_ok_def)
qed

lemma update_voice_persona_ok:
  assumes "admin_update_persona env e i u db = Inr (r, db1, ts)" and "voice_ok db"
  shows "voice_ok db1"
proof -
  obtain p names where p: "get_voice_persona e i db = Inr p" and n: "serialize_tool_names env (vu_tool_names u) = Inr names"
    and s: "save_voice_persona p (updated_persona u names p) db = Inr (r, db1, ts)"
    using assms(1) by (auto simp: admin_update_persona_def rbind_eq_Inr)
  have "persona_tools_ok (updated_persona u names p)"
  proof (cases "vu_tool_names u")
    case None
    then show ?thesis using persona_tools_in [OF assms(2)] get_voice_persona_in [OF p]
      by (simp add: persona_tools_ok_def persona_tool_names_def updated_persona_def)
  next
    case (Some ns)
    then show ?thesis using serialized_tools_ok [OF n] by (simp add: updated_persona_def)
  qed
  then show ?thesis using save_voice_persona_ok [OF s] get_voice_persona_in [OF p] assms(2) by (simp add: updated_persona_def)
qed

lemma deactivate_persona_ok:
  assumes "admin_deactivate_persona e i db = Inr (r, db1, ts)" and "voice_ok db"
  shows "voice_ok db1"
proof -
  obtain p where p: "get_voice_persona e i db = Inr p"
    and s: "save_voice_persona p (p\<lparr> vp_is_active := False \<rparr>) db = Inr (r, db1, ts)"
    using assms(1) by (auto simp: admin_deactivate_persona_def rbind_eq_Inr)
  have "persona_tools_ok (p\<lparr> vp_is_active := False \<rparr>)"
    using persona_tools_in [OF assms(2)] get_voice_persona_in [OF p] by (simp add: persona_tools_ok_def persona_tool_names_def)
  then show ?thesis using save_voice_persona_ok [OF s] get_voice_persona_in [OF p] assms(2) by simp
qed

lemma refresh_greeting_ok:
  assumes "refresh_greeting_if_needed ask settings clock e db = Inr db2" and "voice_ok db"
  shows "voice_ok db2"
proof -
  obtain c db1 c1 where c: "c \<in> set (vb_configs db1)" "voice_ok db1"
    and s: "save_config c (c\<lparr> vc_synthesized_greeting := Some (synthesize_greeting ask settings c (active_personas e db1)),
        vc_greeting_synced_at := Some clock \<rparr>) db1 = Inr (c1, db2)"
  proof (cases "config_of e db")
    case None
    then obtain db1 c1 where a: "add_config (new_config db e (lit ''Assistant'') None) db = Inr db1"
      and s: "save_config (new_config db e (lit ''Assistant'') None) ((new_config db e (lit ''Assistant'') None)
        \<lparr> vc_synthesized_greeting := Some (synthesize_greeting ask settings (new_config db e (lit ''Assistant'') None) (active_personas e db1)),
          vc_greeting_synced_at := Some clock \<rparr>) db1 = Inr (c1, db2)"
      using assms(1) by (auto simp: refresh_greeting_if_needed_def rbind_eq_Inr Let_def)
    have "new_config db e (lit ''Assistant'') None \<in> set (vb_configs db1)"
      using a by (auto simp: add_config_def rbind_eq_Inr dest!: commit_frames(1))
    then show ?thesis using that [OF _ add_config_ok [OF a] s] assms(2) by simp
  next
    case (Some c)
    then show ?thesis using that [of c db] assms config_of_in [OF Some]
      by (auto simp: refresh_greeting_if_needed_def rbind_eq_Inr Let_def)
  qed
  show ?thesis using save_config_ok [OF s] c by simp
qed

section \<open>The system\<close>

text \<open>Every request of the demo is an admin request behind another guard, so these are all steps.\<close>

definition add_record :: "voice_record \<Rightarrow> voice_db \<Rightarrow> voice_db result" where
  "add_record r db =
     rbind (commit_voice_records (vb_records db @ [r\<lparr> vr_id := vb_next_record db \<rparr>]) db) (\<lambda>db1.
       Inr (db1\<lparr> vb_next_record := vb_next_record db + 1 \<rparr>))"

lemma add_record_ok: "add_record r db = Inr db1 \<Longrightarrow> voice_ok db \<Longrightarrow> voice_ok db1"
  by (force simp: add_record_def rbind_eq_Inr voice_ok_def configs_ok_def voice_personas_ok_def records_ok_def
      dest!: commit_frames(3))

inductive voice_step :: "voice_db \<Rightarrow> voice_db \<Rightarrow> bool" where
  upsert_config: "admin_upsert_experience_config e u db = Inr (c, db1, ts) \<Longrightarrow> voice_step db db1"
| create_persona: "admin_create_persona env e q db = Inr (r, db1, ts) \<Longrightarrow> voice_step db db1"
| update_persona: "admin_update_persona env e i v db = Inr (r, db1, ts) \<Longrightarrow> voice_step db db1"
| deactivate_persona: "admin_deactivate_persona e i db = Inr (r, db1, ts) \<Longrightarrow> voice_step db db1"
| refresh_greeting: "refresh_greeting_if_needed ask settings clock e db = Inr db1 \<Longrightarrow> voice_step db db1"
| persist_record: "add_record rec db = Inr db1 \<Longrightarrow> voice_step db db1"
| time_passes: "voice_step db (db\<lparr> vb_now := t \<rparr>)"

lemma voice_step_ok: "voice_step db db1 \<Longrightarrow> voice_ok db \<Longrightarrow> voice_ok db1"
proof (induction rule: voice_step.induct)
  case (time_passes db t)
  then show ?case by (simp add: voice_ok_def configs_ok_def voice_personas_ok_def records_ok_def)
qed (blast intro: upsert_config_ok create_voice_persona_ok update_voice_persona_ok deactivate_persona_ok refresh_greeting_ok add_record_ok)+

interpretation voice: preserved voice_step voice_ok
  by unfold_locales (rule voice_step_ok)

text \<open>
  C24: In every state the requests lead to, at most one persona of an experience is active under a
  name, and the registry of each persona can be built and holds exactly its tools.
\<close>

theorem personas_keep_their_tools:
  assumes "voice_step\<^sup>*\<^sup>* empty_voice_db db" and "p \<in> set (vb_personas db)"
  shows "(\<exists>es. scoped (voice_tool_registry env) (persona_tool_names p) = Inr es \<and> map te_name es = persona_tool_names p
      \<and> set es \<subseteq> set (voice_tool_registry env))
    \<and> (\<forall>q \<in> set (vb_personas db). vp_is_active p \<and> vp_is_active q \<and> vp_experience_id q = vp_experience_id p
        \<and> vp_name_key q = vp_name_key p \<longrightarrow> q = p)"
proof -
  have ok: "voice_ok db" using voice.reach_inv [OF assms(1) voice_ok_empty] .
  then have "tool_names_ok (persona_tool_names p)" using persona_tools_in assms(2) by (simp add: persona_tools_ok_def)
  then obtain es where "scoped (voice_tool_registry env) (persona_tool_names p) = Inr es" "map te_name es = persona_tool_names p"
    "set es \<subseteq> set (voice_tool_registry env)" by (rule scoped_exists)
  moreover have "q = p" if "q \<in> set (vb_personas db)" "voice_persona_key q = voice_persona_key p" for q
    using ok that assms(2) by (auto simp: voice_ok_def voice_personas_ok_def distinct_map dest: inj_onD)
  ultimately show ?thesis by (auto simp: voice_persona_key_def)
qed

definition demo_voice_persona :: voice_persona_create where
  "demo_voice_persona = \<lparr> vq_name = lit ''Ada'', vq_instructions = lit ''Help.'', vq_capabilities = None, vq_tool_config = None,
     vq_tool_names = None \<rparr>"

definition demo_row :: voice_persona where
  "demo_row = \<lparr> vp_id = 1, vp_experience_id = VOICE_EXPERIENCE, vp_name = lit ''Ada'', vp_name_key = lit ''ada'',
     vp_instructions = lit ''Help.'', vp_capabilities = None, vp_tool_config = None, vp_tool_names = None,
     vp_is_active = True, vp_created_at = 0, vp_updated_at = 0 \<rparr>"

lemma create_demo_persona:
  "admin_create_persona no_voice_env VOICE_EXPERIENCE demo_voice_persona empty_voice_db
     = Inr (serialize_voice_persona demo_row, empty_voice_db\<lparr> vb_personas := [demo_row], vb_next_persona := 2 \<rparr>, [VOICE_EXPERIENCE])"
proof -
  have "new_voice_persona empty_voice_db VOICE_EXPERIENCE demo_voice_persona None = demo_row"
    by (simp add: new_voice_persona_def demo_voice_persona_def demo_row_def empty_voice_db_def, code_simp)
  moreover have "voice_persona_create_ok demo_voice_persona"
    by (simp add: voice_persona_create_ok_def demo_voice_persona_def at_most_def)
  ultimately show ?thesis
    by (simp add: admin_create_persona_def checked_body_def active_personas_def serialize_tool_names_def demo_voice_persona_def
        commit_voice_personas_def empty_voice_db_def)
qed

theorem personas_keep_their_tools_witness:
  "\<exists>es. scoped (voice_tool_registry no_voice_env) (persona_tool_names demo_row) = Inr es
     \<and> map te_name es = persona_tool_names demo_row \<and> set es \<subseteq> set (voice_tool_registry no_voice_env)"
proof -
  have "voice_step\<^sup>*\<^sup>* empty_voice_db (empty_voice_db\<lparr> vb_personas := [demo_row], vb_next_persona := 2 \<rparr>)"
    by (rule r_into_rtranclp, rule voice_step.create_persona, rule create_demo_persona)
  from personas_keep_their_tools [OF this, of demo_row no_voice_env] show ?thesis by simp
qed

end
