(* ===== verification/Voice_Bridge.thy ===== *)
theory Voice_Bridge
  imports Voice_Client Voice_System
begin

text \<open>
  One stream of the voice demo (\<^verbatim>\<open>voice_stream\<close> in \<^verbatim>\<open>app/api/routes/voice.py\<close>, \<^verbatim>\<open>app/services/voice/session.py\<close>):
  the task that reads the caller, the task that reads the provider, and the tasks of the tools,
  as a transition system. A handler of one message is one step, since it alone works on its local
  variables; a tool task decides under the lock whether its result may be sent and sends it in
  a later step, so a response may begin in between. What was sent either way is kept in order.
  A handler answers what it changed and whether it raised: what it did before stays done, and its
  task ends.
\<close>

section \<open>State\<close>

record voice_session =
  vn_session_id :: str
  vn_experience_id :: str
  vn_persona_id :: int
  vn_instructions :: str
  vn_tool_config :: json
  vn_tool_registry :: "voice_tool list"

datatype transcript_entry = Said str str | Called str json

record accumulator =
  ac_started_at :: int
  ac_provider :: str
  ac_voice :: str
  ac_transcript :: "transcript_entry list"
  ac_input_bytes :: nat
  ac_output_bytes :: nat

datatype caller_message =
    ClearAudio str
  | Media str str
  | Transcript str
  | UserTranscript str
  | ToolCallNote str json
  | EndStream
  | Closed nat

record tool_task =
  tt_call_id :: str
  tt_entry :: voice_tool
  tt_args :: json
  tt_config :: dict

record bridge =
  br_call_sid :: "str option"
  br_stream_sid :: "str option"
  br_conv :: "accumulator option"
  br_sessions :: "(str \<times> voice_session) list"
  br_pending :: "(str \<times> str \<times> str) list"
  br_close_after :: bool
  br_current :: "str option"
  br_cancelled :: "str option"
  br_active :: bool
  br_ready :: "(str \<times> str) list"
  br_tasks :: "tool_task list"
  br_outgoing :: "(str \<times> str) list"
  br_to_provider :: "voice_command list"
  br_to_caller :: "caller_message list"
  br_input_done :: bool
  br_output_done :: bool
  br_output_failed :: bool

definition empty_bridge :: "(str \<times> voice_session) list \<Rightarrow> bridge" where
  "empty_bridge sessions = \<lparr> br_call_sid = None, br_stream_sid = None, br_conv = None, br_sessions = sessions,
     br_pending = [], br_close_after = False, br_current = None, br_cancelled = None, br_active = False,
     br_ready = [], br_tasks = [], br_outgoing = [], br_to_provider = [], br_to_caller = [],
     br_input_done = False, br_output_done = False, br_output_failed = False \<rparr>"

definition tell_caller :: "caller_message \<Rightarrow> bridge \<Rightarrow> bridge" where
  "tell_caller m st = st\<lparr> br_to_caller := br_to_caller st @ [m] \<rparr>"

definition send :: "voice_command list \<Rightarrow> bridge \<Rightarrow> bridge" where
  "send cs st = st\<lparr> br_to_provider := br_to_provider st @ cs \<rparr>"

definition create_session :: "voice_session \<Rightarrow> bridge \<Rightarrow> bridge" where
  "create_session s st = st\<lparr> br_sessions := dict_set (br_sessions st) (vn_session_id s) s \<rparr>"

definition get_session :: "str \<Rightarrow> bridge \<Rightarrow> voice_session option" where
  "get_session sid st = map_of (br_sessions st) sid"

definition remove_session :: "str \<Rightarrow> bridge \<Rightarrow> bridge" where
  "remove_session sid st = st\<lparr> br_sessions := filter (\<lambda>(k, s). k \<noteq> sid) (br_sessions st) \<rparr>"

section \<open>Transcript\<close>

definition acc_transcript :: "str \<Rightarrow> str \<Rightarrow> transcript_entry list \<Rightarrow> transcript_entry list" where
  "acc_transcript role delta entries =
     (case rev entries of
        Said r t # rest \<Rightarrow> if r = role then rev rest @ [Said role (t @ delta)] else entries @ [Said role delta]
      | _ \<Rightarrow> entries @ [Said role delta])"

definition note_transcript :: "(transcript_entry list \<Rightarrow> transcript_entry list) \<Rightarrow> bridge \<Rightarrow> bridge" where
  "note_transcript f st = st\<lparr> br_conv := map_option (\<lambda>acc. acc\<lparr> ac_transcript := f (ac_transcript acc) \<rparr>) (br_conv st) \<rparr>"

definition count_input :: "str \<Rightarrow> bridge \<Rightarrow> bridge" where
  "count_input payload st = st\<lparr> br_conv := map_option (\<lambda>acc.
     acc\<lparr> ac_input_bytes := ac_input_bytes acc + (case b64decode payload of None \<Rightarrow> 0 | Some bs \<Rightarrow> length bs) \<rparr>) (br_conv st) \<rparr>"

definition count_output :: "str \<Rightarrow> bridge \<Rightarrow> bridge" where
  "count_output payload st = st\<lparr> br_conv := map_option (\<lambda>acc.
     acc\<lparr> ac_output_bytes := ac_output_bytes acc + (case b64decode payload of None \<Rightarrow> 0 | Some bs \<Rightarrow> length bs) \<rparr>) (br_conv st) \<rparr>"

section \<open>The caller's side\<close>

definition load_tool_config :: "voice_persona \<Rightarrow> json" where
  "load_tool_config p =
     (if \<not> truthy (vp_tool_config p) then JObj []
      else case loads (the (vp_tool_config p)) of None \<Rightarrow> JObj [] | Some v \<Rightarrow> v)"

definition build_stream_instructions :: "voice_persona \<Rightarrow> str \<Rightarrow> str" where
  "build_stream_instructions p tool_prompt =
     join [10, 10] ([vp_instructions p] @ (if tool_prompt = [] then [] else [tool_prompt]))"

definition resolve_voice_name :: "voice_config option \<Rightarrow> str \<Rightarrow> str" where
  "resolve_voice_name cfg provider =
     (let xai = (case map_of PROVIDER_VOICES (lit ''xai'') of None \<Rightarrow> [] | Some vs \<Rightarrow> vs);
          voices = (case map_of PROVIDER_VOICES (lower provider) of None \<Rightarrow> xai | Some vs \<Rightarrow> if vs = [] then xai else vs)
      in case cfg of
           Some c \<Rightarrow> if vc_voice_name c \<in> set voices then vc_voice_name c else hd voices
         | None \<Rightarrow> hd voices)"

definition resolved_provider :: "voice_settings \<Rightarrow> voice_config option \<Rightarrow> str" where
  "resolved_provider settings cfg =
     (case cfg of None \<Rightarrow> vt_voice_provider settings | Some c \<Rightarrow> str_or (vc_voice_provider c) (vt_voice_provider settings))"

text \<open>\<open>schema\<close> is the JSON schema pydantic derives from the input model of a tool.\<close>

definition tool_definition :: "(str \<Rightarrow> json) \<Rightarrow> voice_tool \<Rightarrow> json" where
  "tool_definition schema e = JObj [(lit ''type'', JStr (lit ''function'')), (lit ''name'', JStr (te_name e)),
     (lit ''description'', JStr (te_description e)), (lit ''parameters'', schema (te_name e))]"

record stream_env =
  se_voice :: voice_env
  se_settings :: voice_settings
  se_client :: voice_client
  se_schema :: "str \<Rightarrow> json"
  se_persona_id :: "int option"

definition start_stream ::
  "stream_env \<Rightarrow> voice_db \<Rightarrow> int \<Rightarrow> str \<Rightarrow> str \<Rightarrow> bridge \<Rightarrow> bridge \<times> unit result"
where
  "start_stream env db clock call_sid stream_sid st0 =
     (let st = st0\<lparr> br_call_sid := Some call_sid, br_stream_sid := Some stream_sid \<rparr>
      in case get_active_persona_or_503 db VOICE_EXPERIENCE (se_persona_id env) of
           Inl e \<Rightarrow> ((tell_caller (Closed (if e = HTTPException 404 (lit ''Persona not found.'') then 4004 else 1011)) st)
                      \<lparr> br_input_done := True \<rparr>, Inr ())
         | Inr p \<Rightarrow>
             (let cfg = config_of VOICE_EXPERIENCE db;
                  provider = resolved_provider (se_settings env) cfg;
                  voice = resolve_voice_name cfg provider
              in case scoped (voice_tool_registry (se_voice env)) (persona_tool_names p) of
                   Inl e \<Rightarrow> (st, Inl e)
                 | Inr reg \<Rightarrow>
                     (let st1 = (create_session \<lparr> vn_session_id = call_sid, vn_experience_id = VOICE_EXPERIENCE, vn_persona_id = vp_id p,
                          vn_instructions = vp_instructions p, vn_tool_config = load_tool_config p, vn_tool_registry = reg \<rparr> st)
                          \<lparr> br_conv := Some \<lparr> ac_started_at = clock, ac_provider = provider, ac_voice = voice, ac_transcript = [],
                              ac_input_bytes = 0, ac_output_bytes = 0 \<rparr> \<rparr>
                      in case prompt_block reg None of
                           Inl e \<Rightarrow> (st1, Inl e)
                         | Inr prompt \<Rightarrow>
                             (send [ConfigureSession (build_stream_instructions p (str_or prompt []))
                                 (map (tool_definition (se_schema env)) reg) voice, StartResponse] st1, Inr ()))))"

text \<open>An audio payload the client cannot convert raises, as a message that is no object does.\<close>

definition handle_twilio_message ::
  "stream_env \<Rightarrow> voice_db \<Rightarrow> int \<Rightarrow> twilio_message \<Rightarrow> bridge \<Rightarrow> bridge \<times> unit result"
where
  "handle_twilio_message env db clock m st =
     (case m of
        StreamStart call_sid stream_sid \<Rightarrow> start_stream env db clock call_sid stream_sid st
      | StreamMedia payload \<Rightarrow>
          if payload = [] then (st, Inr ())
          else (case wire (se_client env) (SendAudio payload) of
              Inl e \<Rightarrow> (st, Inl e)
            | Inr sent_as \<Rightarrow> (count_input payload (send [SendAudio payload] st), Inr ()))
      | StreamStop \<Rightarrow>
          ((if truthy (br_call_sid st) then remove_session (the (br_call_sid st)) st else st)\<lparr> br_input_done := True \<rparr>, Inr ())
      | OtherMessage \<Rightarrow> (st, Inr ())
      | MessageNotAnObject \<Rightarrow> (st, Inl no_get))"

section \<open>The provider's side\<close>

text \<open>\<^verbatim>\<open>dict(value)\<close>: pairs of a list, two-character strings among them; only text keys matter here.\<close>

fun json_pair :: "json \<Rightarrow> (json \<times> json) result" where
  "json_pair (JArr [a, b]) = Inr (a, b)"
| "json_pair (JStr [a, b]) = Inr (JStr [a], JStr [b])"
| "json_pair (JObj [(a, x), (b, y)]) = Inr (JStr a, JStr b)"
| "json_pair (JArr v) = Inl (ValueError (lit ''dictionary update sequence element''))"
| "json_pair (JStr v) = Inl (ValueError (lit ''dictionary update sequence element''))"
| "json_pair (JObj v) = Inl (ValueError (lit ''dictionary update sequence element''))"
| "json_pair v = Inl (TypeError (lit ''cannot convert dictionary update sequence element''))"

fun dict_of_items :: "json list \<Rightarrow> dict \<Rightarrow> dict result" where
  "dict_of_items [] d = Inr d"
| "dict_of_items (v # vs) d =
     rbind (json_pair v) (\<lambda>(k, x).
       case k of
         JStr s \<Rightarrow> dict_of_items vs (dict_set d s x)
       | JArr _ \<Rightarrow> Inl (TypeError (lit ''unhashable type''))
       | JObj _ \<Rightarrow> Inl (TypeError (lit ''unhashable type''))
       | _ \<Rightarrow> dict_of_items vs d)"

definition py_dict :: "json \<Rightarrow> dict result" where
  "py_dict v =
     (case v of
        JObj d \<Rightarrow> Inr d
      | JArr vs \<Rightarrow> dict_of_items vs []
      | JStr s \<Rightarrow> dict_of_items (map (\<lambda>c. JStr [c]) s) []
      | _ \<Rightarrow> Inl (TypeError (lit ''object is not iterable'')))"

text \<open>The configuration a tool runs with names the call in its runtime part.\<close>

definition with_runtime :: "str \<Rightarrow> dict \<Rightarrow> dict" where
  "with_runtime call_sid cfg =
     dict_set cfg (lit ''_runtime'')
       (JObj (dict_set (dict_or_empty (map_of cfg (lit ''_runtime''))) (lit ''session_id'') (JStr call_sid)))"

definition session_registry :: "stream_env \<Rightarrow> voice_session option \<Rightarrow> voice_tool list" where
  "session_registry env s = (case s of None \<Rightarrow> voice_tool_registry (se_voice env) | Some n \<Rightarrow> vn_tool_registry n)"

definition session_config :: "voice_session option \<Rightarrow> dict result" where
  "session_config s = (case s of None \<Rightarrow> Inr [] | Some n \<Rightarrow> py_dict (vn_tool_config n))"

definition args_or_empty :: "str \<Rightarrow> json" where
  "args_or_empty s = (case loads s of None \<Rightarrow> JObj [] | Some v \<Rightarrow> v)"

definition start_tool :: "stream_env \<Rightarrow> str \<Rightarrow> str \<Rightarrow> json \<Rightarrow> bridge \<Rightarrow> bridge result" where
  "start_tool env call_id name args st =
     (let sid = str_or (br_call_sid st) []; s = get_session sid st
      in case get_tool (session_registry env s) name of
           Inl _ \<Rightarrow> Inr st
         | Inr e \<Rightarrow>
             if voice_tool_terminal e then Inr (st\<lparr> br_close_after := True \<rparr>)
             else rbind (session_config s) (\<lambda>cfg.
                    Inr (st\<lparr> br_tasks := br_tasks st @
                      [\<lparr> tt_call_id = call_id, tt_entry = e, tt_args = args, tt_config = with_runtime sid cfg \<rparr>] \<rparr>)))"

text \<open>The call is shown and recorded before its tool is looked up.\<close>

definition arguments_done :: "stream_env \<Rightarrow> str \<Rightarrow> str \<Rightarrow> str \<Rightarrow> bridge \<Rightarrow> bridge \<times> unit result" where
  "arguments_done env call_id event_name event_args st =
     (let tool = map_of (br_pending st) call_id;
          name = (case tool of Some (n, buf) \<Rightarrow> if n = [] then event_name else n | None \<Rightarrow> event_name);
          buffered = (case tool of Some (n, buf) \<Rightarrow> buf | None \<Rightarrow> []);
          args = args_or_empty (if event_args \<noteq> [] then event_args else if buffered \<noteq> [] then buffered else [123, 125]);
          st1 = st\<lparr> br_pending := filter (\<lambda>(k, v). k \<noteq> call_id) (br_pending st) \<rparr>;
          st2 = note_transcript (\<lambda>es. es @ [Called name args]) (tell_caller (ToolCallNote name args) st1)
      in case start_tool env call_id name args st2 of
           Inl e \<Rightarrow> (st2, Inl e)
         | Inr st3 \<Rightarrow> (st3, Inr ()))"

definition flush_ready_tool_results :: "bridge \<Rightarrow> bridge" where
  "flush_ready_tool_results st = (send (map (\<lambda>(c, r). SendToolResult c r) (br_ready st)) st)\<lparr> br_ready := [] \<rparr>"

definition handle_provider_event :: "stream_env \<Rightarrow> provider_event \<Rightarrow> bridge \<Rightarrow> bridge \<times> unit result" where
  "handle_provider_event env ev st =
     (case ev of
        ResponseCreated rid \<Rightarrow>
          (st\<lparr> br_current := (if truthy rid then rid else br_current st), br_active := True \<rparr>, Inr ())
      | SpeechStarted \<Rightarrow>
          (let st1 = (if br_active st then send [CancelResponse] (st\<lparr> br_cancelled := br_current st \<rparr>) else st)
           in (if truthy (br_stream_sid st) then tell_caller (ClearAudio (the (br_stream_sid st))) st1 else st1, Inr ()))
      | AudioDelta rid payload \<Rightarrow>
          (let st1 = (if rid \<noteq> None then st\<lparr> br_current := rid \<rparr> else st)
           in if rid \<noteq> None \<and> rid = br_cancelled st then (st1, Inr ())
              else let st2 = (if payload \<noteq> [] \<and> truthy (br_stream_sid st)
                              then tell_caller (Media (the (br_stream_sid st)) payload) st1 else st1)
                   in (if payload \<noteq> [] then count_output payload st2 else st2, Inr ()))
      | TranscriptDelta delta \<Rightarrow>
          (let st1 = tell_caller (Transcript delta) st
           in (if delta \<noteq> [] then note_transcript (acc_transcript (lit ''advisor'') delta) st1 else st1, Inr ()))
      | UserSaid t \<Rightarrow>
          (if t = [] then st
           else note_transcript (\<lambda>es. es @ [Said (lit ''user'') t]) (tell_caller (UserTranscript t) st), Inr ())
      | ArgumentsDelta call_id name delta \<Rightarrow>
          (if call_id = [] then st
           else let (n, buf) = (case map_of (br_pending st) call_id of None \<Rightarrow> (name, []) | Some p \<Rightarrow> p)
                in st\<lparr> br_pending := dict_set (br_pending st) call_id (n, buf @ delta) \<rparr>, Inr ())
      | ArgumentsDone call_id name args \<Rightarrow>
          if call_id = [] then (st, Inr ()) else arguments_done env call_id name args st
      | ResponseDone \<Rightarrow>
          (let st1 = flush_ready_tool_results (st\<lparr> br_active := False \<rparr>)
           in (if br_close_after st
               then (tell_caller (Closed 1000) (tell_caller EndStream st1))\<lparr> br_output_done := True \<rparr>
               else st1, Inr ()))
      | OtherEvent \<Rightarrow> (st, Inr ())
      | EventNotAnObject \<Rightarrow> (st, Inl no_get))"

section \<open>Tool tasks\<close>

definition TOOL_FAILED :: str where
  "TOOL_FAILED = dumps Spaced (JObj [(lit ''error'', JStr (lit ''tool_execution_failed'')),
     (lit ''message'', JStr (lit ''The tool result was not available.''))])"

definition run_tool_call :: "tool_task \<Rightarrow> str" where
  "run_tool_call t = (case execute_json (tt_entry t) (tt_args t) (tt_config t) of Inl _ \<Rightarrow> TOOL_FAILED | Inr r \<Rightarrow> r)"

definition queue_tool_result :: "str \<times> str \<Rightarrow> bridge \<Rightarrow> bridge" where
  "queue_tool_result r st =
     (if br_active st then st\<lparr> br_ready := br_ready st @ [r] \<rparr> else st\<lparr> br_outgoing := br_outgoing st @ [r] \<rparr>)"

section \<open>The stream\<close>

text \<open>
  What happens to a stream. A handler that raises ends its task with what it changed so far. When
  one side is done the other may still take steps until it is cancelled. The last flush is the
  end of \<^verbatim>\<open>_handle_xai_to_twilio\<close>, after its tools: a loop that raised does not reach it. Sends
  succeed: what a connection that fails drops is not modelled.
\<close>

definition end_input :: "bridge \<times> unit result \<Rightarrow> bridge" where
  "end_input h = (case h of (st, Inr u) \<Rightarrow> st | (st, Inl e) \<Rightarrow> st\<lparr> br_input_done := True \<rparr>)"

definition end_output :: "bridge \<times> unit result \<Rightarrow> bridge" where
  "end_output h = (case h of (st, Inr u) \<Rightarrow> st | (st, Inl e) \<Rightarrow> st\<lparr> br_output_done := True, br_output_failed := True \<rparr>)"

datatype stream_event =
    FromCaller voice_db int twilio_message
  | FromProvider provider_event
  | CallerGone
  | ReceiveFailed
  | ToolDone "str \<times> str"
  | ResultSent "str \<times> str"
  | LastFlush

inductive stream_step :: "stream_env \<Rightarrow> bridge \<Rightarrow> stream_event \<Rightarrow> bridge \<Rightarrow> bool" for env where
  from_caller: "\<not> br_input_done st \<Longrightarrow>
     stream_step env st (FromCaller db clock m) (end_input (handle_twilio_message env db clock m st))"
| from_provider: "\<not> br_output_done st \<Longrightarrow>
     stream_step env st (FromProvider ev) (end_output (handle_provider_event env ev st))"
| caller_gone: "\<not> br_input_done st \<Longrightarrow> stream_step env st CallerGone (st\<lparr> br_input_done := True \<rparr>)"
| receive_failed: "\<not> br_output_done st \<Longrightarrow> stream_step env st ReceiveFailed (st\<lparr> br_output_done := True \<rparr>)"
| tool_done: "br_tasks st = ts @ t # us \<Longrightarrow> r = (tt_call_id t, run_tool_call t) \<Longrightarrow>
     stream_step env st (ToolDone r) (queue_tool_result r (st\<lparr> br_tasks := ts @ us \<rparr>))"
| result_sent: "br_outgoing st = rs @ r # qs \<Longrightarrow>
     stream_step env st (ResultSent r) (send [SendToolResult (fst r) (snd r)] (st\<lparr> br_outgoing := rs @ qs \<rparr>))"
| last_flush: "br_output_done st \<Longrightarrow> \<not> br_output_failed st \<Longrightarrow> br_tasks st = [] \<Longrightarrow> br_outgoing st = [] \<Longrightarrow>
     stream_step env st LastFlush (if br_active st then st else flush_ready_tool_results st)"

inductive stream_run :: "stream_env \<Rightarrow> bridge \<Rightarrow> stream_event list \<Rightarrow> bridge \<Rightarrow> bool" for env where
  run_nil: "stream_run env st [] st"
| run_snoc: "stream_run env st evs st1 \<Longrightarrow> stream_step env st1 ev st2 \<Longrightarrow> stream_run env st (evs @ [ev]) st2"

inductive_cases stream_stepE: "stream_step env st ev st1"

section \<open>Opening and closing\<close>

text \<open>
  Before the tasks start: a token is checked when there is one, and the client of the
  configured provider is made. A refusal is the close code; what is no \<^verbatim>\<open>HTTPException\<close> propagates.
\<close>

definition open_stream ::
  "runtime \<Rightarrow> security_settings \<Rightarrow> voice_settings \<Rightarrow> int \<Rightarrow> str option \<Rightarrow> voice_db \<Rightarrow> (nat + voice_client) result"
where
  "open_stream rt security settings clock token db =
     (let provider = Option.bind (config_of VOICE_EXPERIENCE db) vc_voice_provider;
          client = (case get_voice_client settings provider of Inl _ \<Rightarrow> Inl 1011 | Inr c \<Rightarrow> Inr c)
      in case token of
           None \<Rightarrow> Inr client
         | Some t \<Rightarrow>
             (case verify_access_token rt t security clock of
                Inl (HTTPException code detail) \<Rightarrow> Inr (Inl 4001)
              | Inl e \<Rightarrow> Inl e
              | Inr claims \<Rightarrow> Inr (if claim_experience_id claims \<noteq> VOICE_DEMO then Inl 4003 else client)))"

fun entry_json :: "transcript_entry \<Rightarrow> json" where
  "entry_json (Said role t) = JObj [(lit ''role'', JStr role), (lit ''text'', JStr t)]"
| "entry_json (Called name args) =
     JObj [(lit ''role'', JStr (lit ''tool_call'')), (lit ''tool_name'', JStr name), (lit ''args'', args)]"

definition stream_record :: "(nat \<Rightarrow> rat \<Rightarrow> rat) \<Rightarrow> int \<Rightarrow> str \<Rightarrow> accumulator \<Rightarrow> voice_record" where
  "stream_record round_to ended_at call_sid acc =
     (let wall_secs = of_int (ended_at - ac_started_at acc) / 1000000
      in \<lparr> vr_id = 0, vr_experience_id = VOICE_EXPERIENCE, vr_call_sid = call_sid, vr_provider = ac_provider acc,
           vr_voice = ac_voice acc, vr_started_at = ac_started_at acc, vr_ended_at = Some ended_at,
           vr_duration_seconds = Some (round_to 3 wall_secs),
           vr_input_audio_seconds = Some (round_to 3 (of_nat (ac_input_bytes acc) / 8000)),
           vr_output_audio_seconds = Some (round_to 3 (of_nat (ac_output_bytes acc) / 8000)),
           vr_estimated_cost_usd = Some (estimate_cost round_to (ac_provider acc) wall_secs),
           vr_transcript = dumps Spaced (JArr (map entry_json (ac_transcript acc))) \<rparr>)"

text \<open>The \<^verbatim>\<open>finally\<close> block: a record that cannot be stored is only logged.\<close>

definition close_stream :: "(nat \<Rightarrow> rat \<Rightarrow> rat) \<Rightarrow> int \<Rightarrow> bridge \<Rightarrow> voice_db \<Rightarrow> (str \<times> voice_session) list \<times> voice_db" where
  "close_stream round_to ended_at st db =
     (if \<not> truthy (br_call_sid st) then (br_sessions st, db)
      else (br_sessions (remove_session (the (br_call_sid st)) st),
            case br_conv st of
              None \<Rightarrow> db
            | Some acc \<Rightarrow> (case add_record (stream_record round_to ended_at (the (br_call_sid st)) acc) db of
                  Inl _ \<Rightarrow> db
                | Inr db1 \<Rightarrow> db1)))"

section \<open>The inbound webhook\<close>

definition twiml_connect_stream :: "str \<Rightarrow> str" where
  "twiml_connect_stream url =
     lit ''<?xml version='' @ [34] @ lit ''1.0'' @ [34] @ lit '' encoding='' @ [34] @ lit ''UTF-8'' @ [34] @ lit ''?><Response><Connect><Stream url=''
     @ [34] @ url @ [34] @ lit ''/></Connect></Response>''"

definition validate_twilio_signature :: "str \<Rightarrow> (str \<times> str) list \<Rightarrow> str \<Rightarrow> str \<Rightarrow> bool result" where
  "validate_twilio_signature url params signature auth_token =
     compare_digest (b64encode (hmac_sha1 (utf8_encode auth_token)
         (utf8_encode (if params \<noteq> [] then url @ concat (map (\<lambda>(k, v). k @ v) (sort_key fst params)) else url))))
       signature"

text \<open>The answer of the webhook: a refusal or the TwiML.\<close>

definition voice_inbound ::
  "str option \<Rightarrow> str \<Rightarrow> (str \<times> str) list \<Rightarrow> (str \<times> str) list \<Rightarrow> str result"
where
  "voice_inbound auth_token url headers form =
     (let header = (\<lambda>k. map_of headers k);
          host = str_or (header (lit ''x-forwarded-host'')) (str_or (header (lit ''host'')) []);
          scheme = (case header (lit ''x-forwarded-proto'') of None \<Rightarrow> lit ''https'' | Some s \<Rightarrow> s);
          stream_url = (if scheme = lit ''https'' then lit ''wss'' else lit ''ws'') @ lit ''://'' @ host @ lit ''/api/voice/stream''
      in rbind (if truthy auth_token
                then validate_twilio_signature url form (str_or (header (lit ''x-twilio-signature'')) []) (the auth_token)
                else Inr True)
           (\<lambda>ok. if ok then Inr (twiml_connect_stream stream_url) else Inl (HTTPException 403 [])))"

end
