(* ===== verification/Voice_Properties.thy ===== *)
theory Voice_Properties
  imports Voice_Bridge "HOL-Library.Sublist"
begin

text \<open>What a stream guarantees, whatever the order of messages, events and tool results.\<close>

section \<open>What the parts of a state say\<close>

definition sent_results :: "voice_command list \<Rightarrow> (str \<times> str) list" where
  "sent_results cs = concat (map (\<lambda>c. case c of SendToolResult i r \<Rightarrow> [(i, r)] | _ \<Rightarrow> []) cs)"

definition finished :: "stream_event list \<Rightarrow> (str \<times> str) list" where
  "finished evs = concat (map (\<lambda>e. case e of ToolDone r \<Rightarrow> [r] | _ \<Rightarrow> []) evs)"

definition media_of :: "caller_message list \<Rightarrow> str list" where
  "media_of ms = concat (map (\<lambda>m. case m of Media s p \<Rightarrow> [p] | _ \<Rightarrow> []) ms)"

definition audio_of_others :: "str \<Rightarrow> stream_event list \<Rightarrow> str list" where
  "audio_of_others r evs = concat (map (\<lambda>e. case e of
     FromProvider (AudioDelta rid p) \<Rightarrow> if rid = Some r then [] else [p] | _ \<Rightarrow> []) evs)"

lemma list_views [simp]:
  "sent_results [] = []" "sent_results (a @ b) = sent_results a @ sent_results b"
  "finished [] = []" "finished (e @ f) = finished e @ finished f"
  "media_of [] = []" "media_of (m @ n) = media_of m @ media_of n"
  "audio_of_others r [] = []" "audio_of_others r (e @ f) = audio_of_others r e @ audio_of_others r f"
  by (simp_all add: sent_results_def finished_def media_of_def audio_of_others_def)

lemma sent_results_commands [simp]:
  "sent_results (map (\<lambda>(c, r). SendToolResult c r) rs) = rs"
  "sent_results [SendToolResult c r] = [(c, r)]" "sent_results [SendAudio a] = []" "sent_results [CancelResponse] = []"
  "sent_results [ConfigureSession i t v, StartResponse] = []"
  by (induction rs) (auto simp: sent_results_def)

lemmas handler_defs = handle_twilio_message_def start_stream_def handle_provider_event_def arguments_done_def start_tool_def
  tell_caller_def send_def create_session_def remove_session_def note_transcript_def count_input_def count_output_def
  flush_ready_tool_results_def queue_tool_result_def Let_def rbind_eq_Inr

text \<open>The end of a task changes none of what the parts below are about.\<close>

lemma end_task [simp]:
  "br_to_provider (end_input h) = br_to_provider (fst h)" "br_ready (end_input h) = br_ready (fst h)"
  "br_outgoing (end_input h) = br_outgoing (fst h)" "br_active (end_input h) = br_active (fst h)"
  "br_to_caller (end_input h) = br_to_caller (fst h)" "br_cancelled (end_input h) = br_cancelled (fst h)"
  "br_conv (end_input h) = br_conv (fst h)"
  "br_to_provider (end_output h) = br_to_provider (fst h)" "br_ready (end_output h) = br_ready (fst h)"
  "br_outgoing (end_output h) = br_outgoing (fst h)" "br_active (end_output h) = br_active (fst h)"
  "br_to_caller (end_output h) = br_to_caller (fst h)" "br_cancelled (end_output h) = br_cancelled (fst h)"
  "br_conv (end_output h) = br_conv (fst h)"
  by (simp_all add: end_input_def end_output_def split: prod.split sum.split)

section \<open>Results are sent once\<close>

text \<open>The queues of results are only touched where the handlers send or flush.\<close>

definition results_kept :: "bridge \<Rightarrow> bridge \<Rightarrow> bool" where
  "results_kept st st1 \<longleftrightarrow> br_outgoing st1 = br_outgoing st
     \<and> sent_results (br_to_provider st1) @ br_ready st1 = sent_results (br_to_provider st) @ br_ready st
     \<and> (br_ready st = [] \<longrightarrow> br_ready st1 = []) \<and> ((\<not> br_active st \<longrightarrow> br_ready st = []) \<longrightarrow> \<not> br_active st1 \<longrightarrow> br_ready st1 = [])"

lemma caller_keeps_results: "results_kept st (fst (handle_twilio_message env db clock m st))"
  by (auto simp: handler_defs results_kept_def split: twilio_message.splits sum.splits if_splits)

lemma start_tool_keeps_results: "start_tool env i n a st = Inr st1 \<Longrightarrow> results_kept st st1"
  by (auto simp: handler_defs results_kept_def split: sum.splits if_splits)

lemma arguments_done_keeps_results: "results_kept st (fst (arguments_done env i n a st))"
  by (auto simp: arguments_done_def Let_def results_kept_def note_transcript_def tell_caller_def split: sum.split
      dest!: start_tool_keeps_results)

lemma provider_keeps_results: "results_kept st (fst (handle_provider_event env ev st))"
proof (cases ev)
  case (ArgumentsDone i n a)
  then show ?thesis using arguments_done_keeps_results
    by (auto simp: handle_provider_event_def results_kept_def split: if_splits)
qed (auto simp: handle_provider_event_def Let_def results_kept_def tell_caller_def send_def note_transcript_def count_output_def
      flush_ready_tool_results_def split: if_splits prod.splits)

definition results_ok :: "stream_event list \<Rightarrow> bridge \<Rightarrow> bool" where
  "results_ok evs st \<longleftrightarrow>
     mset (sent_results (br_to_provider st)) + mset (br_ready st) + mset (br_outgoing st) = mset (finished evs)
     \<and> (\<not> br_active st \<longrightarrow> br_ready st = [])"

lemma results_kept_ok:
  assumes "results_kept st st1" and "results_ok evs st" and "finished [ev] = []"
  shows "results_ok (evs @ [ev]) st1"
proof -
  have "mset (sent_results (br_to_provider st1) @ br_ready st1) = mset (sent_results (br_to_provider st) @ br_ready st)"
    using assms(1) by (simp only: results_kept_def)
  then show ?thesis using assms by (auto simp: results_ok_def results_kept_def)
qed

lemma step_results_ok:
  assumes "stream_step env st ev st1" and "results_ok evs st"
  shows "results_ok (evs @ [ev]) st1"
  using assms(1)
proof cases
  case (from_caller db clock m)
  have "results_kept st st1" using caller_keeps_results by (simp add: from_caller results_kept_def)
  then show ?thesis using results_kept_ok assms(2) by (simp add: from_caller finished_def)
next
  case (from_provider e)
  have "results_kept st st1" using provider_keeps_results by (simp add: from_provider results_kept_def)
  then show ?thesis using results_kept_ok assms(2) by (simp add: from_provider finished_def)
next
  case (tool_done ts t us r)
  then show ?thesis using assms(2) by (auto simp: results_ok_def queue_tool_result_def finished_def)
next
  case (result_sent rs r qs)
  then show ?thesis using assms(2) by (cases r) (auto simp: results_ok_def send_def finished_def)
next
  case last_flush
  then show ?thesis using assms(2) by (auto simp: results_ok_def flush_ready_tool_results_def send_def finished_def)
qed (use assms(2) in \<open>auto simp: results_ok_def finished_def\<close>)

lemma run_results_ok: "stream_run env st evs st1 \<Longrightarrow> results_ok [] st \<Longrightarrow> results_ok evs st1"
  by (induction rule: stream_run.induct) (auto intro: step_results_ok)

lemma results_ok_empty: "results_ok [] (empty_bridge sessions)"
  by (simp add: results_ok_def empty_bridge_def)

text \<open>
  C19: Every result of a tool is sent to the provider at most once and none is lost: what was sent,
  what waits for the response to end and what is on its way are together the results of the
  tools that finished. Results wait only during a response, so an idle stream has sent them all.
\<close>

theorem results_are_sent_once:
  assumes "stream_run env (empty_bridge sessions) evs st"
  shows "mset (sent_results (br_to_provider st)) + mset (br_ready st) + mset (br_outgoing st) = mset (finished evs)
    \<and> (\<not> br_active st \<longrightarrow> br_ready st = [])
    \<and> (\<not> br_active st \<and> br_outgoing st = [] \<longrightarrow> mset (sent_results (br_to_provider st)) = mset (finished evs))"
  using run_results_ok [OF assms results_ok_empty] by (auto simp: results_ok_def)

section \<open>A cancelled answer stays silent\<close>

definition silences :: "str \<Rightarrow> stream_event \<Rightarrow> bridge \<Rightarrow> bridge \<Rightarrow> bool" where
  "silences r ev st st1 \<longleftrightarrow> br_cancelled st1 = Some r
     \<and> (\<exists>new. br_to_caller st1 = br_to_caller st @ new \<and> subseq (media_of new) (audio_of_others r [ev]))"

lemma silencesI:
  "br_cancelled st1 = Some r \<Longrightarrow> br_to_caller st1 = br_to_caller st @ new \<Longrightarrow> media_of new = [] \<Longrightarrow> silences r ev st st1"
  by (auto simp: silences_def)

lemma caller_silences:
  assumes "st1 = fst (handle_twilio_message env db clock m st)" and "br_cancelled st = Some r"
  shows "silences r ev st st1"
proof -
  have "br_cancelled st1 = Some r \<and> (br_to_caller st1 = br_to_caller st \<or> (\<exists>n. br_to_caller st1 = br_to_caller st @ [Closed n]))"
    using assms by (auto simp: handler_defs split: twilio_message.splits sum.splits if_splits)
  then show ?thesis by (auto intro: silencesI [where new = "[]"] silencesI simp: media_of_def)
qed

lemma start_tool_caller: "start_tool env i n a st = Inr st1 \<Longrightarrow>
    br_to_caller st1 = br_to_caller st \<and> br_cancelled st1 = br_cancelled st \<and> br_conv st1 = br_conv st"
  by (auto simp: start_tool_def Let_def rbind_eq_Inr split: sum.splits if_splits)

lemma provider_silences:
  assumes "st1 = fst (handle_provider_event env ev st)" and "br_cancelled st = Some r" and "ev \<noteq> SpeechStarted"
  shows "silences r (FromProvider ev) st st1"
proof (cases ev)
  case (AudioDelta rid p)
  then show ?thesis using assms
    by (auto simp: handle_provider_event_def Let_def silences_def tell_caller_def count_output_def media_of_def audio_of_others_def
        split: if_splits)
next
  case (ArgumentsDone i n a)
  then show ?thesis using assms
    by (auto simp: handle_provider_event_def arguments_done_def Let_def note_transcript_def tell_caller_def media_of_def
        silences_def split: if_splits sum.splits dest!: start_tool_caller)
qed (use assms in \<open>auto simp: handle_provider_event_def Let_def tell_caller_def send_def note_transcript_def
      flush_ready_tool_results_def media_of_def silences_def split: if_splits prod.splits\<close>)

lemma step_silences:
  assumes "stream_step env st ev st1" and "br_cancelled st = Some r" and "ev \<noteq> FromProvider SpeechStarted"
  shows "silences r ev st st1"
  using assms(1)
proof cases
  case (from_caller db clock m)
  then show ?thesis using caller_silences [OF refl assms(2), where m = m and ev = ev] by (simp add: silences_def)
next
  case (from_provider e)
  then show ?thesis using provider_silences [OF refl assms(2), where ev = e] assms(3) by (auto simp: silences_def)
qed (use assms(2) in \<open>auto simp: silences_def media_of_def queue_tool_result_def send_def flush_ready_tool_results_def\<close>)

lemma run_silences:
  assumes "stream_run env st evs st1" and "br_cancelled st = Some r" and "FromProvider SpeechStarted \<notin> set evs"
  shows "br_cancelled st1 = Some r
    \<and> (\<exists>new. br_to_caller st1 = br_to_caller st @ new \<and> subseq (media_of new) (audio_of_others r evs))"
  using assms
proof (induction rule: stream_run.induct)
  case (run_snoc st evs st1 ev st2)
  then obtain new where new: "br_cancelled st1 = Some r" "br_to_caller st1 = br_to_caller st @ new"
    "subseq (media_of new) (audio_of_others r evs)" by auto
  have "silences r ev st1 st2" using run_snoc step_silences new(1) by auto
  then obtain extra where "br_cancelled st2 = Some r" "br_to_caller st2 = br_to_caller st1 @ extra"
    "subseq (media_of extra) (audio_of_others r [ev])" by (auto simp: silences_def)
  then show ?case using new by (auto intro!: exI [of _ "new @ extra"] list_emb_append_mono)
qed auto

text \<open>
  C20: When the caller interrupts an answer it is cancelled, and until the next interruption no audio
  of it reaches the caller: what is forwarded are payloads of other answers, in their order.
\<close>

theorem interrupted_answer_stays_silent:
  assumes "br_active st" and "br_current st = Some r" and "stream_step env st (FromProvider SpeechStarted) st1"
    and "stream_run env st1 evs st2" and "FromProvider SpeechStarted \<notin> set evs"
  shows "br_to_provider st1 = br_to_provider st @ [CancelResponse]
    \<and> (\<exists>new. br_to_caller st2 = br_to_caller st1 @ new \<and> subseq (media_of new) (audio_of_others r evs))"
proof -
  have "st1 = end_output (handle_provider_event env SpeechStarted st)" using assms(3) by (auto elim: stream_stepE)
  then have "br_cancelled st1 = Some r \<and> br_to_provider st1 = br_to_provider st @ [CancelResponse]"
    using assms(1,2) by (auto simp: handle_provider_event_def Let_def send_def tell_caller_def split: if_splits)
  then show ?thesis using run_silences [OF assms(4)] assms(5) by blast
qed

section \<open>The transcript is what the caller was shown\<close>

definition advisor_text :: "transcript_entry list \<Rightarrow> str" where
  "advisor_text es = concat (map (\<lambda>e. case e of Said r t \<Rightarrow> if r = lit ''advisor'' then t else [] | _ \<Rightarrow> []) es)"

definition user_texts :: "transcript_entry list \<Rightarrow> str list" where
  "user_texts es = concat (map (\<lambda>e. case e of Said r t \<Rightarrow> if r = lit ''user'' then [t] else [] | _ \<Rightarrow> []) es)"

definition calls_of :: "transcript_entry list \<Rightarrow> (str \<times> json) list" where
  "calls_of es = concat (map (\<lambda>e. case e of Called n a \<Rightarrow> [(n, a)] | _ \<Rightarrow> []) es)"

definition shown_text :: "caller_message list \<Rightarrow> str" where
  "shown_text ms = concat (map (\<lambda>m. case m of Transcript t \<Rightarrow> t | _ \<Rightarrow> []) ms)"

definition shown_user :: "caller_message list \<Rightarrow> str list" where
  "shown_user ms = concat (map (\<lambda>m. case m of UserTranscript t \<Rightarrow> [t] | _ \<Rightarrow> []) ms)"

definition shown_calls :: "caller_message list \<Rightarrow> (str \<times> json) list" where
  "shown_calls ms = concat (map (\<lambda>m. case m of ToolCallNote n a \<Rightarrow> [(n, a)] | _ \<Rightarrow> []) ms)"

lemmas view_defs = advisor_text_def user_texts_def calls_of_def shown_text_def shown_user_def shown_calls_def

definition records :: "caller_message list \<Rightarrow> transcript_entry list \<Rightarrow> transcript_entry list \<Rightarrow> bool" where
  "records new es fs \<longleftrightarrow> advisor_text fs = advisor_text es @ shown_text new \<and> user_texts fs = user_texts es @ shown_user new
     \<and> calls_of fs = calls_of es @ shown_calls new"

lemma records_trans: "records new es fs \<Longrightarrow> records extra fs gs \<Longrightarrow> records (new @ extra) es gs"
  by (auto simp: records_def view_defs)

lemma records_same: "shown_text new = [] \<Longrightarrow> shown_user new = [] \<Longrightarrow> shown_calls new = [] \<Longrightarrow> records new es es"
  by (simp add: records_def)

lemma records_entries:
  "records [UserTranscript t] es (es @ [Said (lit ''user'') t])"
  "records [ToolCallNote n a] es (es @ [Called n a])"
  by (auto simp: records_def view_defs)

lemma records_delta: "records [Transcript d] es (acc_transcript (lit ''advisor'') d es)"
proof (cases es rule: rev_cases)
  case (snoc fs e)
  then show ?thesis by (cases e) (auto simp: acc_transcript_def records_def view_defs)
qed (auto simp: acc_transcript_def records_def view_defs)

text \<open>One step on a stream with a transcript, other than a new start.\<close>

definition recorded :: "bridge \<Rightarrow> bridge \<Rightarrow> bool" where
  "recorded st st1 \<longleftrightarrow> (\<forall>acc. br_conv st = Some acc \<longrightarrow> (\<exists>new acc1. br_to_caller st1 = br_to_caller st @ new
     \<and> br_conv st1 = Some acc1 \<and> records new (ac_transcript acc) (ac_transcript acc1)))"

lemma recordedI:
  "(\<And>acc. br_conv st = Some acc \<Longrightarrow> \<exists>acc1. br_conv st1 = Some acc1 \<and> records new (ac_transcript acc) (ac_transcript acc1)) \<Longrightarrow>
     br_to_caller st1 = br_to_caller st @ new \<Longrightarrow> recorded st st1"
  unfolding recorded_def by blast

lemma recorded_same:
  "map_option ac_transcript (br_conv st1) = map_option ac_transcript (br_conv st) \<Longrightarrow> br_to_caller st1 = br_to_caller st @ new \<Longrightarrow>
     shown_text new = [] \<Longrightarrow> shown_user new = [] \<Longrightarrow> shown_calls new = [] \<Longrightarrow> recorded st st1"
  by (rule recordedI [of _ _ new]) (auto simp: records_same map_option_eq_Some dest!: sym [of "map_option _ _"])

lemma caller_recorded:
  assumes "st1 = fst (handle_twilio_message env db clock m st)" and "\<forall>c s. m \<noteq> StreamStart c s"
  shows "recorded st st1"
  using assms by (intro recorded_same [where new = "[]"])
    (auto simp: handle_twilio_message_def send_def count_input_def remove_session_def view_defs option.map_comp comp_def
      split: twilio_message.splits sum.splits if_splits)

lemma arguments_done_shape:
  "\<exists>name args st2. arguments_done env i n a st
       = (case start_tool env i name args st2 of Inl e \<Rightarrow> (st2, Inl e) | Inr st3 \<Rightarrow> (st3, Inr ()))
     \<and> br_conv st2 = map_option (\<lambda>acc. acc\<lparr> ac_transcript := ac_transcript acc @ [Called name args] \<rparr>) (br_conv st)
     \<and> br_to_caller st2 = br_to_caller st @ [ToolCallNote name args]"
  unfolding arguments_done_def Let_def
  by (intro exI conjI, rule refl) (simp_all add: note_transcript_def tell_caller_def)

lemma provider_recorded:
  assumes "st1 = fst (handle_provider_event env ev st)"
  shows "recorded st st1"
proof (cases ev)
  case (TranscriptDelta d)
  show ?thesis
  proof (cases "d = []")
    case True
    then show ?thesis using assms TranscriptDelta
      by (intro recorded_same [where new = "[Transcript d]"]) (auto simp: handle_provider_event_def tell_caller_def view_defs)
  next
    case False
    then show ?thesis using assms TranscriptDelta
      by (intro recordedI [where new = "[Transcript d]"]) (auto simp: handle_provider_event_def tell_caller_def note_transcript_def records_delta)
  qed
next
  case (UserSaid t)
  show ?thesis
  proof (cases "t = []")
    case True
    then show ?thesis using assms UserSaid
      by (intro recorded_same [where new = "[]"]) (auto simp: handle_provider_event_def view_defs)
  next
    case False
    then show ?thesis using assms UserSaid
      by (intro recordedI [where new = "[UserTranscript t]"])
        (auto simp: handle_provider_event_def tell_caller_def note_transcript_def records_entries)
  qed
next
  case (ArgumentsDone i n a)
  show ?thesis
  proof (cases "i = []")
    case True
    then show ?thesis using assms ArgumentsDone
      by (intro recorded_same [where new = "[]"]) (auto simp: handle_provider_event_def view_defs)
  next
    case False
    obtain name args st2 where s: "arguments_done env i n a st
        = (case start_tool env i name args st2 of Inl e \<Rightarrow> (st2, Inl e) | Inr st3 \<Rightarrow> (st3, Inr ()))"
      "br_conv st2 = map_option (\<lambda>acc. acc\<lparr> ac_transcript := ac_transcript acc @ [Called name args] \<rparr>) (br_conv st)"
      "br_to_caller st2 = br_to_caller st @ [ToolCallNote name args]"
      using arguments_done_shape by blast
    have "st1 = fst (arguments_done env i n a st)" using assms ArgumentsDone False by (simp add: handle_provider_event_def)
    then have "br_to_caller st1 = br_to_caller st2 \<and> br_conv st1 = br_conv st2"
      using start_tool_caller by (cases "start_tool env i name args st2") (auto simp: s(1))
    then show ?thesis using s
      by (intro recordedI [where new = "[ToolCallNote name args]"]) (auto simp: records_entries)
  qed
next
  case (AudioDelta rid p)
  have "map_option ac_transcript (br_conv st1) = map_option ac_transcript (br_conv st)
      \<and> (br_to_caller st1 = br_to_caller st \<or> (\<exists>s. br_to_caller st1 = br_to_caller st @ [Media s p]))"
    using assms AudioDelta
    by (auto simp: handle_provider_event_def Let_def tell_caller_def count_output_def option.map_comp comp_def split: if_splits)
  then show ?thesis by (auto intro: recorded_same [where new = "[]"] recorded_same simp: view_defs)
next
  case SpeechStarted
  have "br_conv st1 = br_conv st \<and> (br_to_caller st1 = br_to_caller st \<or> (\<exists>s. br_to_caller st1 = br_to_caller st @ [ClearAudio s]))"
    using assms SpeechStarted by (auto simp: handle_provider_event_def Let_def tell_caller_def send_def split: if_splits)
  then show ?thesis by (auto intro: recorded_same [where new = "[]"] recorded_same simp: view_defs)
next
  case ResponseDone
  have "br_conv st1 = br_conv st \<and> (br_to_caller st1 = br_to_caller st \<or> br_to_caller st1 = br_to_caller st @ [EndStream, Closed 1000])"
    using assms ResponseDone
    by (auto simp: handle_provider_event_def Let_def tell_caller_def send_def flush_ready_tool_results_def split: if_splits)
  then show ?thesis by (auto intro: recorded_same [where new = "[]"] recorded_same simp: view_defs)
qed (use assms in \<open>auto simp: handle_provider_event_def Let_def view_defs split: if_splits prod.splits intro!: recorded_same [where new = "[]"]\<close>)

definition starts :: "stream_event \<Rightarrow> bool" where
  "starts ev \<longleftrightarrow> (case ev of FromCaller db clock (StreamStart c s) \<Rightarrow> True | _ \<Rightarrow> False)"

lemma step_recorded:
  assumes "stream_step env st ev st1" and "\<not> starts ev"
  shows "recorded st st1"
  using assms(1)
proof cases
  case (from_caller db clock m)
  then have "\<forall>c s. m \<noteq> StreamStart c s" using assms(2) by (auto simp: starts_def)
  then show ?thesis using caller_recorded [OF refl, where m = m] by (simp add: from_caller recorded_def)
next
  case (from_provider e)
  then show ?thesis using provider_recorded [OF refl, where ev = e] by (simp add: recorded_def)
qed (auto simp: queue_tool_result_def send_def flush_ready_tool_results_def view_defs intro!: recorded_same [where new = "[]"])

lemma run_recorded:
  assumes "stream_run env st evs st1" and "\<not> list_ex starts evs"
  shows "recorded st st1"
  using assms
proof (induction rule: stream_run.induct)
  case (run_nil st)
  then show ?case by (intro recorded_same [where new = "[]"]) (auto simp: view_defs)
next
  case (run_snoc st evs st1 ev st2)
  then have "recorded st st1" "recorded st1 st2" using step_recorded by auto
  then show ?case unfolding recorded_def by (metis append_assoc records_trans)
qed

text \<open>
  C21: From the start of a stream on, its transcript is exactly what the caller was shown: the texts
  of the advisor put together, the caller's own utterances and the tool calls, each in order.
\<close>

theorem transcript_is_what_was_shown:
  assumes "stream_run env st evs st1" and "br_conv st = Some acc" and "ac_transcript acc = []" and "\<not> list_ex starts evs"
  shows "\<exists>new acc1. br_to_caller st1 = br_to_caller st @ new \<and> br_conv st1 = Some acc1
    \<and> advisor_text (ac_transcript acc1) = shown_text new \<and> user_texts (ac_transcript acc1) = shown_user new
    \<and> calls_of (ac_transcript acc1) = shown_calls new"
  using run_recorded [OF assms(1,4)] assms(2,3) by (auto simp: recorded_def records_def view_defs)

section \<open>A run with one tool\<close>

text \<open>A call of \<^verbatim>\<open>record_answer\<close> on a fresh stream starts its task whatever the environment.\<close>

definition answer_task :: tool_task where
  "answer_task = \<lparr> tt_call_id = lit ''call-1'', tt_entry = record_answer_entry record_answer, tt_args = JObj [],
     tt_config = with_runtime [] [] \<rparr>"

definition answer_call :: provider_event where
  "answer_call = ArgumentsDone (lit ''call-1'') (lit ''record_answer'') []"

definition answering :: bridge where
  "answering = (empty_bridge [])\<lparr> br_to_caller := [ToolCallNote (lit ''record_answer'') (JObj [])], br_tasks := [answer_task] \<rparr>"

lemma record_answer_found: "get_tool (voice_tool_registry env) (lit ''record_answer'') = Inr (record_answer_entry record_answer)"
  by (simp add: get_tool_def voice_tool_registry_def find_row_Cons assess_employer_readiness_entry_def end_conversation_entry_def
      prepare_meeting_context_entry_def record_answer_entry_def)

lemma no_arguments: "args_or_empty [123, 125] = JObj []"
  by code_simp

lemma answer_call_starts: "handle_provider_event env answer_call (empty_bridge []) = (answering, Inr ())"
  by (simp add: handle_provider_event_def answer_call_def arguments_done_def Let_def start_tool_def get_session_def
      empty_bridge_def note_transcript_def tell_caller_def session_registry_def record_answer_found no_arguments
      voice_tool_terminal_def record_answer_entry_def session_config_def str_or_def answering_def answer_task_def)

lemma answer_fails: "run_tool_call answer_task = TOOL_FAILED"
  by (simp add: run_tool_call_def answer_task_def execute_json_def record_answer_entry_def record_answer_def model_fields_def
      string_field_def validation_error_def)

definition answered :: bridge where
  "answered = queue_tool_result (lit ''call-1'', TOOL_FAILED) (answering\<lparr> br_tasks := [] \<rparr>)"

lemma answer_run:
  "stream_run env (empty_bridge []) [FromProvider answer_call, ToolDone (lit ''call-1'', TOOL_FAILED)] answered"
proof -
  have "stream_step env (empty_bridge []) (FromProvider answer_call) answering"
    using stream_step.from_provider [where st = "empty_bridge []" and ev = answer_call]
    by (simp add: answer_call_starts end_output_def) (simp add: empty_bridge_def)
  then have "stream_run env (empty_bridge []) ([] @ [FromProvider answer_call]) answering"
    by (rule run_snoc [OF run_nil])
  moreover have "stream_step env answering (ToolDone (lit ''call-1'', TOOL_FAILED))
      (queue_tool_result (lit ''call-1'', TOOL_FAILED) (answering\<lparr> br_tasks := [] @ [] \<rparr>))"
    by (rule stream_step.tool_done [of _ "[]" answer_task "[]"])
       (simp add: answering_def, simp only: answer_fails, simp add: answer_task_def)
  then have "stream_step env answering (ToolDone (lit ''call-1'', TOOL_FAILED)) answered"
    by (simp add: answered_def)
  ultimately show ?thesis using run_snoc by fastforce
qed

text \<open>
  The decision to send a result is made under the lock, the sending is not: an answer of the
  provider may have begun when the result goes out.
\<close>

theorem result_can_interrupt_an_answer:
  "\<exists>evs st st1 r. stream_run env (empty_bridge []) evs st \<and> br_active st \<and> stream_step env st (ResultSent r) st1"
proof -
  let ?evs = "[FromProvider answer_call, ToolDone (lit ''call-1'', TOOL_FAILED)]"
  let ?st = "answered\<lparr> br_active := True \<rparr>"
  have o: "br_outgoing ?st = [] @ (lit ''call-1'', TOOL_FAILED) # []"
    by (simp add: answered_def queue_tool_result_def answering_def empty_bridge_def)
  have h: "handle_provider_event env (ResponseCreated None) answered = (?st, Inr ())"
    by (simp add: handle_provider_event_def truthy_def)
  have "\<not> br_output_done answered" by (simp add: answered_def queue_tool_result_def answering_def empty_bridge_def)
  then have "stream_step env answered (FromProvider (ResponseCreated None)) (end_output (?st, Inr ()))"
    unfolding h [symmetric] by (rule stream_step.from_provider)
  then have "stream_step env answered (FromProvider (ResponseCreated None)) ?st" by (simp add: end_output_def)
  then have "stream_run env (empty_bridge []) (?evs @ [FromProvider (ResponseCreated None)]) ?st"
    by (rule run_snoc [OF answer_run])
  moreover have "br_active ?st" by simp
  ultimately show ?thesis using stream_step.result_sent [OF o, of env] by blast
qed

definition demo_voice_settings :: voice_settings where
  "demo_voice_settings = \<lparr> vt_voice_provider = lit ''xai'', vt_openai_api_key = None, vt_xai_api_key = Some (lit ''key'') \<rparr>"

definition demo_stream :: stream_env where
  "demo_stream = \<lparr> se_voice = no_voice_env, se_settings = demo_voice_settings,
     se_client = XaiVoiceClient (lit ''key'') (lit ''model''), se_schema = (\<lambda>n. JObj []), se_persona_id = None \<rparr>"

theorem results_are_sent_once_witness:
  "mset (sent_results (br_to_provider answered)) + mset (br_ready answered) + mset (br_outgoing answered)
     = {#(lit ''call-1'', TOOL_FAILED)#}"
  using results_are_sent_once [OF answer_run [of demo_stream]] by (simp add: finished_def)

definition interrupted :: bridge where
  "interrupted = (empty_bridge [])\<lparr> br_active := True, br_current := Some (lit ''r1''), br_stream_sid := Some (lit ''s'') \<rparr>"

theorem interrupted_answer_stays_silent_witness:
  "\<exists>st1 st2 new. stream_step demo_stream interrupted (FromProvider SpeechStarted) st1
    \<and> stream_run demo_stream st1 [FromProvider (AudioDelta (Some (lit ''r1'')) (lit ''AAAA''))] st2
    \<and> br_to_caller st2 = br_to_caller st1 @ new \<and> subseq (media_of new) []"
proof -
  let ?ev = "FromProvider (AudioDelta (Some (lit ''r1'')) (lit ''AAAA''))"
  define st1 where "st1 = end_output (handle_provider_event demo_stream SpeechStarted interrupted)"
  have s1: "stream_step demo_stream interrupted (FromProvider SpeechStarted) st1"
    unfolding st1_def by (rule stream_step.from_provider) (simp add: interrupted_def empty_bridge_def)
  define st2 where "st2 = end_output (handle_provider_event demo_stream (AudioDelta (Some (lit ''r1'')) (lit ''AAAA'')) st1)"
  have "\<not> br_output_done st1"
    by (simp add: st1_def end_output_def handle_provider_event_def Let_def interrupted_def empty_bridge_def send_def tell_caller_def)
  then have "stream_step demo_stream st1 ?ev st2" unfolding st2_def by (rule stream_step.from_provider)
  then have run: "stream_run demo_stream st1 ([] @ [?ev]) st2" by (rule run_snoc [OF run_nil])
  have "\<exists>new. br_to_caller st2 = br_to_caller st1 @ new \<and> subseq (media_of new) (audio_of_others (lit ''r1'') ([] @ [?ev]))"
    using interrupted_answer_stays_silent [OF _ _ s1 run] by (simp add: interrupted_def)
  then show ?thesis using s1 run by (auto simp: audio_of_others_def)
qed

definition demo_acc :: accumulator where
  "demo_acc = \<lparr> ac_started_at = 0, ac_provider = lit ''xai'', ac_voice = lit ''eve'',
     ac_transcript = [], ac_input_bytes = 0, ac_output_bytes = 0 \<rparr>"

definition speaking :: bridge where
  "speaking = (empty_bridge [])\<lparr> br_conv := Some demo_acc \<rparr>"

theorem transcript_is_what_was_shown_witness:
  "\<exists>st1 new acc1. stream_run demo_stream speaking [FromProvider (TranscriptDelta (lit ''Hi''))] st1
    \<and> br_to_caller st1 = br_to_caller speaking @ new \<and> br_conv st1 = Some acc1
    \<and> advisor_text (ac_transcript acc1) = shown_text new"
proof -
  define st1 where "st1 = end_output (handle_provider_event demo_stream (TranscriptDelta (lit ''Hi'')) speaking)"
  have "stream_step demo_stream speaking (FromProvider (TranscriptDelta (lit ''Hi''))) st1"
    unfolding st1_def by (rule stream_step.from_provider) (simp add: speaking_def empty_bridge_def)
  then have run: "stream_run demo_stream speaking ([] @ [FromProvider (TranscriptDelta (lit ''Hi''))]) st1"
    by (rule run_snoc [OF run_nil])
  have "\<exists>new acc1. br_to_caller st1 = br_to_caller speaking @ new \<and> br_conv st1 = Some acc1
    \<and> advisor_text (ac_transcript acc1) = shown_text new \<and> user_texts (ac_transcript acc1) = shown_user new
    \<and> calls_of (ac_transcript acc1) = shown_calls new"
    by (rule transcript_is_what_was_shown [OF run, of demo_acc]) (simp_all add: speaking_def demo_acc_def starts_def)
  then show ?thesis using run by auto
qed

section \<open>Transfers belong to a session\<close>

lemma transfer_without_settings:
  "warm_transfer_call (env\<lparr> ve_transfer := ask \<rparr>) n (with_runtime sid []) = warm_transfer_call env n (with_runtime sid [])
    \<and> (\<forall>r. warm_transfer_call env n (with_runtime sid []) = Inr r \<longrightarrow> (\<exists>s t. r = transfer_output (lit ''failed'') s n t))"
proof -
  have cfg: "with_runtime sid [] = [(lit ''_runtime'', JObj [(lit ''session_id'', JStr sid)])]"
    by (simp add: with_runtime_def dict_or_empty_def)
  have same: "load_warm_transfer_config (env\<lparr> ve_transfer := ask \<rparr>) (with_runtime sid []) = load_warm_transfer_config env (with_runtime sid [])"
    unfolding cfg by (simp add: load_warm_transfer_config_def Let_def dict_get_def dict_or_empty_def)
  show ?thesis
  proof (cases "load_warm_transfer_config env (with_runtime sid [])")
    case (Inl e)
    then show ?thesis using same by (simp add: warm_transfer_call_def)
  next
    case (Inr c)
    then have "wt_gateway_base_url c = []" unfolding cfg
      by (auto simp: load_warm_transfer_config_def Let_def rbind_eq_Inr dict_get_def dict_or_empty_def py_str_def)
    then have "missing_keys c \<noteq> []" by (simp add: missing_keys_def)
    then show ?thesis using same Inr by (auto simp: warm_transfer_call_def)
  qed
qed

text \<open>
  C22: A transfer task that a call starts either runs a tool the session of the call enabled, or has
  no settings: then the gateway is not asked, whatever it would answer, and no transfer starts.
\<close>

theorem transfers_need_a_session:
  assumes "start_tool env call_id name args st = Inr st1" and "br_tasks st1 = br_tasks st @ [t]"
  shows "(\<exists>s. get_session (str_or (br_call_sid st) []) st = Some s \<and> tt_entry t \<in> set (vn_tool_registry s))
    \<or> (\<forall>ask n. warm_transfer_call ((se_voice env)\<lparr> ve_transfer := ask \<rparr>) n (tt_config t) = warm_transfer_call (se_voice env) n (tt_config t)
        \<and> (\<forall>r. warm_transfer_call (se_voice env) n (tt_config t) = Inr r \<longrightarrow> (\<exists>s w. r = transfer_output (lit ''failed'') s n w)))"
proof (cases "get_session (str_or (br_call_sid st) []) st")
  case None
  then have "tt_config t = with_runtime (str_or (br_call_sid st) []) []"
    using assms by (auto simp: start_tool_def Let_def session_config_def split: sum.splits if_splits)
  then show ?thesis using transfer_without_settings by metis
next
  case (Some s)
  then have "tt_entry t \<in> set (vn_tool_registry s)"
    using assms by (auto simp: start_tool_def Let_def rbind_eq_Inr session_registry_def split: sum.splits if_splits
        dest!: get_tool_Inr [of "vn_tool_registry s"])
  then show ?thesis using Some by blast
qed

lemma answer_task_starts:
  "start_tool demo_stream (lit ''call-1'') (lit ''record_answer'') (JObj []) (empty_bridge []) = Inr ((empty_bridge [])\<lparr> br_tasks := [answer_task] \<rparr>)"
  by (simp add: start_tool_def Let_def get_session_def empty_bridge_def session_registry_def record_answer_found
      voice_tool_terminal_def record_answer_entry_def session_config_def str_or_def answer_task_def)

theorem transfers_need_a_session_witness:
  "warm_transfer_call (no_voice_env\<lparr> ve_transfer := (\<lambda>u p t. Inl (OSError [])) \<rparr>) (lit ''+12'') (tt_config answer_task)
     = warm_transfer_call no_voice_env (lit ''+12'') (tt_config answer_task)"
  using transfers_need_a_session [OF answer_task_starts, of answer_task]
  by (simp add: empty_bridge_def get_session_def demo_stream_def)

section \<open>Opening without a token\<close>

text \<open>
  A token that does not verify closes the stream; without one the stream opens, whatever the
  settings that tokens and webhook signatures are checked with.
\<close>

theorem stream_opens_without_a_token:
  assumes "verify_access_token rt t security clock = Inl (HTTPException code detail)"
    and "get_voice_client settings (Option.bind (config_of VOICE_EXPERIENCE db) vc_voice_provider) = Inr client"
  shows "open_stream rt security settings clock (Some t) db = Inr (Inl 4001)
    \<and> (\<forall>other. open_stream rt other settings clock None db = Inr (Inr client))"
  using assms by (simp add: open_stream_def)

theorem stream_opens_without_a_token_witness:
  "open_stream no_runtime demo_settings demo_voice_settings 0 None empty_voice_db
     = Inr (Inr (XaiVoiceClient (lit ''key'') (lit ''grok-voice-think-fast-1.0'')))"
proof -
  have "verify_access_token no_runtime (lit ''x'') demo_settings 0 = Inl (HTTPException 401 (lit ''Invalid access token.''))"
    by (simp add: verify_access_token_def lit_def invalid_token_def)
  moreover have "lower (lit ''xai'') = lit ''xai''" by code_simp
  then have "get_voice_client demo_voice_settings (Option.bind (config_of VOICE_EXPERIENCE empty_voice_db) vc_voice_provider)
     = Inr (XaiVoiceClient (lit ''key'') (lit ''grok-voice-think-fast-1.0''))"
    by (simp add: config_of_def empty_voice_db_def find_row_Nil get_voice_client_def Let_def str_or_def demo_voice_settings_def
        PROVIDER_MODELS_def truthy_def)
  ultimately show ?thesis using stream_opens_without_a_token by blast
qed

section \<open>A finished call is read back\<close>

lemma all_dicts_entries: "\<exists>ds. all_dicts (map entry_json es) = Some ds \<and> map JObj ds = map entry_json es"
proof (induction es)
  case (Cons e es)
  then show ?case by (cases e) auto
qed simp

lemma find_new_row: "\<forall>x \<in> set t. key x \<noteq> k \<Longrightarrow> key r = k \<Longrightarrow> find_row key k (t @ [r]) = Some r"
  by (induction t) (auto simp: row_simps)

lemma closed_call:
  assumes "br_call_sid st = Some sid" and "sid \<noteq> []" and "br_conv st = Some acc"
    and "json_ok (JArr (map entry_json (ac_transcript acc)))" and "voice_ok db" and "voice_access claims = Inr claims"
    and "close_stream round_to ended_at st db = (sessions, db1)"
  shows "if sid \<in> vr_call_sid ` set (vb_records db) then db1 = db
    else \<exists>s ds. get_conversation_detail claims (vb_next_record db) db1 = Inr (s, ds)
      \<and> sm_entry_count s = length (ac_transcript acc) \<and> map JObj ds = map entry_json (ac_transcript acc)"
proof -
  let ?r = "(stream_record round_to ended_at sid acc)\<lparr> vr_id := vb_next_record db \<rparr>"
  have sid: "vr_call_sid ?r = sid" by (simp add: stream_record_def Let_def)
  have dis: "distinct (map vr_call_sid (vb_records db))" "\<forall>x \<in> set (vb_records db). vr_id x \<noteq> vb_next_record db"
    using assms(5) by (auto simp: voice_ok_def records_ok_def)
  have db1: "db1 = (case add_record (stream_record round_to ended_at sid acc) db of Inl _ \<Rightarrow> db | Inr d \<Rightarrow> d)"
    using assms(1-3,7) by (auto simp: close_stream_def truthy_def)
  show ?thesis
  proof (cases "sid \<in> vr_call_sid ` set (vb_records db)")
    case True
    then have "\<not> distinct (map vr_call_sid (vb_records db @ [?r]))" using sid by auto
    then show ?thesis using True db1 by (simp add: add_record_def commit_voice_records_def)
  next
    case False
    then have "distinct (map vr_call_sid (vb_records db @ [?r]))" using sid dis(1) by auto
    then have "vb_records db1 = vb_records db @ [?r]" using db1 by (simp add: add_record_def commit_voice_records_def)
    then have f: "find_row vr_id (vb_next_record db) (vb_records db1) = Some ?r" using find_new_row [OF dis(2)] by simp
    have "vr_transcript ?r = dumps Spaced (JArr (map entry_json (ac_transcript acc)))" by (simp add: stream_record_def Let_def)
    then have "transcript_of ?r = JArr (map entry_json (ac_transcript acc))"
      using assms(4) by (simp add: transcript_of_def loads_dumps del: dumps.simps json_ok.simps)
    moreover obtain ds where "all_dicts (map entry_json (ac_transcript acc)) = Some ds" "map JObj ds = map entry_json (ac_transcript acc)"
      using all_dicts_entries by blast
    moreover have "vr_experience_id ?r = VOICE_EXPERIENCE" by (simp add: stream_record_def Let_def)
    ultimately have "get_conversation_detail claims (vb_next_record db) db1
        = Inr (\<lparr> sm_record = ?r, sm_entry_count = length (ac_transcript acc) \<rparr>, ds)"
      using f assms(6) by (simp add: get_conversation_detail_def serialize_history_detail_def serialize_history_summary_def json_len_def)
    then show ?thesis using False \<open>map JObj ds = map entry_json (ac_transcript acc)\<close> by auto
  qed
qed

text \<open>
  C23: When a stream closes, its call is stored and read back by every caller of the demo with the
  transcript entry for entry; a second stream under the same call id is not stored at all.
\<close>

theorem closed_call_is_read_back:
  assumes "br_call_sid st = Some sid" and "sid \<noteq> []" and "br_conv st = Some acc"
    and "json_ok (JArr (map entry_json (ac_transcript acc)))" and "voice_ok db" and "voice_access claims = Inr claims"
    and "close_stream round_to ended_at st db = (sessions, db1)"
  shows "if sid \<in> vr_call_sid ` set (vb_records db) then db1 = db
    else \<exists>s ds. get_conversation_detail claims (vb_next_record db) db1 = Inr (s, ds)
      \<and> sm_entry_count s = length (ac_transcript acc) \<and> map JObj ds = map entry_json (ac_transcript acc)"
  using assms by (rule closed_call)

definition voice_caller :: access_token_claims where
  "voice_caller = \<lparr> token_id = lit ''t'', invitation_code_id = 1, claim_code = lit ''c'', claim_experience_id = VOICE_DEMO,
     issued_at = 0, expires_at = 1 \<rparr>"

theorem closed_call_is_read_back_witness:
  "\<exists>s ds. get_conversation_detail voice_caller 1
       (snd (close_stream (\<lambda>n x. x) 5 (speaking\<lparr> br_call_sid := Some (lit ''CA1'') \<rparr>) empty_voice_db)) = Inr (s, ds)
     \<and> sm_entry_count s = 0"
proof -
  let ?st = "speaking\<lparr> br_call_sid := Some (lit ''CA1'') \<rparr>"
  let ?c = "close_stream (\<lambda>n x. x) 5 ?st empty_voice_db"
  have "if lit ''CA1'' \<in> vr_call_sid ` set (vb_records empty_voice_db) then snd ?c = empty_voice_db
    else \<exists>s ds. get_conversation_detail voice_caller (vb_next_record empty_voice_db) (snd ?c) = Inr (s, ds)
      \<and> sm_entry_count s = length (ac_transcript demo_acc) \<and> map JObj ds = map entry_json (ac_transcript demo_acc)"
    by (rule closed_call_is_read_back [of ?st "lit ''CA1''" demo_acc empty_voice_db voice_caller "\<lambda>n x. x" 5 "fst ?c"])
      (simp_all add: speaking_def demo_acc_def voice_ok_empty voice_access_def require_experience_access_def voice_caller_def)
  then show ?thesis by (auto simp: empty_voice_db_def demo_acc_def)
qed

end
