(* ===== verification/Spec2Isabelle.thy ===== *)
theory Spec2Isabelle
  imports Run_Ingestion Invite_System Run_Routes Context_Routes Job_Shipped Rag_Properties Voice_Properties
begin

text \<open>
  Verification of the demo backend (\<^verbatim>\<open>app/\<close>): a FastAPI service in front of three invite-only
  demos. This library models its Python code, translated definition by definition, and
  proves what makes it correct.

  The program. A visitor asks for access; an operator, or the automatic fulfilment, issues
  an invitation code; redeeming it gives a signed token for one of the demos. The
  messy-notes demo keeps runs: a draft takes pasted text and uploads, a submission executes
  a configured workflow of agents and deterministic tools which writes a brief and an event
  trail, an audit reads the trail, one follow-up question about the brief is answered, and
  a text message may announce the result and be answered.

  Theories, in the order the code builds on them.

  \<^bold>\<open>Prelude, Utf8, Json, Base64, Sha256, Digits\<close>: what the code uses of Python. A \<^verbatim>\<open>str\<close> is the list
  of its code points, bytes are numbers below 256, an exception is the left side of a
  result. Tables are lists of rows. The codecs are executable and proved to read back what
  they write (locale \<open>codec\<close>); SHA-256 and the HMAC are the standard's, on 32-bit words. The
  locales \<open>preserved\<close> and \<open>preserved_under\<close> carry every invariant from a step to the reachable
  states.

  \<^bold>\<open>Run_Ingestion\<close>: \<^verbatim>\<open>app/services/run_ingestion.py\<close>, pasted text and uploads under their byte
  budgets.

  \<^bold>\<open>Security, Access, Invitations_Admin, Fulfillment, Invite_System\<close>: the tokens and guards of
  \<^verbatim>\<open>app/core/security.py\<close>, the tables and endpoints of invitations (\<^verbatim>\<open>app/models/invitation.py\<close>,
  \<^verbatim>\<open>app/api/routes/access.py\<close>, \<^verbatim>\<open>app/api/routes/invitations_admin.py\<close>), the fulfilment with its
  e-mail (\<^verbatim>\<open>app/services/invite_fulfillment.py\<close>, \<^verbatim>\<open>app/services/email.py\<close>), and all of it as
  one transition system, \<open>invite_step\<close>, over the database and the requests in progress: a
  redemption is a load and a commit, a fulfilment its three commits, and anything may come
  between them. The invariant \<open>invite_state_ok\<close> holds under every interleaving; that a use count
  is the number of redemptions holds in \<open>calm\<close> runs, where no two redemptions of one code
  overlap, and a race is shown to break it.

  \<^bold>\<open>Runs, Follow_Up, Sms\<close>: the run and event tables with their services (\<^verbatim>\<open>app/services/runs.py\<close>,
  \<^verbatim>\<open>run_events.py\<close>, \<^verbatim>\<open>sample_chaos.py\<close>), the follow-up (\<^verbatim>\<open>follow_up.py\<close>), and text messages
  with the signed webhook (\<^verbatim>\<open>notifications.py\<close>, \<^verbatim>\<open>twilio.py\<close>, \<^verbatim>\<open>sms_ai.py\<close>,
  \<^verbatim>\<open>app/api/routes/webhooks.py\<close>).

  \<^bold>\<open>Workflow_Config, Workflow_Tools, Workflow_Exec\<close>: the configuration models, the tool registry and
  the loader (\<^verbatim>\<open>app/workflows/config_models.py\<close>, \<^verbatim>\<open>loader.py\<close>, \<^verbatim>\<open>app/services/tool_registry.py\<close>,
  \<^verbatim>\<open>model_factory.py\<close>), the deterministic tools (\<^verbatim>\<open>app/workflows/tools.py\<close>) and the executor
  (\<^verbatim>\<open>app/services/workflow_executor.py\<close>). An execution is a state transformer over the loaded
  run and the tables whose result is an error or a value; what was committed before an
  error stays.

  \<^bold>\<open>Workflow_Steps, Workflow_Run, Workflow_Shipped\<close>: what the steps of an execution may change
  (locale \<open>run_frame\<close>, one interpretation for each set of columns), that every execution
  settles, that the audit is exact, and that the shipped configuration loads and its
  pipeline completes (locale \<open>ready_workflow\<close>, interpreted on the shipped registry).

  \<^bold>\<open>Run_System, Run_Routes\<close>: the requests on runs as a step relation with its invariant, what a
  completed run keeps, isolation of the invitation codes, and the routes of
  \<^verbatim>\<open>app/api/routes/runs.py\<close> as a refinement of the steps.

  \<^bold>\<open>Context_Models, Context_Registry, Context_Store, Context_Memory\<close>: the records of the context
  engine and its text chunker (\<^verbatim>\<open>app/core/context_engine/models.py\<close>, \<^verbatim>\<open>chunking.py\<close>), the
  registry of domain packs (\<^verbatim>\<open>registry.py\<close>), the contract both repositories keep (locale
  \<open>context_store\<close>, over the listings of an owner) and the in-memory repository
  (\<^verbatim>\<open>storage.py\<close>, interpretation \<open>memory\<close>).

  \<^bold>\<open>Context_Rows, Context_Sql, Context_Sql_Contract\<close>: the rows of the durable repository, their
  JSON columns and the way back, every operation of \<^verbatim>\<open>sqlalchemy_storage.py\<close>, and its
  interpretation \<open>sql\<close> of the same contract. The contract is over sets: the two repositories list
  in different orders.

  \<^bold>\<open>Context_Service, Context_System, Context_Routes\<close>: ingestion and the cached views of
  \<^verbatim>\<open>app/core/context_engine/service.py\<close> over either repository. For ingestions that are ready
  (\<open>spec_ready_all\<close>: fresh ids, links to known artifacts, no floats in JSON) the two repositories
  give the same answers and list the same records, and the stale flag of a cached view is exact
  after any number of them. And the routes of \<^verbatim>\<open>app/api/routes/context.py\<close>.

  \<^bold>\<open>Context_Flows, Job_Extract, Job_Views\<close>: the model flows of \<^verbatim>\<open>app/core/context_engine/llm.py\<close> (which
  model a step uses, its prompt file, one guarded request); the five rule-based extractors of
  \<^verbatim>\<open>app/domains/job_search/extractors\<close> and \<^verbatim>\<open>models.py\<close> on a small backtracking matcher for their
  regular expressions; its perspectives and tasks (\<^verbatim>\<open>perspectives/builders.py\<close>,
  \<^verbatim>\<open>task_generators/generators.py\<close>).

  \<^bold>\<open>Job_Llm, Job_Adapters, Job_Pack\<close>: \<^verbatim>\<open>app/domains/job_search/llm.py\<close>, the answers of models and how
  they become records, what a prompt shows with its short ids, and the adapters with their
  fallbacks; the packs of \<^verbatim>\<open>register.py\<close> and \<^verbatim>\<open>app/domains/test_domain/domain.py\<close>, the registry and the
  execution context of \<^verbatim>\<open>factory.py\<close>.

  \<^bold>\<open>Job_Properties, Job_Shipped\<close>: the lemmas about these (records stay grounded, a silent model,
  short ids, bounds, citations, located evidence), the shipped manifest and model flows as data,
  and the properties of the domain.

  \<^bold>\<open>Rag_Text, Rag_Embed, Rag_Store\<close>: extraction, content hash, labels and the splitter of
  \<^verbatim>\<open>app/services/rag/extraction.py\<close>, \<^verbatim>\<open>chunking.py\<close> and \<^verbatim>\<open>repository.py\<close>; the embedding loop that
  splits what the provider finds too long; the tables of \<^verbatim>\<open>app/models/rag.py\<close>, the repository
  over them, the search statements, the invariant \<open>docs_ok\<close>, and the contract of a strategy
  (locale \<open>rag_strategy\<close>).

  \<^bold>\<open>Rag_Strategies, Rag_Chat, Rag_Routes\<close>: \<^verbatim>\<open>local_postgres.py\<close> and \<^verbatim>\<open>oracle_native.py\<close> as
  interpretations \<open>postgres\<close> and \<open>oracle_native\<close> of that contract; personas, conversations,
  prompts and turns (\<^verbatim>\<open>app/services/rag/chat.py\<close>, \<^verbatim>\<open>app/api/routes/rag.py\<close>); the document
  routes; and all requests as the step relation \<open>rag_step\<close> over the tables and the turns and
  uploads in progress. A turn is split at its two awaits, an upload at its one, and what other
  requests do comes between; code between awaits is one step of the event loop.

  \<^bold>\<open>Rag_System, Rag_Properties\<close>: what each request leaves alone, the invariants \<open>rag_ok\<close> of the
  tables and \<open>rag_state_ok\<close> of the work in progress in the reachable states (locale \<open>rag_demo\<close>
  extends \<open>rag_strategy\<close>; interpretations \<open>postgres_demo\<close> and \<open>oracle_demo\<close>), the bound on turns
  when at most \<open>k\<close> overlap (\<open>rag_step_within\<close>), and the properties of the demo as a whole.

  \<^bold>\<open>Voice_Audio, Voice_Tools, Voice_Store, Voice_System\<close>: the mu-law codec and the resampling of
  \<^verbatim>\<open>app/services/voice/openai_client.py\<close>; the five tools of \<^verbatim>\<open>app/services/voice/tools.py\<close> with
  their contracts and registry; the tables of \<^verbatim>\<open>app/models/voice.py\<close> with the configuration,
  persona and history routes of \<^verbatim>\<open>app/api/routes/voice.py\<close> and the greeting
  (\<^verbatim>\<open>app/services/voice/greeting.py\<close>); and these requests as the step relation \<open>voice_step\<close> with
  its invariant \<open>voice_ok\<close>.

  \<^bold>\<open>Voice_Client, Voice_Bridge, Voice_Properties\<close>: the clients' messages and events (\<^verbatim>\<open>base_client.py\<close>,
  \<^verbatim>\<open>openai_client.py\<close>, \<^verbatim>\<open>xai_client.py\<close>, \<^verbatim>\<open>factory.py\<close>, \<^verbatim>\<open>cost.py\<close>), one stream between a caller and a
  provider as the step relation \<open>stream_step\<close> over what was sent either way (\<^verbatim>\<open>voice_stream\<close> and the
  tasks it starts, \<^verbatim>\<open>session.py\<close>; a handler that raises keeps what it did and ends its task), and
  what every run of it keeps: tool results, silence after an interruption, the transcript, and
  the stored record.

  Bounds and fuel. All recursion is structural or has a termination proof, except the JSON
  parser, which takes fuel: twice the length of the text and two more. A document read
  recurses at most once for each character in a value and once in a list of members, so
  \<open>loads_dumps\<close> holds without a bound on the size. Integers are Python's, unbounded; the two
  places where the platform bounds them, \<^verbatim>\<open>datetime\<close> and \<^verbatim>\<open>time_t\<close>, raise as Python does. The
  embedding loop replaces a chunk by shorter ones, so the multiset of the lengths of its
  pending texts decreases; the splitter moves its start forward by at least one character.

  Parameters. Each stands for something outside the repository: the PDF reader and the
  text-tools sidecar, the models behind agents, drafts, plans and answers, the HTTP and SMTP
  exchanges, the clocks, uuids and random numbers, the rendering of a float or of the repr
  of a string where the code only passes it on, the extensions a domain pack registers with
  the context engine (in its service; the shipped packs are modelled), the word characters above
  ASCII, pydantic's reading of a context graph, the embedding provider, the vector functions of the two databases
  (distance, \<^verbatim>\<open>VECTOR_CHUNKS\<close>, \<^verbatim>\<open>VECTOR_EMBEDDING\<close>) and the collation they order names by, the realtime
  connection of the voice demo, the gateway that transfers its calls, \<^verbatim>\<open>float()\<close> of a setting and
  \<^verbatim>\<open>round\<close> of a duration. None has a hypothesis but where a property states one. Seconds, dollars and
  the positions between audio samples are rational numbers where the code has floats.

  Not modelled. FastAPI's parsing and response validation, SQLAlchemy's sessions beyond commit
  and refresh of the rows loaded, sends on a connection that fails, fields of a voice message whose
  type is not the one read (they count as missing), a PDF whose reader raises on a single page,
  widths of text columns, the order of identity values after a
  rolled back insert, log lines with the formatting of captured model messages, the pydantic-ai
  wiring of agents, the decoding of YAML and the reading of settings from the environment are
  left out: framework behaviour or plain input and output. The HTTP clients of the embedding
  provider and of the sidecar, the database migrations, which only declare the schema, and the
  Rust services, separate programs, are outside the scope.
\<close>

end
